(* ===== verification/CF_Prelude.thy ===== *)
theory CF_Prelude
  imports Main "HOL-Library.Sublist"
begin

text \<open>
  Shared vocabulary of the development: strings as the TypeScript code handles them, the
  action type in which every stateful operation is written, and the list operations that
  stand for SQL statements. A JavaScript string is modelled as a HOL string whose
  characters are the code units below 256; case folding and trimming follow ECMAScript
  on that range.
\<close>

named_theorems action_simps \<open>how actions compute\<close>
named_theorems sql_simps \<open>how the SQL list operations compute\<close>


section \<open>Actions: state, exceptions, transactions\<close>

text \<open>
  A stateful method is a function of the state that returns either the thrown error or the
  returned value, together with the state after it: a throw does not undo the writes made
  before it, unless they were made inside a database transaction.
\<close>

type_synonym ('s, 'e, 'a) action = "'s \<Rightarrow> ('e + 'a) \<times> 's"

definition ret :: "'a \<Rightarrow> ('s, 'e, 'a) action" where
  "ret x = (\<lambda>s. (Inr x, s))"

definition throw :: "'e \<Rightarrow> ('s, 'e, 'a) action" where
  "throw e = (\<lambda>s. (Inl e, s))"

definition andThen :: "('s, 'e, 'a) action \<Rightarrow> ('a \<Rightarrow> ('s, 'e, 'b) action) \<Rightarrow> ('s, 'e, 'b) action" where
  "andThen m f = (\<lambda>s. case m s of (Inl e, t) \<Rightarrow> (Inl e, t) | (Inr x, t) \<Rightarrow> f x t)"

definition tryCatch :: "('s, 'e, 'a) action \<Rightarrow> ('e \<Rightarrow> ('s, 'e, 'a) action) \<Rightarrow> ('s, 'e, 'a) action" where
  "tryCatch m h = (\<lambda>s. case m s of (Inl e, t) \<Rightarrow> h e t | (Inr x, t) \<Rightarrow> (Inr x, t))"

definition readState :: "('s \<Rightarrow> 'a) \<Rightarrow> ('s, 'e, 'a) action" where
  "readState f = (\<lambda>s. (Inr (f s), s))"

definition modifyState :: "('s \<Rightarrow> 's) \<Rightarrow> ('s, 'e, unit) action" where
  "modifyState f = (\<lambda>s. (Inr (), f s))"

definition throwIf :: "bool \<Rightarrow> 'e \<Rightarrow> ('s, 'e, unit) action" where
  "throwIf b e = (if b then throw e else ret ())"

text \<open>A database transaction: an error rolls every write of its body back.\<close>

definition transaction :: "('s, 'e, 'a) action \<Rightarrow> ('s, 'e, 'a) action" where
  "transaction m = (\<lambda>s. case m s of (Inl e, t) \<Rightarrow> (Inl e, s) | (Inr x, t) \<Rightarrow> (Inr x, t))"

lemma ret_apply [simp, action_simps]: "ret x s = (Inr x, s)"
  by (simp add: ret_def)

lemma throw_apply [simp, action_simps]: "throw e s = (Inl e, s)"
  by (simp add: throw_def)

lemma readState_apply [simp, action_simps]: "readState f s = (Inr (f s), s)"
  by (simp add: readState_def)

lemma modifyState_apply [simp, action_simps]: "modifyState f s = (Inr (), f s)"
  by (simp add: modifyState_def)

lemma throwIf_apply [simp, action_simps]: "throwIf b e s = (if b then Inl e else Inr (), s)"
  by (simp add: throwIf_def)

lemma andThen_Inl [action_simps]: "m s = (Inl e, t) \<Longrightarrow> andThen m f s = (Inl e, t)"
  by (simp add: andThen_def)

lemma andThen_Inr [action_simps]: "m s = (Inr x, t) \<Longrightarrow> andThen m f s = f x t"
  by (simp add: andThen_def)

lemma andThen_simps [simp, action_simps]:
  "andThen (ret x) f s = f x s"
  "andThen (throw e) f s = (Inl e, s)"
  "andThen (readState g) f s = f (g s) s"
  "andThen (modifyState h) k s = k () (h s)"
  by (simp_all add: andThen_def)

lemma andThen_throwIf [simp, action_simps]:
  "andThen (throwIf b e) f s = (if b then (Inl e, s) else f () s)"
  by (simp add: andThen_def)

lemma andThen_assoc: "andThen (andThen m f) g = andThen m (\<lambda>x. andThen (f x) g)"
  by (rule ext) (simp add: andThen_def split: prod.splits sum.splits)

lemma andThen_InrE:
  assumes "andThen m f s = (Inr y, u)"
  obtains x t where "m s = (Inr x, t)" and "f x t = (Inr y, u)"
  using assms by (auto simp: andThen_def split: prod.splits sum.splits)

lemma andThen_InlE:
  assumes "andThen m f s = (Inl e, u)"
  obtains "m s = (Inl e, u)" | x t where "m s = (Inr x, t)" and "f x t = (Inl e, u)"
  using assms by (auto simp: andThen_def split: prod.splits sum.splits)

lemma transaction_Inr: "transaction m s = (Inr x, t) \<longleftrightarrow> m s = (Inr x, t)"
  by (auto simp: transaction_def split: prod.splits sum.splits)

lemma transaction_Inl: "transaction m s = (Inl e, t) \<longleftrightarrow> (\<exists>u. m s = (Inl e, u)) \<and> t = s"
  by (auto simp: transaction_def split: prod.splits sum.splits)

lemma transaction_rollback: "transaction m s = (Inl e, t) \<Longrightarrow> t = s"
  by (simp add: transaction_Inl)


text \<open>
  Fallible pure functions return the thrown error or the value. \<open>collect\<close> is
  \<open>values.map(f)\<close> for an \<open>f\<close> that may throw: the first error is the error of the whole.
\<close>

definition sum_bind :: "'e + 'a \<Rightarrow> ('a \<Rightarrow> 'e + 'b) \<Rightarrow> 'e + 'b" where
  "sum_bind m f = (case m of Inl e \<Rightarrow> Inl e | Inr x \<Rightarrow> f x)"

fun collect :: "('a \<Rightarrow> 'e + 'b) \<Rightarrow> 'a list \<Rightarrow> 'e + 'b list" where
  "collect f [] = Inr []"
| "collect f (x # xs) = sum_bind (f x) (\<lambda>y. sum_bind (collect f xs) (\<lambda>ys. Inr (y # ys)))"

text \<open>Run a pure fallible computation inside an action.\<close>

definition lift_sum :: "'e + 'a \<Rightarrow> ('s, 'e, 'a) action" where
  "lift_sum m = (\<lambda>s. (m, s))"

lemma sum_bind_simps [simp]: "sum_bind (Inl e) f = Inl e" "sum_bind (Inr x) f = f x"
  by (simp_all add: sum_bind_def)

lemma sum_bind_Inr: "sum_bind m f = Inr y \<longleftrightarrow> (\<exists>x. m = Inr x \<and> f x = Inr y)"
  by (cases m) auto

lemma collect_Inr: "collect f xs = Inr ys \<longleftrightarrow> list_all2 (\<lambda>x y. f x = Inr y) xs ys"
  by (induction xs arbitrary: ys) (auto simp: sum_bind_Inr list_all2_Cons1)

lemma collect_Inr_map: "(\<And>x. x \<in> set xs \<Longrightarrow> f x = Inr (g x)) \<Longrightarrow> collect f xs = Inr (map g xs)"
  by (induction xs) auto

lemma lift_sum_apply [simp, action_simps]: "lift_sum m s = (m, s)"
  by (simp add: lift_sum_def)


section \<open>SQL statements on tables\<close>

text \<open>A table is the list of its rows, in insertion order.\<close>

definition sql_update :: "('r \<Rightarrow> bool) \<Rightarrow> ('r \<Rightarrow> 'r) \<Rightarrow> 'r list \<Rightarrow> 'r list" where
  "sql_update P f rows = map (\<lambda>r. if P r then f r else r) rows"

definition sql_returning :: "('r \<Rightarrow> bool) \<Rightarrow> ('r \<Rightarrow> 'r) \<Rightarrow> 'r list \<Rightarrow> 'r list" where
  "sql_returning P f rows = map f (filter P rows)"

definition sql_select :: "('r \<Rightarrow> bool) \<Rightarrow> 'r list \<Rightarrow> 'r list" where
  "sql_select P rows = filter P rows"

definition sql_first :: "('r \<Rightarrow> bool) \<Rightarrow> 'r list \<Rightarrow> 'r option" where
  "sql_first P rows = find P rows"

lemma sql_update_Nil [simp, sql_simps]: "sql_update P f [] = []"
  by (simp add: sql_update_def)

lemma sql_update_Cons [simp, sql_simps]:
  "sql_update P f (r # rows) = (if P r then f r else r) # sql_update P f rows"
  by (simp add: sql_update_def)

lemma sql_first_simps [simp, sql_simps]:
  "sql_first P [] = None"
  "sql_first P (r # rows) = (if P r then Some r else sql_first P rows)"
  by (simp_all add: sql_first_def)

lemma length_sql_update [simp]: "length (sql_update P f rows) = length rows"
  by (simp add: sql_update_def)

lemma map_sql_update: "(\<And>r. P r \<Longrightarrow> g (f r) = g r) \<Longrightarrow> map g (sql_update P f rows) = map g rows"
  by (induction rows) auto

lemma set_sql_update:
  "set (sql_update P f rows) = {f r | r. r \<in> set rows \<and> P r} \<union> {r \<in> set rows. \<not> P r}"
  by (auto simp: sql_update_def)

lemma sql_first_Some: "sql_first P rows = Some r \<Longrightarrow> r \<in> set rows \<and> P r"
  by (auto simp: sql_first_def find_Some_iff)

lemma sql_first_None: "sql_first P rows = None \<longleftrightarrow> (\<forall>r \<in> set rows. \<not> P r)"
  by (auto simp: sql_first_def find_None_iff)

lemma sql_update_noop: "(\<And>r. r \<in> set rows \<Longrightarrow> \<not> P r) \<Longrightarrow> sql_update P f rows = rows"
  by (induction rows) auto

text \<open>A key is unique in a table: the rows' key values are distinct.\<close>

definition unique_key :: "('r \<Rightarrow> 'k) \<Rightarrow> 'r list \<Rightarrow> bool" where
  "unique_key k rows \<longleftrightarrow> distinct (map k rows)"

lemma unique_key_update [intro]:
  "unique_key k rows \<Longrightarrow> (\<And>r. P r \<Longrightarrow> k (f r) = k r) \<Longrightarrow> unique_key k (sql_update P f rows)"
  by (simp add: unique_key_def map_sql_update)

lemma unique_key_append:
  "unique_key k rows \<Longrightarrow> (\<And>r. r \<in> set rows \<Longrightarrow> k r \<noteq> k x) \<Longrightarrow> unique_key k (rows @ [x])"
  by (force simp: unique_key_def)

lemma unique_key_eq:
  "unique_key k rows \<Longrightarrow> a \<in> set rows \<Longrightarrow> b \<in> set rows \<Longrightarrow> k a = k b \<Longrightarrow> a = b"
  unfolding unique_key_def by (meson distinct_map inj_onD)

lemma sql_first_unique:
  "unique_key k rows \<Longrightarrow> r \<in> set rows \<Longrightarrow> sql_first (\<lambda>x. k x = k r) rows = Some r"
proof (induction rows)
  case (Cons a rows)
  then show ?case
    by (cases "k a = k r") (force simp: unique_key_def)+
qed simp

lemma filter_key_unique:
  "unique_key k rows \<Longrightarrow> length (filter (\<lambda>x. k x = v \<and> P x) rows) \<le> 1"
proof (induction rows)
  case (Cons a rows)
  from Cons.prems have u: "unique_key k rows" and n: "k a \<notin> k ` set rows"
    by (auto simp: unique_key_def)
  show ?case
  proof (cases "k a = v")
    case True
    with n have "\<forall>x\<in>set rows. k x \<noteq> v" by (metis image_eqI)
    then have "filter (\<lambda>x. k x = v \<and> P x) rows = []" by (simp add: filter_empty_conv)
    then show ?thesis by simp
  next
    case False
    with Cons.IH [OF u] show ?thesis by simp
  qed
qed simp


section \<open>Strings\<close>

text \<open>Predicates on single code units, read off their numbers.\<close>

abbreviation code_unit :: "char \<Rightarrow> nat" where
  "code_unit c \<equiv> of_char c"

definition is_digit :: "char \<Rightarrow> bool" where
  "is_digit c \<longleftrightarrow> 48 \<le> code_unit c \<and> code_unit c \<le> 57"

definition is_hex_lower :: "char \<Rightarrow> bool" where
  "is_hex_lower c \<longleftrightarrow> is_digit c \<or> (97 \<le> code_unit c \<and> code_unit c \<le> 102)"

definition is_hex_any :: "char \<Rightarrow> bool" where
  "is_hex_any c \<longleftrightarrow> is_hex_lower c \<or> (65 \<le> code_unit c \<and> code_unit c \<le> 70)"

definition is_alnum :: "char \<Rightarrow> bool" where
  "is_alnum c \<longleftrightarrow> is_digit c \<or> (65 \<le> code_unit c \<and> code_unit c \<le> 90) \<or> (97 \<le> code_unit c \<and> code_unit c \<le> 122)"

definition digit_value :: "char \<Rightarrow> nat" where
  "digit_value c = (if code_unit c \<le> 57 then code_unit c - 48
     else if code_unit c \<le> 70 then code_unit c - 55 else code_unit c - 87)"

definition is_js_space :: "char \<Rightarrow> bool" where
  "is_js_space c \<longleftrightarrow> code_unit c \<in> {9, 10, 11, 12, 13, 32, 160}"

definition lower_char :: "char \<Rightarrow> char" where
  "lower_char c = (if (65 \<le> code_unit c \<and> code_unit c \<le> 90)
       \<or> (192 \<le> code_unit c \<and> code_unit c \<le> 222 \<and> code_unit c \<noteq> 215)
     then char_of (code_unit c + 32) else c)"

definition toLowerCase :: "string \<Rightarrow> string" where
  "toLowerCase s = map lower_char s"

definition js_trim :: "string \<Rightarrow> string" where
  "js_trim s = rev (dropWhile is_js_space (rev (dropWhile is_js_space s)))"

text \<open>JavaScript truthiness of an optional string: present and not empty.\<close>

definition truthy :: "string option \<Rightarrow> bool" where
  "truthy x \<longleftrightarrow> (case x of None \<Rightarrow> False | Some s \<Rightarrow> s \<noteq> [])"

text \<open>\<open>x ? String(x) : null\<close>: an empty string is read as absent.\<close>

definition or_null :: "string option \<Rightarrow> string option" where
  "or_null x = (if truthy x then x else None)"

definition js_index :: "'a list \<Rightarrow> int \<Rightarrow> 'a option" where
  "js_index xs i = (if 0 \<le> i \<and> i < int (length xs) then Some (xs ! nat i) else None)"

fun numeral_value :: "nat \<Rightarrow> nat \<Rightarrow> string \<Rightarrow> nat" where
  "numeral_value b acc [] = acc"
| "numeral_value b acc (c # cs) = numeral_value b (b * acc + digit_value c) cs"

text \<open>Decimal and hexadecimal rendering, as \<open>String(n)\<close> and \<open>n.toString(16)\<close> give it.\<close>

definition digit_char :: "nat \<Rightarrow> char" where
  "digit_char d = char_of (if d < 10 then 48 + d else 87 + d)"

fun radix_string :: "nat \<Rightarrow> nat \<Rightarrow> string" where
  "radix_string b n = (if b < 2 \<or> n < b then [digit_char n] else radix_string b (n div b) @ [digit_char (n mod b)])"

declare radix_string.simps [simp del]

definition nat_string :: "nat \<Rightarrow> string" where
  "nat_string n = radix_string 10 n"

definition int_string :: "int \<Rightarrow> string" where
  "int_string i = (if i < 0 then CHR ''-'' # nat_string (nat (- i)) else nat_string (nat i))"

definition hex_string :: "nat \<Rightarrow> string" where
  "hex_string n = radix_string 16 n"

lemma truthy_simps [simp]: "truthy None = False" "truthy (Some s) \<longleftrightarrow> s \<noteq> []"
  by (simp_all add: truthy_def)

lemma or_null_simps [simp]: "or_null None = None" "or_null (Some s) = (if s = [] then None else Some s)"
  by (simp_all add: or_null_def)

lemma or_null_idem [simp]: "or_null (or_null x) = or_null x"
  by (simp add: or_null_def)

lemma or_null_truthy: "truthy x \<Longrightarrow> or_null x = x"
  by (simp add: or_null_def)

lemma truthy_or_null [simp]: "truthy (or_null x) = truthy x"
  by (cases x) auto

lemma truthyE: assumes "truthy x" obtains s where "x = Some s" and "s \<noteq> []"
  using assms by (cases x) auto

lemma js_index_Some: "js_index xs i = Some x \<Longrightarrow> x \<in> set xs"
  by (auto simp: js_index_def split: if_splits)

lemma lower_char_idem [simp]: "lower_char (lower_char c) = lower_char c"
proof -
  have b: "of_char c < (256::nat)" by simp
  show ?thesis
  proof (cases "lower_char c = c")
    case False
    then have u: "(65 \<le> code_unit c \<and> code_unit c \<le> 90)
        \<or> (192 \<le> code_unit c \<and> code_unit c \<le> 222 \<and> code_unit c \<noteq> 215)"
      unfolding lower_char_def by presburger
    then have "code_unit (lower_char c) = code_unit c + 32"
      using b by (auto simp: lower_char_def of_char_of)
    with u show ?thesis
      unfolding lower_char_def [of "lower_char c"] by (auto simp: lower_char_def)
  qed simp
qed

lemma toLowerCase_idem [simp]: "toLowerCase (toLowerCase s) = toLowerCase s"
  by (simp add: toLowerCase_def)

lemma length_toLowerCase [simp]: "length (toLowerCase s) = length s"
  by (simp add: toLowerCase_def)

lemma hex_lower_fixed: "is_hex_lower c \<Longrightarrow> lower_char c = c"
  by (auto simp: is_hex_lower_def is_digit_def lower_char_def)

lemma lower_x [simp]: "lower_char CHR ''x'' = CHR ''x''" "lower_char CHR ''0'' = CHR ''0''"
  by (simp_all add: lower_char_def)

lemma dropWhile_last_trim: "xs \<noteq> [] \<Longrightarrow> \<not> P (last xs) \<Longrightarrow> dropWhile P (rev xs) = rev xs"
  by (cases xs rule: rev_cases) auto

lemma js_trim_idem [simp]: "js_trim (js_trim s) = js_trim s"
proof -
  let ?a = "dropWhile is_js_space s"
  let ?t = "js_trim s"
  have t: "?t = rev (dropWhile is_js_space (rev ?a))" by (simp add: js_trim_def)
  have e: "dropWhile is_js_space (rev ?t) = rev ?t"
    unfolding t by (simp add: dropWhile_idem)
  have d: "dropWhile is_js_space ?t = ?t"
  proof (cases ?t)
    case (Cons c cs)
    obtain k where "?a = ?t @ k"
    proof -
      have "suffix (dropWhile is_js_space (rev ?a)) (rev ?a)" by (rule suffix_dropWhile)
      then obtain k where "rev ?a = k @ dropWhile is_js_space (rev ?a)" by (auto simp: suffix_def)
      then have "?a = ?t @ rev k" unfolding t by (metis rev_append rev_rev_ident)
      then show thesis by (rule that)
    qed
    with Cons have "?a = c # cs @ k" by simp
    then have "\<not> is_js_space c" by (metis dropWhile_eq_Cons_conv)
    with Cons show ?thesis by simp
  qed simp
  show ?thesis unfolding js_trim_def [of "js_trim s"] d e by simp
qed


section \<open>Hexadecimal numerals\<close>

lemma numeral_value_append:
  "numeral_value b acc (xs @ ys) = numeral_value b (numeral_value b acc xs) ys"
  by (induction xs arbitrary: acc) auto

lemma of_digit_char: "d < 16 \<Longrightarrow> code_unit (digit_char d) = (if d < 10 then 48 + d else 87 + d)"
  by (simp add: digit_char_def of_char_of)

lemma digit_value_char [simp]: "d < 16 \<Longrightarrow> digit_value (digit_char d) = d"
  by (simp add: digit_value_def of_digit_char)

lemma is_hex_digit_char: "d < 16 \<Longrightarrow> is_hex_lower (digit_char d)"
  by (auto simp: is_hex_lower_def is_digit_def of_digit_char)

lemma is_digit_digit_char: "d < 10 \<Longrightarrow> is_digit (digit_char d)"
  by (auto simp: is_digit_def of_digit_char)

lemma radix_string_value:
  assumes "2 \<le> b" and "b \<le> 16"
  shows "numeral_value b 0 (radix_string b n) = n"
  using assms
proof (induction b n rule: radix_string.induct)
  case (1 b n)
  show ?case
  proof (cases "n < b")
    case True
    with "1.prems" show ?thesis by (simp add: radix_string.simps [of b n])
  next
    case False
    with 1 have "numeral_value b 0 (radix_string b (n div b)) = n div b" by simp
    moreover have "n mod b < 16"
      using "1.prems" mod_less_divisor [of b n] by linarith
    ultimately show ?thesis
      using False "1.prems" by (simp add: radix_string.simps [of b n] numeral_value_append)
  qed
qed

lemma radix_string_hex:
  "2 \<le> b \<Longrightarrow> b \<le> 16 \<Longrightarrow> list_all is_hex_lower (radix_string b n)"
proof (induction b n rule: radix_string.induct)
  case (1 b n)
  have "n mod b < 16"
    using "1.prems" mod_less_divisor [of b n] by linarith
  with 1 show ?case
    by (cases "n < b") (auto simp: radix_string.simps [of b n] is_hex_digit_char)
qed

lemma radix_string_ne [simp]: "radix_string b n \<noteq> []"
  by (subst radix_string.simps) simp

lemma hex_string_value [simp]: "numeral_value 16 0 (hex_string n) = n"
  by (simp add: hex_string_def radix_string_value)

lemma hex_string_inj: "hex_string a = hex_string b \<longleftrightarrow> a = b"
  by (metis hex_string_value)

lemma nat_string_value [simp]: "numeral_value 10 0 (nat_string n) = n"
  by (simp add: nat_string_def radix_string_value)

lemma nat_string_inj: "nat_string a = nat_string b \<longleftrightarrow> a = b"
  by (metis nat_string_value)

end
