(* ===== verification/JsValue.thy ===== *)
theory JsValue
  imports CF_Prelude
begin

text \<open>
  The values of type \<open>unknown\<close> the code stores and inspects: JSON documents. Numbers are
  integers, since every number the code writes into a document is one. An object is the
  list of its fields in insertion order; a field that is not there is undefined (\<open>None\<close>).
  \<open>json_stringify\<close> is \<open>JSON.stringify\<close> on such values, with ECMAScript's string escapes,
  and the last section proves that it is injective, which is what a comparison of two
  serialised values relies on.
\<close>

datatype json =
    JNull
  | JBool bool
  | JNum int
  | JStr string
  | JArr "json list"
  | JObj "(string \<times> json) list"

text \<open>
  \<open>asRecord\<close>: the fields of an object, and the empty object for every other value.
\<close>

definition asRecord :: "json \<Rightarrow> (string \<times> json) list" where
  "asRecord v = (case v of JObj fs \<Rightarrow> fs | _ \<Rightarrow> [])"

definition js_field :: "(string \<times> json) list \<Rightarrow> string \<Rightarrow> json option" where
  "js_field fs k = map_of fs k"

text \<open>\<open>{...fs, k: v}\<close>: the field keeps its place when it is there already.\<close>

fun obj_set :: "string \<Rightarrow> json \<Rightarrow> (string \<times> json) list \<Rightarrow> (string \<times> json) list" where
  "obj_set k v [] = [(k, v)]"
| "obj_set k v ((k', v') # fs) = (if k' = k then (k, v) # fs else (k', v') # obj_set k v fs)"

definition json_string :: "json option \<Rightarrow> string option" where
  "json_string v = (case v of Some (JStr s) \<Rightarrow> Some s | _ \<Rightarrow> None)"

definition json_number :: "json option \<Rightarrow> int option" where
  "json_number v = (case v of Some (JNum n) \<Rightarrow> Some n | _ \<Rightarrow> None)"

text \<open>\<open>x ?? null\<close> as a document value.\<close>

definition opt_json :: "string option \<Rightarrow> json" where
  "opt_json x = (case x of None \<Rightarrow> JNull | Some s \<Rightarrow> JStr s)"

text \<open>\<open>x ?? y\<close> on a field: null and undefined both fall through.\<close>

definition nullish_or :: "json option \<Rightarrow> json \<Rightarrow> json" where
  "nullish_or x y = (case x of None \<Rightarrow> y | Some JNull \<Rightarrow> y | Some v \<Rightarrow> v)"

lemma asRecord_simps [simp]:
  "asRecord JNull = []" "asRecord (JBool b) = []" "asRecord (JNum n) = []"
  "asRecord (JStr s) = []" "asRecord (JArr xs) = []" "asRecord (JObj fs) = fs"
  by (simp_all add: asRecord_def)

lemma js_field_simps [simp]:
  "js_field [] k = None"
  "js_field ((k', v) # fs) k = (if k' = k then Some v else js_field fs k)"
  by (simp_all add: js_field_def)

lemma js_field_obj_set [simp]:
  "js_field (obj_set k v fs) k' = (if k' = k then Some v else js_field fs k')"
  by (induction k v fs rule: obj_set.induct) auto

lemma json_string_simps [simp]:
  "json_string None = None" "json_string (Some (JStr s)) = Some s"
  "json_string (Some JNull) = None"
  by (simp_all add: json_string_def)

lemma json_number_simps [simp]:
  "json_number None = None" "json_number (Some (JNum n)) = Some n"
  by (simp_all add: json_number_def)

lemma json_string_opt_json [simp]: "json_string (Some (opt_json x)) = x"
  by (simp add: opt_json_def split: option.splits)

lemma json_string_Some: "json_string v = Some s \<longleftrightarrow> v = Some (JStr s)"
  by (auto simp: json_string_def split: option.splits json.splits)

lemma nullish_or_simps [simp]:
  "nullish_or None y = y" "nullish_or (Some JNull) y = y" "nullish_or (Some (JStr s)) y = JStr s"
  by (simp_all add: nullish_or_def)


section \<open>Serialisation\<close>

definition js_escape :: "char \<Rightarrow> string" where
  "js_escape c =
    (if c = CHR 0x22 then [CHR 0x5C, CHR 0x22]
     else if c = CHR 0x5C then [CHR 0x5C, CHR 0x5C]
     else if c = CHR 0x08 then [CHR 0x5C, CHR ''b'']
     else if c = CHR 0x09 then [CHR 0x5C, CHR ''t'']
     else if c = CHR 0x0A then [CHR 0x5C, CHR ''n'']
     else if c = CHR 0x0C then [CHR 0x5C, CHR ''f'']
     else if c = CHR 0x0D then [CHR 0x5C, CHR ''r'']
     else if code_unit c < 32 then [CHR 0x5C, CHR ''u'', CHR ''0'', CHR ''0'',
       digit_char (code_unit c div 16), digit_char (code_unit c mod 16)]
     else [c])"

definition js_quote :: "string \<Rightarrow> string" where
  "js_quote s = CHR 0x22 # concat (map js_escape s) @ [CHR 0x22]"

fun json_stringify :: "json \<Rightarrow> string"
  and stringify_items :: "json list \<Rightarrow> string"
  and stringify_fields :: "(string \<times> json) list \<Rightarrow> string" where
  "json_stringify JNull = ''null''"
| "json_stringify (JBool b) = (if b then ''true'' else ''false'')"
| "json_stringify (JNum n) = int_string n"
| "json_stringify (JStr s) = js_quote s"
| "json_stringify (JArr xs) = CHR ''['' # stringify_items xs @ '']''"
| "json_stringify (JObj fs) = CHR ''{'' # stringify_fields fs @ ''}''"
| "stringify_items [] = []"
| "stringify_items [x] = json_stringify x"
| "stringify_items (x # y # xs) = json_stringify x @ CHR '','' # stringify_items (y # xs)"
| "stringify_fields [] = []"
| "stringify_fields [(k, v)] = js_quote k @ CHR '':'' # json_stringify v"
| "stringify_fields ((k, v) # f # fs) =
     js_quote k @ CHR '':'' # json_stringify v @ CHR '','' # stringify_fields (f # fs)"

text \<open>\<open>JSON.stringify(value, null, 2)\<close>: one item per line, indented by two per level.\<close>

definition js_newline :: "nat \<Rightarrow> string" where
  "js_newline d = CHR 0x0A # replicate (2 * d) CHR 0x20"

fun json_pretty :: "nat \<Rightarrow> json \<Rightarrow> string"
  and pretty_items :: "nat \<Rightarrow> json list \<Rightarrow> string"
  and pretty_fields :: "nat \<Rightarrow> (string \<times> json) list \<Rightarrow> string" where
  "json_pretty d JNull = ''null''"
| "json_pretty d (JBool b) = (if b then ''true'' else ''false'')"
| "json_pretty d (JNum n) = int_string n"
| "json_pretty d (JStr s) = js_quote s"
| "json_pretty d (JArr xs) = (if xs = [] then ''[]''
     else CHR ''['' # js_newline (Suc d) @ pretty_items (Suc d) xs @ js_newline d @ '']'')"
| "json_pretty d (JObj fs) = (if fs = [] then ''{}''
     else CHR ''{'' # js_newline (Suc d) @ pretty_fields (Suc d) fs @ js_newline d @ ''}'')"
| "pretty_items d [] = []"
| "pretty_items d [x] = json_pretty d x"
| "pretty_items d (x # y # xs) = json_pretty d x @ CHR '','' # js_newline d @ pretty_items d (y # xs)"
| "pretty_fields d [] = []"
| "pretty_fields d [(k, v)] = js_quote k @ '': '' @ json_pretty d v"
| "pretty_fields d ((k, v) # f # fs) =
     js_quote k @ '': '' @ json_pretty d v @ CHR '','' # js_newline d @ pretty_fields d (f # fs)"


section \<open>Serialisation is injective\<close>

text \<open>
  A reader of escaped strings, used in the proofs only: it undoes \<open>js_quote\<close> and returns
  the rest of the input.
\<close>

fun read_quoted :: "string \<Rightarrow> string \<times> string" where
  "read_quoted [] = ([], [])"
| "read_quoted (c # cs) =
    (if c = CHR 0x22 then ([], cs)
     else if c = CHR 0x5C then
       (case cs of
          [] \<Rightarrow> ([], [])
        | e # ds \<Rightarrow>
            if e = CHR ''u'' then
              (let (s, r) = read_quoted (drop 4 ds)
               in (char_of (16 * digit_value (ds ! 2) + digit_value (ds ! 3)) # s, r))
            else
              (let (s, r) = read_quoted ds
               in ((if e = CHR ''b'' then CHR 0x08 else if e = CHR ''t'' then CHR 0x09
                    else if e = CHR ''n'' then CHR 0x0A else if e = CHR ''f'' then CHR 0x0C
                    else if e = CHR ''r'' then CHR 0x0D else e) # s, r)))
     else (let (s, r) = read_quoted cs in (c # s, r)))"

lemma read_escape: "read_quoted (js_escape c @ r) = (c # fst (read_quoted r), snd (read_quoted r))"
proof -
  have b: "code_unit c < 256" by simp
  show ?thesis
  proof (cases "code_unit c < 32")
    case True
    then have "code_unit c div 16 < 16" "code_unit c mod 16 < 16" by auto
    then show ?thesis
      using True by (auto simp: js_escape_def Let_def split_beta)
  next
    case False
    then show ?thesis
      by (auto simp: js_escape_def Let_def split_beta)
  qed
qed

lemma read_quoted_concat: "read_quoted (concat (map js_escape s) @ CHR 0x22 # r) = (s, r)"
  by (induction s) (simp_all add: read_escape del: read_quoted.simps(2), simp)

lemma js_quote_prefix: "js_quote a @ r = js_quote b @ t \<Longrightarrow> a = b \<and> r = t"
proof -
  assume "js_quote a @ r = js_quote b @ t"
  then have "concat (map js_escape a) @ CHR 0x22 # r = concat (map js_escape b) @ CHR 0x22 # t"
    by (simp add: js_quote_def)
  then have "read_quoted (concat (map js_escape a) @ CHR 0x22 # r)
      = read_quoted (concat (map js_escape b) @ CHR 0x22 # t)" by (rule arg_cong)
  then show ?thesis by (simp add: read_quoted_concat)
qed


text \<open>Digits end where a delimiter starts, so numerals can be told apart from what follows.\<close>

definition json_delim :: "string \<Rightarrow> bool" where
  "json_delim s \<longleftrightarrow> s = [] \<or> hd s \<in> {CHR '','', CHR '']'', CHR ''}''}"

lemma json_delim_simps [simp]:
  "json_delim []" "json_delim (CHR '','' # s)" "json_delim (CHR '']'' # s)" "json_delim (CHR ''}'' # s)"
  by (simp_all add: json_delim_def)

lemma radix_digits: "list_all is_digit (radix_string 10 n)"
proof (induction n rule: less_induct)
  case (less n)
  have "n mod 10 < 10" by simp
  with less show ?case
    by (cases "n < 10") (auto simp: radix_string.simps [of 10 n] is_digit_digit_char)
qed

lemma takeWhile_digits:
  assumes "json_delim s" and "list_all is_digit a"
  shows "takeWhile is_digit (a @ s) = a" and "dropWhile is_digit (a @ s) = s"
proof -
  have s: "takeWhile is_digit s = []" "dropWhile is_digit s = s"
    using assms(1) by (cases s; auto simp: json_delim_def is_digit_def)+
  have a: "\<forall>x\<in>set a. is_digit x" using assms(2) by (simp add: list_all_iff)
  show "takeWhile is_digit (a @ s) = a" "dropWhile is_digit (a @ s) = s"
    using s a by (simp_all add: takeWhile_append2 dropWhile_append2)
qed

lemma nat_string_prefix:
  assumes "nat_string a @ s = nat_string b @ t" and "json_delim s" and "json_delim t"
  shows "a = b \<and> s = t"
proof -
  have "list_all is_digit (nat_string a)" "list_all is_digit (nat_string b)"
    by (simp_all add: nat_string_def radix_digits)
  then have "nat_string a = nat_string b" "s = t"
    using assms takeWhile_digits by metis+
  then show ?thesis by (simp add: nat_string_inj)
qed

lemma hd_nat_string: "\<exists>c r. nat_string n = c # r \<and> is_digit c"
proof -
  have "list_all is_digit (nat_string n)" by (simp add: nat_string_def radix_digits)
  moreover have "nat_string n \<noteq> []" by (simp add: nat_string_def)
  ultimately show ?thesis by (cases "nat_string n") auto
qed

lemma digit_not_minus: "\<not> is_digit CHR ''-''"
  by (simp add: is_digit_def)

lemma int_string_prefix:
  assumes e: "int_string i @ s = int_string j @ t" and d: "json_delim s" "json_delim t"
  shows "i = j \<and> s = t"
proof (cases "i < 0"; cases "j < 0")
  assume n: "i < 0" "j < 0"
  with e have "nat_string (nat (- i)) @ s = nat_string (nat (- j)) @ t" by (simp add: int_string_def)
  from nat_string_prefix [OF this d] n show ?thesis by auto
next
  assume n: "\<not> i < 0" "\<not> j < 0"
  with e have "nat_string (nat i) @ s = nat_string (nat j) @ t" by (simp add: int_string_def)
  from nat_string_prefix [OF this d] n show ?thesis by auto
next
  assume "i < 0" "\<not> j < 0"
  with e hd_nat_string [of "nat j"] digit_not_minus show ?thesis by (auto simp: int_string_def)
next
  assume "\<not> i < 0" "j < 0"
  with e hd_nat_string [of "nat i"] digit_not_minus show ?thesis by (auto simp: int_string_def)
qed

text \<open>The first character tells the constructor.\<close>

definition json_head :: "json \<Rightarrow> char \<Rightarrow> bool" where
  "json_head x c = (case x of
     JNull \<Rightarrow> c = CHR ''n''
   | JBool b \<Rightarrow> c = (if b then CHR ''t'' else CHR ''f'')
   | JNum n \<Rightarrow> is_digit c \<or> c = CHR ''-''
   | JStr s \<Rightarrow> c = CHR 0x22
   | JArr xs \<Rightarrow> c = CHR ''[''
   | JObj fs \<Rightarrow> c = CHR ''{'')"

lemma json_head_stringify: "\<exists>c r. json_stringify x = c # r \<and> json_head x c"
proof (cases x)
  case (JNum n)
  with hd_nat_string [of "nat n"] show ?thesis by (auto simp: json_head_def int_string_def)
qed (auto simp: json_head_def js_quote_def)

lemma json_heads_differ:
  assumes "json_stringify x @ s = json_stringify y @ t"
  shows "\<exists>c. json_head x c \<and> json_head y c"
  using assms json_head_stringify [of x] json_head_stringify [of y] by auto

lemma json_head_bracket: "\<not> json_head x CHR '']''"
  by (cases x) (simp_all add: json_head_def is_digit_def)

lemma json_not_bracket: "json_stringify x @ s \<noteq> CHR '']'' # t"
  using json_head_stringify [of x] json_head_bracket [of x] by auto

lemma items_cases [case_names none one more]:
  obtains "ys = []" | y where "ys = [y]" | y y' ys' where "ys = y # y' # ys'"
  by (metis list.exhaust)

lemma fields_cases [case_names none one more]:
  obtains "gs = []" | l w where "gs = [(l, w)]" | l w g gs' where "gs = (l, w) # g # gs'"
  by (metis list.exhaust surj_pair)

lemma json_stringify_prefix:
  "\<And>y s t. json_stringify x @ s = json_stringify y @ t \<Longrightarrow> json_delim s \<Longrightarrow> json_delim t
     \<Longrightarrow> x = y \<and> s = t"
  "\<And>ys s t. stringify_items xs @ CHR '']'' # s = stringify_items ys @ CHR '']'' # t
     \<Longrightarrow> xs = ys \<and> s = t"
  "\<And>gs s t. stringify_fields fs @ CHR ''}'' # s = stringify_fields gs @ CHR ''}'' # t
     \<Longrightarrow> fs = gs \<and> s = t"
proof (induction x and xs and fs
    rule: json_stringify_stringify_items_stringify_fields.induct)
  case 1
  then show ?case using json_heads_differ [OF "1.prems"(1)]
    by (cases y) (auto simp: json_head_def is_digit_def split: if_splits)
next
  case (2 b)
  then show ?case using json_heads_differ [OF "2.prems"(1)]
    by (cases y) (auto simp: json_head_def is_digit_def split: if_splits)
next
  case (3 n)
  from json_heads_differ [OF "3.prems"(1)] obtain m where y: "y = JNum m"
    by (cases y) (auto simp: json_head_def is_digit_def split: if_splits)
  with "3.prems" int_string_prefix [of n s m t] show ?case by simp
next
  case (4 a)
  from json_heads_differ [OF "4.prems"(1)] obtain b where y: "y = JStr b"
    by (cases y) (auto simp: json_head_def is_digit_def split: if_splits)
  with "4.prems" js_quote_prefix [of a s b t] show ?case by simp
next
  case (5 zs)
  from json_heads_differ [OF "5.prems"(1)] obtain ys where y: "y = JArr ys"
    by (cases y) (auto simp: json_head_def is_digit_def split: if_splits)
  with "5.prems" "5.IH" [of s ys t] show ?case by simp
next
  case (6 zs)
  from json_heads_differ [OF "6.prems"(1)] obtain ys where y: "y = JObj ys"
    by (cases y) (auto simp: json_head_def is_digit_def split: if_splits)
  with "6.prems" "6.IH" [of s ys t] show ?case by simp
next
  case 7
  show ?case
  proof (cases ys rule: items_cases)
    case none
    with "7.prems" show ?thesis by simp
  next
    case (one y)
    with "7.prems" json_not_bracket [of y "CHR '']'' # t" s] show ?thesis by simp
  next
    case (more y y' ys')
    with "7.prems" json_not_bracket [of y "CHR '','' # stringify_items (y' # ys') @ CHR '']'' # t" s]
    show ?thesis by simp
  qed
next
  case (8 z)
  show ?case
  proof (cases ys rule: items_cases)
    case none
    with "8.prems" json_not_bracket [of z] show ?thesis by simp
  next
    case (one y)
    with "8.prems" "8.IH" [of "CHR '']'' # s" y "CHR '']'' # t"] show ?thesis by simp
  next
    case (more y y' ys')
    with "8.prems" "8.IH" [of "CHR '']'' # s" y "CHR '','' # stringify_items (y' # ys') @ CHR '']'' # t"]
    show ?thesis by simp
  qed
next
  case (9 z z' zs)
  show ?case
  proof (cases ys rule: items_cases)
    case none
    with "9.prems" json_not_bracket [of z] show ?thesis by simp
  next
    case (one y)
    with "9.prems"
      "9.IH"(1) [of "CHR '','' # stringify_items (z' # zs) @ CHR '']'' # s" y "CHR '']'' # t"]
    show ?thesis by simp
  next
    case (more y y' ys')
    with "9.prems"
      "9.IH"(1) [of "CHR '','' # stringify_items (z' # zs) @ CHR '']'' # s" y
        "CHR '','' # stringify_items (y' # ys') @ CHR '']'' # t"]
      "9.IH"(2) [of s "y' # ys'" t]
    show ?thesis by simp
  qed
next
  case 10
  then show ?case by (cases gs rule: fields_cases) (auto simp: js_quote_def)
next
  case (11 k v)
  show ?case
  proof (cases gs rule: fields_cases)
    case none
    with "11.prems" show ?thesis by (simp add: js_quote_def)
  next
    case (one l w)
    with "11.prems" have "k = l" "json_stringify v @ CHR ''}'' # s = json_stringify w @ CHR ''}'' # t"
      by (auto dest: js_quote_prefix)
    with one "11.IH" [of "CHR ''}'' # s" w "CHR ''}'' # t"] show ?thesis by simp
  next
    case (more l w g gs')
    with "11.prems" have "json_stringify v @ CHR ''}'' # s
        = json_stringify w @ CHR '','' # stringify_fields (g # gs') @ CHR ''}'' # t"
      by (auto dest: js_quote_prefix)
    from "11.IH" [OF this] show ?thesis by simp
  qed
next
  case (12 k v f fs')
  show ?case
  proof (cases gs rule: fields_cases)
    case none
    with "12.prems" show ?thesis by (simp add: js_quote_def)
  next
    case (one l w)
    with "12.prems" have "json_stringify v @ CHR '','' # stringify_fields (f # fs') @ CHR ''}'' # s
        = json_stringify w @ CHR ''}'' # t"
      by (auto dest: js_quote_prefix)
    from "12.IH"(1) [OF this] show ?thesis by simp
  next
    case (more l w g gs')
    with "12.prems" have "k = l" and e: "json_stringify v @ CHR '','' # stringify_fields (f # fs') @ CHR ''}'' # s
        = json_stringify w @ CHR '','' # stringify_fields (g # gs') @ CHR ''}'' # t"
      by (auto dest: js_quote_prefix)
    from "12.IH"(1) [OF e] "12.IH"(2) [of s "g # gs'" t] \<open>k = l\<close> more show ?thesis by simp
  qed
qed

theorem json_stringify_inj: "json_stringify x = json_stringify y \<longleftrightarrow> x = y"
  using json_stringify_prefix(1) [of x "[]" y "[]"] by auto

end
