(* ===== verification/CoreTypes.thy ===== *)
theory CoreTypes
  imports JsValue
begin

text \<open>
  The data model of packages/core/src/types.ts and errors.ts: status enumerations, OutPoint and
  input references, the execution snapshot, chain observations and transition events, and the
  error class. String literal types are datatypes; \<open>_name\<close> functions give their text.
  Optional properties are options; numbers are integers. A timestamp is its instant in
  milliseconds wherever the code holds it in a column or a typed field.
\<close>

section \<open>Statuses\<close>

datatype SubmissionStatus =
    SS_NOT_SUBMITTED
  | SS_PREPARED
  | SS_BROADCASTING
  | SS_SUBMITTED
  | SS_SUBMISSION_UNKNOWN
  | SS_NODE_REJECTED

datatype ObservedStatus =
    CO_UNKNOWN
  | CO_PENDING
  | CO_PROPOSED
  | CO_COMMITTED
  | CO_REJECTED

text \<open>\<open>ChainObservation["status"]\<close> is \<open>ChainStatus\<close> without \<open>UNOBSERVED\<close>.\<close>

datatype ChainStatus = CS_UNOBSERVED | CS_Observed ObservedStatus

abbreviation CS_UNKNOWN :: ChainStatus where "CS_UNKNOWN \<equiv> CS_Observed CO_UNKNOWN"
abbreviation CS_PENDING :: ChainStatus where "CS_PENDING \<equiv> CS_Observed CO_PENDING"
abbreviation CS_PROPOSED :: ChainStatus where "CS_PROPOSED \<equiv> CS_Observed CO_PROPOSED"
abbreviation CS_COMMITTED :: ChainStatus where "CS_COMMITTED \<equiv> CS_Observed CO_COMMITTED"
abbreviation CS_REJECTED :: ChainStatus where "CS_REJECTED \<equiv> CS_Observed CO_REJECTED"

datatype WorkflowStatus =
    WS_IDLE
  | WS_RECONCILING
  | WS_WAITING_CONFIRMATIONS
  | WS_CONFIRMED
  | WS_REORGED
  | WS_CONFLICTED
  | WS_EXPIRED

datatype OverallStatus =
    OS_CREATED
  | OS_PREPARED
  | OS_SUBMITTING
  | OS_SUBMITTED
  | OS_UNKNOWN
  | OS_PENDING
  | OS_PROPOSED
  | OS_COMMITTED
  | OS_CONFIRMED
  | OS_RECONCILING
  | OS_REORGED
  | OS_REJECTED
  | OS_NODE_REJECTED
  | OS_CONFLICTED
  | OS_EXPIRED

datatype InputRole =
    IR_APPLICATION_STATE
  | IR_WALLET_FUNDING
  | IR_FEE
  | IR_DEPENDENCY
  | IR_OTHER

datatype AttemptKind = AK_INITIAL | AK_REBUILD | AK_RBF_REPLACEMENT | AK_MANUAL_RETRY

datatype AttemptDisposition =
    AD_ACTIVE
  | AD_SUPERSEDED
  | AD_CONFIRMED
  | AD_REJECTED
  | AD_CONFLICTED
  | AD_ABANDONED

datatype ConflictDomain = CD_APPLICATION | CD_WALLET | CD_MIXED | CD_UNKNOWN

datatype ConflictType =
    CT_INPUT_CONFLICT_SUSPECTED
  | CT_INPUT_SPENT
  | CT_EXPECTED_CELL_ASSERTION_FAILED
  | CT_REORG_CONFLICT
  | CT_SIGNED_PAYLOAD_MISMATCH
  | CT_OTHER

datatype RecommendedAction =
    RA_NONE
  | RA_WAIT_FOR_RECONCILIATION
  | RA_WAIT_AND_RECONCILE
  | RA_REBUILD_FROM_LIVE_STATE
  | RA_RECOLLECT_WALLET_INPUTS
  | RA_REBUILD_AND_RESIGN
  | RA_RECONCILE_CANONICAL_STATE
  | RA_WAIT_FOR_MATURITY
  | RA_MANUAL_REVIEW

datatype SubmissionErrorType = SE_TRANSPORT_UNKNOWN | SE_RPC_REJECTION | SE_HASH_MISMATCH

definition submission_name :: "SubmissionStatus \<Rightarrow> string" where
  "submission_name s = (case s of
     SS_NOT_SUBMITTED \<Rightarrow> ''NOT_SUBMITTED'' | SS_PREPARED \<Rightarrow> ''PREPARED''
   | SS_BROADCASTING \<Rightarrow> ''BROADCASTING'' | SS_SUBMITTED \<Rightarrow> ''SUBMITTED''
   | SS_SUBMISSION_UNKNOWN \<Rightarrow> ''SUBMISSION_UNKNOWN'' | SS_NODE_REJECTED \<Rightarrow> ''NODE_REJECTED'')"

definition observed_name :: "ObservedStatus \<Rightarrow> string" where
  "observed_name s = (case s of
     CO_UNKNOWN \<Rightarrow> ''UNKNOWN'' | CO_PENDING \<Rightarrow> ''PENDING'' | CO_PROPOSED \<Rightarrow> ''PROPOSED''
   | CO_COMMITTED \<Rightarrow> ''COMMITTED'' | CO_REJECTED \<Rightarrow> ''REJECTED'')"

definition chain_name :: "ChainStatus \<Rightarrow> string" where
  "chain_name s = (case s of CS_UNOBSERVED \<Rightarrow> ''UNOBSERVED'' | CS_Observed o' \<Rightarrow> observed_name o')"

definition workflow_name :: "WorkflowStatus \<Rightarrow> string" where
  "workflow_name s = (case s of
     WS_IDLE \<Rightarrow> ''IDLE'' | WS_RECONCILING \<Rightarrow> ''RECONCILING''
   | WS_WAITING_CONFIRMATIONS \<Rightarrow> ''WAITING_CONFIRMATIONS'' | WS_CONFIRMED \<Rightarrow> ''CONFIRMED''
   | WS_REORGED \<Rightarrow> ''REORGED'' | WS_CONFLICTED \<Rightarrow> ''CONFLICTED'' | WS_EXPIRED \<Rightarrow> ''EXPIRED'')"

definition overall_name :: "OverallStatus \<Rightarrow> string" where
  "overall_name s = (case s of
     OS_CREATED \<Rightarrow> ''CREATED'' | OS_PREPARED \<Rightarrow> ''PREPARED'' | OS_SUBMITTING \<Rightarrow> ''SUBMITTING''
   | OS_SUBMITTED \<Rightarrow> ''SUBMITTED'' | OS_UNKNOWN \<Rightarrow> ''UNKNOWN'' | OS_PENDING \<Rightarrow> ''PENDING''
   | OS_PROPOSED \<Rightarrow> ''PROPOSED'' | OS_COMMITTED \<Rightarrow> ''COMMITTED'' | OS_CONFIRMED \<Rightarrow> ''CONFIRMED''
   | OS_RECONCILING \<Rightarrow> ''RECONCILING'' | OS_REORGED \<Rightarrow> ''REORGED'' | OS_REJECTED \<Rightarrow> ''REJECTED''
   | OS_NODE_REJECTED \<Rightarrow> ''NODE_REJECTED'' | OS_CONFLICTED \<Rightarrow> ''CONFLICTED'' | OS_EXPIRED \<Rightarrow> ''EXPIRED'')"

definition role_name :: "InputRole \<Rightarrow> string" where
  "role_name r = (case r of
     IR_APPLICATION_STATE \<Rightarrow> ''APPLICATION_STATE'' | IR_WALLET_FUNDING \<Rightarrow> ''WALLET_FUNDING''
   | IR_FEE \<Rightarrow> ''FEE'' | IR_DEPENDENCY \<Rightarrow> ''DEPENDENCY'' | IR_OTHER \<Rightarrow> ''OTHER'')"

definition attempt_kind_name :: "AttemptKind \<Rightarrow> string" where
  "attempt_kind_name k = (case k of
     AK_INITIAL \<Rightarrow> ''INITIAL'' | AK_REBUILD \<Rightarrow> ''REBUILD''
   | AK_RBF_REPLACEMENT \<Rightarrow> ''RBF_REPLACEMENT'' | AK_MANUAL_RETRY \<Rightarrow> ''MANUAL_RETRY'')"

definition disposition_name :: "AttemptDisposition \<Rightarrow> string" where
  "disposition_name d = (case d of
     AD_ACTIVE \<Rightarrow> ''ACTIVE'' | AD_SUPERSEDED \<Rightarrow> ''SUPERSEDED'' | AD_CONFIRMED \<Rightarrow> ''CONFIRMED''
   | AD_REJECTED \<Rightarrow> ''REJECTED'' | AD_CONFLICTED \<Rightarrow> ''CONFLICTED'' | AD_ABANDONED \<Rightarrow> ''ABANDONED'')"

definition domain_name :: "ConflictDomain \<Rightarrow> string" where
  "domain_name d = (case d of CD_APPLICATION \<Rightarrow> ''APPLICATION'' | CD_WALLET \<Rightarrow> ''WALLET''
   | CD_MIXED \<Rightarrow> ''MIXED'' | CD_UNKNOWN \<Rightarrow> ''UNKNOWN'')"

definition conflict_type_name :: "ConflictType \<Rightarrow> string" where
  "conflict_type_name c = (case c of
     CT_INPUT_CONFLICT_SUSPECTED \<Rightarrow> ''INPUT_CONFLICT_SUSPECTED'' | CT_INPUT_SPENT \<Rightarrow> ''INPUT_SPENT''
   | CT_EXPECTED_CELL_ASSERTION_FAILED \<Rightarrow> ''EXPECTED_CELL_ASSERTION_FAILED''
   | CT_REORG_CONFLICT \<Rightarrow> ''REORG_CONFLICT'' | CT_SIGNED_PAYLOAD_MISMATCH \<Rightarrow> ''SIGNED_PAYLOAD_MISMATCH''
   | CT_OTHER \<Rightarrow> ''OTHER'')"

definition action_name :: "RecommendedAction \<Rightarrow> string" where
  "action_name a = (case a of
     RA_NONE \<Rightarrow> ''NONE'' | RA_WAIT_FOR_RECONCILIATION \<Rightarrow> ''WAIT_FOR_RECONCILIATION''
   | RA_WAIT_AND_RECONCILE \<Rightarrow> ''WAIT_AND_RECONCILE'' | RA_REBUILD_FROM_LIVE_STATE \<Rightarrow> ''REBUILD_FROM_LIVE_STATE''
   | RA_RECOLLECT_WALLET_INPUTS \<Rightarrow> ''RECOLLECT_WALLET_INPUTS'' | RA_REBUILD_AND_RESIGN \<Rightarrow> ''REBUILD_AND_RESIGN''
   | RA_RECONCILE_CANONICAL_STATE \<Rightarrow> ''RECONCILE_CANONICAL_STATE''
   | RA_WAIT_FOR_MATURITY \<Rightarrow> ''WAIT_FOR_MATURITY'' | RA_MANUAL_REVIEW \<Rightarrow> ''MANUAL_REVIEW'')"

definition submission_error_name :: "SubmissionErrorType \<Rightarrow> string" where
  "submission_error_name e = (case e of SE_TRANSPORT_UNKNOWN \<Rightarrow> ''TRANSPORT_UNKNOWN''
   | SE_RPC_REJECTION \<Rightarrow> ''RPC_REJECTION'' | SE_HASH_MISMATCH \<Rightarrow> ''HASH_MISMATCH'')"


section \<open>Transactions, policies, snapshots\<close>

type_synonym timestamp = int

record OutPointRef =
  op_txHash :: string
  op_index :: int

record InputRef =
  ref_outPoint :: OutPointRef
  ref_role :: InputRole
  ref_resourceKey :: "string option"

datatype ConfirmationPolicy = Committed | Depth int

record ExecutionSnapshot =
  sn_submissionStatus :: SubmissionStatus
  sn_chainStatus :: ChainStatus
  sn_workflowStatus :: WorkflowStatus
  sn_confirmationPolicy :: ConfirmationPolicy
  sn_confirmationCount :: int
  sn_committedBlockHash :: "string option"
  sn_committedBlockNumber :: "string option"
  sn_rejectionReason :: "string option"

record ChainObservation =
  ob_status :: ObservedStatus
  ob_observedAt :: timestamp
  ob_raw :: json
  ob_blockHash :: "string option"
  ob_blockNumber :: "string option"
  ob_tipBlockNumber :: "string option"
  ob_rejectionReason :: "string option"
  ob_rpcEndpoint :: "string option"
  ob_canonicalBlockHash :: "string option"
  ob_priorCommitCanonical :: "bool option"

datatype EventKind =
    EK_CREATED
  | EK_SUBMISSION_UPDATED
  | EK_CHAIN_OBSERVED
  | EK_WORKFLOW_UPDATED
  | EK_REORG_DETECTED
  | EK_CONFIRMED
  | EK_ASSERTION_VERIFIED
  | EK_ASSERTION_FAILED
  | EK_OPERATOR_NOTE

definition event_kind_name :: "EventKind \<Rightarrow> string" where
  "event_kind_name k = (case k of
     EK_CREATED \<Rightarrow> ''CREATED'' | EK_SUBMISSION_UPDATED \<Rightarrow> ''SUBMISSION_UPDATED''
   | EK_CHAIN_OBSERVED \<Rightarrow> ''CHAIN_OBSERVED'' | EK_WORKFLOW_UPDATED \<Rightarrow> ''WORKFLOW_UPDATED''
   | EK_REORG_DETECTED \<Rightarrow> ''REORG_DETECTED'' | EK_CONFIRMED \<Rightarrow> ''CONFIRMED''
   | EK_ASSERTION_VERIFIED \<Rightarrow> ''ASSERTION_VERIFIED'' | EK_ASSERTION_FAILED \<Rightarrow> ''ASSERTION_FAILED''
   | EK_OPERATOR_NOTE \<Rightarrow> ''OPERATOR_NOTE'')"

record TransitionEvent =
  ev_kind :: EventKind
  ev_fromOverall :: OverallStatus
  ev_toOverall :: OverallStatus
  ev_at :: timestamp
  ev_reason :: "string option"
  ev_observation :: "ChainObservation option"

record ApplyObservationResult =
  ar_snapshot :: ExecutionSnapshot
  ar_event :: TransitionEvent
  ar_reorgDetected :: bool


section \<open>Errors\<close>

datatype CellFlowErrorCode =
    AUTH_INVALID
  | AUTH_SCOPE_REQUIRED
  | API_KEY_NOT_FOUND
  | PROJECT_NOT_FOUND
  | SETUP_ALREADY_COMPLETE
  | INTENT_CONFLICT
  | INTENT_NOT_FOUND
  | INVALID_TX_HASH
  | INVALID_SIGNED_TRANSACTION
  | INPUTS_NOT_LIVE
  | INPUTS_CONTENDED
  | INPUT_STATE_UNCERTAIN
  | RPC_UNAVAILABLE
  | RPC_RESPONSE_INVALID
  | TRANSITION_INVALID
  | WEBHOOK_URL_INVALID
  | RATE_LIMITED
  | ASSERTION_FAILED
  | INVALID_JSON
  | INVALID_CURSOR
  | REQUEST_TOO_LARGE
  | WEBHOOK_NOT_FOUND
  | INTERNAL_ERROR

record CellFlowError =
  err_code :: CellFlowErrorCode
  err_message :: string
  err_httpStatus :: int
  err_details :: "json option"

definition cellFlowError :: "CellFlowErrorCode \<Rightarrow> string \<Rightarrow> int \<Rightarrow> CellFlowError" where
  "cellFlowError code message status =
     \<lparr>err_code = code, err_message = message, err_httpStatus = status, err_details = None\<rparr>"

lemma cellFlowError_sel [simp]:
  "err_code (cellFlowError c m h) = c" "err_message (cellFlowError c m h) = m"
  "err_httpStatus (cellFlowError c m h) = h" "err_details (cellFlowError c m h) = None"
  by (simp_all add: cellFlowError_def)


section \<open>Names are unambiguous\<close>

lemmas status_names = submission_name_def observed_name_def chain_name_def workflow_name_def
  overall_name_def role_name_def attempt_kind_name_def disposition_name_def domain_name_def
  conflict_type_name_def action_name_def submission_error_name_def
  event_kind_name_def

lemma role_name_inj: "role_name a = role_name b \<longleftrightarrow> a = b"
  by (cases a; cases b; simp add: role_name_def)

lemma overall_name_inj: "overall_name a = overall_name b \<longleftrightarrow> a = b"
  by (cases a; cases b; simp add: overall_name_def)


section \<open>Out points and input references as documents\<close>

text \<open>The objects the code serialises, with the fields in the order in which it writes them.\<close>

definition outPoint_json :: "OutPointRef \<Rightarrow> json" where
  "outPoint_json p = JObj [(''txHash'', JStr (op_txHash p)), (''index'', JNum (op_index p))]"

definition inputRef_json :: "InputRef \<Rightarrow> json" where
  "inputRef_json r = JObj ([(''outPoint'', outPoint_json (ref_outPoint r)), (''role'', JStr (role_name (ref_role r)))]
     @ (case ref_resourceKey r of None \<Rightarrow> [] | Some k \<Rightarrow> [(''resourceKey'', JStr k)]))"

lemma outPoint_json_inj: "outPoint_json p = outPoint_json q \<longleftrightarrow> p = q"
  by (cases p; cases q) (auto simp: outPoint_json_def)

lemma inputRef_json_inj: "inputRef_json p = inputRef_json q \<longleftrightarrow> p = q"
  by (cases p; cases q) (auto simp: inputRef_json_def outPoint_json_inj role_name_inj split: option.splits)

end
