(* ===== verification/CoreConfig.thy ===== *)
theory CoreConfig
  imports CoreTypes
begin

text \<open>
  Models packages/core/src/confirmation.ts and validation.ts: the confirmation policy parser
  and the normalisers of transaction hashes, intent ids, OutPoints and input references. The
  lemmas give the accepted languages, show that normalising is idempotent, and bound what a
  normalised value can be.
\<close>

section \<open>Confirmation policy\<close>

definition parseConfirmationPolicy :: "string option \<Rightarrow> CellFlowError + ConfirmationPolicy" where
  "parseConfirmationPolicy value' =
    (if \<not> truthy value' \<or> value' = Some ''committed'' then Inr Committed
     else let v = the value'; digits = drop 6 v in
       if \<not> (take 6 v = ''depth:'' \<and> digits \<noteq> [] \<and> list_all is_digit digits)
       then Inl (cellFlowError INTERNAL_ERROR (''Invalid confirmation policy: '' @ v) 500)
       else let blocks = int (numeral_value 10 0 digits) in
         if blocks < 1 \<or> blocks > 10000
         then Inl (cellFlowError INTERNAL_ERROR ''Confirmation depth is out of range'' 500)
         else Inr (Depth blocks))"

text \<open>The text a policy is written as.\<close>

definition policy_text :: "ConfirmationPolicy \<Rightarrow> string" where
  "policy_text p = (case p of Committed \<Rightarrow> ''committed'' | Depth n \<Rightarrow> ''depth:'' @ int_string n)"

definition policy_wf :: "ConfirmationPolicy \<Rightarrow> bool" where
  "policy_wf p = (case p of Committed \<Rightarrow> True | Depth n \<Rightarrow> 1 \<le> n \<and> n \<le> 10000)"

lemma parse_policy_wf: "parseConfirmationPolicy v = Inr p \<Longrightarrow> policy_wf p"
  by (auto simp: parseConfirmationPolicy_def policy_wf_def Let_def split: if_splits)

lemma parse_policy_text: "policy_wf p \<Longrightarrow> parseConfirmationPolicy (Some (policy_text p)) = Inr p"
proof (cases p)
  case (Depth n)
  assume w: "policy_wf p"
  have d: "list_all is_digit (nat_string (nat n))" by (simp add: nat_string_def radix_digits)
  have "nat_string (nat n) \<noteq> []" by (simp add: nat_string_def)
  with Depth w d show ?thesis
    by (simp add: parseConfirmationPolicy_def policy_text_def policy_wf_def int_string_def)
qed (simp add: parseConfirmationPolicy_def policy_text_def)


section \<open>Hashes and intent ids\<close>

definition is_tx_hash :: "string \<Rightarrow> bool" where
  "is_tx_hash s \<longleftrightarrow> take 2 s = ''0x'' \<and> length s = 66 \<and> list_all is_hex_lower (drop 2 s)"

definition normalizeTxHash :: "string \<Rightarrow> CellFlowError + string" where
  "normalizeTxHash value' = (let normalized = toLowerCase value' in
     if \<not> is_tx_hash normalized
     then Inl (cellFlowError INVALID_TX_HASH ''Transaction hash must be a 32-byte 0x-prefixed hex value'' 400)
     else Inr normalized)"

definition is_intent_char :: "char \<Rightarrow> bool" where
  "is_intent_char c \<longleftrightarrow> is_alnum c \<or> c \<in> {CHR ''.'', CHR ''_'', CHR '':'', CHR ''-''}"

definition is_intent_id :: "string \<Rightarrow> bool" where
  "is_intent_id s \<longleftrightarrow> (case s of [] \<Rightarrow> False
     | c # cs \<Rightarrow> is_alnum c \<and> length cs \<le> 127 \<and> list_all is_intent_char cs)"

definition normalizeIntentId :: "string \<Rightarrow> CellFlowError + string" where
  "normalizeIntentId value' = (let normalized = js_trim value' in
     if \<not> is_intent_id normalized
     then Inl (cellFlowError INTENT_CONFLICT ''intentId must be 1-128 characters using letters, numbers, . _ : or -'' 400)
     else Inr normalized)"

lemma normalizeTxHash_Inr:
  "normalizeTxHash v = Inr h \<longleftrightarrow> h = toLowerCase v \<and> is_tx_hash h"
  by (auto simp: normalizeTxHash_def Let_def)

lemma normalizeIntentId_Inr:
  "normalizeIntentId v = Inr h \<longleftrightarrow> h = js_trim v \<and> is_intent_id h"
  by (auto simp: normalizeIntentId_def Let_def)

lemma normalizeTxHash_idem: "normalizeTxHash v = Inr h \<Longrightarrow> normalizeTxHash h = Inr h"
  by (auto simp: normalizeTxHash_Inr)

lemma normalizeIntentId_idem: "normalizeIntentId v = Inr h \<Longrightarrow> normalizeIntentId h = Inr h"
  by (auto simp: normalizeIntentId_Inr)


section \<open>OutPoints and input references\<close>

definition normalizeOutPointIndex :: "int \<Rightarrow> CellFlowError + int" where
  "normalizeOutPointIndex value' =
    (if value' < 0 \<or> value' > 0xffffffff
     then Inl (cellFlowError INVALID_SIGNED_TRANSACTION ''Input OutPoint index must be a uint32'' 400)
     else Inr value')"

definition normalizeOutPointRef :: "OutPointRef \<Rightarrow> CellFlowError + OutPointRef" where
  "normalizeOutPointRef value' =
     sum_bind (normalizeTxHash (op_txHash value')) (\<lambda>h.
     sum_bind (normalizeOutPointIndex (op_index value')) (\<lambda>i.
     Inr \<lparr>op_txHash = h, op_index = i\<rparr>))"

definition normalizeOutPointRefs :: "OutPointRef list \<Rightarrow> CellFlowError + OutPointRef list" where
  "normalizeOutPointRefs values =
    (if length values > 1024
     then Inl (cellFlowError INVALID_SIGNED_TRANSACTION ''A transaction may not persist more than 1024 input OutPoints'' 400)
     else collect normalizeOutPointRef values)"

definition normalizeInputRef :: "InputRef \<Rightarrow> CellFlowError + InputRef" where
  "normalizeInputRef value' =
     (let resourceKey = map_option js_trim (ref_resourceKey value') in
     sum_bind (normalizeOutPointRef (ref_outPoint value')) (\<lambda>p.
     Inr \<lparr>ref_outPoint = p, ref_role = ref_role value',
          ref_resourceKey = (if truthy resourceKey then map_option (take 256) resourceKey else None)\<rparr>))"

definition normalizeInputRefs :: "InputRef list \<Rightarrow> CellFlowError + InputRef list" where
  "normalizeInputRefs values =
    (if length values > 1024
     then Inl (cellFlowError INVALID_SIGNED_TRANSACTION ''A transaction may not persist more than 1024 input references'' 400)
     else collect normalizeInputRef values)"

definition outPoint_wf :: "OutPointRef \<Rightarrow> bool" where
  "outPoint_wf p \<longleftrightarrow> is_tx_hash (op_txHash p) \<and> toLowerCase (op_txHash p) = op_txHash p
     \<and> 0 \<le> op_index p \<and> op_index p \<le> 0xffffffff"

definition inputRef_wf :: "InputRef \<Rightarrow> bool" where
  "inputRef_wf r \<longleftrightarrow> outPoint_wf (ref_outPoint r)
     \<and> (case ref_resourceKey r of None \<Rightarrow> True | Some k \<Rightarrow> k \<noteq> [] \<and> length k \<le> 256)"

lemma normalizeOutPointRef_wf: "normalizeOutPointRef p = Inr q \<Longrightarrow> outPoint_wf q"
  by (auto simp: normalizeOutPointRef_def sum_bind_Inr normalizeTxHash_Inr normalizeOutPointIndex_def
      outPoint_wf_def split: if_splits)

lemma normalizeOutPointRef_id: "outPoint_wf p \<Longrightarrow> normalizeOutPointRef p = Inr p"
  by (simp add: normalizeOutPointRef_def normalizeTxHash_def Let_def normalizeOutPointIndex_def outPoint_wf_def)

lemma normalizeInputRef_wf: "normalizeInputRef r = Inr q \<Longrightarrow> inputRef_wf q"
  by (auto simp: normalizeInputRef_def Let_def sum_bind_Inr inputRef_wf_def truthy_def
      dest: normalizeOutPointRef_wf split: option.splits if_splits)

lemma collect_all:
  "collect f xs = Inr ys \<Longrightarrow> (\<And>x y. f x = Inr y \<Longrightarrow> P y) \<Longrightarrow> length ys = length xs \<and> list_all P ys"
  by (induction xs arbitrary: ys) (auto simp: sum_bind_Inr)

lemma normalizeOutPointRefs_Inr:
  "normalizeOutPointRefs ps = Inr qs \<Longrightarrow>
     length qs = length ps \<and> length qs \<le> 1024 \<and> list_all outPoint_wf qs"
  using collect_all [of normalizeOutPointRef ps qs outPoint_wf] normalizeOutPointRef_wf
  by (auto simp: normalizeOutPointRefs_def split: if_splits)

lemma normalizeInputRefs_Inr:
  "normalizeInputRefs ps = Inr qs \<Longrightarrow>
     length qs = length ps \<and> length qs \<le> 1024 \<and> list_all inputRef_wf qs"
  using collect_all [of normalizeInputRef ps qs inputRef_wf] normalizeInputRef_wf
  by (auto simp: normalizeInputRefs_def split: if_splits)

end
