(* ===== verification/StateMachine.thy ===== *)
theory StateMachine
  imports CoreConfig
begin

text \<open>
  Models packages/core/src/state-machine.ts: the pure state machine of an execution snapshot.
  The definitions follow the file; the second half proves what each transition preserves and
  an invariant of every snapshot reachable from \<open>initialSnapshot\<close> by the code's transitions.
\<close>

section \<open>Block numbers and confirmations\<close>

definition is_hex_number :: "string \<Rightarrow> bool" where
  "is_hex_number s \<longleftrightarrow> (case s of c # x # ds \<Rightarrow> c = CHR ''0'' \<and> (x = CHR ''x'' \<or> x = CHR ''X'')
     \<and> ds \<noteq> [] \<and> list_all is_hex_any ds | _ \<Rightarrow> False)"

definition parseHexBlockNumber :: "string option \<Rightarrow> int option" where
  "parseHexBlockNumber value' =
    (if \<not> truthy value' then None
     else if \<not> is_hex_number (the value') then None
     else Some (int (numeral_value 16 0 (drop 2 (the value')))))"

definition MAX_SAFE_INTEGER :: int where
  "MAX_SAFE_INTEGER = 9007199254740991"

definition computeConfirmationCount :: "string option \<Rightarrow> string option \<Rightarrow> int" where
  "computeConfirmationCount committedBlockNumber tipBlockNumber =
    (case (parseHexBlockNumber committedBlockNumber, parseHexBlockNumber tipBlockNumber) of
       (Some committed, Some tip) \<Rightarrow>
         if tip < committed then 0
         else let depth = tip - committed + 1 in
           if depth > MAX_SAFE_INTEGER then MAX_SAFE_INTEGER else depth
     | _ \<Rightarrow> 0)"

definition isConfirmationSatisfied :: "ConfirmationPolicy \<Rightarrow> ChainStatus \<Rightarrow> int \<Rightarrow> bool" where
  "isConfirmationSatisfied policy chainStatus confirmationCount =
    (if chainStatus \<noteq> CS_COMMITTED then False
     else case policy of Committed \<Rightarrow> True | Depth blocks \<Rightarrow> confirmationCount \<ge> blocks)"

definition isSettlementReady ::
    "ExecutionSnapshot \<Rightarrow> string option \<Rightarrow> int \<Rightarrow> ConflictType option \<Rightarrow> bool" where
  "isSettlementReady snapshot assertionStatus requiredAssertionCount conflictType \<longleftrightarrow>
     sn_workflowStatus snapshot = WS_CONFIRMED \<and>
     sn_chainStatus snapshot = CS_COMMITTED \<and>
     (truthy (sn_committedBlockHash snapshot) \<and> truthy (sn_committedBlockNumber snapshot)) \<and>
     isConfirmationSatisfied (sn_confirmationPolicy snapshot) (sn_chainStatus snapshot) (sn_confirmationCount snapshot) \<and>
     conflictType = None \<and>
     \<bar>requiredAssertionCount\<bar> \<le> MAX_SAFE_INTEGER \<and> requiredAssertionCount \<ge> 0 \<and>
     (requiredAssertionCount = 0 \<or> assertionStatus = Some ''VERIFIED'')"


section \<open>Projections\<close>

definition deriveOverallStatus :: "ExecutionSnapshot \<Rightarrow> OverallStatus" where
  "deriveOverallStatus snapshot =
    (if sn_workflowStatus snapshot = WS_CONFLICTED then OS_CONFLICTED
     else if sn_workflowStatus snapshot = WS_EXPIRED then OS_EXPIRED
     else if sn_chainStatus snapshot = CS_REJECTED then OS_REJECTED
     else if sn_workflowStatus snapshot = WS_REORGED then OS_REORGED
     else if sn_workflowStatus snapshot = WS_CONFIRMED then OS_CONFIRMED
     else if sn_chainStatus snapshot = CS_COMMITTED then OS_COMMITTED
     else if sn_chainStatus snapshot = CS_PROPOSED then OS_PROPOSED
     else if sn_chainStatus snapshot = CS_PENDING then OS_PENDING
     else if sn_submissionStatus snapshot = SS_NODE_REJECTED then OS_NODE_REJECTED
     else if sn_workflowStatus snapshot = WS_RECONCILING then OS_RECONCILING
     else if sn_chainStatus snapshot = CS_UNKNOWN then OS_UNKNOWN
     else if sn_submissionStatus snapshot = SS_SUBMITTED then OS_SUBMITTED
     else if sn_submissionStatus snapshot = SS_SUBMISSION_UNKNOWN then OS_UNKNOWN
     else if sn_submissionStatus snapshot = SS_BROADCASTING then OS_SUBMITTING
     else if sn_submissionStatus snapshot = SS_PREPARED then OS_PREPARED
     else OS_CREATED)"

definition conflictDomainFromDetails :: "json \<Rightarrow> ConflictDomain" where
  "conflictDomainFromDetails details =
    (case json_string (js_field (asRecord details) ''inputDomain'') of
       Some v \<Rightarrow> (if v = ''APPLICATION'' then CD_APPLICATION else if v = ''WALLET'' then CD_WALLET
                 else if v = ''MIXED'' then CD_MIXED else CD_UNKNOWN)
     | None \<Rightarrow> CD_UNKNOWN)"

definition deriveRecommendedAction ::
    "ExecutionSnapshot \<Rightarrow> ConflictType option \<Rightarrow> string option \<Rightarrow> json \<Rightarrow> json \<Rightarrow> int \<Rightarrow> RecommendedAction" where
  "deriveRecommendedAction snapshot conflictType assertionStatus conflictDetails submissionErrorDetails requiredAssertionCount =
    (if assertionStatus = Some ''FAILED'' \<or> conflictType = Some CT_EXPECTED_CELL_ASSERTION_FAILED
        \<or> conflictType = Some CT_SIGNED_PAYLOAD_MISMATCH then RA_MANUAL_REVIEW
     else if sn_workflowStatus snapshot = WS_CONFIRMED then
       (if isSettlementReady snapshot assertionStatus requiredAssertionCount conflictType
        then RA_NONE else RA_WAIT_FOR_RECONCILIATION)
     else if conflictType = Some CT_INPUT_SPENT then
       (case conflictDomainFromDetails conflictDetails of
          CD_WALLET \<Rightarrow> RA_RECOLLECT_WALLET_INPUTS
        | CD_MIXED \<Rightarrow> RA_REBUILD_AND_RESIGN
        | CD_APPLICATION \<Rightarrow> RA_REBUILD_FROM_LIVE_STATE
        | CD_UNKNOWN \<Rightarrow> RA_MANUAL_REVIEW)
     else if sn_workflowStatus snapshot = WS_REORGED \<or> conflictType = Some CT_REORG_CONFLICT then
       RA_RECONCILE_CANONICAL_STATE
     else if conflictType = Some CT_INPUT_CONFLICT_SUSPECTED then
       (let details = asRecord conflictDetails in
        if js_field details ''classification'' = Some (JStr ''MEMPOOL_CONTENDED'')
           \<and> js_field details ''graceExpired'' = Some (JBool True)
        then (case conflictDomainFromDetails conflictDetails of
                CD_WALLET \<Rightarrow> RA_RECOLLECT_WALLET_INPUTS
              | CD_APPLICATION \<Rightarrow> RA_REBUILD_FROM_LIVE_STATE
              | CD_MIXED \<Rightarrow> RA_REBUILD_AND_RESIGN
              | CD_UNKNOWN \<Rightarrow> RA_MANUAL_REVIEW)
        else RA_WAIT_AND_RECONCILE)
     else if sn_submissionStatus snapshot = SS_NODE_REJECTED
        \<and> js_field (asRecord submissionErrorDetails) ''retryable'' = Some (JBool True)
        \<and> js_field (asRecord submissionErrorDetails) ''retryReason'' = Some (JStr ''CKB_MATURITY_OR_SINCE'') then
       RA_WAIT_FOR_MATURITY
     else if sn_submissionStatus snapshot = SS_SUBMISSION_UNKNOWN then RA_WAIT_FOR_RECONCILIATION
     else if sn_workflowStatus snapshot = WS_RECONCILING \<or> sn_workflowStatus snapshot = WS_WAITING_CONFIRMATIONS then
       RA_WAIT_FOR_RECONCILIATION
     else if sn_chainStatus snapshot = CS_REJECTED \<or> sn_submissionStatus snapshot = SS_NODE_REJECTED then
       RA_MANUAL_REVIEW
     else RA_NONE)"

definition supersedeNodeRejectionFromChainEvidence ::
    "ExecutionSnapshot \<Rightarrow> ObservedStatus \<Rightarrow> ExecutionSnapshot" where
  "supersedeNodeRejectionFromChainEvidence snapshot observedStatus =
    (if sn_submissionStatus snapshot \<noteq> SS_NODE_REJECTED then snapshot
     else if observedStatus \<notin> {CO_PENDING, CO_PROPOSED, CO_COMMITTED} then snapshot
     else snapshot\<lparr>sn_submissionStatus := SS_SUBMITTED\<rparr>)"

definition initialSnapshot :: "ConfirmationPolicy \<Rightarrow> ExecutionSnapshot" where
  "initialSnapshot confirmationPolicy =
     \<lparr>sn_submissionStatus = SS_NOT_SUBMITTED, sn_chainStatus = CS_UNOBSERVED, sn_workflowStatus = WS_IDLE,
      sn_confirmationPolicy = confirmationPolicy, sn_confirmationCount = 0,
      sn_committedBlockHash = None, sn_committedBlockNumber = None, sn_rejectionReason = None\<rparr>"


section \<open>Transitions\<close>

text \<open>
  \<open>order.indexOf\<close>: the rank of a submission status in the array \<open>order\<close> of
  \<open>updateSubmission\<close>; a status that is not in the array has index \<open>-1\<close>.
\<close>

definition submission_order :: "SubmissionStatus \<Rightarrow> int" where
  "submission_order s = (case s of SS_NOT_SUBMITTED \<Rightarrow> 0 | SS_PREPARED \<Rightarrow> 1 | SS_BROADCASTING \<Rightarrow> 2
     | SS_SUBMISSION_UNKNOWN \<Rightarrow> 3 | SS_SUBMITTED \<Rightarrow> 4 | SS_NODE_REJECTED \<Rightarrow> - 1)"

lemma submission_order_inj: "submission_order a = submission_order b \<longleftrightarrow> a = b"
  by (cases a; cases b; simp add: submission_order_def)

text \<open>The same rank orders the type, so the library's order lemmas apply to it.\<close>

instantiation SubmissionStatus :: linorder
begin
definition less_eq_SubmissionStatus :: "SubmissionStatus \<Rightarrow> SubmissionStatus \<Rightarrow> bool" where
  "less_eq_SubmissionStatus a b \<longleftrightarrow> submission_order a \<le> submission_order b"
definition less_SubmissionStatus :: "SubmissionStatus \<Rightarrow> SubmissionStatus \<Rightarrow> bool" where
  "less_SubmissionStatus a b \<longleftrightarrow> submission_order a < submission_order b"
instance
  by standard (auto simp: less_eq_SubmissionStatus_def less_SubmissionStatus_def submission_order_inj)
end

definition updateSubmission ::
    "ExecutionSnapshot \<Rightarrow> SubmissionStatus \<Rightarrow> CellFlowError + ExecutionSnapshot" where
  "updateSubmission snapshot next' =
    (if sn_workflowStatus snapshot = WS_CONFLICTED \<or> sn_workflowStatus snapshot = WS_EXPIRED then
       Inl (cellFlowError TRANSITION_INVALID
         (''Cannot change submission state after '' @ workflow_name (sn_workflowStatus snapshot)) 409)
     else if sn_chainStatus snapshot = CS_REJECTED then
       Inl (cellFlowError TRANSITION_INVALID ''Cannot change submission state after authoritative rejection'' 409)
     else if sn_submissionStatus snapshot = SS_NODE_REJECTED then
       (if next' = SS_NODE_REJECTED then Inr snapshot
        else Inl (cellFlowError TRANSITION_INVALID ''Cannot change submission state after an explicit node rejection'' 409))
     else if next' = SS_NODE_REJECTED then
       (if sn_submissionStatus snapshot \<notin> {SS_PREPARED, SS_BROADCASTING, SS_SUBMISSION_UNKNOWN} then
          Inl (cellFlowError TRANSITION_INVALID
            (''Cannot record node rejection from '' @ submission_name (sn_submissionStatus snapshot)) 409)
        else Inr (snapshot\<lparr>sn_submissionStatus := next'\<rparr>))
     else
       let currentIndex = submission_order (sn_submissionStatus snapshot);
           nextIndex = submission_order next';
           allowedAmbiguousRecovery = (sn_submissionStatus snapshot = SS_SUBMISSION_UNKNOWN \<and> next' = SS_SUBMITTED) in
       if nextIndex < currentIndex \<and> \<not> allowedAmbiguousRecovery then
         Inl (cellFlowError TRANSITION_INVALID
           (''Submission state cannot move backward from '' @ submission_name (sn_submissionStatus snapshot)
            @ '' to '' @ submission_name next') 409)
       else Inr (snapshot\<lparr>sn_submissionStatus := next'\<rparr>))"

definition reorgAgainstPriorCommit :: "ExecutionSnapshot \<Rightarrow> ChainObservation \<Rightarrow> bool" where
  "reorgAgainstPriorCommit snapshot observation =
    (if \<not> truthy (sn_committedBlockHash snapshot) then False
     else if ob_priorCommitCanonical observation = Some False then True
     else if ob_status observation = CO_COMMITTED then
       truthy (ob_blockHash observation) \<and> ob_blockHash observation \<noteq> sn_committedBlockHash snapshot
     else False)"

definition applyChainObservation ::
    "ExecutionSnapshot \<Rightarrow> ChainObservation \<Rightarrow> CellFlowError + ApplyObservationResult" where
  "applyChainObservation snapshot observation =
    (let before = deriveOverallStatus snapshot in
     if sn_workflowStatus snapshot = WS_CONFLICTED \<or> sn_workflowStatus snapshot = WS_EXPIRED then
       Inl (cellFlowError TRANSITION_INVALID
         (''Cannot apply chain observation after '' @ workflow_name (sn_workflowStatus snapshot)) 409)
     else
     let reorgDetected = reorgAgainstPriorCommit snapshot observation in
     if sn_chainStatus snapshot = CS_COMMITTED \<and> ob_status observation \<noteq> CO_COMMITTED \<and> \<not> reorgDetected then
       let preserved = snapshot\<lparr>sn_workflowStatus :=
             (if sn_workflowStatus snapshot = WS_CONFIRMED then WS_CONFIRMED else WS_RECONCILING)\<rparr> in
       Inr \<lparr>ar_snapshot = preserved,
            ar_event = \<lparr>ev_kind = EK_CHAIN_OBSERVED, ev_fromOverall = before,
              ev_toOverall = deriveOverallStatus preserved, ev_at = ob_observedAt observation,
              ev_reason = Some (if ob_status observation = CO_REJECTED
                then ''Contradictory RPC rejection did not override a previously committed transaction whose recorded block remains canonical''
                else ''Non-committed RPC observation did not prove the previously committed block left the canonical chain''),
              ev_observation = Some observation\<rparr>,
            ar_reorgDetected = False\<rparr>
     else
     let confirmationCount = (if ob_status observation = CO_COMMITTED
           then computeConfirmationCount (ob_blockNumber observation) (ob_tipBlockNumber observation) else 0);
         next' = snapshot\<lparr>sn_chainStatus := CS_Observed (ob_status observation),
           sn_confirmationCount := confirmationCount,
           sn_rejectionReason := (if truthy (ob_rejectionReason observation) then ob_rejectionReason observation
             else sn_rejectionReason snapshot)\<rparr>;
         next'' =
           (if ob_status observation = CO_COMMITTED then
              next'\<lparr>sn_committedBlockHash := (if truthy (ob_blockHash observation) then ob_blockHash observation
                       else sn_committedBlockHash next'),
                    sn_committedBlockNumber := (if truthy (ob_blockNumber observation) then ob_blockNumber observation
                       else sn_committedBlockNumber next'),
                    sn_workflowStatus := (if isConfirmationSatisfied (sn_confirmationPolicy snapshot) CS_COMMITTED confirmationCount
                       then WS_CONFIRMED else WS_WAITING_CONFIRMATIONS)\<rparr>
            else if ob_status observation = CO_REJECTED then next'\<lparr>sn_workflowStatus := WS_IDLE\<rparr>
            else if reorgDetected then
              next'\<lparr>sn_committedBlockHash := None, sn_committedBlockNumber := None, sn_workflowStatus := WS_REORGED\<rparr>
            else next'\<lparr>sn_workflowStatus := WS_RECONCILING\<rparr>);
         after = deriveOverallStatus next'' in
     Inr \<lparr>ar_snapshot = next'',
          ar_event = \<lparr>ev_kind = (if reorgDetected then EK_REORG_DETECTED
                else if sn_workflowStatus next'' = WS_CONFIRMED then EK_CONFIRMED else EK_CHAIN_OBSERVED),
            ev_fromOverall = before, ev_toOverall = after, ev_at = ob_observedAt observation,
            ev_reason = (if reorgDetected
              then Some ''Previously committed transaction is no longer observed in the same canonical block'' else None),
            ev_observation = Some observation\<rparr>,
          ar_reorgDetected = reorgDetected\<rparr>)"

definition setWorkflowStatus ::
    "ExecutionSnapshot \<Rightarrow> WorkflowStatus \<Rightarrow> CellFlowError + ExecutionSnapshot" where
  "setWorkflowStatus snapshot status =
    (if status = WS_CONFIRMED \<and> sn_chainStatus snapshot \<noteq> CS_COMMITTED then
       Inl (cellFlowError TRANSITION_INVALID ''CONFIRMED requires COMMITTED chain state'' 409)
     else Inr (snapshot\<lparr>sn_workflowStatus := status\<rparr>))"


section \<open>Confirmation counting\<close>

lemma parseHex_nonneg: "parseHexBlockNumber v = Some n \<Longrightarrow> 0 \<le> n"
  by (auto simp: parseHexBlockNumber_def split: if_splits)

lemma parseHex_hex_string [simp]:
  "parseHexBlockNumber (Some (CHR ''0'' # CHR ''x'' # hex_string n)) = Some (int n)"
proof -
  have "list_all is_hex_lower (hex_string n)" by (simp add: hex_string_def radix_string_hex)
  then have "list_all is_hex_any (hex_string n)" by (auto simp: is_hex_any_def list_all_iff)
  moreover have "hex_string n \<noteq> []" by (simp add: hex_string_def)
  ultimately show ?thesis by (simp add: parseHexBlockNumber_def is_hex_number_def)
qed

lemma count_bounds:
  "0 \<le> computeConfirmationCount c t" "computeConfirmationCount c t \<le> MAX_SAFE_INTEGER"
  by (auto simp: computeConfirmationCount_def MAX_SAFE_INTEGER_def Let_def split: option.splits)

text \<open>
  On block numbers written as the RPC writes them, the confirmation count is the
  inclusive depth of the commit below the tip, saturated at the largest safe integer, and it
  is 0 when the tip is behind the commit.
\<close>

theorem confirmation_count_depth:
  "computeConfirmationCount (Some (''0x'' @ hex_string c)) (Some (''0x'' @ hex_string t))
     = min MAX_SAFE_INTEGER (max 0 (int t - int c + 1))"
  by (simp add: computeConfirmationCount_def Let_def MAX_SAFE_INTEGER_def max_def min_def)


section \<open>Submission transitions\<close>

lemma updateSubmission_frame:
  "updateSubmission s n = Inr t \<Longrightarrow> t = s\<lparr>sn_submissionStatus := n\<rparr>"
  by (auto simp: updateSubmission_def Let_def split: if_splits)

text \<open>When an update is accepted: the projection is open, and the move is forward or a rejection.\<close>

definition submission_move :: "SubmissionStatus \<Rightarrow> SubmissionStatus \<Rightarrow> bool" where
  "submission_move a b \<longleftrightarrow>
     (if a = SS_NODE_REJECTED then b = SS_NODE_REJECTED
      else if b = SS_NODE_REJECTED then SS_PREPARED \<le> a \<and> a < SS_SUBMITTED
      else a \<le> b)"

text \<open>
  \<open>updateSubmission\<close> accepts exactly the moves that go forward in the submission
  order (a rejection by the node only from a prepared, broadcasting or unknown submission, and
  from a rejection nowhere else), and only while the projection is neither conflicted, expired
  nor rejected on chain; an accepted update changes the submission status and nothing else.
\<close>

theorem updateSubmission_accepts:
  "updateSubmission s n = Inr t \<longleftrightarrow>
     sn_workflowStatus s \<notin> {WS_CONFLICTED, WS_EXPIRED} \<and> sn_chainStatus s \<noteq> CS_REJECTED
     \<and> submission_move (sn_submissionStatus s) n \<and> t = s\<lparr>sn_submissionStatus := n\<rparr>"
  by (cases "sn_submissionStatus s"; cases n)
    (auto simp: updateSubmission_def submission_move_def submission_order_def Let_def
      less_eq_SubmissionStatus_def less_SubmissionStatus_def)


section \<open>Chain observations\<close>

lemma apply_error_iff:
  "(\<exists>e. applyChainObservation s ob = Inl e) \<longleftrightarrow> sn_workflowStatus s \<in> {WS_CONFLICTED, WS_EXPIRED}"
  by (auto simp: applyChainObservation_def Let_def)

lemma apply_total:
  "sn_workflowStatus s \<notin> {WS_CONFLICTED, WS_EXPIRED} \<Longrightarrow> \<exists>r. applyChainObservation s ob = Inr r"
  by (metis apply_error_iff sum.exhaust)

lemma apply_run:
  assumes "applyChainObservation s ob = Inr r"
  shows "ev_fromOverall (ar_event r) = deriveOverallStatus s
    \<and> (ev_toOverall (ar_event r) = deriveOverallStatus (ar_snapshot r))
    \<and> (ar_reorgDetected r = reorgAgainstPriorCommit s ob)
    \<and> (ev_kind (ar_event r) = (if reorgAgainstPriorCommit s ob then EK_REORG_DETECTED
        else if sn_chainStatus (ar_snapshot r) = CS_Observed (ob_status ob) \<and> sn_workflowStatus (ar_snapshot r) = WS_CONFIRMED
        then EK_CONFIRMED else EK_CHAIN_OBSERVED))
    \<and> (if sn_chainStatus s = CS_COMMITTED \<and> ob_status ob \<noteq> CO_COMMITTED \<and> \<not> reorgAgainstPriorCommit s ob
      then ar_snapshot r = s\<lparr>sn_workflowStatus := (if sn_workflowStatus s = WS_CONFIRMED then WS_CONFIRMED else WS_RECONCILING)\<rparr>
      else sn_chainStatus (ar_snapshot r) = CS_Observed (ob_status ob)
        \<and> sn_confirmationPolicy (ar_snapshot r) = sn_confirmationPolicy s
        \<and> sn_submissionStatus (ar_snapshot r) = sn_submissionStatus s
        \<and> sn_confirmationCount (ar_snapshot r) = (if ob_status ob = CO_COMMITTED
             then computeConfirmationCount (ob_blockNumber ob) (ob_tipBlockNumber ob) else 0)
        \<and> sn_workflowStatus (ar_snapshot r) = (if ob_status ob = CO_COMMITTED
             then (if isConfirmationSatisfied (sn_confirmationPolicy s) CS_COMMITTED (sn_confirmationCount (ar_snapshot r))
               then WS_CONFIRMED else WS_WAITING_CONFIRMATIONS)
             else if ob_status ob = CO_REJECTED then WS_IDLE
             else if reorgAgainstPriorCommit s ob then WS_REORGED else WS_RECONCILING)
        \<and> (ob_status ob \<noteq> CO_COMMITTED \<longrightarrow> ob_status ob \<noteq> CO_REJECTED \<longrightarrow> reorgAgainstPriorCommit s ob
           \<longrightarrow> sn_committedBlockHash (ar_snapshot r) = None \<and> sn_committedBlockNumber (ar_snapshot r) = None))"
proof -
  let ?kept = "sn_chainStatus s = CS_COMMITTED \<and> ob_status ob \<noteq> CO_COMMITTED \<and> \<not> reorgAgainstPriorCommit s ob"
  have w: "\<not> (sn_workflowStatus s = WS_CONFLICTED \<or> sn_workflowStatus s = WS_EXPIRED)"
    using assms by (rule contrapos_pn) (simp add: applyChainObservation_def Let_def)
  note d = assms [unfolded applyChainObservation_def Let_def if_not_P [OF w]]
  consider (kept) "?kept"
    | (committed) "\<not> ?kept" "ob_status ob = CO_COMMITTED"
    | (rejected) "\<not> ?kept" "ob_status ob \<noteq> CO_COMMITTED" "ob_status ob = CO_REJECTED"
    | (reorg) "\<not> ?kept" "ob_status ob \<noteq> CO_COMMITTED" "ob_status ob \<noteq> CO_REJECTED" "reorgAgainstPriorCommit s ob"
    | (other) "\<not> ?kept" "ob_status ob \<noteq> CO_COMMITTED" "ob_status ob \<noteq> CO_REJECTED" "\<not> reorgAgainstPriorCommit s ob"
    by blast
  then show ?thesis
  proof cases
    case kept
    then show ?thesis by (auto simp: d [unfolded if_P [OF kept], THEN Inr_inject, symmetric])
  next
    case committed
    from committed(2-) show ?thesis unfolding if_not_P [OF committed(1)] by (simp add: d [unfolded if_not_P [OF committed(1)], THEN Inr_inject, symmetric])
  next
    case rejected
    from rejected(2-) show ?thesis unfolding if_not_P [OF rejected(1)] by (simp add: d [unfolded if_not_P [OF rejected(1)], THEN Inr_inject, symmetric])
  next
    case reorg
    from reorg(2-) show ?thesis unfolding if_not_P [OF reorg(1)] by (simp add: d [unfolded if_not_P [OF reorg(1)], THEN Inr_inject, symmetric])
  next
    case other
    from other(2-) show ?thesis unfolding if_not_P [OF other(1)] by (simp add: d [unfolded if_not_P [OF other(1)], THEN Inr_inject, symmetric])
  qed
qed


lemma apply_policy:
  "applyChainObservation s ob = Inr r \<Longrightarrow> sn_confirmationPolicy (ar_snapshot r) = sn_confirmationPolicy s
     \<and> sn_submissionStatus (ar_snapshot r) = sn_submissionStatus s"
  using apply_run [of s ob r] by (auto split: if_splits)

lemma apply_event_statuses:
  "applyChainObservation s ob = Inr r \<Longrightarrow>
     ev_fromOverall (ar_event r) = deriveOverallStatus s
     \<and> ev_toOverall (ar_event r) = deriveOverallStatus (ar_snapshot r)"
  using apply_run by blast

lemma apply_committed:
  assumes "applyChainObservation s ob = Inr r" and "ob_status ob = CO_COMMITTED"
  shows "sn_chainStatus (ar_snapshot r) = CS_COMMITTED"
    and "sn_confirmationCount (ar_snapshot r) = computeConfirmationCount (ob_blockNumber ob) (ob_tipBlockNumber ob)"
    and "sn_workflowStatus (ar_snapshot r) = (if isConfirmationSatisfied (sn_confirmationPolicy s) CS_COMMITTED
           (sn_confirmationCount (ar_snapshot r)) then WS_CONFIRMED else WS_WAITING_CONFIRMATIONS)"
  using apply_run [OF assms(1)] assms(2) by simp_all

lemma apply_fresh:
  assumes "applyChainObservation s ob = Inr r" and "ob_status ob \<noteq> CO_COMMITTED"
    and "sn_chainStatus s \<noteq> CS_COMMITTED \<or> reorgAgainstPriorCommit s ob"
  shows "sn_chainStatus (ar_snapshot r) = CS_Observed (ob_status ob)"
    and "sn_confirmationCount (ar_snapshot r) = 0"
    and "sn_workflowStatus (ar_snapshot r) = (if ob_status ob = CO_REJECTED then WS_IDLE
           else if reorgAgainstPriorCommit s ob then WS_REORGED else WS_RECONCILING)"
    and "ob_status ob \<noteq> CO_REJECTED \<Longrightarrow> reorgAgainstPriorCommit s ob \<Longrightarrow>
           sn_committedBlockHash (ar_snapshot r) = None \<and> sn_committedBlockNumber (ar_snapshot r) = None"
  using apply_run [OF assms(1)] assms(2,3) by (auto split: if_splits)

lemma apply_preserved:
  assumes "applyChainObservation s ob = Inr r" and "ob_status ob \<noteq> CO_COMMITTED"
    and "sn_chainStatus s = CS_COMMITTED" and "\<not> reorgAgainstPriorCommit s ob"
  shows "ar_snapshot r = s\<lparr>sn_workflowStatus :=
      (if sn_workflowStatus s = WS_CONFIRMED then WS_CONFIRMED else WS_RECONCILING)\<rparr>"
  using apply_run [OF assms(1)] assms(2-4) by simp

text \<open>
  Property C18: a committed projection survives every observation that is not itself a commit
  unless the observation proves that the recorded block left the canonical chain: commit
  block, confirmation count and a confirmed workflow are kept, whatever the RPC said.
\<close>

theorem committed_projection_preserved:
  assumes "sn_chainStatus s = CS_COMMITTED" and "sn_workflowStatus s \<notin> {WS_CONFLICTED, WS_EXPIRED}"
    and "ob_status ob \<noteq> CO_COMMITTED"
    and "truthy (sn_committedBlockHash s) \<longrightarrow> ob_priorCommitCanonical ob \<noteq> Some False"
  shows "\<exists>r. applyChainObservation s ob = Inr r
    \<and> ar_snapshot r = s\<lparr>sn_workflowStatus := (if sn_workflowStatus s = WS_CONFIRMED then WS_CONFIRMED else WS_RECONCILING)\<rparr>
    \<and> ev_kind (ar_event r) = EK_CHAIN_OBSERVED \<and> \<not> ar_reorgDetected r"
proof -
  have n: "\<not> reorgAgainstPriorCommit s ob" using assms(3,4) by (simp add: reorgAgainstPriorCommit_def)
  with assms show ?thesis by (auto simp: applyChainObservation_def Let_def)
qed

definition sample_observation :: "ObservedStatus \<Rightarrow> ChainObservation" where
  "sample_observation st = \<lparr>ob_status = st, ob_observedAt = 1700000000000, ob_raw = JNull,
     ob_blockHash = Some ''0xaa'', ob_blockNumber = Some ''0x10'', ob_tipBlockNumber = Some ''0x14'',
     ob_rejectionReason = None, ob_rpcEndpoint = Some ''https://rpc'', ob_canonicalBlockHash = Some ''0xaa'',
     ob_priorCommitCanonical = Some True\<rparr>"

definition sample_committed :: ExecutionSnapshot where
  "sample_committed = \<lparr>sn_submissionStatus = SS_SUBMITTED, sn_chainStatus = CS_COMMITTED,
     sn_workflowStatus = WS_CONFIRMED, sn_confirmationPolicy = Depth 4, sn_confirmationCount = 5,
     sn_committedBlockHash = Some ''0xaa'', sn_committedBlockNumber = Some ''0x10'', sn_rejectionReason = None\<rparr>"

theorem committed_projection_preserved_witness:
  "\<exists>r. applyChainObservation sample_committed (sample_observation CO_REJECTED) = Inr r
    \<and> ar_snapshot r = sample_committed\<lparr>sn_workflowStatus := WS_CONFIRMED\<rparr> \<and> \<not> ar_reorgDetected r"
  using committed_projection_preserved [of sample_committed "sample_observation CO_REJECTED"]
  by (auto simp: sample_committed_def sample_observation_def)





section \<open>Reachable snapshots\<close>

text \<open>
  The transitions the service and the reconciler perform on a snapshot: a submission update, a
  chain observation followed by the superseding of a node rejection, and the closing of the
  projection as conflicted (the only status \<open>setWorkflowStatus\<close> is called with).
\<close>

inductive snap_step :: "ExecutionSnapshot \<Rightarrow> ExecutionSnapshot \<Rightarrow> bool" where
  submission: "updateSubmission s n = Inr t \<Longrightarrow> snap_step s t"
| observe: "applyChainObservation s ob = Inr r \<Longrightarrow>
    snap_step s (supersedeNodeRejectionFromChainEvidence (ar_snapshot r) (ob_status ob))"
| conflict: "setWorkflowStatus s WS_CONFLICTED = Inr t \<Longrightarrow> snap_step s t"

inductive snap_reachable :: "ConfirmationPolicy \<Rightarrow> ExecutionSnapshot \<Rightarrow> bool" for p where
  initial: "snap_reachable p (initialSnapshot p)"
| step: "snap_reachable p s \<Longrightarrow> snap_step s t \<Longrightarrow> snap_reachable p t"

inductive_cases snap_stepE: "snap_step s t"

definition snap_inv :: "ConfirmationPolicy \<Rightarrow> ExecutionSnapshot \<Rightarrow> bool" where
  "snap_inv p s \<longleftrightarrow>
     sn_confirmationPolicy s = p
     \<and> (sn_workflowStatus s = WS_CONFIRMED \<longrightarrow> isConfirmationSatisfied p (sn_chainStatus s) (sn_confirmationCount s))
     \<and> (sn_workflowStatus s = WS_WAITING_CONFIRMATIONS \<longrightarrow> sn_chainStatus s = CS_COMMITTED
          \<and> \<not> isConfirmationSatisfied p CS_COMMITTED (sn_confirmationCount s))
     \<and> (sn_workflowStatus s = WS_REORGED \<longrightarrow> sn_chainStatus s \<in> {CS_UNKNOWN, CS_PENDING, CS_PROPOSED}
          \<and> sn_committedBlockHash s = None)
     \<and> (sn_chainStatus s \<noteq> CS_COMMITTED \<longrightarrow> sn_confirmationCount s = 0)
     \<and> (sn_chainStatus s = CS_UNOBSERVED \<longrightarrow> sn_committedBlockHash s = None \<and> sn_workflowStatus s \<in> {WS_IDLE, WS_CONFLICTED})
     \<and> 0 \<le> sn_confirmationCount s \<and> sn_confirmationCount s \<le> MAX_SAFE_INTEGER
     \<and> sn_workflowStatus s \<noteq> WS_EXPIRED"

lemma supersede_fields [simp]:
  "sn_chainStatus (supersedeNodeRejectionFromChainEvidence s st) = sn_chainStatus s"
  "sn_workflowStatus (supersedeNodeRejectionFromChainEvidence s st) = sn_workflowStatus s"
  "sn_confirmationPolicy (supersedeNodeRejectionFromChainEvidence s st) = sn_confirmationPolicy s"
  "sn_confirmationCount (supersedeNodeRejectionFromChainEvidence s st) = sn_confirmationCount s"
  "sn_committedBlockHash (supersedeNodeRejectionFromChainEvidence s st) = sn_committedBlockHash s"
  "sn_committedBlockNumber (supersedeNodeRejectionFromChainEvidence s st) = sn_committedBlockNumber s"
  by (simp_all add: supersedeNodeRejectionFromChainEvidence_def)

lemma snap_inv_supersede [simp]:
  "snap_inv p (supersedeNodeRejectionFromChainEvidence s st) = snap_inv p s"
  by (simp add: snap_inv_def)

lemma snap_inv_initial: "snap_inv p (initialSnapshot p)"
  by (simp add: snap_inv_def initialSnapshot_def MAX_SAFE_INTEGER_def)

lemma snap_inv_submission_field: "snap_inv p (s\<lparr>sn_submissionStatus := n\<rparr>) = snap_inv p s"
  by (simp add: snap_inv_def)

lemma snap_inv_conflict_field: "snap_inv p s \<Longrightarrow> snap_inv p (s\<lparr>sn_workflowStatus := WS_CONFLICTED\<rparr>)"
  by (simp add: snap_inv_def)

lemma snap_inv_submission: "snap_inv p s \<Longrightarrow> updateSubmission s n = Inr t \<Longrightarrow> snap_inv p t"
  using updateSubmission_frame [of s n t] by (simp add: snap_inv_submission_field)

lemma snap_inv_conflict: "snap_inv p s \<Longrightarrow> setWorkflowStatus s WS_CONFLICTED = Inr t \<Longrightarrow> snap_inv p t"
  using snap_inv_conflict_field [of p s] by (auto simp: setWorkflowStatus_def)

lemma snap_inv_observe:
  assumes i: "snap_inv p s" and a: "applyChainObservation s ob = Inr r"
  shows "snap_inv p (ar_snapshot r)"
proof -
  have p: "sn_confirmationPolicy s = p" "sn_confirmationPolicy (ar_snapshot r) = p"
    using i apply_policy [OF a] by (auto simp: snap_inv_def)
  consider (committed) "ob_status ob = CO_COMMITTED"
    | (fresh) "ob_status ob \<noteq> CO_COMMITTED" "sn_chainStatus s \<noteq> CS_COMMITTED \<or> reorgAgainstPriorCommit s ob"
    | (kept) "ob_status ob \<noteq> CO_COMMITTED" "sn_chainStatus s = CS_COMMITTED" "\<not> reorgAgainstPriorCommit s ob"
    by blast
  then show ?thesis
  proof cases
    case committed
    from apply_committed [OF a committed] p count_bounds show ?thesis
      by (simp add: snap_inv_def)
  next
    case fresh
    note f = apply_fresh [OF a fresh]
    show ?thesis
    proof (cases "ob_status ob")
      case CO_COMMITTED
      with fresh show ?thesis by simp
    qed (use f p in \<open>auto simp: snap_inv_def MAX_SAFE_INTEGER_def\<close>)
  next
    case kept
    from apply_preserved [OF a kept] i p kept(2) show ?thesis
      by (simp add: snap_inv_def)
  qed
qed

lemma snap_inv_step: "snap_step s t \<Longrightarrow> snap_inv p s \<Longrightarrow> snap_inv p t"
  by (erule snap_stepE) (auto intro: snap_inv_submission snap_inv_observe snap_inv_conflict)

text \<open>
  Property C17: in every snapshot the code can reach from the initial one, a confirmed workflow
  means a committed transaction whose depth satisfies the project's policy, a waiting one means
  committed but not deep enough, a reorganised one keeps no commit block, and there are no
  confirmations without a commit.
\<close>

theorem reachable_invariant: "snap_reachable p s \<Longrightarrow> snap_inv p s"
  by (induction rule: snap_reachable.induct) (auto intro: snap_inv_initial snap_inv_step)

theorem reachable_invariant_witness:
  "\<exists>s. snap_reachable (Depth 4) s \<and> sn_workflowStatus s = WS_CONFIRMED \<and> snap_inv (Depth 4) s"
proof -
  obtain r where r: "applyChainObservation (initialSnapshot (Depth 4)) (sample_observation CO_COMMITTED) = Inr r"
    using apply_total [of "initialSnapshot (Depth 4)" "sample_observation CO_COMMITTED"]
    by (auto simp: initialSnapshot_def)
  let ?s = "supersedeNodeRejectionFromChainEvidence (ar_snapshot r) CO_COMMITTED"
  have "snap_step (initialSnapshot (Depth 4)) ?s"
    using snap_step.observe [OF r] by (simp add: sample_observation_def)
  then have 1: "snap_reachable (Depth 4) ?s"
    by (rule snap_reachable.step [OF snap_reachable.initial])
  have "computeConfirmationCount (Some ''0x10'') (Some ''0x14'') = 5" by code_simp
  then have "sn_workflowStatus ?s = WS_CONFIRMED"
    using apply_committed [OF r] by (simp add: sample_observation_def initialSnapshot_def isConfirmationSatisfied_def)
  with 1 reachable_invariant [OF 1] show ?thesis by blast
qed

text \<open>
  A conflicted projection is final: every transition the code can make from it
  leaves the snapshot as it is, since updates and observations are refused.
\<close>

theorem conflicted_is_final:
  assumes "snap_step\<^sup>*\<^sup>* s t" and "sn_workflowStatus s = WS_CONFLICTED"
  shows "t = s"
  using assms
proof (induction rule: rtranclp_induct)
  case (step y z)
  then have y: "y = s" by simp
  from step.hyps(2) show ?case
  proof (cases rule: snap_step.cases)
    case (submission n)
    with step.prems y show ?thesis by (auto simp: updateSubmission_def)
  next
    case (observe ob r)
    with step.prems y show ?thesis using apply_error_iff [of s ob] by auto
  next
    case conflict
    with step.prems y show ?thesis by (cases s) (auto simp: setWorkflowStatus_def)
  qed
qed simp

theorem conflicted_is_final_witness:
  "\<forall>t. snap_step\<^sup>*\<^sup>* (sample_committed\<lparr>sn_workflowStatus := WS_CONFLICTED\<rparr>) t
     \<longleftrightarrow> t = sample_committed\<lparr>sn_workflowStatus := WS_CONFLICTED\<rparr>"
  using conflicted_is_final [of "sample_committed\<lparr>sn_workflowStatus := WS_CONFLICTED\<rparr>"] by auto


section \<open>Settlement and recommendations\<close>

text \<open>
  A confirmed projection is shown as needing no action exactly when it is ready
  for settlement and no assertion has failed.
\<close>

theorem no_action_iff_settled:
  "sn_workflowStatus s = WS_CONFIRMED \<and> deriveRecommendedAction s ct a cd se n = RA_NONE
     \<longleftrightarrow> isSettlementReady s a n ct \<and> a \<noteq> Some ''FAILED''"
  by (auto simp: deriveRecommendedAction_def isSettlementReady_def split: if_splits)

lemma settlement_overall: "isSettlementReady s a n ct \<Longrightarrow> deriveOverallStatus s = OS_CONFIRMED"
  by (simp add: isSettlementReady_def deriveOverallStatus_def)

lemma settlement_verified: "isSettlementReady s a n ct \<Longrightarrow> 0 < n \<Longrightarrow> a = Some ''VERIFIED''"
  by (auto simp: isSettlementReady_def)

end
