(* ===== verification/SignedPayload.thy ===== *)
theory SignedPayload
  imports CoreConfig
begin

text \<open>
  Models packages/core/src/signed-payload.ts: the canonical form of a complete signed CKB
  transaction and its fingerprint. The digest function is a parameter. The second half shows
  that the text that is hashed identifies the transaction, witnesses included, and does not
  depend on how each of its keys, numbers and hexadecimal texts is written.
\<close>

section \<open>Conversions of the language\<close>

text \<open>\<open>String(v)\<close> on a document value.\<close>

fun js_String :: "json \<Rightarrow> string" and js_join :: "json list \<Rightarrow> string" where
  "js_String JNull = ''null''"
| "js_String (JBool b) = (if b then ''true'' else ''false'')"
| "js_String (JNum n) = int_string n"
| "js_String (JStr s) = s"
| "js_String (JArr xs) = js_join xs"
| "js_String (JObj fs) = ''[object Object]''"
| "js_join [] = []"
| "js_join [x] = (if x = JNull then [] else js_String x)"
| "js_join (x # y # xs) = (if x = JNull then [] else js_String x) @ CHR '','' # js_join (y # xs)"

text \<open>\<open>BigInt(text)\<close>: \<open>None\<close> stands for the \<open>SyntaxError\<close>.\<close>

definition digits_in :: "nat \<Rightarrow> string \<Rightarrow> bool" where
  "digits_in b s \<longleftrightarrow> s \<noteq> [] \<and> list_all (\<lambda>c. is_hex_any c \<and> digit_value c < b) s"

definition js_BigInt :: "string \<Rightarrow> int option" where
  "js_BigInt text = (let s = js_trim text in
     if s = [] then Some 0
     else if take 2 s \<in> {''0x'', ''0X''} then (if digits_in 16 (drop 2 s) then Some (int (numeral_value 16 0 (drop 2 s))) else None)
     else if take 2 s \<in> {''0o'', ''0O''} then (if digits_in 8 (drop 2 s) then Some (int (numeral_value 8 0 (drop 2 s))) else None)
     else if take 2 s \<in> {''0b'', ''0B''} then (if digits_in 2 (drop 2 s) then Some (int (numeral_value 2 0 (drop 2 s))) else None)
     else if hd s = CHR ''-'' then (if digits_in 10 (tl s) then Some (- int (numeral_value 10 0 (tl s))) else None)
     else if hd s = CHR ''+'' then (if digits_in 10 (tl s) then Some (int (numeral_value 10 0 (tl s))) else None)
     else if digits_in 10 s then Some (int (numeral_value 10 0 s)) else None)"

text \<open>\<open>new TextEncoder().encode(text)\<close> for code units below 256.\<close>

definition utf8_encode :: "string \<Rightarrow> nat list" where
  "utf8_encode s = concat (map (\<lambda>c. if code_unit c < 128 then [code_unit c]
     else [192 + code_unit c div 64, 128 + code_unit c mod 64]) s)"


section \<open>The file\<close>

text \<open>An \<open>asRecord\<close> that returns null: \<open>None\<close> for everything but an object.\<close>

definition asRecordOrNull :: "json option \<Rightarrow> (string \<times> json) list option" where
  "asRecordOrNull value' = (case value' of Some (JObj fs) \<Rightarrow> Some fs | _ \<Rightarrow> None)"

fun pick :: "(string \<times> json) list \<Rightarrow> string list \<Rightarrow> json option" where
  "pick fs [] = None"
| "pick fs (key # keys) = (case js_field fs key of Some v \<Rightarrow> Some v | None \<Rightarrow> pick fs keys)"

definition normalizeHex :: "json option \<Rightarrow> string option" where
  "normalizeHex value' = (case value' of
     None \<Rightarrow> None
   | Some JNull \<Rightarrow> None
   | Some v \<Rightarrow> let text = toLowerCase (js_trim (js_String v)) in
       if take 2 text = ''0x'' \<and> list_all is_hex_lower (drop 2 text) then Some text else None)"

definition normalizeInteger :: "json option \<Rightarrow> string option" where
  "normalizeInteger value' = (case value' of
     None \<Rightarrow> None
   | Some JNull \<Rightarrow> None
   | Some v \<Rightarrow>
       (case (case v of JNum n \<Rightarrow> Some n | _ \<Rightarrow> js_BigInt (js_String v)) of
          None \<Rightarrow> None
        | Some parsed \<Rightarrow> if parsed < 0 then None else Some (''0x'' @ hex_string (nat parsed))))"

definition normalizeOutPoint :: "json option \<Rightarrow> json option" where
  "normalizeOutPoint value' = (case asRecordOrNull value' of
     None \<Rightarrow> None
   | Some record' \<Rightarrow>
       (case (normalizeHex (pick record' [''txHash'', ''tx_hash'']), normalizeInteger (pick record' [''index''])) of
          (Some txHash, Some index) \<Rightarrow> Some (JObj [(''txHash'', JStr txHash), (''index'', JStr index)])
        | _ \<Rightarrow> None))"

definition normalizeScript :: "json option \<Rightarrow> json option" where
  "normalizeScript value' = (case asRecordOrNull value' of
     None \<Rightarrow> None
   | Some record' \<Rightarrow>
       (case (normalizeHex (pick record' [''codeHash'', ''code_hash'']),
              json_string (pick record' [''hashType'', ''hash_type'']),
              normalizeHex (pick record' [''args''])) of
          (Some codeHash, Some hashType, Some args) \<Rightarrow>
            Some (JObj [(''codeHash'', JStr codeHash), (''hashType'', JStr hashType), (''args'', JStr args)])
        | _ \<Rightarrow> None))"

definition normalizeCellDep :: "json \<Rightarrow> json option" where
  "normalizeCellDep value' = (case asRecordOrNull (Some value') of
     None \<Rightarrow> None
   | Some record' \<Rightarrow>
       (case (normalizeOutPoint (pick record' [''outPoint'', ''out_point'']),
              json_string (pick record' [''depType'', ''dep_type''])) of
          (Some outPoint, Some depTypeValue) \<Rightarrow>
            let depType = (if depTypeValue = ''depGroup'' then ''dep_group'' else depTypeValue) in
            Some (JObj [(''outPoint'', outPoint), (''depType'', JStr depType)])
        | _ \<Rightarrow> None))"

definition normalizeInput :: "json \<Rightarrow> json option" where
  "normalizeInput value' = (case asRecordOrNull (Some value') of
     None \<Rightarrow> None
   | Some record' \<Rightarrow>
       (case (normalizeOutPoint (pick record' [''previousOutput'', ''previous_output'']),
              normalizeInteger (pick record' [''since''])) of
          (Some previousOutput, Some since) \<Rightarrow>
            Some (JObj [(''since'', JStr since), (''previousOutput'', previousOutput)])
        | _ \<Rightarrow> None))"

definition normalizeOutput :: "json \<Rightarrow> json option" where
  "normalizeOutput value' = (case asRecordOrNull (Some value') of
     None \<Rightarrow> None
   | Some record' \<Rightarrow>
       let typeValue = pick record' [''type''];
           noType = (typeValue = None \<or> typeValue = Some JNull);
           type' = (if noType then None else normalizeScript typeValue) in
       (case (normalizeInteger (pick record' [''capacity'']), normalizeScript (pick record' [''lock''])) of
          (Some capacity, Some lock) \<Rightarrow>
            if \<not> noType \<and> type' = None then None
            else Some (JObj [(''capacity'', JStr capacity), (''lock'', lock),
              (''type'', case type' of Some t \<Rightarrow> t | None \<Rightarrow> JNull)])
        | _ \<Rightarrow> None))"

fun normalize_all :: "(json \<Rightarrow> 'a option) \<Rightarrow> json list \<Rightarrow> 'a list option" where
  "normalize_all item [] = Some []"
| "normalize_all item (e # es) = (case item e of None \<Rightarrow> None
     | Some x \<Rightarrow> map_option (Cons x) (normalize_all item es))"

definition normalizeArray :: "json option \<Rightarrow> (json \<Rightarrow> 'a option) \<Rightarrow> 'a list option" where
  "normalizeArray value' item = (case value' of Some (JArr es) \<Rightarrow> normalize_all item es | _ \<Rightarrow> None)"

definition normalizeHexArray :: "json option \<Rightarrow> string list option" where
  "normalizeHexArray value' = normalizeArray value' (\<lambda>entry. normalizeHex (Some entry))"

text \<open>The text the fingerprint is computed over, or null.\<close>

definition signedPayloadCanonical :: "json \<Rightarrow> string option" where
  "signedPayloadCanonical value' = (case asRecordOrNull (Some value') of
     None \<Rightarrow> None
   | Some record' \<Rightarrow>
       (case (normalizeInteger (pick record' [''version'']),
              normalizeArray (pick record' [''cellDeps'', ''cell_deps'']) normalizeCellDep,
              normalizeHexArray (pick record' [''headerDeps'', ''header_deps'']),
              normalizeArray (pick record' [''inputs'']) normalizeInput,
              normalizeArray (pick record' [''outputs'']) normalizeOutput,
              normalizeHexArray (pick record' [''outputsData'', ''outputs_data'']),
              normalizeHexArray (pick record' [''witnesses''])) of
          (Some version, Some cellDeps, Some headerDeps, Some inputs, Some outputs, Some outputsData, Some witnesses) \<Rightarrow>
            if length outputs \<noteq> length outputsData then None
            else Some (json_stringify (JObj [(''version'', JStr version), (''cellDeps'', JArr cellDeps),
              (''headerDeps'', JArr (map JStr headerDeps)), (''inputs'', JArr inputs), (''outputs'', JArr outputs),
              (''outputsData'', JArr (map JStr outputsData)), (''witnesses'', JArr (map JStr witnesses))]))
        | _ \<Rightarrow> None))"

definition byte_hex :: "nat \<Rightarrow> string" where
  "byte_hex n = (let s = hex_string n in if length s < 2 then CHR ''0'' # s else s)"

definition signedPayloadFingerprintSha256 :: "(nat list \<Rightarrow> nat list) \<Rightarrow> json \<Rightarrow> string option" where
  "signedPayloadFingerprintSha256 sha256 value' =
     map_option (\<lambda>canonical. ''0x'' @ concat (map byte_hex (sha256 (utf8_encode canonical)))) (signedPayloadCanonical value')"


section \<open>Signed transactions and their spellings\<close>

record TxOutPoint =
  to_hash :: string
  to_index :: nat

record TxScript =
  ts_codeHash :: string
  ts_hashType :: string
  ts_args :: string

datatype DepType = Dep_code | Dep_group

record SignedTx =
  tx_version :: nat
  tx_cellDeps :: "(TxOutPoint \<times> DepType) list"
  tx_headerDeps :: "string list"
  tx_inputs :: "(nat \<times> TxOutPoint) list"
  tx_outputs :: "(nat \<times> TxScript \<times> TxScript option) list"
  tx_outputsData :: "string list"
  tx_witnesses :: "string list"

definition hex_text :: "string \<Rightarrow> bool" where
  "hex_text s \<longleftrightarrow> take 2 s = ''0x'' \<and> list_all is_hex_lower (drop 2 s)"

text \<open>
  How a document may spell a transaction, field by field: a key in camel case or in snake case, but
  not both; a number as a number or as any text that \<open>BigInt\<close> reads as it; hexadecimal text in any
  letter case and with spaces around it; further keys, in any order. The relations do not mention the
  normalisation.
\<close>

definition named :: "(string \<times> json) list \<Rightarrow> string \<Rightarrow> string \<Rightarrow> json \<Rightarrow> bool" where
  "named fs camel snake v \<longleftrightarrow> (js_field fs camel = Some v \<and> js_field fs snake = None)
     \<or> (js_field fs camel = None \<and> js_field fs snake = Some v)"

definition spelled_hex :: "json \<Rightarrow> string \<Rightarrow> bool" where
  "spelled_hex v h \<longleftrightarrow> hex_text h \<and> (\<exists>text. v = JStr text \<and> toLowerCase (js_trim text) = h)"

definition spelled_nat :: "json \<Rightarrow> nat \<Rightarrow> bool" where
  "spelled_nat v n \<longleftrightarrow> v = JNum (int n) \<or> (\<exists>text. v = JStr text \<and> js_BigInt text = Some (int n))"

definition spells_outPoint :: "json \<Rightarrow> TxOutPoint \<Rightarrow> bool" where
  "spells_outPoint j p \<longleftrightarrow> (\<exists>fs h i. j = JObj fs \<and> named fs ''txHash'' ''tx_hash'' h \<and> spelled_hex h (to_hash p)
     \<and> js_field fs ''index'' = Some i \<and> spelled_nat i (to_index p))"

definition spells_script :: "json \<Rightarrow> TxScript \<Rightarrow> bool" where
  "spells_script j s \<longleftrightarrow> (\<exists>fs c a. j = JObj fs \<and> named fs ''codeHash'' ''code_hash'' c \<and> spelled_hex c (ts_codeHash s)
     \<and> named fs ''hashType'' ''hash_type'' (JStr (ts_hashType s)) \<and> js_field fs ''args'' = Some a \<and> spelled_hex a (ts_args s))"

definition spells_dep :: "json \<Rightarrow> TxOutPoint \<times> DepType \<Rightarrow> bool" where
  "spells_dep j x \<longleftrightarrow> (\<exists>fs p d. j = JObj fs \<and> named fs ''outPoint'' ''out_point'' p \<and> spells_outPoint p (fst x)
     \<and> named fs ''depType'' ''dep_type'' (JStr d)
     \<and> (case snd x of Dep_code \<Rightarrow> d = ''code'' | Dep_group \<Rightarrow> d = ''depGroup'' \<or> d = ''dep_group''))"

definition spells_input :: "json \<Rightarrow> nat \<times> TxOutPoint \<Rightarrow> bool" where
  "spells_input j x \<longleftrightarrow> (\<exists>fs p n. j = JObj fs \<and> named fs ''previousOutput'' ''previous_output'' p \<and> spells_outPoint p (snd x)
     \<and> js_field fs ''since'' = Some n \<and> spelled_nat n (fst x))"

definition spells_output :: "json \<Rightarrow> nat \<times> TxScript \<times> TxScript option \<Rightarrow> bool" where
  "spells_output j x \<longleftrightarrow> (case x of (c, l, ty) \<Rightarrow> \<exists>fs n lock. j = JObj fs \<and> js_field fs ''capacity'' = Some n \<and> spelled_nat n c
     \<and> js_field fs ''lock'' = Some lock \<and> spells_script lock l
     \<and> (case ty of None \<Rightarrow> js_field fs ''type'' \<in> {None, Some JNull}
        | Some s \<Rightarrow> \<exists>v. js_field fs ''type'' = Some v \<and> spells_script v s))"

definition spells_tx :: "json \<Rightarrow> SignedTx \<Rightarrow> bool" where
  "spells_tx j t \<longleftrightarrow> (\<exists>fs v cellDeps headerDeps inputs outputs outputsData witnesses. j = JObj fs
     \<and> js_field fs ''version'' = Some v \<and> spelled_nat v (tx_version t)
     \<and> named fs ''cellDeps'' ''cell_deps'' (JArr cellDeps) \<and> list_all2 spells_dep cellDeps (tx_cellDeps t)
     \<and> named fs ''headerDeps'' ''header_deps'' (JArr headerDeps) \<and> list_all2 spelled_hex headerDeps (tx_headerDeps t)
     \<and> js_field fs ''inputs'' = Some (JArr inputs) \<and> list_all2 spells_input inputs (tx_inputs t)
     \<and> js_field fs ''outputs'' = Some (JArr outputs) \<and> list_all2 spells_output outputs (tx_outputs t)
     \<and> named fs ''outputsData'' ''outputs_data'' (JArr outputsData) \<and> list_all2 spelled_hex outputsData (tx_outputsData t)
     \<and> js_field fs ''witnesses'' = Some (JArr witnesses) \<and> list_all2 spelled_hex witnesses (tx_witnesses t)
     \<and> length (tx_outputs t) = length (tx_outputsData t))"

text \<open>The canonical document, independent of the spelling.\<close>

definition norm_outPoint :: "TxOutPoint \<Rightarrow> json" where
  "norm_outPoint p = JObj [(''txHash'', JStr (to_hash p)), (''index'', JStr (''0x'' @ hex_string (to_index p)))]"

definition norm_script :: "TxScript \<Rightarrow> json" where
  "norm_script s = JObj [(''codeHash'', JStr (ts_codeHash s)), (''hashType'', JStr (ts_hashType s)), (''args'', JStr (ts_args s))]"

definition norm_dep :: "TxOutPoint \<times> DepType \<Rightarrow> json" where
  "norm_dep x = JObj [(''outPoint'', norm_outPoint (fst x)),
     (''depType'', JStr (case snd x of Dep_code \<Rightarrow> ''code'' | Dep_group \<Rightarrow> ''dep_group''))]"

definition norm_input :: "nat \<times> TxOutPoint \<Rightarrow> json" where
  "norm_input x = JObj [(''since'', JStr (''0x'' @ hex_string (fst x))), (''previousOutput'', norm_outPoint (snd x))]"

definition norm_output :: "nat \<times> TxScript \<times> TxScript option \<Rightarrow> json" where
  "norm_output x = (case x of (c, l, ty) \<Rightarrow> JObj [(''capacity'', JStr (''0x'' @ hex_string c)), (''lock'', norm_script l),
     (''type'', case ty of None \<Rightarrow> JNull | Some s \<Rightarrow> norm_script s)])"

definition norm_tx :: "SignedTx \<Rightarrow> json" where
  "norm_tx t = JObj [(''version'', JStr (''0x'' @ hex_string (tx_version t))), (''cellDeps'', JArr (map norm_dep (tx_cellDeps t))),
     (''headerDeps'', JArr (map JStr (tx_headerDeps t))), (''inputs'', JArr (map norm_input (tx_inputs t))),
     (''outputs'', JArr (map norm_output (tx_outputs t))), (''outputsData'', JArr (map JStr (tx_outputsData t))),
     (''witnesses'', JArr (map JStr (tx_witnesses t)))]"

lemma named_pick: "named fs camel snake v \<Longrightarrow> pick fs [camel, snake] = Some v"
  by (auto simp: named_def)

lemma normalizeHex_spelled: "spelled_hex v h \<Longrightarrow> normalizeHex (Some v) = Some h"
  by (auto simp: spelled_hex_def normalizeHex_def Let_def hex_text_def)

lemma normalizeInteger_spelled: "spelled_nat v n \<Longrightarrow> normalizeInteger (Some v) = Some (CHR ''0'' # CHR ''x'' # hex_string n)"
  by (auto simp: spelled_nat_def normalizeInteger_def)

lemma normalizeOutPoint_spelled: "spells_outPoint j p \<Longrightarrow> normalizeOutPoint (Some j) = Some (norm_outPoint p)"
  by (auto simp: spells_outPoint_def normalizeOutPoint_def asRecordOrNull_def norm_outPoint_def named_pick normalizeHex_spelled
      normalizeInteger_spelled simp del: pick.simps(2)) (simp add: normalizeInteger_spelled)

lemma normalizeScript_spelled: "spells_script j s \<Longrightarrow> normalizeScript (Some j) = Some (norm_script s)"
  by (auto simp: spells_script_def normalizeScript_def asRecordOrNull_def norm_script_def named_pick normalizeHex_spelled
      simp del: pick.simps(2)) (simp add: normalizeHex_spelled)

lemma normalizeCellDep_spelled: "spells_dep j x \<Longrightarrow> normalizeCellDep j = Some (norm_dep x)"
  by (auto simp: spells_dep_def normalizeCellDep_def asRecordOrNull_def norm_dep_def named_pick normalizeOutPoint_spelled Let_def
      simp del: pick.simps(2) split: DepType.splits)

lemma normalizeInput_spelled: "spells_input j x \<Longrightarrow> normalizeInput j = Some (norm_input x)"
  by (auto simp: spells_input_def normalizeInput_def asRecordOrNull_def norm_input_def named_pick normalizeOutPoint_spelled
      simp del: pick.simps(2)) (simp add: normalizeInteger_spelled)

lemma spells_script_not_null: "\<not> spells_script JNull s"
  by (simp add: spells_script_def)

lemma normalizeOutput_spelled: "spells_output j x \<Longrightarrow> normalizeOutput j = Some (norm_output x)"
  by (auto simp: spells_output_def normalizeOutput_def asRecordOrNull_def norm_output_def normalizeScript_spelled
      normalizeInteger_spelled spells_script_not_null Let_def split: option.splits)

lemma normalize_all_spelled:
  "list_all2 R es xs \<Longrightarrow> (\<And>e x. R e x \<Longrightarrow> item e = Some (g x)) \<Longrightarrow> normalizeArray (Some (JArr es)) item = Some (map g xs)"
  unfolding normalizeArray_def by (simp, induction rule: list_all2_induct) auto

lemma normalizeHexArray_spelled: "list_all2 spelled_hex es xs \<Longrightarrow> normalizeHexArray (Some (JArr es)) = Some xs"
  using normalize_all_spelled [where g = "\<lambda>x. x" and R = spelled_hex, OF _ normalizeHex_spelled] by (simp add: normalizeHexArray_def)

lemma canonical_spelled:
  assumes "spells_tx j t"
  shows "signedPayloadCanonical j = Some (json_stringify (norm_tx t))"
proof -
  from assms obtain fs v cellDeps headerDeps inputs outputs outputsData witnesses where j: "j = JObj fs"
    and f: "js_field fs ''version'' = Some v" "spelled_nat v (tx_version t)"
      "named fs ''cellDeps'' ''cell_deps'' (JArr cellDeps)" "list_all2 spells_dep cellDeps (tx_cellDeps t)"
      "named fs ''headerDeps'' ''header_deps'' (JArr headerDeps)" "list_all2 spelled_hex headerDeps (tx_headerDeps t)"
      "js_field fs ''inputs'' = Some (JArr inputs)" "list_all2 spells_input inputs (tx_inputs t)"
      "js_field fs ''outputs'' = Some (JArr outputs)" "list_all2 spells_output outputs (tx_outputs t)"
      "named fs ''outputsData'' ''outputs_data'' (JArr outputsData)" "list_all2 spelled_hex outputsData (tx_outputsData t)"
      "js_field fs ''witnesses'' = Some (JArr witnesses)" "list_all2 spelled_hex witnesses (tx_witnesses t)"
      "length (tx_outputs t) = length (tx_outputsData t)"
    unfolding spells_tx_def by blast
  have picks: "pick fs [''version''] = Some v" "pick fs [''inputs''] = Some (JArr inputs)" "pick fs [''outputs''] = Some (JArr outputs)"
    "pick fs [''witnesses''] = Some (JArr witnesses)" "pick fs [''cellDeps'', ''cell_deps''] = Some (JArr cellDeps)"
    "pick fs [''headerDeps'', ''header_deps''] = Some (JArr headerDeps)"
    "pick fs [''outputsData'', ''outputs_data''] = Some (JArr outputsData)"
    using f by (simp_all add: named_pick del: pick.simps(2)) (simp_all)
  have parts: "normalizeArray (Some (JArr cellDeps)) normalizeCellDep = Some (map norm_dep (tx_cellDeps t))"
    "normalizeArray (Some (JArr inputs)) normalizeInput = Some (map norm_input (tx_inputs t))"
    "normalizeArray (Some (JArr outputs)) normalizeOutput = Some (map norm_output (tx_outputs t))"
    by (rule normalize_all_spelled [OF f(4) normalizeCellDep_spelled] normalize_all_spelled [OF f(8) normalizeInput_spelled]
        normalize_all_spelled [OF f(10) normalizeOutput_spelled]; assumption)+
  show ?thesis
    unfolding signedPayloadCanonical_def j asRecordOrNull_def option.case json.case picks parts
      normalizeHexArray_spelled [OF f(6)] normalizeHexArray_spelled [OF f(12)] normalizeHexArray_spelled [OF f(14)]
      normalizeInteger_spelled [OF f(2)] prod.case norm_tx_def
    using f(15) by simp
qed

lemma norm_outPoint_inj: "norm_outPoint a = norm_outPoint b \<longleftrightarrow> a = b"
  by (cases a; cases b) (auto simp: norm_outPoint_def hex_string_inj)

lemma norm_script_inj: "norm_script a = norm_script b \<longleftrightarrow> a = b"
  by (cases a; cases b) (auto simp: norm_script_def)

lemma norm_dep_inj: "norm_dep a = norm_dep b \<longleftrightarrow> a = b"
  by (cases a; cases b) (auto simp: norm_dep_def norm_outPoint_inj split: DepType.splits)

lemma norm_input_inj: "norm_input a = norm_input b \<longleftrightarrow> a = b"
  by (cases a; cases b) (auto simp: norm_input_def norm_outPoint_inj hex_string_inj)

lemma norm_script_not_null: "norm_script s \<noteq> JNull" "JNull \<noteq> norm_script s"
  by (simp_all add: norm_script_def)

lemma norm_output_inj: "norm_output a = norm_output b \<longleftrightarrow> a = b"
  by (cases a; cases b) (auto simp: norm_output_def norm_script_inj norm_script_not_null hex_string_inj split: option.splits)

lemma norm_tx_inj: "norm_tx a = norm_tx b \<longleftrightarrow> a = b"
proof
  have j: "inj JStr" "inj norm_dep" "inj norm_input" "inj norm_output"
    by (auto simp: inj_def norm_dep_inj norm_input_inj norm_output_inj)
  assume "norm_tx a = norm_tx b"
  then show "a = b"
    using j by (cases a; cases b) (simp add: norm_tx_def hex_string_inj inj_map_eq_map)
qed simp

text \<open>
  Property C38: the text that is hashed into the signed-payload fingerprint is defined for every
  document that spells a signed transaction, however each of its keys, numbers and hexadecimal texts
  is written; two documents that spell the same transaction have the same text, and documents of
  different transactions have different texts: every witness, input, output, dependency and the
  version count.
\<close>

theorem signed_payload_identifies:
  assumes "spells_tx j a" and "spells_tx k b"
  shows "signedPayloadCanonical j \<noteq> None \<and> (signedPayloadCanonical j = signedPayloadCanonical k \<longleftrightarrow> a = b)"
  using assms by (simp add: canonical_spelled json_stringify_inj norm_tx_inj)

definition sample_tx :: "string \<Rightarrow> SignedTx" where
  "sample_tx w = \<lparr>tx_version = 0, tx_cellDeps = [(\<lparr>to_hash = ''0xab'', to_index = 3\<rparr>, Dep_group)],
     tx_headerDeps = [], tx_inputs = [(0, \<lparr>to_hash = ''0xcd'', to_index = 1\<rparr>)],
     tx_outputs = [(61, \<lparr>ts_codeHash = ''0x9b'', ts_hashType = ''type'', ts_args = ''0x''\<rparr>, None)],
     tx_outputsData = [''0x''], tx_witnesses = [w]\<rparr>"

text \<open>Two documents, each in a mixture of spellings of its own.\<close>

definition sdk_document :: "string \<Rightarrow> json" where
  "sdk_document w = JObj [(''version'', JNum 0),
     (''cellDeps'', JArr [JObj [(''outPoint'', JObj [(''tx_hash'', JStr ''0xAB''), (''index'', JStr ''0x3'')]), (''dep_type'', JStr ''depGroup'')]]),
     (''header_deps'', JArr []),
     (''inputs'', JArr [JObj [(''since'', JStr ''0x0''), (''previousOutput'', JObj [(''txHash'', JStr ''0xcd''), (''index'', JNum 1)])]]),
     (''outputs'', JArr [JObj [(''capacity'', JStr ''61''), (''lock'', JObj [(''codeHash'', JStr ''0x9B''), (''hash_type'', JStr ''type''),
        (''args'', JStr ''0x'')])]]),
     (''outputsData'', JArr [JStr ''0x'']), (''witnesses'', JArr [JStr w]), (''hash'', JStr ''0x00'')]"

definition rpc_document :: "string \<Rightarrow> json" where
  "rpc_document w = JObj [(''witnesses'', JArr [JStr w]), (''version'', JStr ''0x0''),
     (''cell_deps'', JArr [JObj [(''dep_type'', JStr ''dep_group''), (''out_point'', JObj [(''tx_hash'', JStr ''0xab''), (''index'', JNum 3)])]]),
     (''header_deps'', JArr []),
     (''inputs'', JArr [JObj [(''since'', JStr ''0''), (''previous_output'', JObj [(''tx_hash'', JStr ''0xcd''), (''index'', JStr ''0x1'')])]]),
     (''outputs'', JArr [JObj [(''capacity'', JStr ''0x3d''), (''lock'', JObj [(''code_hash'', JStr ''0x9b''), (''hash_type'', JStr ''type''),
        (''args'', JStr ''0x'')]), (''type'', JNull)]]),
     (''outputs_data'', JArr [JStr ''0x''])]"

lemma sample_texts:
  "hex_text ''0xab'' \<and> hex_text ''0xcd'' \<and> hex_text ''0x9b'' \<and> hex_text ''0x'' \<and> hex_text ''0x01'' \<and> hex_text ''0x02''"
  "toLowerCase (js_trim ''0xAB'') = ''0xab'' \<and> toLowerCase (js_trim ''0xab'') = ''0xab'' \<and> toLowerCase (js_trim ''0xcd'') = ''0xcd''
     \<and> toLowerCase (js_trim ''0x9B'') = ''0x9b'' \<and> toLowerCase (js_trim ''0x9b'') = ''0x9b'' \<and> toLowerCase (js_trim ''0x'') = ''0x''
     \<and> toLowerCase (js_trim ''0x01'') = ''0x01'' \<and> toLowerCase (js_trim ''0x02'') = ''0x02''"
  "js_BigInt ''0x0'' = Some 0 \<and> js_BigInt ''0'' = Some 0 \<and> js_BigInt ''0x1'' = Some 1 \<and> js_BigInt ''0x3'' = Some 3
     \<and> js_BigInt ''61'' = Some 61 \<and> js_BigInt ''0x3d'' = Some 61"
  by code_simp+

lemma sample_spelled:
  "w \<in> {''0x01'', ''0x02''} \<Longrightarrow> spells_tx (sdk_document w) (sample_tx w)" "w \<in> {''0x01'', ''0x02''} \<Longrightarrow> spells_tx (rpc_document w) (sample_tx w)"
  by (auto simp: spells_tx_def sdk_document_def rpc_document_def sample_tx_def named_def spells_dep_def spells_input_def
      spells_output_def spells_outPoint_def spells_script_def spelled_nat_def spelled_hex_def sample_texts js_field_def)

theorem signed_payload_identifies_witness:
  "signedPayloadCanonical (sdk_document ''0x01'') = signedPayloadCanonical (rpc_document ''0x01'')
     \<and> signedPayloadCanonical (sdk_document ''0x01'') \<noteq> signedPayloadCanonical (rpc_document ''0x02'')"
proof -
  have "signedPayloadCanonical (sdk_document ''0x01'') = signedPayloadCanonical (rpc_document ''0x01'')"
    using signed_payload_identifies [OF sample_spelled(1) sample_spelled(2), of "''0x01''" "''0x01''"] by simp
  moreover have "signedPayloadCanonical (sdk_document ''0x01'') \<noteq> signedPayloadCanonical (rpc_document ''0x02'')"
    using signed_payload_identifies [OF sample_spelled(1) sample_spelled(2), of "''0x01''" "''0x02''"] by (simp add: sample_tx_def)
  ultimately show ?thesis ..
qed

end
