(* ===== verification/Assertions.thy ===== *)
theory Assertions
  imports StateMachine
begin

text \<open>
  Models packages/assertions/src/index.ts: the comparison of an expected Cell with an output of
  a transaction and with a live Cell. Optional fields are options; the field \<open>type\<close>, which may
  be absent, null or a script, is an option of an option. The theorems give the meaning of a
  passing assertion without the list of checks.
\<close>

record RpcScript =
  rs_code_hash :: string
  rs_hash_type :: string
  rs_args :: string

record RpcCellOutput =
  ro_capacity :: string
  ro_lock :: RpcScript
  ro_type :: "RpcScript option"

record RpcTransactionLike =
  rt_outputs :: "RpcCellOutput list"
  rt_outputs_data :: "string list"

datatype RpcCellData = DataText string | DataObject "string option" "string option" | DataNull

record RpcLiveCellLike =
  rl_status :: string
  rl_block_hash :: "string option"
  rl_cell :: "(RpcCellOutput \<times> RpcCellData) option"

record ScriptAssertion =
  sa_codeHash :: "string option"
  sa_hashType :: "string option"
  sa_args :: "string option"

datatype CellMode = Created | Live

record ExpectedCellAssertion =
  ea_outputIndex :: int
  ea_mode :: "CellMode option"
  ea_capacity :: "string option"
  ea_lock :: "ScriptAssertion option"
  ea_type :: "ScriptAssertion option option"
  ea_data :: "string option"

record AssertionCheck =
  ck_field :: string
  ck_expected :: json
  ck_actual :: json
  ck_ok :: bool

record AssertionResult =
  as_ok :: bool
  as_outputIndex :: int
  as_mode :: CellMode
  as_checks :: "AssertionCheck list"
  as_evidence :: "(string \<times> json) list option"

definition check :: "string \<Rightarrow> json \<Rightarrow> json \<Rightarrow> bool \<Rightarrow> AssertionCheck" where
  "check field expected actual ok = \<lparr>ck_field = field, ck_expected = expected, ck_actual = actual, ck_ok = ok\<rparr>"

lemma check_ok [simp]: "ck_ok (check f e a b) = b"
  by (simp add: check_def)

definition normalizeIntegerHex :: "string \<Rightarrow> int option" where
  "normalizeIntegerHex value' = (if \<not> is_hex_number value' then None
     else Some (int (numeral_value 16 0 (drop 2 value'))))"

definition hexEq :: "string option \<Rightarrow> string option \<Rightarrow> bool" where
  "hexEq a b = (case (a, b) of (Some x, Some y) \<Rightarrow> toLowerCase x = toLowerCase y | _ \<Rightarrow> a = b)"

definition integerHexEq :: "string \<Rightarrow> string \<Rightarrow> bool" where
  "integerHexEq a b = (case (normalizeIntegerHex a, normalizeIntegerHex b) of
     (Some left, Some right) \<Rightarrow> left = right | _ \<Rightarrow> hexEq (Some a) (Some b))"

definition scriptChecks :: "string \<Rightarrow> ScriptAssertion \<Rightarrow> RpcScript option \<Rightarrow> AssertionCheck list" where
  "scriptChecks prefix' expected actual =
     (case sa_codeHash expected of None \<Rightarrow> [] | Some h \<Rightarrow>
        [check (prefix' @ ''.codeHash'') (JStr h) (opt_json (map_option rs_code_hash actual))
           (hexEq (Some h) (map_option rs_code_hash actual))])
     @ (case sa_hashType expected of None \<Rightarrow> [] | Some h \<Rightarrow>
        [check (prefix' @ ''.hashType'') (JStr h) (opt_json (map_option rs_hash_type actual))
           (Some h = map_option rs_hash_type actual)])
     @ (case sa_args expected of None \<Rightarrow> [] | Some h \<Rightarrow>
        [check (prefix' @ ''.args'') (JStr h) (opt_json (map_option rs_args actual))
           (hexEq (Some h) (map_option rs_args actual))])"

definition assertionHasChecks :: "ExpectedCellAssertion \<Rightarrow> bool" where
  "assertionHasChecks assertion \<longleftrightarrow> ea_capacity assertion \<noteq> None \<or> ea_lock assertion \<noteq> None
     \<or> ea_type assertion \<noteq> None \<or> ea_data assertion \<noteq> None"

definition script_json :: "RpcScript \<Rightarrow> json" where
  "script_json s = JObj [(''code_hash'', JStr (rs_code_hash s)), (''hash_type'', JStr (rs_hash_type s)),
     (''args'', JStr (rs_args s))]"

definition verifyCellOutput ::
    "RpcCellOutput option \<Rightarrow> string option \<Rightarrow> ExpectedCellAssertion \<Rightarrow> CellMode \<Rightarrow> AssertionResult" where
  "verifyCellOutput output data' assertion mode =
    (case output of
       None \<Rightarrow> \<lparr>as_ok = False, as_outputIndex = ea_outputIndex assertion, as_mode = mode,
          as_checks = [check ''outputIndex'' (JNum (ea_outputIndex assertion)) JNull False], as_evidence = None\<rparr>
     | Some out \<Rightarrow>
       if \<not> assertionHasChecks assertion then
         \<lparr>as_ok = False, as_outputIndex = ea_outputIndex assertion, as_mode = mode,
          as_checks = [check ''assertion'' (JStr ''at least one Cell field check'') (JStr ''empty'') False],
          as_evidence = None\<rparr>
       else
         let checks =
           (case ea_capacity assertion of None \<Rightarrow> [] | Some c \<Rightarrow>
              [check ''capacity'' (JStr c) (JStr (ro_capacity out)) (integerHexEq c (ro_capacity out))])
           @ (case ea_lock assertion of None \<Rightarrow> [] | Some l \<Rightarrow> scriptChecks ''lock'' l (Some (ro_lock out)))
           @ (case ea_type assertion of
                None \<Rightarrow> []
              | Some None \<Rightarrow> [check ''type'' JNull
                  (case ro_type out of None \<Rightarrow> JNull | Some s \<Rightarrow> script_json s) (ro_type out = None)]
              | Some (Some t) \<Rightarrow> scriptChecks ''type'' t (ro_type out))
           @ (case ea_data assertion of None \<Rightarrow> [] | Some d \<Rightarrow>
              [check ''data'' (JStr d) (opt_json data') (hexEq (Some d) data')])
         in \<lparr>as_ok = (0 < length checks \<and> list_all ck_ok checks), as_outputIndex = ea_outputIndex assertion,
             as_mode = mode, as_checks = checks, as_evidence = None\<rparr>)"

definition verifyExpectedCell :: "RpcTransactionLike \<Rightarrow> ExpectedCellAssertion \<Rightarrow> AssertionResult" where
  "verifyExpectedCell transaction' assertion =
     verifyCellOutput (js_index (rt_outputs transaction') (ea_outputIndex assertion))
       (js_index (rt_outputs_data transaction') (ea_outputIndex assertion)) assertion Created"

definition verifyExpectedCells :: "RpcTransactionLike \<Rightarrow> ExpectedCellAssertion list \<Rightarrow> AssertionResult list" where
  "verifyExpectedCells transaction' assertions = map (verifyExpectedCell transaction') assertions"

definition verifyLiveCell :: "RpcLiveCellLike option \<Rightarrow> ExpectedCellAssertion \<Rightarrow> AssertionResult" where
  "verifyLiveCell liveCell assertion =
    (case liveCell of
       Some l \<Rightarrow>
         (case (if rl_status l = ''live'' then rl_cell l else None) of
            Some (output, data') \<Rightarrow>
              let dataValue = (case data' of DataText s \<Rightarrow> Some s | DataObject content _ \<Rightarrow> content | DataNull \<Rightarrow> None) in
              (verifyCellOutput (Some output) dataValue assertion Live)
                \<lparr>as_evidence := Some [(''liveBlockHash'', opt_json (rl_block_hash l))]\<rparr>
          | None \<Rightarrow> \<lparr>as_ok = False, as_outputIndex = ea_outputIndex assertion, as_mode = Live,
              as_checks = [check ''live'' (JBool True) (JStr (rl_status l)) False], as_evidence = None\<rparr>)
     | None \<Rightarrow> \<lparr>as_ok = False, as_outputIndex = ea_outputIndex assertion, as_mode = Live,
         as_checks = [check ''live'' (JBool True) JNull False], as_evidence = None\<rparr>)"


section \<open>What a passing assertion means\<close>

text \<open>Two capacities agree: as integers when both are hexadecimal, else as text up to case.\<close>

definition script_matches :: "ScriptAssertion \<Rightarrow> RpcScript option \<Rightarrow> bool" where
  "script_matches e a \<longleftrightarrow>
     (\<forall>h. sa_codeHash e = Some h \<longrightarrow> (\<exists>s. a = Some s \<and> toLowerCase (rs_code_hash s) = toLowerCase h))
     \<and> (\<forall>h. sa_hashType e = Some h \<longrightarrow> (\<exists>s. a = Some s \<and> rs_hash_type s = h))
     \<and> (\<forall>h. sa_args e = Some h \<longrightarrow> (\<exists>s. a = Some s \<and> toLowerCase (rs_args s) = toLowerCase h))"

definition script_constrains :: "ScriptAssertion \<Rightarrow> bool" where
  "script_constrains e \<longleftrightarrow> sa_codeHash e \<noteq> None \<or> sa_hashType e \<noteq> None \<or> sa_args e \<noteq> None"

definition cell_constrained :: "ExpectedCellAssertion \<Rightarrow> bool" where
  "cell_constrained a \<longleftrightarrow> ea_capacity a \<noteq> None \<or> ea_data a \<noteq> None
     \<or> (\<exists>l. ea_lock a = Some l \<and> script_constrains l)
     \<or> ea_type a = Some None \<or> (\<exists>t. ea_type a = Some (Some t) \<and> script_constrains t)"

definition cell_matches :: "ExpectedCellAssertion \<Rightarrow> RpcCellOutput \<Rightarrow> string option \<Rightarrow> bool" where
  "cell_matches a out d \<longleftrightarrow>
     (\<forall>c. ea_capacity a = Some c \<longrightarrow> integerHexEq c (ro_capacity out))
     \<and> (\<forall>l. ea_lock a = Some l \<longrightarrow> script_matches l (Some (ro_lock out)))
     \<and> (ea_type a = Some None \<longrightarrow> ro_type out = None)
     \<and> (\<forall>t. ea_type a = Some (Some t) \<longrightarrow> script_matches t (ro_type out))
     \<and> (\<forall>x. ea_data a = Some x \<longrightarrow> (\<exists>y. d = Some y \<and> toLowerCase y = toLowerCase x))"

lemma hexEq_Some: "hexEq (Some x) b \<longleftrightarrow> (\<exists>y. b = Some y \<and> toLowerCase y = toLowerCase x)"
  by (auto simp: hexEq_def split: option.splits)

lemma scriptChecks_ok: "list_all ck_ok (scriptChecks p e a) \<longleftrightarrow> script_matches e a"
  by (cases a) (auto simp: scriptChecks_def script_matches_def hexEq_Some split: option.splits)

lemma scriptChecks_empty: "scriptChecks p e a = [] \<longleftrightarrow> \<not> script_constrains e"
  by (auto simp: scriptChecks_def script_constrains_def split: option.splits)

lemma cell_constrained_has_checks: "cell_constrained a \<Longrightarrow> assertionHasChecks a"
  by (auto simp: cell_constrained_def assertionHasChecks_def)

lemma verifyCellOutput_ok:
  "as_ok (verifyCellOutput cell d a mode) \<longleftrightarrow>
     (\<exists>out. cell = Some out \<and> cell_constrained a \<and> cell_matches a out d)"
proof (cases cell)
  case (Some out)
  show ?thesis
  proof (cases "assertionHasChecks a")
    case False
    then show ?thesis using Some cell_constrained_has_checks by (auto simp: verifyCellOutput_def)
  next
    case True
    then show ?thesis using Some
      by (cases "ea_capacity a"; cases "ea_lock a"; cases "ea_type a"; cases "ea_data a")
        (auto simp: verifyCellOutput_def Let_def scriptChecks_ok scriptChecks_empty cell_constrained_def
          cell_matches_def hexEq_Some assertionHasChecks_def split: option.splits)
  qed
qed (simp add: verifyCellOutput_def)

text \<open>
  An expected-Cell assertion passes on a transaction exactly when the indexed
  output exists, the assertion constrains at least one field, and every constrained field
  agrees: capacities as integers, hashes and arguments up to case, hash types exactly, an
  expected null type by the absence of a type script, data up to case.
\<close>

theorem expected_cell_verified:
  "as_ok (verifyExpectedCell tx a) \<longleftrightarrow>
     (\<exists>out. js_index (rt_outputs tx) (ea_outputIndex a) = Some out \<and> cell_constrained a
        \<and> cell_matches a out (js_index (rt_outputs_data tx) (ea_outputIndex a)))"
  by (simp add: verifyExpectedCell_def verifyCellOutput_ok)

definition cell_data_value :: "RpcCellData \<Rightarrow> string option" where
  "cell_data_value d = (case d of DataText s \<Rightarrow> Some s | DataObject content _ \<Rightarrow> content | DataNull \<Rightarrow> None)"

text \<open>
  A live-Cell assertion passes exactly when the RPC reports the Cell as live, with
  its contents, and the contents satisfy the assertion; it never passes on an unknown or spent
  Cell or on an assertion that constrains nothing.
\<close>

theorem live_cell_verified:
  "as_ok (verifyLiveCell lc a) \<longleftrightarrow>
     (\<exists>l out d. lc = Some l \<and> rl_status l = ''live'' \<and> rl_cell l = Some (out, d)
        \<and> cell_constrained a \<and> cell_matches a out (cell_data_value d))"
  by (auto simp: verifyLiveCell_def verifyCellOutput_ok cell_data_value_def Let_def
      split: option.splits RpcCellData.splits)

end
