(* ===== verification/JsDate.thy ===== *)
theory JsDate
  imports CoreTypes
begin

text \<open>
  Instants and their text. A timestamp is a number of milliseconds since 1970; \<open>iso\<close> is
  \<open>Date.prototype.toISOString\<close> and \<open>date_parse\<close> is \<open>Date.parse\<close> on the text it writes (every
  other text is read as NaN, \<open>None\<close>). Years follow ECMAScript's \<open>DayFromYear\<close> and
  \<open>YearFromTime\<close>. The last theorem is the round trip for the years 1970 to 9999.
\<close>

definition day_from_year :: "nat \<Rightarrow> int" where
  "day_from_year y = 365 * (int y - 1970) + (int y - 1969) div 4 - (int y - 1901) div 100 + (int y - 1601) div 400"

fun year_down :: "nat \<Rightarrow> int \<Rightarrow> nat" where
  "year_down 0 d = 0"
| "year_down (Suc y) d = (if day_from_year (Suc y) \<le> d then Suc y else year_down y d)"

definition year_of_day :: "int \<Rightarrow> nat" where
  "year_of_day d = year_down (1970 + nat (d div 365)) d"

definition leap_year :: "nat \<Rightarrow> bool" where
  "leap_year y \<longleftrightarrow> y mod 4 = 0 \<and> (y mod 100 \<noteq> 0 \<or> y mod 400 = 0)"

definition month_start :: "bool \<Rightarrow> nat \<Rightarrow> nat" where
  "month_start leap m = [0, 31, 59, 90, 120, 151, 181, 212, 243, 273, 304, 334, 365] ! (m - 1)
     + (if leap \<and> 2 < m then 1 else 0)"

definition month_of :: "bool \<Rightarrow> nat \<Rightarrow> nat" where
  "month_of leap r = length (filter (\<lambda>m. month_start leap m \<le> r) [1, 2, 3, 4, 5, 6, 7, 8, 9, 10, 11, 12])"

fun fixed :: "nat \<Rightarrow> nat \<Rightarrow> string" where
  "fixed 0 n = []"
| "fixed (Suc w) n = fixed w (n div 10) @ [digit_char (n mod 10)]"

definition iso :: "timestamp \<Rightarrow> string" where
  "iso t = (let d = t div 86400000; ms = nat (t mod 86400000); y = year_of_day d;
       r = nat (d - day_from_year y); m = month_of (leap_year y) r in
     fixed 4 y @ ''-'' @ fixed 2 m @ ''-'' @ fixed 2 (r - month_start (leap_year y) m + 1)
     @ ''T'' @ fixed 2 (ms div 3600000) @ '':'' @ fixed 2 (ms div 60000 mod 60)
     @ '':'' @ fixed 2 (ms div 1000 mod 60) @ ''.'' @ fixed 3 (ms mod 1000) @ ''Z'')"

definition iso_group :: "nat \<Rightarrow> nat \<Rightarrow> string \<Rightarrow> string" where
  "iso_group i w s = take w (drop i s)"

definition iso_shape :: "string \<Rightarrow> bool" where
  "iso_shape s \<longleftrightarrow> length s = 24
     \<and> iso_group 4 1 s = ''-'' \<and> iso_group 7 1 s = ''-'' \<and> iso_group 10 1 s = ''T''
     \<and> iso_group 13 1 s = '':'' \<and> iso_group 16 1 s = '':'' \<and> iso_group 19 1 s = ''.'' \<and> iso_group 23 1 s = ''Z''
     \<and> list_all is_digit (iso_group 0 4 s @ iso_group 5 2 s @ iso_group 8 2 s @ iso_group 11 2 s
         @ iso_group 14 2 s @ iso_group 17 2 s @ iso_group 20 3 s)"

definition date_parse :: "string \<Rightarrow> timestamp option" where
  "date_parse s = (if \<not> iso_shape s then None else
     let num = (\<lambda>i w. numeral_value 10 0 (iso_group i w s));
         y = num 0 4; m = num 5 2; d = num 8 2; h = num 11 2; mi = num 14 2; sec = num 17 2; ms = num 20 3;
         leap = leap_year y in
     if m < 1 \<or> 12 < m \<or> d < 1 \<or> month_start leap (m + 1) - month_start leap m < d \<or> 59 < mi \<or> 59 < sec
        \<or> (23 < h \<and> \<not> (h = 24 \<and> mi = 0 \<and> sec = 0 \<and> ms = 0)) then None
     else Some ((day_from_year y + int (month_start leap m) + int d - 1) * 86400000
        + int h * 3600000 + int mi * 60000 + int sec * 1000 + int ms))"

definition in_date_range :: "timestamp \<Rightarrow> bool" where
  "in_date_range t \<longleftrightarrow> 0 \<le> t \<and> t < 253402300800000"


section \<open>The calendar\<close>

lemma div_succ: "0 < n \<Longrightarrow> (x + 1) div n = x div n + (if n dvd x + 1 then 1 else 0)" for n x :: int
proof -
  assume n: "0 < n"
  have e: "x = n * (x div n) + x mod n" by simp
  have r: "0 \<le> x mod n" "x mod n < n" using n by simp_all
  have d: "n dvd x + 1 \<longleftrightarrow> n dvd x mod n + 1"
    by (metis add.commute dvd_mod_iff mod_add_right_eq dvd_refl)
  show ?thesis
  proof (cases "x mod n + 1 = n")
    case True
    then have "x + 1 = n * (x div n) + n" using e by linarith
    then have "x + 1 = n * (x div n + 1) + 0" by (simp add: distrib_left)
    from int_div_pos_eq [OF this] n d True show ?thesis by simp
  next
    case False
    then have "\<not> n dvd x mod n + 1" using r zdvd_imp_le [of n "x mod n + 1"] by linarith
    moreover have "x + 1 = n * (x div n) + (x mod n + 1)" using e by simp
    moreover have "x mod n + 1 < n" using False r by linarith
    ultimately show ?thesis using int_div_pos_eq [of "x + 1" n "x div n" "x mod n + 1"] r d by simp
  qed
qed

lemma dvd_shift: "int n dvd int y - int (n * k) \<longleftrightarrow> y mod n = 0"
proof -
  have "int n dvd int y - int (n * k) \<longleftrightarrow> int n dvd int y"
    by (metis dvd_diff_left_iff dvd_triv_left int_dvd_int_iff of_nat_mult)
  also have "\<dots> \<longleftrightarrow> y mod n = 0" by (metis int_dvd_int_iff dvd_eq_mod_eq_0)
  finally show ?thesis .
qed

lemma day_from_year_step:
  "day_from_year (Suc y) = day_from_year y + (if leap_year y then 366 else 365)"
proof -
  have a: "(int y - 1968) div 4 = (int y - 1969) div 4 + (if y mod 4 = 0 then 1 else 0)"
    using div_succ [of 4 "int y - 1969"] dvd_shift [of 4 y 492] by simp
  have b: "(int y - 1900) div 100 = (int y - 1901) div 100 + (if y mod 100 = 0 then 1 else 0)"
    using div_succ [of 100 "int y - 1901"] dvd_shift [of 100 y 19] by simp
  have c: "(int y - 1600) div 400 = (int y - 1601) div 400 + (if y mod 400 = 0 then 1 else 0)"
    using div_succ [of 400 "int y - 1601"] dvd_shift [of 400 y 4] by simp
  have m: "y mod 400 = 0 \<Longrightarrow> y mod 100 = 0" "y mod 100 = 0 \<Longrightarrow> y mod 4 = 0"
    by (auto simp: dvd_trans simp flip: dvd_eq_mod_eq_0 intro: dvd_trans [of 100 400] dvd_trans [of 4 100])
  have e: "int (Suc y) - 1969 = int y - 1968" "int (Suc y) - 1901 = int y - 1900" "int (Suc y) - 1601 = int y - 1600"
    "365 * (int (Suc y) - 1970) = 365 * (int y - 1970) + 365" by simp_all
  show ?thesis
    unfolding day_from_year_def e a b c leap_year_def using m by auto
qed

lemma day_from_year_1970 [simp]: "day_from_year 1970 = 0"
  by (simp add: day_from_year_def)

lemma year_down_le: "day_from_year 0 \<le> d \<Longrightarrow> day_from_year (year_down y d) \<le> d"
  by (induction y) auto

lemma year_down_next:
  "d < day_from_year (Suc y) \<Longrightarrow> d < day_from_year (Suc (year_down y d))"
  by (induction y) auto

lemma day_from_year_lower: "365 * int k \<le> day_from_year (1970 + k)"
proof (induction k)
  case (Suc k)
  then show ?case using day_from_year_step [of "1970 + k"] by (auto split: if_splits)
qed simp

lemma day_below_next: "0 \<le> d \<Longrightarrow> d < 365 * int (Suc (nat (d div 365)))"
proof -
  assume "0 \<le> d"
  then have i: "int (Suc (nat (d div 365))) = d div 365 + 1" by simp
  have "d < 365 * (d div 365) + 365" using mult_div_mod_eq [of 365 d] pos_mod_bound [of 365 d] by linarith
  then show ?thesis unfolding i by simp
qed

lemma year_of_day:
  assumes "0 \<le> d"
  shows "day_from_year (year_of_day d) \<le> d" and "d < day_from_year (Suc (year_of_day d))"
proof -
  show "day_from_year (year_of_day d) \<le> d"
    unfolding year_of_day_def by (rule year_down_le) (use assms in \<open>simp add: day_from_year_def\<close>)
  have "d < 365 * int (Suc (nat (d div 365)))" using assms by (rule day_below_next)
  also have "\<dots> \<le> day_from_year (Suc (1970 + nat (d div 365)))"
    using day_from_year_lower [of "Suc (nat (d div 365))"] by simp
  finally show "d < day_from_year (Suc (year_of_day d))"
    unfolding year_of_day_def by (rule year_down_next)
qed

lemma day_from_year_mono: "a \<le> b \<Longrightarrow> day_from_year a \<le> day_from_year b"
proof (induction b)
  case (Suc b)
  then show ?case using day_from_year_step [of b] by (cases "a = Suc b") (auto split: if_splits)
qed simp

lemma year_bound:
  assumes "0 \<le> d" and "d < 2932897"
  shows "year_of_day d \<le> 9999"
proof (rule ccontr)
  assume "\<not> year_of_day d \<le> 9999"
  then have "day_from_year 10000 \<le> day_from_year (year_of_day d)" by (intro day_from_year_mono) simp
  with year_of_day [OF assms(1)] assms(2) show False by (simp add: day_from_year_def)
qed

definition month_ok :: "bool \<Rightarrow> nat \<Rightarrow> bool" where
  "month_ok leap r \<longleftrightarrow> (let m = month_of leap r in 1 \<le> m \<and> m \<le> 12 \<and> month_start leap m \<le> r
     \<and> r - month_start leap m + 1 \<le> month_start leap (m + 1) - month_start leap m
     \<and> r - month_start leap m + 1 \<le> 31)"

lemma month_ok_common: "r < 365 \<Longrightarrow> month_ok False r"
proof -
  assume "r < 365"
  then consider "r < 31" | "31 \<le> r" "r < 59" | "59 \<le> r" "r < 90" | "90 \<le> r" "r < 120" | "120 \<le> r" "r < 151"
    | "151 \<le> r" "r < 181" | "181 \<le> r" "r < 212" | "212 \<le> r" "r < 243" | "243 \<le> r" "r < 273"
    | "273 \<le> r" "r < 304" | "304 \<le> r" "r < 334" | "334 \<le> r" "r < 365"
    using not_less by metis
  then show ?thesis
    by cases (simp_all add: month_ok_def month_of_def month_start_def Let_def, linarith+)
qed

lemma month_ok_leap: "r < 366 \<Longrightarrow> month_ok True r"
proof -
  assume "r < 366"
  then consider "r < 31" | "31 \<le> r" "r < 60" | "60 \<le> r" "r < 91" | "91 \<le> r" "r < 121" | "121 \<le> r" "r < 152"
    | "152 \<le> r" "r < 182" | "182 \<le> r" "r < 213" | "213 \<le> r" "r < 244" | "244 \<le> r" "r < 274"
    | "274 \<le> r" "r < 305" | "305 \<le> r" "r < 335" | "335 \<le> r" "r < 366"
    using not_less by metis
  then show ?thesis
    by cases (simp_all add: month_ok_def month_of_def month_start_def Let_def, linarith+)
qed

lemma month_ok: "r < (if leap then 366 else 365) \<Longrightarrow> month_ok leap r"
  by (cases leap) (auto intro: month_ok_common month_ok_leap)


section \<open>Round trip\<close>

lemma fixed_facts [simp]:
  "length (fixed w n) = w" "list_all is_digit (fixed w n)"
  by (induction w arbitrary: n) (simp_all add: is_digit_digit_char)

lemma numeral_value_start: "numeral_value 10 acc s = acc * 10 ^ length s + numeral_value 10 0 s"
proof (induction s arbitrary: acc)
  case (Cons c s)
  show ?case using Cons [of "10 * acc + digit_value c"] Cons [of "digit_value c"]
    by (simp add: algebra_simps)
qed simp

lemma fixed_value: "n < 10 ^ w \<Longrightarrow> numeral_value 10 0 (fixed w n) = n"
proof (induction w arbitrary: n)
  case (Suc w)
  then have "n div 10 < 10 ^ w" by (simp add: less_mult_imp_div_less mult.commute)
  with Suc.IH [OF this] show ?case by (simp add: numeral_value_append)
qed simp

lemma iso_layout:
  assumes "length a = 4" "length b = 2" "length c = 2" "length d = 2" "length e = 2" "length f = 2" "length g = 3"
  defines "s \<equiv> a @ ''-'' @ b @ ''-'' @ c @ ''T'' @ d @ '':'' @ e @ '':'' @ f @ ''.'' @ g @ ''Z''"
  shows "length s = 24" "iso_group 0 4 s = a" "iso_group 5 2 s = b" "iso_group 8 2 s = c" "iso_group 11 2 s = d"
    "iso_group 14 2 s = e" "iso_group 17 2 s = f" "iso_group 20 3 s = g" "iso_group 4 1 s = ''-''"
    "iso_group 7 1 s = ''-''" "iso_group 10 1 s = ''T''" "iso_group 13 1 s = '':''" "iso_group 16 1 s = '':''"
    "iso_group 19 1 s = ''.''" "iso_group 23 1 s = ''Z''"
  using assms(1-7) unfolding s_def iso_group_def by simp_all

lemma ms_split:
  fixes ms :: nat
  shows "int (ms div 3600000) * 3600000 + int (ms div 60000 mod 60) * 60000
     + int (ms div 1000 mod 60) * 1000 + int (ms mod 1000) = int ms"
proof -
  have "ms div 3600000 = ms div 60000 div 60" "ms div 60000 = ms div 1000 div 60"
    by (simp_all add: div_mult2_eq [symmetric])
  then have "(ms div 3600000) * 3600000 + (ms div 60000 mod 60) * 60000
     + (ms div 1000 mod 60) * 1000 + ms mod 1000 = ms"
    using div_mult_mod_eq [of ms 1000] div_mult_mod_eq [of "ms div 1000" 60]
      div_mult_mod_eq [of "ms div 60000" 60] by linarith
  then show ?thesis by linarith
qed

theorem iso_roundtrip:
  assumes "in_date_range t"
  shows "date_parse (iso t) = Some t"
proof -
  define d where "d = t div 86400000"
  define ms where "ms = nat (t mod 86400000)"
  define y where "y = year_of_day d"
  define r where "r = nat (d - day_from_year y)"
  define m where "m = month_of (leap_year y) r"
  define dd where "dd = r - month_start (leap_year y) m + 1"
  have d: "0 \<le> d" "d < 2932897" using assms by (auto simp: in_date_range_def d_def)
  have y: "day_from_year y \<le> d" "d < day_from_year (Suc y)" "y < 10 ^ 4"
    using year_of_day [OF d(1)] year_bound [OF d] by (auto simp: y_def)
  have r: "r < (if leap_year y then 366 else 365)" "int r = d - day_from_year y"
    using y day_from_year_step [of y] by (auto simp: r_def split: if_splits)
  have m: "1 \<le> m" "m \<le> 12" "month_start (leap_year y) m \<le> r"
    "dd \<le> month_start (leap_year y) (m + 1) - month_start (leap_year y) m" "dd \<le> 31"
    using month_ok [OF r(1)] by (auto simp: month_ok_def Let_def m_def dd_def)
  have ms: "ms < 86400000" by (simp add: ms_def)
  then have h: "ms div 3600000 < 24" by (simp add: less_mult_imp_div_less)
  have s: "iso t = fixed 4 y @ ''-'' @ fixed 2 m @ ''-'' @ fixed 2 dd @ ''T'' @ fixed 2 (ms div 3600000)
      @ '':'' @ fixed 2 (ms div 60000 mod 60) @ '':'' @ fixed 2 (ms div 1000 mod 60) @ ''.'' @ fixed 3 (ms mod 1000) @ ''Z''"
    by (simp add: iso_def Let_def d_def ms_def y_def r_def m_def dd_def)
  have l: "length (fixed 4 y) = 4" "length (fixed 2 m) = 2" "length (fixed 2 dd) = 2"
    "length (fixed 2 (ms div 3600000)) = 2" "length (fixed 2 (ms div 60000 mod 60)) = 2"
    "length (fixed 2 (ms div 1000 mod 60)) = 2" "length (fixed 3 (ms mod 1000)) = 3"
    by (rule fixed_facts)+
  note g = iso_layout [OF l, folded s]
  have shape: "iso_shape (iso t)" unfolding iso_shape_def g by simp
  have m60: "ms div 60000 mod 60 < 60" "ms div 1000 mod 60 < 60" "ms mod 1000 < 1000" by simp_all
  have v: "numeral_value 10 0 (fixed 4 y) = y" "numeral_value 10 0 (fixed 2 m) = m"
    "numeral_value 10 0 (fixed 2 dd) = dd" "numeral_value 10 0 (fixed 2 (ms div 3600000)) = ms div 3600000"
    "numeral_value 10 0 (fixed 2 (ms div 60000 mod 60)) = ms div 60000 mod 60"
    "numeral_value 10 0 (fixed 2 (ms div 1000 mod 60)) = ms div 1000 mod 60"
    "numeral_value 10 0 (fixed 3 (ms mod 1000)) = ms mod 1000"
    using y(3) m h m60 by (auto intro!: fixed_value)
  have day: "day_from_year y + int (month_start (leap_year y) m) + int dd - 1 = d"
    using r(2) m(3) by (simp add: dd_def)
  have ms_nat: "int ms = t mod 86400000" by (simp add: ms_def)
  have total: "d * 86400000 + int (ms div 3600000) * 3600000 + int (ms div 60000 mod 60) * 60000
      + int (ms div 1000 mod 60) * 1000 + int (ms mod 1000) = t"
    using ms_split [of ms] div_mult_mod_eq [of t 86400000] ms_nat unfolding d_def by linarith
  have bad: "\<not> (m < 1 \<or> 12 < m \<or> dd < 1 \<or> month_start (leap_year y) (m + 1) - month_start (leap_year y) m < dd
      \<or> 59 < ms div 60000 mod 60 \<or> 59 < ms div 1000 mod 60
      \<or> (23 < ms div 3600000 \<and> \<not> (ms div 3600000 = 24 \<and> ms div 60000 mod 60 = 0 \<and> ms div 1000 mod 60 = 0 \<and> ms mod 1000 = 0)))"
    using m h m60 by (auto simp: dd_def not_less)
  show ?thesis
    unfolding date_parse_def Let_def g v using shape bad day total by (simp only: if_False simp_thms)
qed

end
