(* ===== verification/ConflictEvidence.thy ===== *)
theory ConflictEvidence
  imports JsDate StateMachine
begin

text \<open>
  Models packages/core/src/conflict-evidence.ts: how repeated observations of a spent input are
  accumulated in the execution's conflict details, and when they are old enough to count as
  evidence of a terminal conflict. The main theorem characterises maturity over a whole history
  of observations: only an uninterrupted run of spend observations counts, and it has to span
  the number of blocks the confirmation policy asks for.
\<close>

record ConflictInputInspection =
  ci_observedAt :: timestamp
  ci_tipBlockNumber :: "string option"
  ci_inputs :: "json list"

record ConflictEvidenceState =
  ce_confirmationPolicy :: ConfirmationPolicy
  ce_conflictDetails :: json

text \<open>Two tests the functions share: what the prior record is, and whether it was interrupted.\<close>

definition spent_observed :: "(string \<times> json) list \<Rightarrow> bool" where
  "spent_observed prior \<longleftrightarrow> js_field prior ''classification'' = Some (JStr ''INPUT_SPENT_OBSERVED'')"

definition continuity_broken :: "(string \<times> json) list \<Rightarrow> bool" where
  "continuity_broken prior \<longleftrightarrow> js_field prior ''continuityBroken'' = Some (JBool True)"

definition conflictObservationMatured :: "ConflictEvidenceState \<Rightarrow> ConflictInputInspection \<Rightarrow> bool" where
  "conflictObservationMatured execution inspection =
    (let prior = asRecord (ce_conflictDetails execution) in
     if \<not> spent_observed prior \<or> continuity_broken prior then False
     else case (parseHexBlockNumber (json_string (js_field prior ''firstObservedTipBlockNumber'')),
                parseHexBlockNumber (json_string (js_field prior ''lastObservedTipBlockNumber'')),
                parseHexBlockNumber (ci_tipBlockNumber inspection)) of
       (Some firstTip, Some lastTip, Some currentTip) \<Rightarrow>
         if currentTip \<le> lastTip then False
         else
           let observationCount = (case json_number (js_field prior ''spentObservationCount'') of Some n \<Rightarrow> n | None \<Rightarrow> 1) in
           if observationCount < 1 then False
           else
             let requiredBlocks = (case ce_confirmationPolicy execution of Depth blocks \<Rightarrow> max blocks 1 | Committed \<Rightarrow> 1) in
             currentTip \<ge> firstTip + requiredBlocks
     | _ \<Rightarrow> False)"

definition nextSpentObservationDetails :: "json \<Rightarrow> ConflictInputInspection \<Rightarrow> (string \<times> json) list" where
  "nextSpentObservationDetails conflictDetails inspection =
    (let priorDetails = asRecord conflictDetails;
         continues = (spent_observed priorDetails \<and> \<not> continuity_broken priorDetails);
         previousTip = parseHexBlockNumber (json_string (js_field priorDetails ''lastObservedTipBlockNumber''));
         currentTip = parseHexBlockNumber (ci_tipBlockNumber inspection);
         distinctObservation = (case (previousTip, currentTip) of (Some p, Some c) \<Rightarrow> c > p | _ \<Rightarrow> True);
         previousCount = (case json_number (js_field priorDetails ''spentObservationCount'') of Some n \<Rightarrow> max 1 n | None \<Rightarrow> 1) in
     [(''source'', JStr ''reconciliation''),
      (''classification'', JStr ''INPUT_SPENT_OBSERVED''),
      (''canonicalSpendConfirmed'', JBool False),
      (''continuityBroken'', JBool False),
      (''firstObservedAt'', if continues
         then nullish_or (js_field priorDetails ''firstObservedAt'') (JStr (iso (ci_observedAt inspection)))
         else JStr (iso (ci_observedAt inspection))),
      (''firstObservedTipBlockNumber'', if continues
         then nullish_or (js_field priorDetails ''firstObservedTipBlockNumber'') (opt_json (ci_tipBlockNumber inspection))
         else opt_json (ci_tipBlockNumber inspection)),
      (''lastObservedAt'', JStr (iso (ci_observedAt inspection))),
      (''lastObservedTipBlockNumber'', opt_json (ci_tipBlockNumber inspection)),
      (''spentObservationCount'', JNum (if continues then previousCount + (if distinctObservation then 1 else 0) else 1)),
      (''inputs'', JArr (ci_inputs inspection))])"

text \<open>
  The function returns its argument, the same object, when there is nothing to interrupt, and
  a new object otherwise; callers compare the two references, which \<open>spent_observed\<close> decides.
\<close>

definition breakSpendObservationContinuity :: "json \<Rightarrow> timestamp \<Rightarrow> string \<Rightarrow> json" where
  "breakSpendObservationContinuity conflictDetails observedAt reason =
    (let prior = asRecord conflictDetails in
     if \<not> spent_observed prior then conflictDetails
     else JObj (obj_set ''continuityBreakReason'' (JStr reason)
       (obj_set ''continuityBrokenAt'' (JStr (iso observedAt))
       (obj_set ''continuityBroken'' (JBool True) prior))))"


section \<open>Histories of observations\<close>

text \<open>
  What the reconciler does to the conflict details between two checks: it records a spend
  observation, it interrupts the run when the input state or the RPC was uncertain, and it
  clears the details when the transaction was seen or its inputs were live.
\<close>

datatype SpendEvent = Spent ConflictInputInspection | Interrupted timestamp string | Cleared

definition spend_step :: "json \<Rightarrow> SpendEvent \<Rightarrow> json" where
  "spend_step d e = (case e of
     Spent i \<Rightarrow> JObj (nextSpentObservationDetails d i)
   | Interrupted at reason \<Rightarrow> breakSpendObservationContinuity d at reason
   | Cleared \<Rightarrow> JNull)"

definition spend_history :: "SpendEvent list \<Rightarrow> json" where
  "spend_history es = foldl spend_step JNull es"

text \<open>The observations since the last interruption.\<close>

fun run_since :: "ConflictInputInspection list \<Rightarrow> SpendEvent list \<Rightarrow> ConflictInputInspection list" where
  "run_since acc [] = acc"
| "run_since acc (Spent i # es) = run_since (acc @ [i]) es"
| "run_since acc (_ # es) = run_since [] es"

definition spend_run :: "SpendEvent list \<Rightarrow> ConflictInputInspection list" where
  "spend_run es = run_since [] es"

text \<open>The first tip of the run that the RPC could give.\<close>

fun first_tip :: "ConflictInputInspection list \<Rightarrow> string option" where
  "first_tip [] = None"
| "first_tip (i # is) = (case ci_tipBlockNumber i of Some t \<Rightarrow> Some t | None \<Rightarrow> first_tip is)"

definition last_tip :: "ConflictInputInspection list \<Rightarrow> string option" where
  "last_tip run = (if run = [] then None else ci_tipBlockNumber (last run))"

definition required_blocks :: "ConfirmationPolicy \<Rightarrow> int" where
  "required_blocks p = (case p of Depth blocks \<Rightarrow> max blocks 1 | Committed \<Rightarrow> 1)"

definition run_active :: "json \<Rightarrow> bool" where
  "run_active d \<longleftrightarrow> spent_observed (asRecord d) \<and> \<not> continuity_broken (asRecord d)"

definition count_ok :: "json \<Rightarrow> bool" where
  "count_ok d \<longleftrightarrow> (case json_number (js_field (asRecord d) ''spentObservationCount'') of Some n \<Rightarrow> 1 \<le> n | None \<Rightarrow> True)"

text \<open>What the details say about the run that led to them.\<close>

definition run_matches :: "json \<Rightarrow> ConflictInputInspection list \<Rightarrow> bool" where
  "run_matches d run \<longleftrightarrow>
     (if run = [] then \<not> run_active d
      else run_active d \<and> count_ok d
        \<and> js_field (asRecord d) ''firstObservedTipBlockNumber'' = Some (opt_json (first_tip run))
        \<and> js_field (asRecord d) ''lastObservedTipBlockNumber'' = Some (opt_json (last_tip run)))"

lemma spent_observed_break [simp]:
  "spent_observed (asRecord (breakSpendObservationContinuity d at r)) = spent_observed (asRecord d)"
  by (simp add: breakSpendObservationContinuity_def Let_def spent_observed_def)

lemma break_not_active: "\<not> run_active (breakSpendObservationContinuity d at r)"
  by (auto simp: run_active_def breakSpendObservationContinuity_def Let_def spent_observed_def continuity_broken_def)

lemma next_active: "run_active (JObj (nextSpentObservationDetails d i))"
  by (simp add: run_active_def nextSpentObservationDetails_def Let_def spent_observed_def continuity_broken_def)

lemma next_count: "count_ok (JObj (nextSpentObservationDetails d i))"
  by (auto simp: count_ok_def nextSpentObservationDetails_def Let_def split: option.splits)

lemma next_last_tip:
  "js_field (nextSpentObservationDetails d i) ''lastObservedTipBlockNumber'' = Some (opt_json (ci_tipBlockNumber i))"
  by (simp add: nextSpentObservationDetails_def Let_def)

lemma next_first_tip:
  "js_field (nextSpentObservationDetails d i) ''firstObservedTipBlockNumber'' =
     Some (if run_active d then nullish_or (js_field (asRecord d) ''firstObservedTipBlockNumber'') (opt_json (ci_tipBlockNumber i))
           else opt_json (ci_tipBlockNumber i))"
  by (simp add: nextSpentObservationDetails_def Let_def run_active_def)

lemma first_tip_append: "first_tip (xs @ ys) = (case first_tip xs of Some t \<Rightarrow> Some t | None \<Rightarrow> first_tip ys)"
  by (induction xs) (auto split: option.splits)

lemma last_tip_append [simp]: "last_tip (xs @ [i]) = ci_tipBlockNumber i"
  by (simp add: last_tip_def)

lemma run_matches_step:
  "run_matches d run \<Longrightarrow> run_matches (JObj (nextSpentObservationDetails d i)) (run @ [i])"
  by (auto simp: run_matches_def next_active next_count next_last_tip next_first_tip first_tip_append opt_json_def
      split: option.splits if_splits)

lemma run_matches_step_event:
  "run_matches d acc \<Longrightarrow> run_matches (spend_step d e) (run_since acc [e])"
proof (cases e)
  case (Interrupted t r)
  then show ?thesis by (simp add: spend_step_def run_matches_def [of _ "[]"] break_not_active)
next
  case Cleared
  then show ?thesis by (simp add: spend_step_def run_matches_def [of _ "[]"] run_active_def spent_observed_def)
qed (simp add: spend_step_def run_matches_step)

lemma run_since_Cons: "run_since acc (e # es) = run_since (run_since acc [e]) es"
  by (cases e) simp_all

lemma run_matches_fold: "run_matches d acc \<Longrightarrow> run_matches (foldl spend_step d es) (run_since acc es)"
proof (induction es arbitrary: d acc)
  case (Cons e es)
  from Cons.IH [OF run_matches_step_event [OF Cons.prems, of e]] show ?case by (simp add: run_since_Cons [of acc e es])
qed simp

lemma run_matches_history: "run_matches (spend_history es) (spend_run es)"
  unfolding spend_history_def spend_run_def
  by (rule run_matches_fold) (simp add: run_matches_def run_active_def spent_observed_def)

lemma matured_iff:
  assumes "run_matches d run"
  shows "conflictObservationMatured \<lparr>ce_confirmationPolicy = p, ce_conflictDetails = d\<rparr> cur \<longleftrightarrow>
     (\<exists>f l c. parseHexBlockNumber (first_tip run) = Some f \<and> parseHexBlockNumber (last_tip run) = Some l
        \<and> parseHexBlockNumber (ci_tipBlockNumber cur) = Some c \<and> l < c \<and> f + required_blocks p \<le> c)"
proof (cases "run = []")
  case True
  with assms have "\<not> run_active d" by (simp add: run_matches_def)
  then show ?thesis using True
    by (auto simp: conflictObservationMatured_def run_active_def parseHexBlockNumber_def Let_def)
next
  case False
  with assms have a: "spent_observed (asRecord d)" "\<not> continuity_broken (asRecord d)" and c: "count_ok d"
    and f: "js_field (asRecord d) ''firstObservedTipBlockNumber'' = Some (opt_json (first_tip run))"
    and l: "js_field (asRecord d) ''lastObservedTipBlockNumber'' = Some (opt_json (last_tip run))"
    by (auto simp: run_matches_def run_active_def)
  have n: "\<not> (case json_number (js_field (asRecord d) ''spentObservationCount'') of Some n \<Rightarrow> n | None \<Rightarrow> 1) < 1"
    using c by (auto simp: count_ok_def split: option.splits)
  show ?thesis
    unfolding conflictObservationMatured_def Let_def required_blocks_def
    using a n by (auto simp: f l split: option.splits)
qed

text \<open>
  Property C39: over every history of observations, spend evidence is mature exactly when the
  run of spend observations since the last interruption or clearing has a known first tip, the
  current tip is beyond the last one seen, and it is at least the policy's number of blocks
  (at least one) beyond the first.
\<close>

theorem spend_evidence_maturity:
  "conflictObservationMatured \<lparr>ce_confirmationPolicy = p, ce_conflictDetails = spend_history es\<rparr> cur \<longleftrightarrow>
     (\<exists>f l c. parseHexBlockNumber (first_tip (spend_run es)) = Some f
        \<and> parseHexBlockNumber (last_tip (spend_run es)) = Some l
        \<and> parseHexBlockNumber (ci_tipBlockNumber cur) = Some c
        \<and> l < c \<and> f + required_blocks p \<le> c)"
  by (rule matured_iff [OF run_matches_history])

lemma run_since_interrupted: "run_since acc (es @ [Interrupted at r]) = []"
  by (induction acc es rule: run_since.induct) auto

lemma interrupted_not_mature:
  "\<not> conflictObservationMatured \<lparr>ce_confirmationPolicy = p, ce_conflictDetails = spend_history (es @ [Interrupted at r])\<rparr> cur"
  unfolding matured_iff [OF run_matches_history] spend_run_def run_since_interrupted
  by (simp add: parseHexBlockNumber_def)

end
