(* ===== verification/Database.thy ===== *)
theory Database
  imports Assertions ConflictEvidence
begin

text \<open>
  The state behind packages/db: the row types of packages/db/src/types.ts, the tables as lists
  of rows, the row mappers and pure helpers at the top of repository.ts, the constraints of the
  migrations that the repository can violate, and \<open>insertEventAndOutbox\<close>, the one writer of
  state events and webhook deliveries. Identifiers are numbers from one supply; one clock
  stands for both \<open>new Date()\<close> and \<open>now()\<close>; the microseconds that a
  timestamptz column keeps below the millisecond of a JavaScript date matter for the creation
  time of an intent only, where they are a column of their own that \<open>mapIntent\<close> drops. A nullable jsonb column is a document that may be
  \<open>JNull\<close>; what PostgreSQL's jsonb type does to a document that is written is the parameter
  \<open>jsonb\<close> of the operations.
\<close>

type_synonym uuid = nat

datatype Network = Testnet | Mainnet | Devnet

datatype ApiKeyScope = Scope_read | Scope_write | Scope_admin

record ProjectRecord =
  p_id :: uuid
  p_name :: string
  p_network :: Network
  p_rpcUrl :: "string option"
  p_rpcGenesisHash :: "string option"
  p_confirmationPolicy :: ConfirmationPolicy
  p_createdAt :: timestamp

record ApiKeyRow =
  k_id :: uuid
  k_projectId :: uuid
  k_prefix :: string
  k_hash :: string
  k_label :: string
  k_scopes :: "ApiKeyScope list"
  k_expiresAt :: "timestamp option"
  k_revokedAt :: "timestamp option"
  k_lastUsedAt :: "timestamp option"
  k_createdAt :: timestamp

record IntentRecord =
  i_id :: uuid
  i_projectId :: uuid
  i_intentId :: string
  i_metadata :: json
  i_expectedCells :: "ExpectedCellAssertion list"
  i_activeAttemptId :: "uuid option"
  i_winningAttemptId :: "uuid option"
  i_createdAt :: timestamp
  i_updatedAt :: timestamp
  i_createdMicros :: nat

record ExecutionRecord =
  x_id :: uuid
  x_projectId :: uuid
  x_intentRowId :: uuid
  x_txHash :: "string option"
  x_inputOutPoints :: "OutPointRef list"
  x_inputRefs :: "InputRef list"
  x_network :: Network
  x_submissionStatus :: SubmissionStatus
  x_chainStatus :: ChainStatus
  x_workflowStatus :: WorkflowStatus
  x_confirmationPolicy :: ConfirmationPolicy
  x_confirmationCount :: int
  x_committedBlockHash :: "string option"
  x_committedBlockNumber :: "string option"
  x_rejectionReason :: "string option"
  x_submissionErrorCode :: "string option"
  x_submissionErrorType :: "SubmissionErrorType option"
  x_submissionErrorDetails :: json
  x_conflictType :: "ConflictType option"
  x_conflictDetails :: json
  x_assertionStatus :: "string option"
  x_settlementReadyAt :: "timestamp option"
  x_assertionResult :: json
  x_lastRawObservation :: json
  x_lastObservedAt :: "timestamp option"
  x_nextReconcileAt :: "timestamp option"
  x_reconcileAttempts :: nat
  x_version :: nat
  x_reconcileLeaseId :: "uuid option"
  x_reconcileLeaseUntil :: "timestamp option"
  x_workflowRunId :: "uuid option"
  x_workflowStartedAt :: "timestamp option"
  x_workflowCompletedAt :: "timestamp option"
  x_createdAt :: timestamp
  x_updatedAt :: timestamp

record TransactionAttemptRecord =
  a_id :: uuid
  a_projectId :: uuid
  a_intentRowId :: uuid
  a_attemptNumber :: nat
  a_txHash :: string
  a_signedPayloadHashSha256 :: "string option"
  a_parentAttemptId :: "uuid option"
  a_attemptKind :: AttemptKind
  a_disposition :: AttemptDisposition
  a_inputOutPoints :: "OutPointRef list"
  a_inputRefs :: "InputRef list"
  a_submissionStatus :: SubmissionStatus
  a_chainStatus :: ChainStatus
  a_workflowStatus :: WorkflowStatus
  a_submissionErrorCode :: "string option"
  a_submissionErrorType :: "SubmissionErrorType option"
  a_submissionErrorDetails :: json
  a_conflictType :: "ConflictType option"
  a_conflictDetails :: json
  a_createdAt :: timestamp
  a_updatedAt :: timestamp

record IntentAggregate =
  ag_intent :: IntentRecord
  ag_execution :: ExecutionRecord
  ag_attempts :: "TransactionAttemptRecord list"
  ag_activeAttempt :: "TransactionAttemptRecord option"
  ag_winningAttempt :: "TransactionAttemptRecord option"

record StateEventRecord =
  v_sequence :: nat
  v_id :: uuid
  v_projectId :: uuid
  v_intentRowId :: uuid
  v_executionId :: uuid
  v_kind :: string
  v_fromStatus :: "string option"
  v_toStatus :: string
  v_reason :: "string option"
  v_rawObservation :: json
  v_occurredAt :: timestamp
  v_createdAt :: timestamp

record WebhookEndpointRecord =
  w_id :: uuid
  w_projectId :: uuid
  w_url :: string
  w_signingSecretEncrypted :: string
  w_secretVersion :: nat
  w_enabled :: bool
  w_createdAt :: timestamp
  w_updatedAt :: timestamp

datatype DeliveryStatus = DS_PENDING | DS_CLAIMED | DS_RETRY | DS_DELIVERED | DS_FAILED

record WebhookDeliveryRecord =
  d_id :: uuid
  d_projectId :: uuid
  d_endpointId :: uuid
  d_eventId :: uuid
  d_eventType :: string
  d_payload :: json
  d_attemptCount :: nat
  d_status :: DeliveryStatus
  d_responseStatus :: "int option"
  d_lastError :: "string option"
  d_nextAttemptAt :: "timestamp option"
  d_deliveredAt :: "timestamp option"
  d_leaseOwner :: "uuid option"
  d_leaseUntil :: "timestamp option"
  d_updatedAt :: timestamp

record RpcObservationRow =
  o_id :: uuid
  o_projectId :: uuid
  o_intentRowId :: uuid
  o_attemptId :: "uuid option"
  o_txHash :: string
  o_rpcEndpoint :: "string option"
  o_observedStatus :: string
  o_blockHash :: "string option"
  o_blockNumber :: "string option"
  o_tipBlockNumber :: "string option"
  o_canonicalBlockHash :: "string option"
  o_inputState :: "string option"
  o_latencyMs :: "int option"
  o_rawObservation :: json
  o_observedAt :: timestamp

datatype RevisionKind = RK_INITIAL | RK_COSIGNATURE | RK_MANUAL_REPLACEMENT

record SignedPayloadRevision =
  r_id :: uuid
  r_projectId :: uuid
  r_intentRowId :: uuid
  r_attemptId :: uuid
  r_revisionNumber :: nat
  r_payloadHashSha256 :: string
  r_kind :: RevisionKind

record EvidenceExportRecord =
  g_id :: uuid
  g_projectId :: uuid
  g_intentRowId :: uuid
  g_evidenceSha256 :: string
  g_schemaVersion :: string
  g_maxEventSequence :: nat
  g_document :: json
  g_createdAt :: timestamp

record ProjectEvidenceRow =
  q_id :: uuid
  q_projectId :: uuid
  q_evidenceSha256 :: string
  q_document :: json
  q_createdAt :: timestamp

record db =
  projects :: "ProjectRecord list"
  api_keys :: "ApiKeyRow list"
  rate_limit_windows :: "((uuid \<times> string \<times> int) \<times> int) list"
  intents :: "IntentRecord list"
  executions :: "ExecutionRecord list"
  transaction_attempts :: "TransactionAttemptRecord list"
  signed_payload_revisions :: "SignedPayloadRevision list"
  rpc_observations :: "RpcObservationRow list"
  state_events :: "StateEventRecord list"
  webhook_endpoints :: "WebhookEndpointRecord list"
  webhook_deliveries :: "WebhookDeliveryRecord list"
  evidence_exports :: "EvidenceExportRecord list"
  project_evidence_exports :: "ProjectEvidenceRow list"
  next_uuid :: uuid
  next_sequence :: nat
  clock :: timestamp
  clock_micros :: nat

text \<open>
  What a repository method can throw: an API error, a lost version race, a plain \<open>Error\<close> with
  its message, or the violation of a named database constraint.
\<close>

datatype thrown =
    ApiError CellFlowError
  | OptimisticConcurrencyError
  | PlainError string
  | ConstraintViolation string

type_synonym 'a repo = "(db, thrown, 'a) action"


section \<open>Row mappers and helpers\<close>

definition mapProject :: "ProjectRecord \<Rightarrow> ProjectRecord" where
  "mapProject row = row\<lparr>p_rpcUrl := or_null (p_rpcUrl row), p_rpcGenesisHash := or_null (p_rpcGenesisHash row)\<rparr>"

definition mapIntent :: "IntentRecord \<Rightarrow> IntentRecord" where
  "mapIntent row = row\<lparr>i_createdMicros := 0\<rparr>"

definition mapExecution :: "ExecutionRecord \<Rightarrow> ExecutionRecord" where
  "mapExecution row = row\<lparr>
     x_txHash := or_null (x_txHash row),
     x_committedBlockHash := or_null (x_committedBlockHash row),
     x_committedBlockNumber := or_null (x_committedBlockNumber row),
     x_rejectionReason := or_null (x_rejectionReason row),
     x_submissionErrorCode := or_null (x_submissionErrorCode row),
     x_assertionStatus := or_null (x_assertionStatus row)\<rparr>"

definition mapAttempt :: "TransactionAttemptRecord \<Rightarrow> TransactionAttemptRecord" where
  "mapAttempt row = row\<lparr>
     a_signedPayloadHashSha256 := or_null (a_signedPayloadHashSha256 row),
     a_submissionErrorCode := or_null (a_submissionErrorCode row)\<rparr>"

definition snapshotFromExecution :: "ExecutionRecord \<Rightarrow> ExecutionSnapshot" where
  "snapshotFromExecution row =
     \<lparr>sn_submissionStatus = x_submissionStatus row, sn_chainStatus = x_chainStatus row,
      sn_workflowStatus = x_workflowStatus row, sn_confirmationPolicy = x_confirmationPolicy row,
      sn_confirmationCount = x_confirmationCount row,
      sn_committedBlockHash = or_null (x_committedBlockHash row),
      sn_committedBlockNumber = or_null (x_committedBlockNumber row),
      sn_rejectionReason = or_null (x_rejectionReason row)\<rparr>"

definition neutralInputRefs :: "OutPointRef list \<Rightarrow> InputRef list" where
  "neutralInputRefs outPoints =
     map (\<lambda>p. \<lparr>ref_outPoint = p, ref_role = IR_OTHER, ref_resourceKey = None\<rparr>) outPoints"

definition priorAttemptDisposition :: "ExecutionRecord \<Rightarrow> AttemptDisposition" where
  "priorAttemptDisposition execution =
    (if x_workflowStatus execution = WS_CONFIRMED then AD_CONFIRMED
     else if x_workflowStatus execution = WS_CONFLICTED then AD_CONFLICTED
     else if x_chainStatus execution = CS_REJECTED \<or> x_submissionStatus execution = SS_NODE_REJECTED then AD_REJECTED
     else AD_SUPERSEDED)"

definition dispositionForSnapshot :: "ExecutionSnapshot \<Rightarrow> AttemptDisposition" where
  "dispositionForSnapshot snapshot =
    (if sn_workflowStatus snapshot = WS_CONFIRMED then AD_CONFIRMED
     else if sn_workflowStatus snapshot = WS_CONFLICTED then AD_CONFLICTED
     else if sn_chainStatus snapshot = CS_REJECTED \<or> sn_submissionStatus snapshot = SS_NODE_REJECTED then AD_REJECTED
     else AD_ACTIVE)"

definition webhookEventType :: "string \<Rightarrow> string \<Rightarrow> string" where
  "webhookEventType kind status =
    (if kind = ''CREATED'' then ''intent.created''
     else if kind = ''ASSERTION_VERIFIED'' then ''intent.assertion_verified''
     else if kind = ''ASSERTION_FAILED'' then ''intent.assertion_failed''
     else if kind = ''REORG_DETECTED'' then ''intent.reorged''
     else if kind = ''SETTLEMENT_READY'' then ''intent.settlement_ready''
     else if kind = ''SETTLEMENT_REVOKED'' then ''intent.settlement_revoked''
     else if kind = ''CONFIRMED'' then ''intent.confirmed''
     else if kind = ''OPERATOR_NOTE'' then ''intent.operator_note''
     else ''intent.'' @ toLowerCase status)"


section \<open>Constraints of the schema\<close>

text \<open>
  The CHECK constraints on executions: the conflict types of migration 005 (no later migration
  extends the list), the evidence a node rejection needs, and non-negative confirmations. The
  status enumerations and non-negative counters hold by the types of the row.
\<close>

definition conflict_type_allowed :: "ConflictType option \<Rightarrow> bool" where
  "conflict_type_allowed c \<longleftrightarrow> (case c of None \<Rightarrow> True | Some t \<Rightarrow>
     t \<in> {CT_INPUT_CONFLICT_SUSPECTED, CT_INPUT_SPENT, CT_EXPECTED_CELL_ASSERTION_FAILED, CT_REORG_CONFLICT, CT_OTHER})"

definition execution_check :: "ExecutionRecord \<Rightarrow> string option" where
  "execution_check row =
    (if \<not> conflict_type_allowed (x_conflictType row) then Some ''executions_conflict_type_check''
     else if x_submissionStatus row = SS_NODE_REJECTED \<and> x_submissionErrorType row \<noteq> Some SE_RPC_REJECTION
       then Some ''executions_node_rejected_evidence_check''
     else if x_confirmationCount row < 0 then Some ''executions_confirmation_nonnegative''
     else None)"

text \<open>The partial unique index on the transaction hash of a project's executions.\<close>

definition tx_hash_taken :: "db \<Rightarrow> uuid \<Rightarrow> uuid \<Rightarrow> string option \<Rightarrow> bool" where
  "tx_hash_taken s projectId rowId h \<longleftrightarrow> h \<noteq> None
     \<and> list_ex (\<lambda>e. x_projectId e = projectId \<and> x_id e \<noteq> rowId \<and> x_txHash e = h) (executions s)"


section \<open>Events and the outbox\<close>

record EventInput =
  ei_projectId :: uuid
  ei_intentRowId :: uuid
  ei_executionId :: uuid
  ei_intentId :: string
  ei_txHash :: "string option"
  ei_kind :: string
  ei_fromStatus :: "string option"
  ei_toStatus :: string
  ei_reason :: "string option"
  ei_rawObservation :: "json option"
  ei_occurredAt :: timestamp
  ei_snapshot :: ExecutionSnapshot
  ei_assertionStatus :: "string option"
  ei_requiredAssertionCount :: int
  ei_conflictType :: "ConflictType option"

text \<open>The rendering of an identifier as text, as it appears in payloads.\<close>

definition uuid_text :: "uuid \<Rightarrow> string" where
  "uuid_text u = nat_string u"

definition event_payload :: "EventInput \<Rightarrow> uuid \<Rightarrow> string \<Rightarrow> json" where
  "event_payload input eventId eventType = JObj [
     (''id'', JStr (uuid_text eventId)),
     (''type'', JStr eventType),
     (''occurredAt'', JStr (iso (ei_occurredAt input))),
     (''data'', JObj [
       (''intentId'', JStr (ei_intentId input)),
       (''txHash'', opt_json (ei_txHash input)),
       (''status'', JStr (ei_toStatus input)),
       (''submissionStatus'', JStr (submission_name (sn_submissionStatus (ei_snapshot input)))),
       (''chainStatus'', JStr (chain_name (sn_chainStatus (ei_snapshot input)))),
       (''workflowStatus'', JStr (workflow_name (sn_workflowStatus (ei_snapshot input)))),
       (''confirmationCount'', JNum (sn_confirmationCount (ei_snapshot input))),
       (''assertionStatus'', opt_json (ei_assertionStatus input)),
       (''settlementReady'', JBool (isSettlementReady (ei_snapshot input) (ei_assertionStatus input)
          (ei_requiredAssertionCount input) (ei_conflictType input)))])]"

definition event_row :: "(json \<Rightarrow> json) \<Rightarrow> EventInput \<Rightarrow> db \<Rightarrow> StateEventRecord" where
  "event_row jsonb input s =
     \<lparr>v_sequence = next_sequence s, v_id = next_uuid s, v_projectId = ei_projectId input,
      v_intentRowId = ei_intentRowId input, v_executionId = ei_executionId input, v_kind = ei_kind input,
      v_fromStatus = ei_fromStatus input, v_toStatus = ei_toStatus input, v_reason = ei_reason input,
      v_rawObservation = (case ei_rawObservation input of None \<Rightarrow> JNull | Some r \<Rightarrow> jsonb r),
      v_occurredAt = ei_occurredAt input, v_createdAt = clock s\<rparr>"

text \<open>\<open>insert ... select ... from webhook_endpoints\<close>: one delivery per enabled endpoint of the project.\<close>

fun outbox_rows :: "(json \<Rightarrow> json) \<Rightarrow> uuid \<Rightarrow> uuid \<Rightarrow> string \<Rightarrow> json \<Rightarrow> timestamp \<Rightarrow> uuid \<Rightarrow> WebhookEndpointRecord list
    \<Rightarrow> WebhookDeliveryRecord list" where
  "outbox_rows jsonb projectId eventId eventType payload now' fresh [] = []"
| "outbox_rows jsonb projectId eventId eventType payload now' fresh (w # ws) =
    (if w_projectId w = projectId \<and> w_enabled w then
       \<lparr>d_id = fresh, d_projectId = projectId, d_endpointId = w_id w, d_eventId = eventId, d_eventType = eventType,
        d_payload = jsonb payload, d_attemptCount = 0, d_status = DS_PENDING, d_responseStatus = None,
        d_lastError = None, d_nextAttemptAt = Some now', d_deliveredAt = None, d_leaseOwner = None,
        d_leaseUntil = None, d_updatedAt = now'\<rparr>
       # outbox_rows jsonb projectId eventId eventType payload now' (Suc fresh) ws
     else outbox_rows jsonb projectId eventId eventType payload now' fresh ws)"

text \<open>\<open>on conflict (endpoint_id, event_id) do nothing\<close>.\<close>

definition new_deliveries :: "WebhookDeliveryRecord list \<Rightarrow> WebhookDeliveryRecord list \<Rightarrow> WebhookDeliveryRecord list" where
  "new_deliveries existing rows = filter (\<lambda>d. \<not> list_ex (\<lambda>e. d_endpointId e = d_endpointId d \<and> d_eventId e = d_eventId d) existing) rows"

definition insertEventAndOutbox :: "(json \<Rightarrow> json) \<Rightarrow> EventInput \<Rightarrow> db \<Rightarrow> uuid \<times> db" where
  "insertEventAndOutbox jsonb input s =
    (let eventId = next_uuid s;
         eventType = webhookEventType (ei_kind input) (ei_toStatus input);
         payload = event_payload input eventId eventType;
         rows = outbox_rows jsonb (ei_projectId input) eventId eventType payload (clock s) (Suc eventId) (webhook_endpoints s) in
     (eventId, s\<lparr>state_events := state_events s @ [event_row jsonb input s],
                 webhook_deliveries := webhook_deliveries s @ new_deliveries (webhook_deliveries s) rows,
                 next_uuid := Suc eventId + length rows,
                 next_sequence := Suc (next_sequence s)\<rparr>))"


section \<open>Guarded writes\<close>

text \<open>
  \<open>update executions ... where id = .. and project_id = .. and version = ..\<close>: the row must still
  have the version the aggregate was read at, and the new row must satisfy the constraints.
\<close>

definition version_match :: "IntentAggregate \<Rightarrow> ExecutionRecord \<Rightarrow> bool" where
  "version_match aggregate e \<longleftrightarrow> x_id e = x_id (ag_execution aggregate)
     \<and> x_projectId e = i_projectId (ag_intent aggregate) \<and> x_version e = x_version (ag_execution aggregate)"

definition update_execution ::
    "IntentAggregate \<Rightarrow> (ExecutionRecord \<Rightarrow> ExecutionRecord) \<Rightarrow> db \<Rightarrow> thrown + db" where
  "update_execution aggregate f s =
    (case sql_first (version_match aggregate) (executions s) of
       None \<Rightarrow> Inl OptimisticConcurrencyError
     | Some e \<Rightarrow>
         (case execution_check (f e) of
            Some c \<Rightarrow> Inl (ConstraintViolation c)
          | None \<Rightarrow>
              if tx_hash_taken s (x_projectId e) (x_id e) (x_txHash (f e))
              then Inl (ConstraintViolation ''executions_project_tx_hash_unique'')
              else Inr (s\<lparr>executions := sql_update (version_match aggregate) f (executions s)\<rparr>)))"

definition update_attempts ::
    "(TransactionAttemptRecord \<Rightarrow> bool) \<Rightarrow> (TransactionAttemptRecord \<Rightarrow> TransactionAttemptRecord) \<Rightarrow> db \<Rightarrow> db" where
  "update_attempts P f s = s\<lparr>transaction_attempts := sql_update P f (transaction_attempts s)\<rparr>"

definition update_intent :: "uuid \<Rightarrow> (IntentRecord \<Rightarrow> IntentRecord) \<Rightarrow> db \<Rightarrow> db" where
  "update_intent rowId f s = s\<lparr>intents := sql_update (\<lambda>i. i_id i = rowId) f (intents s)\<rparr>"

text \<open>A document written to a nullable jsonb column.\<close>

definition json_col :: "(json \<Rightarrow> json) \<Rightarrow> json \<Rightarrow> json" where
  "json_col jsonb d = (if d = JNull then JNull else jsonb d)"

lemma update_execution_Inr:
  "update_execution aggregate f s = Inr t \<longleftrightarrow>
     (\<exists>e. sql_first (version_match aggregate) (executions s) = Some e \<and> execution_check (f e) = None
        \<and> \<not> tx_hash_taken s (x_projectId e) (x_id e) (x_txHash (f e))
        \<and> t = s\<lparr>executions := sql_update (version_match aggregate) f (executions s)\<rparr>)"
  by (auto simp: update_execution_def split: option.splits if_splits)

lemma update_execution_stale:
  "update_execution aggregate f s = Inl OptimisticConcurrencyError \<longleftrightarrow>
     (\<forall>e \<in> set (executions s). \<not> version_match aggregate e)"
  by (auto simp: update_execution_def sql_first_None dest: sql_first_Some split: option.splits if_splits)

lemma insertEvent_frame [simp]:
  "executions (snd (insertEventAndOutbox jsonb input s)) = executions s"
  "transaction_attempts (snd (insertEventAndOutbox jsonb input s)) = transaction_attempts s"
  "intents (snd (insertEventAndOutbox jsonb input s)) = intents s"
  "projects (snd (insertEventAndOutbox jsonb input s)) = projects s"
  "webhook_endpoints (snd (insertEventAndOutbox jsonb input s)) = webhook_endpoints s"
  "rpc_observations (snd (insertEventAndOutbox jsonb input s)) = rpc_observations s"
  "clock (snd (insertEventAndOutbox jsonb input s)) = clock s"
  "state_events (snd (insertEventAndOutbox jsonb input s)) = state_events s @ [event_row jsonb input s]"
  by (simp_all add: insertEventAndOutbox_def Let_def)

lemma update_attempts_frame [simp]:
  "executions (update_attempts P f s) = executions s" "intents (update_attempts P f s) = intents s"
  "state_events (update_attempts P f s) = state_events s" "webhook_endpoints (update_attempts P f s) = webhook_endpoints s"
  "webhook_deliveries (update_attempts P f s) = webhook_deliveries s" "clock (update_attempts P f s) = clock s"
  "transaction_attempts (update_attempts P f s) = sql_update P f (transaction_attempts s)"
  "next_uuid (update_attempts P f s) = next_uuid s" "next_sequence (update_attempts P f s) = next_sequence s"
  by (simp_all add: update_attempts_def)

lemma update_intent_frame [simp]:
  "executions (update_intent i g s) = executions s" "transaction_attempts (update_intent i g s) = transaction_attempts s"
  "state_events (update_intent i g s) = state_events s" "webhook_endpoints (update_intent i g s) = webhook_endpoints s"
  "webhook_deliveries (update_intent i g s) = webhook_deliveries s" "clock (update_intent i g s) = clock s"
  "intents (update_intent i g s) = sql_update (\<lambda>r. i_id r = i) g (intents s)"
  "next_uuid (update_intent i g s) = next_uuid s" "next_sequence (update_intent i g s) = next_sequence s"
  by (simp_all add: update_intent_def)

lemma version_match_unique:
  "unique_key x_id (executions s) \<Longrightarrow> e \<in> set (executions s) \<Longrightarrow> version_match ag e
     \<Longrightarrow> sql_first (version_match ag) (executions s) = Some e"
proof -
  assume u: "unique_key x_id (executions s)" and e: "e \<in> set (executions s)" "version_match ag e"
  then obtain e' where f: "sql_first (version_match ag) (executions s) = Some e'"
    using sql_first_None [of "version_match ag" "executions s"] by (cases "sql_first (version_match ag) (executions s)") auto
  from sql_first_Some [OF f] e u have "e' = e"
    by (auto simp: version_match_def intro: unique_key_eq)
  with f show ?thesis by simp
qed


section \<open>The outbox is complete\<close>

text \<open>
  For every enabled endpoint of the project there is exactly one pending delivery of a new
  event, and no delivery goes to a disabled endpoint or to another project.
\<close>

lemma outbox_rows_fields:
  "d \<in> set (outbox_rows jsonb pid ev et pl t fresh ws) \<Longrightarrow>
     d_projectId d = pid \<and> d_eventId d = ev \<and> d_status d = DS_PENDING \<and> d_payload d = jsonb pl
     \<and> d_nextAttemptAt d = Some t \<and> d_leaseOwner d = None \<and> d_attemptCount d = 0
     \<and> (\<exists>w \<in> set ws. w_id w = d_endpointId d \<and> w_projectId w = pid \<and> w_enabled w)"
  by (induction ws arbitrary: fresh) (auto split: if_splits)

lemma outbox_rows_endpoints:
  "map d_endpointId (outbox_rows jsonb pid ev et pl t fresh ws)
     = map w_id (filter (\<lambda>w. w_projectId w = pid \<and> w_enabled w) ws)"
  by (induction ws arbitrary: fresh) auto

lemma outbox_rows_ids:
  "map d_id (outbox_rows jsonb pid ev et pl t fresh ws)
     = [fresh ..< fresh + length (outbox_rows jsonb pid ev et pl t fresh ws)]"
proof (induction ws arbitrary: fresh)
  case (Cons w ws)
  then show ?case by (simp add: upt_rec [of fresh])
qed simp

lemma outbox_rows_id: "d \<in> set (outbox_rows jsonb pid ev et pl t fresh ws) \<Longrightarrow>
    fresh \<le> d_id d \<and> d_id d < fresh + length (outbox_rows jsonb pid ev et pl t fresh ws)"
  using arg_cong [OF outbox_rows_ids [of jsonb pid ev et pl t fresh ws], of set] by (auto simp: set_eq_iff image_iff)

lemma outbox_row_ids: "d \<in> set (outbox_rows jsonb pid ev et pl t fresh ws) \<Longrightarrow>
    d_eventId d = ev \<and> d_id d < fresh + length (outbox_rows jsonb pid ev et pl t fresh ws)"
  using outbox_rows_fields outbox_rows_id by blast

definition event_ids_fresh :: "db \<Rightarrow> bool" where
  "event_ids_fresh s \<longleftrightarrow> (\<forall>d \<in> set (webhook_deliveries s). d_eventId d < next_uuid s \<and> d_id d < next_uuid s)
     \<and> (\<forall>v \<in> set (state_events s). v_id v < next_uuid s \<and> v_sequence v < next_sequence s)"

lemma insertEvent_deliveries:
  assumes "event_ids_fresh s"
  shows "webhook_deliveries (snd (insertEventAndOutbox jsonb input s)) = webhook_deliveries s
    @ outbox_rows jsonb (ei_projectId input) (next_uuid s) (webhookEventType (ei_kind input) (ei_toStatus input))
        (event_payload input (next_uuid s) (webhookEventType (ei_kind input) (ei_toStatus input)))
        (clock s) (Suc (next_uuid s)) (webhook_endpoints s)"
proof -
  have "new_deliveries (webhook_deliveries s) rows = rows" if "\<And>d. d \<in> set rows \<Longrightarrow> d_eventId d = next_uuid s" for rows
    using assms that by (auto simp: new_deliveries_def event_ids_fresh_def list_ex_iff filter_id_conv)
  then show ?thesis
    by (simp add: insertEventAndOutbox_def Let_def outbox_rows_fields)
qed

lemma insertEvent_fresh:
  assumes "event_ids_fresh s"
  shows "event_ids_fresh (snd (insertEventAndOutbox jsonb input s))"
  using assms unfolding event_ids_fresh_def
  by (auto simp: insertEvent_deliveries [OF assms] dest!: outbox_row_ids)
    (auto simp: insertEventAndOutbox_def Let_def event_row_def)

text \<open>
  Recording an event appends exactly one event, with the next sequence number, and
  in the same step exactly one pending delivery for each enabled endpoint of the project, in
  the order of the endpoints, and for no other endpoint.
\<close>

theorem outbox_complete:
  assumes "event_ids_fresh s"
  shows "\<exists>new. webhook_deliveries (snd (insertEventAndOutbox jsonb input s)) = webhook_deliveries s @ new
    \<and> map d_endpointId new = map w_id (filter (\<lambda>w. w_projectId w = ei_projectId input \<and> w_enabled w) (webhook_endpoints s))
    \<and> (\<forall>d \<in> set new. d_eventId d = fst (insertEventAndOutbox jsonb input s) \<and> d_projectId d = ei_projectId input
        \<and> d_status d = DS_PENDING \<and> d_nextAttemptAt d = Some (clock s))
    \<and> state_events (snd (insertEventAndOutbox jsonb input s)) = state_events s @ [event_row jsonb input s]
    \<and> v_id (event_row jsonb input s) = fst (insertEventAndOutbox jsonb input s)
    \<and> (\<forall>v \<in> set (state_events s). v_sequence v < v_sequence (event_row jsonb input s))"
  using assms
  by (intro exI conjI, rule insertEvent_deliveries)
    (auto simp: outbox_rows_endpoints insertEventAndOutbox_def Let_def event_row_def event_ids_fresh_def dest: outbox_rows_fields)

definition empty_db :: db where
  "empty_db = \<lparr>projects = [], api_keys = [], rate_limit_windows = [], intents = [], executions = [],
     transaction_attempts = [], signed_payload_revisions = [], rpc_observations = [], state_events = [],
     webhook_endpoints = [], webhook_deliveries = [], evidence_exports = [], project_evidence_exports = [], next_uuid = 1, next_sequence = 1,
     clock = 1700000000000, clock_micros = 0\<rparr>"

definition sample_endpoint :: "uuid \<Rightarrow> bool \<Rightarrow> WebhookEndpointRecord" where
  "sample_endpoint i en = \<lparr>w_id = i, w_projectId = 0, w_url = ''https://example.org/hook'', w_signingSecretEncrypted = ''x'',
     w_secretVersion = 1, w_enabled = en, w_createdAt = 0, w_updatedAt = 0\<rparr>"

definition sample_event :: EventInput where
  "sample_event = \<lparr>ei_projectId = 0, ei_intentRowId = 0, ei_executionId = 0, ei_intentId = ''order-1'', ei_txHash = None,
     ei_kind = ''CREATED'', ei_fromStatus = None, ei_toStatus = ''CREATED'', ei_reason = None, ei_rawObservation = None,
     ei_occurredAt = 1700000000000, ei_snapshot = initialSnapshot Committed, ei_assertionStatus = None,
     ei_requiredAssertionCount = 0, ei_conflictType = None\<rparr>"

theorem outbox_complete_witness:
  "\<exists>new. webhook_deliveries (snd (insertEventAndOutbox id sample_event
      (empty_db\<lparr>webhook_endpoints := [sample_endpoint 7 True, sample_endpoint 8 False]\<rparr>))) = new
    \<and> map d_endpointId new = [7]"
  using outbox_complete [of "empty_db\<lparr>webhook_endpoints := [sample_endpoint 7 True, sample_endpoint 8 False]\<rparr>" id sample_event]
  by (auto simp: event_ids_fresh_def empty_db_def sample_endpoint_def sample_event_def)

end
