(* ===== verification/RepoIntents.thy ===== *)
theory RepoIntents
  imports Database "HOL-Library.Product_Lexorder"
begin

text \<open>
  The intent operations of packages/db/src/repository.ts: creating, reading and listing
  intents, events and operator notes, attaching a transaction attempt, recording RPC
  observations and updating a candidate attempt. A database transaction that throws leaves the
  state as it was.
\<close>

section \<open>Reading intents\<close>

definition getIntent :: "uuid \<Rightarrow> string \<Rightarrow> db \<Rightarrow> IntentAggregate option" where
  "getIntent projectId intentId s =
    (case sql_first (\<lambda>i. i_projectId i = projectId \<and> i_intentId i = intentId) (intents s) of
       None \<Rightarrow> None
     | Some intent \<Rightarrow>
         (case sql_first (\<lambda>e. x_intentRowId e = i_id intent) (executions s) of
            None \<Rightarrow> None
          | Some row \<Rightarrow>
              let attempts = map mapAttempt (sort_key a_attemptNumber
                    (sql_select (\<lambda>a. a_projectId a = projectId \<and> a_intentRowId a = i_id intent) (transaction_attempts s)));
                  byId = (\<lambda>ref. case ref of None \<Rightarrow> None | Some i \<Rightarrow> find (\<lambda>a. a_id a = i) attempts) in
              Some \<lparr>ag_intent = mapIntent intent, ag_execution = mapExecution row, ag_attempts = attempts,
                ag_activeAttempt = byId (i_activeAttemptId intent), ag_winningAttempt = byId (i_winningAttemptId intent)\<rparr>))"

definition getProject :: "uuid \<Rightarrow> db \<Rightarrow> ProjectRecord option" where
  "getProject projectId s = map_option mapProject (sql_first (\<lambda>p. p_id p = projectId) (projects s))"

definition getEvents :: "uuid \<Rightarrow> uuid \<Rightarrow> db \<Rightarrow> StateEventRecord list" where
  "getEvents projectId intentRowId s =
     map (\<lambda>v. v\<lparr>v_fromStatus := or_null (v_fromStatus v), v_reason := or_null (v_reason v)\<rparr>)
       (sort_key v_sequence (sql_select (\<lambda>v. v_projectId v = projectId \<and> v_intentRowId v = intentRowId) (state_events s)))"


section \<open>Keyset pagination\<close>

text \<open>The rows of a project, newest first: \<open>order by created_at desc, id desc\<close>, at the
  microseconds the column keeps. The cursor comes from \<open>mapIntent\<close>, so it has none: the query
  compares every row with the start of the cursor's millisecond.\<close>

record IntentListCursor =
  cu_createdAt :: timestamp
  cu_id :: uuid

record IntentListPage =
  pg_items :: "IntentAggregate list"
  pg_nextCursor :: "IntentListCursor option"

definition before_cursor :: "IntentListCursor \<Rightarrow> IntentRecord \<Rightarrow> bool" where
  "before_cursor c i \<longleftrightarrow> i_createdAt i < cu_createdAt c
     \<or> (i_createdAt i = cu_createdAt c \<and> i_createdMicros i = 0 \<and> i_id i < cu_id c)"

definition project_rows :: "uuid \<Rightarrow> db \<Rightarrow> (IntentRecord \<times> ExecutionRecord) list" where
  "project_rows projectId s = rev (sort_key (\<lambda>(i, e). (i_createdAt i, i_createdMicros i, i_id i))
     (concat (map (\<lambda>i. map (\<lambda>e. (i, e)) (filter (\<lambda>e. x_intentRowId e = i_id i) (executions s)))
        (filter (\<lambda>i. i_projectId i = projectId) (intents s)))))"

definition page_size :: "int \<Rightarrow> nat" where
  "page_size limit = nat (min (max limit 1) 200)"

definition listIntentsPage :: "uuid \<Rightarrow> int \<Rightarrow> IntentListCursor option \<Rightarrow> db \<Rightarrow> IntentListPage" where
  "listIntentsPage projectId limit cursor s =
    (let pageSize = page_size limit;
         fetchSize = pageSize + 1;
         rows = take fetchSize (filter (\<lambda>(i, e). case cursor of None \<Rightarrow> True | Some c \<Rightarrow> before_cursor c i)
                  (project_rows projectId s));
         hasMore = length rows > pageSize;
         visible = (if hasMore then take pageSize rows else rows);
         items = map (\<lambda>(i, e). \<lparr>ag_intent = mapIntent i, ag_execution = mapExecution e, ag_attempts = [],
                    ag_activeAttempt = None, ag_winningAttempt = None\<rparr>) visible in
     \<lparr>pg_items = items,
      pg_nextCursor = (if hasMore \<and> items \<noteq> [] then
          Some \<lparr>cu_createdAt = i_createdAt (ag_intent (last items)), cu_id = i_id (ag_intent (last items))\<rparr> else None)\<rparr>)"

definition listIntents :: "uuid \<Rightarrow> int \<Rightarrow> db \<Rightarrow> IntentAggregate list" where
  "listIntents projectId limit s = pg_items (listIntentsPage projectId limit None s)"


section \<open>Metrics\<close>

record ProjectMetrics =
  pm_total :: int
  pm_active :: int
  pm_confirmed :: int
  pm_attention :: int

definition count_rows :: "('r \<Rightarrow> bool) \<Rightarrow> 'r list \<Rightarrow> int" where
  "count_rows P rows = int (length (filter P rows))"

definition getProjectMetrics :: "uuid \<Rightarrow> db \<Rightarrow> ProjectMetrics" where
  "getProjectMetrics projectId s =
    (let rows = project_rows projectId s;
         total = count_rows (\<lambda>_. True) rows;
         confirmed = count_rows (\<lambda>(i, e). x_workflowStatus e = WS_CONFIRMED
           \<and> (length (i_expectedCells i) = 0 \<or> x_assertionStatus e = Some ''VERIFIED'')) rows;
         terminalFailure = count_rows (\<lambda>(i, e). x_workflowStatus e \<in> {WS_CONFLICTED, WS_EXPIRED} \<or> x_chainStatus e = CS_REJECTED
           \<or> (x_submissionStatus e = SS_NODE_REJECTED \<and> x_chainStatus e \<in> {CS_UNOBSERVED, CS_UNKNOWN})) rows;
         attention = count_rows (\<lambda>(i, e). x_chainStatus e \<in> {CS_UNKNOWN, CS_REJECTED}
           \<or> x_workflowStatus e \<in> {WS_REORGED, WS_CONFLICTED, WS_EXPIRED}
           \<or> x_submissionStatus e \<in> {SS_SUBMISSION_UNKNOWN, SS_NODE_REJECTED}) rows in
     \<lparr>pm_total = total, pm_active = max 0 (total - confirmed - terminalFailure), pm_confirmed = confirmed,
      pm_attention = attention\<rparr>)"

record OperationalHealthRecord =
  oh_dueReconciliations :: int
  oh_leasedReconciliations :: int
  oh_staleActiveIntents :: int
  oh_oldestActiveAgeSeconds :: "int option"
  oh_pendingWebhooks :: int
  oh_failedWebhooks :: int
  oh_activeApiKeys :: int
  oh_expiringApiKeys7d :: int
  oh_lastEventAt :: "timestamp option"

definition past :: "timestamp option \<Rightarrow> timestamp \<Rightarrow> bool" where
  "past t now' \<longleftrightarrow> (case t of None \<Rightarrow> False | Some x \<Rightarrow> x \<le> now')"

definition still_active :: "ExecutionRecord \<Rightarrow> bool" where
  "still_active e \<longleftrightarrow> x_workflowStatus e \<notin> {WS_CONFIRMED, WS_CONFLICTED, WS_EXPIRED} \<and> x_chainStatus e \<noteq> CS_REJECTED
     \<and> (x_submissionStatus e \<noteq> SS_NODE_REJECTED \<or> x_conflictType e = Some CT_INPUT_CONFLICT_SUSPECTED)"

definition key_active :: "timestamp \<Rightarrow> ApiKeyRow \<Rightarrow> bool" where
  "key_active now' k \<longleftrightarrow> k_revokedAt k = None \<and> (case k_expiresAt k of None \<Rightarrow> True | Some x \<Rightarrow> now' < x)"

definition min_of :: "int list \<Rightarrow> int option" where
  "min_of xs = (case xs of [] \<Rightarrow> None | y # ys \<Rightarrow> Some (foldl min y ys))"

definition max_of :: "int list \<Rightarrow> int option" where
  "max_of xs = (case xs of [] \<Rightarrow> None | y # ys \<Rightarrow> Some (foldl max y ys))"

text \<open>
  The age is the difference in seconds, which PostgreSQL rounds to the nearest integer on the
  cast to bigint.
\<close>

definition getOperationalHealth :: "uuid \<Rightarrow> int \<Rightarrow> db \<Rightarrow> OperationalHealthRecord" where
  "getOperationalHealth projectId staleMinutes s =
    (let stale = min (max staleMinutes 1) 1440;
         now' = clock s;
         ex = filter (\<lambda>e. x_projectId e = projectId) (executions s);
         wd = filter (\<lambda>d. d_projectId d = projectId) (webhook_deliveries s);
         ks = filter (\<lambda>k. k_projectId k = projectId) (api_keys s) in
     \<lparr>oh_dueReconciliations = count_rows (\<lambda>e. past (x_nextReconcileAt e) now') ex,
      oh_leasedReconciliations = count_rows (\<lambda>e. case x_reconcileLeaseUntil e of None \<Rightarrow> False | Some u \<Rightarrow> now' < u) ex,
      oh_staleActiveIntents = count_rows (\<lambda>e. still_active e \<and> x_txHash e \<noteq> None
        \<and> (case x_lastObservedAt e of None \<Rightarrow> True | Some t \<Rightarrow> t < now' - stale * 60000)) ex,
      oh_oldestActiveAgeSeconds = map_option (\<lambda>m. (now' - m + 500) div 1000) (min_of (map x_createdAt (filter still_active ex))),
      oh_pendingWebhooks = count_rows (\<lambda>d. d_status d \<in> {DS_PENDING, DS_RETRY, DS_CLAIMED}) wd,
      oh_failedWebhooks = count_rows (\<lambda>d. d_status d = DS_FAILED) wd,
      oh_activeApiKeys = count_rows (key_active now') ks,
      oh_expiringApiKeys7d = count_rows (\<lambda>k. k_revokedAt k = None
        \<and> (case k_expiresAt k of None \<Rightarrow> False | Some x \<Rightarrow> now' < x \<and> x \<le> now' + 7 * 86400000)) ks,
      oh_lastEventAt = max_of (map v_createdAt (filter (\<lambda>v. v_projectId v = projectId) (state_events s)))\<rparr>)"


section \<open>Creating an intent\<close>

record CreateIntentInput =
  ci_project :: ProjectRecord
  ci_intentId :: string
  ci_metadata :: json
  ci_expectedCells :: "ExpectedCellAssertion list"
  ci_txHash :: "string option"
  ci_submissionStatus :: "SubmissionStatus option"

definition initial_execution ::
    "CreateIntentInput \<Rightarrow> uuid \<Rightarrow> uuid \<Rightarrow> SubmissionStatus \<Rightarrow> timestamp \<Rightarrow> ExecutionRecord" where
  "initial_execution input executionId intentRowId submissionStatus now' =
     \<lparr>x_id = executionId, x_projectId = p_id (ci_project input), x_intentRowId = intentRowId, x_txHash = ci_txHash input,
      x_inputOutPoints = [], x_inputRefs = [], x_network = p_network (ci_project input),
      x_submissionStatus = submissionStatus, x_chainStatus = CS_UNOBSERVED, x_workflowStatus = WS_IDLE,
      x_confirmationPolicy = p_confirmationPolicy (ci_project input), x_confirmationCount = 0,
      x_committedBlockHash = None, x_committedBlockNumber = None, x_rejectionReason = None,
      x_submissionErrorCode = None, x_submissionErrorType = None, x_submissionErrorDetails = JNull,
      x_conflictType = None, x_conflictDetails = JNull, x_assertionStatus = None, x_settlementReadyAt = None,
      x_assertionResult = JNull, x_lastRawObservation = JNull, x_lastObservedAt = None,
      x_nextReconcileAt = (if truthy (ci_txHash input) then Some now' else None),
      x_reconcileAttempts = 0, x_version = 0, x_reconcileLeaseId = None, x_reconcileLeaseUntil = None,
      x_workflowRunId = None, x_workflowStartedAt = None, x_workflowCompletedAt = None,
      x_createdAt = now', x_updatedAt = now'\<rparr>"

definition insert_intent :: "(json \<Rightarrow> json) \<Rightarrow> CreateIntentInput \<Rightarrow> db \<Rightarrow> thrown + db" where
  "insert_intent jsonb input s =
    (let intentRowId = next_uuid s;
         executionId = Suc intentRowId;
         now' = clock s;
         submissionStatus = (case ci_submissionStatus input of Some st \<Rightarrow> st
           | None \<Rightarrow> if truthy (ci_txHash input) then SS_SUBMITTED else SS_NOT_SUBMITTED);
         snapshot = (initialSnapshot (p_confirmationPolicy (ci_project input)))\<lparr>sn_submissionStatus := submissionStatus\<rparr>;
         intent = \<lparr>i_id = intentRowId, i_projectId = p_id (ci_project input), i_intentId = ci_intentId input,
           i_metadata = jsonb (ci_metadata input), i_expectedCells = ci_expectedCells input, i_activeAttemptId = None,
           i_winningAttemptId = None, i_createdAt = now', i_updatedAt = now', i_createdMicros = clock_micros s\<rparr>;
         row = initial_execution input executionId intentRowId submissionStatus now' in
     case execution_check row of
       Some c \<Rightarrow> Inl (ConstraintViolation c)
     | None \<Rightarrow>
       if tx_hash_taken s (x_projectId row) (x_id row) (x_txHash row)
       then Inl (ConstraintViolation ''executions_project_tx_hash_unique'')
       else Inr (snd (insertEventAndOutbox jsonb
              \<lparr>ei_projectId = p_id (ci_project input), ei_intentRowId = intentRowId, ei_executionId = executionId,
               ei_intentId = ci_intentId input, ei_txHash = ci_txHash input, ei_kind = ''CREATED'', ei_fromStatus = None,
               ei_toStatus = overall_name (deriveOverallStatus snapshot),
               ei_reason = Some ''Intent accepted and persisted atomically with its audit event'', ei_rawObservation = None,
               ei_occurredAt = now', ei_snapshot = snapshot, ei_assertionStatus = None,
               ei_requiredAssertionCount = int (length (ci_expectedCells input)), ei_conflictType = None\<rparr>
              (s\<lparr>intents := intents s @ [intent], executions := executions s @ [row], next_uuid := Suc executionId\<rparr>))))"

definition createIntent :: "(json \<Rightarrow> json) \<Rightarrow> CreateIntentInput \<Rightarrow> (IntentAggregate \<times> bool) repo" where
  "createIntent jsonb input s =
    (let exists' = list_ex (\<lambda>i. i_projectId i = p_id (ci_project input) \<and> i_intentId i = ci_intentId input) (intents s) in
     case (if exists' then Inr s else insert_intent jsonb input s) of
       Inl e \<Rightarrow> (Inl e, s)
     | Inr t \<Rightarrow>
         (case getIntent (p_id (ci_project input)) (ci_intentId input) t of
            None \<Rightarrow> (Inl (PlainError ''Intent upsert failed''), t)
          | Some aggregate \<Rightarrow> (Inr (aggregate, \<not> exists'), t)))"


section \<open>Events outside a transition\<close>

definition aggregate_event :: "IntentAggregate \<Rightarrow> string \<Rightarrow> string option \<Rightarrow> string \<Rightarrow> string option \<Rightarrow> json option
    \<Rightarrow> timestamp \<Rightarrow> ExecutionSnapshot \<Rightarrow> EventInput" where
  "aggregate_event aggregate kind fromStatus toStatus reason raw occurredAt snapshot =
     \<lparr>ei_projectId = i_projectId (ag_intent aggregate), ei_intentRowId = i_id (ag_intent aggregate),
      ei_executionId = x_id (ag_execution aggregate), ei_intentId = i_intentId (ag_intent aggregate),
      ei_txHash = x_txHash (ag_execution aggregate), ei_kind = kind, ei_fromStatus = fromStatus, ei_toStatus = toStatus,
      ei_reason = reason, ei_rawObservation = raw, ei_occurredAt = occurredAt, ei_snapshot = snapshot,
      ei_assertionStatus = x_assertionStatus (ag_execution aggregate),
      ei_requiredAssertionCount = int (length (i_expectedCells (ag_intent aggregate))), ei_conflictType = None\<rparr>"

definition appendEvent :: "(json \<Rightarrow> json) \<Rightarrow> IntentAggregate \<Rightarrow> string \<Rightarrow> string option \<Rightarrow> string \<Rightarrow> string option
    \<Rightarrow> json option \<Rightarrow> uuid repo" where
  "appendEvent jsonb aggregate kind fromStatus toStatus reason raw s =
    (let e = ag_execution aggregate;
         snapshot = \<lparr>sn_submissionStatus = x_submissionStatus e, sn_chainStatus = x_chainStatus e,
           sn_workflowStatus = x_workflowStatus e, sn_confirmationPolicy = x_confirmationPolicy e,
           sn_confirmationCount = x_confirmationCount e, sn_committedBlockHash = None, sn_committedBlockNumber = None,
           sn_rejectionReason = None\<rparr>;
         (eventId, t) = insertEventAndOutbox jsonb
           (aggregate_event aggregate kind fromStatus toStatus (or_null reason) raw (clock s) snapshot) s in
     (Inr eventId, t))"

definition addOperatorNote :: "(json \<Rightarrow> json) \<Rightarrow> IntentAggregate \<Rightarrow> string \<Rightarrow> unit repo" where
  "addOperatorNote jsonb aggregate note s =
    (let snapshot = snapshotFromExecution (ag_execution aggregate);
         status = overall_name (deriveOverallStatus snapshot);
         t = snd (insertEventAndOutbox jsonb
           (aggregate_event aggregate ''OPERATOR_NOTE'' (Some status) status (Some note) None (clock s) snapshot) s);
         u = update_intent (i_id (ag_intent aggregate)) (\<lambda>i. i\<lparr>i_updatedAt := clock s\<rparr>) t in
     (Inr (), u\<lparr>executions := sql_update (\<lambda>e. x_id e = x_id (ag_execution aggregate)) (\<lambda>e. e\<lparr>x_updatedAt := clock s\<rparr>)
                (executions u)\<rparr>))"


section \<open>RPC observations and candidate attempts\<close>

record RpcObservationInput =
  oi_aggregate :: IntentAggregate
  oi_attemptId :: "uuid option"
  oi_txHash :: string
  oi_rpcEndpoint :: "string option"
  oi_observedStatus :: string
  oi_blockHash :: "string option"
  oi_blockNumber :: "string option"
  oi_tipBlockNumber :: "string option"
  oi_canonicalBlockHash :: "string option"
  oi_inputState :: "string option"
  oi_latencyMs :: "int option"
  oi_rawObservation :: "json option"
  oi_observedAt :: timestamp

definition recordRpcObservation :: "(json \<Rightarrow> json) \<Rightarrow> RpcObservationInput \<Rightarrow> db \<Rightarrow> db" where
  "recordRpcObservation jsonb input s =
    (let latencyMs = map_option (\<lambda>l. max 0 l) (oi_latencyMs input);
         row = \<lparr>o_id = next_uuid s, o_projectId = i_projectId (ag_intent (oi_aggregate input)),
           o_intentRowId = i_id (ag_intent (oi_aggregate input)), o_attemptId = oi_attemptId input,
           o_txHash = oi_txHash input, o_rpcEndpoint = oi_rpcEndpoint input, o_observedStatus = oi_observedStatus input,
           o_blockHash = oi_blockHash input, o_blockNumber = oi_blockNumber input,
           o_tipBlockNumber = oi_tipBlockNumber input, o_canonicalBlockHash = oi_canonicalBlockHash input,
           o_inputState = oi_inputState input, o_latencyMs = latencyMs,
           o_rawObservation = (case oi_rawObservation input of None \<Rightarrow> JNull | Some r \<Rightarrow> jsonb r),
           o_observedAt = oi_observedAt input\<rparr> in
     s\<lparr>rpc_observations := rpc_observations s @ [row], next_uuid := Suc (next_uuid s)\<rparr>)"

definition updateCandidateAttempt ::
    "(json \<Rightarrow> json) \<Rightarrow> IntentAggregate \<Rightarrow> uuid \<Rightarrow> ExecutionSnapshot \<Rightarrow> ConflictType option \<Rightarrow> json \<Rightarrow> db \<Rightarrow> db" where
  "updateCandidateAttempt jsonb aggregate attemptId snapshot conflictType conflictDetails s =
     update_attempts (\<lambda>a. a_id a = attemptId \<and> a_intentRowId a = i_id (ag_intent aggregate))
       (\<lambda>a. a\<lparr>a_submissionStatus := sn_submissionStatus snapshot, a_chainStatus := sn_chainStatus snapshot,
             a_workflowStatus := sn_workflowStatus snapshot, a_disposition := dispositionForSnapshot snapshot,
             a_conflictType := conflictType, a_conflictDetails := json_col jsonb conflictDetails,
             a_updatedAt := clock s\<rparr>) s"

end
