(* ===== verification/RepoAttach.thy ===== *)
theory RepoAttach
  imports RepoIntents
begin

text \<open>
  \<open>attachTransaction\<close> of packages/db/src/repository.ts: a new transaction attempt of an intent,
  or a repeated preparation of the same one. The definition is split as the method is: the
  checks before the transaction, the checks against the attempt that already has the hash, the
  attempt row, the payload revision, the guarded update of the projection.
\<close>

record AttachInput =
  at_aggregate :: IntentAggregate
  at_txHash :: string
  at_signedPayloadHash :: "string option"
  at_allowRevision :: bool
  at_submissionStatus :: SubmissionStatus
  at_inputOutPoints :: "OutPointRef list"
  at_inputRefs :: "InputRef list"
  at_attemptKind :: "AttemptKind option"
  at_parentAttemptId :: "uuid option"
  at_nextReconcileAt :: "timestamp option"
  at_fromStatus :: string
  at_toStatus :: string
  at_reason :: string

definition at_currentHash :: "AttachInput \<Rightarrow> string option" where
  "at_currentHash input = x_txHash (ag_execution (at_aggregate input))"

definition at_sameHash :: "AttachInput \<Rightarrow> bool" where
  "at_sameHash input \<longleftrightarrow> at_currentHash input = Some (at_txHash input)"

definition at_kind :: "AttachInput \<Rightarrow> AttemptKind" where
  "at_kind input = (case at_attemptKind input of Some k \<Rightarrow> k
     | None \<Rightarrow> if truthy (at_currentHash input) then AK_REBUILD else AK_INITIAL)"

text \<open>The inputs that are persisted: an absent list is read as an empty one.\<close>

definition persistedInputs :: "AttachInput \<Rightarrow> OutPointRef list" where
  "persistedInputs input = (if at_inputOutPoints input \<noteq> [] then at_inputOutPoints input
     else if at_sameHash input then x_inputOutPoints (ag_execution (at_aggregate input)) else [])"

definition persistedInputRefs :: "AttachInput \<Rightarrow> InputRef list" where
  "persistedInputRefs input = (if at_inputRefs input \<noteq> [] then at_inputRefs input
     else if persistedInputs input \<noteq> [] then neutralInputRefs (persistedInputs input)
     else if at_sameHash input then x_inputRefs (ag_execution (at_aggregate input)) else [])"

definition input_key :: "OutPointRef \<Rightarrow> string" where
  "input_key p = toLowerCase (op_txHash p) @ '':'' @ int_string (op_index p)"

definition potentiallyLive :: "ExecutionRecord \<Rightarrow> bool" where
  "potentiallyLive e \<longleftrightarrow> x_submissionStatus e \<in> {SS_BROADCASTING, SS_SUBMISSION_UNKNOWN, SS_SUBMITTED}
     \<or> x_chainStatus e \<in> {CS_PENDING, CS_PROPOSED}"

definition currentFinalized :: "ExecutionRecord \<Rightarrow> bool" where
  "currentFinalized e \<longleftrightarrow> x_chainStatus e = CS_COMMITTED \<or> x_workflowStatus e = WS_CONFIRMED"

text \<open>The checks before the transaction: the error message, if one is thrown.\<close>

definition attach_guard :: "AttachInput \<Rightarrow> string option" where
  "attach_guard input =
    (let e = ag_execution (at_aggregate input) in
     if at_sameHash input \<or> \<not> truthy (at_currentHash input) then None
     else if at_kind input = AK_INITIAL then Some ''ATTEMPT_KIND_INVALID''
     else if currentFinalized e then Some ''UNSAFE_ATTEMPT_REPLACEMENT''
     else if potentiallyLive e \<and> at_kind input \<noteq> AK_RBF_REPLACEMENT then Some ''UNSAFE_ATTEMPT_REPLACEMENT''
     else if at_kind input = AK_RBF_REPLACEMENT then
       (case ag_activeAttempt (at_aggregate input) of
          None \<Rightarrow> Some ''ATTEMPT_PARENT_CONFLICT''
        | Some activeParent \<Rightarrow>
            if at_parentAttemptId input \<noteq> None \<and> at_parentAttemptId input \<noteq> Some (a_id activeParent)
            then Some ''ATTEMPT_PARENT_CONFLICT''
            else
              let parentKeys = set (map input_key (a_inputOutPoints activeParent)) in
              if \<not> list_ex (\<lambda>item. input_key item \<in> parentKeys) (persistedInputs input)
              then Some ''RBF_INPUTS_DO_NOT_OVERLAP'' else None)
     else None)"

text \<open>
  The comparison with the inputs already stored: the text of the jsonb value as it is read back
  against the text of the value that is about to be written.
\<close>

definition stored_text :: "(json \<Rightarrow> json) \<Rightarrow> ('a \<Rightarrow> json) \<Rightarrow> 'a list \<Rightarrow> string" where
  "stored_text jsonb render xs = json_stringify (jsonb (JArr (map render xs)))"

definition fresh_text :: "('a \<Rightarrow> json) \<Rightarrow> 'a list \<Rightarrow> string" where
  "fresh_text render xs = json_stringify (JArr (map render xs))"

definition attach_conflict :: "(json \<Rightarrow> json) \<Rightarrow> AttachInput \<Rightarrow> TransactionAttemptRecord option \<Rightarrow> string option" where
  "attach_conflict jsonb input existingAttempt =
    (case existingAttempt of
       None \<Rightarrow> None
     | Some a \<Rightarrow>
         if a_intentRowId a \<noteq> i_id (ag_intent (at_aggregate input)) then Some ''TX_HASH_CONFLICT''
         else if persistedInputs input \<noteq> []
            \<and> stored_text jsonb outPoint_json (a_inputOutPoints a) \<noteq> fresh_text outPoint_json (persistedInputs input)
         then Some ''ATTEMPT_INPUT_CONFLICT''
         else if persistedInputRefs input \<noteq> []
            \<and> stored_text jsonb inputRef_json (a_inputRefs a) \<noteq> fresh_text inputRef_json (persistedInputRefs input)
         then Some ''ATTEMPT_INPUT_CONFLICT''
         else if truthy (at_signedPayloadHash input) \<and> truthy (a_signedPayloadHashSha256 a)
            \<and> toLowerCase (the (a_signedPayloadHashSha256 a)) \<noteq> toLowerCase (the (at_signedPayloadHash input))
            \<and> \<not> at_allowRevision input
         then Some ''ATTEMPT_SIGNED_PAYLOAD_CONFLICT''
         else None)"

definition max_number :: "nat list \<Rightarrow> nat" where
  "max_number ns = foldr max ns 0"

definition payload_hash_check :: "string option \<Rightarrow> bool" where
  "payload_hash_check h \<longleftrightarrow> (case h of None \<Rightarrow> True | Some v \<Rightarrow> is_tx_hash v)"

text \<open>The attempt row: the attempt's id, its number, and the state with the row written.\<close>

definition attach_attempt :: "AttachInput \<Rightarrow> TransactionAttemptRecord option \<Rightarrow> db \<Rightarrow> thrown + uuid \<times> nat \<times> db" where
  "attach_attempt input existingAttempt s =
    (let ag = at_aggregate input; intent = ag_intent ag; rowId = i_id intent; now' = clock s in
     case existingAttempt of
       Some a \<Rightarrow>
         if \<not> payload_hash_check (at_signedPayloadHash input)
         then Inl (ConstraintViolation ''transaction_attempts_signed_payload_hash_sha256_check'')
         else Inr (a_id a,
           (if ag_attempts ag = [] then 0 else a_attemptNumber (last (ag_attempts ag))),
           update_attempts (\<lambda>r. a_id r = a_id a)
             (\<lambda>r. r\<lparr>a_submissionStatus := at_submissionStatus input,
                   a_signedPayloadHashSha256 := (case at_signedPayloadHash input of None \<Rightarrow> a_signedPayloadHashSha256 r | h \<Rightarrow> h),
                   a_inputOutPoints := persistedInputs input, a_inputRefs := persistedInputRefs input,
                   a_updatedAt := now'\<rparr>) s)
     | None \<Rightarrow>
         let attemptNumber = Suc (max_number (map a_attemptNumber (filter (\<lambda>r. a_intentRowId r = rowId) (transaction_attempts s))));
             attemptId = next_uuid s;
             parentAttemptId = (case at_parentAttemptId input of Some p \<Rightarrow> Some p | None \<Rightarrow> i_activeAttemptId intent) in
         if parentAttemptId \<noteq> None
            \<and> \<not> list_ex (\<lambda>r. Some (a_id r) = parentAttemptId \<and> a_intentRowId r = rowId) (transaction_attempts s)
         then Inl (PlainError ''ATTEMPT_PARENT_CONFLICT'')
         else if \<not> payload_hash_check (at_signedPayloadHash input)
         then Inl (ConstraintViolation ''transaction_attempts_signed_payload_hash_sha256_check'')
         else
           let s1 = (if i_activeAttemptId intent \<noteq> None \<and> at_kind input \<noteq> AK_RBF_REPLACEMENT
                 then update_attempts (\<lambda>r. Some (a_id r) = i_activeAttemptId intent \<and> a_intentRowId r = rowId)
                        (\<lambda>r. r\<lparr>a_disposition := priorAttemptDisposition (ag_execution ag), a_updatedAt := now'\<rparr>) s
                 else s);
               row = \<lparr>a_id = attemptId, a_projectId = i_projectId intent, a_intentRowId = rowId,
                 a_attemptNumber = attemptNumber, a_txHash = at_txHash input,
                 a_signedPayloadHashSha256 = at_signedPayloadHash input, a_parentAttemptId = parentAttemptId,
                 a_attemptKind = at_kind input, a_disposition = AD_ACTIVE, a_inputOutPoints = persistedInputs input,
                 a_inputRefs = persistedInputRefs input, a_submissionStatus = at_submissionStatus input,
                 a_chainStatus = CS_UNOBSERVED, a_workflowStatus = WS_IDLE, a_submissionErrorCode = None,
                 a_submissionErrorType = None, a_submissionErrorDetails = JNull, a_conflictType = None,
                 a_conflictDetails = JNull, a_createdAt = now', a_updatedAt = now'\<rparr> in
           Inr (attemptId, attemptNumber,
             s1\<lparr>transaction_attempts := transaction_attempts s1 @ [row], next_uuid := Suc attemptId\<rparr>))"

definition attach_revision :: "AttachInput \<Rightarrow> uuid \<Rightarrow> db \<Rightarrow> thrown + db" where
  "attach_revision input attemptId s =
    (if \<not> truthy (at_signedPayloadHash input) then Inr s
     else
       let h = toLowerCase (the (at_signedPayloadHash input));
           mine = filter (\<lambda>r. r_attemptId r = attemptId) (signed_payload_revisions s);
           revisionNumber = Suc (max_number (map r_revisionNumber mine)) in
       if list_ex (\<lambda>r. r_payloadHashSha256 r = h) mine then Inr s
       else if \<not> is_tx_hash h then Inl (ConstraintViolation ''signed_payload_revisions_payload_hash_sha256_check'')
       else Inr (s\<lparr>signed_payload_revisions := signed_payload_revisions s @
          [\<lparr>r_id = next_uuid s, r_projectId = i_projectId (ag_intent (at_aggregate input)),
            r_intentRowId = i_id (ag_intent (at_aggregate input)), r_attemptId = attemptId,
            r_revisionNumber = revisionNumber, r_payloadHashSha256 = h,
            r_kind = (if revisionNumber = 1 then RK_INITIAL else if at_allowRevision input then RK_COSIGNATURE
              else RK_MANUAL_REPLACEMENT)\<rparr>], next_uuid := Suc (next_uuid s)\<rparr>))"

definition attach_projection :: "AttachInput \<Rightarrow> timestamp \<Rightarrow> ExecutionRecord \<Rightarrow> ExecutionRecord" where
  "attach_projection input now' e =
    (let common = e\<lparr>x_txHash := Some (at_txHash input), x_submissionStatus := at_submissionStatus input,
           x_inputOutPoints := persistedInputs input, x_inputRefs := persistedInputRefs input,
           x_nextReconcileAt := at_nextReconcileAt input, x_version := Suc (x_version e), x_updatedAt := now'\<rparr> in
     if at_sameHash input then common
     else common\<lparr>x_chainStatus := CS_UNOBSERVED, x_workflowStatus := WS_IDLE, x_confirmationCount := 0,
           x_committedBlockHash := None, x_committedBlockNumber := None, x_rejectionReason := None,
           x_submissionErrorCode := None, x_submissionErrorType := None, x_submissionErrorDetails := JNull,
           x_conflictType := None, x_conflictDetails := JNull, x_assertionStatus := None, x_assertionResult := JNull,
           x_settlementReadyAt := None, x_lastRawObservation := JNull, x_lastObservedAt := None,
           x_reconcileAttempts := 0\<rparr>)"

definition attach_event :: "AttachInput \<Rightarrow> uuid \<Rightarrow> nat \<Rightarrow> timestamp \<Rightarrow> EventInput" where
  "attach_event input attemptId attemptNumber now' =
    (let ag = at_aggregate input; e = ag_execution ag; creating = \<not> at_sameHash input;
         snapshot = \<lparr>sn_submissionStatus = at_submissionStatus input,
           sn_chainStatus = (if creating then CS_UNOBSERVED else x_chainStatus e),
           sn_workflowStatus = (if creating then WS_IDLE else x_workflowStatus e),
           sn_confirmationPolicy = x_confirmationPolicy e,
           sn_confirmationCount = (if creating then 0 else x_confirmationCount e),
           sn_committedBlockHash = (if creating then None else or_null (x_committedBlockHash e)),
           sn_committedBlockNumber = (if creating then None else or_null (x_committedBlockNumber e)),
           sn_rejectionReason = None\<rparr> in
     \<lparr>ei_projectId = i_projectId (ag_intent ag), ei_intentRowId = i_id (ag_intent ag), ei_executionId = x_id e,
      ei_intentId = i_intentId (ag_intent ag), ei_txHash = Some (at_txHash input),
      ei_kind = (if creating \<and> truthy (at_currentHash input) then ''TRANSACTION_ATTEMPT_CREATED'' else ''SUBMISSION_UPDATED''),
      ei_fromStatus = Some (at_fromStatus input), ei_toStatus = at_toStatus input, ei_reason = Some (at_reason input),
      ei_rawObservation = Some (JObj [(''attemptId'', JStr (uuid_text attemptId)), (''attemptNumber'', JNum (int attemptNumber)),
        (''attemptKind'', JStr (attempt_kind_name (at_kind input))),
        (''inputOutPoints'', JArr (map outPoint_json (persistedInputs input))),
        (''inputRefs'', JArr (map inputRef_json (persistedInputRefs input)))]),
      ei_occurredAt = now', ei_snapshot = snapshot,
      ei_assertionStatus = (if creating then None else x_assertionStatus e),
      ei_requiredAssertionCount = int (length (i_expectedCells (ag_intent ag))), ei_conflictType = None\<rparr>)"

text \<open>The transaction: an error anywhere leaves the state of the caller.\<close>

definition attach_tx :: "(json \<Rightarrow> json) \<Rightarrow> AttachInput \<Rightarrow> db \<Rightarrow> thrown + db" where
  "attach_tx jsonb input s =
    (let ag = at_aggregate input;
         existingAttempt = sql_first (\<lambda>a. a_projectId a = i_projectId (ag_intent ag) \<and> a_txHash a = at_txHash input)
           (transaction_attempts s) in
     case attach_conflict jsonb input existingAttempt of
       Some m \<Rightarrow> Inl (PlainError m)
     | None \<Rightarrow>
       sum_bind (attach_attempt input existingAttempt s) (\<lambda>(attemptId, attemptNumber, s1).
       sum_bind (attach_revision input attemptId s1) (\<lambda>s2.
       sum_bind (update_execution ag (attach_projection input (clock s)) s2) (\<lambda>s3.
       Inr (snd (insertEventAndOutbox jsonb (attach_event input attemptId attemptNumber (clock s))
         (update_intent (i_id (ag_intent ag))
           (\<lambda>i. i\<lparr>i_activeAttemptId := Some attemptId,
                 i_winningAttemptId := (if at_sameHash input then i_winningAttemptId (ag_intent ag) else None),
                 i_updatedAt := clock s\<rparr>) s3)))))))"

definition attachTransaction :: "(json \<Rightarrow> json) \<Rightarrow> AttachInput \<Rightarrow> IntentAggregate repo" where
  "attachTransaction jsonb input s =
    (case attach_guard input of
       Some m \<Rightarrow> (Inl (PlainError m), s)
     | None \<Rightarrow>
       (case attach_tx jsonb input s of
          Inl e \<Rightarrow> (Inl e, s)
        | Inr t \<Rightarrow>
            (case getIntent (i_projectId (ag_intent (at_aggregate input))) (i_intentId (ag_intent (at_aggregate input))) t of
               None \<Rightarrow> (Inl (PlainError ''Intent disappeared after transaction attach''), t)
             | Some aggregate \<Rightarrow> (Inr aggregate, t))))"

end
