(* ===== verification/RepoProjection.thy ===== *)
theory RepoProjection
  imports RepoAttach
begin

text \<open>
  The three methods of packages/db/src/repository.ts that move the projection of an intent:
  \<open>markSubmissionStatus\<close>, \<open>applySnapshot\<close> and \<open>promoteAttemptProjection\<close>. Each is one database
  transaction under the version check of \<open>update_execution\<close>.
\<close>

section \<open>Submission updates\<close>

record MarkInput =
  mk_aggregate :: IntentAggregate
  mk_status :: SubmissionStatus
  mk_scheduleReconcile :: bool
  mk_fromStatus :: string
  mk_toStatus :: string
  mk_reason :: string
  mk_submissionErrorCode :: "string option"
  mk_submissionErrorType :: "SubmissionErrorType option"
  mk_submissionErrorDetails :: "json option"
  mk_conflictType :: "ConflictType option"
  mk_conflictDetails :: "json option"

definition mk_nextConflictType :: "MarkInput \<Rightarrow> ConflictType option" where
  "mk_nextConflictType input = (case mk_conflictType input of Some c \<Rightarrow> Some c
     | None \<Rightarrow> x_conflictType (ag_execution (mk_aggregate input)))"

definition mk_nextConflictDetails :: "(json \<Rightarrow> json) \<Rightarrow> MarkInput \<Rightarrow> json" where
  "mk_nextConflictDetails jsonb input = (case mk_conflictDetails input of
     None \<Rightarrow> json_col jsonb (x_conflictDetails (ag_execution (mk_aggregate input)))
   | Some d \<Rightarrow> json_col jsonb d)"

definition mk_errorDetails :: "(json \<Rightarrow> json) \<Rightarrow> MarkInput \<Rightarrow> json" where
  "mk_errorDetails jsonb input = (case mk_submissionErrorDetails input of None \<Rightarrow> JNull | Some d \<Rightarrow> json_col jsonb d)"

definition mark_projection :: "(json \<Rightarrow> json) \<Rightarrow> MarkInput \<Rightarrow> timestamp \<Rightarrow> ExecutionRecord \<Rightarrow> ExecutionRecord" where
  "mark_projection jsonb input now' e = e\<lparr>
     x_submissionStatus := mk_status input,
     x_submissionErrorCode := mk_submissionErrorCode input,
     x_submissionErrorType := mk_submissionErrorType input,
     x_submissionErrorDetails := mk_errorDetails jsonb input,
     x_conflictType := mk_nextConflictType input,
     x_conflictDetails := mk_nextConflictDetails jsonb input,
     x_nextReconcileAt := (if mk_scheduleReconcile input then Some now' else x_nextReconcileAt (ag_execution (mk_aggregate input))),
     x_version := Suc (x_version e), x_updatedAt := now'\<rparr>"

definition mark_attempt :: "(json \<Rightarrow> json) \<Rightarrow> MarkInput \<Rightarrow> timestamp \<Rightarrow> TransactionAttemptRecord \<Rightarrow> TransactionAttemptRecord" where
  "mark_attempt jsonb input now' a = a\<lparr>
     a_submissionStatus := mk_status input,
     a_submissionErrorCode := mk_submissionErrorCode input,
     a_submissionErrorType := mk_submissionErrorType input,
     a_submissionErrorDetails := mk_errorDetails jsonb input,
     a_conflictType := mk_nextConflictType input,
     a_conflictDetails := mk_nextConflictDetails jsonb input,
     a_disposition := (if mk_status input = SS_NODE_REJECTED then AD_REJECTED else AD_ACTIVE),
     a_updatedAt := now'\<rparr>"

definition mark_event :: "MarkInput \<Rightarrow> timestamp \<Rightarrow> EventInput" where
  "mark_event input now' =
    (let ag = mk_aggregate input; e = ag_execution ag;
         snapshot = \<lparr>sn_submissionStatus = mk_status input, sn_chainStatus = x_chainStatus e,
           sn_workflowStatus = x_workflowStatus e, sn_confirmationPolicy = x_confirmationPolicy e,
           sn_confirmationCount = x_confirmationCount e,
           sn_committedBlockHash = or_null (x_committedBlockHash e),
           sn_committedBlockNumber = or_null (x_committedBlockNumber e), sn_rejectionReason = None\<rparr> in
     aggregate_event ag ''SUBMISSION_UPDATED'' (Some (mk_fromStatus input)) (mk_toStatus input) (Some (mk_reason input))
       (case mk_submissionErrorType input of None \<Rightarrow> None
        | Some ty \<Rightarrow> Some (JObj [(''submissionErrorCode'', opt_json (mk_submissionErrorCode input)),
            (''submissionErrorType'', JStr (submission_error_name ty)),
            (''submissionErrorDetails'', nullish_or (mk_submissionErrorDetails input) JNull),
            (''conflictType'', opt_json (map_option conflict_type_name (mk_conflictType input))),
            (''conflictDetails'', nullish_or (mk_conflictDetails input) JNull)]))
       now' snapshot)"

definition mark_tx :: "(json \<Rightarrow> json) \<Rightarrow> MarkInput \<Rightarrow> db \<Rightarrow> thrown + db" where
  "mark_tx jsonb input s =
    (let ag = mk_aggregate input; now' = clock s in
     sum_bind (update_execution ag (mark_projection jsonb input now') s) (\<lambda>s1.
     let s2 = (case i_activeAttemptId (ag_intent ag) of
           None \<Rightarrow> s1
         | Some active \<Rightarrow> update_attempts (\<lambda>a. a_id a = active \<and> a_intentRowId a = i_id (ag_intent ag))
             (mark_attempt jsonb input now') s1) in
     Inr (snd (insertEventAndOutbox jsonb (mark_event input now') s2))))"

definition markSubmissionStatus :: "(json \<Rightarrow> json) \<Rightarrow> MarkInput \<Rightarrow> IntentAggregate repo" where
  "markSubmissionStatus jsonb input s =
    (case mark_tx jsonb input s of
       Inl e \<Rightarrow> (Inl e, s)
     | Inr t \<Rightarrow>
         (case getIntent (i_projectId (ag_intent (mk_aggregate input))) (i_intentId (ag_intent (mk_aggregate input))) t of
            None \<Rightarrow> (Inl (PlainError ''Intent disappeared after submission update''), t)
          | Some aggregate \<Rightarrow> (Inr aggregate, t)))"


section \<open>Applying a snapshot\<close>

text \<open>
  Optional parameters that may also be null are options of their own: \<open>None\<close> is undefined. The
  document of a conflict or an assertion result is \<open>JNull\<close> for null.
\<close>

record SnapshotInput =
  si_aggregate :: IntentAggregate
  si_snapshot :: ExecutionSnapshot
  si_kind :: string
  si_fromStatus :: "string option"
  si_toStatus :: string
  si_reason :: "string option"
  si_rawObservation :: "json option"
  si_occurredAt :: timestamp
  si_nextReconcileAt :: "timestamp option"
  si_assertionStatus :: "string option option"
  si_assertionResult :: "json option"
  si_conflictType :: "ConflictType option option"
  si_conflictDetails :: "json option"

definition given :: "'a option \<Rightarrow> 'a \<Rightarrow> 'a" where
  "given x prior = (case x of None \<Rightarrow> prior | Some v \<Rightarrow> v)"

lemma given_simps [simp]: "given None p = p" "given (Some v) p = v"
  by (simp_all add: given_def)

definition si_required :: "SnapshotInput \<Rightarrow> int" where
  "si_required input = int (length (i_expectedCells (ag_intent (si_aggregate input))))"

definition si_nextAssertion :: "SnapshotInput \<Rightarrow> string option" where
  "si_nextAssertion input = given (si_assertionStatus input) (x_assertionStatus (ag_execution (si_aggregate input)))"

definition si_nextConflictType :: "SnapshotInput \<Rightarrow> ConflictType option" where
  "si_nextConflictType input = given (si_conflictType input) (x_conflictType (ag_execution (si_aggregate input)))"

definition si_nextConflictDetails :: "SnapshotInput \<Rightarrow> json" where
  "si_nextConflictDetails input = given (si_conflictDetails input) (x_conflictDetails (ag_execution (si_aggregate input)))"

definition si_priorReady :: "SnapshotInput \<Rightarrow> bool" where
  "si_priorReady input = (let prior = ag_execution (si_aggregate input) in
     x_settlementReadyAt prior \<noteq> None \<and> isSettlementReady (snapshotFromExecution prior) (x_assertionStatus prior)
       (si_required input) (x_conflictType prior))"

definition si_nextReady :: "SnapshotInput \<Rightarrow> bool" where
  "si_nextReady input = isSettlementReady (si_snapshot input) (si_nextAssertion input) (si_required input) (si_nextConflictType input)"

definition si_settlementReadyAt :: "SnapshotInput \<Rightarrow> timestamp option" where
  "si_settlementReadyAt input = (if si_nextReady input then
     (if si_priorReady input then x_settlementReadyAt (ag_execution (si_aggregate input)) else Some (si_occurredAt input))
     else None)"

definition si_meaningful :: "SnapshotInput \<Rightarrow> bool" where
  "si_meaningful input = (let prior = ag_execution (si_aggregate input); sn = si_snapshot input in
     x_submissionStatus prior \<noteq> sn_submissionStatus sn \<or>
     x_chainStatus prior \<noteq> sn_chainStatus sn \<or>
     x_workflowStatus prior \<noteq> sn_workflowStatus sn \<or>
     x_committedBlockHash prior \<noteq> sn_committedBlockHash sn \<or>
     x_committedBlockNumber prior \<noteq> sn_committedBlockNumber sn \<or>
     x_rejectionReason prior \<noteq> sn_rejectionReason sn \<or>
     x_assertionStatus prior \<noteq> si_nextAssertion input \<or>
     x_conflictType prior \<noteq> si_nextConflictType input \<or>
     json_stringify (x_conflictDetails prior) \<noteq> json_stringify (si_nextConflictDetails input))"

definition snapshot_projection :: "(json \<Rightarrow> json) \<Rightarrow> SnapshotInput \<Rightarrow> timestamp \<Rightarrow> ExecutionRecord \<Rightarrow> ExecutionRecord" where
  "snapshot_projection jsonb input now' e =
    (let prior = ag_execution (si_aggregate input); sn = si_snapshot input in
     e\<lparr>x_submissionStatus := sn_submissionStatus sn, x_chainStatus := sn_chainStatus sn,
       x_workflowStatus := sn_workflowStatus sn, x_confirmationCount := sn_confirmationCount sn,
       x_committedBlockHash := sn_committedBlockHash sn, x_committedBlockNumber := sn_committedBlockNumber sn,
       x_rejectionReason := sn_rejectionReason sn, x_assertionStatus := si_nextAssertion input,
       x_settlementReadyAt := si_settlementReadyAt input, x_conflictType := si_nextConflictType input,
       x_conflictDetails := json_col jsonb (si_nextConflictDetails input),
       x_assertionResult := json_col jsonb (given (si_assertionResult input) (x_assertionResult prior)),
       x_lastRawObservation := json_col jsonb (given (si_rawObservation input) (x_lastRawObservation prior)),
       x_lastObservedAt := (if si_rawObservation input = None then x_lastObservedAt prior else Some (si_occurredAt input)),
       x_nextReconcileAt := si_nextReconcileAt input, x_reconcileAttempts := Suc (x_reconcileAttempts e),
       x_version := Suc (x_version e), x_updatedAt := now'\<rparr>)"

text \<open>The attempts: the active one follows the snapshot, and a confirmed one supersedes the others.\<close>

definition snapshot_attempts :: "(json \<Rightarrow> json) \<Rightarrow> SnapshotInput \<Rightarrow> timestamp \<Rightarrow> db \<Rightarrow> db" where
  "snapshot_attempts jsonb input now' s =
    (let rowId = i_id (ag_intent (si_aggregate input)); sn = si_snapshot input;
         disposition = dispositionForSnapshot sn in
     case i_activeAttemptId (ag_intent (si_aggregate input)) of
       None \<Rightarrow> s
     | Some active \<Rightarrow>
         let s1 = update_attempts (\<lambda>a. a_id a = active \<and> a_intentRowId a = rowId)
               (\<lambda>a. a\<lparr>a_submissionStatus := sn_submissionStatus sn, a_chainStatus := sn_chainStatus sn,
                     a_workflowStatus := sn_workflowStatus sn, a_disposition := disposition,
                     a_conflictType := si_nextConflictType input,
                     a_conflictDetails := json_col jsonb (si_nextConflictDetails input), a_updatedAt := now'\<rparr>) s in
         if disposition = AD_CONFIRMED then
           update_attempts (\<lambda>a. a_intentRowId a = rowId \<and> a_id a \<noteq> active \<and> a_disposition a = AD_ACTIVE)
             (\<lambda>a. a\<lparr>a_disposition := AD_SUPERSEDED, a_updatedAt := now'\<rparr>) s1
         else s1)"

definition snapshot_event :: "SnapshotInput \<Rightarrow> EventInput" where
  "snapshot_event input =
     (aggregate_event (si_aggregate input) (si_kind input) (si_fromStatus input) (si_toStatus input)
        (or_null (si_reason input)) (si_rawObservation input) (si_occurredAt input) (si_snapshot input))
     \<lparr>ei_assertionStatus := si_nextAssertion input, ei_conflictType := si_nextConflictType input\<rparr>"

definition settlement_event :: "SnapshotInput \<Rightarrow> EventInput" where
  "settlement_event input = (snapshot_event input)
     \<lparr>ei_kind := (if si_nextReady input then ''SETTLEMENT_READY'' else ''SETTLEMENT_REVOKED''),
      ei_reason := Some (if si_nextReady input
        then ''Canonical confirmation policy and all required expected-Cell assertions verified''
        else ''A previous settlement-ready observation is no longer valid; downstream applications must assess compensation'')\<rparr>"

definition applySnapshot :: "(json \<Rightarrow> json) \<Rightarrow> SnapshotInput \<Rightarrow> uuid option repo" where
  "applySnapshot jsonb input s =
    (let ag = si_aggregate input; now' = clock s;
         settlementChanged = (si_priorReady input \<noteq> si_nextReady input) in
     case update_execution ag (snapshot_projection jsonb input now') s of
       Inl e \<Rightarrow> (Inl e, s)
     | Inr s1 \<Rightarrow>
         let s2 = snapshot_attempts jsonb input now' s1;
             s3 = update_intent (i_id (ag_intent ag)) (\<lambda>i. i\<lparr>i_updatedAt := now',
                    i_winningAttemptId := (if dispositionForSnapshot (si_snapshot input) = AD_CONFIRMED
                      then i_activeAttemptId (ag_intent ag) else i_winningAttemptId (ag_intent ag))\<rparr>) s2 in
         if \<not> si_meaningful input \<and> \<not> settlementChanged then (Inr None, s3)
         else
           let (eventId, s4) = insertEventAndOutbox jsonb (snapshot_event input) s3 in
           if settlementChanged
           then (Inr (Some eventId), snd (insertEventAndOutbox jsonb (settlement_event input) s4))
           else (Inr (Some eventId), s4))"


section \<open>Promoting a competing attempt\<close>

record PromoteInput =
  pr_aggregate :: IntentAggregate
  pr_attemptId :: uuid
  pr_snapshot :: ExecutionSnapshot
  pr_eventKind :: string
  pr_reason :: string
  pr_rawObservation :: "json option"
  pr_occurredAt :: timestamp
  pr_nextReconcileAt :: "timestamp option"

definition promote_projection ::
    "(json \<Rightarrow> json) \<Rightarrow> PromoteInput \<Rightarrow> TransactionAttemptRecord \<Rightarrow> bool \<Rightarrow> timestamp \<Rightarrow> ExecutionRecord \<Rightarrow> ExecutionRecord" where
  "promote_projection jsonb input attempt ready now' e =
    (let sn = pr_snapshot input in
     e\<lparr>x_txHash := Some (a_txHash attempt), x_inputOutPoints := a_inputOutPoints attempt, x_inputRefs := a_inputRefs attempt,
       x_submissionStatus := sn_submissionStatus sn, x_chainStatus := sn_chainStatus sn,
       x_workflowStatus := sn_workflowStatus sn, x_confirmationCount := sn_confirmationCount sn,
       x_committedBlockHash := sn_committedBlockHash sn, x_committedBlockNumber := sn_committedBlockNumber sn,
       x_rejectionReason := sn_rejectionReason sn,
       x_submissionErrorCode := a_submissionErrorCode attempt, x_submissionErrorType := a_submissionErrorType attempt,
       x_submissionErrorDetails := json_col jsonb (a_submissionErrorDetails attempt),
       x_conflictType := a_conflictType attempt, x_conflictDetails := json_col jsonb (a_conflictDetails attempt),
       x_assertionStatus := None, x_assertionResult := JNull,
       x_settlementReadyAt := (if ready then Some (pr_occurredAt input) else None),
       x_lastRawObservation := (case pr_rawObservation input of None \<Rightarrow> JNull | Some r \<Rightarrow> json_col jsonb r),
       x_lastObservedAt := Some (pr_occurredAt input),
       x_nextReconcileAt := (case pr_nextReconcileAt input of None \<Rightarrow> Some now' | t \<Rightarrow> t),
       x_reconcileAttempts := 0, x_version := Suc (x_version e), x_updatedAt := now'\<rparr>)"

definition promote_attempts :: "PromoteInput \<Rightarrow> uuid \<Rightarrow> timestamp \<Rightarrow> db \<Rightarrow> db" where
  "promote_attempts input attemptId now' s =
    (let rowId = i_id (ag_intent (pr_aggregate input)); sn = pr_snapshot input; disposition = dispositionForSnapshot sn;
         s1 = update_attempts (\<lambda>a. a_id a = attemptId \<and> a_intentRowId a = rowId)
           (\<lambda>a. a\<lparr>a_submissionStatus := sn_submissionStatus sn, a_chainStatus := sn_chainStatus sn,
                 a_workflowStatus := sn_workflowStatus sn, a_disposition := disposition, a_updatedAt := now'\<rparr>) s in
     if disposition = AD_CONFIRMED then
       update_attempts (\<lambda>a. a_intentRowId a = rowId \<and> a_id a \<noteq> attemptId \<and> a_disposition a = AD_ACTIVE)
         (\<lambda>a. a\<lparr>a_disposition := AD_SUPERSEDED, a_updatedAt := now'\<rparr>) s1
     else s1)"

definition promote_event :: "PromoteInput \<Rightarrow> TransactionAttemptRecord \<Rightarrow> string \<Rightarrow> string \<Rightarrow> EventInput" where
  "promote_event input attempt fromStatus toStatus =
     (aggregate_event (pr_aggregate input) (pr_eventKind input) (Some fromStatus) toStatus (Some (pr_reason input))
        (pr_rawObservation input) (pr_occurredAt input) (pr_snapshot input))
     \<lparr>ei_txHash := Some (a_txHash attempt), ei_assertionStatus := None\<rparr>"

definition promoteAttemptProjection :: "(json \<Rightarrow> json) \<Rightarrow> PromoteInput \<Rightarrow> IntentAggregate repo" where
  "promoteAttemptProjection jsonb input s =
    (let ag = pr_aggregate input; prior = ag_execution ag; intent = ag_intent ag; now' = clock s in
     case find (\<lambda>a. a_id a = pr_attemptId input) (ag_attempts ag) of
       None \<Rightarrow> (Inl (PlainError ''ATTEMPT_PARENT_CONFLICT''), s)
     | Some attempt \<Rightarrow>
         let before = snapshotFromExecution prior;
             fromStatus = overall_name (deriveOverallStatus before);
             toStatus = overall_name (deriveOverallStatus (pr_snapshot input));
             disposition = dispositionForSnapshot (pr_snapshot input);
             required = int (length (i_expectedCells intent));
             oldReady = (x_settlementReadyAt prior \<noteq> None
               \<and> isSettlementReady before (x_assertionStatus prior) required (x_conflictType prior));
             ready = isSettlementReady (pr_snapshot input) None required (a_conflictType attempt) in
         (case update_execution ag (promote_projection jsonb input attempt ready now') s of
            Inl e \<Rightarrow> (Inl e, s)
          | Inr s1 \<Rightarrow>
              let s2 = promote_attempts input (a_id attempt) now' s1;
                  s3 = update_intent (i_id intent) (\<lambda>i. i\<lparr>i_activeAttemptId := Some (a_id attempt),
                         i_winningAttemptId := (if disposition = AD_CONFIRMED then Some (a_id attempt)
                           else i_winningAttemptId intent), i_updatedAt := now'\<rparr>) s2;
                  event = promote_event input attempt fromStatus toStatus;
                  s4 = snd (insertEventAndOutbox jsonb event s3);
                  s5 = (if oldReady \<noteq> ready then snd (insertEventAndOutbox jsonb
                         (event\<lparr>ei_kind := (if ready then ''SETTLEMENT_READY'' else ''SETTLEMENT_REVOKED''),
                           ei_conflictType := a_conflictType attempt,
                           ei_reason := Some (if ready
                             then ''Promoted canonical competing transaction satisfied the confirmation policy with no required Cell assertions''
                             else ''Competing transaction replaced the previous settlement projection; downstream applications must assess compensation'')\<rparr>) s4)
                       else s4) in
              (case getIntent (i_projectId intent) (i_intentId intent) s5 of
                 None \<Rightarrow> (Inl (PlainError ''Intent disappeared after attempt promotion''), s5)
               | Some aggregate \<Rightarrow> (Inr aggregate, s5))))"

end
