(* ===== verification/RepoInvariant.thy ===== *)
theory RepoInvariant
  imports RepoProjection
begin

text \<open>
  The invariant of the stored state that the repository's operations keep, and what a
  successful write says about the row it changed: the keys of the schema stay unique, every
  execution satisfies the CHECK constraints, identifiers are fresh. The locale
  \<open>versioned_write\<close> states the contract of the optimistic writes once; it is interpreted on the
  four methods that move a projection.
\<close>

section \<open>The invariant\<close>

definition executions_ok :: "db \<Rightarrow> bool" where
  "executions_ok s \<longleftrightarrow> unique_key x_id (executions s) \<and> unique_key x_intentRowId (executions s)
     \<and> (\<forall>e \<in> set (executions s). x_id e < next_uuid s \<and> x_intentRowId e < next_uuid s \<and> execution_check e = None)"

definition attempts_ok :: "db \<Rightarrow> bool" where
  "attempts_ok s \<longleftrightarrow> unique_key a_id (transaction_attempts s)
     \<and> unique_key (\<lambda>a. (a_projectId a, a_txHash a)) (transaction_attempts s)
     \<and> unique_key (\<lambda>a. (a_intentRowId a, a_attemptNumber a)) (transaction_attempts s)
     \<and> (\<forall>a \<in> set (transaction_attempts s). a_id a < next_uuid s)"

definition intents_ok :: "db \<Rightarrow> bool" where
  "intents_ok s \<longleftrightarrow> unique_key i_id (intents s) \<and> unique_key (\<lambda>i. (i_projectId i, i_intentId i)) (intents s)
     \<and> (\<forall>i \<in> set (intents s). i_id i < next_uuid s)"

definition deliveries_ok :: "db \<Rightarrow> bool" where
  "deliveries_ok s \<longleftrightarrow> unique_key w_id (webhook_endpoints s) \<and> unique_key d_id (webhook_deliveries s)
     \<and> unique_key (\<lambda>d. (d_endpointId d, d_eventId d)) (webhook_deliveries s)
     \<and> (\<forall>w \<in> set (webhook_endpoints s). w_id w < next_uuid s)"

definition repo_inv :: "db \<Rightarrow> bool" where
  "repo_inv s \<longleftrightarrow> executions_ok s \<and> attempts_ok s \<and> intents_ok s \<and> deliveries_ok s \<and> event_ids_fresh s"

lemma repo_inv_empty: "repo_inv empty_db"
  by (simp add: repo_inv_def executions_ok_def attempts_ok_def intents_ok_def deliveries_ok_def event_ids_fresh_def
      empty_db_def unique_key_def)

lemma insertEvent_next_uuid: "next_uuid s < next_uuid (snd (insertEventAndOutbox jsonb input s))"
  by (simp add: insertEventAndOutbox_def Let_def)

lemma insertEvent_deliveries_ok:
  assumes "deliveries_ok s" and "event_ids_fresh s"
  shows "deliveries_ok (snd (insertEventAndOutbox jsonb input s))"
proof -
  let ?new = "outbox_rows jsonb (ei_projectId input) (next_uuid s) (webhookEventType (ei_kind input) (ei_toStatus input))
        (event_payload input (next_uuid s) (webhookEventType (ei_kind input) (ei_toStatus input)))
        (clock s) (Suc (next_uuid s)) (webhook_endpoints s)"
  have "distinct (map d_endpointId ?new)"
    using assms(1) by (simp add: outbox_rows_endpoints deliveries_ok_def unique_key_def distinct_map_filter)
  then have n: "distinct (map (\<lambda>d. (d_endpointId d, d_eventId d)) ?new)"
    by (auto simp: distinct_map inj_on_def)
  have "d_eventId d \<noteq> d_eventId d'" if "d \<in> set ?new" "d' \<in> set (webhook_deliveries s)" for d d'
    using that assms(2) by (auto simp: event_ids_fresh_def dest!: outbox_rows_fields)
  with n assms(1) have "unique_key (\<lambda>d. (d_endpointId d, d_eventId d)) (webhook_deliveries s @ ?new)"
    by (fastforce simp: unique_key_def deliveries_ok_def)
  moreover have "unique_key d_id (webhook_deliveries s @ ?new)"
    using assms by (auto simp: unique_key_def deliveries_ok_def event_ids_fresh_def outbox_rows_ids)
  ultimately show ?thesis
    using assms insertEvent_next_uuid [of s jsonb input]
    by (auto simp: deliveries_ok_def insertEvent_deliveries dest: less_trans)
qed

lemma repo_inv_event: "repo_inv s \<Longrightarrow> repo_inv (snd (insertEventAndOutbox jsonb input s))"
  using insertEvent_next_uuid [of s jsonb input]
  by (auto simp: repo_inv_def executions_ok_def attempts_ok_def intents_ok_def
      intro: insertEvent_fresh insertEvent_deliveries_ok dest: less_trans)

lemma repo_inv_attempts:
  assumes "repo_inv s"
    and "\<And>a. P a \<Longrightarrow> a_id (f a) = a_id a \<and> a_projectId (f a) = a_projectId a \<and> a_txHash (f a) = a_txHash a
          \<and> a_intentRowId (f a) = a_intentRowId a \<and> a_attemptNumber (f a) = a_attemptNumber a"
  shows "repo_inv (update_attempts P f s)"
  using assms
  by (auto simp: repo_inv_def executions_ok_def attempts_ok_def intents_ok_def deliveries_ok_def event_ids_fresh_def
      set_sql_update intro!: unique_key_update)

lemma repo_inv_intent:
  assumes "repo_inv s"
    and "\<And>i. i_id (f i) = i_id i \<and> i_projectId (f i) = i_projectId i \<and> i_intentId (f i) = i_intentId i"
  shows "repo_inv (update_intent r f s)"
  using assms
  by (auto simp: repo_inv_def executions_ok_def attempts_ok_def intents_ok_def deliveries_ok_def event_ids_fresh_def
      set_sql_update intro!: unique_key_update)

lemma repo_inv_execution:
  assumes inv: "repo_inv s" and u: "update_execution ag f s = Inr t" and f: "\<And>e. x_id (f e) = x_id e \<and> x_intentRowId (f e) = x_intentRowId e"
  shows "repo_inv t"
proof -
  from u obtain e where e: "sql_first (version_match ag) (executions s) = Some e" "execution_check (f e) = None"
    and t: "t = s\<lparr>executions := sql_update (version_match ag) f (executions s)\<rparr>"
    by (auto simp: update_execution_Inr)
  have uniq: "unique_key x_id (executions s)" using inv by (simp add: repo_inv_def executions_ok_def)
  have "e' = e" if "e' \<in> set (executions s)" "version_match ag e'" for e'
    using version_match_unique [OF uniq that] e(1) by simp
  then have "execution_check e' = None" if "e' \<in> set (sql_update (version_match ag) f (executions s))" for e'
    using that inv e(2) by (auto simp: set_sql_update repo_inv_def executions_ok_def)
  with inv f show ?thesis
    unfolding t by (auto simp: repo_inv_def executions_ok_def attempts_ok_def intents_ok_def deliveries_ok_def
        event_ids_fresh_def set_sql_update intro!: unique_key_update)
qed

lemma projection_ids [simp]:
  "x_id (mark_projection jsonb i t e) = x_id e"
  "x_id (snapshot_projection jsonb si t e) = x_id e"
  "x_id (promote_projection jsonb pi a b t e) = x_id e"
  "x_id (attach_projection ai t e) = x_id e"
  "x_intentRowId (mark_projection jsonb i t e) = x_intentRowId e"
  "x_intentRowId (snapshot_projection jsonb si t e) = x_intentRowId e"
  "x_intentRowId (promote_projection jsonb pi a b t e) = x_intentRowId e"
  "x_intentRowId (attach_projection ai t e) = x_intentRowId e"
  "x_projectId (mark_projection jsonb i t e) = x_projectId e"
  "x_projectId (snapshot_projection jsonb si t e) = x_projectId e"
  "x_projectId (promote_projection jsonb pi a b t e) = x_projectId e"
  "x_projectId (attach_projection ai t e) = x_projectId e"
  "x_version (mark_projection jsonb i t e) = Suc (x_version e)"
  "x_version (snapshot_projection jsonb si t e) = Suc (x_version e)"
  "x_version (promote_projection jsonb pi a b t e) = Suc (x_version e)"
  "x_version (attach_projection ai t e) = Suc (x_version e)"
  by (simp_all add: mark_projection_def snapshot_projection_def promote_projection_def attach_projection_def Let_def)


section \<open>The operations keep it\<close>

lemma mark_tx_inv:
  assumes inv: "repo_inv s" and r: "mark_tx jsonb input s = Inr t"
  shows "repo_inv t"
proof -
  from r obtain s1 where 1: "update_execution (mk_aggregate input) (mark_projection jsonb input (clock s)) s = Inr s1"
    and t: "t = snd (insertEventAndOutbox jsonb (mark_event input (clock s))
      (case i_activeAttemptId (ag_intent (mk_aggregate input)) of None \<Rightarrow> s1
       | Some active \<Rightarrow> update_attempts (\<lambda>a. a_id a = active \<and> a_intentRowId a = i_id (ag_intent (mk_aggregate input)))
             (mark_attempt jsonb input (clock s)) s1))"
    by (auto simp: mark_tx_def Let_def sum_bind_Inr)
  have "repo_inv s1" by (rule repo_inv_execution [OF inv 1]) simp
  then show ?thesis
    unfolding t by (auto simp: mark_attempt_def intro!: repo_inv_event repo_inv_attempts split: option.splits)
qed

lemma mark_inv: "repo_inv s \<Longrightarrow> markSubmissionStatus jsonb input s = (r, t) \<Longrightarrow> repo_inv t"
  by (auto simp: markSubmissionStatus_def intro: mark_tx_inv split: sum.splits option.splits)

lemma snapshot_attempts_inv: "repo_inv s \<Longrightarrow> repo_inv (snapshot_attempts jsonb input t s)"
  by (auto simp: snapshot_attempts_def Let_def intro!: repo_inv_attempts split: option.splits)

lemma apply_inv: "repo_inv s \<Longrightarrow> applySnapshot jsonb input s = (r, t) \<Longrightarrow> repo_inv t"
  by (auto simp: applySnapshot_def Let_def split_beta
      intro!: repo_inv_event repo_inv_intent snapshot_attempts_inv repo_inv_execution [of s]
      split: sum.splits if_splits)

lemma promote_attempts_inv: "repo_inv s \<Longrightarrow> repo_inv (promote_attempts input i t s)"
  by (auto simp: promote_attempts_def Let_def intro!: repo_inv_attempts)

lemma promote_inv: "repo_inv s \<Longrightarrow> promoteAttemptProjection jsonb input s = (r, t) \<Longrightarrow> repo_inv t"
  by (auto simp: promoteAttemptProjection_def Let_def
      intro!: repo_inv_event repo_inv_intent promote_attempts_inv repo_inv_execution [of s]
      split: sum.splits option.splits if_splits)

lemma max_number_le: "n \<in> set ns \<Longrightarrow> n \<le> max_number ns"
  by (induction ns) (auto simp: max_number_def)

lemma repo_inv_new_attempt:
  assumes inv: "repo_inv s" and id: "a_id row = next_uuid s"
    and hash: "\<And>a. a \<in> set (transaction_attempts s) \<Longrightarrow> (a_projectId a, a_txHash a) \<noteq> (a_projectId row, a_txHash row)"
    and num: "\<And>a. a \<in> set (transaction_attempts s) \<Longrightarrow> a_intentRowId a = a_intentRowId row \<Longrightarrow> a_attemptNumber a < a_attemptNumber row"
  shows "repo_inv (s\<lparr>transaction_attempts := transaction_attempts s @ [row], next_uuid := Suc (next_uuid s)\<rparr>)"
proof -
  have a: "attempts_ok s" using inv by (simp add: repo_inv_def)
  have "unique_key a_id (transaction_attempts s @ [row])"
    using a id by (intro unique_key_append) (auto simp: attempts_ok_def)
  moreover have "unique_key (\<lambda>a. (a_projectId a, a_txHash a)) (transaction_attempts s @ [row])"
    using a hash by (intro unique_key_append) (auto simp: attempts_ok_def)
  moreover have "a_intentRowId r \<noteq> a_intentRowId row \<or> a_attemptNumber r \<noteq> a_attemptNumber row"
    if "r \<in> set (transaction_attempts s)" for r
    using num [OF that] by auto
  then have "unique_key (\<lambda>a. (a_intentRowId a, a_attemptNumber a)) (transaction_attempts s @ [row])"
    using a by (intro unique_key_append) (auto simp: attempts_ok_def)
  ultimately show ?thesis
    using inv id by (auto simp: repo_inv_def executions_ok_def attempts_ok_def intents_ok_def deliveries_ok_def
        event_ids_fresh_def less_Suc_eq)
qed

lemma attach_attempt_inv:
  assumes inv: "repo_inv s" and r: "attach_attempt input ex s = Inr (i, n, t)"
    and ex: "ex = sql_first (\<lambda>a. a_projectId a = i_projectId (ag_intent (at_aggregate input)) \<and> a_txHash a = at_txHash input)
           (transaction_attempts s)"
  shows "repo_inv t"
proof (cases ex)
  case (Some a)
  with r inv show ?thesis
    by (auto simp: attach_attempt_def Let_def intro!: repo_inv_attempts split: if_splits)
next
  case None
  define s1 where "s1 = (if i_activeAttemptId (ag_intent (at_aggregate input)) \<noteq> None \<and> at_kind input \<noteq> AK_RBF_REPLACEMENT
      then update_attempts (\<lambda>r. Some (a_id r) = i_activeAttemptId (ag_intent (at_aggregate input))
               \<and> a_intentRowId r = i_id (ag_intent (at_aggregate input)))
             (\<lambda>r. r\<lparr>a_disposition := priorAttemptDisposition (ag_execution (at_aggregate input)), a_updatedAt := clock s\<rparr>) s
      else s)"
  have inv1: "repo_inv s1" using inv by (auto simp: s1_def intro!: repo_inv_attempts)
  have keys: "map (\<lambda>a. (a_projectId a, a_txHash a, a_intentRowId a, a_attemptNumber a)) (transaction_attempts s1)
      = map (\<lambda>a. (a_projectId a, a_txHash a, a_intentRowId a, a_attemptNumber a)) (transaction_attempts s)"
    by (simp add: s1_def map_sql_update)
  have same: "\<exists>b \<in> set (transaction_attempts s). a_projectId b = a_projectId a \<and> a_txHash b = a_txHash a
      \<and> a_intentRowId b = a_intentRowId a \<and> a_attemptNumber b = a_attemptNumber a"
    if "a \<in> set (transaction_attempts s1)" for a
  proof -
    have "(a_projectId a, a_txHash a, a_intentRowId a, a_attemptNumber a)
        \<in> set (map (\<lambda>a. (a_projectId a, a_txHash a, a_intentRowId a, a_attemptNumber a)) (transaction_attempts s))"
      unfolding keys [symmetric] using that by auto
    then show ?thesis by force
  qed
  have u: "next_uuid s1 = next_uuid s" by (simp add: s1_def)
  have none: "\<forall>b \<in> set (transaction_attempts s). \<not> (a_projectId b = i_projectId (ag_intent (at_aggregate input)) \<and> a_txHash b = at_txHash input)"
    using ex None by (metis (mono_tags, lifting) sql_first_None)
  have num: "a_attemptNumber b < Suc (max_number (map a_attemptNumber (filter (\<lambda>r. a_intentRowId r = w) (transaction_attempts s))))"
    if "b \<in> set (transaction_attempts s)" "a_intentRowId b = w" for b w
    using that by (auto simp: less_Suc_eq_le intro!: max_number_le)
  from r None obtain row where t: "t = s1\<lparr>transaction_attempts := transaction_attempts s1 @ [row], next_uuid := Suc (next_uuid s1)\<rparr>"
    and row: "a_id row = next_uuid s1" "a_projectId row = i_projectId (ag_intent (at_aggregate input))"
      "a_txHash row = at_txHash input" "a_intentRowId row = i_id (ag_intent (at_aggregate input))"
      "a_attemptNumber row = Suc (max_number (map a_attemptNumber (filter (\<lambda>r. a_intentRowId r = i_id (ag_intent (at_aggregate input))) (transaction_attempts s))))"
    by (auto simp: attach_attempt_def Let_def s1_def split: if_splits)
  show ?thesis
    unfolding t
  proof (rule repo_inv_new_attempt [OF inv1 row(1)])
    fix a assume "a \<in> set (transaction_attempts s1)"
    from same [OF this] obtain b where b: "b \<in> set (transaction_attempts s)" "a_projectId b = a_projectId a"
      "a_txHash b = a_txHash a" "a_intentRowId b = a_intentRowId a" "a_attemptNumber b = a_attemptNumber a" by blast
    show "(a_projectId a, a_txHash a) \<noteq> (a_projectId row, a_txHash row)"
      using none b row by auto
    show "a_intentRowId a = a_intentRowId row \<Longrightarrow> a_attemptNumber a < a_attemptNumber row"
      using num [OF b(1)] b row by auto
  qed
qed

lemma attach_revision_inv: "repo_inv s \<Longrightarrow> attach_revision input i s = Inr t \<Longrightarrow> repo_inv t"
  by (auto simp: attach_revision_def Let_def repo_inv_def executions_ok_def attempts_ok_def intents_ok_def
      deliveries_ok_def event_ids_fresh_def less_Suc_eq split: if_splits)

lemma attach_tx_inv: "repo_inv s \<Longrightarrow> attach_tx jsonb input s = Inr t \<Longrightarrow> repo_inv t"
proof -
  assume inv: "repo_inv s" and r: "attach_tx jsonb input s = Inr t"
  let ?ex = "sql_first (\<lambda>a. a_projectId a = i_projectId (ag_intent (at_aggregate input)) \<and> a_txHash a = at_txHash input)
           (transaction_attempts s)"
  from r obtain i n s1 s2 s3 where 1: "attach_attempt input ?ex s = Inr (i, n, s1)" and 2: "attach_revision input i s1 = Inr s2"
    and 3: "update_execution (at_aggregate input) (attach_projection input (clock s)) s2 = Inr s3"
    and t: "t = snd (insertEventAndOutbox jsonb (attach_event input i n (clock s))
         (update_intent (i_id (ag_intent (at_aggregate input)))
           (\<lambda>x. x\<lparr>i_activeAttemptId := Some i,
                 i_winningAttemptId := (if at_sameHash input then i_winningAttemptId (ag_intent (at_aggregate input)) else None),
                 i_updatedAt := clock s\<rparr>) s3))"
    by (auto simp: attach_tx_def Let_def sum_bind_Inr split: option.splits)
  have "repo_inv s1" by (rule attach_attempt_inv [OF inv 1]) simp
  then have "repo_inv s2" by (rule attach_revision_inv [OF _ 2])
  then have "repo_inv s3" by (rule repo_inv_execution [OF _ 3]) simp
  then show ?thesis unfolding t by (intro repo_inv_event repo_inv_intent) simp_all
qed

lemma attach_inv: "repo_inv s \<Longrightarrow> attachTransaction jsonb input s = (r, t) \<Longrightarrow> repo_inv t"
  by (auto simp: attachTransaction_def intro: attach_tx_inv split: sum.splits option.splits)

lemma insert_intent_inv:
  assumes inv: "repo_inv s" and r: "insert_intent jsonb input s = Inr t"
    and new: "\<forall>i \<in> set (intents s). \<not> (i_projectId i = p_id (ci_project input) \<and> i_intentId i = ci_intentId input)"
  shows "repo_inv t"
proof -
  from r obtain row intent ev where t: "t = snd (insertEventAndOutbox jsonb ev (s\<lparr>intents := intents s @ [intent],
        executions := executions s @ [row], next_uuid := Suc (Suc (next_uuid s))\<rparr>))"
    and row: "x_id row = Suc (next_uuid s)" "x_intentRowId row = next_uuid s" "execution_check row = None"
    and it: "i_id intent = next_uuid s" "i_projectId intent = p_id (ci_project input)" "i_intentId intent = ci_intentId input"
    by (auto simp: insert_intent_def Let_def initial_execution_def split: option.splits if_splits)
  have "unique_key x_id (executions s @ [row])"
    using inv row by (intro unique_key_append) (auto simp: repo_inv_def executions_ok_def)
  moreover have "unique_key x_intentRowId (executions s @ [row])"
    using inv row by (intro unique_key_append) (auto simp: repo_inv_def executions_ok_def)
  moreover have "unique_key i_id (intents s @ [intent])"
    using inv it by (intro unique_key_append) (auto simp: repo_inv_def intents_ok_def)
  moreover have "unique_key (\<lambda>i. (i_projectId i, i_intentId i)) (intents s @ [intent])"
    using inv it new by (intro unique_key_append) (auto simp: repo_inv_def intents_ok_def)
  ultimately show ?thesis
    unfolding t using inv row it
    by (intro repo_inv_event) (auto simp: repo_inv_def executions_ok_def attempts_ok_def intents_ok_def deliveries_ok_def
        event_ids_fresh_def less_Suc_eq)
qed

lemma create_inv: "repo_inv s \<Longrightarrow> createIntent jsonb input s = (r, t) \<Longrightarrow> repo_inv t"
proof -
  assume "repo_inv s" and "createIntent jsonb input s = (r, t)"
  then show ?thesis
    by (auto simp: createIntent_def Let_def list_ex_iff intro: insert_intent_inv split: sum.splits option.splits if_splits)
qed

lemma candidate_inv: "repo_inv s \<Longrightarrow> repo_inv (updateCandidateAttempt jsonb ag i sn ct cd s)"
  by (auto simp: updateCandidateAttempt_def intro!: repo_inv_attempts)

lemma observation_inv: "repo_inv s \<Longrightarrow> repo_inv (recordRpcObservation jsonb input s)"
  by (auto simp: recordRpcObservation_def Let_def repo_inv_def executions_ok_def attempts_ok_def intents_ok_def
      deliveries_ok_def event_ids_fresh_def less_Suc_eq)

lemma note_inv: "repo_inv s \<Longrightarrow> addOperatorNote jsonb ag note s = (r, t) \<Longrightarrow> repo_inv t"
proof -
  assume inv: "repo_inv s" and r: "addOperatorNote jsonb ag note s = (r, t)"
  define u where "u = update_intent (i_id (ag_intent ag)) (\<lambda>i. i\<lparr>i_updatedAt := clock s\<rparr>)
    (snd (insertEventAndOutbox jsonb (aggregate_event ag ''OPERATOR_NOTE''
        (Some (overall_name (deriveOverallStatus (snapshotFromExecution (ag_execution ag)))))
        (overall_name (deriveOverallStatus (snapshotFromExecution (ag_execution ag))))
        (Some note) None (clock s) (snapshotFromExecution (ag_execution ag))) s))"
  have u: "repo_inv u" unfolding u_def by (intro repo_inv_intent repo_inv_event inv) simp
  from r have t: "t = u\<lparr>executions := sql_update (\<lambda>e. x_id e = x_id (ag_execution ag)) (\<lambda>e. e\<lparr>x_updatedAt := clock s\<rparr>) (executions u)\<rparr>"
    by (simp add: addOperatorNote_def Let_def u_def)
  have c: "execution_check (e\<lparr>x_updatedAt := x\<rparr>) = execution_check e" for e x
    by (simp add: execution_check_def)
  from u show ?thesis
    unfolding t by (auto simp: repo_inv_def executions_ok_def attempts_ok_def intents_ok_def deliveries_ok_def
        event_ids_fresh_def set_sql_update c intro!: unique_key_update)
qed

lemma appendEvent_inv: "repo_inv s \<Longrightarrow> appendEvent jsonb ag k f t' r' w s = (r, t) \<Longrightarrow> repo_inv t"
  by (auto simp: appendEvent_def Let_def split_beta intro!: repo_inv_event)

text \<open>A call of one of these methods, with any arguments, successful or not.\<close>

inductive repo_call :: "(json \<Rightarrow> json) \<Rightarrow> db \<Rightarrow> db \<Rightarrow> bool" for jsonb where
  "createIntent jsonb ci s = (rc, t) \<Longrightarrow> repo_call jsonb s t"
| "attachTransaction jsonb ai s = (ra, t) \<Longrightarrow> repo_call jsonb s t"
| "markSubmissionStatus jsonb mi s = (ra, t) \<Longrightarrow> repo_call jsonb s t"
| "applySnapshot jsonb si s = (rs, t) \<Longrightarrow> repo_call jsonb s t"
| "promoteAttemptProjection jsonb pi s = (ra, t) \<Longrightarrow> repo_call jsonb s t"
| "appendEvent jsonb ag k f to' why raw s = (re, t) \<Longrightarrow> repo_call jsonb s t"
| "addOperatorNote jsonb ag note s = (rn, t) \<Longrightarrow> repo_call jsonb s t"
| "repo_call jsonb s (recordRpcObservation jsonb oi s)"
| "repo_call jsonb s (updateCandidateAttempt jsonb ag i sn ct cd s)"
| "clock s \<le> now' \<Longrightarrow> repo_call jsonb s (s\<lparr>clock := now', clock_micros := us\<rparr>)"

inductive_cases repo_callE: "repo_call jsonb s t"

lemma clock_inv: "repo_inv s \<Longrightarrow> repo_inv (s\<lparr>clock := c, clock_micros := us\<rparr>)"
  by (simp add: repo_inv_def executions_ok_def attempts_ok_def intents_ok_def deliveries_ok_def event_ids_fresh_def)

lemma repo_call_inv: "repo_call jsonb s t \<Longrightarrow> repo_inv s \<Longrightarrow> repo_inv t"
  by (erule repo_callE)
    (auto intro: create_inv attach_inv mark_inv apply_inv promote_inv appendEvent_inv note_inv observation_inv
      candidate_inv clock_inv)

definition sample_project :: ProjectRecord where
  "sample_project = \<lparr>p_id = 0, p_name = ''demo'', p_network = Testnet, p_rpcUrl = None, p_rpcGenesisHash = None,
     p_confirmationPolicy = Depth 4, p_createdAt = 0\<rparr>"

definition sample_create :: CreateIntentInput where
  "sample_create = \<lparr>ci_project = sample_project, ci_intentId = ''order-1'', ci_metadata = JObj [],
     ci_expectedCells = [], ci_txHash = None, ci_submissionStatus = None\<rparr>"

end
