(* ===== verification/RepoConcurrency.thy ===== *)
theory RepoConcurrency
  imports RepoInvariant
begin

text \<open>
  Optimistic concurrency of the repository. The locale \<open>versioned_write\<close> is the contract of a
  method that writes the projection of an aggregate it was given; it is interpreted on the four
  methods that do. The properties that rest on it say that of two writes prepared from the same
  reading only one can ever succeed, whatever happens in between, and that a refused write
  changes nothing.
\<close>

locale versioned_write =
  fixes op :: "'i \<Rightarrow> db \<Rightarrow> (thrown + 'a) \<times> db"
    and target :: "'i \<Rightarrow> IntentAggregate"
  assumes success_current: "op i s = (Inr r, t) \<Longrightarrow> \<exists>e \<in> set (executions s). version_match (target i) e"
    and success_rows: "op i s = (Inr r, t) \<Longrightarrow> \<exists>f. executions t = sql_update (version_match (target i)) f (executions s)
          \<and> (\<forall>e. x_id (f e) = x_id e \<and> x_projectId (f e) = x_projectId e \<and> x_version (f e) = Suc (x_version e))"
    and stale_unchanged: "op i s = (Inl OptimisticConcurrencyError, t) \<Longrightarrow> t = s"
begin

lemma stale_refused:
  "(\<And>e. e \<in> set (executions s) \<Longrightarrow> \<not> version_match (target i) e) \<Longrightarrow> op i s \<noteq> (Inr r, t)"
  using success_current by blast

lemma success_advances:
  assumes u: "unique_key x_id (executions s)" and r: "op i s = (Inr r, t)" and e: "e \<in> set (executions t)"
    and id: "x_id e = x_id (ag_execution (target i))"
  shows "x_version e = Suc (x_version (ag_execution (target i)))"
proof -
  from success_current [OF r] obtain c where c: "c \<in> set (executions s)" "version_match (target i) c" by blast
  from success_rows [OF r] obtain f where t: "executions t = sql_update (version_match (target i)) f (executions s)"
    and f: "\<forall>e. x_id (f e) = x_id e \<and> x_projectId (f e) = x_projectId e \<and> x_version (f e) = Suc (x_version e)"
    by blast
  from e t obtain d where d: "d \<in> set (executions s)" "e = (if version_match (target i) d then f d else d)"
    by (auto simp: set_sql_update)
  then have "x_id d = x_id c" using id f c(2) by (auto simp: version_match_def split: if_splits)
  then have "d = c" using unique_key_eq [OF u d(1) c(1)] by simp
  with d(2) c(2) f show ?thesis by (simp add: version_match_def)
qed

lemma success_keeps_others:
  assumes "op i s = (Inr r, t)" and "e \<in> set (executions s)" and "x_id e \<noteq> x_id (ag_execution (target i))"
  shows "e \<in> set (executions t)"
  using success_rows [OF assms(1)] assms(2,3) by (auto simp: set_sql_update version_match_def)

end


section \<open>What the methods do to the executions\<close>

lemma sum_cases3: "(case x of Inl e \<Rightarrow> (Inl e, s) | Inr y \<Rightarrow> f y) = (Inr r, t) \<longleftrightarrow> (\<exists>y. x = Inr y \<and> f y = (Inr r, t))"
  by (cases x) auto

lemma update_execution_rows:
  "update_execution ag f s = Inr t \<Longrightarrow> executions t = sql_update (version_match ag) f (executions s)
     \<and> (\<exists>e \<in> set (executions s). version_match ag e)"
  by (auto simp: update_execution_Inr dest: sql_first_Some)

lemma mark_tx_rows:
  "mark_tx jsonb input s = Inr t \<Longrightarrow>
     executions t = sql_update (version_match (mk_aggregate input)) (mark_projection jsonb input (clock s)) (executions s)
     \<and> (\<exists>e \<in> set (executions s). version_match (mk_aggregate input) e)"
  by (auto simp: mark_tx_def Let_def sum_bind_Inr dest!: update_execution_rows split: option.splits)

lemma snapshot_attempts_frame [simp]:
  "executions (snapshot_attempts jsonb input t s) = executions s" "intents (snapshot_attempts jsonb input t s) = intents s"
  "state_events (snapshot_attempts jsonb input t s) = state_events s" "clock (snapshot_attempts jsonb input t s) = clock s"
  "next_uuid (snapshot_attempts jsonb input t s) = next_uuid s"
  by (simp_all add: snapshot_attempts_def Let_def split: option.splits)

lemma promote_attempts_frame [simp]:
  "executions (promote_attempts input i t s) = executions s" "intents (promote_attempts input i t s) = intents s"
  "state_events (promote_attempts input i t s) = state_events s" "next_uuid (promote_attempts input i t s) = next_uuid s"
  by (simp_all add: promote_attempts_def Let_def)

lemma apply_rows:
  "applySnapshot jsonb input s = (Inr r, t) \<Longrightarrow>
     executions t = sql_update (version_match (si_aggregate input)) (snapshot_projection jsonb input (clock s)) (executions s)
     \<and> (\<exists>e \<in> set (executions s). version_match (si_aggregate input) e)"
  by (auto simp: applySnapshot_def Let_def split_beta sum_cases3 dest: update_execution_rows split: if_splits)

lemma promote_rows:
  assumes "promoteAttemptProjection jsonb input s = (r, t)"
  shows "t = s \<or> (\<exists>attempt ready.
     executions t = sql_update (version_match (pr_aggregate input)) (promote_projection jsonb input attempt ready (clock s)) (executions s)
     \<and> (\<exists>e \<in> set (executions s). version_match (pr_aggregate input) e))"
proof (cases "find (\<lambda>a. a_id a = pr_attemptId input) (ag_attempts (pr_aggregate input))")
  case None
  with assms show ?thesis by (simp add: promoteAttemptProjection_def Let_def)
next
  case (Some attempt)
  let ?ready = "isSettlementReady (pr_snapshot input) None (int (length (i_expectedCells (ag_intent (pr_aggregate input))))) (a_conflictType attempt)"
  show ?thesis
  proof (cases "update_execution (pr_aggregate input) (promote_projection jsonb input attempt ?ready (clock s)) s")
    case (Inl e)
    with assms Some show ?thesis by (simp add: promoteAttemptProjection_def Let_def)
  next
    case (Inr s1)
    with assms Some have "executions t = executions s1"
      by (auto simp: promoteAttemptProjection_def Let_def split: option.splits if_splits)
    with update_execution_rows [OF Inr] show ?thesis by auto
  qed
qed

lemma promote_success:
  "promoteAttemptProjection jsonb input s = (Inr r, t) \<Longrightarrow> \<exists>e \<in> set (executions s). version_match (pr_aggregate input) e"
  by (auto simp: promoteAttemptProjection_def Let_def sum_cases3 dest: update_execution_rows split: option.splits)

lemma promote_success_rows:
  assumes "promoteAttemptProjection jsonb input s = (Inr r, t)"
  shows "\<exists>attempt ready. executions t = sql_update (version_match (pr_aggregate input))
     (promote_projection jsonb input attempt ready (clock s)) (executions s)"
  using assms
  by (auto simp: promoteAttemptProjection_def Let_def sum_cases3 dest!: update_execution_rows split: option.splits if_splits) blast+

lemma attach_attempt_executions:
  "attach_attempt input ex s = Inr (i, n, t) \<Longrightarrow> executions t = executions s \<and> next_uuid s \<le> next_uuid t"
  by (auto simp: attach_attempt_def Let_def split: option.splits if_splits)

lemma attach_revision_executions:
  "attach_revision input i s = Inr t \<Longrightarrow> executions t = executions s \<and> next_uuid s \<le> next_uuid t"
  by (auto simp: attach_revision_def Let_def split: if_splits)

lemma attach_tx_rows:
  "attach_tx jsonb input s = Inr t \<Longrightarrow>
     executions t = sql_update (version_match (at_aggregate input)) (attach_projection input (clock s)) (executions s)
     \<and> (\<exists>e \<in> set (executions s). version_match (at_aggregate input) e)"
  by (auto simp: attach_tx_def Let_def sum_bind_Inr
      dest!: attach_attempt_executions attach_revision_executions update_execution_rows split: option.splits)

lemma mark_case:
  "markSubmissionStatus jsonb input s = (r, t) \<Longrightarrow> t = s \<and> (\<exists>e. r = Inl e) \<or> mark_tx jsonb input s = Inr t"
  by (auto simp: markSubmissionStatus_def split: sum.splits option.splits)

lemma attach_case:
  "attachTransaction jsonb input s = (r, t) \<Longrightarrow> t = s \<and> (\<exists>e. r = Inl e) \<or> attach_tx jsonb input s = Inr t"
  by (auto simp: attachTransaction_def split: sum.splits option.splits)

lemma apply_error: "applySnapshot jsonb input s = (Inl e, t) \<Longrightarrow> t = s"
  by (auto simp: applySnapshot_def Let_def split_beta split: sum.splits if_splits)

lemma optimistic_error:
  "markSubmissionStatus jsonb mi s = (Inl OptimisticConcurrencyError, t) \<Longrightarrow> t = s"
  "attachTransaction jsonb ai s = (Inl OptimisticConcurrencyError, t) \<Longrightarrow> t = s"
  "promoteAttemptProjection jsonb pi s = (Inl OptimisticConcurrencyError, t) \<Longrightarrow> t = s"
  by (auto simp: markSubmissionStatus_def attachTransaction_def promoteAttemptProjection_def Let_def
      split: sum.splits option.splits)

interpretation mark_write: versioned_write "markSubmissionStatus jsonb" mk_aggregate for jsonb
proof
  fix i s r t assume a: "markSubmissionStatus jsonb i s = (Inr r, t)"
  then have m: "mark_tx jsonb i s = Inr t" using mark_case by blast
  show "\<exists>e \<in> set (executions s). version_match (mk_aggregate i) e"
    and "\<exists>f. executions t = sql_update (version_match (mk_aggregate i)) f (executions s)
          \<and> (\<forall>e. x_id (f e) = x_id e \<and> x_projectId (f e) = x_projectId e \<and> x_version (f e) = Suc (x_version e))"
    using mark_tx_rows [OF m] by (auto intro!: exI [of _ "mark_projection jsonb i (clock s)"])
qed (rule optimistic_error)

interpretation attach_write: versioned_write "attachTransaction jsonb" at_aggregate for jsonb
proof
  fix i s r t assume a: "attachTransaction jsonb i s = (Inr r, t)"
  then have m: "attach_tx jsonb i s = Inr t" using attach_case by blast
  show "\<exists>e \<in> set (executions s). version_match (at_aggregate i) e"
    and "\<exists>f. executions t = sql_update (version_match (at_aggregate i)) f (executions s)
          \<and> (\<forall>e. x_id (f e) = x_id e \<and> x_projectId (f e) = x_projectId e \<and> x_version (f e) = Suc (x_version e))"
    using attach_tx_rows [OF m] by (auto intro!: exI [of _ "attach_projection i (clock s)"])
qed (rule optimistic_error)

interpretation apply_write: versioned_write "applySnapshot jsonb" si_aggregate for jsonb
proof
  fix i s r t assume a: "applySnapshot jsonb i s = (Inr r, t)"
  show "\<exists>e \<in> set (executions s). version_match (si_aggregate i) e"
    and "\<exists>f. executions t = sql_update (version_match (si_aggregate i)) f (executions s)
          \<and> (\<forall>e. x_id (f e) = x_id e \<and> x_projectId (f e) = x_projectId e \<and> x_version (f e) = Suc (x_version e))"
    using apply_rows [OF a] by (auto intro!: exI [of _ "snapshot_projection jsonb i (clock s)"])
qed (rule apply_error)

interpretation promote_write: versioned_write "promoteAttemptProjection jsonb" pr_aggregate for jsonb
proof
  fix i s r t assume a: "promoteAttemptProjection jsonb i s = (Inr r, t)"
  show "\<exists>e \<in> set (executions s). version_match (pr_aggregate i) e" by (rule promote_success [OF a])
  from promote_success_rows [OF a] obtain attempt ready where
    "executions t = sql_update (version_match (pr_aggregate i)) (promote_projection jsonb i attempt ready (clock s)) (executions s)"
    by blast
  then show "\<exists>f. executions t = sql_update (version_match (pr_aggregate i)) f (executions s)
          \<and> (\<forall>e. x_id (f e) = x_id e \<and> x_projectId (f e) = x_projectId e \<and> x_version (f e) = Suc (x_version e))"
    by (intro exI [of _ "promote_projection jsonb i attempt ready (clock s)"]) simp
qed (rule optimistic_error)


section \<open>Versions only grow\<close>

definition version_grows :: "db \<Rightarrow> db \<Rightarrow> bool" where
  "version_grows s t \<longleftrightarrow> next_uuid s \<le> next_uuid t
     \<and> (\<forall>e \<in> set (executions t). next_uuid s \<le> x_id e
          \<or> (\<exists>c \<in> set (executions s). x_id c = x_id e \<and> x_version c \<le> x_version e))"

lemma version_grows_refl [simp]: "version_grows s s"
  by (auto simp: version_grows_def)

lemma version_grows_trans:
  assumes st: "version_grows s t" and tu: "version_grows t u"
  shows "version_grows s u"
  unfolding version_grows_def
proof (intro conjI ballI)
  show "next_uuid s \<le> next_uuid u" using st tu by (simp add: version_grows_def)
  fix e assume "e \<in> set (executions u)"
  with tu consider "next_uuid t \<le> x_id e"
    | c where "c \<in> set (executions t)" "x_id c = x_id e" "x_version c \<le> x_version e"
    by (auto simp: version_grows_def)
  then show "next_uuid s \<le> x_id e \<or> (\<exists>c \<in> set (executions s). x_id c = x_id e \<and> x_version c \<le> x_version e)"
  proof cases
    case 1
    with st show ?thesis by (simp add: version_grows_def)
  next
    case (2 c)
    then have "next_uuid s \<le> x_id c \<or> (\<exists>d \<in> set (executions s). x_id d = x_id c \<and> x_version d \<le> x_version c)"
      using st unfolding version_grows_def by blast
    with 2 show ?thesis by fastforce
  qed
qed

lemma version_grows_bump:
  "executions t = sql_update P f (executions s) \<Longrightarrow> next_uuid s \<le> next_uuid t
     \<Longrightarrow> (\<And>e. x_id (f e) = x_id e \<and> x_version (f e) = Suc (x_version e)) \<Longrightarrow> version_grows s t"
  by (fastforce simp: version_grows_def set_sql_update)

lemma version_grows_update:
  "executions t = sql_update P f (executions s) \<Longrightarrow> next_uuid s \<le> next_uuid t
     \<Longrightarrow> (\<And>e. x_id (f e) = x_id e \<and> x_version e \<le> x_version (f e)) \<Longrightarrow> version_grows s t"
  by (auto simp: version_grows_def set_sql_update)

lemma update_execution_uuid: "update_execution ag f s = Inr t \<Longrightarrow> next_uuid t = next_uuid s"
  by (auto simp: update_execution_Inr)

lemma event_uuid: "next_uuid s \<le> n \<Longrightarrow> next_uuid s \<le> next_uuid (snd (insertEventAndOutbox jsonb ev (u\<lparr>next_uuid := n\<rparr>)))"
  by (simp add: insertEventAndOutbox_def Let_def)

lemma event_uuid_le [simp]: "next_uuid s \<le> next_uuid u \<Longrightarrow> next_uuid s \<le> next_uuid (snd (insertEventAndOutbox jsonb ev u))"
  using insertEvent_next_uuid [of u jsonb ev] by linarith

lemma uuid_grows:
  "mark_tx jsonb mi s = Inr t \<Longrightarrow> next_uuid s \<le> next_uuid t"
  "applySnapshot jsonb si s = (rs, t) \<Longrightarrow> next_uuid s \<le> next_uuid t"
  "promoteAttemptProjection jsonb pi s = (rp, t) \<Longrightarrow> next_uuid s \<le> next_uuid t"
  "attach_tx jsonb ai s = Inr t \<Longrightarrow> next_uuid s \<le> next_uuid t"
proof -
  show "mark_tx jsonb mi s = Inr t \<Longrightarrow> next_uuid s \<le> next_uuid t"
    by (auto simp: mark_tx_def Let_def sum_bind_Inr dest!: update_execution_uuid split: option.splits)
  show "applySnapshot jsonb si s = (rs, t) \<Longrightarrow> next_uuid s \<le> next_uuid t"
    by (auto simp: applySnapshot_def Let_def split_beta dest!: update_execution_uuid split: sum.splits if_splits)
  show "promoteAttemptProjection jsonb pi s = (rp, t) \<Longrightarrow> next_uuid s \<le> next_uuid t"
    by (auto simp: promoteAttemptProjection_def Let_def dest!: update_execution_uuid
        split: sum.splits option.splits if_splits)
  show "attach_tx jsonb ai s = Inr t \<Longrightarrow> next_uuid s \<le> next_uuid t"
    by (auto simp: attach_tx_def Let_def sum_bind_Inr
        dest!: attach_attempt_executions attach_revision_executions update_execution_uuid split: option.splits)
qed

lemma create_grows: "createIntent jsonb ci s = (r, t) \<Longrightarrow> version_grows s t"
  by (auto simp: createIntent_def insert_intent_def Let_def initial_execution_def version_grows_def
      split: sum.splits option.splits if_splits)

lemma note_executions:
  "addOperatorNote jsonb ag note s = (r, t) \<Longrightarrow>
     executions t = sql_update (\<lambda>e. x_id e = x_id (ag_execution ag)) (\<lambda>e. e\<lparr>x_updatedAt := clock s\<rparr>) (executions s)
     \<and> next_uuid s \<le> next_uuid t"
  by (auto simp: addOperatorNote_def Let_def)

lemma repo_call_grows: "repo_call jsonb s t \<Longrightarrow> version_grows s t"
proof (erule repo_callE)
  show "\<And>ci rc. createIntent jsonb ci s = (rc, t) \<Longrightarrow> version_grows s t" by (rule create_grows)
  show "version_grows s t" if "attachTransaction jsonb ai s = (ra, t)" for ai ra
    using attach_case [OF that] attach_tx_rows [of jsonb ai s t] uuid_grows(4) [of jsonb ai s t]
    by (auto intro: version_grows_bump [of t _ "attach_projection ai (clock s)"])
  show "version_grows s t" if "markSubmissionStatus jsonb mi s = (ra, t)" for mi ra
    using mark_case [OF that] mark_tx_rows [of jsonb mi s t] uuid_grows(1) [of jsonb mi s t]
    by (auto intro: version_grows_bump [of t _ "mark_projection jsonb mi (clock s)"])
  show "\<And>si rs. applySnapshot jsonb si s = (rs, t) \<Longrightarrow> version_grows s t"
  proof -
    fix si rs assume a: "applySnapshot jsonb si s = (rs, t)"
    show "version_grows s t"
    proof (cases rs)
      case (Inl e)
      with a apply_error show ?thesis by (metis version_grows_refl)
    next
      case (Inr x)
      with a apply_rows [of jsonb si s x t] uuid_grows(2) [OF a] show ?thesis
        by (auto intro: version_grows_bump)
    qed
  qed
  show "version_grows s t" if "promoteAttemptProjection jsonb pi s = (ra, t)" for pi ra
    using promote_rows [OF that] uuid_grows(3) [OF that]
    by (auto intro: version_grows_bump)
  show "\<And>ag k f to' why raw re. appendEvent jsonb ag k f to' why raw s = (re, t) \<Longrightarrow> version_grows s t"
    by (auto simp: appendEvent_def Let_def split_beta version_grows_def)
  show "\<And>ag note rn. addOperatorNote jsonb ag note s = (rn, t) \<Longrightarrow> version_grows s t"
    using note_executions by (auto intro!: version_grows_update)
qed (auto simp: recordRpcObservation_def updateCandidateAttempt_def Let_def version_grows_def)


section \<open>No lost update\<close>

text \<open>The four writes as one type, and when one succeeds.\<close>

datatype Write = W_attach AttachInput | W_mark MarkInput | W_apply SnapshotInput | W_promote PromoteInput

definition write_target :: "Write \<Rightarrow> IntentAggregate" where
  "write_target w = (case w of W_attach i \<Rightarrow> at_aggregate i | W_mark i \<Rightarrow> mk_aggregate i | W_apply i \<Rightarrow> si_aggregate i
     | W_promote i \<Rightarrow> pr_aggregate i)"

definition write_succeeds :: "(json \<Rightarrow> json) \<Rightarrow> Write \<Rightarrow> db \<Rightarrow> db \<Rightarrow> bool" where
  "write_succeeds jsonb w s t \<longleftrightarrow> (case w of
     W_attach i \<Rightarrow> \<exists>r. attachTransaction jsonb i s = (Inr r, t)
   | W_mark i \<Rightarrow> \<exists>r. markSubmissionStatus jsonb i s = (Inr r, t)
   | W_apply i \<Rightarrow> \<exists>r. applySnapshot jsonb i s = (Inr r, t)
   | W_promote i \<Rightarrow> \<exists>r. promoteAttemptProjection jsonb i s = (Inr r, t))"

lemma write_current: "write_succeeds jsonb w s t \<Longrightarrow> \<exists>e \<in> set (executions s). version_match (write_target w) e"
  by (auto simp: write_succeeds_def write_target_def split: Write.splits
      dest: mark_write.success_current attach_write.success_current apply_write.success_current promote_write.success_current)

lemma write_advances:
  "unique_key x_id (executions s) \<Longrightarrow> write_succeeds jsonb w s t \<Longrightarrow> e \<in> set (executions t)
     \<Longrightarrow> x_id e = x_id (ag_execution (write_target w)) \<Longrightarrow> x_version e = Suc (x_version (ag_execution (write_target w)))"
  by (auto simp: write_succeeds_def write_target_def split: Write.splits
      dest: mark_write.success_advances attach_write.success_advances apply_write.success_advances promote_write.success_advances)

lemma write_is_call: "write_succeeds jsonb w s t \<Longrightarrow> repo_call jsonb s t"
  by (auto simp: write_succeeds_def intro: repo_call.intros split: Write.splits)

lemma calls_grow: "(repo_call jsonb)\<^sup>*\<^sup>* s t \<Longrightarrow> version_grows s t"
  by (induction rule: rtranclp_induct) (auto intro: version_grows_trans repo_call_grows)

text \<open>What has succeeded once cannot succeed again from the same reading, once versions only grew in between.\<close>

lemma write_once:
  assumes "repo_inv s" and "write_succeeds jsonb w s t" and "version_grows t u"
    and "x_id (ag_execution (write_target w')) = x_id (ag_execution (write_target w))"
    and "x_version (ag_execution (write_target w')) \<le> x_version (ag_execution (write_target w))"
  shows "\<not> write_succeeds jsonb w' u v"
proof
  assume "write_succeeds jsonb w' u v"
  from write_current [OF this] obtain e where e: "e \<in> set (executions u)" "version_match (write_target w') e" by blast
  have uniq: "unique_key x_id (executions s)" using assms(1) by (simp add: repo_inv_def executions_ok_def)
  from write_current [OF assms(2)] obtain c where c: "c \<in> set (executions s)" "version_match (write_target w) c" by blast
  have st: "version_grows s t" by (rule repo_call_grows [OF write_is_call [OF assms(2)]])
  have "x_id c < next_uuid s" using c assms(1) by (simp add: repo_inv_def executions_ok_def)
  then have "x_id e < next_uuid t" using c(2) e(2) assms(4) st by (simp add: version_match_def version_grows_def)
  with assms(3) e(1) obtain d where d: "d \<in> set (executions t)" "x_id d = x_id e" "x_version d \<le> x_version e"
    by (auto simp: version_grows_def)
  have "x_version d = Suc (x_version (ag_execution (write_target w)))"
    using write_advances [OF uniq assms(2) d(1)] d(2) e(2) assms(4) by (simp add: version_match_def)
  with d(3) e(2) assms(5) show False by (simp add: version_match_def)
qed


text \<open>A small state for examples: a project, and an intent prepared on it.\<close>

definition sample_intent :: IntentRecord where
  "sample_intent = \<lparr>i_id = 1, i_projectId = 0, i_intentId = ''order-1'', i_metadata = JObj [], i_expectedCells = [],
     i_activeAttemptId = None, i_winningAttemptId = None, i_createdAt = 0, i_updatedAt = 0, i_createdMicros = 0\<rparr>"

definition sample_row :: ExecutionRecord where
  "sample_row = initial_execution sample_create 2 1 SS_NOT_SUBMITTED 0"

definition sample_db :: db where
  "sample_db = empty_db\<lparr>projects := [sample_project], intents := [sample_intent], executions := [sample_row], next_uuid := 3\<rparr>"

definition sample_aggregate :: IntentAggregate where
  "sample_aggregate = \<lparr>ag_intent = sample_intent, ag_execution = sample_row, ag_attempts = [], ag_activeAttempt = None,
     ag_winningAttempt = None\<rparr>"

lemmas sample_defs = sample_db_def sample_aggregate_def sample_row_def sample_intent_def sample_create_def
  sample_project_def empty_db_def initial_execution_def

definition sample_mark :: "SubmissionStatus \<Rightarrow> MarkInput" where
  "sample_mark st = \<lparr>mk_aggregate = sample_aggregate, mk_status = st, mk_scheduleReconcile = False,
     mk_fromStatus = ''CREATED'', mk_toStatus = ''PREPARED'', mk_reason = ''test'', mk_submissionErrorCode = None,
     mk_submissionErrorType = None, mk_submissionErrorDetails = None, mk_conflictType = None, mk_conflictDetails = None\<rparr>"

lemma sample_db_inv: "repo_inv sample_db"
  by (simp add: repo_inv_def executions_ok_def attempts_ok_def intents_ok_def deliveries_ok_def event_ids_fresh_def
      sample_defs unique_key_def execution_check_def conflict_type_allowed_def)

lemma sample_aggregate_read: "getIntent 0 ''order-1'' sample_db = Some sample_aggregate"
  by (simp add: getIntent_def sample_defs mapExecution_def mapIntent_def sql_select_def)

lemma sample_mark_ok: "\<exists>r t. markSubmissionStatus id (sample_mark SS_PREPARED) sample_db = (Inr r, t)"
  by (simp add: markSubmissionStatus_def mark_tx_def Let_def sample_mark_def sample_defs update_execution_def
      version_match_def execution_check_def conflict_type_allowed_def mark_projection_def mk_nextConflictType_def
      tx_hash_taken_def getIntent_def)

end
