(* ===== verification/RepoLeases.thy ===== *)
theory RepoLeases
  imports RepoConcurrency
begin

text \<open>
  Leases of packages/db/src/repository.ts: the reconcile lease of an execution
  (\<open>claimDueExecutions\<close>, \<open>renewReconcileLease\<close>, \<open>releaseReconcileLease\<close>) and the claim on its
  durable workflow run. The contract of a lease is a locale, proved once and used for
  executions here and for webhook deliveries in RepoWebhooks: while a lease runs, nothing that
  other workers or the API do takes it away.
\<close>

section \<open>The contract of a lease\<close>

text \<open>
  A table of leased rows and the steps a worker can take on the state. The law: a step of
  another worker leaves a row whose lease has not expired with its owner and its expiry.
\<close>

locale lease_table =
  fixes rows :: "db \<Rightarrow> 'r list"
    and key :: "'r \<Rightarrow> uuid"
    and owner :: "'r \<Rightarrow> uuid option"
    and expiry :: "'r \<Rightarrow> timestamp option"
    and ok :: "db \<Rightarrow> bool"
    and worker_step :: "uuid \<Rightarrow> db \<Rightarrow> db \<Rightarrow> bool"
  assumes keeps: "worker_step w s t \<Longrightarrow> ok s \<Longrightarrow> r \<in> set (rows s) \<Longrightarrow> owner r = Some v \<Longrightarrow> expiry r = Some u
      \<Longrightarrow> v \<noteq> w \<Longrightarrow> clock s \<le> u
      \<Longrightarrow> \<exists>r' \<in> set (rows t). key r' = key r \<and> owner r' = Some v \<and> expiry r' = Some u"
    and forward: "worker_step w s t \<Longrightarrow> clock s \<le> clock t"
    and stays_ok: "worker_step w s t \<Longrightarrow> ok s \<Longrightarrow> ok t"
begin

definition others :: "uuid \<Rightarrow> db \<Rightarrow> db \<Rightarrow> bool" where
  "others v s t \<longleftrightarrow> (\<exists>w. w \<noteq> v \<and> worker_step w s t)"

lemma others_forward: "(others v)\<^sup>*\<^sup>* s t \<Longrightarrow> clock s \<le> clock t"
  by (induction rule: rtranclp_induct) (force simp: others_def dest: forward)+

lemma others_ok: "(others v)\<^sup>*\<^sup>* s t \<Longrightarrow> ok s \<Longrightarrow> ok t"
  by (induction rule: rtranclp_induct) (auto simp: others_def intro: stays_ok)

lemma held:
  assumes "(others v)\<^sup>*\<^sup>* s t" and "ok s" and "r \<in> set (rows s)" "owner r = Some v" "expiry r = Some u" and "clock t \<le> u"
  shows "\<exists>r' \<in> set (rows t). key r' = key r \<and> owner r' = Some v \<and> expiry r' = Some u"
  using assms(1,6)
proof (induction rule: rtranclp_induct)
  case base
  with assms show ?case by blast
next
  case (step t t')
  then obtain w where w: "w \<noteq> v" "worker_step w t t'" by (auto simp: others_def)
  with forward step.prems have c: "clock t \<le> u" by fastforce
  with step.IH obtain r' where "r' \<in> set (rows t)" "key r' = key r" "owner r' = Some v" "expiry r' = Some u" by blast
  with keeps [OF w(2) others_ok [OF step.hyps(1) assms(2)] this(1,3,4)] w(1) c show ?case by auto
qed

end


section \<open>The reconcile lease\<close>

definition seconds :: "int \<Rightarrow> int" where
  "seconds n = n * 1000"

definition lease_free :: "timestamp \<Rightarrow> timestamp option \<Rightarrow> bool" where
  "lease_free now' lease \<longleftrightarrow> (case lease of None \<Rightarrow> True | Some t \<Rightarrow> t < now')"

text \<open>The WHERE clause of the claim.\<close>

definition claimable :: "timestamp \<Rightarrow> ExecutionRecord \<Rightarrow> bool" where
  "claimable now' e \<longleftrightarrow> (case x_nextReconcileAt e of None \<Rightarrow> False | Some t \<Rightarrow> t \<le> now')
     \<and> x_workflowStatus e \<notin> {WS_CONFLICTED, WS_EXPIRED}
     \<and> x_chainStatus e \<noteq> CS_REJECTED
     \<and> (x_submissionStatus e \<noteq> SS_NODE_REJECTED \<or> x_conflictType e = Some CT_INPUT_CONFLICT_SUSPECTED)
     \<and> lease_free now' (x_reconcileLeaseUntil e)"

definition due_at :: "timestamp option \<Rightarrow> timestamp" where
  "due_at next = (case next of None \<Rightarrow> 0 | Some t \<Rightarrow> t)"

definition due_executions :: "db \<Rightarrow> (ExecutionRecord \<times> IntentRecord) list" where
  "due_executions s = concat (map (\<lambda>e. map (\<lambda>i. (e, i)) (filter (\<lambda>i. i_id i = x_intentRowId e) (intents s)))
     (sort_key (\<lambda>e. due_at (x_nextReconcileAt e)) (filter (claimable (clock s)) (executions s))))"

text \<open>
  The rows of the claim: \<open>SKIP LOCKED\<close> leaves out those that another transaction holds locked at
  that moment, before the limit applies. Which these are is an argument.
\<close>

definition claim_limit :: "int \<Rightarrow> nat" where
  "claim_limit limit = nat (min (max limit 1) 100)"

definition claim_rows :: "uuid list \<Rightarrow> int \<Rightarrow> db \<Rightarrow> (ExecutionRecord \<times> IntentRecord) list" where
  "claim_rows locked limit s = take (claim_limit limit) (filter (\<lambda>(e, i). x_id e \<notin> set locked) (due_executions s))"

definition lease_executions :: "uuid \<Rightarrow> timestamp \<Rightarrow> uuid list \<Rightarrow> db \<Rightarrow> db" where
  "lease_executions leaseId expiry' ids s = s\<lparr>executions := sql_update (\<lambda>e. x_id e \<in> set ids)
     (\<lambda>e. e\<lparr>x_reconcileLeaseId := Some leaseId, x_reconcileLeaseUntil := Some expiry'\<rparr>) (executions s)\<rparr>"

definition claimDueExecutions :: "uuid list \<Rightarrow> int \<Rightarrow> uuid \<Rightarrow> int \<Rightarrow> db \<Rightarrow> IntentAggregate list \<times> db" where
  "claimDueExecutions locked limit leaseId leaseSeconds s =
    (let found = claim_rows locked limit s;
         t = lease_executions leaseId (clock s + seconds leaseSeconds) (map (x_id \<circ> fst) found) s in
     (List.map_filter (\<lambda>(e, i). getIntent (i_projectId i) (i_intentId i) t) found, t))"

definition own_lease :: "uuid \<Rightarrow> uuid \<Rightarrow> ExecutionRecord \<Rightarrow> bool" where
  "own_lease executionId leaseId e \<longleftrightarrow> x_id e = executionId \<and> x_reconcileLeaseId e = Some leaseId"

definition renewReconcileLease :: "uuid \<Rightarrow> uuid \<Rightarrow> int \<Rightarrow> db \<Rightarrow> bool \<times> db" where
  "renewReconcileLease executionId leaseId leaseSeconds s =
    (length (filter (own_lease executionId leaseId) (executions s)) = 1,
     s\<lparr>executions := sql_update (own_lease executionId leaseId)
        (\<lambda>e. e\<lparr>x_reconcileLeaseUntil := Some (clock s + seconds (min (max leaseSeconds 15) 3600))\<rparr>) (executions s)\<rparr>)"

definition releaseReconcileLease :: "uuid \<Rightarrow> uuid \<Rightarrow> db \<Rightarrow> db" where
  "releaseReconcileLease executionId leaseId s =
     s\<lparr>executions := sql_update (own_lease executionId leaseId)
        (\<lambda>e. e\<lparr>x_reconcileLeaseId := None, x_reconcileLeaseUntil := None\<rparr>) (executions s)\<rparr>"


section \<open>Durable workflow runs\<close>

definition day_ms :: int where
  "day_ms = 24 * 3600000"

definition intent_execution :: "uuid \<Rightarrow> string \<Rightarrow> db \<Rightarrow> ExecutionRecord \<Rightarrow> bool" where
  "intent_execution projectId intentId s e \<longleftrightarrow>
     list_ex (\<lambda>i. i_id i = x_intentRowId e \<and> i_projectId i = projectId \<and> i_intentId i = intentId) (intents s)"

definition run_claimable :: "timestamp \<Rightarrow> ExecutionRecord \<Rightarrow> bool" where
  "run_claimable now' e \<longleftrightarrow> x_workflowRunId e = None \<or> x_workflowCompletedAt e \<noteq> None
     \<or> (case x_workflowStartedAt e of None \<Rightarrow> False | Some t \<Rightarrow> t < now' - day_ms)"

definition update_run :: "(ExecutionRecord \<Rightarrow> bool) \<Rightarrow> (ExecutionRecord \<Rightarrow> ExecutionRecord) \<Rightarrow> db \<Rightarrow> db" where
  "update_run P f s = s\<lparr>executions := sql_update P f (executions s)\<rparr>"

definition claimWorkflowStart :: "uuid \<Rightarrow> string \<Rightarrow> uuid \<Rightarrow> db \<Rightarrow> uuid option \<times> db" where
  "claimWorkflowStart projectId intentId claimId s =
    (let P = (\<lambda>e. intent_execution projectId intentId s e \<and> run_claimable (clock s) e);
         t = update_run P (\<lambda>e. e\<lparr>x_workflowRunId := Some claimId, x_workflowStartedAt := Some (clock s),
               x_workflowCompletedAt := None\<rparr>) s in
     if length (filter P (executions s)) = 1 then (Some claimId, t)
     else (case getIntent projectId intentId t of None \<Rightarrow> None | Some ag \<Rightarrow> x_workflowRunId (ag_execution ag), t))"

definition replaceWorkflowClaim :: "uuid \<Rightarrow> string \<Rightarrow> uuid \<Rightarrow> uuid \<Rightarrow> db \<Rightarrow> db" where
  "replaceWorkflowClaim projectId intentId claimId runId s =
     update_run (\<lambda>e. intent_execution projectId intentId s e \<and> x_workflowRunId e = Some claimId)
       (\<lambda>e. e\<lparr>x_workflowRunId := Some runId\<rparr>) s"

definition releaseWorkflowClaim :: "uuid \<Rightarrow> string \<Rightarrow> uuid \<Rightarrow> db \<Rightarrow> db" where
  "releaseWorkflowClaim projectId intentId claimId s =
     update_run (\<lambda>e. intent_execution projectId intentId s e \<and> x_workflowRunId e = Some claimId)
       (\<lambda>e. e\<lparr>x_workflowRunId := None, x_workflowStartedAt := None\<rparr>) s"

definition markWorkflowCompleted :: "uuid \<Rightarrow> string \<Rightarrow> db \<Rightarrow> db" where
  "markWorkflowCompleted projectId intentId s =
     update_run (intent_execution projectId intentId s) (\<lambda>e. e\<lparr>x_workflowCompletedAt := Some (clock s)\<rparr>) s"

section \<open>The other operations leave leases alone\<close>

definition same_lease :: "ExecutionRecord \<Rightarrow> ExecutionRecord \<Rightarrow> bool" where
  "same_lease e e' \<longleftrightarrow> x_id e' = x_id e \<and> x_reconcileLeaseId e' = x_reconcileLeaseId e
     \<and> x_reconcileLeaseUntil e' = x_reconcileLeaseUntil e"

definition keeps_leases :: "db \<Rightarrow> db \<Rightarrow> bool" where
  "keeps_leases s t \<longleftrightarrow> (\<forall>e \<in> set (executions s). \<exists>e' \<in> set (executions t). same_lease e e') \<and> clock s \<le> clock t"

lemma same_lease_refl [simp]: "same_lease e e"
  by (simp add: same_lease_def)

lemma projection_leases [simp]:
  "same_lease e (mark_projection jsonb mi t e)"
  "same_lease e (snapshot_projection jsonb si t e)"
  "same_lease e (promote_projection jsonb pi a b t e)"
  "same_lease e (attach_projection ai t e)"
  by (simp_all add: same_lease_def mark_projection_def snapshot_projection_def promote_projection_def
      attach_projection_def Let_def)

lemma sql_update_hit: "r \<in> set rows \<Longrightarrow> P r \<Longrightarrow> f r \<in> set (sql_update P f rows)"
  by (auto simp: set_sql_update)

lemma sql_update_miss: "r \<in> set rows \<Longrightarrow> \<not> P r \<Longrightarrow> r \<in> set (sql_update P f rows)"
  by (auto simp: set_sql_update)

lemma keeps_leases_update:
  "executions t = sql_update P f (executions s) \<Longrightarrow> clock s \<le> clock t \<Longrightarrow> (\<And>e. same_lease e (f e)) \<Longrightarrow> keeps_leases s t"
  unfolding keeps_leases_def by (metis same_lease_refl sql_update_hit sql_update_miss)

lemma keeps_leases_refl [simp]: "keeps_leases s s"
  by (auto simp: keeps_leases_def intro: same_lease_refl)

lemma event_clock [simp]: "clock (snd (insertEventAndOutbox jsonb ev s)) = clock s"
  by (simp add: insertEventAndOutbox_def Let_def)

lemma update_execution_clock: "update_execution ag f s = Inr t \<Longrightarrow> clock t = clock s"
  by (auto simp: update_execution_Inr)

lemma helper_clock [simp]:
  "clock (update_attempts P f s) = clock s" "clock (update_intent i g s) = clock s"
  "clock (snapshot_attempts jsonb si t s) = clock s" "clock (promote_attempts pi i t s) = clock s"
  by (simp_all add: update_attempts_def update_intent_def snapshot_attempts_def promote_attempts_def Let_def
      split: option.splits)

lemma attach_clock: "attach_attempt ai ex s = Inr (i, n, t) \<Longrightarrow> clock t = clock s"
  "attach_revision ai i s = Inr t \<Longrightarrow> clock t = clock s"
  by (auto simp: attach_attempt_def attach_revision_def Let_def update_attempts_def split: option.splits if_splits)

lemma writes_clock:
  "mark_tx jsonb mi s = Inr t \<Longrightarrow> clock t = clock s"
  "applySnapshot jsonb si s = (rs, t) \<Longrightarrow> clock t = clock s"
  "promoteAttemptProjection jsonb pi s = (rp, t) \<Longrightarrow> clock t = clock s"
  "attach_tx jsonb ai s = Inr t \<Longrightarrow> clock t = clock s"
proof -
  show "mark_tx jsonb mi s = Inr t \<Longrightarrow> clock t = clock s"
    by (auto simp: mark_tx_def Let_def sum_bind_Inr dest!: update_execution_clock split: option.splits)
  show "applySnapshot jsonb si s = (rs, t) \<Longrightarrow> clock t = clock s"
    by (auto simp: applySnapshot_def Let_def split_beta dest!: update_execution_clock split: sum.splits if_splits)
  show "promoteAttemptProjection jsonb pi s = (rp, t) \<Longrightarrow> clock t = clock s"
    by (auto simp: promoteAttemptProjection_def Let_def dest!: update_execution_clock
        split: sum.splits option.splits if_splits)
  show "attach_tx jsonb ai s = Inr t \<Longrightarrow> clock t = clock s"
    by (auto simp: attach_tx_def Let_def sum_bind_Inr dest!: attach_clock update_execution_clock split: option.splits)
qed

lemma repo_call_leases: "repo_call jsonb s t \<Longrightarrow> keeps_leases s t"
proof (erule repo_callE)
  show "\<And>ci rc. createIntent jsonb ci s = (rc, t) \<Longrightarrow> keeps_leases s t"
    by (auto simp: createIntent_def insert_intent_def Let_def keeps_leases_def split: sum.splits option.splits if_splits
        intro: same_lease_refl)
  show "keeps_leases s t" if "attachTransaction jsonb ai s = (ra, t)" for ai ra
    using attach_case [OF that] attach_tx_rows [of jsonb ai s t] writes_clock(4) [of jsonb ai s t]
    by (auto intro: keeps_leases_update [of t _ "attach_projection ai (clock s)"])
  show "keeps_leases s t" if "markSubmissionStatus jsonb mi s = (ra, t)" for mi ra
    using mark_case [OF that] mark_tx_rows [of jsonb mi s t] writes_clock(1) [of jsonb mi s t]
    by (auto intro: keeps_leases_update [of t _ "mark_projection jsonb mi (clock s)"])
  show "\<And>si rs. applySnapshot jsonb si s = (rs, t) \<Longrightarrow> keeps_leases s t"
  proof -
    fix si rs assume a: "applySnapshot jsonb si s = (rs, t)"
    show "keeps_leases s t"
    proof (cases rs)
      case (Inl e)
      with a apply_error show ?thesis by (metis keeps_leases_refl)
    next
      case (Inr x)
      with a apply_rows [of jsonb si s x t] writes_clock(2) [OF a] show ?thesis
        by (auto intro: keeps_leases_update)
    qed
  qed
  show "keeps_leases s t" if "promoteAttemptProjection jsonb pi s = (ra, t)" for pi ra
    using promote_rows [OF that] writes_clock(3) [OF that]
    by (auto intro: keeps_leases_update)
  show "\<And>ag k f to' why raw re. appendEvent jsonb ag k f to' why raw s = (re, t) \<Longrightarrow> keeps_leases s t"
    by (auto simp: appendEvent_def Let_def split_beta keeps_leases_def intro: same_lease_refl)
  show "keeps_leases s t" if "addOperatorNote jsonb ag what s = (rn, t)" for ag what rn
    using note_executions [OF that] that
    by (auto simp: addOperatorNote_def Let_def same_lease_def intro!: keeps_leases_update)
qed (auto simp: recordRpcObservation_def updateCandidateAttempt_def Let_def keeps_leases_def intro: same_lease_refl)


section \<open>The lease is exclusive\<close>

inductive reconcile_step :: "(json \<Rightarrow> json) \<Rightarrow> uuid \<Rightarrow> db \<Rightarrow> db \<Rightarrow> bool" for jsonb w where
  "claimDueExecutions locked limit w secs s = (ags, t) \<Longrightarrow> reconcile_step jsonb w s t"
| "renewReconcileLease e w secs s = (b, t) \<Longrightarrow> reconcile_step jsonb w s t"
| "reconcile_step jsonb w s (releaseReconcileLease e w s)"
| "repo_call jsonb s t \<Longrightarrow> reconcile_step jsonb w s t"
| "claimWorkflowStart p i c s = (rc, t) \<Longrightarrow> reconcile_step jsonb w s t"
| "reconcile_step jsonb w s (replaceWorkflowClaim p i c run s)"
| "reconcile_step jsonb w s (releaseWorkflowClaim p i c s)"
| "reconcile_step jsonb w s (markWorkflowCompleted p i s)"

inductive_cases reconcile_stepE: "reconcile_step jsonb w s t"

lemma claim_run: "claimWorkflowStart p i c s = (rc, t) \<Longrightarrow> t = update_run (\<lambda>e. intent_execution p i s e \<and> run_claimable (clock s) e)
    (\<lambda>e. e\<lparr>x_workflowRunId := Some c, x_workflowStartedAt := Some (clock s), x_workflowCompletedAt := None\<rparr>) s"
  by (auto simp: claimWorkflowStart_def Let_def split: if_splits)

lemmas run_updates = replaceWorkflowClaim_def releaseWorkflowClaim_def markWorkflowCompleted_def

lemma update_run_leases:
  assumes "\<And>e. same_lease e (f e)"
  shows "keeps_leases s (update_run P f s)"
  by (rule keeps_leases_update [where P = P and f = f]) (simp_all add: update_run_def assms)

lemma run_leases:
  "claimWorkflowStart p i c s = (rc, t) \<Longrightarrow> keeps_leases s t" "keeps_leases s (replaceWorkflowClaim p i c run s)"
  "keeps_leases s (releaseWorkflowClaim p i c s)" "keeps_leases s (markWorkflowCompleted p i s)"
  by (auto simp: run_updates same_lease_def dest!: claim_run intro!: update_run_leases)

lemma claim_rows_due: "(e, i) \<in> set (claim_rows locked limit s) \<Longrightarrow> (e, i) \<in> set (due_executions s) \<and> x_id e \<notin> set locked"
  unfolding claim_rows_def by (auto dest: in_set_takeD)

lemma found_claimable:
  "(e, i) \<in> set (due_executions s) \<Longrightarrow> e \<in> set (executions s) \<and> claimable (clock s) e \<and> i \<in> set (intents s)
     \<and> i_id i = x_intentRowId e"
  by (auto simp: due_executions_def)

lemma repo_inv_lease:
  assumes "repo_inv s" and "\<And>e. P e \<Longrightarrow> x_id (f e) = x_id e \<and> x_intentRowId (f e) = x_intentRowId e
      \<and> execution_check (f e) = execution_check e"
  shows "repo_inv (s\<lparr>executions := sql_update P f (executions s)\<rparr>)"
  using assms
  by (auto simp: repo_inv_def executions_ok_def attempts_ok_def intents_ok_def deliveries_ok_def event_ids_fresh_def
      set_sql_update intro!: unique_key_update)

lemma check_lease [simp]:
  "execution_check (e\<lparr>x_reconcileLeaseId := a\<rparr>) = execution_check e"
  "execution_check (e\<lparr>x_reconcileLeaseUntil := b\<rparr>) = execution_check e"
  by (simp_all add: execution_check_def)

lemma check_run [simp]:
  "execution_check (e\<lparr>x_workflowRunId := a\<rparr>) = execution_check e"
  "execution_check (e\<lparr>x_workflowStartedAt := b\<rparr>) = execution_check e"
  "execution_check (e\<lparr>x_workflowCompletedAt := b\<rparr>) = execution_check e"
  by (simp_all add: execution_check_def)

lemma update_run_inv:
  "repo_inv s \<Longrightarrow> (\<And>e. x_id (f e) = x_id e \<and> x_intentRowId (f e) = x_intentRowId e \<and> execution_check (f e) = execution_check e)
     \<Longrightarrow> repo_inv (update_run P f s)"
  unfolding update_run_def by (rule repo_inv_lease) auto

lemma run_inv:
  "claimWorkflowStart p i c s = (rc, t) \<Longrightarrow> repo_inv s \<Longrightarrow> repo_inv t" "repo_inv s \<Longrightarrow> repo_inv (replaceWorkflowClaim p i c run s)"
  "repo_inv s \<Longrightarrow> repo_inv (releaseWorkflowClaim p i c s)" "repo_inv s \<Longrightarrow> repo_inv (markWorkflowCompleted p i s)"
  by (auto simp: run_updates dest!: claim_run intro!: update_run_inv)

lemma reconcile_step_inv: "reconcile_step jsonb w s t \<Longrightarrow> repo_inv s \<Longrightarrow> repo_inv t"
  by (erule reconcile_stepE)
    (auto simp: claimDueExecutions_def Let_def lease_executions_def renewReconcileLease_def releaseReconcileLease_def
      intro: repo_inv_lease run_inv(2-4) dest: repo_call_inv run_inv(1))

lemma run_grows: "(\<And>e. x_id (f e) = x_id e \<and> x_version (f e) = x_version e) \<Longrightarrow> version_grows s (update_run P f s)"
  by (rule version_grows_update [where P = P and f = f]) (auto simp: update_run_def)

lemma reconcile_step_grows: "reconcile_step jsonb w s t \<Longrightarrow> version_grows s t"
  by (erule reconcile_stepE)
    (auto simp: claimDueExecutions_def Let_def lease_executions_def renewReconcileLease_def releaseReconcileLease_def run_updates
      dest!: claim_run intro: version_grows_update repo_call_grows run_grows)

lemma reconcile_step_keeps:
  assumes st: "reconcile_step jsonb w s t" and inv: "repo_inv s" and e: "e \<in> set (executions s)"
    and l: "x_reconcileLeaseId e = Some v" "x_reconcileLeaseUntil e = Some u" "v \<noteq> w" "clock s \<le> u"
  shows "\<exists>e' \<in> set (executions t). x_id e' = x_id e \<and> x_reconcileLeaseId e' = Some v \<and> x_reconcileLeaseUntil e' = Some u"
  using st
proof cases
  case (1 locked limit secs ags)
  have "x_id e \<notin> x_id ` fst ` set (claim_rows locked limit s)"
  proof
    assume "x_id e \<in> x_id ` fst ` set (claim_rows locked limit s)"
    then obtain e' i where ei: "(e', i) \<in> set (due_executions s)" "x_id e' = x_id e" by (auto dest: claim_rows_due)
    with found_claimable [OF ei(1)] inv e have "e' = e"
      by (auto simp: repo_inv_def executions_ok_def intro: unique_key_eq)
    with found_claimable [OF ei(1)] l show False by (simp add: claimable_def lease_free_def)
  qed
  with 1 e l show ?thesis
    by (auto simp: claimDueExecutions_def Let_def lease_executions_def set_sql_update image_comp)
next
  case 4
  from repo_call_leases [OF this] e l show ?thesis by (force simp: keeps_leases_def same_lease_def)
next
  case 5
  from run_leases(1) [OF this] e l show ?thesis by (force simp: keeps_leases_def same_lease_def)
next
  case (6 p i c run)
  with run_leases(2) [of s p i c run] e l show ?thesis by (force simp: keeps_leases_def same_lease_def)
next
  case (7 p i c)
  with run_leases(3) [of s p i c] e l show ?thesis by (force simp: keeps_leases_def same_lease_def)
next
  case (8 p i)
  with run_leases(4) [of s p i] e l show ?thesis by (force simp: keeps_leases_def same_lease_def)
qed (use e l in \<open>auto simp: renewReconcileLease_def releaseReconcileLease_def set_sql_update own_lease_def\<close>)

interpretation reconcile_lease: lease_table executions x_id x_reconcileLeaseId x_reconcileLeaseUntil repo_inv
  "reconcile_step jsonb" for jsonb
proof
  show "reconcile_step jsonb w s t \<Longrightarrow> clock s \<le> clock t" for w s t
    by (erule reconcile_stepE)
      (auto simp: claimDueExecutions_def Let_def lease_executions_def renewReconcileLease_def releaseReconcileLease_def
        keeps_leases_def run_updates update_run_def dest!: claim_run dest: repo_call_leases)
qed (auto intro: reconcile_step_inv reconcile_step_keeps)

definition reconcile_others :: "(json \<Rightarrow> json) \<Rightarrow> uuid \<Rightarrow> db \<Rightarrow> db \<Rightarrow> bool" where
  "reconcile_others jsonb v s t \<longleftrightarrow> (\<exists>w. w \<noteq> v \<and> reconcile_step jsonb w s t)"

text \<open>
  Property C23: a reconcile lease is exclusive: until it expires, no sequence of claims, renewals
  and releases by other workers, of starts and ends of workflow runs, and of calls of the intent
  methods takes it from its owner or changes its expiry, whatever rows are locked meanwhile.
\<close>

theorem reconcile_lease_exclusive:
  assumes "(reconcile_others jsonb v)\<^sup>*\<^sup>* s t" and "repo_inv s" and "e \<in> set (executions s)"
    and "x_reconcileLeaseId e = Some v" "x_reconcileLeaseUntil e = Some u" and "clock t \<le> u"
  shows "\<exists>e' \<in> set (executions t). x_id e' = x_id e \<and> x_reconcileLeaseId e' = Some v \<and> x_reconcileLeaseUntil e' = Some u"
proof -
  have "reconcile_others jsonb v = reconcile_lease.others jsonb v"
    by (auto simp: fun_eq_iff reconcile_others_def reconcile_lease.others_def)
  with assms show ?thesis by (auto intro: reconcile_lease.held)
qed

definition leased_db :: db where
  "leased_db = sample_db\<lparr>executions := [sample_row\<lparr>x_nextReconcileAt := Some 0, x_reconcileLeaseId := Some 41,
      x_reconcileLeaseUntil := Some 1700000060000\<rparr>]\<rparr>"

lemma leased_db_inv: "repo_inv leased_db"
  by (simp add: leased_db_def repo_inv_def executions_ok_def attempts_ok_def intents_ok_def deliveries_ok_def event_ids_fresh_def
      unique_key_def sample_defs execution_check_def conflict_type_allowed_def)

theorem reconcile_lease_exclusive_witness:
  "\<exists>e' \<in> set (executions (snd (claimDueExecutions [] 10 42 60 leased_db))). x_id e' = 2 \<and> x_reconcileLeaseId e' = Some 41
     \<and> x_reconcileLeaseUntil e' = Some 1700000060000"
proof -
  let ?t = "snd (claimDueExecutions [] 10 42 60 leased_db)"
  have "reconcile_step id 42 leased_db ?t" by (rule reconcile_step.intros(1) [OF prod.collapse [symmetric]])
  then have r: "(reconcile_others id 41)\<^sup>*\<^sup>* leased_db ?t" by (auto simp: reconcile_others_def intro!: r_into_rtranclp exI [of _ 42])
  have c: "clock ?t \<le> 1700000060000"
    by (simp add: claimDueExecutions_def Let_def lease_executions_def leased_db_def sample_defs)
  from reconcile_lease_exclusive [OF r leased_db_inv _ _ _ c, of "hd (executions leased_db)"]
  show ?thesis by (simp add: leased_db_def sample_defs)
qed


section \<open>A due execution is claimed\<close>

lemma take_sorted_order:
  "sorted (map f xs) \<Longrightarrow> x \<in> set xs \<Longrightarrow> x \<notin> set (take n xs) \<Longrightarrow> length (take n xs) = n \<and> (\<forall>y \<in> set (take n xs). f y \<le> f x)"
proof (induction xs arbitrary: n)
  case (Cons a xs)
  then show ?case by (cases n) auto
qed simp

definition due_order :: "ExecutionRecord \<times> IntentRecord \<Rightarrow> timestamp" where
  "due_order r = due_at (x_nextReconcileAt (fst r))"

lemma due_sorted: "sorted (map due_order (due_executions s))"
proof -
  have "sorted (map due_order (concat (map (\<lambda>e. map (\<lambda>i. (e, i)) (g e)) es)))"
    if "sorted (map (\<lambda>e. due_at (x_nextReconcileAt e)) es)" for es and g :: "ExecutionRecord \<Rightarrow> IntentRecord list"
    using that
  proof (induction es)
    case (Cons e es)
    have "sorted (map due_order (map (\<lambda>i. (e, i)) (g e)))" by (simp add: due_order_def comp_def sorted_iff_nth_mono)
    moreover have "\<forall>a \<in> set (map due_order (map (\<lambda>i. (e, i)) (g e))).
        \<forall>b \<in> set (map due_order (concat (map (\<lambda>e. map (\<lambda>i. (e, i)) (g e)) es))). a \<le> b"
      using Cons.prems by (auto simp: due_order_def)
    ultimately show ?case using Cons by (simp add: sorted_append del: set_map set_concat map_map)
  qed simp
  then show ?thesis unfolding due_executions_def by simp
qed

lemma claim_rows_complete:
  assumes "e \<in> set (executions s)" "claimable (clock s) e" "i \<in> set (intents s)" "i_id i = x_intentRowId e" "x_id e \<notin> set locked"
    and "(e, i) \<notin> set (claim_rows locked limit s)"
  shows "length (claim_rows locked limit s) = claim_limit limit
    \<and> (\<forall>r \<in> set (claim_rows locked limit s). due_order r \<le> due_order (e, i))"
proof -
  let ?rows = "filter (\<lambda>(e, i). x_id e \<notin> set locked) (due_executions s)"
  have "sorted (map due_order ?rows)" by (rule sorted_filter [OF due_sorted])
  moreover have "(e, i) \<in> set ?rows" using assms(1-5) by (auto simp: due_executions_def)
  ultimately show ?thesis
    using take_sorted_order [of due_order ?rows "(e, i)" "claim_limit limit"] assms(6) unfolding claim_rows_def by simp
qed

text \<open>
  Property C40: no execution is stuck behind a crashed worker. A claim, whatever rows other
  transactions hold locked at that moment, takes only executions that are due and whose lease, if
  any, has expired, at most \<open>limit\<close> (and at most 100); each is leased to the claimer until now plus
  the given number of seconds, and every other execution stays as it is. A due execution that is not
  locked is passed over only when the claim has reached its limit with executions that were due at
  the same time or before it.
\<close>

theorem claim_takes_due:
  assumes "repo_inv s" and "claimDueExecutions locked limit w secs s = (ags, t)"
  shows "length (claim_rows locked limit s) \<le> claim_limit limit
    \<and> (\<forall>(e, i) \<in> set (claim_rows locked limit s). e \<in> set (executions s) \<and> claimable (clock s) e \<and> x_id e \<notin> set locked
        \<and> e\<lparr>x_reconcileLeaseId := Some w, x_reconcileLeaseUntil := Some (clock s + secs * 1000)\<rparr> \<in> set (executions t))
    \<and> (\<forall>e \<in> set (executions s). e \<in> fst ` set (claim_rows locked limit s) \<or> e \<in> set (executions t))
    \<and> (\<forall>e \<in> set (executions s). claimable (clock s) e \<and> x_id e \<notin> set locked \<and> (\<exists>i \<in> set (intents s). i_id i = x_intentRowId e)
        \<longrightarrow> e \<in> fst ` set (claim_rows locked limit s)
          \<or> length (claim_rows locked limit s) = claim_limit limit
            \<and> (\<forall>(c, i) \<in> set (claim_rows locked limit s). due_at (x_nextReconcileAt c) \<le> due_at (x_nextReconcileAt e)))"
proof (intro conjI ballI impI)
  let ?rows = "claim_rows locked limit s"
  let ?P = "\<lambda>e. x_id e \<in> x_id ` fst ` set ?rows"
  let ?f = "\<lambda>e. e\<lparr>x_reconcileLeaseId := Some w, x_reconcileLeaseUntil := Some (clock s + seconds secs)\<rparr>"
  have t: "executions t = sql_update ?P ?f (executions s)"
    using assms(2) by (auto simp: claimDueExecutions_def Let_def lease_executions_def image_comp)
  have uniq: "unique_key x_id (executions s)" using assms(1) by (simp add: repo_inv_def executions_ok_def)
  show "length ?rows \<le> claim_limit limit" by (simp add: claim_rows_def)
  show "case r of (e, i) \<Rightarrow> e \<in> set (executions s) \<and> claimable (clock s) e \<and> x_id e \<notin> set locked
        \<and> e\<lparr>x_reconcileLeaseId := Some w, x_reconcileLeaseUntil := Some (clock s + secs * 1000)\<rparr> \<in> set (executions t)"
    if "r \<in> set ?rows" for r
  proof -
    obtain e i where r: "r = (e, i)" by fastforce
    with that claim_rows_due [of e i locked limit s] found_claimable [of e i s]
    have e: "e \<in> set (executions s)" "claimable (clock s) e" "x_id e \<notin> set locked" by auto
    have "?P e" using that r by force
    then have "?f e \<in> set (executions t)" unfolding t set_sql_update using e(1) by force
    with e r show ?thesis by (simp add: seconds_def)
  qed
  show "e \<in> fst ` set ?rows \<or> e \<in> set (executions t)" if e: "e \<in> set (executions s)" for e
  proof (cases "?P e")
    case True
    then obtain c i where c: "(c, i) \<in> set ?rows" "x_id c = x_id e" by auto
    then have "c \<in> set (executions s)" using claim_rows_due found_claimable by blast
    with unique_key_eq [OF uniq this e] c show ?thesis by force
  qed (use e in \<open>simp add: t sql_update_miss\<close>)
  show "e \<in> fst ` set ?rows \<or> length ?rows = claim_limit limit
      \<and> (\<forall>(c, i) \<in> set ?rows. due_at (x_nextReconcileAt c) \<le> due_at (x_nextReconcileAt e))"
    if "e \<in> set (executions s)" and "claimable (clock s) e \<and> x_id e \<notin> set locked \<and> (\<exists>i \<in> set (intents s). i_id i = x_intentRowId e)" for e
  proof -
    from that(2) obtain i where i: "i \<in> set (intents s)" "i_id i = x_intentRowId e" by blast
    show ?thesis
    proof (cases "(e, i) \<in> set ?rows")
      case False
      from claim_rows_complete [OF that(1) _ i _ False] that(2) show ?thesis by (auto simp: due_order_def)
    qed force
  qed
qed

definition stale_lease_db :: db where
  "stale_lease_db = leased_db\<lparr>clock := 1700000060001\<rparr>"

theorem claim_takes_due_witness:
  "\<exists>e' \<in> set (executions (snd (claimDueExecutions [7] 10 42 60 stale_lease_db))). x_id e' = 2
     \<and> x_reconcileLeaseId e' = Some 42 \<and> x_reconcileLeaseUntil e' = Some (1700000060001 + 60 * 1000)"
proof -
  have inv: "repo_inv stale_lease_db" unfolding stale_lease_db_def
    using clock_inv [OF leased_db_inv, of "clock_micros leased_db" 1700000060001] by simp
  obtain ags t where c: "claimDueExecutions [7] 10 42 60 stale_lease_db = (ags, t)" by fastforce
  have "claim_rows [7] 10 stale_lease_db = [(hd (executions leased_db), sample_intent)]"
    by (simp add: claim_rows_def due_executions_def claim_limit_def stale_lease_db_def leased_db_def sample_defs claimable_def lease_free_def)
  with claim_takes_due [OF inv c] have "\<exists>e' \<in> set (executions t). x_id e' = 2 \<and> x_reconcileLeaseId e' = Some 42
      \<and> x_reconcileLeaseUntil e' = Some (1700000060001 + 60 * 1000)"
    by (intro bexI [of _ "(hd (executions leased_db))\<lparr>x_reconcileLeaseId := Some 42,
        x_reconcileLeaseUntil := Some (1700000060001 + 60 * 1000)\<rparr>"]) (simp_all add: stale_lease_db_def leased_db_def sample_defs)
  then show ?thesis by (simp add: c)
qed


section \<open>One durable run\<close>

lemma intent_execution_unique:
  assumes "repo_inv s" and "e \<in> set (executions s)" "e' \<in> set (executions s)"
    and "intent_execution p i s e" "intent_execution p i s e'"
  shows "e = e'"
proof -
  from assms(4,5) obtain j j' where j: "j \<in> set (intents s)" "i_id j = x_intentRowId e" "i_projectId j = p" "i_intentId j = i"
    and j': "j' \<in> set (intents s)" "i_id j' = x_intentRowId e'" "i_projectId j' = p" "i_intentId j' = i"
    by (auto simp: intent_execution_def list_ex_iff)
  have "j = j'" by (rule unique_key_eq [of "\<lambda>i. (i_projectId i, i_intentId i)" "intents s"])
      (use assms(1) j j' in \<open>auto simp: repo_inv_def intents_ok_def\<close>)
  with j j' have "x_intentRowId e = x_intentRowId e'" by simp
  then show ?thesis
    by (intro unique_key_eq [of x_intentRowId "executions s"]) (use assms in \<open>auto simp: repo_inv_def executions_ok_def\<close>)
qed

lemma one_filter: "distinct xs \<Longrightarrow> (\<And>a b. a \<in> set xs \<Longrightarrow> b \<in> set xs \<Longrightarrow> P a \<Longrightarrow> P b \<Longrightarrow> a = b) \<Longrightarrow> length (filter P xs) \<le> 1"
proof (induction xs)
  case (Cons a xs)
  show ?case
  proof (cases "P a")
    case True
    with Cons.prems have "\<forall>x \<in> set xs. \<not> P x" by (metis distinct.simps(2) list.set_intros)
    then show ?thesis by (simp add: filter_empty_conv)
  next
    case False
    with Cons show ?thesis by simp
  qed
qed simp

lemma getIntent_execution:
  assumes "repo_inv s" and "e \<in> set (executions s)" and "intent_execution p i s e"
  shows "\<exists>ag. getIntent p i s = Some ag \<and> ag_execution ag = mapExecution e"
proof -
  from assms(3) obtain j where j: "j \<in> set (intents s)" "i_id j = x_intentRowId e" "i_projectId j = p" "i_intentId j = i"
    by (auto simp: intent_execution_def list_ex_iff)
  have u: "unique_key (\<lambda>i. (i_projectId i, i_intentId i)) (intents s)" "unique_key x_intentRowId (executions s)"
    using assms(1) by (simp_all add: repo_inv_def intents_ok_def executions_ok_def)
  have "sql_first (\<lambda>x. i_projectId x = p \<and> i_intentId x = i) (intents s) = Some j"
    using sql_first_unique [OF u(1) j(1)] j(3,4) by simp
  moreover have "sql_first (\<lambda>x. x_intentRowId x = i_id j) (executions s) = Some e"
    using sql_first_unique [OF u(2) assms(2)] j(2) by simp
  ultimately show ?thesis by (simp add: getIntent_def Let_def)
qed

text \<open>
  An intent has one durable run at a time: after a start has claimed the run with
  its own fresh identifier, every further start within 24 hours gets that identifier and
  changes nothing.
\<close>

theorem workflow_single_run:
  assumes c: "claimWorkflowStart p i c s = (Some c, t)" and inv: "repo_inv s"
    and fresh: "\<forall>e \<in> set (executions s). x_workflowRunId e \<noteq> Some c"
    and now': "clock t \<le> n" "n \<le> clock t + 24 * 3600000"
  shows "claimWorkflowStart p i c' (t\<lparr>clock := n\<rparr>) = (Some c, t\<lparr>clock := n\<rparr>)"
proof -
  let ?P = "\<lambda>e. intent_execution p i s e \<and> run_claimable (clock s) e"
  let ?f = "\<lambda>e. e\<lparr>x_workflowRunId := Some c, x_workflowStartedAt := Some (clock s), x_workflowCompletedAt := None\<rparr>"
  let ?t = "t\<lparr>clock := n\<rparr>"
  have t: "t = update_run ?P ?f s" using c by (auto simp: claimWorkflowStart_def Let_def split: if_splits)
  have "repo_inv t" unfolding t update_run_def by (rule repo_inv_lease [OF inv]) simp
  from clock_inv [OF this, of "clock_micros t" n] have inv_t: "repo_inv ?t" by simp
  have ie: "intent_execution p i ?t = intent_execution p i s" by (simp add: fun_eq_iff intent_execution_def t update_run_def)
  have ie_f: "intent_execution p i s (?f e) = intent_execution p i s e" for e by (simp add: intent_execution_def)
  have d: "distinct (executions s)" using inv by (auto simp: repo_inv_def executions_ok_def unique_key_def distinct_map)
  have "filter ?P (executions s) \<noteq> []"
  proof
    assume none: "filter ?P (executions s) = []"
    then have same: "executions t = executions s" by (simp add: t update_run_def sql_update_noop filter_empty_conv)
    from c none obtain ag where ag: "getIntent p i t = Some ag" "x_workflowRunId (ag_execution ag) = Some c"
      by (auto simp: claimWorkflowStart_def Let_def t split: option.splits)
    then obtain row where "row \<in> set (executions t)" "ag_execution ag = mapExecution row"
      by (auto simp: getIntent_def Let_def dest!: sql_first_Some split: option.splits)
    with ag(2) fresh same show False by (auto simp: mapExecution_def)
  qed
  then obtain e where e: "e \<in> set (executions s)" "intent_execution p i s e" "run_claimable (clock s) e"
    by (auto simp: filter_empty_conv)
  have fe: "?f e \<in> set (executions ?t)" using sql_update_hit [of e "executions s" ?P ?f] e by (simp add: t update_run_def)
  have only: "e' = ?f e" if "e' \<in> set (executions ?t)" "intent_execution p i s e'" for e'
    using intent_execution_unique [OF inv_t that(1) fe, of p i] that(2) e(2) by (simp only: ie ie_f)
  have "\<not> run_claimable n (?f e)" using now' by (simp add: run_claimable_def day_ms_def t update_run_def)
  then have none: "filter (\<lambda>e. intent_execution p i ?t e \<and> run_claimable n e) (executions ?t) = []"
    using only by (auto simp: filter_empty_conv ie)
  have "intent_execution p i ?t (?f e)" by (simp only: ie ie_f e(2))
  from getIntent_execution [OF inv_t fe this] obtain ag where "getIntent p i ?t = Some ag" "ag_execution ag = mapExecution (?f e)"
    by blast
  moreover have "update_run (\<lambda>e. intent_execution p i ?t e \<and> run_claimable n e) g ?t = ?t" for g
  proof -
    have "sql_update (\<lambda>e. intent_execution p i ?t e \<and> run_claimable n e) g (executions ?t) = executions ?t"
      by (rule sql_update_noop) (use none in \<open>auto simp: filter_empty_conv\<close>)
    then show ?thesis by (simp add: update_run_def)
  qed
  ultimately show ?thesis
    using none by (simp add: claimWorkflowStart_def Let_def mapExecution_def)
qed

theorem workflow_single_run_witness:
  "claimWorkflowStart 0 ''order-1'' 52 ((snd (claimWorkflowStart 0 ''order-1'' 51 sample_db))\<lparr>clock := 1700000000000 + 3600000\<rparr>)
     = (Some 51, (snd (claimWorkflowStart 0 ''order-1'' 51 sample_db))\<lparr>clock := 1700000000000 + 3600000\<rparr>)"
proof -
  let ?t = "snd (claimWorkflowStart 0 ''order-1'' 51 sample_db)"
  have c: "claimWorkflowStart 0 ''order-1'' 51 sample_db = (Some 51, ?t)"
    by (simp add: claimWorkflowStart_def Let_def intent_execution_def run_claimable_def sample_defs)
  have "clock ?t = 1700000000000" by (simp add: claimWorkflowStart_def Let_def update_run_def sample_defs)
  with workflow_single_run [OF c sample_db_inv, of "1700000000000 + 3600000" 52] show ?thesis
    by (simp add: sample_defs)
qed

end
