(* ===== verification/RepoWebhooks.thy ===== *)
theory RepoWebhooks
  imports RepoLeases
begin

text \<open>
  The webhook half of packages/db/src/repository.ts: endpoints, the delivery queue with its
  leases and retries, and the evidence exports. A delivery is claimed by one worker at a time
  (the lease contract of RepoLeases), and a delivered one is never touched again.
\<close>

section \<open>Endpoints\<close>

definition createWebhookEndpoint :: "uuid \<Rightarrow> string \<Rightarrow> string \<Rightarrow> db \<Rightarrow> WebhookEndpointRecord \<times> db" where
  "createWebhookEndpoint projectId url secret s =
    (let same = (\<lambda>w. w_projectId w = projectId \<and> w_url w = url);
         renew = (\<lambda>w. w\<lparr>w_signingSecretEncrypted := secret, w_enabled := True, w_secretVersion := Suc (w_secretVersion w),
            w_updatedAt := clock s\<rparr>) in
     case sql_first same (webhook_endpoints s) of
       Some w \<Rightarrow> (renew w, s\<lparr>webhook_endpoints := sql_update same renew (webhook_endpoints s), next_uuid := Suc (next_uuid s)\<rparr>)
     | None \<Rightarrow>
         (let row = \<lparr>w_id = next_uuid s, w_projectId = projectId, w_url = url, w_signingSecretEncrypted = secret,
            w_secretVersion = 1, w_enabled = True, w_createdAt = clock s, w_updatedAt = clock s\<rparr> in
          (row, s\<lparr>webhook_endpoints := webhook_endpoints s @ [row], next_uuid := Suc (next_uuid s)\<rparr>)))"

record EndpointStats =
  es_endpoint :: WebhookEndpointRecord
  es_deliveredCount :: int
  es_failedCount :: int
  es_pendingCount :: int
  es_lastDeliveryAt :: "timestamp option"

definition listWebhookEndpoints :: "uuid \<Rightarrow> db \<Rightarrow> EndpointStats list" where
  "listWebhookEndpoints projectId s = map (\<lambda>w.
     let ds = filter (\<lambda>d. d_endpointId d = w_id w) (webhook_deliveries s) in
     \<lparr>es_endpoint = w,
      es_deliveredCount = count_rows (\<lambda>d. d_status d = DS_DELIVERED) ds,
      es_failedCount = count_rows (\<lambda>d. d_status d = DS_FAILED) ds,
      es_pendingCount = count_rows (\<lambda>d. d_status d \<in> {DS_PENDING, DS_RETRY, DS_CLAIMED}) ds,
      es_lastDeliveryAt = max_of (map d_updatedAt ds)\<rparr>)
     (sort_key w_createdAt (filter (\<lambda>w. w_projectId w = projectId) (webhook_endpoints s)))"

definition disableWebhookEndpoint :: "uuid \<Rightarrow> uuid \<Rightarrow> db \<Rightarrow> bool \<times> db" where
  "disableWebhookEndpoint projectId endpointId s =
    (let P = (\<lambda>w. w_projectId w = projectId \<and> w_id w = endpointId \<and> w_enabled w) in
     (length (filter P (webhook_endpoints s)) = 1,
      s\<lparr>webhook_endpoints := sql_update P (\<lambda>w. w\<lparr>w_enabled := False, w_updatedAt := clock s\<rparr>) (webhook_endpoints s)\<rparr>))"

definition getWebhookEndpoint :: "uuid \<Rightarrow> uuid \<Rightarrow> db \<Rightarrow> WebhookEndpointRecord option" where
  "getWebhookEndpoint projectId endpointId s =
     sql_first (\<lambda>w. w_projectId w = projectId \<and> w_id w = endpointId) (webhook_endpoints s)"


section \<open>The delivery queue\<close>

definition enqueueWebhookDeliveries :: "(json \<Rightarrow> json) \<Rightarrow> uuid \<Rightarrow> uuid \<Rightarrow> string \<Rightarrow> json \<Rightarrow> db \<Rightarrow> nat \<times> db" where
  "enqueueWebhookDeliveries jsonb projectId eventId eventType payload s =
    (let rows = outbox_rows jsonb projectId eventId eventType payload (clock s) (next_uuid s) (webhook_endpoints s);
         new = new_deliveries (webhook_deliveries s) rows in
     (length new, s\<lparr>webhook_deliveries := webhook_deliveries s @ new, next_uuid := next_uuid s + length rows\<rparr>))"

definition update_deliveries :: "(WebhookDeliveryRecord \<Rightarrow> bool) \<Rightarrow> (WebhookDeliveryRecord \<Rightarrow> WebhookDeliveryRecord) \<Rightarrow> db \<Rightarrow> db" where
  "update_deliveries P f s = s\<lparr>webhook_deliveries := sql_update P f (webhook_deliveries s)\<rparr>"

definition retryFailedWebhookDeliveries :: "uuid \<Rightarrow> uuid option \<Rightarrow> db \<Rightarrow> nat \<times> db" where
  "retryFailedWebhookDeliveries projectId endpointId s =
    (let P = (\<lambda>d. d_projectId d = projectId \<and> (case endpointId of None \<Rightarrow> True | Some w \<Rightarrow> d_endpointId d = w)
                \<and> d_status d = DS_FAILED) in
     (length (filter P (webhook_deliveries s)),
      update_deliveries P (\<lambda>d. d\<lparr>d_status := DS_RETRY, d_nextAttemptAt := Some (clock s), d_leaseOwner := None,
        d_leaseUntil := None, d_updatedAt := clock s\<rparr>) s))"

text \<open>The two halves of a claim: which rows, in which order, and the update of each.\<close>

definition delivery_due :: "timestamp \<Rightarrow> WebhookDeliveryRecord \<Rightarrow> bool" where
  "delivery_due now' d \<longleftrightarrow> (case d_nextAttemptAt d of None \<Rightarrow> True | Some t \<Rightarrow> t \<le> now') \<and> lease_free now' (d_leaseUntil d)"

definition delivery_open :: "timestamp \<Rightarrow> WebhookDeliveryRecord \<Rightarrow> bool" where
  "delivery_open now' d \<longleftrightarrow> d_status d \<in> {DS_PENDING, DS_RETRY}
     \<or> (d_status d = DS_CLAIMED \<and> (case d_leaseUntil d of None \<Rightarrow> False | Some t \<Rightarrow> t < now'))"

definition nulls_last :: "timestamp option \<Rightarrow> nat \<times> timestamp" where
  "nulls_last t = (case t of None \<Rightarrow> (1, 0) | Some x \<Rightarrow> (0, x))"

definition lease_delivery :: "uuid \<Rightarrow> timestamp \<Rightarrow> timestamp \<Rightarrow> WebhookDeliveryRecord \<Rightarrow> WebhookDeliveryRecord" where
  "lease_delivery leaseOwner leaseUntil now' d =
     d\<lparr>d_status := DS_CLAIMED, d_leaseOwner := Some leaseOwner, d_leaseUntil := Some leaseUntil, d_updatedAt := now'\<rparr>"

definition claim_deliveries :: "uuid \<Rightarrow> timestamp \<Rightarrow> uuid list \<Rightarrow> db \<Rightarrow> WebhookDeliveryRecord list \<times> db" where
  "claim_deliveries leaseOwner leaseUntil candidates s =
    (let t = update_deliveries (\<lambda>d. d_id d \<in> set candidates) (lease_delivery leaseOwner leaseUntil (clock s)) s in
     (List.map_filter (\<lambda>i. sql_first (\<lambda>d. d_id d = i) (webhook_deliveries t)) candidates, t))"

definition claimDueWebhookDeliveries :: "int \<Rightarrow> uuid \<Rightarrow> int \<Rightarrow> uuid option \<Rightarrow> db \<Rightarrow> WebhookDeliveryRecord list \<times> db" where
  "claimDueWebhookDeliveries limit leaseOwner leaseSeconds projectId s =
     claim_deliveries leaseOwner (clock s + seconds leaseSeconds)
       (take (claim_limit limit) (map d_id (sort_key (\<lambda>d. nulls_last (d_nextAttemptAt d))
         (filter (\<lambda>d. (case projectId of None \<Rightarrow> True | Some p \<Rightarrow> d_projectId d = p)
             \<and> delivery_open (clock s) d \<and> delivery_due (clock s) d) (webhook_deliveries s))))) s"

definition claimWebhookDeliveriesForEvent :: "uuid \<Rightarrow> uuid \<Rightarrow> uuid \<Rightarrow> int \<Rightarrow> db \<Rightarrow> WebhookDeliveryRecord list \<times> db" where
  "claimWebhookDeliveriesForEvent projectId eventId leaseOwner leaseSeconds s =
     claim_deliveries leaseOwner (clock s + seconds (min (max leaseSeconds 15) 300))
       (map d_id (sort_key d_id (filter (\<lambda>d. d_projectId d = projectId \<and> d_eventId d = eventId
          \<and> d_status d \<in> {DS_PENDING, DS_RETRY} \<and> delivery_due (clock s) d) (webhook_deliveries s)))) s"

definition owned_delivery :: "uuid \<Rightarrow> uuid \<Rightarrow> WebhookDeliveryRecord \<Rightarrow> bool" where
  "owned_delivery deliveryId leaseOwner d \<longleftrightarrow> d_id d = deliveryId \<and> d_leaseOwner d = Some leaseOwner \<and> d_status d = DS_CLAIMED"

definition renewWebhookDeliveryLease :: "uuid \<Rightarrow> uuid \<Rightarrow> int \<Rightarrow> db \<Rightarrow> bool \<times> db" where
  "renewWebhookDeliveryLease deliveryId leaseOwner leaseSeconds s =
    (length (filter (owned_delivery deliveryId leaseOwner) (webhook_deliveries s)) = 1,
     update_deliveries (owned_delivery deliveryId leaseOwner)
       (\<lambda>d. d\<lparr>d_leaseUntil := Some (clock s + seconds (min (max leaseSeconds 15) 900)), d_updatedAt := clock s\<rparr>) s)"

definition releaseWebhookDeliveryLease :: "uuid \<Rightarrow> uuid \<Rightarrow> db \<Rightarrow> db" where
  "releaseWebhookDeliveryLease deliveryId leaseOwner s =
     update_deliveries (owned_delivery deliveryId leaseOwner)
       (\<lambda>d. d\<lparr>d_status := DS_RETRY, d_leaseOwner := None, d_leaseUntil := None,
          d_nextAttemptAt := Some (case d_nextAttemptAt d of None \<Rightarrow> clock s | Some t \<Rightarrow> t), d_updatedAt := clock s\<rparr>) s"

record CompleteInput =
  cm_id :: uuid
  cm_leaseOwner :: "uuid option"
  cm_success :: bool
  cm_responseStatus :: "int option"
  cm_error :: "string option"
  cm_retryAt :: "timestamp option"

definition complete_row :: "CompleteInput \<Rightarrow> timestamp \<Rightarrow> WebhookDeliveryRecord \<Rightarrow> WebhookDeliveryRecord" where
  "complete_row input now' d =
     d\<lparr>d_attemptCount := Suc (d_attemptCount d),
       d_status := (if cm_success input then DS_DELIVERED else if cm_retryAt input \<noteq> None then DS_RETRY else DS_FAILED),
       d_responseStatus := cm_responseStatus input, d_lastError := cm_error input, d_nextAttemptAt := cm_retryAt input,
       d_deliveredAt := (if cm_success input then Some now' else None), d_leaseOwner := None, d_leaseUntil := None,
       d_updatedAt := now'\<rparr>"

definition completeWebhookDelivery :: "CompleteInput \<Rightarrow> db \<Rightarrow> db" where
  "completeWebhookDelivery input s =
    (case cm_leaseOwner input of
       Some w \<Rightarrow> update_deliveries (\<lambda>d. d_id d = cm_id input \<and> d_leaseOwner d = Some w) (complete_row input (clock s)) s
     | None \<Rightarrow> update_deliveries (\<lambda>d. d_id d = cm_id input) (complete_row input (clock s)) s)"


section \<open>Evidence exports\<close>

definition recordEvidenceExport ::
    "(json \<Rightarrow> json) \<Rightarrow> uuid \<Rightarrow> uuid \<Rightarrow> string \<Rightarrow> string \<Rightarrow> nat \<Rightarrow> json \<Rightarrow> db \<Rightarrow> EvidenceExportRecord \<times> db" where
  "recordEvidenceExport jsonb projectId intentRowId sha256 schemaVersion maxEventSequence document s =
    (let same = (\<lambda>g. g_intentRowId g = intentRowId \<and> g_evidenceSha256 g = sha256);
         u = s\<lparr>next_uuid := Suc (next_uuid s)\<rparr> in
     case sql_first same (evidence_exports s) of
       Some g \<Rightarrow> (g\<lparr>g_document := jsonb document\<rparr>,
          u\<lparr>evidence_exports := sql_update same (\<lambda>g. g\<lparr>g_document := jsonb document\<rparr>) (evidence_exports s)\<rparr>)
     | None \<Rightarrow>
         (let row = \<lparr>g_id = next_uuid s, g_projectId = projectId, g_intentRowId = intentRowId, g_evidenceSha256 = sha256,
            g_schemaVersion = schemaVersion, g_maxEventSequence = maxEventSequence, g_document = jsonb document,
            g_createdAt = clock s\<rparr> in
          (row, u\<lparr>evidence_exports := evidence_exports s @ [row]\<rparr>)))"

definition recordProjectEvidenceExport :: "(json \<Rightarrow> json) \<Rightarrow> uuid \<Rightarrow> string \<Rightarrow> json \<Rightarrow> db \<Rightarrow> (uuid \<times> timestamp) \<times> db" where
  "recordProjectEvidenceExport jsonb projectId sha256 document s =
    ((next_uuid s, clock s), s\<lparr>project_evidence_exports := project_evidence_exports s @
       [\<lparr>q_id = next_uuid s, q_projectId = projectId, q_evidenceSha256 = sha256, q_document = jsonb document,
         q_createdAt = clock s\<rparr>], next_uuid := Suc (next_uuid s)\<rparr>)"


section \<open>What repository calls do to the queue\<close>

text \<open>They only append pending rows that nobody owns.\<close>

definition queue_grows :: "db \<Rightarrow> db \<Rightarrow> bool" where
  "queue_grows s t \<longleftrightarrow> (\<exists>new. webhook_deliveries t = webhook_deliveries s @ new
     \<and> (\<forall>d \<in> set new. d_leaseOwner d = None \<and> d_status d = DS_PENDING))"

lemma queue_grows_same: "webhook_deliveries t = webhook_deliveries s \<Longrightarrow> queue_grows s t"
  by (simp add: queue_grows_def)

lemma event_queue: "queue_grows s (snd (insertEventAndOutbox jsonb ev s))"
  by (auto simp: queue_grows_def insertEventAndOutbox_def Let_def new_deliveries_def dest: outbox_rows_fields)

lemma queue_grows_trans: "queue_grows s t \<Longrightarrow> queue_grows t u \<Longrightarrow> queue_grows s u"
  unfolding queue_grows_def by (metis append.assoc Un_iff set_append)

lemma queue_grows_cong: "queue_grows s u \<Longrightarrow> webhook_deliveries t = webhook_deliveries u \<Longrightarrow> queue_grows s t"
  by (simp add: queue_grows_def)

lemma event_queue_from: "webhook_deliveries u = webhook_deliveries s \<Longrightarrow> queue_grows s (snd (insertEventAndOutbox jsonb ev u))"
  using event_queue queue_grows_same queue_grows_trans by blast

lemma events_queue_from: "webhook_deliveries u = webhook_deliveries s \<Longrightarrow>
    queue_grows s (snd (insertEventAndOutbox jsonb ev' (snd (insertEventAndOutbox jsonb ev u))))"
  using event_queue event_queue_from queue_grows_trans by blast

lemma update_execution_queue: "update_execution ag f s = Inr t \<Longrightarrow> webhook_deliveries t = webhook_deliveries s"
  by (auto simp: update_execution_Inr)

lemma helper_queue [simp]:
  "webhook_deliveries (update_attempts P f s) = webhook_deliveries s" "webhook_deliveries (update_intent i g s) = webhook_deliveries s"
  "webhook_deliveries (snapshot_attempts jsonb si t s) = webhook_deliveries s"
  "webhook_deliveries (promote_attempts pi i t s) = webhook_deliveries s"
  by (simp_all add: update_attempts_def update_intent_def snapshot_attempts_def promote_attempts_def Let_def
      split: option.splits)

lemma attach_queue: "attach_attempt ai ex s = Inr (i, n, t) \<Longrightarrow> webhook_deliveries t = webhook_deliveries s"
  "attach_revision ai i s = Inr t \<Longrightarrow> webhook_deliveries t = webhook_deliveries s"
  by (auto simp: attach_attempt_def attach_revision_def Let_def update_attempts_def split: option.splits if_splits)

lemma writes_queue:
  "mark_tx jsonb mi s = Inr t \<Longrightarrow> queue_grows s t"
  "applySnapshot jsonb si s = (rs, t) \<Longrightarrow> queue_grows s t"
  "promoteAttemptProjection jsonb pi s = (rp, t) \<Longrightarrow> queue_grows s t"
  "attach_tx jsonb ai s = Inr t \<Longrightarrow> queue_grows s t"
proof -
  show "mark_tx jsonb mi s = Inr t \<Longrightarrow> queue_grows s t"
    by (auto simp: mark_tx_def Let_def sum_bind_Inr dest!: update_execution_queue intro!: event_queue_from split: option.splits)
  show "applySnapshot jsonb si s = (rs, t) \<Longrightarrow> queue_grows s t"
    by (auto simp: applySnapshot_def Let_def split_beta dest!: update_execution_queue
        intro: event_queue_from events_queue_from queue_grows_same split: sum.splits if_splits)
  show "promoteAttemptProjection jsonb pi s = (rp, t) \<Longrightarrow> queue_grows s t"
    by (auto simp: promoteAttemptProjection_def Let_def dest!: update_execution_queue
        intro: event_queue_from events_queue_from queue_grows_same split: sum.splits option.splits if_splits)
  show "attach_tx jsonb ai s = Inr t \<Longrightarrow> queue_grows s t"
    by (auto simp: attach_tx_def Let_def sum_bind_Inr dest!: attach_queue update_execution_queue
        intro!: event_queue_from split: option.splits)
qed

lemma repo_call_queue: "repo_call jsonb s t \<Longrightarrow> queue_grows s t"
proof (erule repo_callE)
  show "\<And>ci rc. createIntent jsonb ci s = (rc, t) \<Longrightarrow> queue_grows s t"
    by (auto simp: createIntent_def insert_intent_def Let_def split: sum.splits option.splits if_splits
        intro: event_queue_from queue_grows_same)
  show "queue_grows s t" if "attachTransaction jsonb ai s = (ra, t)" for ai ra
    using that by (auto simp: attachTransaction_def intro: writes_queue queue_grows_same split: sum.splits option.splits)
  show "queue_grows s t" if "markSubmissionStatus jsonb mi s = (ra, t)" for mi ra
    using that by (auto simp: markSubmissionStatus_def intro: writes_queue queue_grows_same split: sum.splits option.splits)
  show "\<And>si rs. applySnapshot jsonb si s = (rs, t) \<Longrightarrow> queue_grows s t" by (rule writes_queue(2))
  show "\<And>pi ra. promoteAttemptProjection jsonb pi s = (ra, t) \<Longrightarrow> queue_grows s t" by (rule writes_queue(3))
  show "\<And>ag k f to' why raw re. appendEvent jsonb ag k f to' why raw s = (re, t) \<Longrightarrow> queue_grows s t"
    by (auto simp: appendEvent_def Let_def split_beta intro: event_queue_from)
  show "\<And>ag what rn. addOperatorNote jsonb ag what s = (rn, t) \<Longrightarrow> queue_grows s t"
    by (auto simp: addOperatorNote_def Let_def split_beta intro!: queue_grows_cong [OF event_queue])
qed (auto simp: recordRpcObservation_def updateCandidateAttempt_def Let_def intro: queue_grows_same)


section \<open>The queue's invariant and its steps\<close>

definition owned_claimed :: "db \<Rightarrow> bool" where
  "owned_claimed s \<longleftrightarrow> (\<forall>d \<in> set (webhook_deliveries s). d_leaseOwner d \<noteq> None \<longrightarrow> d_status d = DS_CLAIMED)"

definition queue_ok :: "db \<Rightarrow> bool" where
  "queue_ok s \<longleftrightarrow> repo_inv s \<and> owned_claimed s"

inductive delivery_step :: "(json \<Rightarrow> json) \<Rightarrow> uuid \<Rightarrow> db \<Rightarrow> db \<Rightarrow> bool" for jsonb w where
  "claimDueWebhookDeliveries limit w secs p s = (ds, t) \<Longrightarrow> delivery_step jsonb w s t"
| "claimWebhookDeliveriesForEvent p ev w secs s = (ds, t) \<Longrightarrow> delivery_step jsonb w s t"
| "renewWebhookDeliveryLease i w secs s = (b, t) \<Longrightarrow> delivery_step jsonb w s t"
| "delivery_step jsonb w s (releaseWebhookDeliveryLease i w s)"
| "cm_leaseOwner input = Some w \<Longrightarrow> delivery_step jsonb w s (completeWebhookDelivery input s)"
| "retryFailedWebhookDeliveries p ep s = (n, t) \<Longrightarrow> delivery_step jsonb w s t"
| "ev < next_uuid s \<Longrightarrow> enqueueWebhookDeliveries jsonb p ev ty pl s = (n, t) \<Longrightarrow> delivery_step jsonb w s t"
| "createWebhookEndpoint p url secret s = (wr, t) \<Longrightarrow> delivery_step jsonb w s t"
| "disableWebhookEndpoint p i s = (b, t) \<Longrightarrow> delivery_step jsonb w s t"
| "repo_call jsonb s t \<Longrightarrow> delivery_step jsonb w s t"

inductive_cases delivery_stepE: "delivery_step jsonb w s t"

lemma repo_inv_deliveries:
  assumes "repo_inv s" and "\<And>d. P d \<Longrightarrow> d_id (f d) = d_id d \<and> d_endpointId (f d) = d_endpointId d \<and> d_eventId (f d) = d_eventId d"
  shows "repo_inv (update_deliveries P f s)"
  using assms
  by (auto simp: update_deliveries_def repo_inv_def executions_ok_def attempts_ok_def intents_ok_def deliveries_ok_def
      event_ids_fresh_def set_sql_update intro!: unique_key_update)

lemma owned_claimed_update:
  "owned_claimed s \<Longrightarrow> (\<And>d. P d \<Longrightarrow> d_leaseOwner (f d) \<noteq> None \<Longrightarrow> d_status (f d) = DS_CLAIMED)
     \<Longrightarrow> owned_claimed (update_deliveries P f s)"
  by (auto simp: owned_claimed_def update_deliveries_def set_sql_update)

lemma queue_ok_update:
  assumes "queue_ok s"
    and "\<And>d. P d \<Longrightarrow> d_id (f d) = d_id d \<and> d_endpointId (f d) = d_endpointId d \<and> d_eventId (f d) = d_eventId d
          \<and> (d_leaseOwner (f d) \<noteq> None \<longrightarrow> d_status (f d) = DS_CLAIMED)"
  shows "queue_ok (update_deliveries P f s)"
  using assms by (auto simp: queue_ok_def intro!: repo_inv_deliveries owned_claimed_update)

lemma owned_claimed_grows: "owned_claimed s \<Longrightarrow> queue_grows s t \<Longrightarrow> owned_claimed t"
  by (auto simp: owned_claimed_def queue_grows_def)

lemma enqueue_inv:
  assumes inv: "repo_inv s" and ev: "ev < next_uuid s" and r: "enqueueWebhookDeliveries jsonb p ev ty pl s = (n, t)"
  shows "repo_inv t"
proof -
  let ?rows = "outbox_rows jsonb p ev ty pl (clock s) (next_uuid s) (webhook_endpoints s)"
  let ?new = "new_deliveries (webhook_deliveries s) ?rows"
  have sub: "set ?new \<subseteq> set ?rows" by (auto simp: new_deliveries_def)
  have "distinct (map d_endpointId ?rows)"
    using inv by (simp add: outbox_rows_endpoints repo_inv_def deliveries_ok_def unique_key_def distinct_map_filter)
  then have "distinct (map d_endpointId ?new)" by (simp add: new_deliveries_def distinct_map_filter)
  then have "distinct (map (\<lambda>d. (d_endpointId d, d_eventId d)) ?new)" by (auto simp: distinct_map inj_on_def)
  moreover have "(d_endpointId d, d_eventId d) \<noteq> (d_endpointId d', d_eventId d')"
    if "d \<in> set ?new" "d' \<in> set (webhook_deliveries s)" for d d'
    using that by (auto simp: new_deliveries_def list_ex_iff)
  ultimately have 1: "unique_key (\<lambda>d. (d_endpointId d, d_eventId d)) (webhook_deliveries s @ ?new)"
    using inv by (fastforce simp: unique_key_def repo_inv_def deliveries_ok_def)
  have "distinct (map d_id ?rows)" by (simp add: outbox_rows_ids)
  then have "distinct (map d_id ?new)" by (simp add: new_deliveries_def distinct_map_filter)
  moreover have "d_id d \<noteq> d_id d'" if "d \<in> set ?new" "d' \<in> set (webhook_deliveries s)" for d d'
    using that sub outbox_rows_id [of d jsonb p ev ty pl "clock s" "next_uuid s" "webhook_endpoints s"] inv
    by (fastforce simp: repo_inv_def event_ids_fresh_def)
  ultimately have 2: "unique_key d_id (webhook_deliveries s @ ?new)"
    using inv by (fastforce simp: unique_key_def repo_inv_def deliveries_ok_def)
  have 3: "d_eventId d = ev \<and> d_id d < next_uuid s + length ?rows" if "d \<in> set ?new" for d
    using that sub outbox_row_ids by blast
  have t: "t = s\<lparr>webhook_deliveries := webhook_deliveries s @ ?new, next_uuid := next_uuid s + length ?rows\<rparr>"
    using r by (simp add: enqueueWebhookDeliveries_def Let_def)
  show ?thesis
    unfolding t using inv 1 2 3 ev
    by (auto simp: repo_inv_def executions_ok_def attempts_ok_def intents_ok_def deliveries_ok_def event_ids_fresh_def
        intro: less_le_trans dest: order_less_le_trans)
qed

lemma endpoint_inv:
  "repo_inv s \<Longrightarrow> createWebhookEndpoint p url secret s = (wr, t) \<Longrightarrow> repo_inv t"
  "repo_inv s \<Longrightarrow> disableWebhookEndpoint p i s = (b, t) \<Longrightarrow> repo_inv t"
proof -
  assume inv: "repo_inv s"
  show "createWebhookEndpoint p url secret s = (wr, t) \<Longrightarrow> repo_inv t"
    using inv
    by (auto simp: createWebhookEndpoint_def Let_def repo_inv_def executions_ok_def attempts_ok_def intents_ok_def
        deliveries_ok_def event_ids_fresh_def set_sql_update less_Suc_eq
        intro!: unique_key_update unique_key_append split: option.splits) (metis less_irrefl)
  show "disableWebhookEndpoint p i s = (b, t) \<Longrightarrow> repo_inv t"
    using inv
    by (auto simp: disableWebhookEndpoint_def Let_def repo_inv_def executions_ok_def attempts_ok_def intents_ok_def
        deliveries_ok_def event_ids_fresh_def set_sql_update intro!: unique_key_update)
qed

lemma enqueue_queue: "enqueueWebhookDeliveries jsonb p ev ty pl s = (n, t) \<Longrightarrow> queue_grows s t"
  by (auto simp: queue_grows_def enqueueWebhookDeliveries_def Let_def new_deliveries_def dest: outbox_rows_fields)

lemma endpoint_queue:
  "createWebhookEndpoint p url secret s = (wr, t) \<Longrightarrow> webhook_deliveries t = webhook_deliveries s \<and> clock t = clock s"
  "disableWebhookEndpoint p i s = (b, t) \<Longrightarrow> webhook_deliveries t = webhook_deliveries s \<and> clock t = clock s"
  by (auto simp: createWebhookEndpoint_def disableWebhookEndpoint_def Let_def split: option.splits)

lemmas delivery_ops = claimDueWebhookDeliveries_def claimWebhookDeliveriesForEvent_def claim_deliveries_def
  renewWebhookDeliveryLease_def releaseWebhookDeliveryLease_def completeWebhookDelivery_def complete_row_def
  retryFailedWebhookDeliveries_def lease_delivery_def Let_def

lemma delivery_step_ok: "delivery_step jsonb w s t \<Longrightarrow> queue_ok s \<Longrightarrow> queue_ok t"
proof (erule delivery_stepE)
  show "queue_ok t" if "queue_ok s" "enqueueWebhookDeliveries jsonb p ev ty pl s = (n, t)" "ev < next_uuid s" for p ev ty pl n
    using that enqueue_inv enqueue_queue owned_claimed_grows by (auto simp: queue_ok_def)
  show "queue_ok t" if "queue_ok s" "createWebhookEndpoint p url secret s = (wr, t)" for p url secret wr
    using that endpoint_inv(1) endpoint_queue(1) by (fastforce simp: queue_ok_def owned_claimed_def)
  show "queue_ok t" if "queue_ok s" "disableWebhookEndpoint p i s = (b, t)" for p i b
    using that endpoint_inv(2) endpoint_queue(2) by (fastforce simp: queue_ok_def owned_claimed_def)
  show "queue_ok t" if "queue_ok s" "repo_call jsonb s t"
    using that repo_call_inv repo_call_queue owned_claimed_grows by (auto simp: queue_ok_def)
qed (auto simp: delivery_ops owned_delivery_def intro!: queue_ok_update)

text \<open>Which rows a step can touch at all.\<close>

lemma claim_candidates:
  assumes "repo_inv s" "d \<in> set (webhook_deliveries s)" "d_id d \<in> d_id ` set xs" and "set xs \<subseteq> set (webhook_deliveries s)"
  shows "d \<in> set xs"
proof -
  from assms(3) obtain d' where d': "d' \<in> set xs" "d_id d' = d_id d" by auto
  have "unique_key d_id (webhook_deliveries s)" using assms(1) by (simp add: repo_inv_def deliveries_ok_def)
  from unique_key_eq [OF this assms(2), of d'] d' assms(4) show ?thesis by auto
qed

lemma delivery_untouched:
  assumes st: "delivery_step jsonb w s t" and ok: "queue_ok s" and d: "d \<in> set (webhook_deliveries s)"
    and not: "\<not> (delivery_due (clock s) d \<and> delivery_open (clock s) d)" "d_leaseOwner d \<noteq> Some w" "d_status d \<noteq> DS_FAILED"
  shows "d \<in> set (webhook_deliveries t)"
proof -
  have inv: "repo_inv s" using ok by (simp add: queue_ok_def)
  have keep: "d \<in> set (webhook_deliveries (update_deliveries P f s))" if "\<not> P d" for P f
    using that d by (simp add: update_deliveries_def sql_update_miss)
  have claim: "d \<in> set (webhook_deliveries (snd (claim_deliveries v u (map d_id xs) s)))"
    if "\<And>x. x \<in> set xs \<Longrightarrow> x \<in> set (webhook_deliveries s) \<and> delivery_due (clock s) x \<and> delivery_open (clock s) x" for xs v u
    unfolding claim_deliveries_def Let_def snd_conv
  proof (rule keep)
    show "d_id d \<notin> set (map d_id xs)" using claim_candidates [OF inv d] that not(1) by auto
  qed
  from st show ?thesis
  proof (cases rule: delivery_step.cases)
    case (1 limit secs p ds)
    show ?thesis
      unfolding arg_cong [OF 1, of snd, unfolded snd_conv, symmetric] claimDueWebhookDeliveries_def take_map
      by (rule claim) (auto dest!: in_set_takeD)
  next
    case (2 p ev secs ds)
    show ?thesis
      unfolding arg_cong [OF 2, of snd, unfolded snd_conv, symmetric] claimWebhookDeliveriesForEvent_def
      by (rule claim) (auto simp: delivery_open_def)
  next
    case 7
    with enqueue_queue d show ?thesis by (fastforce simp: queue_grows_def)
  next
    case 10
    with repo_call_queue d show ?thesis by (fastforce simp: queue_grows_def)
  qed (use d not endpoint_queue in \<open>auto simp: delivery_ops owned_delivery_def intro!: keep\<close>)
qed

interpretation delivery_lease: lease_table webhook_deliveries d_id d_leaseOwner d_leaseUntil queue_ok
  "delivery_step jsonb" for jsonb
proof
  show "delivery_step jsonb w s t \<Longrightarrow> clock s \<le> clock t" for w s t
    by (erule delivery_stepE)
      (auto simp: delivery_ops update_deliveries_def enqueueWebhookDeliveries_def keeps_leases_def
        dest!: endpoint_queue repo_call_leases)
  show "\<exists>d' \<in> set (webhook_deliveries t). d_id d' = d_id d \<and> d_leaseOwner d' = Some v \<and> d_leaseUntil d' = Some u"
    if "delivery_step jsonb w s t" "queue_ok s" "d \<in> set (webhook_deliveries s)" "d_leaseOwner d = Some v"
      "d_leaseUntil d = Some u" "v \<noteq> w" "clock s \<le> u" for w s t d v u
  proof -
    have "d_status d = DS_CLAIMED" using that by (auto simp: queue_ok_def owned_claimed_def)
    with that have "d \<in> set (webhook_deliveries t)"
      by (intro delivery_untouched [OF that(1-3)]) (auto simp: delivery_due_def lease_free_def)
    with that show ?thesis by blast
  qed
qed (auto intro: delivery_step_ok)

definition delivery_others :: "(json \<Rightarrow> json) \<Rightarrow> uuid \<Rightarrow> db \<Rightarrow> db \<Rightarrow> bool" where
  "delivery_others jsonb v s t \<longleftrightarrow> (\<exists>w. w \<noteq> v \<and> delivery_step jsonb w s t)"

definition delivery_run :: "(json \<Rightarrow> json) \<Rightarrow> db \<Rightarrow> db \<Rightarrow> bool" where
  "delivery_run jsonb s t \<longleftrightarrow> (\<exists>w. delivery_step jsonb w s t)"

text \<open>
  Property C24: the lease on a delivery is exclusive: until it expires, no claim, renewal,
  release or completion by another worker, no bulk retry, no new event and no other call takes
  it from its owner.
\<close>

theorem delivery_lease_exclusive:
  assumes "(delivery_others jsonb v)\<^sup>*\<^sup>* s t" and "queue_ok s" and "d \<in> set (webhook_deliveries s)"
    and "d_leaseOwner d = Some v" "d_leaseUntil d = Some u" and "clock t \<le> u"
  shows "\<exists>d' \<in> set (webhook_deliveries t). d_id d' = d_id d \<and> d_leaseOwner d' = Some v \<and> d_leaseUntil d' = Some u"
proof -
  have "delivery_others jsonb v = delivery_lease.others jsonb v"
    by (auto simp: fun_eq_iff delivery_others_def delivery_lease.others_def)
  with assms show ?thesis by (auto intro: delivery_lease.held)
qed

text \<open>
  A delivery that was completed with success is final: no later claim, retry,
  completion by a worker or other call changes its row, so it is never sent again.
\<close>

theorem delivered_is_final:
  assumes "(delivery_run jsonb)\<^sup>*\<^sup>* s t" and "queue_ok s" and "d \<in> set (webhook_deliveries s)" and "d_status d = DS_DELIVERED"
  shows "d \<in> set (webhook_deliveries t)"
proof -
  have "queue_ok t \<and> d \<in> set (webhook_deliveries t)"
    using assms(1)
  proof (induction rule: rtranclp_induct)
    case base
    with assms show ?case by simp
  next
    case (step t u)
    from step.hyps(2) obtain w where w: "delivery_step jsonb w t u" by (auto simp: delivery_run_def)
    have "d_leaseOwner d = None" using step.IH assms(4) by (auto simp: queue_ok_def owned_claimed_def)
    with step.IH assms(4) have "d \<in> set (webhook_deliveries u)"
      by (intro delivery_untouched [OF w]) (auto simp: delivery_open_def)
    with step.IH w delivery_step_ok show ?case by blast
  qed
  then show ?thesis ..
qed

definition sample_delivery :: "DeliveryStatus \<Rightarrow> uuid option \<Rightarrow> timestamp option \<Rightarrow> WebhookDeliveryRecord" where
  "sample_delivery st w u = \<lparr>d_id = 5, d_projectId = 0, d_endpointId = 3, d_eventId = 4, d_eventType = ''intent.confirmed'',
     d_payload = JNull, d_attemptCount = 0, d_status = st, d_responseStatus = None, d_lastError = None,
     d_nextAttemptAt = Some 0, d_deliveredAt = None, d_leaseOwner = w, d_leaseUntil = u, d_updatedAt = 0\<rparr>"

definition sample_queue :: "WebhookDeliveryRecord \<Rightarrow> db" where
  "sample_queue d = sample_db\<lparr>webhook_endpoints := [sample_endpoint 3 True], webhook_deliveries := [d], next_uuid := 6\<rparr>"

lemma sample_queue_ok:
  "d_id d = 5 \<Longrightarrow> d_eventId d = 4 \<Longrightarrow> (d_leaseOwner d \<noteq> None \<Longrightarrow> d_status d = DS_CLAIMED) \<Longrightarrow> queue_ok (sample_queue d)"
  by (simp add: queue_ok_def owned_claimed_def sample_queue_def repo_inv_def executions_ok_def attempts_ok_def intents_ok_def
      deliveries_ok_def event_ids_fresh_def unique_key_def sample_defs sample_endpoint_def execution_check_def
      conflict_type_allowed_def)

theorem delivery_lease_exclusive_witness:
  "\<exists>d \<in> set (webhook_deliveries (snd (claimDueWebhookDeliveries 10 62 60 None
       (sample_queue (sample_delivery DS_CLAIMED (Some 61) (Some 1700000000001)))))). d_id d = 5 \<and> d_leaseOwner d = Some 61
     \<and> d_leaseUntil d = Some 1700000000001"
proof -
  let ?d = "sample_delivery DS_CLAIMED (Some 61) (Some 1700000000001)"
  let ?t = "snd (claimDueWebhookDeliveries 10 62 60 None (sample_queue ?d))"
  have "delivery_step id 62 (sample_queue ?d) ?t" by (rule delivery_step.intros(1) [OF prod.collapse [symmetric]])
  then have r: "(delivery_others id 61)\<^sup>*\<^sup>* (sample_queue ?d) ?t" by (auto simp: delivery_others_def intro!: r_into_rtranclp exI [of _ 62])
  have ok: "queue_ok (sample_queue ?d)" by (rule sample_queue_ok) (simp_all add: sample_delivery_def)
  have c: "clock ?t \<le> 1700000000001"
    by (simp add: delivery_ops update_deliveries_def sample_queue_def sample_defs)
  from delivery_lease_exclusive [OF r ok _ _ _ c, of ?d] show ?thesis by (simp add: sample_queue_def sample_delivery_def)
qed

theorem delivered_is_final_witness:
  "sample_delivery DS_DELIVERED None None \<in> set (webhook_deliveries (snd (retryFailedWebhookDeliveries 0 None
     (sample_queue (sample_delivery DS_DELIVERED None None)))))"
proof -
  let ?d = "sample_delivery DS_DELIVERED None None"
  have "delivery_step id 0 (sample_queue ?d) (snd (retryFailedWebhookDeliveries 0 None (sample_queue ?d)))"
    by (rule delivery_step.intros(6) [OF prod.collapse [symmetric]])
  then have r: "(delivery_run id)\<^sup>*\<^sup>* (sample_queue ?d) (snd (retryFailedWebhookDeliveries 0 None (sample_queue ?d)))"
    by (auto simp: delivery_run_def intro!: r_into_rtranclp)
  have ok: "queue_ok (sample_queue ?d)" by (rule sample_queue_ok) (simp_all add: sample_delivery_def)
  from delivered_is_final [OF r ok, of ?d] show ?thesis by (simp add: sample_queue_def sample_delivery_def)
qed

end
