(* ===== verification/RepoProjects.thy ===== *)
theory RepoProjects
  imports RepoInvariant
begin

text \<open>
  Projects, API keys and rate limits of packages/db/src/repository.ts: the one-time bootstrap,
  project creation, authentication by key hash, the key life cycle, and the fixed-window
  request counter.
\<close>

section \<open>Projects\<close>

record CreateProjectInput =
  cp_name :: string
  cp_network :: Network
  cp_rpcUrl :: "string option"
  cp_rpcGenesisHash :: "string option"
  cp_confirmationPolicy :: ConfirmationPolicy
  cp_apiKeyId :: uuid
  cp_apiKeyPrefix :: string
  cp_apiKeyHash :: string

definition project_row :: "CreateProjectInput \<Rightarrow> uuid \<Rightarrow> timestamp \<Rightarrow> ProjectRecord" where
  "project_row input projectId now' = \<lparr>p_id = projectId, p_name = cp_name input, p_network = cp_network input,
     p_rpcUrl = cp_rpcUrl input, p_rpcGenesisHash = cp_rpcGenesisHash input,
     p_confirmationPolicy = cp_confirmationPolicy input, p_createdAt = now'\<rparr>"

definition first_key :: "CreateProjectInput \<Rightarrow> uuid \<Rightarrow> timestamp \<Rightarrow> ApiKeyRow" where
  "first_key input projectId now' = \<lparr>k_id = cp_apiKeyId input, k_projectId = projectId, k_prefix = cp_apiKeyPrefix input,
     k_hash = cp_apiKeyHash input, k_label = ''default'', k_scopes = [Scope_read, Scope_write, Scope_admin],
     k_expiresAt = None, k_revokedAt = None, k_lastUsedAt = None, k_createdAt = now'\<rparr>"

text \<open>The constraints that an insertion can violate.\<close>

definition project_check :: "ProjectRecord \<Rightarrow> string option" where
  "project_check p = (case p_rpcGenesisHash p of None \<Rightarrow> None
     | Some h \<Rightarrow> if length h = 66 \<and> take 2 h = ''0x'' \<and> list_all is_hex_any (drop 2 h) then None
        else Some ''projects_rpc_genesis_hash_format'')"

definition insert_key :: "ApiKeyRow \<Rightarrow> db \<Rightarrow> thrown + db" where
  "insert_key k s =
    (if list_ex (\<lambda>r. k_id r = k_id k) (api_keys s) then Inl (ConstraintViolation ''api_keys_pkey'')
     else if list_ex (\<lambda>r. k_hash r = k_hash k) (api_keys s) then Inl (ConstraintViolation ''api_keys_key_hash_key'')
     else if k_scopes k = [] then Inl (ConstraintViolation ''api_keys_scopes_nonempty'')
     else Inr (s\<lparr>api_keys := api_keys s @ [k]\<rparr>))"

definition insert_project :: "CreateProjectInput \<Rightarrow> db \<Rightarrow> thrown + (ProjectRecord \<times> db)" where
  "insert_project input s =
    (let row = project_row input (next_uuid s) (clock s) in
     case project_check row of
       Some c \<Rightarrow> Inl (ConstraintViolation c)
     | None \<Rightarrow> sum_bind (insert_key (first_key input (p_id row) (clock s))
                (s\<lparr>projects := projects s @ [row], next_uuid := Suc (next_uuid s)\<rparr>))
              (\<lambda>t. Inr (mapProject row, t)))"

definition createProject :: "CreateProjectInput \<Rightarrow> ProjectRecord repo" where
  "createProject input s = (case insert_project input s of Inl e \<Rightarrow> (Inl e, s) | Inr (p, t) \<Rightarrow> (Inr p, t))"

definition createInitialProject :: "CreateProjectInput \<Rightarrow> ProjectRecord option repo" where
  "createInitialProject input s =
    (if projects s \<noteq> [] then (Inr None, s)
     else case insert_project input s of Inl e \<Rightarrow> (Inl e, s) | Inr (p, t) \<Rightarrow> (Inr (Some p), t))"

definition hasAnyProject :: "db \<Rightarrow> bool" where
  "hasAnyProject s \<longleftrightarrow> projects s \<noteq> []"


section \<open>API keys\<close>

record ApiKeyAuthRecord =
  au_id :: uuid
  au_projectId :: uuid
  au_scopes :: "ApiKeyScope list"
  au_expiresAt :: "timestamp option"

definition findAuthByApiKeyHash :: "string \<Rightarrow> db \<Rightarrow> (ProjectRecord \<times> ApiKeyAuthRecord) option \<times> db" where
  "findAuthByApiKeyHash hash s =
    (case sql_first (\<lambda>(p, k). k_hash k = hash \<and> key_active (clock s) k)
            (concat (map (\<lambda>p. map (\<lambda>k. (p, k)) (filter (\<lambda>k. k_projectId k = p_id p) (api_keys s))) (projects s))) of
       None \<Rightarrow> (None, s)
     | Some (p, k) \<Rightarrow>
         (Some (mapProject p, \<lparr>au_id = k_id k, au_projectId = p_id p, au_scopes = k_scopes k, au_expiresAt = k_expiresAt k\<rparr>),
          s\<lparr>api_keys := sql_update (\<lambda>k. k_hash k = hash) (\<lambda>k. k\<lparr>k_lastUsedAt := Some (clock s)\<rparr>) (api_keys s)\<rparr>))"

definition findProjectByApiKeyHash :: "string \<Rightarrow> db \<Rightarrow> ProjectRecord option \<times> db" where
  "findProjectByApiKeyHash hash s = (case findAuthByApiKeyHash hash s of (r, t) \<Rightarrow> (map_option fst r, t))"

definition createApiKey :: "uuid \<Rightarrow> uuid \<Rightarrow> string \<Rightarrow> string \<Rightarrow> string \<Rightarrow> ApiKeyScope list \<Rightarrow> timestamp option \<Rightarrow> unit repo" where
  "createApiKey projectId i keyPrefix hash label scopes expiresAt s =
    (if \<not> list_ex (\<lambda>p. p_id p = projectId) (projects s) then (Inl (PlainError ''Project not found while creating API key''), s)
     else case insert_key \<lparr>k_id = i, k_projectId = projectId, k_prefix = keyPrefix, k_hash = hash, k_label = label,
              k_scopes = scopes, k_expiresAt = expiresAt, k_revokedAt = None, k_lastUsedAt = None, k_createdAt = clock s\<rparr> s of
        Inl e \<Rightarrow> (Inl e, s)
      | Inr t \<Rightarrow> (Inr (), t))"

record ApiKeyView =
  kv_id :: uuid
  kv_prefix :: string
  kv_label :: string
  kv_scopes :: "ApiKeyScope list"
  kv_expiresAt :: "timestamp option"
  kv_revokedAt :: "timestamp option"
  kv_lastUsedAt :: "timestamp option"
  kv_createdAt :: timestamp

definition listApiKeys :: "uuid \<Rightarrow> db \<Rightarrow> ApiKeyView list" where
  "listApiKeys projectId s = map (\<lambda>k. \<lparr>kv_id = k_id k, kv_prefix = k_prefix k, kv_label = k_label k, kv_scopes = k_scopes k,
      kv_expiresAt = k_expiresAt k, kv_revokedAt = k_revokedAt k, kv_lastUsedAt = k_lastUsedAt k, kv_createdAt = k_createdAt k\<rparr>)
     (sort_key k_createdAt (filter (\<lambda>k. k_projectId k = projectId) (api_keys s)))"

datatype RevokeResult = RV_REVOKED | RV_NOT_FOUND | RV_LAST_ACTIVE | RV_LAST_ADMIN

definition key_expired :: "timestamp \<Rightarrow> ApiKeyRow \<Rightarrow> bool" where
  "key_expired now' k \<longleftrightarrow> (case k_expiresAt k of None \<Rightarrow> False | Some x \<Rightarrow> x \<le> now')"

definition active_keys :: "uuid \<Rightarrow> db \<Rightarrow> ApiKeyRow list" where
  "active_keys projectId s = filter (\<lambda>k. k_projectId k = projectId \<and> key_active (clock s) k) (api_keys s)"

definition is_admin :: "ApiKeyRow \<Rightarrow> bool" where
  "is_admin k \<longleftrightarrow> Scope_admin \<in> set (k_scopes k)"

definition revoke_refusal :: "uuid \<Rightarrow> ApiKeyRow \<Rightarrow> db \<Rightarrow> RevokeResult option" where
  "revoke_refusal projectId target s =
    (if key_expired (clock s) target then None
     else if length (active_keys projectId s) \<le> 1 then Some RV_LAST_ACTIVE
     else if is_admin target \<and> length (filter is_admin (active_keys projectId s)) \<le> 1 then Some RV_LAST_ADMIN
     else None)"

definition revokeApiKey :: "uuid \<Rightarrow> uuid \<Rightarrow> db \<Rightarrow> RevokeResult \<times> db" where
  "revokeApiKey projectId keyId s =
    (if \<not> list_ex (\<lambda>p. p_id p = projectId) (projects s) then (RV_NOT_FOUND, s)
     else case sql_first (\<lambda>k. k_projectId k = projectId \<and> k_id k = keyId) (api_keys s) of
       None \<Rightarrow> (RV_NOT_FOUND, s)
     | Some target \<Rightarrow>
         if k_revokedAt target \<noteq> None then (RV_REVOKED, s)
         else case revoke_refusal projectId target s of
           Some r \<Rightarrow> (r, s)
         | None \<Rightarrow> (RV_REVOKED, s\<lparr>api_keys := sql_update (\<lambda>k. k_projectId k = projectId \<and> k_id k = keyId)
               (\<lambda>k. k\<lparr>k_revokedAt := Some (clock s)\<rparr>) (api_keys s)\<rparr>))"


section \<open>Rate limits\<close>

type_synonym rate_key = "uuid \<times> string \<times> int"

text \<open>The start of the window, in seconds since the epoch.\<close>

definition window_start :: "timestamp \<Rightarrow> int \<Rightarrow> int" where
  "window_start now' windowSeconds = (now' div 1000) div windowSeconds * windowSeconds"

definition request_count :: "rate_key \<Rightarrow> db \<Rightarrow> int" where
  "request_count k s = (case map_of (rate_limit_windows s) k of None \<Rightarrow> 0 | Some n \<Rightarrow> n)"

definition upsert_window :: "rate_key \<Rightarrow> (rate_key \<times> int) list \<Rightarrow> (rate_key \<times> int) list" where
  "upsert_window k rows =
    (if k \<in> fst ` set rows then map (\<lambda>(k', n). (k', if k' = k then n + 1 else n)) rows else rows @ [(k, 1)])"

definition consumeRateLimit :: "uuid \<Rightarrow> string \<Rightarrow> int \<Rightarrow> int \<Rightarrow> db \<Rightarrow> bool \<times> db" where
  "consumeRateLimit projectId bucket limit windowSeconds s =
    (let k = (projectId, bucket, window_start (clock s) windowSeconds);
         t = s\<lparr>rate_limit_windows := upsert_window k (rate_limit_windows s)\<rparr> in
     (request_count k t \<le> limit, t))"

definition pruneRateLimits :: "int \<Rightarrow> db \<Rightarrow> nat \<times> db" where
  "pruneRateLimits olderThanHours s =
    (let old = (\<lambda>((p, b, w), n). w * 1000 < clock s - max 1 (min olderThanHours 720) * 3600000) in
     (length (filter old (rate_limit_windows s)),
      s\<lparr>rate_limit_windows := filter (\<lambda>r. \<not> old r) (rate_limit_windows s)\<rparr>))"


section \<open>No lock-out\<close>

lemma key_active_not_expired: "key_active t k \<longleftrightarrow> k_revokedAt k = None \<and> \<not> key_expired t k"
  by (auto simp: key_active_def key_expired_def not_le split: option.splits)

lemma two_of_filter:
  assumes "\<not> length (filter P xs) \<le> 1" and "distinct xs"
  shows "\<exists>y \<in> set xs. P y \<and> y \<noteq> x"
proof (rule ccontr)
  assume "\<not> ?thesis"
  then have "set (filter P xs) \<subseteq> {x}" by auto
  then have "card (set (filter P xs)) \<le> 1" using card_mono [of "{x}"] by fastforce
  moreover have "card (set (filter P xs)) = length (filter P xs)"
    by (rule distinct_card) (simp add: assms(2))
  ultimately show False using assms(1) by linarith
qed

text \<open>
  Revoking never locks a project out: whatever key is named, a project that had a
  usable administrator key still has one, and every other project's keys are untouched.
\<close>

theorem revoke_keeps_admin:
  assumes "unique_key k_id (api_keys s)" and "list_ex is_admin (active_keys projectId s)"
  shows "list_ex is_admin (active_keys projectId (snd (revokeApiKey projectId' keyId s)))"
proof (cases "snd (revokeApiKey projectId' keyId s) = s")
  case True
  with assms show ?thesis by simp
next
  case False
  let ?P = "\<lambda>k. k_projectId k = projectId' \<and> k_id k = keyId"
  from False obtain target where tg: "sql_first ?P (api_keys s) = Some target" "revoke_refusal projectId' target s = None"
    and t: "snd (revokeApiKey projectId' keyId s)
      = s\<lparr>api_keys := sql_update ?P (\<lambda>k. k\<lparr>k_revokedAt := Some (clock s)\<rparr>) (api_keys s)\<rparr>"
    by (auto simp: revokeApiKey_def split: option.splits if_splits)
  have P: "?P k \<longleftrightarrow> k = target" if "k \<in> set (api_keys s)" for k
    using sql_first_Some [OF tg(1)] unique_key_eq [OF assms(1) that, of target] by auto
  have d: "distinct (active_keys projectId' s)"
    using assms(1) by (auto simp: active_keys_def unique_key_def distinct_map)
  from assms(2) obtain a where a: "a \<in> set (active_keys projectId s)" "is_admin a" by (auto simp: list_ex_iff)
  have "\<exists>b \<in> set (active_keys projectId s). is_admin b \<and> b \<noteq> target"
  proof (cases "a = target")
    case False
    with a show ?thesis by blast
  next
    case True
    then have p: "projectId' = projectId" using a(1) sql_first_Some [OF tg(1)] by (auto simp: active_keys_def)
    have "\<not> key_expired (clock s) target" using True a(1) by (simp add: active_keys_def key_active_not_expired)
    with tg(2) True a(2) have "\<not> length (filter is_admin (active_keys projectId' s)) \<le> 1"
      by (auto simp: revoke_refusal_def split: if_splits)
    from two_of_filter [OF this d] show ?thesis by (simp add: p)
  qed
  then obtain b where b: "b \<in> set (active_keys projectId s)" "is_admin b" "b \<noteq> target" by blast
  with P have "\<not> ?P b" by (auto simp: active_keys_def)
  with b have "b \<in> set (sql_update ?P (\<lambda>k. k\<lparr>k_revokedAt := Some (clock s)\<rparr>) (api_keys s))"
    by (auto simp: active_keys_def set_sql_update)
  with b show ?thesis by (auto simp: t list_ex_iff active_keys_def)
qed

definition sample_key :: "uuid \<Rightarrow> ApiKeyScope list \<Rightarrow> ApiKeyRow" where
  "sample_key i scopes = \<lparr>k_id = i, k_projectId = 0, k_prefix = ''cf_test'', k_hash = nat_string i, k_label = ''default'',
     k_scopes = scopes, k_expiresAt = None, k_revokedAt = None, k_lastUsedAt = None, k_createdAt = 0\<rparr>"

definition keys_db :: db where
  "keys_db = empty_db\<lparr>projects := [sample_project], api_keys := [sample_key 1 [Scope_admin], sample_key 2 [Scope_read]]\<rparr>"

theorem revoke_keeps_admin_witness:
  "list_ex is_admin (active_keys 0 (snd (revokeApiKey 0 1 keys_db)))"
  by (rule revoke_keeps_admin)
    (simp_all add: unique_key_def keys_db_def sample_key_def active_keys_def is_admin_def key_active_def empty_db_def)


section \<open>Revocation is permanent\<close>

inductive key_call :: "db \<Rightarrow> db \<Rightarrow> bool" where
  "createProject cp s = (rp, t) \<Longrightarrow> key_call s t"
| "createInitialProject cp s = (ri, t) \<Longrightarrow> key_call s t"
| "createApiKey p i pre h l sc ex s = (rk, t) \<Longrightarrow> key_call s t"
| "revokeApiKey p i s = (rr, t) \<Longrightarrow> key_call s t"
| "findAuthByApiKeyHash h s = (ra, t) \<Longrightarrow> key_call s t"
| "clock s \<le> now' \<Longrightarrow> key_call s (s\<lparr>clock := now'\<rparr>)"

inductive_cases key_callE: "key_call s t"

definition keys_ok :: "db \<Rightarrow> bool" where
  "keys_ok s \<longleftrightarrow> unique_key k_id (api_keys s) \<and> unique_key k_hash (api_keys s)"

definition revoked_hash :: "string \<Rightarrow> db \<Rightarrow> bool" where
  "revoked_hash h s \<longleftrightarrow> (\<exists>k \<in> set (api_keys s). k_hash k = h \<and> k_revokedAt k \<noteq> None)"

lemma insert_key_ok: "insert_key k s = Inr t \<Longrightarrow> keys_ok s \<Longrightarrow> keys_ok t \<and> (revoked_hash h s \<longrightarrow> revoked_hash h t)"
  by (auto simp: insert_key_def keys_ok_def revoked_hash_def list_ex_iff split: if_splits intro!: unique_key_append)

lemma keys_ok_same: "api_keys t = api_keys s \<Longrightarrow> keys_ok t = keys_ok s \<and> revoked_hash h t = revoked_hash h s"
  by (simp add: keys_ok_def revoked_hash_def)

lemma insert_project_ok:
  "insert_project cp s = Inr (p, t) \<Longrightarrow> keys_ok s \<Longrightarrow> keys_ok t \<and> (revoked_hash h s \<longrightarrow> revoked_hash h t)"
  using insert_key_ok [of "first_key cp (next_uuid s) (clock s)"
      "s\<lparr>projects := projects s @ [project_row cp (next_uuid s) (clock s)], next_uuid := Suc (next_uuid s)\<rparr>" t h]
  by (auto simp: insert_project_def Let_def sum_bind_Inr keys_ok_def revoked_hash_def project_row_def split: option.splits)

lemma keys_ok_update:
  "keys_ok s \<Longrightarrow> (\<And>k. k_id (f k) = k_id k \<and> k_hash (f k) = k_hash k \<and> (k_revokedAt k \<noteq> None \<longrightarrow> k_revokedAt (f k) \<noteq> None))
     \<Longrightarrow> keys_ok (s\<lparr>api_keys := sql_update P f (api_keys s)\<rparr>)
       \<and> (revoked_hash h s \<longrightarrow> revoked_hash h (s\<lparr>api_keys := sql_update P f (api_keys s)\<rparr>))"
proof (intro conjI impI)
  assume ok: "keys_ok s" and f: "\<And>k. k_id (f k) = k_id k \<and> k_hash (f k) = k_hash k \<and> (k_revokedAt k \<noteq> None \<longrightarrow> k_revokedAt (f k) \<noteq> None)"
  show "keys_ok (s\<lparr>api_keys := sql_update P f (api_keys s)\<rparr>)"
    using ok f by (auto simp: keys_ok_def intro!: unique_key_update)
  assume "revoked_hash h s"
  then obtain k where k: "k \<in> set (api_keys s)" "k_hash k = h" "k_revokedAt k \<noteq> None" by (auto simp: revoked_hash_def)
  have "(if P k then f k else k) \<in> set (sql_update P f (api_keys s))" using k(1) by (auto simp: set_sql_update)
  with k f show "revoked_hash h (s\<lparr>api_keys := sql_update P f (api_keys s)\<rparr>)"
    unfolding revoked_hash_def by (intro bexI [of _ "if P k then f k else k"]) auto
qed

lemma key_call_ok: "key_call s t \<Longrightarrow> keys_ok s \<Longrightarrow> keys_ok t \<and> (revoked_hash h s \<longrightarrow> revoked_hash h t)"
proof (erule key_callE)
  show "keys_ok t \<and> (revoked_hash h s \<longrightarrow> revoked_hash h t)" if "keys_ok s" "createProject cp s = (rp, t)" for cp rp
    using that insert_project_ok by (auto simp: createProject_def split: sum.splits)
  show "keys_ok t \<and> (revoked_hash h s \<longrightarrow> revoked_hash h t)" if "keys_ok s" "createInitialProject cp s = (ri, t)" for cp ri
    using that insert_project_ok by (auto simp: createInitialProject_def split: sum.splits if_splits)
  show "keys_ok t \<and> (revoked_hash h s \<longrightarrow> revoked_hash h t)" if "keys_ok s" "createApiKey p i pre hh l sc ex s = (rk, t)"
    for p i pre hh l sc ex rk
    using that insert_key_ok by (auto simp: createApiKey_def split: sum.splits if_splits)
  show "keys_ok t \<and> (revoked_hash h s \<longrightarrow> revoked_hash h t)" if "keys_ok s" "revokeApiKey p i s = (rr, t)" for p i rr
    using that keys_ok_update [OF that(1), of "\<lambda>k. k\<lparr>k_revokedAt := Some (clock s)\<rparr>"]
    by (auto simp: revokeApiKey_def split: option.splits if_splits)
  show "keys_ok t \<and> (revoked_hash h s \<longrightarrow> revoked_hash h t)" if "keys_ok s" "findAuthByApiKeyHash hh s = (ra, t)" for hh ra
    using that keys_ok_update [OF that(1), of "\<lambda>k. k\<lparr>k_lastUsedAt := Some (clock s)\<rparr>"]
    by (auto simp: findAuthByApiKeyHash_def split: option.splits prod.splits)
qed (simp add: keys_ok_def revoked_hash_def)

text \<open>
  A revoked key never authenticates again: whatever sequence of project, key and
  authentication calls follows, a request with its hash is refused.
\<close>

theorem revocation_is_permanent:
  assumes "keys_ok s" and "k \<in> set (api_keys s)" and "k_revokedAt k \<noteq> None" and "key_call\<^sup>*\<^sup>* s t"
  shows "fst (findAuthByApiKeyHash (k_hash k) t) = None"
proof -
  have "keys_ok t \<and> revoked_hash (k_hash k) t"
    using assms(4)
  proof (induction rule: rtranclp_induct)
    case base
    from assms(1-3) show ?case by (auto simp: revoked_hash_def)
  next
    case (step t u)
    then show ?case using key_call_ok by blast
  qed
  then have "\<not> key_active (clock t) x" if "x \<in> set (api_keys t)" "k_hash x = k_hash k" for x
  proof -
    from \<open>keys_ok t \<and> revoked_hash (k_hash k) t\<close> obtain y where y: "y \<in> set (api_keys t)" "k_hash y = k_hash k" "k_revokedAt y \<noteq> None"
      and u: "unique_key k_hash (api_keys t)" by (auto simp: keys_ok_def revoked_hash_def)
    have "x = y" by (rule unique_key_eq [OF u]) (use that y in auto)
    with y(3) show ?thesis by (simp add: key_active_def)
  qed
  then have "sql_first (\<lambda>(p, x). k_hash x = k_hash k \<and> key_active (clock t) x)
      (concat (map (\<lambda>p. map (\<lambda>x. (p, x)) (filter (\<lambda>x. k_projectId x = p_id p) (api_keys t))) (projects t))) = None"
    by (auto simp: sql_first_None)
  then show ?thesis by (simp add: findAuthByApiKeyHash_def)
qed

definition revoked_db :: db where
  "revoked_db = snd (revokeApiKey 0 2 keys_db)"

theorem revocation_is_permanent_witness:
  "fst (findAuthByApiKeyHash (nat_string 2) revoked_db) = None"
proof -
  let ?k = "(sample_key 2 [Scope_read])\<lparr>k_revokedAt := Some 1700000000000\<rparr>"
  have k: "api_keys revoked_db = [sample_key 1 [Scope_admin], ?k]"
    by (simp add: revoked_db_def revokeApiKey_def revoke_refusal_def keys_db_def sample_key_def active_keys_def is_admin_def
        key_active_def key_expired_def empty_db_def sample_project_def)
  have "nat_string 1 \<noteq> nat_string 2" by (simp add: nat_string_inj)
  then have "keys_ok revoked_db" by (simp add: keys_ok_def unique_key_def k sample_key_def)
  from revocation_is_permanent [OF this, of ?k revoked_db] show ?thesis by (simp add: k sample_key_def)
qed


section \<open>The rate limit holds\<close>

datatype RateOp = R_consume uuid string int int | R_prune int | R_tick int

text \<open>The log of a run: for each request its bucket and window, and whether it was let through.\<close>

fun rate_log :: "RateOp list \<Rightarrow> db \<Rightarrow> (rate_key \<times> bool) list" where
  "rate_log [] s = []"
| "rate_log (R_consume p b limit w # ops) s =
    ((p, b, window_start (clock s) w), fst (consumeRateLimit p b limit w s)) # rate_log ops (snd (consumeRateLimit p b limit w s))"
| "rate_log (R_prune h # ops) s = rate_log ops (snd (pruneRateLimits h s))"
| "rate_log (R_tick d # ops) s = rate_log ops (s\<lparr>clock := clock s + d\<rparr>)"

definition accepted :: "rate_key \<Rightarrow> (rate_key \<times> bool) list \<Rightarrow> int" where
  "accepted k log = int (length (filter (\<lambda>(k', a). k' = k \<and> a) log))"

text \<open>The bucket is used with one limit and one window length, and the clock does not run back.\<close>

definition uniform_op :: "uuid \<Rightarrow> string \<Rightarrow> int \<Rightarrow> int \<Rightarrow> RateOp \<Rightarrow> bool" where
  "uniform_op p b limit w op = (case op of R_consume p' b' l' w' \<Rightarrow> p' = p \<and> b' = b \<longrightarrow> l' = limit \<and> w' = w
     | R_prune h \<Rightarrow> True | R_tick d \<Rightarrow> 0 \<le> d)"

lemma below_thousand: "(t :: int) div 1000 < A \<Longrightarrow> t < A * 1000"
  using zdiv_mono1 [of "A * 1000" t 1000] by (cases "t < A * 1000") auto

lemma window_end: "0 < w \<Longrightarrow> window_start t w = W \<Longrightarrow> t < (W + w) * 1000"
proof -
  assume w: "0 < w" and "window_start t w = W"
  then have "t div 1000 < W + w"
    using pos_mod_bound [OF w, of "t div 1000"] div_mult_mod_eq [of "t div 1000" w] unfolding window_start_def by linarith
  then show ?thesis by (rule below_thousand)
qed

lemma count_upsert_same: "request_count k (s\<lparr>rate_limit_windows := upsert_window k (rate_limit_windows s)\<rparr>) = request_count k s + 1"
proof -
  have "map_of (map (\<lambda>(k', n). (k', if k' = k then n + 1 else n)) rows) k = map_option (\<lambda>n. n + 1) (map_of rows k)" for rows :: "(rate_key \<times> int) list"
    by (induction rows) auto
  moreover have "k \<in> fst ` set rows \<Longrightarrow> \<exists>n. map_of rows k = Some n" for rows :: "(rate_key \<times> int) list"
    by (meson domD domIff map_of_eq_None_iff)
  moreover have "k \<notin> fst ` set rows \<Longrightarrow> map_of rows k = None" for rows :: "(rate_key \<times> int) list"
    by (simp add: map_of_eq_None_iff)
  ultimately show ?thesis
    by (cases "k \<in> fst ` set (rate_limit_windows s)") (auto simp: request_count_def upsert_window_def map_add_def split: option.splits)
qed

lemma count_upsert_other: "k' \<noteq> k \<Longrightarrow>
    request_count k (s\<lparr>rate_limit_windows := upsert_window k' (rate_limit_windows s)\<rparr>) = request_count k s"
proof -
  assume "k' \<noteq> k"
  then have "map_of (map (\<lambda>(x, n). (x, if x = k' then n + 1 else n)) rows) k = map_of rows k" for rows :: "(rate_key \<times> int) list"
    by (induction rows) auto
  with \<open>k' \<noteq> k\<close> show ?thesis by (auto simp: request_count_def upsert_window_def map_add_def split: option.splits)
qed

lemma count_prune:
  assumes "\<not> W * 1000 < clock s - max 1 (min h 720) * 3600000"
  shows "request_count (p, b, W) (snd (pruneRateLimits h s)) = request_count (p, b, W) s"
proof -
  have "map_of (filter (\<lambda>r. \<not> snd (snd (fst r)) * 1000 < clock s - max 1 (min h 720) * 3600000) rows) (p, b, W) = map_of rows (p, b, W)"
    for rows :: "(rate_key \<times> int) list"
    using assms by (induction rows) auto
  then show ?thesis by (simp add: request_count_def pruneRateLimits_def Let_def case_prod_beta)
qed

lemma rate_steps [simp]:
  "clock (snd (consumeRateLimit p b l w s)) = clock s" "clock (snd (pruneRateLimits h s)) = clock s"
  by (simp_all add: consumeRateLimit_def pruneRateLimits_def Let_def)

text \<open>Once the window is over, nothing more is logged for it.\<close>

lemma window_over:
  assumes "0 < w" "\<forall>op \<in> set ops. uniform_op p b limit w op" and "(W + w) * 1000 \<le> clock s"
  shows "accepted (p, b, W) (rate_log ops s) = 0"
  using assms(2,3)
proof (induction ops arbitrary: s)
  case (Cons op ops)
  show ?case
  proof (cases op)
    case (R_consume p' b' l' w')
    have "window_start (clock s) w \<noteq> W" using window_end [OF assms(1), of "clock s" W] Cons.prems(2) by fastforce
    with R_consume Cons show ?thesis by (auto simp: accepted_def uniform_op_def)
  next
    case (R_tick d)
    with Cons.prems have "(W + w) * 1000 \<le> clock (s\<lparr>clock := clock s + d\<rparr>)" by (simp add: uniform_op_def)
    with Cons R_tick show ?thesis by simp
  qed (use Cons in simp)
qed (simp add: accepted_def)

lemma rate_bound:
  assumes "0 < w" "w \<le> 3600" "\<forall>op \<in> set ops. uniform_op p b limit w op"
  shows "accepted (p, b, W) (rate_log ops s) \<le> max 0 (limit - request_count (p, b, W) s)"
  using assms(3)
proof (induction ops arbitrary: s)
  case (Cons op ops)
  show ?case
  proof (cases op)
    case (R_consume p' b' l' w')
    let ?k = "(p', b', window_start (clock s) w')" and ?t = "snd (consumeRateLimit p' b' l' w' s)"
    have IH: "accepted (p, b, W) (rate_log ops ?t) \<le> max 0 (limit - request_count (p, b, W) ?t)" using Cons by simp
    show ?thesis
    proof (cases "?k = (p, b, W)")
      case True
      with R_consume Cons.prems have "l' = limit" by (simp add: uniform_op_def)
      moreover have c: "request_count (p, b, W) ?t = request_count (p, b, W) s + 1"
        using count_upsert_same [of ?k s] unfolding True by (simp add: consumeRateLimit_def Let_def True [simplified])
      moreover have "fst (consumeRateLimit p' b' l' w' s) \<longleftrightarrow> request_count (p, b, W) ?t \<le> l'"
        by (simp add: consumeRateLimit_def Let_def True [simplified])
      ultimately show ?thesis using IH by (auto simp: R_consume accepted_def True [simplified] max_def split: if_splits)
    next
      case False
      then have "request_count (p, b, W) ?t = request_count (p, b, W) s"
        using count_upsert_other [of ?k "(p, b, W)" s] by (simp add: consumeRateLimit_def Let_def)
      with IH False show ?thesis by (auto simp: R_consume accepted_def)
    qed
  next
    case (R_prune h)
    show ?thesis
    proof (cases "W * 1000 < clock s - max 1 (min h 720) * 3600000")
      case True
      then have "(W + w) * 1000 \<le> clock (snd (pruneRateLimits h s))" using assms(2) by simp
      from window_over [OF assms(1) _ this, of ops p b limit] Cons.prems R_prune show ?thesis by simp
    next
      case False
      from Cons.IH [of "snd (pruneRateLimits h s)"] Cons.prems R_prune count_prune [OF this, of p b] show ?thesis by simp
    qed
  next
    case (R_tick d)
    with Cons.IH [of "s\<lparr>clock := clock s + d\<rparr>"] Cons.prems show ?thesis by (simp add: request_count_def)
  qed
qed (simp add: accepted_def)

text \<open>
  A bucket never lets more than \<open>limit\<close> requests through in one window, in any
  interleaving with the requests of other buckets and projects, the passing of time and the
  pruning of old windows, as long as a window is at most an hour.
\<close>

theorem rate_limit_holds:
  assumes "0 < w" and "w \<le> 3600" and "0 \<le> limit" and "\<forall>op \<in> set ops. uniform_op p b limit w op"
    and "\<forall>(k, n) \<in> set (rate_limit_windows s). 0 \<le> n"
  shows "accepted (p, b, W) (rate_log ops s) \<le> limit"
proof -
  have "0 \<le> request_count (p, b, W) s"
    using assms(5) by (auto simp: request_count_def dest!: map_of_SomeD split: option.splits)
  with rate_bound [OF assms(1,2,4), of W s] assms(3) show ?thesis by linarith
qed

theorem rate_limit_holds_witness:
  "accepted (0, ''api'', 1699999980) (rate_log [R_consume 0 ''api'' 1 60, R_prune 24, R_consume 0 ''api'' 1 60] empty_db) \<le> 1"
  by (rule rate_limit_holds [where w = 60]) (simp_all add: uniform_op_def empty_db_def)

end
