(* ===== verification/RepoProperties.thy ===== *)
theory RepoProperties
  imports RepoWebhooks RepoProjects
begin

text \<open>
  Every writing method of packages/db/src/repository.ts as one step relation, and what holds under
  any sequence of its steps: the unique keys and the CHECK constraints of the schema, and that a
  write prepared from one reading of an execution succeeds at most once.
\<close>

section \<open>The keys and checks of the schema\<close>

text \<open>
  What \<open>repo_inv\<close> leaves out of the schema of packages/db/migrations: the other unique keys and the
  CHECK constraints of each table, with the freshness of identifiers that keeps them. Foreign keys,
  and the types of columns that the model's types enforce, are not among them.
\<close>

definition hash_owned :: "ExecutionRecord list \<Rightarrow> bool" where
  "hash_owned es \<longleftrightarrow> (\<forall>e \<in> set es. \<forall>c \<in> set es. x_txHash e \<noteq> None \<and> x_projectId e = x_projectId c \<and> x_txHash e = x_txHash c
     \<longrightarrow> x_id e = x_id c)"

definition attempts_checked :: "TransactionAttemptRecord list \<Rightarrow> bool" where
  "attempts_checked as \<longleftrightarrow> (\<forall>a \<in> set as. 0 < a_attemptNumber a \<and> payload_hash_check (a_signedPayloadHashSha256 a))"

definition revisions_ok :: "uuid \<Rightarrow> SignedPayloadRevision list \<Rightarrow> bool" where
  "revisions_ok n rs \<longleftrightarrow> unique_key r_id rs \<and> unique_key (\<lambda>r. (r_attemptId r, r_revisionNumber r)) rs
     \<and> unique_key (\<lambda>r. (r_attemptId r, r_payloadHashSha256 r)) rs
     \<and> (\<forall>r \<in> set rs. r_id r < n \<and> 0 < r_revisionNumber r \<and> is_tx_hash (r_payloadHashSha256 r))"

definition observations_ok :: "uuid \<Rightarrow> RpcObservationRow list \<Rightarrow> bool" where
  "observations_ok n rows \<longleftrightarrow> unique_key o_id rows \<and> (\<forall>r \<in> set rows. o_id r < n \<and> (\<forall>l. o_latencyMs r = Some l \<longrightarrow> 0 \<le> l))"

definition events_ok :: "StateEventRecord list \<Rightarrow> bool" where
  "events_ok vs \<longleftrightarrow> unique_key v_id vs \<and> unique_key v_sequence vs"

definition endpoints_ok :: "WebhookEndpointRecord list \<Rightarrow> bool" where
  "endpoints_ok ws \<longleftrightarrow> unique_key (\<lambda>w. (w_projectId w, w_url w)) ws"

definition exports_ok :: "db \<Rightarrow> bool" where
  "exports_ok s \<longleftrightarrow> unique_key g_id (evidence_exports s) \<and> unique_key (\<lambda>g. (g_intentRowId g, g_evidenceSha256 g)) (evidence_exports s)
     \<and> (\<forall>g \<in> set (evidence_exports s). g_id g < next_uuid s)
     \<and> unique_key q_id (project_evidence_exports s) \<and> (\<forall>q \<in> set (project_evidence_exports s). q_id q < next_uuid s)"

definition access_ok :: "db \<Rightarrow> bool" where
  "access_ok s \<longleftrightarrow> unique_key p_id (projects s) \<and> (\<forall>p \<in> set (projects s). p_id p < next_uuid s \<and> project_check p = None)
     \<and> unique_key k_id (api_keys s) \<and> unique_key k_hash (api_keys s) \<and> (\<forall>k \<in> set (api_keys s). k_scopes k \<noteq> [])
     \<and> unique_key fst (rate_limit_windows s) \<and> (\<forall>(k, n) \<in> set (rate_limit_windows s). 0 \<le> n)"

definition schema_inv :: "db \<Rightarrow> bool" where
  "schema_inv s \<longleftrightarrow> repo_inv s \<and> hash_owned (executions s) \<and> attempts_checked (transaction_attempts s)
     \<and> revisions_ok (next_uuid s) (signed_payload_revisions s) \<and> observations_ok (next_uuid s) (rpc_observations s)
     \<and> events_ok (state_events s) \<and> endpoints_ok (webhook_endpoints s) \<and> exports_ok s \<and> access_ok s"

text \<open>The part beside \<open>repo_inv\<close>, and what a step may do that does not touch its tables.\<close>

definition keys_inv :: "db \<Rightarrow> bool" where
  "keys_inv s \<longleftrightarrow> hash_owned (executions s) \<and> attempts_checked (transaction_attempts s)
     \<and> revisions_ok (next_uuid s) (signed_payload_revisions s) \<and> observations_ok (next_uuid s) (rpc_observations s)
     \<and> events_ok (state_events s) \<and> endpoints_ok (webhook_endpoints s) \<and> exports_ok s \<and> access_ok s"

lemma schema_split: "schema_inv s \<longleftrightarrow> repo_inv s \<and> keys_inv s"
  by (auto simp: schema_inv_def keys_inv_def)

lemmas keys_defs = keys_inv_def exports_ok_def access_ok_def revisions_ok_def observations_ok_def events_ok_def endpoints_ok_def

definition same_keys :: "db \<Rightarrow> db \<Rightarrow> bool" where
  "same_keys s t \<longleftrightarrow> next_uuid s \<le> next_uuid t \<and> signed_payload_revisions t = signed_payload_revisions s
     \<and> rpc_observations t = rpc_observations s \<and> evidence_exports t = evidence_exports s
     \<and> project_evidence_exports t = project_evidence_exports s \<and> projects t = projects s \<and> api_keys t = api_keys s
     \<and> rate_limit_windows t = rate_limit_windows s"

lemma keys_frame:
  assumes "keys_inv s" and "same_keys s t" and "hash_owned (executions t)" and "attempts_checked (transaction_attempts t)"
    and "events_ok (state_events t)" and "endpoints_ok (webhook_endpoints t)"
  shows "keys_inv t"
  using assms unfolding keys_inv_def same_keys_def
  by (auto simp: exports_ok_def access_ok_def revisions_ok_def observations_ok_def intro: order_less_le_trans)

lemma keys_event:
  assumes "keys_inv s" and "event_ids_fresh s"
  shows "keys_inv (snd (insertEventAndOutbox jsonb ev s))"
proof (rule keys_frame [OF assms(1)])
  let ?t = "snd (insertEventAndOutbox jsonb ev s)"
  have "state_events ?t = state_events s @ [event_row jsonb ev s]" by (simp add: insertEventAndOutbox_def Let_def)
  moreover have "v_id (event_row jsonb ev s) = next_uuid s" "v_sequence (event_row jsonb ev s) = next_sequence s"
    by (simp_all add: event_row_def)
  ultimately show "events_ok (state_events ?t)"
    using assms unfolding events_ok_def keys_inv_def event_ids_fresh_def
    by (metis less_irrefl unique_key_append)
qed (use assms(1) in \<open>auto simp: same_keys_def insertEventAndOutbox_def Let_def keys_inv_def\<close>)

lemma keys_attempts:
  assumes "keys_inv s" and "\<And>a. P a \<Longrightarrow> 0 < a_attemptNumber a \<Longrightarrow> payload_hash_check (a_signedPayloadHashSha256 a)
      \<Longrightarrow> 0 < a_attemptNumber (f a) \<and> payload_hash_check (a_signedPayloadHashSha256 (f a))"
  shows "keys_inv (update_attempts P f s)"
  by (rule keys_frame [OF assms(1)]) (use assms in \<open>auto simp: same_keys_def keys_inv_def attempts_checked_def update_attempts_def set_sql_update\<close>)

lemma keys_intent: "keys_inv s \<Longrightarrow> keys_inv (update_intent r f s)"
  by (rule keys_frame [of s]) (simp_all add: same_keys_def keys_inv_def update_intent_def)

lemma hash_owned_update:
  assumes "hash_owned es" and "\<And>e. x_id (f e) = x_id e \<and> x_projectId (f e) = x_projectId e \<and> x_txHash (f e) = x_txHash e"
  shows "hash_owned (sql_update P f es)"
  unfolding hash_owned_def
proof (intro ballI impI)
  fix e c assume "e \<in> set (sql_update P f es)" "c \<in> set (sql_update P f es)"
    and h: "x_txHash e \<noteq> None \<and> x_projectId e = x_projectId c \<and> x_txHash e = x_txHash c"
  then obtain e' c' where d: "e' \<in> set es" "c' \<in> set es" "e = (if P e' then f e' else e')" "c = (if P c' then f c' else c')"
    by (auto simp: set_sql_update)
  with h assms(2) have "x_txHash e' \<noteq> None \<and> x_projectId e' = x_projectId c' \<and> x_txHash e' = x_txHash c'" by (auto split: if_splits)
  with assms(1) d(1,2) have "x_id e' = x_id c'" unfolding hash_owned_def by blast
  with d(3,4) assms(2) show "x_id e = x_id c" by simp
qed

lemma keys_rows:
  assumes "keys_inv s" and "same_keys s t" and "executions t = sql_update P f (executions s)"
    and "\<And>e. x_id (f e) = x_id e \<and> x_projectId (f e) = x_projectId e \<and> x_txHash (f e) = x_txHash e"
    and "transaction_attempts t = transaction_attempts s" "state_events t = state_events s" "webhook_endpoints t = webhook_endpoints s"
  shows "keys_inv t"
proof (rule keys_frame [OF assms(1,2)])
  show "hash_owned (executions t)"
    unfolding assms(3) by (rule hash_owned_update [OF _ assms(4)]) (use assms(1) in \<open>simp add: keys_inv_def\<close>)
qed (use assms(1,5-7) in \<open>simp_all add: keys_inv_def\<close>)

text \<open>A write through the version: at most one row changes, and its new hash is nobody else's.\<close>

lemma keys_execution:
  assumes inv: "keys_inv s" "repo_inv s" and u: "update_execution ag f s = Inr t"
    and f: "\<And>e. x_id (f e) = x_id e \<and> x_projectId (f e) = x_projectId e"
  shows "keys_inv t"
proof (rule keys_frame [OF inv(1)])
  from u obtain e where e: "sql_first (version_match ag) (executions s) = Some e"
    and free: "\<not> tx_hash_taken s (x_projectId e) (x_id e) (x_txHash (f e))"
    and t: "t = s\<lparr>executions := sql_update (version_match ag) f (executions s)\<rparr>"
    by (auto simp: update_execution_Inr)
  have uniq: "unique_key x_id (executions s)" using inv(2) by (simp add: repo_inv_def executions_ok_def)
  have only: "c = e" if "c \<in> set (executions s)" "version_match ag c" for c
    using version_match_unique [OF uniq that] e by simp
  have mem: "e \<in> set (executions s)" using e by (auto dest: sql_first_Some)
  have h: "hash_owned (executions s)" using inv(1) by (simp add: keys_inv_def)
  have rows: "d = f e \<or> (d \<in> set (executions s) \<and> x_id d \<noteq> x_id e)" if "d \<in> set (executions t)" for d
  proof -
    from that t obtain c where c: "c \<in> set (executions s)" "d = (if version_match ag c then f c else c)"
      by (auto simp: set_sql_update)
    show ?thesis
    proof (cases "version_match ag c")
      case False
      with c have "d \<noteq> e" using e by (auto dest: sql_first_Some)
      with c False unique_key_eq [OF uniq _ mem] show ?thesis by auto
    qed (use c only in auto)
  qed
  have apart: "\<not> (x_txHash (f e) \<noteq> None \<and> x_projectId (f e) = x_projectId d \<and> x_txHash (f e) = x_txHash d)"
    if "d \<in> set (executions s)" "x_id d \<noteq> x_id e" for d
    using that free f by (auto simp: tx_hash_taken_def list_ex_iff)
  show "hash_owned (executions t)"
    unfolding hash_owned_def
  proof (intro ballI impI)
    fix d c assume d: "d \<in> set (executions t)" "c \<in> set (executions t)"
      and same: "x_txHash d \<noteq> None \<and> x_projectId d = x_projectId c \<and> x_txHash d = x_txHash c"
    from rows [OF d(1)] rows [OF d(2)] show "x_id d = x_id c"
    proof (elim disjE conjE)
      assume "d \<in> set (executions s)" "c \<in> set (executions s)"
      with h same show ?thesis unfolding hash_owned_def by blast
    qed (use same apart in force)+
  qed
qed (use inv(1) u in \<open>auto simp: update_execution_Inr same_keys_def keys_inv_def\<close>)


section \<open>Every writing method keeps them\<close>

lemma fresh_events: "schema_inv s \<Longrightarrow> event_ids_fresh s"
  by (simp add: schema_split repo_inv_def)

lemma schema_event: "schema_inv s \<Longrightarrow> schema_inv (snd (insertEventAndOutbox jsonb ev s))"
  using fresh_events by (auto simp: schema_split intro: repo_inv_event keys_event)

lemma schema_attempts:
  assumes "schema_inv s"
    and "\<And>a. P a \<Longrightarrow> a_id (f a) = a_id a \<and> a_projectId (f a) = a_projectId a \<and> a_txHash (f a) = a_txHash a
          \<and> a_intentRowId (f a) = a_intentRowId a \<and> a_attemptNumber (f a) = a_attemptNumber a
          \<and> (payload_hash_check (a_signedPayloadHashSha256 a) \<longrightarrow> payload_hash_check (a_signedPayloadHashSha256 (f a)))"
  shows "schema_inv (update_attempts P f s)"
  using assms by (auto simp: schema_split intro!: repo_inv_attempts keys_attempts)

lemma schema_intent:
  "schema_inv s \<Longrightarrow> (\<And>i. i_id (f i) = i_id i \<and> i_projectId (f i) = i_projectId i \<and> i_intentId (f i) = i_intentId i)
     \<Longrightarrow> schema_inv (update_intent r f s)"
  by (auto simp: schema_split intro!: repo_inv_intent keys_intent)

lemma schema_execution:
  "schema_inv s \<Longrightarrow> update_execution ag f s = Inr t
     \<Longrightarrow> (\<And>e. x_id (f e) = x_id e \<and> x_intentRowId (f e) = x_intentRowId e \<and> x_projectId (f e) = x_projectId e) \<Longrightarrow> schema_inv t"
  by (auto simp: schema_split intro: repo_inv_execution [of s ag f] keys_execution [of s ag f])

lemmas schema_parts = schema_event schema_attempts schema_intent

lemma schema_mark: "schema_inv s \<Longrightarrow> markSubmissionStatus jsonb input s = (r, t) \<Longrightarrow> schema_inv t"
proof -
  assume inv: "schema_inv s" and "markSubmissionStatus jsonb input s = (r, t)"
  then consider "t = s" | "mark_tx jsonb input s = Inr t" using mark_case by blast
  then show "schema_inv t"
  proof cases
    case 2
    then obtain s1 where 1: "update_execution (mk_aggregate input) (mark_projection jsonb input (clock s)) s = Inr s1"
      and t: "t = snd (insertEventAndOutbox jsonb (mark_event input (clock s))
        (case i_activeAttemptId (ag_intent (mk_aggregate input)) of None \<Rightarrow> s1
         | Some active \<Rightarrow> update_attempts (\<lambda>a. a_id a = active \<and> a_intentRowId a = i_id (ag_intent (mk_aggregate input)))
               (mark_attempt jsonb input (clock s)) s1))"
      by (auto simp: mark_tx_def Let_def sum_bind_Inr)
    have "schema_inv s1" by (rule schema_execution [OF inv 1]) simp
    then show ?thesis unfolding t by (auto simp: mark_attempt_def intro!: schema_parts split: option.splits)
  qed (use inv in simp)
qed

lemma schema_snapshot_attempts: "schema_inv s \<Longrightarrow> schema_inv (snapshot_attempts jsonb input t s)"
  by (auto simp: snapshot_attempts_def Let_def intro!: schema_attempts split: option.splits)

lemma schema_apply: "schema_inv s \<Longrightarrow> applySnapshot jsonb input s = (r, t) \<Longrightarrow> schema_inv t"
  by (auto simp: applySnapshot_def Let_def split_beta
      intro!: schema_event schema_intent schema_snapshot_attempts schema_execution [of s]
      split: sum.splits if_splits)

lemma schema_promote_attempts: "schema_inv s \<Longrightarrow> schema_inv (promote_attempts input i t s)"
  by (auto simp: promote_attempts_def Let_def intro!: schema_attempts)

lemma schema_promote: "schema_inv s \<Longrightarrow> promoteAttemptProjection jsonb input s = (r, t) \<Longrightarrow> schema_inv t"
  by (auto simp: promoteAttemptProjection_def Let_def
      intro!: schema_event schema_intent schema_promote_attempts schema_execution [of s]
      split: sum.splits option.splits if_splits)

lemma keys_attach_attempt:
  assumes inv: "keys_inv s" and r: "attach_attempt input ex s = Inr (i, n, t)"
  shows "keys_inv t"
proof (cases ex)
  case (Some a)
  with r inv show ?thesis
    by (auto simp: attach_attempt_def Let_def intro!: keys_attempts split: if_splits option.splits)
next
  case None
  define s1 where "s1 = (if i_activeAttemptId (ag_intent (at_aggregate input)) \<noteq> None \<and> at_kind input \<noteq> AK_RBF_REPLACEMENT
      then update_attempts (\<lambda>r. Some (a_id r) = i_activeAttemptId (ag_intent (at_aggregate input))
               \<and> a_intentRowId r = i_id (ag_intent (at_aggregate input)))
             (\<lambda>r. r\<lparr>a_disposition := priorAttemptDisposition (ag_execution (at_aggregate input)), a_updatedAt := clock s\<rparr>) s
      else s)"
  have inv1: "keys_inv s1" using inv by (auto simp: s1_def intro!: keys_attempts)
  from r None obtain row where t: "t = s1\<lparr>transaction_attempts := transaction_attempts s1 @ [row], next_uuid := Suc (next_uuid s1)\<rparr>"
    and row: "0 < a_attemptNumber row" "payload_hash_check (a_signedPayloadHashSha256 row)"
    by (auto simp: attach_attempt_def Let_def s1_def split: if_splits)
  show ?thesis
    by (rule keys_frame [OF inv1]) (use inv1 row in \<open>auto simp: t same_keys_def keys_inv_def attempts_checked_def\<close>)
qed

lemma keys_attach_revision:
  assumes inv: "keys_inv s" and r: "attach_revision input i s = Inr t"
  shows "keys_inv t"
proof -
  define h where "h = toLowerCase (the (at_signedPayloadHash input))"
  define mine where "mine = filter (\<lambda>r. r_attemptId r = i) (signed_payload_revisions s)"
  have ok: "revisions_ok (next_uuid s) (signed_payload_revisions s)" using inv by (simp add: keys_inv_def)
  from r consider "t = s" | k where "t = s\<lparr>signed_payload_revisions := signed_payload_revisions s @
          [\<lparr>r_id = next_uuid s, r_projectId = i_projectId (ag_intent (at_aggregate input)),
            r_intentRowId = i_id (ag_intent (at_aggregate input)), r_attemptId = i,
            r_revisionNumber = Suc (max_number (map r_revisionNumber mine)), r_payloadHashSha256 = h, r_kind = k\<rparr>],
          next_uuid := Suc (next_uuid s)\<rparr>" "\<not> list_ex (\<lambda>r. r_payloadHashSha256 r = h) mine" "is_tx_hash h"
    by (auto simp: attach_revision_def Let_def h_def mine_def split: if_splits)
  then show ?thesis
  proof cases
    case (2 k)
    have num: "r_revisionNumber r \<noteq> Suc (max_number (map r_revisionNumber mine))"
      if "r \<in> set (signed_payload_revisions s)" "r_attemptId r = i" for r
    proof -
      have "r_revisionNumber r \<le> max_number (map r_revisionNumber mine)"
        using that by (intro max_number_le) (auto simp: mine_def)
      then show ?thesis by simp
    qed
    have "revisions_ok (next_uuid t) (signed_payload_revisions t)"
      using ok 2(2,3) num unfolding revisions_ok_def 2(1)
      by (auto simp: mine_def list_ex_iff less_Suc_eq intro!: unique_key_append)
    with inv show ?thesis
      unfolding keys_inv_def 2(1)
      by (auto simp: exports_ok_def access_ok_def observations_ok_def less_Suc_eq)
  qed (use inv in simp)
qed

lemma schema_attach: "schema_inv s \<Longrightarrow> attachTransaction jsonb input s = (r, t) \<Longrightarrow> schema_inv t"
proof -
  assume inv: "schema_inv s" and "attachTransaction jsonb input s = (r, t)"
  then consider "t = s" | "attach_tx jsonb input s = Inr t" using attach_case by blast
  then show "schema_inv t"
  proof cases
    case 2
    let ?ex = "sql_first (\<lambda>a. a_projectId a = i_projectId (ag_intent (at_aggregate input)) \<and> a_txHash a = at_txHash input)
             (transaction_attempts s)"
    from 2 obtain i n s1 s2 s3 where 1: "attach_attempt input ?ex s = Inr (i, n, s1)" and r: "attach_revision input i s1 = Inr s2"
      and 3: "update_execution (at_aggregate input) (attach_projection input (clock s)) s2 = Inr s3"
      and t: "t = snd (insertEventAndOutbox jsonb (attach_event input i n (clock s))
           (update_intent (i_id (ag_intent (at_aggregate input)))
             (\<lambda>x. x\<lparr>i_activeAttemptId := Some i,
                   i_winningAttemptId := (if at_sameHash input then i_winningAttemptId (ag_intent (at_aggregate input)) else None),
                   i_updatedAt := clock s\<rparr>) s3))"
      by (auto simp: attach_tx_def Let_def sum_bind_Inr split: option.splits)
    have k: "repo_inv s" "keys_inv s" using inv by (simp_all add: schema_split)
    have "repo_inv s1" by (rule attach_attempt_inv [OF k(1) 1]) simp
    moreover from this have "repo_inv s2" by (rule attach_revision_inv [OF _ r])
    moreover have "keys_inv s2" by (rule keys_attach_revision [OF keys_attach_attempt [OF k(2) 1] r])
    ultimately have "schema_inv s2" by (simp add: schema_split)
    then have "schema_inv s3" by (rule schema_execution [OF _ 3]) simp
    then show ?thesis unfolding t by (intro schema_event schema_intent) simp_all
  qed (use inv in simp)
qed

lemma hash_owned_append:
  assumes "hash_owned es" and "\<And>e. e \<in> set es \<Longrightarrow> \<not> (x_txHash row \<noteq> None \<and> x_projectId row = x_projectId e \<and> x_txHash row = x_txHash e)"
    and "executions u = es @ [row]"
  shows "hash_owned (executions u)"
  unfolding hash_owned_def assms(3)
proof (intro ballI impI)
  fix d c assume d: "d \<in> set (es @ [row])" "c \<in> set (es @ [row])"
    and h: "x_txHash d \<noteq> None \<and> x_projectId d = x_projectId c \<and> x_txHash d = x_txHash c"
  from d consider "d \<in> set es" "c \<in> set es" | "d = row" "c = row" | "d = row" "c \<in> set es" | "d \<in> set es" "c = row" by auto
  then show "x_id d = x_id c"
  proof cases
    case 1
    with assms(1) h show ?thesis unfolding hash_owned_def by blast
  next
    case 3
    with assms(2) [of c] h show ?thesis by auto
  next
    case 4
    with assms(2) [of d] h show ?thesis by auto
  qed simp
qed

lemma keys_insert:
  assumes inv: "schema_inv s" and r: "insert_intent jsonb input s = Inr t"
  shows "keys_inv t"
proof -
  from r obtain row intent ev where t: "t = snd (insertEventAndOutbox jsonb ev (s\<lparr>intents := intents s @ [intent],
        executions := executions s @ [row], next_uuid := Suc (Suc (next_uuid s))\<rparr>))"
    and free: "\<not> tx_hash_taken s (x_projectId row) (x_id row) (x_txHash row)" and id: "x_id row = Suc (next_uuid s)"
    by (auto simp: insert_intent_def Let_def initial_execution_def split: option.splits if_splits)
  let ?u = "s\<lparr>intents := intents s @ [intent], executions := executions s @ [row], next_uuid := Suc (Suc (next_uuid s))\<rparr>"
  have k: "keys_inv s" and f: "event_ids_fresh s" using inv fresh_events by (auto simp: schema_split)
  have apart: "\<not> (x_txHash row \<noteq> None \<and> x_projectId row = x_projectId e \<and> x_txHash row = x_txHash e)" if "e \<in> set (executions s)" for e
    using that free inv id by (fastforce simp: tx_hash_taken_def list_ex_iff schema_split repo_inv_def executions_ok_def)
  have "hash_owned (executions s)" using k by (simp add: keys_inv_def)
  then have "hash_owned (executions ?u)" by (rule hash_owned_append [where row = row, OF _ apart]) simp_all
  then have "keys_inv ?u"
    by (intro keys_frame [OF k]) (use k in \<open>auto simp: same_keys_def keys_inv_def\<close>)
  moreover have "event_ids_fresh ?u" using f by (auto simp: event_ids_fresh_def less_SucI)
  ultimately show ?thesis unfolding t by (rule keys_event)
qed

lemma schema_create: "schema_inv s \<Longrightarrow> createIntent jsonb input s = (r, t) \<Longrightarrow> schema_inv t"
proof -
  assume inv: "schema_inv s" and r: "createIntent jsonb input s = (r, t)"
  then have "t = s \<or> insert_intent jsonb input s = Inr t"
    by (cases "insert_intent jsonb input s") (auto simp: createIntent_def Let_def split: option.splits if_splits)
  then have "keys_inv t" using inv keys_insert [OF inv] by (auto simp: schema_split)
  with create_inv [OF _ r] inv show "schema_inv t" by (auto simp: schema_split)
qed

lemma schema_note: "schema_inv s \<Longrightarrow> addOperatorNote jsonb ag what s = (r, t) \<Longrightarrow> schema_inv t"
proof -
  assume inv: "schema_inv s" and r: "addOperatorNote jsonb ag what s = (r, t)"
  define u where "u = update_intent (i_id (ag_intent ag)) (\<lambda>i. i\<lparr>i_updatedAt := clock s\<rparr>)
    (snd (insertEventAndOutbox jsonb (aggregate_event ag ''OPERATOR_NOTE''
        (Some (overall_name (deriveOverallStatus (snapshotFromExecution (ag_execution ag)))))
        (overall_name (deriveOverallStatus (snapshotFromExecution (ag_execution ag))))
        (Some what) None (clock s) (snapshotFromExecution (ag_execution ag))) s))"
  have "schema_inv u" unfolding u_def by (intro schema_intent schema_event inv) simp
  moreover from r have t: "t = u\<lparr>executions := sql_update (\<lambda>e. x_id e = x_id (ag_execution ag)) (\<lambda>e. e\<lparr>x_updatedAt := clock s\<rparr>) (executions u)\<rparr>"
    by (simp add: addOperatorNote_def Let_def u_def)
  ultimately have "keys_inv t"
    by (intro keys_rows [of u t _ "\<lambda>e. e\<lparr>x_updatedAt := clock s\<rparr>"]) (auto simp: schema_split same_keys_def)
  with note_inv [OF _ r] inv show "schema_inv t" by (auto simp: schema_split)
qed

lemma schema_observation: "schema_inv s \<Longrightarrow> schema_inv (recordRpcObservation jsonb input s)"
proof -
  assume inv: "schema_inv s"
  let ?t = "recordRpcObservation jsonb input s"
  have "observations_ok (next_uuid ?t) (rpc_observations ?t)"
    using inv by (auto simp: recordRpcObservation_def Let_def schema_inv_def observations_ok_def less_Suc_eq intro!: unique_key_append)
  moreover from inv have "keys_inv s" by (simp add: schema_split)
  ultimately have "keys_inv ?t"
    unfolding keys_inv_def by (auto simp: recordRpcObservation_def Let_def exports_ok_def access_ok_def revisions_ok_def less_Suc_eq)
  with inv observation_inv show ?thesis by (auto simp: schema_split)
qed

lemma schema_call: "repo_call jsonb s t \<Longrightarrow> schema_inv s \<Longrightarrow> schema_inv t"
proof (erule repo_callE)
  show "schema_inv t" if "schema_inv s" "t = updateCandidateAttempt jsonb ag i sn ct cd s" for ag i sn ct cd
    using that by (auto simp: updateCandidateAttempt_def intro!: schema_attempts)
  show "schema_inv t" if "schema_inv s" "appendEvent jsonb ag k f to' why raw s = (re, t)" for ag k f to' why raw re
    using that by (auto simp: appendEvent_def Let_def split_beta intro!: schema_event)
  show "schema_inv t" if "schema_inv s" "t = s\<lparr>clock := now', clock_micros := us\<rparr>" for now' us
    using that clock_inv by (auto simp: schema_split keys_defs)
qed (auto intro: schema_create schema_attach schema_mark schema_apply schema_promote schema_note schema_observation)

lemma keys_update_run: "(\<And>e. x_id (f e) = x_id e \<and> x_projectId (f e) = x_projectId e \<and> x_txHash (f e) = x_txHash e)
    \<Longrightarrow> keys_inv s \<Longrightarrow> keys_inv (s\<lparr>executions := sql_update P f (executions s)\<rparr>)"
  by (rule keys_rows [of s _ P f]) (auto simp: same_keys_def)

lemma schema_reconcile: "reconcile_step jsonb w s t \<Longrightarrow> schema_inv s \<Longrightarrow> schema_inv t"
proof -
  assume st: "reconcile_step jsonb w s t" and inv: "schema_inv s"
  then have k: "keys_inv s" by (simp add: schema_split)
  have "keys_inv t" using st
  proof cases
    case 4
    with inv schema_call show ?thesis by (auto simp: schema_split)
  next
    case 5
    from claim_run [OF this] k show ?thesis by (simp add: update_run_def keys_update_run)
  qed (use k in \<open>auto simp: claimDueExecutions_def Let_def lease_executions_def renewReconcileLease_def releaseReconcileLease_def
      run_updates update_run_def intro!: keys_update_run\<close>)
  with reconcile_step_inv [OF st] inv show "schema_inv t" by (simp add: schema_split)
qed

lemma keys_deliveries: "keys_inv s \<Longrightarrow> keys_inv (update_deliveries P f s)"
  by (rule keys_frame [of s]) (simp_all add: same_keys_def keys_inv_def update_deliveries_def)

lemma keys_endpoint: "keys_inv s \<Longrightarrow> createWebhookEndpoint p url secret s = (wr, t) \<Longrightarrow> keys_inv t"
proof -
  assume k: "keys_inv s" and r: "createWebhookEndpoint p url secret s = (wr, t)"
  have "endpoints_ok (webhook_endpoints t)"
    using r k by (auto simp: createWebhookEndpoint_def Let_def keys_inv_def endpoints_ok_def sql_first_None
        intro!: unique_key_update unique_key_append split: option.splits)
  then show "keys_inv t"
    by (intro keys_frame [OF k])
      (use r k in \<open>auto simp: createWebhookEndpoint_def Let_def same_keys_def keys_inv_def split: option.splits\<close>)
qed

lemma schema_delivery: "delivery_step jsonb w s t \<Longrightarrow> schema_inv s \<Longrightarrow> schema_inv t"
proof -
  assume st: "delivery_step jsonb w s t" and inv: "schema_inv s"
  then have k: "keys_inv s" and i: "repo_inv s" by (simp_all add: schema_split)
  have "keys_inv t" using st
  proof cases
    case (7 ev p ty pl n)
    then show ?thesis
      by (intro keys_frame [OF k]) (use k in \<open>auto simp: enqueueWebhookDeliveries_def Let_def same_keys_def keys_inv_def\<close>)
  next
    case 8
    with keys_endpoint [OF k] show ?thesis by blast
  next
    case 9
    then show ?thesis
      by (intro keys_frame [OF k])
        (use k in \<open>auto simp: disableWebhookEndpoint_def Let_def same_keys_def keys_inv_def endpoints_ok_def intro!: unique_key_update\<close>)
  next
    case 10
    with inv schema_call show ?thesis by (auto simp: schema_split)
  qed (use k in \<open>auto simp: delivery_ops intro!: keys_deliveries split: option.splits\<close>)
  moreover have "repo_inv t" using st
  proof cases
    case 7
    with enqueue_inv [OF i] show ?thesis by blast
  next
    case 8
    with endpoint_inv(1) [OF i] show ?thesis by blast
  next
    case 9
    with endpoint_inv(2) [OF i] show ?thesis by blast
  next
    case 10
    with repo_call_inv i show ?thesis by blast
  qed (use i in \<open>auto simp: delivery_ops intro!: repo_inv_deliveries\<close>)
  ultimately show "schema_inv t" by (simp add: schema_split)
qed

text \<open>The tables of access control and of exports are not among those of \<open>repo_inv\<close>.\<close>

lemma repo_inv_frame:
  assumes "repo_inv s" and "executions t = executions s" "transaction_attempts t = transaction_attempts s" "intents t = intents s"
    and "webhook_endpoints t = webhook_endpoints s" "webhook_deliveries t = webhook_deliveries s" "state_events t = state_events s"
    and "next_sequence t = next_sequence s" "next_uuid s \<le> next_uuid t"
  shows "repo_inv t"
  using assms by (auto simp: repo_inv_def executions_ok_def attempts_ok_def intents_ok_def deliveries_ok_def event_ids_fresh_def
      intro: order_less_le_trans)

lemma schema_exports:
  "schema_inv s \<Longrightarrow> recordEvidenceExport jsonb p i sha ver k doc s = (g, t) \<Longrightarrow> schema_inv t"
  "schema_inv s \<Longrightarrow> recordProjectEvidenceExport jsonb p sha doc s = (x, t) \<Longrightarrow> schema_inv t"
proof -
  assume inv: "schema_inv s"
  then have k: "keys_inv s" and i: "repo_inv s" and x: "exports_ok s" by (simp_all add: schema_split keys_inv_def)
  show "recordEvidenceExport jsonb p i sha ver k doc s = (g, t) \<Longrightarrow> schema_inv t" for p i k
  proof -
    assume r: "recordEvidenceExport jsonb p i sha ver k doc s = (g, t)"
    have "\<forall>g \<in> set (evidence_exports s). g_id g \<noteq> next_uuid s" using x by (auto simp: exports_ok_def)
    then have "exports_ok t"
      using r x by (auto simp: recordEvidenceExport_def Let_def exports_ok_def sql_first_None set_sql_update less_Suc_eq
          intro!: unique_key_update unique_key_append split: option.splits)
    moreover have "keys_inv t = (exports_ok t \<and> access_ok t \<and> revisions_ok (next_uuid t) (signed_payload_revisions t)
        \<and> observations_ok (next_uuid t) (rpc_observations t))"
      using r k by (auto simp: recordEvidenceExport_def Let_def keys_inv_def split: option.splits)
    moreover have "access_ok t \<and> revisions_ok (next_uuid t) (signed_payload_revisions t) \<and> observations_ok (next_uuid t) (rpc_observations t)"
      using r k by (auto simp: recordEvidenceExport_def Let_def keys_inv_def access_ok_def revisions_ok_def observations_ok_def less_Suc_eq
          split: option.splits)
    moreover have "repo_inv t"
      by (rule repo_inv_frame [OF \<open>repo_inv s\<close>]) (use r in \<open>auto simp: recordEvidenceExport_def Let_def split: option.splits\<close>)
    ultimately show "schema_inv t" by (simp add: schema_split)
  qed
  show "recordProjectEvidenceExport jsonb p sha doc s = (x, t) \<Longrightarrow> schema_inv t" for p
  proof -
    assume "recordProjectEvidenceExport jsonb p sha doc s = (x, t)"
    then have t: "t = snd (recordProjectEvidenceExport jsonb p sha doc s)" by simp
    have "keys_inv t" using k x
      by (auto simp: t recordProjectEvidenceExport_def keys_inv_def exports_ok_def access_ok_def revisions_ok_def observations_ok_def
          less_Suc_eq intro!: unique_key_append)
    moreover have "repo_inv t"
      by (rule repo_inv_frame [OF \<open>repo_inv s\<close>]) (simp_all add: t recordProjectEvidenceExport_def)
    ultimately show "schema_inv t" by (simp add: schema_split)
  qed
qed

lemma schema_access:
  assumes inv: "schema_inv s" and ok: "access_ok t" and n: "next_uuid s \<le> next_uuid t"
    and same: "t = s\<lparr>projects := ps, api_keys := ks, rate_limit_windows := ws, next_uuid := n\<rparr>"
  shows "schema_inv t"
proof -
  have "keys_inv t"
    using inv ok n unfolding schema_split keys_inv_def same
    by (auto simp: exports_ok_def revisions_ok_def observations_ok_def intro: order_less_le_trans)
  moreover have "repo_inv t" by (rule repo_inv_frame [of s]) (use inv n in \<open>auto simp: schema_split same\<close>)
  ultimately show ?thesis by (simp add: schema_split)
qed

lemma insert_key_access: "insert_key k s = Inr t \<Longrightarrow> access_ok s \<Longrightarrow> access_ok t \<and> t = s\<lparr>api_keys := api_keys s @ [k]\<rparr>"
  by (auto simp: insert_key_def access_ok_def list_ex_iff intro!: unique_key_append split: if_splits)

lemma insert_project_schema: "schema_inv s \<Longrightarrow> insert_project input s = Inr (p, t) \<Longrightarrow> schema_inv t"
proof -
  assume inv: "schema_inv s" and r: "insert_project input s = Inr (p, t)"
  let ?row = "project_row input (next_uuid s) (clock s)"
  let ?u = "s\<lparr>projects := projects s @ [?row], next_uuid := Suc (next_uuid s)\<rparr>"
  from r have c: "project_check ?row = None"
    and k: "insert_key (first_key input (p_id ?row) (clock s)) ?u = Inr t"
    by (auto simp: insert_project_def Let_def sum_bind_Inr split: option.splits)
  have "access_ok ?u"
    using inv c by (auto simp: schema_inv_def access_ok_def project_row_def less_Suc_eq intro!: unique_key_append)
  from insert_key_access [OF k this] show "schema_inv t"
    by (intro schema_access [OF inv, where ps = "projects t" and ks = "api_keys t" and ws = "rate_limit_windows t" and n = "next_uuid t"]) auto
qed

lemma fst_upsert: "unique_key fst rows \<Longrightarrow> unique_key fst (upsert_window k rows)"
proof -
  have "map fst (map (\<lambda>(k', n). (k', if k' = k then n + 1 else n)) rows) = map fst rows" by auto
  then show "unique_key fst rows \<Longrightarrow> unique_key fst (upsert_window k rows)"
    by (auto simp: upsert_window_def unique_key_def simp del: map_map)
qed

lemma upsert_nonneg: "\<forall>(k, n) \<in> set rows. 0 \<le> n \<Longrightarrow> \<forall>(k, n) \<in> set (upsert_window k' rows). 0 \<le> n"
  unfolding upsert_window_def by (fastforce split: if_splits)

lemma schema_keys:
  "schema_inv s \<Longrightarrow> createProject cp s = (rp, t) \<Longrightarrow> schema_inv t"
  "schema_inv s \<Longrightarrow> createInitialProject cp s = (ri, t) \<Longrightarrow> schema_inv t"
  "schema_inv s \<Longrightarrow> createApiKey p i pre hash label scopes expiresAt s = (ru, t) \<Longrightarrow> schema_inv t"
  "schema_inv s \<Longrightarrow> revokeApiKey p i s = (rr, t) \<Longrightarrow> schema_inv t"
  "schema_inv s \<Longrightarrow> findAuthByApiKeyHash hash s = (ra, t) \<Longrightarrow> schema_inv t"
  "schema_inv s \<Longrightarrow> consumeRateLimit p bucket limit window s = (b, t) \<Longrightarrow> schema_inv t"
  "schema_inv s \<Longrightarrow> pruneRateLimits hours s = (m, t) \<Longrightarrow> schema_inv t"
proof -
  assume inv: "schema_inv s"
  then have a: "access_ok s" by (simp add: schema_inv_def)
  have keep: "schema_inv t" if "access_ok t" "t = s\<lparr>api_keys := ks, rate_limit_windows := ws\<rparr>" for ks ws t
    by (rule schema_access [OF inv that(1), where ps = "projects s" and n = "next_uuid s"]) (simp_all add: that(2))
  show "createProject cp s = (rp, t) \<Longrightarrow> schema_inv t"
    using inv insert_project_schema by (auto simp: createProject_def split: sum.splits)
  show "createInitialProject cp s = (ri, t) \<Longrightarrow> schema_inv t"
    using inv insert_project_schema by (auto simp: createInitialProject_def split: sum.splits if_splits)
  show "createApiKey p i pre hash label scopes expiresAt s = (ru, t) \<Longrightarrow> schema_inv t"
    using inv insert_key_access [OF _ a] keep [where ws = "rate_limit_windows s"]
    by (auto simp: createApiKey_def split: sum.splits if_splits)
  show "revokeApiKey p i s = (rr, t) \<Longrightarrow> schema_inv t"
    using inv a by (auto simp: revokeApiKey_def access_ok_def set_sql_update
        intro!: keep [where ws = "rate_limit_windows s"] unique_key_update split: if_splits option.splits)
  show "findAuthByApiKeyHash hash s = (ra, t) \<Longrightarrow> schema_inv t"
    using inv a by (auto simp: findAuthByApiKeyHash_def access_ok_def set_sql_update
        intro!: keep [where ws = "rate_limit_windows s"] unique_key_update split: option.splits)
  show "consumeRateLimit p bucket limit window s = (b, t) \<Longrightarrow> schema_inv t"
  proof -
    let ?ws = "upsert_window (p, bucket, window_start (clock s) window) (rate_limit_windows s)"
    assume "consumeRateLimit p bucket limit window s = (b, t)"
    then have t: "t = s\<lparr>rate_limit_windows := ?ws\<rparr>" by (auto simp: consumeRateLimit_def Let_def)
    have "\<forall>(k, n) \<in> set ?ws. 0 \<le> n" by (rule upsert_nonneg) (use a in \<open>simp add: access_ok_def\<close>)
    with a fst_upsert have "access_ok t" by (simp add: t access_ok_def)
    then show "schema_inv t" by (rule keep [where ks = "api_keys s" and ws = ?ws]) (simp add: t)
  qed
  show "pruneRateLimits hours s = (m, t) \<Longrightarrow> schema_inv t"
    using a by (auto simp: pruneRateLimits_def Let_def access_ok_def unique_key_def distinct_map_filter
        intro!: keep [where ks = "api_keys s"])
qed


section \<open>Every call of the repository\<close>

text \<open>
  A call of any writing method of the repository, by any process, with any arguments and whatever
  its outcome; the passing of time, and an identifier drawn by a caller, are steps too. Two methods
  have a precondition that their callers meet: a delivery is enqueued for an event that exists, and
  a worker completes a delivery under its own name.
\<close>

inductive store_step :: "(json \<Rightarrow> json) \<Rightarrow> db \<Rightarrow> db \<Rightarrow> bool" for jsonb where
  "reconcile_step jsonb w s t \<Longrightarrow> store_step jsonb s t"
| "delivery_step jsonb w s t \<Longrightarrow> store_step jsonb s t"
| "recordEvidenceExport jsonb p i sha ver k doc s = (g, t) \<Longrightarrow> store_step jsonb s t"
| "recordProjectEvidenceExport jsonb p sha doc s = (x, t) \<Longrightarrow> store_step jsonb s t"
| "createProject cp s = (rp, t) \<Longrightarrow> store_step jsonb s t"
| "createInitialProject cp s = (ri, t) \<Longrightarrow> store_step jsonb s t"
| "createApiKey p i pre hash label scopes expiresAt s = (ru, t) \<Longrightarrow> store_step jsonb s t"
| "revokeApiKey p i s = (rr, t) \<Longrightarrow> store_step jsonb s t"
| "findAuthByApiKeyHash hash s = (ra, t) \<Longrightarrow> store_step jsonb s t"
| "consumeRateLimit p bucket limit window s = (b, t) \<Longrightarrow> store_step jsonb s t"
| "pruneRateLimits hours s = (m, t) \<Longrightarrow> store_step jsonb s t"
| "store_step jsonb s (s\<lparr>next_uuid := Suc (next_uuid s)\<rparr>)"

inductive_cases store_stepE: "store_step jsonb s t"

lemma schema_empty: "schema_inv empty_db"
proof -
  have "keys_inv empty_db" by (simp add: keys_defs hash_owned_def attempts_checked_def empty_db_def unique_key_def)
  then show ?thesis by (simp add: schema_split repo_inv_empty)
qed

lemma schema_fresh: "schema_inv s \<Longrightarrow> schema_inv (s\<lparr>next_uuid := Suc (next_uuid s)\<rparr>)"
  by (rule schema_access [where ps = "projects s" and ks = "api_keys s" and ws = "rate_limit_windows s" and n = "Suc (next_uuid s)"])
    (auto simp: schema_inv_def access_ok_def)

lemma schema_step: "store_step jsonb s t \<Longrightarrow> schema_inv s \<Longrightarrow> schema_inv t"
  by (erule store_stepE) (blast intro: schema_reconcile schema_delivery schema_exports schema_keys schema_fresh)+

text \<open>
  Property C20: starting from the empty database, after any sequence of calls of the repository's
  writing methods, by any processes and with any arguments, every unique key of the modelled tables
  holds (projects, API keys by id and hash, rate windows, intents by id and by name, executions by id,
  by intent and, where they have a transaction, by its hash within the project, attempts by id, hash
  and number, payload revisions by id, number and hash, observations, events by id and by sequence
  number, endpoints by id and by URL, deliveries by id and by endpoint and event, exports), and so does
  every CHECK that the types of the columns do not already enforce.
\<close>

theorem repo_invariant:
  assumes "(store_step jsonb)\<^sup>*\<^sup>* empty_db s"
  shows "schema_inv s"
  using assms by (induction rule: rtranclp_induct) (auto intro: schema_empty schema_step)

definition keyed_project :: CreateProjectInput where
  "keyed_project = \<lparr>cp_name = ''demo'', cp_network = Testnet, cp_rpcUrl = None, cp_rpcGenesisHash = None,
     cp_confirmationPolicy = Depth 4, cp_apiKeyId = 90, cp_apiKeyPrefix = ''cf_live_'', cp_apiKeyHash = ''h''\<rparr>"

theorem repo_invariant_witness:
  "\<exists>s. schema_inv s \<and> projects s \<noteq> [] \<and> api_keys s \<noteq> [] \<and> webhook_endpoints s \<noteq> [] \<and> state_events s \<noteq> []
     \<and> executions s \<noteq> [] \<and> webhook_deliveries s \<noteq> []"
proof -
  define s1 where "s1 = snd (createProject keyed_project empty_db)"
  define s2 where "s2 = snd (createWebhookEndpoint 0 ''https://example.org'' ''x'' s1)"
  define s3 where "s3 = snd (createIntent id sample_create s2)"
  have "store_step id empty_db s1" unfolding s1_def by (rule store_step.intros(5) [OF prod.collapse [symmetric]])
  moreover have "store_step id s1 s2"
    unfolding s2_def by (rule store_step.intros(2) [OF delivery_step.intros(8) [where w = 0, OF prod.collapse [symmetric]]])
  moreover have "store_step id s2 s3"
    unfolding s3_def
    by (rule store_step.intros(1) [OF reconcile_step.intros(4) [where w = 0, OF repo_call.intros(1) [OF prod.collapse [symmetric]]]])
  ultimately have "(store_step id)\<^sup>*\<^sup>* empty_db s3" by (blast intro: converse_rtranclp_into_rtranclp)
  then have inv: "schema_inv s3" by (rule repo_invariant)
  have 1: "s1 = empty_db\<lparr>projects := [project_row keyed_project 1 (clock empty_db)],
      api_keys := [first_key keyed_project 1 (clock empty_db)], next_uuid := 2\<rparr>"
    by (simp add: s1_def createProject_def insert_project_def insert_key_def Let_def keyed_project_def project_check_def
        project_row_def first_key_def empty_db_def sum_bind_def)
  have 2: "webhook_endpoints s2 = [\<lparr>w_id = 2, w_projectId = 0, w_url = ''https://example.org'', w_signingSecretEncrypted = ''x'',
      w_secretVersion = 1, w_enabled = True, w_createdAt = clock empty_db, w_updatedAt = clock empty_db\<rparr>]"
    "projects s2 = projects s1" "api_keys s2 = api_keys s1" "intents s2 = []" "executions s2 = []" "webhook_deliveries s2 = []"
    by (simp_all add: s2_def 1 createWebhookEndpoint_def Let_def empty_db_def)
  obtain t where t: "insert_intent id sample_create s2 = Inr t" and s3: "s3 = t"
    using 2(5) by (auto simp: s3_def createIntent_def Let_def 2(4) insert_intent_def sample_create_def sample_project_def
        initial_execution_def execution_check_def conflict_type_allowed_def tx_hash_taken_def split: option.splits)
  have "projects t \<noteq> [] \<and> api_keys t \<noteq> [] \<and> webhook_endpoints t \<noteq> [] \<and> state_events t \<noteq> [] \<and> executions t \<noteq> []
      \<and> webhook_deliveries t \<noteq> []"
    using t 1 2 by (auto simp: insert_intent_def Let_def insertEventAndOutbox_def new_deliveries_def sample_create_def sample_project_def
        split: option.splits if_splits)
  with inv s3 show ?thesis by blast
qed


section \<open>No lost update\<close>

lemma store_grows: "store_step jsonb s t \<Longrightarrow> version_grows s t"
proof (erule store_stepE)
  show "version_grows s t" if "reconcile_step jsonb w s t" for w
    using that by (rule reconcile_step_grows)
  show "version_grows s t" if "delivery_step jsonb w s t" for w
    using that
  proof (cases rule: delivery_step.cases)
    case 10
    then show ?thesis by (rule repo_call_grows)
  qed (auto simp: delivery_ops update_deliveries_def enqueueWebhookDeliveries_def createWebhookEndpoint_def disableWebhookEndpoint_def
      version_grows_def split: option.splits)
qed (auto simp: recordEvidenceExport_def recordProjectEvidenceExport_def createProject_def createInitialProject_def
      insert_project_def insert_key_def createApiKey_def revokeApiKey_def findAuthByApiKeyHash_def consumeRateLimit_def pruneRateLimits_def
      version_grows_def Let_def sum_bind_Inr split: option.splits sum.splits if_splits)

lemma steps_grow: "(store_step jsonb)\<^sup>*\<^sup>* s t \<Longrightarrow> version_grows s t"
  by (induction rule: rtranclp_induct) (auto intro: version_grows_trans store_grows)

text \<open>
  Property C21: when a write prepared from one reading of an execution has succeeded, no write
  prepared from the same reading (or an older one) ever succeeds again, whatever calls of the
  repository other processes make in between, the leases and workflow runs of the execution
  included: updates are never lost or applied twice.
\<close>

theorem no_lost_update:
  assumes "repo_inv s" and "write_succeeds jsonb w s t" and "(store_step jsonb)\<^sup>*\<^sup>* t u"
    and "x_id (ag_execution (write_target w')) = x_id (ag_execution (write_target w))"
    and "x_version (ag_execution (write_target w')) \<le> x_version (ag_execution (write_target w))"
  shows "\<not> write_succeeds jsonb w' u v"
  by (rule write_once [OF assms(1,2) steps_grow [OF assms(3)] assms(4,5)])

theorem no_lost_update_witness:
  "\<exists>t u. write_succeeds id (W_mark (sample_mark SS_PREPARED)) sample_db t \<and> claimWorkflowStart 0 ''order-1'' 51 t = (Some 51, u)
     \<and> (\<forall>v. \<not> write_succeeds id (W_mark (sample_mark SS_BROADCASTING)) u v)"
proof -
  obtain r t where m: "markSubmissionStatus id (sample_mark SS_PREPARED) sample_db = (Inr r, t)"
    using sample_mark_ok by blast
  then have w: "write_succeeds id (W_mark (sample_mark SS_PREPARED)) sample_db t"
    by (auto simp: write_succeeds_def)
  from m have "fst (claimWorkflowStart 0 ''order-1'' 51 t) = Some 51"
    by (auto simp: markSubmissionStatus_def mark_tx_def Let_def sample_mark_def sample_defs update_execution_def version_match_def
        execution_check_def conflict_type_allowed_def mark_projection_def mk_nextConflictType_def tx_hash_taken_def
        insertEventAndOutbox_def claimWorkflowStart_def intent_execution_def run_claimable_def split: option.splits)
  then obtain u where u: "claimWorkflowStart 0 ''order-1'' 51 t = (Some 51, u)" by (metis prod.collapse)
  have "(store_step id)\<^sup>*\<^sup>* t u"
    by (intro r_into_rtranclp store_step.intros(1) [where w = 0, OF reconcile_step.intros(5) [OF u]])
  then have "\<not> write_succeeds id (W_mark (sample_mark SS_BROADCASTING)) u v" for v
    by (rule no_lost_update [OF sample_db_inv w]) (simp_all add: write_target_def sample_mark_def)
  with w u show ?thesis by blast
qed

end
