(* ===== verification/RepoSafety.thy ===== *)
theory RepoSafety
  imports RepoProperties
begin

text \<open>
  Settlement is recorded exactly when it holds and a confirmation elects one winner; then the safety
  of attaching attempts, idempotent creation, keyset pagination, and two theorems about
  the schema: a signed-payload mismatch can never be stored, and a repeated preparation of the
  same transaction is refused as soon as jsonb does not keep the order of object keys.
\<close>

section \<open>Settlement\<close>

lemma apply_success:
  assumes "applySnapshot jsonb input s = (Inr r, t)"
  obtains s1 where "update_execution (si_aggregate input) (snapshot_projection jsonb input (clock s)) s = Inr s1"
    and "executions t = executions s1"
    and "transaction_attempts t = transaction_attempts (snapshot_attempts jsonb input (clock s) s1)"
    and "intents t = intents (update_intent (i_id (ag_intent (si_aggregate input)))
           (\<lambda>i. i\<lparr>i_updatedAt := clock s, i_winningAttemptId :=
              (if dispositionForSnapshot (si_snapshot input) = AD_CONFIRMED
               then i_activeAttemptId (ag_intent (si_aggregate input))
               else i_winningAttemptId (ag_intent (si_aggregate input)))\<rparr>) s1)"
  using assms
  by (auto simp: applySnapshot_def Let_def split_beta sum_cases3 split: if_splits)

lemma updated_row:
  assumes u: "unique_key x_id (executions s)" and r: "update_execution ag f s = Inr t"
    and f: "\<And>e. x_id (f e) = x_id e" and e: "e \<in> set (executions t)" "x_id e = x_id (ag_execution ag)"
  shows "\<exists>c \<in> set (executions s). version_match ag c \<and> e = f c"
proof -
  from update_execution_rows [OF r] obtain c where t: "executions t = sql_update (version_match ag) f (executions s)"
    and c: "c \<in> set (executions s)" "version_match ag c" by blast
  from e t obtain d where d: "d \<in> set (executions s)" "e = (if version_match ag d then f d else d)"
    by (auto simp: set_sql_update)
  then have "x_id d = x_id c" using e f c(2) by (auto simp: version_match_def split: if_splits)
  then have "d = c" using unique_key_eq [OF u d(1) c(1)] by simp
  with c d show ?thesis by auto
qed

lemma apply_runs:
  assumes "update_execution (si_aggregate input) (snapshot_projection jsonb input (clock s)) s = Inr s1"
  shows "\<exists>r t. applySnapshot jsonb input s = (Inr r, t) \<and> executions t = executions s1"
  using assms by (simp add: applySnapshot_def Let_def split_beta)

lemma snapshot_projection_sel [simp]:
  "x_workflowStatus (snapshot_projection jsonb input t e) = sn_workflowStatus (si_snapshot input)"
  "x_chainStatus (snapshot_projection jsonb input t e) = sn_chainStatus (si_snapshot input)"
  "x_submissionStatus (snapshot_projection jsonb input t e) = sn_submissionStatus (si_snapshot input)"
  "x_confirmationCount (snapshot_projection jsonb input t e) = sn_confirmationCount (si_snapshot input)"
  "x_committedBlockHash (snapshot_projection jsonb input t e) = sn_committedBlockHash (si_snapshot input)"
  "x_committedBlockNumber (snapshot_projection jsonb input t e) = sn_committedBlockNumber (si_snapshot input)"
  "x_assertionStatus (snapshot_projection jsonb input t e) = si_nextAssertion input"
  "x_conflictType (snapshot_projection jsonb input t e) = si_nextConflictType input"
  "x_settlementReadyAt (snapshot_projection jsonb input t e) = si_settlementReadyAt input"
  "x_confirmationPolicy (snapshot_projection jsonb input t e) = x_confirmationPolicy e"
  "x_txHash (snapshot_projection jsonb input t e) = x_txHash e"
  "x_submissionErrorType (snapshot_projection jsonb input t e) = x_submissionErrorType e"
  by (simp_all add: snapshot_projection_def Let_def)

lemma settlement_from_execution:
  "isSettlementReady (snapshotFromExecution e) a n ct \<longleftrightarrow> x_workflowStatus e = WS_CONFIRMED \<and> x_chainStatus e = CS_COMMITTED
     \<and> truthy (x_committedBlockHash e) \<and> truthy (x_committedBlockNumber e)
     \<and> isConfirmationSatisfied (x_confirmationPolicy e) (x_chainStatus e) (x_confirmationCount e) \<and> ct = None
     \<and> \<bar>n\<bar> \<le> MAX_SAFE_INTEGER \<and> 0 \<le> n \<and> (n = 0 \<or> a = Some ''VERIFIED'')"
  by (simp add: isSettlementReady_def snapshotFromExecution_def)

text \<open>
  After a snapshot has been applied, the execution row carries a settlement time
  exactly when the row itself, with its assertion and conflict columns, is ready for settlement
  under the project's policy; a time already recorded for a settled row is not moved.
\<close>

theorem settlement_time_exact:
  assumes "repo_inv s" and "applySnapshot jsonb input s = (Inr r, t)"
    and "e \<in> set (executions t)" and "x_id e = x_id (ag_execution (si_aggregate input))"
    and "sn_confirmationPolicy (si_snapshot input) = x_confirmationPolicy e"
  shows "(x_settlementReadyAt e \<noteq> None \<longleftrightarrow>
       isSettlementReady (snapshotFromExecution e) (x_assertionStatus e) (si_required input) (x_conflictType e))
    \<and> (si_priorReady input \<and> x_settlementReadyAt e \<noteq> None
        \<longrightarrow> x_settlementReadyAt e = x_settlementReadyAt (ag_execution (si_aggregate input)))"
proof -
  have u: "unique_key x_id (executions s)" using assms(1) by (simp add: repo_inv_def executions_ok_def)
  obtain s1 where 1: "update_execution (si_aggregate input) (snapshot_projection jsonb input (clock s)) s = Inr s1"
    and x: "executions t = executions s1" using assms(2) by (rule apply_success)
  obtain c where e: "e = snapshot_projection jsonb input (clock s) c"
    using updated_row [OF u 1 _ assms(3) [unfolded x] assms(4)] by auto
  have p: "x_confirmationPolicy c = sn_confirmationPolicy (si_snapshot input)"
    using assms(5) unfolding e by simp
  have "isSettlementReady (snapshotFromExecution e) (x_assertionStatus e) (si_required input) (x_conflictType e)
      = si_nextReady input"
    unfolding e settlement_from_execution by (simp add: si_nextReady_def isSettlementReady_def p)
  moreover have "x_settlementReadyAt e = si_settlementReadyAt input"
    unfolding e by simp
  ultimately show ?thesis by (auto simp: si_settlementReadyAt_def si_priorReady_def Let_def)
qed

definition sample_apply :: SnapshotInput where
  "sample_apply = \<lparr>si_aggregate = sample_aggregate,
     si_snapshot = sample_committed\<lparr>sn_submissionStatus := SS_NOT_SUBMITTED\<rparr>, si_kind = ''CONFIRMED'',
     si_fromStatus = Some ''CREATED'', si_toStatus = ''CONFIRMED'', si_reason = None, si_rawObservation = Some JNull,
     si_occurredAt = 1700000000000, si_nextReconcileAt = None, si_assertionStatus = None, si_assertionResult = None,
     si_conflictType = None, si_conflictDetails = None\<rparr>"

lemma sample_apply_sel [simp]:
  "si_aggregate sample_apply = sample_aggregate" "si_occurredAt sample_apply = 1700000000000"
  "si_snapshot sample_apply = sample_committed\<lparr>sn_submissionStatus := SS_NOT_SUBMITTED\<rparr>"
  "si_nextAssertion sample_apply = x_assertionStatus sample_row" "si_nextConflictType sample_apply = x_conflictType sample_row"
  by (simp_all add: sample_apply_def si_nextAssertion_def si_nextConflictType_def sample_aggregate_def)

lemma sample_apply_ok: "\<exists>r t. applySnapshot id sample_apply sample_db = (Inr r, t)
    \<and> executions t = [snapshot_projection id sample_apply (clock sample_db) sample_row]"
proof -
  have "update_execution (si_aggregate sample_apply) (snapshot_projection id sample_apply (clock sample_db)) sample_db
      = Inr (sample_db\<lparr>executions := [snapshot_projection id sample_apply (clock sample_db) sample_row]\<rparr>)"
    by (simp add: update_execution_def sample_defs version_match_def
        execution_check_def conflict_type_allowed_def tx_hash_taken_def sample_committed_def)
  from apply_runs [OF this] show ?thesis by simp
qed

theorem settlement_time_exact_witness:
  "\<exists>r t e. applySnapshot id sample_apply sample_db = (Inr r, t) \<and> e \<in> set (executions t)
     \<and> isSettlementReady (snapshotFromExecution e) (x_assertionStatus e) (si_required sample_apply) (x_conflictType e)
     \<and> x_settlementReadyAt e \<noteq> None"
proof -
  let ?e = "snapshot_projection id sample_apply (clock sample_db) sample_row"
  obtain r t where a: "applySnapshot id sample_apply sample_db = (Inr r, t)" and t: "executions t = [?e]"
    using sample_apply_ok by blast
  have ids: "?e \<in> set (executions t)" "x_id ?e = x_id (ag_execution (si_aggregate sample_apply))"
    "sn_confirmationPolicy (si_snapshot sample_apply) = x_confirmationPolicy ?e"
    unfolding t by (simp_all add: sample_defs sample_committed_def)
  have ready: "isSettlementReady (snapshotFromExecution ?e) (x_assertionStatus ?e) (si_required sample_apply) (x_conflictType ?e)"
    by (simp add: settlement_from_execution sample_committed_def sample_defs
        si_required_def isConfirmationSatisfied_def MAX_SAFE_INTEGER_def)
  with settlement_time_exact [OF sample_db_inv a ids] a ids(1) show ?thesis by blast
qed

text \<open>
  Applying a snapshot appends an event exactly when the projection changed in a
  way that matters or settlement began or ended, and a second one, of kind
  \<open>SETTLEMENT_READY\<close> or \<open>SETTLEMENT_REVOKED\<close>, exactly when settlement began or ended.
\<close>

theorem settlement_event_exact:
  assumes "applySnapshot jsonb input s = (Inr r, t)"
  shows "\<exists>new. state_events t = state_events s @ new
    \<and> length new = (if si_priorReady input \<noteq> si_nextReady input then 2 else if si_meaningful input then 1 else 0)
    \<and> (r = None \<longleftrightarrow> new = []) \<and> (new \<noteq> [] \<longrightarrow> r = Some (v_id (hd new)) \<and> v_kind (hd new) = si_kind input)
    \<and> (si_priorReady input \<noteq> si_nextReady input \<longrightarrow>
        v_kind (last new) = (if si_nextReady input then ''SETTLEMENT_READY'' else ''SETTLEMENT_REVOKED''))"
proof -
  have k: "v_kind (event_row jsonb ev u) = ei_kind ev" "v_id (event_row jsonb ev u) = fst (insertEventAndOutbox jsonb ev u)" for ev u
    by (simp_all add: event_row_def insertEventAndOutbox_def Let_def)
  have kinds: "ei_kind (snapshot_event input) = si_kind input"
    "ei_kind (settlement_event input) = (if si_nextReady input then ''SETTLEMENT_READY'' else ''SETTLEMENT_REVOKED'')"
    by (simp_all add: snapshot_event_def settlement_event_def aggregate_event_def)
  have e: "state_events s1 = state_events s" if "update_execution ag f s = Inr s1" for ag f s1
    using that by (auto simp: update_execution_Inr)
  show ?thesis
    using assms
    by (auto simp: applySnapshot_def Let_def split_beta sum_cases3 k kinds e split: if_splits)
qed

theorem settlement_event_exact_witness:
  "\<exists>r t new. applySnapshot id sample_apply sample_db = (Inr r, t) \<and> state_events t = state_events sample_db @ new
     \<and> length new = 2 \<and> v_kind (last new) = ''SETTLEMENT_READY''"
proof -
  obtain r t where a: "applySnapshot id sample_apply sample_db = (Inr r, t)" using sample_apply_ok by blast
  have "\<not> si_priorReady sample_apply" by (simp add: si_priorReady_def sample_defs)
  moreover have "si_nextReady sample_apply"
    by (simp add: si_nextReady_def isSettlementReady_def sample_committed_def sample_defs si_required_def
        isConfirmationSatisfied_def MAX_SAFE_INTEGER_def)
  ultimately show ?thesis using settlement_event_exact [OF a] a by auto
qed


section \<open>One winner\<close>

text \<open>
  When a confirmed snapshot is applied, the active attempt becomes the intent's
  winner and is marked confirmed, and no other attempt of the intent stays active.
\<close>

theorem confirmation_elects_winner:
  assumes "applySnapshot jsonb input s = (Inr r, t)" and "sn_workflowStatus (si_snapshot input) = WS_CONFIRMED"
    and "i_activeAttemptId (ag_intent (si_aggregate input)) = Some active"
  shows "(\<forall>i \<in> set (intents t). i_id i = i_id (ag_intent (si_aggregate input)) \<longrightarrow> i_winningAttemptId i = Some active)
    \<and> (\<forall>a \<in> set (transaction_attempts t). a_intentRowId a = i_id (ag_intent (si_aggregate input)) \<longrightarrow>
         (if a_id a = active then a_disposition a = AD_CONFIRMED else a_disposition a \<noteq> AD_ACTIVE))"
proof -
  have d: "dispositionForSnapshot (si_snapshot input) = AD_CONFIRMED"
    using assms(2) by (simp add: dispositionForSnapshot_def)
  obtain s1 where a: "transaction_attempts t = transaction_attempts (snapshot_attempts jsonb input (clock s) s1)"
    and i: "intents t = intents (update_intent (i_id (ag_intent (si_aggregate input)))
           (\<lambda>i. i\<lparr>i_updatedAt := clock s, i_winningAttemptId :=
              (if dispositionForSnapshot (si_snapshot input) = AD_CONFIRMED
               then i_activeAttemptId (ag_intent (si_aggregate input))
               else i_winningAttemptId (ag_intent (si_aggregate input)))\<rparr>) s1)"
    using assms(1) by (rule apply_success)
  show ?thesis
    unfolding a i using d assms(3)
    by (auto simp: snapshot_attempts_def Let_def set_sql_update)
qed

definition sample_attempt :: "uuid \<Rightarrow> string \<Rightarrow> TransactionAttemptRecord" where
  "sample_attempt n h = \<lparr>a_id = n, a_projectId = 0, a_intentRowId = 1, a_attemptNumber = n, a_txHash = h,
     a_signedPayloadHashSha256 = None, a_parentAttemptId = None, a_attemptKind = AK_INITIAL, a_disposition = AD_ACTIVE,
     a_inputOutPoints = [\<lparr>op_txHash = ''0xAA'', op_index = 1\<rparr>], a_inputRefs = [], a_submissionStatus = SS_SUBMITTED,
     a_chainStatus = CS_UNOBSERVED, a_workflowStatus = WS_IDLE, a_submissionErrorCode = None,
     a_submissionErrorType = None, a_submissionErrorDetails = JNull, a_conflictType = None, a_conflictDetails = JNull,
     a_createdAt = 0, a_updatedAt = 0\<rparr>"

definition two_attempts_aggregate :: IntentAggregate where
  "two_attempts_aggregate = \<lparr>ag_intent = sample_intent\<lparr>i_activeAttemptId := Some 1\<rparr>,
     ag_execution = sample_row\<lparr>x_txHash := Some ''0x01'', x_submissionStatus := SS_SUBMITTED\<rparr>,
     ag_attempts = [sample_attempt 1 ''0x01'', sample_attempt 2 ''0x02''],
     ag_activeAttempt = Some (sample_attempt 1 ''0x01''), ag_winningAttempt = None\<rparr>"

definition two_attempts_db :: db where
  "two_attempts_db = sample_db\<lparr>transaction_attempts := [sample_attempt 1 ''0x01'', sample_attempt 2 ''0x02''],
     intents := [ag_intent two_attempts_aggregate], executions := [ag_execution two_attempts_aggregate]\<rparr>"

lemma two_attempts_apply: "\<exists>r t. applySnapshot id (sample_apply\<lparr>si_aggregate := two_attempts_aggregate\<rparr>) two_attempts_db = (Inr r, t)"
proof -
  let ?i = "sample_apply\<lparr>si_aggregate := two_attempts_aggregate\<rparr>"
  have "\<exists>u. update_execution (si_aggregate ?i) (snapshot_projection id ?i (clock two_attempts_db)) two_attempts_db = Inr u"
    by (simp add: update_execution_def two_attempts_db_def two_attempts_aggregate_def sample_defs version_match_def
        execution_check_def conflict_type_allowed_def tx_hash_taken_def sample_committed_def si_nextConflictType_def sample_apply_def)
  then show ?thesis using apply_runs by blast
qed

theorem confirmation_elects_winner_witness:
  "\<exists>r t. applySnapshot id (sample_apply\<lparr>si_aggregate := two_attempts_aggregate\<rparr>) two_attempts_db = (Inr r, t)
     \<and> (\<forall>a \<in> set (transaction_attempts t). a_intentRowId a = 1 \<and> a_id a = 2 \<longrightarrow> a_disposition a \<noteq> AD_ACTIVE)"
proof -
  obtain r t where a: "applySnapshot id (sample_apply\<lparr>si_aggregate := two_attempts_aggregate\<rparr>) two_attempts_db = (Inr r, t)"
    using two_attempts_apply by blast
  have c: "sn_workflowStatus (si_snapshot (sample_apply\<lparr>si_aggregate := two_attempts_aggregate\<rparr>)) = WS_CONFIRMED"
    and i: "i_activeAttemptId (ag_intent (si_aggregate (sample_apply\<lparr>si_aggregate := two_attempts_aggregate\<rparr>))) = Some 1"
    and row: "i_id (ag_intent (si_aggregate (sample_apply\<lparr>si_aggregate := two_attempts_aggregate\<rparr>))) = 1"
    by (simp_all add: sample_apply_def sample_committed_def two_attempts_aggregate_def sample_intent_def)
  from confirmation_elects_winner [OF a c i] a show ?thesis unfolding row by force
qed


section \<open>Replacing an attempt\<close>

lemma int_string_no_colon: "CHR '':'' \<notin> set (int_string i)"
proof -
  have "CHR '':'' \<notin> set (nat_string n)" for n
    using radix_digits [of n] by (auto simp: nat_string_def list_all_iff is_digit_def)
  then show ?thesis by (simp add: int_string_def)
qed

lemma append_colon_inj:
  assumes "a @ CHR '':'' # b = c @ CHR '':'' # d" and "CHR '':'' \<notin> set b" and "CHR '':'' \<notin> set d"
  shows "a = c \<and> b = d"
proof -
  have r: "rev b @ CHR '':'' # rev a = rev d @ CHR '':'' # rev c" using arg_cong [OF assms(1), of rev] by simp
  have tb: "takeWhile (\<lambda>x. x \<noteq> CHR '':'') (rev b @ CHR '':'' # rev a) = rev b"
    "takeWhile (\<lambda>x. x \<noteq> CHR '':'') (rev d @ CHR '':'' # rev c) = rev d"
    using assms(2,3) by (auto simp: takeWhile_append2 intro!: takeWhile_append2 [THEN trans])
  then have "rev b = rev d" unfolding r by simp
  with r show ?thesis by simp
qed

lemma input_key_eq:
  "input_key p = input_key q \<longleftrightarrow> toLowerCase (op_txHash p) = toLowerCase (op_txHash q) \<and> op_index p = op_index q"
proof
  assume "input_key p = input_key q"
  then have "toLowerCase (op_txHash p) @ CHR '':'' # int_string (op_index p)
      = toLowerCase (op_txHash q) @ CHR '':'' # int_string (op_index q)" by (simp add: input_key_def)
  from append_colon_inj [OF this int_string_no_colon int_string_no_colon] int_string_prefix [of "op_index p" "[]" "op_index q" "[]"]
  show "toLowerCase (op_txHash p) = toLowerCase (op_txHash q) \<and> op_index p = op_index q" by simp
qed (simp add: input_key_def)

text \<open>Two transactions spend a common input: the same OutPoint, up to the case of the hash.\<close>

definition shares_input :: "OutPointRef list \<Rightarrow> OutPointRef list \<Rightarrow> bool" where
  "shares_input ps qs \<longleftrightarrow> (\<exists>p \<in> set ps. \<exists>q \<in> set qs. toLowerCase (op_txHash p) = toLowerCase (op_txHash q) \<and> op_index p = op_index q)"

text \<open>
  Property C22: a transaction that replaces another one of the intent is only attached when the
  current one is neither committed nor confirmed; and when the current one may still be live, it
  must be a fee replacement that spends an input of the active attempt, so that both can never
  commit.
\<close>

theorem replacement_is_safe:
  assumes "attachTransaction jsonb input s = (Inr ag, t)"
    and "truthy (x_txHash (ag_execution (at_aggregate input)))"
    and "x_txHash (ag_execution (at_aggregate input)) \<noteq> Some (at_txHash input)"
  shows "x_chainStatus (ag_execution (at_aggregate input)) \<noteq> CS_COMMITTED
    \<and> x_workflowStatus (ag_execution (at_aggregate input)) \<noteq> WS_CONFIRMED
    \<and> (potentiallyLive (ag_execution (at_aggregate input)) \<longrightarrow> at_kind input = AK_RBF_REPLACEMENT
        \<and> (\<exists>parent. ag_activeAttempt (at_aggregate input) = Some parent
            \<and> shares_input (persistedInputs input) (a_inputOutPoints parent)))"
proof -
  have g: "attach_guard input = None" using assms(1) by (auto simp: attachTransaction_def split: option.splits)
  have shared: "shares_input ps qs" if "list_ex (\<lambda>item. input_key item \<in> set (map input_key qs)) ps" for ps qs
    using that by (auto simp: list_ex_iff shares_input_def input_key_eq) blast
  show ?thesis
    using g assms(2,3)
    by (auto simp: attach_guard_def Let_def at_sameHash_def at_currentHash_def currentFinalized_def
        split: if_splits option.splits intro!: shared)
qed

definition sample_rbf :: AttachInput where
  "sample_rbf = \<lparr>at_aggregate = two_attempts_aggregate, at_txHash = ''0x03'', at_signedPayloadHash = None,
     at_allowRevision = False, at_submissionStatus = SS_PREPARED,
     at_inputOutPoints = [\<lparr>op_txHash = ''0xAA'', op_index = 1\<rparr>], at_inputRefs = [],
     at_attemptKind = Some AK_RBF_REPLACEMENT, at_parentAttemptId = None, at_nextReconcileAt = None,
     at_fromStatus = ''SUBMITTED'', at_toStatus = ''PREPARED'', at_reason = ''fee bump''\<rparr>"

lemma sample_rbf_ok: "\<exists>ag t. attachTransaction id sample_rbf two_attempts_db = (Inr ag, t)"
proof -
  have g: "attach_guard sample_rbf = None"
    by (simp add: attach_guard_def Let_def at_sameHash_def at_currentHash_def at_kind_def sample_rbf_def
        two_attempts_aggregate_def currentFinalized_def sample_defs sample_attempt_def persistedInputs_def)
  show ?thesis
    by (simp add: attachTransaction_def g)
      (simp add: attach_tx_def Let_def sample_rbf_def two_attempts_db_def two_attempts_aggregate_def sample_defs
        sample_attempt_def attach_conflict_def attach_attempt_def at_kind_def payload_hash_check_def attach_revision_def
        update_execution_def version_match_def attach_projection_def at_sameHash_def at_currentHash_def
        execution_check_def conflict_type_allowed_def tx_hash_taken_def getIntent_def max_number_def)
qed

theorem replacement_is_safe_witness:
  "\<exists>ag t. attachTransaction id sample_rbf two_attempts_db = (Inr ag, t)
     \<and> shares_input (persistedInputs sample_rbf) (a_inputOutPoints (sample_attempt 1 ''0x01''))"
proof -
  obtain ag t where a: "attachTransaction id sample_rbf two_attempts_db = (Inr ag, t)" using sample_rbf_ok by blast
  from replacement_is_safe [OF a] a show ?thesis
    by (auto simp: sample_rbf_def two_attempts_aggregate_def potentiallyLive_def)
qed


section \<open>Creating twice\<close>

text \<open>
  Creating an intent is idempotent: once it exists, a second call with the same
  project and identifier, whatever its other arguments, writes nothing and returns the stored
  intent, marked as not created.
\<close>

theorem create_idempotent:
  assumes "createIntent jsonb input s = (Inr (ag, created), t)"
    and "p_id (ci_project input') = p_id (ci_project input)" and "ci_intentId input' = ci_intentId input"
  shows "createIntent jsonb input' t = (Inr (ag, False), t)"
proof -
  have g: "getIntent (p_id (ci_project input)) (ci_intentId input) t = Some ag"
    using assms(1) by (auto simp: createIntent_def Let_def split: sum.splits option.splits if_splits)
  then obtain i where "sql_first (\<lambda>i. i_projectId i = p_id (ci_project input) \<and> i_intentId i = ci_intentId input) (intents t) = Some i"
    by (auto simp: getIntent_def split: option.splits)
  from sql_first_Some [OF this] have "list_ex (\<lambda>i. i_projectId i = p_id (ci_project input) \<and> i_intentId i = ci_intentId input) (intents t)"
    by (auto simp: list_ex_iff)
  with g assms(2,3) show ?thesis by (simp add: createIntent_def)
qed

lemma sample_create_ok: "\<exists>ag t. createIntent id sample_create empty_db = (Inr (ag, True), t)"
  by (simp add: createIntent_def insert_intent_def Let_def sample_create_def sample_project_def empty_db_def
      initial_execution_def execution_check_def conflict_type_allowed_def tx_hash_taken_def getIntent_def)

theorem create_idempotent_witness:
  "\<exists>ag t. createIntent id sample_create empty_db = (Inr (ag, True), t)
     \<and> createIntent id (sample_create\<lparr>ci_txHash := Some ''0x05''\<rparr>) t = (Inr (ag, False), t)"
proof -
  obtain ag t where a: "createIntent id sample_create empty_db = (Inr (ag, True), t)" using sample_create_ok by blast
  from create_idempotent [OF a, of "sample_create\<lparr>ci_txHash := Some ''0x05''\<rparr>"] a show ?thesis by auto
qed


section \<open>The schema against the code\<close>

text \<open>
  A snapshot with the conflict type \<open>SIGNED_PAYLOAD_MISMATCH\<close> is never stored: the
  CHECK constraint of migration 005 refuses the row, so the call always throws and changes
  nothing, whatever the aggregate and the state.
\<close>

theorem payload_mismatch_never_stored:
  "\<exists>e. applySnapshot jsonb (input\<lparr>si_conflictType := Some (Some CT_SIGNED_PAYLOAD_MISMATCH)\<rparr>) s = (Inl e, s)
     \<and> (e = OptimisticConcurrencyError \<or> e = ConstraintViolation ''executions_conflict_type_check'')"
proof -
  let ?i = "input\<lparr>si_conflictType := Some (Some CT_SIGNED_PAYLOAD_MISMATCH)\<rparr>"
  have "execution_check (snapshot_projection jsonb ?i (clock s) e) = Some ''executions_conflict_type_check''" for e
    by (simp add: execution_check_def conflict_type_allowed_def si_nextConflictType_def)
  then have "update_execution (si_aggregate ?i) (snapshot_projection jsonb ?i (clock s)) s
      \<in> {Inl OptimisticConcurrencyError, Inl (ConstraintViolation ''executions_conflict_type_check'')}"
    by (auto simp: update_execution_def split: option.splits)
  then show ?thesis
    by (auto simp: applySnapshot_def Let_def)
qed

text \<open>
  What PostgreSQL documents of jsonb: the order of object keys is not preserved. For an
  OutPoint this means that the stored object may list \<open>index\<close> before \<open>txHash\<close>.
\<close>

definition reorders_outPoints :: "(json \<Rightarrow> json) \<Rightarrow> bool" where
  "reorders_outPoints jsonb \<longleftrightarrow> (\<forall>ps. jsonb (JArr (map outPoint_json ps))
     = JArr (map (\<lambda>p. JObj [(''index'', JNum (op_index p)), (''txHash'', JStr (op_txHash p))]) ps))"

lemma stored_text_id: "stored_text id outPoint_json xs = fresh_text outPoint_json ys \<longleftrightarrow> xs = ys"
proof -
  have "inj outPoint_json" by (auto simp: inj_def outPoint_json_inj)
  then show ?thesis
    by (simp add: stored_text_def fresh_text_def json_stringify_inj inj_map_eq_map del: json_stringify.simps)
qed

text \<open>
  The check that a repeated preparation carries the same inputs compares two
  serialisations. If jsonb lists the keys of an OutPoint in its own order, preparing the very
  transaction that is stored again, with its own inputs, is refused as a conflict.
\<close>

theorem reprepare_refused:
  assumes "reorders_outPoints jsonb"
    and "sql_first (\<lambda>a. a_projectId a = i_projectId (ag_intent (at_aggregate input)) \<and> a_txHash a = at_txHash input)
      (transaction_attempts s) = Some a"
    and "a_intentRowId a = i_id (ag_intent (at_aggregate input))"
    and "at_inputOutPoints input = a_inputOutPoints a" and "a_inputOutPoints a \<noteq> []"
    and "x_txHash (ag_execution (at_aggregate input)) = Some (at_txHash input)"
  shows "attachTransaction jsonb input s = (Inl (PlainError ''ATTEMPT_INPUT_CONFLICT''), s)"
proof -
  have p: "persistedInputs input = a_inputOutPoints a" using assms(4,5) by (simp add: persistedInputs_def)
  obtain q qs where q: "a_inputOutPoints a = q # qs" using assms(5) by (cases "a_inputOutPoints a") auto
  have "stored_text jsonb outPoint_json (a_inputOutPoints a) \<noteq> fresh_text outPoint_json (a_inputOutPoints a)"
  proof -
    have "jsonb (JArr (map outPoint_json (q # qs)))
        = JArr (map (\<lambda>p. JObj [(''index'', JNum (op_index p)), (''txHash'', JStr (op_txHash p))]) (q # qs))"
      using assms(1) unfolding reorders_outPoints_def by blast
    then show ?thesis
      unfolding stored_text_def fresh_text_def json_stringify_inj q by (simp add: outPoint_json_def)
  qed
  then have "attach_conflict jsonb input (Some a) = Some ''ATTEMPT_INPUT_CONFLICT''"
    using assms(3,5) by (simp add: attach_conflict_def p)
  moreover have "attach_guard input = None"
    using assms(6) by (simp add: attach_guard_def Let_def at_sameHash_def at_currentHash_def)
  ultimately show ?thesis
    by (simp add: attachTransaction_def attach_tx_def Let_def assms(2))
qed

text \<open>An instance: objects with their keys in order of length, as PostgreSQL stores them.\<close>

fun pg_jsonb :: "json \<Rightarrow> json" where
  "pg_jsonb (JArr xs) = JArr (map pg_jsonb xs)"
| "pg_jsonb (JObj fs) = JObj (sort_key (\<lambda>(k, v). length k) (map (\<lambda>(k, v). (k, pg_jsonb v)) fs))"
| "pg_jsonb v = v"

lemma pg_jsonb_reorders: "reorders_outPoints pg_jsonb"
  by (simp add: reorders_outPoints_def outPoint_json_def)

definition sample_reprepare :: AttachInput where
  "sample_reprepare = sample_rbf\<lparr>at_txHash := ''0x01'', at_attemptKind := None,
     at_inputOutPoints := a_inputOutPoints (sample_attempt 1 ''0x01'')\<rparr>"

theorem reprepare_refused_witness:
  "attachTransaction pg_jsonb sample_reprepare two_attempts_db = (Inl (PlainError ''ATTEMPT_INPUT_CONFLICT''), two_attempts_db)"
  by (rule reprepare_refused [OF pg_jsonb_reorders, of _ _ "sample_attempt 1 ''0x01''"])
    (simp_all add: sample_reprepare_def sample_rbf_def two_attempts_db_def two_attempts_aggregate_def sample_attempt_def
      sample_defs)


section \<open>Pages cover the list\<close>

lemma take_cursor:
  fixes key :: "'a \<Rightarrow> 'k :: linorder"
  assumes "sorted_wrt (\<lambda>x y. key y < key x) rows" and "n < length rows" and "0 < n"
  shows "filter (\<lambda>x. key x < key (last (take n rows))) rows = drop n rows"
proof -
  define c where "c = key (last (take n rows))"
  have l: "last (take n rows) = rows ! (n - 1)" using assms(2,3) by (subst last_conv_nth) auto
  have sp: "rows = take n rows @ drop n rows" by simp
  have d: "\<forall>x \<in> set (drop n rows). key x < c"
    using assms unfolding c_def l by (auto simp: in_set_conv_nth sorted_wrt_iff_nth_less)
  have t: "\<forall>x \<in> set (take n rows). \<not> key x < c"
  proof
    fix x assume "x \<in> set (take n rows)"
    then obtain i where i: "i < n" "x = rows ! i" using assms(2) by (auto simp: in_set_conv_nth)
    show "\<not> key x < c"
    proof (cases "i = n - 1")
      case False
      then have "c < key x" using assms i unfolding c_def l by (auto simp: sorted_wrt_iff_nth_less)
      then show ?thesis by simp
    qed (simp add: i(2) c_def l)
  qed
  have "filter (\<lambda>x. key x < c) (take n rows @ drop n rows) = drop n rows"
    using d t unfolding filter_append by (simp add: filter_id_conv filter_empty_conv)
  then show ?thesis by (simp add: c_def)
qed

definition row_ms :: "IntentRecord \<times> ExecutionRecord \<Rightarrow> timestamp" where
  "row_ms r = i_createdAt (fst r)"

text \<open>
  The client's loop: pages until there is no cursor, at most as many as the fuel allows.
\<close>

fun all_pages :: "nat \<Rightarrow> uuid \<Rightarrow> int \<Rightarrow> IntentListCursor option \<Rightarrow> db \<Rightarrow> IntentAggregate list" where
  "all_pages 0 projectId limit cursor s = []"
| "all_pages (Suc fuel) projectId limit cursor s =
    (let page = listIntentsPage projectId limit cursor s in
     pg_items page @ (case pg_nextCursor page of None \<Rightarrow> [] | Some c \<Rightarrow> all_pages fuel projectId limit (Some c) s))"

definition row_item :: "IntentRecord \<times> ExecutionRecord \<Rightarrow> IntentAggregate" where
  "row_item r = \<lparr>ag_intent = mapIntent (fst r), ag_execution = mapExecution (snd r), ag_attempts = [],
     ag_activeAttempt = None, ag_winningAttempt = None\<rparr>"

definition after_cursor :: "IntentListCursor option \<Rightarrow> (IntentRecord \<times> ExecutionRecord) list \<Rightarrow> (IntentRecord \<times> ExecutionRecord) list" where
  "after_cursor cursor rows = (case cursor of None \<Rightarrow> rows | Some c \<Rightarrow> filter (\<lambda>r. before_cursor c (fst r)) rows)"

definition row_cursor :: "IntentRecord \<times> ExecutionRecord \<Rightarrow> IntentListCursor" where
  "row_cursor r = \<lparr>cu_createdAt = row_ms r, cu_id = i_id (fst r)\<rparr>"

lemma page_unfold:
  "listIntentsPage projectId limit cursor s =
    (let rows = after_cursor cursor (project_rows projectId s); n = page_size limit in
     \<lparr>pg_items = map row_item (take n rows),
      pg_nextCursor = (if n < length rows then Some (row_cursor (last (take n rows))) else None)\<rparr>)"
proof -
  have k: "0 < page_size limit" by (simp add: page_size_def)
  have f: "filter (\<lambda>(i, e). case cursor of None \<Rightarrow> True | Some c \<Rightarrow> before_cursor c i) (project_rows projectId s)
      = after_cursor cursor (project_rows projectId s)"
    by (cases cursor) (auto simp: after_cursor_def intro!: filter_cong)
  have i: "(\<lambda>(i, e). \<lparr>ag_intent = mapIntent i, ag_execution = mapExecution e, ag_attempts = [], ag_activeAttempt = None,
      ag_winningAttempt = None\<rparr>) = row_item"
    by (auto simp: row_item_def)
  show ?thesis
    unfolding listIntentsPage_def f i Let_def using k
    by (auto simp: min_def last_map row_item_def row_cursor_def row_ms_def mapIntent_def not_less less_Suc_eq_le)
qed

lemma cursor_after_row:
  assumes s: "sorted_wrt (\<lambda>x y. row_ms y < row_ms x) rows" and "0 < m" and "m < length rows"
  shows "after_cursor (Some (row_cursor (last (take m rows)))) rows = drop m rows"
proof -
  let ?l = "last (take m rows)"
  have l: "?l \<in> set rows" using assms(2,3) by (metis in_set_takeD last_in_set length_0_conv length_take less_nat_zero_code
        min_less_iff_conj not_gr_zero)
  have "before_cursor (row_cursor ?l) (fst x) \<longleftrightarrow> row_ms x < row_ms ?l" if x: "x \<in> set rows" for x
  proof -
    have "x = ?l" if "row_ms x = row_ms ?l"
      using s l x that by (auto simp: in_set_conv_nth sorted_wrt_iff_nth_less) (metis linorder_neqE_nat order_less_irrefl)
    then show ?thesis by (auto simp: before_cursor_def row_cursor_def row_ms_def)
  qed
  then have "after_cursor (Some (row_cursor ?l)) rows = filter (\<lambda>x. row_ms x < row_ms ?l) rows"
    by (auto simp: after_cursor_def intro: filter_cong)
  also have "\<dots> = drop m rows" by (rule take_cursor [OF s assms(3,2)])
  finally show ?thesis .
qed

lemma all_pages_rows:
  assumes s: "sorted_wrt (\<lambda>x y. row_ms y < row_ms x) (project_rows projectId s)"
  shows "after_cursor cursor (project_rows projectId s) = drop k (project_rows projectId s) \<Longrightarrow>
    length (project_rows projectId s) - k \<le> fuel \<Longrightarrow>
    all_pages (Suc fuel) projectId limit cursor s = map row_item (drop k (project_rows projectId s))"
proof (induction fuel arbitrary: cursor k rule: less_induct)
  case (less fuel)
  let ?rows = "project_rows projectId s" and ?n = "page_size limit"
  have n: "0 < ?n" by (simp add: page_size_def)
  show ?case
  proof (cases "?n < length ?rows - k")
    case False
    then show ?thesis using less.prems by (simp add: page_unfold Let_def)
  next
    case True
    have l: "last (take ?n (drop k ?rows)) = last (take (k + ?n) ?rows)"
      using True n by (auto simp: take_add last_append)
    have c: "after_cursor (Some (row_cursor (last (take (k + ?n) ?rows)))) ?rows = drop (k + ?n) ?rows"
      by (rule cursor_after_row [OF s]) (use True n in auto)
    obtain f where f: "fuel = Suc f" using True less.prems(2) by (cases fuel) auto
    have "all_pages (Suc f) projectId limit (Some (row_cursor (last (take (k + ?n) ?rows)))) s = map row_item (drop (k + ?n) ?rows)"
      by (rule less.IH [OF _ c]) (use less.prems(2) True n f in auto)
    moreover have "drop k ?rows = take ?n (drop k ?rows) @ drop (k + ?n) ?rows"
      by (metis append_take_drop_id drop_drop add.commute)
    ultimately show ?thesis
      using True by (simp add: f page_unfold Let_def less.prems(1) l flip: map_append)
  qed
qed

lemma filter_one: "unique_key x_intentRowId es \<Longrightarrow> length (filter (\<lambda>e. x_intentRowId e = v) es) \<le> 1"
  using filter_key_unique [of x_intentRowId es v "\<lambda>_. True"] by simp

text \<open>No two intents of a project were created in the same millisecond.\<close>

definition distinct_ms :: "uuid \<Rightarrow> db \<Rightarrow> bool" where
  "distinct_ms projectId s \<longleftrightarrow> distinct (map i_createdAt (filter (\<lambda>i. i_projectId i = projectId) (intents s)))"

lemma project_rows_sorted:
  assumes "distinct_ms projectId s" and "repo_inv s"
  shows "sorted_wrt (\<lambda>x y. row_ms y < row_ms x) (project_rows projectId s)"
proof -
  let ?key = "\<lambda>(i, e :: ExecutionRecord). (i_createdAt i, i_createdMicros i, i_id i)"
  let ?join = "concat (map (\<lambda>i. map (\<lambda>e. (i, e)) (filter (\<lambda>e. x_intentRowId e = i_id i) (executions s)))
        (filter (\<lambda>i. i_projectId i = projectId) (intents s)))"
  have d: "distinct (map row_ms (concat (map (\<lambda>i. map (\<lambda>e. (i, e)) (filter (\<lambda>e. x_intentRowId e = i_id i) (executions s))) is)))"
    if "distinct (map i_createdAt is)" for "is"
    using that
  proof (induction "is")
    case (Cons i "is")
    have "distinct (map row_ms (map (\<lambda>e. (i, e)) (filter (\<lambda>e. x_intentRowId e = i_id i) (executions s))))"
      using filter_one [of "executions s" "i_id i"] assms(2)
      by (cases "filter (\<lambda>e. x_intentRowId e = i_id i) (executions s)") (auto simp: repo_inv_def executions_ok_def)
    with Cons show ?case by (auto simp: distinct_map o_def inj_on_def row_ms_def)
  qed simp
  have "distinct (map row_ms ?join)" by (rule d) (use assms(1) in \<open>simp add: distinct_ms_def\<close>)
  then have "distinct (map row_ms (sort_key ?key ?join))" by (simp only: distinct_map distinct_sort set_sort)
  moreover have "sorted (map row_ms (sort_key ?key ?join))"
  proof -
    have "sorted (map fst (map ?key (sort_key ?key ?join)))"
      using sorted_sort_key [of ?key ?join] unfolding sorted_map [of fst]
      by (rule sorted_wrt_mono_rel [rotated]) (auto simp: less_eq_prod_def)
    moreover have "map fst (map ?key xs) = map row_ms xs" for xs by (auto simp: row_ms_def)
    ultimately show ?thesis by metis
  qed
  ultimately have "sorted_wrt (<) (map row_ms (sort_key ?key ?join))" unfolding strict_sorted_iff by blast
  then show ?thesis
    by (simp add: project_rows_def sorted_wrt_rev sorted_wrt_map)
qed

text \<open>
  As long as no two intents of the project were created in the same millisecond,
  following the cursors from the first page returns every intent of the project exactly once,
  newest first, for every page size; one page more than there are intents is always enough.
\<close>

theorem pages_cover_list:
  assumes "distinct_ms projectId s" and "repo_inv s"
  shows "all_pages (Suc (length (project_rows projectId s))) projectId limit None s
     = map row_item (project_rows projectId s)
    \<and> sorted_wrt (\<lambda>x y. row_ms y < row_ms x) (project_rows projectId s)"
  using all_pages_rows [OF project_rows_sorted [OF assms], of None 0 "length (project_rows projectId s)" limit]
    project_rows_sorted [OF assms]
  by (simp add: after_cursor_def del: all_pages.simps)

theorem pages_cover_list_witness:
  "all_pages 2 0 1 None sample_db = [row_item (sample_intent, sample_row)]"
proof -
  have r: "project_rows 0 sample_db = [(sample_intent, sample_row)]"
    by (simp add: project_rows_def sample_defs)
  have "distinct_ms 0 sample_db"
    by (simp add: distinct_ms_def sample_defs)
  from pages_cover_list [OF this sample_db_inv, of 1] show ?thesis by (simp add: r numeral_2_eq_2 del: all_pages.simps)
qed

lemma all_pages_before:
  "cu_createdAt c \<le> t \<Longrightarrow> ag \<in> set (all_pages n projectId limit (Some c) s) \<Longrightarrow>
   \<exists>r \<in> set (project_rows projectId s). ag = row_item r \<and> (row_ms r < t \<or> row_ms r = t \<and> i_createdMicros (fst r) = 0)"
proof (induction n arbitrary: c)
  case (Suc n)
  let ?r = "after_cursor (Some c) (project_rows projectId s)"
  have b: "row_ms r < t \<or> row_ms r = t \<and> i_createdMicros (fst r) = 0" if "r \<in> set ?r" for r
    using that Suc.prems(1) by (auto simp: after_cursor_def before_cursor_def row_ms_def)
  have k: "0 < page_size limit" by (simp add: page_size_def)
  consider "ag \<in> row_item ` set (take (page_size limit) ?r)"
    | "page_size limit < length ?r" and "ag \<in> set (all_pages n projectId limit (Some (row_cursor (last (take (page_size limit) ?r)))) s)"
    using Suc.prems(2) by (auto simp: page_unfold Let_def split: if_splits)
  then show ?case
  proof cases
    case 1
    then obtain r where r: "r \<in> set ?r" "ag = row_item r" by (auto dest: in_set_takeD)
    then have "r \<in> set (project_rows projectId s)" by (simp add: after_cursor_def)
    then show ?thesis using r b by blast
  next
    case 2
    have "last (take (page_size limit) ?r) \<in> set ?r"
    proof (rule in_set_takeD [of _ "page_size limit"], rule last_in_set)
      show "take (page_size limit) ?r \<noteq> []" using 2(1) k by auto
    qed
    from b [OF this] have "cu_createdAt (row_cursor (last (take (page_size limit) ?r))) \<le> t"
      by (simp add: row_cursor_def) linarith
    from Suc.IH [OF this 2(2)] show ?thesis .
  qed
qed simp

text \<open>
  The cursor has millisecond precision and the column does not: an intent created
  in the millisecond of the cursor, but not at its very start, is on no page that can be reached
  from the cursor, whether or not an earlier page showed it.
\<close>

theorem same_millisecond_skipped:
  assumes "intents_ok s" and "(i, e) \<in> set (project_rows projectId s)"
    and "i_createdAt i = cu_createdAt c" and "0 < i_createdMicros i"
  shows "\<forall>ag \<in> set (all_pages n projectId limit (Some c) s). i_id (ag_intent ag) \<noteq> i_id i"
proof
  fix ag assume "ag \<in> set (all_pages n projectId limit (Some c) s)"
  from all_pages_before [OF order_refl this] obtain r where r: "r \<in> set (project_rows projectId s)" "ag = row_item r"
    "row_ms r < cu_createdAt c \<or> row_ms r = cu_createdAt c \<and> i_createdMicros (fst r) = 0" by blast
  have mem: "fst r' \<in> set (intents s)" if "r' \<in> set (project_rows projectId s)" for r'
    using that by (auto simp: project_rows_def)
  show "i_id (ag_intent ag) \<noteq> i_id i"
  proof
    assume "i_id (ag_intent ag) = i_id i"
    then have "fst r = i"
      using assms(1) mem [OF r(1)] mem [OF assms(2)] r(2)
      by (auto simp: intents_ok_def unique_key_def distinct_map inj_on_def row_item_def mapIntent_def)
    then show False using r(3) assms(3,4) by (auto simp: row_ms_def)
  qed
qed

definition two_intents_db :: db where
  "two_intents_db = sample_db\<lparr>
     intents := [sample_intent\<lparr>i_createdMicros := 200\<rparr>, sample_intent\<lparr>i_id := 7, i_intentId := ''second'', i_createdMicros := 900\<rparr>],
     executions := [sample_row, sample_row\<lparr>x_id := 8, x_intentRowId := 7, x_txHash := None\<rparr>], next_uuid := 9\<rparr>"

theorem same_millisecond_skipped_witness:
  "map (\<lambda>ag. i_id (ag_intent ag)) (pg_items (listIntentsPage 0 1 None two_intents_db)) = [7]
     \<and> pg_nextCursor (listIntentsPage 0 1 None two_intents_db) = Some \<lparr>cu_createdAt = 0, cu_id = 7\<rparr>
     \<and> i_id sample_intent \<notin> set (map (\<lambda>ag. i_id (ag_intent ag)) (all_pages 5 0 1 (Some \<lparr>cu_createdAt = 0, cu_id = 7\<rparr>) two_intents_db))"
proof -
  let ?i = "sample_intent\<lparr>i_createdMicros := 200\<rparr>"
  have r: "project_rows 0 two_intents_db
      = [(sample_intent\<lparr>i_id := 7, i_intentId := ''second'', i_createdMicros := 900\<rparr>, sample_row\<lparr>x_id := 8, x_intentRowId := 7, x_txHash := None\<rparr>),
         (?i, sample_row)]"
    by (simp add: project_rows_def two_intents_db_def sample_defs)
  have "intents_ok two_intents_db" by (simp add: intents_ok_def unique_key_def two_intents_db_def sample_defs)
  from same_millisecond_skipped [OF this, of ?i sample_row 0 "\<lparr>cu_createdAt = 0, cu_id = 7\<rparr>" 5 1]
  have a: "\<forall>ag \<in> set (all_pages 5 0 1 (Some \<lparr>cu_createdAt = 0, cu_id = 7\<rparr>) two_intents_db). i_id (ag_intent ag) \<noteq> i_id sample_intent"
    by (simp add: r sample_intent_def)
  have "listIntentsPage 0 1 None two_intents_db = \<lparr>pg_items = [row_item (hd (project_rows 0 two_intents_db))],
      pg_nextCursor = Some \<lparr>cu_createdAt = 0, cu_id = 7\<rparr>\<rparr>"
    by (simp add: page_unfold Let_def r after_cursor_def page_size_def row_cursor_def row_ms_def sample_intent_def)
  moreover have "i_id sample_intent \<notin> set (map (\<lambda>ag. i_id (ag_intent ag)) (all_pages 5 0 1 (Some \<lparr>cu_createdAt = 0, cu_id = 7\<rparr>) two_intents_db))"
    using a by auto
  ultimately show ?thesis by (simp add: r row_item_def mapIntent_def del: all_pages.simps)
qed

end
