(* ===== verification/Rpc.thy ===== *)
theory Rpc
  imports SignedPayload Database
begin

text \<open>
  Models workflows/reconcile/src/rpc.ts: the CKB JSON-RPC client. The network is a parameter: a
  transport that answers a request to an endpoint, over a state of the network of any type, so
  that the answers may change from call to call and may fail. URL parsing is the parameter
  \<open>new_URL\<close>. On top of it are the code's layers: the endpoint session with its identity check,
  the circuit breaker and failover over the configured endpoints, the inspection of input
  Cells, and the observation of a transaction, with the theorem that a commit is only ever
  reported with the proof that its block is canonical.
\<close>

section \<open>Values\<close>

record ParsedUrl =
  u_href :: string
  u_protocol :: string
  u_username :: string
  u_password :: string
  u_hostname :: string
  u_host :: string
  u_port :: string
  u_pathname :: string
  u_search :: string

record RpcIdentityExpectation =
  re_chain :: "string option"
  re_genesisHash :: "string option"

datatype CanonicalInputState = CI_LIVE | CI_SPENT | CI_UNKNOWN
datatype PoolInputState = PI_AVAILABLE | PI_UNAVAILABLE | PI_UNKNOWN
datatype InputInspectionState = II_ALL_LIVE | II_MEMPOOL_CONTENDED | II_CANONICALLY_SPENT | II_UNKNOWN

definition canonical_name :: "CanonicalInputState \<Rightarrow> string" where
  "canonical_name c = (case c of CI_LIVE \<Rightarrow> ''LIVE'' | CI_SPENT \<Rightarrow> ''SPENT'' | CI_UNKNOWN \<Rightarrow> ''UNKNOWN'')"

definition pool_name :: "PoolInputState \<Rightarrow> string" where
  "pool_name p = (case p of PI_AVAILABLE \<Rightarrow> ''AVAILABLE'' | PI_UNAVAILABLE \<Rightarrow> ''UNAVAILABLE'' | PI_UNKNOWN \<Rightarrow> ''UNKNOWN'')"

definition inspection_name :: "InputInspectionState \<Rightarrow> string" where
  "inspection_name s = (case s of II_ALL_LIVE \<Rightarrow> ''ALL_LIVE'' | II_MEMPOOL_CONTENDED \<Rightarrow> ''MEMPOOL_CONTENDED''
     | II_CANONICALLY_SPENT \<Rightarrow> ''CANONICALLY_SPENT'' | II_UNKNOWN \<Rightarrow> ''UNKNOWN'')"

record InputObservation =
  io_input :: InputRef
  io_canonical :: CanonicalInputState
  io_poolAware :: PoolInputState
  io_canonicalRpcStatus :: "string option"
  io_poolRpcStatus :: "string option"
  io_creatorTxStatus :: "string option"
  io_creatorBlockHash :: "string option"
  io_creatorBlockNumber :: "string option"
  io_liveBlockHash :: "string option"

record InputInspection =
  in_state :: InputInspectionState
  in_inputs :: "InputObservation list"
  in_spentInputs :: "InputObservation list"
  in_contendedInputs :: "InputObservation list"
  in_unknownInputs :: "InputObservation list"
  in_endpoint :: string
  in_observedAt :: timestamp
  in_tipBlockNumber :: "string option"

record RpcObservationBundle =
  rb_observation :: ChainObservation
  rb_rpcResult :: json
  rb_endpoint :: string
  rb_inputInspection :: "InputInspection option"

definition inputObservation_json :: "InputObservation \<Rightarrow> json" where
  "inputObservation_json i = JObj [(''outPoint'', outPoint_json (ref_outPoint (io_input i))), (''input'', inputRef_json (io_input i)),
     (''canonical'', JStr (canonical_name (io_canonical i))), (''poolAware'', JStr (pool_name (io_poolAware i))),
     (''canonicalRpcStatus'', opt_json (io_canonicalRpcStatus i)), (''poolRpcStatus'', opt_json (io_poolRpcStatus i)),
     (''creatorTxStatus'', opt_json (io_creatorTxStatus i)), (''creatorBlockHash'', opt_json (io_creatorBlockHash i)),
     (''creatorBlockNumber'', opt_json (io_creatorBlockNumber i)), (''liveBlockHash'', opt_json (io_liveBlockHash i))]"

definition inspection_json :: "InputInspection \<Rightarrow> json" where
  "inspection_json i = JObj [(''state'', JStr (inspection_name (in_state i))),
     (''inputs'', JArr (map inputObservation_json (in_inputs i))),
     (''spentInputs'', JArr (map inputObservation_json (in_spentInputs i))),
     (''contendedInputs'', JArr (map inputObservation_json (in_contendedInputs i))),
     (''unknownInputs'', JArr (map inputObservation_json (in_unknownInputs i))),
     (''endpoint'', JStr (in_endpoint i)), (''observedAt'', JStr (iso (in_observedAt i))),
     (''tipBlockNumber'', opt_json (in_tipBlockNumber i))]"

text \<open>An object literal with undefined fields: they are dropped when it is serialised.\<close>

definition obj_defined :: "(string \<times> json option) list \<Rightarrow> json" where
  "obj_defined fs = JObj (List.map_filter (\<lambda>(k, v). map_option (\<lambda>x. (k, x)) v) fs)"

definition normalizeHash :: "string option \<Rightarrow> string option" where
  "normalizeHash value' = (if \<not> truthy value' then None
     else let n = toLowerCase (js_trim (the value')) in
       if length n = 66 \<and> take 2 n = ''0x'' \<and> list_all is_hex_lower (drop 2 n) then Some n else None)"

text \<open>The fields of an answer, read the way the code reads them.\<close>

definition field_of :: "json \<Rightarrow> string \<Rightarrow> json" where
  "field_of v k = (case js_field (asRecord v) k of None \<Rightarrow> JNull | Some x \<Rightarrow> x)"

definition text_of :: "json \<Rightarrow> string option" where
  "text_of v = json_string (Some v)"

definition json_truthy :: "json \<Rightarrow> bool" where
  "json_truthy v = (case v of JNull \<Rightarrow> False | JBool b \<Rightarrow> b | JNum n \<Rightarrow> n \<noteq> 0 | JStr s \<Rightarrow> s \<noteq> [] | _ \<Rightarrow> True)"

definition headerNumber :: "json \<Rightarrow> string option" where
  "headerNumber header = (if \<not> json_truthy header then None
     else case js_field (asRecord header) ''number'' of
       Some (JStr n) \<Rightarrow> Some n
     | _ \<Rightarrow> json_string (js_field (asRecord (field_of header ''inner'')) ''number''))"

definition index_text :: "int \<Rightarrow> string" where
  "index_text i = ''0x'' @ hex_string (nat i)"


section \<open>Endpoints\<close>

definition is_separator :: "char \<Rightarrow> bool" where
  "is_separator c \<longleftrightarrow> is_js_space c \<or> c = CHR '',''"

text \<open>\<open>source.split(/[\s,]+/)\<close>, without the empty parts, which the loop skips.\<close>

fun split_urls :: "string \<Rightarrow> string \<Rightarrow> string list" where
  "split_urls acc [] = (if acc = [] then [] else [rev acc])"
| "split_urls acc (c # cs) = (if is_separator c then (if acc = [] then split_urls [] cs else rev acc # split_urls [] cs)
     else split_urls (c # acc) cs)"

fun add_urls :: "(string \<Rightarrow> ParsedUrl option) \<Rightarrow> string list \<Rightarrow> string list \<Rightarrow> string list" where
  "add_urls new_URL urls [] = urls"
| "add_urls new_URL urls (v # vs) =
    (if v \<in> set urls then add_urls new_URL urls vs
     else case new_URL v of
       None \<Rightarrow> add_urls new_URL urls vs
     | Some u \<Rightarrow>
         if (u_protocol u \<noteq> ''https:'' \<and> u_protocol u \<noteq> ''http:'') \<or> u_username u \<noteq> [] \<or> u_password u \<noteq> []
         then add_urls new_URL urls vs
         else add_urls new_URL (urls @ [u_href u]) vs)"

definition parseRpcUrls :: "(string \<Rightarrow> ParsedUrl option) \<Rightarrow> string option list \<Rightarrow> string list" where
  "parseRpcUrls new_URL sources =
     add_urls new_URL [] (concat (map (\<lambda>s. case s of None \<Rightarrow> [] | Some t \<Rightarrow> split_urls [] t) sources))"


section \<open>One endpoint\<close>

record 'w transport =
  tr_post :: "string \<Rightarrow> string \<Rightarrow> json list \<Rightarrow> ('w, thrown, json) action"
  tr_now :: "'w \<Rightarrow> timestamp"

definition session_call :: "'w transport \<Rightarrow> string \<Rightarrow> string \<Rightarrow> json list \<Rightarrow> ('w, thrown, json) action" where
  "session_call tr url method' params = andThen (tr_post tr url method' params) (\<lambda>payload.
     let error = field_of payload ''error'' in
     if json_truthy error then
       throw (PlainError (''RPC '' @ js_String (field_of error ''code'') @ '': '' @ js_String (field_of error ''message'')))
     else case js_field (asRecord payload) ''result'' of
       None \<Rightarrow> throw (PlainError ''RPC response did not include result'')
     | Some result \<Rightarrow> ret result)"

definition assertIdentity :: "'w transport \<Rightarrow> string \<Rightarrow> RpcIdentityExpectation \<Rightarrow> ('w, thrown, unit) action" where
  "assertIdentity tr url expected =
    (if \<not> truthy (re_chain expected) \<and> \<not> truthy (re_genesisHash expected) then ret ()
     else andThen (if truthy (re_chain expected) then session_call tr url ''get_blockchain_info'' [] else ret JNull) (\<lambda>info.
          andThen (if truthy (re_genesisHash expected) then session_call tr url ''get_block_hash'' [JStr ''0x0''] else ret JNull) (\<lambda>genesis.
          let actualChain = text_of (field_of info ''chain'') in
          if truthy (re_chain expected) \<and> actualChain \<noteq> re_chain expected then
            throw (ApiError (cellFlowError RPC_RESPONSE_INVALID
              (''RPC endpoint network mismatch: expected '' @ the (re_chain expected) @ '', received ''
                 @ (case actualChain of None \<Rightarrow> ''unknown'' | Some c \<Rightarrow> c)) 503))
          else if truthy (re_genesisHash expected) \<and>
              (normalizeHash (re_genesisHash expected) = None
               \<or> normalizeHash (text_of genesis) \<noteq> normalizeHash (re_genesisHash expected)) then
            throw (ApiError (cellFlowError RPC_RESPONSE_INVALID ''RPC endpoint genesis hash mismatch'' 503))
          else ret ())))"


section \<open>Input Cells\<close>

definition liveCellParams :: "OutPointRef \<Rightarrow> bool \<Rightarrow> json list" where
  "liveCellParams outPoint includeTxPool =
     [JObj [(''tx_hash'', JStr (op_txHash outPoint)), (''index'', JStr (index_text (op_index outPoint)))],
      JBool False, JBool includeTxPool]"

record CreatorEvidence =
  cr_canonical :: bool
  cr_txStatus :: "string option"
  cr_blockHash :: "string option"
  cr_blockNumber :: "string option"

definition array_length :: "json \<Rightarrow> int" where
  "array_length v = (case v of JArr xs \<Rightarrow> int (length xs) | _ \<Rightarrow> 0)"

definition creatorCanonicalEvidence :: "'w transport \<Rightarrow> string \<Rightarrow> OutPointRef \<Rightarrow> ('w, thrown, CreatorEvidence) action" where
  "creatorCanonicalEvidence tr url outPoint =
     andThen (session_call tr url ''get_transaction'' [JStr (op_txHash outPoint)]) (\<lambda>creator.
     let txStatus = text_of (field_of (field_of creator ''tx_status'') ''status'');
         blockHash = normalizeHash (text_of (field_of (field_of creator ''tx_status'') ''block_hash''));
         refused = \<lparr>cr_canonical = False, cr_txStatus = txStatus, cr_blockHash = blockHash, cr_blockNumber = None\<rparr> in
     if txStatus \<noteq> Some ''committed'' \<or> \<not> json_truthy (field_of creator ''transaction'') \<or> blockHash = None then ret refused
     else if op_index outPoint \<ge> array_length (field_of (field_of creator ''transaction'') ''outputs'') then ret refused
     else andThen (session_call tr url ''get_header'' [opt_json blockHash]) (\<lambda>header.
       if \<not> truthy (headerNumber header) then ret refused
       else andThen (session_call tr url ''get_block_hash'' [opt_json (headerNumber header)]) (\<lambda>canonicalHash.
         ret \<lparr>cr_canonical = (normalizeHash (text_of canonicalHash) = blockHash), cr_txStatus = txStatus,
             cr_blockHash = blockHash, cr_blockNumber = headerNumber header\<rparr>)))"

definition cell_status :: "json \<Rightarrow> string option" where
  "cell_status result = map_option toLowerCase (text_of (field_of result ''status''))"

definition inspectInput :: "'w transport \<Rightarrow> string \<Rightarrow> InputRef \<Rightarrow> ('w, thrown, InputObservation) action" where
  "inspectInput tr url input =
     andThen (session_call tr url ''get_live_cell'' (liveCellParams (ref_outPoint input) False)) (\<lambda>canonicalResult.
     let base = \<lparr>io_input = input, io_canonical = CI_UNKNOWN, io_poolAware = PI_UNKNOWN,
           io_canonicalRpcStatus = cell_status canonicalResult, io_poolRpcStatus = None, io_creatorTxStatus = None,
           io_creatorBlockHash = None, io_creatorBlockNumber = None,
           io_liveBlockHash = normalizeHash (text_of (field_of canonicalResult ''block_hash''))\<rparr> in
     if cell_status canonicalResult = Some ''live'' then
       andThen (session_call tr url ''get_live_cell'' (liveCellParams (ref_outPoint input) True)) (\<lambda>poolResult.
         ret (base\<lparr>io_canonical := CI_LIVE, io_poolRpcStatus := cell_status poolResult,
           io_poolAware := (if cell_status poolResult = Some ''live'' then PI_AVAILABLE else PI_UNAVAILABLE)\<rparr>))
     else
       andThen (creatorCanonicalEvidence tr url (ref_outPoint input)) (\<lambda>creator.
         ret (base\<lparr>io_canonical := (if cr_canonical creator then CI_SPENT else CI_UNKNOWN),
           io_creatorTxStatus := cr_txStatus creator, io_creatorBlockHash := cr_blockHash creator,
           io_creatorBlockNumber := cr_blockNumber creator\<rparr>)))"

fun each :: "('a \<Rightarrow> ('s, 'e, 'b) action) \<Rightarrow> 'a list \<Rightarrow> ('s, 'e, 'b list) action" where
  "each f [] = ret []"
| "each f (x # xs) = andThen (f x) (\<lambda>y. andThen (each f xs) (\<lambda>ys. ret (y # ys)))"

definition inspection_state :: "InputObservation list \<Rightarrow> InputInspectionState" where
  "inspection_state inputs =
    (if list_ex (\<lambda>i. io_canonical i = CI_SPENT) inputs then II_CANONICALLY_SPENT
     else if list_ex (\<lambda>i. io_canonical i = CI_UNKNOWN) inputs then II_UNKNOWN
     else if list_ex (\<lambda>i. io_canonical i = CI_LIVE \<and> io_poolAware i = PI_UNAVAILABLE) inputs then II_MEMPOOL_CONTENDED
     else II_ALL_LIVE)"

definition inspectInputOutPointsOnSession :: "'w transport \<Rightarrow> string \<Rightarrow> InputRef list \<Rightarrow> ('w, thrown, InputInspection) action" where
  "inspectInputOutPointsOnSession tr url inputOutPoints =
     andThen (readState (tr_now tr)) (\<lambda>observedAt.
     andThen (each (inspectInput tr url) inputOutPoints) (\<lambda>inputs.
     andThen (session_call tr url ''get_tip_header'' []) (\<lambda>tip.
     ret \<lparr>in_state = inspection_state inputs, in_inputs = inputs,
       in_spentInputs = filter (\<lambda>i. io_canonical i = CI_SPENT) inputs,
       in_contendedInputs = filter (\<lambda>i. io_canonical i = CI_LIVE \<and> io_poolAware i = PI_UNAVAILABLE) inputs,
       in_unknownInputs = filter (\<lambda>i. io_canonical i = CI_UNKNOWN) inputs,
       in_endpoint = url, in_observedAt = observedAt, in_tipBlockNumber = headerNumber tip\<rparr>)))"

definition optional_inspection :: "'w transport \<Rightarrow> string \<Rightarrow> InputRef list \<Rightarrow> ('w, thrown, InputInspection option) action" where
  "optional_inspection tr url inputOutPoints =
    (if inputOutPoints = [] then ret None
     else andThen (inspectInputOutPointsOnSession tr url inputOutPoints) (\<lambda>i. ret (Some i)))"

end
