(* ===== verification/RpcClient.thy ===== *)
theory RpcClient
  imports Rpc
begin

text \<open>
  The client of workflows/reconcile/src/rpc.ts: the circuit breaker and the failover over the
  configured endpoints, and the observation of a transaction.
\<close>

section \<open>Circuit breaker and failover\<close>

record EndpointFailureState =
  ef_failures :: nat
  ef_cooldownUntil :: timestamp

text \<open>The module's map of failures next to the state of the network.\<close>

record 'w net =
  nt_failures :: "string \<Rightarrow> EndpointFailureState option"
  nt_world :: 'w

record 'w rpc_config =
  rc_transport :: "'w transport"
  rc_threshold :: nat
  rc_cooldownMs :: int

definition on_world :: "('w, 'e, 'a) action \<Rightarrow> ('w net, 'e, 'a) action" where
  "on_world m = (\<lambda>n. case m (nt_world n) of (r, w) \<Rightarrow> (r, n\<lparr>nt_world := w\<rparr>))"

definition net_now :: "'w rpc_config \<Rightarrow> 'w net \<Rightarrow> timestamp" where
  "net_now cfg n = tr_now (rc_transport cfg) (nt_world n)"

definition noteEndpointSuccess :: "string \<Rightarrow> 'w net \<Rightarrow> 'w net" where
  "noteEndpointSuccess url n = n\<lparr>nt_failures := (nt_failures n)(url := None)\<rparr>"

definition noteEndpointFailure :: "'w rpc_config \<Rightarrow> string \<Rightarrow> 'w net \<Rightarrow> 'w net" where
  "noteEndpointFailure cfg url n =
    (let failures = Suc (case nt_failures n url of None \<Rightarrow> 0 | Some f \<Rightarrow> ef_failures f) in
     n\<lparr>nt_failures := (nt_failures n)(url \<mapsto> \<lparr>ef_failures = failures,
        ef_cooldownUntil = (if rc_threshold cfg \<le> failures then net_now cfg n + rc_cooldownMs cfg else 0)\<rparr>)\<rparr>)"

definition cooldown :: "'w net \<Rightarrow> string \<Rightarrow> timestamp" where
  "cooldown n url = (case nt_failures n url of None \<Rightarrow> 0 | Some f \<Rightarrow> ef_cooldownUntil f)"

definition healthyFirst :: "'w rpc_config \<Rightarrow> string list \<Rightarrow> 'w net \<Rightarrow> string list" where
  "healthyFirst cfg urls n =
    (let available = filter (\<lambda>u. cooldown n u \<le> net_now cfg n) urls in
     if available \<noteq> [] then available else take 1 (sort_key (cooldown n) urls))"

definition thrown_message :: "thrown \<Rightarrow> string" where
  "thrown_message e = (case e of ApiError err \<Rightarrow> err_message err | PlainError m \<Rightarrow> m
     | OptimisticConcurrencyError \<Rightarrow> ''Execution changed concurrently'' | ConstraintViolation c \<Rightarrow> c)"

fun try_endpoints :: "'w rpc_config \<Rightarrow> (string \<Rightarrow> ('w, thrown, 'a) action) \<Rightarrow> thrown option \<Rightarrow> string list \<Rightarrow> ('w net, thrown, 'a) action" where
  "try_endpoints cfg operation lastError [] n = (Inl (ApiError (cellFlowError RPC_UNAVAILABLE
     (case lastError of None \<Rightarrow> ''All configured CKB RPC endpoints failed or are cooling down'' | Some e \<Rightarrow> thrown_message e) 503)), n)"
| "try_endpoints cfg operation lastError (url # urls) n =
    (case on_world (operation url) n of
       (Inr result, t) \<Rightarrow> (Inr result, noteEndpointSuccess url t)
     | (Inl e, t) \<Rightarrow> try_endpoints cfg operation (Some e) urls (noteEndpointFailure cfg url t))"

definition withSession :: "'w rpc_config \<Rightarrow> string list \<Rightarrow> (string \<Rightarrow> ('w, thrown, 'a) action) \<Rightarrow> ('w net, thrown, 'a) action" where
  "withSession cfg urls operation n = try_endpoints cfg operation None (healthyFirst cfg urls n) n"

definition client_call :: "'w rpc_config \<Rightarrow> string list \<Rightarrow> string \<Rightarrow> json list \<Rightarrow> ('w net, thrown, json) action" where
  "client_call cfg urls method' params = withSession cfg urls (\<lambda>url. session_call (rc_transport cfg) url method' params)"

definition getTransaction :: "'w rpc_config \<Rightarrow> string list \<Rightarrow> string \<Rightarrow> ('w net, thrown, json) action" where
  "getTransaction cfg urls txHash = client_call cfg urls ''get_transaction'' [JStr txHash]"

definition getHeader :: "'w rpc_config \<Rightarrow> string list \<Rightarrow> string \<Rightarrow> ('w net, thrown, json) action" where
  "getHeader cfg urls blockHash = client_call cfg urls ''get_header'' [JStr blockHash]"

definition getTipHeader :: "'w rpc_config \<Rightarrow> string list \<Rightarrow> ('w net, thrown, json) action" where
  "getTipHeader cfg urls = client_call cfg urls ''get_tip_header'' []"

definition getGenesisHash :: "'w rpc_config \<Rightarrow> string list \<Rightarrow> ('w net, thrown, json) action" where
  "getGenesisHash cfg urls = client_call cfg urls ''get_block_hash'' [JStr ''0x0'']"

definition getBlockchainInfo :: "'w rpc_config \<Rightarrow> string list \<Rightarrow> ('w net, thrown, json) action" where
  "getBlockchainInfo cfg urls = client_call cfg urls ''get_blockchain_info'' []"

definition getLiveCell :: "'w rpc_config \<Rightarrow> string list \<Rightarrow> string \<Rightarrow> int \<Rightarrow> string option \<Rightarrow> ('w net, thrown, json) action" where
  "getLiveCell cfg urls txHash outputIndex endpoint =
    (let params = [JObj [(''tx_hash'', JStr txHash), (''index'', JStr (index_text outputIndex))], JBool True] in
     if truthy endpoint then on_world (session_call (rc_transport cfg) (the endpoint) ''get_live_cell'' params)
     else client_call cfg urls ''get_live_cell'' params)"

record CanonicalBlock =
  cb_canonical :: "bool option"
  cb_blockNumber :: "string option"
  cb_canonicalBlockHash :: "string option"

definition verifyCanonicalBlockAt :: "'w rpc_config \<Rightarrow> string list \<Rightarrow> string \<Rightarrow> string \<Rightarrow> ('w net, thrown, CanonicalBlock) action" where
  "verifyCanonicalBlockAt cfg urls endpoint blockHash =
    (if endpoint \<notin> set urls then
       throw (ApiError (cellFlowError RPC_UNAVAILABLE ''Requested canonicality endpoint is not configured'' 503))
     else on_world (andThen (session_call (rc_transport cfg) endpoint ''get_header'' [JStr blockHash]) (\<lambda>header.
       let blockNumber = headerNumber header in
       if \<not> truthy blockNumber then ret \<lparr>cb_canonical = None, cb_blockNumber = None, cb_canonicalBlockHash = None\<rparr>
       else andThen (session_call (rc_transport cfg) endpoint ''get_block_hash'' [opt_json blockNumber]) (\<lambda>h.
         let canonicalBlockHash = text_of h in
         if \<not> truthy canonicalBlockHash
         then ret \<lparr>cb_canonical = None, cb_blockNumber = blockNumber, cb_canonicalBlockHash = None\<rparr>
         else ret \<lparr>cb_canonical = Some (toLowerCase (the canonicalBlockHash) = toLowerCase blockHash),
                cb_blockNumber = blockNumber, cb_canonicalBlockHash = canonicalBlockHash\<rparr>))))"

definition inspectInputOutPoints ::
    "'w rpc_config \<Rightarrow> string list \<Rightarrow> InputRef list \<Rightarrow> RpcIdentityExpectation \<Rightarrow> ('w net, thrown, InputInspection) action" where
  "inspectInputOutPoints cfg urls inputOutPoints expectedIdentity = withSession cfg urls (\<lambda>url.
     andThen (assertIdentity (rc_transport cfg) url expectedIdentity) (\<lambda>_.
     inspectInputOutPointsOnSession (rc_transport cfg) url inputOutPoints))"

definition inspectInputOutPointsAt ::
    "'w rpc_config \<Rightarrow> string list \<Rightarrow> string \<Rightarrow> InputRef list \<Rightarrow> RpcIdentityExpectation \<Rightarrow> ('w net, thrown, InputInspection) action" where
  "inspectInputOutPointsAt cfg urls endpoint inputOutPoints expectedIdentity =
    (if endpoint \<notin> set urls then
       throw (ApiError (cellFlowError RPC_UNAVAILABLE ''Requested corroboration endpoint is not configured'' 503))
     else on_world (andThen (assertIdentity (rc_transport cfg) endpoint expectedIdentity) (\<lambda>_.
       inspectInputOutPointsOnSession (rc_transport cfg) endpoint inputOutPoints)))"


section \<open>Observing a transaction\<close>

text \<open>Whether the recorded commit is still canonical, when a well-formed answer says so.\<close>

definition prior_canonical :: "(string \<times> string) option \<Rightarrow> json \<Rightarrow> bool option" where
  "prior_canonical prior canonical = (case prior of None \<Rightarrow> None
     | Some (blockHash, _) \<Rightarrow> (case normalizeHash (text_of canonical) of None \<Rightarrow> None
         | Some h \<Rightarrow> Some (normalizeHash (Some blockHash) = Some h)))"

definition opt_bool :: "bool option \<Rightarrow> json option" where
  "opt_bool b = map_option JBool b"

definition opt_str :: "string option \<Rightarrow> json option" where
  "opt_str s = map_option JStr s"

definition unknown_observation :: "timestamp \<Rightarrow> string \<Rightarrow> json \<Rightarrow> bool option \<Rightarrow> ChainObservation" where
  "unknown_observation observedAt url raw priorCommitCanonical =
     \<lparr>ob_status = CO_UNKNOWN, ob_observedAt = observedAt, ob_raw = raw, ob_blockHash = None, ob_blockNumber = None,
      ob_tipBlockNumber = None, ob_rejectionReason = None, ob_rpcEndpoint = Some url, ob_canonicalBlockHash = None,
      ob_priorCommitCanonical = priorCommitCanonical\<rparr>"

definition observe_missing ::
    "'w transport \<Rightarrow> string \<Rightarrow> timestamp \<Rightarrow> json \<Rightarrow> bool option \<Rightarrow> InputRef list \<Rightarrow> ('w, thrown, RpcObservationBundle) action" where
  "observe_missing tr url observedAt result priorCommitCanonical inputOutPoints =
     andThen (optional_inspection tr url inputOutPoints) (\<lambda>inspection.
     ret \<lparr>rb_observation = unknown_observation observedAt url
            (obj_defined [(''txStatus'', Some JNull), (''rpcEndpoint'', Some (JStr url)),
               (''priorCommitCanonical'', opt_bool priorCommitCanonical),
               (''inputInspection'', map_option inspection_json inspection)]) priorCommitCanonical,
          rb_rpcResult = result, rb_endpoint = url, rb_inputInspection = inspection\<rparr>)"

definition commit_verified :: "string option \<Rightarrow> string option \<Rightarrow> string option \<Rightarrow> string option \<Rightarrow> bool" where
  "commit_verified blockHash canonicalBlockHash blockNumber tipBlockNumber \<longleftrightarrow>
     normalizeHash blockHash \<noteq> None \<and> normalizeHash canonicalBlockHash \<noteq> None
     \<and> normalizeHash blockHash = normalizeHash canonicalBlockHash
     \<and> (case (parseHexBlockNumber blockNumber, parseHexBlockNumber tipBlockNumber) of
          (Some b, Some t) \<Rightarrow> b \<le> t | _ \<Rightarrow> False)"

definition committed_bundle ::
    "string \<Rightarrow> timestamp \<Rightarrow> json \<Rightarrow> string option \<Rightarrow> string option \<Rightarrow> string option \<Rightarrow> string option \<Rightarrow> bool option
      \<Rightarrow> RpcObservationBundle" where
  "committed_bundle url observedAt result blockHash blockNumber tipBlockNumber canonicalBlockHash priorCommitCanonical =
    (let fields = [(''txStatus'', Some (JStr ''committed'')), (''rpcEndpoint'', Some (JStr url)), (''blockHash'', opt_str blockHash),
           (''blockNumber'', opt_str blockNumber), (''tipBlockNumber'', opt_str tipBlockNumber),
           (''canonicalBlockHash'', Some (opt_json canonicalBlockHash)), (''priorCommitCanonical'', opt_bool priorCommitCanonical)] in
     if \<not> commit_verified blockHash canonicalBlockHash blockNumber tipBlockNumber then
       \<lparr>rb_observation = (unknown_observation observedAt url
              (obj_defined (fields @ [(''canonicalEvidence'', Some (JStr
                 (if normalizeHash canonicalBlockHash \<noteq> None \<and> normalizeHash blockHash \<noteq> None
                     \<and> normalizeHash canonicalBlockHash \<noteq> normalizeHash blockHash then ''NON_CANONICAL'' else ''UNAVAILABLE'')))]))
              priorCommitCanonical)\<lparr>ob_canonicalBlockHash := normalizeHash canonicalBlockHash\<rparr>,
            rb_rpcResult = result, rb_endpoint = url, rb_inputInspection = None\<rparr>
     else
       \<lparr>rb_observation = \<lparr>ob_status = CO_COMMITTED, ob_observedAt = observedAt, ob_raw = obj_defined fields,
              ob_blockHash = or_null blockHash, ob_blockNumber = or_null blockNumber, ob_tipBlockNumber = or_null tipBlockNumber,
              ob_rejectionReason = None, ob_rpcEndpoint = Some url, ob_canonicalBlockHash = or_null canonicalBlockHash,
              ob_priorCommitCanonical = priorCommitCanonical\<rparr>,
            rb_rpcResult = result, rb_endpoint = url, rb_inputInspection = None\<rparr>)"

definition observe_committed ::
    "'w transport \<Rightarrow> string \<Rightarrow> timestamp \<Rightarrow> json \<Rightarrow> string option \<Rightarrow> bool option \<Rightarrow> ('w, thrown, RpcObservationBundle) action" where
  "observe_committed tr url observedAt result blockHash priorCommitCanonical =
     andThen (if truthy blockHash then session_call tr url ''get_header'' [opt_json blockHash] else ret JNull) (\<lambda>header.
     andThen (session_call tr url ''get_tip_header'' []) (\<lambda>tip.
     andThen (if truthy (headerNumber header) then session_call tr url ''get_block_hash'' [opt_json (headerNumber header)]
        else ret JNull) (\<lambda>canonicalBlockHash.
     ret (committed_bundle url observedAt result blockHash (headerNumber header) (headerNumber tip)
       (text_of canonicalBlockHash) priorCommitCanonical))))"

definition observe_other ::
    "'w transport \<Rightarrow> string \<Rightarrow> timestamp \<Rightarrow> json \<Rightarrow> json \<Rightarrow> bool option \<Rightarrow> InputRef list \<Rightarrow> ('w, thrown, RpcObservationBundle) action" where
  "observe_other tr url observedAt result txStatus priorCommitCanonical inputOutPoints =
    (let status = field_of txStatus ''status'';
         reason = text_of (field_of txStatus ''reason'');
         fields = [(''txStatus'', Some status), (''rpcEndpoint'', Some (JStr url)), (''reason'', Some (opt_json reason)),
           (''priorCommitCanonical'', opt_bool priorCommitCanonical)];
         base = unknown_observation observedAt url (obj_defined fields) priorCommitCanonical;
         bundle = (\<lambda>ob. \<lparr>rb_observation = ob, rb_rpcResult = result, rb_endpoint = url, rb_inputInspection = None\<rparr>) in
     if status = JStr ''pending'' then ret (bundle (base\<lparr>ob_status := CO_PENDING\<rparr>))
     else if status = JStr ''proposed'' then ret (bundle (base\<lparr>ob_status := CO_PROPOSED\<rparr>))
     else if status = JStr ''rejected'' then
       ret (bundle (base\<lparr>ob_status := CO_REJECTED, ob_rejectionReason := or_null reason\<rparr>))
     else andThen (optional_inspection tr url inputOutPoints) (\<lambda>inspection.
       ret \<lparr>rb_observation = base\<lparr>ob_raw := obj_defined (fields @ [(''inputInspection'', map_option inspection_json inspection)])\<rparr>,
            rb_rpcResult = result, rb_endpoint = url, rb_inputInspection = inspection\<rparr>))"

definition observe_session ::
    "'w transport \<Rightarrow> string \<Rightarrow> string \<Rightarrow> (string \<times> string) option \<Rightarrow> RpcIdentityExpectation \<Rightarrow> InputRef list
      \<Rightarrow> ('w, thrown, RpcObservationBundle) action" where
  "observe_session tr url txHash prior expectedIdentity inputOutPoints =
     andThen (assertIdentity tr url expectedIdentity) (\<lambda>_.
     andThen (readState (tr_now tr)) (\<lambda>observedAt.
     andThen (session_call tr url ''get_transaction'' [JStr txHash]) (\<lambda>result.
     andThen (case prior of None \<Rightarrow> ret JNull | Some (_, n) \<Rightarrow> session_call tr url ''get_block_hash'' [JStr n]) (\<lambda>canonical.
     let priorCommitCanonical = prior_canonical prior canonical;
         txStatus = field_of result ''tx_status'' in
     if \<not> json_truthy result \<or> \<not> json_truthy txStatus then
       observe_missing tr url observedAt result priorCommitCanonical inputOutPoints
     else if field_of txStatus ''status'' = JStr ''committed'' then
       observe_committed tr url observedAt result (text_of (field_of txStatus ''block_hash'')) priorCommitCanonical
     else observe_other tr url observedAt result txStatus priorCommitCanonical inputOutPoints))))"

definition observe ::
    "'w rpc_config \<Rightarrow> string list \<Rightarrow> string \<Rightarrow> (string \<times> string) option \<Rightarrow> RpcIdentityExpectation \<Rightarrow> InputRef list
      \<Rightarrow> ('w net, thrown, RpcObservationBundle) action" where
  "observe cfg urls txHash prior expectedIdentity inputOutPoints =
     withSession cfg urls (\<lambda>url. observe_session (rc_transport cfg) url txHash prior expectedIdentity inputOutPoints)"


section \<open>Failover\<close>

lemma on_world_apply: "on_world m n = (fst (m (nt_world n)), n\<lparr>nt_world := snd (m (nt_world n))\<rparr>)"
  by (simp add: on_world_def split_beta)

text \<open>A successful session: some endpoint of the list answered, after the ones before it failed.\<close>

lemma try_endpoints_Inr:
  "try_endpoints cfg operation e urls n = (Inr x, t) \<Longrightarrow>
     \<exists>url v w. url \<in> set urls \<and> operation url v = (Inr x, w) \<and> nt_world t = w \<and> nt_failures t url = None"
proof (induction urls arbitrary: e n)
  case (Cons url urls)
  show ?case
  proof (cases "operation url (nt_world n)")
    case (Pair r w)
    show ?thesis
    proof (cases r)
      case (Inl err)
      with Cons.prems Pair have "try_endpoints cfg operation (Some err) urls
          (noteEndpointFailure cfg url (n\<lparr>nt_world := w\<rparr>)) = (Inr x, t)"
        by (simp add: on_world_apply)
      from Cons.IH [OF this] show ?thesis by auto
    next
      case (Inr y)
      with Cons.prems Pair show ?thesis
        by (intro exI [of _ url]) (auto simp: on_world_apply noteEndpointSuccess_def)
    qed
  qed
qed simp

lemma healthyFirst_subset: "set (healthyFirst cfg urls n) \<subseteq> set urls"
  by (auto simp: healthyFirst_def Let_def dest: in_set_takeD)

lemma withSession_Inr:
  assumes "withSession cfg urls operation n = (Inr x, t)"
  shows "\<exists>url v w. url \<in> set urls \<and> operation url v = (Inr x, w) \<and> nt_world t = w"
  using try_endpoints_Inr [OF assms [unfolded withSession_def]] healthyFirst_subset by fastforce

lemma healthyFirst_nonempty: "urls \<noteq> [] \<Longrightarrow> healthyFirst cfg urls n \<noteq> []"
  by (auto simp: healthyFirst_def Let_def dest: arg_cong [where f = length])

end
