(* ===== verification/Monitoring.thy ===== *)
theory Monitoring
  imports RpcClient RepoProjection
begin

text \<open>
  The pure parts of workflows/reconcile: monitoring.ts, and the delays, conflict documents and
  terminal test at the top of reconcile.ts. A setting read from the environment is the integer
  \<open>Number\<close> made of it, rounded down, or \<open>None\<close> when it is unset, blank or not a number;
  delays in milliseconds are rounded down, as \<open>Date\<close> does with them.
\<close>

section \<open>Settings\<close>

definition clamp :: "int \<Rightarrow> int \<Rightarrow> int \<Rightarrow> int" where
  "clamp lo hi v = min (max v lo) hi"

definition boundedInteger :: "int option \<Rightarrow> int \<Rightarrow> int \<Rightarrow> int \<Rightarrow> int" where
  "boundedInteger value' fallback lo hi = (case value' of None \<Rightarrow> fallback | Some v \<Rightarrow> clamp lo hi v)"

definition contentionGraceMs :: "int option \<Rightarrow> int" where
  "contentionGraceMs parsed = (case parsed of None \<Rightarrow> 30000 | Some v \<Rightarrow> min (max v 1000) (10 * 60000))"

definition postSettlementMonitorMs :: "int option \<Rightarrow> int" where
  "postSettlementMonitorMs parsed = (case parsed of None \<Rightarrow> 0
     | Some v \<Rightarrow> if \<bar>v\<bar> > MAX_SAFE_INTEGER \<or> v < 0 then 0 else min v (7 * 24 * 60 * 60000))"

definition rpcCircuitThreshold :: "int option \<Rightarrow> nat" where
  "rpcCircuitThreshold parsed = nat (case parsed of None \<Rightarrow> 2 | Some v \<Rightarrow> min (max v 1) 10)"

definition rpcCircuitCooldownMs :: "int option \<Rightarrow> int" where
  "rpcCircuitCooldownMs parsed = (case parsed of None \<Rightarrow> 30000 | Some v \<Rightarrow> min (max v 1000) 300000)"

definition reconcileConcurrency :: "int option \<Rightarrow> int" where
  "reconcileConcurrency v = boundedInteger v 4 1 8"

definition ceil_div :: "int \<Rightarrow> int \<Rightarrow> int" where
  "ceil_div a b = - ((- a) div b)"

definition reconcileItemLeaseSeconds :: "int option \<Rightarrow> int" where
  "reconcileItemLeaseSeconds v =
     min 900 (max 120 (ceil_div (boundedInteger v 10000 1000 30000 * 7) 1000 + 30))"


section \<open>Monitoring\<close>

definition shouldContinueSettlementMonitoring :: "bool \<Rightarrow> timestamp option \<Rightarrow> timestamp \<Rightarrow> int \<Rightarrow> bool" where
  "shouldContinueSettlementMonitoring ready firstReadyAt nowMs horizonMs =
    (if \<not> ready \<or> horizonMs \<le> 0 then False
     else case firstReadyAt of None \<Rightarrow> False | Some startedMs \<Rightarrow> nowMs < startedMs + horizonMs)"

record ReverifyInput =
  rv_previouslySettled :: bool
  rv_previouslyVerified :: bool
  rv_priorCommittedBlockHash :: "string option"
  rv_currentCommittedBlockHash :: "string option"
  rv_reorgDetected :: bool

definition shouldReverifyExpectedCells :: "ReverifyInput \<Rightarrow> bool" where
  "shouldReverifyExpectedCells i \<longleftrightarrow> \<not> rv_previouslySettled i \<or> \<not> rv_previouslyVerified i \<or> rv_reorgDetected i
     \<or> \<not> truthy (rv_priorCommittedBlockHash i) \<or> \<not> truthy (rv_currentCommittedBlockHash i)
     \<or> rv_priorCommittedBlockHash i \<noteq> rv_currentCommittedBlockHash i"


section \<open>Delays and the terminal test\<close>

definition seen :: "ObservedStatus \<Rightarrow> bool" where
  "seen s \<longleftrightarrow> s \<in> {CO_PENDING, CO_PROPOSED, CO_COMMITTED}"

definition nextReconcileDelayMs :: "nat \<Rightarrow> ChainStatus \<Rightarrow> int" where
  "nextReconcileDelayMs attempt chainStatus =
    (if chainStatus \<in> {CS_PENDING, CS_PROPOSED, CS_COMMITTED} then 12000
     else if chainStatus = CS_UNKNOWN \<or> chainStatus = CS_UNOBSERVED then
       min (5 * 60000) (10000 * 2 ^ min attempt 5)
     else 20000)"

definition isTerminal :: "ExecutionSnapshot \<Rightarrow> string option \<Rightarrow> nat \<Rightarrow> bool" where
  "isTerminal snapshot assertionStatus expectedCount =
    (if sn_workflowStatus snapshot = WS_CONFLICTED \<or> sn_workflowStatus snapshot = WS_EXPIRED
        \<or> sn_chainStatus snapshot = CS_REJECTED then True
     else if sn_workflowStatus snapshot \<noteq> WS_CONFIRMED then False
     else expectedCount = 0 \<or> assertionStatus = Some ''VERIFIED'')"

definition expectedChain :: "Network \<Rightarrow> string option" where
  "expectedChain network = (case network of Mainnet \<Rightarrow> Some ''ckb'' | Testnet \<Rightarrow> Some ''ckb_testnet'' | Devnet \<Rightarrow> None)"


section \<open>Conflict documents\<close>

fun domain_flags :: "bool \<times> bool \<times> bool \<Rightarrow> InputRole list \<Rightarrow> bool \<times> bool \<times> bool" where
  "domain_flags fl [] = fl"
| "domain_flags (application, wallet, unknown) (r # rs) = domain_flags
     (if r = IR_APPLICATION_STATE then (True, wallet, unknown)
      else if r = IR_WALLET_FUNDING \<or> r = IR_FEE then (application, True, unknown)
      else (application, wallet, True)) rs"

definition inputConflictDomain :: "InputObservation list \<Rightarrow> ConflictDomain" where
  "inputConflictDomain observations =
    (case domain_flags (False, False, False) (map (\<lambda>i. ref_role (io_input i)) observations) of
       (application, wallet, unknown) \<Rightarrow>
         if application \<and> wallet then CD_MIXED
         else if application \<and> \<not> unknown then CD_APPLICATION
         else if wallet \<and> \<not> unknown then CD_WALLET
         else CD_UNKNOWN)"

definition observations_json :: "InputObservation list \<Rightarrow> json" where
  "observations_json os = JArr (map inputObservation_json os)"

definition contentionDetails :: "int option \<Rightarrow> json \<Rightarrow> InputInspection \<Rightarrow> json" where
  "contentionDetails graceSetting priorValue inspection =
    (let prior = asRecord priorValue;
         sameContention = (js_field prior ''classification'' = Some (JStr ''MEMPOOL_CONTENDED''));
         firstObservedAt = (case (sameContention, json_string (js_field prior ''firstObservedAt'')) of
            (True, Some f) \<Rightarrow> f | _ \<Rightarrow> iso (in_observedAt inspection));
         graceMs = (case (sameContention, json_number (js_field prior ''graceMs'')) of
            (True, Some g) \<Rightarrow> g | _ \<Rightarrow> contentionGraceMs graceSetting);
         baseMs = (case date_parse firstObservedAt of Some f \<Rightarrow> f | None \<Rightarrow> in_observedAt inspection) in
     JObj [(''source'', JStr ''reconciliation''), (''classification'', JStr ''MEMPOOL_CONTENDED''),
       (''canonicalSpendConfirmed'', JBool False),
       (''firstObservedAt'', JStr firstObservedAt),
       (''lastObservedAt'', JStr (iso (in_observedAt inspection))),
       (''observedAt'', JStr (iso (in_observedAt inspection))),
       (''graceMs'', JNum graceMs),
       (''graceExpiresAt'', JStr (iso (baseMs + graceMs))),
       (''graceExpired'', JBool (in_observedAt inspection \<ge> baseMs + graceMs)),
       (''tipBlockNumber'', opt_json (in_tipBlockNumber inspection)),
       (''inputDomain'', JStr (domain_name (inputConflictDomain (in_contendedInputs inspection)))),
       (''contendedInputs'', observations_json (in_contendedInputs inspection)),
       (''inputs'', observations_json (in_inputs inspection))])"

text \<open>\<open>{...fs, ...gs}\<close>.\<close>

definition obj_spread :: "(string \<times> json) list \<Rightarrow> (string \<times> json) list \<Rightarrow> (string \<times> json) list" where
  "obj_spread fs gs = foldl (\<lambda>acc (k, v). obj_set k v acc) fs gs"

text \<open>What the spend evidence reads of an inspection and of an execution.\<close>

definition spend_inspection :: "InputInspection \<Rightarrow> ConflictInputInspection" where
  "spend_inspection i = \<lparr>ci_observedAt = in_observedAt i, ci_tipBlockNumber = in_tipBlockNumber i,
     ci_inputs = map inputObservation_json (in_inputs i)\<rparr>"

definition spend_state :: "ExecutionRecord \<Rightarrow> ConflictEvidenceState" where
  "spend_state e = \<lparr>ce_confirmationPolicy = x_confirmationPolicy e, ce_conflictDetails = x_conflictDetails e\<rparr>"

definition policy_json :: "ConfirmationPolicy \<Rightarrow> json" where
  "policy_json p = (case p of Committed \<Rightarrow> JObj [(''mode'', JStr ''committed'')]
     | Depth b \<Rightarrow> JObj [(''mode'', JStr ''depth''), (''blocks'', JNum b)])"


section \<open>Theorems\<close>

lemma three_way: "(if P then a else if Q then b else c) \<in> {a, b, c}"
  by simp

lemma delay_bounds: "10000 \<le> nextReconcileDelayMs attempt chainStatus" "nextReconcileDelayMs attempt chainStatus \<le> 300000"
proof -
  define p where "p = (2::int) ^ min attempt 5"
  have "1 \<le> p" unfolding p_def by simp
  then have "10000 \<le> min (5 * 60000) (10000 * p)" "min (5 * 60000) (10000 * p) \<le> 300000" by linarith+
  moreover have "nextReconcileDelayMs attempt chainStatus \<in> {12000, min (5 * 60000) (10000 * p), 20000}"
    unfolding nextReconcileDelayMs_def p_def by (rule three_way)
  ultimately show "10000 \<le> nextReconcileDelayMs attempt chainStatus" "nextReconcileDelayMs attempt chainStatus \<le> 300000"
    by (auto simp del: min_less_iff_conj)
qed

lemma ceil_div_bounds: "t \<le> ceil_div t 1000 * 1000" "t \<le> 210000 \<Longrightarrow> ceil_div t 1000 \<le> 210"
proof -
  have "(- t) div 1000 * 1000 + (- t) mod 1000 = - t" by (rule div_mult_mod_eq)
  moreover have "0 \<le> (- t) mod 1000" by simp
  ultimately show "t \<le> ceil_div t 1000 * 1000" unfolding ceil_div_def by linarith
  assume "t \<le> 210000"
  then have "(- 210000) div 1000 \<le> (- t) div 1000" by (intro zdiv_mono1) simp_all
  then show "ceil_div t 1000 \<le> 210" unfolding ceil_div_def by simp
qed

lemma lease_covers: "reconcileItemLeaseSeconds v \<in> {120..900}"
  "boundedInteger v 10000 1000 30000 * 7 \<le> reconcileItemLeaseSeconds v * 1000"
proof -
  define t where "t = boundedInteger v 10000 1000 30000 * 7"
  have "boundedInteger v 10000 1000 30000 \<le> 30000" unfolding boundedInteger_def clamp_def
    by (cases v) simp_all
  then have "t \<le> 210000" unfolding t_def by linarith
  then have c: "t \<le> ceil_div t 1000 * 1000" "ceil_div t 1000 \<le> 210" using ceil_div_bounds by blast+
  have l: "reconcileItemLeaseSeconds v = min 900 (max 120 (ceil_div t 1000 + 30))"
    by (simp only: reconcileItemLeaseSeconds_def t_def)
  show "reconcileItemLeaseSeconds v \<in> {120..900}" unfolding l by simp
  from c(2) have "ceil_div t 1000 \<le> reconcileItemLeaseSeconds v" unfolding l by linarith
  with c(1) show "boundedInteger v 10000 1000 30000 * 7 \<le> reconcileItemLeaseSeconds v * 1000"
    unfolding t_def by linarith
qed

text \<open>The loop of \<open>inputConflictDomain\<close> collects which roles occur.\<close>

lemma domain_flags_eq: "domain_flags (a, w, u) rs =
    (a \<or> list_ex (\<lambda>r. r = IR_APPLICATION_STATE) rs, w \<or> list_ex (\<lambda>r. r = IR_WALLET_FUNDING \<or> r = IR_FEE) rs,
     u \<or> list_ex (\<lambda>r. r = IR_DEPENDENCY \<or> r = IR_OTHER) rs)"
proof (induction rs arbitrary: a w u)
  case (Cons r rs)
  then show ?case by (cases r) auto
qed simp

end
