(* ===== verification/Reconcile.thy ===== *)
theory Reconcile
  imports Monitoring RepoLeases
begin

text \<open>
  Models workflows/reconcile/src/reconcile.ts: one reconciliation pass over an intent, its retry
  and the batch worker. A pass is an action over the client's state, whose network is a host:
  the database next to the rest of the world. What other processes do to the database meanwhile
  happens inside the transport, while the pass waits for an answer, and in \<open>rn_others\<close>, just
  before each of the pass's own database calls; \<open>rn_locked\<close> are the execution rows that their
  open transactions hold locked. An answer of a node is read at its declared
  type; an answer of another shape is an error, as a property access on it would be.
\<close>

section \<open>Environment\<close>

record 'w host =
  h_db :: db
  h_world :: 'w

text \<open>Settings of the process, the standard library's URL parser and SHA-256, and the host.\<close>

record 'w reconcile_env =
  rn_rpc :: "'w host rpc_config"
  rn_others :: "'w host \<Rightarrow> 'w host"
  rn_locked :: "'w host \<Rightarrow> uuid list"
  rn_jsonb :: "json \<Rightarrow> json"
  rn_sha256 :: "nat list \<Rightarrow> nat list"
  rn_newURL :: "string \<Rightarrow> ParsedUrl option"
  rn_rpcUrls :: "string option list"
  rn_network :: "string option"
  rn_genesis :: "string option"
  rn_graceMs :: "int option"
  rn_monitorMs :: "int option"
  rn_concurrency :: "int option"
  rn_timeoutMs :: "int option"

type_synonym ('w, 'a) work = "('w host net, thrown, 'a) action"

definition on_db :: "'w reconcile_env \<Rightarrow> 'a repo \<Rightarrow> ('w, 'a) work" where
  "on_db env m = (\<lambda>n. let h = rn_others env (nt_world n) in
     (case m (h_db h) of (r, d) \<Rightarrow> (r, n\<lparr>nt_world := h\<lparr>h_db := d\<rparr>\<rparr>)))"

definition now_ms :: "'w reconcile_env \<Rightarrow> ('w, timestamp) work" where
  "now_ms env = readState (net_now (rn_rpc env))"

text \<open>A call of a function that throws API errors, and a call whose error is inspected.\<close>

definition lift_api :: "CellFlowError + 'a \<Rightarrow> ('s, thrown, 'a) action" where
  "lift_api x = lift_sum (map_sum ApiError id x)"

definition attempt :: "('s, 'e, 'a) action \<Rightarrow> ('s, 'e, 'e + 'a) action" where
  "attempt m = tryCatch (andThen m (\<lambda>x. ret (Inr x))) (\<lambda>e. ret (Inl e))"

definition endpointsFor :: "'w reconcile_env \<Rightarrow> string option \<Rightarrow> string list" where
  "endpointsFor env projectRpcUrl = parseRpcUrls (rn_newURL env) (projectRpcUrl # rn_rpcUrls env)"

definition network_name :: "Network \<Rightarrow> string" where
  "network_name n = (case n of Testnet \<Rightarrow> ''testnet'' | Mainnet \<Rightarrow> ''mainnet'' | Devnet \<Rightarrow> ''devnet'')"

definition identity_of :: "'w reconcile_env \<Rightarrow> ProjectRecord \<Rightarrow> RpcIdentityExpectation" where
  "identity_of env project = \<lparr>re_chain = expectedChain (p_network project),
     re_genesisHash = (case p_rpcGenesisHash project of Some g \<Rightarrow> Some g | None \<Rightarrow> rn_genesis env)\<rparr>"


section \<open>Answers at their declared types\<close>

definition malformed :: thrown where
  "malformed = PlainError ''RPC answer has an unexpected shape''"

definition script_of :: "json \<Rightarrow> RpcScript option" where
  "script_of v = (case (text_of (field_of v ''code_hash''), text_of (field_of v ''hash_type''), text_of (field_of v ''args'')) of
     (Some c, Some h, Some a) \<Rightarrow> Some \<lparr>rs_code_hash = c, rs_hash_type = h, rs_args = a\<rparr> | _ \<Rightarrow> None)"

definition output_of :: "json \<Rightarrow> RpcCellOutput option" where
  "output_of v = (case (text_of (field_of v ''capacity''), script_of (field_of v ''lock''),
       if field_of v ''type'' = JNull then Some None else map_option Some (script_of (field_of v ''type''))) of
     (Some c, Some l, Some t) \<Rightarrow> Some \<lparr>ro_capacity = c, ro_lock = l, ro_type = t\<rparr> | _ \<Rightarrow> None)"

definition transaction_of :: "json \<Rightarrow> RpcTransactionLike option" where
  "transaction_of v = (case (field_of v ''outputs'', field_of v ''outputs_data'') of
     (JArr os, JArr ds) \<Rightarrow> (case (normalize_all output_of os, normalize_all text_of ds) of
        (Some outputs, Some data') \<Rightarrow> Some \<lparr>rt_outputs = outputs, rt_outputs_data = data'\<rparr> | _ \<Rightarrow> None)
   | _ \<Rightarrow> None)"

definition cell_data_of :: "json \<Rightarrow> RpcCellData" where
  "cell_data_of v = (case v of JStr s \<Rightarrow> DataText s | JObj fs \<Rightarrow> DataObject (json_string (js_field fs ''content'')) (json_string (js_field fs ''hash''))
     | _ \<Rightarrow> DataNull)"

definition live_cell_of :: "json \<Rightarrow> RpcLiveCellLike option" where
  "live_cell_of v = (case text_of (field_of v ''status'') of
     None \<Rightarrow> None
   | Some status \<Rightarrow>
       (if field_of v ''cell'' = JNull then
          Some \<lparr>rl_status = status, rl_block_hash = text_of (field_of v ''block_hash''), rl_cell = None\<rparr>
        else map_option (\<lambda>out. \<lparr>rl_status = status, rl_block_hash = text_of (field_of v ''block_hash''),
               rl_cell = Some (out, cell_data_of (field_of (field_of v ''cell'') ''data''))\<rparr>)
             (output_of (field_of (field_of v ''cell'') ''output''))))"

definition decode :: "(json \<Rightarrow> 'a option) \<Rightarrow> json \<Rightarrow> thrown + 'a" where
  "decode f v = (case f v of None \<Rightarrow> Inl malformed | Some x \<Rightarrow> Inr x)"


section \<open>Assertions on a committed transaction\<close>

datatype EvaluationStatus = EV_PENDING | EV_VERIFIED | EV_FAILED

definition evaluation_name :: "EvaluationStatus \<Rightarrow> string" where
  "evaluation_name s = (case s of EV_PENDING \<Rightarrow> ''PENDING'' | EV_VERIFIED \<Rightarrow> ''VERIFIED'' | EV_FAILED \<Rightarrow> ''FAILED'')"

record Evaluation =
  el_status :: EvaluationStatus
  el_results :: "AssertionResult list option"
  el_reason :: "string option"

definition check_json :: "AssertionCheck \<Rightarrow> json" where
  "check_json c = JObj [(''field'', JStr (ck_field c)), (''expected'', ck_expected c), (''actual'', ck_actual c), (''ok'', JBool (ck_ok c))]"

definition assertionResult_json :: "AssertionResult \<Rightarrow> json" where
  "assertionResult_json r = obj_defined [(''ok'', Some (JBool (as_ok r))), (''outputIndex'', Some (JNum (as_outputIndex r))),
     (''mode'', Some (JStr (case as_mode r of Created \<Rightarrow> ''created'' | Live \<Rightarrow> ''live''))),
     (''checks'', Some (JArr (map check_json (as_checks r)))), (''evidence'', map_option JObj (as_evidence r))]"

definition results_json :: "AssertionResult list option \<Rightarrow> json" where
  "results_json rs = (case rs of None \<Rightarrow> JNull | Some l \<Rightarrow> JArr (map assertionResult_json l))"

definition canonical_json :: "bool option \<Rightarrow> json" where
  "canonical_json b = (case b of None \<Rightarrow> JNull | Some x \<Rightarrow> JBool x)"

definition with_canonicality :: "AssertionResult \<Rightarrow> string \<Rightarrow> CanonicalBlock \<Rightarrow> string \<Rightarrow> AssertionResult" where
  "with_canonicality liveResult blockHash canonical endpoint = liveResult\<lparr>
     as_evidence := Some (obj_spread (case as_evidence liveResult of None \<Rightarrow> [] | Some e \<Rightarrow> e)
       [(''liveBlockHash'', JStr blockHash), (''liveBlockNumber'', opt_json (cb_blockNumber canonical)),
        (''canonicalBlockHash'', opt_json (cb_canonicalBlockHash canonical)),
        (''canonicalAtObservation'', canonical_json (cb_canonical canonical)), (''rpcEndpoint'', JStr endpoint)]),
     as_checks := as_checks liveResult @ [check ''live.blockHashCanonical'' (JBool True) (canonical_json (cb_canonical canonical))
       (cb_canonical canonical = Some True)],
     as_ok := as_ok liveResult \<and> cb_canonical canonical = Some True\<rparr>"

text \<open>The check of a live Cell: an evaluation that ends the loop, or the results so far.\<close>

definition evaluate_live ::
    "'w reconcile_env \<Rightarrow> string list \<Rightarrow> string \<Rightarrow> string \<Rightarrow> AssertionResult list \<Rightarrow> ExpectedCellAssertion
      \<Rightarrow> ('w, Evaluation + AssertionResult list) work" where
  "evaluate_live env urls endpoint txHash results assertion =
     andThen (getLiveCell (rn_rpc env) urls txHash (ea_outputIndex assertion) (Some endpoint)) (\<lambda>answer.
     andThen (if answer = JNull then ret None else andThen (lift_sum (decode live_cell_of answer)) (\<lambda>l. ret (Some l))) (\<lambda>live.
     let liveResult = verifyLiveCell live assertion;
         blockHash = (case live of None \<Rightarrow> None | Some l \<Rightarrow> rl_block_hash l) in
     if \<not> as_ok liveResult then
       ret (Inl \<lparr>el_status = EV_FAILED, el_results = Some (results @ [liveResult]),
         el_reason = Some ''Expected output Cell is not live or no longer matches the asserted state''\<rparr>)
     else if \<not> truthy blockHash then ret (Inr (results @ [liveResult]))
     else andThen (verifyCanonicalBlockAt (rn_rpc env) urls endpoint (the blockHash)) (\<lambda>canonical.
       let checked = results @ [with_canonicality liveResult (the blockHash) canonical endpoint] in
       ret (case cb_canonical canonical of
          Some False \<Rightarrow> Inl \<lparr>el_status = EV_FAILED, el_results = Some checked,
            el_reason = Some ''Expected live Cell was reported from a block that is no longer canonical''\<rparr>
        | None \<Rightarrow> Inl \<lparr>el_status = EV_PENDING, el_results = Some checked,
            el_reason = Some ''Live Cell block canonicality could not yet be verified''\<rparr>
        | Some True \<Rightarrow> Inr checked))))"

fun evaluate_loop ::
    "'w reconcile_env \<Rightarrow> string list \<Rightarrow> string \<Rightarrow> string \<Rightarrow> RpcTransactionLike \<Rightarrow> AssertionResult list
      \<Rightarrow> ExpectedCellAssertion list \<Rightarrow> ('w, Evaluation) work" where
  "evaluate_loop env urls endpoint txHash tx results [] =
     ret \<lparr>el_status = EV_VERIFIED, el_results = Some results, el_reason = None\<rparr>"
| "evaluate_loop env urls endpoint txHash tx results (assertion # assertions) =
    (let created = verifyExpectedCell tx assertion; results' = results @ [created] in
     if \<not> as_ok created then
       ret \<lparr>el_status = EV_FAILED, el_results = Some results',
         el_reason = Some ''Committed transaction did not create the expected Cell state''\<rparr>
     else if ea_mode assertion = Some Live then
       andThen (tryCatch (evaluate_live env urls endpoint txHash results' assertion)
           (\<lambda>e. ret (Inl \<lparr>el_status = EV_PENDING, el_results = None, el_reason = None\<rparr>))) (\<lambda>outcome.
         case outcome of Inl stop \<Rightarrow> ret stop
         | Inr next' \<Rightarrow> evaluate_loop env urls endpoint txHash tx next' assertions)
     else evaluate_loop env urls endpoint txHash tx results' assertions)"

definition evaluateAssertions ::
    "'w reconcile_env \<Rightarrow> string list \<Rightarrow> string \<Rightarrow> string \<Rightarrow> json \<Rightarrow> ExpectedCellAssertion list \<Rightarrow> ('w, Evaluation) work" where
  "evaluateAssertions env urls endpoint txHash tx assertions =
    (if \<not> json_truthy tx then ret \<lparr>el_status = EV_PENDING, el_results = None, el_reason = None\<rparr>
     else andThen (lift_sum (decode transaction_of tx)) (\<lambda>t. evaluate_loop env urls endpoint txHash t [] assertions))"


section \<open>Corroboration by a second endpoint\<close>

definition js_unique :: "'a list \<Rightarrow> 'a list" where
  "js_unique xs = rev (remdups (rev xs))"

record Corroboration =
  co_confirmed :: bool
  co_requiredEndpoints :: nat
  co_observations :: "json list"

definition corroboration_json :: "Corroboration \<Rightarrow> json" where
  "corroboration_json c = JObj [(''confirmed'', JBool (co_confirmed c)), (''requiredEndpoints'', JNum (int (co_requiredEndpoints c))),
     (''observations'', JArr (co_observations c))]"

definition seen_state_json :: "string \<Rightarrow> InputInspection \<Rightarrow> json" where
  "seen_state_json endpoint i = JObj [(''endpoint'', JStr endpoint), (''state'', JStr (inspection_name (in_state i))),
     (''observedAt'', JStr (iso (in_observedAt i)))]"

fun corroborate_loop ::
    "'w reconcile_env \<Rightarrow> string list \<Rightarrow> InputInspection \<Rightarrow> InputRef list \<Rightarrow> RpcIdentityExpectation \<Rightarrow> json list \<Rightarrow> string list
      \<Rightarrow> ('w, Corroboration) work" where
  "corroborate_loop env urls primary inputs identity observations [] =
     ret \<lparr>co_confirmed = False, co_requiredEndpoints = 2, co_observations = observations\<rparr>"
| "corroborate_loop env urls primary inputs identity observations (endpoint # endpoints) =
    (if endpoint = in_endpoint primary then corroborate_loop env urls primary inputs identity observations endpoints
     else andThen (attempt (inspectInputOutPointsAt (rn_rpc env) urls endpoint inputs identity)) (\<lambda>r.
       case r of
         Inr secondary \<Rightarrow>
           let observed = observations @ [seen_state_json endpoint secondary] in
           if in_state secondary = II_CANONICALLY_SPENT
           then ret \<lparr>co_confirmed = True, co_requiredEndpoints = 2, co_observations = observed\<rparr>
           else corroborate_loop env urls primary inputs identity observed endpoints
       | Inl e \<Rightarrow> corroborate_loop env urls primary inputs identity (observations @
           [JObj [(''endpoint'', JStr endpoint), (''state'', JStr ''RPC_UNAVAILABLE''), (''error'', JStr (thrown_message e))]]) endpoints))"

definition corroborateCanonicalSpend ::
    "'w reconcile_env \<Rightarrow> string list \<Rightarrow> string list \<Rightarrow> InputInspection \<Rightarrow> InputRef list \<Rightarrow> RpcIdentityExpectation
      \<Rightarrow> ('w, Corroboration) work" where
  "corroborateCanonicalSpend env clientUrls configuredEndpoints primary inputs identity =
    (let unique = js_unique configuredEndpoints; first = [seen_state_json (in_endpoint primary) primary] in
     if length unique < 2 then
       ret \<lparr>co_confirmed = (in_state primary = II_CANONICALLY_SPENT), co_requiredEndpoints = 1, co_observations = first\<rparr>
     else corroborate_loop env clientUrls primary inputs identity first unique)"


section \<open>Competing candidates\<close>

definition attempt_inputs :: "InputRef list \<Rightarrow> OutPointRef list \<Rightarrow> InputRef list" where
  "attempt_inputs inputRefs outPoints = (if inputRefs \<noteq> [] then inputRefs else neutralInputRefs outPoints)"

text \<open>The observation row of an RPC answer, and of an RPC failure.\<close>

definition observation_input ::
    "IntentAggregate \<Rightarrow> uuid option \<Rightarrow> string \<Rightarrow> RpcObservationBundle \<Rightarrow> int \<Rightarrow> RpcObservationInput" where
  "observation_input aggregate attemptId txHash observed latencyMs =
    (let ob = rb_observation observed in
     \<lparr>oi_aggregate = aggregate, oi_attemptId = attemptId, oi_txHash = txHash, oi_rpcEndpoint = Some (rb_endpoint observed),
      oi_observedStatus = observed_name (ob_status ob), oi_blockHash = or_null (ob_blockHash ob),
      oi_blockNumber = or_null (ob_blockNumber ob), oi_tipBlockNumber = or_null (ob_tipBlockNumber ob),
      oi_canonicalBlockHash = or_null (ob_canonicalBlockHash ob),
      oi_inputState = map_option (\<lambda>i. inspection_name (in_state i)) (rb_inputInspection observed),
      oi_latencyMs = Some latencyMs, oi_rawObservation = Some (ob_raw ob), oi_observedAt = ob_observedAt ob\<rparr>)"

definition failure_raw :: "string \<Rightarrow> thrown \<Rightarrow> json" where
  "failure_raw source e = JObj [(''source'', JStr source), (''error'', JStr (thrown_message e))]"

definition failure_input ::
    "IntentAggregate \<Rightarrow> uuid option \<Rightarrow> string \<Rightarrow> json \<Rightarrow> int option \<Rightarrow> timestamp \<Rightarrow> RpcObservationInput" where
  "failure_input aggregate attemptId txHash raw latencyMs observedAt =
     \<lparr>oi_aggregate = aggregate, oi_attemptId = attemptId, oi_txHash = txHash, oi_rpcEndpoint = None,
      oi_observedStatus = ''RPC_FAILURE'', oi_blockHash = None, oi_blockNumber = None, oi_tipBlockNumber = None,
      oi_canonicalBlockHash = None, oi_inputState = None, oi_latencyMs = latencyMs, oi_rawObservation = Some raw,
      oi_observedAt = observedAt\<rparr>"

definition record_observation :: "'w reconcile_env \<Rightarrow> RpcObservationInput \<Rightarrow> ('w, unit) work" where
  "record_observation env input = on_db env (modifyState (recordRpcObservation (rn_jsonb env) input))"

definition update_candidate ::
    "'w reconcile_env \<Rightarrow> IntentAggregate \<Rightarrow> uuid \<Rightarrow> ExecutionSnapshot \<Rightarrow> ConflictType option \<Rightarrow> json \<Rightarrow> ('w, unit) work" where
  "update_candidate env aggregate attemptId snapshot conflictType conflictDetails =
     on_db env (modifyState (updateCandidateAttempt (rn_jsonb env) aggregate attemptId snapshot conflictType conflictDetails))"

definition candidate_base :: "IntentAggregate \<Rightarrow> TransactionAttemptRecord \<Rightarrow> ExecutionSnapshot" where
  "candidate_base aggregate candidate = (initialSnapshot (x_confirmationPolicy (ag_execution aggregate)))\<lparr>
     sn_submissionStatus := (if a_submissionStatus candidate = SS_NOT_SUBMITTED then SS_SUBMITTED else a_submissionStatus candidate),
     sn_chainStatus := a_chainStatus candidate, sn_workflowStatus := a_workflowStatus candidate\<rparr>"

definition rpc_transaction :: "json \<Rightarrow> json" where
  "rpc_transaction result = field_of result ''transaction''"

text \<open>The fingerprint that contradicts the recorded one, when both are known.\<close>

definition payload_mismatch :: "'w reconcile_env \<Rightarrow> string option \<Rightarrow> json \<Rightarrow> string option" where
  "payload_mismatch env expected tx =
    (if \<not> truthy expected \<or> \<not> json_truthy tx then None
     else case signedPayloadFingerprintSha256 (rn_sha256 env) tx of
       Some observed \<Rightarrow> if observed \<noteq> [] \<and> Some observed \<noteq> expected then Some observed else None
     | None \<Rightarrow> None)"

text \<open>
  What the scan does with the answer about one candidate: nothing more, or the promotion to
  make. The promotion is returned as a promise, so it runs outside the scan's \<open>try\<close>.
\<close>

definition candidate_answer ::
    "'w reconcile_env \<Rightarrow> IntentAggregate \<Rightarrow> TransactionAttemptRecord \<Rightarrow> RpcObservationBundle \<Rightarrow> ('w, PromoteInput option) work" where
  "candidate_answer env aggregate candidate observed =
    (let ob = rb_observation observed; base = candidate_base aggregate candidate in
     if ob_status ob \<noteq> CO_COMMITTED then
       andThen (lift_api (applyChainObservation base ob)) (\<lambda>sideApplied.
       andThen (update_candidate env aggregate (a_id candidate) (ar_snapshot sideApplied) None JNull) (\<lambda>_. ret None))
     else case payload_mismatch env (a_signedPayloadHashSha256 candidate) (rpc_transaction (rb_rpcResult observed)) of
       Some observedFingerprint \<Rightarrow>
         andThen (lift_api (setWorkflowStatus base WS_CONFLICTED)) (\<lambda>snapshot.
         andThen (update_candidate env aggregate (a_id candidate) snapshot (Some CT_SIGNED_PAYLOAD_MISMATCH)
           (JObj [(''source'', JStr ''competing_attempt_scan''),
             (''expectedSignedPayloadHashSha256'', opt_json (a_signedPayloadHashSha256 candidate)),
             (''observedSignedPayloadHashSha256'', JStr observedFingerprint),
             (''rpcEndpoint'', JStr (rb_endpoint observed)), (''observedAt'', JStr (iso (ob_observedAt ob)))])) (\<lambda>_. ret None))
     | None \<Rightarrow>
         andThen (lift_api (applyChainObservation base ob)) (\<lambda>applied.
         andThen (now_ms env) (\<lambda>now'.
         ret (Some \<lparr>pr_aggregate = aggregate, pr_attemptId = a_id candidate, pr_snapshot = ar_snapshot applied,
           pr_eventKind = (if sn_workflowStatus (ar_snapshot applied) = WS_CONFIRMED then ''COMPETING_ATTEMPT_CONFIRMED''
             else ''COMPETING_ATTEMPT_COMMITTED''),
           pr_reason = ''A previously unresolved transaction candidate committed on the canonical chain and now drives the intent projection'',
           pr_rawObservation = Some (ob_raw ob), pr_occurredAt = ob_observedAt ob, pr_nextReconcileAt = Some (now' + 12000)\<rparr>))))"

definition probe_candidate ::
    "'w reconcile_env \<Rightarrow> string list \<Rightarrow> RpcIdentityExpectation \<Rightarrow> IntentAggregate \<Rightarrow> TransactionAttemptRecord
      \<Rightarrow> ('w, PromoteInput option) work" where
  "probe_candidate env urls identity aggregate candidate =
     andThen (now_ms env) (\<lambda>startedAt.
     tryCatch
       (andThen (observe (rn_rpc env) urls (a_txHash candidate) None identity
           (attempt_inputs (a_inputRefs candidate) (a_inputOutPoints candidate))) (\<lambda>observed.
        andThen (now_ms env) (\<lambda>now'.
        andThen (record_observation env (observation_input aggregate (Some (a_id candidate)) (a_txHash candidate) observed (now' - startedAt))) (\<lambda>_.
        candidate_answer env aggregate candidate observed))))
       (\<lambda>e. andThen (now_ms env) (\<lambda>now'.
        andThen (record_observation env (failure_input aggregate (Some (a_id candidate)) (a_txHash candidate)
          (failure_raw ''competing_attempt_scan'' e) (Some (now' - startedAt)) now')) (\<lambda>_. ret None))))"

definition competing :: "IntentAggregate \<Rightarrow> TransactionAttemptRecord list" where
  "competing aggregate = filter (\<lambda>a. a_disposition a = AD_ACTIVE \<and> Some (a_id a) \<noteq> i_activeAttemptId (ag_intent aggregate))
     (ag_attempts aggregate)"

fun promote_candidates ::
    "'w reconcile_env \<Rightarrow> string list \<Rightarrow> RpcIdentityExpectation \<Rightarrow> IntentAggregate \<Rightarrow> TransactionAttemptRecord list
      \<Rightarrow> ('w, IntentAggregate option) work" where
  "promote_candidates env urls identity aggregate [] = ret None"
| "promote_candidates env urls identity aggregate (candidate # candidates) =
     andThen (probe_candidate env urls identity aggregate candidate) (\<lambda>promotion.
     case promotion of
       Some input \<Rightarrow> andThen (on_db env (promoteAttemptProjection (rn_jsonb env) input)) (\<lambda>a. ret (Some a))
     | None \<Rightarrow> promote_candidates env urls identity aggregate candidates)"

definition promoteCommittedCompetingCandidate ::
    "'w reconcile_env \<Rightarrow> string list \<Rightarrow> RpcIdentityExpectation \<Rightarrow> IntentAggregate \<Rightarrow> ('w, IntentAggregate option) work" where
  "promoteCommittedCompetingCandidate env urls identity aggregate =
     promote_candidates env urls identity aggregate (competing aggregate)"

end
