(* ===== verification/ReconcilePass.thy ===== *)
theory ReconcilePass
  imports Reconcile
begin

text \<open>
  The reconciliation pass of workflows/reconcile/src/reconcile.ts over one intent: what an RPC
  outage does, how an observation becomes the next snapshot with its conflict and assertion
  evidence, the write, the retry after a lost version race, and the batch worker. The local
  variables that the code updates along the pass are the record \<open>Draft\<close>.
\<close>

record ReconcileResult =
  rr_intentId :: string
  rr_txHash :: "string option"
  rr_changed :: bool
  rr_status :: string
  rr_assertionStatus :: "string option"
  rr_settlementReady :: bool
  rr_terminal :: bool
  rr_nextDelayMs :: "int option"
  rr_error :: "string option"

record Draft =
  dr_snapshot :: ExecutionSnapshot
  dr_assertionStatus :: "string option"
  dr_assertionResult :: json
  dr_eventKind :: string
  dr_reason :: "string option"
  dr_conflictType :: "ConflictType option"
  dr_conflictDetails :: json


section \<open>An RPC outage\<close>

definition outage_observation :: "thrown \<Rightarrow> timestamp \<Rightarrow> ChainObservation" where
  "outage_observation e observedAt = \<lparr>ob_status = CO_UNKNOWN, ob_observedAt = observedAt, ob_raw = failure_raw ''rpc_failure'' e,
     ob_blockHash = None, ob_blockNumber = None, ob_tipBlockNumber = None, ob_rejectionReason = None,
     ob_rpcEndpoint = None, ob_canonicalBlockHash = None, ob_priorCommitCanonical = None\<rparr>"

definition outage_snapshot_input ::
    "IntentAggregate \<Rightarrow> thrown \<Rightarrow> timestamp \<Rightarrow> ApplyObservationResult \<Rightarrow> timestamp \<Rightarrow> SnapshotInput" where
  "outage_snapshot_input aggregate e observedAt applied nextAt =
    (let details = x_conflictDetails (ag_execution aggregate) in
     \<lparr>si_aggregate = aggregate, si_snapshot = ar_snapshot applied,
      si_kind = event_kind_name (ev_kind (ar_event applied)),
      si_fromStatus = Some (overall_name (ev_fromOverall (ar_event applied))),
      si_toStatus = overall_name (ev_toOverall (ar_event applied)),
      si_reason = Some (case ev_reason (ar_event applied) of Some r \<Rightarrow> r | None \<Rightarrow> thrown_message e),
      si_rawObservation = Some (failure_raw ''rpc_failure'' e), si_occurredAt = observedAt,
      si_nextReconcileAt = Some nextAt, si_assertionStatus = None, si_assertionResult = None, si_conflictType = None,
      si_conflictDetails = (if spent_observed (asRecord details)
        then Some (breakSpendObservationContinuity details observedAt
          ''RPC observation failed before canonical spend evidence could be rechecked'') else None)\<rparr>)"

definition reconcile_outage :: "'w reconcile_env \<Rightarrow> IntentAggregate \<Rightarrow> string \<Rightarrow> thrown \<Rightarrow> ('w, ReconcileResult) work" where
  "reconcile_outage env aggregate txHash e =
     andThen (now_ms env) (\<lambda>observedAt.
     andThen (record_observation env (failure_input aggregate (i_activeAttemptId (ag_intent aggregate)) txHash
       (failure_raw ''rpc_failure'' e) None observedAt)) (\<lambda>_.
     andThen (lift_api (applyChainObservation (snapshotFromExecution (ag_execution aggregate)) (outage_observation e observedAt))) (\<lambda>applied.
     let nextDelayMs = nextReconcileDelayMs (x_reconcileAttempts (ag_execution aggregate)) CS_UNKNOWN in
     andThen (now_ms env) (\<lambda>now'.
     andThen (on_db env (applySnapshot (rn_jsonb env) (outage_snapshot_input aggregate e observedAt applied (now' + nextDelayMs)))) (\<lambda>eventId.
     ret \<lparr>rr_intentId = i_intentId (ag_intent aggregate), rr_txHash = Some txHash, rr_changed = (eventId \<noteq> None),
       rr_status = overall_name (deriveOverallStatus (ar_snapshot applied)),
       rr_assertionStatus = x_assertionStatus (ag_execution aggregate), rr_settlementReady = False, rr_terminal = False,
       rr_nextDelayMs = Some nextDelayMs, rr_error = None\<rparr>)))))"


section \<open>From an observation to the next snapshot\<close>

definition draft_start :: "IntentAggregate \<Rightarrow> ChainObservation \<Rightarrow> ApplyObservationResult \<Rightarrow> Draft" where
  "draft_start aggregate ob applied =
    (let e = ag_execution aggregate in
     \<lparr>dr_snapshot = (if x_submissionStatus e = SS_NODE_REJECTED \<and> seen (ob_status ob)
        then supersedeNodeRejectionFromChainEvidence (ar_snapshot applied) (ob_status ob) else ar_snapshot applied),
      dr_assertionStatus = x_assertionStatus e, dr_assertionResult = x_assertionResult e,
      dr_eventKind = event_kind_name (ev_kind (ar_event applied)), dr_reason = ev_reason (ar_event applied),
      dr_conflictType = x_conflictType e, dr_conflictDetails = x_conflictDetails e\<rparr>)"

definition expected_payload :: "IntentAggregate \<Rightarrow> string option" where
  "expected_payload aggregate = (case ag_activeAttempt aggregate of None \<Rightarrow> None | Some a \<Rightarrow> a_signedPayloadHashSha256 a)"

definition mismatch_of :: "'w reconcile_env \<Rightarrow> IntentAggregate \<Rightarrow> RpcObservationBundle \<Rightarrow> string option" where
  "mismatch_of env aggregate observed =
    (if seen (ob_status (rb_observation observed))
     then payload_mismatch env (expected_payload aggregate) (rpc_transaction (rb_rpcResult observed)) else None)"

definition draft_payload ::
    "'w reconcile_env \<Rightarrow> IntentAggregate \<Rightarrow> string \<Rightarrow> RpcObservationBundle \<Rightarrow> Draft \<Rightarrow> CellFlowError + Draft" where
  "draft_payload env aggregate txHash observed d =
    (case mismatch_of env aggregate observed of
       None \<Rightarrow> Inr d
     | Some observedHash \<Rightarrow> sum_bind (setWorkflowStatus (dr_snapshot d) WS_CONFLICTED) (\<lambda>snapshot.
         Inr (d\<lparr>dr_snapshot := snapshot, dr_conflictType := Some CT_SIGNED_PAYLOAD_MISMATCH,
           dr_conflictDetails := JObj [(''source'', JStr ''reconciliation''), (''classification'', JStr ''SIGNED_PAYLOAD_MISMATCH''),
             (''txHash'', JStr txHash), (''expectedSignedPayloadHashSha256'', opt_json (expected_payload aggregate)),
             (''observedSignedPayloadHashSha256'', JStr observedHash), (''rpcEndpoint'', JStr (rb_endpoint observed)),
             (''observedAt'', JStr (iso (ob_observedAt (rb_observation observed))))],
           dr_eventKind := ''SIGNED_PAYLOAD_MISMATCH'',
           dr_reason := Some ''CKB RPC returned the expected raw transaction hash but a different complete signed-payload fingerprint''\<rparr>)))"

text \<open>The exact transaction was found: an earlier suspicion is cleared.\<close>

definition draft_seen :: "IntentAggregate \<Rightarrow> Draft \<Rightarrow> Draft" where
  "draft_seen aggregate d =
    (let cleared = d\<lparr>dr_conflictType := None, dr_conflictDetails := JNull\<rparr> in
     if x_submissionStatus (ag_execution aggregate) = SS_NODE_REJECTED then
       cleared\<lparr>dr_eventKind := ''SUBMISSION_REJECTION_SUPERSEDED'',
         dr_reason := Some ''A later direct chain observation proved that the exact transaction exists; earlier node rejection evidence was superseded''\<rparr>
     else cleared)"

definition draft_contended :: "'w reconcile_env \<Rightarrow> IntentAggregate \<Rightarrow> InputInspection \<Rightarrow> Draft \<Rightarrow> Draft" where
  "draft_contended env aggregate inspection d =
    (let prior = x_conflictDetails (ag_execution aggregate);
         details = contentionDetails (rn_graceMs env) prior inspection;
         graceJustExpired = (js_field (asRecord details) ''graceExpired'' = Some (JBool True)
           \<and> js_field (asRecord prior) ''graceExpired'' \<noteq> Some (JBool True)) in
     d\<lparr>dr_conflictType := Some CT_INPUT_CONFLICT_SUSPECTED, dr_conflictDetails := details,
       dr_eventKind := (if graceJustExpired then ''INPUT_CONTENTION_GRACE_EXPIRED'' else ''INPUT_POOL_CONTENTION_DETECTED''),
       dr_reason := Some (if graceJustExpired
         then ''The configured input-contention grace window expired; recovery is now selected from the semantic input role while reconciliation continues''
         else ''Exact transaction is absent while an original input is live canonically but unavailable with tx-pool state'')\<rparr>)"

text \<open>The document of a spend observation, with the fields of the current step.\<close>

definition spent_details :: "IntentAggregate \<Rightarrow> InputInspection \<Rightarrow> (string \<times> json) list \<Rightarrow> json" where
  "spent_details aggregate inspection extra = JObj (obj_spread
     (nextSpentObservationDetails (x_conflictDetails (ag_execution aggregate)) (spend_inspection inspection)) extra)"

definition spent_fields :: "InputInspection \<Rightarrow> (string \<times> json) list" where
  "spent_fields inspection = [(''inputDomain'', JStr (domain_name (inputConflictDomain (in_spentInputs inspection)))),
     (''spentInputs'', observations_json (in_spentInputs inspection))]"

definition draft_spent_confirmed ::
    "IntentAggregate \<Rightarrow> InputInspection \<Rightarrow> Corroboration \<Rightarrow> Draft \<Rightarrow> CellFlowError + Draft" where
  "draft_spent_confirmed aggregate inspection corroboration d =
     sum_bind (setWorkflowStatus (dr_snapshot d) WS_CONFLICTED) (\<lambda>snapshot.
     Inr (d\<lparr>dr_snapshot := snapshot, dr_conflictType := Some CT_INPUT_SPENT,
       dr_conflictDetails := spent_details aggregate inspection ([(''source'', JStr ''reconciliation''),
         (''classification'', JStr ''INPUT_SPENT''), (''canonicalSpendConfirmed'', JBool True),
         (''confirmedAt'', JStr (iso (in_observedAt inspection))),
         (''confirmedTipBlockNumber'', opt_json (in_tipBlockNumber inspection)),
         (''confirmationPolicy'', policy_json (x_confirmationPolicy (ag_execution aggregate)))]
         @ spent_fields inspection @ [(''corroboration'', corroboration_json corroboration),
         (''inputs'', observations_json (in_inputs inspection))]),
       dr_eventKind := ''INPUT_CONFLICT_CONFIRMED'',
       dr_reason := Some (if co_requiredEndpoints corroboration > 1
         then ''Original input remained canonically spent through the recheck window and a second configured RPC corroborated the terminal conflict''
         else ''Original input remained canonically spent through the recheck window; only one trusted RPC endpoint is configured'')\<rparr>))"

definition draft_spent ::
    "'w reconcile_env \<Rightarrow> string list \<Rightarrow> string list \<Rightarrow> RpcIdentityExpectation \<Rightarrow> InputRef list \<Rightarrow> IntentAggregate
      \<Rightarrow> InputInspection \<Rightarrow> Draft \<Rightarrow> ('w, Draft) work" where
  "draft_spent env clientUrls urls identity inputs aggregate inspection d =
    (if conflictObservationMatured (spend_state (ag_execution aggregate)) (spend_inspection inspection) then
       andThen (corroborateCanonicalSpend env clientUrls urls inspection inputs identity) (\<lambda>corroboration.
       if co_confirmed corroboration then lift_api (draft_spent_confirmed aggregate inspection corroboration d)
       else ret (d\<lparr>dr_conflictType := Some CT_INPUT_CONFLICT_SUSPECTED,
         dr_conflictDetails := spent_details aggregate inspection
           (spent_fields inspection @ [(''corroboration'', corroboration_json corroboration)]),
         dr_eventKind := ''INPUT_CONFLICT_CORROBORATION_PENDING'',
         dr_reason := Some ''Primary RPC indicates canonical spend, but a second configured RPC has not corroborated the terminal conflict''\<rparr>))
     else ret (d\<lparr>dr_conflictType := Some CT_INPUT_CONFLICT_SUSPECTED,
         dr_conflictDetails := spent_details aggregate inspection (spent_fields inspection),
         dr_eventKind := ''INPUT_SPENT_OBSERVED'',
         dr_reason := Some ''Original input is no longer live while its creator transaction remains canonical; waiting for repeated canonical spend evidence before confirming conflict''\<rparr>))"

definition draft_uncertain :: "InputInspection \<Rightarrow> Draft \<Rightarrow> Draft" where
  "draft_uncertain inspection d =
    (let broken = (if spent_observed (asRecord (dr_conflictDetails d))
           then d\<lparr>dr_conflictType := Some CT_INPUT_CONFLICT_SUSPECTED,
             dr_conflictDetails := breakSpendObservationContinuity (dr_conflictDetails d) (in_observedAt inspection)
               ''Original input state became uncertain''\<rparr>
           else d) in
     broken\<lparr>dr_eventKind := ''INPUT_STATE_UNCERTAIN'',
       dr_reason := Some ''Exact transaction is absent but the original input state could not be proven; spend-evidence continuity is paused''\<rparr>)"

definition draft_inspected ::
    "'w reconcile_env \<Rightarrow> string list \<Rightarrow> string list \<Rightarrow> RpcIdentityExpectation \<Rightarrow> InputRef list \<Rightarrow> IntentAggregate
      \<Rightarrow> InputInspection \<Rightarrow> Draft \<Rightarrow> ('w, Draft) work" where
  "draft_inspected env clientUrls urls identity inputs aggregate inspection d =
    (case in_state inspection of
       II_MEMPOOL_CONTENDED \<Rightarrow> ret (draft_contended env aggregate inspection d)
     | II_CANONICALLY_SPENT \<Rightarrow> draft_spent env clientUrls urls identity inputs aggregate inspection d
     | II_ALL_LIVE \<Rightarrow> ret (d\<lparr>dr_conflictType := None, dr_conflictDetails := JNull, dr_eventKind := ''INPUT_STATE_INSPECTED'',
         dr_reason := Some ''Exact transaction is absent and all original inputs remain live and available''\<rparr>)
     | II_UNKNOWN \<Rightarrow> ret (draft_uncertain inspection d))"

definition draft_evidence ::
    "'w reconcile_env \<Rightarrow> string list \<Rightarrow> string list \<Rightarrow> RpcIdentityExpectation \<Rightarrow> InputRef list \<Rightarrow> IntentAggregate
      \<Rightarrow> RpcObservationBundle \<Rightarrow> Draft \<Rightarrow> ('w, Draft) work" where
  "draft_evidence env clientUrls urls identity inputs aggregate observed d =
    (let status = ob_status (rb_observation observed) in
     if mismatch_of env aggregate observed = None \<and> seen status then ret (draft_seen aggregate d)
     else if status = CO_UNKNOWN then
       (case rb_inputInspection observed of
          None \<Rightarrow> ret d
        | Some inspection \<Rightarrow> draft_inspected env clientUrls urls identity inputs aggregate inspection d)
     else ret d)"


section \<open>Assertions\<close>

definition draft_reset :: "ApplyObservationResult \<Rightarrow> Draft \<Rightarrow> Draft" where
  "draft_reset applied d = (if ar_reorgDetected applied \<or> sn_workflowStatus (dr_snapshot d) = WS_REORGED
     then d\<lparr>dr_assertionStatus := None, dr_assertionResult := JNull\<rparr> else d)"

definition reverify_input :: "IntentAggregate \<Rightarrow> ApplyObservationResult \<Rightarrow> Draft \<Rightarrow> ReverifyInput" where
  "reverify_input aggregate applied d = (let e = ag_execution aggregate in
     \<lparr>rv_previouslySettled = (x_settlementReadyAt e \<noteq> None),
      rv_previouslyVerified = (x_assertionStatus e = Some ''VERIFIED''),
      rv_priorCommittedBlockHash = x_committedBlockHash e,
      rv_currentCommittedBlockHash = sn_committedBlockHash (dr_snapshot d),
      rv_reorgDetected = ar_reorgDetected applied\<rparr>)"

definition draft_evaluated :: "timestamp \<Rightarrow> Evaluation \<Rightarrow> Draft \<Rightarrow> CellFlowError + Draft" where
  "draft_evaluated evaluatedAt evaluated d =
    (let d' = d\<lparr>dr_assertionStatus := Some (evaluation_name (el_status evaluated)),
                dr_assertionResult := results_json (el_results evaluated)\<rparr> in
     case el_status evaluated of
       EV_VERIFIED \<Rightarrow> Inr (d'\<lparr>dr_eventKind := ''ASSERTION_VERIFIED''\<rparr>)
     | EV_PENDING \<Rightarrow> Inr d'
     | EV_FAILED \<Rightarrow> sum_bind (setWorkflowStatus (dr_snapshot d) WS_CONFLICTED) (\<lambda>snapshot.
         Inr (d'\<lparr>dr_snapshot := snapshot, dr_conflictType := Some CT_EXPECTED_CELL_ASSERTION_FAILED,
           dr_conflictDetails := JObj [(''source'', JStr ''assertion''), (''classification'', JStr ''EXPECTED_CELL_ASSERTION_FAILED''),
             (''evaluatedAt'', JStr (iso evaluatedAt)), (''results'', results_json (el_results evaluated))],
           dr_eventKind := ''ASSERTION_FAILED'', dr_reason := el_reason evaluated\<rparr>)))"

definition draft_assertions ::
    "'w reconcile_env \<Rightarrow> string list \<Rightarrow> IntentAggregate \<Rightarrow> string \<Rightarrow> ApplyObservationResult \<Rightarrow> RpcObservationBundle \<Rightarrow> Draft
      \<Rightarrow> ('w, Draft) work" where
  "draft_assertions env clientUrls aggregate txHash applied observed d0 =
    (let d = draft_reset applied d0; assertions = i_expectedCells (ag_intent aggregate) in
     if sn_workflowStatus (dr_snapshot d) = WS_CONFIRMED \<and> assertions \<noteq> []
        \<and> shouldReverifyExpectedCells (reverify_input aggregate applied d) then
       andThen (evaluateAssertions env clientUrls (rb_endpoint observed) txHash (rpc_transaction (rb_rpcResult observed)) assertions) (\<lambda>evaluated.
       lift_api (draft_evaluated (ob_observedAt (rb_observation observed)) evaluated d))
     else ret d)"


section \<open>Writing the projection\<close>

definition ready_of :: "IntentAggregate \<Rightarrow> Draft \<Rightarrow> bool" where
  "ready_of aggregate d = isSettlementReady (dr_snapshot d) (dr_assertionStatus d)
     (int (length (i_expectedCells (ag_intent aggregate)))) (dr_conflictType d)"

definition unresolved_candidate :: "IntentAggregate \<Rightarrow> Draft \<Rightarrow> bool" where
  "unresolved_candidate aggregate d \<longleftrightarrow> sn_workflowStatus (dr_snapshot d) \<noteq> WS_CONFIRMED \<and> competing aggregate \<noteq> []"

definition monitoring_of :: "'w reconcile_env \<Rightarrow> IntentAggregate \<Rightarrow> ChainObservation \<Rightarrow> Draft \<Rightarrow> timestamp \<Rightarrow> bool" where
  "monitoring_of env aggregate ob d now' =
    (let firstReadyAt = (if ready_of aggregate d
           then Some (case x_settlementReadyAt (ag_execution aggregate) of Some t \<Rightarrow> t | None \<Rightarrow> ob_observedAt ob) else None) in
     shouldContinueSettlementMonitoring (ready_of aggregate d) firstReadyAt now' (postSettlementMonitorMs (rn_monitorMs env)))"

definition terminal_of :: "IntentAggregate \<Rightarrow> Draft \<Rightarrow> bool \<Rightarrow> bool" where
  "terminal_of aggregate d monitoring \<longleftrightarrow>
     isTerminal (dr_snapshot d) (dr_assertionStatus d) (length (i_expectedCells (ag_intent aggregate)))
     \<and> \<not> unresolved_candidate aggregate d \<and> \<not> monitoring"

definition rejection_resolved :: "IntentAggregate \<Rightarrow> ChainObservation \<Rightarrow> Draft \<Rightarrow> bool" where
  "rejection_resolved aggregate ob d \<longleftrightarrow> \<not> unresolved_candidate aggregate d \<and> ob_status ob = CO_UNKNOWN
     \<and> x_submissionStatus (ag_execution aggregate) = SS_NODE_REJECTED \<and> dr_conflictType d = None"

definition delay_of :: "'w reconcile_env \<Rightarrow> IntentAggregate \<Rightarrow> ChainObservation \<Rightarrow> Draft \<Rightarrow> bool \<Rightarrow> int option" where
  "delay_of env aggregate ob d monitoring =
    (if terminal_of aggregate d monitoring \<or> rejection_resolved aggregate ob d then None
     else if monitoring then Some (min 60000 (max 12000 (postSettlementMonitorMs (rn_monitorMs env) div 20)))
     else Some (nextReconcileDelayMs (x_reconcileAttempts (ag_execution aggregate)) (sn_chainStatus (dr_snapshot d))))"

definition pass_snapshot_input ::
    "IntentAggregate \<Rightarrow> ApplyObservationResult \<Rightarrow> ChainObservation \<Rightarrow> Draft \<Rightarrow> timestamp option \<Rightarrow> SnapshotInput" where
  "pass_snapshot_input aggregate applied ob d nextAt =
     \<lparr>si_aggregate = aggregate, si_snapshot = dr_snapshot d, si_kind = dr_eventKind d,
      si_fromStatus = Some (overall_name (ev_fromOverall (ar_event applied))),
      si_toStatus = overall_name (deriveOverallStatus (dr_snapshot d)), si_reason = or_null (dr_reason d),
      si_rawObservation = Some (ob_raw ob), si_occurredAt = ob_observedAt ob, si_nextReconcileAt = nextAt,
      si_assertionStatus = Some (dr_assertionStatus d), si_assertionResult = Some (dr_assertionResult d),
      si_conflictType = Some (dr_conflictType d), si_conflictDetails = Some (dr_conflictDetails d)\<rparr>"

definition finish_pass ::
    "'w reconcile_env \<Rightarrow> IntentAggregate \<Rightarrow> string \<Rightarrow> ApplyObservationResult \<Rightarrow> ChainObservation \<Rightarrow> Draft
      \<Rightarrow> ('w, ReconcileResult) work" where
  "finish_pass env aggregate txHash applied ob d =
     andThen (now_ms env) (\<lambda>checkedAt.
     let monitoring = monitoring_of env aggregate ob d checkedAt;
         nextDelayMs = delay_of env aggregate ob d monitoring in
     andThen (now_ms env) (\<lambda>now'.
     andThen (on_db env (applySnapshot (rn_jsonb env)
       (pass_snapshot_input aggregate applied ob d (map_option (\<lambda>ms. now' + ms) nextDelayMs)))) (\<lambda>eventId.
     ret \<lparr>rr_intentId = i_intentId (ag_intent aggregate), rr_txHash = Some txHash, rr_changed = (eventId \<noteq> None),
       rr_status = overall_name (deriveOverallStatus (dr_snapshot d)), rr_assertionStatus = dr_assertionStatus d,
       rr_settlementReady = ready_of aggregate d, rr_terminal = terminal_of aggregate d monitoring,
       rr_nextDelayMs = nextDelayMs, rr_error = None\<rparr>)))"

definition reconcile_observed ::
    "'w reconcile_env \<Rightarrow> string list \<Rightarrow> string list \<Rightarrow> RpcIdentityExpectation \<Rightarrow> InputRef list \<Rightarrow> IntentAggregate \<Rightarrow> string
      \<Rightarrow> timestamp \<Rightarrow> RpcObservationBundle \<Rightarrow> ('w, ReconcileResult) work" where
  "reconcile_observed env clientUrls urls identity inputs aggregate txHash startedAt observed =
    (let ob = rb_observation observed in
     andThen (now_ms env) (\<lambda>now'.
     andThen (record_observation env (observation_input aggregate (i_activeAttemptId (ag_intent aggregate)) txHash observed (now' - startedAt))) (\<lambda>_.
     andThen (lift_api (applyChainObservation (snapshotFromExecution (ag_execution aggregate)) ob)) (\<lambda>applied.
     andThen (lift_api (draft_payload env aggregate txHash observed (draft_start aggregate ob applied))) (\<lambda>d.
     andThen (draft_evidence env clientUrls urls identity inputs aggregate observed d) (\<lambda>d.
     andThen (draft_assertions env clientUrls aggregate txHash applied observed d) (\<lambda>d.
     finish_pass env aggregate txHash applied ob d)))))))"


section \<open>One pass\<close>

definition prior_commit :: "ExecutionSnapshot \<Rightarrow> (string \<times> string) option" where
  "prior_commit prior = (if truthy (sn_committedBlockHash prior) \<and> truthy (sn_committedBlockNumber prior)
     then Some (the (sn_committedBlockHash prior), the (sn_committedBlockNumber prior)) else None)"

definition reconcile_projection ::
    "'w reconcile_env \<Rightarrow> string list \<Rightarrow> string list \<Rightarrow> RpcIdentityExpectation \<Rightarrow> IntentAggregate \<Rightarrow> string
      \<Rightarrow> ('w, ReconcileResult) work" where
  "reconcile_projection env clientUrls urls identity aggregate txHash =
    (let e = ag_execution aggregate; inputs = attempt_inputs (x_inputRefs e) (x_inputOutPoints e) in
     andThen (now_ms env) (\<lambda>startedAt.
     andThen (attempt (observe (rn_rpc env) clientUrls txHash (prior_commit (snapshotFromExecution e)) identity inputs)) (\<lambda>r.
     case r of
       Inl err \<Rightarrow> reconcile_outage env aggregate txHash err
     | Inr observed \<Rightarrow> reconcile_observed env clientUrls urls identity inputs aggregate txHash startedAt observed)))"

definition untracked_result :: "IntentAggregate \<Rightarrow> ReconcileResult" where
  "untracked_result aggregate = \<lparr>rr_intentId = i_intentId (ag_intent aggregate), rr_txHash = None, rr_changed = False,
     rr_status = overall_name (deriveOverallStatus (snapshotFromExecution (ag_execution aggregate))),
     rr_assertionStatus = x_assertionStatus (ag_execution aggregate), rr_settlementReady = False, rr_terminal = False,
     rr_nextDelayMs = None, rr_error = None\<rparr>"

text \<open>
  The body, with what the scan of competing candidates does before it as a parameter: it gives
  the result of the pass over the promoted candidate, or nothing.
\<close>

definition once_body ::
    "'w reconcile_env \<Rightarrow> (string list \<Rightarrow> RpcIdentityExpectation \<Rightarrow> IntentAggregate \<Rightarrow> ('w, ReconcileResult option) work)
      \<Rightarrow> IntentAggregate \<Rightarrow> ('w, ReconcileResult) work" where
  "once_body env scan aggregate =
    (case or_null (x_txHash (ag_execution aggregate)) of
       None \<Rightarrow> ret (untracked_result aggregate)
     | Some txHash \<Rightarrow>
         andThen (on_db env (readState (getProject (i_projectId (ag_intent aggregate))))) (\<lambda>found.
         case found of
           None \<Rightarrow> throw (PlainError ''Project missing during reconciliation'')
         | Some project \<Rightarrow>
             let urls = endpointsFor env (p_rpcUrl project);
                 clientUrls = parseRpcUrls (rn_newURL env) (map Some urls);
                 identity = identity_of env project in
             if urls = [] then throw (PlainError ''No CKB RPC endpoint configured'')
             else if \<not> truthy (p_rpcUrl project) \<and> truthy (rn_network env) \<and> rn_network env \<noteq> Some (network_name (p_network project)) then
               throw (PlainError (''Project network '' @ network_name (p_network project)
                 @ '' does not match global CKB_NETWORK '' @ the (rn_network env)))
             else if clientUrls = [] then throw (PlainError ''At least one valid CKB RPC URL is required'')
             else andThen (scan clientUrls identity aggregate) (\<lambda>promoted.
               case promoted of Some r \<Rightarrow> ret r
               | None \<Rightarrow> reconcile_projection env clientUrls urls identity aggregate txHash)))"

definition reconcile_promoted :: "'w reconcile_env \<Rightarrow> IntentAggregate \<Rightarrow> ('w, ReconcileResult) work" where
  "reconcile_promoted env = once_body env (\<lambda>_ _ _. ret None)"

definition scan_competing ::
    "'w reconcile_env \<Rightarrow> string list \<Rightarrow> RpcIdentityExpectation \<Rightarrow> IntentAggregate \<Rightarrow> ('w, ReconcileResult option) work" where
  "scan_competing env clientUrls identity aggregate =
    (if competing aggregate = [] then ret None
     else andThen (promoteCommittedCompetingCandidate env clientUrls identity aggregate) (\<lambda>promoted.
       case promoted of None \<Rightarrow> ret None
       | Some a \<Rightarrow> andThen (reconcile_promoted env a) (\<lambda>r. ret (Some r))))"

definition reconcileIntentOnce :: "'w reconcile_env \<Rightarrow> IntentAggregate \<Rightarrow> ('w, ReconcileResult) work" where
  "reconcileIntentOnce env = once_body env (scan_competing env)"

fun reconcile_attempts :: "'w reconcile_env \<Rightarrow> nat \<Rightarrow> IntentAggregate \<Rightarrow> ('w, ReconcileResult) work" where
  "reconcile_attempts env 0 aggregate = throw (PlainError ''Reconciliation concurrency retry exhausted'')"
| "reconcile_attempts env (Suc left) aggregate =
     tryCatch (reconcileIntentOnce env aggregate) (\<lambda>e.
       if e \<noteq> OptimisticConcurrencyError \<or> left = 0 then throw e
       else andThen (on_db env (readState (getIntent (i_projectId (ag_intent aggregate)) (i_intentId (ag_intent aggregate))))) (\<lambda>refreshed.
         case refreshed of None \<Rightarrow> throw e | Some a \<Rightarrow> reconcile_attempts env left a))"

definition reconcileIntent :: "'w reconcile_env \<Rightarrow> IntentAggregate \<Rightarrow> ('w, ReconcileResult) work" where
  "reconcileIntent env initial = reconcile_attempts env 3 initial"


section \<open>The batch worker\<close>

text \<open>
  The runners of \<open>runWithConcurrency\<close> take the items in order; what other runners do to the
  database while one item is processed is, for that item, the work of others.
\<close>

definition skipped_result :: "IntentAggregate \<Rightarrow> string \<Rightarrow> string \<Rightarrow> ReconcileResult" where
  "skipped_result aggregate status error =
     \<lparr>rr_intentId = i_intentId (ag_intent aggregate), rr_txHash = x_txHash (ag_execution aggregate), rr_changed = False,
      rr_status = status, rr_assertionStatus = x_assertionStatus (ag_execution aggregate), rr_settlementReady = False,
      rr_terminal = False, rr_nextDelayMs = None, rr_error = Some error\<rparr>"

definition reconcile_item :: "'w reconcile_env \<Rightarrow> uuid \<Rightarrow> int \<Rightarrow> IntentAggregate \<Rightarrow> ('w, ReconcileResult) work" where
  "reconcile_item env leaseId leaseSeconds aggregate =
    (let executionId = x_id (ag_execution aggregate) in
     andThen (tryCatch
       (andThen (on_db env (\<lambda>s. case renewReconcileLease executionId leaseId leaseSeconds s of (b, t) \<Rightarrow> (Inr b, t))) (\<lambda>renewed.
        if \<not> renewed then ret (skipped_result aggregate ''LEASE_LOST'' ''Reconciliation lease was lost before work started'')
        else reconcileIntent env aggregate))
       (\<lambda>e. ret (skipped_result aggregate ''ERROR'' (thrown_message e)))) (\<lambda>result.
     andThen (on_db env (modifyState (releaseReconcileLease executionId leaseId))) (\<lambda>_. ret result)))"

definition reconcileDue :: "'w reconcile_env \<Rightarrow> int \<Rightarrow> ('w, ReconcileResult list) work" where
  "reconcileDue env limit =
    (let itemLeaseSeconds = reconcileItemLeaseSeconds (rn_timeoutMs env);
         boundedLimit = min (max limit 1) 100;
         initialLeaseSeconds = min 3600 (itemLeaseSeconds * max 1 (ceil_div boundedLimit (reconcileConcurrency (rn_concurrency env)))) in
     andThen (on_db env (\<lambda>s. (Inr (next_uuid s), s\<lparr>next_uuid := Suc (next_uuid s)\<rparr>))) (\<lambda>leaseId.
     andThen (readState (\<lambda>n. rn_locked env (nt_world n))) (\<lambda>locked.
     andThen (on_db env (\<lambda>s. case claimDueExecutions locked boundedLimit leaseId initialLeaseSeconds s of (due, t) \<Rightarrow> (Inr due, t))) (\<lambda>due.
     each (reconcile_item env leaseId itemLeaseSeconds) due))))"

end
