(* ===== verification/RpcEvidence.thy ===== *)
theory RpcEvidence
  imports RpcClient
begin

text \<open>
  What an answer of the RPC client rests on: a commit is reported only with the answer that
  proves its block canonical, a reorganisation only with a well-formed different hash, a spent
  input only with a canonical creator, and a failed session only after every endpoint it may
  use has been tried.
\<close>

section \<open>Answers\<close>

text \<open>An action returns a value, or fails, in some state.\<close>

definition returns :: "('s, 'e, 'a) action \<Rightarrow> 'a \<Rightarrow> bool" where
  "returns m x \<longleftrightarrow> (\<exists>v w. m v = (Inr x, w))"

definition fails :: "('s, 'e, 'a) action \<Rightarrow> bool" where
  "fails m \<longleftrightarrow> (\<exists>v e w. m v = (Inl e, w))"

lemma returnsI: "m v = (Inr x, w) \<Longrightarrow> returns m x"
  by (auto simp: returns_def)

lemma failsI: "m v = (Inl e, w) \<Longrightarrow> fails m"
  by (auto simp: fails_def)

text \<open>An endpoint answered a request, at some moment, with this result.\<close>

definition answered :: "'w transport \<Rightarrow> string \<Rightarrow> string \<Rightarrow> json list \<Rightarrow> json \<Rightarrow> bool" where
  "answered tr url method' params result \<longleftrightarrow> returns (session_call tr url method' params) result"

lemma answeredI: "session_call tr url method' params v = (Inr result, w) \<Longrightarrow> answered tr url method' params result"
  by (auto simp: answered_def intro: returnsI)

text \<open>The endpoint says that the block with this hash is the canonical one at a height.\<close>

definition block_canonical :: "'w transport \<Rightarrow> string \<Rightarrow> string option \<Rightarrow> string option \<Rightarrow> bool" where
  "block_canonical tr url blockHash blockNumber \<longleftrightarrow>
     (\<exists>answer. answered tr url ''get_block_hash'' [opt_json blockNumber] answer
        \<and> normalizeHash blockHash \<noteq> None \<and> normalizeHash (text_of answer) = normalizeHash blockHash)"

section \<open>Observations\<close>

lemma unknown_observation_sel [simp]:
  "ob_status (unknown_observation at url raw p) = CO_UNKNOWN"
  "ob_priorCommitCanonical (unknown_observation at url raw p) = p"
  by (simp_all add: unknown_observation_def)

lemma observe_missing_Inr:
  "observe_missing tr url at result p inputs v = (Inr b, w) \<Longrightarrow>
     rb_endpoint b = url \<and> ob_status (rb_observation b) = CO_UNKNOWN \<and> ob_priorCommitCanonical (rb_observation b) = p"
  by (auto simp: observe_missing_def elim!: andThen_InrE)

lemma observe_other_Inr:
  "observe_other tr url at result st p inputs v = (Inr b, w) \<Longrightarrow>
     rb_endpoint b = url \<and> ob_status (rb_observation b) \<noteq> CO_COMMITTED \<and> ob_priorCommitCanonical (rb_observation b) = p"
  by (auto simp: observe_other_def Let_def elim!: andThen_InrE split: if_splits)

text \<open>The proof that a reported commit carries.\<close>

definition commit_proof :: "'w transport \<Rightarrow> string \<Rightarrow> ChainObservation \<Rightarrow> bool" where
  "commit_proof tr url ob \<longleftrightarrow> block_canonical tr url (ob_blockHash ob) (ob_blockNumber ob)
     \<and> (\<exists>b t. parseHexBlockNumber (ob_blockNumber ob) = Some b \<and> parseHexBlockNumber (ob_tipBlockNumber ob) = Some t \<and> b \<le> t)"

lemma parseHex_truthy: "parseHexBlockNumber x = Some n \<Longrightarrow> truthy x"
  by (auto simp: parseHexBlockNumber_def split: if_splits)

lemma normalizeHash_truthy: "normalizeHash x = Some n \<Longrightarrow> truthy x"
  by (auto simp: normalizeHash_def split: if_splits)

lemma observe_committed_Inr:
  assumes "observe_committed tr url at result blockHash p v = (Inr b, w)"
  shows "rb_endpoint b = url \<and> ob_priorCommitCanonical (rb_observation b) = p
    \<and> (ob_status (rb_observation b) = CO_COMMITTED \<longrightarrow> commit_proof tr url (rb_observation b))"
proof -
  from assms obtain header tip h v1 v2 v3 where
    hs: "(if truthy (headerNumber header) then session_call tr url ''get_block_hash'' [opt_json (headerNumber header)]
        else ret JNull) v2 = (Inr h, v3)"
    and b: "b = committed_bundle url at result blockHash (headerNumber header) (headerNumber tip) (text_of h) p"
    unfolding observe_committed_def by (auto elim!: andThen_InrE)
  show ?thesis
  proof (cases "commit_verified blockHash (text_of h) (headerNumber header) (headerNumber tip)")
    case True
    then have n: "truthy (headerNumber header)" and t: "truthy (headerNumber tip)" and bh: "truthy blockHash"
      by (auto simp: commit_verified_def split: option.splits dest: parseHex_truthy normalizeHash_truthy)
    with hs have "answered tr url ''get_block_hash'' [opt_json (headerNumber header)] h"
      by (auto intro: answeredI)
    with True n t bh b show ?thesis
      by (auto simp: committed_bundle_def Let_def commit_proof_def block_canonical_def or_null_truthy commit_verified_def
          split: option.splits)
  qed (simp add: b committed_bundle_def Let_def)
qed

lemma prior_canonical_False:
  "prior_canonical prior canonical = Some False \<Longrightarrow>
     \<exists>blockHash n h. prior = Some (blockHash, n) \<and> normalizeHash (text_of canonical) = Some h \<and> normalizeHash (Some blockHash) \<noteq> Some h"
  by (auto simp: prior_canonical_def split: option.splits)

text \<open>The proof that a reported reorganisation carries.\<close>

definition reorg_proof :: "'w transport \<Rightarrow> string \<Rightarrow> (string \<times> string) option \<Rightarrow> bool" where
  "reorg_proof tr url prior \<longleftrightarrow> (\<exists>blockHash n answer h. prior = Some (blockHash, n)
     \<and> answered tr url ''get_block_hash'' [JStr n] answer
     \<and> normalizeHash (text_of answer) = Some h \<and> normalizeHash (Some blockHash) \<noteq> Some h)"

lemma observe_session_Inr:
  assumes "observe_session tr url txHash prior identity inputs v = (Inr b, w)"
  shows "rb_endpoint b = url
    \<and> (ob_status (rb_observation b) = CO_COMMITTED \<longrightarrow> commit_proof tr url (rb_observation b))
    \<and> (ob_priorCommitCanonical (rb_observation b) = Some False \<longrightarrow> reorg_proof tr url prior)
    \<and> returns (assertIdentity tr url identity) ()"
proof -
  from assms obtain ok u' canonical v1 v2 at result where
    id: "assertIdentity tr url identity v = (Inr ok, u')"
    and c: "(case prior of None \<Rightarrow> ret JNull | Some (_, n) \<Rightarrow> session_call tr url ''get_block_hash'' [JStr n]) v1 = (Inr canonical, v2)"
    and r: "(let priorCommitCanonical = prior_canonical prior canonical; txStatus = field_of result ''tx_status'' in
       if \<not> json_truthy result \<or> \<not> json_truthy txStatus then
         observe_missing tr url at result priorCommitCanonical inputs
       else if field_of txStatus ''status'' = JStr ''committed'' then
         observe_committed tr url at result (text_of (field_of txStatus ''block_hash'')) priorCommitCanonical
       else observe_other tr url at result txStatus priorCommitCanonical inputs) v2 = (Inr b, w)"
    unfolding observe_session_def by (elim andThen_InrE) (rule that, assumption+)
  from c have rp: "prior_canonical prior canonical = Some False \<Longrightarrow> reorg_proof tr url prior"
    by (auto simp: reorg_proof_def dest!: prior_canonical_False intro: answeredI split: option.splits)
  from r have "rb_endpoint b = url \<and> ob_priorCommitCanonical (rb_observation b) = prior_canonical prior canonical
    \<and> (ob_status (rb_observation b) = CO_COMMITTED \<longrightarrow> commit_proof tr url (rb_observation b))"
    by (auto simp: Let_def split: if_splits dest: observe_missing_Inr observe_committed_Inr observe_other_Inr)
  with rp id show ?thesis by (auto intro: returnsI)
qed


lemma observe_Inr:
  assumes "observe cfg urls txHash prior identity inputs n = (Inr b, t)"
  shows "rb_endpoint b \<in> set urls
    \<and> (ob_status (rb_observation b) = CO_COMMITTED \<longrightarrow> commit_proof (rc_transport cfg) (rb_endpoint b) (rb_observation b))
    \<and> (ob_priorCommitCanonical (rb_observation b) = Some False \<longrightarrow> reorg_proof (rc_transport cfg) (rb_endpoint b) prior)
    \<and> returns (assertIdentity (rc_transport cfg) (rb_endpoint b) identity) ()"
  using withSession_Inr [OF assms [unfolded observe_def]] observe_session_Inr by metis

text \<open>A network whose every endpoint gives the same answers, for the examples.\<close>

definition sample_hash :: "char \<Rightarrow> string" where
  "sample_hash c = ''0x'' @ replicate 64 c"

definition sample_answer :: "string \<Rightarrow> json" where
  "sample_answer method' =
    (if method' = ''get_transaction'' then JObj [(''transaction'', JObj [(''outputs'', JArr [JNull])]),
       (''tx_status'', JObj [(''status'', JStr ''committed''), (''block_hash'', JStr (sample_hash CHR ''1''))])]
     else if method' = ''get_header'' then JObj [(''number'', JStr ''0x10'')]
     else if method' = ''get_tip_header'' then JObj [(''number'', JStr ''0x20'')]
     else if method' = ''get_block_hash'' then JStr (sample_hash CHR ''1'')
     else JNull)"

definition sample_transport :: "unit transport" where
  "sample_transport = \<lparr>tr_post = (\<lambda>url method' params w. (Inr (JObj [(''result'', sample_answer method')]), w)), tr_now = (\<lambda>_. 0)\<rparr>"

definition sample_rpc :: "unit rpc_config" where
  "sample_rpc = \<lparr>rc_transport = sample_transport, rc_threshold = 2, rc_cooldownMs = 30000\<rparr>"

definition sample_net :: "unit net" where
  "sample_net = \<lparr>nt_failures = (\<lambda>_. None), nt_world = ()\<rparr>"

definition no_identity :: RpcIdentityExpectation where
  "no_identity = \<lparr>re_chain = None, re_genesisHash = None\<rparr>"

definition sample_observed :: "RpcObservationBundle" where
  "sample_observed = projr (fst (observe sample_rpc [''https://a/''] (sample_hash CHR ''5'')
      (Some (sample_hash CHR ''2'', ''0x10'')) no_identity [] sample_net))"

lemma sample_observed_run:
  "case observe sample_rpc [''https://a/''] (sample_hash CHR ''5'')
      (Some (sample_hash CHR ''2'', ''0x10'')) no_identity [] sample_net of (Inr b, t) \<Rightarrow> 
     ob_status (rb_observation b) = CO_COMMITTED \<and>   ob_priorCommitCanonical (rb_observation b) = Some False | _ \<Rightarrow> False"
 by code_simp

lemma sample_observed:
  "\<exists>t. observe sample_rpc [''https://a/''] (sample_hash CHR ''5'')
      (Some (sample_hash CHR ''2'', ''0x10'')) no_identity [] sample_net = (Inr sample_observed, t)"
  "ob_status (rb_observation sample_observed) = CO_COMMITTED"
  "ob_priorCommitCanonical (rb_observation sample_observed) = Some False"
  using sample_observed_run unfolding sample_observed_def by (auto split: prod.splits sum.splits)

text \<open>
  Property C28: the client reports a transaction as committed only with proof: the endpoint it
  used is a configured one that passed the identity check, it gave a well-formed hash of the
  block at the block's height that equals the hash of the transaction's block, and the tip it
  gave is not below that height.
\<close>

theorem committed_is_canonical:
  assumes "observe cfg urls txHash prior identity inputs n = (Inr b, t)"
    and "ob_status (rb_observation b) = CO_COMMITTED"
  shows "rb_endpoint b \<in> set urls
    \<and> returns (assertIdentity (rc_transport cfg) (rb_endpoint b) identity) ()
    \<and> commit_proof (rc_transport cfg) (rb_endpoint b) (rb_observation b)"
  using observe_Inr [OF assms(1)] assms(2) by simp

theorem committed_is_canonical_witness:
  "commit_proof sample_transport (rb_endpoint sample_observed) (rb_observation sample_observed)"
proof -
  from sample_observed(1) obtain t where "observe sample_rpc [''https://a/''] (sample_hash CHR ''5'')
      (Some (sample_hash CHR ''2'', ''0x10'')) no_identity [] sample_net = (Inr sample_observed, t)" ..
  from committed_is_canonical [OF this sample_observed(2)] show ?thesis
    unfolding sample_rpc_def rpc_config.simps by blast
qed

text \<open>
  The client says that a recorded commit left the canonical chain only when the
  endpoint gave, for the recorded height, a well-formed block hash different from the recorded
  one; an unavailable or malformed answer is never evidence of a reorganisation.
\<close>

theorem reorg_needs_proof:
  assumes "observe cfg urls txHash prior identity inputs n = (Inr b, t)"
    and "ob_priorCommitCanonical (rb_observation b) = Some False"
  shows "reorg_proof (rc_transport cfg) (rb_endpoint b) prior"
  using observe_Inr [OF assms(1)] assms(2) by simp

theorem reorg_needs_proof_witness:
  "reorg_proof sample_transport (rb_endpoint sample_observed) (Some (sample_hash CHR ''2'', ''0x10''))"
proof -
  from sample_observed(1) obtain t where "observe sample_rpc [''https://a/''] (sample_hash CHR ''5'')
      (Some (sample_hash CHR ''2'', ''0x10'')) no_identity [] sample_net = (Inr sample_observed, t)" ..
  from reorg_needs_proof [OF this sample_observed(3)] show ?thesis
    unfolding sample_rpc_def rpc_config.simps by blast
qed


section \<open>Input Cells\<close>

lemma js_trim_id: "list_all (\<lambda>c. \<not> is_js_space c) s \<Longrightarrow> js_trim s = s"
proof -
  have "dropWhile is_js_space t = t" if "list_all (\<lambda>c. \<not> is_js_space c) t" for t
    using that by (cases t) auto
  then show "list_all (\<lambda>c. \<not> is_js_space c) s \<Longrightarrow> js_trim s = s"
    by (simp add: js_trim_def)
qed

lemma hex_no_space: "is_hex_lower c \<Longrightarrow> \<not> is_js_space c"
  by (auto simp: is_hex_lower_def is_digit_def is_js_space_def)

lemma normalizeHash_idem:
  assumes "normalizeHash x = Some n"
  shows "normalizeHash (Some n) = Some n"
proof -
  from assms have l: "length n = 66" and p: "take 2 n = ''0x''" and h: "list_all is_hex_lower (drop 2 n)"
    and low: "toLowerCase n = n"
    by (auto simp: normalizeHash_def Let_def split: if_splits)
  from p have "n = ''0x'' @ drop 2 n" by (metis append_take_drop_id)
  moreover have "list_all (\<lambda>c. \<not> is_js_space c) (''0x'' @ drop 2 n)"
    using h hex_no_space by (auto simp: list_all_iff is_js_space_def)
  ultimately have "js_trim n = n" using js_trim_id by metis
  with l p h low show ?thesis by (auto simp: normalizeHash_def Let_def)
qed

lemma creator_canonical:
  assumes "creatorCanonicalEvidence tr url p v = (Inr c, w)" and "cr_canonical c"
  shows "cr_txStatus c = Some ''committed'' \<and> block_canonical tr url (cr_blockHash c) (cr_blockNumber c)"
  using assms unfolding creatorCanonicalEvidence_def
  by (auto simp: Let_def block_canonical_def normalizeHash_idem elim!: andThen_InrE split: if_splits
      dest!: answeredI) blast

text \<open>What counts as proof that an input is spent, and that it is contended in the pool.\<close>

definition spent_proof :: "'w transport \<Rightarrow> string \<Rightarrow> InputObservation \<Rightarrow> bool" where
  "spent_proof tr url i \<longleftrightarrow> io_canonicalRpcStatus i \<noteq> Some ''live'' \<and> io_creatorTxStatus i = Some ''committed''
     \<and> block_canonical tr url (io_creatorBlockHash i) (io_creatorBlockNumber i)"

definition contended_proof :: "InputObservation \<Rightarrow> bool" where
  "contended_proof i \<longleftrightarrow> io_canonicalRpcStatus i = Some ''live'' \<and> io_poolRpcStatus i \<noteq> Some ''live''"

lemma inspectInput_Inr:
  assumes "inspectInput tr url input v = (Inr i, w)"
  shows "io_input i = input \<and> (io_canonical i = CI_SPENT \<longrightarrow> spent_proof tr url i)
    \<and> (io_canonical i = CI_LIVE \<longrightarrow> io_canonicalRpcStatus i = Some ''live'' \<and>
         (io_poolAware i = PI_UNAVAILABLE \<longrightarrow> contended_proof i))"
  using assms unfolding inspectInput_def
  by (auto simp: Let_def spent_proof_def contended_proof_def dest!: creator_canonical
      elim!: andThen_InrE split: if_splits)

lemma each_Inr: "each f xs s = (Inr ys, t) \<Longrightarrow> list_all2 (\<lambda>x y. returns (f x) y) xs ys"
  by (induction xs arbitrary: ys s t) (auto elim!: andThen_InrE intro: returnsI)

lemma inspect_Inr:
  assumes "inspectInputOutPointsOnSession tr url inputs v = (Inr i, w)"
  obtains os where "in_inputs i = os" and "in_endpoint i = url" and "in_state i = inspection_state os"
    and "in_spentInputs i = filter (\<lambda>i. io_canonical i = CI_SPENT) os"
    and "in_contendedInputs i = filter (\<lambda>i. io_canonical i = CI_LIVE \<and> io_poolAware i = PI_UNAVAILABLE) os"
    and "in_unknownInputs i = filter (\<lambda>i. io_canonical i = CI_UNKNOWN) os"
    and "list_all2 (\<lambda>x y. returns (inspectInput tr url x) y) inputs os"
proof -
  from assms obtain os tip u where l: "each (inspectInput tr url) inputs v = (Inr os, u)"
    and i: "i = \<lparr>in_state = inspection_state os, in_inputs = os,
       in_spentInputs = filter (\<lambda>i. io_canonical i = CI_SPENT) os,
       in_contendedInputs = filter (\<lambda>i. io_canonical i = CI_LIVE \<and> io_poolAware i = PI_UNAVAILABLE) os,
       in_unknownInputs = filter (\<lambda>i. io_canonical i = CI_UNKNOWN) os,
       in_endpoint = url, in_observedAt = tr_now tr v, in_tipBlockNumber = headerNumber tip\<rparr>"
    unfolding inspectInputOutPointsOnSession_def by (auto elim!: andThen_InrE)
  show thesis by (rule that [OF _ _ _ _ _ _ each_Inr [OF l]]) (simp_all add: i)
qed

lemma inspected_inputs:
  "list_all2 (\<lambda>x y. returns (inspectInput tr url x) y) inputs os \<Longrightarrow> map io_input os = inputs"
  by (induction rule: list_all2_induct) (auto simp: returns_def dest: inspectInput_Inr)

lemma inspected_spent:
  "list_all2 (\<lambda>x y. returns (inspectInput tr url x) y) inputs os \<Longrightarrow> o' \<in> set os
     \<Longrightarrow> (io_canonical o' = CI_SPENT \<longrightarrow> spent_proof tr url o')
       \<and> (io_canonical o' = CI_LIVE \<and> io_poolAware o' = PI_UNAVAILABLE \<longrightarrow> contended_proof o')"
  by (induction rule: list_all2_induct) (auto simp: returns_def dest: inspectInput_Inr)

definition sample_input :: InputRef where
  "sample_input = \<lparr>ref_outPoint = \<lparr>op_txHash = sample_hash CHR ''3'', op_index = 0\<rparr>, ref_role = IR_FEE, ref_resourceKey = None\<rparr>"

definition sample_inspection :: InputInspection where
  "sample_inspection = projr (fst (inspectInputOutPointsOnSession sample_transport ''https://a/'' [sample_input] ()))"

lemma sample_inspection_run:
  "case inspectInputOutPointsOnSession sample_transport ''https://a/'' [sample_input] () of (Inr b, t) \<Rightarrow>
  length (in_spentInputs b) = 1 \<and> in_state b = II_CANONICALLY_SPENT | _ \<Rightarrow> False" by code_simp

lemma sample_inspection:
  "inspectInputOutPointsOnSession sample_transport ''https://a/'' [sample_input] () = (Inr sample_inspection, ())"
  "length (in_spentInputs sample_inspection) = 1" "in_state sample_inspection = II_CANONICALLY_SPENT"
  using sample_inspection_run unfolding sample_inspection_def by (auto split: prod.splits sum.splits)

text \<open>
  An inspection reports on exactly the inputs it was asked about, in order; it says
  that an input is spent exactly when one of them is, and each input it lists as spent is not
  live at that endpoint while its creator is committed in a block the endpoint calls canonical;
  each it lists as contended is live without the pool and not live with it.
\<close>

theorem spent_inputs_are_proved:
  assumes "inspectInputOutPointsOnSession tr url inputs v = (Inr i, w)"
  shows "map io_input (in_inputs i) = inputs
    \<and> (in_state i = II_CANONICALLY_SPENT \<longleftrightarrow> in_spentInputs i \<noteq> [])
    \<and> list_all (spent_proof tr url) (in_spentInputs i) \<and> list_all contended_proof (in_contendedInputs i)"
proof -
  from assms obtain os where i: "in_inputs i = os" "in_state i = inspection_state os"
    "in_spentInputs i = filter (\<lambda>i. io_canonical i = CI_SPENT) os"
    "in_contendedInputs i = filter (\<lambda>i. io_canonical i = CI_LIVE \<and> io_poolAware i = PI_UNAVAILABLE) os"
    and l: "list_all2 (\<lambda>x y. returns (inspectInput tr url x) y) inputs os"
    by (rule inspect_Inr)
  show ?thesis
    using inspected_inputs [OF l] inspected_spent [OF l]
    by (auto simp: i inspection_state_def list_all_iff list_ex_iff filter_empty_conv)
qed

theorem spent_inputs_are_proved_witness:
  "in_spentInputs sample_inspection \<noteq> [] \<and> spent_proof sample_transport ''https://a/'' (hd (in_spentInputs sample_inspection))"
  using spent_inputs_are_proved [OF sample_inspection(1)] sample_inspection(2)
  by (cases "in_spentInputs sample_inspection") auto


section \<open>When every endpoint fails\<close>

lemma try_endpoints_Inl:
  "try_endpoints cfg operation e urls n = (Inl err, t) \<Longrightarrow>
     (\<exists>m. err = ApiError (cellFlowError RPC_UNAVAILABLE m 503))
     \<and> list_all (\<lambda>url. fails (operation url)) urls"
proof (induction urls arbitrary: e n)
  case (Cons url urls)
  obtain r w where r: "operation url (nt_world n) = (r, w)" by (cases "operation url (nt_world n)")
  with Cons.prems obtain e' where e': "r = Inl e'" by (cases r) (auto simp: on_world_apply)
  with Cons.prems r have "try_endpoints cfg operation (Some e') urls
      (noteEndpointFailure cfg url (n\<lparr>nt_world := w\<rparr>)) = (Inl err, t)"
    by (simp add: on_world_apply)
  from Cons.IH [OF this] r e' show ?case by (auto intro: failsI)
qed auto

text \<open>
  A call of the client fails only with the error RPC_UNAVAILABLE, only after every
  endpoint that is not cooling down has been tried and has failed, and when all are cooling
  down after one of them has been tried all the same.
\<close>

theorem failover_exhausts:
  assumes "withSession cfg urls operation n = (Inl err, t)" and "urls \<noteq> []"
  shows "(\<exists>m. err = ApiError (cellFlowError RPC_UNAVAILABLE m 503))
    \<and> list_all (\<lambda>url. cooldown n url \<le> net_now cfg n \<longrightarrow> fails (operation url)) urls
    \<and> list_ex (\<lambda>url. fails (operation url)) urls"
proof -
  have t: "(\<exists>m. err = ApiError (cellFlowError RPC_UNAVAILABLE m 503))
     \<and> list_all (\<lambda>url. fails (operation url)) (healthyFirst cfg urls n)"
    using try_endpoints_Inl assms(1) unfolding withSession_def by blast
  moreover obtain u where "u \<in> set (healthyFirst cfg urls n)"
    using healthyFirst_nonempty [OF assms(2)] by (metis list.set_intros(1) neq_Nil_conv)
  moreover have "u \<in> set (healthyFirst cfg urls n)" if "u \<in> set urls" "cooldown n u \<le> net_now cfg n" for u
    using that by (auto simp: healthyFirst_def Let_def filter_empty_conv)
  ultimately show ?thesis
    using healthyFirst_subset [of cfg urls n] by (auto simp: list_all_iff list_ex_iff)
qed

theorem failover_exhausts_witness:
  "list_ex (\<lambda>url. fails (throw (PlainError ''down'') :: (unit, thrown, unit) action)) [''https://a/'']"
proof -
  obtain err t where "withSession sample_rpc [''https://a/''] (\<lambda>url. throw (PlainError ''down'') :: (unit, thrown, unit) action) sample_net
      = (Inl err, t)"
    by (auto simp: withSession_def healthyFirst_def sample_net_def sample_rpc_def sample_transport_def cooldown_def net_now_def
        on_world_apply)
  from failover_exhausts [OF this] show ?thesis by blast
qed

end
