(* ===== verification/ReconcileSafety.thy ===== *)
theory ReconcileSafety
  imports ReconcilePass RpcEvidence
begin

text \<open>
  What reconciliation does to the database, whatever the network answers and whatever other
  processes do meanwhile. The locale \<open>db_relation\<close> states what a relation on databases has to
  satisfy; a pass, and a whole batch, stays within every such relation. It is interpreted on the
  worker steps of the lease model, on the growth of versions and on the invariant.
\<close>

section \<open>Actions within a relation\<close>

named_theorems within_intros \<open>an action stays within a relation\<close>

definition ndb :: "'w host net \<Rightarrow> db" where
  "ndb n = h_db (nt_world n)"

text \<open>The database that a call made in a state of the world meets.\<close>

definition db_met :: "'w reconcile_env \<Rightarrow> 'w host net \<Rightarrow> db" where
  "db_met env n = h_db (rn_others env (nt_world n))"

definition hwithin :: "(db \<Rightarrow> db \<Rightarrow> bool) \<Rightarrow> ('w host, thrown, 'a) action \<Rightarrow> bool" where
  "hwithin R m \<longleftrightarrow> (\<forall>h. R (h_db h) (h_db (snd (m h))))"

definition within :: "(db \<Rightarrow> db \<Rightarrow> bool) \<Rightarrow> ('w, 'a) work \<Rightarrow> bool" where
  "within R m \<longleftrightarrow> (\<forall>n. R (ndb n) (ndb (snd (m n))))"

text \<open>The rest of the host stays within the relation: the network's answers and other processes.\<close>

definition quiet :: "(db \<Rightarrow> db \<Rightarrow> bool) \<Rightarrow> 'w reconcile_env \<Rightarrow> bool" where
  "quiet R env \<longleftrightarrow> (\<forall>url method' params. hwithin R (tr_post (rc_transport (rn_rpc env)) url method' params))
     \<and> (\<forall>h. R (h_db h) (h_db (rn_others env h)))"

lemma hwithinD: "hwithin R m \<Longrightarrow> m h = (r, h') \<Longrightarrow> R (h_db h) (h_db h')"
  unfolding hwithin_def by (metis snd_conv)

lemma withinD: "within R m \<Longrightarrow> m n = (r, n') \<Longrightarrow> R (ndb n) (ndb n')"
  unfolding within_def by (metis snd_conv)

locale db_preorder =
  fixes R :: "db \<Rightarrow> db \<Rightarrow> bool"
  assumes refl: "R s s"
    and trans: "R s t \<Longrightarrow> R t u \<Longrightarrow> R s u"
begin

lemma hwithin_pure: "hwithin R (ret x)" "hwithin R (throw e)" "hwithin R (readState f)"
  by (simp_all add: hwithin_def refl)

lemma hwithin_andThen: "hwithin R m \<Longrightarrow> (\<And>x. hwithin R (f x)) \<Longrightarrow> hwithin R (andThen m f)"
  unfolding hwithin_def andThen_def by (auto split: prod.splits sum.splits) (metis snd_conv trans)+

lemma hwithin_each: "(\<And>x. hwithin R (f x)) \<Longrightarrow> hwithin R (each f xs)"
  by (induction xs) (auto intro: hwithin_pure hwithin_andThen)

lemma within_pure: "within R (ret x)" "within R (throw e)" "within R (readState f)" "within R (lift_sum y)"
  "within R (lift_api z)" "within R (now_ms env)" "within R (Pair y)"
  by (simp_all add: within_def refl lift_api_def now_ms_def)

lemma within_andThen: "within R m \<Longrightarrow> (\<And>x. within R (f x)) \<Longrightarrow> within R (andThen m f)"
  unfolding within_def andThen_def by (auto split: prod.splits sum.splits) (metis snd_conv trans)+

lemma within_tryCatch: "within R m \<Longrightarrow> (\<And>e. within R (f e)) \<Longrightarrow> within R (tryCatch m f)"
  unfolding within_def tryCatch_def by (auto split: prod.splits sum.splits) (metis snd_conv trans)+

lemma within_attempt: "within R m \<Longrightarrow> within R (attempt m)"
  unfolding attempt_def by (intro within_tryCatch within_andThen within_pure)

lemma within_each: "(\<And>x. within R (f x)) \<Longrightarrow> within R (each f xs)"
  by (induction xs) (auto intro: within_pure within_andThen)

lemma within_on_world: "hwithin R m \<Longrightarrow> within R (on_world m)"
  by (simp add: within_def hwithin_def ndb_def on_world_apply)

lemma within_on_db: "quiet R env \<Longrightarrow> (\<And>s. R s (snd (m s))) \<Longrightarrow> within R (on_db env m)"
  by (auto simp: within_def on_db_def quiet_def ndb_def Let_def split_beta intro: trans)

lemma within_try_endpoints: "(\<And>u. hwithin R (operation u)) \<Longrightarrow> R (ndb n) (ndb (snd (try_endpoints cfg operation e urls n)))"
proof (induction urls arbitrary: e n)
  case (Cons url urls)
  have w: "R (ndb n) (h_db (snd (operation url (nt_world n))))"
    using Cons.prems [of url] by (simp add: hwithin_def ndb_def)
  show ?case
  proof (cases "fst (operation url (nt_world n))")
    case (Inl err)
    define n' where "n' = noteEndpointFailure cfg url (n\<lparr>nt_world := snd (operation url (nt_world n))\<rparr>)"
    from w have "R (ndb n) (ndb n')" by (simp add: n'_def noteEndpointFailure_def Let_def ndb_def)
    then show ?thesis using Cons.IH [of n' "Some err"] Cons.prems Inl trans
      by (fastforce simp: on_world_apply n'_def)
  qed (use w in \<open>simp add: on_world_apply noteEndpointSuccess_def ndb_def\<close>)
qed (simp add: refl)

lemma within_session: "(\<And>u. hwithin R (operation u)) \<Longrightarrow> within R (withSession cfg urls operation)"
  unfolding within_def withSession_def using within_try_endpoints by blast

lemmas steps = within_andThen within_tryCatch within_attempt within_pure within_each within_session within_on_world
  hwithin_andThen hwithin_pure hwithin_each

end


section \<open>A batch stays within every relation of its steps\<close>

text \<open>The relation contains every repository call and the lease operations of the worker.\<close>

locale reconcile_relation = db_preorder +
  fixes jsonb :: "json \<Rightarrow> json"
  assumes call: "repo_call jsonb s t \<Longrightarrow> R s t"
    and claim: "claimDueExecutions locked limit w secs s = (ags, t) \<Longrightarrow> R s t"
    and renew: "renewReconcileLease e w secs s = (b, t) \<Longrightarrow> R s t"
    and release: "R s (releaseReconcileLease e w s)"
    and fresh: "R s (s\<lparr>next_uuid := Suc (next_uuid s)\<rparr>)"
begin

lemma repo_ops:
  "R s (snd (applySnapshot jsonb si s))" "R s (snd (promoteAttemptProjection jsonb pi s))"
  "R s (recordRpcObservation jsonb oi s)" "R s (updateCandidateAttempt jsonb ag i sn ct cd s)"
  by (auto intro: call repo_call.intros surjective_pairing)

lemma lease_ops: "R s (snd (claimDueExecutions locked limit w secs s))" "R s (snd (renewReconcileLease e w secs s))"
  by (rule claim renew, rule surjective_pairing)+

lemma session_within:
  assumes q: "quiet R env"
  defines "tr \<equiv> rc_transport (rn_rpc env)"
  shows "hwithin R (session_call tr url method' params)"
    "hwithin R (assertIdentity tr url identity)"
    "hwithin R (inspectInputOutPointsOnSession tr url inputs)"
    "hwithin R (observe_session tr url txHash prior identity inputs)"
proof -
  have post: "hwithin R (tr_post tr url m ps)" for url m ps using q by (simp add: quiet_def tr_def)
  have call: "hwithin R (session_call tr url m ps)" for url m ps
    unfolding session_call_def Let_def by (intro steps post) (auto intro: steps split: option.splits)
  then show "hwithin R (session_call tr url method' params)" .
  show id: "hwithin R (assertIdentity tr url identity)"
    unfolding assertIdentity_def Let_def by (auto intro!: steps call)
  have "hwithin R (creatorCanonicalEvidence tr url p)" for p
    unfolding creatorCanonicalEvidence_def Let_def by (auto intro!: steps call)
  then have "hwithin R (inspectInput tr url i)" for i
    unfolding inspectInput_def Let_def by (auto intro!: steps call)
  then show ins: "hwithin R (inspectInputOutPointsOnSession tr url inputs)"
    unfolding inspectInputOutPointsOnSession_def by (intro steps call)
  have opt: "hwithin R (optional_inspection tr url inputs)"
    unfolding optional_inspection_def by (auto intro!: steps ins)
  show "hwithin R (observe_session tr url txHash prior identity inputs)"
    unfolding observe_session_def observe_missing_def observe_committed_def observe_other_def Let_def
    by (auto intro!: steps call id opt split: option.splits)
qed

lemma client_within:
  assumes q: "quiet R env"
  shows "within R (observe (rn_rpc env) urls txHash prior identity inputs)"
    "within R (inspectInputOutPointsAt (rn_rpc env) urls endpoint inputs identity)"
    "within R (getLiveCell (rn_rpc env) urls txHash i endpoint')"
    "within R (verifyCanonicalBlockAt (rn_rpc env) urls endpoint blockHash)"
  unfolding observe_def inspectInputOutPointsAt_def getLiveCell_def client_call_def verifyCanonicalBlockAt_def Let_def
  by (auto intro!: steps session_within [OF q])

lemma writes_within:
  assumes q: "quiet R env" and j: "rn_jsonb env = jsonb"
  shows "within R (record_observation env oi)" "within R (update_candidate env ag i sn ct cd)"
    "within R (on_db env (applySnapshot (rn_jsonb env) si))"
    "within R (on_db env (promoteAttemptProjection (rn_jsonb env) pi))"
    "within R (on_db env (readState f))"
  unfolding record_observation_def update_candidate_def j
  by (auto intro!: within_on_db [OF q] simp: repo_ops refl)

lemma evaluate_within:
  assumes q: "quiet R env"
  shows "within R (evaluateAssertions env urls endpoint txHash tx assertions)"
proof -
  have live: "within R (evaluate_live env urls endpoint txHash results a)" for results a
    unfolding evaluate_live_def Let_def by (auto intro!: steps client_within [OF q] split: option.splits)
  have "within R (evaluate_loop env urls endpoint txHash t results assertions)" for t results
    by (induction assertions arbitrary: results) (auto intro!: steps live simp: Let_def split: sum.splits)
  then show ?thesis unfolding evaluateAssertions_def by (auto intro!: steps)
qed

lemma corroborate_within:
  assumes q: "quiet R env"
  shows "within R (corroborateCanonicalSpend env clientUrls urls primary inputs identity)"
proof -
  have "within R (corroborate_loop env clientUrls primary inputs identity obs es)" for obs es
    by (induction es arbitrary: obs) (auto intro!: steps client_within [OF q] simp: Let_def split: sum.splits)
  then show ?thesis unfolding corroborateCanonicalSpend_def Let_def by (auto intro: steps)
qed

lemma promote_within:
  assumes q: "quiet R env" and j: "rn_jsonb env = jsonb"
  shows "within R (promoteCommittedCompetingCandidate env urls identity ag)"
proof -
  note w = writes_within [OF q j] client_within [OF q]
  have "within R (candidate_answer env ag c ob)" for c ob
    unfolding candidate_answer_def Let_def by (auto intro!: steps w split: option.splits)
  then have probe: "within R (probe_candidate env urls identity ag c)" for c
    unfolding probe_candidate_def by (intro steps w)
  have "within R (promote_candidates env urls identity ag cs)" for cs
    by (induction cs) (auto intro!: steps w probe split: option.splits)
  then show ?thesis unfolding promoteCommittedCompetingCandidate_def .
qed

lemma projection_within:
  assumes q: "quiet R env" and j: "rn_jsonb env = jsonb"
  shows "within R (reconcile_projection env clientUrls urls identity ag txHash)"
proof -
  note w = writes_within [OF q j] client_within [OF q] evaluate_within [OF q] corroborate_within [OF q]
  have out: "within R (reconcile_outage env ag txHash e)" for e
    unfolding reconcile_outage_def Let_def by (intro steps w)
  have fin: "within R (finish_pass env ag txHash applied ob d)" for applied ob d
    unfolding finish_pass_def Let_def by (intro steps w)
  have spent: "within R (draft_spent env clientUrls urls identity inputs ag i d)" for i d inputs
    unfolding draft_spent_def by (auto intro!: steps w)
  have ev: "within R (draft_evidence env clientUrls urls identity inputs ag ob d)" for ob d inputs
    unfolding draft_evidence_def draft_inspected_def Let_def
    by (auto intro!: steps spent split: option.splits InputInspectionState.splits)
  have as: "within R (draft_assertions env clientUrls ag txHash applied ob d)" for applied ob d
    unfolding draft_assertions_def Let_def by (auto intro!: steps w)
  have obs: "within R (reconcile_observed env clientUrls urls identity inputs ag txHash at ob)" for at ob inputs
    unfolding reconcile_observed_def Let_def by (intro steps w ev as fin)
  show ?thesis
    unfolding reconcile_projection_def Let_def by (auto intro!: steps w out obs split: sum.splits)
qed

lemma once_within:
  assumes q: "quiet R env" and j: "rn_jsonb env = jsonb"
  shows "within R (reconcileIntentOnce env ag)"
proof -
  note w = writes_within [OF q j] promote_within [OF q j] projection_within [OF q j]
  have body: "within R (once_body env scan ag)" if "\<And>u i a. within R (scan u i a)" for scan ag
    unfolding once_body_def Let_def by (auto intro!: steps w that split: option.splits)
  have prom: "within R (reconcile_promoted env ag)" for ag
    unfolding reconcile_promoted_def by (intro body steps)
  show ?thesis unfolding reconcileIntentOnce_def scan_competing_def
    by (intro body) (auto intro!: steps w prom split: option.splits)
qed

lemma item_within:
  assumes q: "quiet R env" and j: "rn_jsonb env = jsonb"
  shows "within R (reconcile_item env w secs ag)"
proof -
  have "within R (reconcile_attempts env k ag)" for k ag
    by (induction k arbitrary: ag) (auto intro!: steps writes_within [OF q j] once_within [OF q j] split: option.splits)
  then have intent: "within R (reconcileIntent env ag)" for ag unfolding reconcileIntent_def .
  show ?thesis unfolding reconcile_item_def Let_def
    by (auto intro!: steps intent within_on_db [OF q] simp: split_beta release lease_ops)
qed

lemma batch_within:
  assumes q: "quiet R env" and j: "rn_jsonb env = jsonb"
  shows "within R (reconcileDue env limit)"
  unfolding reconcileDue_def Let_def
  by (auto intro!: steps item_within [OF q j] within_on_db [OF q] simp: split_beta fresh lease_ops)

end


section \<open>The relations of interest\<close>

text \<open>A step of some worker of the lease model, or the allocation of an identifier.\<close>

inductive worker_step :: "(json \<Rightarrow> json) \<Rightarrow> db \<Rightarrow> db \<Rightarrow> bool" for jsonb where
  "reconcile_step jsonb w s t \<Longrightarrow> worker_step jsonb s t"
| "worker_step jsonb s (s\<lparr>next_uuid := Suc (next_uuid s)\<rparr>)"

inductive_cases worker_stepE: "worker_step jsonb s t"

lemma worker_steps: "reconcile_step jsonb w s t \<Longrightarrow> (worker_step jsonb)\<^sup>*\<^sup>* s t"
  by (auto intro: worker_step.intros)

interpretation worker: reconcile_relation "(worker_step jsonb)\<^sup>*\<^sup>*" jsonb for jsonb
proof unfold_locales
  show "claimDueExecutions locked limit w secs s = (ags, t) \<Longrightarrow> (worker_step jsonb)\<^sup>*\<^sup>* s t" for locked limit w secs s ags t
    by (auto intro: worker_steps reconcile_step.intros)
  show "renewReconcileLease e w secs s = (b, t) \<Longrightarrow> (worker_step jsonb)\<^sup>*\<^sup>* s t" for e w secs s b t
    by (auto intro: worker_steps reconcile_step.intros)
  show "(worker_step jsonb)\<^sup>*\<^sup>* s (releaseReconcileLease e w s)" for s e w
    by (auto intro: worker_steps reconcile_step.intros)
qed (auto intro: worker_steps reconcile_step.intros worker_step.intros)

lemma repo_inv_uuid: "repo_inv s \<Longrightarrow> repo_inv (s\<lparr>next_uuid := Suc (next_uuid s)\<rparr>)"
  by (force simp: repo_inv_def executions_ok_def attempts_ok_def intents_ok_def deliveries_ok_def event_ids_fresh_def)

interpretation kept: reconcile_relation "\<lambda>s t. repo_inv s \<longrightarrow> repo_inv t" jsonb for jsonb
proof unfold_locales
  show "claimDueExecutions locked limit w secs s = (ags, t) \<Longrightarrow> repo_inv s \<longrightarrow> repo_inv t" for locked limit w secs s ags t
    using reconcile_step_inv [OF reconcile_step.intros(1)] by blast
  show "renewReconcileLease e w secs s = (b, t) \<Longrightarrow> repo_inv s \<longrightarrow> repo_inv t" for e w secs s b t
    using reconcile_step_inv [OF reconcile_step.intros(2)] by blast
  show "repo_inv s \<longrightarrow> repo_inv (releaseReconcileLease e w s)" for s e w
    using reconcile_step_inv [OF reconcile_step.intros(3)] by blast
qed (auto intro: repo_call_inv repo_inv_uuid)

interpretation versions: reconcile_relation version_grows jsonb for jsonb
proof unfold_locales
  show "claimDueExecutions locked limit w secs s = (ags, t) \<Longrightarrow> version_grows s t" for locked limit w secs s ags t
    by (auto simp: claimDueExecutions_def lease_executions_def Let_def intro!: version_grows_update)
  show "renewReconcileLease e w secs s = (b, t) \<Longrightarrow> version_grows s t" for e w secs s b t
    by (auto simp: renewReconcileLease_def intro!: version_grows_update)
  show "version_grows s (releaseReconcileLease e w s)" for s e w
    by (auto simp: releaseReconcileLease_def intro!: version_grows_update)
  show "version_grows s t \<Longrightarrow> version_grows t u \<Longrightarrow> version_grows s u" for s t u
    by (rule version_grows_trans)
  show "version_grows s (s\<lparr>next_uuid := Suc (next_uuid s)\<rparr>)" for s
    by (auto simp: version_grows_def)
qed (auto intro: repo_call_grows)

lemma quiet_mono: "quiet R env \<Longrightarrow> (\<And>s t. R s t \<Longrightarrow> S s t) \<Longrightarrow> quiet S env"
  by (auto simp: quiet_def hwithin_def)

lemma worker_step_rel:
  assumes "worker_step jsonb s t"
  shows "repo_inv s \<longrightarrow> repo_inv t" "version_grows s t"
  using assms
  by (auto elim!: worker_stepE intro: kept.fresh [rule_format] versions.fresh reconcile_step_grows dest: reconcile_step_inv)

lemma worker_steps_rel:
  assumes "(worker_step jsonb)\<^sup>*\<^sup>* s t"
  shows "repo_inv s \<longrightarrow> repo_inv t" "version_grows s t"
  using assms
  by (induction rule: rtranclp_induct) (auto intro: worker_step_rel version_grows_trans dest: worker_step_rel)


section \<open>A batch is a sequence of worker steps\<close>

text \<open>A host for the examples: two endpoints that give the sample answers, nothing due.\<close>

definition sample_host :: "unit host" where
  "sample_host = \<lparr>h_db = empty_db, h_world = ()\<rparr>"

definition host_transport :: "unit host transport" where
  "host_transport = \<lparr>tr_post = (\<lambda>url method' params h. (Inr (JObj [(''result'', sample_answer method')]), h)), tr_now = (\<lambda>h. clock (h_db h))\<rparr>"

definition sample_env :: "unit reconcile_env" where
  "sample_env = \<lparr>rn_rpc = \<lparr>rc_transport = host_transport, rc_threshold = 2, rc_cooldownMs = 30000\<rparr>,
     rn_others = id, rn_locked = (\<lambda>_. []), rn_jsonb = id, rn_sha256 = id,
     rn_newURL = (\<lambda>u. Some \<lparr>u_href = u, u_protocol = ''https:'', u_username = [], u_password = [], u_hostname = u,
       u_host = u, u_port = [], u_pathname = ''/'', u_search = []\<rparr>),
     rn_rpcUrls = [Some ''https://a/ https://b/''], rn_network = None, rn_genesis = None, rn_graceMs = None,
     rn_monitorMs = None, rn_concurrency = None, rn_timeoutMs = None\<rparr>"

definition host_net :: "unit host net" where
  "host_net = \<lparr>nt_failures = (\<lambda>_. None), nt_world = sample_host\<rparr>"

lemma sample_quiet: "(\<And>s. R s s) \<Longrightarrow> quiet R sample_env"
  by (simp add: quiet_def hwithin_def sample_env_def host_transport_def)

text \<open>
  Whatever the network answers, a reconciliation batch changes the database only by
  steps of the lease model (repository calls, claims, renewals and releases of leases, new
  identifiers), interleaved with what other processes do, as long as those do only such steps
  too; so the invariant of the repository is kept and no execution's version ever decreases.
\<close>

theorem batch_refines_steps:
  assumes "quiet (worker_step (rn_jsonb env))\<^sup>*\<^sup>* env" and "reconcileDue env limit n = (r, t)"
  shows "(worker_step (rn_jsonb env))\<^sup>*\<^sup>* (ndb n) (ndb t) \<and> (repo_inv (ndb n) \<longrightarrow> repo_inv (ndb t))
    \<and> version_grows (ndb n) (ndb t)"
proof -
  have "(worker_step (rn_jsonb env))\<^sup>*\<^sup>* (ndb n) (ndb t)"
    using withinD [OF worker.batch_within [OF assms(1) HOL.refl] assms(2)] .
  then show ?thesis using worker_steps_rel by blast
qed

theorem batch_refines_steps_witness:
  "repo_inv (ndb (snd (reconcileDue sample_env 25 host_net)))"
proof -
  have "repo_inv (ndb host_net)" by (simp add: ndb_def host_net_def sample_host_def repo_inv_empty)
  then show ?thesis
    using batch_refines_steps [where limit = 25 and n = host_net, OF sample_quiet surjective_pairing] by simp
qed

end
