(* ===== verification/ReconcileProperties.thy ===== *)
theory ReconcileProperties
  imports ReconcileSafety
begin

text \<open>
  The properties of a reconciliation pass: an RPC outage keeps a committed projection, a
  terminal input conflict needs repeated and corroborated evidence, what the pass reports is
  what it stored, and an intent that is not finished is scheduled again within five minutes.
\<close>

section \<open>An RPC outage\<close>

text \<open>No endpoint answers any request.\<close>

definition network_down :: "'w reconcile_env \<Rightarrow> bool" where
  "network_down env \<longleftrightarrow> (\<forall>url method' params h. isl (fst (tr_post (rc_transport (rn_rpc env)) url method' params h)))"

lemma isl_andThen: "isl (fst (m s)) \<Longrightarrow> isl (fst (andThen m f s))"
  by (auto simp: andThen_def isl_def split: prod.splits)

lemma down_call: "network_down env \<Longrightarrow> isl (fst (session_call (rc_transport (rn_rpc env)) url method' params v))"
  unfolding network_down_def session_call_def by (rule isl_andThen) simp

lemma isl_andThen2: "(\<And>x s. isl (fst (f x s))) \<Longrightarrow> isl (fst (andThen m f s))"
  by (auto simp: andThen_def isl_def split: prod.splits sum.splits)

lemma down_observe:
  assumes d: "network_down env"
  shows "isl (fst (observe (rn_rpc env) urls txHash prior identity inputs n))"
proof -
  have session: "isl (fst (observe_session (rc_transport (rn_rpc env)) url txHash prior identity inputs v))" for url v
    unfolding observe_session_def by (intro isl_andThen2 isl_andThen down_call [OF d])
  have "isl (fst (try_endpoints cfg (\<lambda>url. observe_session (rc_transport (rn_rpc env)) url txHash prior identity inputs) e us n))"
    for cfg e us n
  proof (induction us arbitrary: e n)
    case (Cons u us)
    with session [of u "nt_world n"] show ?case by (auto simp: on_world_apply isl_def)
  qed simp
  then show ?thesis by (simp add: observe_def withSession_def)
qed

lemma attempt_Inl: "isl (fst (m s)) \<Longrightarrow> \<exists>e t. attempt m s = (Inr (Inl e), t)"
  by (auto simp: attempt_def tryCatch_def andThen_def isl_def split: prod.splits)

text \<open>Nothing but the RPC failure is recorded by the scan of competing candidates.\<close>

lemma down_probe:
  assumes d: "network_down env"
  shows "fst (probe_candidate env urls identity ag c n) = Inr None"
  using down_observe [OF d, of urls "a_txHash c" None identity "attempt_inputs (a_inputRefs c) (a_inputOutPoints c)" n]
  by (auto simp: probe_candidate_def tryCatch_def andThen_def now_ms_def isl_def record_observation_def on_db_def Let_def
      split: prod.splits)

lemma down_promote:
  assumes d: "network_down env"
  shows "fst (promote_candidates env urls identity ag cs n) = Inr None"
proof (induction cs arbitrary: n)
  case (Cons c cs)
  obtain t where "probe_candidate env urls identity ag c n = (Inr None, t)"
    using down_probe [OF d] by (metis prod.collapse)
  with Cons show ?case by (simp add: andThen_def)
qed simp

lemma down_once:
  assumes d: "network_down env" and r: "reconcileIntentOnce env ag n = (Inr res, t)"
    and tx: "or_null (x_txHash (ag_execution ag)) = Some txHash"
  obtains e u where "reconcile_outage env ag txHash e u = (Inr res, t)"
proof -
  from r tx obtain clientUrls urls identity v where
    body: "andThen (scan_competing env clientUrls identity ag) (\<lambda>promoted. case promoted of Some r \<Rightarrow> ret r
               | None \<Rightarrow> reconcile_projection env clientUrls urls identity ag txHash) v = (Inr res, t)"
    unfolding reconcileIntentOnce_def once_body_def
    by (auto simp: Let_def elim!: andThen_InrE split: option.splits if_splits)
  have "fst (scan_competing env clientUrls identity ag v) = Inr None"
    using down_promote [OF d, of clientUrls identity ag "competing ag" v]
    by (auto simp: scan_competing_def promoteCommittedCompetingCandidate_def andThen_def split: prod.splits)
  then obtain w where "scan_competing env clientUrls identity ag v = (Inr None, w)" by (metis prod.collapse)
  with body have p: "reconcile_projection env clientUrls urls identity ag txHash w = (Inr res, t)"
    by (simp add: andThen_def)
  have "\<exists>e u. attempt (observe (rn_rpc env) clientUrls txHash (prior_commit (snapshotFromExecution (ag_execution ag))) identity
      (attempt_inputs (x_inputRefs (ag_execution ag)) (x_inputOutPoints (ag_execution ag)))) w = (Inr (Inl e), u)"
    by (rule attempt_Inl [OF down_observe [OF d]])
  with p that show thesis
    by (auto simp: reconcile_projection_def Let_def now_ms_def andThen_def)
qed

lemma on_db_Inr: "on_db env m n = (Inr x, t) \<Longrightarrow> \<exists>s. m s = (Inr x, ndb t)"
  by (auto simp: on_db_def Let_def ndb_def split: prod.splits)

lemma applied_row:
  "applySnapshot jsonb si s = (Inr r, t) \<Longrightarrow> \<exists>e \<in> set (executions s).
     version_match (si_aggregate si) e \<and> snapshot_projection jsonb si (clock s) e \<in> set (executions t)"
  using apply_rows [of jsonb si s r t] sql_update_hit [of _ "executions s" "version_match (si_aggregate si)"] by metis

text \<open>The row that an outage leaves for a committed transaction.\<close>

definition outage_row :: "ExecutionRecord \<Rightarrow> ExecutionRecord \<Rightarrow> bool" where
  "outage_row prior e \<longleftrightarrow> x_id e = x_id prior \<and> x_chainStatus e = CS_COMMITTED
     \<and> x_committedBlockHash e = or_null (x_committedBlockHash prior)
     \<and> x_committedBlockNumber e = or_null (x_committedBlockNumber prior)
     \<and> x_confirmationCount e = x_confirmationCount prior
     \<and> (x_workflowStatus prior = WS_CONFIRMED \<longrightarrow> x_workflowStatus e = WS_CONFIRMED)
     \<and> x_conflictType e = x_conflictType prior \<and> x_assertionStatus e = x_assertionStatus prior \<and> x_nextReconcileAt e \<noteq> None"

lemma outage_applied:
  assumes "applyChainObservation (snapshotFromExecution prior) (outage_observation e at) = Inr applied"
    and "x_chainStatus prior = CS_COMMITTED"
  shows "sn_chainStatus (ar_snapshot applied) = CS_COMMITTED"
    "sn_committedBlockHash (ar_snapshot applied) = or_null (x_committedBlockHash prior)"
    "sn_committedBlockNumber (ar_snapshot applied) = or_null (x_committedBlockNumber prior)"
    "sn_confirmationCount (ar_snapshot applied) = x_confirmationCount prior"
    "x_workflowStatus prior = WS_CONFIRMED \<longrightarrow> sn_workflowStatus (ar_snapshot applied) = WS_CONFIRMED"
  using assms
  by (auto simp: applyChainObservation_def Let_def reorgAgainstPriorCommit_def outage_observation_def
      snapshotFromExecution_def split: if_splits)

lemma outage_stores:
  assumes r: "reconcile_outage env ag txHash err n = (Inr res, t)"
    and c: "x_chainStatus (ag_execution ag) = CS_COMMITTED"
  shows "\<not> rr_terminal res \<and> (\<exists>d. rr_nextDelayMs res = Some d \<and> 10000 \<le> d \<and> d \<le> 300000)
    \<and> list_ex (outage_row (ag_execution ag)) (executions (ndb t))"
proof -
  from r obtain at applied now' eventId u where
    a: "applyChainObservation (snapshotFromExecution (ag_execution ag)) (outage_observation err at) = Inr applied"
    and w: "on_db env (applySnapshot (rn_jsonb env) (outage_snapshot_input ag err at applied
          (now' + nextReconcileDelayMs (x_reconcileAttempts (ag_execution ag)) CS_UNKNOWN))) u = (Inr eventId, t)"
    and res: "rr_terminal res = False"
      "rr_nextDelayMs res = Some (nextReconcileDelayMs (x_reconcileAttempts (ag_execution ag)) CS_UNKNOWN)"
    unfolding reconcile_outage_def Let_def lift_api_def
    by (auto elim!: andThen_InrE simp: map_sum_def split: sum.splits)
  from on_db_Inr [OF w] obtain s where "applySnapshot (rn_jsonb env) (outage_snapshot_input ag err at applied
          (now' + nextReconcileDelayMs (x_reconcileAttempts (ag_execution ag)) CS_UNKNOWN)) s = (Inr eventId, ndb t)" ..
  from applied_row [OF this] obtain e where m: "version_match ag e"
    and e: "snapshot_projection (rn_jsonb env) (outage_snapshot_input ag err at applied
          (now' + nextReconcileDelayMs (x_reconcileAttempts (ag_execution ag)) CS_UNKNOWN)) (clock s) e \<in> set (executions (ndb t))"
    unfolding outage_snapshot_input_def Let_def SnapshotInput.simps by blast
  from outage_applied [OF a c] m have "outage_row (ag_execution ag) (snapshot_projection (rn_jsonb env)
      (outage_snapshot_input ag err at applied (now' + nextReconcileDelayMs (x_reconcileAttempts (ag_execution ag)) CS_UNKNOWN)) (clock s) e)"
    by (simp add: outage_row_def snapshot_projection_def outage_snapshot_input_def Let_def version_match_def
        si_nextConflictType_def si_nextAssertion_def)
  with e res delay_bounds show ?thesis by (auto simp: list_ex_iff)
qed


text \<open>An execution committed and confirmed on a host, with the network up or down.\<close>

definition committed_row :: ExecutionRecord where
  "committed_row = sample_row\<lparr>x_txHash := Some (sample_hash CHR ''5''), x_submissionStatus := SS_SUBMITTED,
     x_chainStatus := CS_COMMITTED, x_workflowStatus := WS_CONFIRMED, x_confirmationCount := 5,
     x_committedBlockHash := Some (sample_hash CHR ''1''), x_committedBlockNumber := Some ''0x10''\<rparr>"

definition tracked :: "ExecutionRecord \<Rightarrow> IntentAggregate" where
  "tracked e = sample_aggregate\<lparr>ag_execution := e\<rparr>"

definition tracked_net :: "ExecutionRecord \<Rightarrow> unit host net" where
  "tracked_net e = \<lparr>nt_failures = (\<lambda>_. None),
     nt_world = \<lparr>h_db = sample_db\<lparr>executions := [e], clock := 0\<rparr>, h_world = ()\<rparr>\<rparr>"

definition down_env :: "unit reconcile_env" where
  "down_env = sample_env\<lparr>rn_rpc := \<lparr>rc_transport = host_transport\<lparr>tr_post := (\<lambda>url method' params h. (Inl (PlainError ''down''), h))\<rparr>,
     rc_threshold = 2, rc_cooldownMs = 30000\<rparr>\<rparr>"

lemma returned: "isl (fst p) = False \<Longrightarrow> p = (Inr (projr (fst p)), snd p)"
  by (cases p) (auto simp: isl_def split: sum.splits)

lemma andThen_ret_isl [simp]: "isl (fst (andThen m (\<lambda>x. ret (g x)) s)) = isl (fst (m s))"
  by (auto simp: andThen_def split: prod.splits sum.splits)

lemma note_world [simp]: "nt_world (noteEndpointFailure cfg url n) = nt_world n" "nt_world (noteEndpointSuccess url n) = nt_world n"
  by (simp_all add: noteEndpointFailure_def noteEndpointSuccess_def Let_def)

lemma apply_isl: "isl (fst (applySnapshot jsonb si s)) = isl (update_execution (si_aggregate si) (snapshot_projection jsonb si (clock s)) s)"
  by (auto simp: applySnapshot_def Let_def split: sum.splits prod.splits)

lemma down_urls:
  "endpointsFor down_env None = [''https://a/'', ''https://b/'']"
  "parseRpcUrls (rn_newURL down_env) [Some ''https://a/'', Some ''https://b/''] = [''https://a/'', ''https://b/'']"
  by (simp_all add: endpointsFor_def down_env_def sample_env_def parseRpcUrls_def is_separator_def is_js_space_def)

lemma down_attempt: "\<exists>e u. attempt (observe (rn_rpc down_env) [''https://a/'', ''https://b/''] h prior
    \<lparr>re_chain = Some ''ckb_testnet'', re_genesisHash = None\<rparr> i) n = (Inr (Inl e), u) \<and> nt_world u = nt_world n"
  by (simp add: down_env_def observe_def withSession_def healthyFirst_def Let_def attempt_def tryCatch_def andThen_def
      on_world_apply observe_session_def assertIdentity_def session_call_def)

lemma tracked_sel [simp]: "ag_execution (tracked e) = e" "i_projectId (ag_intent (tracked e)) = 0"
  "ag_attempts (tracked e) = []" "i_activeAttemptId (ag_intent (tracked e)) = None" "i_id (ag_intent (tracked e)) = 1"
  "i_expectedCells (ag_intent (tracked e)) = []" "ag_activeAttempt (tracked e) = None"
  by (simp_all add: tracked_def sample_defs)

lemma tracked_net_sel [simp]: "getProject 0 (h_db (nt_world (tracked_net e))) = Some sample_project"
  "executions (h_db (nt_world (tracked_net e))) = [e]"
  by (simp_all add: tracked_net_def sample_db_def getProject_def mapProject_def sample_project_def)

lemma sample_hash_ne [simp]: "sample_hash c \<noteq> []" by (simp add: sample_hash_def)

lemma committed_sel [simp]: "x_txHash committed_row = Some (sample_hash CHR ''5'')" "x_id committed_row = 2"
  "x_projectId committed_row = 0" "x_chainStatus committed_row = CS_COMMITTED" "x_workflowStatus committed_row = WS_CONFIRMED"
  "x_conflictDetails committed_row = JNull" "x_conflictType committed_row = None" "x_submissionStatus committed_row = SS_SUBMITTED"
  by (simp_all add: committed_row_def sample_row_def initial_execution_def sample_defs)

lemma down_env_sel [simp]: "rn_others down_env = id" "rn_network down_env = None" "identity_of down_env sample_project
   = \<lparr>re_chain = Some ''ckb_testnet'', re_genesisHash = None\<rparr>"
  by (simp_all add: down_env_def sample_env_def identity_of_def expectedChain_def sample_project_def)

lemma sample_project_sel [simp]: "p_rpcUrl sample_project = None" by (simp add: sample_project_def)

lemma down_once_sample: "\<exists>e u. reconcileIntentOnce down_env (tracked committed_row) (tracked_net committed_row)
   = reconcile_outage down_env (tracked committed_row) (sample_hash CHR ''5'') e u \<and> nt_world u = nt_world (tracked_net committed_row)"
proof -
  obtain e u where a: "attempt (observe (rn_rpc down_env) [''https://a/'', ''https://b/''] (sample_hash CHR ''5'')
      (prior_commit (snapshotFromExecution committed_row)) \<lparr>re_chain = Some ''ckb_testnet'', re_genesisHash = None\<rparr>
      (attempt_inputs (x_inputRefs committed_row) (x_inputOutPoints committed_row))) (tracked_net committed_row) = (Inr (Inl e), u)"
    and u: "nt_world u = nt_world (tracked_net committed_row)" using down_attempt by metis
  have "on_db down_env (readState (getProject 0)) (tracked_net committed_row) = (Inr (Some sample_project), tracked_net committed_row)"
    by (simp add: on_db_def)
  then have "reconcileIntentOnce down_env (tracked committed_row) (tracked_net committed_row)
     = reconcile_outage down_env (tracked committed_row) (sample_hash CHR ''5'') e u"
    using a by (simp add: reconcileIntentOnce_def once_body_def down_urls andThen_Inr scan_competing_def competing_def
        reconcile_projection_def now_ms_def Let_def)
  with u show ?thesis by blast
qed

lemma committed_check: "execution_check (snapshot_projection jsonb si c committed_row) = None"
  if "si_nextConflictType si = None" "sn_submissionStatus (si_snapshot si) = SS_SUBMITTED" "0 \<le> sn_confirmationCount (si_snapshot si)"
  using that by (simp add: execution_check_def snapshot_projection_def conflict_type_allowed_def Let_def)

lemma committed_update:
  assumes "executions s = [committed_row]" "execution_check (f committed_row) = None" "x_txHash (f committed_row) = x_txHash committed_row"
  shows "\<not> isl (update_execution (tracked committed_row) f s)"
  using assms by (simp add: update_execution_def version_match_def tx_hash_taken_def)

lemma outage_isl:
  assumes u: "nt_world u = nt_world (tracked_net committed_row)"
  shows "\<not> isl (fst (reconcile_outage down_env (tracked committed_row) (sample_hash CHR ''5'') e u))"
proof -
  define at where "at = net_now (rn_rpc down_env) u"
  have "\<exists>applied. applyChainObservation (snapshotFromExecution committed_row) (outage_observation e at) = Inr applied
      \<and> sn_submissionStatus (ar_snapshot applied) = SS_SUBMITTED \<and> sn_confirmationCount (ar_snapshot applied) = 5"
    by (simp add: applyChainObservation_def reorgAgainstPriorCommit_def outage_observation_def snapshotFromExecution_def Let_def) (simp add: committed_row_def)
  then obtain applied where a: "applyChainObservation (snapshotFromExecution committed_row) (outage_observation e at) = Inr applied"
      "sn_submissionStatus (ar_snapshot applied) = SS_SUBMITTED" "sn_confirmationCount (ar_snapshot applied) = 5" by blast
  define u1 where "u1 = snd (record_observation down_env (failure_input (tracked committed_row) None (sample_hash CHR ''5'')
      (failure_raw ''rpc_failure'' e) None at) u)"
  have r: "record_observation down_env (failure_input (tracked committed_row) None (sample_hash CHR ''5'')
      (failure_raw ''rpc_failure'' e) None at) u = (Inr (), u1)" and x: "executions (h_db (nt_world u1)) = [committed_row]"
    using u by (simp_all add: u1_def record_observation_def on_db_def recordRpcObservation_def Let_def)
  have w: "\<not> isl (fst (on_db down_env (applySnapshot (rn_jsonb down_env) (outage_snapshot_input (tracked committed_row) e at applied k)) u1))" for k
    using committed_update [OF x, of "snapshot_projection (rn_jsonb down_env) (outage_snapshot_input (tracked committed_row) e at applied k) (clock (h_db (nt_world u1)))"] 
      committed_check [of "outage_snapshot_input (tracked committed_row) e at applied k"] a(2,3)
    by (simp add: on_db_def Let_def split_beta apply_isl outage_snapshot_input_def si_nextConflictType_def snapshot_projection_def)
  show ?thesis
    using w a(1) r by (simp add: reconcile_outage_def now_ms_def lift_api_def andThen_Inr Let_def at_def)
qed
text \<open>
  Property C29: while no endpoint answers, a pass over an intent whose transaction is committed
  leaves the execution committed in the same block at the same depth, confirmed if it was, with
  the same conflict and assertion status, and scheduled again; it reports a next attempt in ten
  seconds to five minutes and never a terminal state, also with competing candidates to scan.
\<close>

theorem outage_keeps_commit:
  assumes "network_down env" and "reconcileIntentOnce env ag n = (Inr res, t)"
    and "truthy (x_txHash (ag_execution ag))" and "x_chainStatus (ag_execution ag) = CS_COMMITTED"
  shows "\<not> rr_terminal res \<and> (\<exists>d. rr_nextDelayMs res = Some d \<and> 10000 \<le> d \<and> d \<le> 300000)
    \<and> list_ex (outage_row (ag_execution ag)) (executions (ndb t))"
proof -
  from assms(3) obtain txHash where "or_null (x_txHash (ag_execution ag)) = Some txHash" by (auto elim: truthyE)
  with assms(1,2) obtain e u where "reconcile_outage env ag txHash e u = (Inr res, t)" by (rule down_once)
  from outage_stores [OF this assms(4)] show ?thesis .
qed

theorem outage_keeps_commit_witness:
  "\<exists>res t. reconcileIntentOnce down_env (tracked committed_row) (tracked_net committed_row) = (Inr res, t)
     \<and> list_ex (outage_row committed_row) (executions (ndb t))"
proof -
  obtain e u where o': "reconcileIntentOnce down_env (tracked committed_row) (tracked_net committed_row)
     = reconcile_outage down_env (tracked committed_row) (sample_hash CHR ''5'') e u"
    and u: "nt_world u = nt_world (tracked_net committed_row)" using down_once_sample by blast
  obtain res t where r: "reconcileIntentOnce down_env (tracked committed_row) (tracked_net committed_row) = (Inr res, t)"
    using outage_isl [OF u] by (metis o' prod.collapse sum.collapse(2))
  have "network_down down_env" by (simp add: network_down_def down_env_def)
  from outage_keeps_commit [OF this r] r show ?thesis by auto
qed

end
