(* ===== verification/ReconcileReports.thy ===== *)
theory ReconcileReports
  imports ReconcileProperties
begin

text \<open>
  What a completed observation stores: the row that the pass writes, the evidence behind a
  terminal input conflict, the agreement of the reported result with the row, and the schedule.
\<close>

section \<open>The steps of a completed pass\<close>

lemma lift_api_Inr: "lift_api x s = (Inr y, t) \<longleftrightarrow> x = Inr y \<and> t = s"
  by (cases x) (auto simp: lift_api_def)

lemma pass_steps:
  assumes "reconcile_observed env clientUrls urls identity inputs ag txHash at observed n = (Inr res, t)"
  obtains applied d1 d2 d3 v1 v2 v3 v4 v5 where
    "applyChainObservation (snapshotFromExecution (ag_execution ag)) (rb_observation observed) = Inr applied"
    "draft_payload env ag txHash observed (draft_start ag (rb_observation observed) applied) = Inr d1"
    "draft_evidence env clientUrls urls identity inputs ag observed d1 v1 = (Inr d2, v2)"
    "draft_assertions env clientUrls ag txHash applied observed d2 v3 = (Inr d3, v4)"
    "finish_pass env ag txHash applied (rb_observation observed) d3 v5 = (Inr res, t)"
  using assms unfolding reconcile_observed_def Let_def
  by (auto elim!: andThen_InrE simp: lift_api_Inr)

text \<open>The row that the write leaves, and the result next to it.\<close>

lemma finish_row:
  assumes "finish_pass env ag txHash applied ob d v = (Inr res, t)"
  obtains checkedAt now' e and s :: db where
    "res = \<lparr>rr_intentId = i_intentId (ag_intent ag), rr_txHash = Some txHash, rr_changed = rr_changed res,
       rr_status = overall_name (deriveOverallStatus (dr_snapshot d)), rr_assertionStatus = dr_assertionStatus d,
       rr_settlementReady = ready_of ag d, rr_terminal = terminal_of ag d (monitoring_of env ag ob d checkedAt),
       rr_nextDelayMs = delay_of env ag ob d (monitoring_of env ag ob d checkedAt), rr_error = None\<rparr>"
    "version_match ag e"
    "snapshot_projection (rn_jsonb env) (pass_snapshot_input ag applied ob d (map_option (\<lambda>ms. now' + ms)
       (delay_of env ag ob d (monitoring_of env ag ob d checkedAt)))) (clock s) e \<in> set (executions (ndb t))"
proof -
  from assms obtain checkedAt now' eventId u where
    w: "on_db env (applySnapshot (rn_jsonb env) (pass_snapshot_input ag applied ob d (map_option (\<lambda>ms. now' + ms)
       (delay_of env ag ob d (monitoring_of env ag ob d checkedAt))))) u = (Inr eventId, t)"
    and res: "res = \<lparr>rr_intentId = i_intentId (ag_intent ag), rr_txHash = Some txHash, rr_changed = (eventId \<noteq> None),
       rr_status = overall_name (deriveOverallStatus (dr_snapshot d)), rr_assertionStatus = dr_assertionStatus d,
       rr_settlementReady = ready_of ag d, rr_terminal = terminal_of ag d (monitoring_of env ag ob d checkedAt),
       rr_nextDelayMs = delay_of env ag ob d (monitoring_of env ag ob d checkedAt), rr_error = None\<rparr>"
    unfolding finish_pass_def Let_def by (auto elim!: andThen_InrE)
  from on_db_Inr [OF w] obtain s where "applySnapshot (rn_jsonb env) (pass_snapshot_input ag applied ob d (map_option (\<lambda>ms. now' + ms)
       (delay_of env ag ob d (monitoring_of env ag ob d checkedAt)))) s = (Inr eventId, ndb t)" ..
  from applied_row [OF this] obtain e where m: "version_match ag e"
    and p: "snapshot_projection (rn_jsonb env) (pass_snapshot_input ag applied ob d (map_option (\<lambda>ms. now' + ms)
       (delay_of env ag ob d (monitoring_of env ag ob d checkedAt)))) (clock s) e \<in> set (executions (ndb t))"
    unfolding pass_snapshot_input_def SnapshotInput.simps by blast
  have r: "res = \<lparr>rr_intentId = i_intentId (ag_intent ag), rr_txHash = Some txHash, rr_changed = rr_changed res,
       rr_status = overall_name (deriveOverallStatus (dr_snapshot d)), rr_assertionStatus = dr_assertionStatus d,
       rr_settlementReady = ready_of ag d, rr_terminal = terminal_of ag d (monitoring_of env ag ob d checkedAt),
       rr_nextDelayMs = delay_of env ag ob d (monitoring_of env ag ob d checkedAt), rr_error = None\<rparr>"
    by (simp add: res)
  show thesis by (rule that [OF r m p])
qed

lemma pass_projection_sel [simp]:
  "x_conflictType (snapshot_projection jsonb (pass_snapshot_input ag applied ob d nextAt) c e) = dr_conflictType d"
  "x_nextReconcileAt (snapshot_projection jsonb (pass_snapshot_input ag applied ob d nextAt) c e) = nextAt"
  "x_assertionStatus (snapshot_projection jsonb (pass_snapshot_input ag applied ob d nextAt) c e) = dr_assertionStatus d"
  "x_workflowStatus (snapshot_projection jsonb (pass_snapshot_input ag applied ob d nextAt) c e) = sn_workflowStatus (dr_snapshot d)"
  "x_id (snapshot_projection jsonb (pass_snapshot_input ag applied ob d nextAt) c e) = x_id e"
  by (simp_all add: snapshot_projection_def pass_snapshot_input_def Let_def si_nextConflictType_def si_nextAssertion_def)


lemma list_exI: "x \<in> set xs \<Longrightarrow> P x \<Longrightarrow> list_ex P xs"
  by (auto simp: list_ex_iff)


section \<open>A terminal input conflict\<close>

text \<open>A second endpoint, among the configured ones, also saw an input canonically spent.\<close>

definition corroborated ::
    "'w reconcile_env \<Rightarrow> string list \<Rightarrow> string list \<Rightarrow> RpcIdentityExpectation \<Rightarrow> InputRef list \<Rightarrow> InputInspection \<Rightarrow> bool" where
  "corroborated env clientUrls urls identity inputs primary \<longleftrightarrow> (\<exists>endpoint secondary. endpoint \<in> set urls
     \<and> endpoint \<noteq> in_endpoint primary
     \<and> returns (inspectInputOutPointsAt (rn_rpc env) clientUrls endpoint inputs identity) secondary
     \<and> in_state secondary = II_CANONICALLY_SPENT)"

definition spent_evidence ::
    "'w reconcile_env \<Rightarrow> string list \<Rightarrow> string list \<Rightarrow> RpcIdentityExpectation \<Rightarrow> InputRef list \<Rightarrow> ExecutionRecord
      \<Rightarrow> RpcObservationBundle \<Rightarrow> bool" where
  "spent_evidence env clientUrls urls identity inputs prior observed \<longleftrightarrow>
     ob_status (rb_observation observed) = CO_UNKNOWN \<and>
     (case rb_inputInspection observed of None \<Rightarrow> False | Some primary \<Rightarrow> in_state primary = II_CANONICALLY_SPENT
        \<and> conflictObservationMatured (spend_state prior) (spend_inspection primary)
        \<and> (length (js_unique urls) < 2 \<or> corroborated env clientUrls urls identity inputs primary))"

lemma attempt_Inr: "attempt m s = (Inr (Inr x), t) \<Longrightarrow> returns m x"
  by (auto simp: attempt_def tryCatch_def andThen_def returns_def split: prod.splits sum.splits)

lemma corroborate_loop_confirmed:
  "corroborate_loop env clientUrls primary inputs identity obs es v = (Inr c, t) \<Longrightarrow> co_confirmed c
     \<Longrightarrow> corroborated env clientUrls es identity inputs primary"
proof (induction es arbitrary: obs v)
  case (Cons e es)
  have more: "corroborated env clientUrls es identity inputs primary \<Longrightarrow> corroborated env clientUrls (e # es) identity inputs primary"
    by (auto simp: corroborated_def)
  show ?case
  proof (cases "e = in_endpoint primary")
    case False
    with Cons.prems obtain r w where a: "attempt (inspectInputOutPointsAt (rn_rpc env) clientUrls e inputs identity) v = (Inr r, w)"
      and b: "(case r of Inr secondary \<Rightarrow>
           let observed = obs @ [seen_state_json e secondary] in
           if in_state secondary = II_CANONICALLY_SPENT
           then ret \<lparr>co_confirmed = True, co_requiredEndpoints = 2, co_observations = observed\<rparr>
           else corroborate_loop env clientUrls primary inputs identity observed es
       | Inl err \<Rightarrow> corroborate_loop env clientUrls primary inputs identity (obs @
           [JObj [(''endpoint'', JStr e), (''state'', JStr ''RPC_UNAVAILABLE''), (''error'', JStr (thrown_message err))]]) es) w = (Inr c, t)"
      by (auto elim!: andThen_InrE)
    show ?thesis
    proof (cases r)
      case (Inl err)
      with b Cons.IH Cons.prems(2) more show ?thesis by simp
    next
      case (Inr secondary)
      show ?thesis
      proof (cases "in_state secondary = II_CANONICALLY_SPENT")
        case True
        with Inr a False show ?thesis by (auto simp: corroborated_def dest!: attempt_Inr)
      next
        case f: False
        with b Inr Cons.IH Cons.prems(2) more show ?thesis by (simp add: Let_def)
      qed
    qed
  qed (use Cons more in simp)
qed auto

lemma js_unique_set [simp]: "set (js_unique xs) = set xs"
  by (simp add: js_unique_def)

lemma corroborate_confirmed:
  "corroborateCanonicalSpend env clientUrls urls primary inputs identity v = (Inr c, t) \<Longrightarrow> co_confirmed c
     \<Longrightarrow> length (js_unique urls) < 2 \<or> corroborated env clientUrls urls identity inputs primary"
  using corroborate_loop_confirmed [of env clientUrls primary inputs identity _ "js_unique urls" v c t]
  by (auto simp: corroborateCanonicalSpend_def Let_def corroborated_def split: if_splits)

lemma evidence_spent:
  assumes "draft_evidence env clientUrls urls identity inputs ag observed d v = (Inr d', t)"
    and "dr_conflictType d' = Some CT_INPUT_SPENT" and "dr_conflictType d \<noteq> Some CT_INPUT_SPENT"
  shows "spent_evidence env clientUrls urls identity inputs (ag_execution ag) observed
    \<and> sn_workflowStatus (dr_snapshot d') = WS_CONFLICTED"
  using assms
  by (auto simp: draft_evidence_def draft_inspected_def draft_seen_def draft_contended_def draft_uncertain_def Let_def
      draft_spent_def spent_evidence_def draft_spent_confirmed_def sum_bind_Inr lift_api_Inr setWorkflowStatus_def
      elim!: andThen_InrE dest: corroborate_confirmed
      split: if_splits option.splits InputInspectionState.splits)

lemma payload_conflict:
  "draft_payload env ag txHash observed (draft_start ag ob applied) = Inr d \<Longrightarrow>
     dr_conflictType d \<in> {x_conflictType (ag_execution ag), Some CT_SIGNED_PAYLOAD_MISMATCH}"
  by (auto simp: draft_payload_def draft_start_def sum_bind_Inr Let_def split: option.splits)

lemma assertions_conflict:
  assumes "draft_assertions env clientUrls ag txHash applied observed d v = (Inr d', t)"
  shows "(dr_conflictType d' = dr_conflictType d \<and> dr_snapshot d' = dr_snapshot d)
    \<or> dr_conflictType d' = Some CT_EXPECTED_CELL_ASSERTION_FAILED"
  using assms
  by (auto simp: draft_assertions_def draft_reset_def draft_evaluated_def sum_bind_Inr lift_api_Inr Let_def
      elim!: andThen_InrE split: if_splits EvaluationStatus.splits)

lemma pass_spent:
  assumes "reconcile_observed env clientUrls urls identity inputs ag txHash at observed n = (Inr res, t)"
    and "x_conflictType (ag_execution ag) \<noteq> Some CT_INPUT_SPENT"
  shows "list_ex (\<lambda>e. x_id e = x_id (ag_execution ag) \<and> (x_conflictType e = Some CT_INPUT_SPENT \<longrightarrow>
       x_workflowStatus e = WS_CONFLICTED
       \<and> spent_evidence env clientUrls urls identity inputs (ag_execution ag) observed)) (executions (ndb t))"
proof -
  from assms(1) obtain applied d1 d2 d3 v1 v2 v3 v4 v5 where
    p: "draft_payload env ag txHash observed (draft_start ag (rb_observation observed) applied) = Inr d1"
    and e: "draft_evidence env clientUrls urls identity inputs ag observed d1 v1 = (Inr d2, v2)"
    and a: "draft_assertions env clientUrls ag txHash applied observed d2 v3 = (Inr d3, v4)"
    and f: "finish_pass env ag txHash applied (rb_observation observed) d3 v5 = (Inr res, t)"
    by (rule pass_steps)
  have s: "x_id e' = x_id (ag_execution ag)" if "version_match ag e'" for e' using that by (simp add: version_match_def)
  have "spent_evidence env clientUrls urls identity inputs (ag_execution ag) observed \<and> sn_workflowStatus (dr_snapshot d3) = WS_CONFLICTED"
    if "dr_conflictType d3 = Some CT_INPUT_SPENT"
  proof -
    from that assertions_conflict [OF a] have d2: "dr_conflictType d2 = Some CT_INPUT_SPENT" "dr_snapshot d3 = dr_snapshot d2"
      by auto
    moreover have "dr_conflictType d1 \<noteq> Some CT_INPUT_SPENT" using payload_conflict [OF p] assms(2) by auto
    ultimately show ?thesis using evidence_spent [OF e] by simp
  qed
  with f s show ?thesis
    by (elim finish_row) (rule list_exI, assumption, simp)
qed


section \<open>The report and the schedule\<close>

text \<open>The result agrees with the row.\<close>

definition reports :: "ReconcileResult \<Rightarrow> ExecutionRecord \<Rightarrow> bool" where
  "reports res e \<longleftrightarrow> rr_status res = overall_name (deriveOverallStatus (snapshotFromExecution e))
     \<and> rr_assertionStatus res = x_assertionStatus e
     \<and> rr_settlementReady res = (x_settlementReadyAt e \<noteq> None)
     \<and> (rr_nextDelayMs res = None) = (x_nextReconcileAt e = None)"

text \<open>
  What may end the reconciliation of an intent: a final projection, or a node rejection whose
  inputs were seen live.
\<close>

definition finished :: "nat \<Rightarrow> ExecutionRecord \<Rightarrow> ExecutionRecord \<Rightarrow> bool" where
  "finished expected prior e \<longleftrightarrow> x_workflowStatus e = WS_CONFLICTED \<or> x_workflowStatus e = WS_EXPIRED \<or> x_chainStatus e = CS_REJECTED
     \<or> (x_workflowStatus e = WS_CONFIRMED \<and> (expected = 0 \<or> x_assertionStatus e = Some ''VERIFIED''))
     \<or> (x_submissionStatus prior = SS_NODE_REJECTED \<and> x_conflictType e = None)"

lemma pass_ready: "si_nextReady (pass_snapshot_input ag applied ob d nextAt) = ready_of ag d"
  by (simp add: si_nextReady_def pass_snapshot_input_def ready_of_def si_required_def si_nextAssertion_def si_nextConflictType_def)

lemma settlement_iff_ready: "(si_settlementReadyAt input \<noteq> None) = si_nextReady input"
  by (auto simp: si_settlementReadyAt_def si_priorReady_def Let_def)

lemma pass_settlement:
  "(x_settlementReadyAt (snapshot_projection jsonb (pass_snapshot_input ag applied ob d nextAt) c e) \<noteq> None) = ready_of ag d"
  using settlement_iff_ready [of "pass_snapshot_input ag applied ob d nextAt"]
  by (simp add: pass_ready snapshot_projection_def Let_def)

lemma overall_projection: "deriveOverallStatus (snapshotFromExecution
    (snapshot_projection jsonb (pass_snapshot_input ag applied ob d nextAt) c e)) = deriveOverallStatus (dr_snapshot d)"
  by (simp add: deriveOverallStatus_def snapshotFromExecution_def snapshot_projection_def pass_snapshot_input_def Let_def)

lemma delay_in_range: "delay_of env ag ob d m = Some ms \<Longrightarrow> 10000 \<le> ms \<and> ms \<le> 300000"
  using delay_bounds by (auto simp: delay_of_def split: if_splits)

lemma no_delay: "delay_of env ag ob d m = None \<Longrightarrow> terminal_of ag d m \<or> rejection_resolved ag ob d"
  by (simp add: delay_of_def split: if_splits)

lemma pass_report:
  assumes "reconcile_observed env clientUrls urls identity inputs ag txHash at observed n = (Inr res, t)"
  shows "list_ex (\<lambda>e. x_id e = x_id (ag_execution ag) \<and> reports res e
       \<and> (x_nextReconcileAt e = None \<longrightarrow> finished (length (i_expectedCells (ag_intent ag))) (ag_execution ag) e))
     (executions (ndb t))
    \<and> (\<forall>ms. rr_nextDelayMs res = Some ms \<longrightarrow> 10000 \<le> ms \<and> ms \<le> 300000)"
proof -
  from assms obtain applied d v where f: "finish_pass env ag txHash applied (rb_observation observed) d v = (Inr res, t)"
    by (rule pass_steps)
  then obtain checkedAt now' e and s :: db where
    r: "res = \<lparr>rr_intentId = i_intentId (ag_intent ag), rr_txHash = Some txHash, rr_changed = rr_changed res,
       rr_status = overall_name (deriveOverallStatus (dr_snapshot d)), rr_assertionStatus = dr_assertionStatus d,
       rr_settlementReady = ready_of ag d, rr_terminal = terminal_of ag d (monitoring_of env ag (rb_observation observed) d checkedAt),
       rr_nextDelayMs = delay_of env ag (rb_observation observed) d (monitoring_of env ag (rb_observation observed) d checkedAt), rr_error = None\<rparr>"
    and m: "version_match ag e"
    and p: "snapshot_projection (rn_jsonb env) (pass_snapshot_input ag applied (rb_observation observed) d (map_option (\<lambda>ms. now' + ms)
       (delay_of env ag (rb_observation observed) d (monitoring_of env ag (rb_observation observed) d checkedAt)))) (clock s) e \<in> set (executions (ndb t))"
    (is "?row \<in> _")
    by (rule finish_row)
  have sel: "rr_status res = overall_name (deriveOverallStatus (dr_snapshot d))" "rr_assertionStatus res = dr_assertionStatus d"
    "rr_settlementReady res = ready_of ag d"
    "rr_nextDelayMs res = delay_of env ag (rb_observation observed) d (monitoring_of env ag (rb_observation observed) d checkedAt)"
    by (subst r, simp)+
  have rep: "reports res ?row"
    unfolding reports_def sel overall_projection
    by (simp add: pass_settlement del: not_None_eq)
  have fin: "x_nextReconcileAt ?row = None \<longrightarrow> finished (length (i_expectedCells (ag_intent ag))) (ag_execution ag) ?row"
    using no_delay [of env ag "rb_observation observed" d "monitoring_of env ag (rb_observation observed) d checkedAt"]
    by (auto simp: finished_def terminal_of_def isTerminal_def rejection_resolved_def snapshot_projection_def
        pass_snapshot_input_def si_nextConflictType_def si_nextAssertion_def Let_def split: if_splits)
  have "\<forall>ms. rr_nextDelayMs res = Some ms \<longrightarrow> 10000 \<le> ms \<and> ms \<le> 300000"
    unfolding sel using delay_in_range by blast
  then show ?thesis
    using list_exI [OF p, of "\<lambda>e. x_id e = x_id (ag_execution ag) \<and> reports res e
       \<and> (x_nextReconcileAt e = None \<longrightarrow> finished (length (i_expectedCells (ag_intent ag))) (ag_execution ag) e)"]
      rep fin m by (simp add: version_match_def)
qed


section \<open>Two passes\<close>

text \<open>A pass returns when its row is there and the write violates no constraint.\<close>

lemma update_Inr:
  assumes "executions s = [e]" and "version_match ag e" and "execution_check (f e) = None" and "x_txHash (f e) = x_txHash e"
  shows "\<not> isl (update_execution ag f s)"
  using assms by (simp add: update_execution_def tx_hash_taken_def)

lemma finish_isl:
  assumes "executions (h_db (rn_others env (nt_world v))) = [e]" and "version_match ag e"
    and "conflict_type_allowed (dr_conflictType d)" and "sn_submissionStatus (dr_snapshot d) \<noteq> SS_NODE_REJECTED"
    and "0 \<le> sn_confirmationCount (dr_snapshot d)"
  shows "\<not> isl (fst (finish_pass env ag txHash applied ob d v))"
proof -
  have "\<not> isl (fst (on_db env (applySnapshot (rn_jsonb env) (pass_snapshot_input ag applied ob d k)) v))" for k
    using update_Inr [OF assms(1,2), of "snapshot_projection (rn_jsonb env) (pass_snapshot_input ag applied ob d k) (clock (h_db (rn_others env (nt_world v))))"]
      assms(3-5)
    by (simp add: on_db_def Let_def split_beta apply_isl pass_snapshot_input_def si_nextConflictType_def snapshot_projection_def
        execution_check_def)
  then show ?thesis by (simp add: finish_pass_def now_ms_def Let_def)
qed

lemma record_observation_sample:
  "rn_others env = id \<Longrightarrow> \<exists>u. record_observation env oi v = (Inr (), u) \<and> executions (h_db (nt_world u)) = executions (h_db (nt_world v))"
  by (simp add: record_observation_def on_db_def recordRpcObservation_def Let_def)

definition sample_identity :: RpcIdentityExpectation where
  "sample_identity = \<lparr>re_chain = None, re_genesisHash = None\<rparr>"

text \<open>The transaction is still pending at the node, according to the answer.\<close>

definition pending_bundle :: RpcObservationBundle where
  "pending_bundle = \<lparr>rb_observation = (unknown_observation 0 ''https://a/'' JNull None)\<lparr>ob_status := CO_PENDING\<rparr>,
     rb_rpcResult = JNull, rb_endpoint = ''https://a/'', rb_inputInspection = None\<rparr>"

lemma committed_version: "version_match (tracked committed_row) committed_row"
  by (simp add: version_match_def)

lemma pending_pass: "\<exists>res t. reconcile_observed sample_env [''https://a/''] [''https://a/''] sample_identity []
    (tracked committed_row) (sample_hash CHR ''5'') 0 pending_bundle (tracked_net committed_row) = (Inr res, t)"
proof -
  have o': "rn_others sample_env = id" by (simp add: sample_env_def)
  have "\<exists>applied. applyChainObservation (snapshotFromExecution committed_row) (rb_observation pending_bundle) = Inr applied
    \<and> ar_snapshot applied = snapshotFromExecution committed_row \<and> \<not> ar_reorgDetected applied"
    by (simp add: applyChainObservation_def Let_def reorgAgainstPriorCommit_def pending_bundle_def unknown_observation_def
        snapshotFromExecution_def)
  then obtain applied where a: "applyChainObservation (snapshotFromExecution committed_row) (rb_observation pending_bundle) = Inr applied"
    and s: "ar_snapshot applied = snapshotFromExecution committed_row" and r: "\<not> ar_reorgDetected applied" by blast
  define d where "d = draft_seen (tracked committed_row) (draft_start (tracked committed_row) (rb_observation pending_bundle) applied)"
  have d: "dr_conflictType d = None" "dr_snapshot d = snapshotFromExecution committed_row"
    by (simp_all add: d_def draft_seen_def draft_start_def Let_def s)
  have p: "draft_payload sample_env (tracked committed_row) (sample_hash CHR ''5'') pending_bundle
      (draft_start (tracked committed_row) (rb_observation pending_bundle) applied)
      = Inr (draft_start (tracked committed_row) (rb_observation pending_bundle) applied)"
    and e: "draft_evidence sample_env [''https://a/''] [''https://a/''] sample_identity [] (tracked committed_row) pending_bundle
      (draft_start (tracked committed_row) (rb_observation pending_bundle) applied) = ret d"
    by (simp_all add: draft_payload_def mismatch_of_def payload_mismatch_def expected_payload_def draft_evidence_def d_def
        pending_bundle_def unknown_observation_def seen_def)
  have as: "draft_assertions sample_env [''https://a/''] (tracked committed_row) (sample_hash CHR ''5'') applied pending_bundle d = ret d"
    using d r by (simp add: draft_assertions_def draft_reset_def Let_def snapshotFromExecution_def)
  obtain u oi where u: "record_observation sample_env oi (tracked_net committed_row) = (Inr (), u)" "executions (h_db (nt_world u)) = [committed_row]"
    and oi: "oi = observation_input (tracked committed_row) None (sample_hash CHR ''5'') pending_bundle
      (net_now (rn_rpc sample_env) (tracked_net committed_row) - 0)"
    using record_observation_sample [OF o'] by (metis tracked_net_sel(2))
  have "\<not> isl (fst (finish_pass sample_env (tracked committed_row) (sample_hash CHR ''5'') applied (rb_observation pending_bundle) d u))"
    using finish_isl [of sample_env u committed_row "tracked committed_row" d] u(2) d committed_version o'
    by (simp add: conflict_type_allowed_def snapshotFromExecution_def) (simp add: committed_row_def)
  then obtain res t where "finish_pass sample_env (tracked committed_row) (sample_hash CHR ''5'') applied (rb_observation pending_bundle) d u = (Inr res, t)"
    by (metis prod.collapse sum.collapse(2))
  then show ?thesis
    using u(1) a p e as by (simp add: reconcile_observed_def Let_def now_ms_def oi lift_api_def andThen_Inr)
qed

text \<open>
  What a pass reports is what it stored: the overall status, the assertion status,
  and settlement-readiness exactly when the row has a settlement time; the next attempt is
  between ten seconds and five minutes away, and an execution that gets none is finished: it is
  conflicted, expired, rejected, confirmed with all its assertions verified, or a node rejection
  without a conflict.
\<close>

theorem report_matches_row:
  assumes "reconcile_observed env clientUrls urls identity inputs ag txHash at observed n = (Inr res, t)"
  shows "list_ex (\<lambda>e. x_id e = x_id (ag_execution ag) \<and> reports res e
       \<and> (x_nextReconcileAt e \<noteq> None \<or> finished (length (i_expectedCells (ag_intent ag))) (ag_execution ag) e))
     (executions (ndb t))
    \<and> (case rr_nextDelayMs res of None \<Rightarrow> True | Some ms \<Rightarrow> 10000 \<le> ms \<and> ms \<le> 300000)"
  using pass_report [OF assms] by (auto simp: list_ex_iff split: option.splits)

theorem report_matches_row_witness:
  "\<exists>res t. reconcile_observed sample_env [''https://a/''] [''https://a/''] sample_identity []
    (tracked committed_row) (sample_hash CHR ''5'') 0 pending_bundle (tracked_net committed_row) = (Inr res, t)
    \<and> list_ex (\<lambda>e. x_id e = 2 \<and> reports res e) (executions (ndb t))"
proof -
  obtain res t where r: "reconcile_observed sample_env [''https://a/''] [''https://a/''] sample_identity []
    (tracked committed_row) (sample_hash CHR ''5'') 0 pending_bundle (tracked_net committed_row) = (Inr res, t)"
    using pending_pass by blast
  from report_matches_row [OF r] r show ?thesis by (auto simp: list_ex_iff)
qed

end
