(* ===== verification/ReconcileConflicts.thy ===== *)
theory ReconcileConflicts
  imports ReconcileReports
begin

text \<open>
  A terminal input conflict: the property of a pass, with a run in which two endpoints agree.
\<close>

section \<open>A run\<close>

definition spent_row :: ExecutionRecord where
  "spent_row = sample_row\<lparr>x_txHash := Some (sample_hash CHR ''5''), x_submissionStatus := SS_SUBMITTED,
     x_chainStatus := CS_UNKNOWN, x_workflowStatus := WS_RECONCILING, x_conflictType := Some CT_INPUT_CONFLICT_SUSPECTED,
     x_conflictDetails := JObj [(''classification'', JStr ''INPUT_SPENT_OBSERVED''), (''firstObservedTipBlockNumber'', JStr ''0x10''),
       (''lastObservedTipBlockNumber'', JStr ''0x11''), (''spentObservationCount'', JNum 2)]\<rparr>"

definition spent_bundle :: RpcObservationBundle where
  "spent_bundle = \<lparr>rb_observation = unknown_observation 0 ''https://a/'' JNull None, rb_rpcResult = JNull,
     rb_endpoint = ''https://a/'', rb_inputInspection = Some sample_inspection\<rparr>"

lemma spent_sel [simp]:
  "x_id spent_row = 2" "x_projectId spent_row = 0" "x_chainStatus spent_row = CS_UNKNOWN" "x_workflowStatus spent_row = WS_RECONCILING"
  "x_submissionStatus spent_row = SS_SUBMITTED" "x_committedBlockHash spent_row = None" "x_committedBlockNumber spent_row = None"
  "x_rejectionReason spent_row = None" "x_confirmationCount spent_row = 0"
  by (simp_all add: spent_row_def sample_row_def initial_execution_def sample_defs)

lemma spent_version: "version_match (tracked spent_row) spent_row"
  by (simp add: version_match_def)

lemma spent_matured: "conflictObservationMatured (spend_state spent_row) (spend_inspection sample_inspection)"
  by code_simp

lemma inspected_endpoint: "in_endpoint sample_inspection = ''https://a/''"
  by code_simp

lemma host_call: "session_call (rc_transport (rn_rpc sample_env)) url method' params h = (Inr (sample_answer method'), h)"
  by (simp add: session_call_def sample_env_def host_transport_def andThen_def field_of_def json_truthy_def)

lemma sample_normal: "normalizeHash (Some (sample_hash CHR ''1'')) = Some (sample_hash CHR ''1'')"
  by code_simp

lemma sample_answers [simp]:
  "sample_answer ''get_live_cell'' = JNull" "sample_answer ''get_header'' = JObj [(''number'', JStr ''0x10'')]"
  "sample_answer ''get_block_hash'' = JStr (sample_hash CHR ''1'')"
  by (simp_all add: sample_answer_def)

lemma host_creator: "creatorCanonicalEvidence (rc_transport (rn_rpc sample_env)) url (ref_outPoint sample_input) h
    = (Inr \<lparr>cr_canonical = True, cr_txStatus = Some ''committed'', cr_blockHash = Some (sample_hash CHR ''1''), cr_blockNumber = Some ''0x10''\<rparr>, h)"
  by (simp add: creatorCanonicalEvidence_def andThen_Inr [OF host_call] sample_answer_def sample_normal
      text_of_def field_of_def json_truthy_def array_length_def sample_input_def headerNumber_def Let_def)

lemma host_input: "\<exists>i. inspectInput (rc_transport (rn_rpc sample_env)) url sample_input h = (Inr i, h) \<and> io_canonical i = CI_SPENT"
  by (simp add: inspectInput_def andThen_Inr [OF host_call] andThen_Inr [OF host_creator] cell_status_def text_of_def
      field_of_def Let_def)

lemma host_spent: "\<exists>i. inspectInputOutPointsOnSession (rc_transport (rn_rpc sample_env)) url [sample_input] h = (Inr i, h)
    \<and> in_state i = II_CANONICALLY_SPENT"
proof -
  obtain i where i: "inspectInput (rc_transport (rn_rpc sample_env)) url sample_input h = (Inr i, h)" "io_canonical i = CI_SPENT"
    using host_input by blast
  then have "each (inspectInput (rc_transport (rn_rpc sample_env)) url) [sample_input] h = (Inr [i], h)"
    by (simp add: andThen_Inr)
  then show ?thesis
    by (simp add: inspectInputOutPointsOnSession_def andThen_Inr andThen_Inr [OF host_call] inspection_state_def i(2) del: each.simps)
qed

lemma host_corroborates: "\<exists>c. corroborateCanonicalSpend sample_env [''https://a/'', ''https://b/''] [''https://a/'', ''https://b/'']
    sample_inspection [sample_input] sample_identity v = (Inr c, v) \<and> co_confirmed c"
proof -
  obtain i where "inspectInputOutPointsOnSession (rc_transport (rn_rpc sample_env)) ''https://b/'' [sample_input] (nt_world v) = (Inr i, nt_world v)"
    and "in_state i = II_CANONICALLY_SPENT" using host_spent by blast
  then show ?thesis
    by (simp add: corroborateCanonicalSpend_def js_unique_def inspected_endpoint attempt_def tryCatch_def
        inspectInputOutPointsAt_def on_world_def assertIdentity_def sample_identity_def andThen_def Let_def)
qed


lemma spent_pass: "\<exists>res t. reconcile_observed sample_env [''https://a/'', ''https://b/''] [''https://a/'', ''https://b/''] sample_identity
    [sample_input] (tracked spent_row) (sample_hash CHR ''5'') 0 spent_bundle (tracked_net spent_row) = (Inr res, t)
    \<and> rr_status res = ''CONFLICTED''"
proof -
  have o': "rn_others sample_env = id" by (simp add: sample_env_def)
  have "\<exists>applied. applyChainObservation (snapshotFromExecution spent_row) (rb_observation spent_bundle) = Inr applied
    \<and> ar_snapshot applied = snapshotFromExecution spent_row \<and> \<not> ar_reorgDetected applied"
    by (simp add: applyChainObservation_def Let_def reorgAgainstPriorCommit_def spent_bundle_def unknown_observation_def
        snapshotFromExecution_def)
  then obtain applied where a: "applyChainObservation (snapshotFromExecution spent_row) (rb_observation spent_bundle) = Inr applied"
    and s: "ar_snapshot applied = snapshotFromExecution spent_row" and r: "\<not> ar_reorgDetected applied" by blast
  define d0 where "d0 = draft_start (tracked spent_row) (rb_observation spent_bundle) applied"
  have p: "draft_payload sample_env (tracked spent_row) (sample_hash CHR ''5'') spent_bundle d0 = Inr d0"
    by (simp add: draft_payload_def mismatch_of_def spent_bundle_def unknown_observation_def seen_def)
  obtain u oi where u: "record_observation sample_env oi (tracked_net spent_row) = (Inr (), u)" "executions (h_db (nt_world u)) = [spent_row]"
    and oi: "oi = observation_input (tracked spent_row) None (sample_hash CHR ''5'') spent_bundle
      (net_now (rn_rpc sample_env) (tracked_net spent_row) - 0)"
    using record_observation_sample [OF o'] by (metis tracked_net_sel(2))
  obtain c where c: "corroborateCanonicalSpend sample_env [''https://a/'', ''https://b/''] [''https://a/'', ''https://b/'']
    sample_inspection [sample_input] sample_identity u = (Inr c, u)" "co_confirmed c" using host_corroborates by blast
  have st: "in_state sample_inspection = II_CANONICALLY_SPENT" by (rule sample_inspection(3))
  have "\<exists>d. draft_spent_confirmed (tracked spent_row) sample_inspection c d0 = Inr d \<and> dr_conflictType d = Some CT_INPUT_SPENT
      \<and> dr_snapshot d = (snapshotFromExecution spent_row)\<lparr>sn_workflowStatus := WS_CONFLICTED\<rparr>"
    by (simp add: draft_spent_confirmed_def setWorkflowStatus_def d0_def draft_start_def s Let_def)
  then obtain d where d: "draft_spent_confirmed (tracked spent_row) sample_inspection c d0 = Inr d" "dr_conflictType d = Some CT_INPUT_SPENT"
      "dr_snapshot d = (snapshotFromExecution spent_row)\<lparr>sn_workflowStatus := WS_CONFLICTED\<rparr>" by blast
  have e: "draft_evidence sample_env [''https://a/'', ''https://b/''] [''https://a/'', ''https://b/''] sample_identity [sample_input]
      (tracked spent_row) spent_bundle d0 u = (Inr d, u)"
    using spent_matured c d(1) st
    by (simp add: draft_evidence_def spent_bundle_def unknown_observation_def seen_def mismatch_of_def draft_inspected_def
        draft_spent_def andThen_Inr lift_api_def)
  have as: "draft_assertions sample_env [''https://a/'', ''https://b/''] (tracked spent_row) (sample_hash CHR ''5'') applied spent_bundle d = ret d"
    using d r by (simp add: draft_assertions_def draft_reset_def Let_def)
  have "\<not> isl (fst (finish_pass sample_env (tracked spent_row) (sample_hash CHR ''5'') applied (rb_observation spent_bundle) d u))"
    using finish_isl [of sample_env u spent_row "tracked spent_row" d] u(2) d spent_version o'
    by (simp add: conflict_type_allowed_def snapshotFromExecution_def)
  then obtain res t where f: "finish_pass sample_env (tracked spent_row) (sample_hash CHR ''5'') applied (rb_observation spent_bundle) d u = (Inr res, t)"
    by (metis prod.collapse sum.collapse(2))
  have "rr_status res = ''CONFLICTED''"
    using f by (rule finish_row) (erule ssubst, simp add: d(3) deriveOverallStatus_def overall_name_def)
  moreover have "reconcile_observed sample_env [''https://a/'', ''https://b/''] [''https://a/'', ''https://b/''] sample_identity
    [sample_input] (tracked spent_row) (sample_hash CHR ''5'') 0 spent_bundle (tracked_net spent_row) = (Inr res, t)"
    using u(1) a p e as f by (simp add: reconcile_observed_def Let_def now_ms_def oi lift_api_def andThen_Inr d0_def [symmetric])
  ultimately show ?thesis by blast
qed


section \<open>The property\<close>

text \<open>
  Property C30: a pass declares an input spent for good, which ends the intent as conflicted, only
  when the node could not give the transaction, an input is canonically spent at that endpoint,
  the spend evidence stored by earlier passes is mature, and, when two or more endpoints are
  configured, another endpoint also reported an input canonically spent.
\<close>

theorem spent_conflict_corroborated:
  assumes "reconcile_observed env clientUrls urls identity inputs ag txHash at observed n = (Inr res, t)"
    and "x_conflictType (ag_execution ag) \<noteq> Some CT_INPUT_SPENT"
  shows "list_ex (\<lambda>e. x_id e = x_id (ag_execution ag) \<and> (x_conflictType e \<noteq> Some CT_INPUT_SPENT \<or>
       (x_workflowStatus e = WS_CONFLICTED
        \<and> spent_evidence env clientUrls urls identity inputs (ag_execution ag) observed))) (executions (ndb t))"
  using pass_spent [OF assms] by (auto simp: list_ex_iff)

theorem spent_conflict_corroborated_witness:
  "\<exists>res t. reconcile_observed sample_env [''https://a/'', ''https://b/''] [''https://a/'', ''https://b/''] sample_identity
    [sample_input] (tracked spent_row) (sample_hash CHR ''5'') 0 spent_bundle (tracked_net spent_row) = (Inr res, t)
    \<and> rr_status res = ''CONFLICTED'' \<and> list_ex (\<lambda>e. x_id e = 2) (executions (ndb t))"
proof -
  obtain res t where r: "reconcile_observed sample_env [''https://a/'', ''https://b/''] [''https://a/'', ''https://b/''] sample_identity
    [sample_input] (tracked spent_row) (sample_hash CHR ''5'') 0 spent_bundle (tracked_net spent_row) = (Inr res, t)"
    and c: "rr_status res = ''CONFLICTED''" using spent_pass by blast
  have "x_conflictType (ag_execution (tracked spent_row)) \<noteq> Some CT_INPUT_SPENT" by (simp add: spent_row_def)
  from spent_conflict_corroborated [OF r this] r c show ?thesis by (auto simp: list_ex_iff)
qed

end
