(* ===== verification/Ssrf.thy ===== *)
theory Ssrf
  imports Rpc "HOL-Library.Word"
begin

text \<open>
  The address policy of packages/webhooks/src/ssrf.ts and of workflows/reconcile/src/rpc.ts:
  which addresses a request may go to. IPv4 addresses are 32-bit words with the code's shifts
  and masks. The parser of IPv6 literals is a parameter that gives the eight pieces of an
  address; its serialisation is the one of the WHATWG URL standard, since the code matches on
  that text. Name resolution is an action of the environment.
\<close>

unbundle bit_operations_syntax

section \<open>IPv4\<close>

fun split_on :: "char \<Rightarrow> string \<Rightarrow> string list" where
  "split_on sep [] = [[]]"
| "split_on sep (c # cs) = (if c = sep then [] # split_on sep cs
     else (case split_on sep cs of p # ps \<Rightarrow> (c # p) # ps | [] \<Rightarrow> [[c]]))"

definition octet_text :: "string \<Rightarrow> bool" where
  "octet_text p \<longleftrightarrow> p \<noteq> [] \<and> list_all is_digit p \<and> (hd p = CHR ''0'' \<longrightarrow> p = ''0'') \<and> numeral_value 10 0 p \<le> 255"

text \<open>\<open>isIP(ip) === 4\<close>: four decimal octets without leading zeros.\<close>

definition isIPv4 :: "string \<Rightarrow> bool" where
  "isIPv4 ip \<longleftrightarrow> length (split_on CHR ''.'' ip) = 4 \<and> list_all octet_text (split_on CHR ''.'' ip)"

definition ipv4ToInt :: "string \<Rightarrow> 32 word" where
  "ipv4ToInt ip = foldl (\<lambda>acc octet. push_bit 8 acc OR of_nat (numeral_value 10 0 octet)) 0 (split_on CHR ''.'' ip)"

definition inV4Range :: "string \<Rightarrow> string \<Rightarrow> nat \<Rightarrow> bool" where
  "inV4Range ip base len =
    (let mask = (if len = 0 then 0 else push_bit (32 - len) (- 1)) in ipv4ToInt ip AND mask = ipv4ToInt base AND mask)"

definition blocked_ranges :: "(string \<times> nat) list" where
  "blocked_ranges = [(''0.0.0.0'', 8), (''10.0.0.0'', 8), (''100.64.0.0'', 10), (''127.0.0.0'', 8),
     (''169.254.0.0'', 16), (''172.16.0.0'', 12), (''192.0.0.0'', 24), (''192.0.2.0'', 24),
     (''192.168.0.0'', 16), (''198.18.0.0'', 15), (''198.51.100.0'', 24), (''203.0.113.0'', 24),
     (''224.0.0.0'', 4), (''240.0.0.0'', 4)]"

definition blocked_v4 :: "string \<Rightarrow> bool" where
  "blocked_v4 ip \<longleftrightarrow> list_ex (\<lambda>(base, len). inV4Range ip base len) blocked_ranges"

definition dotted :: "nat \<Rightarrow> nat \<Rightarrow> nat \<Rightarrow> nat \<Rightarrow> string" where
  "dotted a b c d = nat_string a @ ''.'' @ nat_string b @ ''.'' @ nat_string c @ ''.'' @ nat_string d"


section \<open>IPv6\<close>

record ip_library =
  il_isIPv6 :: "string \<Rightarrow> bool"
  il_pieces :: "string \<Rightarrow> nat list option"

text \<open>The WHATWG serialiser: the first longest run of two or more zero pieces is left out.\<close>

definition zero_run :: "nat list \<Rightarrow> nat" where
  "zero_run ps = length (takeWhile (\<lambda>p. p = 0) ps)"

definition longest_run :: "nat list \<Rightarrow> nat" where
  "longest_run ps = foldr max (map (\<lambda>i. zero_run (drop i ps)) [0..<length ps]) 0"

definition run_start :: "nat list \<Rightarrow> nat" where
  "run_start ps = length (takeWhile (\<lambda>i. zero_run (drop i ps) \<noteq> longest_run ps) [0..<length ps])"

fun join_pieces :: "nat list \<Rightarrow> string" where
  "join_pieces [] = []"
| "join_pieces [p] = hex_string p"
| "join_pieces (p # ps) = hex_string p @ '':'' @ join_pieces ps"

definition ip6_text :: "nat list \<Rightarrow> string" where
  "ip6_text ps = (if longest_run ps \<le> 1 then join_pieces ps
     else join_pieces (take (run_start ps) ps) @ ''::'' @ join_pieces (drop (run_start ps + longest_run ps) ps))"

definition startsWith :: "string \<Rightarrow> string \<Rightarrow> bool" where
  "startsWith s p \<longleftrightarrow> take (length p) s = p"

definition hex_piece :: "string \<Rightarrow> bool" where
  "hex_piece p \<longleftrightarrow> 1 \<le> length p \<and> length p \<le> 4 \<and> list_all is_hex_lower p"

text \<open>\<open>/^::(?:(?:ffff:|ffff:0:))?([0-9a-f]{1,4}):([0-9a-f]{1,4})$/\<close> and its two groups.\<close>

definition mapped_hex :: "string \<Rightarrow> (string \<times> string) option" where
  "mapped_hex value' =
    (if \<not> startsWith value' ''::'' then None
     else (let parts = split_on CHR '':'' (drop 2 value');
               tail = (case parts of
                   [high, low] \<Rightarrow> Some (high, low)
                 | [f, high, low] \<Rightarrow> if f = ''ffff'' then Some (high, low) else None
                 | [f, z, high, low] \<Rightarrow> if f = ''ffff'' \<and> z = ''0'' then Some (high, low) else None
                 | _ \<Rightarrow> None) in
           case tail of Some (high, low) \<Rightarrow> if hex_piece high \<and> hex_piece low then Some (high, low) else None
           | None \<Rightarrow> None))"

definition blocked_v6_text :: "string \<Rightarrow> bool" where
  "blocked_v6_text value' \<longleftrightarrow>
     value' = ''::'' \<or> value' = ''::1'' \<or> startsWith value' ''fc'' \<or> startsWith value' ''fd''
     \<or> (startsWith value' ''fe'' \<and> (\<exists>c \<in> set (take 1 (drop 2 value')). c \<in> set ''89ab''))
     \<or> startsWith value' ''ff'' \<or> startsWith value' ''2001:db8'' \<or> startsWith value' ''2002:'' \<or> startsWith value' ''2001::''
     \<or> startsWith value' ''2001:0:'' \<or> startsWith value' ''2001:10:'' \<or> startsWith value' ''2001:20:''
     \<or> startsWith value' ''64:ff9b::'' \<or> startsWith value' ''64:ff9b:1:'' \<or> startsWith value' ''3fff:''"

text \<open>The dotted address of the recursive call is an IPv4 address.\<close>

definition isBlockedIp :: "ip_library \<Rightarrow> string \<Rightarrow> bool" where
  "isBlockedIp lib ip =
    (if isIPv4 ip then blocked_v4 ip
     else if il_isIPv6 lib ip then
       (case il_pieces lib ip of
          None \<Rightarrow> True
        | Some ps \<Rightarrow>
            let value' = toLowerCase (ip6_text ps) in
            (case mapped_hex value' of
               Some (h, l) \<Rightarrow>
                 let high = numeral_value 16 0 h; low = numeral_value 16 0 l in
                 blocked_v4 (dotted (high div 256) (high mod 256) (low div 256) (low mod 256))
             | None \<Rightarrow> blocked_v6_text value'))
     else True)"

definition isBlockedRpcIp :: "ip_library \<Rightarrow> string \<Rightarrow> bool" where
  "isBlockedRpcIp = isBlockedIp"


section \<open>Destinations\<close>

record DnsRecord =
  dn_address :: string
  dn_family :: nat

record Destination =
  de_url :: ParsedUrl
  de_address :: string
  de_family :: nat

text \<open>\<open>hostname.replace(/^\[|\]$/g, "")\<close>.\<close>

definition bare_hostname :: "ParsedUrl \<Rightarrow> string" where
  "bare_hostname u = (let h = u_hostname u; h = (if h \<noteq> [] \<and> hd h = CHR ''['' then tl h else h) in
     if h \<noteq> [] \<and> last h = CHR '']'' then butlast h else h)"

definition is_loopback_name :: "string \<Rightarrow> bool" where
  "is_loopback_name h \<longleftrightarrow> h \<in> set [''localhost'', ''127.0.0.1'', ''::1'']"

definition is_loopback :: "DnsRecord \<Rightarrow> bool" where
  "is_loopback r \<longleftrightarrow> dn_address r = ''::1'' \<or> (dn_family r = 4 \<and> startsWith (dn_address r) ''127.'')"

definition webhook_error :: "string \<Rightarrow> thrown" where
  "webhook_error m = ApiError (cellFlowError WEBHOOK_URL_INVALID m 400)"

definition choose_webhook_destination ::
    "ip_library \<Rightarrow> bool \<Rightarrow> ParsedUrl \<Rightarrow> DnsRecord list \<Rightarrow> thrown + Destination" where
  "choose_webhook_destination lib isLocalDev url records =
    (if records = [] then Inl (webhook_error ''Webhook hostname did not resolve'')
     else if isLocalDev \<and> list_ex (\<lambda>r. \<not> is_loopback r) records then
       Inl (webhook_error ''Local webhook hostname must resolve only to loopback'')
     else if \<not> isLocalDev \<and> list_ex (\<lambda>r. isBlockedIp lib (dn_address r)) records then
       Inl (webhook_error ''Webhook hostname resolves to a blocked address'')
     else if dn_family (hd records) \<noteq> 4 \<and> dn_family (hd records) \<noteq> 6 then
       Inl (webhook_error ''Webhook hostname resolved to an unsupported address'')
     else Inr \<lparr>de_url = url, de_address = dn_address (hd records), de_family = dn_family (hd records)\<rparr>)"

definition validateWebhookDestination ::
    "ip_library \<Rightarrow> (string \<Rightarrow> ParsedUrl option) \<Rightarrow> (string \<Rightarrow> ('w, thrown, DnsRecord list) action) \<Rightarrow> bool \<Rightarrow> string
      \<Rightarrow> ('w, thrown, Destination) action" where
  "validateWebhookDestination lib new_URL lookup allowHttpLocalhost rawUrl =
    (case new_URL rawUrl of
       None \<Rightarrow> throw (webhook_error ''Webhook URL is not valid'')
     | Some url \<Rightarrow>
         let isLocalDev = (allowHttpLocalhost \<and> is_loopback_name (bare_hostname url)) in
         if u_username url \<noteq> [] \<or> u_password url \<noteq> [] then throw (webhook_error ''Webhook URL must not contain credentials'')
         else if u_protocol url \<noteq> ''https:'' \<and> \<not> (isLocalDev \<and> u_protocol url = ''http:'') then
           throw (webhook_error ''Webhook URL must use HTTPS'')
         else andThen (lookup (bare_hostname url)) (\<lambda>records. lift_sum (choose_webhook_destination lib isLocalDev url records)))"

definition validateWebhookUrl ::
    "ip_library \<Rightarrow> (string \<Rightarrow> ParsedUrl option) \<Rightarrow> (string \<Rightarrow> ('w, thrown, DnsRecord list) action) \<Rightarrow> bool \<Rightarrow> string
      \<Rightarrow> ('w, thrown, ParsedUrl) action" where
  "validateWebhookUrl lib new_URL lookup allowHttpLocalhost rawUrl =
     andThen (validateWebhookDestination lib new_URL lookup allowHttpLocalhost rawUrl) (\<lambda>d. ret (de_url d))"

definition rpc_error :: "string \<Rightarrow> thrown" where
  "rpc_error m = ApiError (cellFlowError RPC_UNAVAILABLE m 503)"

text \<open>\<open>explicit\<close> is CKB_ALLOW_INSECURE_RPC, \<open>production\<close> is NODE_ENV.\<close>

definition allowLocalRpc :: "bool \<Rightarrow> bool \<Rightarrow> ParsedUrl \<Rightarrow> bool" where
  "allowLocalRpc explicit production url \<longleftrightarrow> is_loopback_name (bare_hostname url) \<and> (explicit \<or> \<not> production)"

definition choose_rpc_destination :: "ip_library \<Rightarrow> bool \<Rightarrow> ParsedUrl \<Rightarrow> DnsRecord list \<Rightarrow> thrown + Destination" where
  "choose_rpc_destination lib localAllowed url records =
    (if records = [] then Inl (rpc_error ''CKB RPC hostname did not resolve'')
     else if localAllowed \<and> list_ex (\<lambda>r. \<not> is_loopback r) records then
       Inl (rpc_error ''Local RPC hostname must resolve only to loopback'')
     else if \<not> localAllowed \<and> list_ex (\<lambda>r. isBlockedRpcIp lib (dn_address r)) records then
       Inl (rpc_error ''CKB RPC hostname resolves to a blocked address'')
     else case find (\<lambda>r. dn_family r = 4 \<or> dn_family r = 6) records of
       None \<Rightarrow> Inl (rpc_error ''CKB RPC hostname resolved to an unsupported address'')
     | Some r \<Rightarrow> Inr \<lparr>de_url = url, de_address = dn_address r, de_family = dn_family r\<rparr>)"

definition resolveRpcDestination ::
    "ip_library \<Rightarrow> (string \<Rightarrow> ParsedUrl option) \<Rightarrow> (string \<Rightarrow> ('w, thrown, DnsRecord list) action) \<Rightarrow> bool \<Rightarrow> bool \<Rightarrow> string
      \<Rightarrow> ('w, thrown, Destination) action" where
  "resolveRpcDestination lib new_URL lookup explicit production rawUrl =
    (case new_URL rawUrl of
       None \<Rightarrow> throw (rpc_error ''CKB RPC URL is invalid'')
     | Some url \<Rightarrow>
         let localAllowed = allowLocalRpc explicit production url in
         if u_username url \<noteq> [] \<or> u_password url \<noteq> [] then throw (rpc_error ''CKB RPC URL must not contain credentials'')
         else if u_protocol url \<noteq> ''https:'' \<and> \<not> (localAllowed \<and> u_protocol url = ''http:'') then
           throw (rpc_error ''CKB RPC must use HTTPS outside explicit local development'')
         else andThen (lookup (bare_hostname url)) (\<lambda>records. lift_sum (choose_rpc_destination lib localAllowed url records)))"

end
