(* ===== verification/SsrfProperties.thy ===== *)
theory SsrfProperties
  imports Ssrf JsValue
begin

text \<open>
  What the address policy of packages/webhooks/src/ssrf.ts blocks: the exact set of IPv4
  addresses, the IPv6 literals that embed an IPv4 address, and what a validated destination is.
\<close>

unbundle bit_operations_syntax

section \<open>Dotted addresses as words\<close>

lemma split_on_none: "sep \<notin> set p \<Longrightarrow> split_on sep p = [p]"
  by (induction p) auto

lemma split_on_append: "sep \<notin> set p \<Longrightarrow> split_on sep (p @ sep # r) = p # split_on sep r"
  by (induction p) auto

lemma no_dot: "CHR ''.'' \<notin> set (nat_string n)"
  using radix_digits [of n] by (auto simp: nat_string_def list_all_iff is_digit_def)

lemma split_dotted: "split_on CHR ''.'' (dotted a b c d) = [nat_string a, nat_string b, nat_string c, nat_string d]"
  by (simp add: dotted_def split_on_append split_on_none no_dot)

lemma hd_radix: "hd (radix_string 10 n) = CHR ''0'' \<Longrightarrow> n = 0"
proof (induction n rule: less_induct)
  case (less n)
  show ?case
  proof (cases "n < 10")
    case True
    then have "digit_char n = CHR ''0''" using less.prems by (simp add: radix_string.simps [of 10 n])
    then have "digit_value (digit_char n) = digit_value CHR ''0''" by simp
    moreover have "digit_value CHR ''0'' = 0" by (simp add: digit_value_def)
    ultimately show ?thesis using True by simp
  next
    case False
    then have "hd (radix_string 10 (n div 10)) = CHR ''0''"
      using less.prems by (simp add: radix_string.simps [of 10 n])
    with less.IH [of "n div 10"] False show ?thesis by auto
  qed
qed

lemma octet_nat_string: "octet_text (nat_string n) \<longleftrightarrow> n \<le> 255"
proof -
  have "nat_string n = ''0''" if "hd (nat_string n) = CHR ''0''"
    using hd_radix [of n] that by (simp add: nat_string_def radix_string.simps digit_char_def)
  moreover have "list_all is_digit (nat_string n)" "nat_string n \<noteq> []" by (simp_all add: nat_string_def radix_digits)
  ultimately show ?thesis by (simp add: octet_text_def)
qed

lemma dotted_isIPv4: "isIPv4 (dotted a b c d) \<longleftrightarrow> a \<le> 255 \<and> b \<le> 255 \<and> c \<le> 255 \<and> d \<le> 255"
  by (simp add: isIPv4_def split_dotted octet_nat_string)

lemma shift_in: "y < 256 \<Longrightarrow> push_bit 8 (of_nat x) OR of_nat y = (of_nat (x * 256 + y) :: 32 word)"
proof -
  assume y: "y < 256"
  have "push_bit 8 (of_nat x) AND of_nat y = (0 :: 32 word)"
  proof (rule bit_eqI)
    fix n
    have "\<not> bit y n" if "8 \<le> n"
    proof -
      have "(2 :: nat) ^ 8 \<le> 2 ^ n" by (rule power_increasing) (use that in simp_all)
      then have "y < 2 ^ n" using y by simp
      then show ?thesis by (simp add: bit_iff_odd)
    qed
    then show "bit (push_bit 8 (of_nat x) AND of_nat y :: 32 word) n = bit (0 :: 32 word) n"
      by (auto simp: bit_simps)
  qed
  then have "push_bit 8 (of_nat x) OR of_nat y = push_bit 8 (of_nat x) + (of_nat y :: 32 word)"
    by (simp add: disjunctive_add_eq_or)
  then show ?thesis by (simp add: push_bit_eq_mult mult.commute)
qed

definition octets :: "nat \<Rightarrow> nat \<Rightarrow> nat \<Rightarrow> nat \<Rightarrow> nat" where
  "octets a b c d = ((a * 256 + b) * 256 + c) * 256 + d"

lemma ipv4ToInt_dotted:
  assumes "a < 256" "b < 256" "c < 256" "d < 256"
  shows "ipv4ToInt (dotted a b c d) = of_nat (octets a b c d)"
proof -
  have 0: "push_bit 8 0 OR of_nat a = (of_nat a :: 32 word)" by simp
  show ?thesis
    unfolding ipv4ToInt_def split_dotted foldl.simps nat_string_value 0 octets_def
      shift_in [OF assms(2)] shift_in [OF assms(3)] shift_in [OF assms(4)] ..
qed

lemma octets_bound: "a < 256 \<Longrightarrow> b < 256 \<Longrightarrow> c < 256 \<Longrightarrow> d < 256 \<Longrightarrow> octets a b c d < 2 ^ 32"
  by (simp add: octets_def)

lemma masked_eq: "x AND push_bit k (- 1) = y AND push_bit k (- 1) \<longleftrightarrow> drop_bit k x = drop_bit k (y :: 32 word)"
proof
  have "drop_bit k (w AND push_bit k (- 1)) = drop_bit k w" for w :: "32 word"
    by (rule bit_eqI) (auto simp: bit_simps dest: bit_imp_le_length)
  then show "drop_bit k x = drop_bit k y" if "x AND push_bit k (- 1) = y AND push_bit k (- 1)"
    using that by metis
  have "w AND push_bit k (- 1) = push_bit k (drop_bit k w)" for w :: "32 word"
    by (rule bit_eqI) (auto simp: bit_simps)
  then show "x AND push_bit k (- 1) = y AND push_bit k (- 1)" if "drop_bit k x = drop_bit k y"
    using that by simp
qed

lemma unat_drop: "n < 2 ^ 32 \<Longrightarrow> unat (drop_bit k (of_nat n :: 32 word)) = n div 2 ^ k"
  by (simp only: unsigned_drop_bit_eq unsigned_of_nat) (simp add: take_bit_nat_eq_self drop_bit_eq_div
      take_bit_nat_eq_self_iff order_le_less_trans [OF div_le_dividend])

lemma drop_of_nat:
  assumes "n < 2 ^ 32" and "m < 2 ^ 32"
  shows "drop_bit k (of_nat n) = (drop_bit k (of_nat m) :: 32 word) \<longleftrightarrow> n div 2 ^ k = m div 2 ^ k"
  by (simp only: word_unat_eq_iff unat_drop [OF assms(1)] unat_drop [OF assms(2)])

lemma in_range:
  assumes "a < 256" "b < 256" "c < 256" "d < 256" "a' < 256" "b' < 256" "c' < 256" "0 < len" "len \<le> 32"
  shows "inV4Range (dotted a b c d) (dotted a' b' c' 0) len
     \<longleftrightarrow> octets a b c d div 2 ^ (32 - len) = octets a' b' c' 0 div 2 ^ (32 - len)"
proof -
  have "octets a b c d < 2 ^ 32" "octets a' b' c' 0 < 2 ^ 32" using assms by (simp_all add: octets_def)
  with assms show ?thesis
    by (simp only: inV4Range_def Let_def masked_eq ipv4ToInt_dotted drop_of_nat zero_less_numeral)
      (simp only: if_False less_not_refl2 masked_eq drop_of_nat)
qed

lemma octets_div:
  assumes "a < 256" "b < 256" "c < 256" "d < 256"
  shows "octets a b c d div 2 ^ 24 = a" "octets a b c d div 2 ^ 16 = a * 256 + b"
    "octets a b c d div 2 ^ 8 = (a * 256 + b) * 256 + c" "octets a b c d div 2 ^ 22 = a * 4 + b div 64"
    "octets a b c d div 2 ^ 20 = a * 16 + b div 16" "octets a b c d div 2 ^ 17 = a * 128 + b div 2"
    "octets a b c d div 2 ^ 28 = a div 16"
  using assms unfolding octets_def by simp_all

lemma base_texts:
  "''0.0.0.0'' = dotted 0 0 0 0" "''10.0.0.0'' = dotted 10 0 0 0" "''100.64.0.0'' = dotted 100 64 0 0"
  "''127.0.0.0'' = dotted 127 0 0 0" "''169.254.0.0'' = dotted 169 254 0 0" "''172.16.0.0'' = dotted 172 16 0 0"
  "''192.0.0.0'' = dotted 192 0 0 0" "''192.0.2.0'' = dotted 192 0 2 0" "''192.168.0.0'' = dotted 192 168 0 0"
  "''198.18.0.0'' = dotted 198 18 0 0" "''198.51.100.0'' = dotted 198 51 100 0" "''203.0.113.0'' = dotted 203 0 113 0"
  "''224.0.0.0'' = dotted 224 0 0 0" "''240.0.0.0'' = dotted 240 0 0 0"
  by code_simp+

definition reserved_v4 :: "nat \<Rightarrow> nat \<Rightarrow> nat \<Rightarrow> bool" where
  "reserved_v4 a b c \<longleftrightarrow> a = 0 \<or> a = 10 \<or> a = 100 \<and> 64 \<le> b \<and> b \<le> 127 \<or> a = 127 \<or> a = 169 \<and> b = 254
     \<or> a = 172 \<and> 16 \<le> b \<and> b \<le> 31 \<or> a = 192 \<and> b = 0 \<and> c = 0 \<or> a = 192 \<and> b = 0 \<and> c = 2 \<or> a = 192 \<and> b = 168
     \<or> a = 198 \<and> (b = 18 \<or> b = 19) \<or> a = 198 \<and> b = 51 \<and> c = 100 \<or> a = 203 \<and> b = 0 \<and> c = 113 \<or> 224 \<le> a"

lemma div_pair:
  fixes a b a' b' k m :: nat
  assumes "b < k * m" "b' < k * m" "0 < m"
  shows "a * k + b div m = a' * k + b' div m \<longleftrightarrow> a = a' \<and> b div m = b' div m"
proof
  have "b div m < k" "b' div m < k" using assms by (simp_all add: less_mult_imp_div_less)
  then have "(a * k + b div m) div k = a" "(a' * k + b' div m) div k = a'" by simp_all
  then show "a = a' \<and> b div m = b' div m" if "a * k + b div m = a' * k + b' div m" using that by auto
qed auto

lemma prefix_ranges:
  assumes "a < 256" "b < 256" "c < 256" "d < 256" "a' < 256" "b' < 256" "c' < 256"
  shows "inV4Range (dotted a b c d) (dotted a' b' c' 0) 8 \<longleftrightarrow> a = a'"
    "inV4Range (dotted a b c d) (dotted a' b' c' 0) 16 \<longleftrightarrow> a = a' \<and> b = b'"
    "inV4Range (dotted a b c d) (dotted a' b' c' 0) 24 \<longleftrightarrow> a = a' \<and> b = b' \<and> c = c'"
    "inV4Range (dotted a b c d) (dotted a' b' c' 0) 10 \<longleftrightarrow> a = a' \<and> b div 64 = b' div 64"
    "inV4Range (dotted a b c d) (dotted a' b' c' 0) 12 \<longleftrightarrow> a = a' \<and> b div 16 = b' div 16"
    "inV4Range (dotted a b c d) (dotted a' b' c' 0) 15 \<longleftrightarrow> a = a' \<and> b div 2 = b' div 2"
    "inV4Range (dotted a b c d) (dotted a' b' c' 0) 4 \<longleftrightarrow> a div 16 = a' div 16"
proof -
  have range: "inV4Range (dotted a b c d) (dotted a' b' c' 0) len
      \<longleftrightarrow> octets a b c d div 2 ^ k = octets a' b' c' 0 div 2 ^ k" if "0 < len" "len + k = 32" for len k
  proof -
    have "len \<le> 32" and "32 - len = k" using that by simp_all
    then show ?thesis using in_range [OF assms that(1)] by simp
  qed
  have z: "(0::nat) < 256" by simp
  note go = octets_div [OF assms(1-4)] octets_div [OF assms(5-7) z]
  have 2: "x * 256 + y = x' * 256 + y' \<longleftrightarrow> x = x' \<and> y = y'" if "y < 256" "y' < 256" for x x' y y' :: nat
    using div_pair [of y 256 1 y' x x'] that by simp
  show "inV4Range (dotted a b c d) (dotted a' b' c' 0) 8 \<longleftrightarrow> a = a'"
    using range [of 8 24] unfolding go by simp
  show "inV4Range (dotted a b c d) (dotted a' b' c' 0) 16 \<longleftrightarrow> a = a' \<and> b = b'"
    using range [of 16 16] 2 [OF assms(2) assms(6)] unfolding go by simp
  show "inV4Range (dotted a b c d) (dotted a' b' c' 0) 24 \<longleftrightarrow> a = a' \<and> b = b' \<and> c = c'"
    using range [of 24 8] unfolding go 2 [OF assms(3) assms(7)] 2 [OF assms(2) assms(6)] by simp
  show "inV4Range (dotted a b c d) (dotted a' b' c' 0) 10 \<longleftrightarrow> a = a' \<and> b div 64 = b' div 64"
    using range [of 10 22] div_pair [of b 4 64 b' a a'] assms(2,6) unfolding go by simp
  show "inV4Range (dotted a b c d) (dotted a' b' c' 0) 12 \<longleftrightarrow> a = a' \<and> b div 16 = b' div 16"
    using range [of 12 20] div_pair [of b 16 16 b' a a'] assms(2,6) unfolding go by simp
  show "inV4Range (dotted a b c d) (dotted a' b' c' 0) 15 \<longleftrightarrow> a = a' \<and> b div 2 = b' div 2"
    using range [of 15 17] div_pair [of b 128 2 b' a a'] assms(2,6) unfolding go by simp
  show "inV4Range (dotted a b c d) (dotted a' b' c' 0) 4 \<longleftrightarrow> a div 16 = a' div 16"
    using range [of 4 28] unfolding go by simp
qed

lemma div_eq: "0 < m \<Longrightarrow> x div m = q \<longleftrightarrow> q * m \<le> x \<and> x < Suc q * m" for x m q :: nat
proof -
  have "x div m = q \<longleftrightarrow> q \<le> x div m \<and> x div m < Suc q" by auto
  then show "0 < m \<Longrightarrow> ?thesis" by (simp only: less_eq_div_iff_mult_less_eq div_less_iff_less_mult)
qed

lemma blocked_dotted:
  assumes "a < 256" "b < 256" "c < 256" "d < 256"
  shows "blocked_v4 (dotted a b c d) \<longleftrightarrow> reserved_v4 a b c"
proof -
  note q = div_eq
  have "b div 64 = 1 \<longleftrightarrow> 64 \<le> b \<and> b \<le> 127" using q [of 64 b 1] by auto
  moreover have "b div 16 = 1 \<longleftrightarrow> 16 \<le> b \<and> b \<le> 31" using q [of 16 b 1] by auto
  moreover have "b div 2 = 9 \<longleftrightarrow> b = 18 \<or> b = 19" using q [of 2 b 9] by auto
  moreover have "a div 16 = 14 \<or> a div 16 = 15 \<longleftrightarrow> 224 \<le> a" using q [of 16 a 14] q [of 16 a 15] assms(1) by auto
  ultimately show ?thesis
    unfolding blocked_v4_def blocked_ranges_def list_ex_Nil_iff list_ex_Cons_iff prod.case base_texts(2-14)
    unfolding base_texts(1)
    using assms by (simp add: prefix_ranges reserved_v4_def)
qed

text \<open>
  The IPv4 policy is exact. For every four octets the address is an IPv4 address,
  and isBlockedIp refuses it exactly when it is in 0/8, 10/8, 127/8, 100.64/10, 169.254/16,
  172.16/12, 192.168/16, 192.0.0/24, 192.0.2/24, 198.18/15, 198.51.100/24, 203.0.113/24 or
  224/3: the shifts and masks of ipv4ToInt and inV4Range compute the documented ranges.
\<close>

theorem ipv4_policy_exact:
  fixes a b c d :: "8 word"
  shows "isIPv4 (dotted (unat a) (unat b) (unat c) (unat d))
    \<and> (isBlockedIp lib (dotted (unat a) (unat b) (unat c) (unat d)) \<longleftrightarrow> reserved_v4 (unat a) (unat b) (unat c))"
proof (rule conjI)
  have b: "unat w < 256" for w :: "8 word" using unsigned_less [of w] by simp
  have "unat w \<le> 255" for w :: "8 word" proof -
    have "unat w < 256" by (rule b)
    then show ?thesis by simp
  qed
  then show 4: "isIPv4 (dotted (unat a) (unat b) (unat c) (unat d))" by (simp add: dotted_isIPv4)
  show "isBlockedIp lib (dotted (unat a) (unat b) (unat c) (unat d)) \<longleftrightarrow> reserved_v4 (unat a) (unat b) (unat c)"
    by (simp add: isBlockedIp_def 4 blocked_dotted b)
qed


section \<open>IPv6 literals\<close>

lemma hex_length: "n < 16 ^ Suc k \<Longrightarrow> length (radix_string 16 n) \<le> Suc k"
proof (induction k arbitrary: n)
  case 0
  then show ?case by (simp add: radix_string.simps)
next
  case (Suc k)
  then show ?case by (subst radix_string.simps) (auto simp: less_mult_imp_div_less)
qed

lemma hex_piece_string: "n < 65536 \<Longrightarrow> hex_piece (hex_string n)"
  using hex_length [of n 3] by (simp add: hex_piece_def hex_string_def radix_string_hex Suc_le_eq)

lemma hex_no_colon: "CHR '':'' \<notin> set (hex_string n)"
  using radix_string_hex [of 16 n] by (auto simp: hex_string_def list_all_iff is_hex_lower_def is_digit_def)

lemma hex_lower_string: "toLowerCase (hex_string n) = hex_string n"
  using radix_string_hex [of 16 n] by (auto simp: hex_string_def toLowerCase_def list_all_iff hex_lower_fixed intro: map_idI)

lemma toLowerCase_append: "toLowerCase (p @ q) = toLowerCase p @ toLowerCase q"
  by (simp add: toLowerCase_def)

lemma zero_run_Nil: "zero_run [] = 0"
  by (simp add: zero_run_def)

lemma zero_run_step:
  "zero_run (0 # 0 # ps) = Suc (zero_run (0 # ps))" "zero_run (0 # 65535 # ps) = 1" "zero_run (65535 # ps) = 0"
  by (simp_all add: zero_run_def)

lemma zero_run_length: "zero_run ps \<le> length ps"
  by (simp add: zero_run_def length_takeWhile_le)

lemma mapped_text: "ip6_text [0, 0, 0, 0, 0, 65535, h, l] = ''::ffff:'' @ hex_string h @ '':'' @ hex_string l"
proof -
  have ix: "[0..<8] = [0, 1, 2, 3, 4, 5, 6, 7]" by code_simp
  have len: "length [0, 0, 0, 0, 0, 65535, h, l] = 8" by simp
  have run: "longest_run [0, 0, 0, 0, 0, 65535, h, l] = 5"
    unfolding longest_run_def len ix using zero_run_length [of "[h, l]"] zero_run_length [of "[l]"]
    by (simp add: zero_run_step)
  then have "run_start [0, 0, 0, 0, 0, 65535, h, l] = 0"
    unfolding run_start_def len ix by (simp add: zero_run_step)
  moreover have "hex_string 65535 = ''ffff''"
    by (simp add: hex_string_def radix_string.simps digit_char_def, code_simp)
  ultimately show ?thesis using run by (simp add: ip6_text_def)
qed

lemma mapped_lower: "toLowerCase (ip6_text [0, 0, 0, 0, 0, 65535, h, l]) = ''::ffff:'' @ hex_string h @ '':'' @ hex_string l"
proof -
  have "toLowerCase ''::ffff:'' = ''::ffff:''" "toLowerCase '':'' = '':''" by code_simp+
  then show ?thesis by (simp only: mapped_text toLowerCase_append hex_lower_string)
qed

lemma mapped_match:
  assumes "h < 65536" and "l < 65536"
  shows "mapped_hex (''::ffff:'' @ hex_string h @ '':'' @ hex_string l) = Some (hex_string h, hex_string l)"
proof -
  have "split_on CHR '':'' (''ffff:'' @ hex_string h @ '':'' @ hex_string l) = [''ffff'', hex_string h, hex_string l]"
    using split_on_append [of "CHR '':''" "hex_string h" "hex_string l"]
    by (simp add: hex_no_colon split_on_none)
  then show ?thesis
    using assms by (simp add: mapped_hex_def startsWith_def hex_piece_string)
qed

lemma mapped_blocked:
  assumes "\<not> isIPv4 ip" "il_isIPv6 lib ip" "il_pieces lib ip = Some [0, 0, 0, 0, 0, 65535, h, l]" "h < 65536" "l < 65536"
  shows "isBlockedIp lib ip \<longleftrightarrow> blocked_v4 (dotted (h div 256) (h mod 256) (l div 256) (l mod 256))"
  using assms by (simp add: isBlockedIp_def mapped_lower mapped_match Let_def del: append.simps)

text \<open>Local addresses: the text starts with the first piece when that is not zero.\<close>

lemma hex_string_four:
  assumes "4096 \<le> n" and "n < 65536"
  shows "hex_string n = [digit_char (n div 4096), digit_char (n div 256 mod 16), digit_char (n div 16 mod 16), digit_char (n mod 16)]"
proof -
  have "n div 16 div 16 div 16 < 16" using assms by simp
  moreover have "\<not> n < 16" "\<not> n div 16 < 16" "\<not> n div 16 div 16 < 16" using assms by simp_all
  ultimately have "radix_string 16 n = [digit_char (n div 16 div 16 div 16), digit_char (n div 16 div 16 mod 16),
      digit_char (n div 16 mod 16), digit_char (n mod 16)]"
    by (simp add: radix_string.simps [of 16 n] radix_string.simps [of 16 "n div 16"] radix_string.simps [of 16 "n div 16 div 16"]
        radix_string.simps [of 16 "n div 16 div 16 div 16"])
  then show ?thesis by (simp add: hex_string_def div_mult2_eq [symmetric])
qed

lemma join_first: "\<exists>r. join_pieces (p # ps) = hex_string p @ r"
  by (cases ps) auto

lemma ip6_text_first:
  assumes "p \<noteq> 0"
  shows "\<exists>r. ip6_text (p # ps) = hex_string p @ r"
proof (cases "longest_run (p # ps) \<le> 1")
  case True
  then show ?thesis using join_first by (simp add: ip6_text_def)
next
  case False
  then have "run_start (p # ps) \<noteq> 0"
    using assms by (simp add: run_start_def upt_conv_Cons zero_run_def del: upt_Suc)
  then obtain k where "run_start (p # ps) = Suc k" by (metis not0_implies_Suc)
  then show ?thesis using False join_first [of p "take k ps"] by (auto simp: ip6_text_def)
qed

lemma local_digits:
  fixes p :: nat
  assumes "64512 \<le> p \<and> p \<le> 65023 \<or> 65152 \<le> p \<and> p \<le> 65215 \<or> 65280 \<le> p \<and> p \<le> 65535"
  shows "p div 4096 = 15" "p div 256 mod 16 \<in> {12, 13, 15} \<or> p div 256 mod 16 = 14 \<and> p div 16 mod 16 \<in> {8, 9, 10, 11}"
proof -
  note q = div_eq
  show "p div 4096 = 15" using assms by (auto simp: q)
  have "p div 256 = 252 \<or> p div 256 = 253 \<or> p div 256 = 255 \<or> p div 256 = 254 \<and> p div 16 div 4 = 1018" (is ?P)
    using assms by (auto simp: q simp flip: div_mult2_eq)
  moreover have "p div 16 \<in> {4072, 4073, 4074, 4075}" if "p div 16 div 4 = 1018"
    using that by (simp only: q zero_less_numeral) auto
  ultimately show "p div 256 mod 16 \<in> {12, 13, 15} \<or> p div 256 mod 16 = 14 \<and> p div 16 mod 16 \<in> {8, 9, 10, 11}"
    by auto
qed

lemma local_text:
  fixes p :: nat
  assumes "64512 \<le> p \<and> p \<le> 65023 \<or> 65152 \<le> p \<and> p \<le> 65215 \<or> 65280 \<le> p \<and> p \<le> 65535"
  shows "blocked_v6_text (toLowerCase (ip6_text (p # ps)))" "mapped_hex (toLowerCase (ip6_text (p # ps))) = None"
proof -
  obtain r where "ip6_text (p # ps) = hex_string p @ r" using ip6_text_first [of p ps] assms by auto
  then have t: "toLowerCase (ip6_text (p # ps)) = hex_string p @ toLowerCase r"
    by (simp add: toLowerCase_append hex_lower_string)
  have h: "hex_string p = [digit_char (p div 4096), digit_char (p div 256 mod 16), digit_char (p div 16 mod 16), digit_char (p mod 16)]"
    by (rule hex_string_four) (use assms in auto)
  have c: "digit_char 15 = CHR ''f''" "digit_char 14 = CHR ''e''" "digit_char 13 = CHR ''d''" "digit_char 12 = CHR ''c''"
    "digit_char 8 = CHR ''8''" "digit_char 9 = CHR ''9''" "digit_char 10 = CHR ''a''" "digit_char 11 = CHR ''b''"
    by code_simp+
  show "mapped_hex (toLowerCase (ip6_text (p # ps))) = None"
    by (simp add: t h c local_digits(1) [OF assms] mapped_hex_def startsWith_def)
  show "blocked_v6_text (toLowerCase (ip6_text (p # ps)))"
    using local_digits(2) [OF assms]
    by (auto simp: t h c local_digits(1) [OF assms] blocked_v6_text_def startsWith_def)
qed

text \<open>
  An IPv6 literal is judged by the address it stands for, however it is spelled.
  One that embeds an IPv4 address (::ffff:a.b.c.d) is blocked exactly when that address is in
  the IPv4 ranges, and one in fc00::/7, fe80::/10 or ff00::/8 is blocked.
\<close>

theorem ipv6_policy:
  assumes "\<not> isIPv4 ip" and "il_isIPv6 lib ip" and "il_pieces lib ip = Some (p # ps)"
  shows "(p # ps = [0, 0, 0, 0, 0, 65535, h, l] \<and> h < 65536 \<and> l < 65536
      \<longrightarrow> (isBlockedIp lib ip \<longleftrightarrow> reserved_v4 (h div 256) (h mod 256) (l div 256)))
    \<and> (64512 \<le> p \<and> p \<le> 65023 \<or> 65152 \<le> p \<and> p \<le> 65215 \<or> 65280 \<le> p \<and> p \<le> 65535 \<longrightarrow> isBlockedIp lib ip)"
proof -
  have "isBlockedIp lib ip" if "64512 \<le> p \<and> p \<le> 65023 \<or> 65152 \<le> p \<and> p \<le> 65215 \<or> 65280 \<le> p \<and> p \<le> 65535"
    using assms local_text [OF that, of ps] by (simp add: isBlockedIp_def Let_def)
  moreover have "isBlockedIp lib ip \<longleftrightarrow> reserved_v4 (h div 256) (h mod 256) (l div 256)"
    if "p # ps = [0, 0, 0, 0, 0, 65535, h, l]" "h < 65536" "l < 65536"
    using mapped_blocked [of ip lib h l] assms that blocked_dotted [of "h div 256" "h mod 256" "l div 256" "l mod 256"]
    by (simp add: less_mult_imp_div_less)
  ultimately show ?thesis by blast
qed

text \<open>The loopback address spelled with all its pieces, and a unique local address.\<close>

definition sample_ips :: ip_library where
  "sample_ips = \<lparr>il_isIPv6 = (\<lambda>ip. ip = ''0:0:0:0:0:ffff:7f00:1'' \<or> ip = ''fd00::1''),
     il_pieces = (\<lambda>ip. if ip = ''fd00::1'' then Some [64768, 0, 0, 0, 0, 0, 0, 1] else Some [0, 0, 0, 0, 0, 65535, 32512, 1])\<rparr>"

lemma ipv6_policy_witness:
  "isBlockedIp sample_ips ''0:0:0:0:0:ffff:7f00:1'' \<and> isBlockedIp sample_ips ''fd00::1''"
proof -
  have 1: "\<not> isIPv4 ''0:0:0:0:0:ffff:7f00:1''" "\<not> isIPv4 ''fd00::1''" by (simp_all add: isIPv4_def)
  show ?thesis
    using ipv6_policy [OF 1(1), of sample_ips 0 "[0, 0, 0, 0, 65535, 32512, 1]" 32512 1]
      ipv6_policy [OF 1(2), of sample_ips 64768 "[0, 0, 0, 0, 0, 0, 1]"]
    by (simp add: sample_ips_def reserved_v4_def)
qed


section \<open>What a validated destination is\<close>

lemma chosen_public:
  assumes "choose_webhook_destination lib False url records = Inr d"
  shows "de_url d = url \<and> (\<forall>r \<in> set records. \<not> isBlockedIp lib (dn_address r))
    \<and> \<lparr>dn_address = de_address d, dn_family = de_family d\<rparr> = hd records \<and> records \<noteq> []"
  using assms by (auto simp: choose_webhook_destination_def list_ex_iff split: if_splits)

lemma validated_destination:
  assumes "validateWebhookDestination lib new_URL lookup allow raw s = (Inr d, t)"
  shows "\<exists>url records. new_URL raw = Some url \<and> u_username url = [] \<and> u_password url = []
    \<and> lookup (bare_hostname url) s = (Inr records, t)
    \<and> (u_protocol url = ''https:'' \<or> allow \<and> is_loopback_name (bare_hostname url) \<and> u_protocol url = ''http:'')
    \<and> choose_webhook_destination lib (allow \<and> is_loopback_name (bare_hostname url)) url records = Inr d"
  using assms
  by (auto simp: validateWebhookDestination_def Let_def throw_def andThen_InrE lift_sum_def split: option.splits if_splits
      elim!: andThen_InrE)

end
