(* ===== verification/WebhookCrypto.thy ===== *)
theory WebhookCrypto
  imports SsrfProperties SignedPayload
begin

text \<open>
  Models packages/webhooks/src/crypto.ts: signing secrets stored encrypted, and the signature a
  receiver checks. The primitives of node:crypto (SHA-256, HMAC, AES-256-GCM) and Buffer's
  base64url and UTF-8 conversions are parameters; hexadecimal is computed. The random IV is an
  argument.
\<close>

section \<open>Stored secrets\<close>

record crypto_lib =
  cy_sha256 :: "nat list \<Rightarrow> nat list"
  cy_hmac :: "string \<Rightarrow> string \<Rightarrow> nat list"
  cy_seal :: "nat list \<Rightarrow> nat list \<Rightarrow> nat list \<Rightarrow> nat list \<times> nat list"
  cy_open :: "nat list \<Rightarrow> nat list \<Rightarrow> nat list \<Rightarrow> nat list \<Rightarrow> nat list option"
  cy_b64 :: "nat list \<Rightarrow> string"
  cy_unb64 :: "string \<Rightarrow> nat list"
  cy_text :: "nat list \<Rightarrow> string"

definition encryptionKey :: "crypto_lib \<Rightarrow> string \<Rightarrow> thrown + nat list" where
  "encryptionKey lib masterSecret =
    (if length masterSecret < 32 then Inl (PlainError ''CELLFLOW_ENCRYPTION_KEY must be at least 32 characters'')
     else Inr (cy_sha256 lib (utf8_encode masterSecret)))"

definition encryptSecret :: "crypto_lib \<Rightarrow> nat list \<Rightarrow> string \<Rightarrow> string \<Rightarrow> thrown + string" where
  "encryptSecret lib iv secret masterSecret =
     sum_bind (encryptionKey lib masterSecret) (\<lambda>k.
       case cy_seal lib k iv (utf8_encode secret) of (tag, encrypted) \<Rightarrow>
         Inr (cy_b64 lib iv @ ''.'' @ cy_b64 lib tag @ ''.'' @ cy_b64 lib encrypted))"

definition decryptSecret :: "crypto_lib \<Rightarrow> string \<Rightarrow> string \<Rightarrow> thrown + string" where
  "decryptSecret lib ciphertext masterSecret =
    (case split_on CHR ''.'' ciphertext of
       [ivText, tagText, bodyText] \<Rightarrow>
         if ivText = [] \<or> tagText = [] \<or> bodyText = [] then Inl (PlainError ''Invalid encrypted secret format'')
         else sum_bind (encryptionKey lib masterSecret) (\<lambda>k.
           case cy_open lib k (cy_unb64 lib ivText) (cy_unb64 lib tagText) (cy_unb64 lib bodyText) of
             None \<Rightarrow> Inl (PlainError ''Unsupported state or unable to authenticate data'')
           | Some plain \<Rightarrow> Inr (cy_text lib plain))
     | _ \<Rightarrow> Inl (PlainError ''Invalid encrypted secret format''))"


section \<open>Signatures\<close>

definition hex_of_bytes :: "nat list \<Rightarrow> string" where
  "hex_of_bytes bs = concat (map byte_hex bs)"

fun bytes_of_hex :: "string \<Rightarrow> nat list" where
  "bytes_of_hex (a # b # r) = (digit_value a * 16 + digit_value b) # bytes_of_hex r"
| "bytes_of_hex _ = []"

definition signWebhook :: "crypto_lib \<Rightarrow> string \<Rightarrow> int \<Rightarrow> string \<Rightarrow> string" where
  "signWebhook lib rawBody timestamp secret =
     hex_of_bytes (cy_hmac lib secret (''v1.'' @ int_string timestamp @ ''.'' @ rawBody))"

record VerifyInput =
  vi_rawBody :: string
  vi_timestamp :: int
  vi_signatureHeader :: string
  vi_secret :: string
  vi_now :: "int option"
  vi_toleranceSeconds :: "int option"

definition safe_int :: "int \<Rightarrow> bool" where
  "safe_int n \<longleftrightarrow> \<bar>n\<bar> \<le> MAX_SAFE_INTEGER"

definition presented_signature :: "string \<Rightarrow> string" where
  "presented_signature header = (if startsWith header ''v1='' then drop 3 header else header)"

definition hex_64 :: "string \<Rightarrow> bool" where
  "hex_64 s \<longleftrightarrow> length s = 64 \<and> list_all is_hex_any s"

text \<open>\<open>nowSeconds\<close> is \<open>Math.floor(Date.now() / 1000)\<close>.\<close>

definition verifyWebhookSignature :: "crypto_lib \<Rightarrow> int \<Rightarrow> VerifyInput \<Rightarrow> bool" where
  "verifyWebhookSignature lib nowSeconds input =
    (let now' = (case vi_now input of None \<Rightarrow> nowSeconds | Some t \<Rightarrow> t);
         tolerance = (case vi_toleranceSeconds input of None \<Rightarrow> 300 | Some t \<Rightarrow> t) in
     if \<not> safe_int now' \<or> \<not> safe_int (vi_timestamp input) \<or> \<not> safe_int tolerance \<or> tolerance < 0 \<or> tolerance > 3600
        \<or> \<bar>now' - vi_timestamp input\<bar> > tolerance then False
     else (let presented = presented_signature (vi_signatureHeader input) in
       if \<not> hex_64 presented then False
       else (let a = bytes_of_hex presented;
                 b = bytes_of_hex (signWebhook lib (vi_rawBody input) (vi_timestamp input) (vi_secret input)) in
             length a = length b \<and> length a > 0 \<and> a = b)))"


section \<open>Hexadecimal bytes\<close>

lemma byte_hex_digits: "n < 256 \<Longrightarrow> byte_hex n = [digit_char (n div 16), digit_char (n mod 16)]"
proof -
  assume n: "n < 256"
  show ?thesis
  proof (cases "n < 16")
    case True
    moreover have "digit_char 0 = CHR ''0''" by code_simp
    ultimately show ?thesis by (simp add: byte_hex_def hex_string_def radix_string.simps)
  next
    case False
    then have "hex_string n = [digit_char (n div 16), digit_char (n mod 16)]"
      using n by (simp add: hex_string_def radix_string.simps [of 16 n] radix_string.simps [of 16 "n div 16"] less_mult_imp_div_less)
    then show ?thesis by (simp add: byte_hex_def)
  qed
qed

lemma bytes_of_hex_of_bytes: "list_all (\<lambda>n. n < 256) bs \<Longrightarrow> bytes_of_hex (hex_of_bytes bs) = bs"
  by (induction bs) (simp_all add: hex_of_bytes_def byte_hex_digits less_mult_imp_div_less)

lemma length_hex_of_bytes: "list_all (\<lambda>n. n < 256) bs \<Longrightarrow> length (hex_of_bytes bs) = 2 * length bs"
  by (induction bs) (simp_all add: hex_of_bytes_def byte_hex_digits)

lemma hex_of_bytes_hex: "list_all (\<lambda>n. n < 256) bs \<Longrightarrow> list_all is_hex_lower (hex_of_bytes bs)"
  by (induction bs) (simp_all add: hex_of_bytes_def byte_hex_digits is_hex_digit_char less_mult_imp_div_less)

lemma is_hex_any_value: "is_hex_any c \<Longrightarrow> digit_value c < 16 \<and> digit_char (digit_value c) = lower_char c"
  by (auto simp: is_hex_any_def is_hex_lower_def is_digit_def digit_value_def digit_char_def lower_char_def)

lemma hex_of_bytes_of_hex:
  "list_all is_hex_any s \<Longrightarrow> even (length s) \<Longrightarrow> hex_of_bytes (bytes_of_hex s) = toLowerCase s"
proof (induction s rule: bytes_of_hex.induct)
  case (1 a b r)
  then have "digit_value a < 16" "digit_value b < 16" "digit_char (digit_value a) = lower_char a"
    "digit_char (digit_value b) = lower_char b" by (simp_all add: is_hex_any_value)
  with 1 show ?case by (simp add: hex_of_bytes_def byte_hex_digits toLowerCase_def)
qed (simp_all add: hex_of_bytes_def toLowerCase_def)

lemma bytes_of_hex_lower: "list_all is_hex_any s \<Longrightarrow> bytes_of_hex (toLowerCase s) = bytes_of_hex s"
proof (induction s rule: bytes_of_hex.induct)
  case (1 a b r)
  then have "digit_value a < 16" "digit_value b < 16" "digit_char (digit_value a) = lower_char a"
    "digit_char (digit_value b) = lower_char b" by (simp_all add: is_hex_any_value)
  then have "digit_value (lower_char a) = digit_value a" "digit_value (lower_char b) = digit_value b"
    by (metis digit_value_char)+
  with 1 show ?case by (simp add: toLowerCase_def)
qed (simp_all add: toLowerCase_def)


section \<open>Properties\<close>

text \<open>What node:crypto and Buffer promise: HMAC-SHA256 has 32 bytes, AES-GCM opens what it sealed,
  base64url round-trips in an alphabet without a dot, UTF-8 round-trips.\<close>

definition crypto_laws :: "crypto_lib \<Rightarrow> bool" where
  "crypto_laws lib \<longleftrightarrow>
     (\<forall>key text. length (cy_hmac lib key text) = 32 \<and> list_all (\<lambda>n. n < 256) (cy_hmac lib key text))
     \<and> (\<forall>key iv plain. list_all (\<lambda>n. n < 256) plain \<longrightarrow> (case cy_seal lib key iv plain of (tag, encrypted) \<Rightarrow>
          cy_open lib key iv tag encrypted = Some plain \<and> tag \<noteq> [] \<and> length encrypted = length plain
          \<and> list_all (\<lambda>n. n < 256) (tag @ encrypted)))
     \<and> (\<forall>bs. list_all (\<lambda>n. n < 256) bs \<longrightarrow> cy_unb64 lib (cy_b64 lib bs) = bs \<and> CHR ''.'' \<notin> set (cy_b64 lib bs)
          \<and> (cy_b64 lib bs = [] \<longleftrightarrow> bs = []))
     \<and> (\<forall>s. cy_text lib (utf8_encode s) = s)"

lemma utf8_bytes: "list_all (\<lambda>n. n < 256) (utf8_encode s)"
proof (induction s)
  case (Cons c s)
  have "code_unit c < 256" by simp
  then have "code_unit c div 64 < 4" by (intro less_mult_imp_div_less) simp
  moreover have "code_unit c mod 64 < 64" by simp
  ultimately have "code_unit c div 64 < 4" "code_unit c mod 64 < 128" by linarith+
  with Cons show ?case by (simp add: utf8_encode_def)
qed (simp add: utf8_encode_def)

lemma encrypted_secret:
  assumes "crypto_laws lib" and "32 \<le> length master" and "iv \<noteq> []" and "list_all (\<lambda>n. n < 256) iv"
  shows "\<exists>ct. encryptSecret lib iv secret master = Inr ct
    \<and> decryptSecret lib ct master = (if secret = [] then Inl (PlainError ''Invalid encrypted secret format'') else Inr secret)"
proof -
  let ?k = "cy_sha256 lib (utf8_encode master)"
  obtain tag enc where seal: "cy_seal lib ?k iv (utf8_encode secret) = (tag, enc)" by fastforce
  have law: "\<forall>key iv plain. list_all (\<lambda>n. n < 256) plain \<longrightarrow> (case cy_seal lib key iv plain of (tag, encrypted) \<Rightarrow>
      cy_open lib key iv tag encrypted = Some plain \<and> tag \<noteq> [] \<and> length encrypted = length plain
      \<and> list_all (\<lambda>n. n < 256) (tag @ encrypted))"
    using assms(1) by (simp add: crypto_laws_def)
  note law [rule_format, OF utf8_bytes, of ?k iv secret]
  with seal have o: "cy_open lib ?k iv tag enc = Some (utf8_encode secret)" "tag \<noteq> []" "length enc = length (utf8_encode secret)"
    "list_all (\<lambda>n. n < 256) tag" "list_all (\<lambda>n. n < 256) enc"
    by simp_all
  have b: "cy_unb64 lib (cy_b64 lib bs) = bs" "CHR ''.'' \<notin> set (cy_b64 lib bs)" "cy_b64 lib bs = [] \<longleftrightarrow> bs = []"
    if "list_all (\<lambda>n. n < 256) bs" for bs
    using assms(1) that by (simp_all add: crypto_laws_def)
  have e: "utf8_encode secret = [] \<longleftrightarrow> secret = []" by (cases secret) (simp_all add: utf8_encode_def)
  have t: "cy_text lib (utf8_encode secret) = secret" using assms(1) by (simp add: crypto_laws_def)
  have "split_on CHR ''.'' (cy_b64 lib iv @ ''.'' @ cy_b64 lib tag @ ''.'' @ cy_b64 lib enc) = [cy_b64 lib iv, cy_b64 lib tag, cy_b64 lib enc]"
    using assms(4) o(4,5) by (simp add: split_on_append split_on_none b)
  moreover have "enc = [] \<longleftrightarrow> secret = []" using o(3) e by (metis length_0_conv)
  ultimately show ?thesis
    using assms o by (simp add: encryptSecret_def decryptSecret_def encryptionKey_def seal b t)
qed

lemma signature_exact:
  assumes "crypto_laws lib"
  shows "hex_64 p \<Longrightarrow> bytes_of_hex p = bytes_of_hex (signWebhook lib raw ts secret) \<longleftrightarrow> toLowerCase p = signWebhook lib raw ts secret"
    and "length (bytes_of_hex (signWebhook lib raw ts secret)) = 32"
    and "hex_64 (signWebhook lib raw ts secret)" and "toLowerCase (signWebhook lib raw ts secret) = signWebhook lib raw ts secret"
proof -
  let ?h = "cy_hmac lib secret (''v1.'' @ int_string ts @ ''.'' @ raw)"
  have h: "length ?h = 32" "list_all (\<lambda>n. n < 256) ?h" using assms by (simp_all add: crypto_laws_def del: append.simps)
  have s: "signWebhook lib raw ts secret = hex_of_bytes ?h" by (simp add: signWebhook_def)
  have b: "bytes_of_hex (signWebhook lib raw ts secret) = ?h" using h(2) by (simp add: s bytes_of_hex_of_bytes del: append.simps)
  have l: "list_all is_hex_lower (hex_of_bytes ?h)" by (rule hex_of_bytes_hex [OF h(2)])
  show 32: "length (bytes_of_hex (signWebhook lib raw ts secret)) = 32" by (simp only: b h)
  show "hex_64 (signWebhook lib raw ts secret)"
    using l h length_hex_of_bytes [OF h(2)] by (simp add: s hex_64_def list_all_iff is_hex_any_def del: append.simps)
  show low: "toLowerCase (signWebhook lib raw ts secret) = signWebhook lib raw ts secret"
    using l by (auto simp: s toLowerCase_def list_all_iff hex_lower_fixed intro: map_idI simp del: append.simps)
  show "bytes_of_hex p = bytes_of_hex (signWebhook lib raw ts secret) \<longleftrightarrow> toLowerCase p = signWebhook lib raw ts secret" if "hex_64 p"
  proof
    have p: "hex_of_bytes (bytes_of_hex p) = toLowerCase p" using that by (simp add: hex_64_def hex_of_bytes_of_hex)
    show "toLowerCase p = signWebhook lib raw ts secret" if "bytes_of_hex p = bytes_of_hex (signWebhook lib raw ts secret)"
      using that p by (metis b s)
    show "bytes_of_hex p = bytes_of_hex (signWebhook lib raw ts secret)" if "toLowerCase p = signWebhook lib raw ts secret"
      using bytes_of_hex_lower that \<open>hex_64 p\<close> by (metis hex_64_def)
  qed
qed

text \<open>
  Property C33: the signing secret survives its encrypted storage, and a receiver that knows it
  accepts what the service signs exactly within five minutes of its timestamp; whatever header
  a receiver accepts spells, up to the case of its hexadecimal digits, the signature of exactly
  that body and timestamp, at most an hour away. (An empty secret would not survive: its
  ciphertext has an empty part, which decryptSecret refuses.)
\<close>

theorem secret_signs:
  assumes "crypto_laws lib" and "32 \<le> length master" and "iv \<noteq> []" and "list_all (\<lambda>n. n < 256) iv" and "secret \<noteq> []"
  shows "(\<exists>ct. encryptSecret lib iv secret master = Inr ct \<and> decryptSecret lib ct master = Inr secret)
    \<and> (verifyWebhookSignature lib t \<lparr>vi_rawBody = raw, vi_timestamp = ts, vi_signatureHeader = ''v1='' @ signWebhook lib raw ts secret,
        vi_secret = secret, vi_now = None, vi_toleranceSeconds = None\<rparr>
      \<longleftrightarrow> safe_int t \<and> safe_int ts \<and> \<bar>t - ts\<bar> \<le> 300)
    \<and> (verifyWebhookSignature lib t vi \<longrightarrow>
      toLowerCase (presented_signature (vi_signatureHeader vi)) = signWebhook lib (vi_rawBody vi) (vi_timestamp vi) (vi_secret vi)
      \<and> \<bar>(case vi_now vi of None \<Rightarrow> t | Some n \<Rightarrow> n) - vi_timestamp vi\<bar> \<le> 3600)"
proof -
  have 1: "\<exists>ct. encryptSecret lib iv secret master = Inr ct \<and> decryptSecret lib ct master = Inr secret"
    using encrypted_secret [OF assms(1-4), of secret] assms(5) by simp
  have "presented_signature (''v1='' @ s) = s" for s by (simp add: presented_signature_def startsWith_def)
  then have 2: "verifyWebhookSignature lib t \<lparr>vi_rawBody = raw, vi_timestamp = ts, vi_signatureHeader = ''v1='' @ signWebhook lib raw ts secret,
        vi_secret = secret, vi_now = None, vi_toleranceSeconds = None\<rparr> \<longleftrightarrow> safe_int t \<and> safe_int ts \<and> \<bar>t - ts\<bar> \<le> 300"
    using signature_exact(2,3) [OF assms(1), of raw ts secret]
    by (auto simp: verifyWebhookSignature_def Let_def safe_int_def MAX_SAFE_INTEGER_def simp del: append.simps)
  have 3: "toLowerCase (presented_signature (vi_signatureHeader vi)) = signWebhook lib (vi_rawBody vi) (vi_timestamp vi) (vi_secret vi)
      \<and> \<bar>(case vi_now vi of None \<Rightarrow> t | Some n \<Rightarrow> n) - vi_timestamp vi\<bar> \<le> 3600" if "verifyWebhookSignature lib t vi"
    using that signature_exact(1) [OF assms(1)] by (auto simp: verifyWebhookSignature_def Let_def split: if_splits)
  from 1 2 3 show ?thesis by blast
qed

text \<open>A concrete library that satisfies the laws.\<close>

fun utf8_decode :: "nat list \<Rightarrow> string" where
  "utf8_decode (a # r) = (if a < 128 then char_of a # utf8_decode r
     else case r of b # q \<Rightarrow> char_of ((a - 192) * 64 + (b - 128)) # utf8_decode q | [] \<Rightarrow> [])"
| "utf8_decode [] = []"

definition sample_crypto :: crypto_lib where
  "sample_crypto = \<lparr>cy_sha256 = id, cy_hmac = (\<lambda>key text. replicate 32 (length text mod 256)),
     cy_seal = (\<lambda>k iv plain. ([1], plain)), cy_open = (\<lambda>k iv tag body. Some body),
     cy_b64 = hex_of_bytes, cy_unb64 = bytes_of_hex, cy_text = utf8_decode\<rparr>"

lemma utf8_roundtrip: "utf8_decode (utf8_encode s) = s"
proof (induction s)
  case (Cons c s)
  have "code_unit c div 64 * 64 + code_unit c mod 64 = code_unit c" by simp
  with Cons show ?case by (simp add: utf8_encode_def)
qed (simp add: utf8_encode_def)

lemma sample_crypto_laws: "crypto_laws sample_crypto"
proof -
  have "CHR ''.'' \<notin> set (hex_of_bytes bs)" if "list_all (\<lambda>n. n < 256) bs" for bs
    using hex_of_bytes_hex [OF that] by (auto simp: list_all_iff is_hex_lower_def is_digit_def)
  moreover have "hex_of_bytes bs = [] \<longleftrightarrow> bs = []" if "list_all (\<lambda>n. n < 256) bs" for bs
    using length_hex_of_bytes [OF that] by (metis length_0_conv mult_eq_0_iff zero_neq_numeral)
  ultimately show ?thesis
    unfolding list_all_iff by (simp add: crypto_laws_def sample_crypto_def bytes_of_hex_of_bytes utf8_roundtrip list_all_iff)
qed

lemma secret_signs_witness:
  "(\<exists>ct. encryptSecret sample_crypto [1] ''whsec'' ''0123456789abcdef0123456789abcdef'' = Inr ct
      \<and> decryptSecret sample_crypto ct ''0123456789abcdef0123456789abcdef'' = Inr ''whsec'')
   \<and> verifyWebhookSignature sample_crypto 1700000100 \<lparr>vi_rawBody = ''{}'', vi_timestamp = 1700000000,
        vi_signatureHeader = ''v1='' @ signWebhook sample_crypto ''{}'' 1700000000 ''whsec'',
        vi_secret = ''whsec'', vi_now = None, vi_toleranceSeconds = None\<rparr>"
  using secret_signs [OF sample_crypto_laws, of "''0123456789abcdef0123456789abcdef''" "[1]" "''whsec''"]
  by (simp add: safe_int_def MAX_SAFE_INTEGER_def del: append.simps)

end
