(* ===== verification/Delivery.thy ===== *)
theory Delivery
  imports WebhookCrypto Monitoring Reconcile RepoWebhooks
begin

text \<open>
  Models packages/webhooks/src/delivery.ts and workflows/webhook-delivery/src/index.ts: one
  delivery attempt, and the workers that claim due deliveries and run them. A worker is an
  action over a host (the database next to the rest of the world). What other processes do to
  the database happens in \<open>hk_others\<close>, just before each database call, and inside the lookup and
  the request. The items of a batch are run one after the other; another worker's item in
  between is part of \<open>hk_others\<close>.
\<close>

section \<open>Environment\<close>

text \<open>\<open>http.request\<close> with the options of \<open>postPinned\<close>, and what the peer answers.\<close>

record PinnedRequest =
  pq_protocol :: string
  pq_address :: string
  pq_family :: nat
  pq_port :: string
  pq_path :: string
  pq_servername :: string
  pq_host :: string
  pq_headers :: "(string \<times> string) list"
  pq_body :: string
  pq_timeout :: int

record RawResponse =
  rr_statusCode :: "int option"
  rr_bodySize :: nat
  rr_retryAfter :: "string option"

record PinnedResponse =
  pp_status :: int
  pp_retryAfter :: "string option"

type_synonym ('w, 'a) hook = "('w host, thrown, 'a) action"

text \<open>
  Settings of the process, the standard library and the world. \<open>hk_number\<close> reads a finite
  number: whether it is negative, and \<open>Math.ceil(1000 * n)\<close>. \<open>hk_jitter\<close> is \<open>Math.floor(Math.random() * 1000)\<close>.
\<close>

record 'w hook_env =
  hk_ips :: ip_library
  hk_crypto :: crypto_lib
  hk_newURL :: "string \<Rightarrow> ParsedUrl option"
  hk_lookup :: "string \<Rightarrow> ('w, DnsRecord list) hook"
  hk_request :: "PinnedRequest \<Rightarrow> ('w, RawResponse) hook"
  hk_others :: "'w host \<Rightarrow> 'w host"
  hk_now :: "'w host \<Rightarrow> timestamp"
  hk_jitter :: "'w \<Rightarrow> nat \<times> 'w"
  hk_number :: "string \<Rightarrow> (bool \<times> int) option"
  hk_dateParse :: "string \<Rightarrow> timestamp option"
  hk_production :: bool
  hk_encryptionKey :: "string option"
  hk_maxAttempts :: "int option"
  hk_timeoutMs :: "int option"
  hk_concurrency :: "int option"
  hk_leaseSeconds :: "int option"

definition hook_db :: "'w hook_env \<Rightarrow> (db \<Rightarrow> 'a \<times> db) \<Rightarrow> ('w, 'a) hook" where
  "hook_db env m = (\<lambda>h. let g = hk_others env h in case m (h_db g) of (r, d) \<Rightarrow> (Inr r, g\<lparr>h_db := d\<rparr>))"


section \<open>Retries\<close>

definition hour_ms :: int where
  "hour_ms = 60 * 60 * 1000"

definition webhookBackoffMs :: "nat \<Rightarrow> nat \<Rightarrow> int" where
  "webhookBackoffMs jitter attemptNumber = min hour_ms (5000 * 2 ^ min attemptNumber 8) + int jitter"

definition retryAfterMs ::
    "(string \<Rightarrow> (bool \<times> int) option) \<Rightarrow> (string \<Rightarrow> timestamp option) \<Rightarrow> string option \<Rightarrow> timestamp \<Rightarrow> int option" where
  "retryAfterMs number dateParse value' now' =
    (case value' of
       None \<Rightarrow> None
     | Some text \<Rightarrow>
         if text = [] then None
         else (case number (js_trim text) of
             Some (False, ms) \<Rightarrow> Some (min hour_ms ms)
           | _ \<Rightarrow> (case dateParse text of None \<Rightarrow> None | Some date \<Rightarrow> Some (min hour_ms (max 0 (date - now'))))))"

definition maxWebhookAttempts :: "'w hook_env \<Rightarrow> int" where
  "maxWebhookAttempts env = boundedInteger (hk_maxAttempts env) 8 1 20"

definition draw_jitter :: "'w hook_env \<Rightarrow> ('w, nat) hook" where
  "draw_jitter env = (\<lambda>h. case hk_jitter env (h_world h) of (j, w) \<Rightarrow> (Inr j, h\<lparr>h_world := w\<rparr>))"

definition nextWebhookAttempt :: "'w hook_env \<Rightarrow> nat \<Rightarrow> string option \<Rightarrow> ('w, timestamp option) hook" where
  "nextWebhookAttempt env attemptCount retryAfter =
    (let currentAttempt = Suc attemptCount in
     if int currentAttempt \<ge> maxWebhookAttempts env then ret None
     else andThen (readState (\<lambda>h. retryAfterMs (hk_number env) (hk_dateParse env) retryAfter (hk_now env h))) (\<lambda>serverDelay.
       andThen (case serverDelay of Some d \<Rightarrow> ret d
           | None \<Rightarrow> andThen (draw_jitter env) (\<lambda>j. ret (webhookBackoffMs j currentAttempt))) (\<lambda>delay.
       readState (\<lambda>h. Some (hk_now env h + delay)))))"


section \<open>One attempt\<close>

definition postPinned :: "'w hook_env \<Rightarrow> Destination \<Rightarrow> (string \<times> string) list \<Rightarrow> string \<Rightarrow> ('w, PinnedResponse) hook" where
  "postPinned env d headers body =
    (let url = de_url d in
     andThen (hk_request env
       \<lparr>pq_protocol = u_protocol url, pq_address = de_address d, pq_family = de_family d,
        pq_port = (if u_port url \<noteq> [] then u_port url else if u_protocol url = ''https:'' then ''443'' else ''80''),
        pq_path = u_pathname url @ u_search url, pq_servername = u_hostname url, pq_host = u_host url,
        pq_headers = headers @ [(''host'', u_host url), (''content-length'', nat_string (length (utf8_encode body)))],
        pq_body = body, pq_timeout = boundedInteger (hk_timeoutMs env) 10000 1000 30000\<rparr>) (\<lambda>response.
     if rr_bodySize response > 64 * 1024 then throw (PlainError ''Webhook response body exceeds 64 KB'')
     else ret \<lparr>pp_status = (case rr_statusCode response of None \<Rightarrow> 0 | Some c \<Rightarrow> c),
            pp_retryAfter = rr_retryAfter response\<rparr>))"

definition delivery_headers :: "WebhookDeliveryRecord \<Rightarrow> string \<Rightarrow> int \<Rightarrow> (string \<times> string) list" where
  "delivery_headers d signature timestamp =
    [(''content-type'', ''application/json''), (''user-agent'', ''CellFlow/0.3''),
     (''x-cellflow-signature'', ''v1='' @ signature), (''x-cellflow-timestamp'', int_string timestamp),
     (''x-cellflow-event-id'', nat_string (d_eventId d)), (''x-cellflow-delivery-id'', nat_string (d_id d)),
     (''x-cellflow-attempt'', nat_string (Suc (d_attemptCount d)))]"

record DeliverResult =
  dr_delivered :: bool
  dr_status :: "int option"

definition retryable_status :: "int \<Rightarrow> bool" where
  "retryable_status s \<longleftrightarrow> s = 408 \<or> s = 425 \<or> s = 429 \<or> s \<ge> 500"

definition complete :: "'w hook_env \<Rightarrow> CompleteInput \<Rightarrow> ('w, unit) hook" where
  "complete env input = hook_db env (\<lambda>s. ((), completeWebhookDelivery input s))"

definition completion :: "WebhookDeliveryRecord \<Rightarrow> bool \<Rightarrow> int option \<Rightarrow> string option \<Rightarrow> timestamp option \<Rightarrow> CompleteInput" where
  "completion d success status err retryAt =
    \<lparr>cm_id = d_id d, cm_leaseOwner = d_leaseOwner d, cm_success = success, cm_responseStatus = status, cm_error = err,
     cm_retryAt = retryAt\<rparr>"

text \<open>The first half of the \<open>try\<close>: validate, decrypt, sign, post.\<close>

definition post_signed :: "'w hook_env \<Rightarrow> WebhookDeliveryRecord \<Rightarrow> WebhookEndpointRecord \<Rightarrow> Destination \<Rightarrow> ('w, PinnedResponse) hook" where
  "post_signed env d endpoint destination =
    (case or_null (hk_encryptionKey env) of
       None \<Rightarrow> throw (PlainError ''CELLFLOW_ENCRYPTION_KEY is required'')
     | Some masterSecret \<Rightarrow>
         andThen (lift_sum (decryptSecret (hk_crypto env) (w_signingSecretEncrypted endpoint) masterSecret)) (\<lambda>secret.
         andThen (readState (\<lambda>h. hk_now env h div 1000)) (\<lambda>timestamp.
         let rawBody = json_stringify (d_payload d) in
         postPinned env destination
           (delivery_headers d (signWebhook (hk_crypto env) rawBody timestamp secret) timestamp) rawBody)))"

definition send_webhook :: "'w hook_env \<Rightarrow> WebhookDeliveryRecord \<Rightarrow> WebhookEndpointRecord \<Rightarrow> ('w, PinnedResponse) hook" where
  "send_webhook env d endpoint =
     andThen (validateWebhookDestination (hk_ips env) (hk_newURL env) (hk_lookup env) (\<not> hk_production env) (w_url endpoint))
       (post_signed env d endpoint)"

definition deliverWebhook :: "'w hook_env \<Rightarrow> WebhookDeliveryRecord \<Rightarrow> ('w, DeliverResult) hook" where
  "deliverWebhook env d =
     andThen (hook_db env (\<lambda>s. (getWebhookEndpoint (d_projectId d) (d_endpointId d) s, s))) (\<lambda>found.
     let disabled = andThen (complete env (completion d False None (Some ''Endpoint disabled or missing'') None))
           (\<lambda>_. ret \<lparr>dr_delivered = False, dr_status = None\<rparr>) in
     case found of
       None \<Rightarrow> disabled
     | Some endpoint \<Rightarrow>
         if \<not> w_enabled endpoint then disabled
         else tryCatch
           (andThen (send_webhook env d endpoint) (\<lambda>response.
              if pp_status response \<ge> 200 \<and> pp_status response < 300 then
                andThen (complete env (completion d True (Some (pp_status response)) None None))
                  (\<lambda>_. ret \<lparr>dr_delivered = True, dr_status = Some (pp_status response)\<rparr>)
              else
                andThen (if retryable_status (pp_status response)
                    then nextWebhookAttempt env (d_attemptCount d) (pp_retryAfter response) else ret None) (\<lambda>nextAttempt.
                andThen (complete env (completion d False (Some (pp_status response))
                    (Some (''HTTP '' @ int_string (pp_status response))) nextAttempt))
                  (\<lambda>_. ret \<lparr>dr_delivered = False, dr_status = Some (pp_status response)\<rparr>))))
           (\<lambda>e.
              andThen (nextWebhookAttempt env (d_attemptCount d) None) (\<lambda>nextAttempt.
              andThen (complete env (completion d False None (Some (thrown_message e)) nextAttempt))
                (\<lambda>_. ret \<lparr>dr_delivered = False, dr_status = None\<rparr>))))"


section \<open>Workers\<close>

datatype ItemOutcome = LEASE_LOST | NOT_DELIVERED | DELIVERED_OK

definition deliver_item :: "'w hook_env \<Rightarrow> uuid \<Rightarrow> int \<Rightarrow> WebhookDeliveryRecord \<Rightarrow> ('w, ItemOutcome) hook" where
  "deliver_item env leaseOwner itemLeaseSeconds item =
     andThen (hook_db env (renewWebhookDeliveryLease (d_id item) leaseOwner itemLeaseSeconds)) (\<lambda>renewed.
       if \<not> renewed then ret LEASE_LOST
       else tryCatch
         (andThen (deliverWebhook env (item\<lparr>d_leaseOwner := Some leaseOwner\<rparr>))
            (\<lambda>r. ret (if dr_delivered r then DELIVERED_OK else NOT_DELIVERED)))
         (\<lambda>_. andThen (hook_db env (\<lambda>s. ((), releaseWebhookDeliveryLease (d_id item) leaseOwner s))) (\<lambda>_. ret NOT_DELIVERED)))"

definition deliver_event_item :: "'w hook_env \<Rightarrow> uuid \<Rightarrow> int \<Rightarrow> WebhookDeliveryRecord \<Rightarrow> ('w, ItemOutcome) hook" where
  "deliver_event_item env leaseOwner itemLeaseSeconds item =
     andThen (hook_db env (renewWebhookDeliveryLease (d_id item) leaseOwner itemLeaseSeconds)) (\<lambda>renewed.
       if \<not> renewed then ret LEASE_LOST
       else andThen (deliverWebhook env (item\<lparr>d_leaseOwner := Some leaseOwner\<rparr>))
            (\<lambda>r. ret (if dr_delivered r then DELIVERED_OK else NOT_DELIVERED)))"

record BatchResult =
  br_attempted :: nat
  br_delivered :: nat
  br_leaseLost :: nat

definition batch_result :: "ItemOutcome list \<Rightarrow> BatchResult" where
  "batch_result os = \<lparr>br_attempted = length os, br_delivered = length (filter (\<lambda>x. x = DELIVERED_OK) os),
     br_leaseLost = length (filter (\<lambda>x. x = LEASE_LOST) os)\<rparr>"

definition new_lease :: "'w hook_env \<Rightarrow> ('w, uuid) hook" where
  "new_lease env = hook_db env (\<lambda>s. (next_uuid s, s\<lparr>next_uuid := Suc (next_uuid s)\<rparr>))"

definition deliverDueWebhooks :: "'w hook_env \<Rightarrow> int \<Rightarrow> uuid option \<Rightarrow> ('w, BatchResult) hook" where
  "deliverDueWebhooks env limit projectId =
     andThen (new_lease env) (\<lambda>leaseOwner.
     let concurrency = boundedInteger (hk_concurrency env) 6 1 12;
         itemLeaseSeconds = boundedInteger (hk_leaseSeconds env) 45 20 300;
         boundedLimit = min (max limit 1) 100;
         initialLeaseSeconds = min 900 (itemLeaseSeconds * max 1 (ceil_div boundedLimit concurrency)) in
     andThen (hook_db env (claimDueWebhookDeliveries boundedLimit leaseOwner initialLeaseSeconds projectId)) (\<lambda>due.
     andThen (each (deliver_item env leaseOwner itemLeaseSeconds) due) (\<lambda>os. ret (batch_result os))))"

definition deliverWebhookEvent :: "'w hook_env \<Rightarrow> uuid \<Rightarrow> uuid \<Rightarrow> ('w, BatchResult) hook" where
  "deliverWebhookEvent env projectId eventId =
     andThen (new_lease env) (\<lambda>leaseOwner.
     let itemLeaseSeconds = boundedInteger (hk_leaseSeconds env) 45 20 300 in
     andThen (hook_db env (claimWebhookDeliveriesForEvent projectId eventId leaseOwner itemLeaseSeconds)) (\<lambda>due.
     andThen (each (deliver_event_item env leaseOwner itemLeaseSeconds) due) (\<lambda>os. ret (batch_result os))))"

end
