(* ===== verification/DeliveryProperties.thy ===== *)
theory DeliveryProperties
  imports Delivery ReconcileSafety
begin

text \<open>
  What a webhook worker does: requests go to validated public addresses only, every attempt is
  recorded exactly once with a bounded retry, and a batch changes the database only by steps of
  the queue model.
\<close>

section \<open>Requests stay public\<close>

lemma andThen_cong: "(\<And>x t. m s = (Inr x, t) \<Longrightarrow> f x t = g x t) \<Longrightarrow> andThen m f s = andThen m g s"
  by (simp add: andThen_def split: prod.splits sum.splits)

definition forbidden_request :: "'w hook_env \<Rightarrow> PinnedRequest \<Rightarrow> bool" where
  "forbidden_request env r \<longleftrightarrow> pq_protocol r \<noteq> ''https:'' \<or> isBlockedIp (hk_ips env) (pq_address r)"

definition redirected :: "'w hook_env \<Rightarrow> (PinnedRequest \<Rightarrow> ('w, RawResponse) hook) \<Rightarrow> 'w hook_env" where
  "redirected env f = env\<lparr>hk_request := (\<lambda>r. if forbidden_request env r then f r else hk_request env r)\<rparr>"

lemma redirected_sel [simp]:
  "hk_ips (redirected env f) = hk_ips env" "hk_crypto (redirected env f) = hk_crypto env" "hk_newURL (redirected env f) = hk_newURL env"
  "hk_lookup (redirected env f) = hk_lookup env" "hk_others (redirected env f) = hk_others env" "hk_now (redirected env f) = hk_now env"
  "hk_jitter (redirected env f) = hk_jitter env" "hk_number (redirected env f) = hk_number env"
  "hk_dateParse (redirected env f) = hk_dateParse env" "hk_production (redirected env f) = hk_production env"
  "hk_encryptionKey (redirected env f) = hk_encryptionKey env" "hk_maxAttempts (redirected env f) = hk_maxAttempts env"
  "hk_timeoutMs (redirected env f) = hk_timeoutMs env" "hk_concurrency (redirected env f) = hk_concurrency env"
  "hk_leaseSeconds (redirected env f) = hk_leaseSeconds env"
  by (simp_all add: redirected_def)

lemma redirected_parts [simp]:
  "hook_db (redirected env f) = hook_db env" "draw_jitter (redirected env f) = draw_jitter env"
  "maxWebhookAttempts (redirected env f) = maxWebhookAttempts env"
  by (simp_all add: fun_eq_iff hook_db_def maxWebhookAttempts_def draw_jitter_def)

lemma redirected_calls [simp]:
  "nextWebhookAttempt (redirected env f) = nextWebhookAttempt env"
  "complete (redirected env f) = complete env" "new_lease (redirected env f) = new_lease env"
  by (rule ext | simp add: nextWebhookAttempt_def complete_def new_lease_def cong: option.case_cong if_cong)+

lemma public_destination:
  assumes "validateWebhookDestination lib new_URL lookup False raw s = (Inr d, t)"
  shows "u_protocol (de_url d) = ''https:'' \<and> \<not> isBlockedIp lib (de_address d)"
proof -
  from validated_destination [OF assms] obtain url records where
    u: "u_protocol url = ''https:''" "choose_webhook_destination lib False url records = Inr d" by auto
  from chosen_public [OF u(2)] u(1) show ?thesis
    by (metis DnsRecord.select_convs(1) hd_in_set)
qed

lemma post_redirected:
  assumes "u_protocol (de_url dest) = ''https:''" and "\<not> isBlockedIp (hk_ips env) (de_address dest)"
  shows "post_signed (redirected env f) d endpoint dest = post_signed env d endpoint dest"
proof -
  have "postPinned (redirected env f) dest headers body = postPinned env dest headers body" for headers body
    using assms by (simp add: postPinned_def redirected_def forbidden_request_def Let_def)
  then show ?thesis by (simp add: post_signed_def Let_def cong: option.case_cong)
qed

lemma send_redirected:
  assumes "hk_production env"
  shows "send_webhook (redirected env f) d endpoint = send_webhook env d endpoint"
proof
  fix h
  have "post_signed (redirected env f) d endpoint dest t = post_signed env d endpoint dest t"
    if "validateWebhookDestination (hk_ips env) (hk_newURL env) (hk_lookup env) False (w_url endpoint) h = (Inr dest, t)" for dest t
    using public_destination [OF that] by (simp add: post_redirected)
  then show "send_webhook (redirected env f) d endpoint h = send_webhook env d endpoint h"
    using assms by (simp add: send_webhook_def) (rule andThen_cong)
qed

lemma deliver_redirected: "hk_production env \<Longrightarrow> deliverWebhook (redirected env f) = deliverWebhook env"
  by (rule ext) (simp add: deliverWebhook_def send_redirected Let_def cong: option.case_cong if_cong)

text \<open>
  Property C31: in production a worker never sends a request that is not HTTPS or that goes to a
  blocked address: whatever such requests would answer or do to the world, both workers compute
  the same results and leave the world in the same state. DNS answers, endpoints in the
  database and the other processes are arbitrary.
\<close>

theorem no_blocked_request:
  assumes "hk_production env"
  shows "deliverDueWebhooks (redirected env f) limit p h = deliverDueWebhooks env limit p h
    \<and> deliverWebhookEvent (redirected env f) q ev h = deliverWebhookEvent env q ev h"
proof -
  have "deliver_item (redirected env f) = deliver_item env" "deliver_event_item (redirected env f) = deliver_event_item env"
    by (simp_all add: fun_eq_iff deliver_item_def deliver_event_item_def deliver_redirected [OF assms] cong: if_cong)
  then show ?thesis
    by (simp add: deliverDueWebhooks_def deliverWebhookEvent_def)
qed


section \<open>What an attempt records\<close>

text \<open>The attempt up to its one write: the completion and the result.\<close>

definition attempt_outcome :: "'w hook_env \<Rightarrow> WebhookDeliveryRecord \<Rightarrow> ('w, CompleteInput \<times> DeliverResult) hook" where
  "attempt_outcome env d =
     andThen (hook_db env (\<lambda>s. (getWebhookEndpoint (d_projectId d) (d_endpointId d) s, s))) (\<lambda>found.
     case found of
       None \<Rightarrow> ret (completion d False None (Some ''Endpoint disabled or missing'') None, \<lparr>dr_delivered = False, dr_status = None\<rparr>)
     | Some endpoint \<Rightarrow>
         if \<not> w_enabled endpoint
         then ret (completion d False None (Some ''Endpoint disabled or missing'') None, \<lparr>dr_delivered = False, dr_status = None\<rparr>)
         else andThen (attempt (send_webhook env d endpoint)) (\<lambda>sent. case sent of
           Inl e \<Rightarrow> andThen (nextWebhookAttempt env (d_attemptCount d) None)
             (\<lambda>next. ret (completion d False None (Some (thrown_message e)) next, \<lparr>dr_delivered = False, dr_status = None\<rparr>))
         | Inr response \<Rightarrow>
             if pp_status response \<ge> 200 \<and> pp_status response < 300
             then ret (completion d True (Some (pp_status response)) None None, \<lparr>dr_delivered = True, dr_status = Some (pp_status response)\<rparr>)
             else andThen (if retryable_status (pp_status response)
                 then nextWebhookAttempt env (d_attemptCount d) (pp_retryAfter response) else ret None)
               (\<lambda>next. ret (completion d False (Some (pp_status response)) (Some (''HTTP '' @ int_string (pp_status response))) next,
                   \<lparr>dr_delivered = False, dr_status = Some (pp_status response)\<rparr>))))"

lemma complete_apply: "complete env input h = (Inr (), (hk_others env h)\<lparr>h_db := completeWebhookDelivery input (h_db (hk_others env h))\<rparr>)"
  by (simp add: complete_def hook_db_def Let_def)

lemma next_never_throws [simp]: "nextWebhookAttempt env n ra h \<noteq> (Inl e, g)"
  by (auto simp: nextWebhookAttempt_def Let_def draw_jitter_def andThen_def split: option.splits prod.splits)

text \<open>The handler's own code cannot throw, so its \<open>catch\<close> sees only errors of validation, signing and posting.\<close>

lemma deliver_is_outcome:
  "deliverWebhook env d = andThen (attempt_outcome env d) (\<lambda>(input, r). andThen (complete env input) (\<lambda>_. ret r))"
proof
  fix h
  show "deliverWebhook env d h = andThen (attempt_outcome env d) (\<lambda>(input, r). andThen (complete env input) (\<lambda>_. ret r)) h"
    by (auto simp: deliverWebhook_def attempt_outcome_def andThen_def tryCatch_def attempt_def Let_def complete_apply
        split: option.splits prod.splits sum.splits) 
qed

text \<open>The jitter is below a second and a number that is not negative has no negative delay.\<close>

definition delay_laws :: "'w hook_env \<Rightarrow> bool" where
  "delay_laws env \<longleftrightarrow> (\<forall>w. fst (hk_jitter env w) < 1000) \<and> (\<forall>s ms. hk_number env s = Some (False, ms) \<longrightarrow> 0 \<le> ms)"

lemma retryAfter_bounds:
  "delay_laws env \<Longrightarrow> retryAfterMs (hk_number env) (hk_dateParse env) v t = Some d \<Longrightarrow> 0 \<le> d \<and> d \<le> hour_ms"
  by (auto simp: retryAfterMs_def delay_laws_def hour_ms_def split: option.splits if_splits prod.splits bool.splits)

lemma backoff_bounds: "j < 1000 \<Longrightarrow> 0 \<le> webhookBackoffMs j n \<and> webhookBackoffMs j n \<le> hour_ms + 999"
  by (auto simp: webhookBackoffMs_def hour_ms_def min_def)

lemma next_bounds:
  assumes "delay_laws env" and "nextWebhookAttempt env n ra h = (Inr (Some t), g)"
  shows "int (Suc n) < maxWebhookAttempts env \<and> hk_now env g \<le> t \<and> t \<le> hk_now env g + hour_ms + 999"
proof (cases "retryAfterMs (hk_number env) (hk_dateParse env) ra (hk_now env h)")
  case None
  obtain j w where j: "hk_jitter env (h_world h) = (j, w)" by fastforce
  with assms(1) have "j < 1000" unfolding delay_laws_def by (metis fst_conv)
  from backoff_bounds [OF this, of "Suc n"] None assms(2) j show ?thesis
    by (auto simp: nextWebhookAttempt_def Let_def draw_jitter_def andThen_def split: if_splits)
next
  case (Some d)
  from retryAfter_bounds [OF assms(1) Some] Some assms(2) show ?thesis
    by (auto simp: nextWebhookAttempt_def Let_def andThen_def split: if_splits)
qed

lemma next_some: "nextWebhookAttempt env n ra h = (Inr t, g) \<Longrightarrow> t \<noteq> None \<longleftrightarrow> int (Suc n) < maxWebhookAttempts env"
  by (auto simp: nextWebhookAttempt_def Let_def andThen_def draw_jitter_def split: if_splits option.splits prod.splits)

text \<open>The endpoint the attempt finds, and the status its one request is answered with.\<close>

definition live_endpoint :: "'w hook_env \<Rightarrow> WebhookDeliveryRecord \<Rightarrow> 'w host \<Rightarrow> WebhookEndpointRecord option" where
  "live_endpoint env d h = (case getWebhookEndpoint (d_projectId d) (d_endpointId d) (h_db (hk_others env h)) of
     Some w \<Rightarrow> if w_enabled w then Some w else None | None \<Rightarrow> None)"

definition answer_status :: "'w hook_env \<Rightarrow> WebhookDeliveryRecord \<Rightarrow> 'w host \<Rightarrow> int option" where
  "answer_status env d h = (case live_endpoint env d h of
     Some w \<Rightarrow> (case fst (send_webhook env d w (hk_others env h)) of Inr p \<Rightarrow> Some (pp_status p) | Inl e \<Rightarrow> None)
   | None \<Rightarrow> None)"

definition recorded :: "'w hook_env \<Rightarrow> WebhookDeliveryRecord \<Rightarrow> CompleteInput \<Rightarrow> DeliverResult \<Rightarrow> 'w host \<Rightarrow> bool" where
  "recorded env d input r g \<longleftrightarrow> cm_id input = d_id d \<and> cm_leaseOwner input = d_leaseOwner d
     \<and> cm_success input = dr_delivered r \<and> cm_responseStatus input = dr_status r
     \<and> (dr_delivered r \<longleftrightarrow> (\<exists>s. dr_status r = Some s \<and> 200 \<le> s \<and> s < 300))
     \<and> (\<forall>t. cm_retryAt input = Some t \<longrightarrow> \<not> dr_delivered r \<and> int (Suc (d_attemptCount d)) < maxWebhookAttempts env
          \<and> (\<forall>s. dr_status r = Some s \<longrightarrow> retryable_status s)
          \<and> hk_now env g \<le> t \<and> t \<le> hk_now env g + hour_ms + 999)"

definition retried :: "'w hook_env \<Rightarrow> WebhookDeliveryRecord \<Rightarrow> 'w host \<Rightarrow> CompleteInput \<Rightarrow> DeliverResult \<Rightarrow> bool" where
  "retried env d h input r \<longleftrightarrow> dr_status r = answer_status env d h
     \<and> (cm_retryAt input \<noteq> None \<longleftrightarrow> live_endpoint env d h \<noteq> None \<and> \<not> dr_delivered r
          \<and> int (Suc (d_attemptCount d)) < maxWebhookAttempts env \<and> (\<forall>s. dr_status r = Some s \<longrightarrow> retryable_status s))"

lemma outcome_recorded:
  assumes "delay_laws env" and "attempt_outcome env d h = (x, g)"
  shows "\<exists>input r. x = Inr (input, r) \<and> recorded env d input r g \<and> retried env d h input r"
proof -
  obtain found where f: "hook_db env (\<lambda>s. (getWebhookEndpoint (d_projectId d) (d_endpointId d) s, s)) h = (Inr found, hk_others env h)"
      "found = getWebhookEndpoint (d_projectId d) (d_endpointId d) (h_db (hk_others env h))"
    by (simp add: hook_db_def Let_def)
  have none: "recorded env d (completion d False st e None) \<lparr>dr_delivered = False, dr_status = st\<rparr> g'"
    if "\<And>s. st = Some s \<Longrightarrow> \<not> (200 \<le> s \<and> s < 300)" for st e g'
    using that by (auto simp: recorded_def completion_def)
  have next_rec: "recorded env d (completion d False st e t) \<lparr>dr_delivered = False, dr_status = st\<rparr> g'"
    if "nextWebhookAttempt env (d_attemptCount d) ra h2 = (Inr t, g')"
      and "\<And>s. st = Some s \<Longrightarrow> \<not> (200 \<le> s \<and> s < 300) \<and> retryable_status s" for st e t ra h2 g'
    using that next_bounds [OF assms(1), of "d_attemptCount d" ra h2 _ g'] by (auto simp: recorded_def completion_def)
  show ?thesis
  proof (cases "case found of None \<Rightarrow> True | Some w \<Rightarrow> \<not> w_enabled w")
    case True
    then have l: "live_endpoint env d h = None" by (auto simp: live_endpoint_def f(2) split: option.splits)
    from True have "x = Inr (completion d False None (Some ''Endpoint disabled or missing'') None, \<lparr>dr_delivered = False, dr_status = None\<rparr>)"
      using assms(2) f(1) by (simp add: attempt_outcome_def andThen_def split: option.splits)
    then show ?thesis using none [of None] l by (simp add: retried_def answer_status_def) (simp add: completion_def)
  next
    case False
    then obtain w where w: "found = Some w" "w_enabled w" by (auto split: option.splits)
    then have l: "live_endpoint env d h = Some w" by (simp add: live_endpoint_def f(2) [symmetric])
    obtain sent h2 where s: "send_webhook env d w (hk_others env h) = (sent, h2)" by fastforce
    then have a: "attempt (send_webhook env d w) (hk_others env h) = (Inr sent, h2)"
      by (simp add: attempt_def andThen_def tryCatch_def split: sum.splits)
    have st: "answer_status env d h = (case sent of Inr p \<Rightarrow> Some (pp_status p) | Inl e \<Rightarrow> None)"
      by (simp add: answer_status_def l s)
    have n: "\<exists>t g'. nextWebhookAttempt env (d_attemptCount d) ra h2 = (Inr t, g')" for ra
      by (metis next_never_throws old.prod.exhaust sum.exhaust)
    show ?thesis
    proof (cases sent)
      case (Inl e)
      from n [of None] obtain t g' where t: "nextWebhookAttempt env (d_attemptCount d) None h2 = (Inr t, g')" by blast
      then have "x = Inr (completion d False None (Some (thrown_message e)) t, \<lparr>dr_delivered = False, dr_status = None\<rparr>)" "g = g'"
        using assms(2) by (simp_all add: attempt_outcome_def andThen_def f(1) w a Inl)
      then show ?thesis using next_rec [OF t, of None] next_some [OF t] l st Inl by (simp add: retried_def completion_def)
    next
      case (Inr v)
      let ?st = "Some (pp_status v)" and ?e = "Some (''HTTP '' @ int_string (pp_status v))"
      consider "200 \<le> pp_status v \<and> pp_status v < 300"
        | "\<not> (200 \<le> pp_status v \<and> pp_status v < 300)" "retryable_status (pp_status v)"
        | "\<not> (200 \<le> pp_status v \<and> pp_status v < 300)" "\<not> retryable_status (pp_status v)" by blast
      then show ?thesis
      proof cases
        case 1
        then have "x = Inr (completion d True ?st None None, \<lparr>dr_delivered = True, dr_status = ?st\<rparr>)"
          using assms(2) by (simp add: attempt_outcome_def andThen_def f(1) w a Inr)
        with 1 st Inr show ?thesis by (simp add: recorded_def completion_def retried_def)
      next
        case 2
        from n [of "pp_retryAfter v"] obtain t g' where
          t: "nextWebhookAttempt env (d_attemptCount d) (pp_retryAfter v) h2 = (Inr t, g')" by blast
        then have "x = Inr (completion d False ?st ?e t, \<lparr>dr_delivered = False, dr_status = ?st\<rparr>)" "g = g'"
          using assms(2) 2 by (auto simp: attempt_outcome_def andThen_def f(1) w a Inr simp del: append.simps)
        then show ?thesis using next_rec [OF t, of ?st] next_some [OF t] 2 l st Inr by (simp add: retried_def completion_def)
      next
        case 3
        then have "x = Inr (completion d False ?st ?e None, \<lparr>dr_delivered = False, dr_status = ?st\<rparr>)"
          using assms(2) by (auto simp: attempt_outcome_def andThen_def f(1) w a Inr simp del: append.simps)
        then show ?thesis using none [of ?st] 3 st Inr by (simp add: retried_def completion_def)
      qed
    qed
  qed
qed

text \<open>
  What happens on a host while a worker does not write: other processes, name lookups, draws of the
  jitter, and \<open>n\<close> requests of the worker.
\<close>

inductive moves :: "'w hook_env \<Rightarrow> nat \<Rightarrow> 'w host \<Rightarrow> 'w host \<Rightarrow> bool" for env where
  start: "moves env 0 h h"
| others: "moves env n h g \<Longrightarrow> moves env n h (hk_others env g)"
| lookup: "moves env n h g \<Longrightarrow> hk_lookup env name g = (x, k) \<Longrightarrow> moves env n h k"
| request: "moves env n h g \<Longrightarrow> hk_request env q g = (y, k) \<Longrightarrow> moves env (Suc n) h k"
| jitter: "moves env n h g \<Longrightarrow> hk_jitter env (h_world g) = (j, w) \<Longrightarrow> moves env n h (g\<lparr>h_world := w\<rparr>)"

lemma moves_trans: "moves env m g k \<Longrightarrow> moves env n h g \<Longrightarrow> moves env (n + m) h k"
  by (induction rule: moves.induct) (auto intro: moves.intros)

definition asks :: "'w hook_env \<Rightarrow> nat \<Rightarrow> ('w, 'a) hook \<Rightarrow> bool" where
  "asks env m a \<longleftrightarrow> (\<forall>h. \<exists>n \<le> m. moves env n h (snd (a h)))"

lemma asks_pure: "asks env m (ret x)" "asks env m (throw e)" "asks env m (readState f)" "asks env m (lift_sum y)"
  by (auto simp: asks_def lift_sum_def intro: moves.start split: sum.splits)

lemma asks_andThen:
  assumes "asks env m a" and "\<And>x. asks env k (f x)"
  shows "asks env (m + k) (andThen a f)"
  unfolding asks_def
proof
  fix h
  obtain r g where r: "a h = (r, g)" by fastforce
  with assms(1) obtain n where n: "n \<le> m" "moves env n h g" unfolding asks_def by (metis snd_conv)
  show "\<exists>n \<le> m + k. moves env n h (snd (andThen a f h))"
  proof (cases r)
    case (Inr x)
    obtain n' where n': "n' \<le> k" "moves env n' g (snd (f x g))" using assms(2) [of x] unfolding asks_def by blast
    have "moves env (n + n') h (snd (f x g))" by (rule moves_trans [OF n'(2) n(2)])
    moreover have "n + n' \<le> m + k" using n(1) n'(1) by simp
    ultimately show ?thesis using Inr by (auto simp: andThen_def r)
  qed (use n in \<open>auto simp: andThen_def r intro: exI [of _ n]\<close>)
qed

lemma asks_parts: "asks env 0 a \<Longrightarrow> (\<And>x. asks env m (f x)) \<Longrightarrow> asks env m (andThen a f)"
  "asks env m a \<Longrightarrow> (\<And>x. asks env 0 (f x)) \<Longrightarrow> asks env m (andThen a f)"
  using asks_andThen [of env 0 a m f] asks_andThen [of env m a 0 f] by simp_all

lemma asks_reads: "asks env 0 (hook_db env (\<lambda>s. (f s, s)))"
  by (auto simp: asks_def hook_db_def Let_def intro: moves.intros)

lemma asks_next: "asks env 0 (nextWebhookAttempt env n ra)"
proof -
  have j: "asks env 0 (draw_jitter env)" by (auto simp: asks_def draw_jitter_def intro: moves.intros split: prod.splits)
  show ?thesis unfolding nextWebhookAttempt_def Let_def
    by (auto intro!: asks_parts(1) asks_pure j split: option.splits)
qed

lemma asks_attempt: "asks env m a \<Longrightarrow> asks env m (attempt a)"
  by (auto simp: asks_def attempt_def andThen_def tryCatch_def split: sum.splits prod.splits) (metis snd_conv)+

lemma asks_send: "asks env 1 (send_webhook env d w)"
proof -
  have l: "asks env 0 (hk_lookup env name)" for name
    unfolding asks_def by (metis le_refl moves.lookup moves.start surjective_pairing)
  have q: "asks env 1 (hk_request env q)" for q
    unfolding asks_def by (metis One_nat_def le_refl moves.request moves.start surjective_pairing)
  have "asks env 0 (validateWebhookDestination (hk_ips env) (hk_newURL env) (hk_lookup env) b u)" for b u
    unfolding validateWebhookDestination_def Let_def by (auto intro!: asks_parts(1) asks_pure l split: option.splits)
  moreover have "asks env 1 (postPinned env dest headers body)" for dest headers body
    unfolding postPinned_def Let_def by (rule asks_parts(2) [OF q]) (simp add: asks_pure)
  then have "asks env 1 (post_signed env d w dest)" for dest
    unfolding post_signed_def Let_def by (auto intro!: asks_parts(1) asks_pure split: option.splits)
  ultimately show ?thesis
    unfolding send_webhook_def by (intro asks_parts(1))
qed

lemma asks_sent: "(\<And>x. asks env 0 (f x)) \<Longrightarrow> asks env 1 (andThen (attempt (send_webhook env d w)) f)"
  by (rule asks_parts(2) [OF asks_attempt [OF asks_send]])

lemma asks_outcome: "asks env 1 (attempt_outcome env d)"
  unfolding attempt_outcome_def
  by (rule asks_parts(1) [OF asks_reads])
    (rule asks_sent asks_pure asks_next asks_parts(1) | (split option.split sum.split if_split, intro conjI impI allI))+

text \<open>
  Property C32: an attempt makes at most one request and exactly one write, the completion of its own
  row with the lease of the worker, and it never throws. Between its start and that write the host
  changes only by other processes, lookups, the jitter and that request; the write is the last thing
  it does. The recorded status is the one the request was answered with; success is recorded exactly
  for 200 to 299; a retry exactly for an enabled endpoint, a retryable answer or an error, and
  attempts left, and at most an hour and a second ahead.
\<close>

theorem delivery_recorded_once:
  assumes "delay_laws env" and "deliverWebhook env d h = (x, h')"
  shows "\<exists>n g input r. n \<le> 1 \<and> moves env n h g
    \<and> h' = (hk_others env g)\<lparr>h_db := completeWebhookDelivery input (h_db (hk_others env g))\<rparr>
    \<and> x = Inr r \<and> recorded env d input r g \<and> retried env d h input r"
proof -
  obtain y g where y: "attempt_outcome env d h = (y, g)" by fastforce
  from outcome_recorded [OF assms(1) y] obtain input r
    where r: "y = Inr (input, r)" "recorded env d input r g" "retried env d h input r" by blast
  obtain n where n: "n \<le> 1" "moves env n h g" using asks_outcome [of env d] y unfolding asks_def by (metis snd_conv)
  have "deliverWebhook env d h = (Inr r, (hk_others env g)\<lparr>h_db := completeWebhookDelivery input (h_db (hk_others env g))\<rparr>)"
    by (simp add: deliver_is_outcome andThen_def y r(1) complete_apply)
  with assms(2) r n show ?thesis by auto
qed

text \<open>An attempt on a row that is claimed again after its retry was recorded.\<close>

definition retries :: "'w hook_env \<Rightarrow> WebhookDeliveryRecord \<Rightarrow> WebhookDeliveryRecord \<Rightarrow> bool" where
  "retries env d d' \<longleftrightarrow> (\<exists>h input r g now' w u now''. attempt_outcome env d h = (Inr (input, r), g)
     \<and> d_status (complete_row input now' d) = DS_RETRY \<and> d' = lease_delivery w u now'' (complete_row input now' d))"

lemma max_attempts_20: "maxWebhookAttempts env \<le> 20"
  by (simp add: maxWebhookAttempts_def boundedInteger_def clamp_def split: option.splits)

lemma retries_count:
  assumes "delay_laws env" and "retries env d d'"
  shows "d_attemptCount d' = Suc (d_attemptCount d) \<and> int (d_attemptCount d') < maxWebhookAttempts env"
proof -
  from assms(2) obtain h input r g t w u t' where
    a: "attempt_outcome env d h = (Inr (input, r), g)" "d_status (complete_row input t d) = DS_RETRY"
      "d' = lease_delivery w u t' (complete_row input t d)" by (auto simp: retries_def)
  from outcome_recorded [OF assms(1) a(1)] have "recorded env d input r g" by auto
  moreover have "cm_retryAt input \<noteq> None" using a(2) by (auto simp: complete_row_def split: if_splits)
  ultimately show ?thesis by (auto simp: a(3) lease_delivery_def complete_row_def recorded_def)
qed

text \<open>
  Retrying ends: a delivery is claimed again after a recorded retry fewer than 20
  times, whatever the attempts meet, and fewer than CELLFLOW_WEBHOOK_MAX_ATTEMPTS times in all.
\<close>

theorem retries_end:
  assumes "delay_laws env" and "(retries env ^^ n) d d'" and "0 < n"
  shows "int (d_attemptCount d + n) < maxWebhookAttempts env \<and> n < 20"
proof -
  have "d_attemptCount d' = d_attemptCount d + n \<and> (0 < n \<longrightarrow> int (d_attemptCount d') < maxWebhookAttempts env)"
    using assms(2)
  proof (induction n arbitrary: d')
    case (Suc n)
    then obtain e where "(retries env ^^ n) d e" "retries env e d'" by (auto elim: relpowp_Suc_E)
    with Suc.IH [of e] retries_count [OF assms(1), of e d'] show ?case by simp
  qed simp
  with assms(3) max_attempts_20 [of env] show ?thesis by force
qed


section \<open>A batch is a sequence of queue steps\<close>

definition hook_quiet :: "(db \<Rightarrow> db \<Rightarrow> bool) \<Rightarrow> 'w hook_env \<Rightarrow> bool" where
  "hook_quiet R env \<longleftrightarrow> (\<forall>name. hwithin R (hk_lookup env name)) \<and> (\<forall>r. hwithin R (hk_request env r))
     \<and> (\<forall>h. R (h_db h) (h_db (hk_others env h)))"

text \<open>The queue operations a worker uses.\<close>

locale queue_relation = db_preorder +
  assumes claim: "claimDueWebhookDeliveries limit w secs p s = (ds, t) \<Longrightarrow> R s t"
    and claim_event: "claimWebhookDeliveriesForEvent q ev w secs s = (ds, t) \<Longrightarrow> R s t"
    and renew: "renewWebhookDeliveryLease i w secs s = (b, t) \<Longrightarrow> R s t"
    and release: "R s (releaseWebhookDeliveryLease i w s)"
    and complete: "cm_leaseOwner input = Some w \<Longrightarrow> R s (completeWebhookDelivery input s)"
    and fresh: "R s (s\<lparr>next_uuid := Suc (next_uuid s)\<rparr>)"
begin

lemma hwithin_more: "hwithin R m \<Longrightarrow> (\<And>e. hwithin R (f e)) \<Longrightarrow> hwithin R (tryCatch m f)" "hwithin R (lift_sum y)"
  "hwithin R (draw_jitter env)"
  unfolding hwithin_def tryCatch_def draw_jitter_def lift_sum_def
  by (auto simp: refl split: prod.splits sum.splits) (metis snd_conv trans)+

lemma hwithin_hook_db: "hook_quiet R env \<Longrightarrow> (\<And>s. R s (snd (m s))) \<Longrightarrow> hwithin R (hook_db env m)"
  by (auto simp: hwithin_def hook_db_def hook_quiet_def Let_def split_beta intro: trans)

lemmas hsteps = hwithin_andThen hwithin_more hwithin_pure hwithin_each

lemma queue_ops: "R s (snd (claimDueWebhookDeliveries limit w secs p s))"
  "R s (snd (claimWebhookDeliveriesForEvent q ev w secs s))" "R s (snd (renewWebhookDeliveryLease i w secs s))"
  by (rule claim claim_event renew, rule surjective_pairing)+

lemma send_within: "hook_quiet R env \<Longrightarrow> hwithin R (send_webhook env d endpoint)"
  unfolding send_webhook_def validateWebhookDestination_def post_signed_def postPinned_def Let_def
  by (auto intro!: hsteps simp: hook_quiet_def split: option.splits)

lemma next_within: "hwithin R (nextWebhookAttempt env n ra)"
  unfolding nextWebhookAttempt_def Let_def by (auto intro!: hsteps split: option.splits)

lemma deliver_within:
  assumes q: "hook_quiet R env" and w: "d_leaseOwner d = Some w"
  shows "hwithin R (deliverWebhook env d)"
proof -
  have "hwithin R (complete env (completion d s st e t))" for s st e t
    unfolding complete_def by (rule hwithin_hook_db [OF q]) (simp add: complete completion_def w)
  then show ?thesis
    unfolding deliverWebhook_def Let_def
    by (auto intro!: hsteps hwithin_hook_db [OF q] send_within [OF q] next_within simp: refl split: option.splits)
qed

lemma batch_within:
  assumes q: "hook_quiet R env"
  shows "hwithin R (deliverDueWebhooks env limit p)" "hwithin R (deliverWebhookEvent env project ev)"
proof -
  have "hwithin R (deliverWebhook env (item\<lparr>d_leaseOwner := Some w\<rparr>))" for item w
    by (rule deliver_within [OF q]) simp
  then have item: "hwithin R (deliver_item env w secs item)" "hwithin R (deliver_event_item env w secs item)" for w secs item
    unfolding deliver_item_def deliver_event_item_def by (auto intro!: hsteps hwithin_hook_db [OF q] simp: queue_ops release)
  show "hwithin R (deliverDueWebhooks env limit p)" "hwithin R (deliverWebhookEvent env project ev)"
    unfolding deliverDueWebhooks_def deliverWebhookEvent_def new_lease_def Let_def
    by (auto intro!: hsteps item hwithin_hook_db [OF q] simp: queue_ops fresh)
qed

end

text \<open>A step of the queue model by some worker, or the allocation of an identifier.\<close>

inductive hook_step :: "(json \<Rightarrow> json) \<Rightarrow> db \<Rightarrow> db \<Rightarrow> bool" for jsonb where
  "delivery_step jsonb w s t \<Longrightarrow> hook_step jsonb s t"
| "hook_step jsonb s (s\<lparr>next_uuid := Suc (next_uuid s)\<rparr>)"

inductive_cases hook_stepE: "hook_step jsonb s t"

lemma hook_steps: "delivery_step jsonb w s t \<Longrightarrow> (hook_step jsonb)\<^sup>*\<^sup>* s t"
  by (auto intro: hook_step.intros)

interpretation hooks: queue_relation "(hook_step jsonb)\<^sup>*\<^sup>*" for jsonb
proof unfold_locales
  show "claimDueWebhookDeliveries limit w secs p s = (ds, t) \<Longrightarrow> (hook_step jsonb)\<^sup>*\<^sup>* s t" for limit w secs p s ds t
    by (auto intro: hook_steps delivery_step.intros)
  show "claimWebhookDeliveriesForEvent q ev w secs s = (ds, t) \<Longrightarrow> (hook_step jsonb)\<^sup>*\<^sup>* s t" for q ev w secs s ds t
    by (auto intro: hook_steps delivery_step.intros)
  show "renewWebhookDeliveryLease i w secs s = (b, t) \<Longrightarrow> (hook_step jsonb)\<^sup>*\<^sup>* s t" for i w secs s b t
    by (auto intro: hook_steps delivery_step.intros)
  show "(hook_step jsonb)\<^sup>*\<^sup>* s (releaseWebhookDeliveryLease i w s)" for s i w
    by (auto intro: hook_steps delivery_step.intros)
  show "cm_leaseOwner input = Some w \<Longrightarrow> (hook_step jsonb)\<^sup>*\<^sup>* s (completeWebhookDelivery input s)" for input w s
    by (auto intro: hook_steps delivery_step.intros)
qed (auto intro: hook_step.intros)

text \<open>The invariant of the queue, and that delivered rows stay.\<close>

definition settled_rows :: "db \<Rightarrow> db \<Rightarrow> bool" where
  "settled_rows s t \<longleftrightarrow> (queue_ok s \<longrightarrow> queue_ok t
     \<and> (\<forall>d \<in> set (webhook_deliveries s). d_status d = DS_DELIVERED \<longrightarrow> d \<in> set (webhook_deliveries t)))"

lemma delivery_step_settled: "delivery_step jsonb w s t \<Longrightarrow> settled_rows s t"
  unfolding settled_rows_def
proof (intro impI conjI ballI)
  assume st: "delivery_step jsonb w s t" and ok: "queue_ok s"
  show "queue_ok t" by (rule delivery_step_ok [OF st ok])
  fix d assume d: "d \<in> set (webhook_deliveries s)" "d_status d = DS_DELIVERED"
  then have "d_leaseOwner d = None" using ok by (auto simp: queue_ok_def owned_claimed_def)
  with d show "d \<in> set (webhook_deliveries t)"
    by (intro delivery_untouched [OF st ok]) (simp_all add: delivery_open_def)
qed

lemma fresh_settled: "settled_rows s (s\<lparr>next_uuid := Suc (next_uuid s)\<rparr>)"
  by (simp add: settled_rows_def queue_ok_def owned_claimed_def repo_inv_uuid)

interpretation settled: queue_relation settled_rows
proof unfold_locales
  show "settled_rows s s" for s by (simp add: settled_rows_def)
  show "settled_rows s t \<Longrightarrow> settled_rows t u \<Longrightarrow> settled_rows s u" for s t u
    by (simp add: settled_rows_def)
  show "claimDueWebhookDeliveries limit w secs p s = (ds, t) \<Longrightarrow> settled_rows s t" for limit w secs p s ds t
    by (rule delivery_step_settled [OF delivery_step.intros(1)])
  show "claimWebhookDeliveriesForEvent q ev w secs s = (ds, t) \<Longrightarrow> settled_rows s t" for q ev w secs s ds t
    by (rule delivery_step_settled [OF delivery_step.intros(2)])
  show "renewWebhookDeliveryLease i w secs s = (b, t) \<Longrightarrow> settled_rows s t" for i w secs s b t
    by (rule delivery_step_settled [OF delivery_step.intros(3)])
  show "settled_rows s (releaseWebhookDeliveryLease i w s)" for s i w
    by (rule delivery_step_settled [OF delivery_step.intros(4)])
  show "cm_leaseOwner input = Some w \<Longrightarrow> settled_rows s (completeWebhookDelivery input s)" for input w s
    by (rule delivery_step_settled [OF delivery_step.intros(5)])
qed (rule fresh_settled)

lemma hook_steps_settled: "(hook_step jsonb)\<^sup>*\<^sup>* s t \<Longrightarrow> settled_rows s t"
proof (induction rule: rtranclp_induct)
  case (step t u)
  then have "settled_rows t u" by (auto elim: hook_stepE intro: delivery_step_settled fresh_settled)
  with step.IH show ?case by (rule settled.trans)
qed (rule settled.refl)

text \<open>
  A batch of deliveries is a sequence of steps of the queue model. When everything
  else on the host also takes such steps, the batch keeps the queue's invariant and leaves every
  row that was delivered before exactly as it is.
\<close>

theorem deliveries_refine_steps:
  assumes "hook_quiet (hook_step jsonb)\<^sup>*\<^sup>* env" and "deliverDueWebhooks env limit p h = (r, h')"
  shows "(hook_step jsonb)\<^sup>*\<^sup>* (h_db h) (h_db h')
    \<and> (queue_ok (h_db h) \<longrightarrow> queue_ok (h_db h')
      \<and> (\<forall>d \<in> set (webhook_deliveries (h_db h)). d_status d = DS_DELIVERED \<longrightarrow> d \<in> set (webhook_deliveries (h_db h'))))"
proof -
  have st: "(hook_step jsonb)\<^sup>*\<^sup>* (h_db h) (h_db h')"
    by (rule hwithinD [OF hooks.batch_within(1) [OF assms(1)] assms(2)])
  with hook_steps_settled [OF st] show ?thesis by (simp add: settled_rows_def)
qed


section \<open>Witnesses\<close>

text \<open>A production host whose encryption key is missing, so that every attempt is retried.\<close>

definition sample_hooks :: "unit hook_env" where
  "sample_hooks = \<lparr>hk_ips = sample_ips, hk_crypto = sample_crypto,
     hk_newURL = (\<lambda>u. Some \<lparr>u_href = u, u_protocol = ''https:'', u_username = [], u_password = [], u_hostname = u, u_host = u,
       u_port = [], u_pathname = ''/'', u_search = []\<rparr>),
     hk_lookup = (\<lambda>name. ret [\<lparr>dn_address = ''93.184.216.34'', dn_family = 4\<rparr>]),
     hk_request = (\<lambda>r. ret \<lparr>rr_statusCode = Some 200, rr_bodySize = 0, rr_retryAfter = None\<rparr>), hk_others = id,
     hk_now = (\<lambda>h. clock (h_db h)), hk_jitter = (\<lambda>w. (0, w)), hk_number = (\<lambda>s. None), hk_dateParse = (\<lambda>s. None),
     hk_production = True, hk_encryptionKey = None, hk_maxAttempts = None, hk_timeoutMs = None, hk_concurrency = None,
     hk_leaseSeconds = None\<rparr>"

definition hook_host :: "unit host" where
  "hook_host = \<lparr>h_db = sample_queue (sample_delivery DS_DELIVERED None None), h_world = ()\<rparr>"

lemma sample_delay_laws: "delay_laws sample_hooks"
  by (simp add: delay_laws_def sample_hooks_def)

lemma no_blocked_request_witness:
  "deliverDueWebhooks (redirected sample_hooks (\<lambda>r. throw (PlainError ''blocked''))) 25 None hook_host
     = deliverDueWebhooks sample_hooks 25 None hook_host"
  using no_blocked_request [of sample_hooks "\<lambda>r. throw (PlainError ''blocked'')" 25 None hook_host] by (simp add: sample_hooks_def)

lemma sample_hooks_quiet: "hook_quiet (hook_step id)\<^sup>*\<^sup>* sample_hooks"
  by (simp add: hook_quiet_def sample_hooks_def hwithin_def)

lemma deliveries_refine_steps_witness:
  "(hook_step id)\<^sup>*\<^sup>* (h_db hook_host) (h_db (snd (deliverDueWebhooks sample_hooks 25 None hook_host)))
   \<and> queue_ok (h_db (snd (deliverDueWebhooks sample_hooks 25 None hook_host)))"
proof -
  have "queue_ok (sample_queue (sample_delivery DS_DELIVERED None None))"
    by (rule sample_queue_ok) (simp_all add: sample_delivery_def)
  then have ok: "queue_ok (h_db hook_host)" by (simp add: hook_host_def)
  note r = prod.collapse [of "deliverDueWebhooks sample_hooks 25 None hook_host", symmetric]
  from deliveries_refine_steps [OF sample_hooks_quiet r] ok show ?thesis by blast
qed

text \<open>Without a key every attempt ends in the \<open>catch\<close>.\<close>

lemma sample_send: "\<exists>e h2. send_webhook sample_hooks d w h = (Inl e, h2)"
proof -
  have "\<exists>e h2. andThen m (post_signed sample_hooks d w) h = (Inl e, h2)" for m
    by (auto simp: andThen_def post_signed_def sample_hooks_def or_null_def truthy_def split: sum.splits prod.splits)
  then show ?thesis by (simp add: send_webhook_def)
qed

lemma delivery_recorded_once_witness:
  "\<exists>n g input r. n \<le> 1 \<and> moves sample_hooks n hook_host g
     \<and> deliverWebhook sample_hooks (sample_delivery DS_CLAIMED (Some 7) (Some 0)) hook_host
         = (Inr r, g\<lparr>h_db := completeWebhookDelivery input (h_db g)\<rparr>)
     \<and> cm_retryAt input \<noteq> None \<and> dr_status r = None"
proof -
  let ?d = "sample_delivery DS_CLAIMED (Some 7) (Some 0)"
  have o: "hk_others sample_hooks g = g" for g by (simp add: sample_hooks_def)
  have l: "live_endpoint sample_hooks ?d hook_host = Some (sample_endpoint 3 True)"
    by (simp add: live_endpoint_def o hook_host_def getWebhookEndpoint_def sample_queue_def sample_delivery_def sample_endpoint_def sample_defs)
  obtain e h2 where "send_webhook sample_hooks ?d (sample_endpoint 3 True) hook_host = (Inl e, h2)" using sample_send by blast
  then have st: "answer_status sample_hooks ?d hook_host = None" by (simp add: answer_status_def l o)
  obtain x h' where r: "deliverWebhook sample_hooks ?d hook_host = (x, h')" by fastforce
  have "int (Suc (d_attemptCount ?d)) < maxWebhookAttempts sample_hooks"
    by (simp add: maxWebhookAttempts_def boundedInteger_def sample_hooks_def sample_delivery_def)
  with delivery_recorded_once [OF sample_delay_laws r] r show ?thesis
    by (auto simp: o l st retried_def recorded_def)
qed

lemma sample_outcome:
  "\<exists>input r g. attempt_outcome sample_hooks (sample_delivery DS_CLAIMED (Some 7) (Some 0)) hook_host = (Inr (input, r), g)
     \<and> cm_success input = False \<and> cm_retryAt input \<noteq> None"
proof -
  let ?d = "sample_delivery DS_CLAIMED (Some 7) (Some 0)"
  have f: "hook_db sample_hooks (\<lambda>s. (getWebhookEndpoint (d_projectId ?d) (d_endpointId ?d) s, s)) hook_host
      = (Inr (Some (sample_endpoint 3 True)), hook_host)"
    by (simp add: hook_db_def sample_hooks_def hook_host_def getWebhookEndpoint_def sample_queue_def sample_delivery_def
        sample_endpoint_def sample_defs)
  obtain e h2 where s: "send_webhook sample_hooks ?d (sample_endpoint 3 True) hook_host = (Inl e, h2)"
    using sample_send by blast
  have "\<exists>t g. nextWebhookAttempt sample_hooks (d_attemptCount ?d) None h2 = (Inr (Some t), g)"
    by (simp add: nextWebhookAttempt_def maxWebhookAttempts_def boundedInteger_def sample_hooks_def sample_delivery_def
        retryAfterMs_def andThen_def draw_jitter_def)
  then obtain t g where t: "nextWebhookAttempt sample_hooks (d_attemptCount ?d) None h2 = (Inr (Some t), g)" by blast
  have "w_enabled (sample_endpoint 3 True)" by (simp add: sample_endpoint_def)
  then have "attempt_outcome sample_hooks ?d hook_host
      = (Inr (completion ?d False None (Some (thrown_message e)) (Some t), \<lparr>dr_delivered = False, dr_status = None\<rparr>), g)"
    by (simp add: attempt_outcome_def andThen_def f attempt_def tryCatch_def s t)
  then show ?thesis by (auto simp: completion_def)
qed

lemma retries_end_witness:
  "\<exists>d'. (retries sample_hooks ^^ 1) (sample_delivery DS_CLAIMED (Some 7) (Some 0)) d'
     \<and> int (d_attemptCount (sample_delivery DS_CLAIMED (Some 7) (Some 0)) + 1) < maxWebhookAttempts sample_hooks"
proof -
  let ?d = "sample_delivery DS_CLAIMED (Some 7) (Some 0)"
  obtain input r g where o: "attempt_outcome sample_hooks ?d hook_host = (Inr (input, r), g)" "cm_success input = False"
    "cm_retryAt input \<noteq> None" using sample_outcome by blast
  then have "d_status (complete_row input 0 ?d) = DS_RETRY" by (simp add: complete_row_def)
  with o(1) have "retries sample_hooks ?d (lease_delivery 7 0 0 (complete_row input 0 ?d))"
    unfolding retries_def by blast
  then have p: "(retries sample_hooks ^^ 1) ?d (lease_delivery 7 0 0 (complete_row input 0 ?d))" by (simp only: relpowp_1)
  from retries_end [OF sample_delay_laws p] p show ?thesis by auto
qed

end
