(* ===== verification/Evidence.thy ===== *)
theory Evidence
  imports Reconcile
begin

text \<open>
  Models packages/core/src/evidence.ts, the public view of an execution (executionPublicView of
  packages/db/src/repository.ts) and the canonical text that apps/api/src/service.ts hashes. Both
  documents are read from the same rows: the theory shows that they cannot disagree.
\<close>

section \<open>Attempts as they are shown\<close>

record EvidenceAttempt =
  et_id :: uuid
  et_attemptNumber :: nat
  et_txHash :: string
  et_signedPayloadHashSha256 :: "string option"
  et_parentAttemptId :: "uuid option"
  et_replacesAttemptId :: "uuid option"
  et_replacedByAttemptId :: "uuid option"
  et_attemptKind :: AttemptKind
  et_disposition :: AttemptDisposition
  et_inputRefs :: "InputRef list"
  et_submissionStatus :: SubmissionStatus
  et_chainStatus :: ChainStatus
  et_workflowStatus :: WorkflowStatus
  et_conflictType :: "ConflictType option"
  et_conflictDetails :: json
  et_createdAt :: timestamp
  et_updatedAt :: timestamp

definition replaced_by :: "TransactionAttemptRecord list \<Rightarrow> TransactionAttemptRecord \<Rightarrow> uuid option" where
  "replaced_by attempts a = map_option a_id
     (find (\<lambda>c. a_attemptKind c = AK_RBF_REPLACEMENT \<and> a_parentAttemptId c = Some (a_id a)) attempts)"

definition attempt_view :: "TransactionAttemptRecord list \<Rightarrow> TransactionAttemptRecord \<Rightarrow> EvidenceAttempt" where
  "attempt_view attempts a =
     \<lparr>et_id = a_id a, et_attemptNumber = a_attemptNumber a, et_txHash = a_txHash a,
      et_signedPayloadHashSha256 = a_signedPayloadHashSha256 a, et_parentAttemptId = a_parentAttemptId a,
      et_replacesAttemptId = (if a_attemptKind a = AK_RBF_REPLACEMENT then a_parentAttemptId a else None),
      et_replacedByAttemptId = replaced_by attempts a, et_attemptKind = a_attemptKind a, et_disposition = a_disposition a,
      et_inputRefs = a_inputRefs a, et_submissionStatus = a_submissionStatus a, et_chainStatus = a_chainStatus a,
      et_workflowStatus = a_workflowStatus a, et_conflictType = a_conflictType a, et_conflictDetails = a_conflictDetails a,
      et_createdAt = a_createdAt a, et_updatedAt = a_updatedAt a\<rparr>"


section \<open>The evidence document\<close>

record EvidenceStateEvent =
  ee_sequence :: nat
  ee_kind :: string
  ee_fromStatus :: "string option"
  ee_toStatus :: string
  ee_occurredAt :: timestamp
  ee_reason :: "string option"
  ee_rawObservation :: json

record EvidenceInput =
  bi_projectId :: uuid
  bi_intentId :: string
  bi_txHash :: "string option"
  bi_inputOutPoints :: "OutPointRef list"
  bi_inputRefs :: "InputRef list"
  bi_activeAttemptId :: "uuid option"
  bi_winningAttemptId :: "uuid option"
  bi_attempts :: "EvidenceAttempt list"
  bi_network :: Network
  bi_snapshot :: ExecutionSnapshot
  bi_assertionStatus :: "string option"
  bi_requiredAssertionCount :: "int option"
  bi_settlementReadyAt :: "timestamp option"
  bi_submissionErrorCode :: "string option"
  bi_submissionErrorType :: "SubmissionErrorType option"
  bi_submissionErrorDetails :: json
  bi_conflictType :: "ConflictType option"
  bi_conflictDetails :: json
  bi_createdAt :: timestamp
  bi_updatedAt :: timestamp
  bi_events :: "EvidenceStateEvent list"

record EvidenceDocument =
  ed_schemaVersion :: string
  ed_projectId :: uuid
  ed_intentId :: string
  ed_txHash :: "string option"
  ed_inputOutPoints :: "OutPointRef list"
  ed_inputRefs :: "InputRef list"
  ed_activeAttemptId :: "uuid option"
  ed_winningAttemptId :: "uuid option"
  ed_attempts :: "EvidenceAttempt list"
  ed_network :: Network
  ed_overallStatus :: OverallStatus
  ed_submissionStatus :: SubmissionStatus
  ed_chainStatus :: ChainStatus
  ed_workflowStatus :: WorkflowStatus
  ed_confirmationPolicy :: ConfirmationPolicy
  ed_confirmationCount :: int
  ed_committedBlockHash :: "string option"
  ed_committedBlockNumber :: "string option"
  ed_assertionStatus :: "string option"
  ed_settlementReady :: bool
  ed_settlementReadyAt :: "timestamp option"
  ed_submissionErrorCode :: "string option"
  ed_submissionErrorType :: "SubmissionErrorType option"
  ed_submissionErrorDetails :: json
  ed_conflictType :: "ConflictType option"
  ed_conflictDetails :: json
  ed_recommendedAction :: RecommendedAction
  ed_createdAt :: timestamp
  ed_updatedAt :: timestamp
  ed_events :: "EvidenceStateEvent list"

definition buildEvidence :: "EvidenceInput \<Rightarrow> EvidenceDocument" where
  "buildEvidence input =
    (let snapshot = bi_snapshot input; required = (case bi_requiredAssertionCount input of None \<Rightarrow> 0 | Some n \<Rightarrow> n) in
     \<lparr>ed_schemaVersion = ''cellflow-evidence-v2'', ed_projectId = bi_projectId input, ed_intentId = bi_intentId input,
      ed_txHash = bi_txHash input, ed_inputOutPoints = bi_inputOutPoints input, ed_inputRefs = bi_inputRefs input,
      ed_activeAttemptId = bi_activeAttemptId input, ed_winningAttemptId = bi_winningAttemptId input,
      ed_attempts = sort_key et_attemptNumber (bi_attempts input), ed_network = bi_network input,
      ed_overallStatus = deriveOverallStatus snapshot, ed_submissionStatus = sn_submissionStatus snapshot,
      ed_chainStatus = sn_chainStatus snapshot, ed_workflowStatus = sn_workflowStatus snapshot,
      ed_confirmationPolicy = sn_confirmationPolicy snapshot, ed_confirmationCount = sn_confirmationCount snapshot,
      ed_committedBlockHash = sn_committedBlockHash snapshot, ed_committedBlockNumber = sn_committedBlockNumber snapshot,
      ed_assertionStatus = bi_assertionStatus input,
      ed_settlementReady = isSettlementReady snapshot (bi_assertionStatus input) required (bi_conflictType input),
      ed_settlementReadyAt = bi_settlementReadyAt input, ed_submissionErrorCode = bi_submissionErrorCode input,
      ed_submissionErrorType = bi_submissionErrorType input, ed_submissionErrorDetails = bi_submissionErrorDetails input,
      ed_conflictType = bi_conflictType input, ed_conflictDetails = bi_conflictDetails input,
      ed_recommendedAction = deriveRecommendedAction snapshot (bi_conflictType input) (bi_assertionStatus input)
        (bi_conflictDetails input) (bi_submissionErrorDetails input) required,
      ed_createdAt = bi_createdAt input, ed_updatedAt = bi_updatedAt input,
      ed_events = sort_key ee_sequence (bi_events input)\<rparr>)"


section \<open>The public view\<close>

record PublicView =
  pv_intentId :: string
  pv_metadata :: json
  pv_txHash :: "string option"
  pv_inputOutPoints :: "OutPointRef list"
  pv_inputRefs :: "InputRef list"
  pv_activeAttemptId :: "uuid option"
  pv_winningAttemptId :: "uuid option"
  pv_attempts :: "EvidenceAttempt list"
  pv_status :: OverallStatus
  pv_submissionStatus :: SubmissionStatus
  pv_chainStatus :: ChainStatus
  pv_workflowStatus :: WorkflowStatus
  pv_confirmationPolicy :: ConfirmationPolicy
  pv_confirmationCount :: int
  pv_committedBlockHash :: "string option"
  pv_committedBlockNumber :: "string option"
  pv_assertionStatus :: "string option"
  pv_settlementReady :: bool
  pv_settlementReadyAt :: "timestamp option"
  pv_assertionResult :: json
  pv_submissionErrorCode :: "string option"
  pv_submissionErrorType :: "SubmissionErrorType option"
  pv_submissionErrorDetails :: json
  pv_conflictType :: "ConflictType option"
  pv_conflictDetails :: json
  pv_recommendedAction :: RecommendedAction
  pv_workflowRunId :: "uuid option"
  pv_createdAt :: timestamp
  pv_updatedAt :: timestamp

definition executionPublicView :: "IntentAggregate \<Rightarrow> PublicView" where
  "executionPublicView ag =
    (let e = ag_execution ag; i = ag_intent ag; required = int (length (i_expectedCells i));
         snapshot = \<lparr>sn_submissionStatus = x_submissionStatus e, sn_chainStatus = x_chainStatus e,
           sn_workflowStatus = x_workflowStatus e, sn_confirmationPolicy = x_confirmationPolicy e,
           sn_confirmationCount = x_confirmationCount e, sn_committedBlockHash = or_null (x_committedBlockHash e),
           sn_committedBlockNumber = or_null (x_committedBlockNumber e), sn_rejectionReason = or_null (x_rejectionReason e)\<rparr> in
     \<lparr>pv_intentId = i_intentId i, pv_metadata = i_metadata i, pv_txHash = x_txHash e,
      pv_inputOutPoints = x_inputOutPoints e, pv_inputRefs = x_inputRefs e, pv_activeAttemptId = i_activeAttemptId i,
      pv_winningAttemptId = i_winningAttemptId i, pv_attempts = map (attempt_view (ag_attempts ag)) (ag_attempts ag),
      pv_status = deriveOverallStatus snapshot, pv_submissionStatus = sn_submissionStatus snapshot,
      pv_chainStatus = sn_chainStatus snapshot, pv_workflowStatus = sn_workflowStatus snapshot,
      pv_confirmationPolicy = sn_confirmationPolicy snapshot, pv_confirmationCount = sn_confirmationCount snapshot,
      pv_committedBlockHash = sn_committedBlockHash snapshot, pv_committedBlockNumber = sn_committedBlockNumber snapshot,
      pv_assertionStatus = x_assertionStatus e,
      pv_settlementReady = isSettlementReady snapshot (x_assertionStatus e) required (x_conflictType e),
      pv_settlementReadyAt = x_settlementReadyAt e, pv_assertionResult = x_assertionResult e,
      pv_submissionErrorCode = x_submissionErrorCode e, pv_submissionErrorType = x_submissionErrorType e,
      pv_submissionErrorDetails = x_submissionErrorDetails e, pv_conflictType = x_conflictType e,
      pv_conflictDetails = x_conflictDetails e,
      pv_recommendedAction = deriveRecommendedAction snapshot (x_conflictType e) (x_assertionStatus e) (x_conflictDetails e)
        (x_submissionErrorDetails e) required,
      pv_workflowRunId = x_workflowRunId e, pv_createdAt = i_createdAt i, pv_updatedAt = x_updatedAt e\<rparr>)"


section \<open>Canonical text\<close>

text \<open>
  \<open>stable\<close> of the service: objects with their entries sorted by \<open>localeCompare\<close>. The collation is
  a parameter, \<open>le a b\<close> for \<open>a.localeCompare(b) <= 0\<close>; the sort of JavaScript is stable.
\<close>

fun insert_by :: "(string \<Rightarrow> string \<Rightarrow> bool) \<Rightarrow> string \<times> string \<Rightarrow> (string \<times> string) list \<Rightarrow> (string \<times> string) list" where
  "insert_by le x [] = [x]"
| "insert_by le x (y # ys) = (if le (fst x) (fst y) then x # y # ys else y # insert_by le x ys)"

definition sort_by :: "(string \<Rightarrow> string \<Rightarrow> bool) \<Rightarrow> (string \<times> string) list \<Rightarrow> (string \<times> string) list" where
  "sort_by le xs = foldr (insert_by le) xs []"

fun comma_join :: "string list \<Rightarrow> string" where
  "comma_join [] = []"
| "comma_join [x] = x"
| "comma_join (x # y # xs) = x @ CHR '','' # comma_join (y # xs)"

fun stable :: "(string \<Rightarrow> string \<Rightarrow> bool) \<Rightarrow> json \<Rightarrow> string"
  and stable_items :: "(string \<Rightarrow> string \<Rightarrow> bool) \<Rightarrow> json list \<Rightarrow> string list"
  and stable_fields :: "(string \<Rightarrow> string \<Rightarrow> bool) \<Rightarrow> (string \<times> json) list \<Rightarrow> (string \<times> string) list" where
  "stable le (JArr xs) = CHR ''['' # comma_join (stable_items le xs) @ '']''"
| "stable le (JObj fs) = CHR ''{'' # comma_join (map (\<lambda>(k, t). js_quote k @ CHR '':'' # t) (sort_by le (stable_fields le fs))) @ ''}''"
| "stable le JNull = ''null''"
| "stable le (JBool b) = (if b then ''true'' else ''false'')"
| "stable le (JNum n) = int_string n"
| "stable le (JStr s) = js_quote s"
| "stable_items le [] = []"
| "stable_items le (x # xs) = stable le x # stable_items le xs"
| "stable_fields le [] = []"
| "stable_fields le ((k, v) # fs) = (k, stable le v) # stable_fields le fs"


section \<open>Documents as JSON\<close>

definition opt_map_json :: "('a \<Rightarrow> json) \<Rightarrow> 'a option \<Rightarrow> json" where
  "opt_map_json f x = (case x of None \<Rightarrow> JNull | Some v \<Rightarrow> f v)"

definition uuid_json :: "uuid \<Rightarrow> json" where
  "uuid_json n = JStr (nat_string n)"

definition iso_json :: "timestamp \<Rightarrow> json" where
  "iso_json t = JStr (iso t)"

definition evidenceAttempt_json :: "EvidenceAttempt \<Rightarrow> json" where
  "evidenceAttempt_json a = JObj
    [(''id'', uuid_json (et_id a)), (''attemptNumber'', JNum (int (et_attemptNumber a))), (''txHash'', JStr (et_txHash a)),
     (''signedPayloadHashSha256'', opt_json (et_signedPayloadHashSha256 a)),
     (''parentAttemptId'', opt_map_json uuid_json (et_parentAttemptId a)),
     (''replacesAttemptId'', opt_map_json uuid_json (et_replacesAttemptId a)),
     (''replacedByAttemptId'', opt_map_json uuid_json (et_replacedByAttemptId a)),
     (''attemptKind'', JStr (attempt_kind_name (et_attemptKind a))), (''disposition'', JStr (disposition_name (et_disposition a))),
     (''inputRefs'', JArr (map inputRef_json (et_inputRefs a))),
     (''submissionStatus'', JStr (submission_name (et_submissionStatus a))), (''chainStatus'', JStr (chain_name (et_chainStatus a))),
     (''workflowStatus'', JStr (workflow_name (et_workflowStatus a))),
     (''conflictType'', opt_map_json (\<lambda>c. JStr (conflict_type_name c)) (et_conflictType a)),
     (''conflictDetails'', et_conflictDetails a), (''createdAt'', iso_json (et_createdAt a)), (''updatedAt'', iso_json (et_updatedAt a))]"

definition evidenceEvent_json :: "EvidenceStateEvent \<Rightarrow> json" where
  "evidenceEvent_json v = JObj
    [(''sequence'', JNum (int (ee_sequence v))), (''kind'', JStr (ee_kind v)), (''fromStatus'', opt_json (ee_fromStatus v)),
     (''toStatus'', JStr (ee_toStatus v)), (''occurredAt'', iso_json (ee_occurredAt v)), (''reason'', opt_json (ee_reason v)),
     (''rawObservation'', ee_rawObservation v)]"

definition evidence_json :: "EvidenceDocument \<Rightarrow> json" where
  "evidence_json d = JObj
    [(''schemaVersion'', JStr (ed_schemaVersion d)), (''projectId'', uuid_json (ed_projectId d)), (''intentId'', JStr (ed_intentId d)),
     (''txHash'', opt_json (ed_txHash d)), (''inputOutPoints'', JArr (map outPoint_json (ed_inputOutPoints d))),
     (''inputRefs'', JArr (map inputRef_json (ed_inputRefs d))), (''activeAttemptId'', opt_map_json uuid_json (ed_activeAttemptId d)),
     (''winningAttemptId'', opt_map_json uuid_json (ed_winningAttemptId d)), (''attempts'', JArr (map evidenceAttempt_json (ed_attempts d))),
     (''network'', JStr (network_name (ed_network d))), (''overallStatus'', JStr (overall_name (ed_overallStatus d))),
     (''submissionStatus'', JStr (submission_name (ed_submissionStatus d))), (''chainStatus'', JStr (chain_name (ed_chainStatus d))),
     (''workflowStatus'', JStr (workflow_name (ed_workflowStatus d))), (''confirmationPolicy'', policy_json (ed_confirmationPolicy d)),
     (''confirmationCount'', JNum (ed_confirmationCount d)), (''committedBlockHash'', opt_json (ed_committedBlockHash d)),
     (''committedBlockNumber'', opt_json (ed_committedBlockNumber d)), (''assertionStatus'', opt_json (ed_assertionStatus d)),
     (''settlementReady'', JBool (ed_settlementReady d)), (''settlementReadyAt'', opt_map_json iso_json (ed_settlementReadyAt d)),
     (''submissionErrorCode'', opt_json (ed_submissionErrorCode d)),
     (''submissionErrorType'', opt_map_json (\<lambda>t. JStr (submission_error_name t)) (ed_submissionErrorType d)),
     (''submissionErrorDetails'', ed_submissionErrorDetails d),
     (''conflictType'', opt_map_json (\<lambda>c. JStr (conflict_type_name c)) (ed_conflictType d)), (''conflictDetails'', ed_conflictDetails d),
     (''recommendedAction'', JStr (action_name (ed_recommendedAction d))), (''createdAt'', iso_json (ed_createdAt d)),
     (''updatedAt'', iso_json (ed_updatedAt d)), (''events'', JArr (map evidenceEvent_json (ed_events d)))]"

text \<open>\<open>JSON.stringify(document, null, 2) + "\n"\<close>.\<close>

definition stableEvidenceJson :: "EvidenceDocument \<Rightarrow> string" where
  "stableEvidenceJson d = json_pretty 0 (evidence_json d) @ [CHR 0x0A]"

definition sha256_text :: "(nat list \<Rightarrow> nat list) \<Rightarrow> string \<Rightarrow> string" where
  "sha256_text sha256 text = concat (map byte_hex (sha256 (utf8_encode text)))"

text \<open>An assertion as the intent states it: absent fields are left out, a null type script stays.\<close>

definition scriptAssertion_json :: "ScriptAssertion \<Rightarrow> json" where
  "scriptAssertion_json a = obj_defined [(''codeHash'', map_option JStr (sa_codeHash a)), (''hashType'', map_option JStr (sa_hashType a)),
     (''args'', map_option JStr (sa_args a))]"

definition expectedCell_json :: "ExpectedCellAssertion \<Rightarrow> json" where
  "expectedCell_json a = obj_defined
    [(''outputIndex'', Some (JNum (ea_outputIndex a))),
     (''mode'', map_option (\<lambda>m. JStr (case m of Created \<Rightarrow> ''created'' | Live \<Rightarrow> ''live'')) (ea_mode a)),
     (''capacity'', map_option JStr (ea_capacity a)), (''lock'', map_option scriptAssertion_json (ea_lock a)),
     (''type'', map_option (opt_map_json scriptAssertion_json) (ea_type a)), (''data'', map_option JStr (ea_data a))]"

end
