(* ===== verification/ServiceIntents.thy ===== *)
theory ServiceIntents
  imports ReconcilePass Evidence RepoWebhooks
begin

text \<open>
  Models the intent half of apps/api/src/service.ts: the methods of CellFlowService that create,
  show, submit, check and reconcile one intent. A method is an action over the client's state,
  as a reconciliation pass is (theory Reconcile): each call of the repository is a database
  step, before which other processes may act.
\<close>

section \<open>Reading\<close>

definition api_error :: "CellFlowErrorCode \<Rightarrow> string \<Rightarrow> int \<Rightarrow> thrown" where
  "api_error code message status = ApiError (cellFlowError code message status)"

definition db_read :: "'w reconcile_env \<Rightarrow> (db \<Rightarrow> 'a) \<Rightarrow> ('w, 'a) work" where
  "db_read env f = on_db env (readState f)"

definition service_getIntent :: "'w reconcile_env \<Rightarrow> ProjectRecord \<Rightarrow> string \<Rightarrow> ('w, IntentAggregate) work" where
  "service_getIntent env project intentId =
     andThen (lift_api (normalizeIntentId intentId)) (\<lambda>normalized.
     andThen (db_read env (getIntent (p_id project) normalized)) (\<lambda>found. case found of
       None \<Rightarrow> throw (api_error INTENT_NOT_FOUND ''Intent not found'' 404)
     | Some aggregate \<Rightarrow> ret aggregate))"

record EventView =
  vw_sequence :: nat
  vw_kind :: string
  vw_fromStatus :: "string option"
  vw_toStatus :: string
  vw_reason :: "string option"
  vw_occurredAt :: timestamp

record IntentDetail =
  id_view :: PublicView
  id_network :: Network
  id_metadata :: json
  id_expectedCells :: "ExpectedCellAssertion list"
  id_events :: "EventView list"

definition event_view :: "StateEventRecord \<Rightarrow> EventView" where
  "event_view v = \<lparr>vw_sequence = v_sequence v, vw_kind = v_kind v, vw_fromStatus = v_fromStatus v, vw_toStatus = v_toStatus v,
     vw_reason = v_reason v, vw_occurredAt = v_occurredAt v\<rparr>"

definition service_intentDetail :: "'w reconcile_env \<Rightarrow> ProjectRecord \<Rightarrow> string \<Rightarrow> ('w, IntentDetail) work" where
  "service_intentDetail env project intentId =
     andThen (service_getIntent env project intentId) (\<lambda>ag.
     andThen (db_read env (getEvents (p_id project) (i_id (ag_intent ag)))) (\<lambda>events.
     ret \<lparr>id_view = executionPublicView ag, id_network = x_network (ag_execution ag), id_metadata = i_metadata (ag_intent ag),
          id_expectedCells = i_expectedCells (ag_intent ag), id_events = map event_view events\<rparr>))"


section \<open>Creating\<close>

record CreateRequest =
  cr_intentId :: string
  cr_metadata :: json
  cr_expectedCells :: "ExpectedCellAssertion list"

definition cells_json :: "ExpectedCellAssertion list \<Rightarrow> json" where
  "cells_json cells = JArr (map expectedCell_json cells)"

text \<open>The comparison with the stored intent: texts with sorted keys.\<close>

definition same_request :: "(string \<Rightarrow> string \<Rightarrow> bool) \<Rightarrow> IntentAggregate \<Rightarrow> CreateRequest \<Rightarrow> bool" where
  "same_request le ag input \<longleftrightarrow> stable le (i_metadata (ag_intent ag)) = stable le (cr_metadata input)
     \<and> stable le (cells_json (i_expectedCells (ag_intent ag))) = stable le (cells_json (cr_expectedCells input))"

definition service_createIntent ::
    "'w reconcile_env \<Rightarrow> (string \<Rightarrow> string \<Rightarrow> bool) \<Rightarrow> ProjectRecord \<Rightarrow> CreateRequest \<Rightarrow> ('w, PublicView \<times> bool) work" where
  "service_createIntent env le project input =
     andThen (lift_api (normalizeIntentId (cr_intentId input))) (\<lambda>intentId.
     andThen (on_db env (createIntent (rn_jsonb env)
       \<lparr>ci_project = project, ci_intentId = intentId, ci_metadata = cr_metadata input,
        ci_expectedCells = cr_expectedCells input, ci_txHash = None, ci_submissionStatus = None\<rparr>)) (\<lambda>(ag, created).
     if \<not> created \<and> \<not> same_request le ag input then
       throw (api_error INTENT_CONFLICT
         ''The same intentId already exists with different metadata or expected Cell assertions'' 409)
     else ret (executionPublicView ag, created)))"


section \<open>Attaching a transaction\<close>

record AttachRequest =
  aq_intentId :: string
  aq_txHash :: string
  aq_submissionStatus :: SubmissionStatus
  aq_signedPayloadHash :: "string option"
  aq_inputOutPoints :: "OutPointRef list option"
  aq_inputRefs :: "InputRef list option"
  aq_attemptKind :: "AttemptKind option"
  aq_parentAttemptId :: "uuid option"
  aq_allowRevision :: bool

definition list_of :: "'a list option \<Rightarrow> 'a list" where
  "list_of x = (case x of None \<Rightarrow> [] | Some xs \<Rightarrow> xs)"

text \<open>The normalised inputs; given together, both forms describe the same inputs in order.\<close>

definition attach_inputs ::
    "AttachRequest \<Rightarrow> CellFlowError + string \<times> OutPointRef list \<times> InputRef list" where
  "attach_inputs rq =
     sum_bind (normalizeTxHash (aq_txHash rq)) (\<lambda>txHash.
     sum_bind (normalizeOutPointRefs (list_of (aq_inputOutPoints rq))) (\<lambda>inputs.
     sum_bind (normalizeInputRefs (list_of (aq_inputRefs rq))) (\<lambda>refs.
     if refs \<noteq> [] \<and> inputs \<noteq> []
        \<and> fresh_text outPoint_json (map ref_outPoint refs) \<noteq> fresh_text outPoint_json inputs
     then Inl (cellFlowError INVALID_SIGNED_TRANSACTION
       ''inputRefs and inputOutPoints must describe the same ordered transaction inputs'' 400)
     else Inr (txHash, inputs, refs))))"

text \<open>The check of a repeated attach against the stored evidence, as the database returns it.\<close>

definition attach_repeated ::
    "(json \<Rightarrow> json) \<Rightarrow> IntentAggregate \<Rightarrow> string \<Rightarrow> OutPointRef list \<Rightarrow> InputRef list \<Rightarrow> CellFlowError option" where
  "attach_repeated jsonb current txHash inputs refs =
    (let e = ag_execution current; sameHash = (x_txHash e = Some txHash) in
     if sameHash \<and> inputs \<noteq> [] \<and> x_inputOutPoints e \<noteq> []
        \<and> stored_text jsonb outPoint_json (x_inputOutPoints e) \<noteq> fresh_text outPoint_json inputs
     then Some (cellFlowError INTENT_CONFLICT
       ''Persisted input OutPoints do not match the existing evidence for this transaction attempt'' 409)
     else if sameHash \<and> refs \<noteq> [] \<and> x_inputRefs e \<noteq> []
        \<and> stored_text jsonb inputRef_json (x_inputRefs e) \<noteq> fresh_text inputRef_json refs
     then Some (cellFlowError INTENT_CONFLICT
       ''Persisted semantic input roles do not match the existing evidence for this transaction attempt'' 409)
     else None)"

definition attach_input ::
    "AttachRequest \<Rightarrow> IntentAggregate \<Rightarrow> string \<Rightarrow> OutPointRef list \<Rightarrow> InputRef list \<Rightarrow> ExecutionSnapshot \<Rightarrow> timestamp \<Rightarrow> AttachInput" where
  "attach_input rq current txHash inputs refs after now' =
    (let replacingHash = (truthy (x_txHash (ag_execution current)) \<and> x_txHash (ag_execution current) \<noteq> Some txHash);
         kind = (case aq_attemptKind rq of Some k \<Rightarrow> k | None \<Rightarrow> if replacingHash then AK_REBUILD else AK_INITIAL) in
     \<lparr>at_aggregate = current, at_txHash = txHash,
      at_signedPayloadHash = map_option toLowerCase (or_null (aq_signedPayloadHash rq)),
      at_allowRevision = aq_allowRevision rq, at_submissionStatus = aq_submissionStatus rq, at_inputOutPoints = inputs,
      at_inputRefs = refs, at_attemptKind = Some kind, at_parentAttemptId = aq_parentAttemptId rq,
      at_nextReconcileAt = (if aq_submissionStatus rq = SS_SUBMITTED then Some now' else None),
      at_fromStatus = overall_name (deriveOverallStatus (snapshotFromExecution (ag_execution current))),
      at_toStatus = overall_name (deriveOverallStatus after),
      at_reason = (if replacingHash
        then ''New '' @ attempt_kind_name kind @ '' transaction attempt persisted under the existing business intent''
        else if aq_submissionStatus rq = SS_PREPARED then ''Deterministic transaction hash persisted before broadcast''
        else ''Transaction hash registered for reconciliation'')\<rparr>)"

text \<open>The repository's error messages as API errors.\<close>

definition attach_error :: "thrown \<Rightarrow> CellFlowError option" where
  "attach_error e =
    (let conflict = (\<lambda>text. Some (cellFlowError INTENT_CONFLICT text 409)); m = thrown_message e in
     if m = ''TX_HASH_CONFLICT'' then conflict ''Transaction hash already belongs to another CellFlow intent''
     else if m = ''ATTEMPT_INPUT_CONFLICT'' then conflict ''Transaction attempt already exists with different input evidence''
     else if m = ''ATTEMPT_SIGNED_PAYLOAD_CONFLICT'' then
       conflict ''Transaction attempt already exists with a different signed-payload fingerprint''
     else if m = ''ATTEMPT_PARENT_CONFLICT'' then conflict ''parentAttemptId does not belong to this intent''
     else if m = ''ATTEMPT_KIND_INVALID'' then
       conflict ''A replacement transaction must use REBUILD, RBF_REPLACEMENT, or MANUAL_RETRY''
     else if m = ''UNSAFE_ATTEMPT_REPLACEMENT'' then
       conflict ''The current attempt may still commit. Use RBF_REPLACEMENT only for a genuine shared-input CKB replacement, otherwise reconcile the current attempt first''
     else if m = ''RBF_INPUTS_DO_NOT_OVERLAP'' then
       conflict ''RBF_REPLACEMENT must share at least one input OutPoint with the active parent attempt''
     else None)"

text \<open>One round of the retry loop up to the repository's input.\<close>

definition attach_prepare ::
    "'w reconcile_env \<Rightarrow> ProjectRecord \<Rightarrow> AttachRequest \<Rightarrow> string \<Rightarrow> OutPointRef list \<Rightarrow> InputRef list \<Rightarrow> ('w, AttachInput) work" where
  "attach_prepare env project rq txHash inputs refs =
     andThen (service_getIntent env project (aq_intentId rq)) (\<lambda>current.
     case attach_repeated (rn_jsonb env) current txHash inputs refs of
       Some e \<Rightarrow> throw (ApiError e)
     | None \<Rightarrow>
         let e = ag_execution current;
             replacingHash = (truthy (x_txHash e) \<and> x_txHash e \<noteq> Some txHash);
             base = (if replacingHash then initialSnapshot (x_confirmationPolicy e) else snapshotFromExecution e) in
         andThen (lift_api (updateSubmission base (aq_submissionStatus rq))) (\<lambda>after.
         andThen (now_ms env) (\<lambda>now'. ret (attach_input rq current txHash inputs refs after now'))))"

fun attach_rounds ::
    "'w reconcile_env \<Rightarrow> ProjectRecord \<Rightarrow> AttachRequest \<Rightarrow> string \<Rightarrow> OutPointRef list \<Rightarrow> InputRef list \<Rightarrow> nat \<Rightarrow> ('w, PublicView) work" where
  "attach_rounds env project rq txHash inputs refs 0 =
     throw (api_error INTERNAL_ERROR ''Concurrent attach retry exhausted'' 503)"
| "attach_rounds env project rq txHash inputs refs (Suc k) =
     andThen (attach_prepare env project rq txHash inputs refs) (\<lambda>input.
     tryCatch (andThen (on_db env (attachTransaction (rn_jsonb env) input)) (\<lambda>updated. ret (executionPublicView updated)))
       (\<lambda>e. case attach_error e of
          Some err \<Rightarrow> throw (ApiError err)
        | None \<Rightarrow> if e \<noteq> OptimisticConcurrencyError \<or> k = 0 then throw e
            else attach_rounds env project rq txHash inputs refs k))"

definition service_attachTransaction :: "'w reconcile_env \<Rightarrow> ProjectRecord \<Rightarrow> AttachRequest \<Rightarrow> ('w, PublicView) work" where
  "service_attachTransaction env project rq =
     andThen (lift_api (attach_inputs rq)) (\<lambda>(txHash, inputs, refs). attach_rounds env project rq txHash inputs refs 3)"


section \<open>Preflight\<close>

text \<open>An event that does not change the status.\<close>

definition preflight_event :: "'w reconcile_env \<Rightarrow> IntentAggregate \<Rightarrow> string \<Rightarrow> string \<Rightarrow> json \<Rightarrow> ('w, uuid) work" where
  "preflight_event env ag kind reason raw =
    (let status = overall_name (deriveOverallStatus (snapshotFromExecution (ag_execution ag))) in
     on_db env (appendEvent (rn_jsonb env) ag kind (Some status) status (Some reason) (Some raw)))"

definition blocked_reason :: "InputInspection \<Rightarrow> string" where
  "blocked_reason inspection = ''Input preflight blocked broadcast: '' @ inspection_name (in_state inspection)"

definition blocked_error :: "InputInspection \<Rightarrow> CellFlowError" where
  "blocked_error inspection =
    (let code = (case in_state inspection of II_MEMPOOL_CONTENDED \<Rightarrow> INPUTS_CONTENDED | II_CANONICALLY_SPENT \<Rightarrow> INPUTS_NOT_LIVE
         | _ \<Rightarrow> INPUT_STATE_UNCERTAIN) in
     (cellFlowError code (blocked_reason inspection) (if in_state inspection = II_UNKNOWN then 503 else 409))
       \<lparr>err_details := Some (JObj [(''inspectionState'', JStr (inspection_name (in_state inspection)))])\<rparr>)"

definition preflight_inputs :: "ExecutionRecord \<Rightarrow> InputRef list" where
  "preflight_inputs e = (if x_inputRefs e \<noteq> [] then x_inputRefs e else neutralInputRefs (x_inputOutPoints e))"

text \<open>What follows from the inspection: a failed one and a blocked one are recorded, then thrown.\<close>

definition preflight_verdict :: "'w reconcile_env \<Rightarrow> IntentAggregate \<Rightarrow> thrown + InputInspection \<Rightarrow> ('w, PublicView) work" where
  "preflight_verdict env ag inspected =
    (case inspected of
       Inl err \<Rightarrow>
         andThen (preflight_event env ag ''INPUT_PREFLIGHT_FAILED''
             ''Direct CKB RPC input preflight could not obtain trustworthy evidence''
             (JObj [(''state'', JStr ''RPC_UNCERTAIN''), (''error'', JStr (thrown_message err))]))
           (\<lambda>_. throw err)
     | Inr inspection \<Rightarrow>
         if in_state inspection \<noteq> II_ALL_LIVE then
           andThen (preflight_event env ag ''INPUT_PREFLIGHT_FAILED'' (blocked_reason inspection) (inspection_json inspection))
             (\<lambda>_. throw (ApiError (blocked_error inspection)))
         else
           andThen (preflight_event env ag ''INPUT_PREFLIGHT_VERIFIED''
               ''All original input OutPoints are canonically live and available against tx-pool state''
               (inspection_json inspection))
             (\<lambda>_. ret (executionPublicView ag)))"

definition service_preflight :: "'w reconcile_env \<Rightarrow> ProjectRecord \<Rightarrow> string \<Rightarrow> ('w, PublicView) work" where
  "service_preflight env project intentId =
     andThen (service_getIntent env project intentId) (\<lambda>ag.
     let e = ag_execution ag; urls = endpointsFor env (p_rpcUrl project) in
     if \<not> truthy (x_txHash e) then throw (api_error INVALID_TX_HASH ''Intent has no prepared transaction hash'' 400)
     else if x_inputOutPoints e = [] \<and> x_inputRefs e = [] then
       throw (api_error INVALID_SIGNED_TRANSACTION ''Input preflight requires the prepared transaction input OutPoints'' 409)
     else if urls = [] then throw (api_error RPC_UNAVAILABLE ''No CKB RPC endpoint configured'' 503)
     else andThen (attempt (inspectInputOutPoints (rn_rpc env) urls (preflight_inputs e) (identity_of env project)))
       (preflight_verdict env ag))"


section \<open>Recording a submission\<close>

record SubmissionFailureEvidence =
  sf_errorCode :: "string option"
  sf_errorType :: SubmissionErrorType
  sf_errorMessage :: "string option"
  sf_conflictType :: "ConflictType option"
  sf_details :: "(string \<times> json) list option"

definition failure_type :: "SubmissionFailureEvidence option \<Rightarrow> SubmissionErrorType option" where
  "failure_type failure = map_option sf_errorType failure"

definition failure_conflict :: "SubmissionFailureEvidence option \<Rightarrow> ConflictType option" where
  "failure_conflict failure = Option.bind failure sf_conflictType"

definition submission_refusal :: "SubmissionStatus \<Rightarrow> SubmissionFailureEvidence option \<Rightarrow> string option" where
  "submission_refusal status failure =
    (if status = SS_NODE_REJECTED \<and> failure_type failure \<noteq> Some SE_RPC_REJECTION then
       Some ''NODE_REJECTED requires RPC_REJECTION evidence''
     else if status = SS_SUBMISSION_UNKNOWN \<and> failure_type failure = Some SE_RPC_REJECTION then
       Some ''Explicit RPC rejection cannot be recorded as SUBMISSION_UNKNOWN''
     else if failure_conflict failure \<noteq> None \<and> failure_conflict failure \<noteq> Some CT_INPUT_CONFLICT_SUSPECTED then
       Some ''Broadcast classification may only record INPUT_CONFLICT_SUSPECTED before direct chain inspection''
     else if status = SS_SUBMISSION_UNKNOWN \<and> failure_conflict failure \<noteq> None then
       Some ''Ambiguous transport failures cannot claim an input conflict''
     else if status \<notin> {SS_NODE_REJECTED, SS_SUBMISSION_UNKNOWN} \<and> failure \<noteq> None then
       Some (''Submission failure evidence is not valid for '' @ submission_name status)
     else None)"

text \<open>\<open>{ message, ...details }\<close>.\<close>

definition failure_details :: "SubmissionFailureEvidence \<Rightarrow> json" where
  "failure_details f = JObj (foldl (\<lambda>fs (k, v). obj_set k v fs) [(''message'', opt_json (sf_errorMessage f))]
     (case sf_details f of None \<Rightarrow> [] | Some ds \<Rightarrow> ds))"

definition submission_reason :: "SubmissionStatus \<Rightarrow> string" where
  "submission_reason status =
    (if status = SS_SUBMISSION_UNKNOWN then ''Broadcast response was ambiguous; reconcile by deterministic tx hash before retry''
     else if status = SS_NODE_REJECTED then
       ''CKB RPC explicitly rejected the broadcast request; rejection is submission-layer evidence, not proof of canonical input spend''
     else if status = SS_BROADCASTING then ''Broadcast attempt started after transaction identity was persisted''
     else ''CKB RPC accepted the broadcast request'')"

definition mark_input ::
    "IntentAggregate \<Rightarrow> SubmissionStatus \<Rightarrow> SubmissionFailureEvidence option \<Rightarrow> ExecutionSnapshot \<Rightarrow> MarkInput" where
  "mark_input current status failure after =
    \<lparr>mk_aggregate = current, mk_status = status,
     mk_scheduleReconcile = (status = SS_SUBMITTED \<or> status = SS_SUBMISSION_UNKNOWN
       \<or> (status = SS_NODE_REJECTED \<and> failure_conflict failure = Some CT_INPUT_CONFLICT_SUSPECTED)),
     mk_fromStatus = overall_name (deriveOverallStatus (snapshotFromExecution (ag_execution current))),
     mk_toStatus = overall_name (deriveOverallStatus after), mk_reason = submission_reason status,
     mk_submissionErrorCode = Option.bind failure sf_errorCode, mk_submissionErrorType = failure_type failure,
     mk_submissionErrorDetails = map_option failure_details failure, mk_conflictType = failure_conflict failure,
     mk_conflictDetails = (if failure_conflict failure = None then None
       else Some (JObj [(''source'', JStr ''broadcast''), (''canonicalSpendConfirmed'', JBool False)]))\<rparr>"

definition mark_prepare ::
    "'w reconcile_env \<Rightarrow> ProjectRecord \<Rightarrow> string \<Rightarrow> SubmissionStatus \<Rightarrow> SubmissionFailureEvidence option \<Rightarrow> ('w, MarkInput) work" where
  "mark_prepare env project intentId status failure =
     andThen (service_getIntent env project intentId) (\<lambda>current.
     if \<not> truthy (x_txHash (ag_execution current))
     then throw (api_error INVALID_TX_HASH ''Intent has no transaction hash'' 400)
     else andThen (lift_api (updateSubmission (snapshotFromExecution (ag_execution current)) status))
       (\<lambda>after. ret (mark_input current status failure after)))"

fun mark_rounds ::
    "'w reconcile_env \<Rightarrow> ProjectRecord \<Rightarrow> string \<Rightarrow> SubmissionStatus \<Rightarrow> SubmissionFailureEvidence option \<Rightarrow> nat \<Rightarrow> ('w, PublicView) work" where
  "mark_rounds env project intentId status failure 0 =
     throw (api_error INTERNAL_ERROR ''Concurrent submission retry exhausted'' 503)"
| "mark_rounds env project intentId status failure (Suc k) =
     andThen (mark_prepare env project intentId status failure) (\<lambda>input.
     tryCatch (andThen (on_db env (markSubmissionStatus (rn_jsonb env) input)) (\<lambda>updated. ret (executionPublicView updated)))
       (\<lambda>e. if e \<noteq> OptimisticConcurrencyError \<or> k = 0 then throw e
          else mark_rounds env project intentId status failure k))"

definition service_markSubmission ::
    "'w reconcile_env \<Rightarrow> ProjectRecord \<Rightarrow> string \<Rightarrow> SubmissionStatus \<Rightarrow> SubmissionFailureEvidence option \<Rightarrow> ('w, PublicView) work" where
  "service_markSubmission env project intentId status failure =
    (case submission_refusal status failure of
       Some m \<Rightarrow> throw (api_error TRANSITION_INVALID m 400)
     | None \<Rightarrow> mark_rounds env project intentId status failure 3)"


section \<open>Reconciling and notes\<close>

definition service_reconcile :: "'w reconcile_env \<Rightarrow> ProjectRecord \<Rightarrow> string \<Rightarrow> ('w, PublicView) work" where
  "service_reconcile env project intentId =
     andThen (service_getIntent env project intentId) (\<lambda>ag.
     andThen (reconcileIntent env ag) (\<lambda>_.
     andThen (service_getIntent env project intentId) (\<lambda>updated. ret (executionPublicView updated))))"

definition service_addOperatorNote :: "'w reconcile_env \<Rightarrow> ProjectRecord \<Rightarrow> string \<Rightarrow> string \<Rightarrow> ('w, IntentDetail) work" where
  "service_addOperatorNote env project intentId noteText =
     andThen (service_getIntent env project intentId) (\<lambda>ag.
     andThen (on_db env (addOperatorNote (rn_jsonb env) ag noteText)) (\<lambda>_. service_intentDetail env project intentId))"


section \<open>Evidence\<close>

definition evidence_event :: "StateEventRecord \<Rightarrow> EvidenceStateEvent" where
  "evidence_event v = \<lparr>ee_sequence = v_sequence v, ee_kind = v_kind v, ee_fromStatus = v_fromStatus v, ee_toStatus = v_toStatus v,
     ee_occurredAt = v_occurredAt v, ee_reason = v_reason v, ee_rawObservation = v_rawObservation v\<rparr>"

definition evidence_input :: "ProjectRecord \<Rightarrow> IntentAggregate \<Rightarrow> StateEventRecord list \<Rightarrow> EvidenceInput" where
  "evidence_input project ag events =
    (let e = ag_execution ag; i = ag_intent ag in
     \<lparr>bi_projectId = p_id project, bi_intentId = i_intentId i, bi_txHash = x_txHash e,
      bi_inputOutPoints = x_inputOutPoints e, bi_inputRefs = x_inputRefs e, bi_activeAttemptId = i_activeAttemptId i,
      bi_winningAttemptId = i_winningAttemptId i, bi_attempts = map (attempt_view (ag_attempts ag)) (ag_attempts ag),
      bi_network = x_network e, bi_snapshot = snapshotFromExecution e, bi_assertionStatus = x_assertionStatus e,
      bi_requiredAssertionCount = Some (int (length (i_expectedCells i))), bi_settlementReadyAt = x_settlementReadyAt e,
      bi_submissionErrorCode = x_submissionErrorCode e, bi_submissionErrorType = x_submissionErrorType e,
      bi_submissionErrorDetails = x_submissionErrorDetails e, bi_conflictType = x_conflictType e,
      bi_conflictDetails = x_conflictDetails e, bi_createdAt = i_createdAt i,
      bi_updatedAt = (if events = [] then i_createdAt i else v_occurredAt (last events)),
      bi_events = map evidence_event events\<rparr>)"

record EvidenceResult =
  er_document :: EvidenceDocument
  er_sha256 :: string
  er_export :: "EvidenceExportRecord option"

definition evidence_sha256 :: "'w reconcile_env \<Rightarrow> (string \<Rightarrow> string \<Rightarrow> bool) \<Rightarrow> EvidenceDocument \<Rightarrow> string" where
  "evidence_sha256 env le document = sha256_text (rn_sha256 env) (stable le (evidence_json document))"

definition service_evidence ::
    "'w reconcile_env \<Rightarrow> (string \<Rightarrow> string \<Rightarrow> bool) \<Rightarrow> ProjectRecord \<Rightarrow> string \<Rightarrow> bool \<Rightarrow> ('w, EvidenceResult) work" where
  "service_evidence env le project intentId persist =
     andThen (service_getIntent env project intentId) (\<lambda>ag.
     andThen (db_read env (getEvents (p_id project) (i_id (ag_intent ag)))) (\<lambda>events.
     let document = buildEvidence (evidence_input project ag events); sha256 = evidence_sha256 env le document in
     if \<not> persist then ret \<lparr>er_document = document, er_sha256 = sha256, er_export = None\<rparr>
     else andThen (on_db env (\<lambda>s. case recordEvidenceExport (rn_jsonb env) (p_id project) (i_id (ag_intent ag)) sha256
           (ed_schemaVersion document) (if events = [] then 0 else v_sequence (last events)) (evidence_json document) s of (g, t) \<Rightarrow> (Inr g, t)))
         (\<lambda>g. ret \<lparr>er_document = document, er_sha256 = sha256, er_export = Some g\<rparr>)))"

end
