(* ===== verification/ServiceSafety.thy ===== *)
theory ServiceSafety
  imports ServiceIntents ReconcileSafety RepoProperties
begin

text \<open>
  What the intent methods of the service may do to the database: only repository calls. The
  contract of theory ReconcileSafety is extended with the one call the service adds, the export
  of evidence, and every method is shown to stay within it, whatever the network answers and
  whatever the other processes do within it too.
\<close>

section \<open>The contract\<close>

locale service_relation = reconcile_relation +
  assumes export: "recordEvidenceExport jsonb p i sha ver k doc s = (g, t) \<Longrightarrow> R s t"
begin

lemma export_ops: "R s (snd (recordEvidenceExport jsonb p i sha ver k doc s))"
  by (rule export, rule surjective_pairing)

lemma call_ops:
  "R s (snd (createIntent jsonb ci s))" "R s (snd (attachTransaction jsonb ai s))" "R s (snd (markSubmissionStatus jsonb mi s))"
  "R s (snd (appendEvent jsonb ag k f to' why raw s))" "R s (snd (addOperatorNote jsonb ag note s))"
  by (auto intro: call repo_call.intros surjective_pairing)

lemma read_within: "quiet R env \<Longrightarrow> within R (db_read env f)"
  unfolding db_read_def by (rule within_on_db) (simp_all add: refl)

lemma getIntent_within: "quiet R env \<Longrightarrow> within R (service_getIntent env project intentId)"
  unfolding service_getIntent_def by (auto intro!: steps read_within split: option.splits)

lemma detail_within: "quiet R env \<Longrightarrow> within R (service_intentDetail env project intentId)"
  unfolding service_intentDetail_def by (intro steps getIntent_within read_within)

lemma create_within:
  assumes q: "quiet R env" and j: "rn_jsonb env = jsonb"
  shows "within R (service_createIntent env le project input)"
  unfolding service_createIntent_def j
  by (auto intro!: steps within_on_db [OF q] simp: call_ops)

lemma attach_within:
  assumes q: "quiet R env" and j: "rn_jsonb env = jsonb"
  shows "within R (service_attachTransaction env project rq)"
proof -
  have prep: "within R (attach_prepare env project rq h ins refs)" for h ins refs
    unfolding attach_prepare_def Let_def by (auto intro!: steps getIntent_within q split: option.splits)
  have "within R (attach_rounds env project rq h ins refs k)" for h ins refs k
    by (induction k) (auto intro!: steps prep within_on_db [OF q] simp: j call_ops split: option.splits)
  then show ?thesis unfolding service_attachTransaction_def by (auto intro!: steps)
qed

lemma preflight_within:
  assumes q: "quiet R env" and j: "rn_jsonb env = jsonb"
  shows "within R (service_preflight env project intentId)"
proof -
  have ev: "within R (preflight_event env ag kind reason raw)" for ag kind reason raw
    unfolding preflight_event_def Let_def j by (rule within_on_db [OF q]) (rule call_ops)
  have verdict: "within R (preflight_verdict env ag x)" for ag x
    unfolding preflight_verdict_def by (auto intro!: steps ev split: sum.splits)
  have "within R (inspectInputOutPoints (rn_rpc env) urls inputs identity)" for urls inputs identity
    unfolding inspectInputOutPoints_def by (intro steps session_within [OF q])
  then show ?thesis unfolding service_preflight_def Let_def
    by (auto intro!: steps getIntent_within q verdict)
qed

lemma mark_within:
  assumes q: "quiet R env" and j: "rn_jsonb env = jsonb"
  shows "within R (service_markSubmission env project intentId status failure)"
proof -
  have prep: "within R (mark_prepare env project intentId status failure)"
    unfolding mark_prepare_def by (auto intro!: steps getIntent_within q)
  have "within R (mark_rounds env project intentId status failure k)" for k
    by (induction k) (auto intro!: steps prep within_on_db [OF q] simp: j call_ops)
  then show ?thesis unfolding service_markSubmission_def by (auto intro!: steps split: option.splits)
qed

lemma reconcile_within:
  assumes q: "quiet R env" and j: "rn_jsonb env = jsonb"
  shows "within R (service_reconcile env project intentId)"
proof -
  have "within R (reconcile_attempts env k ag)" for k ag
    by (induction k arbitrary: ag) (auto intro!: steps writes_within [OF q j] once_within [OF q j] split: option.splits)
  then have "within R (reconcileIntent env ag)" for ag unfolding reconcileIntent_def .
  then show ?thesis unfolding service_reconcile_def by (intro steps getIntent_within q)
qed

lemma note_within:
  assumes q: "quiet R env" and j: "rn_jsonb env = jsonb"
  shows "within R (service_addOperatorNote env project intentId noteText)"
  unfolding service_addOperatorNote_def j
  by (auto intro!: steps getIntent_within detail_within q within_on_db [OF q] simp: call_ops)

lemma evidence_within:
  assumes q: "quiet R env" and j: "rn_jsonb env = jsonb"
  shows "within R (service_evidence env le project intentId persist)"
  unfolding service_evidence_def Let_def j
  by (auto intro!: steps getIntent_within read_within q within_on_db [OF q] simp: export_ops split_beta)

end


section \<open>The relations of interest\<close>

text \<open>
  The writing methods of the whole repository: those of the intents, leases, deliveries and exports,
  and those of projects, keys and rate limits that other processes of the service run.
\<close>

interpretation served: service_relation "(store_step jsonb)\<^sup>*\<^sup>*" jsonb for jsonb
proof unfold_locales
  have step: "reconcile_step jsonb w s t \<Longrightarrow> (store_step jsonb)\<^sup>*\<^sup>* s t" for w s t by (auto intro: store_step.intros)
  show "repo_call jsonb s t \<Longrightarrow> (store_step jsonb)\<^sup>*\<^sup>* s t" for s t by (auto intro: step reconcile_step.intros)
  show "claimDueExecutions locked limit w secs s = (ags, t) \<Longrightarrow> (store_step jsonb)\<^sup>*\<^sup>* s t" for locked limit w secs s ags t
    by (auto intro: step reconcile_step.intros)
  show "renewReconcileLease e w secs s = (b, t) \<Longrightarrow> (store_step jsonb)\<^sup>*\<^sup>* s t" for e w secs s b t
    by (auto intro: step reconcile_step.intros)
  show "(store_step jsonb)\<^sup>*\<^sup>* s (releaseReconcileLease e w s)" for s e w by (auto intro: step reconcile_step.intros)
  show "(store_step jsonb)\<^sup>*\<^sup>* s (s\<lparr>next_uuid := Suc (next_uuid s)\<rparr>)" for s by (auto intro: store_step.intros)
qed (auto intro: store_step.intros)


section \<open>A call is a sequence of steps\<close>

text \<open>The requests of the intent API.\<close>

datatype api_call =
    CreateCall CreateRequest
  | DetailCall string
  | AttachCall AttachRequest
  | PreflightCall string
  | SubmissionCall string SubmissionStatus "SubmissionFailureEvidence option"
  | ReconcileCall string
  | NoteCall string string
  | EvidenceCall string bool

definition run_call ::
    "'w reconcile_env \<Rightarrow> (string \<Rightarrow> string \<Rightarrow> bool) \<Rightarrow> ProjectRecord \<Rightarrow> api_call \<Rightarrow> ('w, unit) work" where
  "run_call env le project c = (case c of
     CreateCall input \<Rightarrow> andThen (service_createIntent env le project input) (\<lambda>_. ret ())
   | DetailCall i \<Rightarrow> andThen (service_intentDetail env project i) (\<lambda>_. ret ())
   | AttachCall rq \<Rightarrow> andThen (service_attachTransaction env project rq) (\<lambda>_. ret ())
   | PreflightCall i \<Rightarrow> andThen (service_preflight env project i) (\<lambda>_. ret ())
   | SubmissionCall i status failure \<Rightarrow> andThen (service_markSubmission env project i status failure) (\<lambda>_. ret ())
   | ReconcileCall i \<Rightarrow> andThen (service_reconcile env project i) (\<lambda>_. ret ())
   | NoteCall i text \<Rightarrow> andThen (service_addOperatorNote env project i text) (\<lambda>_. ret ())
   | EvidenceCall i persist \<Rightarrow> andThen (service_evidence env le project i persist) (\<lambda>_. ret ()))"

lemma call_within:
  assumes "quiet (store_step (rn_jsonb env))\<^sup>*\<^sup>* env"
  shows "within (store_step (rn_jsonb env))\<^sup>*\<^sup>* (run_call env le project c)"
proof -
  note q = assms
  note methods = served.create_within [OF q HOL.refl] served.detail_within [OF q] served.attach_within [OF q HOL.refl]
    served.preflight_within [OF q HOL.refl] served.mark_within [OF q HOL.refl] served.reconcile_within [OF q HOL.refl]
    served.note_within [OF q HOL.refl] served.evidence_within [OF q HOL.refl]
  show ?thesis
    by (cases c) (simp_all add: run_call_def served.within_andThen served.within_pure methods)
qed

text \<open>
  A request of the intent API, whether it succeeds, is refused or fails half way, changes the database
  only by calls of the repository's writing methods, interleaved with those of other requests, workers
  and administrators; so every key and every CHECK of the schema keeps holding and no execution's
  version ever decreases.
\<close>

lemma api_keeps_schema:
  assumes "quiet (store_step (rn_jsonb env))\<^sup>*\<^sup>* env" and "run_call env le project c n = (r, t)"
  shows "(store_step (rn_jsonb env))\<^sup>*\<^sup>* (ndb n) (ndb t) \<and> (schema_inv (ndb n) \<longrightarrow> schema_inv (ndb t))
    \<and> version_grows (ndb n) (ndb t)"
proof -
  have "(store_step (rn_jsonb env))\<^sup>*\<^sup>* (ndb n) (ndb t)"
    using withinD [OF call_within [OF assms(1)] assms(2)] .
  moreover have "(store_step jsonb)\<^sup>*\<^sup>* s u \<Longrightarrow> schema_inv s \<Longrightarrow> schema_inv u" for jsonb s u
    by (induction rule: rtranclp_induct) (auto intro: schema_step)
  ultimately show ?thesis using steps_grow by blast
qed

text \<open>A first intent.\<close>

definition sample_request :: CreateRequest where
  "sample_request = \<lparr>cr_intentId = ''order-1'', cr_metadata = JObj [(''b'', JNum 1), (''ab'', JNum 2)], cr_expectedCells = []\<rparr>"

lemma first_intent_keeps_schema:
  "schema_inv (ndb (snd (run_call sample_env (\<lambda>a b. length a \<le> length b) sample_project (CreateCall sample_request) host_net)))"
proof -
  have "schema_inv (ndb host_net)" by (simp add: ndb_def host_net_def sample_host_def schema_empty)
  then show ?thesis
    using api_keeps_schema [where n = host_net, OF sample_quiet surjective_pairing] by simp
qed

end
