(* ===== verification/ServiceExamples.thy ===== *)
theory ServiceExamples
  imports ServiceSafety RepoSafety
begin

text \<open>
  A host for the examples of theory ServiceProperties: two endpoints at which every Cell is live,
  and one intent that is prepared with one input; on it the methods of the service succeed.
\<close>

section \<open>The host\<close>

definition live_transport :: "unit host transport" where
  "live_transport = \<lparr>tr_post = (\<lambda>url method' params h.
       (Inr (JObj [(''result'', JObj [(''status'', JStr ''live''), (''chain'', JStr ''ckb_testnet'')])]), h)),
     tr_now = (\<lambda>h. clock (h_db h))\<rparr>"

definition live_env :: "unit reconcile_env" where
  "live_env = sample_env\<lparr>rn_rpc := \<lparr>rc_transport = live_transport, rc_threshold = 2, rc_cooldownMs = 30000\<rparr>\<rparr>"

definition prepared_row :: ExecutionRecord where
  "prepared_row = sample_row\<lparr>x_txHash := Some (sample_hash CHR ''5''), x_submissionStatus := SS_PREPARED,
     x_inputOutPoints := [\<lparr>op_txHash = sample_hash CHR ''7'', op_index = 0\<rparr>]\<rparr>"

definition prepared_net :: "unit host net" where
  "prepared_net = \<lparr>nt_failures = (\<lambda>_. None), nt_world = \<lparr>h_db = sample_db\<lparr>executions := [prepared_row]\<rparr>, h_world = ()\<rparr>\<rparr>"

definition turned :: "json \<Rightarrow> json" where
  "turned j = (case j of JObj fs \<Rightarrow> JObj (rev fs) | _ \<Rightarrow> j)"


section \<open>Creating and submitting\<close>

lemma order_1: "normalizeIntentId ''order-1'' = Inr ''order-1''"
  by code_simp

lemma sample_others [simp]: "rn_others sample_env = id" "rn_others live_env = id" "rn_jsonb live_env = id"
  by (simp_all add: live_env_def sample_env_def)

lemma create_runs: "\<not> isl (fst (service_createIntent (sample_env\<lparr>rn_jsonb := turned\<rparr>) (\<lambda>a b. length a \<le> length b) sample_project sample_request host_net))"
  by (simp add: service_createIntent_def sample_request_def order_1 lift_api_def andThen_def on_db_def Let_def host_net_def sample_host_def
    createIntent_def insert_intent_def empty_db_def sample_project_def
      initial_execution_def execution_check_def conflict_type_allowed_def tx_hash_taken_def getIntent_def)

lemma prepared_read: "service_getIntent live_env sample_project ''order-1'' prepared_net
   = (Inr (sample_aggregate\<lparr>ag_execution := prepared_row\<rparr>), prepared_net)"
  by (simp add: service_getIntent_def order_1 lift_api_def db_read_def andThen_def on_db_def Let_def prepared_net_def
      getIntent_def sample_defs prepared_row_def sample_hash_def mapExecution_def mapIntent_def sql_select_def or_null_def truthy_def)
lemma prepared_sel [simp]:
  "x_txHash prepared_row = Some (sample_hash CHR ''5'')" "x_submissionStatus prepared_row = SS_PREPARED" "x_id prepared_row = 2"
  "x_inputOutPoints prepared_row = [\<lparr>op_txHash = sample_hash CHR ''7'', op_index = 0\<rparr>]" "x_inputRefs prepared_row = []"
  "x_chainStatus prepared_row = CS_UNOBSERVED" "x_workflowStatus prepared_row = WS_IDLE" "x_projectId prepared_row = 0"
  "x_conflictType prepared_row = None" "x_intentRowId prepared_row = 1"
  by (simp_all add: prepared_row_def sample_defs)

lemma submission_runs:
  "\<exists>r t. service_markSubmission live_env sample_project ''order-1'' SS_BROADCASTING None prepared_net = (Inr r, t)"
proof -
  have u: "\<exists>s. updateSubmission (snapshotFromExecution prepared_row) SS_BROADCASTING = Inr s"
    by (simp add: updateSubmission_accepts snapshotFromExecution_def submission_move_def submission_order_def
      less_eq_SubmissionStatus_def)
  then obtain s where u: "updateSubmission (snapshotFromExecution prepared_row) SS_BROADCASTING = Inr s" by blast
  have p: "mark_prepare live_env sample_project ''order-1'' SS_BROADCASTING None prepared_net
      = (Inr (mark_input (sample_aggregate\<lparr>ag_execution := prepared_row\<rparr>) SS_BROADCASTING None s), prepared_net)"
    by (simp add: mark_prepare_def andThen_def prepared_read u lift_api_def truthy_def sample_hash_def)
  have "\<exists>r t. markSubmissionStatus id (mark_input (sample_aggregate\<lparr>ag_execution := prepared_row\<rparr>) SS_BROADCASTING None s)
      (ndb prepared_net) = (Inr r, t)"
    by (simp add: markSubmissionStatus_def mark_tx_def Let_def mark_input_def sample_defs prepared_row_def update_execution_def
      version_match_def execution_check_def conflict_type_allowed_def mark_projection_def mk_nextConflictType_def failure_conflict_def
      failure_type_def tx_hash_taken_def getIntent_def prepared_net_def ndb_def)
  then obtain r t where "markSubmissionStatus id (mark_input (sample_aggregate\<lparr>ag_execution := prepared_row\<rparr>) SS_BROADCASTING None s)
      (ndb prepared_net) = (Inr r, t)" by blast
  then have m: "\<exists>n. on_db live_env (markSubmissionStatus (rn_jsonb live_env) (mark_input (sample_aggregate\<lparr>ag_execution := prepared_row\<rparr>) SS_BROADCASTING None s))
      prepared_net = (Inr r, n)"
    by (simp add: on_db_def Let_def ndb_def)
  then show ?thesis
    by (auto simp: service_markSubmission_def submission_refusal_def failure_conflict_def numeral_3_eq_3 andThen_def p tryCatch_def simp del: sample_others)
qed


section \<open>A preflight on live inputs\<close>

lemma live_call: "session_call live_transport url m params h
    = (Inr (JObj [(''status'', JStr ''live''), (''chain'', JStr ''ckb_testnet'')]), h)"
  by (simp add: session_call_def live_transport_def andThen_def field_of_def json_truthy_def js_field_def asRecord_def ret_def)

lemma live_identity: "assertIdentity live_transport url (identity_of live_env sample_project) h = (Inr (), h)"
  by (simp add: assertIdentity_def identity_of_def sample_project_def live_env_def sample_env_def expectedChain_def
      andThen_Inr [OF live_call] truthy_def text_of_def field_of_def js_field_def asRecord_def)

lemma live_status: "cell_status (JObj [(''status'', JStr ''live''), (''chain'', JStr ''ckb_testnet'')]) = Some ''live''"
  by code_simp

lemma live_input: "\<exists>i. inspectInput live_transport url r h = (Inr i, h) \<and> io_canonical i = CI_LIVE \<and> io_poolAware i = PI_AVAILABLE"
  by (simp add: inspectInput_def Let_def andThen_Inr [OF live_call] live_status)

lemma live_urls: "endpointsFor live_env None = [''https://a/'', ''https://b/'']"
  by code_simp

lemma live_transport_of: "rc_transport (rn_rpc live_env) = live_transport"
  by (simp add: live_env_def)

lemma live_inspection:
  assumes "nt_failures n = (\<lambda>_. None)" and "0 \<le> clock (h_db (nt_world n))"
  shows "\<exists>i m. inspectInputOutPoints (rn_rpc live_env) [''https://a/'', ''https://b/''] [r] (identity_of live_env sample_project) n = (Inr i, m)
     \<and> in_state i = II_ALL_LIVE"
proof -
  obtain i where i: "inspectInput live_transport ''https://a/'' r (nt_world n) = (Inr i, nt_world n)"
      "io_canonical i = CI_LIVE" "io_poolAware i = PI_AVAILABLE"
    using live_input by blast
  have "each (inspectInput live_transport ''https://a/'') [r] (nt_world n) = (Inr [i], nt_world n)"
    by (simp add: andThen_def i(1))
  then have "\<exists>k. inspectInputOutPointsOnSession live_transport ''https://a/'' [r] (nt_world n) = (Inr k, nt_world n)
      \<and> in_state k = II_ALL_LIVE"
    by (simp add: inspectInputOutPointsOnSession_def andThen_def live_call inspection_state_def i(2,3) del: each.simps)
  moreover have "healthyFirst (rn_rpc live_env) [''https://a/'', ''https://b/''] n = [''https://a/'', ''https://b/'']"
    by (simp add: healthyFirst_def cooldown_def assms Let_def net_now_def live_env_def live_transport_def)
  ultimately show ?thesis
    by (auto simp: inspectInputOutPoints_def withSession_def on_world_def live_transport_of andThen_def live_identity)
qed

lemma live_attempt:
  assumes "nt_failures n = (\<lambda>_. None)" and "0 \<le> clock (h_db (nt_world n))"
  shows "\<exists>i m. attempt (inspectInputOutPoints (rn_rpc live_env) [''https://a/'', ''https://b/''] [r] (identity_of live_env sample_project)) n
     = (Inr (Inr i), m) \<and> in_state i = II_ALL_LIVE"
  using live_inspection [OF assms, of r] by (auto simp: attempt_def tryCatch_def andThen_def)

lemma preflight_runs: "\<exists>v t. service_preflight live_env sample_project ''order-1'' prepared_net = (Inr v, t)"
proof -
  obtain i m where a: "attempt (inspectInputOutPoints (rn_rpc live_env) [''https://a/'', ''https://b/'']
      (preflight_inputs prepared_row) (identity_of live_env sample_project)) prepared_net = (Inr (Inr i), m)" "in_state i = II_ALL_LIVE"
    using live_attempt [of prepared_net "hd (preflight_inputs prepared_row)"]
    by (auto simp: preflight_inputs_def neutralInputRefs_def prepared_net_def sample_defs)
  obtain u t where e: "preflight_event live_env (sample_aggregate\<lparr>ag_execution := prepared_row\<rparr>) ''INPUT_PREFLIGHT_VERIFIED''
               ''All original input OutPoints are canonically live and available against tx-pool state'' (inspection_json i) m = (Inr u, t)"
    by (auto simp: preflight_event_def Let_def on_db_def appendEvent_def split_beta simp del: append.simps)
  have "p_rpcUrl sample_project = None" by (simp add: sample_project_def)
  with a e show ?thesis
    by (simp add: service_preflight_def andThen_def prepared_read live_urls Let_def truthy_def sample_hash_def preflight_verdict_def
      del: append.simps)
qed

end
