(* ===== verification/StableText.thy ===== *)
theory StableText
  imports Evidence "HOL-Library.Multiset"
begin

text \<open>
  The canonical text of apps/api/src/service.ts (\<open>stable\<close>, theory Evidence): a JSON document has
  the same text after the entries of its objects were reordered, as a jsonb column does.
\<close>

section \<open>Sorting the entries\<close>

text \<open>What the collation has to be: a total preorder.\<close>

definition collation :: "(string \<Rightarrow> string \<Rightarrow> bool) \<Rightarrow> bool" where
  "collation le \<longleftrightarrow> (\<forall>a b. le a b \<or> le b a) \<and> (\<forall>a b c. le a b \<longrightarrow> le b c \<longrightarrow> le a c)"

text \<open>The keys of one object: distinct, and no two of them equal in the collation.\<close>

definition keys_apart :: "(string \<Rightarrow> string \<Rightarrow> bool) \<Rightarrow> string list \<Rightarrow> bool" where
  "keys_apart le ks \<longleftrightarrow> distinct ks \<and> (\<forall>a \<in> set ks. \<forall>b \<in> set ks. le a b \<longrightarrow> le b a \<longrightarrow> a = b)"

lemma insert_commutes:
  assumes tot: "\<And>a b. le a b \<or> le b a" and tr: "\<And>a b c. le a b \<Longrightarrow> le b c \<Longrightarrow> le a c" and "le (fst x) (fst y) \<longrightarrow> le (fst y) (fst x) \<longrightarrow> x = y"
  shows "insert_by le x (insert_by le y zs) = insert_by le y (insert_by le x zs)"
  using assms(3)
proof (induction zs)
  case Nil
  then show ?case using tot by auto
next
  case (Cons z zs)
  have ih: "insert_by le x (insert_by le y zs) = insert_by le y (insert_by le x zs)" using Cons by blast
  show ?case
  proof (cases "x = y")
    case False
    with Cons.prems have n: "\<not> (le (fst x) (fst y) \<and> le (fst y) (fst x))" by blast
    show ?thesis
      using ih n tot [of "fst x" "fst y"] tr [of "fst x" "fst y" "fst z"] tr [of "fst y" "fst x" "fst z"] by (auto split: if_split)
  qed simp
qed

lemma sort_by_mset:
  assumes c: "collation le" and m: "mset xs = mset ys" and k: "keys_apart le (map fst xs)"
  shows "sort_by le xs = sort_by le ys"
proof -
  have tot: "\<And>a b. le a b \<or> le b a" and tr: "\<And>a b d. le a b \<Longrightarrow> le b d \<Longrightarrow> le a d"
    using c unfolding collation_def by blast+
  have "insert_by le x \<circ> insert_by le y = insert_by le y \<circ> insert_by le x" if "x \<in> set xs" "y \<in> set xs" for x y
  proof -
    have "le (fst x) (fst y) \<longrightarrow> le (fst y) (fst x) \<longrightarrow> x = y"
    proof (intro impI)
      assume "le (fst x) (fst y)" "le (fst y) (fst x)"
      then have "fst x = fst y" using k that by (simp add: keys_apart_def)
      then show "x = y" using k that by (metis distinct_map inj_onD keys_apart_def)
    qed
    then show ?thesis by (simp add: fun_eq_iff insert_commutes [of le x y, OF tot tr])
  qed
  moreover have "mset (rev xs) = mset (rev ys)" using m by simp
  ultimately have "fold (insert_by le) (rev xs) = fold (insert_by le) (rev ys)"
    by (intro fold_multiset_equiv) (auto simp: o_def)
  then show ?thesis by (simp add: sort_by_def foldr_conv_fold)
qed


section \<open>Documents up to the order of entries\<close>

inductive same_json :: "(string \<Rightarrow> string \<Rightarrow> bool) \<Rightarrow> json \<Rightarrow> json \<Rightarrow> bool" for le :: "string \<Rightarrow> string \<Rightarrow> bool" where
  same_refl: "same_json le j j"
| same_array: "list_all2 (same_json le) xs ys \<Longrightarrow> same_json le (JArr xs) (JArr ys)"
| same_object: "list_all2 (rel_prod (=) (same_json le)) fs gs \<Longrightarrow> mset gs = mset hs \<Longrightarrow> keys_apart le (map fst gs)
    \<Longrightarrow> same_json le (JObj fs) (JObj hs)"

inductive_simps same_json_scalars:
  "same_json le JNull k" "same_json le (JBool b) k" "same_json le (JNum n) k" "same_json le (JStr s) k"

lemma stable_map: "stable_items le xs = map (stable le) xs" "stable_fields le fs = map (\<lambda>(k, v). (k, stable le v)) fs"
  by (induction xs, simp_all) (induction fs, auto)

lemma stable_same:
  assumes "collation le" and "same_json le j k"
  shows "stable le j = stable le k"
  using assms(2)
proof (induction rule: same_json.induct)
  case (same_array xs ys)
  then have "map (stable le) xs = map (stable le) ys"
    by (induction rule: list_all2_induct) auto
  then show ?case by (simp add: stable_map)
next
  case (same_object fs gs hs)
  from same_object(1) have "stable_fields le fs = stable_fields le gs"
    by (induction rule: list_all2_induct) (auto simp: stable_map)
  moreover have "sort_by le (stable_fields le gs) = sort_by le (stable_fields le hs)"
  proof (rule sort_by_mset [OF assms(1)])
    show "mset (stable_fields le gs) = mset (stable_fields le hs)" using same_object(2) by (simp add: stable_map)
    show "keys_apart le (map fst (stable_fields le gs))" using same_object(3) by (simp add: stable_map split_beta o_def)
  qed
  ultimately show ?case by simp
qed simp

end
