(* ===== verification/ServiceProperties.thy ===== *)
theory ServiceProperties
  imports ServiceExamples StableText
begin

text \<open>
  What the intent methods of the service do: a broadcast is cleared only on live inputs, a
  submission is recorded only with the evidence it needs and on the current version, and no
  method changes the database but by the repository's calls.
\<close>

section \<open>Reading an intent\<close>

lemma on_db_run: "on_db env m n = (r, n') \<Longrightarrow> \<exists>d t. m d = (r, t) \<and> ndb n' = t"
  by (auto simp: on_db_def ndb_def Let_def split: prod.splits)

lemma getIntent_read:
  assumes "service_getIntent env project intentId n = (Inr ag, n')"
  shows "\<exists>d i. normalizeIntentId intentId = Inr i \<and> getIntent (p_id project) i d = Some ag"
  using assms
  by (auto simp: service_getIntent_def lift_api_def lift_sum_def map_sum_def db_read_def throw_def ret_def
      elim!: andThen_InrE split: sum.splits option.splits dest!: on_db_run)


section \<open>Preflight\<close>

text \<open>One endpoint says that the Cell is live, both in the chain and with the pool considered.\<close>

definition live_proof :: "'w transport \<Rightarrow> string \<Rightarrow> OutPointRef \<Rightarrow> bool" where
  "live_proof tr url p \<longleftrightarrow>
     (\<exists>c q. answered tr url ''get_live_cell'' (liveCellParams p False) c \<and> cell_status c = Some ''live''
        \<and> answered tr url ''get_live_cell'' (liveCellParams p True) q \<and> cell_status q = Some ''live'')"

lemma inspectInput_live:
  assumes "inspectInput tr url input v = (Inr i, w)" and "io_canonical i = CI_LIVE" and "io_poolAware i \<noteq> PI_UNAVAILABLE"
  shows "live_proof tr url (ref_outPoint input)"
  using assms unfolding inspectInput_def live_proof_def
  by (auto simp: Let_def elim!: andThen_InrE split: if_splits) (blast intro: answeredI)

lemma all_live:
  assumes "list_all2 (\<lambda>x y. returns (inspectInput tr url x) y) inputs os" and "inspection_state os = II_ALL_LIVE"
  shows "\<forall>i \<in> set inputs. live_proof tr url (ref_outPoint i)"
proof -
  have "\<forall>o' \<in> set os. io_canonical o' = CI_LIVE \<and> io_poolAware o' \<noteq> PI_UNAVAILABLE"
  proof
    fix o' assume "o' \<in> set os"
    with assms(2) show "io_canonical o' = CI_LIVE \<and> io_poolAware o' \<noteq> PI_UNAVAILABLE"
      by (cases "io_canonical o'") (auto simp: inspection_state_def list_ex_iff split: if_splits)
  qed
  with assms(1) show ?thesis
    by (induction rule: list_all2_induct) (auto simp: returns_def intro: inspectInput_live)
qed

definition cleared_inputs :: "'w reconcile_env \<Rightarrow> ProjectRecord \<Rightarrow> IntentAggregate \<Rightarrow> bool" where
  "cleared_inputs env project ag \<longleftrightarrow> (\<exists>url \<in> set (endpointsFor env (p_rpcUrl project)).
     returns (assertIdentity (rc_transport (rn_rpc env)) url (identity_of env project)) ()
     \<and> (\<forall>i \<in> set (preflight_inputs (ag_execution ag)). live_proof (rc_transport (rn_rpc env)) url (ref_outPoint i)))"

lemma inspection_live:
  assumes "inspectInputOutPoints cfg urls inputs identity n = (Inr inspection, n')" and "in_state inspection = II_ALL_LIVE"
  shows "\<exists>url \<in> set urls. returns (assertIdentity (rc_transport cfg) url identity) ()
    \<and> (\<forall>i \<in> set inputs. live_proof (rc_transport cfg) url (ref_outPoint i))"
proof -
  from withSession_Inr [OF assms(1) [unfolded inspectInputOutPoints_def]] obtain url v w where url: "url \<in> set urls"
    and op: "andThen (assertIdentity (rc_transport cfg) url identity)
      (\<lambda>_. inspectInputOutPointsOnSession (rc_transport cfg) url inputs) v = (Inr inspection, w)" by blast
  from op obtain u v' where a: "assertIdentity (rc_transport cfg) url identity v = (Inr u, v')"
    and i: "inspectInputOutPointsOnSession (rc_transport cfg) url inputs v' = (Inr inspection, w)" by (rule andThen_InrE)
  from i obtain os where s: "in_state inspection = inspection_state os"
    and l: "list_all2 (\<lambda>x y. returns (inspectInput (rc_transport cfg) url x) y) inputs os" by (rule inspect_Inr)
  have "\<forall>i \<in> set inputs. live_proof (rc_transport cfg) url (ref_outPoint i)"
    by (rule all_live [OF l]) (use s assms(2) in simp)
  moreover have "returns (assertIdentity (rc_transport cfg) url identity) ()"
    unfolding returns_def by (metis a old.unit.exhaust)
  ultimately show ?thesis using url by blast
qed

lemma attempt_cases:
  assumes "andThen (attempt m) f n = (r, n')"
  obtains x t where "m n = (x, t)" and "f x t = (r, n')"
proof -
  obtain x t where m: "m n = (x, t)" by fastforce
  then have "attempt m n = (Inr x, t)" by (simp add: attempt_def andThen_def tryCatch_def split: sum.splits)
  with assms m show thesis by (intro that) (simp_all add: andThen_def)
qed

lemma preflight_event_run:
  "preflight_event env ag kind reason raw n = (x, n') \<Longrightarrow>
     \<exists>d u. x = Inr u \<and> (Inr u, ndb n') = appendEvent (rn_jsonb env) ag kind
       (Some (overall_name (deriveOverallStatus (snapshotFromExecution (ag_execution ag)))))
       (overall_name (deriveOverallStatus (snapshotFromExecution (ag_execution ag)))) (Some reason) (Some raw) d"
  by (auto simp: preflight_event_def Let_def on_db_def ndb_def appendEvent_def split_beta)

definition verified_event :: "'w reconcile_env \<Rightarrow> IntentAggregate \<Rightarrow> json \<Rightarrow> db \<Rightarrow> uuid \<times> db" where
  "verified_event env ag raw d =
    (let status = overall_name (deriveOverallStatus (snapshotFromExecution (ag_execution ag))) in
     case appendEvent (rn_jsonb env) ag ''INPUT_PREFLIGHT_VERIFIED'' (Some status) status
         (Some ''All original input OutPoints are canonically live and available against tx-pool state'') (Some raw) d of
       (Inr u, t) \<Rightarrow> (u, t) | (Inl e, t) \<Rightarrow> (0, t))"

lemma verdict_Inr:
  assumes "preflight_verdict env ag x n = (Inr view, n')"
  shows "\<exists>inspection d'. x = Inr inspection \<and> in_state inspection = II_ALL_LIVE \<and> view = executionPublicView ag
    \<and> ndb n' = snd (verified_event env ag (inspection_json inspection) d')"
proof (cases x)
  case (Inl e)
  with assms show ?thesis by (auto simp: preflight_verdict_def elim!: andThen_InrE)
next
  case (Inr inspection)
  have live: "in_state inspection = II_ALL_LIVE"
    using assms Inr by (auto simp: preflight_verdict_def elim!: andThen_InrE split: if_splits)
  with assms Inr have "andThen (preflight_event env ag ''INPUT_PREFLIGHT_VERIFIED''
               ''All original input OutPoints are canonically live and available against tx-pool state''
               (inspection_json inspection)) (\<lambda>_. ret (executionPublicView ag)) n = (Inr view, n')"
    by (simp add: preflight_verdict_def)
  then obtain u n1 where e: "preflight_event env ag ''INPUT_PREFLIGHT_VERIFIED''
               ''All original input OutPoints are canonically live and available against tx-pool state''
               (inspection_json inspection) n = (Inr u, n1)" and v: "view = executionPublicView ag" "n' = n1"
    by (auto elim!: andThen_InrE simp del: append.simps)
  from preflight_event_run [OF e] obtain d where ev: "(Inr u, ndb n') = appendEvent (rn_jsonb env) ag ''INPUT_PREFLIGHT_VERIFIED''
       (Some (overall_name (deriveOverallStatus (snapshotFromExecution (ag_execution ag)))))
       (overall_name (deriveOverallStatus (snapshotFromExecution (ag_execution ag))))
       (Some ''All original input OutPoints are canonically live and available against tx-pool state'')
       (Some (inspection_json inspection)) d" unfolding v(2) by blast
  then have "verified_event env ag (inspection_json inspection) d = (u, ndb n')"
    by (simp only: verified_event_def Let_def ev [symmetric] prod.case sum.case)
  then show ?thesis using live Inr v(1) by (metis snd_conv)
qed

lemma preflight_clears:
  assumes "service_preflight env project intentId n = (Inr view, n')"
  shows "\<exists>ag d i inspection d'. getIntent (p_id project) i d = Some ag \<and> view = executionPublicView ag
    \<and> truthy (x_txHash (ag_execution ag)) \<and> preflight_inputs (ag_execution ag) \<noteq> [] \<and> cleared_inputs env project ag
    \<and> in_state inspection = II_ALL_LIVE \<and> ndb n' = snd (verified_event env ag (inspection_json inspection) d')"
proof -
  from assms obtain ag n1 where g: "service_getIntent env project intentId n = (Inr ag, n1)" and
    rest: "(let e = ag_execution ag; urls = endpointsFor env (p_rpcUrl project) in
     if \<not> truthy (x_txHash e) then throw (api_error INVALID_TX_HASH ''Intent has no prepared transaction hash'' 400)
     else if x_inputOutPoints e = [] \<and> x_inputRefs e = [] then
       throw (api_error INVALID_SIGNED_TRANSACTION ''Input preflight requires the prepared transaction input OutPoints'' 409)
     else if urls = [] then throw (api_error RPC_UNAVAILABLE ''No CKB RPC endpoint configured'' 503)
     else andThen (attempt (inspectInputOutPoints (rn_rpc env) urls (preflight_inputs e) (identity_of env project)))
       (preflight_verdict env ag)) n1 = (Inr view, n')"
    unfolding service_preflight_def by (rule andThen_InrE)
  from getIntent_read [OF g] obtain d i where read: "getIntent (p_id project) i d = Some ag" by blast
  from rest have t: "truthy (x_txHash (ag_execution ag))" "preflight_inputs (ag_execution ag) \<noteq> []"
    and a: "andThen (attempt (inspectInputOutPoints (rn_rpc env) (endpointsFor env (p_rpcUrl project))
        (preflight_inputs (ag_execution ag)) (identity_of env project))) (preflight_verdict env ag) n1 = (Inr view, n')"
    by (auto simp: Let_def preflight_inputs_def neutralInputRefs_def split: if_splits)
  from a obtain x n2 where x: "inspectInputOutPoints (rn_rpc env) (endpointsFor env (p_rpcUrl project))
        (preflight_inputs (ag_execution ag)) (identity_of env project) n1 = (x, n2)"
    and v: "preflight_verdict env ag x n2 = (Inr view, n')" by (rule attempt_cases)
  from verdict_Inr [OF v] obtain inspection where i: "x = Inr inspection" "in_state inspection = II_ALL_LIVE" and view: "view = executionPublicView ag"
    and w: "\<exists>d'. ndb n' = snd (verified_event env ag (inspection_json inspection) d')"
    by blast
  from inspection_live [OF x [unfolded i(1)] i(2)] have "cleared_inputs env project ag" by (simp add: cleared_inputs_def)
  with read t view i(2) w show ?thesis by blast
qed

text \<open>
  A preflight clears a broadcast only for an intent with a prepared transaction and
  known inputs, and only when one configured endpoint that passed the identity check says of
  every input that its Cell is live in the chain and not taken in the pool; its one write is
  then the INPUT_PREFLIGHT_VERIFIED event with that inspection.
\<close>

theorem preflight_clears_live_inputs:
  assumes "service_preflight env project intentId n = (Inr view, n')"
  shows "\<exists>ag d i inspection d'. getIntent (p_id project) i d = Some ag \<and> view = executionPublicView ag
    \<and> truthy (x_txHash (ag_execution ag)) \<and> preflight_inputs (ag_execution ag) \<noteq> [] \<and> cleared_inputs env project ag
    \<and> in_state inspection = II_ALL_LIVE \<and> ndb n' = snd (verified_event env ag (inspection_json inspection) d')"
  by (rule preflight_clears [OF assms])

theorem preflight_clears_live_inputs_witness:
  "\<exists>ag. truthy (x_txHash (ag_execution ag)) \<and> cleared_inputs live_env sample_project ag"
proof -
  obtain view t where "service_preflight live_env sample_project ''order-1'' prepared_net = (Inr view, t)"
    using preflight_runs by blast
  from preflight_clears_live_inputs [OF this] show ?thesis by blast
qed


section \<open>Submissions\<close>

text \<open>The evidence a submission needs, stated once for each status.\<close>

definition submission_evidence :: "SubmissionStatus \<Rightarrow> SubmissionFailureEvidence option \<Rightarrow> bool" where
  "submission_evidence status failure = (case status of
     SS_NODE_REJECTED \<Rightarrow> failure_type failure = Some SE_RPC_REJECTION
       \<and> failure_conflict failure \<in> {None, Some CT_INPUT_CONFLICT_SUSPECTED}
   | SS_SUBMISSION_UNKNOWN \<Rightarrow> failure_type failure \<noteq> Some SE_RPC_REJECTION \<and> failure_conflict failure = None
   | _ \<Rightarrow> failure = None)"

lemma submission_refusal_iff: "submission_refusal status failure = None \<longleftrightarrow> submission_evidence status failure"
  by (cases status) (auto simp: submission_refusal_def submission_evidence_def failure_conflict_def)

text \<open>The stored row after a submission prepared from the reading \<open>e\<close>.\<close>

definition submission_row ::
    "ExecutionRecord \<Rightarrow> SubmissionStatus \<Rightarrow> SubmissionFailureEvidence option \<Rightarrow> ExecutionRecord \<Rightarrow> bool" where
  "submission_row e status failure r \<longleftrightarrow> x_id r = x_id e \<and> x_version r = Suc (x_version e)
     \<and> x_submissionStatus r = status \<and> x_submissionErrorType r = failure_type failure
     \<and> x_conflictType r = (case failure_conflict failure of None \<Rightarrow> x_conflictType e | c \<Rightarrow> c)
     \<and> (status \<in> {SS_SUBMITTED, SS_SUBMISSION_UNKNOWN} \<longrightarrow> x_nextReconcileAt r \<noteq> None)"

lemma mark_round_Inr:
  assumes "mark_prepare env project intentId status failure n = (Inr input, n1)"
    and "on_db env (markSubmissionStatus (rn_jsonb env) input) n1 = (Inr updated, n2)"
  shows "\<exists>d i current. getIntent (p_id project) i d = Some current \<and> truthy (x_txHash (ag_execution current))
    \<and> isl (updateSubmission (snapshotFromExecution (ag_execution current)) status) = False
    \<and> (\<exists>r \<in> set (executions (ndb n2)). submission_row (ag_execution current) status failure r)
    \<and> getIntent (i_projectId (ag_intent current)) (i_intentId (ag_intent current)) (ndb n2) = Some updated
    \<and> mk_aggregate input = current"
proof -
  from assms(1) obtain current n0 after where g: "service_getIntent env project intentId n = (Inr current, n0)"
    and t: "truthy (x_txHash (ag_execution current))"
    and u: "updateSubmission (snapshotFromExecution (ag_execution current)) status = Inr after"
    and i: "input = mark_input current status failure after"
    by (auto simp: mark_prepare_def lift_api_def lift_sum_def map_sum_def throw_def ret_def elim!: andThen_InrE
        split: if_splits sum.splits)
  from getIntent_read [OF g] obtain d k where read: "getIntent (p_id project) k d = Some current" by blast
  from on_db_run [OF assms(2)] obtain d2 where m: "markSubmissionStatus (rn_jsonb env) input d2 = (Inr updated, ndb n2)" by blast
  then have tx: "mark_tx (rn_jsonb env) input d2 = Inr (ndb n2)" using mark_case by blast
  have ag: "mk_aggregate input = current" by (simp add: i mark_input_def)
  from mark_tx_rows [OF tx] obtain e where e: "e \<in> set (executions d2)" "version_match current e"
    and rows: "executions (ndb n2) = sql_update (version_match current) (mark_projection (rn_jsonb env) input (clock d2)) (executions d2)"
    unfolding ag by blast
  define r where "r = mark_projection (rn_jsonb env) input (clock d2) e"
  have "r \<in> set (executions (ndb n2))" unfolding rows set_sql_update r_def using e by force
  moreover have "submission_row (ag_execution current) status failure r"
    using e(2) by (auto simp: submission_row_def r_def mark_projection_def i mark_input_def version_match_def
        mk_nextConflictType_def split: option.splits)
  moreover have "getIntent (i_projectId (ag_intent current)) (i_intentId (ag_intent current)) (ndb n2) = Some updated"
    using m by (auto simp: markSubmissionStatus_def ag split: sum.splits option.splits)
  ultimately show ?thesis using read t u ag by (metis isl_def sum.disc(2))
qed

lemma mark_rounds_Inr:
  assumes "mark_rounds env project intentId status failure k n = (Inr view, n')"
  shows "\<exists>input n0 n1 updated. mark_prepare env project intentId status failure n0 = (Inr input, n1)
    \<and> on_db env (markSubmissionStatus (rn_jsonb env) input) n1 = (Inr updated, n') \<and> view = executionPublicView updated"
  using assms
proof (induction k arbitrary: n)
  case (Suc k)
  from Suc.prems obtain input n1 where p: "mark_prepare env project intentId status failure n = (Inr input, n1)"
    and r: "tryCatch (andThen (on_db env (markSubmissionStatus (rn_jsonb env) input)) (\<lambda>updated. ret (executionPublicView updated)))
       (\<lambda>e. if e \<noteq> OptimisticConcurrencyError \<or> k = 0 then throw e
          else mark_rounds env project intentId status failure k) n1 = (Inr view, n')"
    by (auto elim!: andThen_InrE)
  show ?case
  proof (cases "on_db env (markSubmissionStatus (rn_jsonb env) input) n1")
    case (Pair x n2)
    show ?thesis
    proof (cases x)
      case (Inr updated)
      with Pair r p show ?thesis by (auto simp: tryCatch_def andThen_def)
    next
      case (Inl e)
      with Pair r Suc.IH show ?thesis by (auto simp: tryCatch_def andThen_def throw_def split: if_splits)
    qed
  qed
qed (simp add: throw_def)

lemma submission_effect:
  assumes "service_markSubmission env project intentId status failure n = (Inr view, n')"
  shows "submission_evidence status failure
    \<and> (\<exists>d i current updated. getIntent (p_id project) i d = Some current \<and> truthy (x_txHash (ag_execution current))
      \<and> x_workflowStatus (ag_execution current) \<notin> {WS_CONFLICTED, WS_EXPIRED} \<and> x_chainStatus (ag_execution current) \<noteq> CS_REJECTED
      \<and> submission_move (x_submissionStatus (ag_execution current)) status
      \<and> (\<exists>r \<in> set (executions (ndb n')). submission_row (ag_execution current) status failure r)
      \<and> getIntent (i_projectId (ag_intent current)) (i_intentId (ag_intent current)) (ndb n') = Some updated
      \<and> view = executionPublicView updated)"
proof -
  from assms have ev: "submission_refusal status failure = None"
    and r: "mark_rounds env project intentId status failure 3 n = (Inr view, n')"
    by (auto simp: service_markSubmission_def throw_def split: option.splits)
  from mark_rounds_Inr [OF r] obtain input n0 n1 updated where
    p: "mark_prepare env project intentId status failure n0 = (Inr input, n1)"
    and m: "on_db env (markSubmissionStatus (rn_jsonb env) input) n1 = (Inr updated, n')" and v: "view = executionPublicView updated"
    by blast
  from mark_round_Inr [OF p m] obtain d i current where c: "getIntent (p_id project) i d = Some current"
    "truthy (x_txHash (ag_execution current))"
    and u: "isl (updateSubmission (snapshotFromExecution (ag_execution current)) status) = False"
    and w: "\<exists>r \<in> set (executions (ndb n')). submission_row (ag_execution current) status failure r"
    "getIntent (i_projectId (ag_intent current)) (i_intentId (ag_intent current)) (ndb n') = Some updated" by blast
  from u obtain s where "updateSubmission (snapshotFromExecution (ag_execution current)) status = Inr s"
    by (cases "updateSubmission (snapshotFromExecution (ag_execution current)) status") auto
  then have "x_workflowStatus (ag_execution current) \<notin> {WS_CONFLICTED, WS_EXPIRED} \<and> x_chainStatus (ag_execution current) \<noteq> CS_REJECTED
      \<and> submission_move (x_submissionStatus (ag_execution current)) status"
    by (simp add: updateSubmission_accepts snapshotFromExecution_def)
  with c w v ev show ?thesis by (auto simp: submission_refusal_iff)
qed

text \<open>
  When the service reports a submission as recorded, the failure evidence fits the
  status (an explicit rejection for NODE_REJECTED, never a conflict for an ambiguous answer, none
  otherwise), the intent had a transaction hash and its projection, as it was read, allowed the
  move; and the row still had the version that was read, now has the next one and carries the
  status, the kind of failure and, if the outcome is still open, a time for reconciliation.
\<close>

theorem submission_recorded:
  assumes "service_markSubmission env project intentId status failure n = (Inr view, n')"
  shows "submission_evidence status failure
    \<and> (\<exists>d i current updated. getIntent (p_id project) i d = Some current \<and> truthy (x_txHash (ag_execution current))
      \<and> x_workflowStatus (ag_execution current) \<notin> {WS_CONFLICTED, WS_EXPIRED} \<and> x_chainStatus (ag_execution current) \<noteq> CS_REJECTED
      \<and> submission_move (x_submissionStatus (ag_execution current)) status
      \<and> (\<exists>r \<in> set (executions (ndb n')). submission_row (ag_execution current) status failure r)
      \<and> getIntent (i_projectId (ag_intent current)) (i_intentId (ag_intent current)) (ndb n') = Some updated
      \<and> view = executionPublicView updated)"
  by (rule submission_effect [OF assms])

theorem submission_recorded_witness:
  "\<exists>view t. service_markSubmission live_env sample_project ''order-1'' SS_BROADCASTING None prepared_net = (Inr view, t)
    \<and> list_ex (\<lambda>r. x_submissionStatus r = SS_BROADCASTING) (executions (ndb t))"
proof -
  obtain view t where r: "service_markSubmission live_env sample_project ''order-1'' SS_BROADCASTING None prepared_net = (Inr view, t)"
    using submission_runs by blast
  from submission_recorded [OF r] r show ?thesis by (auto simp: list_ex_iff submission_row_def)
qed


section \<open>Creating again\<close>

lemma created_fields:
  assumes "createIntent jsonb input s = (Inr (ag, True), t)"
  shows "i_metadata (ag_intent ag) = jsonb (ci_metadata input) \<and> i_expectedCells (ag_intent ag) = ci_expectedCells input"
proof -
  define P :: "IntentRecord \<Rightarrow> bool" where "P = (\<lambda>i. i_projectId i = p_id (ci_project input) \<and> i_intentId i = ci_intentId input)"
  from assms have fresh: "\<not> list_ex P (intents s)" and i: "insert_intent jsonb input s = Inr t"
    and g: "getIntent (p_id (ci_project input)) (ci_intentId input) t = Some ag"
    by (auto simp: createIntent_def Let_def P_def split: sum.splits option.splits if_splits)
  from i obtain row where r: "intents t = intents s @ [row]" "i_metadata row = jsonb (ci_metadata input)"
      "i_expectedCells row = ci_expectedCells input"
    by (auto simp: insert_intent_def Let_def insertEventAndOutbox_def split: option.splits if_splits)
  from g obtain k where k: "sql_first P (intents t) = Some k" and ag: "ag_intent ag = mapIntent k"
    by (auto simp: getIntent_def P_def Let_def split: option.splits)
  from sql_first_Some [OF k] fresh r(1) have "k = row" by (auto simp: list_ex_iff)
  then show ?thesis using r(2,3) ag by (simp add: mapIntent_def)
qed

text \<open>
  A client may repeat its request: creating the same intent again, from the same
  request, is answered with the same view, is not reported as created and changes nothing, even
  though the column of the metadata does not keep the order of the keys; the collation only has
  to be a total preorder that tells the keys of one object apart.
\<close>

theorem create_repeatable:
  assumes "collation le" and "same_json le (cr_metadata input) (rn_jsonb env (cr_metadata input))" and "rn_others env = id"
    and "service_createIntent env le project input n = (Inr (view, created), n1)"
  shows "service_createIntent env le project input n1 = (Inr (view, False), n1)"
proof -
  from assms(4) obtain i ag t where i: "normalizeIntentId (cr_intentId input) = Inr i"
    and c: "on_db env (createIntent (rn_jsonb env)
       \<lparr>ci_project = project, ci_intentId = i, ci_metadata = cr_metadata input,
        ci_expectedCells = cr_expectedCells input, ci_txHash = None, ci_submissionStatus = None\<rparr>) n = (Inr (ag, created), t)"
    and fin: "(if \<not> created \<and> \<not> same_request le ag input then
       throw (api_error INTENT_CONFLICT
         ''The same intentId already exists with different metadata or expected Cell assertions'' 409)
     else ret (executionPublicView ag, created)) t = (Inr (view, created), n1)"
    by (auto simp: service_createIntent_def lift_api_def lift_sum_def map_sum_def throw_def ret_def elim!: andThen_InrE
        split: sum.splits if_splits)
  define ci where "ci = \<lparr>ci_project = project, ci_intentId = i, ci_metadata = cr_metadata input,
        ci_expectedCells = cr_expectedCells input, ci_txHash = None, ci_submissionStatus = None\<rparr>"
  from fin have v: "view = executionPublicView ag" "n1 = t" and same: "created \<or> same_request le ag input"
    by (auto simp: throw_def ret_def split: if_splits)
  from c assms(3) have d: "createIntent (rn_jsonb env) ci (ndb n) = (Inr (ag, created), ndb n1)"
    by (auto simp: ci_def v(2) on_db_def ndb_def Let_def split: prod.splits)
  have again: "createIntent (rn_jsonb env) ci (ndb n1) = (Inr (ag, False), ndb n1)"
    by (rule create_idempotent [OF d]) simp_all
  have "same_request le ag input"
  proof (cases created)
    case True
    from d True have "createIntent (rn_jsonb env) ci (ndb n) = (Inr (ag, True), ndb n1)" by simp
    from created_fields [OF this] stable_same [OF assms(1,2)] show ?thesis
      by (simp add: same_request_def ci_def)
  qed (use same in simp)
  then show ?thesis
    using again assms(3) i
    by (simp add: service_createIntent_def lift_api_def ci_def [symmetric] andThen_def on_db_def ndb_def Let_def v)
qed

theorem create_repeatable_witness:
  "\<exists>view c n1. service_createIntent (sample_env\<lparr>rn_jsonb := turned\<rparr>) (\<lambda>a b. length a \<le> length b) sample_project sample_request host_net
      = (Inr (view, c), n1)
    \<and> service_createIntent (sample_env\<lparr>rn_jsonb := turned\<rparr>) (\<lambda>a b. length a \<le> length b) sample_project sample_request n1
      = (Inr (view, False), n1)"
proof -
  let ?le = "\<lambda>a b :: string. length a \<le> length b"
  let ?env = "sample_env\<lparr>rn_jsonb := turned\<rparr>"
  obtain view c n1 where r: "service_createIntent ?env ?le sample_project sample_request host_net = (Inr (view, c), n1)"
    using create_runs
    by (metis isl_def prod.collapse sum.exhaust_sel sum.collapse(2))
  have m: "cr_metadata sample_request = JObj [(''b'', JNum 1), (''ab'', JNum 2)]" by (simp add: sample_request_def)
  have "same_json ?le (cr_metadata sample_request) (rn_jsonb ?env (cr_metadata sample_request))"
    unfolding m by (simp add: turned_def) (rule same_object [where gs = "[(''b'', JNum 1), (''ab'', JNum 2)]"],
      auto simp: keys_apart_def intro: same_refl)
  moreover have "collation ?le" by (auto simp: collation_def)
  moreover have "rn_others ?env = id" by (simp add: sample_env_def)
  ultimately show ?thesis using create_repeatable [OF _ _ _ r] r by blast
qed

end
