(* ===== verification/BroadcastErrors.thy ===== *)
theory BroadcastErrors
  imports ServiceIntents
begin

text \<open>
  Models packages/ccc/src/broadcast-errors.ts: what the error of a failed broadcast says about its
  outcome. The regular expressions of the file are terms of a small expression language with the
  operators they use; every pattern has the flag \<open>i\<close>, and is searched for in the text.
\<close>

section \<open>Regular expressions\<close>

text \<open>
  Characters (without case), \<open>.\<close>, \<open>\s\<close>, a class of characters, \<open>\b\<close>, sequence, alternative,
  option, and repetition of a class of characters.
\<close>

datatype rx =
    Lit string
  | OneOf "char list"
  | Any
  | Blank
  | Bound
  | Cat rx rx
  | Or rx rx
  | Maybe rx
  | Blanks
  | Anys

definition is_word_char :: "char option \<Rightarrow> bool" where
  "is_word_char c = (case c of None \<Rightarrow> False | Some x \<Rightarrow> is_alnum x \<or> x = CHR ''_'')"

definition not_newline :: "char \<Rightarrow> bool" where
  "not_newline c \<longleftrightarrow> code_unit c \<notin> {10, 13}"

definition ascii_fold :: "char \<Rightarrow> char" where
  "ascii_fold c = (if 65 \<le> code_unit c \<and> code_unit c \<le> 90 then char_of (code_unit c + 32) else c)"

text \<open>A position in the text: the character before it and the rest.\<close>

type_synonym rx_pos = "char option \<times> string"

fun drop_lit :: "string \<Rightarrow> rx_pos \<Rightarrow> rx_pos option" where
  "drop_lit [] pos = Some pos"
| "drop_lit (c # cs) (p, []) = None"
| "drop_lit (c # cs) (p, x # xs) = (if ascii_fold x = ascii_fold c then drop_lit cs (Some x, xs) else None)"

fun run_of :: "(char \<Rightarrow> bool) \<Rightarrow> char option \<Rightarrow> string \<Rightarrow> rx_pos list" where
  "run_of P p [] = [(p, [])]"
| "run_of P p (x # xs) = (p, x # xs) # (if P x then run_of P (Some x) xs else [])"

definition one_char :: "(char \<Rightarrow> bool) \<Rightarrow> rx_pos \<Rightarrow> rx_pos list" where
  "one_char P pos = (case snd pos of [] \<Rightarrow> [] | x # xs \<Rightarrow> if P x then [(Some x, xs)] else [])"

definition head_char :: "string \<Rightarrow> char option" where
  "head_char s = (case s of [] \<Rightarrow> None | x # xs \<Rightarrow> Some x)"

text \<open>The positions after a match that begins at a position.\<close>

fun rx_match :: "rx \<Rightarrow> rx_pos \<Rightarrow> rx_pos list" where
  "rx_match (Lit s) pos = (case drop_lit s pos of None \<Rightarrow> [] | Some q \<Rightarrow> [q])"
| "rx_match (OneOf cs) pos = one_char (\<lambda>c. c \<in> set cs) pos"
| "rx_match Any pos = one_char not_newline pos"
| "rx_match Blank pos = one_char is_js_space pos"
| "rx_match Bound pos = (if is_word_char (fst pos) \<noteq> is_word_char (head_char (snd pos)) then [pos] else [])"
| "rx_match (Cat r q) pos = concat (map (rx_match q) (rx_match r pos))"
| "rx_match (Or r q) pos = rx_match r pos @ rx_match q pos"
| "rx_match (Maybe r) pos = rx_match r pos @ [pos]"
| "rx_match Blanks pos = run_of is_js_space (fst pos) (snd pos)"
| "rx_match Anys pos = run_of not_newline (fst pos) (snd pos)"

fun rx_search :: "rx \<Rightarrow> char option \<Rightarrow> string \<Rightarrow> bool" where
  "rx_search r p [] = (rx_match r (p, []) \<noteq> [])"
| "rx_search r p (x # xs) = (rx_match r (p, x # xs) \<noteq> [] \<or> rx_search r (Some x) xs)"

definition rx_test :: "rx \<Rightarrow> string \<Rightarrow> bool" where
  "rx_test r text = rx_search r None text"

fun any_of :: "rx list \<Rightarrow> rx" where
  "any_of [] = OneOf []"
| "any_of [r] = r"
| "any_of (r # q # rs) = Or r (any_of (q # rs))"

fun all_of :: "rx list \<Rightarrow> rx" where
  "all_of [] = Lit []"
| "all_of [r] = r"
| "all_of (r # q # rs) = Cat r (all_of (q # rs))"

definition word_rx :: "rx \<Rightarrow> rx" where
  "word_rx r = all_of [Bound, r, Bound]"


section \<open>The patterns\<close>

definition transportPattern :: rx where
  "transportPattern = any_of
    [Lit ''timeout'', Lit ''timed out'', Lit ''network'', Lit ''fetch failed'', Lit ''connection'', Lit ''econnreset'',
     Lit ''econnrefused'', Lit ''socket'', Cat (Lit ''abort'') (Maybe (Or (Lit ''ed'') (Lit ''error''))), Lit ''dns'', Lit ''enotfound'',
     Lit ''gateway'', Lit ''internal error'', Lit ''server error'', Lit ''temporarily unavailable'',
     word_rx (Cat (Lit ''50'') (OneOf ''234''))]"

definition cellbase_rx :: rx where
  "cellbase_rx = all_of [Lit ''cellbase'', Anys, Or (Lit ''mature'') (Lit ''maturity'')]"

definition since_rx :: rx where
  "since_rx = all_of [Lit ''since'', Anys, any_of [Lit ''not'', Lit ''invalid'', Lit ''mature'', Lit ''satisfied'', Lit ''reached'']]"

definition not_mature_rx :: rx where
  "not_mature_rx = all_of [Lit ''not'', Anys, Lit ''mature'']"

definition maturityOrSincePattern :: rx where
  "maturityOrSincePattern = any_of
    [word_rx (Lit ''immature''), cellbase_rx, since_rx, not_mature_rx,
     all_of [Lit ''maturity'', Anys, any_of [Lit ''not'', Lit ''require'', Lit ''fail'']]]"

definition conflict_words :: "rx list" where
  "conflict_words =
    [all_of [Lit ''unknown out'', Blanks, Lit ''point''], Lit ''unknown(outpoint'', Lit ''dead(outpoint'', Lit ''dead input'',
     Lit ''already spent'', Lit ''fee too low'', Cat (Lit ''replace'') (Maybe (Lit ''ment'')), Lit ''poolrejectedrbf'',
     word_rx (Lit ''rbf''), Lit ''unconfirmed input'']"

definition rejectionPattern :: rx where
  "rejectionPattern = any_of
    ([all_of [Lit ''pool'', Anys, Lit ''reject''], all_of [Lit ''transaction'', Anys, Lit ''reject''], Lit ''invalid transaction'',
      Lit ''invalid tx'', Lit ''verification failed'', all_of [Lit ''script'', Anys, Or (Lit ''failed'') (Lit ''error'')],
      all_of [Lit ''resolve'', Anys, Lit ''failed'']]
     @ conflict_words @ [word_rx (Lit ''immature''), cellbase_rx, since_rx, not_mature_rx])"

definition inputConflictPattern :: rx where
  "inputConflictPattern = any_of (conflict_words @ [all_of [Lit ''input'', Anys, Lit ''conflict'']])"


section \<open>Thrown values\<close>

text \<open>
  An \<open>Error\<close> with its name, its message, its other own properties and its cause, or any other
  value. Values that JSON does not have (functions, symbols) are not modelled.
\<close>

datatype js_error =
    JsError string string "(string \<times> json) list" "js_error option"
  | JsPlain "json option"

fun error_fields :: "js_error \<Rightarrow> (string \<times> json) list option" where
  "error_fields (JsError name message props cause) = Some props"
| "error_fields (JsPlain (Some (JObj fs))) = Some fs"
| "error_fields (JsPlain (Some (JArr xs))) = Some []"
| "error_fields (JsPlain v) = None"

text \<open>The next error of the chain: \<open>None\<close> is undefined, whose record is null.\<close>

fun error_cause :: "js_error \<Rightarrow> js_error" where
  "error_cause (JsError name message props (Some cause)) = cause"
| "error_cause (JsError name message props None) = JsPlain None"
| "error_cause (JsPlain (Some (JObj fs))) = JsPlain (js_field fs ''cause'')"
| "error_cause (JsPlain v) = JsPlain None"

definition code_text :: "json option \<Rightarrow> string option" where
  "code_text v = (case v of Some (JNum n) \<Rightarrow> Some (take 128 (int_string n)) | Some (JStr s) \<Rightarrow> Some (take 128 s) | _ \<Rightarrow> None)"

fun errorCode :: "nat \<Rightarrow> js_error \<Rightarrow> string option" where
  "errorCode 0 e = None"
| "errorCode (Suc k) e = (case error_fields e of
     None \<Rightarrow> None
   | Some record \<Rightarrow> (case code_text (js_field record ''code'') of Some c \<Rightarrow> Some c | None \<Rightarrow> errorCode k (error_cause e)))"

definition message_parts :: "js_error \<Rightarrow> (string \<times> json) list \<Rightarrow> string list" where
  "message_parts e record = (case e of
     JsError name message props cause \<Rightarrow> [message]
   | JsPlain v \<Rightarrow> (case js_field record ''message'' of Some (JStr m) \<Rightarrow> [m] | _ \<Rightarrow> []))"

definition data_parts :: "(string \<times> json) list \<Rightarrow> string list" where
  "data_parts record = (case js_field record ''data'' of
     None \<Rightarrow> [] | Some (JStr d) \<Rightarrow> [d] | Some v \<Rightarrow> [json_stringify v])"

fun evidence_parts :: "nat \<Rightarrow> js_error \<Rightarrow> string list" where
  "evidence_parts 0 e = []"
| "evidence_parts (Suc k) e = (case error_fields e of
     None \<Rightarrow> []
   | Some record \<Rightarrow> message_parts e record @ data_parts record @ evidence_parts k (error_cause e))"

fun bar_join :: "string list \<Rightarrow> string" where
  "bar_join [] = []"
| "bar_join [x] = x"
| "bar_join (x # y # xs) = x @ '' | '' @ bar_join (y # xs)"

definition error_String :: "js_error \<Rightarrow> string" where
  "error_String e = (case e of
     JsError name message props cause \<Rightarrow>
       (if name = [] then message else if message = [] then name else name @ '': '' @ message)
   | JsPlain None \<Rightarrow> ''undefined''
   | JsPlain (Some v) \<Rightarrow> js_String v)"

definition collectEvidenceText :: "js_error \<Rightarrow> string" where
  "collectEvidenceText e =
    (let joined = bar_join (filter (\<lambda>p. p \<noteq> []) (evidence_parts 4 e)) in
     take 4000 (if joined \<noteq> [] then joined else error_String e))"


section \<open>The classification\<close>

datatype Outcome = AMBIGUOUS | NODE_REJECTED

definition error_name :: "js_error \<Rightarrow> string option" where
  "error_name e = (case e of JsError name message props cause \<Rightarrow> Some name
     | JsPlain v \<Rightarrow> (case error_fields e of None \<Rightarrow> None | Some record \<Rightarrow>
         (case js_field record ''name'' of Some (JStr n) \<Rightarrow> Some n | _ \<Rightarrow> None)))"

definition name_entry :: "string option \<Rightarrow> (string \<times> json) list" where
  "name_entry name = (case or_null name of None \<Rightarrow> [] | Some n \<Rightarrow> [(''name'', JStr n)])"

definition classifyBroadcastError :: "js_error \<Rightarrow> Outcome \<times> SubmissionFailureEvidence" where
  "classifyBroadcastError error =
    (let message = collectEvidenceText error; code = or_null (errorCode 4 error); name = error_name error;
         explicitRejection = rx_test rejectionPattern message;
         conflictSuspected = (explicitRejection \<and> rx_test inputConflictPattern message);
         retryableMaturityOrSince = (explicitRejection \<and> rx_test maturityOrSincePattern message) in
     if explicitRejection then
       (NODE_REJECTED,
        \<lparr>sf_errorCode = code, sf_errorType = SE_RPC_REJECTION, sf_errorMessage = Some message,
         sf_conflictType = (if conflictSuspected then Some CT_INPUT_CONFLICT_SUSPECTED else None),
         sf_details = Some (name_entry name @
           [(''classification'', JStr ''explicit-node-rejection''), (''canonicalSpendConfirmed'', JBool False)]
           @ (if retryableMaturityOrSince then [(''retryable'', JBool True), (''retryReason'', JStr ''CKB_MATURITY_OR_SINCE''),
                (''requiresResign'', JBool False)] else []))\<rparr>)
     else
       (AMBIGUOUS,
        \<lparr>sf_errorCode = code, sf_errorType = SE_TRANSPORT_UNKNOWN, sf_errorMessage = Some message, sf_conflictType = None,
         sf_details = Some (name_entry name @
           [(''classification'', JStr (if rx_test transportPattern message then ''transport-unknown'' else ''rpc-outcome-unknown''))])\<rparr>))"

end
