(* ===== verification/Client.thy ===== *)
theory Client
  imports BroadcastErrors Monitoring
begin

text \<open>
  Models packages/ccc/src/client.ts: the HTTP client of the service. One exchange over the network
  is a parameter; what the client makes of it, its bounded retries and its waiting loop are the
  file's. A method is an action over the state of the caller's world, which has a clock and, when
  the caller passed a signal, knows whether it was aborted.
\<close>

section \<open>Requests\<close>

record FetchRequest =
  fq_url :: string
  fq_method :: "string option"
  fq_headers :: "(string \<times> string) list"
  fq_body :: "string option"

text \<open>
  What one call of \<open>fetch\<close> and of \<open>response.json()\<close> came to: a response whose body parsed or did
  not, a failure before the response, or an abort of the active signal at either point.
\<close>

datatype Exchange =
    Responded int "json option"
  | FetchFailed js_error
  | FetchAborted js_error

datatype client_error =
    CellFlowHttpError int string string
  | OtherError js_error

record ClientOptions =
  cx_endpoint :: string
  cx_apiKey :: string
  cx_transportRetryAttempts :: "int option"
  cx_transportRetryDelayMs :: "int option"
  cx_requestTimeoutMs :: "int option"

text \<open>
  The network with a timeout in milliseconds (0 for none), the timer, the clock and the reason
  of the caller's aborted signal.
\<close>

record 's client_env =
  ce_options :: ClientOptions
  ce_fetch :: "int \<Rightarrow> FetchRequest \<Rightarrow> 's \<Rightarrow> Exchange \<times> 's"
  ce_sleep :: "int \<Rightarrow> 's \<Rightarrow> 's"
  ce_now :: "'s \<Rightarrow> timestamp"
  ce_aborted :: "'s \<Rightarrow> js_error option"

type_synonym ('s, 'a) call = "('s, client_error, 'a) action"

text \<open>An option of the caller, truncated to an integer; \<open>None\<close> when absent or not finite.\<close>

definition boundedMilliseconds :: "int option \<Rightarrow> int \<Rightarrow> int \<Rightarrow> int" where
  "boundedMilliseconds value fallback maximum = (case value of Some v \<Rightarrow> min maximum (max 0 v) | None \<Rightarrow> fallback)"

text \<open>The caller's signal, when there is one.\<close>

definition signal_aborted :: "'s client_env \<Rightarrow> bool \<Rightarrow> 's \<Rightarrow> js_error option" where
  "signal_aborted env signal s = (if signal then ce_aborted env s else None)"

definition throwIfAborted :: "'s client_env \<Rightarrow> bool \<Rightarrow> ('s, unit) call" where
  "throwIfAborted env signal = (\<lambda>s. case signal_aborted env signal s of
     None \<Rightarrow> (Inr (), s) | Some reason \<Rightarrow> (Inl (OtherError reason), s))"

definition delayUnlessAborted :: "'s client_env \<Rightarrow> int \<Rightarrow> bool \<Rightarrow> ('s, unit) call" where
  "delayUnlessAborted env ms signal =
     andThen (throwIfAborted env signal) (\<lambda>_.
     if ms \<le> 0 then ret ()
     else andThen (modifyState (ce_sleep env ms)) (\<lambda>_. throwIfAborted env signal))"

definition client_endpoint :: "ClientOptions \<Rightarrow> string" where
  "client_endpoint o' = rev (dropWhile (\<lambda>c. c = CHR ''/'') (rev (cx_endpoint o')))"

definition set_header :: "string \<Rightarrow> string \<Rightarrow> (string \<times> string) list \<Rightarrow> (string \<times> string) list" where
  "set_header k v hs = filter (\<lambda>h. fst h \<noteq> k) hs @ [(k, v)]"

record RequestInit =
  ri_method :: "string option"
  ri_headers :: "(string \<times> string) list"
  ri_body :: "string option"
  ri_signal :: bool

definition fetch_request :: "ClientOptions \<Rightarrow> string \<Rightarrow> RequestInit \<Rightarrow> FetchRequest" where
  "fetch_request o' path init =
    (let typed = (if list_ex (\<lambda>h. fst h = ''content-type'') (ri_headers init) then ri_headers init
         else set_header ''content-type'' ''application/json'' (ri_headers init)) in
     \<lparr>fq_url = client_endpoint o' @ path, fq_method = ri_method init,
      fq_headers = set_header ''authorization'' (''Bearer '' @ cx_apiKey o') typed, fq_body = ri_body init\<rparr>)"

text \<open>What a response means: the payload or the error the server states.\<close>

definition record_of :: "json option \<Rightarrow> (string \<times> json) list" where
  "record_of v = (case v of Some (JObj fs) \<Rightarrow> fs | _ \<Rightarrow> [])"

definition response_error :: "int \<Rightarrow> json \<Rightarrow> client_error" where
  "response_error status payload =
    (let details = record_of (js_field (record_of (Some payload)) ''error'') in
     CellFlowHttpError status
       (case js_field details ''code'' of Some (JStr c) \<Rightarrow> c | _ \<Rightarrow> ''HTTP_ERROR'')
       (case js_field details ''message'' of Some (JStr m) \<Rightarrow> m | _ \<Rightarrow> ''CellFlow request failed: HTTP '' @ int_string status))"

definition response_ok :: "int \<Rightarrow> bool" where
  "response_ok status \<longleftrightarrow> 200 \<le> status \<and> status \<le> 299"

definition read_response :: "int \<Rightarrow> json option \<Rightarrow> client_error + json" where
  "read_response status body =
    (case (case body of Some v \<Rightarrow> Inr v
        | None \<Rightarrow> if \<not> response_ok status then Inr (JObj [])
            else if status = 204 \<or> status = 205 then Inr (JObj [])
            else Inl (CellFlowHttpError 502 ''INVALID_RESPONSE'' ''CellFlow returned invalid JSON'')) of
       Inl e \<Rightarrow> Inl e
     | Inr payload \<Rightarrow> if response_ok status then Inr payload else Inl (response_error status payload))"

text \<open>\<open>lastTransportError instanceof Error ? it : new Error(...)\<close>.\<close>

definition transport_error :: "string \<Rightarrow> js_error \<Rightarrow> client_error" where
  "transport_error path e = OtherError (case e of JsError n m fs c \<Rightarrow> e
     | JsPlain v \<Rightarrow> JsError ''Error'' (''CellFlow transport failed for '' @ path) [] None)"

text \<open>The rounds left, and the number of the round.\<close>

fun request_rounds :: "'s client_env \<Rightarrow> string \<Rightarrow> RequestInit \<Rightarrow> int \<Rightarrow> int \<Rightarrow> nat \<Rightarrow> nat \<Rightarrow> ('s, json) call" where
  "request_rounds env path init retryDelayMs requestTimeoutMs number 0 =
     throw (transport_error path (JsPlain (Some JNull)))"
| "request_rounds env path init retryDelayMs requestTimeoutMs number (Suc left) =
     andThen (throwIfAborted env (ri_signal init)) (\<lambda>_. \<lambda>s.
     case ce_fetch env requestTimeoutMs (fetch_request (ce_options env) path init) s of
       (Responded status body, t) \<Rightarrow> lift_sum (read_response status body) t
     | (FetchAborted e, t) \<Rightarrow> (Inl (OtherError e), t)
     | (FetchFailed e, t) \<Rightarrow>
         if left = 0 then (Inl (transport_error path e), t)
         else andThen (delayUnlessAborted env (min 30000 (retryDelayMs * int number)) (ri_signal init))
           (\<lambda>_. request_rounds env path init retryDelayMs requestTimeoutMs (Suc number) left) t)"

definition request_attempts :: "ClientOptions \<Rightarrow> nat" where
  "request_attempts o' = nat (max 1 (boundedMilliseconds (cx_transportRetryAttempts o') 1 6))"

definition request :: "'s client_env \<Rightarrow> string \<Rightarrow> RequestInit \<Rightarrow> ('s, json) call" where
  "request env path init =
    (let o' = ce_options env in
     request_rounds env path init (boundedMilliseconds (cx_transportRetryDelayMs o') 500 15000)
       (boundedMilliseconds (cx_requestTimeoutMs o') 30000 300000) 1 (request_attempts o'))"


section \<open>Methods\<close>

text \<open>\<open>encodeURIComponent\<close> for code units below 256.\<close>

definition uri_unreserved :: "char \<Rightarrow> bool" where
  "uri_unreserved c \<longleftrightarrow> is_alnum c \<or> c \<in> set ''-_.!~*'' \<or> code_unit c \<in> {39, 40, 41}"

definition upper_hex :: "nat \<Rightarrow> string" where
  "upper_hex n = map (\<lambda>c. if 97 \<le> code_unit c \<and> code_unit c \<le> 102 then char_of (code_unit c - 32) else c) (byte_hex n)"

definition encodeURIComponent :: "string \<Rightarrow> string" where
  "encodeURIComponent s = concat (map (\<lambda>c. if uri_unreserved c then [c]
     else concat (map (\<lambda>b. CHR ''%'' # upper_hex b) (utf8_encode [c]))) s)"

definition intent_path :: "string \<Rightarrow> string \<Rightarrow> string" where
  "intent_path intentId tail = ''/api/v1/intents/'' @ encodeURIComponent intentId @ tail"

definition post_init :: "string \<Rightarrow> RequestInit" where
  "post_init body = \<lparr>ri_method = Some ''POST'', ri_headers = [], ri_body = Some body, ri_signal = False\<rparr>"

text \<open>The property \<open>intent\<close> of the payload; \<open>None\<close> is undefined.\<close>

definition intent_of :: "json \<Rightarrow> ('s, json option) call" where
  "intent_of payload = (case payload of
     JNull \<Rightarrow> throw (OtherError (JsError ''TypeError'' ''Cannot read properties of null (reading 'intent')'' [] None))
   | JObj fs \<Rightarrow> ret (js_field fs ''intent'')
   | _ \<Rightarrow> ret None)"

definition post_intent :: "'s client_env \<Rightarrow> string \<Rightarrow> json \<Rightarrow> ('s, json option) call" where
  "post_intent env path body = andThen (request env path (post_init (json_stringify body))) intent_of"

record PrepareInput =
  pi_intentId :: string
  pi_txHash :: string
  pi_metadata :: "json option"
  pi_expectedCells :: "json list option"
  pi_signedPayloadHashSha256 :: "string option"
  pi_allowSignedPayloadRevision :: bool
  pi_inputOutPoints :: "OutPointRef list option"
  pi_inputRefs :: "InputRef list option"
  pi_attemptKind :: "AttemptKind option"
  pi_parentAttemptId :: "string option option"

definition create_body :: "PrepareInput \<Rightarrow> json" where
  "create_body input = JObj [(''intentId'', JStr (pi_intentId input)),
     (''metadata'', (case pi_metadata input of None \<Rightarrow> JObj [] | Some m \<Rightarrow> m)),
     (''expectedCells'', JArr (list_of (pi_expectedCells input)))]"

definition prepare_body :: "PrepareInput \<Rightarrow> json" where
  "prepare_body input = obj_defined
    [(''txHash'', Some (JStr (pi_txHash input))),
     (''signedPayloadHashSha256'', map_option JStr (or_null (pi_signedPayloadHashSha256 input))),
     (''allowSignedPayloadRevision'', if pi_allowSignedPayloadRevision input then Some (JBool True) else None),
     (''inputOutPoints'', Some (JArr (map outPoint_json (list_of (pi_inputOutPoints input))))),
     (''inputRefs'', Some (JArr (map inputRef_json (list_of (pi_inputRefs input))))),
     (''attemptKind'', map_option (\<lambda>k. JStr (attempt_kind_name k)) (pi_attemptKind input)),
     (''parentAttemptId'', map_option opt_json (pi_parentAttemptId input))]"

definition client_get :: "'s client_env \<Rightarrow> string \<Rightarrow> bool \<Rightarrow> ('s, json option) call" where
  "client_get env intentId signal =
     tryCatch (andThen (request env (intent_path intentId [])
         \<lparr>ri_method = None, ri_headers = [], ri_body = None, ri_signal = signal\<rparr>) intent_of)
       (\<lambda>e. case e of CellFlowHttpError status code message \<Rightarrow> if status = 404 then ret None else throw e
         | OtherError x \<Rightarrow> throw e)"

text \<open>\<open>(await this.get(...)) ?? created.intent\<close>: null and undefined fall back.\<close>

definition client_track :: "'s client_env \<Rightarrow> PrepareInput \<Rightarrow> ('s, json option) call" where
  "client_track env input =
     andThen (request env ''/api/v1/intents'' (post_init (json_stringify (create_body input)))) (\<lambda>created.
     andThen (request env (intent_path (pi_intentId input) ''/track'')
       (post_init (json_stringify (JObj [(''txHash'', JStr (pi_txHash input))])))) (\<lambda>_.
     andThen (client_get env (pi_intentId input) False) (\<lambda>current. case current of
         Some v \<Rightarrow> if v = JNull then intent_of created else ret current
       | None \<Rightarrow> intent_of created)))"

definition client_prepare :: "'s client_env \<Rightarrow> PrepareInput \<Rightarrow> ('s, json option) call" where
  "client_prepare env input =
     andThen (request env ''/api/v1/intents'' (post_init (json_stringify (create_body input)))) (\<lambda>_.
     post_intent env (intent_path (pi_intentId input) ''/prepare'') (prepare_body input))"

definition client_preflight :: "'s client_env \<Rightarrow> string \<Rightarrow> ('s, json option) call" where
  "client_preflight env intentId = post_intent env (intent_path intentId ''/preflight'') (JObj [])"

definition client_markBroadcasting :: "'s client_env \<Rightarrow> string \<Rightarrow> ('s, json option) call" where
  "client_markBroadcasting env intentId = post_intent env (intent_path intentId ''/broadcasting'') (JObj [])"

definition client_markSubmitted :: "'s client_env \<Rightarrow> string \<Rightarrow> ('s, json option) call" where
  "client_markSubmitted env intentId = post_intent env (intent_path intentId ''/submitted'') (JObj [])"

definition failure_json :: "SubmissionFailureEvidence \<Rightarrow> json" where
  "failure_json f = obj_defined
    [(''errorCode'', map_option JStr (sf_errorCode f)), (''errorType'', Some (JStr (submission_error_name (sf_errorType f)))),
     (''errorMessage'', map_option JStr (sf_errorMessage f)),
     (''conflictType'', map_option (\<lambda>c. JStr (conflict_type_name c)) (sf_conflictType f)),
     (''details'', map_option JObj (sf_details f))]"

definition client_markAmbiguous :: "'s client_env \<Rightarrow> string \<Rightarrow> SubmissionFailureEvidence option \<Rightarrow> ('s, json option) call" where
  "client_markAmbiguous env intentId failure =
     post_intent env (intent_path intentId ''/ambiguous'') (case failure of None \<Rightarrow> JObj [] | Some f \<Rightarrow> failure_json f)"

definition client_markNodeRejected :: "'s client_env \<Rightarrow> string \<Rightarrow> SubmissionFailureEvidence \<Rightarrow> ('s, json option) call" where
  "client_markNodeRejected env intentId failure = post_intent env (intent_path intentId ''/rejected'') (failure_json failure)"

definition plain_error :: "string \<Rightarrow> client_error" where
  "plain_error message = OtherError (JsError ''Error'' message [] None)"

text \<open>A missing intent is null or undefined.\<close>

definition intent_present :: "json option \<Rightarrow> string \<Rightarrow> ('s, json) call" where
  "intent_present current message = (case current of
     Some v \<Rightarrow> if v = JNull \<or> v = JBool False \<or> v = JStr [] \<or> v = JNum 0 then throw (plain_error message) else ret v
   | None \<Rightarrow> throw (plain_error message))"

definition client_reconcile :: "'s client_env \<Rightarrow> string \<Rightarrow> ('s, json) call" where
  "client_reconcile env intentId =
     andThen (request env (intent_path intentId ''/reconcile'') (post_init ''{}'')) (\<lambda>_.
     andThen (client_get env intentId False) (\<lambda>current.
     intent_present current ''Intent disappeared after reconciliation''))"


section \<open>Waiting\<close>

datatype Until = Until_committed | Until_confirmed | Until_verified

definition view_text :: "json \<Rightarrow> string \<Rightarrow> string option" where
  "view_text v k = json_string (js_field (record_of (Some v)) k)"

definition wait_finished :: "Until \<Rightarrow> json \<Rightarrow> bool" where
  "wait_finished until v \<longleftrightarrow>
     view_text v ''status'' \<in> {Some ''REJECTED'', Some ''NODE_REJECTED'', Some ''CONFLICTED'', Some ''EXPIRED''}
     \<or> (until = Until_committed \<and> view_text v ''status'' \<in> {Some ''COMMITTED'', Some ''CONFIRMED''})
     \<or> (until = Until_confirmed \<and> view_text v ''status'' = Some ''CONFIRMED'')
     \<or> (until = Until_verified \<and> js_field (record_of (Some v)) ''settlementReady'' = Some (JBool True))"

definition wait_read :: "'s client_env \<Rightarrow> string \<Rightarrow> bool \<Rightarrow> ('s, json) call" where
  "wait_read env intentId signal =
     andThen (throwIfAborted env signal) (\<lambda>_.
     andThen (client_get env intentId signal) (\<lambda>current.
     intent_present current (''Intent '' @ intentId @ '' was not found'')))"

text \<open>One round of the loop: the view to return, or none after the pause.\<close>

definition wait_round :: "'s client_env \<Rightarrow> string \<Rightarrow> bool \<Rightarrow> Until \<Rightarrow> int \<Rightarrow> timestamp \<Rightarrow> ('s, json option) call" where
  "wait_round env intentId signal until intervalMs deadline =
     andThen (wait_read env intentId signal) (\<lambda>v.
     if wait_finished until v then ret (Some v)
     else andThen (readState (ce_now env)) (\<lambda>now'.
       andThen (delayUnlessAborted env (min intervalMs (max 0 (deadline - now'))) signal) (\<lambda>_. ret None)))"

partial_function (option) wait_loop ::
    "'s client_env \<Rightarrow> string \<Rightarrow> bool \<Rightarrow> Until \<Rightarrow> int \<Rightarrow> timestamp \<Rightarrow> 's \<Rightarrow> ((client_error + json) \<times> 's) option" where
  "wait_loop env intentId signal until intervalMs deadline s =
    (if ce_now env s < deadline then
       (case wait_round env intentId signal until intervalMs deadline s of
          (Inl e, t) \<Rightarrow> Some (Inl e, t)
        | (Inr (Some v), t) \<Rightarrow> Some (Inr v, t)
        | (Inr None, t) \<Rightarrow> wait_loop env intentId signal until intervalMs deadline t)
     else Some (wait_read env intentId signal s))"

record WaitOptions =
  wo_timeoutMs :: "int option"
  wo_intervalMs :: "int option"
  wo_until :: "Until option"
  wo_signal :: bool

definition client_wait :: "'s client_env \<Rightarrow> string \<Rightarrow> WaitOptions \<Rightarrow> 's \<Rightarrow> ((client_error + json) \<times> 's) option" where
  "client_wait env intentId o' s =
     wait_loop env intentId (wo_signal o') (case wo_until o' of None \<Rightarrow> Until_confirmed | Some u \<Rightarrow> u)
       (max 100 (boundedMilliseconds (wo_intervalMs o') 2500 60000))
       (ce_now env s + boundedMilliseconds (wo_timeoutMs o') 120000 86400000) s"

end
