(* ===== verification/Tracked.thy ===== *)
theory Tracked
  imports Client
begin

text \<open>
  Models packages/ccc/src/ccc.ts: a transaction that is signed, registered with the service, and
  broadcast exactly once. The wallet and the CKB node are parameters; the service is reached
  through the operations of a client, which are parameters too, so that the flow can be composed
  with the HTTP client of theory Client and with the service itself.
\<close>

section \<open>Transactions of the wallet library\<close>

text \<open>
  What the code asks of a transaction: for each input the two fields of its previous output, the
  hash, and its value for the fingerprint. Signing and sending change the caller's world.
\<close>

record ('s, 'tx) wallet =
  wl_inputs :: "'tx \<Rightarrow> (json \<times> json) list"
  wl_hash :: "'tx \<Rightarrow> string"
  wl_value :: "'tx \<Rightarrow> json"
  wl_sign :: "'tx \<Rightarrow> ('s, js_error, 'tx) action"
  wl_send :: "'tx \<Rightarrow> ('s, js_error, string) action"
  wl_sha256 :: "nat list \<Rightarrow> nat list"

text \<open>The operations of the service the flow uses.\<close>

record 's flow =
  fl_prepare :: "PrepareInput \<Rightarrow> ('s, json option) call"
  fl_preflight :: "string \<Rightarrow> ('s, json option) call"
  fl_markBroadcasting :: "string \<Rightarrow> ('s, json option) call"
  fl_markSubmitted :: "string \<Rightarrow> ('s, json option) call"
  fl_markAmbiguous :: "string \<Rightarrow> SubmissionFailureEvidence option \<Rightarrow> ('s, json option) call"
  fl_markNodeRejected :: "string \<Rightarrow> SubmissionFailureEvidence \<Rightarrow> ('s, json option) call"

definition client_flow :: "'s client_env \<Rightarrow> 's flow" where
  "client_flow env = \<lparr>fl_prepare = client_prepare env, fl_preflight = client_preflight env,
     fl_markBroadcasting = client_markBroadcasting env, fl_markSubmitted = client_markSubmitted env,
     fl_markAmbiguous = client_markAmbiguous env, fl_markNodeRejected = client_markNodeRejected env\<rparr>"

text \<open>The errors of the file; \<open>Raised\<close> is an error it lets through or a type error of its own.\<close>

datatype tracked_error =
    Raised client_error
  | AmbiguousSubmissionError string string string "js_error option"
  | NodeRejectedError string string string SubmissionFailureEvidence js_error
  | TrackingUpdateError string string string client_error

type_synonym ('s, 'a) tracked_call = "('s, tracked_error, 'a) action"

definition raise_as :: "('e \<Rightarrow> tracked_error) \<Rightarrow> ('s, 'e, 'a) action \<Rightarrow> ('s, 'a) tracked_call" where
  "raise_as f m = (\<lambda>s. case m s of (r, t) \<Rightarrow> (map_sum f id r, t))"

definition raised_error :: "string \<Rightarrow> string \<Rightarrow> tracked_error" where
  "raised_error name message = Raised (OtherError (JsError name message [] None))"


section \<open>Inputs\<close>

definition parseOutPointIndex :: "json \<Rightarrow> tracked_error + int" where
  "parseOutPointIndex value' =
    (case (case value' of JNum n \<Rightarrow> Some n | v \<Rightarrow> js_BigInt (js_String v)) of
       None \<Rightarrow> Inl (raised_error ''TypeError'' ''CCC transaction contains an invalid input OutPoint index'')
     | Some parsed \<Rightarrow>
         if parsed < 0 \<or> parsed > 0xffffffff
         then Inl (raised_error ''RangeError'' ''CCC transaction input OutPoint index is outside uint32 range'')
         else Inr parsed)"

definition extract_input :: "json \<times> json \<Rightarrow> tracked_error + OutPointRef" where
  "extract_input previousOutput =
    (let txHash = toLowerCase (js_String (fst previousOutput)) in
     if \<not> is_tx_hash txHash
     then Inl (raised_error ''TypeError'' ''CCC transaction contains an invalid input OutPoint transaction hash'')
     else sum_bind (parseOutPointIndex (snd previousOutput)) (\<lambda>index. Inr \<lparr>op_txHash = txHash, op_index = index\<rparr>))"

definition extractInputOutPoints :: "('s, 'tx) wallet \<Rightarrow> 'tx \<Rightarrow> tracked_error + OutPointRef list" where
  "extractInputOutPoints w tx = collect extract_input (wl_inputs w tx)"

definition outPointKey :: "OutPointRef \<Rightarrow> string" where
  "outPointKey p = toLowerCase (op_txHash p) @ CHR '':'' # int_string (op_index p)"

text \<open>The map of the explicit roles, in the order of insertion.\<close>

fun explicit_refs :: "string set \<Rightarrow> InputRef list \<Rightarrow> (string \<times> InputRef) list \<Rightarrow> tracked_error + (string \<times> InputRef) list" where
  "explicit_refs finalInputs [] explicit = Inr explicit"
| "explicit_refs finalInputs (ref # refs) explicit =
    (let key = outPointKey (ref_outPoint ref) in
     if key \<notin> finalInputs
     then Inl (raised_error ''TypeError'' (''Explicit inputRef '' @ key @ '' does not exist in the final signed transaction''))
     else if map_of explicit key \<noteq> None
     then Inl (raised_error ''TypeError'' (''Duplicate explicit inputRef for '' @ key))
     else explicit_refs finalInputs refs (explicit @ [(key, ref)]))"

definition classify_input ::
    "(string \<times> InputRef) list \<Rightarrow> string set \<Rightarrow> string set \<Rightarrow> OutPointRef \<Rightarrow> InputRef" where
  "classify_input explicit application original outPoint =
    (let key = outPointKey outPoint in
     case map_of explicit key of
       Some declared \<Rightarrow> declared\<lparr>ref_outPoint := outPoint\<rparr>
     | None \<Rightarrow> \<lparr>ref_outPoint = outPoint,
         ref_role = (if key \<in> application then IR_APPLICATION_STATE else if key \<in> original then IR_OTHER else IR_WALLET_FUNDING),
         ref_resourceKey = None\<rparr>)"

definition classifyInputRefs ::
    "OutPointRef list \<Rightarrow> InputRef list \<Rightarrow> OutPointRef list \<Rightarrow> OutPointRef list \<Rightarrow> tracked_error + InputRef list" where
  "classifyInputRefs inputOutPoints explicitInputRefs applicationInputs originalInputs =
     sum_bind (explicit_refs (set (map outPointKey inputOutPoints)) explicitInputRefs []) (\<lambda>explicit.
     Inr (map (classify_input explicit (set (map outPointKey applicationInputs)) (set (map outPointKey originalInputs))) inputOutPoints))"


section \<open>Preparing\<close>

record 'tx PrepareOptions =
  po_transaction :: 'tx
  po_intentId :: string
  po_metadata :: "json option"
  po_expectedCells :: "json list option"
  po_inputRefs :: "InputRef list option"
  po_applicationInputs :: "OutPointRef list option"
  po_attemptKind :: "AttemptKind option"
  po_parentAttemptId :: "string option option"
  po_allowSignedPayloadRevision :: bool

record 'tx PreparedTransaction =
  pt_transaction :: 'tx
  pt_txHash :: string
  pt_inputOutPoints :: "OutPointRef list"
  pt_inputRefs :: "InputRef list"

definition prepare_input ::
    "'tx PrepareOptions \<Rightarrow> string \<Rightarrow> string \<Rightarrow> OutPointRef list \<Rightarrow> InputRef list \<Rightarrow> PrepareInput" where
  "prepare_input o' txHash fingerprint inputs refs =
    \<lparr>pi_intentId = po_intentId o', pi_txHash = txHash,
     pi_metadata = Some (case po_metadata o' of None \<Rightarrow> JObj [] | Some m \<Rightarrow> m),
     pi_expectedCells = Some (list_of (po_expectedCells o')),
     pi_signedPayloadHashSha256 = Some fingerprint, pi_allowSignedPayloadRevision = po_allowSignedPayloadRevision o',
     pi_inputOutPoints = Some inputs, pi_inputRefs = Some refs, pi_attemptKind = po_attemptKind o',
     pi_parentAttemptId = po_parentAttemptId o'\<rparr>"

definition prepareTrackedTransaction ::
    "('s, 'tx) wallet \<Rightarrow> 's flow \<Rightarrow> 'tx PrepareOptions \<Rightarrow> ('s, 'tx PreparedTransaction) tracked_call" where
  "prepareTrackedTransaction w flow o' =
     andThen (lift_sum (extractInputOutPoints w (po_transaction o'))) (\<lambda>originalInputs.
     andThen (raise_as (\<lambda>e. Raised (OtherError e)) (wl_sign w (po_transaction o'))) (\<lambda>signed.
     case signedPayloadFingerprintSha256 (wl_sha256 w) (wl_value w signed) of
       None \<Rightarrow> throw (raised_error ''TypeError'' ''Unable to fingerprint the complete signed CKB transaction payload'')
     | Some fingerprint \<Rightarrow>
         andThen (lift_sum (extractInputOutPoints w signed)) (\<lambda>inputs.
         andThen (lift_sum (classifyInputRefs inputs (list_of (po_inputRefs o')) (list_of (po_applicationInputs o')) originalInputs)) (\<lambda>refs.
         andThen (raise_as Raised (fl_prepare flow (prepare_input o' (wl_hash w signed) fingerprint inputs refs))) (\<lambda>_.
         ret \<lparr>pt_transaction = signed, pt_txHash = wl_hash w signed, pt_inputOutPoints = inputs, pt_inputRefs = refs\<rparr>)))))"


section \<open>Broadcasting\<close>

text \<open>\<open>.catch(() => undefined)\<close>.\<close>

definition swallow :: "('s, 'e, 'a) action \<Rightarrow> ('s, 'f, unit) action" where
  "swallow m = (\<lambda>s. (Inr (), snd (m s)))"

definition mismatch_evidence :: "string \<Rightarrow> SubmissionFailureEvidence" where
  "mismatch_evidence returnedHash =
    \<lparr>sf_errorCode = None, sf_errorType = SE_HASH_MISMATCH,
     sf_errorMessage = Some ''CKB RPC returned a transaction hash different from the precomputed hash'',
     sf_conflictType = None, sf_details = Some [(''returnedHash'', JStr returnedHash)]\<rparr>"

text \<open>What follows the one call of the node.\<close>

definition broadcast_failed :: "'s flow \<Rightarrow> string \<Rightarrow> string \<Rightarrow> js_error \<Rightarrow> ('s, string) tracked_call" where
  "broadcast_failed flow intentId txHash error =
    (case classifyBroadcastError error of
       (NODE_REJECTED, evidence) \<Rightarrow>
         andThen (swallow (fl_markNodeRejected flow intentId evidence)) (\<lambda>_.
         throw (NodeRejectedError ''CKB RPC explicitly rejected the transaction; CellFlow recorded submission-layer evidence and will not treat it as an ambiguous send''
           intentId txHash evidence error))
     | (AMBIGUOUS, evidence) \<Rightarrow>
         andThen (swallow (fl_markAmbiguous flow intentId (Some evidence))) (\<lambda>_.
         throw (AmbiguousSubmissionError ''Broadcast outcome is ambiguous; CellFlow will reconcile by deterministic tx hash before any retry''
           intentId txHash (Some error))))"

definition broadcast_answered :: "'s flow \<Rightarrow> string \<Rightarrow> string \<Rightarrow> string \<Rightarrow> ('s, string) tracked_call" where
  "broadcast_answered flow intentId txHash returnedHash =
    (if toLowerCase returnedHash \<noteq> toLowerCase txHash then
       andThen (swallow (fl_markAmbiguous flow intentId (Some (mismatch_evidence returnedHash)))) (\<lambda>_.
       throw (AmbiguousSubmissionError ''CKB RPC returned a transaction hash different from the precomputed hash'' intentId txHash None))
     else
       andThen (raise_as (TrackingUpdateError ''Transaction broadcast succeeded but CellFlow could not persist SUBMITTED; reconcile the persisted txHash''
           intentId txHash) (fl_markSubmitted flow intentId)) (\<lambda>_. ret returnedHash))"

definition broadcast :: "('s, 'tx) wallet \<Rightarrow> 's flow \<Rightarrow> string \<Rightarrow> 'tx PreparedTransaction \<Rightarrow> ('s, string) tracked_call" where
  "broadcast w flow intentId p =
     andThen (raise_as Raised (fl_preflight flow intentId)) (\<lambda>_.
     andThen (raise_as Raised (fl_markBroadcasting flow intentId)) (\<lambda>_. \<lambda>s.
     case wl_send w (pt_transaction p) s of
       (Inl error, t) \<Rightarrow> broadcast_failed flow intentId (pt_txHash p) error t
     | (Inr returnedHash, t) \<Rightarrow> broadcast_answered flow intentId (pt_txHash p) returnedHash t))"

end
