(* ===== verification/ClientProperties.thy ===== *)
theory ClientProperties
  imports Tracked
begin

text \<open>
  What the HTTP client guarantees: bounded retries that stop at the first response, a waiting
  loop that ends, and evidence of failed broadcasts that the service accepts.
\<close>

section \<open>What a call may do to the caller's world\<close>

definition keeps :: "('s \<Rightarrow> 's \<Rightarrow> bool) \<Rightarrow> ('s, 'e, 'a) action \<Rightarrow> bool" where
  "keeps R m \<longleftrightarrow> (\<forall>s. R s (snd (m s)))"

lemma keepsD: "keeps R m \<Longrightarrow> m s = (r, t) \<Longrightarrow> R s t"
  unfolding keeps_def by (metis snd_conv)

text \<open>A relation that contains every exchange and every pause contains every method.\<close>

locale exchange_relation =
  fixes env :: "'s client_env" and R :: "'s \<Rightarrow> 's \<Rightarrow> bool"
  assumes refl: "R s s"
    and trans: "R s t \<Longrightarrow> R t u \<Longrightarrow> R s u"
    and fetch: "R s (snd (ce_fetch env ms rq s))"
    and sleep: "R s (ce_sleep env ms s)"
begin

lemma keeps_pure: "keeps R (ret x)" "keeps R (throw e)" "keeps R (readState f)" "keeps R (lift_sum y)" "keeps R (throwIfAborted env signal)"
  by (auto simp: keeps_def refl throwIfAborted_def split: option.splits)

lemma keeps_andThen: "keeps R m \<Longrightarrow> (\<And>x. keeps R (f x)) \<Longrightarrow> keeps R (andThen m f)"
  unfolding keeps_def andThen_def by (auto split: prod.splits sum.splits) (metis snd_conv trans)+

lemma keeps_tryCatch: "keeps R m \<Longrightarrow> (\<And>e. keeps R (f e)) \<Longrightarrow> keeps R (tryCatch m f)"
  unfolding keeps_def tryCatch_def by (auto split: prod.splits sum.splits) (metis snd_conv trans)+

lemmas parts = keeps_andThen keeps_tryCatch keeps_pure

lemma delay_keeps: "keeps R (delayUnlessAborted env ms signal)"
  unfolding delayUnlessAborted_def
  by (auto intro!: parts simp: keeps_def [of R "modifyState _"] sleep)

lemma rounds_keep: "keeps R (request_rounds env path init d tm number k)"
proof (induction k arbitrary: number)
  case (Suc k)
  have "keeps R (\<lambda>s. case ce_fetch env tm (fetch_request (ce_options env) path init) s of
       (Responded status body, t) \<Rightarrow> lift_sum (read_response status body) t
     | (FetchAborted e, t) \<Rightarrow> (Inl (OtherError e), t)
     | (FetchFailed e, t) \<Rightarrow>
         if k = 0 then (Inl (transport_error path e), t)
         else andThen (delayUnlessAborted env (min 30000 (d * int number)) (ri_signal init))
           (\<lambda>_. request_rounds env path init d tm (Suc number) k) t)" (is "keeps R ?m")
    unfolding keeps_def
  proof
    fix s
    obtain x t where f: "ce_fetch env tm (fetch_request (ce_options env) path init) s = (x, t)" by fastforce
    have t: "R s t" using fetch [of s tm "fetch_request (ce_options env) path init"] f by simp
    have "keeps R (andThen (delayUnlessAborted env (min 30000 (d * int number)) (ri_signal init))
           (\<lambda>_. request_rounds env path init d tm (Suc number) k))"
      by (intro keeps_andThen delay_keeps Suc.IH)
    then have "R t (snd (andThen (delayUnlessAborted env (min 30000 (d * int number)) (ri_signal init))
           (\<lambda>_. request_rounds env path init d tm (Suc number) k) t))"
      unfolding keeps_def by blast
    then show "R s (snd (?m s))" using f t by (cases x) (simp_all add: trans [OF t])
  qed
  then show ?case by (simp add: keeps_andThen keeps_pure)
qed (simp add: keeps_pure)

lemma request_keeps: "keeps R (request env path init)"
  unfolding request_def Let_def by (rule rounds_keep)

lemma intent_keeps: "keeps R (intent_of payload)"
  unfolding intent_of_def by (auto intro: keeps_pure split: json.splits)

lemma post_keeps: "keeps R (post_intent env path body)"
  unfolding post_intent_def by (intro parts request_keeps intent_keeps)

lemma get_keeps: "keeps R (client_get env intentId signal)"
  unfolding client_get_def by (auto intro!: parts request_keeps intent_keeps split: client_error.splits)

lemma read_keeps: "keeps R (wait_read env intentId signal)"
  unfolding wait_read_def intent_present_def by (auto intro!: parts get_keeps split: option.splits)

lemma methods_keep:
  "keeps R (client_prepare env input)" "keeps R (client_preflight env i)" "keeps R (client_markBroadcasting env i)"
  "keeps R (client_markSubmitted env i)" "keeps R (client_markAmbiguous env i failure)" "keeps R (client_markNodeRejected env i ev)"
  unfolding client_prepare_def client_preflight_def client_markBroadcasting_def client_markSubmitted_def client_markAmbiguous_def
    client_markNodeRejected_def
  by (intro parts request_keeps post_keeps)+

end


section \<open>Requests\<close>

lemma bounded_bounds: "0 \<le> fallback \<Longrightarrow> fallback \<le> maximum \<Longrightarrow> 0 \<le> boundedMilliseconds v fallback maximum \<and> boundedMilliseconds v fallback maximum \<le> maximum"
  by (auto simp: boundedMilliseconds_def split: option.splits)

lemma attempts_bounds: "1 \<le> request_attempts o' \<and> request_attempts o' \<le> 6"
  using bounded_bounds [of 1 6 "cx_transportRetryAttempts o'"] by (auto simp: request_attempts_def)

text \<open>A ghost of the world that logs every exchange: what was asked, for how long, and what came of it.\<close>

definition logs_exchanges :: "'s client_env \<Rightarrow> ('s \<Rightarrow> (int \<times> FetchRequest \<times> Exchange) list) \<Rightarrow> bool" where
  "logs_exchanges env log \<longleftrightarrow> (\<forall>ms rq s. log (snd (ce_fetch env ms rq s)) = log s @ [(ms, rq, fst (ce_fetch env ms rq s))])
     \<and> (\<forall>ms s. log (ce_sleep env ms s) = log s)"

lemma delay_logs:
  "logs_exchanges env log \<Longrightarrow> delayUnlessAborted env ms signal s = (r, t) \<Longrightarrow> log t = log s"
  by (auto simp: delayUnlessAborted_def throwIfAborted_def logs_exchanges_def andThen_def ret_def modifyState_def
      split: option.splits if_splits prod.splits sum.splits)

text \<open>What a call reports for the exchanges it made: an answer is the result, and is the last exchange.\<close>

definition exchanges_report :: "Exchange list \<Rightarrow> client_error + json \<Rightarrow> bool" where
  "exchanges_report xs r \<longleftrightarrow> (\<forall>x \<in> set (butlast xs). \<exists>e. x = FetchFailed e)
     \<and> (case xs of [] \<Rightarrow> \<exists>e. r = Inl e
        | _ \<Rightarrow> (case last xs of Responded status body \<Rightarrow> r = read_response status body | _ \<Rightarrow> \<exists>e. r = Inl e))"

lemma report_none: "exchanges_report [] (Inl e)"
  by (simp add: exchanges_report_def)

lemma report_one:
  "exchanges_report [Responded status body] (read_response status body)" "exchanges_report [FetchAborted e] (Inl f)"
  "exchanges_report [FetchFailed e] (Inl f)"
  by (simp_all add: exchanges_report_def)

lemma report_more: "exchanges_report xs r \<Longrightarrow> (xs = [] \<Longrightarrow> isl r) \<Longrightarrow> exchanges_report (FetchFailed e # xs) r"
  by (auto simp: exchanges_report_def isl_def split: list.splits)

lemma rounds_log:
  assumes l: "logs_exchanges env log"
  shows "request_rounds env path init d tm number k s = (r, t) \<Longrightarrow>
    \<exists>xs. log t = log s @ map (\<lambda>x. (tm, fetch_request (ce_options env) path init, x)) xs \<and> length xs \<le> k \<and> exchanges_report xs r"
proof (induction k arbitrary: number s)
  case (Suc k)
  let ?rq = "fetch_request (ce_options env) path init"
  obtain x u where f: "ce_fetch env tm ?rq s = (x, u)" by fastforce
  have u: "log u = log s @ [(tm, ?rq, x)]" using l f unfolding logs_exchanges_def by (metis fst_conv snd_conv)
  show ?case
  proof (cases "signal_aborted env (ri_signal init) s")
    case (Some e)
    with Suc.prems show ?thesis by (intro exI [of _ "[]"]) (auto simp: throwIfAborted_def andThen_def report_none)
  next
    case None
    note a = this
    consider status body where "x = Responded status body" | e where "x = FetchAborted e" | e where "x = FetchFailed e" "k = 0"
      | e where "x = FetchFailed e" "k \<noteq> 0" by (cases x) auto
    then show ?thesis
    proof cases
      case 4
      obtain y v where y: "delayUnlessAborted env (min 30000 (d * int number)) (ri_signal init) u = (y, v)" by fastforce
      have v: "log v = log s @ [(tm, ?rq, x)]" using delay_logs [OF l y] u by simp
      show ?thesis
      proof (cases y)
        case (Inl e)
        with Suc.prems a f 4 y v show ?thesis
          by (intro exI [of _ "[x]"]) (auto simp: throwIfAborted_def andThen_def report_one)
      next
        case (Inr z)
        with Suc.prems a f 4 y have "request_rounds env path init d tm (Suc number) k v = (r, t)"
          by (simp add: throwIfAborted_def andThen_def)
        from Suc.IH [OF this] obtain xs where xs: "log t = log v @ map (\<lambda>x. (tm, ?rq, x)) xs" "length xs \<le> k" "exchanges_report xs r" by blast
        have "xs = [] \<Longrightarrow> isl r" using xs(3) by (auto simp: exchanges_report_def)
        with xs v 4 show ?thesis by (intro exI [of _ "x # xs"]) (simp add: report_more)
      qed
    qed (use Suc.prems f u a in \<open>intro exI [of _ "[x]"]; auto simp: throwIfAborted_def andThen_def lift_sum_def report_one\<close>)+
  qed
qed (auto simp: throw_def report_none intro!: exI [of _ "[]"])

text \<open>
  Property C36: one call of the client makes at most six exchanges, whatever the caller configured,
  all of them the same request; every exchange but the last failed in the transport, so a request
  that was answered, in whatever round and with whatever status, is never sent again, and the answer
  is what the call reports; without an answer it reports an error.
\<close>

theorem request_bounded:
  assumes "logs_exchanges env log" and "request env path init s = (r, t)"
  shows "\<exists>xs. log t = log s @ map (\<lambda>x. (boundedMilliseconds (cx_requestTimeoutMs (ce_options env)) 30000 300000,
      fetch_request (ce_options env) path init, x)) xs
    \<and> length xs \<le> 6 \<and> exchanges_report xs r"
proof -
  have "request_attempts (ce_options env) \<le> 6" using attempts_bounds [of "ce_options env"] by linarith
  with rounds_log [OF assms(1) assms(2) [unfolded request_def Let_def]] show ?thesis by (meson le_trans)
qed

text \<open>A network that fails twice, then answers that the server is overloaded, and logs.\<close>

definition failing_env :: "(int \<times> FetchRequest \<times> Exchange) list client_env" where
  "failing_env = \<lparr>ce_options = \<lparr>cx_endpoint = ''https://a//'', cx_apiKey = ''k'', cx_transportRetryAttempts = Some 99,
       cx_transportRetryDelayMs = None, cx_requestTimeoutMs = None\<rparr>,
     ce_fetch = (\<lambda>ms rq s. let x = (if length s < 2 then FetchFailed (JsError ''TypeError'' ''fetch failed'' [] None) else Responded 503 None)
       in (x, s @ [(ms, rq, x)])),
     ce_sleep = (\<lambda>ms s. s), ce_now = (\<lambda>s. int (length s)), ce_aborted = (\<lambda>_. None)\<rparr>"

theorem request_bounded_witness:
  "\<exists>r t. request failing_env ''/'' (post_init []) [] = (r, t) \<and> map (snd \<circ> snd) t
     = [FetchFailed (JsError ''TypeError'' ''fetch failed'' [] None), FetchFailed (JsError ''TypeError'' ''fetch failed'' [] None), Responded 503 None]
     \<and> r = read_response 503 None"
proof -
  obtain r t where r: "request failing_env ''/'' (post_init []) [] = (r, t)" by fastforce
  have "logs_exchanges failing_env id" by (simp add: logs_exchanges_def failing_env_def Let_def)
  from request_bounded [OF this r] obtain xs where xs: "map (snd \<circ> snd) t = xs" "exchanges_report xs r" by (auto simp: comp_def)
  have "map (snd \<circ> snd) (snd (request failing_env ''/'' (post_init []) []))
     = [FetchFailed (JsError ''TypeError'' ''fetch failed'' [] None), FetchFailed (JsError ''TypeError'' ''fetch failed'' [] None), Responded 503 None]"
    by (simp add: request_def request_attempts_def boundedMilliseconds_def failing_env_def Let_def andThen_def throwIfAborted_def
        signal_aborted_def post_init_def delayUnlessAborted_def modifyState_def numeral_eq_Suc lift_sum_def)
  with r xs show ?thesis by (auto simp: exchanges_report_def)
qed


section \<open>Waiting\<close>

text \<open>Time does not run backwards, and a pause that is not interrupted lasts as long as asked.\<close>

definition clock_laws :: "'s client_env \<Rightarrow> bool \<Rightarrow> bool" where
  "clock_laws env signal \<longleftrightarrow> (\<forall>ms rq s. ce_now env s \<le> ce_now env (snd (ce_fetch env ms rq s)))
     \<and> (\<forall>ms s. ce_now env s \<le> ce_now env (ce_sleep env ms s))
     \<and> (\<forall>ms s. signal_aborted env signal (ce_sleep env ms s) = None \<longrightarrow> ce_now env s + ms \<le> ce_now env (ce_sleep env ms s))"

lemma delay_done:
  assumes "clock_laws env signal" and "delayUnlessAborted env ms signal s = (Inr (), t)"
  shows "ce_now env s + ms \<le> ce_now env t"
  using assms
  by (auto simp: delayUnlessAborted_def throwIfAborted_def clock_laws_def andThen_def ret_def modifyState_def
      split: option.splits if_splits prod.splits sum.splits)

interpretation clocked: exchange_relation env "\<lambda>s t. clock_laws env signal \<longrightarrow> ce_now env s \<le> ce_now env t" for env signal
  by unfold_locales (auto simp: clock_laws_def)

lemma round_progress:
  assumes c: "clock_laws env signal" and r: "wait_round env intentId signal until iv deadline s = (Inr None, t)"
    and d: "ce_now env s < deadline" and iv: "0 < iv"
  shows "nat (deadline - ce_now env t) < nat (deadline - ce_now env s)"
proof -
  from r obtain v u where w: "wait_read env intentId signal s = (Inr v, u)"
    and p: "delayUnlessAborted env (min iv (max 0 (deadline - ce_now env u))) signal u = (Inr (), t)"
    unfolding wait_round_def by (auto elim!: andThen_InrE simp: ret_def readState_def split: if_splits)
  have "ce_now env s \<le> ce_now env u" using keepsD [OF clocked.read_keeps w] c by blast
  with delay_done [OF c p] d iv show ?thesis by linarith
qed

lemma wait_total:
  assumes c: "clock_laws env signal" and iv: "0 < iv"
  shows "\<exists>r t. wait_loop env intentId signal until iv deadline s = Some (r, t)
    \<and> (\<forall>v. r = Inr v \<longrightarrow> wait_finished until v \<or> deadline \<le> ce_now env t)"
proof (induction "nat (deadline - ce_now env s)" arbitrary: s rule: less_induct)
  case less
  show ?case
  proof (cases "ce_now env s < deadline")
    case False
    obtain r t where w: "wait_read env intentId signal s = (r, t)" by fastforce
    have "ce_now env s \<le> ce_now env t" using keepsD [OF clocked.read_keeps w] c by blast
    with False w show ?thesis by (subst wait_loop.simps) auto
  next
    case True
    obtain x t where w: "wait_round env intentId signal until iv deadline s = (x, t)" by fastforce
    consider e where "x = Inl e" | v where "x = Inr (Some v)" | "x = Inr None" by (cases x) auto
    then show ?thesis
    proof cases
      case 2
      with w have "wait_finished until v"
        unfolding wait_round_def by (auto elim!: andThen_InrE simp: ret_def readState_def split: if_splits)
      with 2 w True show ?thesis by (subst wait_loop.simps) auto
    next
      case 3
      with w have "nat (deadline - ce_now env t) < nat (deadline - ce_now env s)"
        using round_progress [OF c _ True iv] by blast
      from less.hyps [OF this] 3 w True show ?thesis by (subst wait_loop.simps) auto
    qed (use w True in \<open>subst wait_loop.simps, auto\<close>)
  qed
qed

text \<open>
  Property C37: waiting for an intent always ends, whatever the service answers and however short
  the pause and the timeout the caller asks for, as long as pauses last and time does not run
  backwards; and the view it returns has reached what was waited for, or a final failure, unless
  the deadline has passed.
\<close>

theorem wait_returns:
  assumes "clock_laws env (wo_signal o')"
  shows "\<exists>r t. client_wait env intentId o' s = Some (r, t)
    \<and> (\<forall>v. r = Inr v \<longrightarrow> wait_finished (case wo_until o' of None \<Rightarrow> Until_confirmed | Some u \<Rightarrow> u) v
        \<or> ce_now env s + boundedMilliseconds (wo_timeoutMs o') 120000 86400000 \<le> ce_now env t)"
  unfolding client_wait_def by (rule wait_total [OF assms]) simp

text \<open>A network that always answers that the intent is pending, and a clock.\<close>

definition pending_env :: "int client_env" where
  "pending_env = \<lparr>ce_options = ce_options failing_env,
     ce_fetch = (\<lambda>ms rq s. (Responded 200 (Some (JObj [(''intent'', JObj [(''status'', JStr ''PENDING'')])])), s + 1)),
     ce_sleep = (\<lambda>ms s. s + max 0 ms), ce_now = id, ce_aborted = (\<lambda>_. None)\<rparr>"

theorem wait_returns_witness:
  "client_wait pending_env ''order-1'' \<lparr>wo_timeoutMs = Some 500, wo_intervalMs = Some 0, wo_until = None, wo_signal = False\<rparr> 0 \<noteq> None"
proof -
  have "clock_laws pending_env False" by (simp add: clock_laws_def pending_env_def)
  then show ?thesis using wait_returns [of pending_env "\<lparr>wo_timeoutMs = Some 500, wo_intervalMs = Some 0, wo_until = None, wo_signal = False\<rparr>" "''order-1''" 0] by auto
qed


section \<open>Evidence of failed broadcasts\<close>

definition outcome_status :: "Outcome \<Rightarrow> SubmissionStatus" where
  "outcome_status o' = (case o' of NODE_REJECTED \<Rightarrow> SS_NODE_REJECTED | AMBIGUOUS \<Rightarrow> SS_SUBMISSION_UNKNOWN)"

text \<open>The sizes the service accepts.\<close>

definition evidence_sized :: "SubmissionFailureEvidence \<Rightarrow> bool" where
  "evidence_sized ev \<longleftrightarrow> (case sf_errorCode ev of None \<Rightarrow> True | Some c \<Rightarrow> length c \<le> 128)
     \<and> (case sf_errorMessage ev of None \<Rightarrow> True | Some m \<Rightarrow> length m \<le> 4000)"

lemma errorCode_size: "errorCode k e = Some c \<Longrightarrow> length c \<le> 128"
  by (induction k e rule: errorCode.induct) (auto simp: code_text_def split: option.splits json.splits)

lemma or_null_Some: "or_null x = Some c \<Longrightarrow> x = Some c"
  by (simp add: or_null_def split: if_splits)

text \<open>
  Whatever a node or a transport throws, the evidence made of it is one the service
  accepts for the outcome: a rejection carries the type of a rejection, an ambiguous failure
  claims neither a rejection nor a conflict, its texts have the sizes the schema allows, and a
  conflict is suspected only when the text names a rejection and an input. The same holds of the
  evidence of a wrong hash.
\<close>

theorem classified_evidence_accepted:
  "submission_refusal (outcome_status (fst (classifyBroadcastError e))) (Some (snd (classifyBroadcastError e))) = None
   \<and> evidence_sized (snd (classifyBroadcastError e))
   \<and> (sf_conflictType (snd (classifyBroadcastError e)) = Some CT_INPUT_CONFLICT_SUSPECTED \<longleftrightarrow>
        rx_test rejectionPattern (collectEvidenceText e) \<and> rx_test inputConflictPattern (collectEvidenceText e))
   \<and> submission_refusal SS_SUBMISSION_UNKNOWN (Some (mismatch_evidence h)) = None \<and> evidence_sized (mismatch_evidence h)"
proof -
  have c: "case or_null (errorCode 4 e) of None \<Rightarrow> True | Some c \<Rightarrow> length c \<le> 128"
    by (auto split: option.splits dest!: or_null_Some errorCode_size)
  have "length (collectEvidenceText e) \<le> 4000" by (simp add: collectEvidenceText_def Let_def)
  with c show ?thesis
    by (simp add: classifyBroadcastError_def Let_def outcome_status_def submission_refusal_def failure_type_def failure_conflict_def
        evidence_sized_def mismatch_evidence_def)
qed

end
