(* ===== verification/ServiceAccess.thy ===== *)
theory ServiceAccess
  imports ServiceIntents RepoProjects WebhookCrypto Ssrf
begin

text \<open>
  Models apps/api/src/auth.ts and the administrative half of apps/api/src/service.ts: API keys
  and the bootstrap token, the first project, keys, webhooks, metrics and the project's evidence.
  Random bytes and the resolver belong to the process's world; settings are read from its
  environment.
\<close>

record 'w access_env =
  ac_env :: "'w reconcile_env"
  ac_random :: "'w host \<Rightarrow> string \<times> 'w host"
  ac_iv :: "'w host \<Rightarrow> nat list \<times> 'w host"
  ac_ips :: ip_library
  ac_crypto :: crypto_lib
  ac_lookup :: "string \<Rightarrow> ('w host, thrown, DnsRecord list) action"
  ac_rateLimit :: "int option"
  ac_bootstrapToken :: "string option"
  ac_encryptionKey :: "string option"
  ac_expectedGenesis :: "string option"
  ac_confirmationPolicy :: "string option"
  ac_production :: bool
  ac_staleMinutes :: "int option"
  ac_commitSha :: "string option"
  ac_environment :: "string option"

text \<open>A draw from the process's random source, and \<open>randomUUID()\<close>.\<close>

definition draw :: "('w host \<Rightarrow> 'a \<times> 'w host) \<Rightarrow> ('w, 'a) work" where
  "draw source = on_world (\<lambda>h. case source h of (x, g) \<Rightarrow> (Inr x, g))"

definition new_uuid :: "'w access_env \<Rightarrow> ('w, uuid) work" where
  "new_uuid a = on_db (ac_env a) (\<lambda>s. (Inr (next_uuid s), s\<lparr>next_uuid := Suc (next_uuid s)\<rparr>))"

text \<open>A repository call that cannot throw.\<close>

definition on_rows :: "'w access_env \<Rightarrow> (db \<Rightarrow> 'a \<times> db) \<Rightarrow> ('w, 'a) work" where
  "on_rows a f = on_db (ac_env a) (\<lambda>s. case f s of (x, t) \<Rightarrow> (Inr x, t))"


section \<open>Keys\<close>

record ApiKeyDraft =
  kd_id :: uuid
  kd_key :: string
  kd_prefix :: string
  kd_hash :: string

definition hashApiKey :: "'w access_env \<Rightarrow> string \<Rightarrow> string" where
  "hashApiKey a key = sha256_text (rn_sha256 (ac_env a)) key"

definition key_draft :: "'w access_env \<Rightarrow> uuid \<Rightarrow> string \<Rightarrow> ApiKeyDraft" where
  "key_draft a i key = \<lparr>kd_id = i, kd_key = key, kd_prefix = take 16 key, kd_hash = hashApiKey a key\<rparr>"

definition generateApiKey :: "'w access_env \<Rightarrow> ('w, ApiKeyDraft) work" where
  "generateApiKey a =
     andThen (draw (ac_random a)) (\<lambda>random.
     andThen (new_uuid a) (\<lambda>i. ret (key_draft a i (''cf_live_'' @ random))))"

definition prepareApiKey :: "'w access_env \<Rightarrow> string \<Rightarrow> ('w, ApiKeyDraft) work" where
  "prepareApiKey a key =
    (let normalized = js_trim key in
     if \<not> startsWith normalized ''cf_live_'' \<or> length normalized < 32 then
       throw (api_error INTERNAL_ERROR
         ''CELLFLOW_INITIAL_ADMIN_API_KEY must be a valid cf_live_ API key with at least 32 characters'' 500)
     else andThen (new_uuid a) (\<lambda>i. ret (key_draft a i normalized)))"

definition scope_name :: "ApiKeyScope \<Rightarrow> string" where
  "scope_name s = (case s of Scope_read \<Rightarrow> ''read'' | Scope_write \<Rightarrow> ''write'' | Scope_admin \<Rightarrow> ''admin'')"

definition permitted :: "ApiKeyScope list \<Rightarrow> ApiKeyScope \<Rightarrow> bool" where
  "permitted scopes requiredScope \<longleftrightarrow> Scope_admin \<in> set scopes \<or> requiredScope \<in> set scopes"

definition scope_error :: "ApiKeyScope \<Rightarrow> ApiKeyScope list \<Rightarrow> CellFlowError" where
  "scope_error requiredScope granted =
     (cellFlowError AUTH_SCOPE_REQUIRED (''API key requires '' @ scope_name requiredScope @ '' scope'') 403)
       \<lparr>err_details := Some (JObj [(''requiredScope'', JStr (scope_name requiredScope)),
          (''grantedScopes'', JArr (map (\<lambda>s. JStr (scope_name s)) granted))])\<rparr>"

definition rate_limit :: "'w access_env \<Rightarrow> int" where
  "rate_limit a = (case ac_rateLimit a of None \<Rightarrow> 240 | Some n \<Rightarrow> n)"

definition rate_bucket :: "uuid \<Rightarrow> string" where
  "rate_bucket keyId = ''api:'' @ nat_string keyId"

definition authenticateBearer :: "'w access_env \<Rightarrow> string option \<Rightarrow> ApiKeyScope \<Rightarrow> ('w, ProjectRecord) work" where
  "authenticateBearer a authorization requiredScope =
    (case authorization of
       None \<Rightarrow> throw (api_error AUTH_INVALID ''Missing Bearer API key'' 401)
     | Some header \<Rightarrow>
         if \<not> startsWith header ''Bearer '' then throw (api_error AUTH_INVALID ''Missing Bearer API key'' 401)
         else let key = js_trim (drop 7 header) in
         if length key < 20 then throw (api_error AUTH_INVALID ''Invalid API key'' 401)
         else andThen (on_rows a (findAuthByApiKeyHash (hashApiKey a key))) (\<lambda>auth. case auth of
           None \<Rightarrow> throw (api_error AUTH_INVALID ''Invalid, revoked, or expired API key'' 401)
         | Some (project, k) \<Rightarrow>
             if \<not> permitted (au_scopes k) requiredScope then throw (ApiError (scope_error requiredScope (au_scopes k)))
             else andThen (on_rows a (consumeRateLimit (p_id project) (rate_bucket (au_id k)) (rate_limit a) 60)) (\<lambda>allowed.
               if \<not> allowed then throw (api_error RATE_LIMITED ''API key rate limit exceeded'' 429) else ret project)))"

definition requireBootstrapToken :: "'w access_env \<Rightarrow> string option \<Rightarrow> ('w, unit) work" where
  "requireBootstrapToken a value' =
    (case ac_bootstrapToken a of
       None \<Rightarrow> throw (api_error INTERNAL_ERROR ''Server bootstrap token is not configured'' 500)
     | Some expected \<Rightarrow>
         if length expected < 24 then throw (api_error INTERNAL_ERROR ''Server bootstrap token is not configured'' 500)
         else let presented = (case value' of None \<Rightarrow> [] | Some v \<Rightarrow> if startsWith v ''Bearer '' then drop 7 v else []) in
         if utf8_encode presented \<noteq> utf8_encode expected then throw (api_error AUTH_INVALID ''Invalid bootstrap authorization'' 401)
         else ret ())"


section \<open>The first project\<close>

record SetupInput =
  su_name :: string
  su_network :: Network
  su_rpcUrl :: "string option"
  su_confirmationPolicy :: "ConfirmationPolicy option"
  su_initialApiKey :: "string option"

definition configured_genesis :: "'w access_env \<Rightarrow> string option" where
  "configured_genesis a = or_null (map_option (\<lambda>g. toLowerCase (js_trim g)) (ac_expectedGenesis a))"

definition network_mismatch :: "Network \<Rightarrow> string \<Rightarrow> thrown" where
  "network_mismatch network chain = api_error RPC_RESPONSE_INVALID
     (''RPC network mismatch: project expects '' @ network_name network @ '' but endpoint reports ''
       @ (if chain = [] then ''unknown'' else chain)) 400"

text \<open>
  The checks of the node's two answers, up to the genesis hash to store. The answer to the first
  call is an object; an answer that is not a string has no \<open>trim\<close>, which the caller's \<open>catch\<close>
  turns into RPC_UNAVAILABLE, as a null answer to the second call is \<open>null\<close>.
\<close>

definition setup_unverified :: thrown where
  "setup_unverified = api_error RPC_UNAVAILABLE ''Unable to verify the configured CKB RPC endpoint'' 503"

definition setup_checks :: "'w access_env \<Rightarrow> Network \<Rightarrow> json \<Rightarrow> json \<Rightarrow> thrown + string" where
  "setup_checks a network info genesisHash =
    (if info = JNull then Inl setup_unverified else
     let chain = (case js_field (asRecord info) ''chain'' of Some (JStr c) \<Rightarrow> c | _ \<Rightarrow> []) in
     if expectedChain network \<noteq> None \<and> expectedChain network \<noteq> Some chain then Inl (network_mismatch network chain)
     else if genesisHash \<noteq> JNull \<and> json_string (Some genesisHash) = None then Inl setup_unverified
     else let observed = (case json_string (Some genesisHash) of None \<Rightarrow> [] | Some g \<Rightarrow> toLowerCase (js_trim g)) in
     if \<not> is_tx_hash observed then Inl (api_error RPC_RESPONSE_INVALID ''RPC returned an invalid genesis block hash'' 400)
     else if configured_genesis a \<noteq> None \<and> configured_genesis a \<noteq> Some observed then
       Inl (api_error RPC_RESPONSE_INVALID ''RPC genesis hash does not match CKB_EXPECTED_GENESIS_HASH'' 400)
     else if js_field (asRecord info) ''is_initial_block_download'' = Some (JBool True) \<and> ac_production a then
       Inl (api_error RPC_UNAVAILABLE ''RPC node is still in initial block download'' 503)
     else Inr observed)"

definition setup_probe :: "'w access_env \<Rightarrow> Network \<Rightarrow> string \<Rightarrow> ('w, string) work" where
  "setup_probe a network rpcUrl =
    (let cfg = rn_rpc (ac_env a) in
     tryCatch
       (andThen (getBlockchainInfo cfg [rpcUrl]) (\<lambda>info.
        andThen (getGenesisHash cfg [rpcUrl]) (\<lambda>genesis. lift_sum (setup_checks a network info genesis))))
       (\<lambda>e. case e of ApiError err \<Rightarrow> throw (ApiError err) | _ \<Rightarrow> throw setup_unverified))"

definition checked_url :: "'w access_env \<Rightarrow> string \<Rightarrow> ('w, ParsedUrl) work" where
  "checked_url a raw = on_world (validateWebhookUrl (ac_ips a) (rn_newURL (ac_env a)) (ac_lookup a) (\<not> ac_production a) raw)"

definition setup_rpc :: "'w access_env \<Rightarrow> SetupInput \<Rightarrow> ('w, string option \<times> string option) work" where
  "setup_rpc a input =
    (case or_null (su_rpcUrl input) of
       None \<Rightarrow> ret (su_rpcUrl input, configured_genesis a)
     | Some raw \<Rightarrow>
         andThen (checked_url a raw) (\<lambda>u.
         andThen (setup_probe a (su_network input) (u_href u)) (\<lambda>genesis. ret (Some (u_href u), Some genesis))))"

definition service_setupProject :: "'w access_env \<Rightarrow> SetupInput \<Rightarrow> ('w, ProjectRecord \<times> string) work" where
  "service_setupProject a input =
     andThen (setup_rpc a input) (\<lambda>(rpcUrl, genesis).
     andThen (case or_null (su_initialApiKey input) of None \<Rightarrow> generateApiKey a | Some k \<Rightarrow> prepareApiKey a k) (\<lambda>key.
     andThen (case su_confirmationPolicy input of Some p \<Rightarrow> ret p
        | None \<Rightarrow> lift_api (parseConfirmationPolicy (case ac_confirmationPolicy a of None \<Rightarrow> Some ''depth:4'' | p \<Rightarrow> p))) (\<lambda>policy.
     andThen (on_db (ac_env a) (createInitialProject \<lparr>cp_name = su_name input, cp_network = su_network input, cp_rpcUrl = rpcUrl,
        cp_rpcGenesisHash = genesis, cp_confirmationPolicy = policy, cp_apiKeyId = kd_id key,
        cp_apiKeyPrefix = kd_prefix key, cp_apiKeyHash = kd_hash key\<rparr>)) (\<lambda>created. case created of
       None \<Rightarrow> throw (api_error SETUP_ALREADY_COMPLETE
         ''Initial project bootstrap is already complete. Use the authenticated console for ongoing administration.'' 409)
     | Some project \<Rightarrow> ret (project, kd_key key)))))"


section \<open>Administration\<close>

record CreatedKey =
  ck_id :: uuid
  ck_prefix :: string
  ck_label :: string
  ck_scopes :: "ApiKeyScope list"
  ck_expiresAt :: "timestamp option"
  ck_apiKey :: string

definition service_createApiKey ::
    "'w access_env \<Rightarrow> ProjectRecord \<Rightarrow> string \<Rightarrow> ApiKeyScope list \<Rightarrow> int option \<Rightarrow> ('w, CreatedKey) work" where
  "service_createApiKey a project label scopes expiresInDays =
     andThen (generateApiKey a) (\<lambda>key.
     andThen (now_ms (ac_env a)) (\<lambda>now'.
     let expiresAt = map_option (\<lambda>days. now' + days * 86400000) expiresInDays in
     andThen (on_db (ac_env a) (createApiKey (p_id project) (kd_id key) (kd_prefix key) (kd_hash key) label scopes expiresAt)) (\<lambda>_.
     ret \<lparr>ck_id = kd_id key, ck_prefix = kd_prefix key, ck_label = label, ck_scopes = scopes, ck_expiresAt = expiresAt,
          ck_apiKey = kd_key key\<rparr>)))"

definition service_listApiKeys :: "'w access_env \<Rightarrow> ProjectRecord \<Rightarrow> ('w, ApiKeyView list) work" where
  "service_listApiKeys a project = db_read (ac_env a) (listApiKeys (p_id project))"

definition service_revokeApiKey :: "'w access_env \<Rightarrow> ProjectRecord \<Rightarrow> uuid \<Rightarrow> ('w, unit) work" where
  "service_revokeApiKey a project keyId =
     andThen (on_rows a (revokeApiKey (p_id project) keyId)) (\<lambda>result. case result of
       RV_NOT_FOUND \<Rightarrow> throw (api_error API_KEY_NOT_FOUND ''API key not found'' 404)
     | RV_LAST_ACTIVE \<Rightarrow> throw (api_error TRANSITION_INVALID ''Create a replacement API key before revoking the last active key'' 409)
     | RV_LAST_ADMIN \<Rightarrow> throw (api_error TRANSITION_INVALID ''Create another active admin API key before revoking the last admin key'' 409)
     | RV_REVOKED \<Rightarrow> ret ())"

definition service_encryptionKey :: "'w access_env \<Rightarrow> thrown + string" where
  "service_encryptionKey a = (case ac_encryptionKey a of
     Some k \<Rightarrow> if length k < 32 then Inl (api_error INTERNAL_ERROR ''CELLFLOW_ENCRYPTION_KEY is not configured'' 500) else Inr k
   | None \<Rightarrow> Inl (api_error INTERNAL_ERROR ''CELLFLOW_ENCRYPTION_KEY is not configured'' 500))"

record CreatedWebhook =
  cw_id :: uuid
  cw_url :: string
  cw_signingSecret :: string

definition service_createWebhook :: "'w access_env \<Rightarrow> ProjectRecord \<Rightarrow> string \<Rightarrow> ('w, CreatedWebhook) work" where
  "service_createWebhook a project rawUrl =
     andThen (checked_url a rawUrl) (\<lambda>u.
     andThen (draw (ac_random a)) (\<lambda>random.
     let signingSecret = ''whsec_'' @ random in
     andThen (lift_sum (service_encryptionKey a)) (\<lambda>master.
     andThen (draw (ac_iv a)) (\<lambda>iv.
     andThen (lift_sum (encryptSecret (ac_crypto a) iv signingSecret master)) (\<lambda>encrypted.
     andThen (on_rows a (createWebhookEndpoint (p_id project) (u_href u) encrypted)) (\<lambda>w.
     ret \<lparr>cw_id = w_id w, cw_url = w_url w, cw_signingSecret = signingSecret\<rparr>))))))"

record WebhookView =
  wv_id :: uuid
  wv_url :: string
  wv_secretVersion :: nat
  wv_enabled :: bool
  wv_deliveredCount :: int
  wv_failedCount :: int
  wv_pendingCount :: int
  wv_lastDeliveryAt :: "timestamp option"

definition webhook_view :: "EndpointStats \<Rightarrow> WebhookView" where
  "webhook_view e = (let w = es_endpoint e in
     \<lparr>wv_id = w_id w, wv_url = w_url w, wv_secretVersion = w_secretVersion w, wv_enabled = w_enabled w,
      wv_deliveredCount = es_deliveredCount e, wv_failedCount = es_failedCount e, wv_pendingCount = es_pendingCount e,
      wv_lastDeliveryAt = es_lastDeliveryAt e\<rparr>)"

definition service_listWebhooks :: "'w access_env \<Rightarrow> ProjectRecord \<Rightarrow> ('w, WebhookView list) work" where
  "service_listWebhooks a project = db_read (ac_env a) (\<lambda>s. map webhook_view (listWebhookEndpoints (p_id project) s))"

definition service_retryWebhookFailures :: "'w access_env \<Rightarrow> ProjectRecord \<Rightarrow> uuid option \<Rightarrow> ('w, nat) work" where
  "service_retryWebhookFailures a project endpointId =
     andThen (case endpointId of None \<Rightarrow> ret () | Some w \<Rightarrow>
       andThen (db_read (ac_env a) (getWebhookEndpoint (p_id project) w)) (\<lambda>found.
         if found = None then throw (api_error WEBHOOK_NOT_FOUND ''Webhook endpoint not found'' 404) else ret ())) (\<lambda>_.
     on_rows a (retryFailedWebhookDeliveries (p_id project) endpointId))"

definition service_disableWebhook :: "'w access_env \<Rightarrow> ProjectRecord \<Rightarrow> uuid \<Rightarrow> ('w, unit) work" where
  "service_disableWebhook a project endpointId =
     andThen (on_rows a (disableWebhookEndpoint (p_id project) endpointId)) (\<lambda>disabled.
     if \<not> disabled then throw (api_error WEBHOOK_NOT_FOUND ''Active webhook endpoint not found'' 404) else ret ())"

definition service_projectMetrics :: "'w access_env \<Rightarrow> ProjectRecord \<Rightarrow> ('w, ProjectMetrics) work" where
  "service_projectMetrics a project = db_read (ac_env a) (getProjectMetrics (p_id project))"

definition service_operationalHealth :: "'w access_env \<Rightarrow> ProjectRecord \<Rightarrow> ('w, OperationalHealthRecord) work" where
  "service_operationalHealth a project = db_read (ac_env a)
     (getOperationalHealth (p_id project) (case ac_staleMinutes a of None \<Rightarrow> 10 | Some n \<Rightarrow> n))"

end
