(* ===== verification/ServiceReports.thy ===== *)
theory ServiceReports
  imports ServiceAccess
begin

text \<open>
  Models the lists and reports of apps/api/src/service.ts: pages of intents with their opaque
  cursor, and the evidence of a project.
\<close>

section \<open>Cursors\<close>

text \<open>
  What the conversion uses of its platform, beside base64url and UTF-8 (theory WebhookCrypto):
  \<open>JSON.parse\<close>, \<open>Date.parse\<close>, and the text of an identifier in both directions.
\<close>

record cursor_lib =
  cl_parse :: "string \<Rightarrow> json option"
  cl_dateParse :: "string \<Rightarrow> timestamp option"
  cl_uuidText :: "uuid \<Rightarrow> string"
  cl_uuid :: "string \<Rightarrow> uuid"

definition uuid_group :: "string \<Rightarrow> bool" where
  "uuid_group s \<longleftrightarrow> list_all is_hex_any s"

text \<open>The pattern of a version 1 to 5 identifier, in either case.\<close>

definition is_uuid_text :: "string \<Rightarrow> bool" where
  "is_uuid_text s \<longleftrightarrow> length s = 36
     \<and> list_all (\<lambda>i. if i \<in> {8, 13, 18, 23} then s ! i = CHR ''-'' else is_hex_any (s ! i)) [0..<36]
     \<and> s ! 14 \<in> set ''12345'' \<and> s ! 19 \<in> set ''89abAB''"

definition invalid_cursor :: "string \<Rightarrow> thrown" where
  "invalid_cursor m = api_error INVALID_CURSOR m 400"

definition cursor_fields :: "cursor_lib \<Rightarrow> json \<Rightarrow> IntentListCursor option" where
  "cursor_fields lib parsed =
    (case parsed of
       JNull \<Rightarrow> None
     | _ \<Rightarrow>
       (case (json_string (js_field (asRecord parsed) ''createdAt''), json_string (js_field (asRecord parsed) ''id'')) of
          (Some createdAt, Some i) \<Rightarrow>
            (case cl_dateParse lib createdAt of
               None \<Rightarrow> None
             | Some t \<Rightarrow> if is_uuid_text i then Some \<lparr>cu_createdAt = t, cu_id = cl_uuid lib i\<rparr> else None)
        | _ \<Rightarrow> None))"

definition decodeIntentCursor :: "crypto_lib \<Rightarrow> cursor_lib \<Rightarrow> string option \<Rightarrow> thrown + IntentListCursor option" where
  "decodeIntentCursor cy lib value' =
    (case or_null value' of
       None \<Rightarrow> Inr None
     | Some text \<Rightarrow>
         if length text > 512 then Inl (invalid_cursor ''Cursor is too long'')
         else case Option.bind (cl_parse lib (cy_text cy (cy_unb64 cy text))) (cursor_fields lib) of
           None \<Rightarrow> Inl (invalid_cursor ''Cursor is invalid or expired'')
         | Some c \<Rightarrow> Inr (Some c))"

definition cursor_json :: "cursor_lib \<Rightarrow> IntentListCursor \<Rightarrow> json" where
  "cursor_json lib c = JObj [(''createdAt'', JStr (iso (cu_createdAt c))), (''id'', JStr (cl_uuidText lib (cu_id c)))]"

definition encodeIntentCursor :: "crypto_lib \<Rightarrow> cursor_lib \<Rightarrow> IntentListCursor option \<Rightarrow> string option" where
  "encodeIntentCursor cy lib cursor =
     map_option (\<lambda>c. cy_b64 cy (utf8_encode (json_stringify (cursor_json lib c)))) cursor"

record IntentPage =
  ip_intents :: "PublicView list"
  ip_nextCursor :: "string option"

definition service_listIntents ::
    "'w access_env \<Rightarrow> cursor_lib \<Rightarrow> ProjectRecord \<Rightarrow> int option \<Rightarrow> string option \<Rightarrow> ('w, IntentPage) work" where
  "service_listIntents a lib project limit cursor =
     andThen (lift_sum (decodeIntentCursor (ac_crypto a) lib cursor)) (\<lambda>c.
     andThen (db_read (ac_env a) (listIntentsPage (p_id project) (case limit of None \<Rightarrow> 100 | Some n \<Rightarrow> n) c)) (\<lambda>page.
     ret \<lparr>ip_intents = map executionPublicView (pg_items page),
          ip_nextCursor = encodeIntentCursor (ac_crypto a) lib (pg_nextCursor page)\<rparr>))"


section \<open>Project evidence\<close>

definition metrics_json :: "ProjectMetrics \<Rightarrow> json" where
  "metrics_json m = JObj [(''total'', JNum (pm_total m)), (''active'', JNum (pm_active m)),
     (''confirmed'', JNum (pm_confirmed m)), (''attention'', JNum (pm_attention m))]"

definition operations_json :: "OperationalHealthRecord \<Rightarrow> json" where
  "operations_json o' = JObj
    [(''dueReconciliations'', JNum (oh_dueReconciliations o')), (''leasedReconciliations'', JNum (oh_leasedReconciliations o')),
     (''staleActiveIntents'', JNum (oh_staleActiveIntents o')),
     (''oldestActiveAgeSeconds'', opt_map_json JNum (oh_oldestActiveAgeSeconds o')),
     (''pendingWebhooks'', JNum (oh_pendingWebhooks o')), (''failedWebhooks'', JNum (oh_failedWebhooks o')),
     (''activeApiKeys'', JNum (oh_activeApiKeys o')), (''expiringApiKeys7d'', JNum (oh_expiringApiKeys7d o')),
     (''lastEventAt'', opt_map_json iso_json (oh_lastEventAt o'))]"

definition endpoint_json :: "WebhookView \<Rightarrow> json" where
  "endpoint_json w = JObj
    [(''id'', uuid_json (wv_id w)), (''enabled'', JBool (wv_enabled w)), (''deliveredCount'', JNum (wv_deliveredCount w)),
     (''failedCount'', JNum (wv_failedCount w)), (''pendingCount'', JNum (wv_pendingCount w)),
     (''lastDeliveryAt'', opt_map_json iso_json (wv_lastDeliveryAt w))]"

text \<open>The document without \<open>generatedAt\<close>, entry by entry.\<close>

definition project_content ::
    "'w access_env \<Rightarrow> ProjectRecord \<Rightarrow> ProjectMetrics \<Rightarrow> OperationalHealthRecord \<Rightarrow> WebhookView list \<Rightarrow> (string \<times> json) list" where
  "project_content a project metrics operations webhooks =
    [(''project'', JObj [(''id'', uuid_json (p_id project)), (''name'', JStr (p_name project)),
       (''network'', JStr (network_name (p_network project))), (''confirmationPolicy'', policy_json (p_confirmationPolicy project)),
       (''rpcGenesisHash'', opt_json (p_rpcGenesisHash project))]),
     (''release'', JObj [(''version'', JStr ''0.3.0''), (''commitSha'', opt_json (ac_commitSha a)),
       (''environment'', opt_json (ac_environment a))]),
     (''metrics'', metrics_json metrics), (''operations'', operations_json operations),
     (''integrations'', JObj [(''webhookEndpoints'', JArr (map endpoint_json webhooks)),
       (''apiKeys'', JObj [(''active'', JNum (oh_activeApiKeys operations)),
          (''expiringWithin7Days'', JNum (oh_expiringApiKeys7d operations))])])]"

definition schema_entry :: "string \<times> json" where
  "schema_entry = (''schemaVersion'', JStr ''cellflow-project-evidence-v1'')"

record ProjectEvidence =
  pe_document :: json
  pe_snapshotSha256 :: string
  pe_contentSha256 :: string
  pe_export :: "(uuid \<times> timestamp) option"

definition service_projectEvidence ::
    "'w access_env \<Rightarrow> (string \<Rightarrow> string \<Rightarrow> bool) \<Rightarrow> ProjectRecord \<Rightarrow> bool \<Rightarrow> ('w, ProjectEvidence) work" where
  "service_projectEvidence a le project persist =
     andThen (service_projectMetrics a project) (\<lambda>metrics.
     andThen (service_operationalHealth a project) (\<lambda>operations.
     andThen (service_listWebhooks a project) (\<lambda>webhooks.
     andThen (now_ms (ac_env a)) (\<lambda>now'.
     let content = project_content a project metrics operations webhooks;
         document = JObj (schema_entry # (''generatedAt'', iso_json now') # content);
         hash = (\<lambda>j. sha256_text (rn_sha256 (ac_env a)) (stable le j));
         snapshotSha256 = hash document; contentSha256 = hash (JObj (schema_entry # content)) in
     if \<not> persist then
       ret \<lparr>pe_document = document, pe_snapshotSha256 = snapshotSha256, pe_contentSha256 = contentSha256, pe_export = None\<rparr>
     else
       andThen (on_rows a (recordProjectEvidenceExport (rn_jsonb (ac_env a)) (p_id project) snapshotSha256
           (JObj (schema_entry # (''generatedAt'', iso_json now') # content @ [(''contentSha256'', JStr contentSha256)])))) (\<lambda>record'.
         ret \<lparr>pe_document = document, pe_snapshotSha256 = snapshotSha256, pe_contentSha256 = contentSha256,
              pe_export = Some record'\<rparr>)))))"


section \<open>A cursor survives its transport\<close>

text \<open>The documented behaviour of the platform's conversions that the cursor relies on.\<close>

definition cursor_laws :: "crypto_lib \<Rightarrow> cursor_lib \<Rightarrow> bool" where
  "cursor_laws cy lib \<longleftrightarrow>
     (\<forall>bs. list_all (\<lambda>n. n < 256) bs \<longrightarrow> cy_unb64 cy (cy_b64 cy bs) = bs \<and> length (cy_b64 cy bs) \<le> 2 * length bs
        \<and> (cy_b64 cy bs = [] \<longleftrightarrow> bs = []))
     \<and> (\<forall>s. cy_text cy (utf8_encode s) = s)
     \<and> (\<forall>a b. cl_parse lib (json_stringify (JObj [(''createdAt'', JStr a), (''id'', JStr b)]))
          = Some (JObj [(''createdAt'', JStr a), (''id'', JStr b)]))
     \<and> (\<forall>t. in_date_range t \<longrightarrow> cl_dateParse lib (iso t) = Some t)"

definition uuid_known :: "cursor_lib \<Rightarrow> uuid \<Rightarrow> bool" where
  "uuid_known lib i \<longleftrightarrow> is_uuid_text (cl_uuidText lib i) \<and> cl_uuid lib (cl_uuidText lib i) = i"

text \<open>Characters that JSON and UTF-8 leave as they are.\<close>

definition plain_char :: "char \<Rightarrow> bool" where
  "plain_char c \<longleftrightarrow> 32 \<le> code_unit c \<and> code_unit c < 128 \<and> c \<noteq> CHR 0x22 \<and> c \<noteq> CHR 0x5C"

lemma plain_escape: "plain_char c \<Longrightarrow> js_escape c = [c]"
  by (auto simp: plain_char_def js_escape_def)

lemma plain_quote: "list_all plain_char s \<Longrightarrow> js_quote s = CHR 0x22 # s @ [CHR 0x22]"
  by (induction s) (simp_all add: js_quote_def plain_escape)

lemma ascii_utf8: "list_all (\<lambda>c. code_unit c < 128) s \<Longrightarrow> length (utf8_encode s) = length s"
  by (induction s) (simp_all add: utf8_encode_def)

lemma digit_plain: "is_digit c \<Longrightarrow> plain_char c" "is_hex_any c \<Longrightarrow> plain_char c" "plain_char CHR ''-''"
  by (auto simp: plain_char_def is_digit_def is_hex_any_def is_hex_lower_def)

lemma fixed_digits: "list_all is_digit (fixed w n)"
proof (induction w arbitrary: n)
  case (Suc w)
  have "n mod 10 < 10" by simp
  then show ?case using Suc by (simp add: digit_char_def is_digit_def)
qed simp

lemma iso_plain: "list_all plain_char (iso t)" "length (iso t) = 24"
proof -
  have f: "list_all plain_char (fixed w n)" for w n
    using fixed_digits [of w n] by (auto simp: list_all_iff intro: digit_plain)
  have c: "plain_char CHR ''T''" "plain_char CHR '':''" "plain_char CHR ''.''" "plain_char CHR ''Z''"
    by (simp_all add: plain_char_def)
  show "list_all plain_char (iso t)" "length (iso t) = 24"
    by (simp_all add: iso_def Let_def f c digit_plain(3))
qed

lemma uuid_plain:
  assumes "is_uuid_text s"
  shows "list_all plain_char s"
  unfolding list_all_length
proof (intro allI impI)
  fix i assume "i < length s"
  then have "i \<in> set [0..<36]" using assms by (simp add: is_uuid_text_def)
  then have "if i \<in> {8, 13, 18, 23} then s ! i = CHR ''-'' else is_hex_any (s ! i)"
    using assms unfolding is_uuid_text_def list_all_iff by blast
  then show "plain_char (s ! i)" by (simp add: digit_plain(2,3) split: if_splits)
qed

lemma cursor_text:
  assumes "uuid_known lib (cu_id c)"
  shows "length (utf8_encode (json_stringify (cursor_json lib c))) = 84"
proof -
  have u: "is_uuid_text (cl_uuidText lib (cu_id c))" using assms by (simp add: uuid_known_def)
  have l: "length (cl_uuidText lib (cu_id c)) = 36" using u by (simp add: is_uuid_text_def)
  have k: "list_all plain_char ''createdAt''" "list_all plain_char ''id''" by (simp_all add: plain_char_def)
  have t: "json_stringify (cursor_json lib c) = CHR ''{'' # (CHR 0x22 # ''createdAt'' @ [CHR 0x22]) @ CHR '':''
      # (CHR 0x22 # iso (cu_createdAt c) @ [CHR 0x22]) @ CHR '','' # (CHR 0x22 # ''id'' @ [CHR 0x22]) @ CHR '':''
      # (CHR 0x22 # cl_uuidText lib (cu_id c) @ [CHR 0x22]) @ ''}''"
    by (simp add: cursor_json_def plain_quote [OF iso_plain(1)] plain_quote [OF uuid_plain [OF u]]
      plain_quote [OF k(1)] plain_quote [OF k(2)] del: append.simps)
  have a: "list_all (\<lambda>x. code_unit x < 128) (iso (cu_createdAt c))" "list_all (\<lambda>x. code_unit x < 128) (cl_uuidText lib (cu_id c))"
    using iso_plain(1) [of "cu_createdAt c"] uuid_plain [OF u] by (auto simp: list_all_iff plain_char_def)
  have "list_all (\<lambda>x. code_unit x < 128) (json_stringify (cursor_json lib c))"
    unfolding t by (simp add: a)
  then show ?thesis unfolding ascii_utf8 t by (simp add: ascii_utf8 t iso_plain(2) l)
qed

text \<open>
  The cursor of a page, given back by the client, is read as the position it was
  made from: its text fits the length limit and passes every check.
\<close>

theorem cursor_roundtrip:
  assumes "cursor_laws cy lib" and "in_date_range (cu_createdAt c)" and "uuid_known lib (cu_id c)"
  shows "decodeIntentCursor cy lib (encodeIntentCursor cy lib (Some c)) = Inr (Some c)"
proof -
  define bs where "bs = utf8_encode (json_stringify (cursor_json lib c))"
  have b: "list_all (\<lambda>n. n < 256) bs" "length bs = 84"
    using cursor_text [OF assms(3)] by (simp_all add: bs_def utf8_bytes)
  then have e: "cy_unb64 cy (cy_b64 cy bs) = bs" "length (cy_b64 cy bs) \<le> 168" "cy_b64 cy bs \<noteq> []"
    using assms(1) by (auto simp: cursor_laws_def)
  have d: "cl_parse lib (cy_text cy bs) = Some (cursor_json lib c)"
    using assms(1) by (simp add: bs_def cursor_laws_def cursor_json_def)
  have f: "cursor_fields lib (cursor_json lib c) = Some c"
    using assms by (simp add: cursor_fields_def cursor_json_def cursor_laws_def uuid_known_def js_field_def asRecord_def)
  show ?thesis
    using e d f by (simp add: decodeIntentCursor_def encodeIntentCursor_def bs_def [symmetric] or_null_def truthy_def split: list.splits)
qed

text \<open>Platform conversions for the example: identifiers below ten, and a reader of the one shape of text.\<close>

definition sample_cursor_lib :: cursor_lib where
  "sample_cursor_lib = \<lparr>cl_parse = (\<lambda>t. case read_quoted (drop 14 t) of (a, r) \<Rightarrow> case read_quoted (drop 7 r) of (b, q) \<Rightarrow>
       Some (JObj [(''createdAt'', JStr a), (''id'', JStr b)])),
     cl_dateParse = date_parse,
     cl_uuidText = (\<lambda>i. ''00000000-0000-4000-8000-00000000000'' @ [digit_char i]),
     cl_uuid = (\<lambda>s. digit_value (s ! 35))\<rparr>"

lemma sample_cursor_laws: "cursor_laws sample_crypto sample_cursor_lib"
proof -
  have "cl_parse sample_cursor_lib (json_stringify (JObj [(''createdAt'', JStr a), (''id'', JStr b)]))
      = Some (JObj [(''createdAt'', JStr a), (''id'', JStr b)])" for a b
    using read_quoted_concat [of a "'','' @ js_quote ''id'' @ '':'' @ js_quote b @ ''}''"] read_quoted_concat [of b "''}''"]
    by (simp add: sample_cursor_lib_def js_quote_def js_escape_def)
  moreover have "hex_of_bytes bs = [] \<longleftrightarrow> bs = []" if "list_all (\<lambda>n. n < 256) bs" for bs
    using length_hex_of_bytes [OF that] by auto
  moreover have "cl_dateParse sample_cursor_lib = date_parse" by (simp add: sample_cursor_lib_def)
  ultimately show ?thesis
    unfolding cursor_laws_def
    by (simp add: sample_crypto_def bytes_of_hex_of_bytes length_hex_of_bytes utf8_roundtrip iso_roundtrip del: json_stringify.simps)
qed

lemma sample_uuid: "uuid_known sample_cursor_lib 7"
  by code_simp

theorem cursor_roundtrip_witness:
  "decodeIntentCursor sample_crypto sample_cursor_lib
     (encodeIntentCursor sample_crypto sample_cursor_lib (Some \<lparr>cu_createdAt = 1700000000000, cu_id = 7\<rparr>))
   = Inr (Some \<lparr>cu_createdAt = 1700000000000, cu_id = 7\<rparr>)"
  by (rule cursor_roundtrip [OF sample_cursor_laws]) (simp_all add: in_date_range_def sample_uuid)

end
