(* ===== verification/AccessProperties.thy ===== *)
theory AccessProperties
  imports ServiceAccess ServiceExamples
begin

text \<open>
  What the access control of the API guarantees: a request gets a project only through a usable
  key with the scope it needs and within the limit of the key.
\<close>

lemma on_rows_met: "on_rows a f n = (Inr x, n') \<Longrightarrow> f (db_met (ac_env a) n) = (x, ndb n')"
  by (auto simp: on_rows_def on_db_def ndb_def db_met_def Let_def split: prod.splits)

lemma upsert_window_count: "map_of (upsert_window k rows) k = Some ((case map_of rows k of None \<Rightarrow> 0 | Some c \<Rightarrow> c) + 1)"
proof (cases "k \<in> fst ` set rows")
  case True
  then have "map_of (map (\<lambda>(k', c). (k', if k' = k then c + 1 else c)) rows) k
    = Some ((case map_of rows k of None \<Rightarrow> 0 | Some c \<Rightarrow> c) + 1)"
    by (induction rows) auto
  with True show ?thesis by (simp add: upsert_window_def)
next
  case False
  then have "map_of rows k = None" by (simp add: map_of_eq_None_iff)
  with False show ?thesis by (simp add: upsert_window_def map_add_def)
qed

lemma consumed_count:
  assumes "consumeRateLimit p bucket limit 60 s = (True, t)"
  shows "request_count (p, bucket, window_start (clock t) 60) t = request_count (p, bucket, window_start (clock t) 60) s + 1
    \<and> request_count (p, bucket, window_start (clock t) 60) t \<le> limit"
  using assms by (auto simp: consumeRateLimit_def Let_def request_count_def upsert_window_count)

lemma auth_found:
  assumes "findAuthByApiKeyHash hash s = (Some (project, k), t)"
  obtains p key where "p \<in> set (projects s)" "key \<in> set (api_keys s)" "project = mapProject p" "k_projectId key = p_id p" "k_hash key = hash"
    "key_active (clock s) key" "au_id k = k_id key" "au_scopes k = k_scopes key"
  using assms unfolding findAuthByApiKeyHash_def
  by (auto split: option.splits prod.splits dest!: sql_first_Some)

text \<open>The key of a header, and what makes it usable in a state of the database.\<close>

definition bearer_key :: "string \<Rightarrow> string" where
  "bearer_key header = js_trim (drop 7 header)"

definition usable_key :: "'w access_env \<Rightarrow> string \<Rightarrow> ApiKeyScope \<Rightarrow> ProjectRecord \<Rightarrow> ApiKeyRow \<Rightarrow> db \<Rightarrow> bool" where
  "usable_key a presented scope project key s \<longleftrightarrow> key \<in> set (api_keys s) \<and> k_hash key = hashApiKey a presented
     \<and> key_active (clock s) key \<and> permitted (k_scopes key) scope
     \<and> list_ex (\<lambda>p. project = mapProject p \<and> k_projectId key = p_id p) (projects s)"

lemma authenticated:
  assumes "authenticateBearer a authorization scope n = (Inr project, n')"
  shows "\<exists>header key. authorization = Some header \<and> startsWith header ''Bearer '' \<and> 20 \<le> length (bearer_key header)
    \<and> usable_key a (bearer_key header) scope project key (db_met (ac_env a) n)
    \<and> (let window = (p_id project, rate_bucket (k_id key), window_start (clock (ndb n')) 60) in
        request_count window (ndb n') \<le> rate_limit a
        \<and> request_count window (ndb n')
          = request_count window (db_met (ac_env a) (snd (on_rows a (findAuthByApiKeyHash (hashApiKey a (bearer_key header))) n))) + 1)"
proof -
  from assms obtain header where h: "authorization = Some header" "startsWith header ''Bearer ''" "20 \<le> length (bearer_key header)"
    and r: "andThen (on_rows a (findAuthByApiKeyHash (hashApiKey a (bearer_key header)))) (\<lambda>auth. case auth of
           None \<Rightarrow> throw (api_error AUTH_INVALID ''Invalid, revoked, or expired API key'' 401)
         | Some (project, k) \<Rightarrow>
             if \<not> permitted (au_scopes k) scope then throw (ApiError (scope_error scope (au_scopes k)))
             else andThen (on_rows a (consumeRateLimit (p_id project) (rate_bucket (au_id k)) (rate_limit a) 60)) (\<lambda>allowed.
               if \<not> allowed then throw (api_error RATE_LIMITED ''API key rate limit exceeded'' 429) else ret project)) n
       = (Inr project, n')"
    by (auto simp: authenticateBearer_def bearer_key_def throw_def Let_def split: option.splits if_splits)
  from r obtain k m where f: "on_rows a (findAuthByApiKeyHash (hashApiKey a (bearer_key header))) n = (Inr (Some (project, k)), m)"
    and perm: "permitted (au_scopes k) scope"
    and c: "on_rows a (consumeRateLimit (p_id project) (rate_bucket (au_id k)) (rate_limit a) 60) m = (Inr True, n')"
    by (auto elim!: andThen_InrE simp: throw_def ret_def split: option.splits if_splits)
  let ?d = "db_met (ac_env a) n" and ?e = "db_met (ac_env a) m"
  have d: "findAuthByApiKeyHash (hashApiKey a (bearer_key header)) ?d = (Some (project, k), ndb m)" by (rule on_rows_met [OF f])
  from auth_found [OF d] obtain p key where k: "p \<in> set (projects ?d)" "key \<in> set (api_keys ?d)" "project = mapProject p"
    "k_projectId key = p_id p" "k_hash key = hashApiKey a (bearer_key header)" "key_active (clock ?d) key"
    "au_id k = k_id key" "au_scopes k = k_scopes key" .
  have key: "usable_key a (bearer_key header) scope project key ?d" using k perm by (auto simp: usable_key_def list_ex_iff)
  have e: "consumeRateLimit (p_id project) (rate_bucket (k_id key)) (rate_limit a) 60 ?e = (True, ndb n')"
    using on_rows_met [OF c] k(7) by simp
  with h key consumed_count [OF e] show ?thesis unfolding Let_def by (metis f snd_conv)
qed

text \<open>
  Property C35: a request is let into a project only with a bearer key of at least 20 characters
  whose hash is that of a key of the project in the database as the call looks it up, where that key
  is neither revoked nor expired and has the scope asked for or the administrator's; and only after
  the request was counted against that same key, within its limit for the current minute.
\<close>

theorem authentication_sound:
  assumes "authenticateBearer a authorization scope n = (Inr project, n')"
  shows "\<exists>header key. authorization = Some header \<and> startsWith header ''Bearer '' \<and> 20 \<le> length (bearer_key header)
    \<and> usable_key a (bearer_key header) scope project key (db_met (ac_env a) n)
    \<and> (let window = (p_id project, rate_bucket (k_id key), window_start (clock (ndb n')) 60) in
        request_count window (ndb n') \<le> rate_limit a
        \<and> request_count window (ndb n')
          = request_count window (db_met (ac_env a) (snd (on_rows a (findAuthByApiKeyHash (hashApiKey a (bearer_key header))) n))) + 1)"
  by (rule authenticated [OF assms])

text \<open>A project with one key, and a request that presents it.\<close>

definition sample_access :: "unit access_env" where
  "sample_access = \<lparr>ac_env = sample_env, ac_random = (\<lambda>h. (''0123456789abcdef0123456789abcdef'', h)), ac_iv = (\<lambda>h. ([1], h)),
     ac_ips = sample_ips, ac_crypto = sample_crypto, ac_lookup = (\<lambda>name. ret []), ac_rateLimit = None, ac_bootstrapToken = None,
     ac_encryptionKey = None, ac_expectedGenesis = None, ac_confirmationPolicy = None, ac_production = True,
     ac_staleMinutes = None, ac_commitSha = None, ac_environment = None\<rparr>"

definition keyed_net :: "unit host net" where
  "keyed_net = \<lparr>nt_failures = (\<lambda>_. None), nt_world = \<lparr>h_db = empty_db\<lparr>projects := [sample_project],
     api_keys := [(sample_key 1 [Scope_write])\<lparr>k_hash := hashApiKey sample_access ''cf_live_0123456789abcdef''\<rparr>]\<rparr>, h_world = ()\<rparr>\<rparr>"

lemma sample_access_sel: "rn_others (ac_env sample_access) = id"
  by (simp add: sample_access_def sample_env_def)

lemma on_rows_alone:
  "rn_others (ac_env a) = id \<Longrightarrow> on_rows a f n = (Inr (fst (f (ndb n))), n\<lparr>nt_world := (nt_world n)\<lparr>h_db := snd (f (ndb n))\<rparr>\<rparr>)"
  by (simp add: on_rows_def on_db_def ndb_def Let_def split_beta)

lemma ndb_alone: "ndb (n\<lparr>nt_world := (nt_world n)\<lparr>h_db := d\<rparr>\<rparr>) = d"
  by (simp add: ndb_def)

lemma sample_header:
  "startsWith ''Bearer cf_live_0123456789abcdef'' ''Bearer ''" "js_trim ''cf_live_0123456789abcdef'' = ''cf_live_0123456789abcdef''"
  by code_simp+

lemma sample_found:
  "\<exists>t. findAuthByApiKeyHash (hashApiKey sample_access ''cf_live_0123456789abcdef'') (ndb keyed_net)
     = (Some (sample_project, \<lparr>au_id = 1, au_projectId = 0, au_scopes = [Scope_write], au_expiresAt = None\<rparr>), t)
     \<and> rate_limit_windows t = []"
  by (simp add: findAuthByApiKeyHash_def keyed_net_def ndb_def sample_key_def empty_db_def sample_project_def key_active_def
      mapProject_def)

lemma authentication_runs: "\<exists>p t. authenticateBearer sample_access (Some ''Bearer cf_live_0123456789abcdef'') Scope_write keyed_net = (Inr p, t)"
proof -
  obtain t where f: "findAuthByApiKeyHash (hashApiKey sample_access ''cf_live_0123456789abcdef'') (ndb keyed_net)
     = (Some (sample_project, \<lparr>au_id = 1, au_projectId = 0, au_scopes = [Scope_write], au_expiresAt = None\<rparr>), t)"
    and w: "rate_limit_windows t = []" using sample_found by blast
  have "fst (consumeRateLimit (p_id sample_project) (rate_bucket 1) (rate_limit sample_access) 60 t)"
    by (simp add: consumeRateLimit_def Let_def request_count_def upsert_window_def w rate_limit_def sample_access_def)
  then show ?thesis
    by (simp add: authenticateBearer_def sample_header Let_def andThen_def on_rows_alone f permitted_def sample_access_sel ndb_alone)
qed

theorem authentication_sound_witness:
  "\<exists>header key p t. authenticateBearer sample_access (Some header) Scope_write keyed_net = (Inr p, t)
     \<and> usable_key sample_access (bearer_key header) Scope_write p key (ndb keyed_net)
     \<and> request_count (p_id p, rate_bucket (k_id key), window_start (clock (ndb t)) 60) (ndb t) \<le> 240"
proof -
  obtain p t where r: "authenticateBearer sample_access (Some ''Bearer cf_live_0123456789abcdef'') Scope_write keyed_net = (Inr p, t)"
    using authentication_runs by blast
  have "rate_limit sample_access = 240" by (simp add: rate_limit_def sample_access_def)
  moreover have "db_met (ac_env sample_access) keyed_net = ndb keyed_net" by (simp add: db_met_def ndb_def sample_access_sel)
  ultimately show ?thesis using authentication_sound [OF r] r by (auto simp: Let_def)
qed

end
