(* ===== verification/Http.thy ===== *)
theory Http
  imports ServiceReports Delivery
begin

text \<open>
  Models apps/api/src/http.ts, apps/web/lib/server.ts and apps/web/lib/workflow.ts: error responses,
  request bodies, the project of a request, the first project of a deployment and the start of the
  durable reconciliation run of an intent.
\<close>

section \<open>Requests and responses\<close>

text \<open>
  What the handlers read of a request. The declared length is what \<open>Number\<close> makes of the header,
  0 without one and \<open>None\<close> when it is no number; the body is its text or the error of reading it.
\<close>

record Request =
  rq_authorization :: "string option"
  rq_requestId :: "string option"
  rq_contentLength :: "int option"
  rq_text :: "thrown + string"
  rq_query :: "(string \<times> string) list"

text \<open>A response; without a body for \<open>new Response(null)\<close>.\<close>

record Response =
  rs_status :: int
  rs_headers :: "(string \<times> string) list"
  rs_body :: "json option"

definition json_response :: "int \<Rightarrow> json \<Rightarrow> Response" where
  "json_response status body = \<lparr>rs_status = status, rs_headers = [], rs_body = Some body\<rparr>"

definition empty_response :: "int \<Rightarrow> Response" where
  "empty_response status = \<lparr>rs_status = status, rs_headers = [], rs_body = None\<rparr>"

text \<open>What a handler throws: an error of the service or one of the validation library, with its issues.\<close>

datatype route_error = Thrown thrown | ZodError json

type_synonym ('w, 'a) routed = "('w host net, route_error, 'a) action"

text \<open>
  The environment of the web process: that of the service and of the webhook worker, the settings,
  and the parts of its platform: the identifiers of requests, \<open>JSON.parse\<close> (in the cursor library),
  the validation library's issue lists and formats, the keyed hash of the first key, the migrations
  and the workflow engine.
\<close>

record 'w web_env =
  wb_access :: "'w access_env"
  wb_hook :: "'w hook_env"
  wb_cursor :: cursor_lib
  wb_collation :: "string \<Rightarrow> string \<Rightarrow> bool"
  wb_newRequestId :: "'w host net \<Rightarrow> string"
  wb_maxJsonBytes :: "int option"
  wb_issues :: "string \<Rightarrow> json \<Rightarrow> json"
  wb_isUrl :: "string \<Rightarrow> bool"
  wb_isUuid :: "string \<Rightarrow> bool"
  wb_dbUuid :: "string \<Rightarrow> uuid option"
  wb_number :: "string \<Rightarrow> int option"
  wb_start :: "uuid \<Rightarrow> string \<Rightarrow> ('w, uuid) work"
  wb_migrate :: "('w, json \<times> json) work"
  wb_cronSecret :: "string option"
  wb_reconcileLimit :: "int option"
  wb_webhookLimit :: "int option"
  wb_autoBootstrap :: bool
  wb_initialAdminKey :: "string option"
  wb_keySuffix :: "string \<Rightarrow> string"
  wb_projectName :: "string option"
  wb_network :: "string option"

abbreviation wb_env :: "'w web_env \<Rightarrow> 'w reconcile_env" where
  "wb_env wb \<equiv> ac_env (wb_access wb)"

definition routed :: "('w, 'a) work \<Rightarrow> ('w, 'a) routed" where
  "routed m = (\<lambda>n. case m n of (r, t) \<Rightarrow> (map_sum Thrown id r, t))"


section \<open>Error responses\<close>

definition error_code_name :: "CellFlowErrorCode \<Rightarrow> string" where
  "error_code_name c = (case c of
     AUTH_INVALID \<Rightarrow> ''AUTH_INVALID'' | AUTH_SCOPE_REQUIRED \<Rightarrow> ''AUTH_SCOPE_REQUIRED'' | API_KEY_NOT_FOUND \<Rightarrow> ''API_KEY_NOT_FOUND''
   | PROJECT_NOT_FOUND \<Rightarrow> ''PROJECT_NOT_FOUND'' | SETUP_ALREADY_COMPLETE \<Rightarrow> ''SETUP_ALREADY_COMPLETE''
   | INTENT_CONFLICT \<Rightarrow> ''INTENT_CONFLICT'' | INTENT_NOT_FOUND \<Rightarrow> ''INTENT_NOT_FOUND'' | INVALID_TX_HASH \<Rightarrow> ''INVALID_TX_HASH''
   | INVALID_SIGNED_TRANSACTION \<Rightarrow> ''INVALID_SIGNED_TRANSACTION'' | INPUTS_NOT_LIVE \<Rightarrow> ''INPUTS_NOT_LIVE''
   | INPUTS_CONTENDED \<Rightarrow> ''INPUTS_CONTENDED'' | INPUT_STATE_UNCERTAIN \<Rightarrow> ''INPUT_STATE_UNCERTAIN''
   | RPC_UNAVAILABLE \<Rightarrow> ''RPC_UNAVAILABLE'' | RPC_RESPONSE_INVALID \<Rightarrow> ''RPC_RESPONSE_INVALID''
   | TRANSITION_INVALID \<Rightarrow> ''TRANSITION_INVALID'' | ASSERTION_FAILED \<Rightarrow> ''ASSERTION_FAILED''
   | WEBHOOK_URL_INVALID \<Rightarrow> ''WEBHOOK_URL_INVALID'' | WEBHOOK_NOT_FOUND \<Rightarrow> ''WEBHOOK_NOT_FOUND'' | RATE_LIMITED \<Rightarrow> ''RATE_LIMITED'' | INVALID_CURSOR \<Rightarrow> ''INVALID_CURSOR''
   | INVALID_JSON \<Rightarrow> ''INVALID_JSON'' | REQUEST_TOO_LARGE \<Rightarrow> ''REQUEST_TOO_LARGE'' | INTERNAL_ERROR \<Rightarrow> ''INTERNAL_ERROR'')"

definition is_request_id :: "string \<Rightarrow> bool" where
  "is_request_id s \<longleftrightarrow> 8 \<le> length s \<and> length s \<le> 128 \<and> list_all is_intent_char s"

definition requestIdFrom :: "'w web_env \<Rightarrow> Request \<Rightarrow> 'w host net \<Rightarrow> string" where
  "requestIdFrom wb rq n =
    (case map_option js_trim (rq_requestId rq) of
       Some supplied \<Rightarrow> if is_request_id supplied then supplied else wb_newRequestId wb n
     | None \<Rightarrow> wb_newRequestId wb n)"

definition responseHeaders :: "string \<Rightarrow> (string \<times> string) list" where
  "responseHeaders requestId = [(''cache-control'', ''no-store, max-age=0''), (''x-request-id'', requestId)]"

definition error_body :: "string \<Rightarrow> route_error \<Rightarrow> int \<times> (string \<times> json) list" where
  "error_body requestId error =
    (case error of
       Thrown (ApiError e) \<Rightarrow> (err_httpStatus e,
         [(''code'', JStr (error_code_name (err_code e))), (''message'', JStr (err_message e)),
          (''details'', nullish_or (err_details e) JNull), (''requestId'', JStr requestId)])
     | ZodError issues \<Rightarrow> (400,
         [(''code'', JStr ''VALIDATION_ERROR''), (''message'', JStr ''Request validation failed''), (''details'', issues),
          (''requestId'', JStr requestId)])
     | _ \<Rightarrow> (500,
         [(''code'', JStr ''INTERNAL_ERROR''), (''message'', JStr ''Internal server error''), (''requestId'', JStr requestId)]))"

text \<open>The log entry it writes to the console is not modelled.\<close>

definition errorResponse :: "'w web_env \<Rightarrow> Request \<Rightarrow> route_error \<Rightarrow> 'w host net \<Rightarrow> Response" where
  "errorResponse wb rq error n =
    (let requestId = requestIdFrom wb rq n in
     case error_body requestId error of (status, body) \<Rightarrow>
       \<lparr>rs_status = status, rs_headers = responseHeaders requestId, rs_body = Some (JObj [(''error'', JObj body)])\<rparr>)"

text \<open>The \<open>try\<close> around every handler.\<close>

definition respond :: "'w web_env \<Rightarrow> Request \<Rightarrow> ('w, Response) routed \<Rightarrow> 'w host net \<Rightarrow> Response \<times> 'w host net" where
  "respond wb rq m n = (case m n of
     (Inr response, t) \<Rightarrow> (response, t)
   | (Inl error, t) \<Rightarrow> (errorResponse wb rq error t, t))"


section \<open>Reading requests\<close>

definition projectFromRequest :: "'w web_env \<Rightarrow> Request \<Rightarrow> ApiKeyScope \<Rightarrow> ('w, ProjectRecord) routed" where
  "projectFromRequest wb rq requiredScope = routed (authenticateBearer (wb_access wb) (rq_authorization rq) requiredScope)"

definition max_json_bytes :: "'w web_env \<Rightarrow> int" where
  "max_json_bytes wb = (case wb_maxJsonBytes wb of Some n \<Rightarrow> min (max n 1024) (2 * 1024 * 1024) | None \<Rightarrow> 262144)"

definition too_large :: "'w web_env \<Rightarrow> thrown" where
  "too_large wb = api_error REQUEST_TOO_LARGE (''JSON request body exceeds '' @ int_string (max_json_bytes wb) @ '' bytes'') 413"

definition readJson :: "'w web_env \<Rightarrow> Request \<Rightarrow> ('w, json) routed" where
  "readJson wb rq =
     andThen (routed (throwIf (case rq_contentLength rq of Some n \<Rightarrow> max_json_bytes wb < n | None \<Rightarrow> False) (too_large wb))) (\<lambda>_.
     andThen (routed (lift_sum (rq_text rq))) (\<lambda>text.
     andThen (routed (throwIf (max_json_bytes wb < int (length (utf8_encode text))) (too_large wb))) (\<lambda>_.
     if js_trim text = [] then ret (JObj [])
     else case cl_parse (wb_cursor wb) text of
       Some j \<Rightarrow> ret j
     | None \<Rightarrow> throw (Thrown (api_error INVALID_JSON ''Request body is not valid JSON'' 400)))))"


section \<open>The first project of a deployment\<close>

definition automaticBootstrapNetwork :: "'w web_env \<Rightarrow> thrown + Network" where
  "automaticBootstrapNetwork wb =
    (case or_null (map_option (\<lambda>s. toLowerCase (js_trim s)) (wb_network wb)) of
       None \<Rightarrow> Inr Testnet
     | Some configured \<Rightarrow>
         if configured = ''testnet'' then Inr Testnet
         else if configured = ''mainnet'' then Inr Mainnet
         else if configured = ''devnet'' then Inr Devnet
         else Inl (api_error INTERNAL_ERROR (''Unsupported CKB_NETWORK for automatic bootstrap: '' @ configured) 500))"

definition automaticBootstrapAdminApiKey :: "'w web_env \<Rightarrow> thrown + string" where
  "automaticBootstrapAdminApiKey wb =
    (case or_null (map_option js_trim (wb_initialAdminKey wb)) of
       Some configured \<Rightarrow> Inr configured
     | None \<Rightarrow>
         (case map_option js_trim (ac_bootstrapToken (wb_access wb)) of
            Some bootstrapToken \<Rightarrow>
              if 24 \<le> length bootstrapToken then Inr (''cf_live_'' @ wb_keySuffix wb bootstrapToken)
              else Inl (api_error INTERNAL_ERROR ''Automatic bootstrap requires CELLFLOW_INITIAL_ADMIN_API_KEY or CELLFLOW_BOOTSTRAP_TOKEN'' 500)
          | None \<Rightarrow> Inl (api_error INTERNAL_ERROR ''Automatic bootstrap requires CELLFLOW_INITIAL_ADMIN_API_KEY or CELLFLOW_BOOTSTRAP_TOKEN'' 500)))"

definition performAutomaticBootstrap :: "'w web_env \<Rightarrow> ('w, unit) work" where
  "performAutomaticBootstrap wb =
    (if \<not> wb_autoBootstrap wb then ret ()
     else andThen (wb_migrate wb) (\<lambda>_.
       andThen (db_read (wb_env wb) hasAnyProject) (\<lambda>any.
       if any then ret ()
       else andThen (lift_sum (automaticBootstrapAdminApiKey wb)) (\<lambda>initialApiKey.
         tryCatch
           (andThen (lift_sum (automaticBootstrapNetwork wb)) (\<lambda>network.
            andThen (service_setupProject (wb_access wb)
              \<lparr>su_name = (case or_null (map_option js_trim (wb_projectName wb)) of Some name \<Rightarrow> name | None \<Rightarrow> ''CellFlow Production''),
               su_network = network, su_rpcUrl = None, su_confirmationPolicy = None, su_initialApiKey = Some initialApiKey\<rparr>) (\<lambda>_.
            ret ())))
           (\<lambda>error. case error of
              ApiError e \<Rightarrow> if err_code e = SETUP_ALREADY_COMPLETE then ret () else throw error
            | _ \<Rightarrow> throw error)))))"


section \<open>Starting the durable run\<close>

definition startReconciliationWorkflow :: "'w web_env \<Rightarrow> uuid \<Rightarrow> string \<Rightarrow> ('w, uuid option) work" where
  "startReconciliationWorkflow wb projectId intentId =
     andThen (new_uuid (wb_access wb)) (\<lambda>claimId.
     andThen (on_rows (wb_access wb) (claimWorkflowStart projectId intentId claimId)) (\<lambda>claimed.
     if claimed \<noteq> Some claimId then ret claimed
     else tryCatch
       (andThen (wb_start wb projectId intentId) (\<lambda>runId.
        andThen (on_rows (wb_access wb) (\<lambda>s. ((), replaceWorkflowClaim projectId intentId claimId runId s))) (\<lambda>_.
        ret (Some runId))))
       (\<lambda>error. andThen (on_rows (wb_access wb) (\<lambda>s. ((), releaseWorkflowClaim projectId intentId claimId s))) (\<lambda>_.
        throw error))))"

text \<open>\<open>claimed ?? "already-active"\<close> as a value of the response.\<close>

definition run_json :: "uuid option \<Rightarrow> json" where
  "run_json run = (case run of Some r \<Rightarrow> uuid_json r | None \<Rightarrow> JStr ''already-active'')"

end
