(* ===== verification/Schemas.thy ===== *)
theory Schemas
  imports Http
begin

text \<open>
  Models apps/api/src/schemas.ts. The combinators of the validation library (zod) are written with
  their documented meaning on JSON values; its formats \<open>url\<close> and \<open>uuid\<close> and its list of issues are
  parameters of the environment. A schema reads a value, \<open>None\<close> for undefined, and yields the
  parsed value or \<open>None\<close> for a failure.
\<close>

section \<open>The combinators the schemas use\<close>

type_synonym 'a schema = "json option \<Rightarrow> 'a option"

definition z_string :: "(string \<Rightarrow> bool) \<Rightarrow> string schema" where
  "z_string ok v = (case v of Some (JStr s) \<Rightarrow> if ok s then Some s else None | _ \<Rightarrow> None)"

definition z_int :: "int \<Rightarrow> int \<Rightarrow> int schema" where
  "z_int lo hi v = (case v of Some (JNum n) \<Rightarrow> if lo \<le> n \<and> n \<le> hi then Some n else None | _ \<Rightarrow> None)"

definition z_bool :: "bool schema" where
  "z_bool v = (case v of Some (JBool b) \<Rightarrow> Some b | _ \<Rightarrow> None)"

definition z_enum :: "(string \<times> 'a) list \<Rightarrow> 'a schema" where
  "z_enum values v = (case v of Some (JStr s) \<Rightarrow> map_of values s | _ \<Rightarrow> None)"

definition z_optional :: "'a schema \<Rightarrow> 'a option schema" where
  "z_optional p v = (case v of None \<Rightarrow> Some None | Some _ \<Rightarrow> map_option Some (p v))"

definition z_default :: "'a \<Rightarrow> 'a schema \<Rightarrow> 'a schema" where
  "z_default d p v = (case v of None \<Rightarrow> Some d | Some _ \<Rightarrow> p v)"

definition z_nullable :: "'a schema \<Rightarrow> 'a option schema" where
  "z_nullable p v = (case v of Some JNull \<Rightarrow> Some None | _ \<Rightarrow> map_option Some (p v))"

definition z_array :: "nat \<Rightarrow> 'a schema \<Rightarrow> 'a list schema" where
  "z_array most p v = (case v of
     Some (JArr xs) \<Rightarrow> if length xs \<le> most then those (map (\<lambda>x. p (Some x)) xs) else None
   | _ \<Rightarrow> None)"

definition z_record :: "(string \<times> json) list schema" where
  "z_record v = (case v of Some (JObj fs) \<Rightarrow> Some fs | _ \<Rightarrow> None)"

text \<open>An object, read entry by entry; unknown entries are dropped.\<close>

definition z_object :: "((string \<Rightarrow> json option) \<Rightarrow> 'a option) \<Rightarrow> 'a schema" where
  "z_object read v = (case v of Some (JObj fs) \<Rightarrow> read (js_field fs) | _ \<Rightarrow> None)"

definition sized :: "nat \<Rightarrow> nat \<Rightarrow> string \<Rightarrow> bool" where
  "sized least most s \<longleftrightarrow> least \<le> length s \<and> length s \<le> most"

definition z_trimmed :: "nat \<Rightarrow> nat \<Rightarrow> string schema" where
  "z_trimmed least most v = (case z_string (\<lambda>_. True) v of
     Some s \<Rightarrow> if sized least most (js_trim s) then Some (js_trim s) else None | None \<Rightarrow> None)"

text \<open>\<open>schema.parse(value)\<close>.\<close>

definition parse_with :: "'w web_env \<Rightarrow> string \<Rightarrow> 'a schema \<Rightarrow> json \<Rightarrow> ('w, 'a) routed" where
  "parse_with wb name schema v = (case schema (Some v) of Some x \<Rightarrow> ret x | None \<Rightarrow> throw (ZodError (wb_issues wb name v)))"


section \<open>Expected Cells and intents\<close>

definition is_hex :: "string \<Rightarrow> bool" where
  "is_hex s \<longleftrightarrow> startsWith s ''0x'' \<and> list_all is_hex_any (drop 2 s)"

definition is_hash :: "string \<Rightarrow> bool" where
  "is_hash s \<longleftrightarrow> is_hex s \<and> length s = 66"

definition hashTypes :: "(string \<times> string) list" where
  "hashTypes = map (\<lambda>t. (t, t)) [''data'', ''type'', ''data1'', ''data2'']"

definition scriptAssertionSchema :: "ScriptAssertion schema" where
  "scriptAssertionSchema = z_object (\<lambda>f.
     Option.bind (z_optional (z_string is_hash) (f ''codeHash'')) (\<lambda>codeHash.
     Option.bind (z_optional (z_enum hashTypes) (f ''hashType'')) (\<lambda>hashType.
     Option.bind (z_optional (z_string is_hex) (f ''args'')) (\<lambda>args.
     if codeHash = None \<and> hashType = None \<and> args = None then None
     else Some \<lparr>sa_codeHash = codeHash, sa_hashType = hashType, sa_args = args\<rparr>))))"

definition expectedCellSchema :: "ExpectedCellAssertion schema" where
  "expectedCellSchema = z_object (\<lambda>f.
     Option.bind (z_int 0 1024 (f ''outputIndex'')) (\<lambda>outputIndex.
     Option.bind (z_default Created (z_enum [(''created'', Created), (''live'', Live)]) (f ''mode'')) (\<lambda>mode.
     Option.bind (z_optional (z_string is_hex) (f ''capacity'')) (\<lambda>capacity.
     Option.bind (z_optional scriptAssertionSchema (f ''lock'')) (\<lambda>lock.
     Option.bind (z_optional (z_nullable scriptAssertionSchema) (f ''type'')) (\<lambda>type'.
     Option.bind (z_optional (z_string is_hex) (f ''data'')) (\<lambda>data'.
     if capacity = None \<and> lock = None \<and> type' = None \<and> data' = None then None
     else Some \<lparr>ea_outputIndex = outputIndex, ea_mode = Some mode, ea_capacity = capacity, ea_lock = lock, ea_type = type',
                ea_data = data'\<rparr>)))))))"

definition createIntentSchema :: "CreateRequest schema" where
  "createIntentSchema = z_object (\<lambda>f.
     Option.bind (z_string (sized 1 128) (f ''intentId'')) (\<lambda>intentId.
     Option.bind (z_default [] z_record (f ''metadata'')) (\<lambda>metadata.
     Option.bind (z_default [] (z_array 32 expectedCellSchema) (f ''expectedCells'')) (\<lambda>cells.
     Some \<lparr>cr_intentId = intentId, cr_metadata = JObj metadata, cr_expectedCells = cells\<rparr>))))"


section \<open>Transactions\<close>

definition outPointSchema :: "OutPointRef schema" where
  "outPointSchema = z_object (\<lambda>f.
     Option.bind (z_string is_hash (f ''txHash'')) (\<lambda>txHash.
     Option.bind (z_int 0 0xffffffff (f ''index'')) (\<lambda>index.
     Some \<lparr>op_txHash = txHash, op_index = index\<rparr>)))"

definition input_roles :: "(string \<times> InputRole) list" where
  "input_roles = map (\<lambda>r. (role_name r, r)) [IR_APPLICATION_STATE, IR_WALLET_FUNDING, IR_FEE, IR_DEPENDENCY, IR_OTHER]"

definition inputRefSchema :: "InputRef schema" where
  "inputRefSchema = z_object (\<lambda>f.
     Option.bind (outPointSchema (f ''outPoint'')) (\<lambda>outPoint.
     Option.bind (z_enum input_roles (f ''role'')) (\<lambda>role.
     Option.bind (z_optional (z_trimmed 1 256) (f ''resourceKey'')) (\<lambda>resourceKey.
     Some \<lparr>ref_outPoint = outPoint, ref_role = role, ref_resourceKey = resourceKey\<rparr>))))"

definition txHashSchema :: "string schema" where
  "txHashSchema = z_object (\<lambda>f. z_string (\<lambda>_. True) (f ''txHash''))"

record PrepareBody =
  pb_txHash :: string
  pb_signedPayloadHash :: "string option"
  pb_allowRevision :: bool
  pb_inputOutPoints :: "OutPointRef list"
  pb_inputRefs :: "InputRef list"
  pb_attemptKind :: "AttemptKind option"
  pb_parentAttemptId :: "string option option"

definition attempt_kinds :: "(string \<times> AttemptKind) list" where
  "attempt_kinds = map (\<lambda>k. (attempt_kind_name k, k)) [AK_INITIAL, AK_REBUILD, AK_RBF_REPLACEMENT, AK_MANUAL_RETRY]"

definition prepareTransactionSchema :: "(string \<Rightarrow> bool) \<Rightarrow> PrepareBody schema" where
  "prepareTransactionSchema isUuid = z_object (\<lambda>f.
     Option.bind (z_string (\<lambda>_. True) (f ''txHash'')) (\<lambda>txHash.
     Option.bind (z_optional (z_string is_hash) (f ''signedPayloadHashSha256'')) (\<lambda>payload.
     Option.bind (z_default False z_bool (f ''allowSignedPayloadRevision'')) (\<lambda>allow.
     Option.bind (z_default [] (z_array 1024 outPointSchema) (f ''inputOutPoints'')) (\<lambda>inputs.
     Option.bind (z_default [] (z_array 1024 inputRefSchema) (f ''inputRefs'')) (\<lambda>refs.
     Option.bind (z_optional (z_enum attempt_kinds) (f ''attemptKind'')) (\<lambda>kind.
     Option.bind (z_optional (z_nullable (z_string isUuid)) (f ''parentAttemptId'')) (\<lambda>parent.
     Some \<lparr>pb_txHash = txHash, pb_signedPayloadHash = map_option toLowerCase payload, pb_allowRevision = allow,
           pb_inputOutPoints = inputs, pb_inputRefs = refs, pb_attemptKind = kind, pb_parentAttemptId = parent\<rparr>))))))))"

definition failure_types :: "(string \<times> SubmissionErrorType) list" where
  "failure_types = map (\<lambda>t. (submission_error_name t, t)) [SE_TRANSPORT_UNKNOWN, SE_RPC_REJECTION, SE_HASH_MISMATCH]"

definition conflict_types :: "(string \<times> ConflictType) list" where
  "conflict_types = map (\<lambda>c. (conflict_type_name c, c)) [CT_INPUT_CONFLICT_SUSPECTED, CT_INPUT_SPENT,
     CT_EXPECTED_CELL_ASSERTION_FAILED, CT_REORG_CONFLICT, CT_SIGNED_PAYLOAD_MISMATCH, CT_OTHER]"

definition submissionFailureSchema :: "SubmissionFailureEvidence schema" where
  "submissionFailureSchema = z_object (\<lambda>f.
     Option.bind (z_optional (z_string (sized 0 128)) (f ''errorCode'')) (\<lambda>errorCode.
     Option.bind (z_enum failure_types (f ''errorType'')) (\<lambda>errorType.
     Option.bind (z_optional (z_string (sized 0 4000)) (f ''errorMessage'')) (\<lambda>errorMessage.
     Option.bind (z_optional (z_enum conflict_types) (f ''conflictType'')) (\<lambda>conflictType.
     Option.bind (z_optional z_record (f ''details'')) (\<lambda>details.
     Some \<lparr>sf_errorCode = errorCode, sf_errorType = errorType, sf_errorMessage = errorMessage,
           sf_conflictType = conflictType, sf_details = details\<rparr>))))))"


section \<open>Administration\<close>

definition policySchema :: "ConfirmationPolicy schema" where
  "policySchema v = (case z_object (\<lambda>f. map_option (\<lambda>_. Committed) (z_enum [(''committed'', ())] (f ''mode''))) v of
     Some p \<Rightarrow> Some p
   | None \<Rightarrow> z_object (\<lambda>f. Option.bind (z_enum [(''depth'', ())] (f ''mode'')) (\<lambda>_. map_option Depth (z_int 1 10000 (f ''blocks'')))) v)"

definition setupSchema :: "(string \<Rightarrow> bool) \<Rightarrow> SetupInput schema" where
  "setupSchema isUrl = z_object (\<lambda>f.
     Option.bind (z_string (sized 1 120) (f ''name'')) (\<lambda>name.
     Option.bind (z_default Testnet (z_enum [(''testnet'', Testnet), (''mainnet'', Mainnet), (''devnet'', Devnet)]) (f ''network'')) (\<lambda>network.
     Option.bind (z_optional (z_string isUrl) (f ''rpcUrl'')) (\<lambda>rpcUrl.
     Option.bind (z_optional policySchema (f ''confirmationPolicy'')) (\<lambda>policy.
     Some \<lparr>su_name = name, su_network = network, su_rpcUrl = rpcUrl, su_confirmationPolicy = policy, su_initialApiKey = None\<rparr>)))))"

definition webhookSchema :: "(string \<Rightarrow> bool) \<Rightarrow> string schema" where
  "webhookSchema isUrl = z_object (\<lambda>f. z_string isUrl (f ''url''))"

definition scopes_table :: "(string \<times> ApiKeyScope) list" where
  "scopes_table = map (\<lambda>s. (scope_name s, s)) [Scope_read, Scope_write, Scope_admin]"

definition apiKeyCreateSchema :: "(string \<times> ApiKeyScope list \<times> int option) schema" where
  "apiKeyCreateSchema = z_object (\<lambda>f.
     Option.bind (z_default ''rotated'' (z_string (sized 1 80)) (f ''label'')) (\<lambda>label.
     Option.bind (z_default [Scope_read, Scope_write]
       (\<lambda>v. Option.bind (z_array 3 (z_enum scopes_table) v) (\<lambda>xs. if xs = [] then None else Some xs)) (f ''scopes'')) (\<lambda>scopes.
     Option.bind (z_default (Some 90) (z_nullable (z_int 1 365)) (f ''expiresInDays'')) (\<lambda>days.
     Some (label, scopes, days)))))"

definition operatorNoteSchema :: "string schema" where
  "operatorNoteSchema = z_object (\<lambda>f. z_trimmed 1 2000 (f ''note''))"

definition webhookRetrySchema :: "(string \<Rightarrow> bool) \<Rightarrow> string option schema" where
  "webhookRetrySchema isUuid = z_object (\<lambda>f. z_optional (z_string isUuid) (f ''endpointId''))"

end
