(* ===== verification/Routes.thy ===== *)
theory Routes
  imports Schemas
begin

text \<open>
  Models the request handlers of apps/web/app/api/v1: every handler authenticates with its scope,
  parses its input, calls the service and answers with JSON.
\<close>

section \<open>Answers\<close>

definition publicView_entries :: "PublicView \<Rightarrow> (string \<times> json) list" where
  "publicView_entries v =
    [(''intentId'', JStr (pv_intentId v)), (''metadata'', pv_metadata v), (''txHash'', opt_json (pv_txHash v)),
     (''inputOutPoints'', JArr (map outPoint_json (pv_inputOutPoints v))), (''inputRefs'', JArr (map inputRef_json (pv_inputRefs v))),
     (''activeAttemptId'', opt_map_json uuid_json (pv_activeAttemptId v)),
     (''winningAttemptId'', opt_map_json uuid_json (pv_winningAttemptId v)),
     (''attempts'', JArr (map evidenceAttempt_json (pv_attempts v))), (''status'', JStr (overall_name (pv_status v))),
     (''submissionStatus'', JStr (submission_name (pv_submissionStatus v))), (''chainStatus'', JStr (chain_name (pv_chainStatus v))),
     (''workflowStatus'', JStr (workflow_name (pv_workflowStatus v))), (''confirmationPolicy'', policy_json (pv_confirmationPolicy v)),
     (''confirmationCount'', JNum (pv_confirmationCount v)), (''committedBlockHash'', opt_json (pv_committedBlockHash v)),
     (''committedBlockNumber'', opt_json (pv_committedBlockNumber v)), (''assertionStatus'', opt_json (pv_assertionStatus v)),
     (''settlementReady'', JBool (pv_settlementReady v)), (''settlementReadyAt'', opt_map_json iso_json (pv_settlementReadyAt v)),
     (''assertionResult'', pv_assertionResult v), (''submissionErrorCode'', opt_json (pv_submissionErrorCode v)),
     (''submissionErrorType'', opt_map_json (\<lambda>t. JStr (submission_error_name t)) (pv_submissionErrorType v)),
     (''submissionErrorDetails'', pv_submissionErrorDetails v),
     (''conflictType'', opt_map_json (\<lambda>c. JStr (conflict_type_name c)) (pv_conflictType v)), (''conflictDetails'', pv_conflictDetails v),
     (''recommendedAction'', JStr (action_name (pv_recommendedAction v))), (''workflowRunId'', opt_map_json uuid_json (pv_workflowRunId v)),
     (''createdAt'', iso_json (pv_createdAt v)), (''updatedAt'', iso_json (pv_updatedAt v))]"

definition publicView_json :: "PublicView \<Rightarrow> json" where
  "publicView_json v = JObj (publicView_entries v)"

definition eventView_json :: "EventView \<Rightarrow> json" where
  "eventView_json v = JObj
    [(''sequence'', JNum (int (vw_sequence v))), (''kind'', JStr (vw_kind v)), (''fromStatus'', opt_json (vw_fromStatus v)),
     (''toStatus'', JStr (vw_toStatus v)), (''reason'', opt_json (vw_reason v)), (''occurredAt'', iso_json (vw_occurredAt v))]"

definition intentDetail_json :: "IntentDetail \<Rightarrow> json" where
  "intentDetail_json d = JObj (obj_set ''metadata'' (id_metadata d) (publicView_entries (id_view d))
     @ [(''network'', JStr (network_name (id_network d))), (''expectedCells'', cells_json (id_expectedCells d)),
        (''events'', JArr (map eventView_json (id_events d)))])"

definition evidenceResult_json :: "EvidenceResult \<Rightarrow> json" where
  "evidenceResult_json r = JObj (asRecord (evidence_json (er_document r))
     @ [(''sha256'', JStr (er_sha256 r)), (''persisted'', JBool (er_export r \<noteq> None))]
     @ (case er_export r of None \<Rightarrow> [] | Some g \<Rightarrow> [(''exportId'', uuid_json (g_id g)), (''exportedAt'', iso_json (g_createdAt g))]))"

definition projectEvidence_json :: "ProjectEvidence \<Rightarrow> json" where
  "projectEvidence_json r = JObj (asRecord (pe_document r)
     @ [(''sha256'', JStr (pe_snapshotSha256 r)), (''snapshotSha256'', JStr (pe_snapshotSha256 r)),
        (''contentSha256'', JStr (pe_contentSha256 r)), (''persisted'', JBool (pe_export r \<noteq> None))]
     @ (case pe_export r of None \<Rightarrow> [] | Some (i, t) \<Rightarrow> [(''exportId'', uuid_json i), (''exportedAt'', iso_json t)]))"

definition page_json :: "IntentPage \<Rightarrow> json" where
  "page_json p = JObj [(''intents'', JArr (map publicView_json (ip_intents p))), (''nextCursor'', opt_json (ip_nextCursor p))]"

definition apiKey_json :: "ApiKeyView \<Rightarrow> json" where
  "apiKey_json k = JObj
    [(''id'', uuid_json (kv_id k)), (''prefix'', JStr (kv_prefix k)), (''label'', JStr (kv_label k)),
     (''scopes'', JArr (map (\<lambda>s. JStr (scope_name s)) (kv_scopes k))), (''expiresAt'', opt_map_json iso_json (kv_expiresAt k)),
     (''revokedAt'', opt_map_json iso_json (kv_revokedAt k)), (''lastUsedAt'', opt_map_json iso_json (kv_lastUsedAt k)),
     (''createdAt'', iso_json (kv_createdAt k))]"

definition createdKey_json :: "CreatedKey \<Rightarrow> json" where
  "createdKey_json k = JObj
    [(''id'', uuid_json (ck_id k)), (''prefix'', JStr (ck_prefix k)), (''label'', JStr (ck_label k)),
     (''scopes'', JArr (map (\<lambda>s. JStr (scope_name s)) (ck_scopes k))), (''expiresAt'', opt_map_json iso_json (ck_expiresAt k)),
     (''apiKey'', JStr (ck_apiKey k))]"

definition webhookView_json :: "WebhookView \<Rightarrow> json" where
  "webhookView_json w = JObj
    [(''id'', uuid_json (wv_id w)), (''url'', JStr (wv_url w)), (''secretVersion'', JNum (int (wv_secretVersion w))),
     (''enabled'', JBool (wv_enabled w)), (''deliveredCount'', JNum (wv_deliveredCount w)), (''failedCount'', JNum (wv_failedCount w)),
     (''pendingCount'', JNum (wv_pendingCount w)), (''lastDeliveryAt'', opt_map_json iso_json (wv_lastDeliveryAt w))]"

definition createdWebhook_json :: "CreatedWebhook \<Rightarrow> json" where
  "createdWebhook_json w = JObj
    [(''id'', uuid_json (cw_id w)), (''url'', JStr (cw_url w)), (''signingSecret'', JStr (cw_signingSecret w))]"

definition intent_response :: "PublicView \<Rightarrow> (string \<times> json) list \<Rightarrow> Response" where
  "intent_response view extra = json_response 200 (JObj ((''intent'', publicView_json view) # extra))"


section \<open>Intents\<close>

definition GET_intents :: "'w web_env \<Rightarrow> Request \<Rightarrow> 'w host net \<Rightarrow> Response \<times> 'w host net" where
  "GET_intents wb rq = respond wb rq
    (andThen (projectFromRequest wb rq Scope_read) (\<lambda>project.
     let limit = (case map_of (rq_query rq) ''limit'' of None \<Rightarrow> Some 100 | Some text \<Rightarrow> wb_number wb text) in
     andThen (routed (service_listIntents (wb_access wb) (wb_cursor wb) project
         (Some (case limit of Some n \<Rightarrow> n | None \<Rightarrow> 100)) (map_of (rq_query rq) ''cursor''))) (\<lambda>page.
     ret (json_response 200 (page_json page)))))"

definition POST_intents :: "'w web_env \<Rightarrow> Request \<Rightarrow> 'w host net \<Rightarrow> Response \<times> 'w host net" where
  "POST_intents wb rq = respond wb rq
    (andThen (projectFromRequest wb rq Scope_write) (\<lambda>project.
     andThen (andThen (readJson wb rq) (parse_with wb ''createIntent'' createIntentSchema)) (\<lambda>input.
     andThen (routed (service_createIntent (wb_env wb) (wb_collation wb) project input)) (\<lambda>(view, created).
     ret (json_response (if created then 201 else 200)
       (JObj [(''intent'', publicView_json view), (''created'', JBool created)]))))))"

definition GET_intent :: "'w web_env \<Rightarrow> Request \<Rightarrow> string \<Rightarrow> 'w host net \<Rightarrow> Response \<times> 'w host net" where
  "GET_intent wb rq intentId = respond wb rq
    (andThen (projectFromRequest wb rq Scope_read) (\<lambda>project.
     andThen (routed (service_intentDetail (wb_env wb) project intentId)) (\<lambda>intent.
     ret (json_response 200 (JObj [(''intent'', intentDetail_json intent)])))))"

text \<open>The prepared transaction, with the parent's identifier read from its text.\<close>

definition prepare_request :: "'w web_env \<Rightarrow> string \<Rightarrow> PrepareBody \<Rightarrow> AttachRequest" where
  "prepare_request wb intentId b =
    \<lparr>aq_intentId = intentId, aq_txHash = pb_txHash b, aq_submissionStatus = SS_PREPARED,
     aq_signedPayloadHash = pb_signedPayloadHash b, aq_inputOutPoints = Some (pb_inputOutPoints b),
     aq_inputRefs = Some (pb_inputRefs b), aq_attemptKind = pb_attemptKind b,
     aq_parentAttemptId = (case pb_parentAttemptId b of Some (Some i) \<Rightarrow> Some (cl_uuid (wb_cursor wb) i) | _ \<Rightarrow> None),
     aq_allowRevision = pb_allowRevision b\<rparr>"

definition POST_prepare :: "'w web_env \<Rightarrow> Request \<Rightarrow> string \<Rightarrow> 'w host net \<Rightarrow> Response \<times> 'w host net" where
  "POST_prepare wb rq intentId = respond wb rq
    (andThen (projectFromRequest wb rq Scope_write) (\<lambda>project.
     andThen (andThen (readJson wb rq) (parse_with wb ''prepareTransaction'' (prepareTransactionSchema (wb_isUuid wb)))) (\<lambda>body.
     andThen (routed (service_attachTransaction (wb_env wb) project (prepare_request wb intentId body))) (\<lambda>view.
     ret (intent_response view [])))))"

definition track_request :: "string \<Rightarrow> string \<Rightarrow> AttachRequest" where
  "track_request intentId txHash =
    \<lparr>aq_intentId = intentId, aq_txHash = txHash, aq_submissionStatus = SS_SUBMITTED, aq_signedPayloadHash = None,
     aq_inputOutPoints = None, aq_inputRefs = None, aq_attemptKind = None, aq_parentAttemptId = None, aq_allowRevision = False\<rparr>"

definition POST_track :: "'w web_env \<Rightarrow> Request \<Rightarrow> string \<Rightarrow> 'w host net \<Rightarrow> Response \<times> 'w host net" where
  "POST_track wb rq intentId = respond wb rq
    (andThen (projectFromRequest wb rq Scope_write) (\<lambda>project.
     andThen (andThen (readJson wb rq) (parse_with wb ''txHash'' txHashSchema)) (\<lambda>txHash.
     andThen (routed (service_attachTransaction (wb_env wb) project (track_request intentId txHash))) (\<lambda>view.
     andThen (routed (startReconciliationWorkflow wb (p_id project) intentId)) (\<lambda>run.
     ret (intent_response view [(''workflowRunId'', run_json run)]))))))"

definition POST_preflight :: "'w web_env \<Rightarrow> Request \<Rightarrow> string \<Rightarrow> 'w host net \<Rightarrow> Response \<times> 'w host net" where
  "POST_preflight wb rq intentId = respond wb rq
    (andThen (projectFromRequest wb rq Scope_write) (\<lambda>project.
     andThen (routed (service_preflight (wb_env wb) project intentId)) (\<lambda>view.
     ret (intent_response view []))))"

definition POST_broadcasting :: "'w web_env \<Rightarrow> Request \<Rightarrow> string \<Rightarrow> 'w host net \<Rightarrow> Response \<times> 'w host net" where
  "POST_broadcasting wb rq intentId = respond wb rq
    (andThen (projectFromRequest wb rq Scope_write) (\<lambda>project.
     andThen (routed (service_markSubmission (wb_env wb) project intentId SS_BROADCASTING None)) (\<lambda>view.
     ret (intent_response view []))))"

definition POST_submitted :: "'w web_env \<Rightarrow> Request \<Rightarrow> string \<Rightarrow> 'w host net \<Rightarrow> Response \<times> 'w host net" where
  "POST_submitted wb rq intentId = respond wb rq
    (andThen (projectFromRequest wb rq Scope_write) (\<lambda>project.
     andThen (routed (service_markSubmission (wb_env wb) project intentId SS_SUBMITTED None)) (\<lambda>view.
     andThen (routed (startReconciliationWorkflow wb (p_id project) intentId)) (\<lambda>run.
     ret (intent_response view [(''workflowRunId'', run_json run)])))))"

text \<open>An empty object, or a body that is no object, is no evidence.\<close>

definition ambiguous_failure :: "'w web_env \<Rightarrow> json \<Rightarrow> ('w, SubmissionFailureEvidence option) routed" where
  "ambiguous_failure wb body =
    (if asRecord body = [] then ret None
     else andThen (parse_with wb ''submissionFailure'' submissionFailureSchema body) (\<lambda>f. ret (Some f)))"

definition POST_ambiguous :: "'w web_env \<Rightarrow> Request \<Rightarrow> string \<Rightarrow> 'w host net \<Rightarrow> Response \<times> 'w host net" where
  "POST_ambiguous wb rq intentId = respond wb rq
    (andThen (projectFromRequest wb rq Scope_write) (\<lambda>project.
     andThen (andThen (readJson wb rq) (ambiguous_failure wb)) (\<lambda>failure.
     andThen (routed (service_markSubmission (wb_env wb) project intentId SS_SUBMISSION_UNKNOWN failure)) (\<lambda>view.
     andThen (routed (startReconciliationWorkflow wb (p_id project) intentId)) (\<lambda>run.
     ret (intent_response view [(''workflowRunId'', run_json run)]))))))"

definition POST_rejected :: "'w web_env \<Rightarrow> Request \<Rightarrow> string \<Rightarrow> 'w host net \<Rightarrow> Response \<times> 'w host net" where
  "POST_rejected wb rq intentId = respond wb rq
    (andThen (projectFromRequest wb rq Scope_write) (\<lambda>project.
     andThen (andThen (readJson wb rq) (parse_with wb ''submissionFailure'' submissionFailureSchema)) (\<lambda>failure.
     if sf_errorType failure \<noteq> SE_RPC_REJECTION then
       throw (Thrown (api_error TRANSITION_INVALID ''Rejected submissions must use RPC_REJECTION evidence'' 400))
     else
       andThen (routed (service_markSubmission (wb_env wb) project intentId SS_NODE_REJECTED (Some failure))) (\<lambda>view.
       if sf_conflictType failure = Some CT_INPUT_CONFLICT_SUSPECTED then
         andThen (routed (startReconciliationWorkflow wb (p_id project) intentId)) (\<lambda>run.
         ret (intent_response view [(''workflowRunId'', run_json run)]))
       else ret (intent_response view [])))))"

definition POST_reconcile :: "'w web_env \<Rightarrow> Request \<Rightarrow> string \<Rightarrow> 'w host net \<Rightarrow> Response \<times> 'w host net" where
  "POST_reconcile wb rq intentId = respond wb rq
    (andThen (projectFromRequest wb rq Scope_write) (\<lambda>project.
     andThen (routed (service_reconcile (wb_env wb) project intentId)) (\<lambda>view.
     ret (intent_response view []))))"

definition POST_notes :: "'w web_env \<Rightarrow> Request \<Rightarrow> string \<Rightarrow> 'w host net \<Rightarrow> Response \<times> 'w host net" where
  "POST_notes wb rq intentId = respond wb rq
    (andThen (projectFromRequest wb rq Scope_write) (\<lambda>project.
     andThen (andThen (readJson wb rq) (parse_with wb ''operatorNote'' operatorNoteSchema)) (\<lambda>note.
     andThen (routed (service_addOperatorNote (wb_env wb) project intentId note)) (\<lambda>intent.
     ret (json_response 201 (JObj [(''intent'', intentDetail_json intent)]))))))"

definition GET_evidence :: "'w web_env \<Rightarrow> Request \<Rightarrow> string \<Rightarrow> 'w host net \<Rightarrow> Response \<times> 'w host net" where
  "GET_evidence wb rq intentId = respond wb rq
    (andThen (projectFromRequest wb rq Scope_read) (\<lambda>project.
     andThen (routed (service_evidence (wb_env wb) (wb_collation wb) project intentId False)) (\<lambda>evidence.
     ret (json_response 200 (JObj [(''evidence'', evidenceResult_json evidence)])))))"

definition POST_evidence :: "'w web_env \<Rightarrow> Request \<Rightarrow> string \<Rightarrow> 'w host net \<Rightarrow> Response \<times> 'w host net" where
  "POST_evidence wb rq intentId = respond wb rq
    (andThen (projectFromRequest wb rq Scope_admin) (\<lambda>project.
     andThen (routed (service_evidence (wb_env wb) (wb_collation wb) project intentId True)) (\<lambda>evidence.
     ret (json_response 201 (JObj [(''evidence'', evidenceResult_json evidence)])))))"


section \<open>Projects\<close>

definition GET_metrics :: "'w web_env \<Rightarrow> Request \<Rightarrow> 'w host net \<Rightarrow> Response \<times> 'w host net" where
  "GET_metrics wb rq = respond wb rq
    (andThen (projectFromRequest wb rq Scope_read) (\<lambda>project.
     andThen (routed (service_projectMetrics (wb_access wb) project)) (\<lambda>metrics.
     ret (json_response 200 (JObj [(''metrics'', metrics_json metrics)])))))"

definition GET_operations :: "'w web_env \<Rightarrow> Request \<Rightarrow> 'w host net \<Rightarrow> Response \<times> 'w host net" where
  "GET_operations wb rq = respond wb rq
    (andThen (projectFromRequest wb rq Scope_read) (\<lambda>project.
     andThen (routed (service_operationalHealth (wb_access wb) project)) (\<lambda>operations.
     ret (json_response 200 (JObj [(''operations'', operations_json operations)])))))"

definition GET_projectEvidence :: "'w web_env \<Rightarrow> Request \<Rightarrow> 'w host net \<Rightarrow> Response \<times> 'w host net" where
  "GET_projectEvidence wb rq = respond wb rq
    (andThen (projectFromRequest wb rq Scope_read) (\<lambda>project.
     andThen (routed (service_projectEvidence (wb_access wb) (wb_collation wb) project False)) (\<lambda>evidence.
     ret (json_response 200 (JObj [(''evidence'', projectEvidence_json evidence)])))))"

definition POST_projectEvidence :: "'w web_env \<Rightarrow> Request \<Rightarrow> 'w host net \<Rightarrow> Response \<times> 'w host net" where
  "POST_projectEvidence wb rq = respond wb rq
    (andThen (projectFromRequest wb rq Scope_admin) (\<lambda>project.
     andThen (routed (service_projectEvidence (wb_access wb) (wb_collation wb) project True)) (\<lambda>evidence.
     ret (json_response 201 (JObj [(''evidence'', projectEvidence_json evidence)])))))"


section \<open>Keys\<close>

text \<open>An identifier of the path goes to the database as it is, which refuses a text that is none.\<close>

definition path_uuid :: "'w web_env \<Rightarrow> string \<Rightarrow> ('w, uuid) routed" where
  "path_uuid wb text = (case wb_dbUuid wb text of Some i \<Rightarrow> ret i
     | None \<Rightarrow> throw (Thrown (PlainError ''invalid input syntax for type uuid'')))"

definition GET_apiKeys :: "'w web_env \<Rightarrow> Request \<Rightarrow> 'w host net \<Rightarrow> Response \<times> 'w host net" where
  "GET_apiKeys wb rq = respond wb rq
    (andThen (projectFromRequest wb rq Scope_admin) (\<lambda>project.
     andThen (routed (service_listApiKeys (wb_access wb) project)) (\<lambda>keys.
     ret (json_response 200 (JObj [(''keys'', JArr (map apiKey_json keys))])))))"

definition POST_apiKeys :: "'w web_env \<Rightarrow> Request \<Rightarrow> 'w host net \<Rightarrow> Response \<times> 'w host net" where
  "POST_apiKeys wb rq = respond wb rq
    (andThen (projectFromRequest wb rq Scope_admin) (\<lambda>project.
     andThen (andThen (readJson wb rq) (parse_with wb ''apiKeyCreate'' apiKeyCreateSchema)) (\<lambda>(label, scopes, days).
     andThen (routed (service_createApiKey (wb_access wb) project label scopes days)) (\<lambda>key.
     ret (json_response 201 (JObj [(''key'', createdKey_json key)]))))))"

definition DELETE_apiKey :: "'w web_env \<Rightarrow> Request \<Rightarrow> string \<Rightarrow> 'w host net \<Rightarrow> Response \<times> 'w host net" where
  "DELETE_apiKey wb rq keyId = respond wb rq
    (andThen (projectFromRequest wb rq Scope_admin) (\<lambda>project.
     andThen (path_uuid wb keyId) (\<lambda>key.
     andThen (routed (service_revokeApiKey (wb_access wb) project key)) (\<lambda>_.
     ret (empty_response 204)))))"


section \<open>Webhooks\<close>

definition GET_webhooks :: "'w web_env \<Rightarrow> Request \<Rightarrow> 'w host net \<Rightarrow> Response \<times> 'w host net" where
  "GET_webhooks wb rq = respond wb rq
    (andThen (projectFromRequest wb rq Scope_admin) (\<lambda>project.
     andThen (routed (service_listWebhooks (wb_access wb) project)) (\<lambda>webhooks.
     ret (json_response 200 (JObj [(''webhooks'', JArr (map webhookView_json webhooks))])))))"

definition POST_webhooks :: "'w web_env \<Rightarrow> Request \<Rightarrow> 'w host net \<Rightarrow> Response \<times> 'w host net" where
  "POST_webhooks wb rq = respond wb rq
    (andThen (projectFromRequest wb rq Scope_admin) (\<lambda>project.
     andThen (andThen (readJson wb rq) (parse_with wb ''webhook'' (webhookSchema (wb_isUrl wb)))) (\<lambda>url.
     andThen (routed (service_createWebhook (wb_access wb) project url)) (\<lambda>webhook.
     ret (json_response 201 (JObj [(''webhook'', createdWebhook_json webhook)]))))))"

definition DELETE_webhook :: "'w web_env \<Rightarrow> Request \<Rightarrow> string \<Rightarrow> 'w host net \<Rightarrow> Response \<times> 'w host net" where
  "DELETE_webhook wb rq endpointId = respond wb rq
    (andThen (projectFromRequest wb rq Scope_admin) (\<lambda>project.
     andThen (path_uuid wb endpointId) (\<lambda>endpoint.
     andThen (routed (service_disableWebhook (wb_access wb) project endpoint)) (\<lambda>_.
     ret (empty_response 204)))))"

definition POST_webhookRetry :: "'w web_env \<Rightarrow> Request \<Rightarrow> 'w host net \<Rightarrow> Response \<times> 'w host net" where
  "POST_webhookRetry wb rq = respond wb rq
    (andThen (projectFromRequest wb rq Scope_admin) (\<lambda>project.
     andThen (andThen (readJson wb rq) (parse_with wb ''webhookRetry'' (webhookRetrySchema (wb_isUuid wb)))) (\<lambda>endpointId.
     andThen (routed (service_retryWebhookFailures (wb_access wb) project (map_option (cl_uuid (wb_cursor wb)) endpointId))) (\<lambda>retried.
     ret (json_response 200 (JObj [(''retried'', JNum (int retried))]))))))"

definition batchResult_json :: "BatchResult \<Rightarrow> json" where
  "batchResult_json r = JObj
    [(''attempted'', JNum (int (br_attempted r))), (''delivered'', JNum (int (br_delivered r))), (''leaseLost'', JNum (int (br_leaseLost r)))]"

definition test_payload :: "uuid \<Rightarrow> timestamp \<Rightarrow> uuid \<Rightarrow> json" where
  "test_payload eventId now' projectId = JObj
    [(''id'', uuid_json eventId), (''type'', JStr ''webhook.test''), (''occurredAt'', iso_json now'),
     (''data'', JObj [(''projectId'', uuid_json projectId)])]"

definition POST_webhookTest :: "'w web_env \<Rightarrow> Request \<Rightarrow> 'w host net \<Rightarrow> Response \<times> 'w host net" where
  "POST_webhookTest wb rq = respond wb rq
    (andThen (projectFromRequest wb rq Scope_admin) (\<lambda>project.
     andThen (routed (new_uuid (wb_access wb))) (\<lambda>eventId.
     andThen (routed (now_ms (wb_env wb))) (\<lambda>now'.
     andThen (routed (on_rows (wb_access wb) (enqueueWebhookDeliveries (rn_jsonb (wb_env wb)) (p_id project) eventId ''webhook.test''
         (test_payload eventId now' (p_id project))))) (\<lambda>queued.
     andThen (routed (on_world (deliverWebhookEvent (wb_hook wb) (p_id project) eventId))) (\<lambda>delivery.
     ret (json_response 202 (JObj [(''queued'', JNum (int queued)), (''delivery'', batchResult_json delivery)]))))))))"

end
