(* ===== verification/OpsRoutes.thy ===== *)
theory OpsRoutes
  imports Routes
begin

text \<open>
  Models the handlers beside the versioned API (setup, maintenance, readiness, health) under
  apps/web/app/api and the durable run of an intent, apps/web/workflows/reconcile-intent.ts.
\<close>

section \<open>Setup\<close>

definition project_json :: "ProjectRecord \<Rightarrow> json" where
  "project_json p = JObj
    [(''id'', uuid_json (p_id p)), (''name'', JStr (p_name p)), (''network'', JStr (network_name (p_network p))),
     (''rpcUrl'', opt_json (p_rpcUrl p)), (''rpcGenesisHash'', opt_json (p_rpcGenesisHash p)),
     (''confirmationPolicy'', policy_json (p_confirmationPolicy p)), (''createdAt'', iso_json (p_createdAt p))]"

text \<open>The migrations answer with the latest version and the list of those they applied.\<close>

definition POST_setup :: "'w web_env \<Rightarrow> Request \<Rightarrow> 'w host net \<Rightarrow> Response \<times> 'w host net" where
  "POST_setup wb rq = respond wb rq
    (andThen (routed (requireBootstrapToken (wb_access wb) (rq_authorization rq))) (\<lambda>_.
     andThen (andThen (readJson wb rq) (parse_with wb ''setup'' (setupSchema (wb_isUrl wb)))) (\<lambda>input.
     andThen (routed (wb_migrate wb)) (\<lambda>(latest, applied).
     andThen (routed (service_setupProject (wb_access wb) input)) (\<lambda>(project, apiKey).
     ret (json_response 201 (JObj
       [(''project'', project_json project), (''apiKey'', JStr apiKey),
        (''initialization'', JObj [(''schemaReady'', JBool True), (''latestMigration'', latest), (''migrationsApplied'', applied),
           (''bootstrapLocked'', JBool True)])])))))))"


section \<open>Maintenance\<close>

definition authorize_cron :: "'w web_env \<Rightarrow> Request \<Rightarrow> bool" where
  "authorize_cron wb rq =
    (case (wb_cronSecret wb, rq_authorization rq) of
       (Some secret, Some provided) \<Rightarrow>
         24 \<le> length secret \<and> startsWith provided ''Bearer '' \<and> utf8_encode (drop 7 provided) = utf8_encode secret
     | _ \<Rightarrow> False)"

text \<open>A limit of the settings; \<open>None\<close> when it is absent, empty or no finite number.\<close>

definition boundedLimit :: "int option \<Rightarrow> int \<Rightarrow> int \<Rightarrow> int" where
  "boundedLimit value' fallback maximum = (case value' of Some n \<Rightarrow> min maximum (max 1 n) | None \<Rightarrow> fallback)"

definition settled :: "('a \<Rightarrow> json) \<Rightarrow> thrown + 'a \<Rightarrow> json" where
  "settled f result = (case result of
     Inr x \<Rightarrow> JObj [(''ok'', JBool True), (''value'', f x)]
   | Inl e \<Rightarrow> JObj [(''ok'', JBool False), (''error'', JStr (thrown_message e))])"

definition reconcileResult_json :: "ReconcileResult \<Rightarrow> json" where
  "reconcileResult_json r = obj_defined
    [(''intentId'', Some (JStr (rr_intentId r))), (''txHash'', Some (opt_json (rr_txHash r))), (''changed'', Some (JBool (rr_changed r))),
     (''status'', Some (JStr (rr_status r))), (''assertionStatus'', Some (opt_json (rr_assertionStatus r))),
     (''settlementReady'', Some (JBool (rr_settlementReady r))), (''terminal'', Some (JBool (rr_terminal r))),
     (''nextDelayMs'', Some (opt_map_json JNum (rr_nextDelayMs r))), (''error'', map_option JStr (rr_error r))]"

text \<open>The three tasks run together; here one after the other, with the others' steps in between.\<close>

definition run_maintenance :: "'w web_env \<Rightarrow> ('w, (thrown + ReconcileResult list) \<times> (thrown + BatchResult) \<times> (thrown + nat)) work" where
  "run_maintenance wb =
     andThen (attempt (reconcileDue (wb_env wb) (boundedLimit (wb_reconcileLimit wb) 4 12))) (\<lambda>reconcile.
     andThen (attempt (on_world (deliverDueWebhooks (wb_hook wb) (boundedLimit (wb_webhookLimit wb) 12 50) None))) (\<lambda>webhooks.
     andThen (attempt (on_rows (wb_access wb) (pruneRateLimits 24))) (\<lambda>pruned.
     ret (reconcile, webhooks, pruned))))"

definition GET_maintenance :: "'w web_env \<Rightarrow> Request \<Rightarrow> 'w host net \<Rightarrow> Response \<times> 'w host net" where
  "GET_maintenance wb rq = respond wb rq
    (if \<not> authorize_cron wb rq then
       ret (json_response 401 (JObj [(''error'', JObj [(''code'', JStr ''AUTH_INVALID''), (''message'', JStr ''Invalid cron authorization'')])]))
     else
       andThen (routed (run_maintenance wb)) (\<lambda>(reconcile, webhooks, pruned).
       andThen (routed (now_ms (wb_env wb))) (\<lambda>now'.
       let ok = \<not> isl reconcile \<and> \<not> isl webhooks \<and> \<not> isl pruned in
       ret (json_response (if ok then 200 else 207) (JObj
         [(''ok'', JBool ok),
          (''tasks'', JObj [(''reconcile'', settled (\<lambda>rs. JArr (map reconcileResult_json rs)) reconcile),
             (''webhooks'', settled batchResult_json webhooks), (''rateLimitCleanup'', settled (\<lambda>n. JNum (int n)) pruned)]),
          (''ranAt'', iso_json now')])))))"


section \<open>Readiness\<close>

text \<open>
  What the readiness check reads beside the service's environment: the RPC settings, the network's
  name as it is configured, the database probes and the latest migration.
\<close>

record 'w ready_env =
  rd_web :: "'w web_env"
  rd_rpcUrls :: "string option list"
  rd_allowInsecure :: bool
  rd_host :: "string \<Rightarrow> string"
  rd_ping :: "('w, bool) work"
  rd_latest :: "string option"
  rd_hasMigration :: "string \<Rightarrow> ('w, bool) work"

record Checks =
  ch_database :: bool
  ch_schema :: bool
  ch_rpc :: bool
  ch_rpcNetwork :: bool
  ch_rpcGenesis :: bool
  ch_rpcTransport :: bool
  ch_encryptionKey :: bool
  ch_cronSecret :: bool
  ch_setupLocked :: bool

definition all_checks :: "Checks \<Rightarrow> bool" where
  "all_checks c \<longleftrightarrow> ch_database c \<and> ch_schema c \<and> ch_rpc c \<and> ch_rpcNetwork c \<and> ch_rpcGenesis c \<and> ch_rpcTransport c
     \<and> ch_encryptionKey c \<and> ch_cronSecret c \<and> ch_setupLocked c"

definition normalizedHash :: "string option \<Rightarrow> string option" where
  "normalizedHash value' = (case or_null value' of None \<Rightarrow> None
     | Some v \<Rightarrow> let hash = toLowerCase (js_trim v) in if is_tx_hash hash then Some hash else None)"

definition ready_status :: "string \<Rightarrow> string \<Rightarrow> json \<Rightarrow> json" where
  "ready_status code message action = JObj [(''code'', JStr code), (''message'', JStr message), (''action'', action)]"

definition publicReadinessStatus :: "Checks \<Rightarrow> json" where
  "publicReadinessStatus c =
    (if \<not> ch_database c then
       ready_status ''DATABASE_UNAVAILABLE'' ''Database is unavailable.'' (JStr ''Check DATABASE_URL and Neon availability.'')
     else if \<not> ch_schema c then
       ready_status ''INITIAL_SETUP_REQUIRED'' ''CellFlow schema is not initialized yet.'' (JStr ''Open /console/setup and run the one-time initialization.'')
     else if \<not> ch_setupLocked c then
       ready_status ''BOOTSTRAP_REQUIRED'' ''Initial project bootstrap has not completed.'' (JStr ''Open /console/setup and create the first project.'')
     else if \<not> ch_rpc c then
       ready_status ''RPC_UNAVAILABLE'' ''One or more configured CKB RPC checks failed.'' (JStr ''Check the configured CKB RPC endpoints.'')
     else if \<not> ch_rpcNetwork c then
       ready_status ''RPC_NETWORK_MISMATCH'' ''The CKB RPC network does not match CKB_NETWORK.'' (JStr ''Check CKB_NETWORK and RPC configuration.'')
     else if \<not> ch_rpcGenesis c then
       ready_status ''RPC_GENESIS_MISMATCH'' ''The CKB RPC genesis hash does not match the pinned value.'' (JStr ''Check CKB_EXPECTED_GENESIS_HASH and RPC configuration.'')
     else if \<not> ch_rpcTransport c then
       ready_status ''RPC_TRANSPORT_INSECURE'' ''Production readiness rejected an insecure CKB RPC transport.''
         (JStr ''Use HTTPS RPC or explicitly allow insecure RPC for this deployment.'')
     else if \<not> ch_encryptionKey c \<or> \<not> ch_cronSecret c then
       ready_status ''SERVER_CONFIGURATION_INCOMPLETE'' ''Required production server secrets are missing or too short.''
         (JStr ''Check CELLFLOW_ENCRYPTION_KEY and CRON_SECRET in Vercel.'')
     else ready_status ''READY'' ''All production readiness checks passed.'' JNull)"

definition chain_for_name :: "string option \<Rightarrow> string option" where
  "chain_for_name network = (if network = Some ''mainnet'' then Some ''ckb'' else if network = Some ''testnet'' then Some ''ckb_testnet'' else None)"

definition canSeeDetails :: "'w web_env \<Rightarrow> Request \<Rightarrow> ('w, bool) work" where
  "canSeeDetails wb rq =
    (if \<not> ac_production (wb_access wb) then ret True
     else andThen (attempt (authenticateBearer (wb_access wb) (rq_authorization rq) Scope_admin)) (\<lambda>r. ret (\<not> isl r)))"

record EndpointCheck =
  ep_endpoint :: string
  ep_ok :: bool
  ep_chain :: "string option"
  ep_genesisHash :: json
  ep_initialBlockDownload :: "bool option"
  ep_error :: "string option"

definition endpointCheck_json :: "EndpointCheck \<Rightarrow> json" where
  "endpointCheck_json e = obj_defined
    [(''endpoint'', Some (JStr (ep_endpoint e))), (''ok'', Some (JBool (ep_ok e))), (''chain'', Some (opt_json (ep_chain e))),
     (''genesisHash'', Some (ep_genesisHash e)), (''initialBlockDownload'', Some (opt_map_json JBool (ep_initialBlockDownload e))),
     (''error'', map_option JStr (ep_error e))]"

definition expected_genesis :: "'w ready_env \<Rightarrow> string option" where
  "expected_genesis rd = normalizedHash (ac_expectedGenesis (wb_access (rd_web rd)))"

definition expected_chain :: "'w ready_env \<Rightarrow> string option" where
  "expected_chain rd = chain_for_name (wb_network (rd_web rd))"

text \<open>\<open>genesisHash?.toLowerCase() === expected\<close>; a value without that method is a type error.\<close>

definition genesis_is :: "string option \<Rightarrow> json \<Rightarrow> bool option" where
  "genesis_is expected genesisHash =
    (case expected of None \<Rightarrow> Some True
     | Some g \<Rightarrow> (case genesisHash of JStr h \<Rightarrow> Some (toLowerCase h = g) | JNull \<Rightarrow> Some False | _ \<Rightarrow> None))"

definition type_error :: thrown where
  "type_error = PlainError ''genesisHash?.toLowerCase is not a function''"

text \<open>The answers of one endpoint: its result and what is wrong with it.\<close>

definition judge_endpoint :: "'w ready_env \<Rightarrow> string \<Rightarrow> json \<Rightarrow> json \<Rightarrow> thrown + EndpointCheck \<times> string list" where
  "judge_endpoint rd url genesisHash info =
    (let production = ac_production (wb_access (rd_web rd));
         chain = json_string (js_field (asRecord info) ''chain'');
         syncing = (js_field (asRecord info) ''is_initial_block_download'' = Some (JBool True));
         networkOk = (expected_chain rd = None \<or> chain = expected_chain rd) in
     if info = JNull then Inl (PlainError ''Cannot read properties of null'')
     else case genesis_is (expected_genesis rd) genesisHash of
       None \<Rightarrow> Inl type_error
     | Some genesisOk \<Rightarrow>
         Inr (\<lparr>ep_endpoint = url, ep_ok = networkOk \<and> genesisOk \<and> (\<not> production \<or> \<not> syncing), ep_chain = chain,
               ep_genesisHash = genesisHash, ep_initialBlockDownload = Some syncing, ep_error = None\<rparr>,
           (if networkOk then [] else [''CKB RPC network mismatch for '' @ rd_host rd url @ '': expected '' @ the (expected_chain rd)])
           @ (if genesisOk then [] else [''CKB RPC genesis mismatch for '' @ rd_host rd url])
           @ (if syncing \<and> production then [''CKB RPC '' @ rd_host rd url @ '' is still in initial block download''] else [])))"

definition failed_endpoint :: "string \<Rightarrow> thrown \<Rightarrow> EndpointCheck" where
  "failed_endpoint url error = \<lparr>ep_endpoint = url, ep_ok = False, ep_chain = None, ep_genesisHash = JNull,
     ep_initialBlockDownload = None, ep_error = Some (thrown_message error)\<rparr>"

definition probe_endpoint :: "'w ready_env \<Rightarrow> string \<Rightarrow> ('w, EndpointCheck \<times> string list) work" where
  "probe_endpoint rd url =
    (let cfg = rn_rpc (wb_env (rd_web rd)) in
     tryCatch
       (andThen (getTipHeader cfg [url]) (\<lambda>_.
        andThen (getGenesisHash cfg [url]) (\<lambda>genesisHash.
        andThen (getBlockchainInfo cfg [url]) (\<lambda>info. lift_sum (judge_endpoint rd url genesisHash info)))))
       (\<lambda>error. ret (failed_endpoint url error, [''CKB RPC unavailable: '' @ rd_host rd url])))"

text \<open>The probes of the database; any failure counts as unavailable, with what was set before it.\<close>

definition probe_database :: "'w ready_env \<Rightarrow> ('w, (bool \<times> bool \<times> bool) \<times> string list) work" where
  "probe_database rd =
    (let wb = rd_web rd; production = ac_production (wb_access wb); down = ''database unavailable'' in
     andThen (attempt (rd_ping rd)) (\<lambda>p. case p of
       Inl _ \<Rightarrow> ret ((False, False, \<not> production), [down])
     | Inr database \<Rightarrow>
         let e1 = (if database then [] else [down]) in
         andThen (attempt (case rd_latest rd of
              Some v \<Rightarrow> if database \<and> v \<noteq> [] then rd_hasMigration rd v else ret False | None \<Rightarrow> ret False)) (\<lambda>m. case m of
           Inl _ \<Rightarrow> ret ((database, False, \<not> production), e1 @ [down])
         | Inr schema \<Rightarrow>
             let e2 = e1 @ (if database \<and> \<not> schema then [''database schema is not at ''
               @ (case rd_latest rd of Some v \<Rightarrow> v | None \<Rightarrow> ''the latest migration'')] else []) in
             andThen (if \<not> production then ret True else if \<not> schema then ret False else db_read (wb_env wb) hasAnyProject) (\<lambda>locked.
             ret ((database, schema, locked), e2)))))"

definition long_secret :: "nat \<Rightarrow> string option \<Rightarrow> bool" where
  "long_secret n secret \<longleftrightarrow> (case secret of Some s \<Rightarrow> n \<le> length s | None \<Rightarrow> False)"

definition checks_of :: "'w ready_env \<Rightarrow> string list \<Rightarrow> bool \<times> bool \<times> bool \<Rightarrow> EndpointCheck list \<Rightarrow> Checks" where
  "checks_of rd urls db endpoints =
    (let wb = rd_web rd; expected = expected_genesis rd in
     \<lparr>ch_database = fst db, ch_schema = fst (snd db), ch_rpc = endpoints \<noteq> [] \<and> list_all ep_ok endpoints,
      ch_rpcNetwork = expected_chain rd = None \<or> urls \<noteq> [] \<and> list_all (\<lambda>e. ep_chain e = expected_chain rd) endpoints,
      ch_rpcGenesis = expected = None \<or> urls \<noteq> [] \<and> list_all (\<lambda>e. genesis_is expected (ep_genesisHash e) = Some True) endpoints,
      ch_rpcTransport = \<not> ac_production (wb_access wb) \<or> rd_allowInsecure rd \<or> \<not> list_ex (\<lambda>u. startsWith u ''http:'') urls,
      ch_encryptionKey = long_secret 32 (ac_encryptionKey (wb_access wb)), ch_cronSecret = long_secret 24 (wb_cronSecret wb),
      ch_setupLocked = snd (snd db)\<rparr>)"

definition ready_warnings :: "'w ready_env \<Rightarrow> string list \<Rightarrow> string list" where
  "ready_warnings rd urls =
    (let production = ac_production (wb_access (rd_web rd)) in
     (if production \<and> length urls < 2 then [''only one CKB RPC endpoint configured; add an independent fallback for production''] else [])
     @ (if production \<and> expected_genesis rd = None
        then [''CKB_EXPECTED_GENESIS_HASH is not pinned; configure it to prevent accidental wrong-network RPC use''] else []))"

definition ready_errors :: "Checks \<Rightarrow> string list" where
  "ready_errors c =
     (if ch_rpcTransport c then [] else [''plain HTTP CKB RPC is blocked in production unless CKB_ALLOW_INSECURE_RPC=true''])
     @ (if ch_encryptionKey c then [] else [''encryption key missing or too short''])
     @ (if ch_cronSecret c then [] else [''cron secret missing or too short''])
     @ (if ch_setupLocked c then [] else [''initial project bootstrap has not completed; create the first project through /console/setup''])"

definition checks_json :: "Checks \<Rightarrow> json" where
  "checks_json c = JObj
    [(''database'', JBool (ch_database c)), (''schema'', JBool (ch_schema c)), (''rpc'', JBool (ch_rpc c)),
     (''rpcNetwork'', JBool (ch_rpcNetwork c)), (''rpcGenesis'', JBool (ch_rpcGenesis c)), (''rpcTransport'', JBool (ch_rpcTransport c)),
     (''encryptionKey'', JBool (ch_encryptionKey c)), (''cronSecret'', JBool (ch_cronSecret c)), (''setupLocked'', JBool (ch_setupLocked c))]"

definition strings_json :: "string list \<Rightarrow> json" where
  "strings_json xs = JArr (map JStr xs)"

definition ready_body :: "'w ready_env \<Rightarrow> Checks \<Rightarrow> (string \<times> json) list" where
  "ready_body rd c =
    [(''ok'', JBool (all_checks c)), (''service'', JStr ''cellflow''), (''version'', JStr ''0.3.0''),
     (''releaseSha'', opt_json (ac_commitSha (wb_access (rd_web rd)))), (''status'', publicReadinessStatus c)]"

definition ready_details :: "Checks \<Rightarrow> EndpointCheck list \<Rightarrow> string list \<Rightarrow> string list \<Rightarrow> (string \<times> json) list" where
  "ready_details c endpoints warnings errors =
    [(''checks'', checks_json c), (''rpc'', JObj [(''endpoints'', JArr (map endpointCheck_json endpoints))]),
     (''warnings'', strings_json warnings), (''errors'', strings_json errors)]"

definition no_store :: "int \<Rightarrow> json \<Rightarrow> Response" where
  "no_store status body = \<lparr>rs_status = status, rs_headers = [(''cache-control'', ''no-store, max-age=0'')], rs_body = Some body\<rparr>"

definition GET_ready :: "'w ready_env \<Rightarrow> Request \<Rightarrow> ('w, Response) work" where
  "GET_ready rd rq =
    (let wb = rd_web rd; urls = parseRpcUrls (rn_newURL (wb_env wb)) (rd_rpcUrls rd) in
     andThen (attempt (performAutomaticBootstrap wb)) (\<lambda>boot.
     andThen (probe_database rd) (\<lambda>(db, dbErrors).
     andThen (each (probe_endpoint rd) urls) (\<lambda>probes.
     let endpoints = map fst probes; c = checks_of rd urls db endpoints;
         errors = (case boot of Inl e \<Rightarrow> [''automatic bootstrap failed: '' @ thrown_message e] | Inr _ \<Rightarrow> []) @ dbErrors
           @ (if urls = [] then [''CKB RPC not configured''] else concat (map snd probes)) @ ready_errors c in
     andThen (canSeeDetails wb rq) (\<lambda>detailed.
     ret (no_store (if all_checks c then 200 else 503) (JObj (ready_body rd c
       @ (if detailed then ready_details c endpoints (ready_warnings rd urls) errors else [])))))))))"


section \<open>Health\<close>

definition GET_health :: "'w ready_env \<Rightarrow> Request \<Rightarrow> 'w host net \<Rightarrow> Response \<times> 'w host net" where
  "GET_health rd rq = respond (rd_web rd) rq
    (andThen (routed (rd_ping rd)) (\<lambda>database.
     ret (no_store (if database then 200 else 503) (JObj
       [(''ok'', JBool database), (''database'', JBool database), (''service'', JStr ''cellflow''), (''version'', JStr ''0.3.0'')]))))"

definition GET_healthRpc :: "'w ready_env \<Rightarrow> Request \<Rightarrow> 'w host net \<Rightarrow> Response \<times> 'w host net" where
  "GET_healthRpc rd rq = respond (rd_web rd) rq
    (let env = wb_env (rd_web rd); urls = parseRpcUrls (rn_newURL env) (rd_rpcUrls rd) in
     if urls = [] then ret (json_response 503 (JObj [(''ok'', JBool False), (''error'', JStr ''No CKB RPC endpoint is configured'')]))
     else
       andThen (routed (now_ms env)) (\<lambda>startedAt.
       andThen (routed (getTipHeader (rn_rpc env) urls)) (\<lambda>tip.
       andThen (routed (now_ms env)) (\<lambda>now'.
       if tip = JNull then throw (Thrown (PlainError ''Cannot read properties of null''))
       else ret (json_response 200 (JObj
         [(''ok'', JBool True), (''latencyMs'', JNum (now' - startedAt)), (''configuredEndpoints'', JNum (int (length urls))),
          (''tip'', JObj [(''number'', nullish_or (js_field (asRecord tip) ''number'') JNull),
             (''hash'', nullish_or (js_field (asRecord tip) ''hash'') JNull)])]))))))"


section \<open>The durable run\<close>

datatype Delay = D12s | D20s | D30s | D1m | D2m | D5m

definition workflowDelay :: "int option \<Rightarrow> Delay" where
  "workflowDelay ms = (case ms of None \<Rightarrow> D12s | Some n \<Rightarrow>
     if n \<le> 12000 then D12s else if n \<le> 20000 then D20s else if n \<le> 30000 then D30s
     else if n \<le> 60000 then D1m else if n \<le> 120000 then D2m else D5m)"

record StepResult =
  sp_status :: string
  sp_terminal :: bool
  sp_nextDelay :: Delay

definition reconcileIntentStep :: "'w reconcile_env \<Rightarrow> uuid \<Rightarrow> string \<Rightarrow> ('w, StepResult) work" where
  "reconcileIntentStep env projectId intentId =
     andThen (db_read env (getIntent projectId intentId)) (\<lambda>found. case found of
       None \<Rightarrow> ret \<lparr>sp_status = ''MISSING'', sp_terminal = True, sp_nextDelay = D30s\<rparr>
     | Some aggregate \<Rightarrow>
         andThen (reconcileIntent env aggregate) (\<lambda>r.
         ret \<lparr>sp_status = rr_status r, sp_terminal = rr_terminal r, sp_nextDelay = workflowDelay (rr_nextDelayMs r)\<rparr>))"

definition markWorkflowComplete :: "'w reconcile_env \<Rightarrow> uuid \<Rightarrow> string \<Rightarrow> ('w, unit) work" where
  "markWorkflowComplete env projectId intentId = on_db env (\<lambda>s. (Inr (), markWorkflowCompleted projectId intentId s))"

text \<open>The loop with the iterations left; the engine's \<open>sleep\<close> is a parameter.\<close>

fun workflow_loop :: "'w reconcile_env \<Rightarrow> (Delay \<Rightarrow> 'w host net \<Rightarrow> 'w host net) \<Rightarrow> uuid \<Rightarrow> string \<Rightarrow> nat \<Rightarrow> nat \<Rightarrow> ('w, string \<times> nat) work" where
  "workflow_loop env sleep projectId intentId done 0 =
     andThen (markWorkflowComplete env projectId intentId) (\<lambda>_. ret (''WORKFLOW_HORIZON_REACHED'', done))"
| "workflow_loop env sleep projectId intentId done (Suc left) =
     andThen (reconcileIntentStep env projectId intentId) (\<lambda>result.
     if sp_terminal result then
       andThen (markWorkflowComplete env projectId intentId) (\<lambda>_. ret (sp_status result, Suc done))
     else andThen (modifyState (sleep (sp_nextDelay result))) (\<lambda>_.
       workflow_loop env sleep projectId intentId (Suc done) left))"

definition transactionReconciliationWorkflow ::
    "'w reconcile_env \<Rightarrow> (Delay \<Rightarrow> 'w host net \<Rightarrow> 'w host net) \<Rightarrow> uuid \<Rightarrow> string \<Rightarrow> ('w, string \<times> nat) work" where
  "transactionReconciliationWorkflow env sleep projectId intentId = workflow_loop env sleep projectId intentId 0 720"

end
