(* ===== verification/RouteAccess.thy ===== *)
theory RouteAccess
  imports Routes AccessProperties DeliveryProperties
begin

text \<open>
  What the versioned API lets a request do: nothing without a usable key of the scope of its route,
  and nothing but the key's own bookkeeping on a route that reads.
\<close>

section \<open>Handlers and the database\<close>

text \<open>A computation over the host stays within a relation on the database, however it ends.\<close>

definition kept :: "(db \<Rightarrow> db \<Rightarrow> bool) \<Rightarrow> ('w host net \<Rightarrow> 'b \<times> 'w host net) \<Rightarrow> bool" where
  "kept R m \<longleftrightarrow> (\<forall>n. R (ndb n) (ndb (snd (m n))))"

lemma keptD: "kept R m \<Longrightarrow> m n = (r, t) \<Longrightarrow> R (ndb n) (ndb t)"
  unfolding kept_def by (metis snd_conv)

lemma kept_within: "within R m \<Longrightarrow> kept R m"
  by (simp add: within_def kept_def)

lemma kept_routed: "within R m \<Longrightarrow> kept R (routed m)"
  by (auto simp: within_def kept_def routed_def split_beta)

lemma kept_respond: "kept R m \<Longrightarrow> kept R (respond wb rq m)"
  unfolding kept_def respond_def by (auto split: prod.splits sum.splits) (metis snd_conv)+

context db_preorder
begin

lemma kept_pure: "kept R (ret x)" "kept R (throw e)" "kept R (lift_sum y)" "kept R (readState f)"
  by (simp_all add: kept_def refl)

lemma kept_andThen: "kept R m \<Longrightarrow> (\<And>x. kept R (f x)) \<Longrightarrow> kept R (andThen m f)"
  unfolding kept_def andThen_def by (auto split: prod.splits sum.splits) (metis snd_conv trans)+

lemma kept_parse: "kept R (parse_with wb name schema v)"
  unfolding parse_with_def by (auto intro: kept_pure split: option.split)

lemma kept_routed_pure: "kept R (routed (lift_sum y))" "kept R (routed (throwIf b e))"
  by (auto simp: kept_def routed_def refl)

lemma kept_json: "kept R (readJson wb rq)"
  unfolding readJson_def by (auto intro!: kept_andThen kept_routed_pure kept_pure split: option.split)

lemma reads_within: "quiet R env \<Longrightarrow> within R (db_read env f)"
  unfolding db_read_def by (rule within_on_db) (simp_all add: refl)

end


section \<open>The bookkeeping of keys\<close>

text \<open>Only the times of the keys' last use and the counters of requests differ.\<close>

definition same_key :: "ApiKeyRow \<Rightarrow> ApiKeyRow \<Rightarrow> bool" where
  "same_key k k' \<longleftrightarrow> (\<exists>v. k' = k\<lparr>k_lastUsedAt := v\<rparr>)"

definition touched :: "db \<Rightarrow> db \<Rightarrow> bool" where
  "touched s t \<longleftrightarrow> (\<exists>ks ws. t = s\<lparr>api_keys := ks, rate_limit_windows := ws\<rparr> \<and> list_all2 same_key (api_keys s) ks)"

lemma same_key_refl: "same_key k k"
proof -
  have "k = k\<lparr>k_lastUsedAt := k_lastUsedAt k\<rparr>" by simp
  then show ?thesis unfolding same_key_def by blast
qed

lemma same_key_trans: "same_key k l \<Longrightarrow> same_key l m \<Longrightarrow> same_key k m"
  by (auto simp: same_key_def)

lemma same_keys_refl: "list_all2 same_key ks ks"
  by (rule list.rel_refl) (rule same_key_refl)

lemma touchedI: "list_all2 same_key (api_keys s) ks \<Longrightarrow> touched s (s\<lparr>api_keys := ks, rate_limit_windows := ws\<rparr>)"
  unfolding touched_def by blast

lemma touched_refl: "touched s s"
  using touchedI [OF same_keys_refl, of s "rate_limit_windows s"] by simp

lemma touched_trans:
  assumes "touched s t" and "touched t u"
  shows "touched s u"
proof -
  from assms(1) obtain ks ws where t: "t = s\<lparr>api_keys := ks, rate_limit_windows := ws\<rparr>" and k: "list_all2 same_key (api_keys s) ks"
    unfolding touched_def by blast
  from assms(2) obtain ls vs where u: "u = t\<lparr>api_keys := ls, rate_limit_windows := vs\<rparr>" and l: "list_all2 same_key (api_keys t) ls"
    unfolding touched_def by blast
  have "list_all2 same_key (api_keys s) ls"
    by (rule list_all2_trans [of same_key same_key same_key, OF same_key_trans k]) (use l t in simp_all)
  then have "touched s (s\<lparr>api_keys := ls, rate_limit_windows := vs\<rparr>)" by (rule touchedI)
  then show ?thesis by (simp add: u t)
qed

interpretation touching: db_preorder touched
  by unfold_locales (rule touched_refl, rule touched_trans)

lemma used_keys: "list_all2 same_key ks (sql_update P (\<lambda>k. k\<lparr>k_lastUsedAt := v\<rparr>) ks)"
  by (induction ks) (auto simp: sql_update_def same_key_refl, auto simp: same_key_def)

lemma touched_used: "touched s (s\<lparr>api_keys := sql_update P (\<lambda>k. k\<lparr>k_lastUsedAt := v\<rparr>) (api_keys s)\<rparr>)"
proof -
  have "touched s (s\<lparr>api_keys := sql_update P (\<lambda>k. k\<lparr>k_lastUsedAt := v\<rparr>) (api_keys s), rate_limit_windows := rate_limit_windows s\<rparr>)"
    by (rule touchedI) (rule used_keys)
  then show ?thesis by simp
qed

lemma touched_found: "touched s (snd (findAuthByApiKeyHash hash s))"
  by (simp add: findAuthByApiKeyHash_def touched_refl touched_used split: option.split prod.split)

lemma touched_consumed: "touched s (snd (consumeRateLimit p b l w s))"
  using touchedI [OF same_keys_refl] by (simp add: consumeRateLimit_def Let_def)

lemma rows_touched: "quiet touched (ac_env a) \<Longrightarrow> (\<And>s. touched s (snd (f s))) \<Longrightarrow> within touched (on_rows a f)"
  unfolding on_rows_def by (rule touching.within_on_db) (auto simp: split_beta)

lemma authenticate_touched: "quiet touched (ac_env a) \<Longrightarrow> within touched (authenticateBearer a authorization scope)"
  unfolding authenticateBearer_def Let_def
  by (auto intro!: touching.within_pure touching.within_andThen rows_touched touched_found touched_consumed split: option.split prod.split)


section \<open>The routes\<close>

datatype route =
    R_GET_intents | R_POST_intents | R_GET_intent string | R_POST_prepare string | R_POST_track string | R_POST_preflight string
  | R_POST_broadcasting string | R_POST_submitted string | R_POST_ambiguous string | R_POST_rejected string
  | R_POST_reconcile string | R_POST_notes string | R_GET_evidence string | R_POST_evidence string
  | R_GET_metrics | R_GET_operations | R_GET_projectEvidence | R_POST_projectEvidence
  | R_GET_apiKeys | R_POST_apiKeys | R_DELETE_apiKey string
  | R_GET_webhooks | R_POST_webhooks | R_DELETE_webhook string | R_POST_webhookRetry | R_POST_webhookTest

definition run_route :: "'w web_env \<Rightarrow> Request \<Rightarrow> route \<Rightarrow> 'w host net \<Rightarrow> Response \<times> 'w host net" where
  "run_route wb rq c = (case c of
     R_GET_intents \<Rightarrow> GET_intents wb rq | R_POST_intents \<Rightarrow> POST_intents wb rq | R_GET_intent i \<Rightarrow> GET_intent wb rq i
   | R_POST_prepare i \<Rightarrow> POST_prepare wb rq i | R_POST_track i \<Rightarrow> POST_track wb rq i | R_POST_preflight i \<Rightarrow> POST_preflight wb rq i
   | R_POST_broadcasting i \<Rightarrow> POST_broadcasting wb rq i | R_POST_submitted i \<Rightarrow> POST_submitted wb rq i
   | R_POST_ambiguous i \<Rightarrow> POST_ambiguous wb rq i | R_POST_rejected i \<Rightarrow> POST_rejected wb rq i
   | R_POST_reconcile i \<Rightarrow> POST_reconcile wb rq i | R_POST_notes i \<Rightarrow> POST_notes wb rq i | R_GET_evidence i \<Rightarrow> GET_evidence wb rq i
   | R_POST_evidence i \<Rightarrow> POST_evidence wb rq i | R_GET_metrics \<Rightarrow> GET_metrics wb rq | R_GET_operations \<Rightarrow> GET_operations wb rq
   | R_GET_projectEvidence \<Rightarrow> GET_projectEvidence wb rq | R_POST_projectEvidence \<Rightarrow> POST_projectEvidence wb rq
   | R_GET_apiKeys \<Rightarrow> GET_apiKeys wb rq | R_POST_apiKeys \<Rightarrow> POST_apiKeys wb rq | R_DELETE_apiKey i \<Rightarrow> DELETE_apiKey wb rq i
   | R_GET_webhooks \<Rightarrow> GET_webhooks wb rq | R_POST_webhooks \<Rightarrow> POST_webhooks wb rq | R_DELETE_webhook i \<Rightarrow> DELETE_webhook wb rq i
   | R_POST_webhookRetry \<Rightarrow> POST_webhookRetry wb rq | R_POST_webhookTest \<Rightarrow> POST_webhookTest wb rq)"

text \<open>The scope each route asks for: the policy of the API.\<close>

definition scope_of :: "route \<Rightarrow> ApiKeyScope" where
  "scope_of c = (case c of
     R_GET_intents \<Rightarrow> Scope_read | R_GET_intent i \<Rightarrow> Scope_read | R_GET_evidence i \<Rightarrow> Scope_read | R_GET_metrics \<Rightarrow> Scope_read
   | R_GET_operations \<Rightarrow> Scope_read | R_GET_projectEvidence \<Rightarrow> Scope_read
   | R_POST_intents \<Rightarrow> Scope_write | R_POST_prepare i \<Rightarrow> Scope_write | R_POST_track i \<Rightarrow> Scope_write | R_POST_preflight i \<Rightarrow> Scope_write
   | R_POST_broadcasting i \<Rightarrow> Scope_write | R_POST_submitted i \<Rightarrow> Scope_write | R_POST_ambiguous i \<Rightarrow> Scope_write
   | R_POST_rejected i \<Rightarrow> Scope_write | R_POST_reconcile i \<Rightarrow> Scope_write | R_POST_notes i \<Rightarrow> Scope_write
   | _ \<Rightarrow> Scope_admin)"

definition reading :: "route \<Rightarrow> bool" where
  "reading c \<longleftrightarrow> scope_of c = Scope_read \<or> c = R_GET_apiKeys \<or> c = R_GET_webhooks"

lemmas handler_defs = GET_intents_def POST_intents_def GET_intent_def POST_prepare_def POST_track_def POST_preflight_def
  POST_broadcasting_def POST_submitted_def POST_ambiguous_def POST_rejected_def POST_reconcile_def POST_notes_def
  GET_evidence_def POST_evidence_def GET_metrics_def GET_operations_def GET_projectEvidence_def POST_projectEvidence_def
  GET_apiKeys_def POST_apiKeys_def DELETE_apiKey_def GET_webhooks_def POST_webhooks_def DELETE_webhook_def
  POST_webhookRetry_def POST_webhookTest_def

lemma route_shape: "\<exists>body. run_route wb rq c = respond wb rq (andThen (projectFromRequest wb rq (scope_of c)) body)"
  by (cases c) (auto simp: run_route_def scope_of_def handler_defs)


section \<open>Without a usable key\<close>

definition lacks_key :: "'w access_env \<Rightarrow> string option \<Rightarrow> ApiKeyScope \<Rightarrow> db \<Rightarrow> bool" where
  "lacks_key a authorization scope s \<longleftrightarrow> (\<nexists>header key project. authorization = Some header \<and> startsWith header ''Bearer ''
     \<and> usable_key a (bearer_key header) scope project key s)"

lemma refused:
  assumes "lacks_key a authorization scope (ndb n)" and "rn_others (ac_env a) = id"
    and "authenticateBearer a authorization scope n = (r, n')"
  shows "\<exists>e. r = Inl (ApiError e) \<and> (err_httpStatus e = 401 \<or> err_httpStatus e = 403) \<and> touched (ndb n) (ndb n')"
proof (cases "\<exists>header. authorization = Some header \<and> startsWith header ''Bearer '' \<and> 20 \<le> length (bearer_key header)")
  case False
  with assms(3) show ?thesis
    by (auto simp: authenticateBearer_def bearer_key_def throw_def Let_def api_error_def touching.refl split: option.splits if_splits)
next
  case True
  then obtain header where h: "authorization = Some header" "startsWith header ''Bearer ''" "20 \<le> length (bearer_key header)" by blast
  obtain found t where f: "findAuthByApiKeyHash (hashApiKey a (bearer_key header)) (ndb n) = (found, t)" by fastforce
  have tt: "touched (ndb n) t" using touched_found [of "ndb n" "hashApiKey a (bearer_key header)"] f by simp
  show ?thesis
  proof (cases found)
    case None
    with assms(2,3) h f tt show ?thesis
      by (auto simp: authenticateBearer_def bearer_key_def Let_def andThen_def on_rows_alone ndb_alone throw_def api_error_def)
  next
    case (Some pk)
    obtain project k where pk: "pk = (project, k)" by fastforce
    from f [unfolded Some pk] obtain p key where k: "p \<in> set (projects (ndb n))" "key \<in> set (api_keys (ndb n))" "project = mapProject p"
      "k_projectId key = p_id p" "k_hash key = hashApiKey a (bearer_key header)" "key_active (clock (ndb n)) key"
      "au_id k = k_id key" "au_scopes k = k_scopes key" by (rule auth_found)
    have "\<not> permitted (k_scopes key) scope"
      using assms(1) h k unfolding lacks_key_def usable_key_def list_ex_iff by blast
    with assms(2,3) h f tt k(8) Some pk show ?thesis
      by (auto simp: authenticateBearer_def bearer_key_def Let_def andThen_def on_rows_alone ndb_alone throw_def scope_error_def)
  qed
qed

text \<open>
  Property C3: without a usable key of the scope of its route, in the bearer form, a request to any
  route of the versioned API is answered with 401 or 403 and changes nothing in the database
  but the time of the key's last use.
\<close>

theorem routes_guarded:
  assumes "lacks_key (wb_access wb) (rq_authorization rq) (scope_of c) (ndb n)" and "rn_others (wb_env wb) = id"
    and "run_route wb rq c n = (response, n')"
  shows "(rs_status response = 401 \<or> rs_status response = 403) \<and> touched (ndb n) (ndb n')"
proof -
  obtain body where shape: "run_route wb rq c = respond wb rq (andThen (projectFromRequest wb rq (scope_of c)) body)"
    using route_shape by blast
  obtain r t where a: "authenticateBearer (wb_access wb) (rq_authorization rq) (scope_of c) n = (r, t)" by fastforce
  from refused [OF assms(1,2) a] obtain e where e: "r = Inl (ApiError e)" "err_httpStatus e = 401 \<or> err_httpStatus e = 403"
    "touched (ndb n) (ndb t)" by blast
  with assms(3) a show ?thesis
    by (auto simp: shape respond_def andThen_def projectFromRequest_def routed_def errorResponse_def error_body_def Let_def)
qed


text \<open>A web process over the host with one key of the scope write, which asks to revoke a key.\<close>

definition sample_web :: "unit web_env" where
  "sample_web = \<lparr>wb_access = sample_access, wb_hook = sample_hooks, wb_cursor = sample_cursor_lib, wb_collation = (\<lambda>a b. length a \<le> length b),
     wb_newRequestId = (\<lambda>_. ''request-1''), wb_maxJsonBytes = None, wb_issues = (\<lambda>_ _. JArr []), wb_isUrl = (\<lambda>_. True),
     wb_isUuid = is_uuid_text, wb_dbUuid = (\<lambda>s. Some (length s)), wb_number = (\<lambda>_. None), wb_start = (\<lambda>p i. ret 77),
     wb_migrate = ret (JNull, JArr []), wb_cronSecret = None, wb_reconcileLimit = None, wb_webhookLimit = None,
     wb_autoBootstrap = False, wb_initialAdminKey = None, wb_keySuffix = id, wb_projectName = None, wb_network = None\<rparr>"

definition sample_rq :: Request where
  "sample_rq = \<lparr>rq_authorization = Some ''Bearer cf_live_0123456789abcdef'', rq_requestId = None, rq_contentLength = Some 0,
     rq_text = Inr [], rq_query = []\<rparr>"

lemma sample_web_sel: "wb_access sample_web = sample_access" "rn_others (wb_env sample_web) = id" "ac_env sample_access = sample_env"
  by (simp_all add: sample_web_def sample_access_sel, simp add: sample_access_def)

lemma keyed_lacks: "lacks_key sample_access authorization Scope_admin (ndb keyed_net)"
  by (auto simp: lacks_key_def usable_key_def keyed_net_def ndb_def sample_key_def permitted_def)

theorem routes_guarded_witness:
  "rs_status (fst (run_route sample_web sample_rq (R_DELETE_apiKey ''1'') keyed_net)) \<in> {401, 403}"
proof -
  obtain response n' where "run_route sample_web sample_rq (R_DELETE_apiKey ''1'') keyed_net = (response, n')" by fastforce
  from routes_guarded [OF _ _ this] show ?thesis
    using keyed_lacks by (simp add: sample_web_sel scope_of_def \<open>run_route _ _ _ _ = _\<close>)
qed


section \<open>Routes that read\<close>

lemma list_touched: "quiet touched (ac_env a) \<Longrightarrow> within touched (service_listIntents a lib project limit cursor)"
  unfolding service_listIntents_def by (intro touching.within_andThen touching.within_pure touching.reads_within)

lemma getIntent_touched: "quiet touched env \<Longrightarrow> within touched (service_getIntent env project i)"
  unfolding service_getIntent_def
  by (auto intro!: touching.within_andThen touching.within_pure touching.reads_within split: option.split)

lemma detail_touched: "quiet touched env \<Longrightarrow> within touched (service_intentDetail env project i)"
  unfolding service_intentDetail_def
  by (intro touching.within_andThen touching.within_pure touching.reads_within getIntent_touched)

lemma evidence_touched: "quiet touched env \<Longrightarrow> within touched (service_evidence env le project i False)"
  unfolding service_evidence_def Let_def
  by (auto intro!: touching.within_andThen touching.within_pure touching.reads_within getIntent_touched)

lemma admin_touched:
  assumes "quiet touched (ac_env a)"
  shows "within touched (service_projectMetrics a project)" "within touched (service_operationalHealth a project)"
    "within touched (service_listWebhooks a project)" "within touched (service_listApiKeys a project)"
  unfolding service_projectMetrics_def service_operationalHealth_def service_listWebhooks_def service_listApiKeys_def
  using assms by (auto intro: touching.reads_within)

lemma report_touched: "quiet touched (ac_env a) \<Longrightarrow> within touched (service_projectEvidence a le project False)"
  unfolding service_projectEvidence_def Let_def
  by (auto intro!: touching.within_andThen touching.within_pure admin_touched)

text \<open>
  Property C4: a route that reads (every route of the scope read, and the lists of keys and
  webhooks) changes nothing in the database but the bookkeeping of the key that was presented,
  whatever its answer; so a key of the scope read can be given away for observation.
\<close>

theorem reads_change_nothing:
  assumes "reading c" and "quiet touched (wb_env wb)" and "run_route wb rq c n = (response, n')"
  shows "touched (ndb n) (ndb n')"
proof -
  have p: "kept touched (projectFromRequest wb rq scope)" for scope
    unfolding projectFromRequest_def by (rule kept_routed) (rule authenticate_touched [OF assms(2)])
  note reads = list_touched detail_touched evidence_touched admin_touched report_touched
  have "kept touched (run_route wb rq c)"
    using assms(1,2)
    by (cases c) (auto simp: reading_def scope_of_def run_route_def handler_defs Let_def
        intro!: kept_respond touching.kept_andThen touching.kept_pure p kept_routed reads)
  then show ?thesis using assms(3) by (rule keptD)
qed

theorem reads_change_nothing_witness:
  "touched (ndb keyed_net) (ndb (snd (run_route sample_web sample_rq R_GET_metrics keyed_net)))"
proof -
  obtain response n' where r: "run_route sample_web sample_rq R_GET_metrics keyed_net = (response, n')" by fastforce
  have "quiet touched (wb_env sample_web)" unfolding sample_web_sel by (rule sample_quiet) (rule touched_refl)
  from reads_change_nothing [OF _ this r] show ?thesis by (simp add: r reading_def scope_of_def)
qed

end
