(* ===== verification/OpsProperties.thy ===== *)
theory OpsProperties
  imports OpsRoutes RouteAccess ServiceProperties
begin

text \<open>
  What the operational handlers guarantee: the durable run of an intent ends and is marked, a run is
  claimed by the stored identifier only, and readiness shows its details to administrators only.
\<close>

section \<open>The durable run\<close>

lemma mark_completed:
  assumes "markWorkflowComplete env p i n = (Inr u, t)" and "e \<in> set (executions (ndb t))" and "intent_execution p i (ndb t) e"
  shows "x_workflowCompletedAt e = Some (clock (ndb t))"
proof -
  from on_db_run [OF assms(1) [unfolded markWorkflowComplete_def]] obtain d where t: "ndb t = markWorkflowCompleted p i d" by auto
  with assms(2,3) show ?thesis
    by (auto simp: markWorkflowCompleted_def update_run_def sql_update_def intent_execution_def split: if_splits)
qed

text \<open>
  The state of the world in which the run makes its next pass, after a number of passes that found
  the intent unfinished, each with the pause that follows it; \<open>None\<close> when it does not get that far.
\<close>

fun after_passes ::
    "'w reconcile_env \<Rightarrow> (Delay \<Rightarrow> 'w host net \<Rightarrow> 'w host net) \<Rightarrow> uuid \<Rightarrow> string \<Rightarrow> 'w host net \<Rightarrow> nat \<Rightarrow> 'w host net option" where
  "after_passes env sleep p i n 0 = Some n"
| "after_passes env sleep p i n (Suc k) =
    (case after_passes env sleep p i n k of
       None \<Rightarrow> None
     | Some m \<Rightarrow>
         (case reconcileIntentStep env p i m of
            (Inr result, t) \<Rightarrow> if sp_terminal result then None else Some (sleep (sp_nextDelay result) t)
          | (Inl e, t) \<Rightarrow> None))"

text \<open>How the run ends: by a pass that throws, by a pass that finds the intent finished, or at the horizon.\<close>

definition run_end ::
    "'w reconcile_env \<Rightarrow> (Delay \<Rightarrow> 'w host net \<Rightarrow> 'w host net) \<Rightarrow> uuid \<Rightarrow> string \<Rightarrow> 'w host net
      \<Rightarrow> (thrown + string \<times> nat) \<Rightarrow> 'w host net \<Rightarrow> bool" where
  "run_end env sleep p i n r t \<longleftrightarrow>
     (\<exists>k < 720. \<exists>m. after_passes env sleep p i n k = Some m
        \<and> ((\<exists>e. reconcileIntentStep env p i m = (Inl e, t) \<and> r = Inl e)
           \<or> (\<exists>result u. reconcileIntentStep env p i m = (Inr result, u) \<and> sp_terminal result
                \<and> r = Inr (sp_status result, Suc k) \<and> markWorkflowComplete env p i u = (Inr (), t))))
     \<or> (\<exists>m. after_passes env sleep p i n 720 = Some m \<and> r = Inr (''WORKFLOW_HORIZON_REACHED'', 720)
          \<and> markWorkflowComplete env p i m = (Inr (), t))"

lemma mark_returns: "\<exists>t. markWorkflowComplete env p i n = (Inr (), t)"
  by (auto simp: markWorkflowComplete_def on_db_def Let_def)

lemma loop_end:
  assumes "after_passes env sleep p i n0 k = Some n" and "k + left = 720" and "workflow_loop env sleep p i k left n = (r, t)"
  shows "run_end env sleep p i n0 r t"
  using assms
proof (induction left arbitrary: k n)
  case 0
  obtain u where m: "markWorkflowComplete env p i n = (Inr (), u)" using mark_returns by blast
  with 0 have "r = Inr (''WORKFLOW_HORIZON_REACHED'', 720)" "u = t" by (auto simp: andThen_def)
  with 0 m show ?case by (auto simp: run_end_def)
next
  case (Suc left)
  have k: "k < 720" using Suc.prems(2) by simp
  obtain x u where s: "reconcileIntentStep env p i n = (x, u)" by fastforce
  show ?case
  proof (cases x)
    case (Inl e)
    with Suc.prems s have "reconcileIntentStep env p i n = (Inl e, t) \<and> r = Inl e" by (auto simp: andThen_def)
    with k Suc.prems(1) show ?thesis unfolding run_end_def by blast
  next
    case (Inr result)
    obtain v where m: "markWorkflowComplete env p i u = (Inr (), v)" using mark_returns by blast
    show ?thesis
    proof (cases "sp_terminal result")
      case True
      with Suc.prems s Inr m have "r = Inr (sp_status result, Suc k)" "v = t" by (auto simp: andThen_def)
      with k Suc.prems(1) s Inr True m show ?thesis unfolding run_end_def by blast
    next
      case False
      with Suc.prems s Inr have "workflow_loop env sleep p i (Suc k) left (sleep (sp_nextDelay result) u) = (r, t)"
        by (simp add: andThen_def)
      moreover have "after_passes env sleep p i n0 (Suc k) = Some (sleep (sp_nextDelay result) u)"
        using Suc.prems(1) s Inr False by simp
      ultimately show ?thesis using Suc.IH [of "Suc k"] Suc.prems(2) by simp
    qed
  qed
qed

lemma ended_marked: "run_end env sleep p i n (Inr x) t \<Longrightarrow> \<exists>m. markWorkflowComplete env p i m = (Inr (), t)"
  by (auto simp: run_end_def)

text \<open>
  Property C15: the durable run of an intent always ends, in one of three ways: a pass among the
  first 720 throws, and the run fails with that error; or such a pass finds the intent finished, and
  the run reports its status and the number of passes; or all 720 passes found it unfinished and the
  run reports the horizon. In the last two ways the last act of the run marks it as ended: then every
  row of the intent has the time of the end, so that a later start may claim a new run.
\<close>

theorem workflow_completes:
  assumes "transactionReconciliationWorkflow env sleep p i n = (r, t)"
  shows "run_end env sleep p i n r t
    \<and> ((\<exists>x. r = Inr x) \<longrightarrow> (\<forall>e \<in> set (executions (ndb t)). intent_execution p i (ndb t) e
          \<longrightarrow> x_workflowCompletedAt e = Some (clock (ndb t))))"
proof -
  have e: "run_end env sleep p i n r t"
    by (rule loop_end [OF _ _ assms [unfolded transactionReconciliationWorkflow_def]]) simp_all
  then show ?thesis by (auto dest!: ended_marked intro: mark_completed)
qed

text \<open>A run over an intent that never gets a transaction: it is polled up to the horizon.\<close>

definition idle_net :: "unit host net" where
  "idle_net = \<lparr>nt_failures = (\<lambda>_. None), nt_world = \<lparr>h_db = sample_db, h_world = ()\<rparr>\<rparr>"

lemma idle_step: "reconcileIntentStep sample_env 0 ''order-1'' idle_net
    = (Inr \<lparr>sp_status = overall_name (deriveOverallStatus (snapshotFromExecution sample_row)), sp_terminal = False, sp_nextDelay = D12s\<rparr>,
       idle_net)"
proof -
  have g: "getIntent 0 ''order-1'' (h_db (nt_world idle_net)) = Some sample_aggregate"
    using sample_aggregate_read by (simp add: idle_net_def)
  have "x_txHash (ag_execution sample_aggregate) = None" "ag_execution sample_aggregate = sample_row"
    by (simp_all add: sample_defs)
  then have "reconcileIntent sample_env sample_aggregate m = (Inr (untracked_result sample_aggregate), m)" for m
    by (simp add: reconcileIntent_def numeral_3_eq_3 tryCatch_def reconcileIntentOnce_def once_body_def or_null_def)
  then show ?thesis
    by (simp add: reconcileIntentStep_def db_read_def on_db_def Let_def andThen_def g untracked_result_def workflowDelay_def
        \<open>ag_execution sample_aggregate = sample_row\<close>)
qed

lemma idle_loop: "workflow_loop sample_env (\<lambda>_ n. n) 0 ''order-1'' k left idle_net
    = workflow_loop sample_env (\<lambda>_ n. n) 0 ''order-1'' (k + left) 0 idle_net"
proof (induction left arbitrary: k)
  case (Suc left)
  have "workflow_loop sample_env (\<lambda>_ n. n) 0 ''order-1'' k (Suc left) idle_net
    = workflow_loop sample_env (\<lambda>_ n. n) 0 ''order-1'' (Suc k) left idle_net"
    by (simp add: andThen_def idle_step modifyState_def)
  with Suc.IH [of "Suc k"] show ?case by (simp del: workflow_loop.simps)
qed simp

theorem workflow_completes_witness:
  "\<exists>t. transactionReconciliationWorkflow sample_env (\<lambda>_ n. n) 0 ''order-1'' idle_net
        = (Inr (''WORKFLOW_HORIZON_REACHED'', 720), t)
     \<and> list_ex (\<lambda>e. x_workflowCompletedAt e = Some (clock (ndb t))) (executions (ndb t))"
proof -
  have "\<exists>t. workflow_loop sample_env (\<lambda>_ n. n) 0 ''order-1'' (0 + 720) 0 idle_net = (Inr (''WORKFLOW_HORIZON_REACHED'', 720), t)
    \<and> (\<exists>e \<in> set (executions (ndb t)). intent_execution 0 ''order-1'' (ndb t) e)"
    by (simp add: markWorkflowComplete_def on_db_def Let_def andThen_def idle_net_def markWorkflowCompleted_def update_run_def
        sql_update_def intent_execution_def ndb_def sample_defs)
  then obtain t where r: "transactionReconciliationWorkflow sample_env (\<lambda>_ n. n) 0 ''order-1'' idle_net
        = (Inr (''WORKFLOW_HORIZON_REACHED'', 720), t)"
    and e: "\<exists>e \<in> set (executions (ndb t)). intent_execution 0 ''order-1'' (ndb t) e"
    by (auto simp only: transactionReconciliationWorkflow_def idle_loop [of 0 720])
  with workflow_completes [OF r] show ?thesis by (auto simp: list_ex_iff)
qed


section \<open>Claiming a run\<close>

text \<open>
  Property C16: a run is claimed under the identifier of the request as it is, whereas the service
  trims it: for an identifier with spaces around it the service finds the intent, but no run is
  started, whatever the workflow engine, no row changes and the answer is "already-active".
\<close>

theorem padded_id_starts_nothing:
  assumes "service_getIntent (wb_env wb) project i n = (Inr ag, m)" and "normalizeIntentId i \<noteq> Inr i"
    and "\<forall>j \<in> set (intents (ndb m)). normalizeIntentId (i_intentId j) = Inr (i_intentId j)" and "rn_others (wb_env wb) = id"
  shows "\<exists>m'. startReconciliationWorkflow wb (p_id project) i m = (Inr None, m') \<and> executions (ndb m') = executions (ndb m)
    \<and> run_json None = JStr ''already-active''"
proof -
  have none: "\<not> intent_execution (p_id project) i s e" if "intents s = intents (ndb m)" for s e
    using assms(2,3) that by (auto simp: intent_execution_def list_ex_iff)
  have noint: "getIntent (p_id project) i s = None" if "intents s = intents (ndb m)" for s
    using assms(2,3) that by (auto simp: getIntent_def Let_def split: option.split dest!: sql_first_Some)
  let ?s = "(ndb m)\<lparr>next_uuid := Suc (next_uuid (ndb m))\<rparr>"
  have c: "claimWorkflowStart (p_id project) i (next_uuid (ndb m)) ?s = (None, ?s)"
    using none [of ?s] noint [of ?s] by (simp add: claimWorkflowStart_def Let_def update_run_def sql_update_noop)
  then show ?thesis
    using assms(4) by (simp add: startReconciliationWorkflow_def new_uuid_def andThen_def on_rows_def on_db_def ndb_def run_json_def Let_def)
qed


definition live_web :: "unit web_env" where
  "live_web = sample_web\<lparr>wb_access := sample_access\<lparr>ac_env := live_env\<rparr>\<rparr>"

lemma live_web_sel [simp]: "wb_access live_web = sample_access\<lparr>ac_env := live_env\<rparr>"
  by (simp add: live_web_def)

lemma padded: "normalizeIntentId '' order-1 '' = Inr ''order-1''"
  by code_simp

theorem padded_id_starts_nothing_witness:
  "\<exists>m'. service_getIntent live_env sample_project '' order-1 '' prepared_net = (Inr (sample_aggregate\<lparr>ag_execution := prepared_row\<rparr>), prepared_net)
     \<and> startReconciliationWorkflow live_web 0 '' order-1 '' prepared_net = (Inr None, m')"
proof -
  have g: "service_getIntent (wb_env live_web) sample_project '' order-1 '' prepared_net
      = (Inr (sample_aggregate\<lparr>ag_execution := prepared_row\<rparr>), prepared_net)"
    using prepared_read by (simp add: service_getIntent_def order_1 padded)
  have "\<forall>j \<in> set (intents (ndb prepared_net)). normalizeIntentId (i_intentId j) = Inr (i_intentId j)"
    by (simp add: prepared_net_def ndb_def sample_defs order_1)
  from padded_id_starts_nothing [OF g _ this] g show ?thesis by (auto simp: padded sample_project_def)
qed


section \<open>Readiness\<close>

lemma ready_code: "(publicReadinessStatus c = ready_status ''READY'' ''All production readiness checks passed.'' JNull) = all_checks c"
  by (auto simp: publicReadinessStatus_def all_checks_def ready_status_def)

lemma probe_returns: "\<exists>x t. probe_endpoint rd url n = (Inr x, t)"
  by (auto simp: probe_endpoint_def Let_def tryCatch_def split: prod.split sum.split)

lemma each_returns: "(\<And>x n. \<exists>y t. f x n = (Inr y, t)) \<Longrightarrow> \<exists>ys t. each f xs n = (Inr ys, t)"
proof (induction xs arbitrary: n)
  case (Cons x xs)
  from Cons.prems obtain y t where "f x n = (Inr y, t)" by blast
  moreover from Cons.IH [OF Cons.prems] obtain ys u where "each f xs t = (Inr ys, u)" by blast
  ultimately show ?case by (simp add: andThen_def)
qed simp

lemma attempt_returns: "\<exists>x t. attempt m n = (Inr x, t)"
  by (auto simp: attempt_def andThen_def tryCatch_def split: prod.split sum.split)

lemma database_returns: "\<exists>x t. probe_database rd n = (Inr x, t)"
proof -
  obtain p t where p: "attempt (rd_ping rd) n = (Inr p, t)" using attempt_returns [of "rd_ping rd" n] by blast
  show ?thesis
  proof (cases p)
    case (Inr database)
    obtain m u where m: "attempt (case rd_latest rd of
        Some v \<Rightarrow> if database \<and> v \<noteq> [] then rd_hasMigration rd v else ret False | None \<Rightarrow> ret False) t = (Inr m, u)"
      using attempt_returns [of "case rd_latest rd of
        Some v \<Rightarrow> if database \<and> v \<noteq> [] then rd_hasMigration rd v else ret False | None \<Rightarrow> ret False" t] by blast
    with p Inr show ?thesis
      by (cases m) (auto simp: probe_database_def Let_def andThen_def db_read_def on_db_def)
  qed (use p in \<open>auto simp: probe_database_def Let_def andThen_def\<close>)
qed

lemma details_return: "\<exists>x t. canSeeDetails wb rq n = (Inr x, t)"
proof -
  obtain a t where "attempt (authenticateBearer (wb_access wb) (rq_authorization rq) Scope_admin) n = (Inr a, t)"
    using attempt_returns [of "authenticateBearer (wb_access wb) (rq_authorization rq) Scope_admin" n] by blast
  then show ?thesis by (auto simp: canSeeDetails_def andThen_def)
qed

lemma details_only:
  assumes "canSeeDetails wb rq n = (Inr detailed, t)"
  shows "detailed \<longrightarrow> ac_production (wb_access wb) \<longrightarrow>
    (\<exists>header project key d. rq_authorization rq = Some header \<and> usable_key (wb_access wb) (bearer_key header) Scope_admin project key d)"
proof (intro impI)
  assume "detailed" "ac_production (wb_access wb)"
  with assms obtain x u project where a: "authenticateBearer (wb_access wb) (rq_authorization rq) Scope_admin n = (Inr project, u)"
    by (auto simp: canSeeDetails_def elim!: attempt_cases split: sum.splits) (metis sum.collapse(2))
  from authenticated [OF a] show "\<exists>header project key d. rq_authorization rq = Some header
    \<and> usable_key (wb_access wb) (bearer_key header) Scope_admin project key d" by blast
qed

text \<open>
  The readiness check always answers, with 200 exactly when all nine checks hold,
  which is also when its public status is READY; in production, what the checks found (endpoints,
  errors, warnings) is added only for a request with a usable administrator key.
\<close>

theorem ready_guarded:
  assumes "GET_ready rd rq n = (r, t)"
  shows "\<exists>c response. r = Inr response \<and> (rs_status response = 200 \<longleftrightarrow> all_checks c)
    \<and> (publicReadinessStatus c = ready_status ''READY'' ''All production readiness checks passed.'' JNull \<longleftrightarrow> all_checks c)
    \<and> (rs_body response = Some (JObj (ready_body rd c))
       \<or> (\<exists>endpoints warnings errors. rs_body response = Some (JObj (ready_body rd c @ ready_details c endpoints warnings errors)))
         \<and> (ac_production (wb_access (rd_web rd)) \<longrightarrow> (\<exists>header project key d. rq_authorization rq = Some header
              \<and> usable_key (wb_access (rd_web rd)) (bearer_key header) Scope_admin project key d)))"
proof -
  obtain boot n1 where b: "attempt (performAutomaticBootstrap (rd_web rd)) n = (Inr boot, n1)"
    using attempt_returns [of "performAutomaticBootstrap (rd_web rd)" n] by blast
  obtain db dbErrors n2 where d: "probe_database rd n1 = (Inr (db, dbErrors), n2)" using database_returns [of rd n1] by auto
  obtain probes n3 where p: "each (probe_endpoint rd) (parseRpcUrls (rn_newURL (wb_env (rd_web rd))) (rd_rpcUrls rd)) n2 = (Inr probes, n3)"
    using each_returns [of "probe_endpoint rd", OF probe_returns] by blast
  obtain detailed n4 where s: "canSeeDetails (rd_web rd) rq n3 = (Inr detailed, n4)"
    using details_return [of "rd_web rd" rq n3] by blast
  define c where "c = checks_of rd (parseRpcUrls (rn_newURL (wb_env (rd_web rd))) (rd_rpcUrls rd)) db (map fst probes)"
  let ?urls = "parseRpcUrls (rn_newURL (wb_env (rd_web rd))) (rd_rpcUrls rd)"
  define errors where "errors = (case boot of Inl e \<Rightarrow> [''automatic bootstrap failed: '' @ thrown_message e] | Inr _ \<Rightarrow> []) @ dbErrors
     @ (if ?urls = [] then [''CKB RPC not configured''] else concat (map snd probes)) @ ready_errors c"
  have r: "r = Inr (no_store (if all_checks c then 200 else 503) (JObj (ready_body rd c
      @ (if detailed then ready_details c (map fst probes) (ready_warnings rd ?urls) errors else []))))"
    using assms unfolding GET_ready_def Let_def errors_def c_def by (simp add: andThen_def b d p s)
  have "rs_status (no_store (if all_checks c then 200 else 503) x) = 200 \<longleftrightarrow> all_checks c" for x by (simp add: no_store_def)
  with r ready_code [of c] details_only [OF s] show ?thesis
    by (cases detailed) (auto simp: no_store_def)
qed

definition sample_ready :: "unit ready_env" where
  "sample_ready = \<lparr>rd_web = sample_web, rd_rpcUrls = [], rd_allowInsecure = False, rd_host = id, rd_ping = ret True,
     rd_latest = Some ''009'', rd_hasMigration = (\<lambda>_. ret True)\<rparr>"

theorem ready_guarded_witness:
  "\<exists>c response. fst (GET_ready sample_ready sample_rq keyed_net) = Inr response \<and> (rs_status response = 200 \<longleftrightarrow> all_checks c)"
proof -
  obtain r t where g: "GET_ready sample_ready sample_rq keyed_net = (r, t)" by fastforce
  from ready_guarded [OF g] obtain c response where "r = Inr response" "rs_status response = 200 \<longleftrightarrow> all_checks c" by blast
  with g show ?thesis by auto
qed

end
