(* ===== verification/ServedClient.thy ===== *)
theory ServedClient
  imports RouteAccess ClientProperties ServiceProperties
begin

text \<open>
  The client of packages/ccc talking to the handlers of apps/web: a network that may lose a request
  or a response between the two, and what a success that the client sees says of the service.
\<close>

section \<open>The server behind the client's network\<close>

text \<open>
  The routes of intents as the framework maps paths to files, and the request a handler sees. The
  framework's decoding of a path segment is a parameter.
\<close>

definition intent_posts :: "(string \<times> (string \<Rightarrow> route)) list" where
  "intent_posts = [(''prepare'', R_POST_prepare), (''track'', R_POST_track), (''preflight'', R_POST_preflight),
     (''broadcasting'', R_POST_broadcasting), (''submitted'', R_POST_submitted), (''ambiguous'', R_POST_ambiguous),
     (''rejected'', R_POST_rejected), (''reconcile'', R_POST_reconcile)]"

definition intent_route :: "(string \<Rightarrow> string) \<Rightarrow> string option \<Rightarrow> string \<Rightarrow> route option" where
  "intent_route decode' method' path =
    (let segments = split_on CHR ''/'' path in
     if take 4 segments \<noteq> [[], ''api'', ''v1'', ''intents''] then None
     else if method' = Some ''POST'' then
       (case drop 4 segments of
          [] \<Rightarrow> Some R_POST_intents
        | [i, action] \<Rightarrow> map_option (\<lambda>r. r (decode' i)) (map_of intent_posts action)
        | _ \<Rightarrow> None)
     else (case drop 4 segments of [i] \<Rightarrow> Some (R_GET_intent (decode' i)) | _ \<Rightarrow> None))"

definition request_of :: "FetchRequest \<Rightarrow> Request" where
  "request_of rq =
    (let text = (case fq_body rq of None \<Rightarrow> [] | Some b \<Rightarrow> b) in
     \<lparr>rq_authorization = map_of (fq_headers rq) ''authorization'', rq_requestId = map_of (fq_headers rq) ''x-request-id'',
      rq_contentLength = Some (int (length (utf8_encode text))), rq_text = Inr text, rq_query = []\<rparr>)"

text \<open>A deployment; the network may lose a request, before the handler runs, or its response.\<close>

record 'w deployment =
  dl_web :: "'w web_env"
  dl_options :: ClientOptions
  dl_decode :: "string \<Rightarrow> string"
  dl_requestLost :: "FetchRequest \<Rightarrow> 'w host net \<Rightarrow> js_error option"
  dl_responseLost :: "FetchRequest \<Rightarrow> 'w host net \<Rightarrow> js_error option"
  dl_sleep :: "int \<Rightarrow> 'w host net \<Rightarrow> 'w host net"
  dl_now :: "'w host net \<Rightarrow> timestamp"
  dl_aborted :: "'w host net \<Rightarrow> js_error option"

definition served_fetch :: "'w deployment \<Rightarrow> int \<Rightarrow> FetchRequest \<Rightarrow> 'w host net \<Rightarrow> Exchange \<times> 'w host net" where
  "served_fetch dl ms rq n =
    (case dl_requestLost dl rq n of Some e \<Rightarrow> (FetchFailed e, n) | None \<Rightarrow>
     (case intent_route (dl_decode dl) (fq_method rq) (drop (length (client_endpoint (dl_options dl))) (fq_url rq)) of
        None \<Rightarrow> (Responded 404 None, n)
      | Some c \<Rightarrow>
          (case run_route (dl_web dl) (request_of rq) c n of (response, t) \<Rightarrow>
             (case dl_responseLost dl rq t of Some e \<Rightarrow> (FetchFailed e, t)
              | None \<Rightarrow> (Responded (rs_status response) (rs_body response), t)))))"

definition served_env :: "'w deployment \<Rightarrow> 'w host net client_env" where
  "served_env dl = \<lparr>ce_options = dl_options dl, ce_fetch = served_fetch dl, ce_sleep = dl_sleep dl, ce_now = dl_now dl,
     ce_aborted = dl_aborted dl\<rparr>"


section \<open>What an answer says\<close>

text \<open>Every step of the client is an exchange or a pause.\<close>

inductive client_step :: "'s client_env \<Rightarrow> 's \<Rightarrow> 's \<Rightarrow> bool" for env where
  "client_step env s (snd (ce_fetch env ms rq s))"
| "client_step env s (ce_sleep env ms s)"

interpretation stepping: exchange_relation env "(client_step env)\<^sup>*\<^sup>*"
  by unfold_locales (auto intro: client_step.intros)

lemma rounds_answer:
  assumes "request_rounds env path init d tm number k s = (Inr payload, t)"
  shows "\<exists>u status body. (client_step env)\<^sup>*\<^sup>* s u \<and> ce_fetch env tm (fetch_request (ce_options env) path init) u = (Responded status body, t)
    \<and> read_response status body = Inr payload"
  using assms
proof (induction k arbitrary: number s)
  case (Suc k)
  let ?rq = "fetch_request (ce_options env) path init"
  from Suc.prems have r: "(case ce_fetch env tm ?rq s of
       (Responded status body, t) \<Rightarrow> lift_sum (read_response status body) t
     | (FetchAborted e, t) \<Rightarrow> (Inl (OtherError e), t)
     | (FetchFailed e, t) \<Rightarrow>
         if k = 0 then (Inl (transport_error path e), t)
         else andThen (delayUnlessAborted env (min 30000 (d * int number)) (ri_signal init))
           (\<lambda>_. request_rounds env path init d tm (Suc number) k) t) = (Inr payload, t)"
    by (auto elim!: andThen_InrE simp: throwIfAborted_def split: option.splits)
  obtain x v where f: "ce_fetch env tm ?rq s = (x, v)" by fastforce
  have v: "(client_step env)\<^sup>*\<^sup>* s v" using client_step.intros(1) [of env s tm ?rq] f by auto
  show ?case
  proof (cases x)
    case (Responded status body)
    with r f show ?thesis by (intro exI [of _ s] exI [of _ status] exI [of _ body]) auto
  next
    case (FetchFailed e)
    with r f obtain y u where y: "delayUnlessAborted env (min 30000 (d * int number)) (ri_signal init) v = (y, u)"
      and n: "request_rounds env path init d tm (Suc number) k u = (Inr payload, t)"
      by (auto split: if_splits elim!: andThen_InrE)
    have "(client_step env)\<^sup>*\<^sup>* s u" using keepsD [OF stepping.delay_keeps y] v by (rule rtranclp_trans [rotated])
    with Suc.IH [OF n] show ?thesis by (meson rtranclp_trans)
  qed (use r f in simp)
qed (simp add: throw_def)

lemma post_answer:
  assumes "post_intent env path body s = (Inr v, t)"
  shows "\<exists>u status b payload. (client_step env)\<^sup>*\<^sup>* s u \<and> ce_fetch env (boundedMilliseconds (cx_requestTimeoutMs (ce_options env)) 30000 300000)
      (fetch_request (ce_options env) path (post_init (json_stringify body))) u = (Responded status b, t)
    \<and> response_ok status"
proof -
  from assms obtain payload t' where q: "request env path (post_init (json_stringify body)) s = (Inr payload, t')"
    and i: "intent_of payload t' = (Inr v, t)"
    by (auto simp: post_intent_def elim!: andThen_InrE)
  have "t' = t" using i by (auto simp: intent_of_def throw_def ret_def split: json.splits)
  with rounds_answer [OF q [unfolded request_def Let_def]] show ?thesis
    by (fastforce simp: read_response_def split: option.splits if_splits)
qed

lemma upper_hex_slash: "CHR ''/'' \<notin> set (upper_hex b)"
proof -
  have "list_all is_hex_lower (byte_hex b)"
    using radix_string_hex [of 16 b] by (auto simp: byte_hex_def hex_string_def Let_def is_hex_lower_def is_digit_def)
  moreover have "char_of (k - 32) \<noteq> CHR ''/''" if "97 \<le> k" "k \<le> 102" for k :: nat
  proof
    assume "char_of (k - 32) = CHR ''/''"
    then have "(of_char (char_of (k - 32)) :: nat) = 47" by simp
    with that show False by simp
  qed
  ultimately show ?thesis
    by (auto simp: upper_hex_def list_all_iff is_hex_lower_def is_digit_def split: if_splits) metis
qed

lemma encoded_segment: "CHR ''/'' \<notin> set (encodeURIComponent s)"
  using upper_hex_slash by (auto simp: encodeURIComponent_def uri_unreserved_def is_alnum_def is_digit_def split: if_splits)

lemma intent_path_route:
  assumes "map_of intent_posts action = Some r" and "decode' (encodeURIComponent i) = i" and "CHR ''/'' \<notin> set action"
  shows "intent_route decode' (Some ''POST'') (intent_path i (CHR ''/'' # action)) = Some (r i)"
proof -
  have "split_on CHR ''/'' (intent_path i (CHR ''/'' # action)) = [[], ''api'', ''v1'', ''intents'', encodeURIComponent i, action]"
    by (simp add: intent_path_def split_on_append [OF encoded_segment] split_on_none [OF assms(3)])
  with assms(1,2) show ?thesis by (simp add: intent_route_def)
qed


section \<open>Refusals are not successes\<close>

definition plain_refusal :: "thrown \<Rightarrow> bool" where
  "plain_refusal e \<longleftrightarrow> (case e of ApiError x \<Rightarrow> 400 \<le> err_httpStatus x | _ \<Rightarrow> True)"

definition refuses :: "('s, thrown, 'a) action \<Rightarrow> bool" where
  "refuses m \<longleftrightarrow> (\<forall>s e t. m s = (Inl e, t) \<longrightarrow> plain_refusal e)"

lemma refuses_pure: "refuses (ret x)" "refuses (readState f)" "refuses (modifyState g)" "plain_refusal e \<Longrightarrow> refuses (throw e)"
  by (auto simp: refuses_def)

lemma refuses_andThen: "refuses m \<Longrightarrow> (\<And>x. refuses (f x)) \<Longrightarrow> refuses (andThen m f)"
  unfolding refuses_def by (blast elim: andThen_InlE)

lemma refuses_tryCatch: "refuses m \<Longrightarrow> (\<And>e. refuses (f e)) \<Longrightarrow> refuses (tryCatch m f)"
  unfolding refuses_def tryCatch_def by (auto split: prod.splits sum.splits)

lemma plain_api: "plain_refusal (api_error c m k) \<longleftrightarrow> 400 \<le> k" "plain_refusal OptimisticConcurrencyError"
  "plain_refusal (PlainError p)" "plain_refusal (ConstraintViolation p)" "plain_refusal (ApiError x) \<longleftrightarrow> 400 \<le> err_httpStatus x"
  by (simp_all add: plain_refusal_def api_error_def)

lemma refuses_on_db: "(\<And>d e t. m d = (Inl e, t) \<Longrightarrow> plain_refusal e) \<Longrightarrow> refuses (on_db env m)"
  by (auto simp: refuses_def on_db_def Let_def split: prod.splits)

lemma refuses_rows: "refuses (on_rows a f)"
  unfolding on_rows_def by (rule refuses_on_db) (auto split: prod.splits)

lemma refuses_read: "refuses (db_read env f)"
  unfolding db_read_def by (rule refuses_on_db) simp

lemma refuses_getIntent: "refuses (service_getIntent env project i)"
proof -
  have "refuses (lift_api (normalizeIntentId i))"
    by (auto simp: refuses_def lift_api_def normalizeIntentId_def Let_def plain_api split: if_splits)
  then show ?thesis
    unfolding service_getIntent_def
    by (auto intro!: refuses_andThen refuses_read refuses_pure simp: plain_api split: option.split)
qed

lemma refuses_update: "refuses (lift_api (updateSubmission s status))"
  by (auto simp: refuses_def lift_api_def updateSubmission_def Let_def plain_api split: if_splits)

lemma refuses_mark: "refuses (service_markSubmission env project i status failure)"
proof -
  have m: "refuses (on_db env (markSubmissionStatus (rn_jsonb env) input))" for input
    by (rule refuses_on_db) (auto simp: markSubmissionStatus_def mark_tx_def Let_def update_execution_def sum_bind_def plain_api
        split: sum.splits option.splits if_splits)
  have p: "refuses (mark_prepare env project i status failure)"
    unfolding mark_prepare_def
    by (auto intro!: refuses_andThen refuses_getIntent refuses_update refuses_pure simp: plain_api)
  have k: "refuses (mark_rounds env project i status failure k)" for k
  proof (induction k)
    case (Suc k)
    have "refuses (tryCatch (andThen (on_db env (markSubmissionStatus (rn_jsonb env) input)) (\<lambda>updated. ret (executionPublicView updated)))
       (\<lambda>e. if e \<noteq> OptimisticConcurrencyError \<or> k = 0 then throw e else mark_rounds env project i status failure k))" for input
    proof -
      let ?m = "andThen (on_db env (markSubmissionStatus (rn_jsonb env) input)) (\<lambda>updated. ret (executionPublicView updated))"
      have "refuses ?m" by (intro refuses_andThen m refuses_pure)
      then show ?thesis
        using Suc.IH unfolding refuses_def tryCatch_def by (auto simp: throw_def split: prod.splits sum.splits if_splits)
    qed
    then show ?case by (auto intro!: refuses_andThen p)
  qed (simp add: refuses_def plain_api)
  show ?thesis
    unfolding service_markSubmission_def by (auto intro!: k refuses_pure simp: plain_api split: option.split)
qed

lemma refuses_auth: "refuses (authenticateBearer a authorization scope)"
  unfolding authenticateBearer_def Let_def
  by (auto intro!: refuses_andThen refuses_rows refuses_pure simp: plain_api scope_error_def split: option.split prod.split)

lemma refuses_event: "refuses (preflight_event env ag kind reason raw)"
  unfolding preflight_event_def Let_def by (rule refuses_on_db) (auto simp: appendEvent_def Let_def split: prod.splits)

lemma refuses_preflight: "refuses (service_preflight env project i)"
proof -
  have v: "refuses (preflight_verdict env ag x)" if "\<And>e. x = Inl e \<Longrightarrow> plain_refusal e" for ag x
    using that unfolding preflight_verdict_def
    by (auto intro!: refuses_andThen refuses_event refuses_pure simp: plain_api blocked_error_def Let_def split: sum.split)
  have "refuses (andThen (attempt (inspectInputOutPoints (rn_rpc env) urls inputs identity)) (preflight_verdict env ag))"
    if "urls \<noteq> []" for urls inputs identity ag
    unfolding refuses_def
  proof (intro allI impI)
    fix n e t assume r: "andThen (attempt (inspectInputOutPoints (rn_rpc env) urls inputs identity)) (preflight_verdict env ag) n = (Inl e, t)"
    from r obtain x m where x: "inspectInputOutPoints (rn_rpc env) urls inputs identity n = (x, m)"
      and y: "preflight_verdict env ag x m = (Inl e, t)" by (rule attempt_cases)
    have "plain_refusal f" if "x = Inl f" for f
      using failover_exhausts [OF x [unfolded inspectInputOutPoints_def that]] \<open>urls \<noteq> []\<close> by (auto simp: plain_api)
    then have "refuses (preflight_verdict env ag x)" by (rule v)
    with y show "plain_refusal e" by (auto simp: refuses_def)
  qed
  then show ?thesis
    unfolding service_preflight_def Let_def
    by (auto intro!: refuses_andThen [OF refuses_getIntent] refuses_pure simp: plain_api)
qed


section \<open>What a success of the client says\<close>

lemma respond_ok:
  assumes "respond wb rq (andThen (routed auth) (\<lambda>project. andThen (routed (op project)) (\<lambda>view. ret (answer view)))) n = (response, t)"
    and "response_ok (rs_status response)" and "refuses auth" and "\<And>project. refuses (op project)"
  shows "\<exists>project m view. auth n = (Inr project, m) \<and> op project m = (Inr view, t)"
proof -
  obtain r u where a: "auth n = (r, u)" by fastforce
  show ?thesis
  proof (cases r)
    case (Inl e)
    have "plain_refusal e" using assms(3) a Inl by (auto simp: refuses_def)
    with assms(1,2) a Inl show ?thesis
      by (auto simp: respond_def routed_def andThen_def errorResponse_def Let_def error_body_def response_ok_def plain_refusal_def
          split: thrown.splits)
  next
    case (Inr project)
    obtain x v where o': "op project u = (x, v)" by fastforce
    show ?thesis
    proof (cases x)
      case (Inl e)
      have "plain_refusal e" using assms(4) [of project] o' Inl by (auto simp: refuses_def)
      with assms(1,2) a Inr o' Inl show ?thesis
        by (auto simp: respond_def routed_def andThen_def errorResponse_def Let_def error_body_def response_ok_def plain_refusal_def
            split: thrown.splits)
    next
      case (Inr view)
      with assms(1) a \<open>r = Inr project\<close> o' show ?thesis by (auto simp: respond_def routed_def andThen_def)
    qed
  qed
qed

lemma sent_key: "rq_authorization (request_of (fetch_request o' path init)) = Some (''Bearer '' @ cx_apiKey o')"
proof -
  have "map_of (set_header k v hs) k = Some v" for k v hs
    by (induction hs) (auto simp: set_header_def)
  then show ?thesis by (simp add: request_of_def fetch_request_def Let_def)
qed

text \<open>The authentication that the server makes of a request of this client.\<close>

definition client_auth :: "'w deployment \<Rightarrow> ('w, ProjectRecord) work" where
  "client_auth dl = authenticateBearer (wb_access (dl_web dl)) (Some (''Bearer '' @ cx_apiKey (dl_options dl))) Scope_write"

lemma served_answer:
  assumes "post_intent (served_env dl) (intent_path i (CHR ''/'' # action)) body s = (Inr v, t)" and "map_of intent_posts action = Some r"
    and "dl_decode dl (encodeURIComponent i) = i" and "CHR ''/'' \<notin> set action"
  shows "\<exists>rq u response. (client_step (served_env dl))\<^sup>*\<^sup>* s u \<and> rq_authorization rq = Some (''Bearer '' @ cx_apiKey (dl_options dl))
    \<and> run_route (dl_web dl) rq (r i) u = (response, t) \<and> response_ok (rs_status response)"
proof -
  let ?rq = "fetch_request (dl_options dl) (intent_path i (CHR ''/'' # action)) (post_init (json_stringify body))"
  from post_answer [OF assms(1)] obtain u status b where u: "(client_step (served_env dl))\<^sup>*\<^sup>* s u" and f: "served_fetch dl
      (boundedMilliseconds (cx_requestTimeoutMs (dl_options dl)) 30000 300000) ?rq u = (Responded status b, t)"
    and ok: "response_ok status" by (auto simp: served_env_def)
  have route: "intent_route (dl_decode dl) (fq_method ?rq) (drop (length (client_endpoint (dl_options dl))) (fq_url ?rq)) = Some (r i)"
    using assms(2-4) by (simp add: fetch_request_def Let_def post_init_def intent_path_route)
  obtain response where "run_route (dl_web dl) (request_of ?rq) (r i) u = (response, t)" "rs_status response = status"
    using f unfolding served_fetch_def route by (auto split: option.splits prod.splits)
  with u ok sent_key show ?thesis by blast
qed

lemma served_preflight:
  assumes "client_preflight (served_env dl) i s = (Inr v, t)" and "dl_decode dl (encodeURIComponent i) = i"
  shows "\<exists>u project m view. (client_step (served_env dl))\<^sup>*\<^sup>* s u \<and> client_auth dl u = (Inr project, m)
    \<and> service_preflight (wb_env (dl_web dl)) project i m = (Inr view, t)"
proof -
  have "map_of intent_posts ''preflight'' = Some R_POST_preflight" "CHR ''/'' \<notin> set ''preflight''" by (simp_all add: intent_posts_def)
  from served_answer [OF _ this(1) assms(2) this(2)] assms(1) obtain rq u response
    where u: "(client_step (served_env dl))\<^sup>*\<^sup>* s u" "rq_authorization rq = Some (''Bearer '' @ cx_apiKey (dl_options dl))"
      and r: "POST_preflight (dl_web dl) rq i u = (response, t)" and ok: "response_ok (rs_status response)"
    by (force simp: client_preflight_def run_route_def)
  from respond_ok [OF r [unfolded POST_preflight_def projectFromRequest_def] ok refuses_auth refuses_preflight] u
  show ?thesis unfolding client_auth_def by metis
qed

lemma served_mark:
  assumes "client_markBroadcasting (served_env dl) i s = (Inr v, t)" and "dl_decode dl (encodeURIComponent i) = i"
  shows "\<exists>u project m view. (client_step (served_env dl))\<^sup>*\<^sup>* s u \<and> client_auth dl u = (Inr project, m)
    \<and> service_markSubmission (wb_env (dl_web dl)) project i SS_BROADCASTING None m = (Inr view, t)"
proof -
  have "map_of intent_posts ''broadcasting'' = Some R_POST_broadcasting" "CHR ''/'' \<notin> set ''broadcasting''" by (simp_all add: intent_posts_def)
  from served_answer [OF _ this(1) assms(2) this(2)] assms(1) obtain rq u response
    where u: "(client_step (served_env dl))\<^sup>*\<^sup>* s u" "rq_authorization rq = Some (''Bearer '' @ cx_apiKey (dl_options dl))"
      and r: "POST_broadcasting (dl_web dl) rq i u = (response, t)" and ok: "response_ok (rs_status response)"
    by (force simp: client_markBroadcasting_def run_route_def)
  from respond_ok [OF r [unfolded POST_broadcasting_def projectFromRequest_def] ok refuses_auth refuses_mark] u
  show ?thesis unfolding client_auth_def by metis
qed

end
