(* ===== verification/SchemaProperties.thy ===== *)
theory SchemaProperties
  imports RouteAccess ClientProperties
begin

text \<open>
  The client and the service agree on the wire: what the client sends passes the schemas of the
  service and is read as what the client meant, and the service's own checks accept it; and whatever
  passes the schemas is well-formed for the core.
\<close>

section \<open>Entries of an object\<close>

lemma field_Nil [simp]: "js_field [] k = None"
  by (simp add: js_field_def)

lemma field_Cons [simp]: "js_field ((k, v) # fs) k' = (if k = k' then Some v else js_field fs k')"
  by (simp add: js_field_def)

lemma field_append: "js_field (fs @ gs) k = (case js_field fs k of Some v \<Rightarrow> Some v | None \<Rightarrow> js_field gs k)"
  by (auto simp: js_field_def map_add_def split: option.split)

lemma defined_entry:
  "obj_defined ((k, Some v) # fs) = (case obj_defined fs of JObj gs \<Rightarrow> JObj ((k, v) # gs))"
  "obj_defined ((k, None) # fs) = obj_defined fs" "obj_defined [] = JObj []"
  by (simp_all add: obj_defined_def List.map_filter_def)

lemma object_defined: "z_object read (Some (obj_defined fs)) = read (\<lambda>k. Option.bind (map_of fs k) (\<lambda>x. x))"
  if "distinct (map fst fs)" for read :: "(string \<Rightarrow> json option) \<Rightarrow> 'a option"
proof -
  have "map_of (List.map_filter (\<lambda>(k, v). map_option (\<lambda>x. (k, x)) v) fs) k = Option.bind (map_of fs k) (\<lambda>x. x)" for k
    using that
  proof (induction fs)
    case (Cons f fs)
    obtain a v where "f = (a, v)" by fastforce
    moreover have "map_of (List.map_filter (\<lambda>(k, v). map_option (\<lambda>x. (k, x)) v) fs) a = None"
      if "a \<notin> fst ` set fs" for a
      using that by (induction fs) (auto simp: List.map_filter_def split: option.splits)
    ultimately show ?case using Cons by (cases v) (auto simp: List.map_filter_def)
  qed (simp add: List.map_filter_def)
  then have "js_field (List.map_filter (\<lambda>(k, v). map_option (\<lambda>x. (k, x)) v) fs) = (\<lambda>k. Option.bind (map_of fs k) (\<lambda>x. x))"
    by (simp add: js_field_def fun_eq_iff)
  then show ?thesis by (simp only: z_object_def obj_defined_def option.case json.case)
qed


section \<open>Failure evidence\<close>

lemma optional_entry:
  "z_optional p (map_option f x) = (case x of None \<Rightarrow> Some None | Some y \<Rightarrow> map_option Some (p (Some (f y))))"
  by (simp add: z_optional_def split: option.split)

lemma enum_names:
  "z_enum failure_types (Some (JStr (submission_error_name t))) = Some t"
  "z_enum conflict_types (Some (JStr (conflict_type_name c))) = Some c"
  "z_enum input_roles (Some (JStr (role_name r))) = Some r"
  "z_enum attempt_kinds (Some (JStr (attempt_kind_name k))) = Some k"
proof -
  show "z_enum failure_types (Some (JStr (submission_error_name t))) = Some t"
    by (cases t) (simp_all add: z_enum_def failure_types_def submission_error_name_def)
  show "z_enum conflict_types (Some (JStr (conflict_type_name c))) = Some c"
    by (cases c) (simp_all add: z_enum_def conflict_types_def conflict_type_name_def)
  show "z_enum input_roles (Some (JStr (role_name r))) = Some r"
    by (cases r) (simp_all add: z_enum_def input_roles_def role_name_def)
  show "z_enum attempt_kinds (Some (JStr (attempt_kind_name k))) = Some k"
    by (cases k) (simp_all add: z_enum_def attempt_kinds_def attempt_kind_name_def)
qed

lemma failure_schema:
  assumes "evidence_sized f"
  shows "submissionFailureSchema (Some (failure_json f)) = Some f"
  using assms unfolding submissionFailureSchema_def failure_json_def
  by (subst object_defined)
    (auto simp: optional_entry enum_names z_string_def z_record_def sized_def evidence_sized_def split: option.splits)

text \<open>
  Whatever a node or a transport throws at the one send of a broadcast, the evidence
  made of it arrives: its JSON passes the schema of the route and is read as the same evidence,
  and the service does not refuse it for the outcome it is reported under; the same holds of the
  evidence of a wrong hash.
\<close>

theorem evidence_arrives:
  "submissionFailureSchema (Some (failure_json (snd (classifyBroadcastError e)))) = Some (snd (classifyBroadcastError e))
   \<and> submission_refusal (outcome_status (fst (classifyBroadcastError e))) (Some (snd (classifyBroadcastError e))) = None
   \<and> submissionFailureSchema (Some (failure_json (mismatch_evidence h))) = Some (mismatch_evidence h)
   \<and> submission_refusal SS_SUBMISSION_UNKNOWN (Some (mismatch_evidence h)) = None"
  using classified_evidence_accepted [of e h] by (auto intro: failure_schema)


section \<open>Prepared transactions\<close>

lemma lower_hash:
  assumes "is_tx_hash h"
  shows "is_hash h \<and> toLowerCase h = h"
proof -
  obtain t where t: "h = ''0x'' @ t" using assms unfolding is_tx_hash_def by (metis append_take_drop_id)
  have l: "list_all is_hex_lower t" "length t = 64" using assms by (simp_all add: is_tx_hash_def t)
  have "map lower_char t = t"
    by (rule map_idI) (use l(1) in \<open>auto simp: list_all_iff intro: hex_lower_fixed\<close>)
  then have "toLowerCase h = h" by (simp add: toLowerCase_def t)
  moreover have "list_all is_hex_any t" using l(1) by (auto simp: list_all_iff is_hex_any_def)
  ultimately show ?thesis using l(2) by (simp add: is_hash_def is_hex_def startsWith_def t)
qed

lemma outPoint_schema: "outPoint_wf p \<Longrightarrow> outPointSchema (Some (outPoint_json p)) = Some p"
  by (cases p) (auto simp: outPointSchema_def outPoint_json_def z_object_def z_string_def z_int_def outPoint_wf_def dest: lower_hash)

definition sound_key :: "InputRef \<Rightarrow> bool" where
  "sound_key r \<longleftrightarrow> (case ref_resourceKey r of None \<Rightarrow> True | Some k \<Rightarrow> js_trim k = k \<and> sized 1 256 k)"

lemma inputRef_schema: "outPoint_wf (ref_outPoint r) \<Longrightarrow> sound_key r \<Longrightarrow> inputRefSchema (Some (inputRef_json r)) = Some r"
  by (cases r) (auto simp: inputRefSchema_def inputRef_json_def z_object_def outPoint_schema enum_names z_optional_def
      z_trimmed_def z_string_def sound_key_def split: option.splits)

lemma array_schema:
  assumes "length xs \<le> most" and "\<And>x. x \<in> set xs \<Longrightarrow> p (Some (f x)) = Some x"
  shows "z_array most p (Some (JArr (map f xs))) = Some xs"
proof -
  have "those (map (\<lambda>x. p (Some x)) (map f xs)) = Some xs"
    using assms(2) by (induction xs) auto
  with assms(1) show ?thesis by (simp add: z_array_def)
qed

lemma extract_wf: "extract_input p = Inr q \<Longrightarrow> outPoint_wf q"
  by (auto simp: extract_input_def Let_def sum_bind_Inr parseOutPointIndex_def outPoint_wf_def split: if_splits option.splits)

lemma extracted_wf: "extractInputOutPoints w tx = Inr inputs \<Longrightarrow> list_all outPoint_wf inputs"
  using collect_all [of extract_input _ inputs outPoint_wf] extract_wf unfolding extractInputOutPoints_def by blast

lemma explicit_members: "explicit_refs F refs acc = Inr e \<Longrightarrow> snd ` set e \<subseteq> set refs \<union> snd ` set acc"
proof (induction F refs acc rule: explicit_refs.induct)
  case (2 F r refs acc)
  then have "explicit_refs F refs (acc @ [(outPointKey (ref_outPoint r), r)]) = Inr e"
    by (auto simp: Let_def split: if_splits)
  with 2 show ?case by (auto simp: Let_def split: if_splits)
qed simp

lemma classified_members:
  assumes "classifyInputRefs inputs explicit application original = Inr refs" and "\<forall>r \<in> set explicit. sound_key r"
  shows "map ref_outPoint refs = inputs \<and> (\<forall>r \<in> set refs. sound_key r)"
proof -
  from assms(1) obtain e where e: "explicit_refs (set (map outPointKey inputs)) explicit [] = Inr e"
    and refs: "refs = map (classify_input e (set (map outPointKey application)) (set (map outPointKey original))) inputs"
    by (auto simp: classifyInputRefs_def sum_bind_Inr)
  have k: "sound_key r" if "map_of e k = Some r" for k r
    using explicit_members [OF e] map_of_SomeD [OF that] assms(2) by force
  have u: "sound_key (r\<lparr>ref_outPoint := p\<rparr>) = sound_key r" for r p by (simp add: sound_key_def)
  have "sound_key (classify_input e A Or p)" for A Or p
    using k [of "outPointKey p"] by (simp add: classify_input_def Let_def u split: option.split) (simp add: sound_key_def)
  moreover have "ref_outPoint (classify_input e A Or p) = p" for A Or p
    by (simp add: classify_input_def Let_def split: option.split)
  ultimately show ?thesis unfolding refs by (simp add: o_def)
qed

lemma fingerprint_hash:
  assumes "signedPayloadFingerprintSha256 sha256 v = Some f" and "\<And>b. length (sha256 b) = 32 \<and> list_all (\<lambda>n. n < 256) (sha256 b)"
  shows "is_tx_hash f"
proof -
  from assms(1) obtain b where f: "f = ''0x'' @ hex_of_bytes (sha256 b)"
    by (auto simp: signedPayloadFingerprintSha256_def hex_of_bytes_def)
  have "length (hex_of_bytes (sha256 b)) = 64" "list_all is_hex_lower (hex_of_bytes (sha256 b))"
    using assms(2) [of b] length_hex_of_bytes [of "sha256 b"] hex_of_bytes_hex [of "sha256 b"] by auto
  then show ?thesis by (simp add: is_tx_hash_def f)
qed

lemma prepare_schema:
  assumes "is_tx_hash f" and "list_all outPoint_wf inputs" and "length inputs \<le> 1024" and "map ref_outPoint refs = inputs"
    and "\<forall>r \<in> set refs. sound_key r" and "\<forall>p. po_parentAttemptId o' = Some (Some p) \<longrightarrow> isUuid p"
  shows "prepareTransactionSchema isUuid (Some (prepare_body (prepare_input o' txHash f inputs refs))) = Some
    \<lparr>pb_txHash = txHash, pb_signedPayloadHash = Some f, pb_allowRevision = po_allowSignedPayloadRevision o', pb_inputOutPoints = inputs,
     pb_inputRefs = refs, pb_attemptKind = po_attemptKind o', pb_parentAttemptId = po_parentAttemptId o'\<rparr>"
proof -
  have i: "z_array 1024 outPointSchema (Some (JArr (map outPoint_json inputs))) = Some inputs"
    by (rule array_schema) (use assms(2,3) in \<open>auto simp: list_all_iff intro: outPoint_schema\<close>)
  have "outPoint_wf (ref_outPoint r)" if "r \<in> set refs" for r using assms(2,4) that by (auto simp: list_all_iff)
  moreover have "length refs \<le> 1024" using assms(3,4) by (metis length_map)
  ultimately have r: "z_array 1024 inputRefSchema (Some (JArr (map inputRef_json refs))) = Some refs"
    by (intro array_schema) (use assms(5) in \<open>auto intro: inputRef_schema\<close>)
  have f: "or_null (Some f) = Some f" "is_hash f" "toLowerCase f = f"
    using lower_hash [OF assms(1)] assms(1) by (auto simp: or_null_def truthy_def is_tx_hash_def)
  then have z: "z_optional (z_string is_hash) (Some (JStr f)) = Some (Some f)" by (simp add: z_optional_def z_string_def)
  have "f \<noteq> []" using assms(1) by (auto simp: is_tx_hash_def)
  show ?thesis
    unfolding prepareTransactionSchema_def prepare_body_def
    by (subst object_defined)
      (use assms(6) \<open>f \<noteq> []\<close> in \<open>auto simp: prepare_input_def list_of_def i r z f optional_entry enum_names z_string_def z_default_def z_bool_def
         z_nullable_def opt_json_def split: option.splits\<close>)
qed

text \<open>
  Property C5: what the client prepares is what the service stores: the inputs extracted from a
  signed transaction, their roles and the fingerprint pass the schema of the route unchanged, and
  the normalisation of the service keeps them, lower-casing only the hash of the transaction; it
  is enough that the transaction has at most 1024 inputs and that the roles the caller declares
  have trimmed resource keys.
\<close>

theorem prepare_arrives:
  assumes "signedPayloadFingerprintSha256 sha256 v = Some f" and "\<And>b. length (sha256 b) = 32 \<and> list_all (\<lambda>n. n < 256) (sha256 b)"
    and "extractInputOutPoints w tx = Inr inputs" and "length inputs \<le> 1024"
    and "classifyInputRefs inputs (list_of (po_inputRefs o')) application original = Inr refs"
    and "\<forall>r \<in> set (list_of (po_inputRefs o')). sound_key r"
    and "\<forall>p. po_parentAttemptId o' = Some (Some p) \<longrightarrow> wb_isUuid wb p" and "is_tx_hash (toLowerCase txHash)"
  shows "\<exists>b. prepareTransactionSchema (wb_isUuid wb) (Some (prepare_body (prepare_input o' txHash f inputs refs))) = Some b
    \<and> attach_inputs (prepare_request wb i b) = Inr (toLowerCase txHash, inputs, refs)
    \<and> aq_signedPayloadHash (prepare_request wb i b) = Some f \<and> aq_attemptKind (prepare_request wb i b) = po_attemptKind o'
    \<and> aq_allowRevision (prepare_request wb i b) = po_allowSignedPayloadRevision o'"
proof -
  have wf: "list_all outPoint_wf inputs" by (rule extracted_wf [OF assms(3)])
  have m: "map ref_outPoint refs = inputs" "\<forall>r \<in> set refs. sound_key r" using classified_members [OF assms(5,6)] by auto
  note b = prepare_schema [OF fingerprint_hash [OF assms(1,2)] wf assms(4) m assms(7), of txHash]
  have "collect normalizeOutPointRef ps = Inr ps" if "list_all outPoint_wf ps" for ps
    using that by (induction ps) (simp_all add: normalizeOutPointRef_id)
  with wf assms(4) have n: "normalizeOutPointRefs inputs = Inr inputs" by (simp add: normalizeOutPointRefs_def)
  have "normalizeInputRef r = Inr r" if "r \<in> set refs" for r
  proof -
    have "outPoint_wf (ref_outPoint r)" using wf m(1) that by (auto simp: list_all_iff)
    moreover have "sound_key r" using m(2) that by blast
    ultimately show ?thesis
      by (cases r) (auto simp: normalizeInputRef_def Let_def normalizeOutPointRef_id sound_key_def sized_def truthy_def split: option.splits)
  qed
  then have "collect normalizeInputRef refs = Inr refs" by (induction refs) simp_all
  moreover have "length refs \<le> 1024" using assms(4) m(1) by (metis length_map)
  ultimately have r: "normalizeInputRefs refs = Inr refs" by (simp add: normalizeInputRefs_def)
  from b n r assms(8) m(1) show ?thesis
    by (auto simp: prepare_request_def attach_inputs_def list_of_def normalizeTxHash_def Let_def)
qed

text \<open>A transaction with one input, prepared without roles.\<close>

definition sample_wallet :: "(unit, SignedTx) wallet" where
  "sample_wallet = \<lparr>wl_inputs = (\<lambda>_. [(JStr (sample_hash CHR ''7''), JNum 0)]), wl_hash = (\<lambda>_. sample_hash CHR ''6''),
     wl_value = (\<lambda>_. sdk_document ''0x01''), wl_sign = ret, wl_send = (\<lambda>_. ret (sample_hash CHR ''6'')), wl_sha256 = (\<lambda>_. replicate 32 7)\<rparr>"

definition sample_options :: "SignedTx PrepareOptions" where
  "sample_options = \<lparr>po_transaction = sample_tx ''0x01'', po_intentId = ''order-1'', po_metadata = None, po_expectedCells = None,
     po_inputRefs = None, po_applicationInputs = None, po_attemptKind = None, po_parentAttemptId = None,
     po_allowSignedPayloadRevision = False\<rparr>"

lemma sample_extract: "extractInputOutPoints sample_wallet tx = Inr [\<lparr>op_txHash = sample_hash CHR ''7'', op_index = 0\<rparr>]"
proof -
  have "toLowerCase (js_String (JStr (sample_hash CHR ''7''))) = sample_hash CHR ''7''" "is_tx_hash (sample_hash CHR ''7'')"
    by code_simp+
  then show ?thesis
    by (simp add: extractInputOutPoints_def sample_wallet_def extract_input_def parseOutPointIndex_def)
qed

theorem prepare_arrives_witness:
  "\<exists>b f refs. prepareTransactionSchema is_uuid_text
       (Some (prepare_body (prepare_input sample_options (sample_hash CHR ''6'') f [\<lparr>op_txHash = sample_hash CHR ''7'', op_index = 0\<rparr>] refs))) = Some b
     \<and> attach_inputs (prepare_request sample_web ''order-1'' b)
       = Inr (sample_hash CHR ''6'', [\<lparr>op_txHash = sample_hash CHR ''7'', op_index = 0\<rparr>], refs)"
proof -
  let ?sha = "(\<lambda>_. replicate 32 7) :: nat list \<Rightarrow> nat list"
  obtain f where f: "signedPayloadFingerprintSha256 ?sha (sdk_document ''0x01'') = Some f"
    using canonical_spelled [OF sample_spelled(1) [of "''0x01''"]] by (simp add: signedPayloadFingerprintSha256_def)
  obtain refs where r: "classifyInputRefs [\<lparr>op_txHash = sample_hash CHR ''7'', op_index = 0\<rparr>] (list_of (po_inputRefs sample_options)) [] [] = Inr refs"
    by (simp add: classifyInputRefs_def sample_options_def list_of_def)
  have h: "is_tx_hash (toLowerCase (sample_hash CHR ''6''))" "toLowerCase (sample_hash CHR ''6'') = sample_hash CHR ''6''"
    by code_simp+
  have "list_all (\<lambda>n. n < 256) (replicate 32 (7 :: nat))" by (simp add: list_all_iff)
  then have sha: "length (?sha b) = 32 \<and> list_all (\<lambda>n. n < 256) (?sha b)" for b by simp
  from prepare_arrives [OF f sha sample_extract [of "sample_tx ''0x01''"] _ r _ _ h(1), of sample_web "''order-1''"] show ?thesis
    unfolding h(2) by (auto simp: sample_options_def list_of_def sample_web_def)
qed


section \<open>What the schemas let in\<close>

text \<open>
  Every input that passes the schemas is one the core can normalise, and every expected Cell that passes
  constrains the Cell it is compared with.
\<close>

subsection \<open>Transactions\<close>

lemma hex_lower_char: "is_hex_any c \<Longrightarrow> is_hex_lower (lower_char c)"
proof (cases "65 \<le> code_unit c \<and> code_unit c \<le> 70")
  case True
  then have "code_unit (lower_char c) = code_unit c + 32" by (simp add: lower_char_def)
  then show ?thesis using True by (simp add: is_hex_lower_def)
next
  case False
  assume "is_hex_any c"
  with False have "is_hex_lower c" by (auto simp: is_hex_any_def)
  then show ?thesis by (simp add: hex_lower_fixed)
qed

lemma hash_normalises: "is_hash s \<Longrightarrow> normalizeTxHash s = Inr (toLowerCase s)"
proof -
  assume h: "is_hash s"
  then obtain ds where s: "s = ''0x'' @ ds" "length ds = 64" "list_all is_hex_any ds"
    by (cases s rule: list.exhaust; cases "tl s") (auto simp: is_hash_def is_hex_def startsWith_def)
  have "lower_char CHR ''0'' = CHR ''0''" "lower_char CHR ''x'' = CHR ''x''" by code_simp+
  then have "toLowerCase s = ''0x'' @ map lower_char ds" by (simp add: s toLowerCase_def)
  moreover have "list_all is_hex_lower (map lower_char ds)" using s(3) by (auto simp: list_all_iff intro: hex_lower_char)
  ultimately show ?thesis by (simp add: normalizeTxHash_def Let_def is_tx_hash_def s(2))
qed

lemma outPoint_normalises: "outPointSchema v = Some p \<Longrightarrow> \<exists>q. normalizeOutPointRef p = Inr q"
  by (auto simp: outPointSchema_def z_object_def z_string_def z_int_def normalizeOutPointRef_def normalizeOutPointIndex_def hash_normalises
      split: option.splits json.splits if_splits bind_splits)

lemma inputRef_normalises: "inputRefSchema v = Some r \<Longrightarrow> \<exists>q. normalizeInputRef r = Inr q"
  by (auto simp: inputRefSchema_def z_object_def normalizeInputRef_def Let_def split: option.splits json.splits bind_splits
      dest!: outPoint_normalises)

lemma array_elements:
  "z_array most p v = Some xs \<Longrightarrow> length xs \<le> most \<and> (\<forall>x \<in> set xs. \<exists>j. p j = Some x)"
proof -
  assume "z_array most p v = Some xs"
  then obtain js where "length js \<le> most" "those (map (\<lambda>x. p (Some x)) js) = Some xs"
    by (auto simp: z_array_def split: option.splits json.splits if_splits)
  moreover have "those (map (\<lambda>x. p (Some x)) js) = Some xs \<Longrightarrow> length xs = length js \<and> (\<forall>x \<in> set xs. \<exists>j. p j = Some x)" for js xs
    by (induction js arbitrary: xs) (auto split: option.splits)
  ultimately show ?thesis by metis
qed

lemma collect_total: "(\<And>x. x \<in> set xs \<Longrightarrow> \<exists>y. f x = Inr y) \<Longrightarrow> \<exists>ys. collect f xs = Inr ys"
  by (induction xs) (fastforce simp: sum_bind_Inr)+

lemma default_array: "z_default [] (z_array most p) v = Some xs \<Longrightarrow> length xs \<le> most \<and> (\<forall>x \<in> set xs. \<exists>j. p j = Some x)"
  using array_elements [of most p v xs] by (auto simp: z_default_def split: option.splits)


subsection \<open>Expected Cells\<close>

lemma assertion_constrains: "scriptAssertionSchema v = Some a \<Longrightarrow> sa_codeHash a \<noteq> None \<or> sa_hashType a \<noteq> None \<or> sa_args a \<noteq> None"
  by (auto simp: scriptAssertionSchema_def z_object_def split: option.splits json.splits bind_splits if_splits)

lemma optional_value: "z_optional p v = Some (Some x) \<Longrightarrow> \<exists>j. p j = Some x"
  by (auto simp: z_optional_def split: option.splits)

lemma nullable_value: "z_nullable p v = Some (Some x) \<Longrightarrow> \<exists>j. p j = Some x"
  by (auto simp: z_nullable_def split: option.splits json.splits)

lemma cell_constrains:
  assumes "expectedCellSchema v = Some a"
  shows "cell_constrained a \<and> 0 \<le> ea_outputIndex a \<and> ea_outputIndex a \<le> 1024 \<and> ea_mode a \<noteq> None"
proof -
  from assms obtain f where f: "Option.bind (z_int 0 1024 (f ''outputIndex'')) (\<lambda>i. Some i) = Some (ea_outputIndex a)"
    "z_optional scriptAssertionSchema (f ''lock'') = Some (ea_lock a)"
    "z_optional (z_nullable scriptAssertionSchema) (f ''type'') = Some (ea_type a)"
    "ea_capacity a \<noteq> None \<or> ea_lock a \<noteq> None \<or> ea_type a \<noteq> None \<or> ea_data a \<noteq> None" "ea_mode a \<noteq> None"
    by (auto simp: expectedCellSchema_def z_object_def split: option.splits json.splits bind_splits if_splits)
  have "script_constrains l" if "ea_lock a = Some l" for l
    using optional_value [OF f(2) [unfolded that]] assertion_constrains by (auto simp: script_constrains_def)
  moreover have "script_constrains s" if s: "ea_type a = Some (Some s)" for s
  proof -
    have "\<exists>j. z_nullable scriptAssertionSchema j = Some (Some s)" using optional_value [OF f(3) [unfolded s]] .
    then have "\<exists>i. scriptAssertionSchema i = Some s" using nullable_value [of scriptAssertionSchema] by meson
    then show ?thesis using assertion_constrains unfolding script_constrains_def by meson
  qed
  ultimately have "cell_constrained a" using f(4) unfolding cell_constrained_def by (metis option.exhaust)
  moreover have "0 \<le> ea_outputIndex a" "ea_outputIndex a \<le> 1024" using f(1) by (auto simp: z_int_def split: option.splits json.splits if_splits)
  ultimately show ?thesis using f(5) by blast
qed

lemma refs_normalise:
  assumes "z_default [] (z_array 1024 inputRefSchema) v = Some rs"
  obtains refs where "normalizeInputRefs rs = Inr refs" "list_all inputRef_wf refs"
proof -
  note rs = default_array [OF assms]
  then have "\<And>r. r \<in> set rs \<Longrightarrow> \<exists>q. normalizeInputRef r = Inr q" using inputRef_normalises by blast
  then obtain qs where "collect normalizeInputRef rs = Inr qs" using collect_total by metis
  then have "normalizeInputRefs rs = Inr qs" using rs by (simp add: normalizeInputRefs_def)
  with that normalizeInputRefs_Inr show ?thesis by blast
qed

lemma points_normalise:
  assumes "z_default [] (z_array 1024 outPointSchema) v = Some ps"
  obtains outs where "normalizeOutPointRefs ps = Inr outs" "list_all outPoint_wf outs"
proof -
  note ps = default_array [OF assms]
  then have "\<And>p. p \<in> set ps \<Longrightarrow> \<exists>q. normalizeOutPointRef p = Inr q" using outPoint_normalises by blast
  then obtain qs where "collect normalizeOutPointRef ps = Inr qs" using collect_total by metis
  then have "normalizeOutPointRefs ps = Inr qs" using ps by (simp add: normalizeOutPointRefs_def)
  with that normalizeOutPointRefs_Inr show ?thesis by blast
qed


subsection \<open>Bodies\<close>

text \<open>
  Property C26: whatever body the service takes to prepare a transaction, the core accepts its inputs
  and makes well-formed ones of them (hashes in lower case, indices of 32 bits, resource names of 1 to
  256 characters), and its payload hash is a normalised one; whatever body it takes to create an
  intent, every expected Cell constrains some field of an output with an index up to 1024, so that no
  check of it is passed for want of a constraint.
\<close>

theorem accepted_bodies_typed:
  "(\<forall>pb. prepareTransactionSchema isUuid (Some body) = Some pb \<longrightarrow>
      (\<exists>outs refs. normalizeOutPointRefs (pb_inputOutPoints pb) = Inr outs \<and> list_all outPoint_wf outs
        \<and> normalizeInputRefs (pb_inputRefs pb) = Inr refs \<and> list_all inputRef_wf refs)
      \<and> (\<forall>h. pb_signedPayloadHash pb = Some h \<longrightarrow> is_tx_hash h \<and> normalizeTxHash h = Inr h))
   \<and> (\<forall>r. createIntentSchema (Some body) = Some r \<longrightarrow> length (cr_expectedCells r) \<le> 32
      \<and> list_all (\<lambda>a. cell_constrained a \<and> 0 \<le> ea_outputIndex a \<and> ea_outputIndex a \<le> 1024 \<and> ea_mode a \<noteq> None) (cr_expectedCells r))"
proof (intro conjI allI impI)
  fix pb
  assume "prepareTransactionSchema isUuid (Some body) = Some pb"
  then obtain f payload where f: "z_default [] (z_array 1024 outPointSchema) (f ''inputOutPoints'') = Some (pb_inputOutPoints pb)"
    "z_default [] (z_array 1024 inputRefSchema) (f ''inputRefs'') = Some (pb_inputRefs pb)"
    "z_optional (z_string is_hash) (f ''signedPayloadHashSha256'') = Some payload" "pb_signedPayloadHash pb = map_option toLowerCase payload"
    by (auto simp: prepareTransactionSchema_def z_object_def split: option.splits json.splits bind_splits)
  obtain outs where outs: "normalizeOutPointRefs (pb_inputOutPoints pb) = Inr outs" "list_all outPoint_wf outs"
    using f(1) by (rule points_normalise)
  obtain refs where "normalizeInputRefs (pb_inputRefs pb) = Inr refs" "list_all inputRef_wf refs" using f(2) by (rule refs_normalise)
  with outs show "\<exists>outs refs. normalizeOutPointRefs (pb_inputOutPoints pb) = Inr outs \<and> list_all outPoint_wf outs
      \<and> normalizeInputRefs (pb_inputRefs pb) = Inr refs \<and> list_all inputRef_wf refs" by blast
  fix h
  assume h: "pb_signedPayloadHash pb = Some h"
  with f(4) obtain p where p: "payload = Some p" "h = toLowerCase p" by (cases payload) auto
  then have "is_hash p" using f(3) by (auto simp: z_optional_def z_string_def split: option.splits json.splits if_splits)
  then have n: "normalizeTxHash p = Inr h" using hash_normalises p by simp
  then show t: "is_tx_hash h" using p(2) by (simp add: normalizeTxHash_Inr)
  show "normalizeTxHash h = Inr h" using lower_hash [OF t] t by (simp add: normalizeTxHash_def Let_def)
next
  fix r
  assume "createIntentSchema (Some body) = Some r"
  then obtain f where "z_default [] (z_array 32 expectedCellSchema) (f ''expectedCells'') = Some (cr_expectedCells r)"
    by (auto simp: createIntentSchema_def z_object_def split: option.splits json.splits bind_splits)
  note cells = default_array [OF this]
  then show "length (cr_expectedCells r) \<le> 32" by blast
  show "list_all (\<lambda>a. cell_constrained a \<and> 0 \<le> ea_outputIndex a \<and> ea_outputIndex a \<le> 1024 \<and> ea_mode a \<noteq> None) (cr_expectedCells r)"
    using cells cell_constrains by (simp add: list_all_iff) blast
qed

text \<open>A body for each of the two routes.\<close>

definition typed_point :: json where
  "typed_point = JObj [(''txHash'', JStr (''0x'' @ replicate 64 CHR ''A'')), (''index'', JNum 1)]"

definition typed_prepare :: json where
  "typed_prepare = JObj [(''txHash'', JStr ''0x''), (''inputOutPoints'', JArr [typed_point]),
     (''inputRefs'', JArr [JObj [(''outPoint'', typed_point), (''role'', JStr ''FEE''), (''resourceKey'', JStr '' fee '')]])]"

definition typed_create :: json where
  "typed_create = JObj [(''intentId'', JStr ''order-1''), (''expectedCells'', JArr [JObj [(''outputIndex'', JNum 0), (''capacity'', JStr ''0x1'')]])]"

theorem accepted_bodies_typed_witness:
  "(\<exists>pb outs. prepareTransactionSchema (\<lambda>_. False) (Some typed_prepare) = Some pb \<and> pb_inputOutPoints pb \<noteq> []
      \<and> normalizeOutPointRefs (pb_inputOutPoints pb) = Inr outs \<and> list_all outPoint_wf outs)
   \<and> (\<exists>r. createIntentSchema (Some typed_create) = Some r \<and> cr_expectedCells r \<noteq> [] \<and> list_all cell_constrained (cr_expectedCells r))"
proof
  have "(case prepareTransactionSchema (\<lambda>_. False) (Some typed_prepare) of Some pb \<Rightarrow> pb_inputOutPoints pb \<noteq> [] | None \<Rightarrow> False)" by code_simp
  then obtain pb where pb: "prepareTransactionSchema (\<lambda>_. False) (Some typed_prepare) = Some pb" "pb_inputOutPoints pb \<noteq> []"
    by (auto split: option.splits)
  with accepted_bodies_typed [of "\<lambda>_. False" typed_prepare]
  show "\<exists>pb outs. prepareTransactionSchema (\<lambda>_. False) (Some typed_prepare) = Some pb \<and> pb_inputOutPoints pb \<noteq> []
      \<and> normalizeOutPointRefs (pb_inputOutPoints pb) = Inr outs \<and> list_all outPoint_wf outs" by blast
  have "(case createIntentSchema (Some typed_create) of Some r \<Rightarrow> cr_expectedCells r \<noteq> [] | None \<Rightarrow> False)" by code_simp
  then obtain r where r: "createIntentSchema (Some typed_create) = Some r" "cr_expectedCells r \<noteq> []" by (auto split: option.splits)
  with accepted_bodies_typed [of "\<lambda>_. False" typed_create]
  show "\<exists>r. createIntentSchema (Some typed_create) = Some r \<and> cr_expectedCells r \<noteq> [] \<and> list_all cell_constrained (cr_expectedCells r)"
    by (auto simp: list_all_iff)
qed

end
