(* ===== verification/BroadcastProperties.thy ===== *)
theory BroadcastProperties
  imports ServedClient SchemaProperties
begin

text \<open>
  The broadcast of a tracked transaction: it is sent at most once, only after the preflight and
  the record of the attempt; through the handlers of the service, only on inputs that an endpoint
  proved live and with the attempt stored; but with the transaction the caller holds, not the one
  the service recorded.
\<close>

section \<open>The operations of the flow\<close>

text \<open>A flow all of whose operations stay within a relation on the caller's world.\<close>

locale flow_relation =
  fixes f :: "'s flow" and R :: "'s \<Rightarrow> 's \<Rightarrow> bool"
  assumes refl: "R s s"
    and trans: "R s t \<Longrightarrow> R t u \<Longrightarrow> R s u"
    and operations: "keeps R (fl_preflight f i)" "keeps R (fl_markBroadcasting f i)" "keeps R (fl_markSubmitted f i)"
      "keeps R (fl_markAmbiguous f i failure)" "keeps R (fl_markNodeRejected f i ev)"
begin

lemma swallowed: "keeps R m \<Longrightarrow> swallow m s = (x, t) \<Longrightarrow> R s t"
  by (auto simp: swallow_def keeps_def)

lemma failed_keeps: "broadcast_failed f i hash e s = (r, t) \<Longrightarrow> R s t"
  by (auto simp: broadcast_failed_def andThen_def throw_def split: prod.splits sum.splits Outcome.splits
      intro: swallowed [OF operations(4)] swallowed [OF operations(5)])

lemma answered_keeps: "broadcast_answered f i hash h s = (r, t) \<Longrightarrow> R s t"
  by (auto simp: broadcast_answered_def andThen_def throw_def raise_as_def split: prod.splits sum.splits if_splits
      intro: swallowed [OF operations(4)] keepsD [OF operations(3)])

lemma before_send:
  assumes "broadcast w f i p s = (r, t)"
  shows "(R s t \<and> (\<exists>e. r = Inl (Raised e)))
    \<or> (\<exists>v1 s1 v2 s2 answer s3. fl_preflight f i s = (Inr v1, s1) \<and> fl_markBroadcasting f i s1 = (Inr v2, s2)
        \<and> R s s2 \<and> wl_send w (pt_transaction p) s2 = (answer, s3) \<and> R s3 t
        \<and> (case answer of Inl e \<Rightarrow> broadcast_failed f i (pt_txHash p) e s3 | Inr h \<Rightarrow> broadcast_answered f i (pt_txHash p) h s3) = (r, t))"
proof -
  obtain x1 s1 where p1: "fl_preflight f i s = (x1, s1)" by fastforce
  have r1: "R s s1" using keepsD [OF operations(1) p1] .
  show ?thesis
  proof (cases x1)
    case (Inl e)
    with assms p1 r1 show ?thesis by (auto simp: broadcast_def andThen_def raise_as_def)
  next
    case (Inr v1)
    obtain x2 s2 where p2: "fl_markBroadcasting f i s1 = (x2, s2)" by fastforce
    have r2: "R s s2" using trans [OF r1 keepsD [OF operations(2) p2]] .
    show ?thesis
    proof (cases x2)
      case (Inl e)
      with assms p1 Inr p2 r2 show ?thesis by (auto simp: broadcast_def andThen_def raise_as_def)
    next
      case (Inr v2)
      obtain answer s3 where a: "wl_send w (pt_transaction p) s2 = (answer, s3)" by fastforce
      have after: "(case answer of Inl e \<Rightarrow> broadcast_failed f i (pt_txHash p) e s3 | Inr h \<Rightarrow> broadcast_answered f i (pt_txHash p) h s3) = (r, t)"
        using assms p1 \<open>x1 = Inr v1\<close> p2 Inr a by (auto simp: broadcast_def andThen_def raise_as_def split: sum.splits)
      then have "R s3 t" by (cases answer) (auto intro: failed_keeps answered_keeps)
      with p1 \<open>x1 = Inr v1\<close> p2 Inr a r2 after show ?thesis by blast
    qed
  qed
qed

end

text \<open>The operations of the client's flow are made of exchanges and pauses.\<close>

interpretation flowing: flow_relation "client_flow env" "(client_step env)\<^sup>*\<^sup>*"
  by unfold_locales (auto simp: client_flow_def intro: stepping.methods_keep)


section \<open>One send\<close>

text \<open>What a broadcast reports for the answer of the node.\<close>

definition broadcast_verdict :: "string \<Rightarrow> string \<Rightarrow> js_error + string \<Rightarrow> tracked_error + string \<Rightarrow> bool" where
  "broadcast_verdict i hash answer r = (case answer of
     Inr h \<Rightarrow>
       if toLowerCase h = toLowerCase hash then r = Inr h \<or> (\<exists>m e. r = Inl (TrackingUpdateError m i hash e))
       else \<exists>m. r = Inl (AmbiguousSubmissionError m i hash None)
   | Inl e \<Rightarrow>
       if fst (classifyBroadcastError e) = NODE_REJECTED then \<exists>m. r = Inl (NodeRejectedError m i hash (snd (classifyBroadcastError e)) e)
       else \<exists>m. r = Inl (AmbiguousSubmissionError m i hash (Some e)))"

lemma verdict_failed: "broadcast_failed f i hash e s = (r, t) \<Longrightarrow> broadcast_verdict i hash (Inl e) r"
  by (cases "classifyBroadcastError e")
    (auto simp: broadcast_failed_def broadcast_verdict_def andThen_def throw_def swallow_def split: Outcome.splits)

lemma verdict_answered: "broadcast_answered f i hash h s = (r, t) \<Longrightarrow> broadcast_verdict i hash (Inr h) r"
proof (cases "toLowerCase h = toLowerCase hash")
  case True
  obtain x u where m: "fl_markSubmitted f i s = (x, u)" by fastforce
  assume "broadcast_answered f i hash h s = (r, t)"
  with True m show ?thesis
    by (cases x) (auto simp: broadcast_answered_def broadcast_verdict_def andThen_def ret_def raise_as_def)
next
  case False
  assume "broadcast_answered f i hash h s = (r, t)"
  with False show ?thesis
    by (auto simp: broadcast_answered_def broadcast_verdict_def andThen_def throw_def swallow_def split: prod.splits sum.splits)
qed

text \<open>The transactions sent to the node are a log of the world that only sending extends.\<close>

definition sender_laws :: "'s client_env \<Rightarrow> ('s, 'tx) wallet \<Rightarrow> ('s \<Rightarrow> 'tx list) \<Rightarrow> bool" where
  "sender_laws env w sent \<longleftrightarrow> (\<forall>ms rq s. sent (snd (ce_fetch env ms rq s)) = sent s) \<and> (\<forall>ms s. sent (ce_sleep env ms s) = sent s)
     \<and> (\<forall>tx s. sent (snd (wl_send w tx s)) = sent s @ [tx])"

text \<open>The outcomes before the send.\<close>

definition raised :: "tracked_error + string \<Rightarrow> bool" where
  "raised r \<longleftrightarrow> (\<exists>e. r = Inl (Raised e))"

lemma steps_sent: "(client_step env)\<^sup>*\<^sup>* s t \<Longrightarrow> sender_laws env w sent \<Longrightarrow> sent t = sent s"
  by (induction rule: rtranclp_induct) (auto simp: sender_laws_def elim!: client_step.cases)

lemma broadcast_run:
  assumes "sender_laws env w sent" and "broadcast w (client_flow env) i p s = (r, t)"
  shows "(sent t = sent s \<and> raised r)
    \<or> (sent t = sent s @ [pt_transaction p] \<and> (\<exists>v1 s1 v2 s2 answer s3. client_preflight env i s = (Inr v1, s1)
        \<and> client_markBroadcasting env i s1 = (Inr v2, s2) \<and> wl_send w (pt_transaction p) s2 = (answer, s3)
        \<and> broadcast_verdict i (pt_txHash p) answer r))"
  using flowing.before_send [OF assms(2)]
proof (elim disjE exE conjE)
  fix e assume "(client_step env)\<^sup>*\<^sup>* s t" "r = Inl (Raised e)"
  with assms(1) show ?thesis by (auto simp: raised_def dest: steps_sent)
next
  fix v1 s1 v2 s2 answer s3
  assume a: "fl_preflight (client_flow env) i s = (Inr v1, s1)" "fl_markBroadcasting (client_flow env) i s1 = (Inr v2, s2)"
    "(client_step env)\<^sup>*\<^sup>* s s2" "wl_send w (pt_transaction p) s2 = (answer, s3)" "(client_step env)\<^sup>*\<^sup>* s3 t"
    "(case answer of Inl e \<Rightarrow> broadcast_failed (client_flow env) i (pt_txHash p) e s3
      | Inr h \<Rightarrow> broadcast_answered (client_flow env) i (pt_txHash p) h s3) = (r, t)"
  have "sent s2 = sent s" "sent t = sent s3" using assms(1) a(3,5) by (auto dest: steps_sent)
  moreover have "sent s3 = sent s2 @ [pt_transaction p]" using assms(1) a(4) unfolding sender_laws_def by (metis snd_conv)
  moreover have "broadcast_verdict i (pt_txHash p) answer r"
    using a(6) by (cases answer) (auto dest: verdict_failed verdict_answered)
  ultimately show ?thesis using a(1,2,4) by (auto simp: client_flow_def)
qed

text \<open>
  Property C2: a broadcast sends its transaction at most once: either it raises what the preflight
  or the record of the attempt raised, and nothing was sent, or both succeeded, the transaction was
  sent exactly once, and the outcome is the one the node's answer calls for: success or a tracking
  error for the expected hash, ambiguity for another hash or an unclear failure, a rejection only for
  an explicit one.
\<close>

theorem broadcast_sends_once:
  assumes "sender_laws env w sent" and "broadcast w (client_flow env) i p s = (r, t)"
  shows "(sent t = sent s \<and> raised r)
    \<or> (sent t = sent s @ [pt_transaction p] \<and> (\<exists>v1 s1 v2 s2 answer s3. client_preflight env i s = (Inr v1, s1)
        \<and> client_markBroadcasting env i s1 = (Inr v2, s2) \<and> wl_send w (pt_transaction p) s2 = (answer, s3)
        \<and> broadcast_verdict i (pt_txHash p) answer r))"
  by (rule broadcast_run [OF assms])


text \<open>A service that accepts everything, and a wallet whose node keeps a log.\<close>

definition logging_env :: "string list client_env" where
  "logging_env = \<lparr>ce_options = \<lparr>cx_endpoint = ''https://a'', cx_apiKey = ''k'', cx_transportRetryAttempts = None,
       cx_transportRetryDelayMs = None, cx_requestTimeoutMs = None\<rparr>,
     ce_fetch = (\<lambda>ms rq s. (Responded 200 (Some (JObj [(''intent'', JObj [])])), s)), ce_sleep = (\<lambda>ms s. s), ce_now = (\<lambda>_. 0),
     ce_aborted = (\<lambda>_. None)\<rparr>"

definition logging_wallet :: "(string list, string) wallet" where
  "logging_wallet = \<lparr>wl_inputs = (\<lambda>_. []), wl_hash = id, wl_value = JStr, wl_sign = ret, wl_send = (\<lambda>tx s. (Inr tx, s @ [tx])),
     wl_sha256 = id\<rparr>"

definition prepared_text :: "string PreparedTransaction" where
  "prepared_text = \<lparr>pt_transaction = ''0xab'', pt_txHash = ''0xab'', pt_inputOutPoints = [], pt_inputRefs = []\<rparr>"

lemma logging_post: "post_intent logging_env path body s = (Inr (Some (JObj [])), s)"
  by (simp add: post_intent_def request_def request_attempts_def boundedMilliseconds_def logging_env_def andThen_def
      throwIfAborted_def signal_aborted_def post_init_def lift_sum_def read_response_def response_ok_def intent_of_def js_field_def)

theorem broadcast_sends_once_witness:
  "\<exists>r t. broadcast logging_wallet (client_flow logging_env) ''order-1'' prepared_text [] = (r, t) \<and> t = [''0xab'']
     \<and> broadcast_verdict ''order-1'' ''0xab'' (Inr ''0xab'') r"
proof -
  have laws: "sender_laws logging_env logging_wallet id"
    by (simp add: sender_laws_def logging_env_def logging_wallet_def)
  obtain r t where b: "broadcast logging_wallet (client_flow logging_env) ''order-1'' prepared_text [] = (r, t)" by fastforce
  then have "\<not> raised r"
    by (auto simp: broadcast_def client_flow_def client_preflight_def client_markBroadcasting_def client_markSubmitted_def
        logging_post andThen_def raise_as_def broadcast_answered_def prepared_text_def logging_wallet_def raised_def)
  with broadcast_sends_once [OF laws b] b show ?thesis
    by (auto simp: prepared_text_def logging_wallet_def client_preflight_def client_markBroadcasting_def logging_post)
qed


section \<open>Through the handlers\<close>

lemma getIntent_id: "getIntent p k d = Some ag \<Longrightarrow> i_intentId (ag_intent ag) = k"
  by (auto simp: getIntent_def Let_def mapIntent_def dest!: sql_first_Some split: option.splits)

text \<open>
  What a preflight that succeeds has seen: the attempt of the intent in the database that its reading
  met, all of whose stored inputs, of which there are some, its one inspection found live, by an
  endpoint with the identity of the project's chain.
\<close>

definition preflight_proved :: "'w reconcile_env \<Rightarrow> ProjectRecord \<Rightarrow> string \<Rightarrow> 'w host net \<Rightarrow> bool" where
  "preflight_proved env project i n \<longleftrightarrow> (\<exists>ag inspection t. getIntent (p_id project) (js_trim i) (db_met env n) = Some ag
     \<and> preflight_inputs (ag_execution ag) \<noteq> []
     \<and> inspectInputOutPoints (rn_rpc env) (endpointsFor env (p_rpcUrl project)) (preflight_inputs (ag_execution ag))
         (identity_of env project) (n\<lparr>nt_world := rn_others env (nt_world n)\<rparr>) = (Inr inspection, t)
     \<and> in_state inspection = II_ALL_LIVE \<and> cleared_inputs env project ag)"

text \<open>
  What a mark that succeeds leaves: the row of the execution that its last reading found for the
  intent is BROADCASTING in the database of the state it returns in, and the intent is still there.
\<close>

definition broadcast_recorded :: "'w reconcile_env \<Rightarrow> ProjectRecord \<Rightarrow> string \<Rightarrow> 'w host net \<Rightarrow> bool" where
  "broadcast_recorded env project i t \<longleftrightarrow> (\<exists>n0 n1 input updated.
     mark_prepare env project i SS_BROADCASTING None n0 = (Inr input, n1)
     \<and> getIntent (p_id project) (js_trim i) (db_met env n0) = Some (mk_aggregate input)
     \<and> on_db env (markSubmissionStatus (rn_jsonb env) input) n1 = (Inr updated, t)
     \<and> getIntent (p_id project) (js_trim i) (ndb t) = Some updated
     \<and> list_ex (submission_row (ag_execution (mk_aggregate input)) SS_BROADCASTING None) (executions (ndb t)))"

lemma getIntent_met:
  assumes "service_getIntent env project i n = (Inr ag, t)"
  shows "getIntent (p_id project) (js_trim i) (db_met env n) = Some ag \<and> t = n\<lparr>nt_world := rn_others env (nt_world n)\<rparr>"
  using assms
  by (auto simp: service_getIntent_def lift_api_def lift_sum_def map_sum_def db_read_def on_db_def readState_def db_met_def Let_def
      normalizeIntentId_Inr throw_def ret_def elim!: andThen_InrE split: option.splits sum.splits)

lemma preflight_run:
  assumes "service_preflight env project i n = (Inr view, n')"
  shows "preflight_proved env project i n"
proof -
  from assms obtain ag n1 where g: "service_getIntent env project i n = (Inr ag, n1)" and
    rest: "(let e = ag_execution ag; urls = endpointsFor env (p_rpcUrl project) in
     if \<not> truthy (x_txHash e) then throw (api_error INVALID_TX_HASH ''Intent has no prepared transaction hash'' 400)
     else if x_inputOutPoints e = [] \<and> x_inputRefs e = [] then
       throw (api_error INVALID_SIGNED_TRANSACTION ''Input preflight requires the prepared transaction input OutPoints'' 409)
     else if urls = [] then throw (api_error RPC_UNAVAILABLE ''No CKB RPC endpoint configured'' 503)
     else andThen (attempt (inspectInputOutPoints (rn_rpc env) urls (preflight_inputs e) (identity_of env project)))
       (preflight_verdict env ag)) n1 = (Inr view, n')"
    unfolding service_preflight_def by (rule andThen_InrE)
  from rest have ne: "preflight_inputs (ag_execution ag) \<noteq> []"
    and a: "andThen (attempt (inspectInputOutPoints (rn_rpc env) (endpointsFor env (p_rpcUrl project))
        (preflight_inputs (ag_execution ag)) (identity_of env project))) (preflight_verdict env ag) n1 = (Inr view, n')"
    by (auto simp: Let_def preflight_inputs_def neutralInputRefs_def split: if_splits)
  from a obtain x n2 where x: "inspectInputOutPoints (rn_rpc env) (endpointsFor env (p_rpcUrl project))
        (preflight_inputs (ag_execution ag)) (identity_of env project) n1 = (x, n2)"
    and v: "preflight_verdict env ag x n2 = (Inr view, n')" by (rule attempt_cases)
  from verdict_Inr [OF v] obtain inspection where i: "x = Inr inspection" "in_state inspection = II_ALL_LIVE" by blast
  have "cleared_inputs env project ag"
    using inspection_live [OF x [unfolded i(1)] i(2)] by (simp add: cleared_inputs_def)
  with getIntent_met [OF g] ne x i show ?thesis unfolding preflight_proved_def by blast
qed

lemma mark_run:
  assumes "service_markSubmission env project i SS_BROADCASTING None n = (Inr view, n')"
  shows "broadcast_recorded env project i n'"
proof -
  from assms have r: "mark_rounds env project i SS_BROADCASTING None 3 n = (Inr view, n')"
    by (auto simp: service_markSubmission_def throw_def split: option.splits)
  from mark_rounds_Inr [OF r] obtain input n0 n1 updated where
    p: "mark_prepare env project i SS_BROADCASTING None n0 = (Inr input, n1)"
    and m: "on_db env (markSubmissionStatus (rn_jsonb env) input) n1 = (Inr updated, n')" by blast
  from p obtain current m0 where g: "service_getIntent env project i n0 = (Inr current, m0)" and ag: "mk_aggregate input = current"
    by (auto simp: mark_prepare_def mark_input_def lift_api_def lift_sum_def map_sum_def throw_def ret_def elim!: andThen_InrE
        split: if_splits sum.splits)
  have read: "getIntent (p_id project) (js_trim i) (db_met env n0) = Some current" using getIntent_met [OF g] by blast
  have keys: "i_projectId (ag_intent current) = p_id project" "i_intentId (ag_intent current) = js_trim i"
    using read by (auto simp: getIntent_def Let_def mapIntent_def dest!: sql_first_Some split: option.splits)
  from mark_round_Inr [OF p m] have "\<exists>r \<in> set (executions (ndb n')). submission_row (ag_execution current) SS_BROADCASTING None r"
    and "getIntent (i_projectId (ag_intent current)) (i_intentId (ag_intent current)) (ndb n') = Some updated" by (simp_all add: ag)
  then show ?thesis using p m read unfolding broadcast_recorded_def list_ex_iff ag keys by (metis ag)
qed

text \<open>
  Property C1: when the client talks to the handlers of the service over a network that may lose
  requests and responses, every broadcast that ends other than with an error raised before the send
  has this course: its preflight was answered by the service, which had found every stored input of
  the intent live on the right chain, in the project that the client's key belongs to; then its mark
  was answered by the service; and the transaction was sent in the state of the world that this mark
  left, in whose database the intent's execution is BROADCASTING; what follows, and what the
  broadcast reports, is made of the node's answer to that send. So a send that is never answered is
  always on record.
\<close>

theorem sent_after_record:
  assumes "broadcast w (client_flow (served_env dl)) i p n = (r, t)" and "\<not> raised r" and "dl_decode dl (encodeURIComponent i) = i"
  shows "\<exists>v1 s1 v2 m answer m'. client_preflight (served_env dl) i n = (Inr v1, s1)
    \<and> (\<exists>u project k view. (client_step (served_env dl))\<^sup>*\<^sup>* n u \<and> client_auth dl u = (Inr project, k)
        \<and> service_preflight (wb_env (dl_web dl)) project i k = (Inr view, s1) \<and> preflight_proved (wb_env (dl_web dl)) project i k)
    \<and> client_markBroadcasting (served_env dl) i s1 = (Inr v2, m)
    \<and> (\<exists>u project k view. (client_step (served_env dl))\<^sup>*\<^sup>* s1 u \<and> client_auth dl u = (Inr project, k)
        \<and> service_markSubmission (wb_env (dl_web dl)) project i SS_BROADCASTING None k = (Inr view, m)
        \<and> broadcast_recorded (wb_env (dl_web dl)) project i m)
    \<and> wl_send w (pt_transaction p) m = (answer, m')
    \<and> (case answer of Inl e \<Rightarrow> broadcast_failed (client_flow (served_env dl)) i (pt_txHash p) e m'
       | Inr h \<Rightarrow> broadcast_answered (client_flow (served_env dl)) i (pt_txHash p) h m') = (r, t)"
proof -
  from flowing.before_send [OF assms(1)] assms(2) obtain v1 s1 v2 m answer m' where
    p: "client_preflight (served_env dl) i n = (Inr v1, s1)" and b: "client_markBroadcasting (served_env dl) i s1 = (Inr v2, m)"
    and a: "wl_send w (pt_transaction p) m = (answer, m')"
    and c: "(case answer of Inl e \<Rightarrow> broadcast_failed (client_flow (served_env dl)) i (pt_txHash p) e m'
       | Inr h \<Rightarrow> broadcast_answered (client_flow (served_env dl)) i (pt_txHash p) h m') = (r, t)"
    by (auto simp: client_flow_def raised_def)
  from served_preflight [OF p assms(3)] have "\<exists>u project k view. (client_step (served_env dl))\<^sup>*\<^sup>* n u \<and> client_auth dl u = (Inr project, k)
        \<and> service_preflight (wb_env (dl_web dl)) project i k = (Inr view, s1) \<and> preflight_proved (wb_env (dl_web dl)) project i k"
    using preflight_run by blast
  moreover from served_mark [OF b assms(3)] have "\<exists>u project k view. (client_step (served_env dl))\<^sup>*\<^sup>* s1 u \<and> client_auth dl u = (Inr project, k)
        \<and> service_markSubmission (wb_env (dl_web dl)) project i SS_BROADCASTING None k = (Inr view, m)
        \<and> broadcast_recorded (wb_env (dl_web dl)) project i m"
    using mark_run by blast
  ultimately show ?thesis using p b a c by blast
qed

text \<open>
  A deployment in which the other clients restore, before every access to the database, one with an
  intent that is prepared and a key that may write.
\<close>

definition cast_db :: db where
  "cast_db = sample_db\<lparr>executions := [prepared_row],
     api_keys := [(sample_key 1 [Scope_write])\<lparr>k_hash := hashApiKey sample_access ''cf_live_0123456789abcdef''\<rparr>]\<rparr>"

definition cast_env :: "unit reconcile_env" where
  "cast_env = live_env\<lparr>rn_others := (\<lambda>_. \<lparr>h_db = cast_db, h_world = ()\<rparr>)\<rparr>"

definition cast_net :: "unit host net" where
  "cast_net = \<lparr>nt_failures = (\<lambda>_. None), nt_world = \<lparr>h_db = cast_db, h_world = ()\<rparr>\<rparr>"

definition cast_deployment :: "unit deployment" where
  "cast_deployment = \<lparr>dl_web = sample_web\<lparr>wb_access := sample_access\<lparr>ac_env := cast_env\<rparr>\<rparr>,
     dl_options = (ce_options logging_env)\<lparr>cx_apiKey := ''cf_live_0123456789abcdef''\<rparr>, dl_decode = id, dl_requestLost = (\<lambda>_ _. None),
     dl_responseLost = (\<lambda>_ _. None), dl_sleep = (\<lambda>_ n. n), dl_now = (\<lambda>_. 0), dl_aborted = (\<lambda>_. None)\<rparr>"

lemma cast_rows: "on_rows (sample_access\<lparr>ac_env := cast_env\<rparr>) f n
    = (Inr (fst (f cast_db)), n\<lparr>nt_world := \<lparr>h_db = snd (f cast_db), h_world = ()\<rparr>\<rparr>)"
  by (simp add: on_rows_def on_db_def Let_def split_beta cast_env_def)

lemma cast_auth: "\<exists>d. authenticateBearer (sample_access\<lparr>ac_env := cast_env\<rparr>) (Some ''Bearer cf_live_0123456789abcdef'') Scope_write n
    = (Inr sample_project, n\<lparr>nt_world := \<lparr>h_db = d, h_world = ()\<rparr>\<rparr>)"
proof -
  have "fst (findAuthByApiKeyHash (hashApiKey sample_access ''cf_live_0123456789abcdef'') cast_db)
     = Some (sample_project, \<lparr>au_id = 1, au_projectId = 0, au_scopes = [Scope_write], au_expiresAt = None\<rparr>)"
    by (simp add: findAuthByApiKeyHash_def cast_db_def sample_key_def sample_defs key_active_def mapProject_def)
  moreover have "fst (consumeRateLimit (p_id sample_project) (rate_bucket 1) (rate_limit sample_access) 60 cast_db)"
    by (simp add: consumeRateLimit_def Let_def request_count_def upsert_window_def rate_limit_def sample_access_def cast_db_def sample_defs)
  moreover have "hashApiKey (sample_access\<lparr>ac_env := cast_env\<rparr>) k = hashApiKey sample_access k" for k
    by (simp add: hashApiKey_def sample_access_def cast_env_def live_env_def)
  moreover have "rate_limit (sample_access\<lparr>ac_env := cast_env\<rparr>) = rate_limit sample_access" by (simp add: rate_limit_def)
  ultimately show ?thesis
    by (simp add: authenticateBearer_def sample_header Let_def andThen_def cast_rows permitted_def) (rule exI, rule refl)
qed

lemma cast_read: "service_getIntent cast_env sample_project ''order-1'' n
   = (Inr (sample_aggregate\<lparr>ag_execution := prepared_row\<rparr>), n\<lparr>nt_world := \<lparr>h_db = cast_db, h_world = ()\<rparr>\<rparr>)"
  by (simp add: service_getIntent_def order_1 lift_api_def db_read_def andThen_def on_db_def Let_def cast_env_def cast_db_def
      getIntent_def sample_defs prepared_row_def sample_hash_def mapExecution_def mapIntent_def sql_select_def or_null_def truthy_def)

lemma cast_sel [simp]: "rn_rpc cast_env = rn_rpc live_env" "identity_of cast_env p = identity_of live_env p"
  "endpointsFor cast_env u = endpointsFor live_env u" "rn_jsonb cast_env = id"
  by (simp_all add: cast_env_def identity_of_def endpointsFor_def live_env_def sample_env_def split: option.split)

lemma cast_preflight:
  assumes "nt_failures n = (\<lambda>_. None)"
  shows "\<exists>v t. service_preflight cast_env sample_project ''order-1'' n = (Inr v, t)"
proof -
  let ?n = "n\<lparr>nt_world := \<lparr>h_db = cast_db, h_world = ()\<rparr>\<rparr>"
  obtain i m where a: "attempt (inspectInputOutPoints (rn_rpc live_env) [''https://a/'', ''https://b/'']
      (preflight_inputs prepared_row) (identity_of live_env sample_project)) ?n = (Inr (Inr i), m)" "in_state i = II_ALL_LIVE"
    using live_attempt [of ?n "hd (preflight_inputs prepared_row)"] assms
    by (auto simp: preflight_inputs_def neutralInputRefs_def cast_db_def sample_defs)
  obtain u t where e: "preflight_event cast_env (sample_aggregate\<lparr>ag_execution := prepared_row\<rparr>) ''INPUT_PREFLIGHT_VERIFIED''
               ''All original input OutPoints are canonically live and available against tx-pool state'' (inspection_json i) m = (Inr u, t)"
    by (auto simp: preflight_event_def Let_def on_db_def appendEvent_def split_beta simp del: append.simps)
  have "p_rpcUrl sample_project = None" by (simp add: sample_project_def)
  with a e show ?thesis
    by (simp add: service_preflight_def andThen_def cast_read live_urls Let_def truthy_def sample_hash_def preflight_verdict_def
      del: append.simps)
qed

lemma cast_mark: "\<exists>r t. service_markSubmission cast_env sample_project ''order-1'' SS_BROADCASTING None n = (Inr r, t)"
proof -
  let ?n = "n\<lparr>nt_world := \<lparr>h_db = cast_db, h_world = ()\<rparr>\<rparr>"
  obtain s where u: "updateSubmission (snapshotFromExecution prepared_row) SS_BROADCASTING = Inr s"
    by (auto simp: updateSubmission_accepts snapshotFromExecution_def submission_move_def submission_order_def
      less_eq_SubmissionStatus_def)
  let ?input = "mark_input (sample_aggregate\<lparr>ag_execution := prepared_row\<rparr>) SS_BROADCASTING None s"
  have p: "mark_prepare cast_env sample_project ''order-1'' SS_BROADCASTING None n = (Inr ?input, ?n)"
    by (simp add: mark_prepare_def andThen_def cast_read u lift_api_def truthy_def sample_hash_def)
  have "\<exists>r t. markSubmissionStatus id ?input cast_db = (Inr r, t)"
    by (simp add: markSubmissionStatus_def mark_tx_def Let_def mark_input_def cast_db_def sample_defs prepared_row_def update_execution_def
      version_match_def execution_check_def conflict_type_allowed_def mark_projection_def mk_nextConflictType_def failure_conflict_def
      failure_type_def tx_hash_taken_def getIntent_def)
  then obtain r t where "markSubmissionStatus id ?input cast_db = (Inr r, t)" by blast
  then have m: "\<exists>k. on_db cast_env (markSubmissionStatus id ?input) ?n = (Inr r, k)"
    by (simp add: on_db_def Let_def) (simp add: cast_env_def)
  then show ?thesis
    by (auto simp: service_markSubmission_def submission_refusal_def failure_conflict_def numeral_3_eq_3 andThen_def p tryCatch_def)
qed

lemma order_path: "encodeURIComponent ''order-1'' = ''order-1''"
  by code_simp

lemma cast_request:
  "rq_authorization (request_of (fetch_request (dl_options cast_deployment) path (post_init body))) = Some ''Bearer cf_live_0123456789abcdef''"
  by (simp add: request_of_def Let_def fetch_request_def post_init_def cast_deployment_def logging_env_def set_header_def)

lemma cast_post:
  assumes "map_of intent_posts action = Some r" and "CHR ''/'' \<notin> set action"
    and "\<And>rq. rq_authorization rq = Some ''Bearer cf_live_0123456789abcdef'' \<Longrightarrow>
      \<exists>view t. run_route (dl_web cast_deployment) rq (r ''order-1'') n = (intent_response view [], t)"
  shows "\<exists>v t. post_intent (served_env cast_deployment) (intent_path ''order-1'' (CHR ''/'' # action)) body n = (Inr v, t)"
proof -
  let ?rq = "request_of (fetch_request (dl_options cast_deployment) (intent_path ''order-1'' (CHR ''/'' # action)) (post_init (json_stringify body)))"
  obtain view t where r: "run_route (dl_web cast_deployment) ?rq (r ''order-1'') n = (intent_response view [], t)"
    using assms(3) [OF cast_request] by blast
  have route: "intent_route (dl_decode cast_deployment) (Some ''POST'') (intent_path ''order-1'' (CHR ''/'' # action)) = Some (r ''order-1'')"
    by (rule intent_path_route [OF assms(1) _ assms(2)]) (simp add: cast_deployment_def order_path)
  have "served_fetch cast_deployment ms (fetch_request (dl_options cast_deployment) (intent_path ''order-1'' (CHR ''/'' # action))
      (post_init (json_stringify body))) n = (Responded 200 (Some (JObj [(''intent'', publicView_json view)])), t)" for ms
    using r route
    by (simp add: served_fetch_def fetch_request_def [of "dl_options cast_deployment" "intent_path ''order-1'' (CHR ''/'' # action)"] Let_def post_init_def
        intent_response_def json_response_def) (simp add: cast_deployment_def)
  moreover have "request_attempts (dl_options cast_deployment) = Suc 0"
    by (simp add: request_attempts_def boundedMilliseconds_def cast_deployment_def logging_env_def)
  moreover have "dl_aborted cast_deployment m = None" for m by (simp add: cast_deployment_def)
  ultimately show ?thesis
    by (simp add: post_intent_def request_def served_env_def andThen_def Let_def throwIfAborted_def signal_aborted_def post_init_def
        lift_sum_def read_response_def response_ok_def intent_of_def js_field_def)
qed

lemma cast_runs:
  "nt_failures n = (\<lambda>_. None) \<Longrightarrow> \<exists>v t. client_preflight (served_env cast_deployment) ''order-1'' n = (Inr v, t)"
  "\<exists>v t. client_markBroadcasting (served_env cast_deployment) ''order-1'' n = (Inr v, t)"
proof -
  have web: "wb_access (dl_web cast_deployment) = sample_access\<lparr>ac_env := cast_env\<rparr>" by (simp add: cast_deployment_def)
  show "\<exists>v t. client_markBroadcasting (served_env cast_deployment) ''order-1'' n = (Inr v, t)"
    unfolding client_markBroadcasting_def
  proof (rule cast_post [where r = R_POST_broadcasting])
    fix rq :: Request assume a: "rq_authorization rq = Some ''Bearer cf_live_0123456789abcdef''"
    from cast_auth [of n] obtain d where "authenticateBearer (sample_access\<lparr>ac_env := cast_env\<rparr>) (rq_authorization rq) Scope_write n
      = (Inr sample_project, n\<lparr>nt_world := \<lparr>h_db = d, h_world = ()\<rparr>\<rparr>)" unfolding a by blast
    moreover obtain view t where "service_markSubmission cast_env sample_project ''order-1'' SS_BROADCASTING None
      (n\<lparr>nt_world := \<lparr>h_db = d, h_world = ()\<rparr>\<rparr>) = (Inr view, t)" using cast_mark by blast
    ultimately show "\<exists>view t. run_route (dl_web cast_deployment) rq (R_POST_broadcasting ''order-1'') n = (intent_response view [], t)"
      by (simp add: run_route_def POST_broadcasting_def respond_def projectFromRequest_def routed_def andThen_def web) (rule exI, rule refl)
  qed (simp_all add: intent_posts_def)
  assume f: "nt_failures n = (\<lambda>_. None)"
  show "\<exists>v t. client_preflight (served_env cast_deployment) ''order-1'' n = (Inr v, t)"
    unfolding client_preflight_def
  proof (rule cast_post [where r = R_POST_preflight])
    fix rq :: Request assume a: "rq_authorization rq = Some ''Bearer cf_live_0123456789abcdef''"
    from cast_auth [of n] obtain d where "authenticateBearer (sample_access\<lparr>ac_env := cast_env\<rparr>) (rq_authorization rq) Scope_write n
      = (Inr sample_project, n\<lparr>nt_world := \<lparr>h_db = d, h_world = ()\<rparr>\<rparr>)" unfolding a by blast
    moreover obtain view t where "service_preflight cast_env sample_project ''order-1''
      (n\<lparr>nt_world := \<lparr>h_db = d, h_world = ()\<rparr>\<rparr>) = (Inr view, t)" using cast_preflight [of "n\<lparr>nt_world := \<lparr>h_db = d, h_world = ()\<rparr>\<rparr>"] f by auto
    ultimately show "\<exists>view t. run_route (dl_web cast_deployment) rq (R_POST_preflight ''order-1'') n = (intent_response view [], t)"
      by (simp add: run_route_def POST_preflight_def respond_def projectFromRequest_def routed_def andThen_def web) (rule exI, rule refl)
  qed (simp_all add: intent_posts_def)
qed

definition cast_wallet :: "(unit host net, string) wallet" where
  "cast_wallet = \<lparr>wl_inputs = (\<lambda>_. []), wl_hash = id, wl_value = JStr, wl_sign = ret, wl_send = ret, wl_sha256 = id\<rparr>"

theorem sent_after_record_witness:
  "\<exists>r t m. broadcast cast_wallet (client_flow (served_env cast_deployment)) ''order-1'' prepared_text cast_net = (r, t) \<and> \<not> raised r
     \<and> broadcast_recorded cast_env sample_project ''order-1'' m
     \<and> broadcast_answered (client_flow (served_env cast_deployment)) ''order-1'' ''0xab'' ''0xab'' m = (r, t)"
proof -
  obtain r t where b: "broadcast cast_wallet (client_flow (served_env cast_deployment)) ''order-1'' prepared_text cast_net = (r, t)" by fastforce
  have "nt_failures cast_net = (\<lambda>_. None)" by (simp add: cast_net_def)
  then obtain v1 t1 where p: "client_preflight (served_env cast_deployment) ''order-1'' cast_net = (Inr v1, t1)" using cast_runs(1) by blast
  obtain v2 t2 where m: "client_markBroadcasting (served_env cast_deployment) ''order-1'' t1 = (Inr v2, t2)" using cast_runs(2) by blast
  obtain x u where s: "client_markSubmitted (served_env cast_deployment) ''order-1'' t2 = (x, u)" by fastforce
  from b have n: "\<not> raised r"
    by (cases x) (auto simp: broadcast_def client_flow_def p m s andThen_def raise_as_def broadcast_answered_def prepared_text_def
        cast_wallet_def raised_def)
  have d: "dl_decode cast_deployment (encodeURIComponent ''order-1'') = ''order-1''" by (simp add: cast_deployment_def order_path)
  have only: "project = sample_project" if "client_auth cast_deployment k = (Inr project, k')" for project k k'
    using that cast_auth [of k] by (auto simp: client_auth_def cast_deployment_def logging_env_def)
  have e: "wb_env (dl_web cast_deployment) = cast_env" by (simp add: cast_deployment_def)
  show ?thesis
    using sent_after_record [OF b n d] b n only unfolding e by (fastforce simp: cast_wallet_def prepared_text_def ret_def)
qed

end
