(* ===== verification/RpcTransport.thy ===== *)
theory RpcTransport
  imports ServiceReports Delivery
begin

text \<open>
  Models the rest of workflows/reconcile/src/rpc.ts: the request of one JSON-RPC call, which is
  pinned to an address that was checked for this very call, the bounded reading of its response,
  and the timeout. The transport that the theories Rpc and RpcClient take
  as a parameter is built here; what remains a parameter is the socket, the resolver and
  \<open>JSON.parse\<close>.
\<close>

section \<open>Settings\<close>

text \<open>The number of the environment variable; \<open>None\<close> when it is absent or not finite.\<close>

definition rpcTimeoutMs :: "int option \<Rightarrow> int" where
  "rpcTimeoutMs configured = (case configured of Some n \<Rightarrow> min (max n 1000) 30000 | None \<Rightarrow> 10000)"


section \<open>Reading a response\<close>

text \<open>
  A response: its status, the chunks it sends, and how it ends, with an error or not. The request
  fails before it, with the socket's error or the timeout.
\<close>

record RpcResponse =
  rp_statusCode :: "int option"
  rp_chunks :: "nat list list"
  rp_failure :: "thrown option"

definition rpc_response_limit :: nat where
  "rpc_response_limit = 2000000"

text \<open>The handler of \<open>data\<close>: the size so far, and the chunks read; \<open>None\<close> once the limit is passed.\<close>

fun read_chunks :: "nat \<Rightarrow> nat list list \<Rightarrow> nat list option" where
  "read_chunks n [] = Some []"
| "read_chunks n (chunk # chunks) =
    (let n' = n + length chunk in
     if n' > rpc_response_limit then None
     else map_option (\<lambda>rest. chunk @ rest) (read_chunks n' chunks))"

definition onResponse :: "(nat list \<Rightarrow> json option) \<Rightarrow> RpcResponse \<Rightarrow> thrown + json" where
  "onResponse parse response =
    (case read_chunks 0 (rp_chunks response) of
       None \<Rightarrow> Inl (PlainError ''RPC response exceeds 2 MB safety limit'')
     | Some bytes \<Rightarrow>
         (case rp_failure response of
            Some e \<Rightarrow> Inl e
          | None \<Rightarrow>
              let status = (case rp_statusCode response of Some n \<Rightarrow> n | None \<Rightarrow> 500) in
              if status < 200 \<or> 300 \<le> status then
                Inl (PlainError (''RPC HTTP '' @ int_string (case rp_statusCode response of Some n \<Rightarrow> n | None \<Rightarrow> 0)))
              else (case parse bytes of Some j \<Rightarrow> Inr j | None \<Rightarrow> Inl (PlainError ''RPC response was not valid JSON''))))"


section \<open>One call\<close>

text \<open>
  The process: its resolver and socket, its settings, and the number the session gives to the
  request, which no answer is compared with.
\<close>

record 'w rpc_process =
  rq_ips :: ip_library
  rq_newURL :: "string \<Rightarrow> ParsedUrl option"
  rq_lookup :: "string \<Rightarrow> ('w, thrown, DnsRecord list) action"
  rq_socket :: "PinnedRequest \<Rightarrow> ('w, thrown, RpcResponse) action"
  rq_number :: "string \<Rightarrow> 'w \<Rightarrow> nat \<times> 'w"
  rq_parse :: "nat list \<Rightarrow> json option"
  rq_now :: "'w \<Rightarrow> timestamp"
  rq_explicit :: bool
  rq_production :: bool
  rq_timeoutMs :: "int option"
  rq_circuitFailures :: "int option"
  rq_circuitCooldownMs :: "int option"

definition pinned_request :: "int option \<Rightarrow> Destination \<Rightarrow> string \<Rightarrow> PinnedRequest" where
  "pinned_request timeout d body =
    (let url = de_url d in
     \<lparr>pq_protocol = u_protocol url, pq_address = de_address d, pq_family = de_family d,
      pq_port = (if u_port url \<noteq> [] then u_port url else if u_protocol url = ''https:'' then ''443'' else ''80''),
      pq_path = u_pathname url @ u_search url, pq_servername = u_hostname url, pq_host = u_host url,
      pq_headers = [(''content-type'', ''application/json''), (''user-agent'', ''CellFlow/0.3''), (''host'', u_host url),
        (''content-length'', nat_string (length (utf8_encode body)))],
      pq_body = body, pq_timeout = rpcTimeoutMs timeout\<rparr>)"

definition postPinnedRpc :: "'w rpc_process \<Rightarrow> Destination \<Rightarrow> string \<Rightarrow> ('w, thrown, json) action" where
  "postPinnedRpc ps d body =
     andThen (rq_socket ps (pinned_request (rq_timeoutMs ps) d body)) (\<lambda>response. lift_sum (onResponse (rq_parse ps) response))"

definition rpc_body :: "nat \<Rightarrow> string \<Rightarrow> json list \<Rightarrow> string" where
  "rpc_body number method' params = json_stringify (JObj
     [(''jsonrpc'', JStr ''2.0''), (''id'', JNum (int number)), (''method'', JStr method'), (''params'', JArr params)])"

definition rpc_post :: "'w rpc_process \<Rightarrow> string \<Rightarrow> string \<Rightarrow> json list \<Rightarrow> ('w, thrown, json) action" where
  "rpc_post ps url method' params =
     andThen (resolveRpcDestination (rq_ips ps) (rq_newURL ps) (rq_lookup ps) (rq_explicit ps) (rq_production ps) url) (\<lambda>destination.
     andThen (\<lambda>w. case rq_number ps url w of (number, t) \<Rightarrow> (Inr number, t)) (\<lambda>number.
     postPinnedRpc ps destination (rpc_body number method' params)))"

definition pinned_transport :: "'w rpc_process \<Rightarrow> 'w transport" where
  "pinned_transport ps = \<lparr>tr_post = rpc_post ps, tr_now = rq_now ps\<rparr>"

definition client_config :: "'w rpc_process \<Rightarrow> 'w rpc_config" where
  "client_config ps = \<lparr>rc_transport = pinned_transport ps, rc_threshold = rpcCircuitThreshold (rq_circuitFailures ps),
     rc_cooldownMs = rpcCircuitCooldownMs (rq_circuitCooldownMs ps)\<rparr>"


section \<open>What an answer proves\<close>

lemma chunks_read:
  assumes "read_chunks n chunks = Some bytes" and "n \<le> rpc_response_limit"
  shows "bytes = concat chunks \<and> n + length bytes \<le> rpc_response_limit"
  using assms by (induction n chunks arbitrary: bytes rule: read_chunks.induct) (fastforce simp: Let_def split: if_splits)+

lemma response_accepted:
  assumes "onResponse parse response = Inr payload"
  shows "length (concat (rp_chunks response)) \<le> 2000000 \<and> parse (concat (rp_chunks response)) = Some payload
    \<and> (\<exists>status. rp_statusCode response = Some status \<and> 200 \<le> status \<and> status < 300)"
proof -
  from assms obtain bytes where b: "read_chunks 0 (rp_chunks response) = Some bytes"
    by (auto simp: onResponse_def split: option.splits)
  from chunks_read [OF b] have "bytes = concat (rp_chunks response)" "length bytes \<le> 2000000"
    by (auto simp: rpc_response_limit_def)
  with assms b show ?thesis by (auto simp: onResponse_def Let_def split: option.splits if_splits)
qed

text \<open>A destination is either public, and then reached over HTTPS, or a loopback address that was allowed.\<close>

definition rpc_destination_ok :: "'w rpc_process \<Rightarrow> string \<Rightarrow> Destination \<Rightarrow> bool" where
  "rpc_destination_ok ps url d \<longleftrightarrow> rq_newURL ps url = Some (de_url d) \<and> u_username (de_url d) = [] \<and> u_password (de_url d) = []
     \<and> (if allowLocalRpc (rq_explicit ps) (rq_production ps) (de_url d)
        then is_loopback \<lparr>dn_address = de_address d, dn_family = de_family d\<rparr>
        else u_protocol (de_url d) = ''https:'' \<and> \<not> isBlockedRpcIp (rq_ips ps) (de_address d))"

lemma chosen_rpc:
  assumes "choose_rpc_destination lib localAllowed url records = Inr d"
  shows "de_url d = url \<and> (if localAllowed then is_loopback \<lparr>dn_address = de_address d, dn_family = de_family d\<rparr>
    else \<not> isBlockedRpcIp lib (de_address d))"
proof -
  from assms obtain r where r: "find (\<lambda>r. dn_family r = 4 \<or> dn_family r = 6) records = Some r"
      "d = \<lparr>de_url = url, de_address = dn_address r, de_family = dn_family r\<rparr>"
    and ok: "\<not> (localAllowed \<and> list_ex (\<lambda>r. \<not> is_loopback r) records)"
      "\<not> (\<not> localAllowed \<and> list_ex (\<lambda>r. isBlockedRpcIp lib (dn_address r)) records)"
    by (auto simp: choose_rpc_destination_def split: if_splits option.splits)
  have "r \<in> set records" using r(1) by (auto simp: find_Some_iff)
  then show ?thesis using ok r(2) by (cases localAllowed) (auto simp: list_ex_iff is_loopback_def)
qed

lemma resolved_ok:
  assumes "resolveRpcDestination (rq_ips ps) (rq_newURL ps) (rq_lookup ps) (rq_explicit ps) (rq_production ps) url w = (Inr d, t)"
  shows "rpc_destination_ok ps url d"
proof -
  from assms obtain u records where u: "rq_newURL ps url = Some u" "u_username u = []" "u_password u = []"
    and p: "u_protocol u = ''https:'' \<or> allowLocalRpc (rq_explicit ps) (rq_production ps) u"
    and c: "choose_rpc_destination (rq_ips ps) (allowLocalRpc (rq_explicit ps) (rq_production ps) u) u records = Inr d"
    by (auto simp: resolveRpcDestination_def Let_def throw_def lift_sum_def ret_def elim!: andThen_InrE
        split: option.splits if_splits sum.splits)
  from chosen_rpc [OF c] u p show ?thesis by (auto simp: rpc_destination_ok_def)
qed

text \<open>
  Property C6: an answer of the RPC client comes from the socket of one request, sent for this very
  call to a destination that is public and reached over HTTPS, or is a loopback address where that
  is allowed, on a socket that may be silent for at most 30 seconds; and only from a response with a success status
  and at most two million bytes, which parsed as JSON and carried no error.
\<close>

theorem rpc_answer_proved:
  assumes "session_call (pinned_transport ps) url method' params w = (Inr result, t)"
  shows "\<exists>d number w' response payload. rpc_destination_ok ps url d
    \<and> rq_socket ps (pinned_request (rq_timeoutMs ps) d (rpc_body number method' params)) w' = (Inr response, t)
    \<and> pq_timeout (pinned_request (rq_timeoutMs ps) d (rpc_body number method' params)) \<in> {1000..30000}
    \<and> (\<exists>status. rp_statusCode response = Some status \<and> 200 \<le> status \<and> status < 300)
    \<and> length (concat (rp_chunks response)) \<le> 2000000 \<and> rq_parse ps (concat (rp_chunks response)) = Some payload
    \<and> js_field (asRecord payload) ''result'' = Some result \<and> \<not> json_truthy (field_of payload ''error'')"
proof -
  from assms obtain payload v where p: "rpc_post ps url method' params w = (Inr payload, v)"
    and r: "t = v" "js_field (asRecord payload) ''result'' = Some result" "\<not> json_truthy (field_of payload ''error'')"
    by (auto simp: session_call_def pinned_transport_def Let_def throw_def ret_def elim!: andThen_InrE split: if_splits option.splits)
  from p obtain d w1 number w2 where
    d: "resolveRpcDestination (rq_ips ps) (rq_newURL ps) (rq_lookup ps) (rq_explicit ps) (rq_production ps) url w = (Inr d, w1)"
    and s: "postPinnedRpc ps d (rpc_body number method' params) w2 = (Inr payload, v)"
    by (auto simp: rpc_post_def elim!: andThen_InrE split: prod.splits)
  from s obtain response where q: "rq_socket ps (pinned_request (rq_timeoutMs ps) d (rpc_body number method' params)) w2 = (Inr response, v)"
    and o': "onResponse (rq_parse ps) response = Inr payload"
    by (auto simp: postPinnedRpc_def lift_sum_def throw_def ret_def elim!: andThen_InrE split: sum.splits)
  have "pq_timeout (pinned_request (rq_timeoutMs ps) d b) \<in> {1000..30000}" for b
    by (auto simp: pinned_request_def Let_def rpcTimeoutMs_def split: option.split)
  with resolved_ok [OF d] q response_accepted [OF o'] r show ?thesis by blast
qed

text \<open>The requests a production process must never send.\<close>

definition forbidden_rpc :: "'w rpc_process \<Rightarrow> PinnedRequest \<Rightarrow> bool" where
  "forbidden_rpc ps q \<longleftrightarrow> pq_protocol q \<noteq> ''https:'' \<or> isBlockedRpcIp (rq_ips ps) (pq_address q)"

definition rerouted :: "'w rpc_process \<Rightarrow> (PinnedRequest \<Rightarrow> ('w, thrown, RpcResponse) action) \<Rightarrow> 'w rpc_process" where
  "rerouted ps f = ps\<lparr>rq_socket := (\<lambda>q. if forbidden_rpc ps q then f q else rq_socket ps q)\<rparr>"

text \<open>
  Property C34: in production, unless insecure endpoints are explicitly allowed, the client never
  sends a request that is not HTTPS or goes to a blocked address: whatever such requests would
  answer or do, the configuration of the client is the same, and with it every result of the
  reconciliation, the preflight and the readiness check, whatever the resolver answers.
\<close>

theorem no_forbidden_rpc:
  assumes "rq_production ps" and "\<not> rq_explicit ps"
  shows "client_config (rerouted ps f) = client_config ps"
proof -
  have "rpc_post (rerouted ps f) url m params w = rpc_post ps url m params w" for url m params w
  proof -
    have post: "postPinnedRpc (rerouted ps f) d b = postPinnedRpc ps d b" if "rpc_destination_ok ps url d" for d b
      using that assms
      by (simp add: postPinnedRpc_def rerouted_def forbidden_rpc_def pinned_request_def Let_def rpc_destination_ok_def allowLocalRpc_def)
    obtain x v where d: "resolveRpcDestination (rq_ips ps) (rq_newURL ps) (rq_lookup ps) (rq_explicit ps) (rq_production ps) url w = (x, v)"
      by fastforce
    show ?thesis
    proof (cases x)
      case (Inl e)
      with d show ?thesis by (simp add: rpc_post_def rerouted_def andThen_def)
    next
      case (Inr dest)
      with d have "rpc_destination_ok ps url dest" by (simp add: resolved_ok)
      with d Inr show ?thesis
        by (cases "rq_number ps url v") (simp add: rpc_post_def andThen_def post, simp add: rerouted_def andThen_def post [unfolded rerouted_def])
    qed
  qed
  then have "rpc_post (rerouted ps f) = rpc_post ps" by (intro ext)
  then show ?thesis by (simp add: client_config_def pinned_transport_def) (simp add: rerouted_def)
qed

text \<open>A development process with an endpoint on this host, and a production process.\<close>

definition sample_process :: "bool \<Rightarrow> unit rpc_process" where
  "sample_process production = \<lparr>rq_ips = sample_ips,
     rq_newURL = (\<lambda>u. Some \<lparr>u_href = u, u_protocol = ''https:'', u_username = [], u_password = [], u_hostname = u, u_host = u, u_port = [],
       u_pathname = ''/'', u_search = []\<rparr>),
     rq_lookup = (\<lambda>name. ret [\<lparr>dn_address = ''127.0.0.1'', dn_family = 4\<rparr>]),
     rq_socket = (\<lambda>q. ret \<lparr>rp_statusCode = Some 200, rp_chunks = [[123], [125]], rp_failure = None\<rparr>), rq_number = (\<lambda>url w. (1, w)),
     rq_parse = (\<lambda>bytes. Some (JObj [(''result'', JStr ''0x1'')])), rq_now = (\<lambda>w. 0), rq_explicit = False, rq_production = production,
     rq_timeoutMs = None, rq_circuitFailures = None, rq_circuitCooldownMs = None\<rparr>"

lemma sample_answer: "session_call (pinned_transport (sample_process False)) ''localhost'' ''get_tip_header'' [] () = (Inr (JStr ''0x1''), ())"
  by (simp add: session_call_def pinned_transport_def rpc_post_def sample_process_def resolveRpcDestination_def allowLocalRpc_def
      bare_hostname_def is_loopback_name_def choose_rpc_destination_def is_loopback_def startsWith_def andThen_def lift_sum_def
      postPinnedRpc_def onResponse_def rpc_response_limit_def field_of_def js_field_def asRecord_def json_truthy_def Let_def)

theorem rpc_answer_proved_witness:
  "\<exists>d. rpc_destination_ok (sample_process False) ''localhost'' d
     \<and> session_call (pinned_transport (sample_process False)) ''localhost'' ''get_tip_header'' [] () = (Inr (JStr ''0x1''), ())"
  using rpc_answer_proved [OF sample_answer] sample_answer by blast

theorem no_forbidden_rpc_witness:
  "client_config (rerouted (sample_process True) (\<lambda>q. throw (PlainError ''blocked''))) = client_config (sample_process True)"
  by (rule no_forbidden_rpc) (simp_all add: sample_process_def)

end
