(* ===== verification/Migrations.thy ===== *)
theory Migrations
  imports RpcClient
begin

text \<open>
  Models packages/db/src/migrate.ts: the migrations of the schema, run in one transaction under a
  lock. The list of migrations is generated from the SQL files, and what a file does to the schema
  is SQL; both are parameters.
\<close>

section \<open>The transaction\<close>

record Migration =
  mg_version :: string
  mg_source :: string

text \<open>The table \<open>schema_migrations\<close>, absent at first, and the rest of the schema.\<close>

record 's schema_db =
  sd_versions :: "string list option"
  sd_schema :: 's

record MigrationResult =
  mr_latest :: "string option"
  mr_applied :: "string list"
  mr_skipped :: "string list"

definition latestMigrationVersion :: "Migration list \<Rightarrow> string option" where
  "latestMigrationVersion migrations = (if migrations = [] then None else Some (mg_version (last migrations)))"

text \<open>The insertion of a version, a primary key.\<close>

definition insert_version :: "string \<Rightarrow> string list \<Rightarrow> thrown + string list" where
  "insert_version v versions = (if v \<in> set versions then Inl (ConstraintViolation ''schema_migrations_pkey'') else Inr (versions @ [v]))"

text \<open>
  The loop, with the set of versions read before it, the rows, the schema and the two lists of the
  result.
\<close>

fun apply_migrations :: "(string \<Rightarrow> 's \<Rightarrow> thrown + 's) \<Rightarrow> string set \<Rightarrow> Migration list \<Rightarrow> string list \<Rightarrow> 's \<Rightarrow> string list \<Rightarrow> string list
    \<Rightarrow> thrown + (string list \<times> 's \<times> string list \<times> string list)" where
  "apply_migrations run existing [] versions schema applied skipped = Inr (versions, schema, applied, skipped)"
| "apply_migrations run existing (m # ms) versions schema applied skipped =
    (if mg_version m \<in> existing then apply_migrations run existing ms versions schema applied (skipped @ [mg_version m])
     else case run (mg_source m) schema of
       Inl e \<Rightarrow> Inl e
     | Inr schema' \<Rightarrow>
         (case insert_version (mg_version m) versions of
            Inl e \<Rightarrow> Inl e
          | Inr versions' \<Rightarrow> apply_migrations run existing ms versions' schema' (applied @ [mg_version m]) skipped))"

text \<open>An error rolls the transaction back. The lock makes concurrent calls a sequence.\<close>

definition migrateDatabase :: "(string \<Rightarrow> 's \<Rightarrow> thrown + 's) \<Rightarrow> Migration list \<Rightarrow> ('s schema_db, thrown, MigrationResult) action" where
  "migrateDatabase run migrations s =
    (let rows = (case sd_versions s of Some vs \<Rightarrow> vs | None \<Rightarrow> []) in
     case apply_migrations run (set rows) migrations rows (sd_schema s) [] [] of
       Inl e \<Rightarrow> (Inl e, s)
     | Inr (versions, schema, applied, skipped) \<Rightarrow>
         (Inr \<lparr>mr_latest = latestMigrationVersion migrations, mr_applied = applied, mr_skipped = skipped\<rparr>,
          \<lparr>sd_versions = Some versions, sd_schema = schema\<rparr>))"


section \<open>Each migration once\<close>

text \<open>The effect of the migrations in order.\<close>

fun run_all :: "(string \<Rightarrow> 's \<Rightarrow> thrown + 's) \<Rightarrow> string list \<Rightarrow> 's \<Rightarrow> thrown + 's" where
  "run_all run [] s = Inr s"
| "run_all run (x # xs) s = (case run x s of Inl e \<Rightarrow> Inl e | Inr t \<Rightarrow> run_all run xs t)"

lemma loop_done:
  assumes "mg_version ` set ms \<subseteq> existing"
  shows "apply_migrations run existing ms versions schema applied skipped = Inr (versions, schema, applied, skipped @ map mg_version ms)"
  using assms by (induction ms arbitrary: skipped) auto

lemma loop_fresh:
  assumes "distinct (map mg_version ms)" and "mg_version ` set ms \<inter> (existing \<union> set versions) = {}"
  shows "apply_migrations run existing ms versions schema applied skipped =
    (case run_all run (map mg_source ms) schema of Inl e \<Rightarrow> Inl e
     | Inr t \<Rightarrow> Inr (versions @ map mg_version ms, t, applied @ map mg_version ms, skipped))"
  using assms
proof (induction ms arbitrary: versions schema applied)
  case (Cons m ms)
  then have "insert_version (mg_version m) versions = Inr (versions @ [mg_version m])"
    by (auto simp: insert_version_def)
  moreover have "mg_version m \<notin> existing" using Cons.prems(2) by auto
  moreover have "apply_migrations run existing ms (versions @ [mg_version m]) t (applied @ [mg_version m]) skipped =
      (case run_all run (map mg_source ms) t of Inl e \<Rightarrow> Inl e
       | Inr u \<Rightarrow> Inr ((versions @ [mg_version m]) @ map mg_version ms, u, (applied @ [mg_version m]) @ map mg_version ms, skipped))" for t
    by (rule Cons.IH) (use Cons.prems in auto)
  ultimately show ?case by (auto split: sum.split)
qed simp

text \<open>Databases that calls with these migrations reach from an empty one, whatever their outcomes.\<close>

inductive migrated :: "(string \<Rightarrow> 's \<Rightarrow> thrown + 's) \<Rightarrow> Migration list \<Rightarrow> 's \<Rightarrow> 's schema_db \<Rightarrow> bool" for run migrations initial where
  "migrated run migrations initial \<lparr>sd_versions = None, sd_schema = initial\<rparr>"
| "migrated run migrations initial s \<Longrightarrow> migrated run migrations initial (snd (migrateDatabase run migrations s))"

lemma migrated_states:
  assumes "distinct (map mg_version migrations)" and "migrated run migrations initial s"
  shows "s = \<lparr>sd_versions = None, sd_schema = initial\<rparr>
    \<or> (\<exists>t. run_all run (map mg_source migrations) initial = Inr t \<and> s = \<lparr>sd_versions = Some (map mg_version migrations), sd_schema = t\<rparr>)"
  using assms(2)
proof (induction rule: migrated.induct)
  case (2 s)
  then show ?case
  proof (elim disjE exE conjE)
    assume s: "s = \<lparr>sd_versions = None, sd_schema = initial\<rparr>"
    show ?thesis
      using loop_fresh [OF assms(1), of "{}" "[]" run initial "[]" "[]"]
      by (auto simp: s migrateDatabase_def Let_def split: sum.split)
  next
    fix t assume t: "run_all run (map mg_source migrations) initial = Inr t"
      "s = \<lparr>sd_versions = Some (map mg_version migrations), sd_schema = t\<rparr>"
    show ?thesis
      using loop_done [of migrations "mg_version ` set migrations" run "map mg_version migrations" t "[]" "[]"] t
      by (auto simp: migrateDatabase_def Let_def)
  qed
qed simp

text \<open>
  Property C7: however often the schema is migrated, by whatever calls at once, and however many of
  them fail, it is either as it was or the result of running every migration exactly once, in
  order; a call that succeeds reports each migration as applied or skipped, all applied the first
  time and all skipped afterwards.
\<close>

theorem migrations_once:
  assumes "distinct (map mg_version migrations)" and "migrated run migrations initial s"
    and "migrateDatabase run migrations s = (r, t)"
  shows "(case r of
      Inl e \<Rightarrow> t = s \<and> sd_versions t = None \<and> sd_schema t = initial \<and> run_all run (map mg_source migrations) initial = Inl e
    | Inr result \<Rightarrow> run_all run (map mg_source migrations) initial = Inr (sd_schema t) \<and> sd_versions t = Some (map mg_version migrations)
        \<and> (if sd_versions s = None then mr_applied result = map mg_version migrations \<and> mr_skipped result = []
           else mr_applied result = [] \<and> mr_skipped result = map mg_version migrations \<and> t = s))"
  using migrated_states [OF assms(1,2)]
proof (elim disjE exE conjE)
  assume s: "s = \<lparr>sd_versions = None, sd_schema = initial\<rparr>"
  show ?thesis
    using loop_fresh [OF assms(1), of "{}" "[]" run initial "[]" "[]"] assms(3)
    by (auto simp: s migrateDatabase_def Let_def split: sum.splits)
next
  fix u assume u: "run_all run (map mg_source migrations) initial = Inr u"
    "s = \<lparr>sd_versions = Some (map mg_version migrations), sd_schema = u\<rparr>"
  show ?thesis
    using loop_done [of migrations "mg_version ` set migrations" run "map mg_version migrations" u "[]" "[]"] assms(3) u
    by (auto simp: migrateDatabase_def Let_def)
qed

definition two_migrations :: "Migration list" where
  "two_migrations = [\<lparr>mg_version = ''001'', mg_source = ''a''\<rparr>, \<lparr>mg_version = ''002'', mg_source = ''b''\<rparr>]"

theorem migrations_once_witness:
  "\<exists>r t. migrateDatabase (\<lambda>x s. Inr (s @ x)) two_migrations \<lparr>sd_versions = None, sd_schema = []\<rparr> = (Inr r, t)
     \<and> sd_schema t = ''ab'' \<and> mr_applied r = [''001'', ''002'']"
proof -
  let ?run = "\<lambda>x s. (Inr (s @ x) :: thrown + string)" and ?s = "\<lparr>sd_versions = None, sd_schema = []\<rparr>"
  have "migrateDatabase ?run two_migrations ?s = (Inr \<lparr>mr_latest = Some ''002'', mr_applied = [''001'', ''002''], mr_skipped = []\<rparr>,
      \<lparr>sd_versions = Some [''001'', ''002''], sd_schema = ''ab''\<rparr>)"
    by (simp add: migrateDatabase_def two_migrations_def insert_version_def latestMigrationVersion_def)
  moreover from migrations_once [OF _ migrated.intros(1) this] have
    "run_all ?run (map mg_source two_migrations) [] = Inr ''ab''" by (simp add: two_migrations_def)
  ultimately show ?thesis by simp
qed

end
