(* ===== verification/LiveSafety.thy ===== *)
theory LiveSafety
  imports Rpc
begin

text \<open>
  Models scripts/evidence/live-safety.mjs: the gate that the evidence harness passes before it
  spends on the test network, and the test that an observation proves a commit. Values are JSON,
  \<open>None\<close> is undefined; an error is its message.
\<close>

section \<open>The gate\<close>

definition is_sha :: "string \<Rightarrow> bool" where
  "is_sha s \<longleftrightarrow> length s = 40 \<and> list_all is_hex_any s"

definition is_genesis :: "string \<Rightarrow> bool" where
  "is_genesis s \<longleftrightarrow> length s = 66 \<and> take 2 s \<in> {''0x'', ''0X''} \<and> list_all is_hex_any (drop 2 s)"

text \<open>\<open>v?.[k]\<close> of a JSON value, and \<open>re.test(v ?? "")\<close>.\<close>

definition get :: "json option \<Rightarrow> string \<Rightarrow> json option" where
  "get v k = (case v of Some j \<Rightarrow> js_field (asRecord j) k | None \<Rightarrow> None)"

definition test :: "(string \<Rightarrow> bool) \<Rightarrow> json option \<Rightarrow> bool" where
  "test p v = p (case v of None \<Rightarrow> [] | Some JNull \<Rightarrow> [] | Some j \<Rightarrow> js_String j)"

definition type_error_message :: string where
  "type_error_message = ''toLowerCase is not a function''"

text \<open>\<open>v.toLowerCase()\<close>.\<close>

definition lower_value :: "json option \<Rightarrow> string + string" where
  "lower_value v = (case v of Some (JStr s) \<Rightarrow> Inr (toLowerCase s) | _ \<Rightarrow> Inl type_error_message)"

definition observation_ok :: "json \<Rightarrow> bool" where
  "observation_ok x \<longleftrightarrow> get (Some x) ''ok'' = Some (JBool True) \<and> get (Some x) ''chain'' = Some (JStr ''ckb_testnet'')
     \<and> test is_genesis (get (Some x) ''genesisHash'')"

text \<open>The loop over the URLs of the observations, with the host names found.\<close>

fun collect_hosts :: "(string \<Rightarrow> ParsedUrl option) \<Rightarrow> string list \<Rightarrow> json list \<Rightarrow> string + string list" where
  "collect_hosts new_URL hosts [] = Inr hosts"
| "collect_hosts new_URL hosts (item # items) =
    (case new_URL (case get (Some item) ''url'' of None \<Rightarrow> ''undefined'' | Some u \<Rightarrow> js_String u) of
       None \<Rightarrow> Inl ''Refusing broadcast: invalid RPC URL''
     | Some url \<Rightarrow>
         if u_protocol url \<noteq> ''https:'' \<or> u_username url \<noteq> [] \<or> u_password url \<noteq> [] then
           Inl ''Refusing broadcast: Testnet RPC URLs must be HTTPS without embedded userinfo''
         else collect_hosts new_URL (List.insert (toLowerCase (u_hostname url)) hosts) items)"

text \<open>Whether some observation has another genesis block; evaluated up to the first.\<close>

fun some_other :: "string \<Rightarrow> json list \<Rightarrow> string + bool" where
  "some_other genesis [] = Inr False"
| "some_other genesis (item # items) =
    (case lower_value (get (Some item) ''genesisHash'') of Inl e \<Rightarrow> Inl e
     | Inr g \<Rightarrow> if g \<noteq> genesis then Inr True else some_other genesis items)"

record GateResult =
  ga_releaseSha :: "json option"
  ga_genesisHash :: string
  ga_verifiedHosts :: nat

definition readiness_ok :: "json option \<Rightarrow> bool" where
  "readiness_ok readiness \<longleftrightarrow> get readiness ''responseOk'' = Some (JBool True) \<and> get readiness ''status'' = Some (JNum 200)
     \<and> get (get readiness ''body'') ''ok'' = Some (JBool True)"

definition genesis_gate :: "string option \<Rightarrow> json option \<Rightarrow> json list \<Rightarrow> nat \<Rightarrow> string + GateResult" where
  "genesis_gate expectedGenesis releaseSha network hosts =
     sum_bind (lower_value (get (Some (hd network)) ''genesisHash'')) (\<lambda>genesis.
     sum_bind (some_other genesis network) (\<lambda>differs.
     if differs then Inl ''Refusing broadcast: RPC endpoints disagree on genesis''
     else if truthy expectedGenesis \<and> (\<not> is_genesis (the expectedGenesis) \<or> toLowerCase (the expectedGenesis) \<noteq> genesis) then
       Inl ''Refusing broadcast: CKB_EXPECTED_GENESIS_HASH mismatch''
     else Inr \<lparr>ga_releaseSha = releaseSha, ga_genesisHash = genesis, ga_verifiedHosts = hosts\<rparr>))"

definition network_gate :: "(string \<Rightarrow> ParsedUrl option) \<Rightarrow> json option \<Rightarrow> string option \<Rightarrow> json option \<Rightarrow> string + GateResult" where
  "network_gate new_URL network expectedGenesis releaseSha =
    (case network of
       Some (JArr items) \<Rightarrow>
         if length items < 2 \<or> list_ex (\<lambda>x. \<not> observation_ok x) items then
           Inl ''Refusing broadcast: two healthy Testnet RPC observations are required''
         else sum_bind (collect_hosts new_URL [] items) (\<lambda>hosts.
           if length hosts < 2 then Inl ''Refusing broadcast: RPC endpoints are not independent hostnames''
           else genesis_gate expectedGenesis releaseSha items (length hosts))
     | _ \<Rightarrow> Inl ''Refusing broadcast: two healthy Testnet RPC observations are required'')"

definition assertPreBroadcastEvidence ::
    "(string \<Rightarrow> ParsedUrl option) \<Rightarrow> json option \<Rightarrow> json option \<Rightarrow> string option \<Rightarrow> string option \<Rightarrow> bool \<Rightarrow> string + GateResult" where
  "assertPreBroadcastEvidence new_URL readiness network expectedSha expectedGenesis strict =
    (let releaseSha = get (get readiness ''body'') ''releaseSha'' in
     if \<not> readiness_ok readiness then Inl ''Refusing broadcast: hosted CellFlow readiness is not HTTP 200 with ok=true''
     else if strict \<and> \<not> is_sha (case expectedSha of Some s \<Rightarrow> s | None \<Rightarrow> []) then
       Inl ''Strict Testnet run requires CELLFLOW_EXPECTED_RELEASE_SHA (full 40-character SHA)''
     else if truthy expectedSha \<and> (\<not> is_sha (the expectedSha)
         \<or> toLowerCase (case releaseSha of None \<Rightarrow> ''undefined'' | Some v \<Rightarrow> js_String v) \<noteq> toLowerCase (the expectedSha)) then
       Inl ''Refusing broadcast: hosted release SHA does not match CELLFLOW_EXPECTED_RELEASE_SHA''
     else if strict \<and> \<not> is_genesis (case expectedGenesis of Some s \<Rightarrow> s | None \<Rightarrow> []) then
       Inl ''Strict Testnet run requires CKB_EXPECTED_GENESIS_HASH (full 0x-prefixed hash)''
     else network_gate new_URL network expectedGenesis releaseSha)"

text \<open>The lower-cased text of a value that passed the test is that of a string; another value throws.\<close>

definition commit_of :: "string \<Rightarrow> json \<Rightarrow> string + bool" where
  "commit_of expectedHash item =
    (let tx = get (Some item) ''transaction''; hash = get (get tx ''transaction'') ''hash'' in
     if get (Some item) ''ok'' \<noteq> Some (JBool True) \<or> \<not> test is_genesis hash then Inr False
     else sum_bind (lower_value hash) (\<lambda>h. Inr (h = toLowerCase expectedHash
       \<and> get (get tx ''tx_status'') ''status'' = Some (JStr ''committed''))))"

fun some_commit :: "string \<Rightarrow> json list \<Rightarrow> string + bool" where
  "some_commit expectedHash [] = Inr False"
| "some_commit expectedHash (item # items) =
    (case commit_of expectedHash item of Inl e \<Rightarrow> Inl e | Inr True \<Rightarrow> Inr True | Inr False \<Rightarrow> some_commit expectedHash items)"

definition committedTxWitness :: "json option \<Rightarrow> string option \<Rightarrow> string + bool" where
  "committedTxWitness observations expectedHash =
    (case observations of
       Some (JArr items) \<Rightarrow>
         (case expectedHash of Some h \<Rightarrow> if is_genesis h then some_commit h items else Inr False | None \<Rightarrow> Inr False)
     | _ \<Rightarrow> Inr False)"


section \<open>What passing the gate means\<close>

lemma hosts_found:
  assumes "collect_hosts new_URL hosts items = Inr found"
  shows "set found = set hosts \<union> {toLowerCase (u_hostname u) | u item. item \<in> set items
      \<and> new_URL (case get (Some item) ''url'' of None \<Rightarrow> ''undefined'' | Some v \<Rightarrow> js_String v) = Some u}
    \<and> (distinct hosts \<longrightarrow> distinct found)
    \<and> (\<forall>item \<in> set items. \<exists>u. new_URL (case get (Some item) ''url'' of None \<Rightarrow> ''undefined'' | Some v \<Rightarrow> js_String v) = Some u
        \<and> u_protocol u = ''https:'' \<and> u_username u = [] \<and> u_password u = [])"
  using assms
proof (induction items arbitrary: hosts)
  case (Cons item items)
  from Cons.prems obtain u where u: "new_URL (case get (Some item) ''url'' of None \<Rightarrow> ''undefined'' | Some v \<Rightarrow> js_String v) = Some u"
      "u_protocol u = ''https:''" "u_username u = []" "u_password u = []"
    and r: "collect_hosts new_URL (List.insert (toLowerCase (u_hostname u)) hosts) items = Inr found"
    by (auto split: option.splits if_splits)
  from Cons.IH [OF r] u show ?case by auto
qed simp

lemma none_other: "some_other g items = Inr False \<Longrightarrow> item \<in> set items \<Longrightarrow> lower_value (get (Some item) ''genesisHash'') = Inr g"
  by (induction items) (auto split: sum.splits if_splits)

lemma release_named:
  assumes "is_sha s" and "toLowerCase (case v of None \<Rightarrow> ''undefined'' | Some v \<Rightarrow> js_String v) = toLowerCase s"
  shows "\<exists>x. v = Some x \<and> toLowerCase (js_String x) = toLowerCase s"
proof -
  have "length (toLowerCase s) = 40" using assms(1) by (simp add: is_sha_def toLowerCase_def)
  with assms(2) show ?thesis by (cases v) (auto simp: toLowerCase_def)
qed

text \<open>
  The harness broadcasts only when the hosted service answered its readiness check,
  runs the expected release when one is named, and at least two endpoints with different host
  names, all over HTTPS and without credentials, report the test network and the same genesis
  block, which is the expected one when one is named; a strict run names both.
\<close>

theorem broadcast_gate:
  assumes "assertPreBroadcastEvidence new_URL readiness network expectedSha expectedGenesis strict = Inr result"
  shows "readiness_ok readiness \<and> (strict \<longrightarrow> truthy expectedSha \<and> truthy expectedGenesis)
    \<and> (\<forall>sha. expectedSha = Some sha \<and> sha \<noteq> [] \<longrightarrow> is_sha sha
        \<and> (\<exists>v. ga_releaseSha result = Some v \<and> toLowerCase (js_String v) = toLowerCase sha))
    \<and> (\<forall>g. expectedGenesis = Some g \<and> g \<noteq> [] \<longrightarrow> is_genesis g \<and> toLowerCase g = ga_genesisHash result)
    \<and> (\<exists>items hosts. network = Some (JArr items) \<and> distinct hosts \<and> length hosts = ga_verifiedHosts result \<and> 2 \<le> length hosts
        \<and> (\<forall>h \<in> set hosts. \<exists>item \<in> set items. \<exists>u. h = toLowerCase (u_hostname u)
            \<and> new_URL (case get (Some item) ''url'' of None \<Rightarrow> ''undefined'' | Some v \<Rightarrow> js_String v) = Some u)
        \<and> (\<forall>item \<in> set items. get (Some item) ''ok'' = Some (JBool True) \<and> get (Some item) ''chain'' = Some (JStr ''ckb_testnet'')
            \<and> lower_value (get (Some item) ''genesisHash'') = Inr (ga_genesisHash result)
            \<and> (\<exists>u. new_URL (case get (Some item) ''url'' of None \<Rightarrow> ''undefined'' | Some v \<Rightarrow> js_String v) = Some u
                \<and> u_protocol u = ''https:'' \<and> u_username u = [] \<and> u_password u = [])))"
proof -
  let ?sha = "get (get readiness ''body'') ''releaseSha''"
  from assms have ready: "readiness_ok readiness"
    and strict_sha: "strict \<longrightarrow> is_sha (case expectedSha of Some s \<Rightarrow> s | None \<Rightarrow> [])"
    and sha: "truthy expectedSha \<longrightarrow> is_sha (the expectedSha)
         \<and> toLowerCase (case ?sha of None \<Rightarrow> ''undefined'' | Some v \<Rightarrow> js_String v) = toLowerCase (the expectedSha)"
    and strict_g: "strict \<longrightarrow> is_genesis (case expectedGenesis of Some s \<Rightarrow> s | None \<Rightarrow> [])"
    by (auto simp: assertPreBroadcastEvidence_def Let_def split: if_splits)
  from assms have "network_gate new_URL network expectedGenesis ?sha = Inr result"
    by (simp add: assertPreBroadcastEvidence_def Let_def split: if_splits)
  then obtain items hosts where items: "network = Some (JArr items)" "list_all observation_ok items" "2 \<le> length items"
    and hosts: "collect_hosts new_URL [] items = Inr hosts" "2 \<le> length hosts"
    and gate: "genesis_gate expectedGenesis ?sha items (length hosts) = Inr result"
    by (auto simp: network_gate_def sum_bind_Inr list_ex_iff list_all_iff split: if_splits option.splits json.splits)
  from gate obtain g where g: "some_other g items = Inr False" "result = \<lparr>ga_releaseSha = ?sha, ga_genesisHash = g, ga_verifiedHosts = length hosts\<rparr>"
      "truthy expectedGenesis \<longrightarrow> is_genesis (the expectedGenesis) \<and> toLowerCase (the expectedGenesis) = g"
    by (auto simp: genesis_gate_def sum_bind_Inr split: if_splits)
  have t: "truthy expectedSha \<longleftrightarrow> (\<exists>s. expectedSha = Some s \<and> s \<noteq> [])" "truthy expectedGenesis \<longleftrightarrow> (\<exists>s. expectedGenesis = Some s \<and> s \<noteq> [])"
    by (auto simp: truthy_def split: option.splits)
  have st: "strict \<longrightarrow> truthy expectedSha \<and> truthy expectedGenesis"
    using strict_sha strict_g by (auto simp: t is_sha_def is_genesis_def split: option.splits)
  note f = hosts_found [OF hosts(1)]
  have h: "\<forall>h \<in> set hosts. \<exists>item \<in> set items. \<exists>u. h = toLowerCase (u_hostname u)
      \<and> new_URL (case get (Some item) ''url'' of None \<Rightarrow> ''undefined'' | Some v \<Rightarrow> js_String v) = Some u"
    using f by auto
  have o': "\<forall>item \<in> set items. get (Some item) ''ok'' = Some (JBool True) \<and> get (Some item) ''chain'' = Some (JStr ''ckb_testnet'')
      \<and> lower_value (get (Some item) ''genesisHash'') = Inr g
      \<and> (\<exists>u. new_URL (case get (Some item) ''url'' of None \<Rightarrow> ''undefined'' | Some v \<Rightarrow> js_String v) = Some u
          \<and> u_protocol u = ''https:'' \<and> u_username u = [] \<and> u_password u = [])"
    using f items(2) none_other [OF g(1)] by (auto simp: list_all_iff observation_ok_def)
  have d: "distinct hosts" using f by simp
  have gen: "\<forall>e. expectedGenesis = Some e \<and> e \<noteq> [] \<longrightarrow> is_genesis e \<and> toLowerCase e = g" using g(3) t(2) by auto
  have shas: "\<forall>s. expectedSha = Some s \<and> s \<noteq> [] \<longrightarrow> is_sha s \<and> (\<exists>v. ?sha = Some v \<and> toLowerCase (js_String v) = toLowerCase s)"
    using sha t(1) release_named by (auto simp: truthy_def)
  show ?thesis unfolding g(2) using ready st shas gen items(1) d hosts(2) h o' by auto
qed

definition sample_observation :: "string \<Rightarrow> json" where
  "sample_observation url = JObj [(''ok'', JBool True), (''chain'', JStr ''ckb_testnet''), (''url'', JStr url),
     (''genesisHash'', JStr (''0x'' @ replicate 64 CHR ''a''))]"

definition sample_readiness :: json where
  "sample_readiness = JObj [(''responseOk'', JBool True), (''status'', JNum 200),
     (''body'', JObj [(''ok'', JBool True), (''releaseSha'', JStr (replicate 40 CHR ''b''))])]"

definition plain_URL :: "string \<Rightarrow> ParsedUrl option" where
  "plain_URL u = Some \<lparr>u_href = u, u_protocol = ''https:'', u_username = [], u_password = [], u_hostname = u, u_host = u, u_port = [],
     u_pathname = ''/'', u_search = []\<rparr>"

lemma lower_chars: "lower_char CHR ''B'' = CHR ''b''" "lower_char CHR ''A'' = CHR ''a''" "lower_char CHR ''a'' = CHR ''a''"
  "lower_char CHR ''b'' = CHR ''b''" "lower_char CHR ''0'' = CHR ''0''" "lower_char CHR ''x'' = CHR ''x''"
  by code_simp+

lemma gate_values:
  "is_sha (replicate 40 CHR ''B'')" "is_genesis (CHR ''0'' # CHR ''x'' # replicate 64 CHR ''a'')"
  "is_genesis (CHR ''0'' # CHR ''x'' # replicate 64 CHR ''A'')"
  "toLowerCase (replicate 40 CHR ''B'') = replicate 40 CHR ''b''" "toLowerCase (replicate 40 CHR ''b'') = replicate 40 CHR ''b''"
  "toLowerCase (CHR ''0'' # CHR ''x'' # replicate 64 CHR ''a'') = CHR ''0'' # CHR ''x'' # replicate 64 CHR ''a''"
  "toLowerCase (CHR ''0'' # CHR ''x'' # replicate 64 CHR ''A'') = CHR ''0'' # CHR ''x'' # replicate 64 CHR ''a''"
  "toLowerCase ''a'' = ''a''" "toLowerCase ''b'' = ''b''"
  by (simp_all add: is_sha_def is_genesis_def list_all_iff is_hex_any_def is_hex_lower_def is_digit_def toLowerCase_def lower_chars)

theorem broadcast_gate_witness:
  "\<exists>result. assertPreBroadcastEvidence plain_URL (Some sample_readiness) (Some (JArr [sample_observation ''a'', sample_observation ''b'']))
       (Some (replicate 40 CHR ''B'')) (Some (''0x'' @ replicate 64 CHR ''A'')) True = Inr result
     \<and> readiness_ok (Some sample_readiness) \<and> ga_verifiedHosts result = 2"
proof -
  have "assertPreBroadcastEvidence plain_URL (Some sample_readiness) (Some (JArr [sample_observation ''a'', sample_observation ''b'']))
       (Some (replicate 40 CHR ''B'')) (Some (''0x'' @ replicate 64 CHR ''A'')) True
     = Inr \<lparr>ga_releaseSha = Some (JStr (replicate 40 CHR ''b'')), ga_genesisHash = ''0x'' @ replicate 64 CHR ''a'', ga_verifiedHosts = 2\<rparr>"
    by (simp add: assertPreBroadcastEvidence_def Let_def readiness_ok_def sample_readiness_def sample_observation_def get_def js_field_def asRecord_def
      network_gate_def observation_ok_def test_def gate_values plain_URL_def genesis_gate_def lower_value_def truthy_def sum_bind_def)
  with broadcast_gate [OF this] show ?thesis by simp
qed

end
