(* ===== verification/Replacement.thy ===== *)
theory Replacement
  imports BroadcastProperties
begin

text \<open>
  Models scripts/evidence/persisted-replacement.mjs: the submission of a replacement transaction by
  the evidence harness, which must persist its candidate before the network can see it.
\<close>

section \<open>The submission\<close>

record 'tx Candidate =
  cd_txHash :: string
  cd_signedPayloadHash :: string
  cd_inputOutPoints :: "OutPointRef list option"
  cd_inputRefs :: "InputRef list option"
  cd_signed :: 'tx

text \<open>What \<open>submit\<close> answers, with the classification of a refusal; a returned hash is a string or not.\<close>

record SubmitResult =
  sr_accepted :: bool
  sr_returnedHash :: "string option"
  sr_classification :: "(Outcome \<times> SubmissionFailureEvidence) option"

type_synonym ('s, 'tx) submit = "'tx \<Rightarrow> ('s, js_error, SubmitResult) action"

definition type_error_call :: "string \<Rightarrow> client_error" where
  "type_error_call message = OtherError (JsError ''TypeError'' message [] None)"

definition evidence_of :: "SubmissionErrorType \<Rightarrow> string option \<Rightarrow> string \<Rightarrow> SubmissionFailureEvidence" where
  "evidence_of t code message = \<lparr>sf_errorCode = code, sf_errorType = t, sf_errorMessage = Some message, sf_conflictType = None, sf_details = None\<rparr>"

definition replacement_input :: "string \<Rightarrow> 'tx Candidate \<Rightarrow> string \<Rightarrow> json option \<Rightarrow> json list option \<Rightarrow> PrepareInput" where
  "replacement_input intentId c parentAttemptId metadata expectedCells =
    \<lparr>pi_intentId = intentId, pi_txHash = cd_txHash c, pi_metadata = metadata, pi_expectedCells = expectedCells,
     pi_signedPayloadHashSha256 = Some (cd_signedPayloadHash c), pi_allowSignedPayloadRevision = False,
     pi_inputOutPoints = cd_inputOutPoints c, pi_inputRefs = cd_inputRefs c, pi_attemptKind = Some AK_RBF_REPLACEMENT,
     pi_parentAttemptId = Some (Some parentAttemptId)\<rparr>"

text \<open>\<open>String(persisted?.txHash ?? '')\<close>.\<close>

definition persisted_hash :: "json option \<Rightarrow> string" where
  "persisted_hash persisted = (case js_field (record_of persisted) ''txHash'' of None \<Rightarrow> [] | Some JNull \<Rightarrow> [] | Some v \<Rightarrow> js_String v)"

definition replacement_outcome :: "'s client_env \<Rightarrow> string \<Rightarrow> string \<Rightarrow> SubmitResult \<Rightarrow> ('s, SubmitResult) call" where
  "replacement_outcome env intentId txHash result =
    (if sr_accepted result then
       (if map_option toLowerCase (sr_returnedHash result) \<noteq> Some (toLowerCase txHash) then
          andThen (client_markAmbiguous env intentId (Some (evidence_of SE_HASH_MISMATCH None
            ''Replacement node returned a different hash; reconcile the persisted candidate''))) (\<lambda>_.
          throw (plain_error ''Replacement transaction hash mismatch; do not broadcast again''))
        else andThen (client_markSubmitted env intentId) (\<lambda>_. ret result))
     else case sr_classification result of
       Some (NODE_REJECTED, evidence) \<Rightarrow> andThen (client_markNodeRejected env intentId evidence) (\<lambda>_. ret result)
     | Some (AMBIGUOUS, evidence) \<Rightarrow> andThen (client_markAmbiguous env intentId (Some evidence)) (\<lambda>_. ret result)
     | None \<Rightarrow> andThen (client_markAmbiguous env intentId (Some (evidence_of SE_TRANSPORT_UNKNOWN None
         ''Unknown replacement broadcast result; reconcile before retry''))) (\<lambda>_. ret result))"

definition replacement_send :: "'s client_env \<Rightarrow> ('s, 'tx) submit \<Rightarrow> string \<Rightarrow> 'tx Candidate \<Rightarrow> ('s, SubmitResult) call" where
  "replacement_send env submit intentId c = (\<lambda>s. case submit (cd_signed c) s of
     (Inr result, t) \<Rightarrow> replacement_outcome env intentId (cd_txHash c) result t
   | (Inl error, t) \<Rightarrow>
       andThen (client_markAmbiguous env intentId (Some (evidence_of SE_TRANSPORT_UNKNOWN (Some ''RBF_TRANSPORT_UNKNOWN'')
         ''Replacement submission had no reliable RPC outcome''))) (\<lambda>_. throw (OtherError error)) t)"

text \<open>The candidate is missing when the caller has none.\<close>

definition submitPersistedReplacement ::
    "'s client_env \<Rightarrow> ('s, 'tx) submit \<Rightarrow> string \<Rightarrow> 'tx Candidate option \<Rightarrow> string \<Rightarrow> json option \<Rightarrow> json list option \<Rightarrow> ('s, SubmitResult) call" where
  "submitPersistedReplacement env submit intentId candidate parentAttemptId metadata expectedCells =
    (case candidate of
       None \<Rightarrow> throw (type_error_call ''Replacement requires a fully signed, fingerprinted transaction'')
     | Some c \<Rightarrow>
         if cd_txHash c = [] \<or> cd_signedPayloadHash c = [] \<or> cd_inputOutPoints c = None then
           throw (type_error_call ''Replacement requires a fully signed, fingerprinted transaction'')
         else if parentAttemptId = [] then throw (type_error_call ''Replacement requires the original persisted attempt ID'')
         else
           andThen (client_prepare env (replacement_input intentId c parentAttemptId metadata expectedCells)) (\<lambda>persisted.
           if toLowerCase (persisted_hash persisted) \<noteq> toLowerCase (cd_txHash c) then
             throw (plain_error ''Replacement was not confirmed as the active durable candidate; refusing broadcast'')
           else andThen (client_markBroadcasting env intentId) (\<lambda>_. replacement_send env submit intentId c)))"


section \<open>Persisted before it is sent\<close>

text \<open>The candidates submitted are a log of the world that only submitting extends.\<close>

definition submit_laws :: "'s client_env \<Rightarrow> ('s, 'tx) submit \<Rightarrow> ('s \<Rightarrow> 'tx list) \<Rightarrow> bool" where
  "submit_laws env submit sent \<longleftrightarrow> (\<forall>ms rq s. sent (snd (ce_fetch env ms rq s)) = sent s) \<and> (\<forall>ms s. sent (ce_sleep env ms s) = sent s)
     \<and> (\<forall>tx s. sent (snd (submit tx s)) = sent s @ [tx])"

lemma steps_submitted: "(client_step env)\<^sup>*\<^sup>* s t \<Longrightarrow> submit_laws env submit sent \<Longrightarrow> sent t = sent s"
  by (induction rule: rtranclp_induct) (auto simp: submit_laws_def elim!: client_step.cases)

lemma outcome_keeps: "keeps ((client_step env)\<^sup>*\<^sup>*) (replacement_outcome env intentId txHash result)"
  unfolding replacement_outcome_def
  by (auto intro!: stepping.keeps_andThen stepping.methods_keep stepping.keeps_pure split: option.split Outcome.split)

text \<open>What a replacement reports for the answer of the node.\<close>

definition replacement_verdict :: "string \<Rightarrow> js_error + SubmitResult \<Rightarrow> client_error + SubmitResult \<Rightarrow> bool" where
  "replacement_verdict txHash answer r = (case answer of
     Inl error \<Rightarrow> \<exists>e. r = Inl e
   | Inr result \<Rightarrow> r = Inr result \<and> (sr_accepted result \<longrightarrow> map_option toLowerCase (sr_returnedHash result) = Some (toLowerCase txHash))
       \<or> (\<exists>e. r = Inl e))"

lemma outcome_verdict: "replacement_outcome env intentId txHash result s = (r, t) \<Longrightarrow> replacement_verdict txHash (Inr result) r"
  by (cases r) (auto simp: replacement_outcome_def replacement_verdict_def throw_def ret_def elim!: andThen_InrE
      split: if_splits option.splits Outcome.splits)

lemma send_run:
  assumes "replacement_send env submit intentId c s = (r, t)" and "submit_laws env submit sent"
  shows "sent t = sent s @ [cd_signed c] \<and> (\<exists>answer u. submit (cd_signed c) s = (answer, u) \<and> replacement_verdict (cd_txHash c) answer r)"
proof -
  obtain answer u where a: "submit (cd_signed c) s = (answer, u)" by fastforce
  then have u: "sent u = sent s @ [cd_signed c]" using assms(2) unfolding submit_laws_def by (metis snd_conv)
  show ?thesis
  proof (cases answer)
    case (Inl error)
    let ?m = "andThen (client_markAmbiguous env intentId (Some (evidence_of SE_TRANSPORT_UNKNOWN (Some ''RBF_TRANSPORT_UNKNOWN'')
         ''Replacement submission had no reliable RPC outcome''))) (\<lambda>_. throw (OtherError error))"
    from assms(1) a Inl have m: "?m u = (r, t)" by (simp add: replacement_send_def)
    have "keeps ((client_step env)\<^sup>*\<^sup>*) ?m"
      by (intro stepping.parts stepping.methods_keep)
    from keepsD [OF this m] have "sent t = sent u" using assms(2) by (rule steps_submitted)
    moreover have "\<exists>e. r = Inl e" using m by (cases r) (auto simp: throw_def elim!: andThen_InrE)
    ultimately show ?thesis using a u Inl by (auto simp: replacement_verdict_def)
  next
    case (Inr result)
    from assms(1) a Inr have m: "replacement_outcome env intentId (cd_txHash c) result u = (r, t)" by (simp add: replacement_send_def)
    have "sent t = sent u" by (rule steps_submitted [OF keepsD [OF outcome_keeps m] assms(2)])
    with a u Inr outcome_verdict [OF m] show ?thesis by auto
  qed
qed

lemma replacement_after_prepare:
  assumes laws: "submit_laws env submit sent" and p: "client_prepare env (replacement_input intentId c parent metadata cells) s = (Inr persisted, s1)"
    and ok: "\<not> (cd_txHash c = [] \<or> cd_signedPayloadHash c = [] \<or> cd_inputOutPoints c = None \<or> parent = [])"
    and run: "submitPersistedReplacement env submit intentId (Some c) parent metadata cells s = (r, t)"
  shows "(sent t = sent s1 \<and> (\<exists>e. r = Inl e))
    \<or> (sent t = sent s1 @ [cd_signed c] \<and> toLowerCase (persisted_hash persisted) = toLowerCase (cd_txHash c)
       \<and> (\<exists>v s2 answer u. client_markBroadcasting env intentId s1 = (Inr v, s2) \<and> submit (cd_signed c) s2 = (answer, u)
          \<and> replacement_verdict (cd_txHash c) answer r))"
proof (cases "toLowerCase (persisted_hash persisted) = toLowerCase (cd_txHash c)")
  case False
  with ok run p show ?thesis by (auto simp: submitPersistedReplacement_def andThen_def throw_def)
next
  case same: True
  obtain y s2 where m: "client_markBroadcasting env intentId s1 = (y, s2)" by fastforce
  have s2: "sent s2 = sent s1" by (rule steps_submitted [OF keepsD [OF stepping.methods_keep(3) m] laws])
  show ?thesis
  proof (cases y)
    case (Inl e)
    with ok run p s2 same m show ?thesis by (auto simp: submitPersistedReplacement_def andThen_def)
  next
    case (Inr v)
    with ok run p same m have "replacement_send env submit intentId c s2 = (r, t)"
      by (auto simp: submitPersistedReplacement_def andThen_def)
    from send_run [OF this laws] same m Inr s2 show ?thesis by auto
  qed
qed

lemma replacement_run:
  assumes "submit_laws env submit sent"
    and "submitPersistedReplacement env submit intentId candidate parent metadata cells s = (r, t)"
  shows "(sent t = sent s \<and> (\<exists>e. r = Inl e))
    \<or> (\<exists>c persisted s1 v s2 answer u. candidate = Some c \<and> sent t = sent s @ [cd_signed c] \<and> parent \<noteq> []
        \<and> client_prepare env (replacement_input intentId c parent metadata cells) s = (Inr persisted, s1)
        \<and> toLowerCase (persisted_hash persisted) = toLowerCase (cd_txHash c)
        \<and> client_markBroadcasting env intentId s1 = (Inr v, s2) \<and> submit (cd_signed c) s2 = (answer, u)
        \<and> replacement_verdict (cd_txHash c) answer r)"
proof (cases candidate)
  case None
  with assms(2) show ?thesis by (auto simp: submitPersistedReplacement_def throw_def)
next
  case (Some c)
  show ?thesis
  proof (cases "cd_txHash c = [] \<or> cd_signedPayloadHash c = [] \<or> cd_inputOutPoints c = None \<or> parent = []")
    case True
    with Some assms(2) show ?thesis by (auto simp: submitPersistedReplacement_def throw_def split: if_splits)
  next
    case ok: False
    obtain x s1 where p: "client_prepare env (replacement_input intentId c parent metadata cells) s = (x, s1)" by fastforce
    have s1: "sent s1 = sent s" by (rule steps_submitted [OF keepsD [OF stepping.methods_keep(1) p] assms(1)])
    show ?thesis
    proof (cases x)
      case (Inl e)
      with Some ok assms(2) p s1 show ?thesis by (auto simp: submitPersistedReplacement_def andThen_def)
    next
      case (Inr persisted)
      from replacement_after_prepare [OF assms(1) p [unfolded Inr] ok assms(2) [unfolded Some]] Some ok p Inr s1
      show ?thesis by auto
    qed
  qed
qed

text \<open>
  Property C8: the harness submits a replacement at most once, and only after the service had
  stored exactly this candidate as the replacement of the attempt it names and recorded that it
  is being broadcast; in every other case it raises an error and nothing is submitted. A
  submission is reported as accepted only for the hash of the candidate.
\<close>

theorem replacement_persisted_first:
  assumes "submit_laws env submit sent"
    and "submitPersistedReplacement env submit intentId candidate parent metadata cells s = (r, t)"
  shows "(sent t = sent s \<and> (\<exists>e. r = Inl e))
    \<or> (\<exists>c persisted s1 v s2 answer u. candidate = Some c \<and> sent t = sent s @ [cd_signed c] \<and> parent \<noteq> []
        \<and> client_prepare env (replacement_input intentId c parent metadata cells) s = (Inr persisted, s1)
        \<and> toLowerCase (persisted_hash persisted) = toLowerCase (cd_txHash c)
        \<and> client_markBroadcasting env intentId s1 = (Inr v, s2) \<and> submit (cd_signed c) s2 = (answer, u)
        \<and> replacement_verdict (cd_txHash c) answer r)"
  by (rule replacement_run [OF assms])

text \<open>Over the service that accepts everything, a candidate the answer does not confirm is not submitted.\<close>

definition sample_candidate :: "string Candidate" where
  "sample_candidate = \<lparr>cd_txHash = ''0xab'', cd_signedPayloadHash = ''0xcd'', cd_inputOutPoints = Some [], cd_inputRefs = None, cd_signed = ''tx''\<rparr>"

definition confirming_env :: "string list client_env" where
  "confirming_env = logging_env\<lparr>ce_fetch := (\<lambda>ms rq s. (Responded 200 (Some (JObj [(''intent'', JObj [(''txHash'', JStr ''0xAB'')])])), s))\<rparr>"

definition logging_submit :: "(string list, string) submit" where
  "logging_submit tx s = (Inr \<lparr>sr_accepted = True, sr_returnedHash = Some ''0xab'', sr_classification = None\<rparr>, s @ [tx])"

lemma confirming_request: "request confirming_env path (post_init body) s = (Inr (JObj [(''intent'', JObj [(''txHash'', JStr ''0xAB'')])]), s)"
  by (simp add: request_def request_attempts_def boundedMilliseconds_def confirming_env_def logging_env_def andThen_def
      throwIfAborted_def signal_aborted_def post_init_def lift_sum_def read_response_def response_ok_def)

theorem replacement_persisted_first_witness:
  "\<exists>r t. submitPersistedReplacement confirming_env logging_submit ''order-1'' (Some sample_candidate) ''0'' None None [] = (r, t)
     \<and> t = [''tx'']"
proof -
  have laws: "submit_laws confirming_env logging_submit id"
    by (simp add: submit_laws_def confirming_env_def logging_env_def logging_submit_def)
  obtain r t where b: "submitPersistedReplacement confirming_env logging_submit ''order-1'' (Some sample_candidate) ''0'' None None [] = (r, t)"
    by fastforce
  have "toLowerCase ''0xAB'' = toLowerCase ''0xab''" by code_simp
  then have "r = Inr \<lparr>sr_accepted = True, sr_returnedHash = Some ''0xab'', sr_classification = None\<rparr>"
    using b by (simp add: submitPersistedReplacement_def sample_candidate_def client_prepare_def client_markBroadcasting_def client_markSubmitted_def
      post_intent_def confirming_request andThen_def intent_of_def js_field_def persisted_hash_def record_of_def replacement_send_def
      logging_submit_def replacement_outcome_def)
  with replacement_persisted_first [OF laws b] b show ?thesis by (auto simp: sample_candidate_def)
qed

end
