(* ===== verification/DbTestGuard.thy ===== *)
theory DbTestGuard
  imports Ssrf
begin

text \<open>
  Models scripts/db-test-guard.mjs: the guard that decides whether the tests that write may run
  against the database of the environment. The URL parser is a parameter; its result is extended by
  the query parameter \<open>sslmode\<close>.
\<close>

section \<open>The environment\<close>

record GuardEnv =
  ge_allow :: "string option"
  ge_mode :: "string option"
  ge_expectedHost :: "string option"
  ge_productionHost :: "string option"
  ge_githubActions :: "string option"
  ge_ci :: "string option"
  ge_nodeEnv :: "string option"
  ge_vercelEnv :: "string option"
  ge_testnetCi :: "string option"
  ge_databaseUrl :: "string option"
  ge_directUrl :: "string option"

type_synonym url_parser = "string \<Rightarrow> (ParsedUrl \<times> string option) option"

definition text_or_empty :: "string option \<Rightarrow> string" where
  "text_or_empty v = (case v of Some s \<Rightarrow> s | None \<Rightarrow> [])"

text \<open>\<open>text.includes(part)\<close>, \<open>text.endsWith(part)\<close> and \<open>text.replace(part, by)\<close>.\<close>

fun includes_text :: "string \<Rightarrow> string \<Rightarrow> bool" where
  "includes_text [] part = (part = [])"
| "includes_text (c # cs) part = (startsWith (c # cs) part \<or> includes_text cs part)"

definition ends_with :: "string \<Rightarrow> string \<Rightarrow> bool" where
  "ends_with s part = startsWith (rev s) (rev part)"

fun replace_first :: "string \<Rightarrow> string \<Rightarrow> string \<Rightarrow> string" where
  "replace_first [] part by' = (if part = [] then by' else [])"
| "replace_first (c # cs) part by' =
    (if startsWith (c # cs) part then by' @ drop (length part) (c # cs) else c # replace_first cs part by')"

text \<open>\<open>/^[a-z0-9.-]+$/\<close>.\<close>

definition is_host_text :: "string \<Rightarrow> bool" where
  "is_host_text s \<longleftrightarrow> s \<noteq> [] \<and> list_all (\<lambda>c. 97 \<le> code_unit c \<and> code_unit c \<le> 122 \<or> is_digit c \<or> c \<in> set ''.-'') s"

definition postgres_protocol :: "ParsedUrl \<Rightarrow> bool" where
  "postgres_protocol u \<longleftrightarrow> u_protocol u \<in> set [''postgres:'', ''postgresql:'']"

definition requires_tls :: "string option \<Rightarrow> bool" where
  "requires_tls sslmode \<longleftrightarrow> sslmode \<in> set [Some ''require'', Some ''verify-ca'', Some ''verify-full'']"

definition problem :: "bool \<Rightarrow> string \<Rightarrow> string list" where
  "problem b text = (if b then [text] else [])"


section \<open>The guard\<close>

definition local_service :: "ParsedUrl \<times> string option \<Rightarrow> bool" where
  "local_service p = (case p of (u, sslmode) \<Rightarrow> postgres_protocol u \<and> u_hostname u = ''127.0.0.1'' \<and> u_port u = ''5432''
     \<and> u_pathname u = ''/cellflow_ci'' \<and> u_username u = ''cellflow_ci'' \<and> u_password u \<noteq> [] \<and> sslmode = Some ''disable'')"

definition validateLocal :: "url_parser \<Rightarrow> string option \<Rightarrow> string \<Rightarrow> string list \<times> ParsedUrl option" where
  "validateLocal parse value' name =
    (case parse (text_or_empty value') of
       None \<Rightarrow> ([name @ '' is absent or is not a PostgreSQL URL.''], None)
     | Some p \<Rightarrow> (problem (\<not> local_service p)
         (name @ '' must target the disposable 127.0.0.1:5432/cellflow_ci PostgreSQL service.''), Some (fst p)))"

definition is_production :: "GuardEnv \<Rightarrow> bool" where
  "is_production env \<longleftrightarrow> ge_nodeEnv env = Some ''production'' \<or> ge_vercelEnv env = Some ''production''"

definition service_problems :: "url_parser \<Rightarrow> GuardEnv \<Rightarrow> string list" where
  "service_problems parse env =
    (let (p, pooled) = validateLocal parse (ge_databaseUrl env) ''DATABASE_URL'';
         (q, direct) = validateLocal parse (ge_directUrl env) ''DATABASE_URL_UNPOOLED'' in
     problem (ge_githubActions env \<noteq> Some ''true'' \<or> ge_ci env \<noteq> Some ''true'')
       ''Ephemeral PostgreSQL service mode requires GitHub Actions CI.''
     @ problem (is_production env \<or> ge_testnetCi env = Some ''true'')
       ''Database integration tests cannot run in production or Testnet wallet jobs.''
     @ p @ q
     @ (case (pooled, direct) of
          (Some a, Some b) \<Rightarrow> problem (u_href a \<noteq> u_href b) ''Both local PostgreSQL URLs must be exactly identical.''
        | _ \<Rightarrow> []))"

definition pooled_problems :: "string \<Rightarrow> string \<Rightarrow> (ParsedUrl \<times> string option) option \<Rightarrow> string list" where
  "pooled_problems expectedHost productionHost pooled =
    (case pooled of
       None \<Rightarrow> [''DATABASE_URL is missing or invalid.'']
     | Some (u, sslmode) \<Rightarrow>
         let host = toLowerCase (u_hostname u) in
         problem (\<not> postgres_protocol u \<or> u_hostname u = [] \<or> u_password u = [])
           ''DATABASE_URL must be a complete PostgreSQL connection URL.''
         @ problem (\<not> ends_with host ''.neon.tech'' \<or> \<not> includes_text host ''-pooler.'')
           ''Test runtime must use an actual Neon pooled hostname.''
         @ problem (host \<noteq> expectedHost) ''DATABASE_URL hostname does not match the expected isolated test host.''
         @ problem (productionHost \<noteq> [] \<and> host = productionHost) ''Test database must not share the production database hostname.''
         @ problem (\<not> requires_tls sslmode) ''Require TLS using sslmode=require (or stronger) for Neon test connections.'')"

text \<open>The direct URL names the same branch; without a pooled URL nothing matches.\<close>

definition same_branch :: "ParsedUrl option \<Rightarrow> ParsedUrl \<Rightarrow> bool" where
  "same_branch pooled direct \<longleftrightarrow> (case pooled of
     None \<Rightarrow> False
   | Some p \<Rightarrow> toLowerCase (u_hostname direct) = toLowerCase (replace_first (u_hostname p) ''-pooler.'' ''.'')
       \<and> u_pathname direct = u_pathname p \<and> u_username direct = u_username p \<and> u_password direct = u_password p)"

definition direct_problems :: "url_parser \<Rightarrow> ParsedUrl option \<Rightarrow> string option \<Rightarrow> string list" where
  "direct_problems parse pooled directUrl =
    (case or_null directUrl of
       None \<Rightarrow> [''DATABASE_URL_UNPOOLED is required to migrate the isolated test branch directly.'']
     | Some text \<Rightarrow>
         (case parse text of
            None \<Rightarrow> [''DATABASE_URL_UNPOOLED is invalid.'']
          | Some (direct, sslmode) \<Rightarrow>
              problem (\<not> same_branch pooled direct)
                ''DATABASE_URL_UNPOOLED must identify the same isolated Neon test branch, database and user.''
              @ problem (\<not> requires_tls sslmode) ''Direct migration connection must require TLS.''))"

definition branch_problems :: "url_parser \<Rightarrow> GuardEnv \<Rightarrow> string list" where
  "branch_problems parse env =
    (let expectedHost = toLowerCase (js_trim (text_or_empty (ge_expectedHost env)));
         productionHost = toLowerCase (js_trim (text_or_empty (ge_productionHost env)));
         pooled = parse (text_or_empty (ge_databaseUrl env)) in
     problem (\<not> is_host_text expectedHost \<or> includes_text expectedHost ''://'')
       ''Set CELLFLOW_DB_TEST_EXPECTED_HOST to the exact pooled hostname of the isolated test branch.''
     @ problem (\<not> is_host_text productionHost)
       ''Set CELLFLOW_PRODUCTION_DB_HOST to the real production hostname for negative isolation checks.''
     @ problem (productionHost \<noteq> [] \<and> expectedHost = productionHost) ''The isolated test host and production host must be different.''
     @ problem (is_production env) ''Database integration tests must never run in a production runtime.''
     @ problem (ge_testnetCi env = Some ''true'') ''Database tests and funded-wallet Testnet tests must be separate jobs.''
     @ pooled_problems expectedHost productionHost pooled
     @ direct_problems parse (map_option fst pooled) (ge_directUrl env))"

definition validateDbTestEnvironment :: "url_parser \<Rightarrow> GuardEnv \<Rightarrow> string list" where
  "validateDbTestEnvironment parse env =
     problem (ge_allow env \<noteq> Some ''true'') ''Explicit CELLFLOW_DB_TEST_ALLOW=true is required.''
     @ problem (ge_mode env \<noteq> Some ''isolated-neon-branch'' \<and> ge_mode env \<noteq> Some ''github-actions-postgres-service'')
       ''Choose isolated-neon-branch or github-actions-postgres-service for CELLFLOW_DB_TEST_CONFIRM_ISOLATED.''
     @ (if ge_mode env = Some ''github-actions-postgres-service'' then service_problems parse env else branch_problems parse env)"


section \<open>What the guard lets through\<close>

lemma no_problem: "problem b t = [] \<longleftrightarrow> \<not> b"
  by (simp add: problem_def)

lemma local_ok: "validateLocal parse v name = ([], u) \<longleftrightarrow> (\<exists>p. parse (text_or_empty v) = Some p \<and> local_service p \<and> u = Some (fst p))"
  by (auto simp: validateLocal_def no_problem split: option.splits)

text \<open>
  Tests that write run only where they were allowed explicitly, never in a production
  runtime or beside the funded wallets, and either on the disposable service of a CI job, which both
  URLs name, or over TLS on a pooled Neon host that is the expected one and not the production host,
  with a direct URL to the same branch, database and user.
\<close>

theorem writes_are_isolated:
  assumes "validateDbTestEnvironment parse env = []"
  shows "ge_allow env = Some ''true'' \<and> \<not> is_production env \<and> ge_testnetCi env \<noteq> Some ''true''
    \<and> (\<exists>u sslmode. parse (text_or_empty (ge_databaseUrl env)) = Some (u, sslmode) \<and>
        (if ge_mode env = Some ''github-actions-postgres-service''
         then ge_ci env = Some ''true'' \<and> local_service (u, sslmode)
           \<and> (\<exists>d. parse (text_or_empty (ge_directUrl env)) = Some d \<and> local_service d \<and> u_href (fst d) = u_href u)
         else ge_mode env = Some ''isolated-neon-branch'' \<and> requires_tls sslmode
           \<and> toLowerCase (u_hostname u) = toLowerCase (js_trim (text_or_empty (ge_expectedHost env)))
           \<and> toLowerCase (u_hostname u) \<noteq> toLowerCase (js_trim (text_or_empty (ge_productionHost env)))
           \<and> ends_with (toLowerCase (u_hostname u)) ''.neon.tech''
           \<and> (\<exists>text direct mode'. ge_directUrl env = Some text \<and> parse text = Some (direct, mode') \<and> requires_tls mode' \<and> same_branch (Some u) direct)))"
proof (cases "ge_mode env = Some ''github-actions-postgres-service''")
  case True
  with assms have a: "ge_allow env = Some ''true''" and s: "service_problems parse env = []"
    by (auto simp: validateDbTestEnvironment_def no_problem)
  obtain p pooled where p: "validateLocal parse (ge_databaseUrl env) ''DATABASE_URL'' = (p, pooled)" by fastforce
  obtain q direct where q: "validateLocal parse (ge_directUrl env) ''DATABASE_URL_UNPOOLED'' = (q, direct)" by fastforce
  from s have e: "p = []" "q = []" and rest: "ge_ci env = Some ''true''" "\<not> is_production env" "ge_testnetCi env \<noteq> Some ''true''"
    and same: "(case (pooled, direct) of
          (Some a, Some b) \<Rightarrow> problem (u_href a \<noteq> u_href b) ''Both local PostgreSQL URLs must be exactly identical.''
        | _ \<Rightarrow> []) = []"
    by (auto simp: service_problems_def Let_def p q no_problem)
  from p q e same True a rest show ?thesis by (auto simp: local_ok no_problem)
next
  case False
  with assms have a: "ge_allow env = Some ''true''" "ge_mode env = Some ''isolated-neon-branch''" and s: "branch_problems parse env = []"
    by (auto simp: validateDbTestEnvironment_def no_problem)
  let ?host = "toLowerCase (js_trim (text_or_empty (ge_expectedHost env)))"
    and ?prod = "toLowerCase (js_trim (text_or_empty (ge_productionHost env)))"
  from s have h: "is_host_text ?prod" "?host \<noteq> ?prod" "\<not> is_production env" "ge_testnetCi env \<noteq> Some ''true''"
    and p: "pooled_problems ?host ?prod (parse (text_or_empty (ge_databaseUrl env))) = []"
    and d: "direct_problems parse (map_option fst (parse (text_or_empty (ge_databaseUrl env)))) (ge_directUrl env) = []"
    by (auto simp: branch_problems_def Let_def no_problem is_host_text_def)
  from p obtain u sslmode where u: "parse (text_or_empty (ge_databaseUrl env)) = Some (u, sslmode)"
    by (auto simp: pooled_problems_def split: option.splits)
  from p u have o': "toLowerCase (u_hostname u) = ?host" "requires_tls sslmode" "ends_with (toLowerCase (u_hostname u)) ''.neon.tech''"
    by (auto simp: pooled_problems_def Let_def no_problem)
  from d u obtain t direct mode' where "ge_directUrl env = Some t" "parse t = Some (direct, mode')" "requires_tls mode'" "same_branch (Some u) direct"
    by (auto simp: direct_problems_def no_problem or_null_def split: option.splits if_splits)
  with False a h u o' show ?thesis by auto
qed

definition ci_env :: GuardEnv where
  "ci_env = \<lparr>ge_allow = Some ''true'', ge_mode = Some ''github-actions-postgres-service'', ge_expectedHost = None, ge_productionHost = None,
     ge_githubActions = Some ''true'', ge_ci = Some ''true'', ge_nodeEnv = None, ge_vercelEnv = None, ge_testnetCi = None,
     ge_databaseUrl = Some ''a'', ge_directUrl = Some ''a''\<rparr>"

definition ci_url :: url_parser where
  "ci_url text = (if text = [] then None else Some (\<lparr>u_href = text, u_protocol = ''postgres:'', u_username = ''cellflow_ci'', u_password = ''p'',
     u_hostname = ''127.0.0.1'', u_host = ''127.0.0.1:5432'', u_port = ''5432'', u_pathname = ''/cellflow_ci'', u_search = []\<rparr>, Some ''disable''))"

theorem writes_are_isolated_witness:
  "validateDbTestEnvironment ci_url ci_env = [] \<and> \<not> is_production ci_env"
proof -
  have "validateDbTestEnvironment ci_url ci_env = []" by code_simp
  with writes_are_isolated [OF this] show ?thesis by blast
qed

end
