(* ===== verification/BrowserApi.thy ===== *)
theory BrowserApi
  imports Client Ssrf
begin

text \<open>
  Models apps/web/lib/browser-api.ts: the requests of the web console to its own API and the texts it
  shows. The exchange over the network is a parameter.
\<close>

section \<open>Requests\<close>

text \<open>The caller's headers have lower-case names, as \<open>Headers\<close> makes them.\<close>

record BrowserRequest =
  bq_path :: string
  bq_method :: "string option"
  bq_headers :: "(string \<times> string) list"
  bq_body :: "string option"

text \<open>
  What one \<open>fetch\<close> and the reading of its body came to: a response with its status, its request
  identifier and its body when that was JSON; or an exception, before the response or by the signal.
\<close>

datatype BrowserExchange =
    Answered int "string option" "json option"
  | Thrown_by_fetch js_error

record 's browser_env =
  be_requestId :: "'s \<Rightarrow> string \<times> 's"
  be_fetch :: "BrowserRequest \<Rightarrow> 's \<Rightarrow> BrowserExchange \<times> 's"

definition has_header :: "string \<Rightarrow> (string \<times> string) list \<Rightarrow> bool" where
  "has_header k hs \<longleftrightarrow> list_ex (\<lambda>h. fst h = k) hs"

definition default_header :: "string \<Rightarrow> string \<Rightarrow> (string \<times> string) list \<Rightarrow> (string \<times> string) list" where
  "default_header k v hs = (if has_header k hs then hs else set_header k v hs)"

definition request_headers :: "string \<Rightarrow> string option \<Rightarrow> (string \<times> string) list \<Rightarrow> (string \<times> string) list" where
  "request_headers requestId apiKey hs =
    (let hs = default_header ''x-request-id'' requestId (default_header ''content-type'' ''application/json'' hs) in
     case or_null apiKey of Some k \<Rightarrow> set_header ''authorization'' (''Bearer '' @ k) hs | None \<Rightarrow> hs)"

definition js_failure :: "string \<Rightarrow> js_error" where
  "js_failure message = JsError ''Error'' message [] None"

definition with_request :: "string \<Rightarrow> string \<Rightarrow> string" where
  "with_request message requestId = message @ '' [request '' @ requestId @ '']''"

text \<open>The value of a response, or the error it states.\<close>

definition browser_response :: "string \<Rightarrow> int \<Rightarrow> string option \<Rightarrow> json option \<Rightarrow> js_error + json" where
  "browser_response sentId status remoteId body =
    (case (case body of Some v \<Rightarrow> Inr v
        | None \<Rightarrow> if \<not> response_ok status \<or> status = 204 \<or> status = 205 then Inr (JObj [])
            else Inl (js_failure (with_request ''API returned invalid JSON'' sentId))) of
       Inl e \<Rightarrow> Inl e
     | Inr v \<Rightarrow>
         if response_ok status then Inr v
         else let errorBody = record_of (js_field (record_of (Some v)) ''error'') in
           Inl (js_failure (with_request
             (case js_field errorBody ''message'' of Some (JStr m) \<Rightarrow> m | _ \<Rightarrow> ''HTTP '' @ int_string status)
             (case js_field errorBody ''requestId'' of Some (JStr i) \<Rightarrow> i
              | _ \<Rightarrow> (case remoteId of Some i \<Rightarrow> i | None \<Rightarrow> sentId)))))"

definition api_path :: "string \<Rightarrow> bool" where
  "api_path path \<longleftrightarrow> startsWith path ''/api/'' \<and> \<not> startsWith path ''//''"

definition jsonRequest :: "'s browser_env \<Rightarrow> string option \<Rightarrow> BrowserRequest \<Rightarrow> ('s, js_error, json) action" where
  "jsonRequest env apiKey init =
    (if \<not> api_path (bq_path init) then throw (js_failure ''jsonRequest requires a same-origin /api/ path'')
     else (\<lambda>s. case be_requestId env s of (requestId, t) \<Rightarrow>
       let headers = request_headers requestId apiKey (bq_headers init) in
       (case be_fetch env (init\<lparr>bq_headers := headers\<rparr>) t of
          (Thrown_by_fetch e, u) \<Rightarrow> (Inl e, u)
        | (Answered status remoteId body, u) \<Rightarrow>
            lift_sum (browser_response (case map_of headers ''x-request-id'' of Some i \<Rightarrow> i | None \<Rightarrow> requestId) status remoteId body) u)))"


section \<open>Texts\<close>

text \<open>\<open>Math.round(n / d)\<close>: halves are rounded up. Code units stand for the dash and the ellipsis.\<close>

definition js_round_div :: "int \<Rightarrow> int \<Rightarrow> int" where
  "js_round_div n d = (2 * n + d) div (2 * d)"

definition shortHash :: "string \<Rightarrow> string \<Rightarrow> string option \<Rightarrow> nat \<Rightarrow> nat \<Rightarrow> string" where
  "shortHash dash ellipsis value' head tail' =
    (case or_null value' of
       None \<Rightarrow> dash
     | Some v \<Rightarrow> if length v \<le> head + tail' + 1 then v
         else take head v @ ellipsis @ (if tail' = 0 then v else drop (length v - tail') v))"

definition formatRelativeTime :: "(string \<Rightarrow> timestamp option) \<Rightarrow> string option \<Rightarrow> timestamp \<Rightarrow> string" where
  "formatRelativeTime dateParse value' now' =
    (case or_null value' of
       None \<Rightarrow> ''Never''
     | Some v \<Rightarrow> (case dateParse v of
         None \<Rightarrow> v
       | Some timestamp \<Rightarrow>
           let seconds = js_round_div (timestamp - now') 1000; absolute = \<bar>seconds\<bar>;
               minutes = js_round_div absolute 60; hours = js_round_div minutes 60; days = js_round_div hours 24 in
           if absolute < 60 then (if seconds \<le> 0 then ''Just now'' else ''in '' @ int_string absolute @ ''s'')
           else if minutes < 60 then (if seconds \<le> 0 then int_string minutes @ ''m ago'' else ''in '' @ int_string minutes @ ''m'')
           else if hours < 24 then (if seconds \<le> 0 then int_string hours @ ''h ago'' else ''in '' @ int_string hours @ ''h'')
           else if seconds \<le> 0 then int_string days @ ''d ago'' else ''in '' @ int_string days @ ''d''))"

definition explorerTxUrl :: "string option \<Rightarrow> string \<Rightarrow> string" where
  "explorerTxUrl network txHash =
    (if network = Some ''mainnet'' then ''https://explorer.nervos.org'' else ''https://pudge.explorer.nervos.org'') @ ''/transaction/'' @ txHash"


section \<open>Where a key goes\<close>

lemma header_set: "map_of (set_header k v hs) k = Some v" "k \<noteq> k' \<Longrightarrow> map_of (set_header k v hs) k' = map_of hs k'"
proof -
  have f: "map_of (filter (\<lambda>h. fst h \<noteq> k) hs) k = None" by (induction hs) auto
  then show "map_of (set_header k v hs) k = Some v" by (simp add: set_header_def map_add_def)
  assume "k \<noteq> k'"
  then have "map_of (filter (\<lambda>h. fst h \<noteq> k) hs) k' = map_of hs k'" by (induction hs) auto
  with \<open>k \<noteq> k'\<close> show "map_of (set_header k v hs) k' = map_of hs k'" by (simp add: set_header_def map_add_def split: option.split)
qed

text \<open>The requests of the console are a log of the world that only \<open>fetch\<close> extends.\<close>

definition console_laws :: "'s browser_env \<Rightarrow> ('s \<Rightarrow> BrowserRequest list) \<Rightarrow> bool" where
  "console_laws env sent \<longleftrightarrow> (\<forall>s. sent (snd (be_requestId env s)) = sent s) \<and> (\<forall>q s. sent (snd (be_fetch env q s)) = sent s @ [q])"

text \<open>
  A key is sent in no request, or in exactly one, to a path of the console's own API; a value is
  only returned for a success status.
\<close>

lemma key_stays_home:
  assumes "console_laws env sent" and "jsonRequest env apiKey init s = (r, t)"
  shows "(sent t = sent s \<and> \<not> api_path (bq_path init) \<and> (\<exists>e. r = Inl e))
    \<or> (\<exists>q. sent t = sent s @ [q] \<and> api_path (bq_path q) \<and> bq_path q = bq_path init
        \<and> map_of (bq_headers q) ''authorization'' = (case or_null apiKey of Some k \<Rightarrow> Some (''Bearer '' @ k)
            | None \<Rightarrow> map_of (bq_headers init) ''authorization''))"
proof (cases "api_path (bq_path init)")
  case False
  with assms(2) show ?thesis by (auto simp: jsonRequest_def throw_def)
next
  case True
  obtain i s1 where i: "be_requestId env s = (i, s1)" by fastforce
  let ?q = "init\<lparr>bq_headers := request_headers i apiKey (bq_headers init)\<rparr>"
  obtain x u where f: "be_fetch env ?q s1 = (x, u)" by fastforce
  have "sent s1 = sent s" "sent u = sent s1 @ [?q]" using assms(1) i f unfolding console_laws_def by (metis snd_conv)+
  moreover have "t = u"
    using assms(2) True i f by (cases x) (auto simp: jsonRequest_def Let_def lift_sum_def throw_def ret_def split: sum.splits)
  moreover have "map_of (bq_headers ?q) ''authorization'' = (case or_null apiKey of Some k \<Rightarrow> Some (''Bearer '' @ k)
            | None \<Rightarrow> map_of (bq_headers init) ''authorization'')"
    by (auto simp: request_headers_def Let_def default_header_def header_set split: option.split)
  ultimately show ?thesis using True by (intro disjI2 exI [of _ ?q]) simp
qed

end
