(* ===== verification/LiveConfig.thy ===== *)
theory LiveConfig
  imports LiveSafety DbTestGuard Http BroadcastErrors
begin

text \<open>
  Models the configuration of the evidence harness: the settings, keys and credential that
  scripts/evidence/testnet-live-suite.mjs reads from the environment, its wallet isolation check, and the
  gate of scripts/evidence/ci-testnet-config.mjs before it. The number of a text, HMAC-SHA-256 in
  base64url and the URL parser are parameters; numbers with a fraction are not modelled.
\<close>

section \<open>The environment\<close>

record process_env =
  pe_env :: "string \<Rightarrow> string option"
  pe_number :: "string \<Rightarrow> int option"
  pe_hmac :: "string \<Rightarrow> string \<Rightarrow> string"

definition plain_failure :: "string \<Rightarrow> js_error" where
  "plain_failure message = JsError ''Error'' message [] None"

text \<open>\<open>process.env.X?.trim() || fallback\<close>; \<open>None\<close> when it is falsy.\<close>

definition trimmed_env :: "process_env \<Rightarrow> string \<Rightarrow> string option" where
  "trimmed_env pe name = or_null (map_option js_trim (pe_env pe name))"

definition env_or :: "string \<Rightarrow> string option \<Rightarrow> string" where
  "env_or fallback v = (case v of Some s \<Rightarrow> s | None \<Rightarrow> fallback)"

definition numberEnv :: "process_env \<Rightarrow> string \<Rightarrow> int \<Rightarrow> js_error + int" where
  "numberEnv pe name fallback =
    (case or_null (pe_env pe name) of
       None \<Rightarrow> Inr fallback
     | Some raw \<Rightarrow> (case pe_number pe raw of
         Some value \<Rightarrow> if value < 0 then Inl (plain_failure (name @ '' must be a non-negative number'')) else Inr value
       | None \<Rightarrow> Inl (plain_failure (name @ '' must be a non-negative number''))))"

text \<open>\<open>[...new Set(values.filter(Boolean))]\<close>: the first occurrences, in their order.\<close>

definition unique_texts :: "string list \<Rightarrow> string list" where
  "unique_texts values = rev (remdups (rev (filter (\<lambda>v. v \<noteq> []) values)))"

text \<open>\<open>(process.env.X ?? "true").toLowerCase() !== "false"\<close>.\<close>

definition not_false :: "string option \<Rightarrow> bool" where
  "not_false v \<longleftrightarrow> toLowerCase (case v of Some s \<Rightarrow> s | None \<Rightarrow> ''true'') \<noteq> ''false''"


section \<open>Keys and the credential\<close>

definition DEFAULT_TESTNET_PRIVATE_KEY_A :: string where
  "DEFAULT_TESTNET_PRIVATE_KEY_A = ''21cc3b4e32a1e9afdd51f54510c816d38bb7be37d40056854a467f4d92ebd96e''"

definition DEFAULT_TESTNET_PRIVATE_KEY_B :: string where
  "DEFAULT_TESTNET_PRIVATE_KEY_B = ''3fc54dc0e24080697472c447dc38557adb69fad0289d917fdbd4445c9653776b''"

text \<open>\<open>replace(/^0x/i, "")\<close> and \<open>/^[0-9a-f]{64}$/i\<close>.\<close>

definition strip_0x :: "string \<Rightarrow> string" where
  "strip_0x s = (if take 2 s \<in> {''0x'', ''0X''} then drop 2 s else s)"

definition is_hex_key :: "string \<Rightarrow> bool" where
  "is_hex_key s \<longleftrightarrow> length s = 64 \<and> list_all is_hex_any s"

definition normalizePrivateKey :: "string \<Rightarrow> js_error + string" where
  "normalizePrivateKey value' =
    (let normalized = strip_0x (js_trim value') in
     if \<not> is_hex_key normalized then Inl (plain_failure ''Testnet private keys must be exactly 32 bytes (64 hex chars)'')
     else Inr normalized)"

definition validateCellFlowApiKey :: "string \<Rightarrow> string \<Rightarrow> js_error + string" where
  "validateCellFlowApiKey value' source =
    (if \<not> startsWith value' ''cf_live_'' \<or> length value' < 32 then Inl (plain_failure (source @ '' must be a valid cf_live_ API key''))
     else Inr value')"

definition bootstrap_label :: string where
  "bootstrap_label = ''cellflow:auto-bootstrap:initial-admin:v1''"

definition deriveBootstrapAdminApiKey :: "process_env \<Rightarrow> string \<Rightarrow> string" where
  "deriveBootstrapAdminApiKey pe bootstrapToken = ''cf_live_'' @ pe_hmac pe bootstrapToken bootstrap_label"

definition resolveCellFlowApiKey :: "process_env \<Rightarrow> js_error + string" where
  "resolveCellFlowApiKey pe =
    (case trimmed_env pe ''CELLFLOW_API_KEY'' of
       Some direct \<Rightarrow> validateCellFlowApiKey direct ''CELLFLOW_API_KEY''
     | None \<Rightarrow> (case trimmed_env pe ''CELLFLOW_INITIAL_ADMIN_API_KEY'' of
         Some bootstrapAdmin \<Rightarrow> validateCellFlowApiKey bootstrapAdmin ''CELLFLOW_INITIAL_ADMIN_API_KEY''
       | None \<Rightarrow> (case trimmed_env pe ''CELLFLOW_BOOTSTRAP_TOKEN'' of
           Some bootstrapToken \<Rightarrow>
             if 24 \<le> length bootstrapToken then Inr (deriveBootstrapAdminApiKey pe bootstrapToken)
             else Inl (plain_failure ''No CellFlow credential is available'')
         | None \<Rightarrow> Inl (plain_failure ''No CellFlow credential is available''))))"


section \<open>Settings\<close>

record SuiteSettings =
  st_strictWallets :: bool
  st_endpoint :: string
  st_apiKey :: string
  st_privateKeyA :: string
  st_privateKeyB :: string
  st_rpcUrls :: "string list"
  st_timeoutMs :: int
  st_pollMs :: int
  st_rpcAttempts :: int
  st_rpcRetryDelayMs :: int
  st_propagationDelayMs :: int
  st_contentionGraceMs :: int
  st_sameFeeRate :: int
  st_lowFeeRate :: int
  st_highFeeRate :: int
  st_stateCapacityCkb :: string
  st_walletSeedCapacityCkb :: string
  st_ambiguousCapacityCkb :: string
  st_minBalanceCkb :: string
  st_strictRbf :: bool
  st_resume :: bool
  st_walletSetupAttempts :: int
  st_walletSetupRetryDelayMs :: int
  st_httpAttempts :: int
  st_httpRetryDelayMs :: int
  st_httpTimeoutMs :: int

text \<open>\<open>replace(/\/$/, "")\<close>.\<close>

definition drop_slash :: "string \<Rightarrow> string" where
  "drop_slash s = (if s \<noteq> [] \<and> last s = CHR ''/'' then butlast s else s)"

definition suite_endpoint :: "process_env \<Rightarrow> string" where
  "suite_endpoint pe = drop_slash (env_or ''https://cellflow-brown.vercel.app'' (trimmed_env pe ''CELLFLOW_URL''))"

definition suite_rpcUrls :: "process_env \<Rightarrow> string list" where
  "suite_rpcUrls pe = unique_texts
     (env_or ''https://testnet.ckbapp.dev/rpc'' (trimmed_env pe ''CKB_RPC_URL'')
      # map js_trim (split_urls [] (env_or ''https://testnet.ckb.dev/'' (or_null (pe_env pe ''CKB_RPC_FALLBACK_URLS'')))))"

definition strict_wallets :: "process_env \<Rightarrow> bool" where
  "strict_wallets pe \<longleftrightarrow> pe_env pe ''CELLFLOW_TESTNET_STRICT_WALLET_ISOLATION'' = Some ''true''"

text \<open>The constants at the head of the script, evaluated in order; the first failure ends the process.\<close>

definition suite_settings :: "process_env \<Rightarrow> js_error + SuiteSettings" where
  "suite_settings pe =
     sum_bind (resolveCellFlowApiKey pe) (\<lambda>apiKey.
     sum_bind (normalizePrivateKey (env_or DEFAULT_TESTNET_PRIVATE_KEY_A (trimmed_env pe ''CKB_TESTNET_PRIVATE_KEY_A''))) (\<lambda>privateKeyA.
     sum_bind (normalizePrivateKey (env_or DEFAULT_TESTNET_PRIVATE_KEY_B (trimmed_env pe ''CKB_TESTNET_PRIVATE_KEY_B''))) (\<lambda>privateKeyB.
     sum_bind (numberEnv pe ''CELLFLOW_TESTNET_TIMEOUT_MS'' 900000) (\<lambda>timeoutMs.
     sum_bind (numberEnv pe ''CELLFLOW_TESTNET_POLL_MS'' 5000) (\<lambda>pollMs.
     sum_bind (numberEnv pe ''CKB_RPC_REQUEST_ATTEMPTS'' 4) (\<lambda>rpcAttempts.
     sum_bind (numberEnv pe ''CKB_RPC_RETRY_DELAY_MS'' 1000) (\<lambda>rpcRetryDelayMs.
     sum_bind (numberEnv pe ''CELLFLOW_TESTNET_PROPAGATION_DELAY_MS'' 1500) (\<lambda>propagationDelayMs.
     sum_bind (numberEnv pe ''CELLFLOW_CONTENTION_GRACE_MS'' 30000) (\<lambda>contentionGraceMs.
     sum_bind (numberEnv pe ''CELLFLOW_TESTNET_SAME_FEE_RATE'' 1000) (\<lambda>sameFeeRate.
     sum_bind (numberEnv pe ''CELLFLOW_TESTNET_LOW_FEE_RATE'' 1000) (\<lambda>lowFeeRate.
     sum_bind (numberEnv pe ''CELLFLOW_TESTNET_HIGH_FEE_RATE'' 20000) (\<lambda>highFeeRate.
     sum_bind (numberEnv pe ''CELLFLOW_TESTNET_WALLET_SETUP_ATTEMPTS'' 6) (\<lambda>walletSetupAttempts.
     sum_bind (numberEnv pe ''CELLFLOW_TESTNET_WALLET_SETUP_RETRY_DELAY_MS'' 3000) (\<lambda>walletSetupRetryDelayMs.
     sum_bind (numberEnv pe ''CELLFLOW_HTTP_REQUEST_ATTEMPTS'' 5) (\<lambda>httpAttempts.
     sum_bind (numberEnv pe ''CELLFLOW_HTTP_RETRY_DELAY_MS'' 1000) (\<lambda>httpRetryDelayMs.
     sum_bind (numberEnv pe ''CELLFLOW_HTTP_TIMEOUT_MS'' 20000) (\<lambda>httpTimeoutMs.
     Inr \<lparr>st_strictWallets = strict_wallets pe, st_endpoint = suite_endpoint pe, st_apiKey = apiKey,
       st_privateKeyA = privateKeyA, st_privateKeyB = privateKeyB, st_rpcUrls = suite_rpcUrls pe,
       st_timeoutMs = timeoutMs, st_pollMs = pollMs, st_rpcAttempts = max 1 rpcAttempts, st_rpcRetryDelayMs = max 100 rpcRetryDelayMs,
       st_propagationDelayMs = propagationDelayMs, st_contentionGraceMs = contentionGraceMs,
       st_sameFeeRate = sameFeeRate, st_lowFeeRate = lowFeeRate, st_highFeeRate = highFeeRate,
       st_stateCapacityCkb = env_or ''100'' (trimmed_env pe ''CELLFLOW_TESTNET_STATE_CKB''),
       st_walletSeedCapacityCkb = env_or ''100'' (trimmed_env pe ''CELLFLOW_TESTNET_WALLET_SEED_CKB''),
       st_ambiguousCapacityCkb = env_or ''100'' (trimmed_env pe ''CELLFLOW_TESTNET_AMBIGUOUS_CKB''),
       st_minBalanceCkb = env_or ''250'' (trimmed_env pe ''CELLFLOW_TESTNET_MIN_BALANCE_CKB''),
       st_strictRbf = not_false (pe_env pe ''CELLFLOW_TESTNET_REQUIRE_RBF''),
       st_resume = not_false (pe_env pe ''CELLFLOW_TESTNET_RESUME_SCENARIOS''),
       st_walletSetupAttempts = max 1 walletSetupAttempts, st_walletSetupRetryDelayMs = max 500 walletSetupRetryDelayMs,
       st_httpAttempts = max 1 httpAttempts, st_httpRetryDelayMs = max 100 httpRetryDelayMs,
       st_httpTimeoutMs = max 1000 httpTimeoutMs\<rparr>)))))))))))))))))"

text \<open>The check of a strict run, before anything else.\<close>

definition wallets_refused :: "process_env \<Rightarrow> SuiteSettings \<Rightarrow> bool" where
  "wallets_refused pe st \<longleftrightarrow> st_strictWallets st
     \<and> (trimmed_env pe ''CKB_TESTNET_PRIVATE_KEY_A'' = None \<or> trimmed_env pe ''CKB_TESTNET_PRIVATE_KEY_B'' = None
        \<or> st_privateKeyA st = DEFAULT_TESTNET_PRIVATE_KEY_A \<or> st_privateKeyB st = DEFAULT_TESTNET_PRIVATE_KEY_B
        \<or> st_privateKeyA st = st_privateKeyB st)"


section \<open>The gate of the workflow\<close>

text \<open>The parser with the fragment of the URL.\<close>

type_synonym ci_parser = "string \<Rightarrow> (ParsedUrl \<times> string) option"

definition validUrl :: "ci_parser \<Rightarrow> string option \<Rightarrow> string \<Rightarrow> string list \<times> ParsedUrl option" where
  "validUrl parse value' label =
    (case parse (text_or_empty value') of
       None \<Rightarrow> ([label @ '' must be a valid HTTPS URL''], None)
     | Some (url, hash) \<Rightarrow>
         if u_protocol url \<noteq> ''https:'' \<or> u_username url \<noteq> [] \<or> u_password url \<noteq> [] \<or> hash \<noteq> [] \<or> u_hostname url = [] \<or> u_search url \<noteq> []
         then ([label @ '' must be an HTTPS URL without username/password/query/fragment''], None)
         else ([], Some url))"

definition publicDemoKeys :: "string list" where
  "publicDemoKeys = [DEFAULT_TESTNET_PRIVATE_KEY_A, DEFAULT_TESTNET_PRIVATE_KEY_B]"

definition ci_key_text :: "process_env \<Rightarrow> string \<Rightarrow> string" where
  "ci_key_text pe label = text_or_empty (map_option js_trim (pe_env pe (''CKB_TESTNET_PRIVATE_KEY_'' @ label)))"

text \<open>\<open>/^(?:0x)?[0-9a-f]{64}$/i\<close>: the problems of one key, and its normal form.\<close>

definition ci_key :: "process_env \<Rightarrow> string \<Rightarrow> string list \<times> string list" where
  "ci_key pe label =
    (let value' = ci_key_text pe label; normalized = toLowerCase (strip_0x value'); name = ''CKB_TESTNET_PRIVATE_KEY_'' @ label in
     if \<not> is_hex_key (strip_0x value') then ([name @ '' must be a 32-byte hex private key in GitHub Environment secrets''], [])
     else (problem (normalized \<in> set publicDemoKeys) (name @ '' cannot be a built-in public demo signer''), [normalized]))"

definition is_bech32_char :: "char \<Rightarrow> bool" where
  "is_bech32_char c \<longleftrightarrow> c \<in> set ''023456789acdefghjklmnpqrstuvwxyz''"

definition is_testnet_address :: "string \<Rightarrow> bool" where
  "is_testnet_address s \<longleftrightarrow> startsWith s ''ckt1'' \<and> length s = 97 \<and> list_all is_bech32_char (drop 4 s)"

definition ci_address :: "process_env \<Rightarrow> string \<Rightarrow> string" where
  "ci_address pe label = text_or_empty (map_option js_trim (pe_env pe (''CELLFLOW_TESTNET_ADDRESS_'' @ label)))"

text \<open>\<open>/^cf_live_[A-Za-z0-9_-]{24,}$/\<close>.\<close>

definition is_live_key :: "string \<Rightarrow> bool" where
  "is_live_key s \<longleftrightarrow> startsWith s ''cf_live_'' \<and> 32 \<le> length s
     \<and> list_all (\<lambda>c. is_alnum c \<or> c = CHR ''_'' \<or> c = CHR ''-'') (drop 8 s)"

definition ci_urls :: "ci_parser \<Rightarrow> nat \<Rightarrow> string option list \<Rightarrow> (string list \<times> ParsedUrl option) list" where
  "ci_urls parse first' values = map (\<lambda>(i, v). validUrl parse v (''RPC endpoint '' @ nat_string (first' + i))) (enumerate 0 values)"

definition ci_rpcValues :: "process_env \<Rightarrow> string option list" where
  "ci_rpcValues pe = pe_env pe ''CKB_RPC_URL'' # map Some (split_urls [] (text_or_empty (pe_env pe ''CKB_RPC_FALLBACK_URLS'')))"

record CiResult =
  ci_ok :: bool
  ci_problems :: "string list"
  ci_safe :: json

definition validateCiTestnetConfig :: "ci_parser \<Rightarrow> process_env \<Rightarrow> CiResult" where
  "validateCiTestnetConfig parse pe =
    (let env = pe_env pe; sha = text_or_empty (env ''CELLFLOW_EXPECTED_RELEASE_SHA'');
         genesis = text_or_empty (env ''CKB_EXPECTED_GENESIS_HASH'');
         (keyA, hashA) = ci_key pe ''A''; (keyB, hashB) = ci_key pe ''B'';
         a = ci_address pe ''A''; b = ci_address pe ''B'';
         (endpointProblems, endpoint) = validUrl parse (env ''CELLFLOW_URL'') ''CELLFLOW_URL'';
         rpcs = ci_urls parse 1 (ci_rpcValues pe);
         hosts = map (\<lambda>u. toLowerCase (u_hostname u)) (List.map_filter snd rpcs);
         problems =
           problem (env ''CELLFLOW_TESTNET_CI'' \<noteq> Some ''true'') ''CELLFLOW_TESTNET_CI=true is required''
           @ problem (env ''CELLFLOW_TESTNET_STRICT_WALLET_ISOLATION'' \<noteq> Some ''true'') ''Strict wallet isolation is required''
           @ problem (env ''CELLFLOW_TESTNET_REQUIRE_RBF'' \<noteq> Some ''true'') ''Strict RBF evidence is required''
           @ problem (env ''CKB_NETWORK'' \<noteq> Some ''testnet'') ''CKB_NETWORK must equal testnet''
           @ problem (\<not> is_sha sha) ''Set CELLFLOW_DEPLOYED_SHA to the full 40-character SHA of the running deployed backend''
           @ problem (\<not> is_genesis genesis) ''Set CKB_TESTNET_GENESIS_HASH to the 0x-prefixed 32-byte TESTNET genesis hash''
           @ keyA @ keyB
           @ problem (length (hashA @ hashB) = 2 \<and> hashA = hashB) ''Use distinct isolated wallet keys A and B''
           @ problem (\<not> is_testnet_address a) ''CELLFLOW_TESTNET_ADDRESS_A must be a 97-character CKB Testnet bech32m public address''
           @ problem (\<not> is_testnet_address b) ''CELLFLOW_TESTNET_ADDRESS_B must be a 97-character CKB Testnet bech32m public address''
           @ problem (a \<noteq> [] \<and> a = b) ''Testnet A and B funding addresses must differ''
           @ problem (\<not> is_live_key (text_or_empty (env ''CELLFLOW_API_KEY'')))
               ''CELLFLOW_TESTNET_API_KEY must be a valid dedicated cf_live_ API key''
           @ endpointProblems @ concat (map fst rpcs)
           @ problem (length rpcs < 2 \<or> card (set hosts) < 2) ''At least two independent HTTPS Testnet RPC hosts are required'' in
     \<lparr>ci_ok = (problems = []), ci_problems = problems,
      ci_safe = JObj [(''network'', opt_json (env ''CKB_NETWORK'')),
        (''endpoint'', opt_json (map_option (\<lambda>u. u_protocol u @ ''//'' @ u_host u) endpoint)),
        (''rpcHostnames'', JArr (map JStr hosts)),
        (''expectedReleaseSha'', if is_sha sha then JStr sha else JNull),
        (''expectedGenesisHash'', if is_genesis genesis then JStr genesis else JNull)]\<rparr>)"

end
