(* ===== verification/LiveRpc.thy ===== *)
theory LiveRpc
  imports LiveConfig BroadcastProperties
begin

text \<open>
  Models the network layer of scripts/evidence/testnet-live-suite.mjs: one JSON-RPC request, its
  retries, the failover over the configured endpoints, the requests to the hosted service, and the
  two polling loops. One exchange over the network, the clock and the timer are parameters.
\<close>

section \<open>Exchanges\<close>

text \<open>
  What \<open>fetch\<close> came to: no response, with the error; or a response with its status, and its text or
  the error of reading it. \<open>JSON.parse\<close> gives a value or throws.
\<close>

datatype HttpExchange =
    NoResponse js_error
  | HttpResponse int "js_error + string"

record 's suite_env =
  lv_settings :: SuiteSettings
  lv_process :: process_env
  lv_client :: "'s client_env"
  lv_fetch :: "int \<Rightarrow> FetchRequest \<Rightarrow> 's \<Rightarrow> HttpExchange \<times> 's"
  lv_parse :: "string \<Rightarrow> js_error + json"

type_synonym ('s, 'a) live = "('s, js_error, 'a) action"

definition live_now :: "'s suite_env \<Rightarrow> 's \<Rightarrow> timestamp" where
  "live_now env = ce_now (lv_client env)"

definition live_sleep :: "'s suite_env \<Rightarrow> int \<Rightarrow> ('s, 'e, unit) action" where
  "live_sleep env ms = modifyState (ce_sleep (lv_client env) ms)"

text \<open>\<open>error instanceof Error ? error.message : String(error)\<close>.\<close>

definition failure_text :: "js_error \<Rightarrow> string" where
  "failure_text e = (case e of JsError name message props cause \<Rightarrow> message | JsPlain v \<Rightarrow> error_String e)"

text \<open>A value in a template literal; \<open>None\<close> is undefined.\<close>

definition shown :: "json option \<Rightarrow> string" where
  "shown v = (case v of None \<Rightarrow> ''undefined'' | Some j \<Rightarrow> js_String j)"


section \<open>One request\<close>

definition rpc_request :: "string \<Rightarrow> string \<Rightarrow> json list \<Rightarrow> FetchRequest" where
  "rpc_request url method' params = \<lparr>fq_url = url, fq_method = Some ''POST'',
     fq_headers = [(''content-type'', ''application/json''), (''user-agent'', ''CellFlow-Testnet-Evidence/0.3'')],
     fq_body = Some (json_stringify (JObj [(''jsonrpc'', JStr ''2.0''), (''id'', JNum 1), (''method'', JStr method'),
       (''params'', JArr params)]))\<rparr>"

definition rpc_retryable :: "int \<Rightarrow> bool" where
  "rpc_retryable status \<longleftrightarrow> status \<in> {408, 425, 429} \<or> 500 \<le> status"

definition rpc_failure :: "string \<Rightarrow> bool \<Rightarrow> js_error option \<Rightarrow> js_error" where
  "rpc_failure message retryable cause = JsError ''Error'' message [(''rpcRetryable'', JBool retryable)] cause"

text \<open>The result of a payload, or the error it carries; reading a field of null throws.\<close>

definition payload_result :: "json \<Rightarrow> js_error + json option" where
  "payload_result payload =
    (if payload = JNull then Inl (JsError ''TypeError'' ''Cannot read properties of null'' [] None)
     else let err = field_of payload ''error'' in
       if json_truthy err then
         Inl (rpc_failure (''RPC '' @ shown (get (Some err) ''code'') @ '': '' @ shown (get (Some err) ''message'')) False None)
       else Inr (js_field (asRecord payload) ''result''))"

definition rpc_answer :: "'s suite_env \<Rightarrow> string \<Rightarrow> HttpExchange \<Rightarrow> js_error + json option" where
  "rpc_answer env url x =
    (case x of
       NoResponse e \<Rightarrow> Inl (rpc_failure (''RPC transport failed for '' @ url @ '': '' @ failure_text e) True (Some e))
     | HttpResponse status body \<Rightarrow>
         if \<not> response_ok status then
           Inl (rpc_failure (''RPC HTTP '' @ int_string status @ '' from '' @ url) (rpc_retryable status) None)
         else sum_bind body (\<lambda>text. sum_bind (lv_parse env text) payload_result))"

definition rpcOnce :: "'s suite_env \<Rightarrow> string \<Rightarrow> string \<Rightarrow> json list \<Rightarrow> ('s, json option) live" where
  "rpcOnce env url method' params =
     andThen (lift_sum (numberEnv (lv_process env) ''CKB_RPC_TIMEOUT_MS'' 15000)) (\<lambda>timeout. \<lambda>s.
     case lv_fetch env timeout (rpc_request url method' params) s of (x, t) \<Rightarrow> (rpc_answer env url x, t))"

definition isRetryableRpcTransportError :: "js_error \<Rightarrow> bool" where
  "isRetryableRpcTransportError e \<longleftrightarrow>
     (case error_fields e of None \<Rightarrow> False | Some fs \<Rightarrow> js_field fs ''rpcRetryable'' = Some (JBool True))"


section \<open>Retries and failover\<close>

text \<open>The attempts left, and the number of the attempt.\<close>

fun rpc_rounds :: "'s suite_env \<Rightarrow> string \<Rightarrow> string \<Rightarrow> json list \<Rightarrow> nat \<Rightarrow> nat \<Rightarrow> ('s, json option) live" where
  "rpc_rounds env url method' params number 0 = throw (plain_failure (''RPC '' @ method' @ '' failed for '' @ url))"
| "rpc_rounds env url method' params number (Suc left) = (\<lambda>s. case rpcOnce env url method' params s of
     (Inr v, t) \<Rightarrow> (Inr v, t)
   | (Inl e, t) \<Rightarrow>
       if \<not> isRetryableRpcTransportError e \<or> left = 0 then (Inl e, t)
       else andThen (live_sleep env (st_rpcRetryDelayMs (lv_settings env) * int number))
         (\<lambda>_. rpc_rounds env url method' params (Suc number) left) t)"

definition rpc :: "'s suite_env \<Rightarrow> string \<Rightarrow> string \<Rightarrow> json list \<Rightarrow> ('s, json option) live" where
  "rpc env url method' params = rpc_rounds env url method' params 1 (nat (max 1 (st_rpcAttempts (lv_settings env))))"

fun rpc_over :: "'s suite_env \<Rightarrow> string \<Rightarrow> json list \<Rightarrow> string list \<Rightarrow> string list \<Rightarrow> ('s, json option) live" where
  "rpc_over env method' params failures [] =
     throw (plain_failure (''All configured CKB Testnet RPC endpoints failed for '' @ method' @ '': '' @ bar_join failures))"
| "rpc_over env method' params failures (url # urls) =
     (\<lambda>s. case rpc env url method' params s of
        (Inr v, t) \<Rightarrow> (Inr v, t)
      | (Inl e, t) \<Rightarrow> rpc_over env method' params (failures @ [url @ '': '' @ failure_text e]) urls t)"

definition rotation :: "'s suite_env \<Rightarrow> timestamp \<Rightarrow> string list" where
  "rotation env now' =
    (let urls = st_rpcUrls (lv_settings env);
         offset = nat (now' div max 1 (st_pollMs (lv_settings env))) mod length urls in
     drop offset urls @ take offset urls)"

definition rpcWithFailover :: "'s suite_env \<Rightarrow> string \<Rightarrow> json list \<Rightarrow> ('s, json option) live" where
  "rpcWithFailover env method' params = (\<lambda>s. rpc_over env method' params [] (rotation env (live_now env s)) s)"


section \<open>The hosted service\<close>

definition authHeaders :: "'s suite_env \<Rightarrow> (string \<times> string) list" where
  "authHeaders env = [(''content-type'', ''application/json''), (''authorization'', ''Bearer '' @ st_apiKey (lv_settings env))]"

record FetchedJson =
  fj_ok :: bool
  fj_status :: int
  fj_body :: json

definition fetched_json :: "FetchedJson \<Rightarrow> json" where
  "fetched_json f = JObj [(''responseOk'', JBool (fj_ok f)), (''status'', JNum (fj_status f)), (''body'', fj_body f)]"

definition read_json :: "'s suite_env \<Rightarrow> string \<Rightarrow> bool \<Rightarrow> HttpExchange \<Rightarrow> js_error + FetchedJson" where
  "read_json env url allowNonJson x =
    (case x of
       NoResponse e \<Rightarrow> Inl e
     | HttpResponse status body \<Rightarrow> sum_bind body (\<lambda>text.
         let done = (\<lambda>v. Inr \<lparr>fj_ok = response_ok status, fj_status = status, fj_body = v\<rparr>) in
         if text = [] then done JNull
         else (case lv_parse env text of
           Inr v \<Rightarrow> done v
         | Inl _ \<Rightarrow>
             if \<not> allowNonJson then
               Inl (plain_failure (''Expected JSON from '' @ url @ '', got HTTP '' @ int_string status @ '': '' @ take 300 text))
             else done (JObj [(''raw'', JStr text)]))))"

definition thrown_error :: "string \<Rightarrow> js_error \<Rightarrow> js_error" where
  "thrown_error url e = (case e of JsError n m fs c \<Rightarrow> e | JsPlain v \<Rightarrow> plain_failure (''CellFlow HTTP transport failed for '' @ url))"

fun fetch_rounds :: "'s suite_env \<Rightarrow> FetchRequest \<Rightarrow> bool \<Rightarrow> nat \<Rightarrow> nat \<Rightarrow> ('s, FetchedJson) live" where
  "fetch_rounds env rq allowNonJson number 0 = throw (plain_failure (''CellFlow HTTP transport failed for '' @ fq_url rq))"
| "fetch_rounds env rq allowNonJson number (Suc left) =
     (\<lambda>s. case lv_fetch env (st_httpTimeoutMs (lv_settings env)) rq s of (x, t) \<Rightarrow>
       (case read_json env (fq_url rq) allowNonJson x of
          Inr v \<Rightarrow> (Inr v, t)
        | Inl e \<Rightarrow>
            if left = 0 then (Inl (thrown_error (fq_url rq) e), t)
            else andThen (live_sleep env (st_httpRetryDelayMs (lv_settings env) * int number))
              (\<lambda>_. fetch_rounds env rq allowNonJson (Suc number) left) t))"

definition fetchJson :: "'s suite_env \<Rightarrow> FetchRequest \<Rightarrow> bool \<Rightarrow> ('s, FetchedJson) live" where
  "fetchJson env rq allowNonJson = fetch_rounds env rq allowNonJson 1 (nat (st_httpAttempts (lv_settings env)))"

definition service_request :: "'s suite_env \<Rightarrow> string option \<Rightarrow> string \<Rightarrow> FetchRequest" where
  "service_request env method' path = \<lparr>fq_url = st_endpoint (lv_settings env) @ path, fq_method = method', fq_headers = authHeaders env,
     fq_body = map_option (\<lambda>_. ''{}'') method'\<rparr>"

definition persistIntentEvidence :: "'s suite_env \<Rightarrow> string \<Rightarrow> ('s, FetchedJson) live" where
  "persistIntentEvidence env intentId = fetchJson env (service_request env (Some ''POST'') (intent_path intentId ''/evidence'')) False"


section \<open>Observations\<close>

text \<open>\<open>a ?? b\<close> of JSON values, where \<open>None\<close> is undefined.\<close>

definition nullish :: "json option \<Rightarrow> json option \<Rightarrow> json option" where
  "nullish a b = (case a of None \<Rightarrow> b | Some JNull \<Rightarrow> b | Some v \<Rightarrow> Some v)"

definition json_or_null :: "json option \<Rightarrow> json" where
  "json_or_null v = (case v of None \<Rightarrow> JNull | Some j \<Rightarrow> j)"

text \<open>
  The requests of one \<open>Promise.all\<close> run one after the other here; all of them are sent, and the first
  failure is the result.
\<close>

definition together :: "('s, 'e, 'a) action \<Rightarrow> ('s, 'e, 'b) action \<Rightarrow> ('s, 'e, 'a \<times> 'b) action" where
  "together m n = (\<lambda>s. case m s of (x, t) \<Rightarrow> case n t of (y, u) \<Rightarrow>
     (sum_bind x (\<lambda>a. sum_bind y (\<lambda>b. Inr (a, b))), u))"

definition observed_entry :: "string \<Rightarrow> timestamp \<Rightarrow> js_error + json option \<times> json option \<Rightarrow> json" where
  "observed_entry url at r = (case r of
     Inr (tx, tip) \<Rightarrow> obj_defined [(''url'', Some (JStr url)), (''ok'', Some (JBool True)), (''observedAt'', Some (JStr (iso at))),
       (''tipNumber'', Some (json_or_null (get tip ''number''))), (''transaction'', tx)]
   | Inl e \<Rightarrow> JObj [(''url'', JStr url), (''ok'', JBool False), (''observedAt'', JStr (iso at)), (''error'', JStr (failure_text e))])"

fun observe_all :: "'s suite_env \<Rightarrow> string \<Rightarrow> string list \<Rightarrow> 's \<Rightarrow> json list \<times> 's" where
  "observe_all env txHash [] s = ([], s)"
| "observe_all env txHash (url # urls) s =
    (case together (rpc env url ''get_transaction'' [JStr txHash]) (rpc env url ''get_tip_header'' []) s of (r, t) \<Rightarrow>
     (case observe_all env txHash urls t of (items, u) \<Rightarrow> (observed_entry url (live_now env t) r # items, u)))"

definition observeAcrossRpcs :: "'s suite_env \<Rightarrow> string \<Rightarrow> 's \<Rightarrow> json list \<times> 's" where
  "observeAcrossRpcs env txHash = observe_all env txHash (st_rpcUrls (lv_settings env))"

definition identity_entry :: "string \<Rightarrow> string option \<Rightarrow> js_error + json option \<times> json option \<times> json option \<Rightarrow> json" where
  "identity_entry url genesis r = (case r of
     Inr (info, hash, tip) \<Rightarrow>
       let lower = map_option toLowerCase (json_string hash) in
       JObj [(''url'', JStr url), (''chain'', json_or_null (get info ''chain'')), (''genesisHash'', opt_json lower),
         (''tipNumber'', json_or_null (get tip ''number'')),
         (''initialBlockDownload'', json_or_null (get info ''is_initial_block_download'')),
         (''ok'', JBool (get info ''chain'' = Some (JStr ''ckb_testnet'') \<and> lower \<noteq> None \<and> lower = genesis))]
   | Inl e \<Rightarrow> JObj [(''url'', JStr url), (''ok'', JBool False), (''error'', JStr (failure_text e))])"

text \<open>\<open>if (!genesis) genesis = String(hash).toLowerCase()\<close>, after the three answers.\<close>

definition identity_genesis :: "string option \<Rightarrow> js_error + json option \<times> json option \<times> json option \<Rightarrow> string option" where
  "identity_genesis genesis r = (case or_null genesis of
     Some g \<Rightarrow> Some g
   | None \<Rightarrow> (case r of Inr (info, hash, tip) \<Rightarrow> Some (toLowerCase (shown hash)) | Inl e \<Rightarrow> genesis))"

fun verify_identities :: "'s suite_env \<Rightarrow> string option \<Rightarrow> string list \<Rightarrow> 's \<Rightarrow> json list \<times> 's" where
  "verify_identities env genesis [] s = ([], s)"
| "verify_identities env genesis (url # urls) s =
    (case together (rpc env url ''get_blockchain_info'' []) (together (rpc env url ''get_block_hash'' [JStr ''0x0''])
        (rpc env url ''get_tip_header'' [])) s of (r, t) \<Rightarrow>
     let genesis = identity_genesis genesis r in
     (case verify_identities env genesis urls t of (items, u) \<Rightarrow> (identity_entry url genesis r # items, u)))"

definition verifyRpcIdentities :: "'s suite_env \<Rightarrow> string list \<Rightarrow> 's \<Rightarrow> json list \<times> 's" where
  "verifyRpcIdentities env urls = verify_identities env None urls"


section \<open>Polling\<close>

record CommittedTx =
  co_blockHash :: json
  co_observation :: "json option"

text \<open>\<open>observation?.tx_status?.status ?? observation?.txStatus?.status ?? "unknown"\<close>, and the same for the block.\<close>

definition observed_status :: "json option \<Rightarrow> json option" where
  "observed_status v = nullish (get (get v ''tx_status'') ''status'') (nullish (get (get v ''txStatus'') ''status'') (Some (JStr ''unknown'')))"

definition observed_block :: "json option \<Rightarrow> json" where
  "observed_block v = json_or_null (nullish (get (get v ''tx_status'') ''block_hash'') (get (get v ''txStatus'') ''blockHash''))"

text \<open>A loop that may not end is a partial function: \<open>None\<close> when it does not return.\<close>

partial_function (option) commit_loop ::
    "'s suite_env \<Rightarrow> string \<Rightarrow> timestamp \<Rightarrow> 's \<Rightarrow> ((js_error + CommittedTx) \<times> 's) option" where
  "commit_loop env txHash deadline s =
    (if live_now env s < deadline then
       (case rpcWithFailover env ''get_transaction'' [JStr txHash] s of
          (Inl e, t) \<Rightarrow> Some (Inl e, t)
        | (Inr observation, t) \<Rightarrow>
            if observed_status observation = Some (JStr ''committed'') then
              Some (Inr \<lparr>co_blockHash = observed_block observation, co_observation = observation\<rparr>, t)
            else if observed_status observation = Some (JStr ''rejected'') then
              Some (Inl (plain_failure (''Transaction '' @ txHash @ '' was rejected while waiting for commit'')), t)
            else commit_loop env txHash deadline (ce_sleep (lv_client env) (st_pollMs (lv_settings env)) t))
     else Some (Inl (plain_failure (''Timed out waiting for transaction '' @ txHash @ '' to commit'')), s))"

definition waitForCommitted :: "'s suite_env \<Rightarrow> string \<Rightarrow> 's \<Rightarrow> ((js_error + CommittedTx) \<times> 's) option" where
  "waitForCommitted env txHash s = commit_loop env txHash (live_now env s + st_timeoutMs (lv_settings env)) s"

partial_function (option) reconcile_loop ::
    "'s suite_env \<Rightarrow> string \<Rightarrow> (json \<Rightarrow> bool) \<Rightarrow> timestamp \<Rightarrow> json option \<Rightarrow> 's \<Rightarrow> ((client_error + json option) \<times> 's) option" where
  "reconcile_loop env intentId predicate deadline current s =
    (if live_now env s < deadline then
       (case client_get (lv_client env) intentId False (snd (client_reconcile (lv_client env) intentId s)) of
          (Inl e, t) \<Rightarrow> Some (Inl e, t)
        | (Inr view, t) \<Rightarrow>
            if (case view of Some v \<Rightarrow> json_truthy v \<and> predicate v | None \<Rightarrow> False) then Some (Inr view, t)
            else reconcile_loop env intentId predicate deadline view
              (ce_sleep (lv_client env) (st_pollMs (lv_settings env)) t))
     else Some (Inr current, s))"

definition reconcileUntil :: "'s suite_env \<Rightarrow> string \<Rightarrow> (json \<Rightarrow> bool) \<Rightarrow> int \<Rightarrow> 's \<Rightarrow> ((client_error + json option) \<times> 's) option" where
  "reconcileUntil env intentId predicate limitMs s =
     reconcile_loop env intentId predicate (live_now env s + limitMs) None s"

end
