(* ===== verification/LiveScenarios.thy ===== *)
theory LiveScenarios
  imports LiveRpc Replacement
begin

text \<open>
  Models the scenarios of scripts/evidence/testnet-live-suite.mjs: each builds, persists, submits and
  reconciles real transactions, and says whether the behaviour it is there to show was observed. The
  wallet library, the file system and the child process are parameters. The recovery of a lost
  response and the run of the whole suite are in theory LiveSuite.
\<close>

section \<open>Programs\<close>

text \<open>A program of the suite does not return (\<open>None\<close>), or ends in a state with a value or an exception.\<close>

type_synonym ('s, 'a) prog = "'s \<Rightarrow> ((tracked_error + 'a) \<times> 's) option"

definition then_do :: "('s, 'a) prog \<Rightarrow> ('a \<Rightarrow> ('s, 'b) prog) \<Rightarrow> ('s, 'b) prog" where
  "then_do m f = (\<lambda>s. case m s of
     None \<Rightarrow> None
   | Some (r, t) \<Rightarrow> (case r of Inl e \<Rightarrow> Some (Inl e, t) | Inr x \<Rightarrow> f x t))"

definition on_error :: "('s, 'a) prog \<Rightarrow> (tracked_error \<Rightarrow> ('s, 'a) prog) \<Rightarrow> ('s, 'a) prog" where
  "on_error m f = (\<lambda>s. case m s of
     None \<Rightarrow> None
   | Some (r, t) \<Rightarrow> (case r of Inl e \<Rightarrow> f e t | Inr x \<Rightarrow> Some (Inr x, t)))"

definition do_tracked :: "('s, 'a) tracked_call \<Rightarrow> ('s, 'a) prog" where
  "do_tracked m = (\<lambda>s. Some (m s))"

definition do_live :: "('s, 'a) live \<Rightarrow> ('s, 'a) prog" where
  "do_live m = do_tracked (raise_as (\<lambda>e. Raised (OtherError e)) m)"

definition do_call :: "('s, 'a) call \<Rightarrow> ('s, 'a) prog" where
  "do_call m = do_tracked (raise_as Raised m)"

definition do_read :: "('s \<Rightarrow> 'a \<times> 's) \<Rightarrow> ('s, 'a) prog" where
  "do_read f = (\<lambda>s. case f s of (x, t) \<Rightarrow> Some (Inr x, t))"

definition do_loop :: "('e \<Rightarrow> client_error) \<Rightarrow> ('s \<Rightarrow> (('e + 'a) \<times> 's) option) \<Rightarrow> ('s, 'a) prog" where
  "do_loop f m = (\<lambda>s. case m s of None \<Rightarrow> None | Some (r, t) \<Rightarrow> Some (map_sum (\<lambda>e. Raised (f e)) id r, t))"

definition give :: "'a \<Rightarrow> ('s, 'a) prog" where
  "give x = do_tracked (ret x)"

definition fail_with :: "string \<Rightarrow> ('s, 'a) prog" where
  "fail_with message = do_live (throw (plain_failure message))"


section \<open>The harness\<close>

datatype Wallet = Wallet_A | Wallet_B

record LockScript =
  lo_codeHash :: string
  lo_hashType :: string
  lo_args :: string

text \<open>The argument of \<open>ccc.Transaction.from\<close>.\<close>

record TxTemplate =
  tt_inputs :: "OutPointRef list"
  tt_outputs :: "(LockScript \<times> int) list"
  tt_outputsData :: "string list"

text \<open>What the suite uses of the wallet library, beside signing and sending (theory Tracked).\<close>

record ('s, 'tx) ccc_lib =
  cc_wallet :: "Wallet \<Rightarrow> ('s, 'tx) wallet"
  cc_connect :: "Wallet \<Rightarrow> ('s, unit) live"
  cc_address :: "Wallet \<Rightarrow> ('s, string) live"
  cc_balance :: "Wallet \<Rightarrow> ('s, int) live"
  cc_signAndSend :: "Wallet \<Rightarrow> 'tx \<Rightarrow> ('s, string) live"
  cc_from :: "TxTemplate \<Rightarrow> js_error + 'tx"
  cc_completeInputs :: "Wallet \<Rightarrow> 'tx \<Rightarrow> ('s, 'tx) live"
  cc_completeFee :: "Wallet \<Rightarrow> int \<Rightarrow> 'tx \<Rightarrow> ('s, 'tx) live"
  cc_completeFeeChange :: "Wallet \<Rightarrow> nat \<Rightarrow> int \<Rightarrow> 'tx \<Rightarrow> ('s, 'tx) live"
  cc_addCellDeps :: "Wallet \<Rightarrow> json \<Rightarrow> 'tx \<Rightarrow> ('s, 'tx) live"
  cc_fixedPoint :: "string \<Rightarrow> js_error + int"
  cc_pointText :: "int \<Rightarrow> string"
  cc_addressLock :: "string \<Rightarrow> ('s, LockScript) live"
  cc_alwaysSuccess :: "('s, LockScript) live"
  cc_knownCellDeps :: "('s, json option) live"
  cc_fullHash :: "'tx \<Rightarrow> string option"

record ('s, 'tx) harness =
  hn_live :: "'s suite_env"
  hn_ccc :: "('s, 'tx) ccc_lib"
  hn_runId :: string
  hn_outDir :: string
  hn_write :: "string \<Rightarrow> string \<Rightarrow> ('s, unit) live"
  hn_read :: "string \<Rightarrow> ('s, string) live"
  hn_remove :: "string \<Rightarrow> ('s, unit) live"
  hn_mkdir :: "string \<Rightarrow> ('s, unit) live"
  hn_artifact :: "string \<Rightarrow> 's \<Rightarrow> 's"
  hn_artifacts :: "'s \<Rightarrow> string list"
  hn_worker :: "string \<Rightarrow> string \<Rightarrow> ('s, json) live"
  hn_newURL :: "string \<Rightarrow> ParsedUrl option"
  hn_sha256Hex :: "string \<Rightarrow> string"
  hn_stack :: "tracked_error \<Rightarrow> string"

definition hn_settings :: "('s, 'tx) harness \<Rightarrow> SuiteSettings" where
  "hn_settings h = lv_settings (hn_live h)"

definition hn_flow :: "('s, 'tx) harness \<Rightarrow> 's client_env" where
  "hn_flow h = lv_client (hn_live h)"

definition hn_wallet :: "('s, 'tx) harness \<Rightarrow> Wallet \<Rightarrow> ('s, 'tx) wallet" where
  "hn_wallet h = cc_wallet (hn_ccc h)"

text \<open>The suite's \<open>sleep\<close> and \<open>new Date().toISOString()\<close>.\<close>

definition pause :: "('s, 'tx) harness \<Rightarrow> int \<Rightarrow> ('s, unit) prog" where
  "pause h ms = do_live (live_sleep (hn_live h) ms)"

definition iso_now :: "('s, 'tx) harness \<Rightarrow> ('s, string) prog" where
  "iso_now h = do_read (\<lambda>s. (iso (live_now (hn_live h) s), s))"

definition saveJson :: "('s, 'tx) harness \<Rightarrow> string \<Rightarrow> json \<Rightarrow> ('s, string) prog" where
  "saveJson h name value' =
    (let path = hn_outDir h @ ''/'' @ name in
     then_do (do_live (hn_write h path (json_pretty 0 value' @ [CHR 0x0A]))) (\<lambda>_.
     then_do (do_read (\<lambda>s. ((), hn_artifact h path s))) (\<lambda>_. give path)))"

definition await_commit :: "('s, 'tx) harness \<Rightarrow> string \<Rightarrow> ('s, CommittedTx) prog" where
  "await_commit h txHash = do_loop OtherError (waitForCommitted (hn_live h) txHash)"

definition until_view :: "('s, 'tx) harness \<Rightarrow> string \<Rightarrow> (json \<Rightarrow> bool) \<Rightarrow> int \<Rightarrow> ('s, json option) prog" where
  "until_view h intentId predicate limitMs = do_loop id (reconcileUntil (hn_live h) intentId predicate limitMs)"

definition timeout_ms :: "('s, 'tx) harness \<Rightarrow> int" where
  "timeout_ms h = st_timeoutMs (hn_settings h)"

definition gather_evidence :: "('s, 'tx) harness \<Rightarrow> string \<Rightarrow> ('s, FetchedJson) prog" where
  "gather_evidence h intentId = do_live (persistIntentEvidence (hn_live h) intentId)"

definition gather_observations :: "('s, 'tx) harness \<Rightarrow> string \<Rightarrow> ('s, json list) prog" where
  "gather_observations h txHash = do_read (observeAcrossRpcs (hn_live h) txHash)"

text \<open>\<open>committedTxWitness\<close>, whose failure is a type error.\<close>

definition commit_witness :: "json list \<Rightarrow> string \<Rightarrow> ('s, bool) prog" where
  "commit_witness observations txHash = do_live (lift_sum (map_sum (\<lambda>m. JsError ''TypeError'' m [] None) id
     (committedTxWitness (Some (JArr observations)) (Some txHash))))"


section \<open>Views\<close>

definition view_is :: "json option \<Rightarrow> string \<Rightarrow> string \<Rightarrow> bool" where
  "view_is v k t \<longleftrightarrow> get v k = Some (JStr t)"

definition confirmed_verified :: "json \<Rightarrow> bool" where
  "confirmed_verified v \<longleftrightarrow> view_is (Some v) ''status'' ''CONFIRMED'' \<and> view_is (Some v) ''assertionStatus'' ''VERIFIED''"

definition compact_keys :: "string list" where
  "compact_keys = [''intentId'', ''txHash'', ''status'', ''submissionStatus'', ''chainStatus'', ''workflowStatus'', ''confirmationCount'',
     ''assertionStatus'', ''conflictType'', ''conflictDetails'', ''recommendedAction'', ''activeAttemptId'', ''winningAttemptId'']"

definition compactView :: "json option \<Rightarrow> json" where
  "compactView view = (case view of
     None \<Rightarrow> JNull
   | Some v \<Rightarrow> if \<not> json_truthy v then JNull else obj_defined (map (\<lambda>k. (k, get (Some v) k)) compact_keys))"

definition expectedLiveCell :: "int \<Rightarrow> LockScript \<Rightarrow> json" where
  "expectedLiveCell outputIndex lock = JObj [(''outputIndex'', JNum outputIndex), (''mode'', JStr ''live''),
     (''lock'', JObj [(''codeHash'', JStr (lo_codeHash lock)), (''hashType'', JStr (lo_hashType lock)), (''args'', JStr (lo_args lock))])]"

text \<open>The attempts in the evidence document of the service.\<close>

definition evidence_attempts :: "FetchedJson \<Rightarrow> json list option" where
  "evidence_attempts f = (case get (get (Some (fj_body f)) ''evidence'') ''attempts'' of Some (JArr xs) \<Rightarrow> Some xs | _ \<Rightarrow> None)"


section \<open>Transactions\<close>

definition buildStateTransition ::
    "('s, 'tx) harness \<Rightarrow> Wallet \<Rightarrow> LockScript \<Rightarrow> json option \<Rightarrow> OutPointRef \<Rightarrow> int \<Rightarrow> string \<Rightarrow> ('s, 'tx) live" where
  "buildStateTransition h w lock cellDeps stateOutPoint feeRate marker =
    (let c = hn_ccc h in
     andThen (lift_sum (cc_fixedPoint c (st_stateCapacityCkb (hn_settings h)))) (\<lambda>capacity.
     andThen (lift_sum (cc_from c \<lparr>tt_inputs = [stateOutPoint], tt_outputs = [(lock, capacity)], tt_outputsData = [marker]\<rparr>)) (\<lambda>tx.
     andThen (case cellDeps of None \<Rightarrow> ret tx | Some deps \<Rightarrow> cc_addCellDeps c w deps tx) (\<lambda>tx.
     andThen (cc_completeInputs c w tx) (\<lambda>tx.
     cc_completeFee c w feeRate tx)))))"

definition buildWalletOnlySpend ::
    "('s, 'tx) harness \<Rightarrow> Wallet \<Rightarrow> LockScript \<Rightarrow> OutPointRef \<Rightarrow> int \<Rightarrow> string \<Rightarrow> ('s, 'tx) live" where
  "buildWalletOnlySpend h w lock walletOutPoint feeRate marker =
    (let c = hn_ccc h in
     andThen (lift_sum (cc_fixedPoint c (st_walletSeedCapacityCkb (hn_settings h)))) (\<lambda>capacity.
     andThen (lift_sum (cc_from c \<lparr>tt_inputs = [walletOutPoint], tt_outputs = [(lock, capacity)], tt_outputsData = [marker]\<rparr>)) (\<lambda>tx.
     cc_completeFeeChange c w 0 feeRate tx)))"

text \<open>A transaction with one new output, completed by the wallet.\<close>

definition build_output :: "('s, 'tx) harness \<Rightarrow> Wallet \<Rightarrow> LockScript \<Rightarrow> string \<Rightarrow> string list \<Rightarrow> ('s, 'tx) live" where
  "build_output h w lock capacityCkb outputsData =
    (let c = hn_ccc h in
     andThen (lift_sum (cc_fixedPoint c capacityCkb)) (\<lambda>capacity.
     andThen (lift_sum (cc_from c \<lparr>tt_inputs = [], tt_outputs = [(lock, capacity)], tt_outputsData = outputsData\<rparr>)) (\<lambda>tx.
     andThen (cc_completeInputs c w tx) (\<lambda>tx.
     cc_completeFee c w (st_sameFeeRate (hn_settings h)) tx))))"

definition createSharedStateCell :: "('s, 'tx) harness \<Rightarrow> Wallet \<Rightarrow> LockScript \<Rightarrow> string \<Rightarrow> ('s, string) prog" where
  "createSharedStateCell h w lock data =
     then_do (do_live (build_output h w lock (st_stateCapacityCkb (hn_settings h)) [data])) (\<lambda>tx.
     then_do (do_live (cc_signAndSend (hn_ccc h) w tx)) (\<lambda>txHash.
     then_do (await_commit h txHash) (\<lambda>_.
     give (toLowerCase txHash))))"

definition signAndDescribe ::
    "('s, 'tx) harness \<Rightarrow> Wallet \<Rightarrow> 'tx \<Rightarrow> OutPointRef list \<Rightarrow> InputRef list \<Rightarrow> ('s, 'tx Candidate) tracked_call" where
  "signAndDescribe h w tx applicationInputs explicitInputRefs =
    (let wal = hn_wallet h w in
     andThen (lift_sum (extractInputOutPoints wal tx)) (\<lambda>originalInputs.
     andThen (raise_as (\<lambda>e. Raised (OtherError e)) (wl_sign wal tx)) (\<lambda>signed.
     case signedPayloadFingerprintSha256 (wl_sha256 wal) (wl_value wal signed) of
       None \<Rightarrow> throw (raised_error ''Error'' ''Unable to compute signed-payload fingerprint'')
     | Some fingerprint \<Rightarrow>
         andThen (lift_sum (extractInputOutPoints wal signed)) (\<lambda>inputs.
         andThen (lift_sum (classifyInputRefs inputs explicitInputRefs applicationInputs originalInputs)) (\<lambda>refs.
         ret \<lparr>cd_txHash = toLowerCase (wl_hash wal signed), cd_signedPayloadHash = fingerprint, cd_inputOutPoints = Some inputs,
              cd_inputRefs = Some refs, cd_signed = signed\<rparr>)))))"

definition manual_input :: "string \<Rightarrow> 'tx Candidate \<Rightarrow> json \<Rightarrow> json list \<Rightarrow> PrepareInput" where
  "manual_input intentId c metadata expectedCells =
    \<lparr>pi_intentId = intentId, pi_txHash = cd_txHash c, pi_metadata = Some metadata, pi_expectedCells = Some expectedCells,
     pi_signedPayloadHashSha256 = Some (cd_signedPayloadHash c), pi_allowSignedPayloadRevision = False,
     pi_inputOutPoints = cd_inputOutPoints c, pi_inputRefs = cd_inputRefs c, pi_attemptKind = None, pi_parentAttemptId = None\<rparr>"

definition prepareManual ::
    "('s, 'tx) harness \<Rightarrow> Wallet \<Rightarrow> 'tx \<Rightarrow> string \<Rightarrow> json \<Rightarrow> json list \<Rightarrow> OutPointRef list \<Rightarrow> InputRef list \<Rightarrow> ('s, 'tx Candidate) prog" where
  "prepareManual h w tx intentId metadata expectedCells applicationInputs inputRefs =
     then_do (do_tracked (signAndDescribe h w tx applicationInputs inputRefs)) (\<lambda>c.
     then_do (do_call (client_prepare (hn_flow h) (manual_input intentId c metadata expectedCells))) (\<lambda>_.
     give c))"

text \<open>The answer of the node to a submission; a refusal is classified and does not throw.\<close>

record RawSubmit = SubmitResult +
  rs_errorMessage :: "string option"

definition rawSubmit :: "('s, 'tx) harness \<Rightarrow> Wallet \<Rightarrow> 'tx \<Rightarrow> 's \<Rightarrow> RawSubmit \<times> 's" where
  "rawSubmit h w tx s = (case wl_send (hn_wallet h w) tx s of
     (Inr returned, t) \<Rightarrow> (\<lparr>sr_accepted = True, sr_returnedHash = Some (toLowerCase returned), sr_classification = None, rs_errorMessage = None\<rparr>, t)
   | (Inl error, t) \<Rightarrow> (\<lparr>sr_accepted = False, sr_returnedHash = None, sr_classification = Some (classifyBroadcastError error),
       rs_errorMessage = Some (failure_text error)\<rparr>, t))"

definition submitPreparedManually :: "('s, 'tx) harness \<Rightarrow> Wallet \<Rightarrow> string \<Rightarrow> 'tx Candidate \<Rightarrow> ('s, RawSubmit) prog" where
  "submitPreparedManually h w intentId prepared =
     then_do (do_call (client_markBroadcasting (hn_flow h) intentId)) (\<lambda>_.
     then_do (do_read (rawSubmit h w (cd_signed prepared))) (\<lambda>result.
     then_do
       (if sr_accepted result then do_call (client_markSubmitted (hn_flow h) intentId)
        else case sr_classification result of
          Some (NODE_REJECTED, evidence) \<Rightarrow> do_call (client_markNodeRejected (hn_flow h) intentId evidence)
        | Some (AMBIGUOUS, evidence) \<Rightarrow> do_call (client_markAmbiguous (hn_flow h) intentId (Some evidence))
        | None \<Rightarrow> do_call (client_markAmbiguous (hn_flow h) intentId (Some (evidence_of SE_TRANSPORT_UNKNOWN None
            (env_or ''Unknown submission failure'' (or_null (rs_errorMessage result)))))))
       (\<lambda>_. give result)))"

definition outcome_name :: "Outcome \<Rightarrow> string" where
  "outcome_name o' = (case o' of AMBIGUOUS \<Rightarrow> ''AMBIGUOUS'' | NODE_REJECTED \<Rightarrow> ''NODE_REJECTED'')"

definition submit_json :: "SubmitResult \<Rightarrow> string option \<Rightarrow> bool \<Rightarrow> json" where
  "submit_json r message persisted = obj_defined
    [(''accepted'', Some (JBool (sr_accepted r))), (''returnedHash'', map_option JStr (sr_returnedHash r)),
     (''errorMessage'', map_option JStr message),
     (''classification'', map_option (\<lambda>(o', ev). JObj [(''outcome'', JStr (outcome_name o')), (''evidence'', failure_json ev)]) (sr_classification r)),
     (''persistedBeforeBroadcast'', if persisted then Some (JBool True) else None)]"

definition raw_json :: "RawSubmit \<Rightarrow> json" where
  "raw_json r = submit_json (SubmitResult.truncate r) (rs_errorMessage r) False"


section \<open>Two wallets, one application Cell\<close>

text \<open>The verdict of a scenario, as the file writes it.\<close>

definition race_passed :: "bool \<Rightarrow> RawSubmit \<Rightarrow> json option \<Rightarrow> json option \<Rightarrow> bool" where
  "race_passed committed submitB bAfterGrace aFinal \<longleftrightarrow> committed \<and> \<not> sr_accepted submitB
     \<and> view_is bAfterGrace ''conflictType'' ''INPUT_SPENT'' \<and> view_is bAfterGrace ''recommendedAction'' ''REBUILD_FROM_LIVE_STATE''
     \<and> view_is aFinal ''status'' ''CONFIRMED'' \<and> view_is aFinal ''assertionStatus'' ''VERIFIED''"

definition race_options :: "'tx \<Rightarrow> string \<Rightarrow> json \<Rightarrow> json list \<Rightarrow> OutPointRef list \<Rightarrow> InputRef list \<Rightarrow> 'tx PrepareOptions" where
  "race_options tx intentId metadata expectedCells applicationInputs inputRefs =
    \<lparr>po_transaction = tx, po_intentId = intentId, po_metadata = Some metadata, po_expectedCells = Some expectedCells,
     po_inputRefs = Some inputRefs, po_applicationInputs = Some applicationInputs, po_attemptKind = None, po_parentAttemptId = None,
     po_allowSignedPayloadRevision = False\<rparr>"

definition race_metadata :: "('s, 'tx) harness \<Rightarrow> string \<Rightarrow> OutPointRef \<Rightarrow> string \<Rightarrow> json" where
  "race_metadata h name stateOutPoint wallet = JObj [(''runId'', JStr (hn_runId h)), (''scenario'', JStr name),
     (''stateOutPoint'', outPoint_json stateOutPoint), (''wallet'', JStr wallet),
     (''feeRate'', JStr (int_string (st_sameFeeRate (hn_settings h))))]"

definition track :: "('s, 'tx) harness \<Rightarrow> Wallet \<Rightarrow> 'tx PrepareOptions \<Rightarrow> ('s, 'tx PreparedTransaction) prog" where
  "track h w o' = do_tracked (prepareTrackedTransaction (hn_wallet h w) (client_flow (hn_flow h)) o')"

definition tracked_send :: "('s, 'tx) harness \<Rightarrow> Wallet \<Rightarrow> string \<Rightarrow> 'tx PreparedTransaction \<Rightarrow> ('s, string) prog" where
  "tracked_send h w intentId p = do_tracked (broadcast (hn_wallet h w) (client_flow (hn_flow h)) intentId p)"

definition runSameFeeApplicationRace :: "('s, 'tx) harness \<Rightarrow> LockScript \<Rightarrow> json option \<Rightarrow> ('s, json) prog" where
  "runSameFeeApplicationRace h lock cellDeps =
    (let name = ''two-wallet-same-fee-application-contention''; rate = st_sameFeeRate (hn_settings h);
         intentA = hn_runId h @ '':app-race:a''; intentB = hn_runId h @ '':app-race:b'' in
     then_do (iso_now h) (\<lambda>started.
     then_do (createSharedStateCell h Wallet_A lock ''0x73616d652d666565'') (\<lambda>stateHash.
     let state = \<lparr>op_txHash = stateHash, op_index = 0\<rparr> in
     then_do (do_live (buildStateTransition h Wallet_A lock cellDeps state rate ''0xa1'')) (\<lambda>txA.
     then_do (do_live (buildStateTransition h Wallet_B lock cellDeps state rate ''0xb1'')) (\<lambda>txB.
     then_do (track h Wallet_A (race_options txA intentA (race_metadata h name state ''A'') [expectedLiveCell 0 lock] [state] [])) (\<lambda>trackedA.
     then_do (prepareManual h Wallet_B txB intentB (race_metadata h name state ''B'') [] [state] []) (\<lambda>preparedB.
     then_do (tracked_send h Wallet_A intentA trackedA) (\<lambda>hashA.
     then_do (pause h (st_propagationDelayMs (hn_settings h))) (\<lambda>_.
     then_do (submitPreparedManually h Wallet_B intentB preparedB) (\<lambda>submitB.
     then_do (until_view h intentA confirmed_verified (timeout_ms h)) (\<lambda>aFinal.
     then_do (until_view h intentB (\<lambda>v. view_is (Some v) ''submissionStatus'' ''NODE_REJECTED''
         \<or> view_is (Some v) ''conflictType'' ''INPUT_CONFLICT_SUSPECTED'' \<or> view_is (Some v) ''status'' ''CONFLICTED'')
         (min (timeout_ms h) 120000)) (\<lambda>bBeforeGrace.
     then_do (pause h (st_contentionGraceMs (hn_settings h))) (\<lambda>_.
     then_do (until_view h intentB (\<lambda>v. view_is (Some v) ''conflictType'' ''INPUT_SPENT'' \<or> view_is (Some v) ''status'' ''CONFLICTED''
         \<or> view_is (Some v) ''recommendedAction'' ''REBUILD_FROM_LIVE_STATE'') (timeout_ms h)) (\<lambda>bAfterGrace.
     then_do (gather_evidence h intentA) (\<lambda>evidenceA.
     then_do (gather_evidence h intentB) (\<lambda>evidenceB.
     then_do (gather_observations h hashA) (\<lambda>rpcA.
     then_do (gather_observations h (cd_txHash preparedB)) (\<lambda>rpcB.
     then_do (iso_now h) (\<lambda>finished.
     then_do (commit_witness rpcA hashA) (\<lambda>committed.
     let result = JObj [(''name'', JStr name), (''startedAt'', JStr started), (''finishedAt'', JStr finished),
         (''stateTxHash'', JStr stateHash), (''stateOutPoint'', outPoint_json state), (''txA'', JStr hashA),
         (''txB'', JStr (cd_txHash preparedB)), (''submitB'', raw_json submitB), (''beforeGrace'', compactView bBeforeGrace),
         (''afterGrace'', compactView bAfterGrace), (''winner'', compactView aFinal), (''committedOnChain'', JBool committed),
         (''passed'', JBool (race_passed committed submitB bAfterGrace aFinal))] in
     then_do (saveJson h ''10-two-wallet-same-fee-race.json'' (JObj [(''result'', result), (''evidenceA'', fetched_json evidenceA),
         (''evidenceB'', fetched_json evidenceB), (''rpcA'', JArr rpcA), (''rpcB'', JArr rpcB)])) (\<lambda>_.
     give result)))))))))))))))))))))"


section \<open>A replacement by fee\<close>

text \<open>What the run saw of the replacement.\<close>

record RbfFacts =
  rf_accepted :: bool
  rf_commitSeen :: bool
  rf_linked :: bool
  rf_view :: "json option"
  rf_committedOnChain :: bool

definition demonstrated_rbf :: "RbfFacts \<Rightarrow> bool" where
  "demonstrated_rbf f \<longleftrightarrow> rf_accepted f \<and> rf_commitSeen f \<and> rf_linked f
     \<and> view_is (rf_view f) ''status'' ''CONFIRMED'' \<and> view_is (rf_view f) ''assertionStatus'' ''VERIFIED''"

definition rbf_passed :: "bool \<Rightarrow> RbfFacts \<Rightarrow> bool" where
  "rbf_passed strictRbf f \<longleftrightarrow> rf_committedOnChain f
     \<and> (if strictRbf then demonstrated_rbf f else demonstrated_rbf f \<or> \<not> rf_accepted f)"

definition is_linked_replacement :: "string \<Rightarrow> 'tx Candidate \<Rightarrow> json \<Rightarrow> bool" where
  "is_linked_replacement parentAttemptId high entry \<longleftrightarrow>
     view_is (Some entry) ''attemptKind'' ''RBF_REPLACEMENT'' \<and> view_is (Some entry) ''parentAttemptId'' parentAttemptId
     \<and> toLowerCase (case nullish (get (Some entry) ''txHash'') (Some (JStr [])) of Some v \<Rightarrow> js_String v | None \<Rightarrow> [])
         = toLowerCase (cd_txHash high)
     \<and> view_is (Some entry) ''signedPayloadHashSha256'' (cd_signedPayloadHash high)"

definition is_original_attempt :: "string \<Rightarrow> json \<Rightarrow> bool" where
  "is_original_attempt parentAttemptId entry \<longleftrightarrow> view_is (Some entry) ''id'' parentAttemptId \<or> view_is (Some entry) ''attemptId'' parentAttemptId"

definition rbf_metadata :: "('s, 'tx) harness \<Rightarrow> string \<Rightarrow> OutPointRef \<Rightarrow> json" where
  "rbf_metadata h name state = JObj [(''runId'', JStr (hn_runId h)), (''scenario'', JStr name), (''stateOutPoint'', outPoint_json state),
     (''lowFeeRate'', JStr (int_string (st_lowFeeRate (hn_settings h)))), (''highFeeRate'', JStr (int_string (st_highFeeRate (hn_settings h))))]"

text \<open>The submitter of the replacement: the second wallet.\<close>

definition high_submit :: "('s, 'tx) harness \<Rightarrow> ('s, 'tx) submit" where
  "high_submit h tx s = (case rawSubmit h Wallet_B tx s of (r, t) \<Rightarrow> (Inr (SubmitResult.truncate r), t))"

text \<open>What follows the submission of the replacement: its commit and view, or the end of the original.\<close>

definition rbf_settle :: "('s, 'tx) harness \<Rightarrow> string \<Rightarrow> string \<Rightarrow> bool \<Rightarrow> ('s, bool \<times> json option \<times> json option) prog" where
  "rbf_settle h intentId highHash won =
    (if won then
       then_do (await_commit h highHash) (\<lambda>_.
       then_do (until_view h intentId confirmed_verified (timeout_ms h)) (\<lambda>view. give (True, view, None)))
     else
       then_do (until_view h intentId (\<lambda>v. view_is (Some v) ''status'' ''CONFIRMED'' \<or> view_is (Some v) ''status'' ''CONFLICTED'') (timeout_ms h))
         (\<lambda>low. give (False, None, low)))"

definition runHigherFeeRbf :: "('s, 'tx) harness \<Rightarrow> LockScript \<Rightarrow> json option \<Rightarrow> ('s, json) prog" where
  "runHigherFeeRbf h lock cellDeps =
    (let name = ''two-wallet-higher-fee-rbf''; st = hn_settings h; intentId = hn_runId h @ '':rbf''; cells = [expectedLiveCell 0 lock] in
     then_do (iso_now h) (\<lambda>started.
     then_do (createSharedStateCell h Wallet_A lock ''0x726266'') (\<lambda>stateHash.
     let state = \<lparr>op_txHash = stateHash, op_index = 0\<rparr>; metadata = rbf_metadata h name state in
     then_do (do_live (buildStateTransition h Wallet_A lock cellDeps state (st_lowFeeRate st) ''0xa2'')) (\<lambda>lowTx.
     then_do (do_live (buildStateTransition h Wallet_B lock cellDeps state (st_highFeeRate st) ''0xb2'')) (\<lambda>highTx.
     then_do (track h Wallet_A (race_options lowTx intentId metadata cells [state] [])) (\<lambda>trackedLow.
     then_do (do_call (client_get (hn_flow h) intentId False)) (\<lambda>lowView.
     (case json_string (get lowView ''activeAttemptId'') of
        None \<Rightarrow> fail_with ''CellFlow did not expose the initial attempt id for RBF evidence''
      | Some parentAttemptId \<Rightarrow>
     then_do (do_tracked (signAndDescribe h Wallet_B highTx [state] [])) (\<lambda>preparedHigh.
     then_do (tracked_send h Wallet_A intentId trackedLow) (\<lambda>lowHash.
     then_do (pause h (st_propagationDelayMs st)) (\<lambda>_.
     then_do (do_call (submitPersistedReplacement (hn_flow h) (high_submit h) intentId (Some preparedHigh) parentAttemptId (Some metadata)
         (Some cells))) (\<lambda>highSubmit.
     then_do (rbf_settle h intentId (cd_txHash preparedHigh) (sr_accepted highSubmit)) (\<lambda>(commitSeen, replacementView, lowView).
     then_do (gather_evidence h intentId) (\<lambda>evidence.
     then_do (gather_observations h lowHash) (\<lambda>rpcLow.
     then_do (gather_observations h (cd_txHash preparedHigh)) (\<lambda>rpcHigh.
     then_do (iso_now h) (\<lambda>finished.
     then_do (commit_witness rpcHigh (cd_txHash preparedHigh)) (\<lambda>committed.
     let attempts = list_of (evidence_attempts evidence);
         lowTerminal = (case find (is_original_attempt parentAttemptId) attempts of
           Some a \<Rightarrow> if json_truthy a then Some a else lowView | None \<Rightarrow> lowView);
         facts = \<lparr>rf_accepted = sr_accepted highSubmit, rf_commitSeen = commitSeen,
           rf_linked = list_ex (is_linked_replacement parentAttemptId preparedHigh) attempts,
           rf_view = replacementView, rf_committedOnChain = committed\<rparr>;
         result = JObj [(''name'', JStr name), (''startedAt'', JStr started), (''finishedAt'', JStr finished),
           (''stateTxHash'', JStr stateHash), (''stateOutPoint'', outPoint_json state), (''lowTxHash'', JStr lowHash),
           (''highTxHash'', JStr (cd_txHash preparedHigh)), (''lowFeeRate'', JStr (int_string (st_lowFeeRate st))),
           (''highFeeRate'', JStr (int_string (st_highFeeRate st))), (''highSubmit'', submit_json highSubmit None True),
           (''replacementPersistedBeforeBroadcast'', JBool True), (''lowTerminal'', compactView lowTerminal),
           (''replacement'', compactView replacementView), (''linkedReplacement'', JBool (rf_linked facts)),
           (''rbfDemonstrated'', JBool (demonstrated_rbf facts)), (''committedOnChain'', JBool committed),
           (''passed'', JBool (rbf_passed (st_strictRbf st) facts))] in
     then_do (saveJson h ''20-two-wallet-higher-fee-rbf.json'' (JObj [(''result'', result), (''evidence'', fetched_json evidence),
         (''rpcLow'', JArr rpcLow), (''rpcHigh'', JArr rpcHigh)])) (\<lambda>_.
     give result)))))))))))))))))))"

end
