(* ===== verification/LiveSuite.thy ===== *)
theory LiveSuite
  imports LiveScenarios "HOL-Library.List_Lexorder"
begin

text \<open>
  Models the rest of scripts/evidence/testnet-live-suite.mjs: the race for a wallet's input, the
  recovery of a lost response, the reuse of finished scenarios, the run of the suite with the checks
  before its first transaction, and the documents it writes.
\<close>

section \<open>Errors\<close>

definition client_error_text :: "client_error \<Rightarrow> string" where
  "client_error_text e = (case e of CellFlowHttpError status code message \<Rightarrow> message | OtherError x \<Rightarrow> failure_text x)"

definition suite_error_text :: "tracked_error \<Rightarrow> string" where
  "suite_error_text e = (case e of Raised c \<Rightarrow> client_error_text c
     | AmbiguousSubmissionError m i h c \<Rightarrow> m | NodeRejectedError m i h ev c \<Rightarrow> m | TrackingUpdateError m i h c \<Rightarrow> m)"

text \<open>\<open>/TransactionFailedToResolve|Resolve failed\s+Unknown\(OutPoint|Unknown\(OutPoint/i\<close>.\<close>

definition stale_rx :: rx where
  "stale_rx = any_of [Lit ''transactionfailedtoresolve'',
     Cat (Lit ''resolve failed'') (Cat Blank (Cat Blanks (Lit ''unknown(outpoint''))), Lit ''unknown(outpoint'']"

definition isStaleWalletOutPointError :: "tracked_error \<Rightarrow> bool" where
  "isStaleWalletOutPointError e \<longleftrightarrow> rx_test stale_rx (suite_error_text e)"


section \<open>A race for a wallet input\<close>

text \<open>One attempt, and the attempts left with the failures so far.\<close>

definition seed_attempt :: "('s, 'tx) harness \<Rightarrow> Wallet \<Rightarrow> 'tx \<Rightarrow> ('s, string) prog" where
  "seed_attempt h w seedTx =
    (let c = hn_ccc h in
     then_do (do_live (andThen (cc_completeInputs c w seedTx) (\<lambda>tx. cc_completeFee c w (st_sameFeeRate (hn_settings h)) tx))) (\<lambda>tx.
     then_do (do_live (cc_signAndSend c w tx)) (\<lambda>returned.
     then_do (await_commit h (toLowerCase returned)) (\<lambda>_. give (toLowerCase returned)))))"

definition seed_template :: "('s, 'tx) harness \<Rightarrow> LockScript \<Rightarrow> ('s, 'tx) prog" where
  "seed_template h lock = do_live (andThen (lift_sum (cc_fixedPoint (hn_ccc h) (st_walletSeedCapacityCkb (hn_settings h)))) (\<lambda>capacity.
     lift_sum (cc_from (hn_ccc h) \<lparr>tt_inputs = [], tt_outputs = [(lock, capacity)], tt_outputsData = []\<rparr>)))"

fun seed_rounds :: "('s, 'tx) harness \<Rightarrow> Wallet \<Rightarrow> LockScript \<Rightarrow> (nat \<times> string) list \<Rightarrow> nat \<Rightarrow> nat \<Rightarrow> ('s, string) prog" where
  "seed_rounds h w lock failures number 0 = fail_with ''Unable to create a fresh wallet seed Cell after recollecting wallet inputs''"
| "seed_rounds h w lock failures number (Suc left) =
     then_do (seed_template h lock) (\<lambda>seedTx.
     on_error (seed_attempt h w seedTx) (\<lambda>e.
       if \<not> isStaleWalletOutPointError e \<or> left = 0 then do_tracked (throw e)
       else then_do (pause h (st_walletSetupRetryDelayMs (hn_settings h))) (\<lambda>_.
         seed_rounds h w lock (failures @ [(number, suite_error_text e)]) (Suc number) left)))"

definition createWalletSeedCellWithRetry :: "('s, 'tx) harness \<Rightarrow> Wallet \<Rightarrow> LockScript \<Rightarrow> ('s, string) prog" where
  "createWalletSeedCellWithRetry h w lock = seed_rounds h w lock [] 1 (nat (st_walletSetupAttempts (hn_settings h)))"

definition wallet_race_passed :: "bool \<Rightarrow> RawSubmit \<Rightarrow> json option \<Rightarrow> bool" where
  "wallet_race_passed committed submitB bFinal \<longleftrightarrow> committed \<and> \<not> sr_accepted submitB
     \<and> view_is bFinal ''conflictType'' ''INPUT_SPENT'' \<and> view_is bFinal ''recommendedAction'' ''RECOLLECT_WALLET_INPUTS''"

definition runWalletInputRace :: "('s, 'tx) harness \<Rightarrow> string \<Rightarrow> ('s, json) prog" where
  "runWalletInputRace h address =
    (let name = ''wallet-funding-input-conflict''; w = Wallet_A; rate = st_sameFeeRate (hn_settings h);
         intentA = hn_runId h @ '':wallet-race:a''; intentB = hn_runId h @ '':wallet-race:b'' in
     then_do (iso_now h) (\<lambda>started.
     then_do (do_live (cc_addressLock (hn_ccc h) address)) (\<lambda>self.
     then_do (createWalletSeedCellWithRetry h w self) (\<lambda>seedHash.
     let outPoint = \<lparr>op_txHash = seedHash, op_index = 0\<rparr>;
         metadata = JObj [(''runId'', JStr (hn_runId h)), (''scenario'', JStr name), (''walletOutPoint'', outPoint_json outPoint)];
         refs = [\<lparr>ref_outPoint = outPoint, ref_role = IR_WALLET_FUNDING, ref_resourceKey = None\<rparr>] in
     then_do (do_live (buildWalletOnlySpend h w self outPoint rate ''0xc1'')) (\<lambda>txA.
     then_do (do_live (buildWalletOnlySpend h w self outPoint rate ''0xc2'')) (\<lambda>txB.
     then_do (track h w (race_options txA intentA metadata [] [] refs)) (\<lambda>trackedA.
     then_do (prepareManual h w txB intentB metadata [] [] refs) (\<lambda>preparedB.
     then_do (tracked_send h w intentA trackedA) (\<lambda>hashA.
     then_do (pause h (st_propagationDelayMs (hn_settings h))) (\<lambda>_.
     then_do (submitPreparedManually h w intentB preparedB) (\<lambda>submitB.
     then_do (await_commit h hashA) (\<lambda>_.
     then_do (pause h (st_contentionGraceMs (hn_settings h))) (\<lambda>_.
     then_do (until_view h intentB (\<lambda>v. view_is (Some v) ''conflictType'' ''INPUT_SPENT''
         \<or> view_is (Some v) ''recommendedAction'' ''RECOLLECT_WALLET_INPUTS'') (timeout_ms h)) (\<lambda>bFinal.
     then_do (gather_evidence h intentB) (\<lambda>evidence.
     then_do (gather_observations h hashA) (\<lambda>chainObservations.
     then_do (iso_now h) (\<lambda>finished.
     then_do (commit_witness chainObservations hashA) (\<lambda>committed.
     let result = JObj [(''name'', JStr name), (''startedAt'', JStr started), (''finishedAt'', JStr finished),
         (''seedTxHash'', JStr seedHash), (''walletOutPoint'', outPoint_json outPoint), (''txA'', JStr hashA),
         (''txB'', JStr (cd_txHash preparedB)), (''submitB'', raw_json submitB), (''final'', compactView bFinal),
         (''committedOnChain'', JBool committed), (''passed'', JBool (wallet_race_passed committed submitB bFinal))] in
     then_do (saveJson h ''30-wallet-input-race.json'' (JObj [(''result'', result), (''evidence'', fetched_json evidence),
         (''chainObservations'', JArr chainObservations)])) (\<lambda>_.
     give result)))))))))))))))))))"


section \<open>The recovery of a lost response\<close>

definition lost_response :: "('s, 'tx) harness \<Rightarrow> string \<Rightarrow> SubmissionFailureEvidence" where
  "lost_response h txHash = \<lparr>sf_errorCode = Some ''INJECTED_LOST_RESPONSE'', sf_errorType = SE_TRANSPORT_UNKNOWN,
     sf_errorMessage = Some ''Testnet harness intentionally discarded a successful send_transaction response'', sf_conflictType = None,
     sf_details = Some [(''runId'', JStr (hn_runId h)), (''actualAcceptedTxHash'', JStr txHash)]\<rparr>"

text \<open>The child process, and the document it wrote; a null document has no fields to read.\<close>

definition recover :: "('s, 'tx) harness \<Rightarrow> string \<Rightarrow> ('s, json \<times> json) prog" where
  "recover h intentId =
    (let output = hn_outDir h @ ''/40-new-process-recovery-worker.json'' in
     then_do (do_live (hn_worker h intentId output)) (\<lambda>code.
     then_do (do_live (andThen (hn_read h output) (\<lambda>text. lift_sum (lv_parse (hn_live h) text)))) (\<lambda>doc.
     then_do (do_read (\<lambda>s. ((), hn_artifact h output s))) (\<lambda>_.
     give (code, doc)))))"

definition recovery_passed :: "bool \<Rightarrow> json option \<Rightarrow> json \<Rightarrow> json option \<Rightarrow> bool \<Rightarrow> bool" where
  "recovery_passed committed before workerDoc after fingerprintPersisted \<longleftrightarrow> committed
     \<and> view_is before ''submissionStatus'' ''SUBMISSION_UNKNOWN'' \<and> get (Some workerDoc) ''passed'' = Some (JBool True)
     \<and> view_is after ''status'' ''CONFIRMED'' \<and> view_is after ''assertionStatus'' ''VERIFIED'' \<and> fingerprintPersisted"

definition recovery_build :: "('s, 'tx) harness \<Rightarrow> Wallet \<Rightarrow> LockScript \<Rightarrow> ('s, 'tx) live" where
  "recovery_build h w self = build_output h w self (st_ambiguousCapacityCkb (hn_settings h)) []"

text \<open>The transaction is accepted by the node, and then recorded as if the answer had been lost.\<close>

definition lose_response :: "('s, 'tx) harness \<Rightarrow> Wallet \<Rightarrow> string \<Rightarrow> 'tx Candidate \<Rightarrow> ('s, unit) prog" where
  "lose_response h w intentId prepared =
     then_do (do_call (client_preflight (hn_flow h) intentId)) (\<lambda>_.
     then_do (do_call (client_markBroadcasting (hn_flow h) intentId)) (\<lambda>_.
     then_do (do_read (rawSubmit h w (cd_signed prepared))) (\<lambda>submitted.
     if \<not> sr_accepted submitted then
       fail_with (''Ambiguous-recovery setup transaction was rejected: '' @ env_or ''unknown'' (or_null (rs_errorMessage submitted)))
     else then_do (do_call (client_markAmbiguous (hn_flow h) intentId (Some (lost_response h (cd_txHash prepared))))) (\<lambda>_. give ()))))"

definition runAmbiguousRecovery :: "('s, 'tx) harness \<Rightarrow> string \<Rightarrow> ('s, json) prog" where
  "runAmbiguousRecovery h address =
    (let name = ''real-broadcast-injected-lost-response-recovery''; w = Wallet_A; intentId = hn_runId h @ '':ambiguous'';
         metadata = JObj [(''runId'', JStr (hn_runId h)), (''scenario'', JStr name),
           (''faultInjection'', JStr ''discard-success-after-real-send_transaction'')] in
     then_do (iso_now h) (\<lambda>started.
     then_do (do_live (cc_addressLock (hn_ccc h) address)) (\<lambda>self.
     then_do (do_live (recovery_build h w self)) (\<lambda>tx.
     then_do (prepareManual h w tx intentId metadata [expectedLiveCell 0 self] [] []) (\<lambda>prepared.
     then_do (lose_response h w intentId prepared) (\<lambda>_.
     then_do (do_call (client_get (hn_flow h) intentId False)) (\<lambda>before.
     then_do (recover h intentId) (\<lambda>(code, workerDoc).
     then_do (gather_evidence h intentId) (\<lambda>evidence.
     then_do (gather_observations h (cd_txHash prepared)) (\<lambda>observations.
     then_do (do_call (client_get (hn_flow h) intentId False)) (\<lambda>after.
     let persisted = list_ex (\<lambda>a. view_is (Some a) ''signedPayloadHashSha256'' (cd_signedPayloadHash prepared)) (list_of (evidence_attempts evidence)) in
     then_do (iso_now h) (\<lambda>finished.
     if workerDoc = JNull then do_live (throw (JsError ''TypeError'' ''Cannot read properties of null'' [] None))
     else
     then_do (commit_witness observations (cd_txHash prepared)) (\<lambda>committed.
     let result = JObj [(''name'', JStr name), (''startedAt'', JStr started), (''finishedAt'', JStr finished),
         (''txHash'', JStr (cd_txHash prepared)), (''signedPayloadHashSha256'', JStr (cd_signedPayloadHash prepared)),
         (''ckbFullHash'', opt_json (cc_fullHash (hn_ccc h) (cd_signed prepared))), (''injectedFailure'', JStr ''INJECTED_LOST_RESPONSE''),
         (''before'', compactView before), (''workerExitCode'', code),
         (''workerPassed'', JBool (get (Some workerDoc) ''passed'' = Some (JBool True))), (''after'', compactView after),
         (''fingerprintPersisted'', JBool persisted), (''committedOnChain'', JBool committed),
         (''passed'', JBool (recovery_passed committed before workerDoc after persisted))] in
     then_do (saveJson h ''40-ambiguous-recovery.json'' (JObj [(''result'', result), (''evidence'', fetched_json evidence),
         (''rpc'', JArr observations), (''worker'', workerDoc)])) (\<lambda>_.
     give result))))))))))))))"


section \<open>The scenarios in their order\<close>

text \<open>The artifact of a scenario that passed before; anything that fails means there is none.\<close>

definition finished_result :: "('s, 'tx) harness \<Rightarrow> string \<Rightarrow> string \<Rightarrow> 's \<Rightarrow> json option \<times> 's" where
  "finished_result h path expectedName s =
    (case hn_read h path s of
       (Inl e, t) \<Rightarrow> (None, t)
     | (Inr contents, t) \<Rightarrow> (case lv_parse (hn_live h) contents of
         Inl e \<Rightarrow> (None, t)
       | Inr doc \<Rightarrow>
           let result = get (Some doc) ''result'' in
           if get result ''passed'' = Some (JBool True) \<and> view_is result ''name'' expectedName then (result, t) else (None, t)))"

definition runOrResumeScenario :: "('s, 'tx) harness \<Rightarrow> string \<Rightarrow> string \<Rightarrow> ('s, json) prog \<Rightarrow> ('s, json) prog" where
  "runOrResumeScenario h fileName expectedName runScenario =
    (let path = hn_outDir h @ ''/'' @ fileName in
     if \<not> st_resume (hn_settings h) then runScenario
     else then_do (do_read (finished_result h path expectedName)) (\<lambda>existing. case existing of
         None \<Rightarrow> runScenario
       | Some result \<Rightarrow> then_do (do_read (\<lambda>s. ((), hn_artifact h path s))) (\<lambda>_.
           give (JObj (obj_set ''resumedFromArtifact'' (JBool True) (asRecord result))))))"

record SuiteContext =
  sx_addressA :: string
  sx_addressB :: string
  sx_lock :: LockScript
  sx_cellDeps :: "json option"

definition suite_scenarios :: "('s, 'tx) harness \<Rightarrow> SuiteContext \<Rightarrow> ('s, json) prog list" where
  "suite_scenarios h ctx =
    [runOrResumeScenario h ''10-two-wallet-same-fee-race.json'' ''two-wallet-same-fee-application-contention''
       (runSameFeeApplicationRace h (sx_lock ctx) (sx_cellDeps ctx)),
     runOrResumeScenario h ''20-two-wallet-higher-fee-rbf.json'' ''two-wallet-higher-fee-rbf''
       (runHigherFeeRbf h (sx_lock ctx) (sx_cellDeps ctx)),
     runOrResumeScenario h ''30-wallet-input-race.json'' ''wallet-funding-input-conflict'' (runWalletInputRace h (sx_addressA ctx)),
     runOrResumeScenario h ''40-ambiguous-recovery.json'' ''real-broadcast-injected-lost-response-recovery''
       (runAmbiguousRecovery h (sx_addressA ctx))]"

text \<open>The results so far are kept when a scenario throws.\<close>

fun run_scenarios :: "json list \<Rightarrow> ('s, json) prog list \<Rightarrow> 's \<Rightarrow> ((json list \<times> tracked_error option) \<times> 's) option" where
  "run_scenarios results [] s = Some ((results, None), s)"
| "run_scenarios results (scenario # scenarios) s = (case scenario s of
     None \<Rightarrow> None
   | Some (Inl e, t) \<Rightarrow> Some ((results, Some e), t)
   | Some (Inr result, t) \<Rightarrow> run_scenarios (results @ [result]) scenarios t)"


section \<open>The checks before the first transaction\<close>

definition check_that :: "bool \<Rightarrow> string \<Rightarrow> ('s, unit) prog" where
  "check_that refused message = (if refused then fail_with message else give ())"

definition suite_wallets :: "('s, 'tx) harness \<Rightarrow> ('s, string \<times> string) prog" where
  "suite_wallets h =
    (let c = hn_ccc h; pe = lv_process (hn_live h) in
     then_do (check_that (wallets_refused pe (hn_settings h))
       ''Strict reviewer Testnet proof requires two distinct fresh CKB_TESTNET_PRIVATE_KEY_A/B values; built-in public identities are not acceptable'') (\<lambda>_.
     then_do (do_live (cc_connect c Wallet_A)) (\<lambda>_.
     then_do (do_live (cc_connect c Wallet_B)) (\<lambda>_.
     then_do (do_live (cc_address c Wallet_A)) (\<lambda>a.
     then_do (do_live (cc_address c Wallet_B)) (\<lambda>b.
     then_do (check_that (\<not> startsWith a ''ckt'' \<or> \<not> startsWith b ''ckt'')
       ''Refusing to run: both signer addresses must be CKB Testnet addresses (ckt1...)'') (\<lambda>_.
     then_do (check_that (pe_env pe ''CELLFLOW_TESTNET_CI'' = Some ''true''
         \<and> (Some a \<noteq> pe_env pe ''CELLFLOW_TESTNET_ADDRESS_A'' \<or> Some b \<noteq> pe_env pe ''CELLFLOW_TESTNET_ADDRESS_B''))
       ''Signing-key / hard-coded funding-address mismatch. Check GitHub Environment secrets A/B before funding or broadcasting.'') (\<lambda>_.
     give (a, b)))))))))"

definition suite_gate :: "('s, 'tx) harness \<Rightarrow> ('s, GateResult) prog" where
  "suite_gate h =
    (let pe = lv_process (hn_live h) in
     then_do (do_read (verifyRpcIdentities (hn_live h) (st_rpcUrls (hn_settings h)))) (\<lambda>network.
     then_do (saveJson h ''01-network.json'' (JArr network)) (\<lambda>_.
     then_do (check_that (\<not> list_all (\<lambda>entry. json_truthy (field_of entry ''ok'')) network)
       ''At least one configured RPC endpoint is not verified as CKB Testnet'') (\<lambda>_.
     then_do (check_that (length network < 2) ''At least two independent RPC endpoints are required for strict Testnet evidence'') (\<lambda>_.
     then_do (do_live (fetchJson (hn_live h) (service_request (hn_live h) None ''/api/ready'') True)) (\<lambda>readiness.
     then_do (saveJson h ''02-cellflow-readiness.json'' (fetched_json readiness)) (\<lambda>_.
     then_do (check_that (\<not> fj_ok readiness) (''CellFlow readiness failed: HTTP '' @ int_string (fj_status readiness))) (\<lambda>_.
     do_live (lift_sum (map_sum plain_failure id (assertPreBroadcastEvidence (hn_newURL h) (Some (fetched_json readiness)) (Some (JArr network))
       (map_option js_trim (pe_env pe ''CELLFLOW_EXPECTED_RELEASE_SHA'')) (map_option js_trim (pe_env pe ''CKB_EXPECTED_GENESIS_HASH''))
       (st_strictWallets (hn_settings h)))))))))))))"

text \<open>Both balances cover the minimum.\<close>

definition suite_balances :: "('s, 'tx) harness \<Rightarrow> string \<Rightarrow> string \<Rightarrow> ('s, unit) prog" where
  "suite_balances h a b =
    (let c = hn_ccc h; required = st_minBalanceCkb (hn_settings h) in
     then_do (do_live (together (cc_balance c Wallet_A) (cc_balance c Wallet_B))) (\<lambda>(balanceA, balanceB).
     then_do (saveJson h ''03-wallets.json'' (JObj [(''addressA'', JStr a), (''addressB'', JStr b),
         (''balanceA'', JStr (cc_pointText c balanceA)), (''balanceB'', JStr (cc_pointText c balanceB)),
         (''requiredMinimumEachCkb'', JStr required)])) (\<lambda>_.
     then_do (do_live (lift_sum (cc_fixedPoint c required))) (\<lambda>minimum.
     check_that (balanceA < minimum \<or> balanceB < minimum)
       (''Both Testnet wallets need at least '' @ required @ '' CKB. Fund '' @ a @ '' and '' @ b @ '' with Testnet CKB and rerun.'')))))"

definition suite_start :: "('s, 'tx) harness \<Rightarrow> ('s, SuiteContext) prog" where
  "suite_start h =
     then_do (suite_wallets h) (\<lambda>(a, b).
     then_do (suite_gate h) (\<lambda>_.
     then_do (suite_balances h a b) (\<lambda>_.
     then_do (do_live (cc_alwaysSuccess (hn_ccc h))) (\<lambda>lock.
     then_do (do_live (cc_knownCellDeps (hn_ccc h))) (\<lambda>deps.
     give \<lparr>sx_addressA = a, sx_addressB = b, sx_lock = lock, sx_cellDeps = deps\<rparr>)))))"


section \<open>The documents of a run\<close>

definition scenario_passed :: "json \<Rightarrow> bool" where
  "scenario_passed scenario \<longleftrightarrow> json_truthy (field_of scenario ''passed'')"

definition summary_limitations :: "string list" where
  "summary_limitations =
    [''The ambiguous-submit case uses explicit client-side fault injection after a real Testnet send_transaction acceptance; it does not claim a naturally occurring TCP failure.'',
     ''A public Testnet reorganization is observed if it happens but is not intentionally induced by this harness.'',
     ''RBF behavior depends on the transaction-pool policy of the Testnet RPC/node used; strict mode fails if higher-fee replacement is not actually demonstrated.'']"

definition buildSummary :: "('s, 'tx) harness \<Rightarrow> SuiteContext \<Rightarrow> string \<Rightarrow> string \<Rightarrow> json list \<Rightarrow> json" where
  "buildSummary h ctx startedAt finishedAt scenarios =
    (let st = hn_settings h in
     JObj [(''schemaVersion'', JStr ''cellflow-testnet-live-summary-v1''), (''runId'', JStr (hn_runId h)), (''startedAt'', JStr startedAt),
       (''finishedAt'', JStr finishedAt), (''cellFlowEndpoint'', JStr (st_endpoint st)), (''rpcEndpoints'', JArr (map JStr (st_rpcUrls st))),
       (''wallets'', JObj [(''A'', JStr (sx_addressA ctx)), (''B'', JStr (sx_addressB ctx))]),
       (''strictRbfRequired'', JBool (st_strictRbf st)),
       (''scenarios'', JArr (map (\<lambda>s. obj_defined [(''name'', get (Some s) ''name''), (''passed'', get (Some s) ''passed'')]) scenarios)),
       (''passed'', JBool (list_all scenario_passed scenarios)), (''limitations'', JArr (map JStr summary_limitations))])"

definition text_lines :: "string list \<Rightarrow> string" where
  "text_lines ls = concat (case ls of [] \<Rightarrow> [] | l # rest \<Rightarrow> l # map (\<lambda>x. CHR 0x0A # x) rest)"

fun sum_entries :: "('s, 'tx) harness \<Rightarrow> string list \<Rightarrow> 's \<Rightarrow> string list \<times> 's" where
  "sum_entries h [] s = ([], s)"
| "sum_entries h (path # paths) s =
    (case hn_read h path s of (r, t) \<Rightarrow> (case sum_entries h paths t of (entries, u) \<Rightarrow>
      ((case r of Inl e \<Rightarrow> entries
        | Inr contents \<Rightarrow> (hn_sha256Hex h contents @ ''  '' @ drop (length (hn_outDir h) + 1) path) # entries), u)))"

definition writeChecksums :: "('s, 'tx) harness \<Rightarrow> ('s, unit) prog" where
  "writeChecksums h =
     then_do (do_read (\<lambda>s. sum_entries h (unique_texts (hn_artifacts h s)) s)) (\<lambda>entries.
     do_live (hn_write h (hn_outDir h @ ''/SHA256SUMS'') (text_lines (sort_key (map code_unit) entries) @ [CHR 0x0A])))"

definition readme_lines :: "('s, 'tx) harness \<Rightarrow> string \<Rightarrow> json list \<Rightarrow> string list" where
  "readme_lines h finishedAt scenarios =
     [''# CellFlow real CKB Testnet evidence bundle'', [], ''Run ID: '' @ hn_runId h, ''Generated: '' @ finishedAt,
      ''Overall: '' @ (if list_all scenario_passed scenarios then ''PASS'' else ''FAIL''), [], ''## Live scenarios'', []]
     @ map (\<lambda>s. ''- '' @ (if scenario_passed s then ''PASS'' else ''FAIL'') @ '': '' @ shown (get (Some s) ''name'')) scenarios
     @ [[], ''## Integrity'', [], ''Verify every generated artifact with `sha256sum -c SHA256SUMS`.'', [],
        ''The bundle intentionally contains no private keys or CellFlow API key.'', [], ''## Limitations'', []]
     @ map (\<lambda>l. ''- '' @ l) summary_limitations @ [[]]"

definition writeReadme :: "('s, 'tx) harness \<Rightarrow> string \<Rightarrow> json list \<Rightarrow> ('s, unit) prog" where
  "writeReadme h finishedAt scenarios =
    (let path = hn_outDir h @ ''/README.md'' in
     then_do (do_live (hn_write h path (text_lines (readme_lines h finishedAt scenarios)))) (\<lambda>_.
     do_read (\<lambda>s. ((), hn_artifact h path s))))"

text \<open>\<open>.catch(() => undefined)\<close>.\<close>

definition ignoring :: "('s, 'a) prog \<Rightarrow> ('s, unit) prog" where
  "ignoring m = on_error (then_do m (\<lambda>_. give ())) (\<lambda>_. give ())"


section \<open>The run\<close>

text \<open>The value of a run is the exit code of the process.\<close>

definition suite_failed :: "('s, 'tx) harness \<Rightarrow> string \<Rightarrow> json list \<Rightarrow> tracked_error \<Rightarrow> ('s, int) prog" where
  "suite_failed h startedAt results e =
     then_do (iso_now h) (\<lambda>failedAt.
     then_do (ignoring (saveJson h ''99-failure.json'' (JObj [(''schemaVersion'', JStr ''cellflow-testnet-live-suite-failure-v1''),
       (''runId'', JStr (hn_runId h)), (''startedAt'', JStr startedAt), (''failedAt'', JStr failedAt), (''error'', JStr (hn_stack h e)),
       (''scenarios'', JArr results)]))) (\<lambda>_.
     then_do (ignoring (writeChecksums h)) (\<lambda>_. give 2)))"

definition suite_finish :: "('s, 'tx) harness \<Rightarrow> SuiteContext \<Rightarrow> string \<Rightarrow> json list \<Rightarrow> ('s, int) prog" where
  "suite_finish h ctx startedAt results =
     then_do (do_live (fetchJson (hn_live h) (service_request (hn_live h) (Some ''POST'') ''/api/v1/project-evidence'') False)) (\<lambda>evidence.
     then_do (saveJson h ''90-project-evidence.json'' (fetched_json evidence)) (\<lambda>_.
     then_do (iso_now h) (\<lambda>finishedAt.
     then_do (saveJson h ''99-summary.json'' (buildSummary h ctx startedAt finishedAt results)) (\<lambda>_.
     then_do (ignoring (do_live (hn_remove h (hn_outDir h @ ''/99-failure.json'')))) (\<lambda>_.
     then_do (writeChecksums h) (\<lambda>_.
     then_do (writeReadme h finishedAt results) (\<lambda>_.
     give (if list_all scenario_passed results then 0 else 2))))))))"

definition suite_main :: "('s, 'tx) harness \<Rightarrow> string \<Rightarrow> ('s, int) prog" where
  "suite_main h startedAt = (\<lambda>s. case suite_start h s of
     None \<Rightarrow> None
   | Some (Inl e, t) \<Rightarrow> suite_failed h startedAt [] e t
   | Some (Inr ctx, t) \<Rightarrow> (case run_scenarios [] (suite_scenarios h ctx) t of
       None \<Rightarrow> None
     | Some ((results, Some e), u) \<Rightarrow> suite_failed h startedAt results e u
     | Some ((results, None), u) \<Rightarrow> on_error (suite_finish h ctx startedAt results) (suite_failed h startedAt results) u))"

definition live_suite :: "('s, 'tx) harness \<Rightarrow> ('s, int) prog" where
  "live_suite h =
     then_do (iso_now h) (\<lambda>startedAt.
     then_do (do_live (hn_mkdir h (hn_outDir h))) (\<lambda>_.
     suite_main h startedAt))"

end
