(* ===== verification/LiveRelations.thy ===== *)
theory LiveRelations
  imports LiveRpc ClientProperties
begin

text \<open>
  What the network layer of the evidence harness keeps: any relation of the world that its two kinds
  of request and its sleep keep is kept by its retries, its failover, its observations and its
  polling loops. The clock is such a relation, so that every poll ends.
\<close>

section \<open>The interface to the network\<close>

lemma keeps_raise: "keeps R m \<Longrightarrow> keeps R (raise_as f m)"
  by (auto simp: keeps_def raise_as_def split: prod.splits) (metis snd_conv)

locale live_relation =
  fixes env :: "'s suite_env" and R :: "'s \<Rightarrow> 's \<Rightarrow> bool"
  assumes reflexive: "R s s"
    and transitive: "R s t \<Longrightarrow> R t u \<Longrightarrow> R s u"
    and service: "R s (snd (ce_fetch (lv_client env) ms rq s))"
    and sleeping: "R s (ce_sleep (lv_client env) ms s)"
    and network: "R s (snd (lv_fetch env ms rq s))"

sublocale live_relation \<subseteq> exchange_relation "lv_client env" R
  by unfold_locales (blast intro: reflexive transitive service sleeping)+

context live_relation
begin

lemma live_sleep_keeps: "keeps R (live_sleep env ms)"
  by (simp add: keeps_def live_sleep_def modifyState_def sleeping)

lemma together_keeps: "keeps R m \<Longrightarrow> keeps R n \<Longrightarrow> keeps R (together m n)"
  by (auto simp: keeps_def together_def split: prod.splits) (metis snd_conv transitive)

lemma once_keeps: "keeps R (rpcOnce env url m params)"
proof -
  have "keeps R (\<lambda>s. case lv_fetch env ms rq s of (x, t) \<Rightarrow> (f x, t))" for ms rq and f :: "HttpExchange \<Rightarrow> js_error + json option"
    by (simp add: keeps_def split_beta network)
  then show ?thesis unfolding rpcOnce_def by (intro parts)
qed

lemma then_wait: "keeps R m \<Longrightarrow> R s (snd (andThen (live_sleep env ms) (\<lambda>_. m) t))" if "R s t"
  using that keeps_andThen [OF live_sleep_keeps, of "\<lambda>_. m" ms] unfolding keeps_def by (blast intro: transitive)

lemma retries_keep: "keeps R (rpc_rounds env url m params number k)"
proof (induction k arbitrary: number)
  case (Suc k)
  show ?case
    unfolding keeps_def
  proof
    fix s
    obtain r t where o': "rpcOnce env url m params s = (r, t)" by fastforce
    have "R s t" by (rule keepsD [OF once_keeps o'])
    then show "R s (snd (rpc_rounds env url m params number (Suc k) s))"
      using o' then_wait [OF _ Suc.IH] by (cases r) auto
  qed
qed (simp add: keeps_pure)

lemma rpc_keeps: "keeps R (rpc env url m params)"
  unfolding rpc_def by (rule retries_keep)

lemma over_keeps: "keeps R (rpc_over env m params failures urls)"
proof (induction urls arbitrary: failures)
  case (Cons url urls)
  show ?case
    unfolding keeps_def
  proof
    fix s
    obtain r t where o': "rpc env url m params s = (r, t)" by fastforce
    have "R s t" by (rule keepsD [OF rpc_keeps o'])
    then show "R s (snd (rpc_over env m params failures (url # urls) s))"
      using Cons.IH o' by (cases r) (auto simp: keeps_def intro: transitive)
  qed
qed (simp add: keeps_pure)

lemma failover_keeps: "keeps R (rpcWithFailover env m params)"
  using over_keeps [of m params "[]"] by (simp add: keeps_def rpcWithFailover_def)

lemma fetches_keep: "keeps R (fetch_rounds env rq allow number k)"
proof (induction k arbitrary: number)
  case (Suc k)
  show ?case
    unfolding keeps_def
  proof
    fix s
    obtain x t where o': "lv_fetch env (st_httpTimeoutMs (lv_settings env)) rq s = (x, t)" by fastforce
    have "R s t" using network [of s "st_httpTimeoutMs (lv_settings env)" rq] o' by simp
    then show "R s (snd (fetch_rounds env rq allow number (Suc k) s))"
      using o' then_wait [OF _ Suc.IH] by (auto split: sum.splits)
  qed
qed (simp add: keeps_pure)

lemma json_keeps: "keeps R (fetchJson env rq allow)" "keeps R (persistIntentEvidence env i)"
  unfolding fetchJson_def persistIntentEvidence_def by (rule fetches_keep)+

lemma observe_keeps: "observe_all env hash urls s = (items, t) \<Longrightarrow> R s t"
proof (induction urls arbitrary: s items)
  case (Cons url urls)
  obtain r u where r: "together (rpc env url ''get_transaction'' [JStr hash]) (rpc env url ''get_tip_header'' []) s = (r, u)"
    by fastforce
  have "R s u" by (rule keepsD [OF together_keeps r]) (rule rpc_keeps)+
  with Cons r show ?case by (auto split: prod.splits intro: transitive)
qed (simp add: reflexive)

lemma identities_keep: "verify_identities env g urls s = (items, t) \<Longrightarrow> R s t"
proof (induction urls arbitrary: s g items)
  case (Cons url urls)
  obtain r u where r: "together (rpc env url ''get_blockchain_info'' []) (together (rpc env url ''get_block_hash'' [JStr ''0x0''])
      (rpc env url ''get_tip_header'' [])) s = (r, u)"
    by fastforce
  have "R s u" by (rule keepsD [OF together_keeps [OF rpc_keeps together_keeps [OF rpc_keeps rpc_keeps]] r])
  with Cons r show ?case by (auto simp: Let_def split: prod.splits intro: transitive)
qed (simp add: reflexive)

text \<open>The polling loops.\<close>

lemma commit_keeps:
  assumes "commit_loop env hash deadline s = Some y"
  shows "R s (snd y)"
proof -
  have "env = env \<longrightarrow> R s (snd y)"
  proof (rule commit_loop.raw_induct [where P = "\<lambda>e hash deadline s y. e = env \<longrightarrow> R s (snd y)"], intro impI)
    fix loop e hash deadline s y
    assume IH: "\<And>e hash deadline s y. loop e hash deadline s = Some y \<Longrightarrow> e = env \<longrightarrow> R s (snd y)"
      and run: "(if live_now e s < deadline
       then case rpcWithFailover e ''get_transaction'' [JStr hash] s of
          (Inl x, t) \<Rightarrow> Some (Inl x, t)
        | (Inr observation, t) \<Rightarrow>
            if observed_status observation = Some (JStr ''committed'') then
              Some (Inr \<lparr>co_blockHash = observed_block observation, co_observation = observation\<rparr>, t)
            else if observed_status observation = Some (JStr ''rejected'') then
              Some (Inl (plain_failure (''Transaction '' @ hash @ '' was rejected while waiting for commit'')), t)
            else loop e hash deadline (ce_sleep (lv_client e) (st_pollMs (lv_settings e)) t)
       else Some (Inl (plain_failure (''Timed out waiting for transaction '' @ hash @ '' to commit'')), s)) = Some y"
      and e: "e = env"
    obtain x u where f: "rpcWithFailover e ''get_transaction'' [JStr hash] s = (x, u)" by fastforce
    have u: "R s u" using keepsD [OF failover_keeps f [unfolded e]] .
    have l: "R s (snd y)" if "loop e hash deadline (ce_sleep (lv_client e) (st_pollMs (lv_settings e)) u) = Some y"
      using IH [OF that] e u by (blast intro: transitive sleeping)
    show "R s (snd y)"
      using run u l reflexive unfolding f by (cases x) (auto split: if_splits)
  qed (rule assms)
  then show ?thesis by simp
qed

lemma poll_keeps: "client_get (lv_client env) i False (snd (client_reconcile (lv_client env) i s)) = (x, t) \<Longrightarrow> R s t"
proof -
  assume f: "client_get (lv_client env) i False (snd (client_reconcile (lv_client env) i s)) = (x, t)"
  have "keeps R (client_reconcile (lv_client env) i)"
    unfolding client_reconcile_def intent_present_def by (auto intro!: parts request_keeps get_keeps split: option.split)
  then have "R s (snd (client_reconcile (lv_client env) i s))" by (simp add: keeps_def)
  then show "R s t" using keepsD [OF get_keeps f] by (rule transitive)
qed

lemma reconcile_keeps:
  assumes "reconcile_loop env i P deadline current s = Some y"
  shows "R s (snd y)"
proof -
  have "env = env \<longrightarrow> R s (snd y)"
  proof (rule reconcile_loop.raw_induct [where P = "\<lambda>e i P deadline current s y. e = env \<longrightarrow> R s (snd y)"], intro impI)
    fix loop e i P deadline current s y
    assume IH: "\<And>e i P deadline current s y. loop e i P deadline current s = Some y \<Longrightarrow> e = env \<longrightarrow> R s (snd y)"
      and run: "(if live_now e s < deadline
       then case client_get (lv_client e) i False (snd (client_reconcile (lv_client e) i s)) of
          (Inl x, t) \<Rightarrow> Some (Inl x, t)
        | (Inr view, t) \<Rightarrow>
            if (case view of Some v \<Rightarrow> json_truthy v \<and> P v | None \<Rightarrow> False) then Some (Inr view, t)
            else loop e i P deadline view (ce_sleep (lv_client e) (st_pollMs (lv_settings e)) t)
       else Some (Inr current, s)) = Some y"
      and e: "e = env"
    obtain x u where f: "client_get (lv_client e) i False (snd (client_reconcile (lv_client e) i s)) = (x, u)" by fastforce
    have u: "R s u" using poll_keeps f e by blast
    have l: "R s (snd y)"
      if "loop e i P deadline view (ce_sleep (lv_client e) (st_pollMs (lv_settings e)) u) = Some y" for view
      using IH [OF that] e u by (blast intro: transitive sleeping)
    show "R s (snd y)"
      using run u l reflexive unfolding f by (cases x) (auto split: if_splits)
  qed (rule assms)
  then show ?thesis by simp
qed

end


section \<open>Every poll ends\<close>

text \<open>Time does not run backwards, and a sleep lasts.\<close>

definition live_clock :: "'s suite_env \<Rightarrow> bool" where
  "live_clock env \<longleftrightarrow> (\<forall>ms rq s. live_now env s \<le> live_now env (snd (ce_fetch (lv_client env) ms rq s)))
     \<and> (\<forall>ms rq s. live_now env s \<le> live_now env (snd (lv_fetch env ms rq s)))
     \<and> (\<forall>ms s. live_now env s + max 0 ms \<le> live_now env (ce_sleep (lv_client env) ms s))"

lemma sleep_lasts: "live_clock env \<Longrightarrow> live_now env s + max 0 ms \<le> live_now env (ce_sleep (lv_client env) ms s)"
  by (simp add: live_clock_def)

interpretation timed: live_relation env "\<lambda>s t. live_clock env \<longrightarrow> live_now env s \<le> live_now env t" for env
proof
  show "live_clock env \<longrightarrow> live_now env s \<le> live_now env (ce_sleep (lv_client env) ms s)" for ms s
    using sleep_lasts [of env s ms] by auto
qed (auto simp: live_clock_def)

lemma commit_returns:
  assumes clock: "live_clock env" and poll: "0 < st_pollMs (lv_settings env)"
  shows "commit_loop env hash deadline s \<noteq> None"
proof (induction "nat (deadline - live_now env s)" arbitrary: s rule: less_induct)
  case less
  obtain x t where f: "rpcWithFailover env ''get_transaction'' [JStr hash] s = (x, t)" by fastforce
  have "live_now env s \<le> live_now env t" using keepsD [OF timed.failover_keeps f] clock by blast
  then have "live_now env s < live_now env (ce_sleep (lv_client env) (st_pollMs (lv_settings env)) t)"
    using sleep_lasts [OF clock, of t "st_pollMs (lv_settings env)"] poll by simp
  then have "live_now env s < deadline \<Longrightarrow> commit_loop env hash deadline (ce_sleep (lv_client env) (st_pollMs (lv_settings env)) t) \<noteq> None"
    using less.hyps by simp
  then show ?case by (subst commit_loop.simps) (auto simp: f split: sum.split)
qed

lemma reconcile_returns:
  assumes clock: "live_clock env" and poll: "0 < st_pollMs (lv_settings env)"
  shows "reconcile_loop env i P deadline current s \<noteq> None"
proof (induction "nat (deadline - live_now env s)" arbitrary: s current rule: less_induct)
  case less
  obtain x t where f: "client_get (lv_client env) i False (snd (client_reconcile (lv_client env) i s)) = (x, t)" by fastforce
  have "live_now env s \<le> live_now env t" using timed.poll_keeps [OF f] clock by blast
  then have "live_now env s < live_now env (ce_sleep (lv_client env) (st_pollMs (lv_settings env)) t)"
    using sleep_lasts [OF clock, of t "st_pollMs (lv_settings env)"] poll by simp
  then have "live_now env s < deadline \<Longrightarrow> reconcile_loop env i P deadline view (ce_sleep (lv_client env) (st_pollMs (lv_settings env)) t) \<noteq> None" for view
    using less.hyps by simp
  then show ?case by (subst reconcile_loop.simps) (auto simp: f split: sum.split)
qed

end
