(* ===== verification/LiveReturns.thy ===== *)
theory LiveReturns
  imports LiveSuite LiveRelations
begin

text \<open>
  Every run of the evidence suite ends with an exit code: its polls end because sleeping takes time,
  its retries are counted, and an exception ends in the branch that records it.
\<close>

section \<open>Programs that return\<close>

definition always_returns :: "('s, 'a) prog \<Rightarrow> bool" where
  "always_returns m \<longleftrightarrow> (\<forall>s. m s \<noteq> None)"

lemma returnsD: "always_returns m \<Longrightarrow> \<exists>r t. m s = Some (r, t)"
  by (auto simp: always_returns_def)

lemma returns_then: "always_returns m \<Longrightarrow> (\<And>x. always_returns (f x)) \<Longrightarrow> always_returns (then_do m f)"
  by (auto simp: always_returns_def then_do_def split: option.splits prod.splits sum.splits)

lemma returns_error: "always_returns m \<Longrightarrow> (\<And>e. always_returns (f e)) \<Longrightarrow> always_returns (on_error m f)"
  by (auto simp: always_returns_def on_error_def split: option.splits prod.splits sum.splits)

lemma returns_basic: "always_returns (do_tracked m)" "always_returns (do_live l)" "always_returns (do_call c)" "always_returns (do_read f)" "always_returns (give x)"
    "always_returns (fail_with message)" "always_returns (check_that b message)" "always_returns (iso_now h)" "always_returns (pause h ms)" "always_returns (track h w o')"
    "always_returns (tracked_send h w i p)" "always_returns (gather_evidence h i)" "always_returns (gather_observations h hash)" "always_returns (commit_witness os hash)"
  by (auto simp: always_returns_def do_tracked_def do_live_def do_call_def do_read_def give_def fail_with_def check_that_def iso_now_def pause_def track_def
      tracked_send_def gather_evidence_def gather_observations_def commit_witness_def split: prod.splits)

lemma returns_cases:
  "always_returns a \<Longrightarrow> (\<And>x. always_returns (f x)) \<Longrightarrow> always_returns (case v of None \<Rightarrow> a | Some x \<Rightarrow> f x)"
  "(\<And>x y. always_returns (g x y)) \<Longrightarrow> always_returns (case p of (x, y) \<Rightarrow> g x y)"
  "always_returns a \<Longrightarrow> always_returns b \<Longrightarrow> always_returns (if c then a else b)"
  "always_returns a \<Longrightarrow> always_returns b \<Longrightarrow> always_returns (case u of AMBIGUOUS \<Rightarrow> a | NODE_REJECTED \<Rightarrow> b)"
  by (auto split: option.split prod.split Outcome.split)

text \<open>What a run needs: pauses last, and the pause between two polls is not empty.\<close>

definition ends_laws :: "('s, 'tx) harness \<Rightarrow> bool" where
  "ends_laws h \<longleftrightarrow> live_clock (hn_live h) \<and> 0 < st_pollMs (hn_settings h)"

lemma returns_await: "ends_laws h \<Longrightarrow> always_returns (await_commit h hash)"
  using commit_returns [of "hn_live h"]
  by (auto simp: always_returns_def ends_laws_def hn_settings_def await_commit_def do_loop_def waitForCommitted_def split: option.splits)

lemma returns_until: "ends_laws h \<Longrightarrow> always_returns (until_view h i P ms)"
  using reconcile_returns [of "hn_live h"]
  by (auto simp: always_returns_def ends_laws_def hn_settings_def until_view_def do_loop_def reconcileUntil_def split: option.splits)


section \<open>The scenarios\<close>

lemma returns_save: "always_returns (saveJson h name v)"
  unfolding saveJson_def Let_def by (intro returns_then returns_basic)

lemma returns_manual: "always_returns (prepareManual h w tx i metadata cells apps refs)"
  unfolding prepareManual_def by (intro returns_then returns_basic)

lemma returns_submit: "always_returns (submitPreparedManually h w i prepared)"
  unfolding submitPreparedManually_def by (intro returns_then returns_basic returns_cases)

lemma returns_shared: "ends_laws h \<Longrightarrow> always_returns (createSharedStateCell h w lock data)"
  unfolding createSharedStateCell_def by (intro returns_then returns_basic returns_await)

lemmas returns_parts = returns_then returns_basic returns_cases returns_save returns_manual returns_submit returns_shared returns_await returns_until

lemma returns_race: "ends_laws h \<Longrightarrow> always_returns (runSameFeeApplicationRace h lock deps)"
  unfolding runSameFeeApplicationRace_def Let_def by (intro returns_parts)

lemma returns_settle: "ends_laws h \<Longrightarrow> always_returns (rbf_settle h i hash won)"
  unfolding rbf_settle_def by (intro returns_parts)

lemma returns_rbf: "ends_laws h \<Longrightarrow> always_returns (runHigherFeeRbf h lock deps)"
  unfolding runHigherFeeRbf_def Let_def by (intro returns_parts returns_settle)

lemma returns_rounds: "ends_laws h \<Longrightarrow> always_returns (seed_rounds h w lock failures number k)"
proof (induction k arbitrary: failures number)
  case (Suc k)
  then show ?case
    unfolding seed_rounds.simps seed_attempt_def seed_template_def Let_def by (intro returns_parts returns_error)
qed (simp add: returns_basic)

lemma returns_wallet: "ends_laws h \<Longrightarrow> always_returns (runWalletInputRace h address)"
  unfolding runWalletInputRace_def createWalletSeedCellWithRetry_def Let_def by (intro returns_parts returns_rounds)

lemma returns_recovery: "ends_laws h \<Longrightarrow> always_returns (runAmbiguousRecovery h address)"
  unfolding runAmbiguousRecovery_def lose_response_def recover_def Let_def by (intro returns_parts)

lemma returns_resume: "always_returns m \<Longrightarrow> always_returns (runOrResumeScenario h file name m)"
  unfolding runOrResumeScenario_def Let_def by (intro returns_parts)


section \<open>The suite\<close>

lemma returns_list: "list_all always_returns ms \<Longrightarrow> run_scenarios results ms s \<noteq> None"
proof (induction ms arbitrary: results s)
  case (Cons m ms)
  then obtain r t where "m s = Some (r, t)" using returnsD by fastforce
  with Cons show ?case by (auto split: sum.split)
qed simp

lemma returns_start: "always_returns (suite_start h)"
  unfolding suite_start_def suite_wallets_def suite_gate_def suite_balances_def Let_def by (intro returns_parts)

lemma returns_sums: "always_returns (writeChecksums h)"
  unfolding writeChecksums_def by (intro returns_parts)

lemma returns_failed: "always_returns (suite_failed h started results e)"
  unfolding suite_failed_def ignoring_def by (intro returns_parts returns_sums returns_error)

lemma returns_finish: "always_returns (suite_finish h ctx started results)"
  unfolding suite_finish_def ignoring_def writeReadme_def Let_def by (intro returns_parts returns_sums returns_error)

lemma returns_main:
  assumes "ends_laws h" shows "always_returns (suite_main h started)"
proof (unfold always_returns_def, intro allI)
  fix s
  obtain x u where x: "suite_start h s = Some (x, u)" using returnsD [OF returns_start [of h], of s] by blast
  have failed: "suite_failed h started results e v \<noteq> None" for results e v
    using returns_failed [of h started results e] by (simp add: always_returns_def)
  have ended: "on_error (suite_finish h ctx started results) (suite_failed h started results) v \<noteq> None" for ctx results v
    using returns_error [OF returns_finish [of h ctx started results] returns_failed [of h started results]] by (simp add: always_returns_def)
  have "list_all always_returns (suite_scenarios h ctx)" for ctx
    by (simp add: suite_scenarios_def returns_resume returns_race returns_rbf returns_wallet returns_recovery assms)
  then have scenarios: "run_scenarios [] (suite_scenarios h ctx) u \<noteq> None" for ctx by (rule returns_list)
  show "suite_main h started s \<noteq> None"
  proof (cases x)
    case (Inl e)
    with x failed show ?thesis by (simp add: suite_main_def)
  next
    case (Inr ctx)
    obtain results e v where v: "run_scenarios [] (suite_scenarios h ctx) u = Some ((results, e), v)" using scenarios [of ctx] by fastforce
    then show ?thesis using x Inr failed ended by (cases e) (simp_all add: suite_main_def)
  qed
qed

lemma returns_suite:
  assumes "ends_laws h" shows "always_returns (live_suite h)"
  unfolding live_suite_def by (intro returns_parts returns_main assms)


section \<open>The exit code\<close>

lemma exit_codes:
  "suite_failed h started results e s = Some (Inr c, t) \<Longrightarrow> c = 2"
  "suite_finish h ctx started results s = Some (Inr c, t) \<Longrightarrow> c = (if list_all scenario_passed results then 0 else 2)"
  by (auto simp: suite_failed_def suite_finish_def then_do_def give_def do_tracked_def split: option.splits sum.splits prod.splits)

lemma listed: "run_scenarios results ms s = Some ((rs, None), t) \<Longrightarrow> length rs = length results + length ms"
proof (induction ms arbitrary: results s)
  case (Cons m ms)
  then obtain v u where "run_scenarios (results @ [v]) ms u = Some ((rs, None), t)"
    by (auto split: option.splits sum.splits)
  from Cons.IH [OF this] show ?case by simp
qed simp

text \<open>A run with exit code 0 has a result of each scenario, and each of them passed.\<close>

definition all_passed :: "('s, 'tx) harness \<Rightarrow> bool" where
  "all_passed h \<longleftrightarrow> (\<exists>ctx s t results u. suite_start h s = Some (Inr ctx, t)
     \<and> run_scenarios [] (suite_scenarios h ctx) t = Some ((results, None), u) \<and> length results = 4 \<and> list_all scenario_passed results)"

lemma zero_means_passed:
  assumes "suite_main h started s = Some (Inr c, t)"
  shows "c = 2 \<or> c = 0 \<and> all_passed h"
proof -
  obtain x u where x: "suite_start h s = Some (x, u)" using assms by (auto simp: suite_main_def split: option.splits)
  show ?thesis
  proof (cases x)
    case (Inl e)
    with assms x show ?thesis by (auto simp: suite_main_def dest: exit_codes)
  next
    case (Inr ctx)
    with assms x obtain results e v where v: "run_scenarios [] (suite_scenarios h ctx) u = Some ((results, e), v)"
      and rest: "case e of Some e \<Rightarrow> suite_failed h started results e v = Some (Inr c, t)
        | None \<Rightarrow> on_error (suite_finish h ctx started results) (suite_failed h started results) v = Some (Inr c, t)"
      by (auto simp: suite_main_def split: option.splits)
    show ?thesis
    proof (cases "e = None \<and> list_all scenario_passed results \<and> c = 0")
      case True
      with v listed [of "[]" "suite_scenarios h ctx" u results v] have "length results = 4" by (simp add: suite_scenarios_def)
      with x Inr v True show ?thesis unfolding all_passed_def by blast
    next
      case False
      with rest show ?thesis
        by (auto simp: on_error_def split: option.splits sum.splits prod.splits if_splits dest: exit_codes)
    qed
  qed
qed

text \<open>A harness whose network is down, with two published keys, and a log of what its wallets send.\<close>

type_synonym demo = "int \<times> nat list"

definition demo_settings :: SuiteSettings where
  "demo_settings = \<lparr>st_strictWallets = False, st_endpoint = ''https://cellflow.test'', st_apiKey = ''cf_demo'', st_privateKeyA = DEFAULT_TESTNET_PRIVATE_KEY_A,
     st_privateKeyB = DEFAULT_TESTNET_PRIVATE_KEY_B, st_rpcUrls = [''https://a.test'', ''https://b.test''], st_timeoutMs = 1000, st_pollMs = 100,
     st_rpcAttempts = 2, st_rpcRetryDelayMs = 10, st_propagationDelayMs = 10, st_contentionGraceMs = 10, st_sameFeeRate = 2000,
     st_lowFeeRate = 1000, st_highFeeRate = 5000, st_stateCapacityCkb = ''200'', st_walletSeedCapacityCkb = ''200'',
     st_ambiguousCapacityCkb = ''200'', st_minBalanceCkb = ''1000'', st_strictRbf = True, st_resume = True, st_walletSetupAttempts = 3,
     st_walletSetupRetryDelayMs = 10, st_httpAttempts = 2, st_httpRetryDelayMs = 10, st_httpTimeoutMs = 1000\<rparr>"

definition demo_env :: "demo suite_env" where
  "demo_env = \<lparr>lv_settings = demo_settings, lv_process = \<lparr>pe_env = (\<lambda>_. None), pe_number = (\<lambda>_. None), pe_hmac = (\<lambda>k v. v)\<rparr>,
     lv_client = \<lparr>ce_options = ce_options failing_env, ce_fetch = (\<lambda>ms rq s. (FetchFailed (JsError ''TypeError'' ''fetch failed'' [] None), s)),
       ce_sleep = (\<lambda>ms (now', xs). (now' + max 0 ms, xs)), ce_now = fst, ce_aborted = (\<lambda>_. None)\<rparr>,
     lv_fetch = (\<lambda>ms rq s. (NoResponse (JsError ''TypeError'' ''fetch failed'' [] None), s)),
     lv_parse = (\<lambda>_. Inl (JsError ''SyntaxError'' ''Unexpected token'' [] None))\<rparr>"

definition demo_harness :: "(demo, nat) harness" where
  "demo_harness = \<lparr>hn_live = demo_env, hn_ccc = \<lparr>
     cc_wallet = (\<lambda>w. \<lparr>wl_inputs = (\<lambda>_. []), wl_hash = (\<lambda>_. []), wl_value = (\<lambda>n. JNum (int n)), wl_sign = (\<lambda>n s. (Inr n, s)),
       wl_send = (\<lambda>n (now', xs). (Inr ''0x1'', (now', xs @ [n]))), wl_sha256 = id\<rparr>),
     cc_connect = (\<lambda>w. ret ()), cc_address = (\<lambda>w. ret ''ckt1qz''), cc_balance = (\<lambda>w. ret 5000),
     cc_signAndSend = (\<lambda>w n (now', xs). (Inr ''0x1'', (now', xs @ [n]))), cc_from = (\<lambda>_. Inr 7), cc_completeInputs = (\<lambda>w n. ret n),
     cc_completeFee = (\<lambda>w rate n. ret n), cc_completeFeeChange = (\<lambda>w i rate n. ret n), cc_addCellDeps = (\<lambda>w deps n. ret n),
     cc_fixedPoint = (\<lambda>_. Inr 1000), cc_pointText = int_string, cc_addressLock = (\<lambda>_. ret \<lparr>lo_codeHash = ''0x0'', lo_hashType = ''type'', lo_args = ''0x''\<rparr>),
     cc_alwaysSuccess = ret \<lparr>lo_codeHash = ''0x0'', lo_hashType = ''type'', lo_args = ''0x''\<rparr>, cc_knownCellDeps = ret None, cc_fullHash = (\<lambda>_. None)\<rparr>,
     hn_runId = ''run'', hn_outDir = ''out'', hn_write = (\<lambda>p c. ret ()), hn_read = (\<lambda>p. throw (JsError ''Error'' ''ENOENT'' [] None)),
     hn_remove = (\<lambda>p. ret ()), hn_mkdir = (\<lambda>p. ret ()), hn_artifact = (\<lambda>p s. s), hn_artifacts = (\<lambda>s. []), hn_worker = (\<lambda>i p. ret (JNum 1)),
     hn_newURL = (\<lambda>_. None), hn_sha256Hex = id, hn_stack = suite_error_text\<rparr>"

lemma demo_ends: "ends_laws demo_harness"
  by (simp add: ends_laws_def live_clock_def live_now_def demo_harness_def demo_env_def demo_settings_def hn_settings_def split_beta)

lemma suite_codes:
  assumes "live_suite h s = Some (r, t)"
  shows "case r of Inl e \<Rightarrow> True | Inr c \<Rightarrow> c = 2 \<or> c = 0 \<and> all_passed h"
  using assms zero_means_passed unfolding live_suite_def then_do_def by (fastforce split: option.splits sum.splits)

text \<open>
  Property C10: a run of the evidence suite always ends, however the network, the wallets and the files
  behave, as long as pauses last and time does not run backwards; and when it ends with an exit code,
  that is 0 or 2, and 0 only if the checks at the start passed and then each of the four scenarios
  ended with a result that passed.
\<close>

theorem suite_ends:
  assumes "ends_laws h"
  shows "\<exists>r t. live_suite h s = Some (r, t) \<and> (\<forall>c. r = Inr c \<longrightarrow> c = 2 \<or> c = 0 \<and> all_passed h)"
  using returnsD [OF returns_suite [OF assms], of s] suite_codes [of h s] by fastforce

theorem suite_ends_witness: "\<exists>r t. live_suite demo_harness (0, []) = Some (r, t) \<and> (\<forall>c. r = Inr c \<longrightarrow> c = 2 \<or> c = 0 \<and> all_passed demo_harness)"
  by (rule suite_ends [OF demo_ends])

end
