(* ===== verification/LiveProperties.thy ===== *)
theory LiveProperties
  imports LiveReturns
begin

text \<open>
  What the evidence harness may do with the funds of its wallets: it sends nothing before all of
  its checks passed, and then a bounded number of transactions; a replacement follows the original
  and is recorded first; and every run ends.
\<close>

section \<open>The relation of a program\<close>

text \<open>Every run of the program that returns is within the relation.\<close>

definition runs_in :: "('s \<Rightarrow> 's \<Rightarrow> bool) \<Rightarrow> ('s, 'a) prog \<Rightarrow> bool" where
  "runs_in R m \<longleftrightarrow> (\<forall>s r t. m s = Some (r, t) \<longrightarrow> R s t)"

lemma runs_inD: "runs_in R m \<Longrightarrow> m s = Some (r, t) \<Longrightarrow> R s t"
  by (simp add: runs_in_def)

lemma then_doE:
  assumes "then_do m f s = Some (r, t)"
  obtains (threw) e where "m s = Some (Inl e, t)" "r = Inl e"
    | (went) x u where "m s = Some (Inr x, u)" "f x u = Some (r, t)"
  using assms by (auto simp: then_do_def split: option.splits prod.splits sum.splits)

lemma on_errorE:
  assumes "on_error m f s = Some (r, t)"
  obtains (fine) x where "m s = Some (Inr x, t)" "r = Inr x"
    | (threw) e u where "m s = Some (Inl e, u)" "f e u = Some (r, t)"
  using assms by (auto simp: on_error_def split: option.splits prod.splits sum.splits)

text \<open>The operations of the harness that send no transaction.\<close>

inductive quiet_step :: "('s, 'tx) harness \<Rightarrow> 's \<Rightarrow> 's \<Rightarrow> bool" for h where
  service: "quiet_step h s (snd (ce_fetch (hn_flow h) ms rq s))"
| sleeping: "quiet_step h s (ce_sleep (hn_flow h) ms s)"
| network: "quiet_step h s (snd (lv_fetch (hn_live h) ms rq s))"
| writing: "quiet_step h s (snd (hn_write h path contents s))"
| reading: "quiet_step h s (snd (hn_read h path s))"
| removing: "quiet_step h s (snd (hn_remove h path s))"
| making: "quiet_step h s (snd (hn_mkdir h path s))"
| noting: "quiet_step h s (hn_artifact h path s)"
| working: "quiet_step h s (snd (hn_worker h intentId output s))"
| connecting: "quiet_step h s (snd (cc_connect (hn_ccc h) w s))"
| addressing: "quiet_step h s (snd (cc_address (hn_ccc h) w s))"
| weighing: "quiet_step h s (snd (cc_balance (hn_ccc h) w s))"
| collecting: "quiet_step h s (snd (cc_completeInputs (hn_ccc h) w tx s))"
| paying: "quiet_step h s (snd (cc_completeFee (hn_ccc h) w rate tx s))"
| changing: "quiet_step h s (snd (cc_completeFeeChange (hn_ccc h) w i rate tx s))"
| depending: "quiet_step h s (snd (cc_addCellDeps (hn_ccc h) w deps tx s))"
| locking: "quiet_step h s (snd (cc_addressLock (hn_ccc h) address s))"
| succeeding: "quiet_step h s (snd (cc_alwaysSuccess (hn_ccc h) s))"
| knowing: "quiet_step h s (snd (cc_knownCellDeps (hn_ccc h) s))"
| signing: "quiet_step h s (snd (wl_sign (hn_wallet h w) tx s))"

text \<open>
  The transactions sent are a log of the world that only the two ways of sending extend: sending a
  signed transaction by exactly it, signing and sending by at most one.
\<close>

definition send_laws :: "('s, 'tx) harness \<Rightarrow> ('s \<Rightarrow> 'tx list) \<Rightarrow> bool" where
  "send_laws h sent \<longleftrightarrow> (\<forall>s t. quiet_step h s t \<longrightarrow> sent t = sent s)
     \<and> (\<forall>w tx s. sent (snd (wl_send (hn_wallet h w) tx s)) = sent s @ [tx])
     \<and> (\<forall>w tx s. \<exists>xs. length xs \<le> 1 \<and> sent (snd (cc_signAndSend (hn_ccc h) w tx s)) = sent s @ xs)"

definition sends :: "('s \<Rightarrow> 'tx list) \<Rightarrow> nat \<Rightarrow> 's \<Rightarrow> 's \<Rightarrow> bool" where
  "sends sent k s t \<longleftrightarrow> (\<exists>xs. length xs \<le> k \<and> sent t = sent s @ xs)"

lemma sends_0 [simp]: "sends sent 0 s t \<longleftrightarrow> sent t = sent s"
  by (auto simp: sends_def)

lemma sends_trans: "sends sent j s t \<Longrightarrow> sends sent k t u \<Longrightarrow> sends sent (j + k) s u"
  unfolding sends_def by (metis add_mono append.assoc length_append)

lemma sends_mono: "sends sent j s t \<Longrightarrow> j \<le> k \<Longrightarrow> sends sent k s t"
  unfolding sends_def using le_trans by blast

text \<open>A program that sends at most \<open>k\<close> transactions, when it returns.\<close>

abbreviation sending :: "('s \<Rightarrow> 'tx list) \<Rightarrow> nat \<Rightarrow> ('s, 'a) prog \<Rightarrow> bool" where
  "sending sent k \<equiv> runs_in (sends sent k)"

lemma sending_then: "sending sent j m \<Longrightarrow> (\<And>x. sending sent k (f x)) \<Longrightarrow> sending sent (j + k) (then_do m f)"
  by (auto simp: runs_in_def elim!: then_doE intro: sends_mono [OF _ le_add1]) (meson sends_trans)

lemma sending_error: "sending sent j m \<Longrightarrow> (\<And>e. sending sent k (f e)) \<Longrightarrow> sending sent (j + k) (on_error m f)"
  by (auto simp: runs_in_def elim!: on_errorE intro: sends_mono [OF _ le_add1]) (meson sends_trans)

lemma sending_mono: "sending sent j m \<Longrightarrow> j \<le> k \<Longrightarrow> sending sent k m"
  unfolding runs_in_def by (blast intro: sends_mono)

text \<open>Quiet parts in front of a program, and behind it.\<close>

lemma quiet_then: "sending sent 0 m \<Longrightarrow> (\<And>x. sending sent k (f x)) \<Longrightarrow> sending sent k (then_do m f)"
  using sending_then [of sent 0 m k f] by simp

lemma then_quiet: "sending sent k m \<Longrightarrow> (\<And>x. sending sent 0 (f x)) \<Longrightarrow> sending sent k (then_do m f)"
  using sending_then [of sent k m 0 f] by simp

lemma one_then: "sending sent 1 m \<Longrightarrow> (\<And>x. sending sent k (f x)) \<Longrightarrow> sending sent (Suc k) (then_do m f)"
  using sending_then [of sent 1 m k f] by simp


section \<open>The quiet parts\<close>

abbreviation hush :: "('s, 'tx) harness \<Rightarrow> ('s \<Rightarrow> 'tx list) \<Rightarrow> ('s, 'e, 'a) action \<Rightarrow> bool" where
  "hush h sent \<equiv> keeps (\<lambda>s t. send_laws h sent \<longrightarrow> sent t = sent s)"

lemma quiet_sent: "send_laws h sent \<Longrightarrow> quiet_step h s t \<Longrightarrow> sent t = sent s"
  by (simp add: send_laws_def)

interpretation hushed: exchange_relation "hn_flow h" "\<lambda>s t. send_laws h sent \<longrightarrow> sent t = sent s" for h sent
  by unfold_locales (auto dest: quiet_sent intro: quiet_step.intros)

lemma hush_steps:
  "hush h sent (hn_write h path contents)" "hush h sent (hn_read h path)" "hush h sent (hn_remove h path)" "hush h sent (hn_mkdir h path)"
  "hush h sent (hn_worker h intentId output)" "hush h sent (cc_connect (hn_ccc h) w)" "hush h sent (cc_address (hn_ccc h) w)"
  "hush h sent (cc_balance (hn_ccc h) w)" "hush h sent (cc_completeInputs (hn_ccc h) w tx)" "hush h sent (cc_completeFee (hn_ccc h) w rate tx)"
  "hush h sent (cc_completeFeeChange (hn_ccc h) w i rate tx)" "hush h sent (cc_addCellDeps (hn_ccc h) w deps tx)"
  "hush h sent (cc_addressLock (hn_ccc h) address)" "hush h sent (cc_alwaysSuccess (hn_ccc h))" "hush h sent (cc_knownCellDeps (hn_ccc h))"
  "hush h sent (wl_sign (hn_wallet h w) tx)"
  unfolding keeps_def by (intro allI impI, rule quiet_sent [of h sent], assumption, rule quiet_step.intros)+

text \<open>The network layer keeps the log.\<close>

lemma flow_sleep: "quiet_step h s (ce_sleep (lv_client (hn_live h)) ms s)"
  using sleeping [of h s ms] by (simp add: hn_flow_def)

lemma flow_service: "quiet_step h s (snd (ce_fetch (lv_client (hn_live h)) ms rq s))"
  using service [of h s ms rq] by (simp add: hn_flow_def)

interpretation silent: live_relation "hn_live h" "\<lambda>s t. send_laws h sent \<longrightarrow> sent t = sent s" for h sent
  by unfold_locales (auto dest: quiet_sent [OF _ flow_sleep] quiet_sent [OF _ flow_service] quiet_sent [OF _ network])

lemmas hush_parts = hushed.parts hushed.methods_keep hushed.get_keeps hushed.request_keeps hush_steps keeps_raise
  silent.live_sleep_keeps silent.together_keeps

section \<open>Quiet programs\<close>

lemma quiet_tracked: "send_laws h sent \<Longrightarrow> hush h sent m \<Longrightarrow> sending sent 0 (do_tracked m)"
  by (auto simp: runs_in_def do_tracked_def dest: keepsD)

lemma quiet_live: "send_laws h sent \<Longrightarrow> hush h sent m \<Longrightarrow> sending sent 0 (do_live m)"
  unfolding do_live_def by (rule quiet_tracked [OF _ keeps_raise])

lemma quiet_call: "send_laws h sent \<Longrightarrow> hush h sent m \<Longrightarrow> sending sent 0 (do_call m)"
  unfolding do_call_def by (rule quiet_tracked [OF _ keeps_raise])

lemma quiet_read: "(\<And>s. sent (snd (f s)) = sent s) \<Longrightarrow> sending sent 0 (do_read f)"
  by (auto simp: runs_in_def do_read_def split: prod.splits) (metis snd_conv)

lemma quiet_give: "sending sent 0 (give x)" "sending sent 0 (fail_with message)" "sending sent 0 (check_that b message)"
  by (auto simp: runs_in_def give_def fail_with_def do_live_def do_tracked_def raise_as_def check_that_def)

lemma quiet_await: "send_laws h sent \<Longrightarrow> sending sent 0 (await_commit h hash)"
  by (auto simp: runs_in_def await_commit_def do_loop_def waitForCommitted_def split: option.splits prod.splits) (metis silent.commit_keeps snd_conv)

lemma quiet_until: "send_laws h sent \<Longrightarrow> sending sent 0 (until_view h i P ms)"
  by (auto simp: runs_in_def until_view_def do_loop_def reconcileUntil_def split: option.splits prod.splits) (metis silent.reconcile_keeps snd_conv)

lemma quiet_artifact: "send_laws h sent \<Longrightarrow> sending sent 0 (do_read (\<lambda>s. (x, hn_artifact h path s)))"
  by (rule quiet_read) (simp add: quiet_sent [OF _ noting])

lemma quiet_now: "sending sent 0 (iso_now h)"
  unfolding iso_now_def by (rule quiet_read) simp

lemma quiet_pause: "send_laws h sent \<Longrightarrow> sending sent 0 (pause h ms)"
  unfolding pause_def by (rule quiet_live [OF _ silent.live_sleep_keeps])

lemma quiet_save: "send_laws h sent \<Longrightarrow> sending sent 0 (saveJson h name v)"
  unfolding saveJson_def Let_def by (intro quiet_then quiet_live [OF _ hush_steps(1)] quiet_artifact quiet_give)

lemma quiet_evidence: "send_laws h sent \<Longrightarrow> sending sent 0 (gather_evidence h i)"
  unfolding gather_evidence_def by (rule quiet_live [OF _ silent.json_keeps(2)])

lemma quiet_observations: "send_laws h sent \<Longrightarrow> sending sent 0 (gather_observations h hash)"
  unfolding gather_observations_def observeAcrossRpcs_def by (rule quiet_read) (metis silent.observe_keeps prod.collapse)

lemma quiet_witness: "send_laws h sent \<Longrightarrow> sending sent 0 (commit_witness observations hash)"
  unfolding commit_witness_def by (rule quiet_live [OF _ hushed.keeps_pure(4)])

lemma hush_builds:
  "hush h sent (buildStateTransition h w lock deps state rate marker)" "hush h sent (buildWalletOnlySpend h w lock outPoint rate marker)"
  "hush h sent (build_output h w lock capacity data)"
  unfolding buildStateTransition_def buildWalletOnlySpend_def build_output_def Let_def
  by (auto intro!: hush_parts split: option.split)

lemma hush_describe: "hush h sent (signAndDescribe h w tx applicationInputs explicit)"
  unfolding signAndDescribe_def Let_def by (auto intro!: hush_parts split: option.split)

lemma hush_prepare: "hush h sent (prepareTrackedTransaction (hn_wallet h w) (client_flow (hn_flow h)) o')"
  unfolding prepareTrackedTransaction_def client_flow_def by (auto intro!: hush_parts split: option.split)

lemma quiet_track: "send_laws h sent \<Longrightarrow> sending sent 0 (track h w o')"
  unfolding track_def by (rule quiet_tracked [OF _ hush_prepare])

lemma quiet_manual: "send_laws h sent \<Longrightarrow> sending sent 0 (prepareManual h w tx i metadata cells apps refs)"
  unfolding prepareManual_def
  by (intro quiet_then quiet_tracked [OF _ hush_describe] quiet_call [OF _ hushed.methods_keep(1)] quiet_give)

lemma quiet_get: "send_laws h sent \<Longrightarrow> sending sent 0 (do_call (client_get (hn_flow h) i signal))"
  by (rule quiet_call [OF _ hushed.get_keeps])

text \<open>The programs that may send.\<close>

lemma send_one:
  assumes "send_laws h sent"
  shows "sending sent 1 (do_live (cc_signAndSend (hn_ccc h) w tx))"
proof -
  have "\<exists>xs. length xs \<le> 1 \<and> sent (snd (cc_signAndSend (hn_ccc h) w tx s)) = sent s @ xs" for s
    using assms by (simp add: send_laws_def)
  then show ?thesis by (simp add: runs_in_def do_live_def do_tracked_def raise_as_def sends_def split_beta)
qed

lemma raw_sends:
  assumes "send_laws h sent" and "rawSubmit h w tx s = (r, t)"
  shows "sent t = sent s @ [tx]"
proof -
  have "sent (snd (wl_send (hn_wallet h w) tx s)) = sent s @ [tx]" using assms(1) by (simp add: send_laws_def)
  then show ?thesis using assms(2) by (auto simp: rawSubmit_def split: prod.splits sum.splits)
qed

lemma raw_one: "send_laws h sent \<Longrightarrow> sending sent 1 (do_read (rawSubmit h w tx))"
  by (auto simp: runs_in_def do_read_def sends_def split: prod.splits dest: raw_sends)

lemma shared_one: "send_laws h sent \<Longrightarrow> sending sent 1 (createSharedStateCell h w lock data)"
  unfolding createSharedStateCell_def One_nat_def
  by (rule quiet_then [OF quiet_live [OF _ hush_builds(3)]], assumption, rule one_then [OF send_one], assumption,
      intro quiet_then quiet_await quiet_give)

lemma sender_from: "send_laws h sent \<Longrightarrow> sender_laws (hn_flow h) (hn_wallet h w) sent"
  unfolding sender_laws_def
  by (intro conjI allI) (auto intro: quiet_sent quiet_step.intros simp: send_laws_def)

lemma tracked_one: "send_laws h sent \<Longrightarrow> sending sent 1 (tracked_send h w i p)"
  unfolding tracked_send_def runs_in_def do_tracked_def sends_def
  using broadcast_run [OF sender_from] by fastforce

lemma submitter_from: "send_laws h sent \<Longrightarrow> submit_laws (hn_flow h) (high_submit h) sent"
  unfolding submit_laws_def
  by (intro conjI allI) (auto intro: quiet_sent quiet_step.intros raw_sends simp: high_submit_def split: prod.splits)

lemma replacement_one: "send_laws h sent \<Longrightarrow> sending sent 1 (do_call (submitPersistedReplacement (hn_flow h) (high_submit h) i c parent m cells))"
  unfolding runs_in_def do_call_def do_tracked_def raise_as_def sends_def
  using replacement_run [OF submitter_from] by (fastforce split: prod.splits)

lemma manual_one: "send_laws h sent \<Longrightarrow> sending sent 1 (submitPreparedManually h w i prepared)"
  unfolding submitPreparedManually_def One_nat_def
  by (rule quiet_then [OF quiet_call [OF _ hushed.methods_keep(3)]], assumption, rule one_then [OF raw_one], assumption, rule quiet_then)
    (auto intro!: quiet_call hushed.methods_keep quiet_give split: option.split Outcome.split)


section \<open>The scenarios\<close>

lemma sending_cases:
  "sending sent k a \<Longrightarrow> (\<And>x. sending sent k (f x)) \<Longrightarrow> sending sent k (case v of None \<Rightarrow> a | Some x \<Rightarrow> f x)"
  "(\<And>x y. sending sent k (g x y)) \<Longrightarrow> sending sent k (case p of (x, y) \<Rightarrow> g x y)"
  "sending sent k a \<Longrightarrow> sending sent k b \<Longrightarrow> sending sent k (if c then a else b)"
  by (auto split: option.split prod.split)

lemmas sending_none = sending_mono [OF quiet_give(1) le0] sending_mono [OF quiet_give(2) le0] sending_mono [OF quiet_give(3) le0]

lemmas quiet_before = quiet_then [OF quiet_now] quiet_then [OF quiet_pause] quiet_then [OF quiet_track] quiet_then [OF quiet_manual]
  quiet_then [OF quiet_until] quiet_then [OF quiet_await] quiet_then [OF quiet_evidence] quiet_then [OF quiet_observations]
  quiet_then [OF quiet_save] quiet_then [OF quiet_get] quiet_then [OF quiet_artifact]

lemmas one_before = one_then [OF shared_one] one_then [OF tracked_one] one_then [OF manual_one] one_then [OF replacement_one]

lemma race_three:
  assumes "send_laws h sent"
  shows "sending sent 3 (runSameFeeApplicationRace h lock deps)"
  unfolding runSameFeeApplicationRace_def Let_def numeral_3_eq_3
  by (intro quiet_before one_before quiet_then [OF quiet_live [OF assms]] quiet_then [OF quiet_witness [OF assms]] hush_builds quiet_give assms)

lemma settle_quiet: "send_laws h sent \<Longrightarrow> sending sent 0 (rbf_settle h i hash won)"
  unfolding rbf_settle_def by (intro sending_cases quiet_before quiet_give)

lemma rbf_three:
  assumes "send_laws h sent"
  shows "sending sent 3 (runHigherFeeRbf h lock deps)"
  unfolding runHigherFeeRbf_def Let_def numeral_3_eq_3
  by (intro quiet_before one_before quiet_then [OF quiet_live [OF assms]] quiet_then [OF quiet_tracked [OF assms]]
      quiet_then [OF quiet_witness [OF assms]] quiet_then [OF settle_quiet] hush_builds hush_describe sending_cases sending_none assms)

lemma rounds_bound:
  assumes "send_laws h sent"
  shows "sending sent k (seed_rounds h w lock failures number k)"
proof (induction k arbitrary: failures number)
  case (Suc k)
  have attempt': "sending sent 1 (seed_attempt h w tx)" for tx
    unfolding seed_attempt_def Let_def One_nat_def
    by (intro quiet_then [OF quiet_live [OF assms]] one_then [OF send_one [OF assms]] quiet_before hush_parts quiet_give assms)
  have template: "sending sent 0 (seed_template h lock)"
    unfolding seed_template_def by (intro quiet_live [OF assms] hush_parts)
  have again: "sending sent k (if b then do_tracked (throw e) else
      then_do (pause h (st_walletSetupRetryDelayMs (hn_settings h))) (\<lambda>_. seed_rounds h w lock (failures @ x) (Suc number) k))" for b e x
    by (intro sending_cases quiet_before Suc.IH assms sending_mono [OF quiet_tracked [OF assms] le0] hushed.keeps_pure)
  show ?case
    unfolding seed_rounds.simps using sending_error [OF attempt' again] by (intro quiet_then [OF template]) simp
qed (simp add: quiet_give)

lemma seed_bound: "send_laws h sent \<Longrightarrow> sending sent (nat (st_walletSetupAttempts (hn_settings h))) (createWalletSeedCellWithRetry h w lock)"
  unfolding createWalletSeedCellWithRetry_def by (rule rounds_bound)

lemma wallet_bound:
  assumes "send_laws h sent"
  shows "sending sent (nat (st_walletSetupAttempts (hn_settings h)) + 2) (runWalletInputRace h address)"
  unfolding runWalletInputRace_def Let_def numeral_2_eq_2
  by (intro quiet_before one_before sending_then [OF seed_bound] quiet_then [OF quiet_live [OF assms]] quiet_then [OF quiet_witness [OF assms]]
      hush_parts hush_builds quiet_give assms)

lemma lose_one:
  assumes "send_laws h sent"
  shows "sending sent 1 (lose_response h w i prepared)"
  unfolding lose_response_def One_nat_def
  by (intro quiet_then [OF quiet_call [OF assms]] one_then [OF raw_one [OF assms]] sending_cases quiet_give hushed.methods_keep)

lemma recover_quiet:
  assumes "send_laws h sent"
  shows "sending sent 0 (recover h i)"
  unfolding recover_def Let_def
  by (intro quiet_then [OF quiet_live [OF assms]] quiet_before quiet_give hush_parts assms)

lemma recovery_one:
  assumes "send_laws h sent"
  shows "sending sent 1 (runAmbiguousRecovery h address)"
  unfolding runAmbiguousRecovery_def Let_def One_nat_def recovery_build_def
  by (intro quiet_before one_then [OF lose_one] quiet_then [OF recover_quiet] quiet_then [OF quiet_live [OF assms]]
      quiet_then [OF quiet_witness [OF assms]] hush_parts hush_builds sending_cases quiet_live [OF assms] quiet_give assms)


section \<open>The suite\<close>

lemma quiet_finished: "send_laws h sent \<Longrightarrow> sending sent 0 (do_read (finished_result h path name))"
proof (rule quiet_read)
  fix s assume l: "send_laws h sent"
  have "sent (snd (hn_read h path s)) = sent s" by (rule quiet_sent [OF l reading])
  then show "sent (snd (finished_result h path name s)) = sent s"
    by (auto simp: finished_result_def Let_def split: prod.splits sum.splits)
qed

lemma resume_bound:
  assumes "send_laws h sent" and "sending sent k m"
  shows "sending sent k (runOrResumeScenario h file name m)"
  unfolding runOrResumeScenario_def Let_def
  by (intro sending_cases quiet_then [OF quiet_finished] quiet_before sending_none assms)

text \<open>Three transactions for each of the two races, the seeds and two spends, and one whose answer is lost.\<close>

definition budget :: "('s, 'tx) harness \<Rightarrow> nat" where
  "budget h = 9 + nat (st_walletSetupAttempts (hn_settings h))"

lemma list_bound:
  "list_all2 (\<lambda>k m. sending sent k m) ks ms \<Longrightarrow> run_scenarios results ms s = Some (r, t) \<Longrightarrow> sends sent (sum_list ks) s t"
proof (induction ks ms arbitrary: results s rule: list_all2_induct)
  case (Cons k ks m ms)
  obtain x u where m: "m s = Some (x, u)" using Cons.prems by (auto split: option.splits)
  have u: "sends sent k s u" using Cons.hyps(1) m by (rule runs_inD)
  have "sends sent (k + sum_list ks) s u" using u by (rule sends_mono) simp
  with Cons.prems m show ?case by (auto split: sum.splits dest: sends_trans [OF u Cons.IH])
qed simp

lemma scenarios_bound:
  assumes "send_laws h sent" and "run_scenarios results (suite_scenarios h ctx) s = Some (r, t)"
  shows "sends sent (budget h) s t"
proof -
  have "list_all2 (sending sent) [3, 3, nat (st_walletSetupAttempts (hn_settings h)) + 2, 1] (suite_scenarios h ctx)"
    unfolding suite_scenarios_def
    by (intro list.rel_intros resume_bound race_three rbf_three wallet_bound recovery_one assms)
  from list_bound [OF this assms(2)] show ?thesis by (simp add: budget_def)
qed

lemma wallets_quiet:
  assumes "send_laws h sent" shows "sending sent 0 (suite_wallets h)"
  unfolding suite_wallets_def Let_def
  by (intro quiet_then [OF quiet_give(3)] quiet_then [OF quiet_live [OF assms]] quiet_give hush_parts)

lemma quiet_networks: "send_laws h sent \<Longrightarrow> sending sent 0 (do_read (verifyRpcIdentities (hn_live h) urls))"
  unfolding verifyRpcIdentities_def by (rule quiet_read) (metis silent.identities_keep prod.collapse)

lemma gate_quiet:
  assumes "send_laws h sent" shows "sending sent 0 (suite_gate h)"
  unfolding suite_gate_def Let_def
  by (intro quiet_then [OF quiet_give(3)] quiet_then [OF quiet_live [OF assms]] quiet_then [OF quiet_networks] quiet_before quiet_live [OF assms]
      hush_parts silent.json_keeps assms)

lemma balances_quiet:
  assumes "send_laws h sent" shows "sending sent 0 (suite_balances h a b)"
  unfolding suite_balances_def Let_def
  by (intro quiet_then [OF quiet_live [OF assms]] quiet_before quiet_give hush_parts sending_cases assms)

lemma start_quiet:
  assumes "send_laws h sent" shows "sending sent 0 (suite_start h)"
  unfolding suite_start_def
  by (intro quiet_then [OF wallets_quiet] quiet_then [OF gate_quiet] quiet_then [OF balances_quiet]
      quiet_then [OF quiet_live [OF assms]] quiet_give hush_parts sending_cases assms)

text \<open>The documents are written without sending anything, whatever fails.\<close>

lemma quiet_ignoring: "sending sent 0 m \<Longrightarrow> sending sent 0 (ignoring m)"
  unfolding ignoring_def
  using sending_error [of sent 0 "then_do m (\<lambda>_. give ())" 0] by (simp add: quiet_then quiet_give)

lemma sums_quiet:
  assumes "send_laws h sent" shows "sum_entries h paths s = (entries, t) \<Longrightarrow> sent t = sent s"
proof (induction paths arbitrary: s entries)
  case (Cons path paths)
  have "sent (snd (hn_read h path s)) = sent s" by (rule quiet_sent [OF assms reading])
  with Cons show ?case by (auto split: prod.splits)
qed simp

lemma checksums_quiet:
  assumes "send_laws h sent" shows "sending sent 0 (writeChecksums h)"
  unfolding writeChecksums_def
  by (rule quiet_then [OF quiet_read quiet_live [OF assms hush_steps(1)]]) (metis sums_quiet [OF assms] prod.collapse)

lemma readme_quiet:
  assumes "send_laws h sent" shows "sending sent 0 (writeReadme h at results)"
  unfolding writeReadme_def Let_def by (intro quiet_then [OF quiet_live [OF assms]] quiet_artifact hush_parts assms)

lemma failed_quiet:
  assumes "send_laws h sent" shows "sending sent 0 (suite_failed h started results e)"
  unfolding suite_failed_def
  by (intro quiet_before quiet_then [OF quiet_ignoring] quiet_save checksums_quiet quiet_give assms)

lemma finish_quiet:
  assumes "send_laws h sent" shows "sending sent 0 (suite_finish h ctx started results)"
  unfolding suite_finish_def
  by (intro quiet_before quiet_then [OF quiet_live [OF assms]] quiet_then [OF quiet_ignoring] quiet_live [OF assms] quiet_then [OF checksums_quiet]
      quiet_then [OF readme_quiet] hush_parts silent.json_keeps quiet_give assms)

text \<open>A run sends within its budget, and nothing at all when its start fails.\<close>

lemma main_sends:
  assumes laws: "send_laws h sent" and run: "suite_main h started s = Some (r, t)"
  shows "sends sent (budget h) s t \<and> (sent t \<noteq> sent s \<longrightarrow> (\<exists>ctx u. suite_start h s = Some (Inr ctx, u)))"
proof -
  obtain x u where x: "suite_start h s = Some (x, u)" using run by (auto simp: suite_main_def split: option.splits)
  have u: "sent u = sent s" using runs_inD [OF start_quiet [OF laws] x] by simp
  have failed: "sent v = sent v'" if "suite_failed h started results e v' = Some (q, v)" for results e v v' q
    using runs_inD [OF failed_quiet [OF laws] that] by simp
  have ended: "sent v = sent v'" if "on_error (suite_finish h ctx started results) (suite_failed h started results) v' = Some (q, v)" for ctx results v v' q
    using runs_inD [OF sending_error [OF finish_quiet [OF laws] failed_quiet [OF laws]] that] by simp
  have sent': "sends sent (budget h) s v" if "run_scenarios results (suite_scenarios h ctx) u = Some (q, v)" for results ctx q v
    using scenarios_bound [OF laws that] u by (simp add: sends_def)
  show ?thesis
  proof (cases x)
    case (Inl e)
    with run x u failed have "sent t = sent s" by (auto simp: suite_main_def)
    then show ?thesis by (simp add: sends_def)
  next
    case (Inr ctx)
    with run x obtain results e v where v: "run_scenarios [] (suite_scenarios h ctx) u = Some ((results, e), v)"
      and rest: "case e of Some e \<Rightarrow> suite_failed h started results e v = Some (r, t)
        | None \<Rightarrow> on_error (suite_finish h ctx started results) (suite_failed h started results) v = Some (r, t)"
      by (auto simp: suite_main_def split: option.splits)
    have "sent t = sent v" using rest failed ended by (auto split: option.splits)
    with sent' [OF v] x Inr show ?thesis by (auto simp: sends_def)
  qed
qed

text \<open>
  What a start that succeeded has seen, in states \<open>before\<close> anything was sent: the keys are not the
  published ones, the addresses the wallets answer are of the test network and the pinned ones, the
  service answered ready and the endpoints their identities so that the gate accepts them, and each
  wallet holds the minimum.
\<close>

definition addresses_cleared :: "('s, 'tx) harness \<Rightarrow> ('s \<Rightarrow> bool) \<Rightarrow> bool" where
  "addresses_cleared h before \<longleftrightarrow> (\<exists>s a u b v. before s \<and> cc_address (hn_ccc h) Wallet_A s = (Inr a, u)
     \<and> cc_address (hn_ccc h) Wallet_B u = (Inr b, v) \<and> startsWith a ''ckt'' \<and> startsWith b ''ckt''
     \<and> (pe_env (lv_process (hn_live h)) ''CELLFLOW_TESTNET_CI'' = Some ''true'' \<longrightarrow>
          pe_env (lv_process (hn_live h)) ''CELLFLOW_TESTNET_ADDRESS_A'' = Some a
          \<and> pe_env (lv_process (hn_live h)) ''CELLFLOW_TESTNET_ADDRESS_B'' = Some b))"

definition gate_cleared :: "('s, 'tx) harness \<Rightarrow> ('s \<Rightarrow> bool) \<Rightarrow> bool" where
  "gate_cleared h before \<longleftrightarrow> (\<exists>s network u v readiness w result. before s \<and> before v
     \<and> verifyRpcIdentities (hn_live h) (st_rpcUrls (hn_settings h)) s = (network, u)
     \<and> list_all (\<lambda>entry. json_truthy (field_of entry ''ok'')) network
     \<and> fetchJson (hn_live h) (service_request (hn_live h) None ''/api/ready'') True v = (Inr readiness, w) \<and> fj_ok readiness
     \<and> assertPreBroadcastEvidence (hn_newURL h) (Some (fetched_json readiness)) (Some (JArr network))
         (map_option js_trim (pe_env (lv_process (hn_live h)) ''CELLFLOW_EXPECTED_RELEASE_SHA''))
         (map_option js_trim (pe_env (lv_process (hn_live h)) ''CKB_EXPECTED_GENESIS_HASH'')) (st_strictWallets (hn_settings h)) = Inr result)"

definition balances_cleared :: "('s, 'tx) harness \<Rightarrow> ('s \<Rightarrow> bool) \<Rightarrow> bool" where
  "balances_cleared h before \<longleftrightarrow> (\<exists>s a u b v minimum. before s \<and> cc_balance (hn_ccc h) Wallet_A s = (Inr a, u)
     \<and> cc_balance (hn_ccc h) Wallet_B u = (Inr b, v) \<and> cc_fixedPoint (hn_ccc h) (st_minBalanceCkb (hn_settings h)) = Inr minimum
     \<and> minimum \<le> a \<and> minimum \<le> b)"

definition cleared_to_send :: "('s, 'tx) harness \<Rightarrow> ('s \<Rightarrow> bool) \<Rightarrow> bool" where
  "cleared_to_send h before \<longleftrightarrow> \<not> wallets_refused (lv_process (hn_live h)) (hn_settings h)
     \<and> addresses_cleared h before \<and> gate_cleared h before \<and> balances_cleared h before"

lemma then_do_Inr: "then_do m f s = Some (Inr y, t) \<longleftrightarrow> (\<exists>x u. m s = Some (Inr x, u) \<and> f x u = Some (Inr y, t))"
  by (auto simp: then_do_def split: option.splits sum.splits)

lemma map_sum_Inr: "map_sum f g x = Inr y \<longleftrightarrow> (\<exists>z. x = Inr z \<and> g z = y)"
  by (cases x) auto

lemma do_Inr:
  "do_live m s = Some (Inr x, t) \<longleftrightarrow> m s = (Inr x, t)"
  "check_that b message s = Some (Inr y, t) \<longleftrightarrow> \<not> b \<and> t = s"
  "give z s = Some (Inr x, t) \<longleftrightarrow> x = z \<and> t = s"
  "do_read f s = Some (Inr x, t) \<longleftrightarrow> f s = (x, t)"
  by (auto simp: do_live_def do_tracked_def raise_as_def check_that_def give_def fail_with_def do_read_def map_sum_Inr split: prod.splits)

lemma together_Inr: "together m n s = (Inr (a, b), t) \<longleftrightarrow> (\<exists>u. m s = (Inr a, u) \<and> n u = (Inr b, t))"
  by (auto simp: together_def sum_bind_Inr split: prod.splits)

text \<open>A quiet program leads to a state with the same log.\<close>

lemma still: "sending sent 0 m \<Longrightarrow> m s = Some (r, t) \<Longrightarrow> sent t = sent s"
  using runs_inD by fastforce

lemma wallets_checked:
  assumes laws: "send_laws h sent" and "suite_wallets h s = Some (Inr (a, b), t)"
  shows "\<not> wallets_refused (lv_process (hn_live h)) (hn_settings h) \<and> addresses_cleared h (\<lambda>u. sent u = sent s)"
proof -
  obtain u v w where wallets: "\<not> wallets_refused (lv_process (hn_live h)) (hn_settings h)"
    and c: "do_live (cc_connect (hn_ccc h) Wallet_A) s = Some (Inr (), u)" "do_live (cc_connect (hn_ccc h) Wallet_B) u = Some (Inr (), v)"
    and a: "cc_address (hn_ccc h) Wallet_A v = (Inr a, w)" "cc_address (hn_ccc h) Wallet_B w = (Inr b, t)"
    and ok: "startsWith a ''ckt''" "startsWith b ''ckt''" "pe_env (lv_process (hn_live h)) ''CELLFLOW_TESTNET_CI'' = Some ''true'' \<longrightarrow>
       pe_env (lv_process (hn_live h)) ''CELLFLOW_TESTNET_ADDRESS_A'' = Some a
       \<and> pe_env (lv_process (hn_live h)) ''CELLFLOW_TESTNET_ADDRESS_B'' = Some b"
    using assms(2) unfolding suite_wallets_def Let_def then_do_Inr do_Inr by auto
  have "sent v = sent s" using still [OF quiet_live [OF laws hush_steps(6)] c(1)] still [OF quiet_live [OF laws hush_steps(6)] c(2)] by simp
  with wallets a ok show ?thesis unfolding addresses_cleared_def by blast
qed

lemma gate_checked:
  assumes laws: "send_laws h sent" and "suite_gate h s = Some (Inr result, t)"
  shows "gate_cleared h (\<lambda>u. sent u = sent s)"
proof -
  obtain network u path v readiness w where n: "do_read (verifyRpcIdentities (hn_live h) (st_rpcUrls (hn_settings h))) s = Some (Inr network, u)"
    and saved: "saveJson h ''01-network.json'' (JArr network) u = Some (Inr path, v)"
    and ok: "list_all (\<lambda>entry. json_truthy (field_of entry ''ok'')) network"
    and r: "fetchJson (hn_live h) (service_request (hn_live h) None ''/api/ready'') True v = (Inr readiness, w)" "fj_ok readiness"
    and gate: "assertPreBroadcastEvidence (hn_newURL h) (Some (fetched_json readiness)) (Some (JArr network))
        (map_option js_trim (pe_env (lv_process (hn_live h)) ''CELLFLOW_EXPECTED_RELEASE_SHA''))
        (map_option js_trim (pe_env (lv_process (hn_live h)) ''CKB_EXPECTED_GENESIS_HASH'')) (st_strictWallets (hn_settings h)) = Inr result"
    using assms(2) unfolding suite_gate_def Let_def then_do_Inr do_Inr lift_sum_def prod.inject map_sum_Inr by simp blast
  have "sent v = sent s" using still [OF quiet_networks [OF laws] n] still [OF quiet_save [OF laws] saved] by simp
  with n ok r gate show ?thesis unfolding gate_cleared_def do_Inr by blast
qed

lemma balances_checked:
  assumes "suite_balances h a b s = Some (Inr y, t)" and "before s"
  shows "balances_cleared h before"
proof -
  obtain x u y' v minimum where "cc_balance (hn_ccc h) Wallet_A s = (Inr x, u)" "cc_balance (hn_ccc h) Wallet_B u = (Inr y', v)"
    "cc_fixedPoint (hn_ccc h) (st_minBalanceCkb (hn_settings h)) = Inr minimum" "minimum \<le> x" "minimum \<le> y'"
    using assms(1) by (auto simp: suite_balances_def Let_def then_do_Inr do_Inr together_Inr not_less lift_sum_def split: prod.splits)
  with assms(2) show ?thesis unfolding balances_cleared_def by blast
qed

lemma start_cleared:
  assumes laws: "send_laws h sent" and "suite_start h s = Some (Inr ctx, u)"
  shows "cleared_to_send h (\<lambda>v. sent v = sent s)"
proof -
  obtain a b t1 r t2 y t3 where w: "suite_wallets h s = Some (Inr (a, b), t1)" and g: "suite_gate h t1 = Some (Inr r, t2)"
    and b: "suite_balances h a b t2 = Some (Inr y, t3)"
    using assms(2) by (auto simp: suite_start_def then_do_Inr)
  have q: "sent t1 = sent s" "sent t2 = sent s" using still [OF wallets_quiet [OF laws] w] still [OF gate_quiet [OF laws] g] by simp_all
  from wallets_checked [OF laws w] gate_checked [OF laws g] balances_checked [OF b, of "\<lambda>v. sent v = sent s"] q
  show ?thesis unfolding cleared_to_send_def by simp
qed

lemma suite_sends:
  assumes laws: "send_laws h sent" and run: "live_suite h s = Some (r, t)"
  shows "\<exists>xs. sent t = sent s @ xs \<and> length xs \<le> 9 + nat (st_walletSetupAttempts (hn_settings h))
    \<and> (xs = [] \<or> cleared_to_send h (\<lambda>u. sent u = sent s))"
proof -
  have made: "sent v = sent u" if "do_live (hn_mkdir h (hn_outDir h)) u = Some (q, v)" for u v q
    by (rule still [OF quiet_live [OF laws hush_steps(4)] that])
  from run [unfolded live_suite_def] show ?thesis
  proof (cases rule: then_doE)
    case (threw e)
    have "sent t = sent s" by (rule still [OF quiet_now threw(1)])
    then show ?thesis by simp
  next
    case (went x u)
    have u: "sent u = sent s" by (rule still [OF quiet_now went(1)])
    from went(2) show ?thesis
    proof (cases rule: then_doE)
      case (threw e)
      from made [OF threw(1)] u show ?thesis by simp
    next
      case (went y v)
      have v: "sent v = sent s" using made [OF went(1)] u by simp
      then show ?thesis using main_sends [OF laws went(2)] start_cleared [OF laws, of v] by (auto simp: sends_def budget_def)
    qed
  qed
qed

text \<open>
  Property C9: a run of the evidence suite, however it ends, sends at most nine transactions and one
  more for each attempt at a wallet seed; and it sends none unless, before the first, the configured
  keys passed the isolation check, the wallets answered addresses of the test network (in the
  continuous integration the pinned ones), the service answered ready and the endpoints their
  identities in a way the gate accepts, and both wallets held the required minimum.
\<close>

theorem funds_gated:
  assumes "send_laws h sent" and "live_suite h s = Some (r, t)"
  shows "\<exists>xs. sent t = sent s @ xs \<and> length xs \<le> 9 + nat (st_walletSetupAttempts (hn_settings h))
    \<and> (xs = [] \<or> cleared_to_send h (\<lambda>u. sent u = sent s))"
  by (rule suite_sends [OF assms])

lemma demo_laws: "send_laws demo_harness snd"
  unfolding send_laws_def
  by (auto simp: quiet_step.simps demo_harness_def demo_env_def hn_flow_def hn_wallet_def ret_def throw_def split_beta)

theorem funds_gated_witness: "\<exists>r t. live_suite demo_harness (0, []) = Some (r, t) \<and> length (snd t) \<le> 12"
proof -
  obtain r t where run: "live_suite demo_harness (0, []) = Some (r, t)" using returnsD [OF returns_suite [OF demo_ends]] by blast
  then show ?thesis
    using funds_gated [OF demo_laws run] by (auto simp: hn_settings_def demo_harness_def demo_env_def demo_settings_def)
qed

end
