(* ===== verification/LiveFailover.thy ===== *)
theory LiveFailover
  imports LiveReturns
begin

text \<open>
  The failover of the evidence harness over its RPC endpoints: how many requests one call can make,
  and where its answer comes from.
\<close>

text \<open>A count of the requests sent to RPC endpoints.\<close>

definition counts_requests :: "'s suite_env \<Rightarrow> ('s \<Rightarrow> nat) \<Rightarrow> bool" where
  "counts_requests env n \<longleftrightarrow> (\<forall>ms rq s. n (snd (lv_fetch env ms rq s)) = Suc (n s)) \<and> (\<forall>ms s. n (ce_sleep (lv_client env) ms s) = n s)"

text \<open>The answer of an endpoint to one request of this call.\<close>

definition endpoint_answer :: "'s suite_env \<Rightarrow> string \<Rightarrow> string \<Rightarrow> json list \<Rightarrow> json option \<Rightarrow> bool" where
  "endpoint_answer env url m params v \<longleftrightarrow> (\<exists>ms s. rpc_answer env url (fst (lv_fetch env ms (rpc_request url m params) s)) = Inr v)"

lemma once_answer:
  assumes "counts_requests env n" and "rpcOnce env url m params s = (r, t)"
  shows "n t \<le> Suc (n s)" "r = Inr v \<Longrightarrow> endpoint_answer env url m params v"
proof -
  have "n (snd (lv_fetch env ms rq s)) = Suc (n s)" for ms rq using assms(1) by (simp add: counts_requests_def)
  then show "n t \<le> Suc (n s)"
    using assms(2) by (auto simp: rpcOnce_def andThen_def lift_sum_def split: sum.splits prod.splits) (metis Suc_n_not_le_n nat_le_linear snd_conv)
  show "endpoint_answer env url m params v" if "r = Inr v"
    using assms(2) that unfolding endpoint_answer_def
    by (auto simp: rpcOnce_def andThen_def lift_sum_def split: sum.splits prod.splits) (metis fst_conv)
qed

lemma wait_count: "counts_requests env n \<Longrightarrow> andThen (live_sleep env ms) (\<lambda>_. f) s = (r, t) \<Longrightarrow> \<exists>u. n u = n s \<and> f u = (r, t)"
  by (auto simp: andThen_def live_sleep_def modifyState_def counts_requests_def) blast

lemma retries_answer:
  assumes c: "counts_requests env n"
  shows "rpc_rounds env url m params number k s = (r, t) \<Longrightarrow> n t \<le> n s + k \<and> (\<forall>v. r = Inr v \<longrightarrow> endpoint_answer env url m params v)"
proof (induction k arbitrary: number s)
  case (Suc k)
  obtain x u where o': "rpcOnce env url m params s = (x, u)" by fastforce
  have u: "n u \<le> Suc (n s)" by (rule once_answer(1) [OF c o'])
  show ?case
  proof (cases x)
    case (Inr v)
    with Suc.prems o' u once_answer(2) [OF c o'] show ?thesis by auto
  next
    case (Inl e)
    show ?thesis
    proof (cases "\<not> isRetryableRpcTransportError e \<or> k = 0")
      case True
      with Suc.prems o' u Inl show ?thesis by auto
    next
      case False
      with Suc.prems o' Inl obtain w where "n w = n u" "rpc_rounds env url m params (Suc number) k w = (r, t)"
        using wait_count [OF c] by fastforce
      with Suc.IH u show ?thesis by fastforce
    qed
  qed
qed (auto simp: throw_def)

text \<open>The attempts at one endpoint.\<close>

definition endpoint_attempts :: "'s suite_env \<Rightarrow> nat" where
  "endpoint_attempts env = nat (max 1 (st_rpcAttempts (lv_settings env)))"

lemma over_answer:
  assumes c: "counts_requests env n"
  shows "rpc_over env m params failures urls s = (r, t) \<Longrightarrow> n t \<le> n s + length urls * endpoint_attempts env
    \<and> (case r of Inr v \<Rightarrow> \<exists>url \<in> set urls. endpoint_answer env url m params v
       | Inl e \<Rightarrow> \<forall>url \<in> set urls. \<exists>u e w. rpc env url m params u = (Inl e, w))"
proof (induction urls arbitrary: failures s)
  case (Cons url urls)
  obtain x u where o': "rpc env url m params s = (x, u)" by fastforce
  have u: "n u \<le> n s + endpoint_attempts env \<and> (\<forall>v. x = Inr v \<longrightarrow> endpoint_answer env url m params v)"
    using retries_answer [OF c o' [unfolded rpc_def]] by (simp add: endpoint_attempts_def)
  show ?case
  proof (cases x)
    case (Inr v)
    with Cons.prems o' u show ?thesis by auto
  next
    case (Inl e)
    with Cons.prems o' have "rpc_over env m params (failures @ [url @ '': '' @ failure_text e]) urls u = (r, t)" by simp
    from Cons.IH [OF this] u o' Inl show ?thesis by (auto split: sum.splits)
  qed
qed (auto simp: throw_def)

lemma rotation_set: "set (rotation env at) = set (st_rpcUrls (lv_settings env))" "length (rotation env at) = length (st_rpcUrls (lv_settings env))"
proof -
  have "drop k xs @ take k xs = rotate k xs" if "k \<le> length xs" for k and xs :: "string list"
    using that by (cases "k = length xs") (auto simp: rotate_drop_take)
  moreover have "i mod length xs \<le> length xs \<or> xs = []" for i and xs :: "string list"
    using mod_less_divisor [of "length xs" i] by (cases xs) (auto simp: less_imp_le)
  ultimately have "\<exists>k. rotation env at = rotate k (st_rpcUrls (lv_settings env))"
    unfolding rotation_def Let_def by (metis append_Nil2 drop_Nil rotate_is_Nil_conv take_Nil)
  then show "set (rotation env at) = set (st_rpcUrls (lv_settings env))" "length (rotation env at) = length (st_rpcUrls (lv_settings env))"
    by auto
qed

text \<open>
  A call of the harness over its RPC endpoints makes at most the configured number of
  attempts at each of them; what it returns is the result in an answer of a configured endpoint to
  this very request, and it fails only after every configured endpoint has failed it.
\<close>

theorem failover_bounded:
  assumes "counts_requests env n" and "rpcWithFailover env m params s = (r, t)"
  shows "n t \<le> n s + length (st_rpcUrls (lv_settings env)) * nat (max 1 (st_rpcAttempts (lv_settings env)))
    \<and> (case r of Inr v \<Rightarrow> \<exists>url \<in> set (st_rpcUrls (lv_settings env)). endpoint_answer env url m params v
       | Inl e \<Rightarrow> \<forall>url \<in> set (st_rpcUrls (lv_settings env)). \<exists>u e w. rpc env url m params u = (Inl e, w))"
  using over_answer [OF assms(1) assms(2) [unfolded rpcWithFailover_def]] by (simp only: rotation_set endpoint_attempts_def)

text \<open>Two endpoints, of which only the second answers.\<close>

definition half_env :: "nat suite_env" where
  "half_env = \<lparr>lv_settings = demo_settings\<lparr>st_rpcAttempts := 3\<rparr>, lv_process = lv_process demo_env,
     lv_client = \<lparr>ce_options = ce_options failing_env, ce_fetch = (\<lambda>ms rq s. (FetchFailed (JsError ''TypeError'' ''fetch failed'' [] None), s)),
       ce_sleep = (\<lambda>ms s. s), ce_now = (\<lambda>s. 0), ce_aborted = (\<lambda>_. None)\<rparr>,
     lv_fetch = (\<lambda>ms rq s. (if fq_url rq = ''https://b.test'' then HttpResponse 200 (Inr ''{}'')
         else NoResponse (JsError ''TypeError'' ''fetch failed'' [] None), Suc s)),
     lv_parse = (\<lambda>_. Inr (JObj [(''result'', JStr ''0x1'')]))\<rparr>"

lemma half_run: "rpcWithFailover half_env ''get_tip_header'' [] 0 = (Inr (Some (JStr ''0x1'')), 4)"
  by code_simp

theorem failover_bounded_witness: "snd (rpcWithFailover half_env ''get_tip_header'' [] 0) \<le> 6"
proof -
  have c: "counts_requests half_env id" by (simp add: counts_requests_def half_env_def)
  have "length (st_rpcUrls (lv_settings half_env)) = 2" "st_rpcAttempts (lv_settings half_env) = 3"
    by (simp_all add: half_env_def demo_settings_def)
  with failover_bounded [OF c half_run] show ?thesis by (simp add: half_run)
qed

end
