(* ===== verification/LiveWorker.thy ===== *)
theory LiveWorker
  imports LiveProperties
begin

text \<open>
  Models scripts/evidence/testnet-live-reconcile-worker.mjs: the new process that reconciles one
  intent after a lost response, and the document it leaves. A setting that is no number is NaN
  (\<open>None\<close>); numbers with a fraction and infinity are not modelled.
\<close>

section \<open>Settings\<close>

record WorkerSettings =
  ws_options :: ClientOptions
  ws_intentId :: string
  ws_output :: string
  ws_timeoutMs :: "int option"
  ws_pollMs :: "int option"

text \<open>\<open>Number(process.env.X || fallback)\<close>.\<close>

definition number_or :: "process_env \<Rightarrow> string \<Rightarrow> int \<Rightarrow> int option" where
  "number_or pe name fallback = (case or_null (pe_env pe name) of None \<Rightarrow> Some fallback | Some raw \<Rightarrow> pe_number pe raw)"

definition worker_settings :: "process_env \<Rightarrow> js_error + WorkerSettings" where
  "worker_settings pe =
    (case (trimmed_env pe ''CELLFLOW_URL'', trimmed_env pe ''CELLFLOW_API_KEY'', trimmed_env pe ''CELLFLOW_RECOVERY_INTENT_ID'',
       trimmed_env pe ''CELLFLOW_RECOVERY_OUTPUT'') of
       (Some endpoint, Some apiKey, Some intentId, Some output) \<Rightarrow>
         Inr \<lparr>ws_options = \<lparr>cx_endpoint = endpoint, cx_apiKey = apiKey,
             cx_transportRetryAttempts = map_option (max 1) (number_or pe ''CELLFLOW_HTTP_REQUEST_ATTEMPTS'' 5),
             cx_transportRetryDelayMs = map_option (max 100) (number_or pe ''CELLFLOW_HTTP_RETRY_DELAY_MS'' 1000),
             cx_requestTimeoutMs = map_option (max 1000) (number_or pe ''CELLFLOW_HTTP_TIMEOUT_MS'' 20000)\<rparr>,
           ws_intentId = intentId, ws_output = output, ws_timeoutMs = number_or pe ''CELLFLOW_TESTNET_TIMEOUT_MS'' 900000,
           ws_pollMs = number_or pe ''CELLFLOW_TESTNET_POLL_MS'' 5000\<rparr>
     | _ \<Rightarrow> Inl (plain_failure
         ''CELLFLOW_URL, CELLFLOW_API_KEY, CELLFLOW_RECOVERY_INTENT_ID and CELLFLOW_RECOVERY_OUTPUT are required''))"


section \<open>The loop\<close>

definition worker_passed :: "json option \<Rightarrow> bool" where
  "worker_passed final \<longleftrightarrow> view_is final ''status'' ''CONFIRMED''
     \<and> (\<not> (case get final ''assertionStatus'' of None \<Rightarrow> False | Some v \<Rightarrow> json_truthy v) \<or> view_is final ''assertionStatus'' ''VERIFIED'')"

definition worker_ended :: "json option \<Rightarrow> bool" where
  "worker_ended final \<longleftrightarrow> list_ex (view_is final ''status'') [''REJECTED'', ''NODE_REJECTED'', ''CONFLICTED'', ''EXPIRED'']"

definition failed_entry :: "timestamp \<Rightarrow> client_error \<Rightarrow> json" where
  "failed_entry at e = JObj [(''at'', JStr (iso at)), (''kind'', JStr ''reconcile-error''), (''error'', JStr (client_error_text e))]"

definition state_entry :: "timestamp \<Rightarrow> json option \<Rightarrow> json" where
  "state_entry at final = JObj ([(''at'', JStr (iso at)), (''kind'', JStr ''state'')]
     @ map (\<lambda>k. (k, json_or_null (get final k)))
         [''status'', ''submissionStatus'', ''chainStatus'', ''workflowStatus'', ''assertionStatus'', ''confirmationCount''])"

text \<open>The timer takes a pause that is no number for one millisecond; time is before no deadline that is no number.\<close>

definition timer_ms :: "int option \<Rightarrow> int" where
  "timer_ms ms = (case ms of None \<Rightarrow> 1 | Some n \<Rightarrow> max 1 n)"

definition before_deadline :: "timestamp \<Rightarrow> timestamp option \<Rightarrow> bool" where
  "before_deadline at deadline \<longleftrightarrow> (case deadline of None \<Rightarrow> False | Some d \<Rightarrow> at < d)"

partial_function (option) worker_loop ::
    "'s client_env \<Rightarrow> string \<Rightarrow> int option \<Rightarrow> timestamp option \<Rightarrow> json list \<Rightarrow> json option \<Rightarrow> 's
      \<Rightarrow> ((client_error + json list \<times> json option) \<times> 's) option" where
  "worker_loop env intentId pollMs deadline observations final s =
    (if before_deadline (ce_now env s) deadline then
       (case client_reconcile env intentId s of (r, t) \<Rightarrow>
        (case client_get env intentId False t of
           (Inl e, u) \<Rightarrow> Some (Inl e, u)
         | (Inr view, u) \<Rightarrow>
             let all = observations @ (case r of Inl e \<Rightarrow> [failed_entry (ce_now env t) e] | Inr _ \<Rightarrow> []) @ [state_entry (ce_now env u) view] in
             if worker_passed view \<or> worker_ended view then Some (Inr (all, view), u)
             else worker_loop env intentId pollMs deadline all view (ce_sleep env (timer_ms pollMs) u)))
     else Some (Inr (observations, final), s))"


section \<open>The process\<close>

record 's worker_env =
  wv_process :: process_env
  wv_client :: "'s client_env"
  wv_pid :: int
  wv_write :: "string \<Rightarrow> string \<Rightarrow> ('s, unit) live"

definition worker_document :: "'s worker_env \<Rightarrow> WorkerSettings \<Rightarrow> timestamp \<Rightarrow> timestamp \<Rightarrow> json list \<Rightarrow> json option \<Rightarrow> json" where
  "worker_document wv st startedAt finishedAt observations final =
     JObj [(''schemaVersion'', JStr ''cellflow-testnet-new-process-recovery-v1''), (''startedAt'', JStr (iso startedAt)),
       (''finishedAt'', JStr (iso finishedAt)), (''pid'', JNum (wv_pid wv)), (''intentId'', JStr (ws_intentId st)),
       (''observations'', JArr observations), (''final'', json_or_null final), (''passed'', JBool (worker_passed final))]"

text \<open>The value is the exit code; an exception ends the process.\<close>

definition worker_run :: "'s worker_env \<Rightarrow> WorkerSettings \<Rightarrow> ('s, int) prog" where
  "worker_run wv st =
    (let env = (wv_client wv)\<lparr>ce_options := ws_options st\<rparr> in
     then_do (do_read (\<lambda>s. (ce_now env s, s))) (\<lambda>startedAt.
     then_do (do_loop id (\<lambda>s. worker_loop env (ws_intentId st) (ws_pollMs st) (map_option (\<lambda>n. ce_now env s + n) (ws_timeoutMs st)) [] None s))
       (\<lambda>(observations, final).
     then_do (do_read (\<lambda>s. (ce_now env s, s))) (\<lambda>finishedAt.
     then_do (do_live (wv_write wv (ws_output st)
       (json_pretty 0 (worker_document wv st startedAt finishedAt observations final) @ [CHR 0x0A]))) (\<lambda>_.
     give (if worker_passed final then 0 else 2))))))"

definition worker_main :: "'s worker_env \<Rightarrow> ('s, int) prog" where
  "worker_main wv = then_do (do_live (lift_sum (worker_settings (wv_process wv)))) (worker_run wv)"

text \<open>
  The process as the suite starts it (\<open>runRecoveryWorker\<close>): its own environment with two more
  variables, and the exit code of an uncaught exception.
\<close>

definition with_variables :: "process_env \<Rightarrow> (string \<times> string) list \<Rightarrow> process_env" where
  "with_variables pe vars = pe\<lparr>pe_env := (\<lambda>n. case map_of vars n of Some v \<Rightarrow> Some v | None \<Rightarrow> pe_env pe n)\<rparr>"

definition recovery_env :: "process_env \<Rightarrow> string \<Rightarrow> string \<Rightarrow> process_env" where
  "recovery_env pe intentId output =
     with_variables pe [(''CELLFLOW_RECOVERY_INTENT_ID'', intentId), (''CELLFLOW_RECOVERY_OUTPUT'', output)]"

definition runRecoveryWorker :: "'s worker_env \<Rightarrow> string \<Rightarrow> string \<Rightarrow> 's \<Rightarrow> (int \<times> 's) option" where
  "runRecoveryWorker wv intentId output s =
    (case worker_main (wv\<lparr>wv_process := recovery_env (wv_process wv) intentId output\<rparr>) s of
       None \<Rightarrow> None
     | Some (Inl e, t) \<Rightarrow> Some (1, t)
     | Some (Inr code, t) \<Rightarrow> Some (code, t))"


section \<open>What the worker reports\<close>

text \<open>
  The states between the rounds of the worker, with the last view it read: in each round the deadline
  has not passed, the intent is reconciled (whatever comes of that), it is read, and the view is no end.
\<close>

inductive visits :: "'s client_env \<Rightarrow> string \<Rightarrow> int option \<Rightarrow> timestamp option \<Rightarrow> 's \<Rightarrow> json option \<Rightarrow> 's \<Rightarrow> bool"
    for env intentId pollMs deadline s where
  start: "visits env intentId pollMs deadline s None s"
| again: "visits env intentId pollMs deadline s final u \<Longrightarrow> before_deadline (ce_now env u) deadline \<Longrightarrow>
    client_reconcile env intentId u = (r, t) \<Longrightarrow> client_get env intentId False t = (Inr view, v) \<Longrightarrow>
    \<not> worker_passed view \<Longrightarrow> \<not> worker_ended view \<Longrightarrow>
    visits env intentId pollMs deadline s view (ce_sleep env (timer_ms pollMs) v)"

text \<open>It stops with the view it read last: at the deadline, or in a round whose view is an end.\<close>

definition stops :: "'s client_env \<Rightarrow> string \<Rightarrow> int option \<Rightarrow> timestamp option \<Rightarrow> 's \<Rightarrow> json option \<Rightarrow> 's \<Rightarrow> bool" where
  "stops env intentId pollMs deadline s view v \<longleftrightarrow>
     (visits env intentId pollMs deadline s view v \<and> \<not> before_deadline (ce_now env v) deadline)
     \<or> (\<exists>final u r t. visits env intentId pollMs deadline s final u \<and> before_deadline (ce_now env u) deadline
          \<and> client_reconcile env intentId u = (r, t) \<and> client_get env intentId False t = (Inr view, v)
          \<and> (worker_passed view \<or> worker_ended view))"

lemma before_measure: "before_deadline n deadline \<Longrightarrow> n < m \<Longrightarrow>
    nat (case deadline of None \<Rightarrow> 0 | Some d \<Rightarrow> d - m) < nat (case deadline of None \<Rightarrow> 0 | Some d \<Rightarrow> d - n)"
  by (auto simp: before_deadline_def split: option.splits)

lemma round_lasts:
  assumes clock: "clock_laws env False" and r: "client_reconcile env i s = (r, t)" and g: "client_get env i False t = (x, u)"
  shows "ce_now env s < ce_now env (ce_sleep env (timer_ms pollMs) u)"
proof -
  have "keeps (\<lambda>s t. clock_laws env False \<longrightarrow> ce_now env s \<le> ce_now env t) (client_reconcile env i)"
    unfolding client_reconcile_def intent_present_def by (auto intro!: clocked.parts clocked.request_keeps clocked.get_keeps split: option.split)
  then have "ce_now env s \<le> ce_now env (snd (client_reconcile env i s))" using clock by (simp add: keeps_def)
  then have "ce_now env s \<le> ce_now env t" by (simp add: r)
  moreover have "ce_now env t \<le> ce_now env u" using keepsD [OF clocked.get_keeps g] clock by blast
  moreover have "ce_now env u + timer_ms pollMs \<le> ce_now env (ce_sleep env (timer_ms pollMs) u)"
    using clock by (simp add: clock_laws_def signal_aborted_def)
  moreover have "1 \<le> timer_ms pollMs" by (auto simp: timer_ms_def split: option.split)
  ultimately show ?thesis by linarith
qed

lemma worker_stops:
  assumes clock: "clock_laws env False"
  shows "visits env i pollMs deadline s0 final s \<Longrightarrow>
    \<exists>x v. worker_loop env i pollMs deadline observations final s = Some (x, v)
      \<and> (\<forall>os view. x = Inr (os, view) \<longrightarrow> stops env i pollMs deadline s0 view v)"
proof (induction "nat (case deadline of None \<Rightarrow> 0 | Some d \<Rightarrow> d - ce_now env s)" arbitrary: observations final s rule: less_induct)
  case less
  obtain r t where r: "client_reconcile env i s = (r, t)" by fastforce
  obtain x u where g: "client_get env i False t = (x, u)" by fastforce
  consider "\<not> before_deadline (ce_now env s) deadline" | e where "before_deadline (ce_now env s) deadline" "x = Inl e"
    | view where "before_deadline (ce_now env s) deadline" "x = Inr view" "worker_passed view \<or> worker_ended view"
    | view where "before_deadline (ce_now env s) deadline" "x = Inr view" "\<not> worker_passed view" "\<not> worker_ended view"
    by (cases x) auto
  then show ?case
  proof cases
    case 1
    with less.prems show ?thesis by (subst worker_loop.simps) (simp add: stops_def)
  next
    case 2
    with r g show ?thesis by (subst worker_loop.simps) simp
  next
    case (3 view)
    with less.prems r g have "stops env i pollMs deadline s0 view u" unfolding stops_def by blast
    with 3 r g show ?thesis by (subst worker_loop.simps) (simp add: Let_def)
  next
    case (4 view)
    from 4 g have g': "client_get env i False t = (Inr view, u)" by simp
    have "visits env i pollMs deadline s0 view (ce_sleep env (timer_ms pollMs) u)"
      by (rule visits.again [OF less.prems 4(1) r g' 4(3,4)])
    from less.hyps [OF before_measure [OF 4(1) round_lasts [OF clock r g]] this] 4 r g show ?thesis
      by (subst worker_loop.simps) (simp add: Let_def)
  qed
qed

lemma clock_laws_options [simp]: "clock_laws (env\<lparr>ce_options := o'\<rparr>) b = clock_laws env b"
  by (simp add: clock_laws_def signal_aborted_def)

lemma worker_exits: "runRecoveryWorker wv i output s =
    (case worker_main (wv\<lparr>wv_process := recovery_env (wv_process wv) i output\<rparr>) s of
       None \<Rightarrow> None | Some (x, t) \<Rightarrow> Some (case x of Inl e \<Rightarrow> 1 | Inr code \<Rightarrow> code, t))"
  by (auto simp: runRecoveryWorker_def split: option.splits sum.splits)

lemma recovery_variables:
  "n \<noteq> ''CELLFLOW_RECOVERY_INTENT_ID'' \<Longrightarrow> n \<noteq> ''CELLFLOW_RECOVERY_OUTPUT'' \<Longrightarrow>
    trimmed_env (recovery_env pe i output) n = trimmed_env pe n"
  by (simp add: trimmed_env_def recovery_env_def with_variables_def)

text \<open>
  Property C14: the recovery worker ends, whatever the service answers and whatever it is configured
  with, as long as pauses last and time does not run backwards. Unless it ends by an exception (exit
  code 1), its last act is to write its document; the document reports the view read last, at the
  deadline or at an end state, and the exit code is 0 exactly if that view is CONFIRMED with no
  assertions but verified ones, and 2 otherwise. Without a credential or an endpoint in its
  environment it ends with 1 before it does anything.
\<close>

theorem worker_reports:
  fixes wv :: "'s worker_env" and i out :: string
  assumes "clock_laws (wv_client wv) False"
  defines "pe \<equiv> recovery_env (wv_process wv) i out"
  shows "\<exists>code t. runRecoveryWorker wv i out s = Some (code, t)
    \<and> (code \<noteq> 1 \<longrightarrow> (\<exists>st env final v observations. worker_settings pe = Inr st \<and> env = (wv_client wv)\<lparr>ce_options := ws_options st\<rparr>
        \<and> stops env (ws_intentId st) (ws_pollMs st) (map_option (\<lambda>n. ce_now env s + n) (ws_timeoutMs st)) s final v
        \<and> wv_write wv (ws_output st) (json_pretty 0 (worker_document wv st (ce_now env s) (ce_now env v) observations final) @ [CHR 0x0A]) v
            = (Inr (), t)
        \<and> code = (if worker_passed final then 0 else 2)))
    \<and> (trimmed_env (wv_process wv) ''CELLFLOW_URL'' = None \<or> trimmed_env (wv_process wv) ''CELLFLOW_API_KEY'' = None \<longrightarrow> code = 1 \<and> t = s)"
proof (cases "worker_settings pe")
  case (Inl e)
  then have "runRecoveryWorker wv i out s = Some (1, s)"
    by (simp add: runRecoveryWorker_def worker_main_def then_do_def do_live_def do_tracked_def raise_as_def lift_sum_def pe_def [symmetric])
  then show ?thesis by simp
next
  case (Inr st)
  let ?env = "(wv_client wv)\<lparr>ce_options := ws_options st\<rparr>"
  let ?dl = "map_option (\<lambda>n. ce_now ?env s + n) (ws_timeoutMs st)"
  have "clock_laws ?env False" using assms(1) by simp
  from worker_stops [OF this visits.start] obtain x v where
    l: "worker_loop ?env (ws_intentId st) (ws_pollMs st) ?dl [] None s = Some (x, v)"
      "\<forall>os view. x = Inr (os, view) \<longrightarrow> stops ?env (ws_intentId st) (ws_pollMs st) ?dl s view v" by blast
  have given: "\<not> (trimmed_env (wv_process wv) ''CELLFLOW_URL'' = None \<or> trimmed_env (wv_process wv) ''CELLFLOW_API_KEY'' = None)"
    using Inr by (auto simp: pe_def recovery_variables worker_settings_def split: option.splits)
  have run: "worker_main (wv\<lparr>wv_process := pe\<rparr>) s = worker_run (wv\<lparr>wv_process := pe\<rparr>) st s"
    by (simp add: worker_main_def then_do_def do_live_def do_tracked_def raise_as_def lift_sum_def Inr)
  show ?thesis
  proof (cases x)
    case (Inl e)
    then have "\<exists>e. worker_run (wv\<lparr>wv_process := pe\<rparr>) st s = Some (Inl e, v)"
      using l(1) by (simp add: worker_run_def Let_def then_do_def do_read_def do_loop_def)
    then have "runRecoveryWorker wv i out s = Some (1, v)" by (auto simp: worker_exits pe_def [symmetric] run)
    with given show ?thesis by auto
  next
    case (Inr y)
    obtain os final where y: "y = (os, final)" by fastforce
    let ?doc = "json_pretty 0 (worker_document wv st (ce_now ?env s) (ce_now ?env v) os final) @ [CHR 0x0A]"
    obtain z t where z: "wv_write wv (ws_output st) ?doc v = (z, t)" by fastforce
    have d: "worker_document (wv\<lparr>wv_process := pe\<rparr>) = worker_document wv" by (simp add: fun_eq_iff worker_document_def)
    have "worker_run (wv\<lparr>wv_process := pe\<rparr>) st s
        = Some (case z of Inl e \<Rightarrow> Inl (Raised (OtherError e)) | Inr u \<Rightarrow> Inr (if worker_passed final then 0 else 2), t)"
      using l(1) z by (simp add: worker_run_def Let_def then_do_def do_read_def do_loop_def do_live_def do_tracked_def raise_as_def give_def
          Inr y d ret_def split: sum.splits)
    then have r: "runRecoveryWorker wv i out s = Some (case z of Inl e \<Rightarrow> 1 | Inr u \<Rightarrow> (if worker_passed final then 0 else 2), t)"
      by (simp add: worker_exits pe_def [symmetric] run split: sum.splits)
    show ?thesis
    proof (cases z)
      case (Inr u)
      with z have "wv_write wv (ws_output st) ?doc v = (Inr (), t)" by simp
      with l(2) Inr \<open>x = Inr y\<close> y \<open>worker_settings pe = Inr st\<close> r given show ?thesis by auto
    qed (use r given in auto)
  qed
qed


section \<open>The credential of the worker\<close>

text \<open>Without an endpoint or a key of its own in the environment the process ends before it does anything.\<close>

lemma worker_refuses:
  assumes "trimmed_env (wv_process wv) ''CELLFLOW_URL'' = None \<or> trimmed_env (wv_process wv) ''CELLFLOW_API_KEY'' = None"
  shows "runRecoveryWorker wv i output s = Some (1, s)"
proof -
  let ?pe = "recovery_env (wv_process wv) i output"
  have "trimmed_env ?pe ''CELLFLOW_URL'' = None \<or> trimmed_env ?pe ''CELLFLOW_API_KEY'' = None"
    using assms by (simp add: recovery_variables)
  then have "\<exists>e. worker_settings ?pe = Inl e"
    by (cases "trimmed_env ?pe ''CELLFLOW_URL''") (simp_all add: worker_settings_def)
  then obtain e where "worker_settings ?pe = Inl e" by blast
  then show ?thesis
    by (simp add: runRecoveryWorker_def worker_main_def then_do_def do_live_def do_tracked_def raise_as_def lift_sum_def)
qed

text \<open>The child process of the harness is the worker, and the file it is to write does not exist before.\<close>

definition worker_plugged :: "('s, 'tx) harness \<Rightarrow> 's worker_env \<Rightarrow> bool" where
  "worker_plugged h wv \<longleftrightarrow> wv_process wv = lv_process (hn_live h)
     \<and> (\<forall>i output s code t. runRecoveryWorker wv i output s = Some (code, t) \<longrightarrow> hn_worker h i output s = (Inr (JNum code), t))"

lemma recover_fails:
  assumes "worker_plugged h wv"
    and "trimmed_env (lv_process (hn_live h)) ''CELLFLOW_URL'' = None \<or> trimmed_env (lv_process (hn_live h)) ''CELLFLOW_API_KEY'' = None"
    and "\<And>s. \<exists>e t. hn_read h (hn_outDir h @ ''/40-new-process-recovery-worker.json'') s = (Inl e, t)"
  shows "recover h i s \<noteq> Some (Inr v, t)"
proof -
  let ?file = "hn_outDir h @ ''/40-new-process-recovery-worker.json''"
  have "runRecoveryWorker wv i ?file s = Some (1, s)" using worker_refuses [of wv i ?file s] assms(1,2) by (simp add: worker_plugged_def)
  then have "hn_worker h i ?file s = (Inr (JNum 1), s)" using assms(1) by (simp add: worker_plugged_def)
  moreover obtain e u where "hn_read h ?file s = (Inl e, u)" using assms(3) by blast
  ultimately show ?thesis by (simp add: recover_def Let_def then_do_def do_live_def do_tracked_def raise_as_def andThen_def)
qed

lemma recovery_unfinished:
  assumes "\<And>s v t. recover h (hn_runId h @ '':ambiguous'') s \<noteq> Some (Inr v, t)"
  shows "runAmbiguousRecovery h address s \<noteq> Some (Inr v, t)"
  using assms unfolding runAmbiguousRecovery_def Let_def by (auto simp: then_do_Inr)

text \<open>
  The harness accepts a credential it derives from the bootstrap token, and a default endpoint, but it
  starts the worker of its recovery scenario with its own environment, where the worker requires both
  to be set. A run without them that does not resume earlier results and finds no file of an earlier
  worker therefore never ends with exit code 0.
\<close>

lemma derived_credential_never_passes:
  assumes "worker_plugged h wv"
    and "trimmed_env (lv_process (hn_live h)) ''CELLFLOW_URL'' = None \<or> trimmed_env (lv_process (hn_live h)) ''CELLFLOW_API_KEY'' = None"
    and "\<And>s. \<exists>e t. hn_read h (hn_outDir h @ ''/40-new-process-recovery-worker.json'') s = (Inl e, t)"
    and "\<not> st_resume (hn_settings h)"
  shows "live_suite h s \<noteq> Some (Inr 0, t)"
proof
  assume "live_suite h s = Some (Inr 0, t)"
  then have "all_passed h" using suite_codes [of h s] by fastforce
  then obtain ctx u results w where run: "run_scenarios [] (suite_scenarios h ctx) u = Some ((results, None), w)"
    by (auto simp: all_passed_def)
  then obtain s' v t' where "runOrResumeScenario h ''40-ambiguous-recovery.json'' ''real-broadcast-injected-lost-response-recovery''
      (runAmbiguousRecovery h (sx_addressA ctx)) s' = Some (Inr v, t')"
    by (auto simp: suite_scenarios_def split: option.splits sum.splits prod.splits)
  then have "runAmbiguousRecovery h (sx_addressA ctx) s' = Some (Inr v, t')"
    using assms(4) by (simp add: runOrResumeScenario_def Let_def)
  with recovery_unfinished [of h] recover_fails [OF assms(1,2,3)] show False by blast
qed


section \<open>A service with a confirmed intent\<close>

definition confirmed_worker :: "int worker_env" where
  "confirmed_worker = \<lparr>wv_process = \<lparr>pe_env = [''CELLFLOW_URL'' \<mapsto> ''https://a'', ''CELLFLOW_API_KEY'' \<mapsto> ''k''], pe_number = (\<lambda>_. None), pe_hmac = (\<lambda>k v. v)\<rparr>,
     wv_client = pending_env\<lparr>ce_fetch := (\<lambda>ms rq s. (Responded 200 (Some (JObj [(''intent'', JObj [(''status'', JStr ''CONFIRMED'')])])), s + 1))\<rparr>,
     wv_pid = 7, wv_write = (\<lambda>p c s. (Inr (), s + 100))\<rparr>"

lemma confirmed_request:
  "request (wv_client confirmed_worker\<lparr>ce_options := o'\<rparr>) path init n
     = (Inr (JObj [(''intent'', JObj [(''status'', JStr ''CONFIRMED'')])]), n + 1)"
proof -
  obtain k where "request_attempts o' = Suc k" using attempts_bounds [of o'] by (metis not0_implies_Suc not_one_le_zero)
  then show ?thesis
    by (simp add: request_def Let_def confirmed_worker_def pending_env_def throwIfAborted_def signal_aborted_def andThen_def lift_sum_def
        read_response_def response_ok_def ret_def)
qed

lemma confirmed_calls:
  "client_get (wv_client confirmed_worker\<lparr>ce_options := o'\<rparr>) i b n = (Inr (Some (JObj [(''status'', JStr ''CONFIRMED'')])), n + 1)"
  "client_reconcile (wv_client confirmed_worker\<lparr>ce_options := o'\<rparr>) i n = (Inr (JObj [(''status'', JStr ''CONFIRMED'')]), n + 2)"
  by (simp_all add: client_reconcile_def client_get_def confirmed_request andThen_def tryCatch_def intent_of_def ret_def js_field_def intent_present_def)

lemma confirmed_settings:
  "\<exists>st. worker_settings (recovery_env (wv_process confirmed_worker) ''order-1'' ''out.json'') = Inr st \<and> ws_timeoutMs st = Some 900000"
proof -
  have "trimmed_env (recovery_env (wv_process confirmed_worker) ''order-1'' ''out.json'') n = Some v"
    if "(n, v) \<in> {(''CELLFLOW_URL'', ''https://a''), (''CELLFLOW_API_KEY'', ''k''), (''CELLFLOW_RECOVERY_INTENT_ID'', ''order-1''),
      (''CELLFLOW_RECOVERY_OUTPUT'', ''out.json'')}" for n v
  proof -
    have "js_trim ''https://a'' = ''https://a''" "js_trim ''k'' = ''k''" "js_trim ''order-1'' = ''order-1''" "js_trim ''out.json'' = ''out.json''"
      by code_simp+
    with that show ?thesis
      by (auto simp: trimmed_env_def recovery_env_def with_variables_def confirmed_worker_def or_null_def truthy_def)
  qed
  then show ?thesis
    by (simp add: worker_settings_def) (simp add: number_or_def recovery_env_def with_variables_def confirmed_worker_def or_null_def)
qed

lemma confirmed_run: "\<exists>t. runRecoveryWorker confirmed_worker ''order-1'' ''out.json'' 0 = Some (0, t)"
proof -
  obtain st where st: "worker_settings (recovery_env (wv_process confirmed_worker) ''order-1'' ''out.json'') = Inr st" "ws_timeoutMs st = Some 900000"
    using confirmed_settings by blast
  let ?env = "(wv_client confirmed_worker)\<lparr>ce_options := ws_options st\<rparr>"
  let ?view = "Some (JObj [(''status'', JStr ''CONFIRMED'')])"
  have now: "ce_now (wv_client confirmed_worker) n = n" for n by (simp add: confirmed_worker_def pending_env_def)
  have passed: "worker_passed ?view" by (simp add: worker_passed_def view_is_def get_def)
  have "\<exists>os. worker_loop ?env (ws_intentId st) (ws_pollMs st) (Some 900000) [] None 0 = Some (Inr (os, ?view), 3)"
    by (subst worker_loop.simps) (simp add: before_deadline_def now confirmed_calls Let_def passed)
  moreover have "wv_write confirmed_worker p c n = (Inr (), n + 100)" for p c n by (simp add: confirmed_worker_def)
  ultimately show ?thesis
    using st by (auto simp: worker_exits worker_main_def worker_run_def Let_def then_do_def do_read_def do_loop_def do_live_def do_tracked_def
        raise_as_def lift_sum_def give_def ret_def now passed)
qed

lemma visits_unfinished: "visits env i pollMs deadline s final v \<Longrightarrow> \<not> worker_passed final"
  by (induction rule: visits.induct) (simp_all add: worker_passed_def view_is_def get_def)

theorem worker_reports_witness:
  "\<exists>st v observations t. runRecoveryWorker confirmed_worker ''order-1'' ''out.json'' 0 = Some (0, t)
     \<and> wv_write confirmed_worker (ws_output st) (json_pretty 0 (worker_document confirmed_worker st 0 v observations
           (Some (JObj [(''status'', JStr ''CONFIRMED'')]))) @ [CHR 0x0A]) v = (Inr (), t)"
proof -
  have clock: "clock_laws (wv_client confirmed_worker) False" by (simp add: clock_laws_def pending_env_def confirmed_worker_def)
  obtain t where t: "runRecoveryWorker confirmed_worker ''order-1'' ''out.json'' 0 = Some (0, t)" using confirmed_run by blast
  from worker_reports [OF clock, of "''order-1''" "''out.json''" 0] t obtain st final v os where
    w: "stops ((wv_client confirmed_worker)\<lparr>ce_options := ws_options st\<rparr>) (ws_intentId st) (ws_pollMs st)
        (map_option (\<lambda>n. ce_now ((wv_client confirmed_worker)\<lparr>ce_options := ws_options st\<rparr>) 0 + n) (ws_timeoutMs st)) 0 final v"
      "wv_write confirmed_worker (ws_output st) (json_pretty 0 (worker_document confirmed_worker st
         (ce_now ((wv_client confirmed_worker)\<lparr>ce_options := ws_options st\<rparr>) 0)
         (ce_now ((wv_client confirmed_worker)\<lparr>ce_options := ws_options st\<rparr>) v) os final) @ [CHR 0x0A]) v = (Inr (), t)"
      "worker_passed final"
    by (auto split: if_splits)
  have "final = Some (JObj [(''status'', JStr ''CONFIRMED'')])"
    using w(1,3) unfolding stops_def by (auto simp: confirmed_calls dest: visits_unfinished)
  moreover have "ce_now (wv_client confirmed_worker) n = n" for n by (simp add: confirmed_worker_def pending_env_def)
  ultimately show ?thesis using w(2) t by auto
qed

end
