(* ===== verification/ReviewBundle.thy ===== *)
theory ReviewBundle
  imports LiveSuite
begin

text \<open>
  Models scripts/evidence/package-review-bundle.mjs: the packaging of the evidence of a finished run
  for a reviewer. It refuses runs that are not a full PASS of the expected release, redacts what
  looks like a credential, and writes a manifest and checksums that it verifies itself. The files are
  a map from paths to texts; \<open>JSON.parse\<close>, SHA-256 and the URL class are parameters.
\<close>

section \<open>Redaction\<close>

definition opt_any :: rx where
  "opt_any = Maybe Any"

definition SENSITIVE_KEY :: rx where
  "SENSITIVE_KEY = any_of
    [all_of [Lit ''private'', opt_any, Lit ''key''], all_of [Lit ''api'', opt_any, Lit ''key''], Lit ''bearer'', Lit ''authorization'',
     Lit ''password'', Lit ''secret'', Lit ''mnemonic'', all_of [Lit ''seed'', opt_any, Lit ''phrase''], Lit ''cookie'', Lit ''credential'',
     all_of [Lit ''database'', opt_any, Lit ''url''], all_of [Lit ''access'', opt_any, Lit ''token''],
     all_of [Lit ''refresh'', opt_any, Lit ''token''], all_of [Lit ''signature'', opt_any, Lit ''key''],
     all_of [Lit ''signing'', opt_any, Lit ''key''], Lit ''encrypted'']"

definition URL_CREDENTIAL_PARAM :: rx where
  "URL_CREDENTIAL_PARAM = any_of [Lit ''token'', Lit ''key'', Lit ''secret'', Lit ''password'', Lit ''authorization'', Lit ''auth'',
     Lit ''signature'', Lit ''credential'']"

text \<open>
  \<open>SENSITIVE_VALUE\<close>: the length of the match of one of its alternatives at the head of a text, whose
  characters before it end in \<open>prev\<close>; 0 when there is none. Case is ignored.
\<close>

definition is_token_char :: "char \<Rightarrow> bool" where
  "is_token_char c \<longleftrightarrow> is_alnum c \<or> c = CHR ''_'' \<or> c = CHR ''-''"

definition is_bearer_char :: "char \<Rightarrow> bool" where
  "is_bearer_char c \<longleftrightarrow> is_alnum c \<or> c \<in> set ''._~+/-''"

definition ci_prefix :: "string \<Rightarrow> string \<Rightarrow> bool" where
  "ci_prefix p s \<longleftrightarrow> map ascii_fold (take (length p) s) = p"

definition prefixed_run :: "string \<Rightarrow> (char \<Rightarrow> bool) \<Rightarrow> nat \<Rightarrow> string \<Rightarrow> nat" where
  "prefixed_run p P least s =
    (let k = length (takeWhile P (drop (length p) s)) in if ci_prefix p s \<and> least \<le> k then length p + k else 0)"

definition bearer_run :: "char option \<Rightarrow> string \<Rightarrow> nat" where
  "bearer_run prev s =
    (let blanks = length (takeWhile is_js_space (drop 6 s)); k = length (takeWhile is_bearer_char (drop (6 + blanks) s)) in
     if \<not> is_word_char prev \<and> ci_prefix ''bearer'' s \<and> 1 \<le> blanks \<and> 12 \<le> k then 6 + blanks + k else 0)"

definition secret_match :: "char option \<Rightarrow> string \<Rightarrow> nat" where
  "secret_match prev s =
    (let live = prefixed_run ''cf_live_'' is_token_char 20 s; hook = prefixed_run ''whsec_'' is_token_char 20 s in
     if 0 < live then live else if 0 < hook then hook else bearer_run prev s)"

function redact_values :: "char option \<Rightarrow> string \<Rightarrow> string" where
  "redact_values prev [] = []"
| "redact_values prev (c # cs) =
    (let n = secret_match prev (c # cs) in
     if 0 < n then ''[REDACTED]'' @ redact_values (Some (last (take n (c # cs)))) (drop n (c # cs))
     else c # redact_values (Some c) cs)"
  by pat_completeness auto
termination by (relation "measure (\<lambda>(prev, s). length s)") auto

text \<open>The URL class: its parser, user information, parameter names, and the two updates.\<close>

record 'u url_class =
  uc_parse :: "string \<Rightarrow> 'u option"
  uc_userinfo :: "'u \<Rightarrow> bool"
  uc_hideUser :: "'u \<Rightarrow> 'u"
  uc_keys :: "'u \<Rightarrow> string list"
  uc_hideParam :: "string \<Rightarrow> 'u \<Rightarrow> 'u"
  uc_text :: "'u \<Rightarrow> string"

definition redact_url :: "'u url_class \<Rightarrow> string \<Rightarrow> string" where
  "redact_url uc candidate =
    (case uc_parse uc candidate of
       None \<Rightarrow> candidate
     | Some parsed \<Rightarrow>
         let visible = (if uc_userinfo uc parsed then uc_hideUser uc parsed else parsed) in
         uc_text uc (fold (uc_hideParam uc) (filter (rx_test URL_CREDENTIAL_PARAM) (uc_keys uc visible)) visible))"

text \<open>\<open>/https?:\/\/[^\s"'<>]+/gi\<close>: the length of the match at the head of a text.\<close>

definition url_char :: "char \<Rightarrow> bool" where
  "url_char c \<longleftrightarrow> \<not> is_js_space c \<and> code_unit c \<notin> {34, 39, 60, 62}"

definition url_match :: "string \<Rightarrow> nat" where
  "url_match s = (if 0 < prefixed_run ''https://'' url_char 1 s then prefixed_run ''https://'' url_char 1 s
     else prefixed_run ''http://'' url_char 1 s)"

function redact_urls :: "(string \<Rightarrow> string) \<Rightarrow> string \<Rightarrow> string" where
  "redact_urls f [] = []"
| "redact_urls f (c # cs) =
    (let n = url_match (c # cs) in
     if 0 < n then f (take n (c # cs)) @ redact_urls f (drop n (c # cs)) else c # redact_urls f cs)"
  by pat_completeness auto
termination by (relation "measure (\<lambda>(f, s). length s)") auto

definition redactString :: "'u url_class \<Rightarrow> string \<Rightarrow> string" where
  "redactString uc value' = redact_urls (redact_url uc) (redact_values None value')"

fun redactEvidence :: "'u url_class \<Rightarrow> json \<Rightarrow> json" where
  "redactEvidence uc (JArr xs) = JArr (map (redactEvidence uc) xs)"
| "redactEvidence uc (JObj fs) =
     JObj (map (\<lambda>(k, v). (k, if rx_test SENSITIVE_KEY k then JStr ''[REDACTED]'' else redactEvidence uc v)) fs)"
| "redactEvidence uc (JStr s) = JStr (redactString uc s)"
| "redactEvidence uc v = v"


section \<open>Recorded responses\<close>

definition is_object :: "json \<Rightarrow> bool" where
  "is_object v \<longleftrightarrow> (case v of JObj fs \<Rightarrow> True | _ \<Rightarrow> False)"

definition has_key :: "json \<Rightarrow> string \<Rightarrow> bool" where
  "has_key v k \<longleftrightarrow> get (Some v) k \<noteq> None"

text \<open>The numbers of the model are integers.\<close>

definition success_status :: "json option \<Rightarrow> bool" where
  "success_status v \<longleftrightarrow> (case v of Some (JNum n) \<Rightarrow> 200 \<le> n \<and> n < 300 | _ \<Rightarrow> False)"

definition unwrapHttpEvidence :: "json \<Rightarrow> string \<Rightarrow> js_error + json" where
  "unwrapHttpEvidence entry label =
    (if \<not> is_object entry then Inl (plain_failure (label @ '': missing JSON object''))
     else if has_key entry ''responseOk'' \<or> has_key entry ''status'' \<or> has_key entry ''body'' then
       (if get (Some entry) ''responseOk'' \<noteq> Some (JBool True) \<or> \<not> success_status (get (Some entry) ''status'') then
          Inl (plain_failure (label @ '': unsuccessful recorded HTTP response''))
        else case get (Some entry) ''body'' of
          Some (JObj fs) \<Rightarrow> Inr (JObj fs)
        | _ \<Rightarrow> Inl (plain_failure (label @ '': invalid HTTP JSON body'')))
     else Inr entry)"


section \<open>Files\<close>

type_synonym files = "string \<Rightarrow> string option"
type_synonym 'a bundling = "(files, js_error, 'a) action"

record 'u bundle_lib =
  bl_parse :: "string \<Rightarrow> js_error + json"
  bl_sha256 :: "nat list \<Rightarrow> nat list"
  bl_newURL :: "string \<Rightarrow> ParsedUrl option"
  bl_urls :: "'u url_class"

definition enoent :: js_error where
  "enoent = JsError ''Error'' ''ENOENT: no such file or directory'' [(''code'', JStr ''ENOENT'')] None"

definition path_in :: "string \<Rightarrow> string \<Rightarrow> string" where
  "path_in folder name = folder @ CHR ''/'' # name"

definition read_file :: "string \<Rightarrow> string \<Rightarrow> string bundling" where
  "read_file folder name = (\<lambda>fs. (case fs (path_in folder name) of Some contents \<Rightarrow> Inr contents | None \<Rightarrow> Inl enoent, fs))"

definition write_file :: "string \<Rightarrow> string \<Rightarrow> string \<Rightarrow> unit bundling" where
  "write_file folder name contents = modifyState (\<lambda>fs. fs(path_in folder name \<mapsto> contents))"

definition readJson_file :: "'u bundle_lib \<Rightarrow> string \<Rightarrow> string \<Rightarrow> json bundling" where
  "readJson_file bl folder name = andThen (read_file folder name) (\<lambda>contents. lift_sum (bl_parse bl contents))"

definition digest :: "'u bundle_lib \<Rightarrow> string \<Rightarrow> string" where
  "digest bl contents = sha256_text (bl_sha256 bl) contents"

definition jsonText :: "json \<Rightarrow> string" where
  "jsonText v = json_pretty 0 v @ [CHR 0x0A]"


section \<open>Verifying a bundle\<close>

text \<open>\<open>/^[A-Za-z0-9][A-Za-z0-9._-]*$/\<close> and \<open>/^[0-9a-f]{64}$/\<close>.\<close>

definition is_file_name :: "string \<Rightarrow> bool" where
  "is_file_name s \<longleftrightarrow> s \<noteq> [] \<and> is_alnum (hd s) \<and> list_all (\<lambda>c. is_alnum c \<or> c \<in> set ''._-'') (tl s)"

definition is_digest :: "string \<Rightarrow> bool" where
  "is_digest s \<longleftrightarrow> length s = 64 \<and> list_all is_hex_lower s"

fun split_lines :: "string \<Rightarrow> string \<Rightarrow> string list" where
  "split_lines acc [] = [rev acc]"
| "split_lines acc (c # cs) = (if c = CHR 0x0A then rev acc # split_lines [] cs else split_lines (c # acc) cs)"

definition checksum_entry :: "string \<Rightarrow> (string \<times> string) option" where
  "checksum_entry line = (if is_digest (take 64 line) \<and> take 2 (drop 64 line) = ''  '' \<and> is_file_name (drop 66 line)
     then Some (take 64 line, drop 66 line) else None)"

fun verify_lines :: "'u bundle_lib \<Rightarrow> string \<Rightarrow> string set \<Rightarrow> string set \<Rightarrow> string list \<Rightarrow> unit bundling" where
  "verify_lines bl folder expectedNames met [] = ret ()"
| "verify_lines bl folder expectedNames met (line # lines) =
    (case checksum_entry line of
       None \<Rightarrow> throw (plain_failure (''Invalid checksum entry: '' @ line))
     | Some (expected, name) \<Rightarrow>
         if name \<notin> expectedNames \<or> name \<in> met then throw (plain_failure (''Unexpected/duplicate checksum entry: '' @ name))
         else andThen (read_file folder name) (\<lambda>contents.
           if digest bl contents \<noteq> expected then throw (plain_failure (''Checksum mismatch: '' @ name))
           else verify_lines bl folder expectedNames (insert name met) lines))"

definition artifact_file :: "json \<Rightarrow> string option" where
  "artifact_file a = (case get (Some a) ''file'' of Some (JStr f) \<Rightarrow> Some f | _ \<Rightarrow> None)"

definition artifact_digest :: "json \<Rightarrow> string option" where
  "artifact_digest a = (case get (Some a) ''sha256'' of Some (JStr d) \<Rightarrow> Some d | _ \<Rightarrow> None)"

fun verify_artifacts :: "'u bundle_lib \<Rightarrow> string \<Rightarrow> json list \<Rightarrow> unit bundling" where
  "verify_artifacts bl folder [] = ret ()"
| "verify_artifacts bl folder (a # rest) =
    (let name = text_or_empty (artifact_file a);
         mismatch = plain_failure (''Manifest artifact digest/size mismatch: '' @ name) in
     case artifact_digest a of
       None \<Rightarrow> throw mismatch
     | Some d \<Rightarrow>
         if \<not> is_digest d then throw mismatch
         else andThen (read_file folder name) (\<lambda>contents.
           if digest bl contents \<noteq> d \<or> get (Some a) ''bytes'' \<noteq> Some (JNum (int (length (utf8_encode contents)))) then throw mismatch
           else verify_artifacts bl folder rest))"

definition verify_bundle :: "'u bundle_lib \<Rightarrow> string \<Rightarrow> unit bundling" where
  "verify_bundle bl folder =
     andThen (readJson_file bl folder ''manifest.json'') (\<lambda>manifest.
     andThen (read_file folder ''SHA256SUMS'') (\<lambda>contents.
     case get (Some manifest) ''artifacts'' of
       Some (JArr artifacts) \<Rightarrow>
         if list_ex (\<lambda>a. case artifact_file a of None \<Rightarrow> True | Some f \<Rightarrow> \<not> is_file_name f) artifacts then
           throw (plain_failure ''Invalid manifest artifacts'')
         else
           let lines = split_lines [] (js_trim contents);
               names = set ([''manifest.json'', ''README.md''] @ map (\<lambda>a. text_or_empty (artifact_file a)) artifacts) in
           if length lines \<noteq> card names \<or> length artifacts + 2 \<noteq> card names then
             throw (plain_failure ''Manifest and checksum file counts differ'')
           else andThen (verify_lines bl folder names {} lines) (\<lambda>_.
             andThen (verify_artifacts bl folder artifacts) (\<lambda>_.
             throwIf (get (Some manifest) ''schemaVersion'' \<noteq> Some (JStr ''cellflow-review-bundle-v1'')
               \<or> \<not> is_sha (shown (get (Some manifest) ''releaseSha''))) (plain_failure ''Invalid bundle manifest'')))
     | _ \<Rightarrow> throw (plain_failure ''Invalid manifest artifacts'')))"


section \<open>Creating a bundle\<close>

definition required_files :: "string list" where
  "required_files = [''01-network.json'', ''02-cellflow-readiness.json'', ''10-two-wallet-same-fee-race.json'',
     ''20-two-wallet-higher-fee-rbf.json'', ''30-wallet-input-race.json'', ''40-ambiguous-recovery.json'', ''90-project-evidence.json'',
     ''99-summary.json'']"

definition optional_files :: "string list" where
  "optional_files = [''00-testnet-preflight.json'', ''03-wallets.json'']"

definition EXPECTED_SCENARIOS :: "(string \<times> string) list" where
  "EXPECTED_SCENARIOS =
    [(''10-two-wallet-same-fee-race.json'', ''two-wallet-same-fee-application-contention''),
     (''20-two-wallet-higher-fee-rbf.json'', ''two-wallet-higher-fee-rbf''),
     (''30-wallet-input-race.json'', ''wallet-funding-input-conflict''),
     (''40-ambiguous-recovery.json'', ''real-broadcast-injected-lost-response-recovery'')]"

definition assertSafeSha :: "json option \<Rightarrow> string \<Rightarrow> js_error + string" where
  "assertSafeSha value' message =
    (if \<not> test is_sha value' then Inl (plain_failure (message @ '': require the full 40-character deployed commit SHA''))
     else map_sum (\<lambda>m. JsError ''TypeError'' m [] None) id (lower_value value'))"

fun read_required :: "'u bundle_lib \<Rightarrow> string \<Rightarrow> string list \<Rightarrow> (string \<times> json) list bundling" where
  "read_required bl source [] = ret []"
| "read_required bl source (name # names) =
     andThen (readJson_file bl source name) (\<lambda>v. andThen (read_required bl source names) (\<lambda>rest. ret ((name, v) # rest)))"

text \<open>A missing optional file is skipped; any other failure is thrown.\<close>

fun read_optional :: "'u bundle_lib \<Rightarrow> string \<Rightarrow> string list \<Rightarrow> (string \<times> json) list bundling" where
  "read_optional bl source [] = ret []"
| "read_optional bl source (name # names) = (\<lambda>fs. case readJson_file bl source name fs of
     (Inr v, t) \<Rightarrow> andThen (read_optional bl source names) (\<lambda>rest. ret ((name, v) # rest)) t
   | (Inl e, t) \<Rightarrow> if errorCode 1 e = Some ''ENOENT'' then read_optional bl source names t else (Inl e, t))"

definition network_healthy :: "json \<Rightarrow> bool" where
  "network_healthy e \<longleftrightarrow> get (Some e) ''ok'' = Some (JBool True) \<and> get (Some e) ''chain'' = Some (JStr ''ckb_testnet'')
     \<and> (case get (Some e) ''genesisHash'' of Some (JStr g) \<Rightarrow> is_genesis g | _ \<Rightarrow> False)"

definition network_host :: "'u bundle_lib \<Rightarrow> json \<Rightarrow> string option" where
  "network_host bl e = (case bl_newURL bl (shown (get (Some e) ''url'')) of
     None \<Rightarrow> None
   | Some u \<Rightarrow> if u_protocol u = ''https:'' \<and> u_username u = [] \<and> u_password u = [] then Some (toLowerCase (u_hostname u)) else None)"

definition genesis_text :: "json \<Rightarrow> string" where
  "genesis_text e = toLowerCase (case nullish (get (Some e) ''genesisHash'') None of Some v \<Rightarrow> js_String v | None \<Rightarrow> [])"

definition check_network :: "'u bundle_lib \<Rightarrow> json \<Rightarrow> js_error + json list" where
  "check_network bl network =
    (case network of
       JArr items \<Rightarrow>
         if length items < 2 \<or> \<not> list_all network_healthy items then
           Inl (plain_failure ''Missing independent CKB Testnet RPC identity evidence'')
         else if card (set (map (network_host bl) items)) < 2 \<or> None \<in> set (map (network_host bl) items) then
           Inl (plain_failure ''Require observations from at least two distinct CKB RPC hosts'')
         else if list_ex (\<lambda>e. genesis_text e \<noteq> genesis_text (hd items)) items then
           Inl (plain_failure ''RPC genesis mismatch across endpoints'')
         else Inr items
     | _ \<Rightarrow> Inl (plain_failure ''Missing independent CKB Testnet RPC identity evidence''))"

text \<open>\<open>scenarios.every(s => s.passed === true)\<close>: it reads no further than the first that is not, and throws on null.\<close>

fun every_passed :: "json list \<Rightarrow> js_error + bool" where
  "every_passed [] = Inr True"
| "every_passed (s # ss) =
    (if s = JNull then Inl (JsError ''TypeError'' ''Cannot read properties of null'' [] None)
     else if get (Some s) ''passed'' = Some (JBool True) then every_passed ss else Inr False)"

definition check_summary :: "json \<Rightarrow> js_error + json list" where
  "check_summary summary =
    (let refused = Inl (plain_failure ''Live Testnet suite was not fully successful'') in
     case get (Some summary) ''scenarios'' of
       Some (JArr scenarios) \<Rightarrow>
         if get (Some summary) ''passed'' \<noteq> Some (JBool True) \<or> length scenarios < length EXPECTED_SCENARIOS then refused
         else sum_bind (every_passed scenarios) (\<lambda>passed. if passed then Inr scenarios else refused)
     | _ \<Rightarrow> refused)"

definition check_project :: "json \<Rightarrow> string \<Rightarrow> js_error + unit" where
  "check_project projectExport releaseSha =
    (let evidence = get (Some projectExport) ''evidence'' in
     sum_bind (assertSafeSha (nullish (get (get evidence ''release'') ''commitSha'') (get (get (Some projectExport) ''release'') ''commitSha''))
       ''Project evidence release'') (\<lambda>projectRelease.
     if projectRelease \<noteq> releaseSha then Inl (plain_failure ''Project evidence release SHA does not match hosted readiness'')
     else if nullish (get (get evidence ''project'') ''network'') (get (get (Some projectExport) ''project'') ''network'') \<noteq> Some (JStr ''testnet'')
     then Inl (plain_failure ''Project evidence is not Testnet-scoped'')
     else Inr ()))"

fun check_scenarios :: "(string \<times> json) list \<Rightarrow> json list \<Rightarrow> (string \<times> string) list \<Rightarrow> js_error + unit" where
  "check_scenarios documents scenarios [] = Inr ()"
| "check_scenarios documents scenarios ((name, expectedScenario) # rest) =
    (if get (get (map_of documents name) ''result'') ''passed'' \<noteq> Some (JBool True) then Inl (plain_failure (name @ '' has no PASS result''))
     else if length (filter (\<lambda>s. view_is (Some s) ''name'' expectedScenario \<and> get (Some s) ''passed'' = Some (JBool True)) scenarios) \<noteq> 1
     then Inl (plain_failure (name @ '' is not represented exactly once as PASS in the summary''))
     else check_scenarios documents scenarios rest)"

definition name_malformed :: "json \<Rightarrow> bool" where
  "name_malformed s \<longleftrightarrow> (case get (Some s) ''name'' of Some (JStr n) \<Rightarrow> 200 < length n | _ \<Rightarrow> True)"

record BundleFacts =
  bf_releaseSha :: string
  bf_network :: "json list"
  bf_summary :: json
  bf_scenarios :: "json list"

definition doc :: "(string \<times> json) list \<Rightarrow> string \<Rightarrow> json" where
  "doc documents name = (case map_of documents name of Some v \<Rightarrow> v | None \<Rightarrow> JNull)"

definition check_documents :: "'u bundle_lib \<Rightarrow> (string \<times> json) list \<Rightarrow> string \<Rightarrow> js_error + BundleFacts" where
  "check_documents bl documents expectedSha =
     sum_bind (unwrapHttpEvidence (doc documents ''02-cellflow-readiness.json'') ''Readiness response'') (\<lambda>readiness.
     sum_bind (unwrapHttpEvidence (doc documents ''90-project-evidence.json'') ''Project evidence response'') (\<lambda>projectExport.
     sum_bind (assertSafeSha (get (Some readiness) ''releaseSha'') ''Readiness response'') (\<lambda>releaseSha.
     if releaseSha \<noteq> expectedSha then
       Inl (plain_failure (''Deployed release mismatch: observed '' @ releaseSha @ '', expected '' @ expectedSha))
     else if get (Some readiness) ''ok'' \<noteq> Some (JBool True) then Inl (plain_failure ''Readiness snapshot was not healthy'')
     else
     sum_bind (check_network bl (doc documents ''01-network.json'')) (\<lambda>network.
     sum_bind (check_summary (doc documents ''99-summary.json'')) (\<lambda>scenarios.
     sum_bind (check_project projectExport releaseSha) (\<lambda>_.
     sum_bind (check_scenarios documents scenarios EXPECTED_SCENARIOS) (\<lambda>_.
     if list_ex name_malformed scenarios then Inl (plain_failure ''Scenario name is missing or malformed'')
     else Inr \<lparr>bf_releaseSha = releaseSha, bf_network = network, bf_summary = doc documents ''99-summary.json'', bf_scenarios = scenarios\<rparr>)))))))"

definition artifact_json :: "'u bundle_lib \<Rightarrow> string \<Rightarrow> string \<Rightarrow> json" where
  "artifact_json bl name contents = JObj [(''file'', JStr name), (''sha256'', JStr (digest bl contents)),
     (''bytes'', JNum (int (length (utf8_encode contents))))]"

definition bundle_limitations :: "string list" where
  "bundle_limitations =
    [''Only supplied run artifacts are packaged; this command does not execute RPC or recovery tests.'',
     ''Checksums prove packaged-byte integrity, not chain truth or deployment ownership.'',
     ''The review bundle excludes unverified restart/reorg/webhook delivery claims unless separately documented.'',
     ''Endpoint names and public addresses can identify Testnet activity; review before sharing.'']"

definition bundle_manifest :: "'u bundle_lib \<Rightarrow> BundleFacts \<Rightarrow> json list \<Rightarrow> json" where
  "bundle_manifest bl f artifacts =
    (let summary = Some (bf_summary f) in
     JObj [(''schemaVersion'', JStr ''cellflow-review-bundle-v1''), (''evidenceKind'', JStr ''recorded-real-testnet''),
       (''releaseSha'', JStr (bf_releaseSha f)), (''runId'', json_or_null (get summary ''runId'')),
       (''recordedStartedAt'', json_or_null (get summary ''startedAt'')), (''recordedFinishedAt'', json_or_null (get summary ''finishedAt'')),
       (''network'', JStr ''testnet''), (''genesisHash'', json_or_null (get (Some (hd (bf_network f))) ''genesisHash'')),
       (''recordedScenarios'', JArr (map (redactEvidence (bl_urls bl)) (bf_scenarios f))), (''artifacts'', JArr artifacts),
       (''limitations'', JArr (map JStr bundle_limitations))])"

definition bundle_readme :: "'u bundle_lib \<Rightarrow> BundleFacts \<Rightarrow> string" where
  "bundle_readme bl f = text_lines
    [''# CellFlow reviewer bundle'', [], ''Deployed SHA: `'' @ bf_releaseSha f @ ''`'',
     ''Run ID: `'' @ redactString (bl_urls bl) (case nullish (get (Some (bf_summary f)) ''runId'') (Some (JStr ''unknown'')) of
       Some v \<Rightarrow> js_String v | None \<Rightarrow> []) @ ''`'', [],
     ''Review `manifest.json`, then run `sha256sum -c SHA256SUMS`.'',
     ''The recorded scenarios come from the source evidence directory; no tests were run by this packager.'',
     ''Private credentials are redacted conservatively; inspect JSON files manually before making them public.'',
     ''Additional DB/webhook or fork evidence must be published separately and explicitly identified.'', []]"

fun write_documents :: "'u bundle_lib \<Rightarrow> string \<Rightarrow> (string \<times> json) list \<Rightarrow> unit bundling" where
  "write_documents bl output [] = ret ()"
| "write_documents bl output ((name, v) # rest) =
     andThen (write_file output name (jsonText (redactEvidence (bl_urls bl) v))) (\<lambda>_. write_documents bl output rest)"

definition document_text :: "'u bundle_lib \<Rightarrow> json \<Rightarrow> string" where
  "document_text bl v = jsonText (redactEvidence (bl_urls bl) v)"

definition bundle_artifacts :: "'u bundle_lib \<Rightarrow> (string \<times> json) list \<Rightarrow> json list" where
  "bundle_artifacts bl documents = map (\<lambda>(name, v). artifact_json bl name (document_text bl v)) documents"

definition checksum_line :: "'u bundle_lib \<Rightarrow> string \<times> string \<Rightarrow> string" where
  "checksum_line bl entry = (case entry of (name, contents) \<Rightarrow> digest bl contents @ ''  '' @ name)"

definition checksum_text :: "'u bundle_lib \<Rightarrow> (string \<times> string) list \<Rightarrow> string" where
  "checksum_text bl entries = text_lines (sort_key (map code_unit) (map (checksum_line bl) entries)) @ [CHR 0x0A]"

definition write_bundle :: "'u bundle_lib \<Rightarrow> string \<Rightarrow> (string \<times> json) list \<Rightarrow> BundleFacts \<Rightarrow> unit bundling" where
  "write_bundle bl output documents f =
    (let manifestText = jsonText (bundle_manifest bl f (bundle_artifacts bl documents)); readme = bundle_readme bl f;
         entries = map (\<lambda>(name, v). (name, document_text bl v)) documents @ [(''manifest.json'', manifestText), (''README.md'', readme)] in
     andThen (write_documents bl output documents) (\<lambda>_.
     andThen (write_file output ''manifest.json'' manifestText) (\<lambda>_.
     andThen (write_file output ''README.md'' readme) (\<lambda>_.
     write_file output ''SHA256SUMS'' (checksum_text bl entries)))))"

definition create_bundle :: "'u bundle_lib \<Rightarrow> string \<Rightarrow> string \<Rightarrow> string \<Rightarrow> unit bundling" where
  "create_bundle bl source output expectedSha =
    (if source = output then throw (plain_failure ''Source and output directories must differ'')
     else
     andThen (read_required bl source required_files) (\<lambda>required.
     andThen (read_optional bl source optional_files) (\<lambda>optional.
     andThen (lift_sum (check_documents bl (required @ optional) expectedSha)) (\<lambda>f.
     andThen (write_bundle bl output (required @ optional) f) (\<lambda>_.
     verify_bundle bl output)))))"

end
