(* ===== verification/BundleRedaction.thy ===== *)
theory BundleRedaction
  imports ReviewBundle
begin

text \<open>
  What the redaction of evidence leaves: no token of the known forms before the URLs are rewritten,
  and no value under a sensitive key.
\<close>

section \<open>Matches of a secret\<close>

lemma fold_bracket: "ascii_fold CHR ''['' = CHR ''[''"
  by code_simp

lemma no_bracket: "\<not> is_token_char CHR ''[''" "\<not> is_bearer_char CHR ''[''" "\<not> is_js_space CHR ''[''"
  by code_simp+

lemma take_all_mono: "take n t = take n s \<Longrightarrow> k \<le> n \<Longrightarrow> take k t = take k s"
  by (metis min.absorb1 take_take)

lemma run_length: "k \<le> length s \<Longrightarrow> list_all P (take k s) \<Longrightarrow> k \<le> length (takeWhile P s)"
proof (induction s arbitrary: k)
  case (Cons c s)
  then show ?case by (cases k) auto
qed simp

lemma takeWhile_run: "take (length (takeWhile P s)) s = takeWhile P s"
  by (metis takeWhile_eq_take)

lemma ci_prefix_length: "ci_prefix p s \<Longrightarrow> length p \<le> length s"
  unfolding ci_prefix_def by (metis length_map length_take min.bounded_iff order_refl)

lemma ci_prefix_take: "take n t = take n s \<Longrightarrow> length p \<le> n \<Longrightarrow> ci_prefix p t \<longleftrightarrow> ci_prefix p s"
  by (simp add: ci_prefix_def take_all_mono [of n t s "length p"])

lemma run_kept:
  assumes "take n t = take n s" and "m + length (takeWhile P (drop m s)) \<le> n"
  shows "length (takeWhile P (drop m s)) \<le> length (takeWhile P (drop m t))"
proof -
  let ?k = "length (takeWhile P (drop m s))"
  have "take (m + ?k) t = take (m + ?k) s" by (rule take_all_mono [OF assms])
  then have "drop m (take (m + ?k) t) = drop m (take (m + ?k) s)" by simp
  then have k: "take ?k (drop m t) = takeWhile P (drop m s)" by (simp add: drop_take takeWhile_run)
  then have "list_all P (take ?k (drop m t))" by (auto simp: list_all_iff dest: set_takeWhileD)
  moreover have "?k \<le> length (drop m t)" using arg_cong [OF k, of length] by simp
  ultimately show ?thesis by (intro run_length)
qed

lemma prefixed_kept:
  assumes "take n t = take n s" and "prefixed_run p P least s = n" and "0 < n"
  shows "0 < prefixed_run p P least t"
proof -
  have s: "ci_prefix p s" "least \<le> length (takeWhile P (drop (length p) s))" "n = length p + length (takeWhile P (drop (length p) s))"
    using assms(2,3) by (auto simp: prefixed_run_def Let_def split: if_splits)
  have "ci_prefix p t" using s ci_prefix_take [OF assms(1), of p] by simp
  moreover have "length (takeWhile P (drop (length p) s)) \<le> length (takeWhile P (drop (length p) t))"
    using run_kept [OF assms(1), of "length p" P] s by simp
  ultimately show ?thesis using s assms(3) by (auto simp: prefixed_run_def Let_def)
qed

lemma run_same:
  assumes "take n t = take n s" and i: "m + length (takeWhile P (drop m s)) < n" and "n \<le> length s"
  shows "takeWhile P (drop m t) = takeWhile P (drop m s)"
proof -
  let ?u = "take (n - m) (drop m s)"
  have u: "take (n - m) (drop m t) = ?u" using assms(1) by (metis drop_take)
  have "\<not> P (drop m s ! length (takeWhile P (drop m s)))" using assms by (intro nth_length_takeWhile) simp
  moreover have "drop m s ! length (takeWhile P (drop m s)) \<in> set ?u"
    using assms by (auto simp: in_set_conv_nth intro!: exI [of _ "length (takeWhile P (drop m s))"])
  ultimately have stop: "takeWhile P (?u @ rest) = takeWhile P ?u" for rest by (meson takeWhile_append1)
  show ?thesis
    using stop [of "drop (n - m) (drop m s)"] stop [of "drop (n - m) (drop m t)"] u by (metis append_take_drop_id)
qed

lemma bearer_kept:
  assumes "take n t = take n s" and "bearer_run prev s = n" and "0 < n"
  shows "0 < bearer_run prev t"
proof -
  define blanks where "blanks = length (takeWhile is_js_space (drop 6 s))"
  define k where "k = length (takeWhile is_bearer_char (drop (6 + blanks) s))"
  have s: "\<not> is_word_char prev" "ci_prefix ''bearer'' s" "1 \<le> blanks" "12 \<le> k" "n = 6 + blanks + k"
    using assms(2,3) by (auto simp: bearer_run_def Let_def blanks_def k_def split: if_splits)
  have "k \<le> length (drop (6 + blanks) s)" unfolding k_def by (rule length_takeWhile_le)
  then have n: "n \<le> length s" using s by simp
  have "takeWhile is_js_space (drop 6 t) = takeWhile is_js_space (drop 6 s)"
    using s by (intro run_same [OF assms(1) _ n]) (simp add: blanks_def)
  moreover have "k \<le> length (takeWhile is_bearer_char (drop (6 + blanks) t))"
    unfolding k_def using s by (intro run_kept [OF assms(1)]) (simp add: k_def)
  moreover have "ci_prefix ''bearer'' t" using s ci_prefix_take [OF assms(1), of "''bearer''"] by simp
  ultimately show ?thesis using s unfolding bearer_run_def Let_def blanks_def by simp
qed

lemma match_kept:
  assumes "take n t = take n s" and "secret_match prev s = n" and "0 < n"
  shows "0 < secret_match prev t"
  using assms(2,3) prefixed_kept [OF assms(1), of "''cf_live_''" is_token_char 20] prefixed_kept [OF assms(1), of "''whsec_''" is_token_char 20]
    bearer_kept [OF assms(1), of prev]
  unfolding secret_match_def Let_def
  by (auto split: if_splits)

text \<open>The characters of a match.\<close>

lemma prefix_no_bracket: "ci_prefix p s \<Longrightarrow> CHR ''['' \<notin> set p \<Longrightarrow> CHR ''['' \<notin> set (take (length p) s)"
  unfolding ci_prefix_def using fold_bracket by (metis image_eqI list.set_map)

lemma prefixed_chars:
  assumes "prefixed_run p P least s = n" and "CHR ''['' \<notin> set p" and "\<not> P CHR ''[''"
  shows "CHR ''['' \<notin> set (take n s) \<and> n \<le> length s"
proof (cases "n = 0")
  case False
  then have s: "ci_prefix p s" "n = length p + length (takeWhile P (drop (length p) s))"
    using assms(1) by (auto simp: prefixed_run_def Let_def split: if_splits)
  have "take n s = take (length p) s @ takeWhile P (drop (length p) s)"
    using s by (simp add: take_add takeWhile_run)
  moreover have "CHR ''['' \<notin> set (takeWhile P (drop (length p) s))" using assms(3) by (auto dest: set_takeWhileD)
  moreover have "n \<le> length s" using s ci_prefix_length [OF s(1)] length_takeWhile_le [of P "drop (length p) s"] by simp
  ultimately show ?thesis using prefix_no_bracket [OF s(1) assms(2)] by simp
qed simp

lemma bearer_chars: "bearer_run prev s = n \<Longrightarrow> CHR ''['' \<notin> set (take n s) \<and> n \<le> length s"
proof (cases "n = 0")
  case False
  assume r: "bearer_run prev s = n"
  define blanks where "blanks = length (takeWhile is_js_space (drop 6 s))"
  define k where "k = length (takeWhile is_bearer_char (drop (6 + blanks) s))"
  have s: "ci_prefix ''bearer'' s" "12 \<le> k" "n = 6 + blanks + k"
    using r False by (auto simp: bearer_run_def Let_def blanks_def k_def split: if_splits)
  have "take n s = take 6 s @ takeWhile is_js_space (drop 6 s) @ takeWhile is_bearer_char (drop (6 + blanks) s)"
    using s by (simp add: take_add takeWhile_run blanks_def k_def add.commute)
  moreover have "CHR ''['' \<notin> set (takeWhile is_js_space (drop 6 s))" "CHR ''['' \<notin> set (takeWhile is_bearer_char (drop (6 + blanks) s))"
    using no_bracket by (auto dest: set_takeWhileD)
  moreover have "CHR ''['' \<notin> set (take 6 s)" using prefix_no_bracket [OF s(1)] by (simp add: eval_nat_numeral)
  moreover have "n \<le> length s" using s length_takeWhile_le [of is_bearer_char "drop (6 + blanks) s"] by (simp add: k_def)
  ultimately show ?thesis by simp
qed simp

lemma match_chars: "secret_match prev s = n \<Longrightarrow> CHR ''['' \<notin> set (take n s) \<and> n \<le> length s"
  unfolding secret_match_def Let_def
  using prefixed_chars [of "''cf_live_''" is_token_char 20 s] prefixed_chars [of "''whsec_''" is_token_char 20 s] bearer_chars [of prev s] no_bracket
  by (auto split: if_splits)


section \<open>The redacted text\<close>

text \<open>No secret at any position of a text that follows \<open>prev\<close>.\<close>

primrec clean :: "char option \<Rightarrow> string \<Rightarrow> bool" where
  "clean prev [] \<longleftrightarrow> True"
| "clean prev (c # cs) \<longleftrightarrow> secret_match prev (c # cs) = 0 \<and> clean (Some c) cs"

lemma prefix_head: "ci_prefix (p # ps) (c # cs) \<Longrightarrow> ascii_fold c = p \<and> ci_prefix ps cs"
  by (simp add: ci_prefix_def)

lemma other_head: "ascii_fold c \<notin> set ''cwb'' \<Longrightarrow> secret_match prev (c # cs) = 0"
  by (auto simp: secret_match_def prefixed_run_def bearer_run_def Let_def dest!: prefix_head)

lemma other_second: "ascii_fold c \<notin> set ''wb'' \<Longrightarrow> ascii_fold d \<noteq> CHR ''f'' \<Longrightarrow> secret_match prev (c # d # cs) = 0"
  by (auto simp: secret_match_def prefixed_run_def bearer_run_def Let_def dest!: prefix_head)

lemma placeholder_folds:
  "ascii_fold CHR ''R'' = CHR ''r''" "ascii_fold CHR ''E'' = CHR ''e''" "ascii_fold CHR ''D'' = CHR ''d''" "ascii_fold CHR ''A'' = CHR ''a''"
  "ascii_fold CHR ''C'' = CHR ''c''" "ascii_fold CHR ''T'' = CHR ''t''" "ascii_fold CHR '']'' = CHR '']''"
  by code_simp+

lemma clean_placeholder: "clean prev (''[REDACTED]'' @ s) \<longleftrightarrow> clean (Some CHR '']'') s"
  by (simp add: other_head other_second fold_bracket placeholder_folds)

text \<open>A text that does not start with a letter is as clean after any character.\<close>

lemma fold_letter: "ascii_fold c = CHR ''b'' \<Longrightarrow> is_alnum c"
proof -
  assume b: "ascii_fold c = CHR ''b''"
  show ?thesis
  proof (cases "65 \<le> code_unit c \<and> code_unit c \<le> 90")
    case False
    then have "c = CHR ''b''" using b unfolding ascii_fold_def if_not_P [OF False] by blast
    moreover have "is_alnum CHR ''b''" by code_simp
    ultimately show ?thesis by simp
  qed (simp add: is_alnum_def)
qed

lemma clean_after:
  assumes "clean prev s" and "s = [] \<or> \<not> is_alnum (hd s)"
  shows "clean prev' s"
proof (cases s)
  case (Cons c cs)
  then have "ascii_fold c \<noteq> CHR ''b''" using assms(2) fold_letter by auto
  then have bearer: "bearer_run p (c # cs) = 0" for p by (auto simp: bearer_run_def Let_def dest!: prefix_head)
  have "secret_match prev' (c # cs) = secret_match prev (c # cs)" by (simp only: secret_match_def bearer)
  with assms(1) Cons show ?thesis by simp
qed simp

text \<open>What follows a match does not start with a letter.\<close>

lemma run_end: "drop (m + length (takeWhile P (drop m s))) s = dropWhile P (drop m s)"
  by (metis add.commute drop_drop dropWhile_eq_drop)

lemma prefixed_end: "prefixed_run p P least s = n \<Longrightarrow> 0 < n \<Longrightarrow> drop n s = dropWhile P (drop (length p) s)"
  using run_end [of "length p" P s] by (auto simp: prefixed_run_def Let_def split: if_splits)

lemma bearer_end: "bearer_run prev s = n \<Longrightarrow> 0 < n \<Longrightarrow> \<exists>m. drop n s = dropWhile is_bearer_char (drop m s)"
  using run_end [of "6 + length (takeWhile is_js_space (drop 6 s))" is_bearer_char s]
  by (auto simp: bearer_run_def Let_def split: if_splits)

lemma stop_letter: "dropWhile P xs = [] \<or> \<not> is_alnum (hd (dropWhile P xs))" if "\<And>c. is_alnum c \<Longrightarrow> P c"
  using that hd_dropWhile [of P xs] by blast

lemma alnum_run: "is_alnum c \<Longrightarrow> is_token_char c" "is_alnum c \<Longrightarrow> is_bearer_char c"
  by (simp_all add: is_token_char_def is_bearer_char_def)

lemma match_end:
  assumes "secret_match prev s = n" and "0 < n"
  shows "drop n s = [] \<or> \<not> is_alnum (hd (drop n s))"
proof -
  consider "prefixed_run ''cf_live_'' is_token_char 20 s = n" | "prefixed_run ''whsec_'' is_token_char 20 s = n" | "bearer_run prev s = n"
    using assms by (auto simp: secret_match_def Let_def split: if_splits)
  then show ?thesis
  proof cases
    case 1
    show ?thesis unfolding prefixed_end [OF 1 assms(2)] by (rule stop_letter [OF alnum_run(1)])
  next
    case 2
    show ?thesis unfolding prefixed_end [OF 2 assms(2)] by (rule stop_letter [OF alnum_run(1)])
  next
    case 3
    from bearer_end [OF 3 assms(2)] obtain m where m: "drop n s = dropWhile is_bearer_char (drop m s)" by blast
    show ?thesis unfolding m by (rule stop_letter [OF alnum_run(2)])
  qed
qed

text \<open>The literal characters before the next placeholder are those of the text.\<close>

lemma literal_prefix:
  "CHR ''['' \<notin> set (take m (redact_values prev s)) \<Longrightarrow> m \<le> length (redact_values prev s) \<Longrightarrow> take m (redact_values prev s) = take m s"
proof (induction prev s arbitrary: m rule: redact_values.induct)
  case (2 prev c cs)
  show ?case
  proof (cases "0 < secret_match prev (c # cs)")
    case True
    with 2 show ?thesis by (cases m) (auto simp: Let_def)
  next
    case False
    with 2 show ?thesis by (cases m) (auto simp: Let_def)
  qed
qed simp

lemma redacted_clean: "clean prev (redact_values prev s)"
proof (induction prev s rule: redact_values.induct)
  case (2 prev c cs)
  show ?case
  proof (cases "0 < secret_match prev (c # cs)")
    case True
    let ?n = "secret_match prev (c # cs)"
    let ?rest = "redact_values (Some (last (take ?n (c # cs)))) (drop ?n (c # cs))"
    have "?rest = [] \<or> \<not> is_alnum (hd ?rest)"
    proof (cases "drop ?n (c # cs)")
      case (Cons d ds)
      then have "\<not> is_alnum d" using match_end [OF refl True] by simp
      moreover have "\<not> is_alnum CHR ''[''" by code_simp
      ultimately show ?thesis unfolding Cons by (simp add: Let_def)
    qed simp
    moreover have "clean (Some (last (take ?n (c # cs)))) ?rest" using 2(1) True by simp
    ultimately have "clean (Some CHR '']'') ?rest" by (rule clean_after [rotated])
    then show ?thesis using True clean_placeholder by (simp add: Let_def del: append.simps clean.simps)
  next
    case False
    let ?rest = "redact_values (Some c) cs"
    have "secret_match prev (c # ?rest) = 0"
    proof (rule ccontr)
      assume n: "secret_match prev (c # ?rest) \<noteq> 0"
      then obtain m where m: "secret_match prev (c # ?rest) = Suc m" using not0_implies_Suc by blast
      have "CHR ''['' \<notin> set (take m ?rest)" "m \<le> length ?rest" using match_chars [OF m] by auto
      then have "take m ?rest = take m cs" by (rule literal_prefix)
      then have "0 < secret_match prev (c # cs)" using match_kept [of "Suc m" "c # cs" "c # ?rest" prev] m by simp
      with False show False by simp
    qed
    with 2(2) False show ?thesis by (simp add: Let_def)
  qed
qed simp


section \<open>The redacted document\<close>

fun keys_hidden :: "json \<Rightarrow> bool" where
  "keys_hidden (JArr xs) \<longleftrightarrow> list_all keys_hidden xs"
| "keys_hidden (JObj fs) \<longleftrightarrow> list_all (\<lambda>(k, v). keys_hidden v \<and> (\<not> rx_test SENSITIVE_KEY k \<or> v = JStr ''[REDACTED]'')) fs"
| "keys_hidden v \<longleftrightarrow> True"

text \<open>The texts in a document, keys aside.\<close>

fun json_texts :: "json \<Rightarrow> string list" where
  "json_texts (JArr xs) = concat (map json_texts xs)"
| "json_texts (JObj fs) = concat (map (\<lambda>(k, v). json_texts v) fs)"
| "json_texts (JStr s) = [s]"
| "json_texts v = []"

lemma url_other: "ascii_fold c \<noteq> CHR ''h'' \<Longrightarrow> url_match (c # cs) = 0"
  by (auto simp: url_match_def prefixed_run_def Let_def dest!: prefix_head)

lemma placeholder_urls: "redact_urls f ''[REDACTED]'' = ''[REDACTED]''"
  by (simp add: url_other fold_bracket placeholder_folds Let_def)

lemma hidden_keys: "keys_hidden (redactEvidence uc v)"
  by (induction uc v rule: redactEvidence.induct) (auto simp: list_all_iff)

lemma clean_texts: "set (json_texts (redactEvidence uc v)) \<subseteq> {redact_urls (redact_url uc) t | t. clean None t}"
proof (induction uc v rule: redactEvidence.induct)
  case (2 uc fs)
  have "clean None ''[REDACTED]''" using clean_placeholder [of None "[]"] by (simp only: append_Nil2 clean.simps(1))
  then have hidden: "''[REDACTED]'' \<in> {redact_urls (redact_url uc) t | t. clean None t}"
    by (intro CollectI exI [of _ "''[REDACTED]''"] conjI placeholder_urls [symmetric])
  have "set (json_texts (if rx_test SENSITIVE_KEY k then JStr ''[REDACTED]'' else redactEvidence uc w))
      \<subseteq> {redact_urls (redact_url uc) t | t. clean None t}" if "(k, w) \<in> set fs" for k w
    using 2 [OF that refl] hidden by auto
  then show ?case by fastforce
next
  case (3 uc s)
  show ?case using redacted_clean [of None s] by (auto simp: redactString_def)
qed (auto simp: subset_iff)

text \<open>
  Property C13: in every redacted document the value of a sensitive key is the placeholder, at any
  depth, and every text is one without a token of the known forms at any position, but for the
  rewriting of its URLs.
\<close>

theorem redaction_complete:
  "keys_hidden (redactEvidence uc v) \<and> set (json_texts (redactEvidence uc v)) \<subseteq> {redact_urls (redact_url uc) t | t. clean None t}"
  using hidden_keys clean_texts by blast

end
