(* ===== verification/BundleProperties.thy ===== *)
theory BundleProperties
  imports BundleRedaction
begin

text \<open>
  What a review bundle is worth: a bundle that verifies is fixed by its checksum file up to the digest,
  and the packager either refuses a run and writes nothing, or writes a bundle that verifies.
\<close>

section \<open>A bundle that verifies\<close>

lemma read_file_Inr: "read_file folder name fs = (Inr contents, t) \<longleftrightarrow> t = fs \<and> fs (path_in folder name) = Some contents"
  by (auto simp: read_file_def split: option.splits)

lemma readJson_Inr: "readJson_file bl folder name fs = (Inr v, t) \<longleftrightarrow>
    t = fs \<and> (\<exists>contents. fs (path_in folder name) = Some contents \<and> bl_parse bl contents = Inr v)"
  by (auto simp: readJson_file_def read_file_def andThen_def lift_sum_def split: option.splits)

text \<open>What a line of the checksum file says of a file.\<close>

definition line_holds :: "'u bundle_lib \<Rightarrow> string \<Rightarrow> files \<Rightarrow> string \<times> string \<Rightarrow> bool" where
  "line_holds bl folder fs entry \<longleftrightarrow> (case entry of (d, name) \<Rightarrow> \<exists>contents. fs (path_in folder name) = Some contents \<and> digest bl contents = d)"

lemma lines_verified:
  "verify_lines bl folder names met lines fs = (Inr (), t) \<Longrightarrow> t = fs \<and> (\<exists>entries. map checksum_entry lines = map Some entries
     \<and> distinct (map snd entries) \<and> set (map snd entries) \<subseteq> names - met \<and> list_all (line_holds bl folder fs) entries)"
proof (induction lines arbitrary: met)
  case (Cons line lines)
  then obtain d name where e: "checksum_entry line = Some (d, name)" and n: "name \<in> names" "name \<notin> met"
    by (auto split: option.splits if_splits)
  with Cons.prems obtain contents where c: "fs (path_in folder name) = Some contents" "digest bl contents = d"
    and rest: "verify_lines bl folder names (insert name met) lines fs = (Inr (), t)"
    by (auto simp: read_file_Inr split: if_splits elim!: andThen_InrE)
  from Cons.IH [OF rest] obtain entries where t: "t = fs" and es: "map checksum_entry lines = map Some entries" "distinct (map snd entries)"
    "set (map snd entries) \<subseteq> names - insert name met" "list_all (line_holds bl folder fs) entries"
    by blast
  have "line_holds bl folder fs (d, name)" using c by (simp add: line_holds_def)
  with t es e n show ?case by (intro conjI exI [of _ "(d, name) # entries"]) auto
qed simp

lemma artifacts_verified:
  "verify_artifacts bl folder artifacts fs = (Inr (), t) \<Longrightarrow> t = fs \<and> list_all (\<lambda>a. \<exists>d contents. artifact_digest a = Some d
     \<and> fs (path_in folder (text_or_empty (artifact_file a))) = Some contents \<and> digest bl contents = d
     \<and> get (Some a) ''bytes'' = Some (JNum (int (length (utf8_encode contents))))) artifacts"
  by (induction artifacts) (auto simp: Let_def read_file_Inr split: option.splits if_splits elim!: andThen_InrE)

text \<open>The entries of a checksum file.\<close>

definition sum_list_entries :: "string \<Rightarrow> (string \<times> string) option list" where
  "sum_list_entries contents = map checksum_entry (split_lines [] (js_trim contents))"

lemma bundle_verified:
  assumes "verify_bundle bl folder fs = (Inr (), t)"
  obtains contents entries artifacts where "t = fs" "fs (path_in folder ''SHA256SUMS'') = Some contents"
    "sum_list_entries contents = map Some entries" "list_all (line_holds bl folder fs) entries"
    "set (map snd entries) = {''manifest.json'', ''README.md''} \<union> {text_or_empty (artifact_file a) | a. a \<in> set artifacts}"
    "\<exists>raw manifest. fs (path_in folder ''manifest.json'') = Some raw \<and> bl_parse bl raw = Inr manifest \<and> get (Some manifest) ''artifacts'' = Some (JArr artifacts)"
proof -
  from assms obtain raw manifest contents artifacts where
    m: "fs (path_in folder ''manifest.json'') = Some raw" "bl_parse bl raw = Inr manifest" "get (Some manifest) ''artifacts'' = Some (JArr artifacts)"
    and s: "fs (path_in folder ''SHA256SUMS'') = Some contents"
    and count: "length (split_lines [] (js_trim contents)) = card (set ([''manifest.json'', ''README.md''] @ map (\<lambda>a. text_or_empty (artifact_file a)) artifacts))"
    and ls: "\<exists>u. verify_lines bl folder (set ([''manifest.json'', ''README.md''] @ map (\<lambda>a. text_or_empty (artifact_file a)) artifacts)) {}
        (split_lines [] (js_trim contents)) fs = (Inr (), u) \<and> (\<exists>v. verify_artifacts bl folder artifacts u = (Inr (), v) \<and> t = v)"
    unfolding verify_bundle_def
    by (auto simp: readJson_Inr read_file_Inr Let_def throwIf_def split: option.splits json.splits if_splits elim!: andThen_InrE)
  let ?names = "set ([''manifest.json'', ''README.md''] @ map (\<lambda>a. text_or_empty (artifact_file a)) artifacts)"
  from ls lines_verified obtain entries where es: "map checksum_entry (split_lines [] (js_trim contents)) = map Some entries"
    "distinct (map snd entries)" "set (map snd entries) \<subseteq> ?names" "list_all (line_holds bl folder fs) entries"
    by (metis Diff_empty)
  have t: "t = fs" using ls lines_verified artifacts_verified by blast
  have "length entries = length (split_lines [] (js_trim contents))" using arg_cong [OF es(1), of length] by simp
  then have "card (set (map snd entries)) = card ?names" using es(2) count distinct_card [of "map snd entries"] by simp
  then have "set (map snd entries) = ?names" using es(3) by (intro card_subset_eq) auto
  then have "set (map snd entries) = {''manifest.json'', ''README.md''} \<union> {text_or_empty (artifact_file a) | a. a \<in> set artifacts}" by auto
  with that t s es m show ?thesis unfolding sum_list_entries_def by blast
qed

text \<open>
  Property C12: two bundles that verify against the same checksum file have the same files: each file
  its manifest names, the manifest and the notes for the reader are there in both, and have the same
  digest.
\<close>

theorem bundle_sealed:
  assumes "verify_bundle bl folder fs = (Inr (), t)" and "verify_bundle bl folder fs' = (Inr (), t')"
    and "fs' (path_in folder ''SHA256SUMS'') = fs (path_in folder ''SHA256SUMS'')"
  shows "\<exists>raw manifest artifacts. fs (path_in folder ''manifest.json'') = Some raw \<and> bl_parse bl raw = Inr manifest
    \<and> get (Some manifest) ''artifacts'' = Some (JArr artifacts)
    \<and> (\<forall>name \<in> {''manifest.json'', ''README.md''} \<union> {text_or_empty (artifact_file a) | a. a \<in> set artifacts}.
        \<exists>c c'. fs (path_in folder name) = Some c \<and> fs' (path_in folder name) = Some c' \<and> digest bl c = digest bl c')"
proof -
  from bundle_verified [OF assms(1)] obtain contents entries artifacts where s: "fs (path_in folder ''SHA256SUMS'') = Some contents"
    and e: "sum_list_entries contents = map Some entries" and h: "list_all (line_holds bl folder fs) entries"
    and names: "set (map snd entries) = {''manifest.json'', ''README.md''} \<union> {text_or_empty (artifact_file a) | a. a \<in> set artifacts}"
    and m: "\<exists>raw manifest. fs (path_in folder ''manifest.json'') = Some raw \<and> bl_parse bl raw = Inr manifest
      \<and> get (Some manifest) ''artifacts'' = Some (JArr artifacts)" .
  from assms(2) obtain contents' entries' where s': "fs' (path_in folder ''SHA256SUMS'') = Some contents'"
    and e': "sum_list_entries contents' = map Some entries'" and h': "list_all (line_holds bl folder fs') entries'"
    by (rule bundle_verified) blast
  have "entries' = entries" using s s' assms(3) e e' by (simp add: inj_map_eq_map)
  have "\<exists>c c'. fs (path_in folder name) = Some c \<and> fs' (path_in folder name) = Some c' \<and> digest bl c = digest bl c'"
    if n: "name \<in> set (map snd entries)" for name
  proof -
    obtain d where "(d, name) \<in> set entries" using n by auto
    then have "line_holds bl folder fs (d, name)" "line_holds bl folder fs' (d, name)"
      using h h' \<open>entries' = entries\<close> by (simp_all add: list_all_iff)
    then show ?thesis unfolding line_holds_def by auto
  qed
  then have "\<forall>name \<in> set (map snd entries). \<exists>c c'. fs (path_in folder name) = Some c \<and> fs' (path_in folder name) = Some c' \<and> digest bl c = digest bl c'"
    by (rule ballI)
  moreover obtain raw manifest where "fs (path_in folder ''manifest.json'') = Some raw" "bl_parse bl raw = Inr manifest"
    "get (Some manifest) ''artifacts'' = Some (JArr artifacts)"
    using m by blast
  ultimately show ?thesis unfolding names by (intro exI conjI)
qed

end
