(* ===== verification/BundleCreation.thy ===== *)
theory BundleCreation
  imports BundleProperties
begin

text \<open>
  The packager verifies what it has written: the checksum file it writes is read back line by line, and
  the manifest names the files with their digests. A run that fails a check is refused before the first
  file is written.
\<close>

section \<open>Lines\<close>

abbreviation newline :: char where
  "newline \<equiv> CHR 0x0A"

lemma split_line: "newline \<notin> set l \<Longrightarrow> split_lines acc (l @ rest) = split_lines (rev l @ acc) rest"
  by (induction l arbitrary: acc) auto

lemma split_rest: "list_all (\<lambda>l. newline \<notin> set l) ls \<Longrightarrow> split_lines acc (concat (map (\<lambda>x. newline # x) ls)) = rev acc # ls"
proof (induction ls arbitrary: acc)
  case (Cons l ls)
  then show ?case using split_line [of l "[]" "concat (map (\<lambda>x. newline # x) ls)"] Cons.IH [of "rev l"] by simp
qed simp

lemma split_text: "ls \<noteq> [] \<Longrightarrow> list_all (\<lambda>l. newline \<notin> set l) ls \<Longrightarrow> split_lines [] (text_lines ls) = ls"
  by (cases ls) (simp_all add: text_lines_def split_line split_rest)

lemma text_snoc: "ls \<noteq> [] \<Longrightarrow> text_lines (ls @ [l]) = text_lines ls @ newline # l"
  by (cases ls) (simp_all add: text_lines_def)

lemma text_ends:
  assumes "ls \<noteq> []" and "list_all (\<lambda>l. l \<noteq> []) ls"
  shows "text_lines ls \<noteq> [] \<and> hd (text_lines ls) = hd (hd ls) \<and> last (text_lines ls) = last (last ls)"
proof -
  have "text_lines ls \<noteq> [] \<and> hd (text_lines ls) = hd (hd ls)" using assms by (cases ls) (auto simp: text_lines_def)
  moreover have "last (text_lines ls) = last (last ls)"
  proof (cases ls rule: rev_cases)
    case (snoc xs l)
    with assms show ?thesis
    proof (cases "xs = []")
      case False
      with snoc assms show ?thesis by (simp add: text_snoc)
    qed (simp add: text_lines_def)
  qed (simp add: assms)
  ultimately show ?thesis by blast
qed

lemma trim_line:
  assumes "s \<noteq> []" and "\<not> is_js_space (hd s)" and "\<not> is_js_space (last s)"
  shows "js_trim (s @ [newline]) = s"
proof -
  have lf: "is_js_space newline" by code_simp
  have "dropWhile is_js_space (s @ [newline]) = s @ [newline]" using assms by (cases s) auto
  moreover have "dropWhile is_js_space (rev s) = rev s" using assms by (cases s rule: rev_cases) auto
  ultimately show ?thesis by (simp add: js_trim_def lf)
qed


section \<open>The checksum file\<close>

definition sha_laws :: "'u bundle_lib \<Rightarrow> bool" where
  "sha_laws bl \<longleftrightarrow> (\<forall>b. length (bl_sha256 bl b) = 32 \<and> list_all (\<lambda>n. n < 256) (bl_sha256 bl b))"

lemma digest_shape: "sha_laws bl \<Longrightarrow> length (digest bl c) = 64 \<and> list_all is_hex_lower (digest bl c)"
  using length_hex_of_bytes [of "bl_sha256 bl (utf8_encode c)"] hex_of_bytes_hex [of "bl_sha256 bl (utf8_encode c)"]
  by (auto simp: sha_laws_def digest_def sha256_text_def hex_of_bytes_def)

lemma line_entry:
  assumes "sha_laws bl" and "is_file_name name"
  shows "checksum_entry (checksum_line bl (name, contents)) = Some (digest bl contents, name)"
  using digest_shape [OF assms(1), of contents] assms(2) by (simp add: checksum_entry_def checksum_line_def is_digest_def)

lemma name_chars: "is_alnum c \<or> c \<in> set ''._-'' \<Longrightarrow> \<not> is_js_space c \<and> c \<noteq> newline"
proof -
  have "\<not> is_js_space CHR ''.''" "\<not> is_js_space CHR ''_''" "\<not> is_js_space CHR ''-''" by code_simp+
  moreover have "is_alnum c \<Longrightarrow> \<not> is_js_space c \<and> c \<noteq> newline" by (auto simp: is_alnum_def is_digit_def is_js_space_def)
  ultimately show "is_alnum c \<or> c \<in> set ''._-'' \<Longrightarrow> \<not> is_js_space c \<and> c \<noteq> newline" by auto
qed

lemma file_name_chars: "is_file_name s \<Longrightarrow> c \<in> set s \<Longrightarrow> \<not> is_js_space c \<and> c \<noteq> newline"
proof -
  assume "is_file_name s" and "c \<in> set s"
  then have "is_alnum c \<or> c \<in> set ''._-''" by (cases s) (auto simp: is_file_name_def list_all_iff)
  then show ?thesis by (rule name_chars)
qed

lemma hex_chars: "is_hex_lower c \<Longrightarrow> \<not> is_js_space c \<and> c \<noteq> newline"
  by (auto simp: is_hex_lower_def is_digit_def is_js_space_def)

lemma line_shape:
  fixes contents :: string
  assumes "sha_laws bl" and "is_file_name name"
  defines "l \<equiv> checksum_line bl (name, contents)"
  shows "l \<noteq> [] \<and> newline \<notin> set l \<and> \<not> is_js_space (hd l) \<and> \<not> is_js_space (last l)"
proof -
  have d: "digest bl contents \<noteq> []" "\<forall>c \<in> set (digest bl contents). is_hex_lower c"
    using digest_shape [OF assms(1), of contents] by (auto simp: list_all_iff)
  have n: "name \<noteq> []" using assms(2) by (simp add: is_file_name_def)
  have l: "l = digest bl contents @ ''  '' @ name" by (simp add: l_def checksum_line_def)
  have "hd l \<in> set (digest bl contents)" "last l \<in> set name" using d n by (simp_all add: l)
  moreover have "newline \<notin> set l" using d hex_chars file_name_chars [OF assms(2)] by (auto simp: l)
  moreover have "l \<noteq> []" using n by (simp add: l)
  ultimately show ?thesis using d hex_chars file_name_chars [OF assms(2)] by blast
qed

text \<open>Sorting the lines sorts the entries.\<close>

lemma insort_map: "insort_key k (f x) (map f xs) = map f (insort_key (\<lambda>x. k (f x)) x xs)"
  by (induction xs) auto

lemma sort_map: "sort_key k (map f xs) = map f (sort_key (\<lambda>x. k (f x)) xs)"
  by (induction xs) (simp_all add: insort_map)

lemma checksum_lines:
  assumes laws: "sha_laws bl" and names: "list_all (\<lambda>(n, c). is_file_name n) entries" and ne: "entries \<noteq> []"
  obtains es where "mset es = mset entries" "split_lines [] (js_trim (checksum_text bl entries)) = map (checksum_line bl) es"
proof -
  define es where "es = sort_key (\<lambda>x. map of_char (checksum_line bl x) :: nat list) entries"
  have m: "mset es = mset entries" by (simp add: es_def)
  then have e: "set es = set entries" "es \<noteq> []" using ne by (auto dest: mset_eq_setD)
  let ?ls = "map (checksum_line bl) es"
  have shape: "l \<noteq> [] \<and> newline \<notin> set l \<and> \<not> is_js_space (hd l) \<and> \<not> is_js_space (last l)" if l: "l \<in> set ?ls" for l
  proof -
    obtain n c where "(n, c) \<in> set entries" "l = checksum_line bl (n, c)" using l e by auto
    then show ?thesis using names line_shape [OF laws, of n c] by (auto simp: list_all_iff)
  qed
  have "?ls \<noteq> []" using e by simp
  then have h: "hd ?ls \<in> set ?ls" "last ?ls \<in> set ?ls" using list.set_sel(1) last_in_set by blast+
  have "text_lines ?ls \<noteq> [] \<and> hd (text_lines ?ls) = hd (hd ?ls) \<and> last (text_lines ?ls) = last (last ?ls)"
    using shape \<open>?ls \<noteq> []\<close> by (intro text_ends) (auto simp: list_all_iff)
  then have "js_trim (text_lines ?ls @ [newline]) = text_lines ?ls" using shape h by (intro trim_line) auto
  moreover have "checksum_text bl entries = text_lines ?ls @ [newline]" by (simp add: checksum_text_def sort_map es_def)
  moreover have "split_lines [] (text_lines ?ls) = ?ls" using shape \<open>?ls \<noteq> []\<close> by (intro split_text) (auto simp: list_all_iff)
  ultimately show thesis using that [OF m] by simp
qed


section \<open>The written files\<close>

lemma path_inj [simp]: "path_in folder n = path_in folder m \<longleftrightarrow> n = m"
  by (simp add: path_in_def)

text \<open>The files after texts are written into a folder, one after the other.\<close>

definition written :: "string \<Rightarrow> (string \<times> string) list \<Rightarrow> files \<Rightarrow> files" where
  "written folder es fs = foldl (\<lambda>fs (n, c). fs(path_in folder n \<mapsto> c)) fs es"

lemma written_other: "(\<And>n. p \<noteq> path_in folder n) \<Longrightarrow> written folder es fs p = fs p"
  unfolding written_def by (induction es arbitrary: fs) auto

lemma written_absent: "n \<notin> set (map fst es) \<Longrightarrow> written folder es fs (path_in folder n) = fs (path_in folder n)"
  unfolding written_def by (induction es arbitrary: fs) auto

lemma written_file: "distinct (map fst es) \<Longrightarrow> (n, c) \<in> set es \<Longrightarrow> written folder es fs (path_in folder n) = Some c"
proof (induction es arbitrary: fs)
  case (Cons e es)
  then show ?case
  proof (cases "e = (n, c)")
    case True
    then have "written folder (e # es) fs = written folder es (fs(path_in folder n \<mapsto> c))" by (simp add: written_def)
    moreover have "n \<notin> set (map fst es)" using Cons.prems True by auto
    ultimately show ?thesis by (simp add: written_absent)
  next
    case False
    with Cons show ?thesis by (cases e) (auto simp: written_def)
  qed
qed simp

lemma written_append: "written folder (xs @ ys) fs = written folder ys (written folder xs fs)"
  by (simp add: written_def)

lemma documents_written:
  "write_documents bl output documents fs = (Inr (), written output (map (\<lambda>(n, v). (n, document_text bl v)) documents) fs)"
proof (induction documents arbitrary: fs)
  case (Cons d documents)
  then show ?case by (cases d) (simp add: andThen_def write_file_def modifyState_def written_def document_text_def)
qed (simp add: written_def ret_def)

text \<open>The files of a bundle, and its checksum file.\<close>

definition bundle_entries :: "'u bundle_lib \<Rightarrow> (string \<times> json) list \<Rightarrow> BundleFacts \<Rightarrow> (string \<times> string) list" where
  "bundle_entries bl documents f = map (\<lambda>(n, v). (n, document_text bl v)) documents
     @ [(''manifest.json'', jsonText (bundle_manifest bl f (bundle_artifacts bl documents))), (''README.md'', bundle_readme bl f)]"

lemma bundle_written:
  "write_bundle bl output documents f fs
    = (Inr (), written output (bundle_entries bl documents f @ [(''SHA256SUMS'', checksum_text bl (bundle_entries bl documents f))]) fs)"
  by (simp add: write_bundle_def Let_def andThen_def documents_written write_file_def modifyState_def bundle_entries_def)
    (simp add: written_def)


section \<open>Reading it back\<close>

lemma lines_verify:
  assumes laws: "sha_laws bl"
  shows "list_all (\<lambda>(n, c). is_file_name n \<and> n \<in> names \<and> fs (path_in folder n) = Some c) es \<Longrightarrow> distinct (map fst es)
    \<Longrightarrow> set (map fst es) \<inter> met = {} \<Longrightarrow> verify_lines bl folder names met (map (checksum_line bl) es) fs = (Inr (), fs)"
proof (induction es arbitrary: met)
  case (Cons e es)
  obtain n c where e: "e = (n, c)" by fastforce
  have "checksum_entry (checksum_line bl (n, c)) = Some (digest bl c, n)" using Cons.prems e by (intro line_entry [OF laws]) simp
  moreover have "read_file folder n fs = (Inr c, fs)" using Cons.prems e by (simp add: read_file_Inr)
  moreover have "verify_lines bl folder names (insert n met) (map (checksum_line bl) es) fs = (Inr (), fs)"
    using Cons.prems e by (intro Cons.IH) auto
  ultimately show ?case using Cons.prems e by (simp add: andThen_def)
qed simp

lemma artifacts_verify:
  assumes laws: "sha_laws bl"
  shows "list_all (\<lambda>(n, v). fs (path_in folder n) = Some (document_text bl v)) documents \<Longrightarrow>
    verify_artifacts bl folder (bundle_artifacts bl documents) fs = (Inr (), fs)"
proof (induction documents)
  case (Cons d documents)
  obtain n v where d: "d = (n, v)" by fastforce
  let ?a = "artifact_json bl n (document_text bl v)"
  have a: "artifact_file ?a = Some n" "artifact_digest ?a = Some (digest bl (document_text bl v))"
    "get (Some ?a) ''bytes'' = Some (JNum (int (length (utf8_encode (document_text bl v)))))"
    by (simp_all add: artifact_file_def artifact_digest_def artifact_json_def get_def)
  have "is_digest (digest bl (document_text bl v))" using digest_shape [OF laws] by (simp add: is_digest_def)
  moreover have "read_file folder n fs = (Inr (document_text bl v), fs)" using Cons.prems d by (simp add: read_file_Inr)
  moreover have "verify_artifacts bl folder (bundle_artifacts bl documents) fs = (Inr (), fs)" using Cons by simp
  ultimately show ?case using d a unfolding bundle_artifacts_def by (simp add: Let_def andThen_def text_or_empty_def)
qed (simp add: bundle_artifacts_def)

lemma artifact_names: "map (\<lambda>a. text_or_empty (artifact_file a)) (bundle_artifacts bl documents) = map fst documents"
  "list_ex (\<lambda>a. case artifact_file a of None \<Rightarrow> True | Some f \<Rightarrow> \<not> is_file_name f) (bundle_artifacts bl documents)
    \<longleftrightarrow> \<not> list_all is_file_name (map fst documents)"
  by (induction documents) (auto simp: bundle_artifacts_def artifact_file_def artifact_json_def get_def text_or_empty_def)

lemma manifest_fields:
  "get (Some (bundle_manifest bl f artifacts)) ''artifacts'' = Some (JArr artifacts)"
  "get (Some (bundle_manifest bl f artifacts)) ''schemaVersion'' = Some (JStr ''cellflow-review-bundle-v1'')"
  "get (Some (bundle_manifest bl f artifacts)) ''releaseSha'' = Some (JStr (bf_releaseSha f))"
  by (simp_all add: bundle_manifest_def Let_def get_def)

lemma reserved_names: "is_file_name ''manifest.json''" "is_file_name ''README.md''"
  by code_simp+

lemma reads_back:
  fixes bl :: "'u bundle_lib" and folder :: string and fs :: files
  assumes laws: "sha_laws bl" and d: "distinct (map fst documents)" and names: "list_all is_file_name (map fst documents)"
    and other: "set (map fst documents) \<inter> {''manifest.json'', ''README.md'', ''SHA256SUMS''} = {}" and sha: "is_sha (bf_releaseSha f)"
    and parse: "bl_parse bl (jsonText (bundle_manifest bl f (bundle_artifacts bl documents))) = Inr (bundle_manifest bl f (bundle_artifacts bl documents))"
  defines "w \<equiv> written folder (bundle_entries bl documents f @ [(''SHA256SUMS'', checksum_text bl (bundle_entries bl documents f))]) fs"
  shows "verify_bundle bl folder w = (Inr (), w)"
proof -
  let ?E = "bundle_entries bl documents f" and ?artifacts = "bundle_artifacts bl documents"
  have fsts: "map fst ?E = map fst documents @ [''manifest.json'', ''README.md'']" by (auto simp: bundle_entries_def split_beta comp_def)
  have distinct: "distinct (map fst (?E @ [(''SHA256SUMS'', checksum_text bl ?E)]))" using d other by (auto simp: fsts)
  have there: "w (path_in folder n) = Some c" if "(n, c) \<in> set ?E" for n c
    unfolding w_def using that by (intro written_file [OF distinct]) simp
  have sums: "w (path_in folder ''SHA256SUMS'') = Some (checksum_text bl ?E)" unfolding w_def by (intro written_file [OF distinct]) simp
  have manifest: "readJson_file bl folder ''manifest.json'' w = (Inr (bundle_manifest bl f ?artifacts), w)"
    using there [of "''manifest.json''"] parse by (auto simp: readJson_Inr bundle_entries_def)
  have E: "list_all (\<lambda>(n, c). is_file_name n) ?E" "?E \<noteq> []"
    using names reserved_names by (auto simp: bundle_entries_def list_all_iff)
  obtain es where es: "mset es = mset ?E" and lines': "split_lines [] (js_trim (checksum_text bl ?E)) = map (checksum_line bl) es"
    by (rule checksum_lines [OF laws E])
  let ?names = "set ([''manifest.json'', ''README.md''] @ map (\<lambda>a. text_or_empty (artifact_file a)) ?artifacts)"
  have set_names: "?names = set (map fst ?E)" unfolding artifact_names fsts by auto
  have size: "length es = length ?E" using es by (metis size_mset)
  have distinctE: "distinct (map fst ?E)" using distinct by simp
  then have card: "card ?names = length ?E" unfolding set_names by (metis distinct_card length_map)
  have size_artifacts: "length ?artifacts + 2 = length ?E" by (simp add: bundle_artifacts_def bundle_entries_def)
  have set_es: "set es = set ?E" using es by (rule mset_eq_setD)
  have "distinct (map fst es)" using distinctE es by (metis mset_map mset_eq_imp_distinct_iff)
  moreover have "list_all (\<lambda>(n, c). is_file_name n \<and> n \<in> ?names \<and> w (path_in folder n) = Some c) es"
    using E(1) there unfolding set_names by (auto simp: list_all_iff set_es intro: rev_image_eqI)
  ultimately have lines_ok: "verify_lines bl folder ?names {} (map (checksum_line bl) es) w = (Inr (), w)"
    by (intro lines_verify [OF laws]) auto
  have artifacts_ok: "verify_artifacts bl folder ?artifacts w = (Inr (), w)"
  proof (rule artifacts_verify [OF laws])
    have "(n, document_text bl v) \<in> set ?E" if "(n, v) \<in> set documents" for n v
      using that by (auto simp: bundle_entries_def intro: rev_image_eqI)
    with there show "list_all (\<lambda>(n, v). w (path_in folder n) = Some (document_text bl v)) documents" by (auto simp: list_all_iff)
  qed
  have read_sums: "read_file folder ''SHA256SUMS'' w = (Inr (checksum_text bl ?E), w)" by (simp add: read_file_Inr sums)
  have names_ok: "\<not> list_ex (\<lambda>a. case artifact_file a of None \<Rightarrow> True | Some n \<Rightarrow> \<not> is_file_name n) ?artifacts"
    using names by (simp add: artifact_names(2))
  have counted: "length (map (checksum_line bl) es) = length ?artifacts + 2" "card ?names = length ?artifacts + 2"
    using size card size_artifacts by simp_all
  show ?thesis
    using sha names_ok lines_ok artifacts_ok counted
    by (simp add: verify_bundle_def andThen_def manifest read_sums manifest_fields lines' throwIf_def shown_def)
qed


section \<open>All or nothing\<close>

lemma required_read:
  assumes "read_required bl source names fs = (r, t)"
  shows "t = fs \<and> (\<forall>documents. r = Inr documents \<longrightarrow> map fst documents = names)"
  using assms
proof (induction names arbitrary: r t)
  case (Cons name names)
  obtain x u where x: "readJson_file bl source name fs = (x, u)" by fastforce
  have "u = fs" using x by (auto simp: readJson_file_def read_file_def andThen_def lift_sum_def split: option.splits)
  obtain y v where "read_required bl source names fs = (y, v)" by fastforce
  with Cons x \<open>u = fs\<close> show ?case by (cases x; cases y) (auto simp: andThen_def)
qed simp

lemma optional_read:
  assumes "read_optional bl source names fs = (r, t)" and "distinct names"
  shows "t = fs \<and> (\<forall>documents. r = Inr documents \<longrightarrow> distinct (map fst documents) \<and> set (map fst documents) \<subseteq> set names)"
  using assms
proof (induction names arbitrary: r t)
  case (Cons name names)
  obtain x u where x: "readJson_file bl source name fs = (x, u)" by fastforce
  have "u = fs" using x by (auto simp: readJson_file_def read_file_def andThen_def lift_sum_def split: option.splits)
  obtain y v where y: "read_optional bl source names fs = (y, v)" by fastforce
  from Cons.IH [OF y] Cons.prems(2) have IH: "v = fs" "\<And>documents. y = Inr documents \<Longrightarrow> distinct (map fst documents) \<and> set (map fst documents) \<subseteq> set names"
    by auto
  show ?case
  proof (cases x)
    case (Inl e)
    with Cons.prems x y IH \<open>u = fs\<close> show ?thesis by (auto split: if_splits)
  next
    case (Inr j)
    show ?thesis
    proof (cases y)
      case (Inl e)
      with Inr Cons.prems x y IH(1) \<open>u = fs\<close> show ?thesis by (auto simp: andThen_def)
    next
      case docs: (Inr documents)
      with Inr Cons.prems(1) x y IH(1) \<open>u = fs\<close> have "r = Inr ((name, j) # documents)" "t = fs" by (simp_all add: andThen_def)
      with IH(2) [OF docs] Cons.prems(2) show ?thesis by auto
    qed
  qed
qed simp

text \<open>The outcome of reading and checking a run: an error, or its documents and what is packaged of them.\<close>

definition checked_run :: "'u bundle_lib \<Rightarrow> string \<Rightarrow> string \<Rightarrow> files \<Rightarrow> js_error + (string \<times> json) list \<times> BundleFacts" where
  "checked_run bl source expectedSha fs = fst (andThen (read_required bl source required_files) (\<lambda>required.
     andThen (read_optional bl source optional_files) (\<lambda>optional.
     andThen (lift_sum (check_documents bl (required @ optional) expectedSha)) (\<lambda>f. ret (required @ optional, f)))) fs)"

lemma lower_sha: "is_sha s \<Longrightarrow> is_sha (toLowerCase s)"
proof -
  have "is_hex_any (lower_char c)" if "is_hex_any c" for c
  proof (cases "65 \<le> code_unit c \<and> code_unit c \<le> 70")
    case True
    then have "code_unit (lower_char c) = code_unit c + 32" by (simp add: lower_char_def)
    then show ?thesis using True by (simp add: is_hex_any_def is_hex_lower_def)
  next
    case False
    with that have "is_hex_lower c" by (auto simp: is_hex_any_def)
    then show ?thesis by (simp add: hex_lower_fixed is_hex_any_def)
  qed
  then show "is_sha s \<Longrightarrow> is_sha (toLowerCase s)" by (auto simp: is_sha_def toLowerCase_def list_all_iff)
qed

lemma checked_sha: "check_documents bl documents expectedSha = Inr f \<Longrightarrow> is_sha (bf_releaseSha f)"
proof -
  assume c: "check_documents bl documents expectedSha = Inr f"
  then obtain v message where "assertSafeSha v message = Inr (bf_releaseSha f)"
    unfolding check_documents_def by (auto simp: sum_bind_Inr split: if_splits)
  then show ?thesis
    by (auto simp: assertSafeSha_def test_def lower_value_def split: if_splits option.splits json.splits dest: lower_sha)
qed

lemma required_names: "distinct (required_files @ optional_files)" "list_all is_file_name (required_files @ optional_files)"
  "set (required_files @ optional_files) \<inter> {''manifest.json'', ''README.md'', ''SHA256SUMS''} = {}"
  by code_simp+

text \<open>
  Property C11: the packager either refuses a run, for the error its checks give, and has written nothing;
  or it writes every document of the run redacted, and the bundle it has written verifies, as long as
  the JSON parser reads back the manifest it wrote; and it writes nowhere but in the folder of the
  bundle.
\<close>

theorem packages_or_refuses:
  assumes laws: "sha_laws bl" and folders: "source \<noteq> target"
    and parse: "\<And>documents f. checked_run bl source expectedSha fs = Inr (documents, f) \<Longrightarrow>
      bl_parse bl (jsonText (bundle_manifest bl f (bundle_artifacts bl documents))) = Inr (bundle_manifest bl f (bundle_artifacts bl documents))"
  shows "case checked_run bl source expectedSha fs of
      Inl e \<Rightarrow> create_bundle bl source target expectedSha fs = (Inl e, fs)
    | Inr (documents, f) \<Rightarrow> \<exists>t. create_bundle bl source target expectedSha fs = (Inr (), t) \<and> verify_bundle bl target t = (Inr (), t)
        \<and> list_all (\<lambda>(n, v). t (path_in target n) = Some (document_text bl v)) documents
        \<and> (\<forall>p. (\<exists>n. p = path_in target n) \<or> t p = fs p)"
proof -
  obtain x t1 where x: "read_required bl source required_files fs = (x, t1)" by fastforce
  obtain y t2 where y: "read_optional bl source optional_files fs = (y, t2)" by fastforce
  have t: "t1 = fs" "t2 = fs" using required_read [OF x] optional_read [OF y] required_names by auto
  show ?thesis
  proof (cases "\<exists>a b f. x = Inr a \<and> y = Inr b \<and> check_documents bl (a @ b) expectedSha = Inr f")
    case False
    then have "\<exists>e. checked_run bl source expectedSha fs = Inl e \<and> create_bundle bl source target expectedSha fs = (Inl e, fs)"
      using x y t folders
      by (cases x; cases y; cases "check_documents bl (projr x @ projr y) expectedSha")
        (auto simp: checked_run_def create_bundle_def andThen_def lift_sum_def)
    then show ?thesis by auto
  next
    case True
    then obtain a b f where ab: "x = Inr a" "y = Inr b" "check_documents bl (a @ b) expectedSha = Inr f" by blast
    let ?docs = "a @ b" and ?E = "bundle_entries bl (a @ b) f"
    let ?w = "written target (?E @ [(''SHA256SUMS'', checksum_text bl ?E)]) fs"
    have run: "checked_run bl source expectedSha fs = Inr (?docs, f)" using x y t ab by (simp add: checked_run_def andThen_def lift_sum_def)
    have fsts: "map fst a = required_files" "distinct (map fst b)" "set (map fst b) \<subseteq> set optional_files"
      using required_read [OF x] optional_read [OF y] ab required_names(1) by auto
    then have names: "distinct (map fst ?docs)" "set (map fst ?docs) \<subseteq> set (required_files @ optional_files)"
      using required_names(1) by auto
    have others: "list_all is_file_name (map fst ?docs)" "set (map fst ?docs) \<inter> {''manifest.json'', ''README.md'', ''SHA256SUMS''} = {}"
      using names(2) required_names(2,3) unfolding list_all_iff by blast+
    have verified: "verify_bundle bl target ?w = (Inr (), ?w)"
      by (rule reads_back [OF laws names(1) others checked_sha [OF ab(3)] parse [OF run]])
    have created: "create_bundle bl source target expectedSha fs = (Inr (), ?w)"
      using x y t ab folders verified by (simp add: create_bundle_def andThen_def lift_sum_def bundle_written)
    have "distinct (map fst (?E @ [(''SHA256SUMS'', checksum_text bl ?E)]))"
      using names(1) others(2) by (auto simp: bundle_entries_def split_beta comp_def)
    then have "list_all (\<lambda>(n, v). ?w (path_in target n) = Some (document_text bl v)) ?docs"
      by (auto simp: list_all_iff bundle_entries_def intro!: written_file intro: rev_image_eqI)
    moreover have "\<forall>p. (\<exists>n. p = path_in target n) \<or> ?w p = fs p" using written_other by blast
    ultimately show ?thesis using verified created unfolding run by auto
  qed
qed

section \<open>A run\<close>

text \<open>A run and a bundle on which the properties of the packager are evaluated.\<close>

definition sample_urls :: "string url_class" where
  "sample_urls = \<lparr>uc_parse = (\<lambda>s. None), uc_userinfo = (\<lambda>u. False), uc_hideUser = id, uc_keys = (\<lambda>u. []), uc_hideParam = (\<lambda>k u. u), uc_text = id\<rparr>"

definition packager_host :: "string \<Rightarrow> ParsedUrl option" where
  "packager_host s = Some \<lparr>u_href = s, u_protocol = ''https:'', u_username = [], u_password = [], u_hostname = s, u_host = s, u_port = [],
     u_pathname = [], u_search = []\<rparr>"

definition run_sha :: string where
  "run_sha = replicate 40 CHR ''a''"

definition run_endpoint :: "string \<Rightarrow> json" where
  "run_endpoint host = JObj [(''ok'', JBool True), (''chain'', JStr ''ckb_testnet''),
     (''genesisHash'', JStr (''0x'' @ replicate 64 CHR ''1'')), (''url'', JStr host)]"

definition run_passed :: json where
  "run_passed = JObj [(''result'', JObj [(''passed'', JBool True)])]"

definition run_results :: "json list" where
  "run_results = map (\<lambda>s. JObj [(''name'', JStr (snd s)), (''passed'', JBool True)]) EXPECTED_SCENARIOS"

definition run_summary :: json where
  "run_summary = JObj [(''passed'', JBool True), (''scenarios'', JArr run_results)]"

definition run_project :: json where
  "run_project = JObj [(''release'', JObj [(''commitSha'', JStr run_sha)]), (''project'', JObj [(''network'', JStr ''testnet''), (''apiKey'', JStr ''abc'')])]"

definition run_documents :: "(string \<times> json) list" where
  "run_documents = [(''01-network.json'', JArr [run_endpoint ''a'', run_endpoint ''b'']),
     (''02-cellflow-readiness.json'', JObj [(''releaseSha'', JStr run_sha), (''ok'', JBool True)]),
     (''10-two-wallet-same-fee-race.json'', run_passed), (''20-two-wallet-higher-fee-rbf.json'', run_passed),
     (''30-wallet-input-race.json'', run_passed), (''40-ambiguous-recovery.json'', run_passed),
     (''90-project-evidence.json'', run_project), (''99-summary.json'', run_summary)]"

definition run_facts :: BundleFacts where
  "run_facts = \<lparr>bf_releaseSha = run_sha, bf_network = [run_endpoint ''a'', run_endpoint ''b''], bf_summary = run_summary, bf_scenarios = run_results\<rparr>"

definition zero_sha :: "nat list \<Rightarrow> nat list" where
  "zero_sha b = replicate 32 0"

text \<open>Each document is stored under its own name as its text; every other text is the manifest.\<close>

definition table_lib :: "json \<Rightarrow> string bundle_lib" where
  "table_lib manifest = \<lparr>bl_parse = (\<lambda>t. case map_of run_documents t of Some v \<Rightarrow> Inr v | None \<Rightarrow> Inr manifest),
     bl_sha256 = zero_sha, bl_newURL = packager_host, bl_urls = sample_urls\<rparr>"

definition run_manifest :: json where
  "run_manifest = bundle_manifest (table_lib JNull) run_facts (bundle_artifacts (table_lib JNull) run_documents)"

definition run_files :: files where
  "run_files = map_of (map (\<lambda>(n, v). (path_in ''in'' n, n)) run_documents)"

lemma table_manifest: "bundle_manifest (table_lib m) f a = bundle_manifest (table_lib JNull) f a"
  "bundle_artifacts (table_lib m) d = bundle_artifacts (table_lib JNull) d"
  by (simp_all add: bundle_manifest_def table_lib_def bundle_artifacts_def artifact_json_def digest_def document_text_def)

lemma run_checked: "check_documents (table_lib m) run_documents run_sha = Inr run_facts"
proof -
  have host: "network_host (table_lib m) = network_host (table_lib JNull)" by (rule ext) (simp add: network_host_def table_lib_def)
  have "check_network (table_lib m) = check_network (table_lib JNull)" unfolding check_network_def host ..
  then have "check_documents (table_lib m) run_documents run_sha = check_documents (table_lib JNull) run_documents run_sha"
    by (simp only: check_documents_def)
  also have "\<dots> = Inr run_facts" by code_simp
  finally show ?thesis .
qed

lemma manifest_text: "map_of run_documents (jsonText (bundle_manifest bl f a)) = None"
proof -
  have "hd (jsonText (bundle_manifest bl f a)) = CHR ''{''" by (simp add: jsonText_def bundle_manifest_def Let_def)
  moreover have "\<forall>n \<in> fst ` set run_documents. hd n \<noteq> CHR ''{''" by (simp add: run_documents_def)
  ultimately show ?thesis by (metis map_of_eq_None_iff)
qed

lemma table_laws: "sha_laws (table_lib m)"
  by (simp add: sha_laws_def table_lib_def zero_sha_def list_all_iff)

definition run_lib :: "string bundle_lib" where
  "run_lib = table_lib run_manifest"

lemma run_reads:
  "(n, v) \<in> set run_documents \<Longrightarrow> readJson_file run_lib ''in'' n run_files = (Inr v, run_files)"
  "n \<notin> fst ` set run_documents \<Longrightarrow> readJson_file run_lib ''in'' n run_files = (Inl enoent, run_files)"
proof -
  have d: "distinct (map fst run_documents)" by code_simp
  have "map_of (map (\<lambda>(n, v). (path_in ''in'' n, n)) ds) (path_in ''in'' n) = (if n \<in> fst ` set ds then Some n else None)"
    for n and ds :: "(string \<times> json) list"
    by (induction ds) (auto simp: path_in_def)
  then have files: "run_files (path_in ''in'' n) = (if n \<in> fst ` set run_documents then Some n else None)" for n
    unfolding run_files_def .
  show "readJson_file run_lib ''in'' n run_files = (Inr v, run_files)" if m: "(n, v) \<in> set run_documents"
  proof -
    have "map_of run_documents n = Some v" using d m by simp
    moreover have "n \<in> fst ` set run_documents" using m by force
    ultimately show ?thesis by (simp add: readJson_file_def read_file_def files andThen_def lift_sum_def run_lib_def table_lib_def)
  qed
  show "readJson_file run_lib ''in'' n run_files = (Inl enoent, run_files)" if m: "n \<notin> fst ` set run_documents"
    using m by (simp add: readJson_file_def read_file_def files andThen_def)
qed

lemma documents_read:
  "set documents \<subseteq> set run_documents \<Longrightarrow> read_required run_lib ''in'' (map fst documents) run_files = (Inr documents, run_files)"
proof (induction documents)
  case (Cons d documents)
  then have "readJson_file run_lib ''in'' (fst d) run_files = (Inr (snd d), run_files)" by (intro run_reads(1)) simp
  with Cons show ?case by (simp add: andThen_def)
qed simp

lemma run_result: "checked_run run_lib ''in'' run_sha run_files = Inr (run_documents, run_facts)"
proof -
  have "map fst run_documents = required_files" by code_simp
  with documents_read [of run_documents] have r: "read_required run_lib ''in'' required_files run_files = (Inr run_documents, run_files)" by simp
  have code: "errorCode (Suc 0) enoent = Some ''ENOENT''" by code_simp
  have "\<forall>n \<in> set optional_files. n \<notin> fst ` set run_documents" by code_simp
  then have o': "read_optional run_lib ''in'' optional_files run_files = (Inr [], run_files)"
    by (simp add: optional_files_def run_reads(2) code del: errorCode.simps)
  have "check_documents run_lib run_documents run_sha = Inr run_facts" unfolding run_lib_def by (rule run_checked)
  then show ?thesis unfolding checked_run_def by (simp add: andThen_def r o' lift_sum_def)
qed

lemma run_parse:
  "bl_parse run_lib (jsonText (bundle_manifest run_lib run_facts (bundle_artifacts run_lib run_documents)))
    = Inr (bundle_manifest run_lib run_facts (bundle_artifacts run_lib run_documents))"
proof -
  have m: "bundle_manifest run_lib run_facts (bundle_artifacts run_lib run_documents) = run_manifest"
    unfolding run_lib_def table_manifest [of run_manifest] run_manifest_def [symmetric] ..
  have "map_of run_documents (jsonText run_manifest) = None" unfolding run_manifest_def by (rule manifest_text)
  then show ?thesis unfolding m by (simp add: run_lib_def table_lib_def)
qed

text \<open>Two stores the bundle of the run is written to: one with nothing else, one with the evidence of the run.\<close>

definition run_bundle :: "files \<Rightarrow> files" where
  "run_bundle fs = written ''out'' (bundle_entries run_lib run_documents run_facts
     @ [(''SHA256SUMS'', checksum_text run_lib (bundle_entries run_lib run_documents run_facts))]) fs"

lemma run_names: "distinct (map fst run_documents)" "list_all is_file_name (map fst run_documents)"
  "set (map fst run_documents) \<inter> {''manifest.json'', ''README.md'', ''SHA256SUMS''} = {}" "is_sha (bf_releaseSha run_facts)"
  by code_simp+

lemma run_laws: "sha_laws run_lib"
  unfolding run_lib_def by (rule table_laws)

lemma run_bundle_verifies: "verify_bundle run_lib ''out'' (run_bundle fs) = (Inr (), run_bundle fs)"
  unfolding run_bundle_def by (rule reads_back [OF run_laws run_names run_parse])

lemma run_bundle_file:
  "(n, c) \<in> set (bundle_entries run_lib run_documents run_facts) \<or> (n, c) = (''SHA256SUMS'', checksum_text run_lib (bundle_entries run_lib run_documents run_facts))
    \<Longrightarrow> run_bundle fs (path_in ''out'' n) = Some c"
  unfolding run_bundle_def using run_names by (intro written_file) (auto simp: bundle_entries_def split_beta comp_def)

theorem bundle_sealed_witness:
  "\<exists>c c'. run_bundle run_files (path_in ''out'' ''README.md'') = Some c \<and> run_bundle Map.empty (path_in ''out'' ''README.md'') = Some c'
    \<and> digest run_lib c = digest run_lib c'"
proof -
  have "run_bundle Map.empty (path_in ''out'' ''SHA256SUMS'') = run_bundle run_files (path_in ''out'' ''SHA256SUMS'')"
    unfolding run_bundle_file [OF disjI2 [OF refl]] ..
  from bundle_sealed [OF run_bundle_verifies run_bundle_verifies this] show ?thesis by auto
qed

theorem packages_or_refuses_witness:
  "\<exists>t. create_bundle run_lib ''in'' ''out'' run_sha run_files = (Inr (), t) \<and> verify_bundle run_lib ''out'' t = (Inr (), t)
    \<and> list_all (\<lambda>(n, v). t (path_in ''out'' n) = Some (document_text run_lib v)) run_documents
    \<and> (\<forall>p. (\<exists>n. p = path_in ''out'' n) \<or> t p = run_files p)"
proof -
  have parse: "bl_parse run_lib (jsonText (bundle_manifest run_lib f (bundle_artifacts run_lib documents)))
      = Inr (bundle_manifest run_lib f (bundle_artifacts run_lib documents))"
    if "checked_run run_lib ''in'' run_sha run_files = Inr (documents, f)" for documents f
    using that run_parse unfolding run_result by auto
  have "''in'' \<noteq> ''out''" by simp
  from packages_or_refuses [of run_lib "''in''" "''out''" run_sha run_files, OF run_laws this parse] show ?thesis unfolding run_result sum.case prod.case .
qed

end
