(* ===== verification/Cli.thy ===== *)
theory Cli
  imports LiveConfig Client
begin

text \<open>
  Models packages/cli/bin/cellflow.mjs: one command of the command line, its requests and what it
  prints. The network and the source of request identifiers are parameters.
\<close>

section \<open>Requests\<close>

text \<open>What \<open>fetch\<close> came to: the status, the JSON body when it has one, and the header x-request-id; or an error.\<close>

datatype CliExchange =
    Replied int "json option" "string option"
  | Unreached js_error

record CliRequest =
  cq_url :: string
  cq_method :: "string option"
  cq_body :: "string option"
  cq_requestId :: string
  cq_authorization :: "string option"

record 's cli_env =
  cl_process :: process_env
  cl_fetch :: "CliRequest \<Rightarrow> 's \<Rightarrow> CliExchange \<times> 's"
  cl_uuid :: "'s \<Rightarrow> string \<times> 's"

text \<open>\<open>process.env.CELLFLOW_ENDPOINT ?? process.env.NEXT_PUBLIC_APP_URL ?? "http://localhost:3000"\<close>.\<close>

definition cli_endpoint :: "process_env \<Rightarrow> string" where
  "cli_endpoint pe = drop_slash (case pe_env pe ''CELLFLOW_ENDPOINT'' of Some e \<Rightarrow> e
     | None \<Rightarrow> (case pe_env pe ''NEXT_PUBLIC_APP_URL'' of Some e \<Rightarrow> e | None \<Rightarrow> ''http://localhost:3000''))"

definition cli_apiKey :: "process_env \<Rightarrow> string" where
  "cli_apiKey pe = text_or_empty (pe_env pe ''CELLFLOW_API_KEY'')"

text \<open>A JSON value in a template literal after \<open>??\<close>: null and undefined fall back.\<close>

definition cli_text :: "json option \<Rightarrow> string \<Rightarrow> string" where
  "cli_text v fallback = (case v of None \<Rightarrow> fallback | Some JNull \<Rightarrow> fallback | Some j \<Rightarrow> js_String j)"

definition cli_failure :: "int \<Rightarrow> json \<Rightarrow> string option \<Rightarrow> string \<Rightarrow> js_error" where
  "cli_failure status body header requestId =
    (let err = get (Some body) ''error'';
         remoteId = cli_text (get err ''requestId'') (case header of Some i \<Rightarrow> i | None \<Rightarrow> requestId) in
     plain_failure (cli_text (get err ''message'') (''HTTP '' @ int_string status) @ '' [request '' @ remoteId @ '']''))"

definition cli_request :: "'s cli_env \<Rightarrow> string \<Rightarrow> string option \<Rightarrow> string option \<Rightarrow> bool \<Rightarrow> ('s, js_error, json) action" where
  "cli_request env path method' body authenticated = (\<lambda>s.
     case cl_uuid env s of (requestId, t) \<Rightarrow>
      (let key = cli_apiKey (cl_process env) in
       case cl_fetch env \<lparr>cq_url = cli_endpoint (cl_process env) @ path, cq_method = method', cq_body = body, cq_requestId = requestId,
           cq_authorization = (if authenticated \<and> key \<noteq> [] then Some (''Bearer '' @ key) else None)\<rparr> t of
         (Unreached e, u) \<Rightarrow> (Inl e, u)
       | (Replied status contents header, u) \<Rightarrow>
           let doc = (case contents of Some v \<Rightarrow> v | None \<Rightarrow> JObj []) in
           (if 200 \<le> status \<and> status \<le> 299 then Inr doc else Inl (cli_failure status doc header requestId), u)))"

definition requireKey :: "'s cli_env \<Rightarrow> ('s, js_error, unit) action" where
  "requireKey env = (if cli_apiKey (cl_process env) = [] then throw (plain_failure ''CELLFLOW_API_KEY is required for this command'') else ret ())"


section \<open>Commands\<close>

text \<open>The message of an error, or its text.\<close>

definition error_text :: "js_error \<Rightarrow> string" where
  "error_text e = (case e of JsError name message props cause \<Rightarrow> message | JsPlain v \<Rightarrow> error_String e)"

definition cli_settled :: "js_error + json \<Rightarrow> json" where
  "cli_settled r = (case r of
     Inr v \<Rightarrow> JObj [(''ok'', JBool True), (''value'', v)]
   | Inl e \<Rightarrow> JObj [(''ok'', JBool False), (''error'', JStr (error_text e))])"

text \<open>\<open>Promise.allSettled\<close>, whose requests run one after the other here.\<close>

fun all_settled :: "('s, js_error, json) action list \<Rightarrow> 's \<Rightarrow> (js_error + json) list \<times> 's" where
  "all_settled [] s = ([], s)"
| "all_settled (m # ms) s = (case m s of (r, t) \<Rightarrow> case all_settled ms t of (rs, u) \<Rightarrow> (r # rs, u))"

definition fulfilled :: "js_error + json \<Rightarrow> bool" where
  "fulfilled r \<longleftrightarrow> (case r of Inr v \<Rightarrow> True | Inl e \<Rightarrow> False)"

text \<open>What a command prints, and its exit code.\<close>

type_synonym cli_result = "string \<times> int"

definition printed :: "json \<Rightarrow> cli_result" where
  "printed v = (json_pretty 0 v, 0)"

definition doctor_report :: "'s cli_env \<Rightarrow> (js_error + json) list \<Rightarrow> (js_error + json) list option \<Rightarrow> cli_result" where
  "doctor_report env publicChecks privateChecks =
    (let authenticated = (case privateChecks of
           None \<Rightarrow> JObj [(''ok'', JBool False), (''skipped'', JBool True)]
         | Some checks \<Rightarrow> JObj [(''ok'', JBool (list_all fulfilled checks)), (''skipped'', JBool False), (''checks'', JArr (map cli_settled checks))]);
         report = JObj [(''endpoint'', JStr (cli_endpoint (cl_process env))),
           (''public'', JObj [(''health'', cli_settled (publicChecks ! 0)), (''rpc'', cli_settled (publicChecks ! 1)), (''readiness'', cli_settled (publicChecks ! 2))]),
           (''authenticated'', authenticated)];
         failed = (\<not> list_all fulfilled publicChecks \<or> (case privateChecks of None \<Rightarrow> False | Some checks \<Rightarrow> \<not> list_all fulfilled checks)) in
     (json_pretty 0 report, if failed then 2 else 0))"

definition cli_doctor :: "'s cli_env \<Rightarrow> ('s, js_error, cli_result) action" where
  "cli_doctor env = (\<lambda>s.
     case all_settled [cli_request env ''/api/health'' None None False, cli_request env ''/api/health/rpc'' None None False,
       cli_request env ''/api/ready'' None None False] s of
       (publicChecks, t) \<Rightarrow>
         if cli_apiKey (cl_process env) = [] then (Inr (doctor_report env publicChecks None), t)
         else (case all_settled [cli_request env ''/api/v1/operations'' None None True, cli_request env ''/api/v1/intents?limit=1'' None None True] t of
           (checks, u) \<Rightarrow> (Inr (doctor_report env publicChecks (Some checks)), u)))"

text \<open>The argument of \<open>intents\<close>: between 1 and 200, and 100 when it is no number.\<close>

definition safe_limit :: "process_env \<Rightarrow> string option \<Rightarrow> int" where
  "safe_limit pe arg = (case pe_number pe (case arg of Some a \<Rightarrow> a | None \<Rightarrow> ''100'') of
     None \<Rightarrow> 100
   | Some limit \<Rightarrow> min (max limit 1) 200)"

definition named :: "string option \<Rightarrow> string \<Rightarrow> (string \<Rightarrow> ('s, js_error, 'a) action) \<Rightarrow> ('s, js_error, 'a) action" where
  "named arg what f = (case or_null arg of None \<Rightarrow> throw (plain_failure (what @ '' is required'')) | Some a \<Rightarrow> f a)"

text \<open>\<open>result.evidence ?? result\<close>, which throws for null.\<close>

definition evidence_or :: "json \<Rightarrow> js_error + json" where
  "evidence_or result = (if result = JNull then Inl (JsError ''TypeError'' (''Cannot read properties of null (reading '' @ [CHR 0x27] @ ''evidence'' @ [CHR 0x27] @ '')'') [] None)
     else Inr (case get (Some result) ''evidence'' of None \<Rightarrow> result | Some JNull \<Rightarrow> result | Some e \<Rightarrow> e))"

definition intent_url :: "string \<Rightarrow> string \<Rightarrow> string" where
  "intent_url intentId rest = ''/api/v1/intents/'' @ encodeURIComponent intentId @ rest"

definition cli_command :: "'s cli_env \<Rightarrow> string \<Rightarrow> string option \<Rightarrow> ('s, js_error, cli_result) action" where
  "cli_command env command arg =
    (let need = requireKey env; send = (\<lambda>path method' body. cli_request env path method' body True); show' = (\<lambda>m. andThen m (\<lambda>v. ret (printed v))) in
     if command = ''doctor'' then cli_doctor env
     else if command = ''ready'' then show' (cli_request env ''/api/ready'' None None (cli_apiKey (cl_process env) \<noteq> []))
     else if command = ''operations'' then andThen need (\<lambda>_. show' (send ''/api/v1/operations'' None None))
     else if command = ''intents'' then
       andThen need (\<lambda>_. show' (send (''/api/v1/intents?limit='' @ int_string (safe_limit (cl_process env) arg)) None None))
     else if command = ''intent'' then
       andThen need (\<lambda>_. named arg ''intentId'' (\<lambda>i. show' (send (intent_url i []) None None)))
     else if command = ''reconcile'' then
       andThen need (\<lambda>_. named arg ''intentId'' (\<lambda>i. show' (send (intent_url i ''/reconcile'') (Some ''POST'') (Some ''{}''))))
     else if command = ''evidence'' then
       andThen need (\<lambda>_. named arg ''intentId'' (\<lambda>i. andThen (send (intent_url i ''/evidence'') None None) (\<lambda>v. show' (lift_sum (evidence_or v)))))
     else if command = ''project-evidence'' then
       andThen need (\<lambda>_. andThen (send ''/api/v1/project-evidence'' None None) (\<lambda>v. show' (lift_sum (evidence_or v))))
     else if command = ''webhooks'' then andThen need (\<lambda>_. show' (send ''/api/v1/webhooks'' None None))
     else if command = ''keys'' then andThen need (\<lambda>_. show' (send ''/api/v1/api-keys'' None None))
     else if command = ''key-create'' then
       andThen need (\<lambda>_. show' (send ''/api/v1/api-keys'' (Some ''POST'')
         (Some (json_stringify (JObj [(''label'', JStr (case arg of Some a \<Rightarrow> a | None \<Rightarrow> ''rotated''))])))))
     else if command = ''key-revoke'' then
       andThen need (\<lambda>_. named arg ''keyId'' (\<lambda>k.
         andThen (send (''/api/v1/api-keys/'' @ encodeURIComponent k) (Some ''DELETE'') None) (\<lambda>_.
         ret (json_stringify (JObj [(''revoked'', JStr k)]), 0))))
     else throw (plain_failure (''Unknown command: '' @ command)))"

definition usage_text :: string where
  "usage_text = ''CellFlow CLI 0.3'' @ concat (map (\<lambda>l. CHR 0x0A # l)
     [[], ''Commands:'', ''  doctor'', ''  ready'', ''  operations'', ''  intents [limit]'', ''  intent <intentId>'', ''  reconcile <intentId>'',
      ''  evidence <intentId>'', ''  project-evidence'', ''  webhooks'', ''  keys'', ''  key-create <label>'', ''  key-revoke <keyId>'', [],
      ''Environment:'', ''  CELLFLOW_ENDPOINT   deployed base URL (default http://localhost:3000)'', ''  CELLFLOW_API_KEY    project API key''])"

text \<open>What a run prints, on its output or on its error output, and its exit code.\<close>

record CliRun =
  cr_out :: "string option"
  cr_err :: "string option"
  cr_code :: int

definition cli_main :: "'s cli_env \<Rightarrow> string list \<Rightarrow> 's \<Rightarrow> CliRun \<times> 's" where
  "cli_main env args s =
    (let command = (case args of [] \<Rightarrow> [] | c # rest \<Rightarrow> c); arg = (case args of c # a # rest \<Rightarrow> Some a | _ \<Rightarrow> None) in
     if command = [] \<or> command = ''help'' \<or> command = ''--help'' then (\<lparr>cr_out = Some usage_text, cr_err = None, cr_code = 0\<rparr>, s)
     else (case cli_command env command arg s of
       (Inr (out, code), t) \<Rightarrow> (\<lparr>cr_out = Some out, cr_err = None, cr_code = code\<rparr>, t)
     | (Inl e, t) \<Rightarrow> (\<lparr>cr_out = None, cr_err = Some (''cellflow: '' @ error_text e), cr_code = 1\<rparr>, t)))"


section \<open>What a command sends\<close>

text \<open>A log of the requests sent.\<close>

definition logs_requests :: "'s cli_env \<Rightarrow> ('s \<Rightarrow> CliRequest list) \<Rightarrow> bool" where
  "logs_requests env log' \<longleftrightarrow> (\<forall>rq s. log' (snd (cl_fetch env rq s)) = log' s @ [rq]) \<and> (\<forall>s. log' (snd (cl_uuid env s)) = log' s)"

text \<open>A request to the configured service, with no credential but the configured key.\<close>

definition proper_request :: "'s cli_env \<Rightarrow> CliRequest \<Rightarrow> bool" where
  "proper_request env rq \<longleftrightarrow> (\<exists>path. cq_url rq = cli_endpoint (cl_process env) @ ''/api/'' @ path)
     \<and> (\<forall>a. cq_authorization rq = Some a \<longrightarrow> cli_apiKey (cl_process env) \<noteq> [] \<and> a = ''Bearer '' @ cli_apiKey (cl_process env))"

definition asks :: "'s cli_env \<Rightarrow> ('s \<Rightarrow> CliRequest list) \<Rightarrow> nat \<Rightarrow> ('s \<Rightarrow> 'a \<times> 's) \<Rightarrow> bool" where
  "asks env log' k m \<longleftrightarrow> (\<forall>s. \<exists>rqs. log' (snd (m s)) = log' s @ rqs \<and> length rqs \<le> k \<and> list_all (proper_request env) rqs)"

lemma asks_none: "asks env log' k (ret x)" "asks env log' k (throw e)" "asks env log' k (lift_sum y)"
  by (auto simp: asks_def)

lemma asks_then:
  assumes "asks env log' j m" and "\<And>x. asks env log' k (f x)"
  shows "asks env log' (j + k) (andThen m f)"
  unfolding asks_def
proof
  fix s
  obtain r t where m: "m s = (r, t)" by fastforce
  from assms(1) m obtain xs where xs: "log' t = log' s @ xs" "length xs \<le> j" "list_all (proper_request env) xs"
    by (auto simp: asks_def dest: spec [of _ s])
  show "\<exists>rqs. log' (snd (andThen m f s)) = log' s @ rqs \<and> length rqs \<le> j + k \<and> list_all (proper_request env) rqs"
  proof (cases r)
    case (Inl e)
    with m xs show ?thesis by (intro exI [of _ xs]) (simp add: andThen_def)
  next
    case (Inr x)
    obtain ys where "log' (snd (f x t)) = log' t @ ys" "length ys \<le> k" "list_all (proper_request env) ys"
      using assms(2) [of x] by (auto simp: asks_def dest: spec [of _ t])
    with m xs Inr show ?thesis by (intro exI [of _ "xs @ ys"]) (simp add: andThen_def)
  qed
qed

lemma then_asks: "asks env log' 0 m \<Longrightarrow> (\<And>x. asks env log' k (f x)) \<Longrightarrow> asks env log' k (andThen m f)"
  using asks_then [of env log' 0 m k f] by simp

lemma asks_quietly: "asks env log' k m \<Longrightarrow> (\<And>x. asks env log' 0 (f x)) \<Longrightarrow> asks env log' k (andThen m f)"
  using asks_then [of env log' k m 0 f] by simp

lemma asks_request:
  assumes "logs_requests env log'"
  shows "asks env log' (Suc k) (cli_request env (''/api/'' @ path) method' body authenticated)"
  unfolding asks_def
proof
  fix s
  let ?key = "cli_apiKey (cl_process env)"
  obtain i t where u: "cl_uuid env s = (i, t)" by fastforce
  let ?rq = "\<lparr>cq_url = cli_endpoint (cl_process env) @ ''/api/'' @ path, cq_method = method', cq_body = body, cq_requestId = i,
    cq_authorization = (if authenticated \<and> ?key \<noteq> [] then Some (''Bearer '' @ ?key) else None)\<rparr>"
  have "log' t = log' s" using assms u by (auto simp: logs_requests_def dest: spec [of _ s])
  moreover have "log' (snd (cl_fetch env ?rq t)) = log' t @ [?rq]" using assms by (simp add: logs_requests_def)
  moreover have "snd (cli_request env (''/api/'' @ path) method' body authenticated s) = snd (cl_fetch env ?rq t)"
    by (auto simp: cli_request_def u Let_def split: prod.splits CliExchange.splits)
  moreover have "proper_request env ?rq" by (auto simp: proper_request_def)
  ultimately show "\<exists>rqs. log' (snd (cli_request env (''/api/'' @ path) method' body authenticated s)) = log' s @ rqs
      \<and> length rqs \<le> Suc k \<and> list_all (proper_request env) rqs"
    by (intro exI [of _ "[?rq]"]) simp
qed

lemma asks_settled: "list_all (asks env log' 1) ms \<Longrightarrow> \<exists>rqs. log' (snd (all_settled ms s)) = log' s @ rqs
    \<and> length rqs \<le> length ms \<and> list_all (proper_request env) rqs"
proof (induction ms arbitrary: s)
  case (Cons m ms)
  obtain r t where m: "m s = (r, t)" by fastforce
  from Cons.prems m obtain xs where xs: "log' t = log' s @ xs" "length xs \<le> 1" "list_all (proper_request env) xs"
    by (auto simp: asks_def dest: spec [of _ s])
  from Cons obtain ys where "log' (snd (all_settled ms t)) = log' t @ ys" "length ys \<le> length ms" "list_all (proper_request env) ys"
    by auto
  with m xs show ?case by (intro exI [of _ "xs @ ys"]) (auto split: prod.splits)
qed simp

lemmas asks_path = asks_request [unfolded append_Cons append_Nil]

lemma asks_doctor:
  assumes laws: "logs_requests env log'"
  shows "asks env log' (if cli_apiKey (cl_process env) = [] then 3 else 5) (cli_doctor env)"
  unfolding asks_def
proof
  fix s
  let ?public = "[cli_request env ''/api/health'' None None False, cli_request env ''/api/health/rpc'' None None False,
       cli_request env ''/api/ready'' None None False]"
  let ?private = "[cli_request env ''/api/v1/operations'' None None True, cli_request env ''/api/v1/intents?limit=1'' None None True]"
  obtain rs t where p: "all_settled ?public s = (rs, t)" by fastforce
  obtain xs where xs: "log' t = log' s @ xs" "length xs \<le> 3" "list_all (proper_request env) xs"
    using asks_settled [of env log' ?public s] asks_path [OF laws, of 0] p by (auto simp: numeral_3_eq_3)
  obtain qs u where q: "all_settled ?private t = (qs, u)" by fastforce
  obtain ys where ys: "log' u = log' t @ ys" "length ys \<le> 2" "list_all (proper_request env) ys"
    using asks_settled [of env log' ?private t] asks_path [OF laws, of 0] q by (auto simp: numeral_2_eq_2)
  show "\<exists>rqs. log' (snd (cli_doctor env s)) = log' s @ rqs \<and> length rqs \<le> (if cli_apiKey (cl_process env) = [] then 3 else 5)
      \<and> list_all (proper_request env) rqs"
  proof (cases "cli_apiKey (cl_process env) = []")
    case True
    then have "snd (cli_doctor env s) = t" unfolding cli_doctor_def p by simp
    with xs True show ?thesis by auto
  next
    case False
    then have "snd (cli_doctor env s) = u" unfolding cli_doctor_def p by (simp add: q del: all_settled.simps)
    with xs ys False show ?thesis by (intro exI [of _ "xs @ ys"]) auto
  qed
qed

lemma asks_need: "asks env log' 0 (requireKey env)"
  by (simp add: requireKey_def asks_none)

lemma asks_named: "(\<And>a. asks env log' k (f a)) \<Longrightarrow> asks env log' k (named arg what f)"
  by (auto simp: named_def asks_none split: option.split)

lemma asks_command:
  assumes "logs_requests env log'" and "command \<noteq> ''doctor''"
  shows "asks env log' (Suc 0) (cli_command env command arg)"
  unfolding cli_command_def Let_def intent_url_def append_Cons append_Nil if_not_P [OF assms(2)]
  by (auto intro!: then_asks [OF asks_need] asks_named asks_quietly asks_path asks_none assms)

lemma thrown_if: "\<exists>e. a = throw e \<Longrightarrow> \<exists>e. b = throw e \<Longrightarrow> \<exists>e. (if c then a else b) = throw e"
  by auto

lemma keyless_command:
  fixes env :: "'s cli_env"
  assumes "cli_apiKey (cl_process env) = []" and "command \<noteq> ''doctor''" and "command \<noteq> ''ready''"
  shows "\<exists>e. cli_command env command arg = throw e"
proof -
  have need: "andThen (requireKey env) f = throw (plain_failure ''CELLFLOW_API_KEY is required for this command'')"
    for f :: "unit \<Rightarrow> ('s, js_error, cli_result) action"
    by (auto simp: requireKey_def assms(1) andThen_def throw_def)
  show ?thesis
    unfolding cli_command_def Let_def if_not_P [OF assms(2)] if_not_P [OF assms(3)] need
    by (rule thrown_if exI refl)+
qed

text \<open>
  A run of the command line makes at most five requests, all of them below /api/ of the
  configured endpoint; none carries a credential but the configured key; and without a key no command
  but doctor and ready makes any.
\<close>

theorem cli_requests:
  assumes "logs_requests env log'"
  shows "\<exists>rqs. log' (snd (cli_main env args s)) = log' s @ rqs \<and> length rqs \<le> 5 \<and> list_all (proper_request env) rqs
    \<and> (cli_apiKey (cl_process env) = [] \<and> take 1 args \<noteq> [''doctor''] \<and> take 1 args \<noteq> [''ready''] \<longrightarrow> rqs = [])"
proof (cases "args = [] \<or> hd args \<in> {[], ''help'', ''--help''}")
  case True
  then have "snd (cli_main env args s) = s" by (cases args) (auto simp: cli_main_def)
  then show ?thesis by simp
next
  case False
  then obtain c rest where args: "args = c # rest" and c: "c \<noteq> []" "c \<noteq> ''help''" "c \<noteq> ''--help''" by (cases args) auto
  define arg where "arg = (case rest of [] \<Rightarrow> None | a # _ \<Rightarrow> Some a)"
  have state: "snd (cli_main env args s) = snd (cli_command env c arg s)"
    using c by (auto simp: args cli_main_def arg_def split: prod.splits sum.splits list.splits)
  show ?thesis
  proof (cases "c = ''doctor''")
    case True
    then have "cli_command env c arg = cli_doctor env" by (simp add: cli_command_def)
    with asks_doctor [OF assms] True args state show ?thesis unfolding asks_def by (fastforce split: if_splits)
  next
    case False
    show ?thesis
    proof (cases "cli_apiKey (cl_process env) = [] \<and> c \<noteq> ''ready''")
      case True
      with keyless_command [of env c arg] False state show ?thesis by (auto simp: throw_def)
    next
      case other: False
      with asks_command [OF assms False, of arg] state args show ?thesis unfolding asks_def by fastforce
    qed
  qed
qed

text \<open>A service that answers an empty object, and a log.\<close>

definition plain_service :: "string option \<Rightarrow> CliRequest list cli_env" where
  "plain_service key = \<lparr>cl_process = \<lparr>pe_env = [''CELLFLOW_ENDPOINT'' \<mapsto> ''https://cellflow.test/''](''CELLFLOW_API_KEY'' := key), pe_number = (\<lambda>_. None), pe_hmac = (\<lambda>k v. v)\<rparr>,
     cl_fetch = (\<lambda>rq xs. (Replied 200 (Some (JObj [])) None, xs @ [rq])), cl_uuid = (\<lambda>xs. (''id'', xs))\<rparr>"

theorem cli_requests_witness:
  "length (snd (cli_main (plain_service (Some ''cf_live_k'')) [''doctor''] [])) \<le> 5 \<and> snd (cli_main (plain_service None) [''keys''] []) = []"
proof -
  have laws: "logs_requests (plain_service key) (\<lambda>xs. xs)" for key by (simp add: logs_requests_def plain_service_def)
  have none: "cli_apiKey (cl_process (plain_service None)) = []" by (simp add: plain_service_def cli_apiKey_def text_or_empty_def)
  from cli_requests [OF laws, of _ "[''doctor'']" "[]"] cli_requests [OF laws [of None], of "[''keys'']" "[]"] none
  show ?thesis by fastforce
qed

end
