(* ===== verification/Console.thy ===== *)
theory Console
  imports BrowserApi DbTestGuard LiveRpc
begin

text \<open>
  Models the state and the handlers of the web console: apps/web/components/Dashboard.tsx,
  StatusBadge.tsx, IntentDrawer.tsx, IntegrationsPanel.tsx and BootstrapProject.tsx. A handler reads
  the key and the cursor of the rendering it belongs to, which is the state it starts in; the answers
  of the service are objects with the types its routes give them. What the components draw is left
  out, but for the conditions that enable their buttons and the texts and numbers they compute.
\<close>

section \<open>Status badges\<close>

definition upper_char :: "char \<Rightarrow> char" where
  "upper_char c = (if 97 \<le> code_unit c \<and> code_unit c \<le> 122 then char_of (code_unit c - 32 :: nat) else c)"

definition attention_statuses :: "string list" where
  "attention_statuses = [''REJECTED'', ''NODE_REJECTED'', ''CONFLICTED'', ''REORGED'', ''EXPIRED'']"

definition success_statuses :: "string list" where
  "success_statuses = [''CONFIRMED'', ''VERIFIED'', ''DELIVERED'', ''SETTLEMENT_READY'']"

definition progress_statuses :: "string list" where
  "progress_statuses = [''PENDING'', ''PROPOSED'', ''COMMITTED'', ''RECONCILING'', ''WAITING_CONFIRMATIONS'', ''BROADCASTING'',
     ''SUBMITTED'', ''SUBMITTING'', ''PREPARED'', ''SUBMISSION_UNKNOWN'', ''UNKNOWN'', ''UNOBSERVED'', ''NOT_SETTLED'']"

datatype Tone = T_success | T_danger | T_progress | T_neutral

definition statusTone :: "string option \<Rightarrow> Tone" where
  "statusTone v =
    (let normalized = map upper_char (case v of Some s \<Rightarrow> s | None \<Rightarrow> ''UNKNOWN'') in
     if normalized \<in> set success_statuses then T_success
     else if normalized \<in> set attention_statuses then T_danger
     else if normalized \<in> set progress_statuses then T_progress
     else T_neutral)"

text \<open>\<open>replace(/(^|\s)\S/g, upper)\<close>: a character that is no space is capitalised at the start and after a space.\<close>

fun capitals :: "bool \<Rightarrow> string \<Rightarrow> string" where
  "capitals starts [] = []"
| "capitals starts (c # cs) = (if starts \<and> \<not> is_js_space c then upper_char c else c) # capitals (is_js_space c) cs"

definition humanStatus :: "string option \<Rightarrow> string" where
  "humanStatus v = (case or_null v of None \<Rightarrow> ''Not available''
     | Some s \<Rightarrow> capitals True (map (\<lambda>c. if c = CHR ''_'' then CHR '' '' else c) (toLowerCase s)))"


section \<open>The dashboard\<close>

record Health =
  he_database :: string
  he_rpc :: string
  he_readiness :: string
  he_readinessCode :: "json option"
  he_readinessMessage :: "json option"
  he_readinessAction :: "json option"
  he_tip :: "json option"
  he_latencyMs :: "int option"

record Console =
  co_apiKey :: string
  co_intents :: "json list"
  co_nextCursor :: "string option"
  co_metrics :: "json option"
  co_operations :: "json option"
  co_intentId :: string
  co_txHash :: string
  co_message :: string
  co_busy :: bool
  co_search :: string
  co_filter :: string
  co_autoRefresh :: bool
  co_detail :: "json option"
  co_health :: Health

definition console_start :: Console where
  "console_start = \<lparr>co_apiKey = [], co_intents = [], co_nextCursor = None, co_metrics = None, co_operations = None, co_intentId = [], co_txHash = [],
     co_message = ''Connect a project API key to load live operational data. Keys remain only in page memory.'', co_busy = False,
     co_search = [], co_filter = ''ALL'', co_autoRefresh = False, co_detail = None,
     co_health = \<lparr>he_database = ''checking'', he_rpc = ''checking'', he_readiness = ''checking'', he_readinessCode = None,
       he_readinessMessage = None, he_readinessAction = None, he_tip = None, he_latencyMs = None\<rparr>\<rparr>"

definition canLoad :: "Console \<Rightarrow> bool" where
  "canLoad c = startsWith (co_apiKey c) ''cf_live_''"

text \<open>A world and the state of the page.\<close>

type_synonym 's page = "'s \<times> Console"
type_synonym ('s, 'c) handler = "('s \<times> 'c, js_error, unit) action"

definition console_call :: "'s browser_env \<Rightarrow> string option \<Rightarrow> string \<Rightarrow> string option \<Rightarrow> string option \<Rightarrow> ('s, js_error, json) action" where
  "console_call env key path method' body = jsonRequest env key \<lparr>bq_path = path, bq_method = method', bq_headers = [], bq_body = body\<rparr>"

definition in_world :: "('s, 'e, 'a) action \<Rightarrow> ('s \<times> 'c, 'e, 'a) action" where
  "in_world m = (\<lambda>(w, c). case m w of (r, w') \<Rightarrow> (r, (w', c)))"

definition on_view :: "('c \<Rightarrow> 'c) \<Rightarrow> 's \<times> 'c \<Rightarrow> 's \<times> 'c" where
  "on_view f = map_prod id f"

definition view_set :: "('c \<Rightarrow> 'c) \<Rightarrow> ('s, 'c) handler" where
  "view_set f = modifyState (on_view f)"

definition say :: "string \<Rightarrow> Console \<Rightarrow> Console" where
  "say m c = c\<lparr>co_message := m\<rparr>"

text \<open>\<open>error instanceof Error ? error.message : fallback\<close>.\<close>

definition error_or :: "string \<Rightarrow> js_error \<Rightarrow> string" where
  "error_or fallback e = (case e of JsError name message props cause \<Rightarrow> message | JsPlain v \<Rightarrow> fallback)"

definition text_field :: "json \<Rightarrow> string \<Rightarrow> string option" where
  "text_field v k = (case get (Some v) k of Some (JStr s) \<Rightarrow> Some s | _ \<Rightarrow> None)"

definition rows_of :: "json \<Rightarrow> string \<Rightarrow> json list" where
  "rows_of body k = (case get (Some body) k of Some (JArr xs) \<Rightarrow> xs | _ \<Rightarrow> [])"


subsection \<open>Health\<close>

definition readinessRequest :: "'s browser_env \<Rightarrow> Console \<Rightarrow> ('s, js_error, json) action" where
  "readinessRequest env c = (\<lambda>s.
     case be_fetch env \<lparr>bq_path = ''/api/ready'', bq_method = None,
         bq_headers = (if canLoad c then [(''authorization'', ''Bearer '' @ co_apiKey c)] else []), bq_body = None\<rparr> s of
       (Thrown_by_fetch e, t) \<Rightarrow> (Inl e, t)
     | (Answered status remoteId (Some v), t) \<Rightarrow> (Inr v, t)
     | (Answered status remoteId None, t) \<Rightarrow> (Inl (js_failure ''Unexpected end of JSON input''), t))"

definition truthy_field :: "json \<Rightarrow> string \<Rightarrow> bool" where
  "truthy_field v k = (case get (Some v) k of Some j \<Rightarrow> json_truthy j | None \<Rightarrow> False)"

definition health_word :: "js_error + json \<Rightarrow> string" where
  "health_word r = (case r of Inr v \<Rightarrow> if truthy_field v ''ok'' then ''healthy'' else ''down'' | Inl e \<Rightarrow> ''down'')"

definition health_of :: "bool \<Rightarrow> js_error + json \<Rightarrow> js_error + json \<Rightarrow> js_error + json \<Rightarrow> Health" where
  "health_of loads database node readiness =
    (let readyBody = (case readiness of Inr v \<Rightarrow> Some v | Inl e \<Rightarrow> None);
         status = get readyBody ''status'';
         detailedError = (if loads then (case get readyBody ''errors'' of Some (JArr (x # xs)) \<Rightarrow> Some x | _ \<Rightarrow> None) else None);
         readinessMessage = nullish detailedError (get status ''message'');
         code = get status ''code'';
         tip = (case node of Inr v \<Rightarrow> get (get (Some v) ''tip'') ''number'' | Inl e \<Rightarrow> None);
         truthy_part = (\<lambda>v. if (case v of Some j \<Rightarrow> json_truthy j | None \<Rightarrow> False) then v else None) in
     \<lparr>he_database = health_word database, he_rpc = health_word node,
      he_readiness = health_word readiness, he_readinessCode = truthy_part code, he_readinessMessage = readinessMessage,
      he_readinessAction = (if truthy_part status \<noteq> None then get status ''action'' else None), he_tip = truthy_part tip,
      he_latencyMs = (case node of Inr v \<Rightarrow> (case get (Some v) ''latencyMs'' of Some (JNum n) \<Rightarrow> Some n | _ \<Rightarrow> None) | Inl e \<Rightarrow> None)\<rparr>)"

definition loadHealth :: "'s browser_env \<Rightarrow> 's page \<Rightarrow> 's page" where
  "loadHealth env = (\<lambda>(w, c).
     case console_call env None ''/api/health'' None None w of (database, w1) \<Rightarrow>
    (case console_call env None ''/api/health/rpc'' None None w1 of (node, w2) \<Rightarrow>
    (case readinessRequest env c w2 of (readiness, w3) \<Rightarrow>
      (w3, c\<lparr>co_health := health_of (canLoad c) database node readiness\<rparr>))))"


subsection \<open>Loading intents\<close>

definition total_of :: "json option \<Rightarrow> js_error + int" where
  "total_of metrics = (case nullish metrics None of
     None \<Rightarrow> Inl (JsError ''TypeError'' (''Cannot read properties of undefined (reading '' @ [CHR 0x27] @ ''total'' @ [CHR 0x27] @ '')'') [] None)
   | Some m \<Rightarrow> Inr (case get (Some m) ''total'' of Some (JNum n) \<Rightarrow> n | _ \<Rightarrow> 0))"

text \<open>What the answer of a load does to the page.\<close>

definition loaded :: "bool \<Rightarrow> js_error + json \<times> json \<times> json \<Rightarrow> Console \<Rightarrow> Console" where
  "loaded silent r c =
    (case r of
       Inl e \<Rightarrow> say (error_or ''Failed to load intents'' e) c
     | Inr (body, metricBody, operationBody) \<Rightarrow>
         let rows = rows_of body ''intents''; metrics = get (Some metricBody) ''metrics'';
             shown_page = c\<lparr>co_intents := rows, co_nextCursor := text_field body ''nextCursor'', co_metrics := nullish metrics None,
               co_operations := nullish (get (Some operationBody) ''operations'') None\<rparr> in
         if silent then shown_page
         else (case total_of metrics of
           Inl e \<Rightarrow> say (error_or ''Failed to load intents'' e) shown_page
         | Inr n \<Rightarrow> say (int_string (int (length rows)) @ '' recent intent(s) loaded''
             @ (if int (length rows) < n then '' of '' @ int_string n @ '' total'' else []) @ ''.'') shown_page))"

definition load_requests :: "'s browser_env \<Rightarrow> string \<Rightarrow> ('s, js_error, json \<times> json \<times> json) action" where
  "load_requests env key = together (console_call env (Some key) ''/api/v1/intents?limit=100'' None None)
     (together (console_call env (Some key) ''/api/v1/metrics'' None None) (console_call env (Some key) ''/api/v1/operations'' None None))"

definition set_busy :: "bool \<Rightarrow> Console \<Rightarrow> Console" where
  "set_busy b c = c\<lparr>co_busy := b\<rparr>"

definition load :: "'s browser_env \<Rightarrow> bool \<Rightarrow> 's page \<Rightarrow> 's page" where
  "load env silent = (\<lambda>(w, c).
     if \<not> canLoad c then (w, c)
     else case load_requests env (co_apiKey c) w of (r, w') \<Rightarrow>
       (w', (if silent then id else set_busy False) (loaded silent r ((if silent then id else set_busy True) c))))"

text \<open>The timer of the automatic refresh.\<close>

definition refresh_tick :: "'s browser_env \<Rightarrow> 's page \<Rightarrow> 's page" where
  "refresh_tick env s = (if co_autoRefresh (snd s) \<and> canLoad (snd s) then loadHealth env (load env True s) else s)"

definition more_loaded :: "js_error + json \<Rightarrow> Console \<Rightarrow> Console" where
  "more_loaded r c =
    (case r of
       Inl e \<Rightarrow> say (error_or ''Failed to load older intents'' e) c
     | Inr body \<Rightarrow>
         let seen = map (\<lambda>i. get (Some i) ''intentId'') (co_intents c); rows = rows_of body ''intents'' in
         say (int_string (int (length rows)) @ '' older intent(s) loaded.'')
           (c\<lparr>co_intents := co_intents c @ filter (\<lambda>i. get (Some i) ''intentId'' \<notin> set seen) rows,
              co_nextCursor := text_field body ''nextCursor''\<rparr>))"

definition loadMore :: "'s browser_env \<Rightarrow> 's page \<Rightarrow> 's page" where
  "loadMore env = (\<lambda>(w, c).
     case or_null (co_nextCursor c) of
       None \<Rightarrow> (w, c)
     | Some cursor \<Rightarrow>
         if \<not> canLoad c \<or> co_busy c then (w, c)
         else case console_call env (Some (co_apiKey c)) (''/api/v1/intents?limit=100&cursor='' @ encodeURIComponent cursor) None None w of (r, w') \<Rightarrow>
           (w', set_busy False (more_loaded r (set_busy True c))))"


subsection \<open>Operations\<close>

text \<open>\<open>try { .. } catch (error) { setMessage(..) }\<close> and \<open>setBusy(true); try { .. } finally { setBusy(false) }\<close>.\<close>

definition attempted :: "(string \<Rightarrow> 'c \<Rightarrow> 'c) \<Rightarrow> string \<Rightarrow> ('s, 'c) handler \<Rightarrow> 's \<times> 'c \<Rightarrow> 's \<times> 'c" where
  "attempted tell fallback m s = (case m s of (Inr _, t) \<Rightarrow> t | (Inl e, t) \<Rightarrow> on_view (tell (error_or fallback e)) t)"

definition busily :: "(bool \<Rightarrow> 'c \<Rightarrow> 'c) \<Rightarrow> ('s \<times> 'c \<Rightarrow> 's \<times> 'c) \<Rightarrow> 's \<times> 'c \<Rightarrow> 's \<times> 'c" where
  "busily mark m s = on_view (mark False) (m (on_view (mark True) s))"

definition console_url :: "string \<Rightarrow> string \<Rightarrow> string" where
  "console_url intentId rest = ''/api/v1/intents/'' @ encodeURIComponent intentId @ rest"

definition post_call :: "'s browser_env \<Rightarrow> string \<Rightarrow> string \<Rightarrow> json \<Rightarrow> ('s, js_error, json) action" where
  "post_call env key path body = console_call env (Some key) path (Some ''POST'') (Some (json_stringify body))"

definition is_tx_hash_text :: "string \<Rightarrow> bool" where
  "is_tx_hash_text s \<longleftrightarrow> startsWith s ''0x'' \<and> length s = 66 \<and> list_all is_hex_any (drop 2 s)"

definition can_track :: "Console \<Rightarrow> bool" where
  "can_track c \<longleftrightarrow> \<not> co_busy c \<and> canLoad c \<and> co_intentId c \<noteq> [] \<and> is_tx_hash_text (co_txHash c)"

definition console_track :: "'s browser_env \<Rightarrow> 's page \<Rightarrow> 's page" where
  "console_track env s =
    (let c = snd s; key = co_apiKey c in
     busily set_busy (attempted say ''Track failed''
       (andThen (in_world (post_call env key ''/api/v1/intents'' (JObj [(''intentId'', JStr (co_intentId c)),
          (''metadata'', JObj [(''source'', JStr ''dashboard''), (''useCase'', JStr ''manual transaction tracking'')]), (''expectedCells'', JArr [])]))) (\<lambda>_.
        andThen (in_world (post_call env key (console_url (co_intentId c) ''/track'') (JObj [(''txHash'', JStr (co_txHash c))]))) (\<lambda>_.
        andThen (view_set (\<lambda>c. c\<lparr>co_intentId := [], co_txHash := []\<rparr>)) (\<lambda>_.
        andThen (modifyState (load env True)) (\<lambda>_.
        view_set (say ''Transaction registered and scheduled for reconciliation.''))))))) s)"

definition openDetail :: "'s browser_env \<Rightarrow> string \<Rightarrow> bool \<Rightarrow> 's page \<Rightarrow> 's page" where
  "openDetail env intentId announce s =
     attempted say ''Intent detail failed''
       (andThen (in_world (console_call env (Some (co_apiKey (snd s))) (console_url intentId []) None None)) (\<lambda>body.
        andThen (view_set (\<lambda>c. c\<lparr>co_detail := nullish (get (Some body) ''intent'') None\<rparr>)) (\<lambda>_.
        view_set (if announce then say (''Opened '' @ intentId @ ''.'') else id)))) s"

definition console_reconcile :: "'s browser_env \<Rightarrow> string \<Rightarrow> 's page \<Rightarrow> 's page" where
  "console_reconcile env intentId s =
     busily set_busy (attempted say ''Reconcile failed''
       (andThen (in_world (post_call env (co_apiKey (snd s)) (console_url intentId ''/reconcile'') (JObj []))) (\<lambda>_.
        andThen (modifyState (load env True)) (\<lambda>_.
        andThen (modifyState (openDetail env intentId False)) (\<lambda>_.
        view_set (say (intentId @ '' reconciled.''))))))) s"

text \<open>The file a browser saves, and the date of today.\<close>

record 's saving =
  sv_download :: "string \<Rightarrow> string \<Rightarrow> 's \<Rightarrow> 's"
  sv_today :: "'s \<Rightarrow> string"

definition saved :: "'s saving \<Rightarrow> ('s \<Rightarrow> string) \<Rightarrow> json \<Rightarrow> ('s, js_error, unit) action" where
  "saved sv name body = modifyState (\<lambda>w. sv_download sv (name w)
     (case get (Some body) ''evidence'' of Some v \<Rightarrow> json_pretty 0 v | None \<Rightarrow> ''undefined'') w)"

definition console_evidence :: "'s browser_env \<Rightarrow> 's saving \<Rightarrow> string \<Rightarrow> 's page \<Rightarrow> 's page" where
  "console_evidence env sv intentId s =
     attempted say ''Evidence export failed''
       (andThen (in_world (console_call env (Some (co_apiKey (snd s))) (console_url intentId ''/evidence'') None None)) (\<lambda>body.
        andThen (in_world (saved sv (\<lambda>_. intentId @ ''-cellflow-evidence.json'') body)) (\<lambda>_.
        view_set (say (''Evidence exported for '' @ intentId @ ''.''))))) s"

definition exportProjectEvidence :: "'s browser_env \<Rightarrow> 's saving \<Rightarrow> 's page \<Rightarrow> 's page" where
  "exportProjectEvidence env sv s =
     attempted say ''Project evidence export failed''
       (andThen (in_world (console_call env (Some (co_apiKey (snd s))) ''/api/v1/project-evidence'' None None)) (\<lambda>body.
        andThen (in_world (saved sv (\<lambda>w. ''cellflow-project-evidence-'' @ sv_today sv w @ ''.json'') body)) (\<lambda>_.
        view_set (say ''Project evidence snapshot exported with a SHA-256 integrity fingerprint.'')))) s"

text \<open>\<open>addNote\<close> throws its error again after the message.\<close>

definition console_addNote :: "'s browser_env \<Rightarrow> string \<Rightarrow> string \<Rightarrow> ('s, Console) handler" where
  "console_addNote env intentId note = (\<lambda>s.
     case andThen (in_world (post_call env (co_apiKey (snd s)) (console_url intentId ''/notes'') (JObj [(''note'', JStr note)]))) (\<lambda>body.
        andThen (view_set (\<lambda>c. c\<lparr>co_detail := nullish (get (Some body) ''intent'') None\<rparr>)) (\<lambda>_.
        andThen (modifyState (load env True)) (\<lambda>_.
        view_set (say (''Operator note added to '' @ intentId @ ''.''))))) (on_view (set_busy True) s) of
       (Inr _, t) \<Rightarrow> (Inr (), on_view (set_busy False) t)
     | (Inl e, t) \<Rightarrow> (Inl e, on_view (set_busy False) (on_view (say (error_or ''Failed to add operator note'' e)) t)))"

text \<open>The note of the drawer: sent trimmed, and cleared once it was accepted.\<close>

definition drawer_note :: "'s browser_env \<Rightarrow> string \<Rightarrow> string \<Rightarrow> 's page \<Rightarrow> string \<times> 's page" where
  "drawer_note env intentId note s =
    (if co_busy (snd s) \<or> js_trim note = [] then (note, s)
     else case console_addNote env intentId (js_trim note) s of (Inr _, t) \<Rightarrow> ([], t) | (Inl e, t) \<Rightarrow> (note, t))"


subsection \<open>What is shown\<close>

definition status_of :: "json \<Rightarrow> string" where
  "status_of item = text_or_empty (text_field item ''status'')"

definition needs_attention :: "json \<Rightarrow> bool" where
  "needs_attention item \<longleftrightarrow> statusTone (Some (status_of item)) = T_danger \<or> status_of item = ''UNKNOWN''"

definition final_statuses :: "string list" where
  "final_statuses = [''CONFIRMED'', ''REJECTED'', ''NODE_REJECTED'', ''CONFLICTED'', ''EXPIRED'']"

definition localMetrics :: "json list \<Rightarrow> ProjectMetrics" where
  "localMetrics items = \<lparr>pm_total = int (length items), pm_active = count_rows (\<lambda>i. status_of i \<notin> set final_statuses) items,
     pm_confirmed = count_rows (\<lambda>i. status_of i = ''CONFIRMED'') items, pm_attention = count_rows needs_attention items\<rparr>"

definition matches_search :: "string \<Rightarrow> json \<Rightarrow> bool" where
  "matches_search search item \<longleftrightarrow>
    (let query = toLowerCase (js_trim search); has = (\<lambda>t. includes_text (toLowerCase t) query) in
     query = [] \<or> has (text_or_empty (text_field item ''intentId'')) \<or> (case text_field item ''txHash'' of Some h \<Rightarrow> has h | None \<Rightarrow> False)
     \<or> has (json_stringify (case nullish (get (Some item) ''metadata'') None of Some m \<Rightarrow> m | None \<Rightarrow> JObj [])))"

definition matches_filter :: "string \<Rightarrow> json \<Rightarrow> bool" where
  "matches_filter flt item \<longleftrightarrow> flt = ''ALL'' \<or> (if flt = ''ATTENTION'' then needs_attention item else status_of item = flt)"

definition filtered :: "Console \<Rightarrow> json list" where
  "filtered c = filter (\<lambda>i. matches_search (co_search c) i \<and> matches_filter (co_filter c) i) (co_intents c)"

text \<open>The confirmations an intent waits for, in the table and in the drawer.\<close>

definition required_confirmations :: "json \<Rightarrow> int" where
  "required_confirmations item =
    (if get (get (Some item) ''confirmationPolicy'') ''mode'' = Some (JStr ''depth'')
     then (case get (get (Some item) ''confirmationPolicy'') ''blocks'' of Some (JNum n) \<Rightarrow> n | _ \<Rightarrow> 0) else 1)"

definition badge_of :: "json \<Rightarrow> string" where
  "badge_of item = (if get (Some item) ''settlementReady'' = Some (JBool True) then ''SETTLEMENT_READY'' else ''NOT_SETTLED'')"


section \<open>Keys and webhooks\<close>

text \<open>The panel's own state; its messages go to the dashboard. \<open>Number(..)\<close> is a parameter.\<close>

record Panel =
  pn_keys :: "json list"
  pn_webhooks :: "json list"
  pn_label :: string
  pn_newKey :: string
  pn_keyProfile :: string
  pn_keyExpiryDays :: string
  pn_webhookUrl :: string
  pn_newWebhookSecret :: string
  pn_busy :: bool
  pn_message :: string

type_synonym 's panel_page = "'s \<times> Panel"

definition pn_say :: "string \<Rightarrow> Panel \<Rightarrow> Panel" where
  "pn_say m p = p\<lparr>pn_message := m\<rparr>"

definition pn_mark :: "bool \<Rightarrow> Panel \<Rightarrow> Panel" where
  "pn_mark b p = p\<lparr>pn_busy := b\<rparr>"

definition refreshPanel :: "'s browser_env \<Rightarrow> string \<Rightarrow> 's panel_page \<Rightarrow> 's panel_page" where
  "refreshPanel env key s =
    (if key = [] then s
     else busily pn_mark (attempted pn_say ''Integration refresh failed''
       (andThen (in_world (together (console_call env (Some key) ''/api/v1/api-keys'' None None) (console_call env (Some key) ''/api/v1/webhooks'' None None)))
         (\<lambda>(keyBody, webhookBody).
        view_set (\<lambda>p. pn_say ''Integration settings refreshed.'' (p\<lparr>pn_keys := rows_of keyBody ''keys'', pn_webhooks := rows_of webhookBody ''webhooks''\<rparr>)))))
       s)"

definition profile_scopes :: "string \<Rightarrow> string list" where
  "profile_scopes profile = (if profile = ''admin'' then [''read'', ''write'', ''admin''] else if profile = ''readonly'' then [''read'']
     else [''read'', ''write''])"

text \<open>\<open>body.x.y\<close> as a text, which throws when there is no \<open>x\<close>.\<close>

definition inner_text :: "json \<Rightarrow> string \<Rightarrow> string \<Rightarrow> js_error + string" where
  "inner_text body outer inner = (case nullish (get (Some body) outer) None of
     None \<Rightarrow> Inl (JsError ''TypeError'' (''Cannot read properties of undefined (reading '' @ [CHR 0x27] @ inner @ [CHR 0x27] @ '')'') [] None)
   | Some v \<Rightarrow> Inr (text_or_empty (text_field v inner)))"

definition can_create_key :: "(string \<Rightarrow> int option) \<Rightarrow> string \<Rightarrow> Panel \<Rightarrow> bool" where
  "can_create_key number key p \<longleftrightarrow> \<not> pn_busy p \<and> key \<noteq> [] \<and> 2 \<le> length (js_trim (pn_label p))
     \<and> (case number (pn_keyExpiryDays p) of Some n \<Rightarrow> 1 \<le> n \<and> n \<le> 365 | None \<Rightarrow> True)"

definition createKey :: "'s browser_env \<Rightarrow> (string \<Rightarrow> int option) \<Rightarrow> string \<Rightarrow> 's panel_page \<Rightarrow> 's panel_page" where
  "createKey env number key s =
    (let p = snd s; days = (case number (pn_keyExpiryDays p) of Some n \<Rightarrow> n | None \<Rightarrow> 90) in
     busily pn_mark (attempted pn_say ''API key creation failed''
       (andThen (in_world (post_call env key ''/api/v1/api-keys'' (JObj [(''label'', JStr (pn_label p)),
          (''scopes'', JArr (map JStr (profile_scopes (pn_keyProfile p)))), (''expiresInDays'', JNum days)]))) (\<lambda>body.
        andThen (lift_sum (inner_text body ''key'' ''apiKey'')) (\<lambda>created.
        andThen (view_set (\<lambda>p. p\<lparr>pn_newKey := created\<rparr>)) (\<lambda>_.
        andThen (modifyState (refreshPanel env key)) (\<lambda>_.
        view_set (pn_say ''API key created. Copy it now; only its hash is stored.''))))))) s)"

text \<open>The key in use cannot be revoked, nor one that is.\<close>

definition can_revoke :: "string \<Rightarrow> json \<Rightarrow> bool" where
  "can_revoke key item \<longleftrightarrow> \<not> truthy_field item ''revokedAt'' \<and> \<not> startsWith key (text_or_empty (text_field item ''prefix''))"

definition delete_then_refresh :: "'s browser_env \<Rightarrow> string \<Rightarrow> string \<Rightarrow> string \<Rightarrow> string \<Rightarrow> 's panel_page \<Rightarrow> 's panel_page" where
  "delete_then_refresh env key path fallback done s =
     busily pn_mark (attempted pn_say fallback
       (andThen (in_world (console_call env (Some key) path (Some ''DELETE'') None)) (\<lambda>_.
        andThen (modifyState (refreshPanel env key)) (\<lambda>_.
        view_set (pn_say done))))) s"

definition revokeKey :: "'s browser_env \<Rightarrow> string \<Rightarrow> string \<Rightarrow> 's panel_page \<Rightarrow> 's panel_page" where
  "revokeKey env key keyId =
     delete_then_refresh env key (''/api/v1/api-keys/'' @ encodeURIComponent keyId) ''API key revocation failed'' ''API key revoked.''"

definition disableWebhook :: "'s browser_env \<Rightarrow> string \<Rightarrow> string \<Rightarrow> 's panel_page \<Rightarrow> 's panel_page" where
  "disableWebhook env key endpointId =
     delete_then_refresh env key (''/api/v1/webhooks/'' @ encodeURIComponent endpointId) ''Webhook disable failed''
       ''Webhook endpoint disabled. Re-adding the same URL rotates its signing secret and enables it again.''"

definition can_create_webhook :: "string \<Rightarrow> Panel \<Rightarrow> bool" where
  "can_create_webhook key p \<longleftrightarrow> \<not> pn_busy p \<and> key \<noteq> [] \<and> startsWith (pn_webhookUrl p) ''https://''"

definition createWebhook :: "'s browser_env \<Rightarrow> string \<Rightarrow> 's panel_page \<Rightarrow> 's panel_page" where
  "createWebhook env key s =
     busily pn_mark (attempted pn_say ''Webhook creation failed''
       (andThen (in_world (post_call env key ''/api/v1/webhooks'' (JObj [(''url'', JStr (pn_webhookUrl (snd s)))]))) (\<lambda>body.
        andThen (lift_sum (inner_text body ''webhook'' ''signingSecret'')) (\<lambda>secret.
        andThen (view_set (\<lambda>p. p\<lparr>pn_newWebhookSecret := secret, pn_webhookUrl := []\<rparr>)) (\<lambda>_.
        andThen (modifyState (refreshPanel env key)) (\<lambda>_.
        view_set (pn_say ''Webhook endpoint created. Copy the signing secret now.''))))))) s"

definition count_field :: "json \<Rightarrow> string \<Rightarrow> string" where
  "count_field body k = (case nullish (get (Some body) k) None of Some v \<Rightarrow> js_String v | None \<Rightarrow> ''0'')"

definition testWebhook :: "'s browser_env \<Rightarrow> string \<Rightarrow> 's panel_page \<Rightarrow> 's panel_page" where
  "testWebhook env key s =
     busily pn_mark (attempted pn_say ''Webhook test failed''
       (andThen (in_world (post_call env key ''/api/v1/webhooks/test'' (JObj []))) (\<lambda>body.
        andThen (view_set (pn_say (''Webhook test accepted ('' @ count_field body ''queued'' @ '' delivery record(s) queued).''))) (\<lambda>_.
        modifyState (refreshPanel env key))))) s"

definition retryFailedWebhooks :: "'s browser_env \<Rightarrow> string \<Rightarrow> string option \<Rightarrow> 's panel_page \<Rightarrow> 's panel_page" where
  "retryFailedWebhooks env key endpointId s =
     busily pn_mark (attempted pn_say ''Webhook retry failed''
       (andThen (in_world (post_call env key ''/api/v1/webhooks/retry''
          (JObj (case or_null endpointId of Some i \<Rightarrow> [(''endpointId'', JStr i)] | None \<Rightarrow> [])))) (\<lambda>body.
        andThen (modifyState (refreshPanel env key)) (\<lambda>_.
        view_set (pn_say (count_field body ''retried'' @ '' failed webhook delivery record(s) queued for retry.'')))))) s"


section \<open>The first project\<close>

record SetupForm =
  sp_bootstrapToken :: string
  sp_projectName :: string
  sp_network :: string
  sp_createdKey :: string
  sp_message :: string
  sp_busy :: bool

definition sp_say :: "string \<Rightarrow> SetupForm \<Rightarrow> SetupForm" where
  "sp_say m f = f\<lparr>sp_message := m\<rparr>"

definition sp_mark :: "bool \<Rightarrow> SetupForm \<Rightarrow> SetupForm" where
  "sp_mark b f = f\<lparr>sp_busy := b\<rparr>"

definition can_setup :: "SetupForm \<Rightarrow> bool" where
  "can_setup f \<longleftrightarrow> \<not> sp_busy f \<and> 2 \<le> length (js_trim (sp_projectName f)) \<and> 24 \<le> length (sp_bootstrapToken f)"

definition setup_message :: "string \<Rightarrow> nat \<Rightarrow> string" where
  "setup_message dash applied = ''Project created. Database ready''
     @ (if 0 < applied then '' ('' @ int_string (int applied) @ '' migration'' @ (if applied = 1 then [] else ''s'') @ '' applied)'' else [])
     @ ''; bootstrap is now locked. Copy the API key now'' @ dash @ ''CellFlow stores only its hash.''"

definition project_setup :: "'s browser_env \<Rightarrow> string \<Rightarrow> 's \<times> SetupForm \<Rightarrow> 's \<times> SetupForm" where
  "project_setup env dash s =
    (let f = snd s in
     busily sp_mark (attempted sp_say ''Project provisioning failed''
       (andThen (in_world (jsonRequest env None \<lparr>bq_path = ''/api/setup'', bq_method = Some ''POST'',
          bq_headers = [(''authorization'', ''Bearer '' @ sp_bootstrapToken f)],
          bq_body = Some (json_stringify (JObj [(''name'', JStr (js_trim (sp_projectName f))), (''network'', JStr (sp_network f))]))\<rparr>)) (\<lambda>body.
        view_set (\<lambda>f. sp_say (setup_message dash (length (rows_of (json_or_null (get (Some body) ''initialization'')) ''migrationsApplied'')))
          (f\<lparr>sp_createdKey := text_or_empty (text_field body ''apiKey'')\<rparr>))))) s)"



section \<open>The console in use\<close>

text \<open>
  What a user or the timer does, and what it does to the world, the dashboard and the panel. A button
  is taken to be there in every state: only the conditions that disable it count, and for the retry of
  a single endpoint's deliveries, which stands for both retries, only that no operation is running.
\<close>

datatype ConsoleEvent =
    Type_key string
  | Type_track string string
  | Type_search string
  | Pick_filter string
  | Toggle_refresh bool
  | Timer
  | Press_load
  | Press_more
  | Press_track
  | Press_open string
  | Press_close
  | Press_reconcile string
  | Press_evidence string
  | Press_project
  | Press_note string string
  | Type_panel string string string string
  | Panel_refresh
  | Panel_create_key
  | Panel_revoke json
  | Panel_create_webhook
  | Panel_test
  | Panel_retry "string option"
  | Panel_disable string

type_synonym 's screen = "'s \<times> Console \<times> Panel"

definition on_dashboard :: "('s page \<Rightarrow> 's page) \<Rightarrow> 's screen \<Rightarrow> 's screen" where
  "on_dashboard m = (\<lambda>(w, c, p). case m (w, c) of (w', c') \<Rightarrow> (w', c', p))"

definition on_panel :: "('s panel_page \<Rightarrow> 's panel_page) \<Rightarrow> 's screen \<Rightarrow> 's screen" where
  "on_panel m = (\<lambda>(w, c, p). case m (w, pn_say (co_message c) p) of (w', p') \<Rightarrow> (w', say (pn_message p') c, p'))"

definition pressed :: "bool \<Rightarrow> ('s \<Rightarrow> 's) \<Rightarrow> 's \<Rightarrow> 's" where
  "pressed enabled m s = (if enabled then m s else s)"

definition run_event :: "'s browser_env \<Rightarrow> 's saving \<Rightarrow> (string \<Rightarrow> int option) \<Rightarrow> ConsoleEvent \<Rightarrow> 's screen \<Rightarrow> 's screen" where
  "run_event env sv number e s =
    (let c = fst (snd s); p = snd (snd s); key = co_apiKey c; free = (\<not> co_busy c); open = (\<not> pn_busy p \<and> key \<noteq> []) in
     case e of
       Type_key k \<Rightarrow> on_dashboard (loadHealth env) (on_dashboard (on_view (\<lambda>c. c\<lparr>co_apiKey := k\<rparr>)) s)
     | Type_track i h \<Rightarrow> on_dashboard (on_view (\<lambda>c. c\<lparr>co_intentId := i, co_txHash := h\<rparr>)) s
     | Type_search t \<Rightarrow> on_dashboard (on_view (\<lambda>c. c\<lparr>co_search := t\<rparr>)) s
     | Pick_filter f \<Rightarrow> on_dashboard (on_view (\<lambda>c. c\<lparr>co_filter := f\<rparr>)) s
     | Toggle_refresh b \<Rightarrow> on_dashboard (on_view (\<lambda>c. c\<lparr>co_autoRefresh := b\<rparr>)) s
     | Timer \<Rightarrow> on_dashboard (refresh_tick env) s
     | Press_load \<Rightarrow> pressed (free \<and> canLoad c) (on_dashboard (load env False)) s
     | Press_more \<Rightarrow> pressed (free \<and> canLoad c) (on_dashboard (loadMore env)) s
     | Press_track \<Rightarrow> pressed (can_track c) (on_dashboard (console_track env)) s
     | Press_open i \<Rightarrow> on_dashboard (openDetail env i True) s
     | Press_close \<Rightarrow> on_dashboard (on_view (\<lambda>c. c\<lparr>co_detail := None\<rparr>)) s
     | Press_reconcile i \<Rightarrow> pressed free (on_dashboard (console_reconcile env i)) s
     | Press_evidence i \<Rightarrow> on_dashboard (console_evidence env sv i) s
     | Press_project \<Rightarrow> pressed (free \<and> canLoad c) (on_dashboard (exportProjectEvidence env sv)) s
     | Press_note i note \<Rightarrow> on_dashboard (\<lambda>s. snd (drawer_note env i note s)) s
     | Type_panel label profile days url \<Rightarrow> on_panel (on_view (\<lambda>p. p\<lparr>pn_label := label, pn_keyProfile := profile, pn_keyExpiryDays := days,
         pn_webhookUrl := url\<rparr>)) s
     | Panel_refresh \<Rightarrow> pressed open (on_panel (refreshPanel env key)) s
     | Panel_create_key \<Rightarrow> pressed (can_create_key number key p) (on_panel (createKey env number key)) s
     | Panel_revoke item \<Rightarrow> pressed (can_revoke key item) (on_panel (revokeKey env key (text_or_empty (text_field item ''id'')))) s
     | Panel_create_webhook \<Rightarrow> pressed (can_create_webhook key p) (on_panel (createWebhook env key)) s
     | Panel_test \<Rightarrow> pressed (open \<and> pn_webhooks p \<noteq> []) (on_panel (testWebhook env key)) s
     | Panel_retry i \<Rightarrow> pressed (\<not> pn_busy p) (on_panel (retryFailedWebhooks env key i)) s
     | Panel_disable i \<Rightarrow> pressed (\<not> pn_busy p) (on_panel (disableWebhook env key i)) s)"

end
