(* ===== verification/ConsoleProperties.thy ===== *)
theory ConsoleProperties
  imports Console Routes
begin

text \<open>
  What the console shows and sends: its counts against those of the service, what happens to loaded
  pages, and where its requests go.
\<close>

section \<open>Counts\<close>

text \<open>A row as the list of intents sends it to the console.\<close>

definition listed_item :: "IntentRecord \<times> ExecutionRecord \<Rightarrow> json" where
  "listed_item r = publicView_json (executionPublicView \<lparr>ag_intent = mapIntent (fst r), ag_execution = mapExecution (snd r), ag_attempts = [],
     ag_activeAttempt = None, ag_winningAttempt = None\<rparr>)"

definition row_status :: "ExecutionRecord \<Rightarrow> OverallStatus" where
  "row_status e = deriveOverallStatus \<lparr>sn_submissionStatus = x_submissionStatus e, sn_chainStatus = x_chainStatus e,
     sn_workflowStatus = x_workflowStatus e, sn_confirmationPolicy = x_confirmationPolicy e, sn_confirmationCount = x_confirmationCount e,
     sn_committedBlockHash = None, sn_committedBlockNumber = None, sn_rejectionReason = None\<rparr>"

lemma status_listed: "status_of (listed_item (i, e)) = overall_name (row_status e)"
  by (simp add: status_of_def listed_item_def publicView_json_def publicView_entries_def text_field_def get_def executionPublicView_def
      Let_def row_status_def deriveOverallStatus_def mapExecution_def text_or_empty_def)

text \<open>
  The rows on which the counts differ. \<open>unverified\<close>: confirmed, with Cell assertions that are not verified.
  \<open>contradicted\<close>: confirmed, though the last observation is a rejection. \<open>once_refused\<close>: reorganised or
  confirmed, not observed in a pool or a block, and a broadcast was refused by the node.
  \<open>once_uncertain\<close>: proposed, pending, committed, confirmed or reconciling, after a submission or an
  observation that was uncertain.
\<close>

definition unverified :: "IntentRecord \<times> ExecutionRecord \<Rightarrow> bool" where
  "unverified r \<longleftrightarrow> x_workflowStatus (snd r) = WS_CONFIRMED \<and> x_chainStatus (snd r) \<noteq> CS_REJECTED
     \<and> i_expectedCells (fst r) \<noteq> [] \<and> x_assertionStatus (snd r) \<noteq> Some ''VERIFIED''"

definition contradicted :: "IntentRecord \<times> ExecutionRecord \<Rightarrow> bool" where
  "contradicted r \<longleftrightarrow> x_workflowStatus (snd r) = WS_CONFIRMED \<and> x_chainStatus (snd r) = CS_REJECTED
     \<and> (i_expectedCells (fst r) = [] \<or> x_assertionStatus (snd r) = Some ''VERIFIED'')"

definition once_refused :: "IntentRecord \<times> ExecutionRecord \<Rightarrow> bool" where
  "once_refused r \<longleftrightarrow> x_workflowStatus (snd r) \<in> {WS_REORGED, WS_CONFIRMED} \<and> x_submissionStatus (snd r) = SS_NODE_REJECTED
     \<and> x_chainStatus (snd r) \<in> {CS_UNOBSERVED, CS_UNKNOWN}"

definition once_uncertain :: "ExecutionRecord \<Rightarrow> bool" where
  "once_uncertain e \<longleftrightarrow> row_status e \<in> {OS_CONFIRMED, OS_COMMITTED, OS_PROPOSED, OS_PENDING, OS_RECONCILING}
     \<and> (x_chainStatus e = CS_UNKNOWN \<or> x_submissionStatus e \<in> {SS_SUBMISSION_UNKNOWN, SS_NODE_REJECTED})"

lemma attention_status: "needs_attention (listed_item (i, e)) \<longleftrightarrow>
    row_status e \<in> {OS_REJECTED, OS_NODE_REJECTED, OS_CONFLICTED, OS_REORGED, OS_EXPIRED, OS_UNKNOWN}"
proof -
  have "list_all (\<lambda>st. (statusTone (Some (overall_name st)) = T_danger \<or> overall_name st = ''UNKNOWN'') \<longleftrightarrow>
      st \<in> {OS_REJECTED, OS_NODE_REJECTED, OS_CONFLICTED, OS_REORGED, OS_EXPIRED, OS_UNKNOWN})
    [OS_CREATED, OS_PREPARED, OS_SUBMITTING, OS_SUBMITTED, OS_UNKNOWN, OS_PENDING, OS_PROPOSED, OS_COMMITTED, OS_CONFIRMED, OS_RECONCILING,
     OS_REORGED, OS_REJECTED, OS_NODE_REJECTED, OS_CONFLICTED, OS_EXPIRED]"
    by code_simp
  then have "statusTone (Some (overall_name st)) = T_danger \<or> overall_name st = ''UNKNOWN'' \<longleftrightarrow>
      st \<in> {OS_REJECTED, OS_NODE_REJECTED, OS_CONFLICTED, OS_REORGED, OS_EXPIRED, OS_UNKNOWN}" for st
    by (cases st) simp_all
  then show ?thesis by (simp add: needs_attention_def status_listed)
qed

lemma final_status: "status_of (listed_item (i, e)) \<in> set final_statuses \<longleftrightarrow>
    row_status e \<in> {OS_CONFIRMED, OS_REJECTED, OS_NODE_REJECTED, OS_CONFLICTED, OS_EXPIRED}"
  unfolding status_listed by (cases "row_status e") (simp_all add: overall_name_def final_statuses_def)

lemma confirmed_status: "status_of (listed_item (i, e)) = ''CONFIRMED'' \<longleftrightarrow> row_status e = OS_CONFIRMED"
  unfolding status_listed by (cases "row_status e") (simp_all add: overall_name_def)

lemma count_map: "count_rows P (map f xs) = count_rows (\<lambda>x. P (f x)) xs"
  by (simp add: count_rows_def filter_map comp_def)

lemma count_split:
  assumes "\<And>x. x \<in> set xs \<Longrightarrow> (P x \<longleftrightarrow> A x \<or> B x) \<and> \<not> (A x \<and> B x)"
  shows "count_rows P xs = count_rows A xs + count_rows B xs"
  using assms by (induction xs) (auto simp: count_rows_def)

lemma count_same: "(\<And>x. x \<in> set xs \<Longrightarrow> P x \<longleftrightarrow> A x) \<Longrightarrow> count_rows P xs = count_rows A xs"
  unfolding count_rows_def by (metis filter_cong)

lemma count_all: "count_rows (\<lambda>_. True) xs = int (length xs)"
  by (simp add: count_rows_def)

lemma count_nonneg: "0 \<le> count_rows P xs"
  by (simp add: count_rows_def)

lemmas row_statuses = row_status_def deriveOverallStatus_def

lemma attention_row: "(x_chainStatus e \<in> {CS_UNKNOWN, CS_REJECTED} \<or> x_workflowStatus e \<in> {WS_REORGED, WS_CONFLICTED, WS_EXPIRED}
      \<or> x_submissionStatus e \<in> {SS_SUBMISSION_UNKNOWN, SS_NODE_REJECTED}) \<longleftrightarrow> needs_attention (listed_item (i, e)) \<or> once_uncertain e"
  and attention_apart: "\<not> (needs_attention (listed_item (i, e)) \<and> once_uncertain e)"
  unfolding attention_status once_uncertain_def row_statuses
  by (cases "x_chainStatus e"; cases "x_workflowStatus e"; cases "x_submissionStatus e"; simp)+

lemma confirmed_row: "row_status e = OS_CONFIRMED \<longleftrightarrow> x_workflowStatus e = WS_CONFIRMED \<and> x_chainStatus e \<noteq> CS_REJECTED"
  by (auto simp: row_statuses)

lemma ended_row: "row_status e \<in> {OS_REJECTED, OS_NODE_REJECTED, OS_CONFLICTED, OS_EXPIRED} \<longleftrightarrow>
    x_workflowStatus e \<in> {WS_CONFLICTED, WS_EXPIRED} \<or> x_chainStatus e = CS_REJECTED
    \<or> (x_workflowStatus e \<notin> {WS_REORGED, WS_CONFIRMED} \<and> x_submissionStatus e = SS_NODE_REJECTED
        \<and> x_chainStatus e \<in> {CS_UNOBSERVED, CS_UNKNOWN})"
proof (cases "x_chainStatus e")
  case CS_UNOBSERVED
  then show ?thesis unfolding row_statuses by (cases "x_workflowStatus e"; cases "x_submissionStatus e"; simp)
next
  case (CS_Observed x)
  then show ?thesis unfolding row_statuses by (cases x; cases "x_workflowStatus e"; cases "x_submissionStatus e"; simp)
qed

lemma final_row: "x_workflowStatus e \<in> {WS_CONFLICTED, WS_EXPIRED} \<or> x_chainStatus e = CS_REJECTED
      \<or> (x_submissionStatus e = SS_NODE_REJECTED \<and> x_chainStatus e \<in> {CS_UNOBSERVED, CS_UNKNOWN}) \<longleftrightarrow>
    row_status e \<in> {OS_REJECTED, OS_NODE_REJECTED, OS_CONFLICTED, OS_EXPIRED} \<or> once_refused (i, e)"
  and final_apart: "\<not> (row_status e \<in> {OS_REJECTED, OS_NODE_REJECTED, OS_CONFLICTED, OS_EXPIRED} \<and> once_refused (i, e))"
  unfolding ended_row once_refused_def by auto

text \<open>
  Property C25: the counts the console makes of all intents of a project against those of the service,
  for every content of the database. The totals agree. The console counts the unverified intents as
  confirmed and the service counts them as active. The service takes an intent that was once refused by
  the node as ended, also while it is reorganised, and the console as active (or confirmed). Intents
  whose submission or observation was once uncertain and that are observed again need attention only for
  the service. Nothing else differs, but for a confirmed row whose observation is a rejection, which
  the transitions of the state machine do not produce.
\<close>

theorem metrics_reconciled:
  fixes s :: db and projectId :: uuid
  defines "rows \<equiv> project_rows projectId s"
  defines "l \<equiv> localMetrics (map listed_item rows)" and "m \<equiv> getProjectMetrics projectId s"
  shows "pm_total l = pm_total m
    \<and> pm_confirmed l + count_rows contradicted rows = pm_confirmed m + count_rows unverified rows
    \<and> pm_active m = max 0 (pm_active l + count_rows unverified rows - count_rows contradicted rows - count_rows once_refused rows)
    \<and> pm_attention m = pm_attention l + count_rows (\<lambda>r. once_uncertain (snd r)) rows"
proof -
  let ?confirmed = "\<lambda>(i, e). x_workflowStatus e = WS_CONFIRMED \<and> (length (i_expectedCells i) = 0 \<or> x_assertionStatus e = Some ''VERIFIED'')"
  let ?final = "\<lambda>(i, e). x_workflowStatus e \<in> {WS_CONFLICTED, WS_EXPIRED} \<or> x_chainStatus e = CS_REJECTED
    \<or> (x_submissionStatus e = SS_NODE_REJECTED \<and> x_chainStatus e \<in> {CS_UNOBSERVED, CS_UNKNOWN})"
  let ?attention = "\<lambda>(i, e). x_chainStatus e \<in> {CS_UNKNOWN, CS_REJECTED} \<or> x_workflowStatus e \<in> {WS_REORGED, WS_CONFLICTED, WS_EXPIRED}
    \<or> x_submissionStatus e \<in> {SS_SUBMISSION_UNKNOWN, SS_NODE_REJECTED}"
  let ?active = "\<lambda>r. status_of (listed_item r) \<notin> set final_statuses" and ?shown = "\<lambda>r. status_of (listed_item r) = ''CONFIRMED''"
  let ?ended = "\<lambda>r. row_status (snd r) \<in> {OS_REJECTED, OS_NODE_REJECTED, OS_CONFLICTED, OS_EXPIRED}"
  have m: "m = \<lparr>pm_total = int (length rows), pm_active = max 0 (int (length rows) - count_rows ?confirmed rows - count_rows ?final rows),
      pm_confirmed = count_rows ?confirmed rows, pm_attention = count_rows ?attention rows\<rparr>"
    unfolding m_def getProjectMetrics_def Let_def rows_def [symmetric] count_all ..
  have l: "l = \<lparr>pm_total = int (length rows), pm_active = count_rows ?active rows,
      pm_confirmed = count_rows ?shown rows, pm_attention = count_rows (\<lambda>r. needs_attention (listed_item r)) rows\<rparr>"
    unfolding l_def localMetrics_def count_map length_map ..
  have "count_rows (\<lambda>r. ?shown r \<or> contradicted r) rows = count_rows ?shown rows + count_rows contradicted rows"
    by (rule count_split) (auto simp: confirmed_status confirmed_row contradicted_def)
  moreover have "count_rows (\<lambda>r. ?shown r \<or> contradicted r) rows = count_rows ?confirmed rows + count_rows unverified rows"
    by (rule count_split) (auto simp: confirmed_status confirmed_row contradicted_def unverified_def)
  ultimately have confirmed: "count_rows ?shown rows + count_rows contradicted rows = count_rows ?confirmed rows + count_rows unverified rows"
    by simp
  have attention: "count_rows ?attention rows = count_rows (\<lambda>r. needs_attention (listed_item r)) rows + count_rows (\<lambda>r. once_uncertain (snd r)) rows"
  proof (rule count_split)
    fix r :: "IntentRecord \<times> ExecutionRecord"
    obtain i e where r: "r = (i, e)" by fastforce
    show "?attention r = (needs_attention (listed_item r) \<or> once_uncertain (snd r)) \<and> \<not> (needs_attention (listed_item r) \<and> once_uncertain (snd r))"
      using attention_row [of e i] attention_apart [of i e] unfolding r by simp
  qed
  have final: "count_rows ?final rows = count_rows ?ended rows + count_rows once_refused rows"
  proof (rule count_split)
    fix r :: "IntentRecord \<times> ExecutionRecord"
    obtain i e where r: "r = (i, e)" by fastforce
    show "?final r = (?ended r \<or> once_refused r) \<and> \<not> (?ended r \<and> once_refused r)"
      using final_row [of e i] final_apart [of e i] unfolding r by simp
  qed
  have "int (length rows) = count_rows ?active rows + count_rows (\<lambda>r. \<not> ?active r) rows"
    unfolding count_all [symmetric] by (rule count_split) auto
  moreover have "count_rows (\<lambda>r. \<not> ?active r) rows = count_rows ?shown rows + count_rows ?ended rows"
    by (rule count_split) (auto simp: final_status confirmed_status)
  ultimately have "int (length rows) - count_rows ?confirmed rows - count_rows ?final rows
      = count_rows ?active rows + count_rows unverified rows - count_rows contradicted rows - count_rows once_refused rows"
    using confirmed final by linarith
  then show ?thesis using confirmed attention unfolding l m by simp
qed


section \<open>Pages\<close>

text \<open>
  A refresh whose answer arrives while older intents are being loaded: the page that was loaded
  before is gone, the next one is there, and the cursor has passed the gap.
\<close>

lemma refresh_loses_page:
  assumes "rows_of first ''intents'' = P1" and "rows_of third ''intents'' = P3" and "x \<notin> set P1" and "x \<notin> set P3"
  shows "x \<notin> set (co_intents (more_loaded (Inr third) (loaded True (Inr (first, m, ops)) c)))
    \<and> co_nextCursor (more_loaded (Inr third) (loaded True (Inr (first, m, ops)) c)) = text_field third ''nextCursor''"
  using assms by (auto simp: more_loaded_def loaded_def say_def Let_def)

text \<open>Older intents are appended without repeating one.\<close>

lemma more_distinct:
  assumes "distinct (map (\<lambda>i. get (Some i) ''intentId'') (co_intents c))"
    and "distinct (map (\<lambda>i. get (Some i) ''intentId'') (rows_of body ''intents''))"
  shows "distinct (map (\<lambda>i. get (Some i) ''intentId'') (co_intents (more_loaded (Inr body) c)))"
proof -
  let ?id = "\<lambda>i. get (Some i) ''intentId''"
  have "distinct (map ?id (filter P xs))" if "distinct (map ?id xs)" for P xs using that by (induction xs) auto
  moreover have "?id ` set (co_intents c) \<inter> ?id ` set (filter (\<lambda>i. ?id i \<notin> ?id ` set (co_intents c)) (rows_of body ''intents'')) = {}" by (fastforce simp: image_iff)
  ultimately show ?thesis using assms unfolding more_loaded_def say_def Let_def by (simp del: set_filter)
qed


section \<open>Where requests go\<close>

definition own_request :: "string set \<Rightarrow> BrowserRequest \<Rightarrow> bool" where
  "own_request keys rq \<longleftrightarrow> api_path (bq_path rq)
     \<and> (\<forall>a. map_of (bq_headers rq) ''authorization'' = Some a \<longrightarrow> (\<exists>key \<in> keys. a = ''Bearer '' @ key))"

lemma own_mono: "A \<subseteq> B \<Longrightarrow> list_all (own_request A) qs \<Longrightarrow> list_all (own_request B) qs"
  by (fastforce simp: own_request_def list_all_iff)

text \<open>
  An operation on a view (of a component, with the key it holds) that sends only own requests with
  the key of its start, and leaves the key as it was.
\<close>

definition sends_own :: "('s \<Rightarrow> BrowserRequest list) \<Rightarrow> ('c \<Rightarrow> string) \<Rightarrow> string \<Rightarrow> ('s \<times> 'c \<Rightarrow> 's \<times> 'c) \<Rightarrow> bool" where
  "sends_own sent k key m \<longleftrightarrow> (\<forall>s. k (snd s) = key \<longrightarrow> k (snd (m s)) = key
     \<and> (\<exists>qs. sent (fst (m s)) = sent (fst s) @ qs \<and> list_all (own_request {key}) qs))"

abbreviation does :: "('s, 'e, 'a) action \<Rightarrow> 's \<Rightarrow> 's" where
  "does m \<equiv> \<lambda>s. snd (m s)"

lemma sends_ownD:
  assumes "sends_own sent k key m" and "k (snd s) = key"
  obtains qs where "k (snd (m s)) = key" "sent (fst (m s)) = sent (fst s) @ qs" "list_all (own_request {key}) qs"
  using assms unfolding sends_own_def by blast

lemma own_skip: "sends_own sent k key (\<lambda>s. s)"
  by (simp add: sends_own_def)

lemma own_comp:
  fixes f :: "'s \<times> 'c \<Rightarrow> 's \<times> 'c"
  assumes f: "sends_own sent k key f" and g: "sends_own sent k key g"
  shows "sends_own sent k key (\<lambda>s. g (f s))"
  unfolding sends_own_def
proof (intro allI impI)
  fix s :: "'s \<times> 'c"
  assume "k (snd s) = key"
  then obtain qs where qs: "k (snd (f s)) = key" "sent (fst (f s)) = sent (fst s) @ qs" "list_all (own_request {key}) qs"
    by (rule sends_ownD [OF f])
  obtain rs where "k (snd (g (f s))) = key" "sent (fst (g (f s))) = sent (fst (f s)) @ rs" "list_all (own_request {key}) rs"
    by (rule sends_ownD [OF g qs(1)])
  with qs show "k (snd (g (f s))) = key \<and> (\<exists>qs. sent (fst (g (f s))) = sent (fst s) @ qs \<and> list_all (own_request {key}) qs)"
    by (intro conjI exI [of _ "qs @ rs"]) simp_all
qed

lemma own_then:
  fixes m :: "('s \<times> 'c, 'e, 'a) action"
  assumes "sends_own sent k key (does m)" and "\<And>x. sends_own sent k key (does (f x))"
  shows "sends_own sent k key (does (andThen m f))"
  unfolding sends_own_def
proof (intro allI impI)
  fix s :: "'s \<times> 'c"
  assume k: "k (snd s) = key"
  obtain r t where m: "m s = (r, t)" by (cases "m s")
  show "k (snd (does (andThen m f) s)) = key \<and> (\<exists>qs. sent (fst (does (andThen m f) s)) = sent (fst s) @ qs \<and> list_all (own_request {key}) qs)"
  proof (cases r)
    case (Inl e)
    then have "does (andThen m f) s = does m s" using m by (simp add: andThen_def)
    then show ?thesis using assms(1) k by (auto elim: sends_ownD)
  next
    case (Inr x)
    have "sends_own sent k key (\<lambda>s. does (f x) (does m s))" by (rule own_comp [OF assms])
    moreover have "does (andThen m f) s = does (f x) (does m s)" using m Inr by (simp add: andThen_def)
    ultimately show ?thesis using k by (auto elim: sends_ownD)
  qed
qed

lemma own_view: "(\<And>c. k (f c) = k c) \<Longrightarrow> sends_own sent k key (on_view f)"
  by (simp add: sends_own_def on_view_def)

lemma own_attempted:
  assumes "\<And>t c. k (tell t c) = k c" and "sends_own sent k key (does m)"
  shows "sends_own sent k key (attempted tell fallback m)"
proof -
  have "attempted tell fallback m s = (case fst (m s) of Inr _ \<Rightarrow> does m s | Inl e \<Rightarrow> on_view (tell (error_or fallback e)) (does m s))" for s
    by (simp add: attempted_def split: prod.split sum.split)
  moreover have "sends_own sent k key (\<lambda>s. on_view (tell (error_or fallback e)) (does m s))" for e
    by (rule own_comp [OF assms(2) own_view]) (rule assms(1))
  ultimately show ?thesis using assms(2) unfolding sends_own_def by (simp split: sum.split)
qed

lemma own_busily:
  assumes "\<And>b c. k (mark b c) = k c" and "sends_own sent k key m"
  shows "sends_own sent k key (busily mark m)"
  unfolding busily_def by (intro own_comp [OF own_comp [OF own_view assms(2)] own_view] assms(1))

text \<open>Requests of the console, one by one and two together.\<close>

lemma set_header_other: "map_of (set_header k v hs) k' = (if k' = k then Some v else map_of hs k')"
  by (simp add: header_set)

lemma in_world_pair: "in_world m (w, c) = (fst (m w), snd (m w), c)"
  by (simp add: in_world_def split: prod.split)
lemma own_call:
  fixes env :: "'s browser_env" and k :: "'c \<Rightarrow> string"
  assumes "console_laws env sent" and "api_path path" and "apiKey = None \<or> apiKey = Some key"
  shows "sends_own sent k key (does (in_world (console_call env apiKey path method' body)))"
proof -
  have "\<exists>qs. sent (snd (console_call env apiKey path method' body w)) = sent w @ qs \<and> list_all (own_request {key}) qs" for w
  proof -
    obtain r t where m: "console_call env apiKey path method' body w = (r, t)" by fastforce
    show ?thesis
      using key_stays_home [OF assms(1) m [unfolded console_call_def]] assms(2,3)
      by (auto simp: m own_request_def or_null_def split: if_splits option.splits)
  qed
  then show ?thesis by (simp add: sends_own_def in_world_pair)
qed
lemma own_together:
  assumes "sends_own sent k key (does (in_world m))" and "sends_own sent k key (does (in_world n))"
  shows "sends_own sent k key (does (in_world (together m n)))"
proof -
  have "snd (together m n w) = snd (n (snd (m w)))" for w by (simp add: together_def split: prod.split)
  then show ?thesis using own_comp [OF assms] by (simp add: sends_own_def in_world_pair)
qed

lemma own_pure: "sends_own sent k key (does (ret x))" "sends_own sent k key (does (throw e))" "sends_own sent k key (does (lift_sum y))"
  by (auto simp: sends_own_def lift_sum_def split: sum.split)

lemma own_modify: "sends_own sent k key f \<Longrightarrow> sends_own sent k key (does (modifyState f))"
  by (simp add: modifyState_def)

lemma own_set: "(\<And>c. k (f c) = k c) \<Longrightarrow> sends_own sent k key (does (view_set f))"
  unfolding view_set_def by (intro own_modify own_view)

lemma own_url: "api_path (console_url i rest)" "api_path (''/api/'' @ path)"
  by (simp_all add: api_path_def console_url_def startsWith_def)

lemmas own_path = own_url(2) [unfolded append_Cons append_Nil]
lemmas own_parts = own_then own_attempted own_busily own_set own_modify own_pure own_together

text \<open>The key of the dashboard is \<open>co_apiKey\<close>; that of the panel is given.\<close>

lemma kept_views: "co_apiKey (say t c) = co_apiKey c" "co_apiKey (set_busy b c) = co_apiKey c"
  "co_apiKey (loaded silent r c) = co_apiKey c" "co_apiKey (more_loaded x c) = co_apiKey c"
  by (auto simp: say_def set_busy_def loaded_def more_loaded_def Let_def split: sum.split prod.split)


lemma world_requests:
  fixes k :: "'c \<Rightarrow> string"
  assumes "\<And>k :: 'c \<Rightarrow> string. sends_own sent k key (does (in_world m))"
  obtains qs where "sent (snd (m w)) = sent w @ qs" "list_all (own_request {key}) qs"
proof -
  have "\<forall>w. \<exists>qs. sent (snd (m w)) = sent w @ qs \<and> list_all (own_request {key}) qs"
    using assms [of "\<lambda>_. key"] by (simp add: sends_own_def in_world_pair)
  with that show ?thesis by blast
qed

lemma load_own:
  assumes "console_laws env sent"
  shows "sends_own sent co_apiKey key (load env silent)"
proof -
  have m: "sends_own sent k key (does (in_world (load_requests env key)))" for k :: "Console \<Rightarrow> string"
    unfolding load_requests_def by (intro own_parts own_call [OF assms] own_path) simp_all
  have "\<exists>qs. sent (snd (load_requests env key w)) = sent w @ qs \<and> list_all (own_request {key}) qs" for w
    by (rule world_requests [OF m]) blast
  then show ?thesis
    unfolding sends_own_def by (auto simp: load_def kept_views split_beta)
qed

lemma more_own:
  assumes "console_laws env sent"
  shows "sends_own sent co_apiKey key (loadMore env)"
proof -
  have m: "sends_own sent k key (does (in_world (console_call env (Some key) (''/api/v1/intents?limit=100&cursor='' @ cursor) None None)))"
    for cursor and k :: "Console \<Rightarrow> string"
    by (rule own_call [OF assms]) (simp_all add: own_path)
  have "\<exists>qs. sent (snd (console_call env (Some key) (''/api/v1/intents?limit=100&cursor='' @ cursor) None None w)) = sent w @ qs
      \<and> list_all (own_request {key}) qs" for cursor w
    by (rule world_requests [OF m]) blast
  then show ?thesis
    unfolding sends_own_def by (auto simp: loadMore_def kept_views split_beta simp del: append.simps split: option.splits)
qed

lemma health_own:
  fixes env :: "'s browser_env"
  assumes "console_laws env sent"
  shows "sends_own sent co_apiKey key (loadHealth env)"
proof -
  have m: "sends_own sent k key (does (in_world (console_call env None path None None)))" if "api_path path" for path and k :: "Console \<Rightarrow> string"
    by (rule own_call [OF assms that]) simp
  have free: "\<exists>qs. sent (snd (console_call env None path None None w)) = sent w @ qs \<and> list_all (own_request {key}) qs" if "api_path path" for path w
    by (rule world_requests [OF m [OF that]]) blast
  have ready: "\<exists>qs. sent (snd (readinessRequest env c w)) = sent w @ qs \<and> list_all (own_request {key}) qs" if "co_apiKey c = key" for c w
  proof -
    let ?rq = "\<lparr>bq_path = ''/api/ready'', bq_method = None,
        bq_headers = (if canLoad c then [(''authorization'', ''Bearer '' @ co_apiKey c)] else []), bq_body = None\<rparr>"
    have "snd (readinessRequest env c w) = snd (be_fetch env ?rq w)"
      unfolding readinessRequest_def by (simp split: prod.split BrowserExchange.split option.split)
    then have "sent (snd (readinessRequest env c w)) = sent w @ [?rq]" using assms by (simp add: console_laws_def)
    moreover have "api_path ''/api/ready''" by code_simp
    then have "own_request {key} ?rq" using that by (simp add: own_request_def)
    ultimately show ?thesis by (intro exI [of _ "[?rq]"]) simp
  qed
  show ?thesis
    unfolding sends_own_def
  proof (intro allI impI)
    fix s :: "'s page"
    assume k: "co_apiKey (snd s) = key"
    obtain w c where s: "s = (w, c)" by fastforce
    let ?w1 = "snd (console_call env None ''/api/health'' None None w)"
    let ?w2 = "snd (console_call env None ''/api/health/rpc'' None None ?w1)"
    let ?w3 = "snd (readinessRequest env c ?w2)"
    have p: "api_path ''/api/health''" "api_path ''/api/health/rpc''" by code_simp+
    obtain xs ys zs where "sent ?w1 = sent w @ xs" "sent ?w2 = sent ?w1 @ ys" "sent ?w3 = sent ?w2 @ zs"
      "list_all (own_request {key}) (xs @ ys @ zs)"
      using free [OF p(1), of w] free [OF p(2), of ?w1] ready [of c ?w2] k s by auto
    moreover have "fst (loadHealth env s) = ?w3" "co_apiKey (snd (loadHealth env s)) = key"
      using k by (simp_all add: loadHealth_def s split_beta)
    ultimately show "co_apiKey (snd (loadHealth env s)) = key
        \<and> (\<exists>qs. sent (fst (loadHealth env s)) = sent (fst s) @ qs \<and> list_all (own_request {key}) qs)"
      by (intro conjI exI [of _ "xs @ ys @ zs"]) (simp_all add: s)
  qed
qed

lemmas dashboard_parts = own_parts [where k = co_apiKey] own_call [where k = co_apiKey] load_own

lemma detail_own:
  assumes laws: "console_laws env sent"
  shows "sends_own sent co_apiKey key (openDetail env i announce)"
proof -
  have "sends_own sent co_apiKey key (attempted say ''Intent detail failed''
       (andThen (in_world (console_call env (Some key) (console_url i []) None None)) (\<lambda>body.
        andThen (view_set (\<lambda>c. c\<lparr>co_detail := nullish (get (Some body) ''intent'') None\<rparr>)) (\<lambda>_.
        view_set (if announce then say (''Opened '' @ i @ ''.'') else id)))))"
    by (intro dashboard_parts laws own_url) (simp_all add: kept_views)
  then show ?thesis unfolding sends_own_def openDetail_def by simp
qed

text \<open>An operation that reads the key in its start is one with that key.\<close>

lemma own_key:
  assumes "\<And>s. k (snd s) = key \<Longrightarrow> f s = g s" and "sends_own sent k key g"
  shows "sends_own sent k key f"
  using assms unfolding sends_own_def by simp

lemma post_own:
  assumes "console_laws env sent" and "api_path path"
  shows "sends_own sent k key (does (in_world (post_call env key path body)))"
  unfolding post_call_def by (rule own_call [OF assms]) simp

lemma saved_own: "(\<And>name text w. sent (sv_download sv name text w) = sent w) \<Longrightarrow> sends_own sent k key (does (in_world (saved sv name body)))"
  by (simp add: sends_own_def in_world_pair saved_def modifyState_def)

lemma track_own:
  assumes laws: "console_laws env sent"
  shows "sends_own sent co_apiKey key (console_track env)"
proof -
  have "sends_own sent co_apiKey key (busily set_busy (attempted say ''Track failed''
       (andThen (in_world (post_call env key ''/api/v1/intents'' a)) (\<lambda>_.
        andThen (in_world (post_call env key (console_url i ''/track'') b)) (\<lambda>_.
        andThen (view_set (\<lambda>c. c\<lparr>co_intentId := [], co_txHash := []\<rparr>)) (\<lambda>_.
        andThen (modifyState (load env True)) (\<lambda>_.
        view_set (say ''Transaction registered and scheduled for reconciliation.''))))))))" for a b i
    by (intro dashboard_parts post_own laws own_url own_path) (simp_all add: kept_views)
  then show ?thesis unfolding sends_own_def console_track_def Let_def by simp
qed

lemma reconcile_own:
  assumes laws: "console_laws env sent"
  shows "sends_own sent co_apiKey key (console_reconcile env i)"
proof (rule own_key)
  show "sends_own sent co_apiKey key (busily set_busy (attempted say ''Reconcile failed''
       (andThen (in_world (post_call env key (console_url i ''/reconcile'') (JObj []))) (\<lambda>_.
        andThen (modifyState (load env True)) (\<lambda>_.
        andThen (modifyState (openDetail env i False)) (\<lambda>_.
        view_set (say (i @ '' reconciled.''))))))))"
    by (intro dashboard_parts post_own laws own_url detail_own) (simp_all add: kept_views)
qed (simp add: console_reconcile_def)

lemma evidence_own:
  assumes laws: "console_laws env sent" and files: "\<And>name text w. sent (sv_download sv name text w) = sent w"
  shows "sends_own sent co_apiKey key (console_evidence env sv i)" "sends_own sent co_apiKey key (exportProjectEvidence env sv)"
proof -
  have save: "sends_own sent co_apiKey key (attempted say fallback (andThen (in_world (console_call env (Some key) path None None)) (\<lambda>body.
        andThen (in_world (saved sv name body)) (\<lambda>_. view_set (say said)))))" if "api_path path" for fallback path name said
    by (intro dashboard_parts laws that saved_own files) (simp_all add: kept_views)
  have p: "api_path ''/api/v1/project-evidence''" by (rule own_path)
  show "sends_own sent co_apiKey key (console_evidence env sv i)"
    by (rule own_key [OF _ save [OF own_url(1)]]) (simp add: console_evidence_def)
  show "sends_own sent co_apiKey key (exportProjectEvidence env sv)"
    by (rule own_key [OF _ save [OF p]]) (simp add: exportProjectEvidence_def)
qed

lemma note_own:
  fixes env :: "'s browser_env"
  assumes laws: "console_laws env sent"
  shows "sends_own sent co_apiKey key (does (console_addNote env i msg))" "sends_own sent co_apiKey key (\<lambda>s. snd (drawer_note env i draft s))"
proof -
  have noted: "sends_own sent co_apiKey key (does (console_addNote env i msg))" for msg
  proof -
    let ?m = "andThen (in_world (post_call env key (console_url i ''/notes'') (JObj [(''note'', JStr msg)]))) (\<lambda>body.
        andThen (view_set (\<lambda>c. c\<lparr>co_detail := nullish (get (Some body) ''intent'') None\<rparr>)) (\<lambda>_.
        andThen (modifyState (load env True)) (\<lambda>_.
        view_set (say (''Operator note added to '' @ i @ ''.'')))))"
    have "sends_own sent co_apiKey key (on_view (set_busy True))" by (rule own_view) (simp add: kept_views)
    moreover have "sends_own sent co_apiKey key (does ?m)"
      by (intro dashboard_parts post_own laws own_url) (simp_all add: kept_views)
    ultimately have m: "sends_own sent co_apiKey key (\<lambda>s. does ?m (on_view (set_busy True) s))" by (rule own_comp)
    show ?thesis
      unfolding sends_own_def
    proof (intro allI impI)
      fix s :: "'s page"
      assume k: "co_apiKey (snd s) = key"
      obtain qs where qs: "co_apiKey (snd (does ?m (on_view (set_busy True) s))) = key"
        "sent (fst (does ?m (on_view (set_busy True) s))) = sent (fst s) @ qs" "list_all (own_request {key}) qs"
        using m k by (rule sends_ownD)
      obtain r t where r: "?m (on_view (set_busy True) s) = (r, t)" by (cases "?m (on_view (set_busy True) s)")
      have "fst (does (console_addNote env i msg) s) = fst t" "co_apiKey (snd (does (console_addNote env i msg) s)) = co_apiKey (snd t)"
        unfolding console_addNote_def k r by (auto simp: on_view_def kept_views split: sum.split)
      with qs r show "co_apiKey (snd (does (console_addNote env i msg) s)) = key
          \<and> (\<exists>qs. sent (fst (does (console_addNote env i msg) s)) = sent (fst s) @ qs \<and> list_all (own_request {key}) qs)"
        by auto
    qed
  qed
  then show "sends_own sent co_apiKey key (does (console_addNote env i msg))" .
  have "snd (drawer_note env i draft s) = (if co_busy (snd s) \<or> js_trim draft = [] then s else does (console_addNote env i (js_trim draft)) s)" for s
    by (simp add: drawer_note_def split: prod.split sum.split)
  with noted [of "js_trim draft"] show "sends_own sent co_apiKey key (\<lambda>s. snd (drawer_note env i draft s))"
    unfolding sends_own_def by simp
qed

text \<open>The operations of the panel, with the key of the dashboard.\<close>

lemma own_pair: "sends_own sent k key (does (f a b)) \<Longrightarrow> sends_own sent k key (does (case (a, b) of (x, y) \<Rightarrow> f x y))"
  by simp

lemma panel_refresh_own:
  assumes laws: "console_laws env sent"
  shows "sends_own sent (\<lambda>_. key) key (refreshPanel env key)"
proof -
  have "sends_own sent (\<lambda>_. key) key (busily pn_mark (attempted pn_say fallback
       (andThen (in_world (together (console_call env (Some key) ''/api/v1/api-keys'' None None) (console_call env (Some key) ''/api/v1/webhooks'' None None)))
         (\<lambda>x. view_set (f x)))))" for fallback f
    by (intro own_parts own_call laws own_path) simp_all
  then have "sends_own sent (\<lambda>_. key) key (busily pn_mark (attempted pn_say ''Integration refresh failed''
       (andThen (in_world (together (console_call env (Some key) ''/api/v1/api-keys'' None None) (console_call env (Some key) ''/api/v1/webhooks'' None None)))
         (\<lambda>(keyBody, webhookBody).
        view_set (\<lambda>p. pn_say ''Integration settings refreshed.'' (p\<lparr>pn_keys := rows_of keyBody ''keys'', pn_webhooks := rows_of webhookBody ''webhooks''\<rparr>))))))"
    unfolding split_beta .
  then show ?thesis unfolding sends_own_def refreshPanel_def by simp
qed

lemma panel_own:
  assumes laws: "console_laws env sent"
  shows "sends_own sent (\<lambda>_. key) key (createKey env number key)" "sends_own sent (\<lambda>_. key) key (revokeKey env key i)"
    "sends_own sent (\<lambda>_. key) key (disableWebhook env key i)" "sends_own sent (\<lambda>_. key) key (createWebhook env key)"
    "sends_own sent (\<lambda>_. key) key (testWebhook env key)" "sends_own sent (\<lambda>_. key) key (retryFailedWebhooks env key e)"
proof -
  note parts = own_parts [where k = "\<lambda>_. key"] post_own own_call laws own_path panel_refresh_own [OF laws]
  have own: "sends_own sent (\<lambda>_. key) key (\<lambda>s. f s s)" if "\<And>a. sends_own sent (\<lambda>_. key) key (f a)"
    for f :: "'a \<times> Panel \<Rightarrow> 'a \<times> Panel \<Rightarrow> 'a \<times> Panel"
    using that unfolding sends_own_def by simp
  show "sends_own sent (\<lambda>_. key) key (createKey env number key)"
    unfolding createKey_def Let_def by (rule own) (intro parts; simp)
  show "sends_own sent (\<lambda>_. key) key (revokeKey env key i)" "sends_own sent (\<lambda>_. key) key (disableWebhook env key i)"
    unfolding revokeKey_def disableWebhook_def delete_then_refresh_def append_Cons append_Nil by (intro parts; simp)+
  show "sends_own sent (\<lambda>_. key) key (createWebhook env key)"
    unfolding createWebhook_def by (rule own) (intro parts; simp)
  show "sends_own sent (\<lambda>_. key) key (testWebhook env key)" "sends_own sent (\<lambda>_. key) key (retryFailedWebhooks env key e)"
    unfolding testWebhook_def retryFailedWebhooks_def by (intro parts; simp)+
qed


section \<open>The console in use\<close>

definition screen_key :: "'s screen \<Rightarrow> string" where
  "screen_key s = co_apiKey (fst (snd s))"

definition event_owns :: "('s \<Rightarrow> BrowserRequest list) \<Rightarrow> string \<Rightarrow> 's screen \<Rightarrow> 's screen \<Rightarrow> bool" where
  "event_owns sent key s t \<longleftrightarrow> screen_key t = key \<and> (\<exists>qs. sent (fst t) = sent (fst s) @ qs \<and> list_all (own_request {key}) qs)"

lemma dashboard_owns:
  assumes "sends_own sent co_apiKey (screen_key s) m"
  shows "event_owns sent (screen_key s) s (on_dashboard m s)"
proof -
  obtain w c p where s: "s = (w, c, p)" by (cases s)
  obtain qs where "co_apiKey (snd (m (w, c))) = co_apiKey c" "sent (fst (m (w, c))) = sent w @ qs" "list_all (own_request {co_apiKey c}) qs"
    using sends_ownD [OF assms, of "(w, c)"] by (auto simp: s screen_key_def)
  then show ?thesis by (auto simp: event_owns_def screen_key_def on_dashboard_def s split: prod.split)
qed

lemma panel_owns:
  assumes "sends_own sent (\<lambda>_. screen_key s) (screen_key s) m"
  shows "event_owns sent (screen_key s) s (on_panel m s)"
proof -
  obtain w c p where s: "s = (w, c, p)" by (cases s)
  obtain qs where "sent (fst (m (w, pn_say (co_message c) p))) = sent w @ qs" "list_all (own_request {screen_key s}) qs"
    using sends_ownD [OF assms refl, of "(w, pn_say (co_message c) p)"] by auto
  then show ?thesis by (auto simp: event_owns_def screen_key_def on_panel_def s kept_views split: prod.split)
qed

lemma pressed_owns: "event_owns sent (screen_key s) s (m s) \<Longrightarrow> event_owns sent (screen_key s) s (pressed enabled m s)"
  by (simp add: pressed_def event_owns_def)

lemma tick_own:
  assumes "console_laws env sent"
  shows "sends_own sent co_apiKey key (refresh_tick env)"
  using own_comp [OF load_own [OF assms] health_own [OF assms], of key True] own_skip unfolding sends_own_def refresh_tick_def by simp

lemma event_sends:
  assumes laws: "console_laws env sent" and files: "\<And>name text w. sent (sv_download sv name text w) = sent w"
  shows "event_owns sent (case e of Type_key k \<Rightarrow> k | _ \<Rightarrow> screen_key s) s (run_event env sv number e s)"
proof (cases e)
  case (Type_key k)
  let ?s = "on_dashboard (on_view (\<lambda>c. c\<lparr>co_apiKey := k\<rparr>)) s"
  have "screen_key ?s = k" "fst ?s = fst s" by (cases s; simp add: screen_key_def on_dashboard_def on_view_def)+
  moreover have "event_owns sent (screen_key ?s) ?s (on_dashboard (loadHealth env) ?s)" by (intro dashboard_owns health_own laws)
  ultimately show ?thesis using Type_key by (simp add: run_event_def event_owns_def)
qed (auto simp: run_event_def Let_def screen_key_def [symmetric]
  intro!: pressed_owns dashboard_owns panel_owns own_view load_own more_own track_own detail_own reconcile_own evidence_own note_own tick_own
    panel_own panel_refresh_own laws files)

text \<open>
  Property C27: whatever is done in the console, in any order, every request it sends goes to a path
  of its own API, and none carries a credential but a key that is in its key field or was typed
  there.
\<close>

theorem console_confined:
  assumes "console_laws env sent" and "\<And>name text w. sent (sv_download sv name text w) = sent w"
  shows "\<exists>qs. sent (fst (fold (run_event env sv number) events s)) = sent (fst s) @ qs
    \<and> list_all (own_request (insert (screen_key s) {k. Type_key k \<in> set events})) qs"
proof (induction events arbitrary: s)
  case (Cons e events)
  let ?t = "run_event env sv number e s"
  have e: "event_owns sent (case e of Type_key k \<Rightarrow> k | _ \<Rightarrow> screen_key s) s ?t" by (rule event_sends [OF assms])
  then obtain xs where xs: "sent (fst ?t) = sent (fst s) @ xs" "list_all (own_request {screen_key ?t}) xs" by (auto simp: event_owns_def)
  obtain ys where ys: "sent (fst (fold (run_event env sv number) events ?t)) = sent (fst ?t) @ ys"
    "list_all (own_request (insert (screen_key ?t) {k. Type_key k \<in> set events})) ys" using Cons.IH by blast
  have "screen_key ?t \<in> insert (screen_key s) {k. Type_key k \<in> set (e # events)}" using e by (cases e) (auto simp: event_owns_def)
  then have "{screen_key ?t} \<subseteq> insert (screen_key s) {k. Type_key k \<in> set (e # events)}"
    "insert (screen_key ?t) {k. Type_key k \<in> set events} \<subseteq> insert (screen_key s) {k. Type_key k \<in> set (e # events)}" by auto
  then have "list_all (own_request (insert (screen_key s) {k. Type_key k \<in> set (e # events)})) (xs @ ys)"
    using own_mono xs(2) ys(2) unfolding list_all_append by blast
  with xs(1) ys(1) show ?case by (intro exI [of _ "xs @ ys"]) simp
qed simp

text \<open>A service that answers every request with an empty object, and keeps a log.\<close>

definition quiet_browser :: "BrowserRequest list browser_env" where
  "quiet_browser = \<lparr>be_requestId = (\<lambda>s. (''id'', s)), be_fetch = (\<lambda>q s. (Answered 200 None (Some (JObj [])), s @ [q]))\<rparr>"

definition quiet_saving :: "BrowserRequest list saving" where
  "quiet_saving = \<lparr>sv_download = (\<lambda>name text s. s), sv_today = (\<lambda>s. ''2026-01-01'')\<rparr>"

definition empty_panel :: Panel where
  "empty_panel = \<lparr>pn_keys = [], pn_webhooks = [], pn_label = ''deploy-bot'', pn_newKey = [], pn_keyProfile = ''runtime'', pn_keyExpiryDays = ''90'',
     pn_webhookUrl = [], pn_newWebhookSecret = [], pn_busy = False, pn_message = []\<rparr>"

theorem console_confined_witness:
  "list_all (own_request {[], ''cf_live_k''})
     (fst (fold (run_event quiet_browser quiet_saving (\<lambda>_. None)) [Type_key ''cf_live_k'', Press_load, Panel_create_key] ([], console_start, empty_panel)))"
proof -
  have "console_laws quiet_browser (\<lambda>s. s)" by (simp add: console_laws_def quiet_browser_def)
  moreover have "sv_download quiet_saving name body w = w" for name body w by (simp add: quiet_saving_def)
  ultimately have "\<exists>qs. fst (fold (run_event quiet_browser quiet_saving (\<lambda>_. None)) [Type_key ''cf_live_k'', Press_load, Panel_create_key] ([], console_start, empty_panel))
      = fst ([], console_start, empty_panel) @ qs
    \<and> list_all (own_request (insert (screen_key ([] :: BrowserRequest list, console_start, empty_panel))
        {k. Type_key k \<in> set [Type_key ''cf_live_k'', Press_load, Panel_create_key]})) qs"
    by (rule console_confined [where sent = "\<lambda>s. s"])
  moreover have "insert (screen_key ([] :: BrowserRequest list, console_start, empty_panel)) {k. Type_key k \<in> set [Type_key ''cf_live_k'', Press_load, Panel_create_key]}
      = {[], ''cf_live_k''}"
    by (auto simp: screen_key_def console_start_def)
  ultimately show ?thesis by auto
qed



section \<open>Intents the counts differ on\<close>

text \<open>One whose broadcast was uncertain: it is confirmed now, and its settlement is ready.\<close>

definition recovered_row :: ExecutionRecord where
  "recovered_row = sample_row\<lparr>x_submissionStatus := SS_SUBMISSION_UNKNOWN, x_chainStatus := CS_COMMITTED, x_workflowStatus := WS_CONFIRMED,
     x_confirmationPolicy := Committed, x_committedBlockHash := Some ''0xb'', x_committedBlockNumber := Some ''0x1''\<rparr>"

text \<open>One that was reorganised and then refused by the node when it was sent again.\<close>

definition refused_row :: ExecutionRecord where
  "refused_row = sample_row\<lparr>x_submissionStatus := SS_NODE_REJECTED, x_chainStatus := CS_UNKNOWN, x_workflowStatus := WS_REORGED\<rparr>"

definition row_db :: "ExecutionRecord \<Rightarrow> db" where
  "row_db e = sample_db\<lparr>executions := [e]\<rparr>"

lemma row_db_rows: "project_rows 0 (row_db recovered_row) = [(sample_intent, recovered_row)]"
  "project_rows 0 (row_db refused_row) = [(sample_intent, refused_row)]"
  by (simp_all add: project_rows_def row_db_def recovered_row_def refused_row_def sample_defs)

lemma row_groups: "row_status recovered_row = OS_CONFIRMED" "once_uncertain recovered_row" "row_status refused_row = OS_REORGED"
  "once_refused (i, refused_row)" "\<not> unverified (i, refused_row)" "\<not> contradicted (i, refused_row)"
  by (simp_all add: row_statuses once_uncertain_def recovered_row_def refused_row_def once_refused_def unverified_def contradicted_def)

theorem metrics_reconciled_witness:
  "pm_attention (getProjectMetrics 0 (row_db recovered_row)) = 1
    \<and> pm_attention (localMetrics (map listed_item (project_rows 0 (row_db recovered_row)))) = 0
    \<and> get (Some (listed_item (sample_intent, recovered_row))) ''settlementReady'' = Some (JBool True)
    \<and> pm_active (getProjectMetrics 0 (row_db refused_row)) = 0
    \<and> pm_active (localMetrics (map listed_item (project_rows 0 (row_db refused_row)))) = 1"
proof -
  have none: "\<not> needs_attention (listed_item (sample_intent, recovered_row))" unfolding attention_status by (simp add: row_groups)
  have "get (Some (listed_item (sample_intent, recovered_row))) ''settlementReady'' = Some (JBool True)"
    by (simp add: listed_item_def publicView_json_def publicView_entries_def get_def executionPublicView_def Let_def recovered_row_def
        sample_defs mapExecution_def mapIntent_def isSettlementReady_def isConfirmationSatisfied_def truthy_def or_null_def MAX_SAFE_INTEGER_def)
  moreover have "pm_attention (localMetrics (map listed_item (project_rows 0 (row_db recovered_row)))) = 0"
    by (simp add: row_db_rows localMetrics_def count_rows_def none)
  moreover have active: "pm_active (localMetrics (map listed_item (project_rows 0 (row_db refused_row)))) = 1"
    using final_status [of sample_intent refused_row] by (simp add: row_db_rows localMetrics_def count_rows_def row_groups)
  ultimately show ?thesis
    using metrics_reconciled [of 0 "row_db recovered_row"] metrics_reconciled [of 0 "row_db refused_row"]
    by (simp add: row_db_rows count_rows_def row_groups)
qed

end
