(* ===== verification/Spec2Isabelle.thy ===== *)
theory Spec2Isabelle
  imports StateMachine SignedPayload RepoSafety RepoProjects ReconcileConflicts DeliveryProperties
    ServiceProperties ClientProperties ServiceReports AccessProperties OpsProperties BroadcastProperties RpcTransport Migrations
    LiveSafety Replacement DbTestGuard BrowserApi LiveProperties LiveFailover LiveWorker BundleCreation
    Cli ConsoleProperties
begin

text \<open>
  CellFlow tracks transactions of the CKB blockchain. An application registers an intent, attaches a
  signed transaction to it (an attempt), broadcasts it, and CellFlow follows it: it records what the
  node said of the submission, observes the chain through JSON-RPC endpoints, counts confirmations,
  checks the Cells the intent expects, recognises conflicts (an input spent elsewhere) and
  reorganisations, and tells webhooks about every change. This development models the program layer
  by layer, from the source, and proves what makes each layer correct and how the layers agree.

  \<^bold>\<open>Reading the model.\<close> A string is a HOL string of the code units below 256. A JSON value is the
  datatype \<open>json\<close> (theory JsValue); numbers are integers, also where the code reads settings from
  the environment. A timestamp is an integer number of milliseconds; a UUID is a natural number. A
  method that reads or writes state is an \<open>action\<close> (theory CF_Prelude): a function from a state to an
  error or a value, and the next state. Errors are values: \<open>thrown\<close> for the exceptions of the server,
  \<open>client_error\<close> and \<open>tracked_error\<close> for those of the client, \<open>route_error\<close> for a handler. What the
  code does not contain is a parameter: SHA-256, HMAC and AES, sockets and resolvers, URL and JSON
  parsing, the validation library's formats, the clock, random bytes, the workflow engine, SQL
  migrations, wallet and CKB node. Hypotheses about parameters are named in the property that needs
  them.

  \<^bold>\<open>packages/core.\<close> CoreTypes (types.ts, errors.ts), CoreConfig (confirmation.ts, validation.ts),
  StateMachine (state-machine.ts), ConflictEvidence (conflict-evidence.ts), SignedPayload
  (signed-payload.ts), Evidence (evidence.ts and the public view), with JsValue and JsDate for JSON
  and instants. The lemmas: what every transition of a snapshot preserves and an invariant of every
  reachable one; when a recorded commit may be given up, and what is left of it; when spend evidence is
  mature; that the canonical text identifies a signed transaction, in whatever document spells it.
  Assertions models packages/assertions.

  \<^bold>\<open>packages/db.\<close> Database has the tables as lists of rows, the constraints of the SQL schema that the
  repository can violate, the outbox of events and the version check. RepoIntents, RepoAttach,
  RepoProjection, RepoLeases, RepoWebhooks and RepoProjects have the methods of repository.ts, one
  definition per method, a transaction that fails leaving the state as it was; the rows that other
  transactions hold locked, which a claim skips, are an argument of it. RepoInvariant and
  RepoConcurrency have the invariant of the intent methods and, through the locale \<open>versioned_write\<close>,
  the race of their writes. The locale of RepoLeases shows that a lease is exclusive, for executions
  and for webhook deliveries, and RepoLeases what a claim takes. RepoProperties gathers every writing
  method of the repository in one step relation, \<open>store_step\<close>, and proves of it that every unique key
  and CHECK of the modelled tables holds and that no update is lost; RepoSafety has what attaching,
  settling and paging guarantee.
  Migrations models migrate.ts: each migration once, whatever fails.

  \<^bold>\<open>workflows/reconcile and workflows/webhook-delivery.\<close> Rpc, RpcClient and RpcTransport are rpc.ts: the
  pinned and bounded request of one call, the identity check of an endpoint, circuit breaker and
  failover, the inspection of inputs, the observation of a transaction; RpcEvidence proves what an
  answer rests on. Monitoring, Reconcile and ReconcilePass are monitoring.ts and reconcile.ts: one pass,
  its retry and the batch worker. ReconcileSafety, ReconcileProperties, ReconcileReports and
  ReconcileConflicts prove, through the locale \<open>db_relation\<close>, that a pass changes the database only by
  repository steps, and what an outage, a conflict and the schedule come to. Ssrf, WebhookCrypto and
  Delivery are packages/webhooks and the delivery workers; SsrfProperties and DeliveryProperties prove
  the address policy exact, requests confined to public HTTPS destinations, and that an attempt makes
  at most one request and exactly one write (\<open>moves\<close> is what the host does in between).

  \<^bold>\<open>apps/api.\<close> ServiceIntents, ServiceAccess and ServiceReports are service.ts and auth.ts; StableText the
  canonical text its evidence is hashed under. ServiceSafety, ServiceProperties (with the example host
  of ServiceExamples) and AccessProperties prove that every method changes the database only by steps of
  \<open>store_step\<close>, that a broadcast is cleared on live inputs only, that a submission is recorded with the evidence it
  needs, and that a request gets a project only by a key that is usable in the database it meets. Http and Schemas are http.ts and
  schemas.ts.

  \<^bold>\<open>apps/web.\<close> Http also has lib/server.ts and lib/workflow.ts; Routes has every handler under
  app/api/v1; OpsRoutes has setup, maintenance, readiness and health and the durable run of
  workflows/reconcile-intent.ts. RouteAccess gathers the handlers as the type \<open>route\<close> and proves that
  each is guarded by its scope and that those that read change nothing; OpsProperties how the durable
  run ends (\<open>run_end\<close>) and when it is started at all. BrowserApi models lib/browser-api.ts, and
  Console the state and the handlers of the components of the web console (components/*.tsx), without
  what they draw; ConsoleProperties counts the rows on which its counts and those of the service
  differ, and shows where its requests go.

  \<^bold>\<open>packages/ccc.\<close> Client is client.ts, Tracked is ccc.ts, BroadcastErrors is broadcast-errors.ts (its
  regular expressions as terms of a small language with a matcher). ClientProperties bounds retries and
  waiting, through the locale \<open>exchange_relation\<close> and a log of the exchanges. SchemaProperties shows that what the client sends
  passes the service's schemas and is read as it was meant, and that what the schemas let in is
  well-formed for the core. ServedClient puts the handlers behind the
  client's network, which may lose requests and responses; BroadcastProperties proves on it that a
  broadcast sends at most once, after a preflight that found its inputs live in that same run, and in
  the state in which its attempt was stored.

  \<^bold>\<open>scripts.\<close> LiveSafety, Replacement and DbTestGuard model the guards that protect funds and data from
  the evidence harness and the database tests: scripts/evidence/live-safety.mjs,
  scripts/evidence/persisted-replacement.mjs and scripts/db-test-guard.mjs. The harness itself,
  scripts/evidence/testnet-live-suite.mjs, is a program (\<open>prog\<close>: it may not return, or ends with a value
  or an exception): LiveConfig has its settings and the gate of ci-testnet-config.mjs, LiveRpc its
  network layer and polls, LiveScenarios and LiveSuite the four scenarios and the run. LiveRelations
  shows, through the locale \<open>live_relation\<close>, what the network layer keeps; LiveReturns that every run
  ends, LiveProperties that it sends a bounded number of transactions and none before its checks
  passed, LiveFailover what an answer of the failover rests on. ReviewBundle is
  package-review-bundle.mjs; BundleRedaction shows what its redaction leaves, BundleProperties what a
  verified bundle guarantees, BundleCreation that it packages a run or refuses it as a whole. LiveWorker
  is testnet-live-reconcile-worker.mjs, the process of the recovery scenario, and how the suite starts
  it: it ends, and reports the view it read last.

  \<^bold>\<open>packages/cli.\<close> Cli models bin/cellflow.mjs: its requests, commands, output and exit codes; its last
  section shows where the requests of a command go.

  \<^bold>\<open>Concurrency.\<close> Other processes act between two database steps: a function of the environment
  (\<open>rn_others\<close>, \<open>hk_others\<close>) changes the database before each step, and the properties hold for every
  such function, or name the relation it keeps. A transaction of the database is one step. Where the
  code runs things together (\<open>Promise.all\<close>, the runners of a batch) the model takes them in order, with
  those steps in between.

  \<^bold>\<open>Bounds.\<close> A request of the client makes at most 6 rounds (\<open>boundedMilliseconds\<close> of its option); the
  retry loops over lost version races make 3; the durable run makes 720 passes; a batch has the size
  of its claim. These are the code's own bounds, passed as the fuel of structural recursions, so no
  result depends on fuel of the model. The waiting loop of the client and the polls of the harness have
  no bound of their own: they are \<open>partial_function\<close>s, and properties show that they return.

  \<^bold>\<open>Not modelled.\<close> The log entries that are written to the console; the memoised promise around the
  automatic bootstrap, which shares one result; fractional numbers and code units from 256 on; the
  static pages and what the components draw, the examples, the connection pool, and the scripts
  that migrate, verify or install a deployment or run the processes of a restart proof.
\<close>

end
